(* ===== verification/Prelude.thy ===== *)
theory Prelude
  imports Main "HOL-Library.Word"
begin

text \<open>
  Shared vocabulary of the development: the machine types of the RV32 target
  (\<open>uint8_t\<close> .. \<open>uint64_t\<close> as words of that width, \<open>int32_t\<close> as a 32-bit
  word read with \<^const>\<open>sint\<close>), the sequencing operator of computations
  that may end in an error, and generic facts on words, lists and that
  operator which several components use.
\<close>

unbundle bit_operations_syntax

section \<open>Machine types\<close>

type_synonym u8 = "8 word"
type_synonym u16 = "16 word"
type_synonym u32 = "32 word"
type_synonym u64 = "64 word"

text \<open>A signed 32-bit integer is the same bit pattern; its value is \<^term>\<open>sint x\<close>.\<close>

type_synonym i32 = "32 word"

definition INT32_MIN :: i32 where "INT32_MIN = 0x80000000"
definition INT32_MAX :: i32 where "INT32_MAX = 0x7FFFFFFF"

named_theorems word_vals \<open>values of the constants the components compare with\<close>
named_theorems frame \<open>what an operation leaves unchanged\<close>
named_theorems op_defs \<open>the defining equations of the small operations of a component\<close>

lemma sint_INT32_MIN [simp, word_vals]: "sint INT32_MIN = - 2147483648"
  by (simp add: INT32_MIN_def)

lemma sint_INT32_MAX [simp, word_vals]: "sint INT32_MAX = 2147483647"
  by (simp add: INT32_MAX_def)

lemma sint_i32_bounds: "- 2147483648 \<le> sint (x :: i32)" "sint (x :: i32) \<le> 2147483647"
  using sint_greater_eq [of x] sint_less [of x] by simp_all

lemma sint_i32_eq_iff: "sint (x :: i32) = sint y \<longleftrightarrow> x = y"
  by (rule signed_word_eqI [THEN iffI, rotated]) simp_all

lemma sless_i32_iff: "x <s y \<longleftrightarrow> sint x < sint (y :: i32)"
  by (simp add: word_sless_alt)

lemma sle_i32_iff: "x \<le>s y \<longleftrightarrow> sint x \<le> sint (y :: i32)"
  by (simp add: word_sle_eq)

lemma sint_i32_succ:
  assumes "sint (x :: i32) < 2147483647"
  shows "sint (x + 1) = sint x + 1"
proof -
  have "sint (x + 1) = signed_take_bit 31 (sint x + sint (1 :: i32))"
    by (simp add: sint_word_ariths)
  also have "\<dots> = sint x + 1"
    using assms sint_i32_bounds(1) [of x] by (simp add: signed_take_bit_int_eq_self)
  finally show ?thesis .
qed

lemma sint_i32_small:
  assumes "unat (x :: i32) < 2147483648"
  shows "sint x = int (unat x)"
proof -
  have u: "uint x = int (unat x)" by simp
  have "- 2147483648 \<le> uint x" "uint x < 2147483648"
    using assms u by linarith+
  then have "signed_take_bit 31 (uint x) = uint x"
    by (intro signed_take_bit_int_eq_self) simp_all
  then show ?thesis by (simp add: sint_uint)
qed

lemma unat_u32_succ:
  assumes "i < (n :: u32)"
  shows "unat (i + 1) = Suc (unat i)"
proof -
  have "unat i < unat n" "unat n < 4294967296"
    using assms unsigned_less [of n] by (simp_all add: word_less_nat_alt)
  then have "Suc (unat i) < 4294967296" by simp
  then show ?thesis by (simp add: unat_word_ariths)
qed

lemma unat_u32_lt: "unat (x :: u32) < 4294967296"
  using unsigned_less [of x] by simp

section \<open>Sequencing computations that may fail\<close>

text \<open>
  A C function that can run into undefined behaviour, or never return, is a
  function into \<open>'e + 'a\<close>; \<open>Inl\<close> carries the reason. \<open>bindE\<close> runs the
  rest of the function only after a value.
\<close>

definition bindE :: "'e + 'a \<Rightarrow> ('a \<Rightarrow> 'e + 'b) \<Rightarrow> 'e + 'b" where
  "bindE r f = (case r of Inl e \<Rightarrow> Inl e | Inr x \<Rightarrow> f x)"

definition guardE :: "bool \<Rightarrow> 'e \<Rightarrow> 'e + unit" where
  "guardE b e = (if b then Inr () else Inl e)"

lemma bindE_Inl [simp]: "bindE (Inl e) f = Inl e"
  by (simp add: bindE_def)

lemma bindE_Inr [simp]: "bindE (Inr x) f = f x"
  by (simp add: bindE_def)

lemma bindE_eq_Inr: "bindE r f = Inr y \<longleftrightarrow> (\<exists>x. r = Inr x \<and> f x = Inr y)"
  by (cases r) simp_all

lemma bindE_eq_Inl: "bindE r f = Inl e \<longleftrightarrow> r = Inl e \<or> (\<exists>x. r = Inr x \<and> f x = Inl e)"
  by (cases r) simp_all

lemma bindE_assoc: "bindE (bindE r f) g = bindE r (\<lambda>x. bindE (f x) g)"
  by (cases r) simp_all

lemma guardE_simps [simp]: "guardE True e = Inr ()" "guardE False e = Inl e"
  by (simp_all add: guardE_def)

lemma guardE_eq_Inr [simp]: "guardE b e = Inr u \<longleftrightarrow> b"
  by (simp add: guardE_def)

text \<open>The same for loops that may not end: \<open>foldO\<close> runs a step that may give \<open>None\<close> over a list.\<close>

primrec foldO :: "('a \<Rightarrow> 's \<Rightarrow> 's option) \<Rightarrow> 'a list \<Rightarrow> 's \<Rightarrow> 's option" where
  "foldO f [] s = Some s"
| "foldO f (x # xs) s = (case f x s of None \<Rightarrow> None | Some s \<Rightarrow> foldO f xs s)"

lemma foldO_append: "foldO f (xs @ ys) s = (case foldO f xs s of None \<Rightarrow> None | Some s \<Rightarrow> foldO f ys s)"
  by (induction xs arbitrary: s) (auto split: option.splits)

lemma foldO_Suc: "foldO f [0..<Suc n] s = (case foldO f [0..<n] s of None \<Rightarrow> None | Some s \<Rightarrow> f n s)"
  by (simp add: foldO_append split: option.split)

lemma foldO_invariant:
  assumes "\<And>i s. I i s \<Longrightarrow> \<exists>s'. f i s = Some s' \<and> I (Suc i) s'" "I 0 s"
  shows "\<exists>s'. foldO f [0..<n] s = Some s' \<and> I n s'"
proof (induction n)
  case (Suc n)
  then obtain s' where s': "foldO f [0..<n] s = Some s'" "I n s'" by blast
  with assms(1) [OF s'(2)] show ?case by (auto simp: foldO_Suc simp del: upt_Suc)
qed (use assms(2) in simp)

section \<open>Lists\<close>

lemma distinct_app_single: "distinct (xs @ x # ys) \<longleftrightarrow> x \<notin> set xs \<and> x \<notin> set ys \<and> distinct (xs @ ys)"
  by auto

lemma nth_update_if: "i < length xs \<Longrightarrow> xs[i := v] ! j = (if j = i then v else xs ! j)"
  by (simp add: nth_list_update)

end
