(* ===== verification/Memory_Model.thy ===== *)
theory Memory_Model
  imports Prelude
begin

text \<open>
  The byte-addressed 32-bit memory the handlers and the string library run
  on: loads and stores of 8, 16 and 32 bits in the little-endian order of the
  RV32 core, the separation of two regions, and the interface (a locale) that
  every typed access meets. Nothing here maps to a source line: it is the
  meaning of the C dereferences in the components above.
\<close>

section \<open>Loads and stores\<close>

type_synonym mem = "u32 \<Rightarrow> u8"

definition load8 :: "mem \<Rightarrow> u32 \<Rightarrow> u8" where
  "load8 m a = m a"

definition store8 :: "mem \<Rightarrow> u32 \<Rightarrow> u8 \<Rightarrow> mem" where
  "store8 m a v = m(a := v)"

definition load16 :: "mem \<Rightarrow> u32 \<Rightarrow> u16" where
  "load16 m a = ucast (m a) OR push_bit 8 (ucast (m (a + 1)))"

definition store16 :: "mem \<Rightarrow> u32 \<Rightarrow> u16 \<Rightarrow> mem" where
  "store16 m a v = m(a := ucast v, a + 1 := ucast (drop_bit 8 v))"

definition load32 :: "mem \<Rightarrow> u32 \<Rightarrow> u32" where
  "load32 m a = ucast (m a) OR push_bit 8 (ucast (m (a + 1)))
     OR push_bit 16 (ucast (m (a + 2))) OR push_bit 24 (ucast (m (a + 3)))"

definition store32 :: "mem \<Rightarrow> u32 \<Rightarrow> u32 \<Rightarrow> mem" where
  "store32 m a v = m(a := ucast v, a + 1 := ucast (drop_bit 8 v),
     a + 2 := ucast (drop_bit 16 v), a + 3 := ucast (drop_bit 24 v))"

section \<open>Separation of regions\<close>

text \<open>
  \<open>sep a n b k\<close>: the \<open>n\<close> bytes from \<open>a\<close> and the \<open>k\<close> bytes from \<open>b\<close> have no
  byte in common, addresses taken modulo \<open>2 ^ 32\<close>. \<open>sepI\<close> decides it from
  the two distances, which the simplifier computes for offsets of one base.
\<close>

definition sep :: "u32 \<Rightarrow> nat \<Rightarrow> u32 \<Rightarrow> nat \<Rightarrow> bool" where
  "sep a n b k \<longleftrightarrow> (\<forall>i<n. \<forall>j<k. a + of_nat i \<noteq> b + of_nat j)"

lemma sepD: "sep a n b k \<Longrightarrow> i < n \<Longrightarrow> j < k \<Longrightarrow> a + of_nat i \<noteq> b + of_nat j"
  by (simp add: sep_def)

lemma sep_commute: "sep a n b k \<longleftrightarrow> sep b k a n"
  by (auto simp: sep_def) metis+

lemma sep_mono: "sep a n b k \<Longrightarrow> n' \<le> n \<Longrightarrow> k' \<le> k \<Longrightarrow> sep a n' b k'"
  by (simp add: sep_def)

lemma sep_inside:
  assumes "sep a n b k" "i + n' \<le> n" "j + k' \<le> k"
  shows "sep (a + of_nat i) n' (b + of_nat j) k'"
  unfolding sep_def
proof (intro allI impI)
  fix i' j' assume "i' < n'" "j' < k'"
  then have "a + of_nat (i + i') \<noteq> b + of_nat (j + j')"
    using assms by (intro sepD [OF assms(1)]) simp_all
  then show "a + of_nat i + of_nat i' \<noteq> b + of_nat j + of_nat j'"
    by (simp add: add.assoc)
qed

lemma sepI:
  assumes "n \<le> unat (b - a)" "k \<le> unat (a - b)"
  shows "sep a n b k"
  unfolding sep_def
proof (intro allI impI notI)
  fix i j assume ij: "i < n" "j < k" and eq: "a + of_nat i = b + of_nat j"
  show False
  proof (cases "i \<le> j")
    case True
    then have "a - b = of_nat (j - i)"
      using eq by (simp add: algebra_simps)
    then have "unat (a - b) \<le> j - i"
      by (simp add: unat_of_nat)
    then show False using assms ij by linarith
  next
    case False
    then have "b - a = of_nat (i - j)"
      using eq by (simp add: algebra_simps)
    then have "unat (b - a) \<le> i - j"
      by (simp add: unat_of_nat)
    then show False using assms ij by linarith
  qed
qed

section \<open>The interface of a typed access\<close>

text \<open>
  A load and a store of \<open>sz\<close> bytes: what was stored is loaded back, a store
  touches no byte outside its region, a load reads no byte outside its own.
\<close>

locale typed_access =
  fixes ld :: "mem \<Rightarrow> u32 \<Rightarrow> 'v"
    and st :: "mem \<Rightarrow> u32 \<Rightarrow> 'v \<Rightarrow> mem"
    and sz :: nat
  assumes ld_st: "ld (st m a v) a = v"
    and st_outside: "(\<And>k. k < sz \<Longrightarrow> b \<noteq> a + of_nat k) \<Longrightarrow> st m a v b = m b"
    and ld_inside: "(\<And>k. k < sz \<Longrightarrow> m (a + of_nat k) = m' (a + of_nat k)) \<Longrightarrow> ld m a = ld m' a"
begin

lemma st_byte_sep: "sep a sz b 1 \<Longrightarrow> st m a v b = m b"
  by (rule st_outside) (use sepD [of a sz b 1 _ 0] in force)

lemma ld_st_sep: "sep a sz b sz \<Longrightarrow> ld (st m a v) b = ld m b"
  by (intro ld_inside st_outside) (metis sepD)

end

text \<open>Two accesses, possibly of different sizes: a store is invisible to a separated load.\<close>

locale access_pair =
  w: typed_access ld st sz + r: typed_access ld' st' sz'
  for ld :: "mem \<Rightarrow> u32 \<Rightarrow> 'v" and st sz and ld' :: "mem \<Rightarrow> u32 \<Rightarrow> 'w" and st' sz'
begin

lemma load_other: "sep a sz b sz' \<Longrightarrow> ld' (st m a v) b = ld' m b"
  by (intro r.ld_inside w.st_outside) (metis sepD)

end

section \<open>The model's accesses meet it\<close>

lemma less_2_nat: "(k :: nat) < 2 \<longleftrightarrow> k = 0 \<or> k = 1"
  by auto

lemma less_4_nat: "(k :: nat) < 4 \<longleftrightarrow> k = 0 \<or> k = 1 \<or> k = 2 \<or> k = 3"
  by auto

interpretation byte: typed_access load8 store8 1
  by unfold_locales (auto simp: load8_def store8_def)

interpretation half: typed_access load16 store16 2
proof
  show "load16 (store16 m a v) a = v" for m a v
    by (rule bit_word_eqI) (auto simp: load16_def store16_def bit_simps)
  show "store16 m a v b = m b" if "\<And>k. k < 2 \<Longrightarrow> b \<noteq> a + of_nat k" for m a v b
    using that [of 0] that [of 1] by (simp add: store16_def)
  show "load16 m a = load16 m' a" if "\<And>k. k < 2 \<Longrightarrow> m (a + of_nat k) = m' (a + of_nat k)"
    for m m' a
    using that [of 0] that [of 1] by (simp add: load16_def)
qed

interpretation word: typed_access load32 store32 4
proof
  show "load32 (store32 m a v) a = v" for m a v
  proof (rule bit_word_eqI)
    fix n assume "n < LENGTH(32)"
    then consider "n < 8" | "8 \<le> n" "n < 16" | "16 \<le> n" "n < 24" | "24 \<le> n" "n < 32"
      by (simp, linarith)
    then show "bit (load32 (store32 m a v) a) n \<longleftrightarrow> bit v n"
      by cases (auto simp: load32_def store32_def bit_simps)
  qed
  show "store32 m a v b = m b" if "\<And>k. k < 4 \<Longrightarrow> b \<noteq> a + of_nat k" for m a v b
    using that [of 0] that [of 1] that [of 2] that [of 3] by (simp add: store32_def)
  show "load32 m a = load32 m' a" if "\<And>k. k < 4 \<Longrightarrow> m (a + of_nat k) = m' (a + of_nat k)"
    for m m' a
    using that [of 0] that [of 1] that [of 2] that [of 3] by (simp add: load32_def)
qed

interpretation ww: access_pair load32 store32 4 load32 store32 4 ..
interpretation wh: access_pair load32 store32 4 load16 store16 2 ..
interpretation hw: access_pair load16 store16 2 load32 store32 4 ..
interpretation hh: access_pair load16 store16 2 load16 store16 2 ..
interpretation bw: access_pair load8 store8 1 load32 store32 4 ..
interpretation bh: access_pair load8 store8 1 load16 store16 2 ..
interpretation wb: access_pair load32 store32 4 load8 store8 1 ..
interpretation hb: access_pair load16 store16 2 load8 store8 1 ..
interpretation bb: access_pair load8 store8 1 load8 store8 1 ..

lemmas mem_same [simp] = byte.ld_st half.ld_st word.ld_st
lemmas mem_other = ww.load_other wh.load_other hw.load_other hh.load_other
  bw.load_other bh.load_other wb.load_other hb.load_other bb.load_other

end
