(* ===== verification/Atomics.thy ===== *)
theory Atomics
  imports Memory_Model
begin

text \<open>
  \<^verbatim>\<open>sw/runtime/include/pspin.h\<close>: the A-extension wrappers, the load-reserved /
  store-conditional pair with \<open>compare_and_swap\<close>, the futex built on them
  and the delay loop. An atomic wrapper is its effect on the word the address
  holds: it takes the contents and the operand and gives the value returned
  and the new contents; \<open>amo_at\<close> applies one to the memory. The compiler
  fences around each instruction have no value to model.
\<close>

section \<open>Read-modify-write instructions\<close>

text \<open>\<^verbatim>\<open>amoswap.w\<close>: returns the old contents, leaves the operand.\<close>

definition amo_swap :: "u32 \<Rightarrow> u32 \<Rightarrow> u32 \<times> u32" where
  "amo_swap old val = (old, val)"

text \<open>\<^verbatim>\<open>amoswap.w x0\<close>: the old contents are discarded.\<close>

definition amo_store :: "u32 \<Rightarrow> u32 \<Rightarrow> u32" where
  "amo_store old val = val"

definition amo_add :: "i32 \<Rightarrow> i32 \<Rightarrow> i32 \<times> i32" where
  "amo_add old val = (old, old + val)"

definition amo_and :: "u32 \<Rightarrow> u32 \<Rightarrow> u32 \<times> u32" where
  "amo_and old val = (old, old AND val)"

definition amo_or :: "u32 \<Rightarrow> u32 \<Rightarrow> u32 \<times> u32" where
  "amo_or old val = (old, old OR val)"

definition amo_xor :: "u32 \<Rightarrow> u32 \<Rightarrow> u32 \<times> u32" where
  "amo_xor old val = (old, old XOR val)"

definition amo_maxu :: "u32 \<Rightarrow> u32 \<Rightarrow> u32 \<times> u32" where
  "amo_maxu old val = (old, if old < val then val else old)"

definition amo_max :: "i32 \<Rightarrow> i32 \<Rightarrow> i32 \<times> i32" where
  "amo_max old val = (old, if old <s val then val else old)"

definition amo_minu :: "u32 \<Rightarrow> u32 \<Rightarrow> u32 \<times> u32" where
  "amo_minu old val = (old, if val < old then val else old)"

definition amo_min :: "i32 \<Rightarrow> i32 \<Rightarrow> i32 \<times> i32" where
  "amo_min old val = (old, if val <s old then val else old)"

lemmas amo_defs [op_defs] = amo_swap_def amo_store_def amo_add_def amo_and_def amo_or_def
  amo_xor_def amo_maxu_def amo_max_def amo_minu_def amo_min_def

text \<open>One of them at an address of the memory.\<close>

definition amo_at :: "(u32 \<Rightarrow> u32 \<Rightarrow> u32 \<times> u32) \<Rightarrow> mem \<Rightarrow> u32 \<Rightarrow> u32 \<Rightarrow> u32 \<times> mem" where
  "amo_at f m addr val = (let (res, new) = f (load32 m addr) val in (res, store32 m addr new))"

lemma amo_at_add: "amo_at amo_add m a v = (load32 m a, store32 m a (load32 m a + v))"
  by (simp add: amo_at_def amo_add_def)

text \<open>
  Atomic additions at one address commute: whatever the order in which the
  cores of a cluster get to the word, it ends with the same contents.
\<close>

lemma amo_add_fold:
  "fold (\<lambda>v c. snd (amo_add c v)) vs c = c + sum_list vs"
  by (induction vs arbitrary: c) (simp_all add: amo_add_def add.assoc)

section \<open>Load-reserved and store-conditional\<close>

text \<open>
  A word under LR/SC: its contents, whether this hart's reservation on it
  still stands, and the error code the memory system answers a \<^verbatim>\<open>sc.w\<close> with
  (0 for an existing L2 word; 2 and 3 as listed at \<open>store_conditional\<close>).
\<close>

record lrsc_word =
  contents :: u32
  reserved :: bool
  sc_error :: u32

definition load_reserved :: "lrsc_word \<Rightarrow> u32 \<times> lrsc_word" where
  "load_reserved w = (contents w, w\<lparr>reserved := True\<rparr>)"

definition store_conditional :: "lrsc_word \<Rightarrow> u32 \<Rightarrow> u32 \<times> lrsc_word" where
  "store_conditional w val =
     (if sc_error w \<noteq> 0 then (sc_error w, w\<lparr>reserved := False\<rparr>)
      else if reserved w then (0, w\<lparr>contents := val, reserved := False\<rparr>)
      else (1, w\<lparr>reserved := False\<rparr>))"

text \<open>
  \<open>interf\<close> is what the other cores do between the two instructions. The
  result is an \<open>int\<close>: \<open>-1\<close> is the all-ones pattern.
\<close>

definition compare_and_swap ::
    "(lrsc_word \<Rightarrow> lrsc_word) \<Rightarrow> lrsc_word \<Rightarrow> u32 \<Rightarrow> u32 \<Rightarrow> i32 \<times> lrsc_word" where
  "compare_and_swap interf w old new =
     (let (tmp, w1) = load_reserved w; w2 = interf w1
      in if tmp = old then store_conditional w2 new else (-1, w2))"

text \<open>
  The environment of an LR/SC sequence: the reservation is lost whenever
  another core writes the word, and no other core makes a reservation for
  this one or changes how the memory system answers.
\<close>

locale lrsc_env =
  fixes interf :: "lrsc_word \<Rightarrow> lrsc_word"
  assumes kept: "reserved (interf w) \<Longrightarrow> contents (interf w) = contents w"
    and same_error: "sc_error (interf w) = sc_error w"
begin

lemma cas_success:
  assumes "compare_and_swap interf w old new = (0, w')"
  shows "contents w = old \<and> contents w' = new
    \<and> contents (interf (w\<lparr>reserved := True\<rparr>)) = old"
proof -
  let ?w2 = "interf (w\<lparr>reserved := True\<rparr>)"
  from assms have old: "contents w = old" and sc: "store_conditional ?w2 new = (0, w')"
    by (auto simp: compare_and_swap_def load_reserved_def Let_def split: if_splits)
  from sc have "reserved ?w2" and new: "contents w' = new"
    by (auto simp: store_conditional_def split: if_splits)
  from kept [OF this(1)] old have "contents ?w2 = old" by simp
  with old new show ?thesis by simp
qed

lemma cas_failure:
  assumes "compare_and_swap interf w old new = (r, w')" "r \<noteq> 0"
  shows "contents w' = contents (interf (w\<lparr>reserved := True\<rparr>))"
  using assms
  by (auto simp: compare_and_swap_def load_reserved_def store_conditional_def Let_def
      split: if_splits)

end

text \<open>The environments the runtime meets: other cores store to the word, any number of times.\<close>

definition other_store :: "u32 \<Rightarrow> lrsc_word \<Rightarrow> lrsc_word" where
  "other_store v w = w\<lparr>contents := v, reserved := False\<rparr>"

lemma other_stores:
  "sc_error (fold other_store vs w) = sc_error w"
  "contents (fold other_store vs w) = fold (\<lambda>v _. v) vs (contents w)"
  "reserved (fold other_store vs w) \<longleftrightarrow> vs = [] \<and> reserved w"
  by (induction vs arbitrary: w) (simp_all add: other_store_def)

interpretation stores_env: lrsc_env "fold other_store vs" for vs
  by unfold_locales (auto simp: other_stores)

section \<open>The delay loop\<close>

text \<open>
  \<open>wait_iters i\<close> is the number of times the body between \<open>__wait_cycles_start\<close>
  and the \<^verbatim>\<open>bnez\<close> runs when it is entered with \<open>i\<close>: it decrements, then tests.
\<close>

function wait_iters :: "u32 \<Rightarrow> nat" where
  "wait_iters i = (let i' = i - 1 in if i' \<noteq> 0 then Suc (wait_iters i') else 1)"
  by pat_completeness auto
termination
proof (relation "measure (\<lambda>i :: u32. unat (i - 1))")
  fix i i' :: u32
  assume i': "i' = i - 1" "i' \<noteq> 0"
  from i'(2) have "unat (i' - 1) < unat i'"
    by (simp add: unat_minus_one unat_gt_0)
  then show "(i', i) \<in> measure (\<lambda>i. unat (i - 1))"
    by (simp only: i'(1) in_measure)
qed simp

declare wait_iters.simps [simp del]

text \<open>The \<^verbatim>\<open>ble\<close> that guards the loop compares signed words.\<close>

definition rt_time_wait_cycles :: "u32 \<Rightarrow> nat" where
  "rt_time_wait_cycles cycles =
     (let threshold = 4 in if cycles \<le>s threshold then 0 else wait_iters (drop_bit 2 cycles))"

lemma wait_iters_unat: "0 < i \<Longrightarrow> wait_iters i = unat i"
proof (induction i rule: wait_iters.induct)
  case (1 i)
  show ?case
  proof (cases "i - 1 = 0")
    case True
    then show ?thesis by (simp add: wait_iters.simps)
  next
    case False
    then have "wait_iters (i - 1) = unat (i - 1)"
      using "1.IH" by (simp add: word_gt_0)
    moreover have "unat i = Suc (unat (i - 1))"
      using "1.prems" by (simp add: unat_minus_one word_gt_0 unat_gt_0)
    ultimately show ?thesis
      using False by (simp add: wait_iters.simps [of i])
  qed
qed

section \<open>The futex\<close>

definition futex_init :: "u32 \<Rightarrow> u32" where
  "futex_init futex = amo_store futex 0"

definition futex_try_lock :: "u32 \<Rightarrow> i32 \<times> u32" where
  "futex_try_lock futex = (let (res, new) = amo_or futex 1 in (if res = 0 then 1 else 0, new))"

text \<open>
  The two locking loops with nobody else running: \<open>None\<close> is a loop that never
  ends. The result is the value returned and the new contents; the delay of
  the second loop returns (\<open>rt_time_wait_cycles\<close> is total) and changes nothing.
\<close>

partial_function (option) futex_lock :: "u32 \<Rightarrow> (i32 \<times> u32) option" where
  "futex_lock futex =
     (case amo_or futex 1 of (res, new) \<Rightarrow> if res \<noteq> 0 then futex_lock new else Some (1, new))"

partial_function (option) futex_lock_s :: "u32 \<Rightarrow> (i32 \<times> u32) option" where
  "futex_lock_s futex =
     (case amo_or futex 1 of (res, new) \<Rightarrow>
        if res \<noteq> 0 then (let waited = rt_time_wait_cycles 32 in futex_lock_s new) else Some (1, new))"

definition futex_unlock :: "u32 \<Rightarrow> u32" where
  "futex_unlock futex = futex_init futex"

lemma or_1_ne_0 [simp]: "(x :: u32) OR 1 \<noteq> 0"
proof
  assume "x OR 1 = 0"
  then have "bit (x OR 1) 0 = bit (0 :: u32) 0" by simp
  then show False by (simp add: bit_or_iff)
qed

text \<open>With nobody to release it, a taken futex is never acquired; a free one at once.\<close>

lemma futex_lock_eq: "futex_lock futex = (if futex = 0 then Some (1, 1) else None)"
proof (cases "futex = 0")
  case True
  then show ?thesis by (simp add: futex_lock.simps amo_or_def)
next
  case False
  have "futex = 0" if "futex_lock futex = Some r" for r
    by (rule futex_lock.raw_induct [where P = "\<lambda>v r. v = 0", OF _ that])
      (fastforce simp: amo_or_def split: if_splits)
  with False show ?thesis by (cases "futex_lock futex") auto
qed

lemma futex_lock_s_eq: "futex_lock_s futex = (if futex = 0 then Some (1, 1) else None)"
proof (cases "futex = 0")
  case True
  then show ?thesis by (simp add: futex_lock_s.simps amo_or_def)
next
  case False
  have "futex = 0" if "futex_lock_s futex = Some r" for r
    by (rule futex_lock_s.raw_induct [where P = "\<lambda>v r. v = 0", OF _ that])
      (fastforce simp: amo_or_def split: if_splits)
  with False show ?thesis by (cases "futex_lock_s futex") auto
qed

lemma futex_try_lock_eq: "futex_try_lock futex = (if futex = 0 then (1, 1) else (0, futex OR 1))"
  by (simp add: futex_try_lock_def amo_or_def Let_def)

lemma futex_unlock_eq [simp]: "futex_unlock futex = 0" "futex_init futex = 0"
  by (simp_all add: futex_unlock_def futex_init_def amo_store_def)

section \<open>Properties\<close>

text \<open>
  \<open>rt_time_wait_cycles\<close> always returns. Its loop body runs a quarter of the
  requested number of cycles, rounded down, when the request read as a signed
  word is above the threshold of 4, and not at all otherwise; in particular a
  request of \<open>2 ^ 31\<close> cycles or more does not wait.
\<close>

theorem rt_time_wait_cycles_iterations:
  "rt_time_wait_cycles cycles = (if sint cycles \<le> 4 then 0 else unat cycles div 4)"
proof (cases "sint cycles \<le> 4")
  case True
  then show ?thesis by (simp add: rt_time_wait_cycles_def sle_i32_iff)
next
  case False
  then have "\<not> unat cycles < 4"
    using sint_i32_small [of cycles] by linarith
  then have "0 < unat (drop_bit 2 cycles)"
    by (simp add: drop_bit_eq_div unat_div div_greater_zero_iff)
  then have "0 < drop_bit 2 cycles" by (simp add: unat_gt_0 word_gt_0)
  from wait_iters_unat [OF this] False show ?thesis
    by (simp add: rt_time_wait_cycles_def sle_i32_iff drop_bit_eq_div unat_div)
qed

text \<open>
  Whatever other cores store to the word between the load-reserved and the
  store-conditional, \<open>compare_and_swap\<close> succeeds exactly when the word held the expected
  value, no store came between and the memory accepts the access; then the new value is in place,
  otherwise the word is as the others left it.
\<close>

theorem compare_and_swap_atomic:
  "case compare_and_swap (fold other_store vs) w old new of (r, w') \<Rightarrow>
     (r = 0 \<longleftrightarrow> contents w = old \<and> vs = [] \<and> sc_error w = 0)
     \<and> contents w' = (if r = 0 then new else fold (\<lambda>v _. v) vs (contents w))"
proof -
  obtain r w' where c: "compare_and_swap (fold other_store vs) w old new = (r, w')"
    by (cases "compare_and_swap (fold other_store vs) w old new") simp
  have "r = 0 \<longleftrightarrow> contents w = old \<and> vs = [] \<and> sc_error w = 0"
    using c by (auto simp: compare_and_swap_def load_reserved_def store_conditional_def other_stores Let_def
        split: if_splits)
  moreover have "contents w' = new" if "r = 0"
    using stores_env.cas_success [of vs w old new w'] c that by simp
  moreover have "contents w' = fold (\<lambda>v _. v) vs (contents w)" if "r \<noteq> 0"
    using stores_env.cas_failure [OF c that] by (simp add: other_stores)
  ultimately show ?thesis using c by simp
qed

end
