(* ===== verification/Spin_Locks.thy ===== *)
theory Spin_Locks
  imports Atomics
begin

text \<open>
  The locks of \<^verbatim>\<open>sw/runtime/include/handler.h\<close>. The first part is each function
  run to its end with nobody else on the lock, which the sequential components
  use. The second part is the interleaved behaviour: any number of cores, each
  step one atomic memory operation of one of them, with the lock word and the
  reader count as the functions leave them.
\<close>

section \<open>The functions\<close>

definition SPIN_OK :: u32 where "SPIN_OK = 0"
definition SPIN_FAIL :: u32 where "SPIN_FAIL = 1"

definition spin_lock_init :: "u32 \<Rightarrow> u32 \<times> u32" where
  "spin_lock_init lock = (SPIN_OK, futex_init lock)"

definition spin_lock_try_lock :: "u32 \<Rightarrow> i32 \<times> u32" where
  "spin_lock_try_lock lock = futex_try_lock lock"

definition spin_lock_lock :: "u32 \<Rightarrow> (u32 \<times> u32) option" where
  "spin_lock_lock lock = (case futex_lock_s lock of None \<Rightarrow> None | Some (_, new) \<Rightarrow> Some (SPIN_OK, new))"

definition spin_lock_unlock :: "u32 \<Rightarrow> u32 \<times> u32" where
  "spin_lock_unlock lock = (SPIN_OK, futex_unlock lock)"

record spin_rw_lock =
  glock :: u32
  num_readers :: i32

definition spin_rw_lock_r_lock :: "spin_rw_lock \<Rightarrow> (u32 \<times> spin_rw_lock) option" where
  "spin_rw_lock_r_lock rwlock =
     (let (old, new) = amo_add (num_readers rwlock) 1;
          readers = old + 1;
          rwlock = rwlock\<lparr>num_readers := new\<rparr>
      in if readers = 1
         then (case spin_lock_lock (glock rwlock) of
                 None \<Rightarrow> None
               | Some (_, g) \<Rightarrow> Some (SPIN_OK, rwlock\<lparr>glock := g\<rparr>))
         else Some (SPIN_OK, rwlock))"

definition spin_rw_lock_r_unlock :: "spin_rw_lock \<Rightarrow> u32 \<times> spin_rw_lock" where
  "spin_rw_lock_r_unlock rwlock =
     (let (old, new) = amo_add (num_readers rwlock) (-1);
          readers = old - 1;
          rwlock = rwlock\<lparr>num_readers := new\<rparr>
      in if readers = 0
         then (SPIN_OK, rwlock\<lparr>glock := snd (spin_lock_unlock (glock rwlock))\<rparr>)
         else (SPIN_OK, rwlock))"

definition spin_rw_lock_w_lock :: "spin_rw_lock \<Rightarrow> (u32 \<times> spin_rw_lock) option" where
  "spin_rw_lock_w_lock rwlock =
     (case spin_lock_lock (glock rwlock) of
        None \<Rightarrow> None
      | Some (_, g) \<Rightarrow> Some (SPIN_OK, rwlock\<lparr>glock := g\<rparr>))"

definition spin_rw_lock_w_unlock :: "spin_rw_lock \<Rightarrow> u32 \<times> spin_rw_lock" where
  "spin_rw_lock_w_unlock rwlock = (SPIN_OK, rwlock\<lparr>glock := snd (spin_lock_unlock (glock rwlock))\<rparr>)"

lemma spin_lock_lock_eq: "spin_lock_lock lock = (if lock = 0 then Some (SPIN_OK, 1) else None)"
  by (simp add: spin_lock_lock_def futex_lock_s_eq)

lemma spin_lock_unlock_eq [simp]: "spin_lock_unlock lock = (SPIN_OK, 0)"
  by (simp add: spin_lock_unlock_def)

section \<open>Interleaved use of a spin lock\<close>

text \<open>
  Where a core is: outside, in the loop of \<open>futex_lock_s\<close>, or past it. Each
  rule is one atomic instruction of the core on the shared word, taken from
  the functions of Atomics.
\<close>

datatype lock_pc = Outside | Locking | Holding

record lock_sys =
  word_of :: u32
  lk_at :: "nat \<Rightarrow> lock_pc"

definition lock_start :: lock_sys where
  "lock_start = \<lparr>word_of = snd (spin_lock_init 0), lk_at = (\<lambda>_. Outside)\<rparr>"

inductive lock_step :: "lock_sys \<Rightarrow> lock_sys \<Rightarrow> bool" where
  call_lock: "lk_at s i = Outside \<Longrightarrow> lock_step s (s\<lparr>lk_at := (lk_at s)(i := Locking)\<rparr>)"
| lock_taken: "lk_at s i = Locking \<Longrightarrow> amo_or (word_of s) 1 = (res, new) \<Longrightarrow> res \<noteq> 0 \<Longrightarrow>
    lock_step s (s\<lparr>word_of := new\<rparr>)"
| lock_got: "lk_at s i = Locking \<Longrightarrow> amo_or (word_of s) 1 = (res, new) \<Longrightarrow> res = 0 \<Longrightarrow>
    lock_step s (s\<lparr>word_of := new, lk_at := (lk_at s)(i := Holding)\<rparr>)"
| try_lock: "lk_at s i = Outside \<Longrightarrow> futex_try_lock (word_of s) = (r, new) \<Longrightarrow>
    lock_step s (s\<lparr>word_of := new, lk_at := (lk_at s)(i := if r = 1 then Holding else Outside)\<rparr>)"
| unlock: "lk_at s i = Holding \<Longrightarrow>
    lock_step s (s\<lparr>word_of := snd (spin_lock_unlock (word_of s)), lk_at := (lk_at s)(i := Outside)\<rparr>)"

inductive lock_reach :: "lock_sys \<Rightarrow> bool" where
  start: "lock_reach lock_start"
| step: "lock_reach s \<Longrightarrow> lock_step s t \<Longrightarrow> lock_reach t"

text \<open>The word is free exactly when nobody holds it, and two never do.\<close>

definition lock_ok :: "lock_sys \<Rightarrow> bool" where
  "lock_ok s \<longleftrightarrow> (word_of s = 0 \<longleftrightarrow> (\<forall>i. lk_at s i \<noteq> Holding))
     \<and> (\<forall>i j. lk_at s i = Holding \<longrightarrow> lk_at s j = Holding \<longrightarrow> i = j)"

lemma lock_step_ok: "lock_step s t \<Longrightarrow> lock_ok s \<Longrightarrow> lock_ok t"
proof (induction rule: lock_step.induct)
  case (call_lock s i)
  then have "lk_at s i \<noteq> Holding" by simp
  with call_lock show ?case by (simp add: lock_ok_def) (metis lock_pc.distinct(3))
next
  case (lock_taken s i res new)
  then show ?case by (auto simp: lock_ok_def amo_or_def)
next
  case (lock_got s i res new)
  then show ?case by (auto simp: lock_ok_def amo_or_def)
next
  case (try_lock s i r new)
  then have "lk_at s i \<noteq> Holding" by simp
  with try_lock show ?case
    by (auto simp: lock_ok_def futex_try_lock_eq split: if_splits) (metis lock_pc.distinct(3))
next
  case (unlock s i)
  then show ?case by (auto simp: lock_ok_def)
qed

lemma lock_start_ok: "lock_ok lock_start"
  by (simp add: lock_ok_def lock_start_def spin_lock_init_def)

lemma lock_reach_ok: "lock_reach s \<Longrightarrow> lock_ok s"
  by (induction rule: lock_reach.induct) (blast intro: lock_start_ok lock_step_ok)+

section \<open>Interleaved use of a reader-writer lock\<close>

text \<open>
  Where a core is in one of the four functions: \<open>RSpin\<close> is the first reader in
  the loop of \<open>spin_lock_lock\<close>, \<open>RUnlock\<close> the last reader before its
  \<open>spin_lock_unlock\<close>. A step is again one atomic operation.
\<close>

datatype rw_pc = RwIdle | RSpin | Reading | RUnlock | WSpin | Writing

record rw_sys =
  rw :: spin_rw_lock
  rw_at :: "nat \<Rightarrow> rw_pc"

definition rw_start :: rw_sys where
  "rw_start = \<lparr>rw = \<lparr>glock = 0, num_readers = 0\<rparr>, rw_at = (\<lambda>_. RwIdle)\<rparr>"

text \<open>\<open>n\<close> is the number of cores.\<close>

inductive rw_step :: "nat \<Rightarrow> rw_sys \<Rightarrow> rw_sys \<Rightarrow> bool" for n :: nat where
  r_enter: "i < n \<Longrightarrow> rw_at s i = RwIdle \<Longrightarrow> amo_add (num_readers (rw s)) 1 = (old, new) \<Longrightarrow>
    rw_step n s (s\<lparr>rw := (rw s)\<lparr>num_readers := new\<rparr>,
      rw_at := (rw_at s)(i := if old + 1 = 1 then RSpin else Reading)\<rparr>)"
| r_spin: "i < n \<Longrightarrow> rw_at s i = RSpin \<Longrightarrow> amo_or (glock (rw s)) 1 = (res, new) \<Longrightarrow>
    rw_step n s (s\<lparr>rw := (rw s)\<lparr>glock := new\<rparr>,
      rw_at := (rw_at s)(i := if res = 0 then Reading else RSpin)\<rparr>)"
| r_leave: "i < n \<Longrightarrow> rw_at s i = Reading \<Longrightarrow> amo_add (num_readers (rw s)) (-1) = (old, new) \<Longrightarrow>
    rw_step n s (s\<lparr>rw := (rw s)\<lparr>num_readers := new\<rparr>,
      rw_at := (rw_at s)(i := if old - 1 = 0 then RUnlock else RwIdle)\<rparr>)"
| r_release: "i < n \<Longrightarrow> rw_at s i = RUnlock \<Longrightarrow>
    rw_step n s (s\<lparr>rw := (rw s)\<lparr>glock := snd (spin_lock_unlock (glock (rw s)))\<rparr>,
      rw_at := (rw_at s)(i := RwIdle)\<rparr>)"
| w_call: "i < n \<Longrightarrow> rw_at s i = RwIdle \<Longrightarrow>
    rw_step n s (s\<lparr>rw_at := (rw_at s)(i := WSpin)\<rparr>)"
| w_spin: "i < n \<Longrightarrow> rw_at s i = WSpin \<Longrightarrow> amo_or (glock (rw s)) 1 = (res, new) \<Longrightarrow>
    rw_step n s (s\<lparr>rw := (rw s)\<lparr>glock := new\<rparr>,
      rw_at := (rw_at s)(i := if res = 0 then Writing else WSpin)\<rparr>)"
| w_release: "i < n \<Longrightarrow> rw_at s i = Writing \<Longrightarrow>
    rw_step n s (s\<lparr>rw := (rw s)\<lparr>glock := snd (spin_lock_unlock (glock (rw s)))\<rparr>,
      rw_at := (rw_at s)(i := RwIdle)\<rparr>)"

inductive rw_reach :: "nat \<Rightarrow> rw_sys \<Rightarrow> bool" for n :: nat where
  rw_init: "rw_reach n rw_start"
| rw_next: "rw_reach n s \<Longrightarrow> rw_step n s t \<Longrightarrow> rw_reach n t"

text \<open>
  The counted readers; who owes the lock word a release: a writer, the last
  reader on its way out, or the readers as a group once their first one got it.
\<close>

definition rw_counted :: "nat \<Rightarrow> (nat \<Rightarrow> rw_pc) \<Rightarrow> nat set" where
  "rw_counted n at = {i. i < n \<and> (at i = RSpin \<or> at i = Reading)}"

definition some_at :: "('p \<Rightarrow> bool) \<Rightarrow> (nat \<Rightarrow> 'p) \<Rightarrow> bool" where
  "some_at P at \<longleftrightarrow> (\<exists>k. P (at k))"

definition one_at :: "('p \<Rightarrow> bool) \<Rightarrow> (nat \<Rightarrow> 'p) \<Rightarrow> bool" where
  "one_at P at \<longleftrightarrow> (\<forall>j k. P (at j) \<longrightarrow> P (at k) \<longrightarrow> j = k)"

definition rw_owner :: "rw_pc \<Rightarrow> bool" where
  "rw_owner p \<longleftrightarrow> p = Writing \<or> p = RUnlock"

definition rw_group :: "(nat \<Rightarrow> rw_pc) \<Rightarrow> bool" where
  "rw_group at \<longleftrightarrow> some_at ((=) Reading) at \<and> \<not> some_at ((=) RSpin) at"

definition rw_excl :: "u32 \<Rightarrow> (nat \<Rightarrow> rw_pc) \<Rightarrow> bool" where
  "rw_excl g at \<longleftrightarrow> one_at ((=) RSpin) at \<and> one_at rw_owner at
     \<and> (g = 0 \<longleftrightarrow> \<not> some_at rw_owner at \<and> \<not> rw_group at)
     \<and> \<not> (some_at rw_owner at \<and> rw_group at)"

definition rw_ok :: "nat \<Rightarrow> rw_sys \<Rightarrow> bool" where
  "rw_ok n s \<longleftrightarrow> (\<forall>i\<ge>n. rw_at s i = RwIdle)
     \<and> num_readers (rw s) = of_nat (card (rw_counted n (rw_at s)))
     \<and> rw_excl (glock (rw s)) (rw_at s)"

text \<open>
  The exclusion part, one transition at a time: what core \<open>i\<close> contributes and
  what the others do, which its move leaves unchanged.
\<close>

definition others :: "('p \<Rightarrow> bool) \<Rightarrow> (nat \<Rightarrow> 'p) \<Rightarrow> nat \<Rightarrow> bool" where
  "others P at i \<longleftrightarrow> (\<exists>k. k \<noteq> i \<and> P (at k))"

definition others_one :: "('p \<Rightarrow> bool) \<Rightarrow> (nat \<Rightarrow> 'p) \<Rightarrow> nat \<Rightarrow> bool" where
  "others_one P at i \<longleftrightarrow> (\<forall>j k. j \<noteq> i \<longrightarrow> k \<noteq> i \<longrightarrow> P (at j) \<longrightarrow> P (at k) \<longrightarrow> j = k)"

lemma others_upd [simp]: "others P (at(i := p)) i = others P at i"
  "others_one P (at(i := p)) i = others_one P at i"
  by (auto simp: others_def others_one_def)

lemma some_at_split: "some_at P at \<longleftrightarrow> P (at i) \<or> others P at i"
  by (auto simp: some_at_def others_def)

lemma one_at_split: "one_at P at \<longleftrightarrow> others_one P at i \<and> (P (at i) \<longrightarrow> \<not> others P at i)"
  unfolding one_at_def others_one_def others_def by metis

lemma rw_excl_split:
  fixes i
  shows "rw_excl g at \<longleftrightarrow>
     (let own = rw_owner (at i) \<or> others rw_owner at i;
          grp = (at i = Reading \<or> others ((=) Reading) at i) \<and> at i \<noteq> RSpin \<and> \<not> others ((=) RSpin) at i
      in others_one ((=) RSpin) at i \<and> (at i = RSpin \<longrightarrow> \<not> others ((=) RSpin) at i)
         \<and> others_one rw_owner at i \<and> (rw_owner (at i) \<longrightarrow> \<not> others rw_owner at i)
         \<and> (g = 0 \<longleftrightarrow> \<not> own \<and> \<not> grp) \<and> \<not> (own \<and> grp))"
  by (simp only: rw_excl_def rw_group_def some_at_split [of _ at i] one_at_split [of _ at i] Let_def
      eq_commute [of "at i"]) blast

lemma others_counted: "others ((=) RSpin) at i \<or> others ((=) Reading) at i \<longleftrightarrow>
    (\<exists>k. k \<noteq> i \<and> (at k = RSpin \<or> at k = Reading))"
  by (auto simp: others_def)

lemma rw_excl_first_reader:
  "rw_excl g at \<Longrightarrow> at i = RwIdle \<Longrightarrow> \<not> (\<exists>k. at k = RSpin \<or> at k = Reading) \<Longrightarrow>
    rw_excl g (at(i := RSpin))"
  using others_counted [of at i] by (simp add: rw_excl_split [of _ _ i] rw_owner_def Let_def)

lemma rw_excl_next_reader:
  "rw_excl g at \<Longrightarrow> at i = RwIdle \<Longrightarrow> at k = RSpin \<or> at k = Reading \<Longrightarrow> rw_excl g (at(i := Reading))"
  using others_counted [of at i] by (cases "k = i") (auto simp: rw_excl_split [of _ _ i] rw_owner_def Let_def)

lemma rw_excl_reader_leaves:
  "rw_excl g at \<Longrightarrow> at i = Reading \<Longrightarrow> k \<noteq> i \<Longrightarrow> at k = RSpin \<or> at k = Reading \<Longrightarrow>
    rw_excl g (at(i := RwIdle))"
  using others_counted [of at i] by (auto simp: rw_excl_split [of _ _ i] rw_owner_def Let_def)

lemma rw_excl_last_reader:
  "rw_excl g at \<Longrightarrow> at i = Reading \<Longrightarrow> \<not> (\<exists>k. k \<noteq> i \<and> (at k = RSpin \<or> at k = Reading)) \<Longrightarrow>
    rw_excl g (at(i := RUnlock))"
  using others_counted [of at i] by (auto simp: rw_excl_split [of _ _ i] rw_owner_def Let_def)

lemma rw_excl_or: "rw_excl g at \<Longrightarrow> g \<noteq> 0 \<Longrightarrow> rw_excl (g OR 1) at"
  by (simp add: rw_excl_def)

lemma rw_excl_reader_got: "rw_excl 0 at \<Longrightarrow> at i = RSpin \<Longrightarrow> rw_excl 1 (at(i := Reading))"
  by (auto simp: rw_excl_split [of _ _ i] rw_owner_def Let_def)

lemma rw_excl_writer_got: "rw_excl 0 at \<Longrightarrow> at i = WSpin \<Longrightarrow> rw_excl 1 (at(i := Writing))"
  by (auto simp: rw_excl_split [of _ _ i] rw_owner_def Let_def)

lemma rw_excl_release:
  "rw_excl g at \<Longrightarrow> at i = RUnlock \<or> at i = Writing \<Longrightarrow> rw_excl 0 (at(i := RwIdle))"
  by (auto simp: rw_excl_split [of _ _ i] rw_owner_def Let_def)

lemma rw_excl_call: "rw_excl g at \<Longrightarrow> at i = RwIdle \<Longrightarrow> rw_excl g (at(i := WSpin))"
  by (auto simp: rw_excl_split [of _ _ i] rw_owner_def Let_def)

text \<open>The reader count, and what the first and the last reader see of it.\<close>

lemma finite_rw_counted [simp]: "finite (rw_counted n at)"
  by (simp add: rw_counted_def)

lemma card_rw_counted: "card (rw_counted n at) \<le> n"
proof -
  have "card (rw_counted n at) \<le> card {..<n}"
    by (rule card_mono) (auto simp: rw_counted_def)
  then show ?thesis by simp
qed

lemma of_nat_card_eq_0:
  assumes "n < 2 ^ 32"
  shows "(of_nat (card (rw_counted n at)) :: i32) = 0 \<longleftrightarrow> rw_counted n at = {}"
proof -
  have "card (rw_counted n at) < 2 ^ LENGTH(32)"
    using card_rw_counted [of n at] assms by simp
  then have "unat (of_nat (card (rw_counted n at)) :: i32) = card (rw_counted n at)"
    by (simp add: unat_of_nat take_bit_nat_eq_self)
  then have "(of_nat (card (rw_counted n at)) :: i32) = 0 \<longleftrightarrow> card (rw_counted n at) = 0"
    using unsigned_eq_0_iff [where 'a = nat, of "of_nat (card (rw_counted n at)) :: i32"] by simp
  then show ?thesis by simp
qed

lemma rw_counted_move:
  "i < n \<Longrightarrow> rw_counted n (at(i := p)) =
     (if p = RSpin \<or> p = Reading then insert i (rw_counted n at) else rw_counted n at - {i})"
  by (auto simp: rw_counted_def)

lemma rw_counted_same:
  "i < n \<Longrightarrow> (p = RSpin \<or> p = Reading) = (at i = RSpin \<or> at i = Reading) \<Longrightarrow>
    rw_counted n (at(i := p)) = rw_counted n at"
  by (auto simp: rw_counted_def)

lemma card_rw_enter:
  "i < n \<Longrightarrow> at i = RwIdle \<Longrightarrow> p = RSpin \<or> p = Reading \<Longrightarrow>
    card (rw_counted n (at(i := p))) = Suc (card (rw_counted n at))"
  by (auto simp: rw_counted_move) (auto simp: rw_counted_def)

lemma card_rw_leave:
  assumes "i < n" "at i = Reading" "p = RUnlock \<or> p = RwIdle"
  shows "card (rw_counted n at) = Suc (card (rw_counted n (at(i := p))))"
proof -
  have "i \<in> rw_counted n at" using assms by (simp add: rw_counted_def)
  then have "card (rw_counted n at) = Suc (card (rw_counted n at - {i}))"
    by (metis card.remove finite_rw_counted)
  then show ?thesis using assms by (auto simp: rw_counted_move)
qed

lemma rw_counted_empty:
  assumes "\<forall>i\<ge>n. at i = RwIdle"
  shows "rw_counted n at = {} \<longleftrightarrow> \<not> (\<exists>k. at k = RSpin \<or> at k = Reading)"
proof -
  have "k < n" if "at k = RSpin \<or> at k = Reading" for k
    using assms that by (metis not_le rw_pc.distinct(1,3))
  then show ?thesis by (auto simp: rw_counted_def)
qed

lemma rw_start_ok: "rw_ok n rw_start"
  by (simp add: rw_ok_def rw_excl_def rw_start_def rw_counted_def rw_owner_def rw_group_def
      some_at_def one_at_def)

lemma rw_step_ok:
  assumes "rw_step n s t" "rw_ok n s" "n < 2 ^ 32"
  shows "rw_ok n t"
  using assms
proof (induction rule: rw_step.induct)
  case (r_enter i s old new)
  have num: "num_readers (rw s) = of_nat (card (rw_counted n (rw_at s)))"
    and rest: "rw_excl (glock (rw s)) (rw_at s)" "\<forall>i\<ge>n. rw_at s i = RwIdle"
    using r_enter by (simp_all add: rw_ok_def)
  have old: "num_readers (rw s) = old" "new = old + 1"
    using r_enter by (auto simp: amo_add_def)
  have "old = 0 \<longleftrightarrow> \<not> (\<exists>k. rw_at s k = RSpin \<or> rw_at s k = Reading)"
    using of_nat_card_eq_0 [OF \<open>n < 2 ^ 32\<close>] rw_counted_empty [OF rest(2)] num old by simp
  with r_enter rest num old show ?case
    by (auto simp: rw_ok_def card_rw_enter intro: rw_excl_first_reader rw_excl_next_reader)
next
  case (r_spin i s res new)
  then show ?case
    by (auto simp: rw_ok_def amo_or_def rw_counted_same rw_excl_or rw_excl_reader_got fun_upd_idem)
next
  case (r_leave i s old new)
  let ?left = "rw_counted n ((rw_at s)(i := RwIdle))"
  have num: "num_readers (rw s) = of_nat (card (rw_counted n (rw_at s)))"
    and rest: "rw_excl (glock (rw s)) (rw_at s)" "\<forall>i\<ge>n. rw_at s i = RwIdle"
    using r_leave by (simp_all add: rw_ok_def)
  have old: "num_readers (rw s) = old" "new = old - 1"
    using r_leave by (auto simp: amo_add_def)
  have card: "\<And>p. p = RUnlock \<or> p = RwIdle \<Longrightarrow>
      card (rw_counted n (rw_at s)) = Suc (card (rw_counted n ((rw_at s)(i := p))))"
    using r_leave by (intro card_rw_leave) simp_all
  then have "old - 1 = 0 \<longleftrightarrow> ?left = {}"
    using of_nat_card_eq_0 [OF \<open>n < 2 ^ 32\<close>, of "(rw_at s)(i := RwIdle)"] num old
    by (simp add: card [of RwIdle])
  then have last: "old - 1 = 0 \<longleftrightarrow> \<not> (\<exists>k. k \<noteq> i \<and> (rw_at s k = RSpin \<or> rw_at s k = Reading))"
    using rest(2) r_leave by (simp add: rw_counted_empty) metis
  have cnt: "\<And>p. p = RUnlock \<or> p = RwIdle \<Longrightarrow>
      new = of_nat (card (rw_counted n ((rw_at s)(i := p))))"
    using card num old by simp
  show ?case
  proof (cases "old - 1 = 0")
    case True
    then have "rw_excl (glock (rw s)) ((rw_at s)(i := RUnlock))"
      using last rest r_leave by (intro rw_excl_last_reader) auto
    with True rest cnt r_leave show ?thesis by (simp add: rw_ok_def)
  next
    case False
    then obtain k where "k \<noteq> i" "rw_at s k = RSpin \<or> rw_at s k = Reading"
      using last by blast
    then have "rw_excl (glock (rw s)) ((rw_at s)(i := RwIdle))"
      using rest r_leave by (intro rw_excl_reader_leaves) auto
    with False rest cnt r_leave show ?thesis by (simp add: rw_ok_def)
  qed
next
  case (r_release i s)
  then show ?case by (auto simp: rw_ok_def rw_counted_same intro: rw_excl_release)
next
  case (w_call i s)
  then show ?case by (auto simp: rw_ok_def rw_counted_same intro: rw_excl_call)
next
  case (w_spin i s res new)
  then show ?case
    by (auto simp: rw_ok_def amo_or_def rw_counted_same rw_excl_or rw_excl_writer_got fun_upd_idem)
next
  case (w_release i s)
  then show ?case by (auto simp: rw_ok_def rw_counted_same intro: rw_excl_release)
qed

lemma rw_reach_ok: "rw_reach n s \<Longrightarrow> n < 2 ^ 32 \<Longrightarrow> rw_ok n s"
  by (induction rule: rw_reach.induct) (blast intro: rw_start_ok rw_step_ok)+

text \<open>Nothing but the functions run alone: the sequential view of one call.\<close>

lemma spin_rw_lock_r_lock_eq:
  "spin_rw_lock_r_lock l =
     (if num_readers l = 0
      then (if glock l = 0 then Some (SPIN_OK, l\<lparr>glock := 1, num_readers := 1\<rparr>) else None)
      else Some (SPIN_OK, l\<lparr>num_readers := num_readers l + 1\<rparr>))"
  by (simp add: spin_rw_lock_r_lock_def amo_add_def spin_lock_lock_eq)

lemma spin_rw_lock_r_unlock_eq:
  "spin_rw_lock_r_unlock l =
     (if num_readers l = 1 then (SPIN_OK, l\<lparr>glock := 0, num_readers := 0\<rparr>)
      else (SPIN_OK, l\<lparr>num_readers := num_readers l - 1\<rparr>))"
  by (simp add: spin_rw_lock_r_unlock_def amo_add_def)

section \<open>Properties\<close>

text \<open>
  C17: whatever the interleaving of the atomic operations of
  \<open>spin_lock_lock\<close>, \<open>spin_lock_try_lock\<close> and \<open>spin_lock_unlock\<close> by any number of cores, the lock word is
  free exactly when no core holds the lock, and no two cores hold it.
\<close>

theorem spin_lock_mutual_exclusion:
  assumes "lock_reach s"
  shows "(word_of s = 0 \<longleftrightarrow> (\<forall>i. lk_at s i \<noteq> Holding))
    \<and> (lk_at s i = Holding \<longrightarrow> lk_at s j = Holding \<longrightarrow> i = j)"
  using lock_reach_ok [OF assms] by (simp add: lock_ok_def)

theorem spin_lock_mutual_exclusion_witness:
  "\<exists>s. lock_reach s \<and> lk_at s 0 = Holding \<and> word_of s \<noteq> 0 \<and> lk_at s 1 \<noteq> Holding"
proof -
  let ?s = "\<lambda>w p. \<lparr>word_of = w, lk_at = (\<lambda>_. Outside)(0 := p)\<rparr>"
  have "lock_reach (?s 0 Outside)"
    using start by (simp add: lock_start_def spin_lock_init_def fun_upd_idem)
  then have "lock_reach (?s 0 Locking)"
    by (rule step) (use call_lock [of "?s 0 Outside" 0] in simp)
  then have r: "lock_reach (?s 1 Holding)"
    by (rule step) (use lock_got [of "?s 0 Locking" 0 0 1] in \<open>simp add: amo_or_def\<close>)
  with spin_lock_mutual_exclusion [OF r, of 0 1] show ?thesis
    by (intro exI [of _ "?s 1 Holding"]) auto
qed

text \<open>
  C18: in every reachable state of the reader-writer lock used by fewer
  than \<open>2 ^ 32\<close> cores no two of them write at once, and a reader that has
  entered while one writes can only be there because another reader is still
  waiting for the lock word in \<open>spin_rw_lock_r_lock\<close>; the reader count is the
  number of cores in or past that wait.
\<close>

theorem rw_writers_exclusive:
  assumes "rw_reach n s" "n < 2 ^ 32"
  shows "(rw_at s i = Writing \<longrightarrow> rw_at s j = Writing \<longrightarrow> i = j)
    \<and> (rw_at s i = Writing \<longrightarrow> rw_at s j = Reading \<longrightarrow> (\<exists>k. rw_at s k = RSpin))
    \<and> num_readers (rw s) = of_nat (card {k. k < n \<and> (rw_at s k = RSpin \<or> rw_at s k = Reading)})"
proof -
  have ok: "rw_ok n s" by (rule rw_reach_ok [OF assms])
  then have ex: "rw_excl (glock (rw s)) (rw_at s)"
    by (simp add: rw_ok_def)
  have "rw_at s i = Writing \<longrightarrow> rw_at s j = Writing \<longrightarrow> i = j"
    using ex by (simp add: rw_excl_def rw_owner_def one_at_def)
  moreover have "rw_at s i = Writing \<longrightarrow> rw_at s j = Reading \<longrightarrow> (\<exists>k. rw_at s k = RSpin)"
    using ex by (simp add: rw_excl_def rw_owner_def rw_group_def some_at_def) metis
  ultimately show ?thesis
    using ok by (simp add: rw_ok_def rw_counted_def)
qed

theorem rw_writers_exclusive_witness:
  "\<exists>s. rw_reach 3 s \<and> rw_at s 0 = Writing \<and> rw_at s 1 \<noteq> Writing \<and> num_readers (rw s) = 0"
proof -
  let ?s = "\<lambda>g p. \<lparr>rw = \<lparr>glock = g, num_readers = 0\<rparr>, rw_at = (\<lambda>_. RwIdle)(0 := p)\<rparr>"
  have "rw_reach 3 (?s 0 RwIdle)"
    using rw_init [of 3] by (simp add: rw_start_def fun_upd_idem)
  then have "rw_reach 3 (?s 0 WSpin)"
    by (rule rw_next) (use w_call [of 0 3 "?s 0 RwIdle"] in simp)
  then have r: "rw_reach 3 (?s 1 Writing)"
    by (rule rw_next) (use w_spin [of 0 3 "?s 0 WSpin" 0 1] in \<open>simp add: amo_or_def\<close>)
  with rw_writers_exclusive [OF r, of 0 1] show ?thesis
    by (intro exI [of _ "?s 1 Writing"]) auto
qed

text \<open>A writer holds the lock word, so the count is not zero exactly while some reader waits for the word.\<close>

lemma rw_beside_writer:
  assumes "rw_ok n s" "n < 2 ^ 32" "rw_at s w = Writing"
  shows "glock (rw s) \<noteq> 0" "num_readers (rw s) = 0 \<longleftrightarrow> \<not> (\<exists>k. rw_at s k = RSpin)"
proof -
  have ex: "rw_excl (glock (rw s)) (rw_at s)" and idle: "\<forall>i\<ge>n. rw_at s i = RwIdle"
    and num: "num_readers (rw s) = of_nat (card (rw_counted n (rw_at s)))" using assms(1) by (simp_all add: rw_ok_def)
  have own: "some_at rw_owner (rw_at s)" using assms(3) by (auto simp: some_at_def rw_owner_def)
  then show "glock (rw s) \<noteq> 0" using ex by (simp add: rw_excl_def)
  have "\<exists>k. rw_at s k = RSpin" if "rw_at s k = Reading" for k
    using ex own that unfolding rw_excl_def rw_group_def some_at_def by metis
  then show "num_readers (rw s) = 0 \<longleftrightarrow> \<not> (\<exists>k. rw_at s k = RSpin)"
    unfolding num of_nat_card_eq_0 [OF assms(2)] rw_counted_empty [OF idle] by blast
qed

lemma rw_step_at:
  assumes "rw_step n s t" "rw_at t i \<noteq> rw_at s i"
  shows "i < n
    \<and> (rw_at s i = RwIdle \<longrightarrow> rw_at t i = WSpin \<or> rw_at t i = (if num_readers (rw s) = 0 then RSpin else Reading))
    \<and> (rw_at s i = RSpin \<longrightarrow> rw_at t i = Reading \<and> glock (rw s) = 0)
    \<and> (rw_at s i \<in> {Reading, RUnlock, WSpin, Writing} \<longrightarrow> rw_at t i \<noteq> Reading)"
  using assms by (cases rule: rw_step.cases) (auto simp: amo_add_def amo_or_def split: if_splits)

text \<open>
  C30: When a reader gets in beside a writer. In every reachable state of fewer than \<open>2 ^ 32\<close> cores in which core \<open>w\<close>
  writes, core \<open>i\<close> can become a reader, with \<open>w\<close> still writing, exactly when \<open>i\<close> is an idle core and some reader is
  still waiting for the lock word: a core that calls \<open>spin_rw_lock_r_lock\<close> waits only if it finds the count 0. Such a
  reader that waits does not pass while \<open>w\<close> writes. The witness reaches such a state with three cores.
\<close>

theorem rw_reader_beside_writer:
  assumes "rw_reach n s" "n < 2 ^ 32" "rw_at s w = Writing"
  shows "((\<exists>t. rw_step n s t \<and> rw_at t w = Writing \<and> rw_at s i \<noteq> Reading \<and> rw_at t i = Reading)
      \<longleftrightarrow> i < n \<and> rw_at s i = RwIdle \<and> (\<exists>k. rw_at s k = RSpin))
    \<and> (rw_step n s t \<and> rw_at s k = RSpin \<longrightarrow> rw_at t k = RSpin)"
proof (intro conjI iffI impI)
  note b = rw_beside_writer [OF rw_reach_ok [OF assms(1,2)] assms(2,3)]
  show "i < n" "rw_at s i = RwIdle" "\<exists>k. rw_at s k = RSpin"
    if "\<exists>t. rw_step n s t \<and> rw_at t w = Writing \<and> rw_at s i \<noteq> Reading \<and> rw_at t i = Reading"
    using that rw_step_at [of n s _ i] b by (cases "rw_at s i"; force split: if_splits)+
  show "rw_at t k = RSpin" if "rw_step n s t \<and> rw_at s k = RSpin"
    using that rw_step_at [of n s t k] b(1) by auto
  show "\<exists>t. rw_step n s t \<and> rw_at t w = Writing \<and> rw_at s i \<noteq> Reading \<and> rw_at t i = Reading"
    if i: "i < n \<and> rw_at s i = RwIdle \<and> (\<exists>k. rw_at s k = RSpin)"
  proof -
    let ?r = "num_readers (rw s)"
    have "?r \<noteq> 0" "i \<noteq> w" using i b(2) assms(3) by auto
    with rw_step.r_enter [of i n s ?r "?r + 1"] i assms(3) show ?thesis
      by (intro exI [of _ "s\<lparr>rw := (rw s)\<lparr>num_readers := ?r + 1\<rparr>, rw_at := (rw_at s)(i := Reading)\<rparr>"])
        (simp add: amo_add_def)
  qed
qed

theorem rw_reader_beside_writer_witness:
  "\<exists>s t. rw_reach 3 s \<and> rw_step 3 s t \<and> rw_at t 0 = Writing \<and> rw_at s 2 = RwIdle \<and> rw_at t 2 = Reading"
proof -
  let ?w = "\<lambda>g r. \<lparr>glock = g, num_readers = r\<rparr>"
  let ?s = "\<lambda>g r a b. \<lparr>rw = ?w g r, rw_at = (\<lambda>_. RwIdle)(0 := a, 1 := b)\<rparr>"
  have "rw_reach 3 (?s 0 0 RwIdle RwIdle)"
    using rw_init [of 3] by (simp add: rw_start_def fun_upd_idem)
  then have "rw_reach 3 (?s 0 0 WSpin RwIdle)"
    by (rule rw_next) (use w_call [of 0 3 "?s 0 0 RwIdle RwIdle"] in \<open>simp add: fun_upd_twist\<close>)
  then have "rw_reach 3 (?s 1 0 Writing RwIdle)"
    by (rule rw_next) (use w_spin [of 0 3 "?s 0 0 WSpin RwIdle" 0 1] in \<open>simp add: amo_or_def fun_upd_twist\<close>)
  then have r: "rw_reach 3 (?s 1 1 Writing RSpin)"
    by (rule rw_next) (use r_enter [of 1 3 "?s 1 0 Writing RwIdle" 0 1] in \<open>simp add: amo_add_def fun_upd_twist\<close>)
  have "(\<exists>t. rw_step 3 (?s 1 1 Writing RSpin) t \<and> rw_at t 0 = Writing \<and> rw_at (?s 1 1 Writing RSpin) 2 \<noteq> Reading \<and> rw_at t 2 = Reading)
      \<longleftrightarrow> (2 :: nat) < 3 \<and> rw_at (?s 1 1 Writing RSpin) 2 = RwIdle \<and> (\<exists>k. rw_at (?s 1 1 Writing RSpin) k = RSpin)"
    by (rule conjunct1 [OF rw_reader_beside_writer [OF r]]) simp_all
  moreover have "\<exists>k. rw_at (?s 1 1 Writing RSpin) k = RSpin" by (intro exI [of _ 1]) simp
  ultimately obtain t where "rw_step 3 (?s 1 1 Writing RSpin) t" "rw_at t 0 = Writing" "rw_at t 2 = Reading" by auto
  with r show ?thesis by (intro exI [of _ "?s 1 1 Writing RSpin"] exI [of _ t]) simp
qed

end
