(* ===== verification/Lazylist.thy ===== *)
theory Lazylist
  imports Spin_Locks
begin

text \<open>
  The interval list of \<^verbatim>\<open>examples/ooorb/handlers/lazylist.h\<close>, which keeps the
  byte ranges received so far, as the header is compiled (without
  \<^verbatim>\<open>USE_LRSC\<close>), and the LR/SC variants of its two free-list operations. A
  node pointer is the index of the node: every pointer the code forms is
  \<^verbatim>\<open>&list->nodes[idx]\<close>. Dereferencing one outside the array is an error of the
  model, waiting for a lock that nobody releases another, and a loop that
  uses up its fuel a third. The code is run by one core; printing has no
  effect on the list.
\<close>

section \<open>Data\<close>

definition NUM_SEGMENTS :: u32 where "NUM_SEGMENTS = 128"
definition EOL :: u32 where "EOL = -1"
definition RANGE_START_ANY :: u32 where "RANGE_START_ANY = -1"

record lazylist_range =
  left :: i32
  right :: i32

record lazylist_node =
  idx :: u32
  nrange :: lazylist_range
  nlock :: u32
  next_idx :: u32

record lazylist =
  head_idx :: u32
  free_head_idx :: u32
  free_head_lock :: u32
  nodes :: "lazylist_node list"
  marks :: "u8 list"

datatype ll_error = OutOfBounds | Spins | NoFuel

section \<open>Array accesses and locks\<close>

definition node_at :: "lazylist \<Rightarrow> u32 \<Rightarrow> ll_error + lazylist_node" where
  "node_at l p = (if unat p < length (nodes l) then Inr (nodes l ! unat p) else Inl OutOfBounds)"

definition node_upd :: "lazylist \<Rightarrow> u32 \<Rightarrow> (lazylist_node \<Rightarrow> lazylist_node) \<Rightarrow> ll_error + lazylist" where
  "node_upd l p f = (if unat p < length (nodes l)
     then Inr (l\<lparr>nodes := (nodes l)[unat p := f (nodes l ! unat p)]\<rparr>) else Inl OutOfBounds)"

definition mark_at :: "lazylist \<Rightarrow> u32 \<Rightarrow> ll_error + u8" where
  "mark_at l i = (if unat i < length (marks l) then Inr (marks l ! unat i) else Inl OutOfBounds)"

definition mark_upd :: "lazylist \<Rightarrow> u32 \<Rightarrow> u8 \<Rightarrow> ll_error + lazylist" where
  "mark_upd l i v = (if unat i < length (marks l)
     then Inr (l\<lparr>marks := (marks l)[unat i := v]\<rparr>) else Inl OutOfBounds)"

definition lock_word :: "u32 \<Rightarrow> ll_error + u32" where
  "lock_word w = (case spin_lock_lock w of None \<Rightarrow> Inl Spins | Some (_, w') \<Rightarrow> Inr w')"

definition lock_node :: "lazylist \<Rightarrow> u32 \<Rightarrow> ll_error + lazylist" where
  "lock_node l p = bindE (node_at l p) (\<lambda>n. bindE (lock_word (nlock n)) (\<lambda>w.
     node_upd l p (\<lambda>n. n\<lparr>nlock := w\<rparr>)))"

definition unlock_node :: "lazylist \<Rightarrow> u32 \<Rightarrow> ll_error + lazylist" where
  "unlock_node l p = node_upd l p (\<lambda>n. n\<lparr>nlock := snd (spin_lock_unlock (nlock n))\<rparr>)"

section \<open>Initialisation\<close>

function lazylist_init_loop :: "u32 \<Rightarrow> u32 \<Rightarrow> lazylist \<Rightarrow> ll_error + lazylist" where
  "lazylist_init_loop i num_actual_nodes list =
     (if i < num_actual_nodes then
        bindE (node_upd list i (\<lambda>n. n\<lparr>idx := i, next_idx := i + 1\<rparr>)) (\<lambda>list.
        bindE (mark_upd list i 0) (\<lambda>list.
        bindE (node_upd list i (\<lambda>n. n\<lparr>nlock := 0\<rparr>)) (\<lambda>list.
          lazylist_init_loop (i + 1) num_actual_nodes list)))
      else Inr list)"
  by pat_completeness auto
termination
  by (relation "measure (\<lambda>(i, n, _). unat n - unat i)") (auto simp: unat_u32_succ word_less_nat_alt)

declare lazylist_init_loop.simps [simp del]

definition lazylist_init :: "lazylist \<Rightarrow> u32 \<Rightarrow> ll_error + lazylist" where
  "lazylist_init list capacity =
     (let num_actual_nodes = capacity - 2 in
      bindE (lazylist_init_loop 0 num_actual_nodes list) (\<lambda>list.
      bindE (node_upd list (num_actual_nodes - 1) (\<lambda>n. n\<lparr>next_idx := EOL\<rparr>)) (\<lambda>list.
      bindE (node_upd list num_actual_nodes (\<lambda>n. n\<lparr>idx := num_actual_nodes, nlock := 0,
               next_idx := num_actual_nodes + 1,
               nrange := \<lparr>left = INT32_MIN, right = INT32_MIN\<rparr>\<rparr>)) (\<lambda>list.
      bindE (node_upd list (num_actual_nodes + 1) (\<lambda>n. n\<lparr>idx := num_actual_nodes + 1, nlock := 0,
               next_idx := EOL,
               nrange := \<lparr>left = INT32_MAX, right = INT32_MAX\<rparr>\<rparr>)) (\<lambda>list.
      bindE (node_at list num_actual_nodes) (\<lambda>sentinel_left.
        Inr (list\<lparr>head_idx := idx sentinel_left, free_head_idx := 0, free_head_lock := 0\<rparr>)))))))"

section \<open>The free list\<close>

text \<open>\<open>None\<close> is the return value 0; \<open>Some p\<close> is 1 with \<^verbatim>\<open>*free_node\<close> set to \<open>p\<close>.\<close>

definition lazylist_get_free_node :: "lazylist \<Rightarrow> ll_error + u32 option \<times> lazylist" where
  "lazylist_get_free_node list =
     bindE (lock_word (free_head_lock list)) (\<lambda>w.
       let list = list\<lparr>free_head_lock := w\<rparr> in
       bindE (if free_head_lock list \<noteq> EOL
              then (let free_node = free_head_idx list in
                    bindE (node_at list free_node) (\<lambda>n.
                      Inr (Some free_node, list\<lparr>free_head_idx := next_idx n\<rparr>)))
              else Inr (None, list)) (\<lambda>(res, list).
         Inr (res, list\<lparr>free_head_lock := snd (spin_lock_unlock (free_head_lock list))\<rparr>)))"

definition lazylist_put_free_node :: "lazylist \<Rightarrow> u32 \<Rightarrow> ll_error + lazylist" where
  "lazylist_put_free_node list freed_node =
     bindE (lock_word (free_head_lock list)) (\<lambda>w.
       let list = list\<lparr>free_head_lock := w\<rparr> in
       bindE (node_upd list freed_node (\<lambda>n. n\<lparr>next_idx := free_head_idx list\<rparr>)) (\<lambda>list.
       bindE (node_at list freed_node) (\<lambda>n.
       let list = list\<lparr>free_head_idx := idx n\<rparr> in
         Inr (list\<lparr>free_head_lock := snd (spin_lock_unlock (free_head_lock list))\<rparr>))))"

text \<open>
  The same two operations with \<^verbatim>\<open>USE_LRSC\<close>. The head word is under a
  reservation; on a hart alone the store-conditional succeeds at once, so the
  loop of one attempt is kept as the recursion on the code it answers.
\<close>

fun lazylist_get_free_node_lrsc :: "nat \<Rightarrow> lazylist \<Rightarrow> ll_error + u32 option \<times> lazylist" where
  "lazylist_get_free_node_lrsc 0 list = Inl NoFuel"
| "lazylist_get_free_node_lrsc (Suc fuel) list =
     (let (curr_free_idx, w) = load_reserved \<lparr>contents = free_head_idx list, reserved = False, sc_error = 0\<rparr>
      in if curr_free_idx = EOL then Inr (None, list)
         else bindE (node_at list curr_free_idx) (\<lambda>n.
           let next_free_idx = next_idx n;
               (sc_success, w) = store_conditional w next_free_idx;
               list = list\<lparr>free_head_idx := contents w\<rparr>
           in if sc_success \<noteq> 0 then lazylist_get_free_node_lrsc fuel list
              else Inr (Some curr_free_idx, list)))"

fun lazylist_put_free_node_lrsc :: "nat \<Rightarrow> lazylist \<Rightarrow> u32 \<Rightarrow> ll_error + lazylist" where
  "lazylist_put_free_node_lrsc 0 list freed_node = Inl NoFuel"
| "lazylist_put_free_node_lrsc (Suc fuel) list freed_node =
     (let (curr_free_idx, w) = load_reserved \<lparr>contents = free_head_idx list, reserved = False, sc_error = 0\<rparr>
      in bindE (node_upd list freed_node (\<lambda>n. n\<lparr>next_idx := curr_free_idx\<rparr>)) (\<lambda>list.
         bindE (node_at list freed_node) (\<lambda>n.
           let (sc_success, w) = store_conditional w (idx n);
               list = list\<lparr>free_head_idx := contents w\<rparr>
           in if sc_success \<noteq> 0 then lazylist_put_free_node_lrsc fuel list freed_node
              else Inr list)))"

section \<open>Search\<close>

fun find_pred_loop ::
    "nat \<Rightarrow> lazylist \<Rightarrow> lazylist_range \<Rightarrow> u32 \<Rightarrow> u32 \<Rightarrow> ll_error + u32 \<times> u32" where
  "find_pred_loop 0 list rg pred_p curr_p = Inl NoFuel"
| "find_pred_loop (Suc fuel) list rg pred_p curr_p =
     bindE (node_at list curr_p) (\<lambda>n.
       if right (nrange n) <s left rg then find_pred_loop fuel list rg curr_p (next_idx n)
       else Inr (pred_p, curr_p))"

text \<open>\<open>None\<close> is the return value 0 (an overlap), \<open>Some (pred_p, curr_p)\<close> is 1.\<close>

definition lazylist_find_pred ::
    "nat \<Rightarrow> lazylist \<Rightarrow> lazylist_range \<Rightarrow> ll_error + (u32 \<times> u32) option" where
  "lazylist_find_pred fuel list rg =
     bindE (find_pred_loop fuel list rg (head_idx list) (head_idx list)) (\<lambda>(pred_p, curr_p).
     bindE (node_at list curr_p) (\<lambda>n.
       if left (nrange n) \<le>s right rg then Inr None else Inr (Some (pred_p, curr_p))))"

text \<open>The conjunction is evaluated left to right and stops at the first false conjunct.\<close>

definition lazylist_validate :: "lazylist \<Rightarrow> u32 \<Rightarrow> u32 \<Rightarrow> ll_error + bool" where
  "lazylist_validate list pred_p curr_p =
     bindE (node_at list pred_p) (\<lambda>np.
     bindE (mark_at list (idx np)) (\<lambda>mp.
       if mp \<noteq> 0 then Inr False else
       bindE (node_at list curr_p) (\<lambda>nc.
       bindE (mark_at list (idx nc)) (\<lambda>mc.
         if mc \<noteq> 0 then Inr False else Inr (next_idx np = idx nc)))))"

section \<open>Insertion\<close>

text \<open>
  What runs between the two locks once the pair is validated: the error flag,
  the node to recycle and the list.
\<close>

definition insert_link ::
    "lazylist \<Rightarrow> lazylist_range \<Rightarrow> u32 \<Rightarrow> u32 \<Rightarrow> ll_error + u32 \<times> u32 option \<times> lazylist" where
  "insert_link list rg pred_node curr_node =
     bindE (node_at list pred_node) (\<lambda>np.
     bindE (node_at list curr_node) (\<lambda>nc.
     let connects_left = (right (nrange np) + 1 = left rg \<and> INT32_MIN <s left (nrange np));
         connects_right = (right rg + 1 = left (nrange nc) \<and> left (nrange nc) <s INT32_MAX)
     in if connects_left \<and> connects_right then
          bindE (node_upd list pred_node (\<lambda>n. n\<lparr>nrange := (nrange n)\<lparr>right := right (nrange nc)\<rparr>\<rparr>)) (\<lambda>list.
          bindE (mark_upd list (idx nc) 1) (\<lambda>list.
          bindE (node_upd list pred_node (\<lambda>n. n\<lparr>next_idx := next_idx nc\<rparr>)) (\<lambda>list.
            Inr (0, Some curr_node, list))))
        else if connects_left then
          bindE (node_upd list pred_node (\<lambda>n. n\<lparr>nrange := (nrange n)\<lparr>right := right rg\<rparr>\<rparr>)) (\<lambda>list.
            Inr (0, None, list))
        else if connects_right then
          bindE (node_upd list curr_node (\<lambda>n. n\<lparr>nrange := (nrange n)\<lparr>left := left rg\<rparr>\<rparr>)) (\<lambda>list.
            Inr (0, None, list))
        else
          bindE (lazylist_get_free_node list) (\<lambda>(got, list).
            case got of
              None \<Rightarrow> Inr (1, None, list)
            | Some new_node \<Rightarrow>
                bindE (node_upd list new_node (\<lambda>n. n\<lparr>nrange := rg\<rparr>)) (\<lambda>list.
                bindE (node_at list new_node) (\<lambda>nn.
                bindE (mark_upd list (idx nn) 0) (\<lambda>list.
                bindE (node_upd list new_node (\<lambda>n. n\<lparr>nlock := 0, next_idx := idx nc\<rparr>)) (\<lambda>list.
                bindE (node_upd list pred_node (\<lambda>n. n\<lparr>next_idx := idx nn\<rparr>)) (\<lambda>list.
                  Inr (0, None, list)))))))))"

text \<open>
  The retry loop. With one core a failed validation changes nothing, so it is
  repeated for ever: the loop has fuel of its own beside the search's.
\<close>

fun insert_loop ::
    "nat \<Rightarrow> nat \<Rightarrow> lazylist \<Rightarrow> lazylist_range \<Rightarrow> ll_error + u32 \<times> lazylist" where
  "insert_loop fuel 0 list rg = Inl NoFuel"
| "insert_loop fuel (Suc tries) list rg =
     bindE (lazylist_find_pred fuel list rg) (\<lambda>found.
       case found of
         None \<Rightarrow> Inr (0, list)
       | Some (pred_node, curr_node) \<Rightarrow>
           bindE (lock_node list pred_node) (\<lambda>list.
           bindE (lock_node list curr_node) (\<lambda>list.
           bindE (lazylist_validate list pred_node curr_node) (\<lambda>valid.
             if valid then
               bindE (insert_link list rg pred_node curr_node) (\<lambda>(error, to_delete, list).
               bindE (unlock_node list curr_node) (\<lambda>list.
               bindE (unlock_node list pred_node) (\<lambda>list.
                 case to_delete of
                   None \<Rightarrow> Inr (error, list)
                 | Some freed \<Rightarrow> bindE (lazylist_put_free_node list freed) (\<lambda>list. Inr (error, list)))))
             else
               bindE (unlock_node list curr_node) (\<lambda>list.
               bindE (unlock_node list pred_node) (\<lambda>list.
                 insert_loop fuel tries list rg))))))"

definition lazylist_insert :: "nat \<Rightarrow> lazylist \<Rightarrow> lazylist_range \<Rightarrow> ll_error + u32 \<times> lazylist" where
  "lazylist_insert fuel list rg = insert_loop fuel fuel list rg"

section \<open>Removal from the front\<close>

text \<open>\<open>None\<close> is the return value 0, \<open>Some rg\<close> is 1 with \<^verbatim>\<open>*range\<close> set.\<close>

fun pop_front_loop ::
    "nat \<Rightarrow> lazylist \<Rightarrow> u32 \<Rightarrow> ll_error + lazylist_range option \<times> lazylist" where
  "pop_front_loop 0 list range_left = Inl NoFuel"
| "pop_front_loop (Suc tries) list range_left =
     (if head_idx list = EOL then Inr (None, list) else
      let head_sentinel = head_idx list in
      bindE (node_at list head_sentinel) (\<lambda>nh.
      let front = next_idx nh in
      bindE (node_at list front) (\<lambda>nf.
      let front_next = next_idx nf in
      if left (nrange nf) = INT32_MAX then Inr (None, list)
      else if range_left \<noteq> RANGE_START_ANY \<and> left (nrange nf) \<noteq> range_left then Inr (None, list)
      else
        bindE (lock_node list front) (\<lambda>list.
        bindE (lock_node list front_next) (\<lambda>list.
        bindE (lazylist_validate list front front_next) (\<lambda>valid.
        bindE (node_at list front) (\<lambda>nf.
          if valid \<and> (left (nrange nf) = range_left \<or> range_left = RANGE_START_ANY) then
            bindE (mark_upd list (idx nf) 1) (\<lambda>list.
            bindE (node_at list front_next) (\<lambda>nn.
            bindE (node_upd list head_sentinel (\<lambda>n. n\<lparr>next_idx := idx nn\<rparr>)) (\<lambda>list.
            bindE (unlock_node list front_next) (\<lambda>list.
            bindE (unlock_node list front) (\<lambda>list.
            bindE (lazylist_put_free_node list (idx nf)) (\<lambda>list.
              Inr (Some (nrange nf), list)))))))
          else
            bindE (unlock_node list front_next) (\<lambda>list.
            bindE (unlock_node list front) (\<lambda>list.
              pop_front_loop tries list range_left)))))))))"

definition lazylist_pop_front ::
    "nat \<Rightarrow> lazylist \<Rightarrow> u32 \<Rightarrow> ll_error + lazylist_range option \<times> lazylist" where
  "lazylist_pop_front fuel list range_left = pop_front_loop fuel list range_left"

end
