(* ===== verification/Lazylist_Rep.thy ===== *)
theory Lazylist_Rep
  imports Lazylist
begin

text \<open>
  What the interval list stands for: a canonical list of integer ranges
  (sorted, disjoint, never adjacent), hence the set of bytes received. The
  representation relation ties it to the node array: the used chain between
  the two sentinels, the free chain, and the cells both are made of. The
  operations of Lazylist are proved against it on every branch.
\<close>

section \<open>Canonical range lists\<close>

type_synonym ranges = "(int \<times> int) list"

definition canon :: "ranges \<Rightarrow> bool" where
  "canon rs \<longleftrightarrow> sorted_wrt (\<lambda>x y. snd x + 1 < fst y) rs
     \<and> (\<forall>x\<in>set rs. - 2147483648 < fst x \<and> fst x \<le> snd x \<and> snd x < 2147483647)"

definition bytes :: "ranges \<Rightarrow> int set" where
  "bytes rs = (\<Union>x\<in>set rs. {fst x..snd x})"

lemma bytes_simps [simp]: "bytes [] = {}" "bytes (x # rs) = {fst x..snd x} \<union> bytes rs"
  "bytes (rs @ qs) = bytes rs \<union> bytes qs"
  by (auto simp: bytes_def)

lemma canon_Nil [simp]: "canon []"
  by (simp add: canon_def)

lemma canon_Cons: "canon (x # rs) \<longleftrightarrow> - 2147483648 < fst x \<and> fst x \<le> snd x \<and> snd x < 2147483647
    \<and> (\<forall>y\<in>set rs. snd x + 1 < fst y) \<and> canon rs"
  by (auto simp: canon_def)

lemma canon_append: "canon (rs @ qs) \<longleftrightarrow> canon rs \<and> canon qs
    \<and> (\<forall>x\<in>set rs. \<forall>y\<in>set qs. snd x + 1 < fst y)"
  by (auto simp: canon_def sorted_wrt_append)

lemmas canon_simps = canon_Cons canon_append ball_Un

lemma canon_range: "canon rs \<Longrightarrow> x \<in> set rs \<Longrightarrow> - 2147483648 < fst x \<and> fst x \<le> snd x \<and> snd x < 2147483647"
  by (simp add: canon_def)

text \<open>The four ways a new range \<open>{l..r}\<close> goes in between its neighbours.\<close>

lemma canon_merge:
  assumes "canon (xs @ x # y # ys)"
  shows "canon (xs @ (fst x, snd y) # ys)"
  using assms by (auto simp: canon_simps)

lemma bytes_merge:
  assumes "canon (xs @ x # y # ys)" "snd x + 1 = l" "r + 1 = fst y" "l \<le> r"
  shows "bytes (xs @ (fst x, snd y) # ys) = bytes (xs @ x # y # ys) \<union> {l..r}"
proof -
  have "fst x \<le> snd x" "fst y \<le> snd y" using assms(1) by (simp_all add: canon_simps)
  then have "{fst x..snd y} = {fst x..snd x} \<union> {fst y..snd y} \<union> {l..r}"
    using assms(2-) by auto
  then show ?thesis by auto
qed

lemma canon_extend_right:
  assumes "canon (xs @ x # ys)" "snd x + 1 = l" "l \<le> r" "r < 2147483647" "\<forall>y\<in>set ys. r + 1 < fst y"
  shows "canon (xs @ (fst x, r) # ys)"
  using assms by (auto simp: canon_simps)

lemma bytes_extend_right:
  assumes "canon (xs @ x # ys)" "snd x + 1 = l" "l \<le> r"
  shows "bytes (xs @ (fst x, r) # ys) = bytes (xs @ x # ys) \<union> {l..r}"
proof -
  have "fst x \<le> snd x" using assms(1) by (simp add: canon_simps)
  then have "{fst x..r} = {fst x..snd x} \<union> {l..r}" using assms(2-) by auto
  then show ?thesis by auto
qed

lemma canon_extend_left:
  assumes "canon (xs @ y # ys)" "r + 1 = fst y" "l \<le> r" "- 2147483648 < l" "\<forall>x\<in>set xs. snd x + 1 < l"
  shows "canon (xs @ (l, snd y) # ys)"
  using assms by (auto simp: canon_simps)

lemma bytes_extend_left:
  assumes "canon (xs @ y # ys)" "r + 1 = fst y" "l \<le> r"
  shows "bytes (xs @ (l, snd y) # ys) = bytes (xs @ y # ys) \<union> {l..r}"
proof -
  have "fst y \<le> snd y" using assms(1) by (simp add: canon_simps)
  then have "{l..snd y} = {fst y..snd y} \<union> {l..r}" using assms(2-) by auto
  then show ?thesis by auto
qed

lemma canon_insert:
  assumes "canon (xs @ ys)" "- 2147483648 < l" "l \<le> r" "r < 2147483647"
    "\<forall>x\<in>set xs. snd x + 1 < l" "\<forall>y\<in>set ys. r + 1 < fst y"
  shows "canon (xs @ (l, r) # ys)"
  using assms by (auto simp: canon_simps)

text \<open>From the two neighbours to all ranges on their side.\<close>

lemma canon_gap_left:
  assumes "canon xs" "\<forall>x\<in>set xs. snd x < l" "xs = [] \<or> snd (last xs) + 1 \<noteq> l"
  shows "\<forall>x\<in>set xs. snd x + 1 < l"
proof (cases xs rule: rev_cases)
  case (snoc zs z)
  then have "snd z + 1 < l" "fst z \<le> snd z" "\<forall>x\<in>set zs. snd x + 1 < fst z"
    using assms by (auto simp: canon_simps)
  with snoc show ?thesis by fastforce
qed simp

lemma canon_gap_right:
  assumes "canon ys" "ys = [] \<or> r + 1 < fst (hd ys)"
  shows "\<forall>y\<in>set ys. r + 1 < fst y"
  using assms by (cases ys) (fastforce simp: canon_Cons)+

lemma bytes_disjoint:
  assumes "canon (xs @ ys)" "\<forall>x\<in>set xs. snd x < l" "ys = [] \<or> r < fst (hd ys)"
  shows "bytes (xs @ ys) \<inter> {l..r} = {}"
proof -
  have "\<forall>y\<in>set ys. r < fst y"
    using assms by (cases ys) (fastforce simp: canon_simps)+
  with assms(2) show ?thesis by (fastforce simp: bytes_def)
qed

lemma bytes_overlap:
  assumes "x \<in> set rs" "l \<le> snd x" "fst x \<le> r" "fst x \<le> snd x" "l \<le> r"
  shows "bytes rs \<inter> {l..r} \<noteq> {}"
proof -
  have "max l (fst x) \<in> bytes rs \<inter> {l..r}"
    using assms unfolding bytes_def by (auto intro!: bexI [of _ x])
  then show ?thesis by blast
qed

lemma bytes_gap_left:
  assumes "canon (xs @ ys)" "\<forall>x\<in>set xs. snd x + 1 < l" "ys = [] \<or> l \<le> fst (hd ys)"
  shows "l - 1 \<notin> bytes (xs @ ys)"
proof -
  have "\<forall>y\<in>set ys. l \<le> fst y"
    using assms by (cases ys) (fastforce simp: canon_simps)+
  with assms(2) show ?thesis by (fastforce simp: bytes_def)
qed

lemma bytes_gap_right:
  assumes "\<forall>x\<in>set xs. snd x \<le> r" "\<forall>y\<in>set ys. r + 1 < fst y"
  shows "r + 1 \<notin> bytes (xs @ ys)"
  using assms by (fastforce simp: bytes_def)

section \<open>Chains of indices\<close>

text \<open>\<open>chain nx a xs b\<close>: following \<open>nx\<close> from the index word \<open>a\<close> visits \<open>xs\<close> and ends at \<open>b\<close>.\<close>

fun chain :: "(nat \<Rightarrow> u32) \<Rightarrow> u32 \<Rightarrow> nat list \<Rightarrow> u32 \<Rightarrow> bool" where
  "chain nx a [] b \<longleftrightarrow> a = b"
| "chain nx a (x # xs) b \<longleftrightarrow> a = of_nat x \<and> chain nx (nx x) xs b"

lemma chain_append: "chain nx a (xs @ ys) b \<longleftrightarrow> (\<exists>m. chain nx a xs m \<and> chain nx m ys b)"
  by (induction xs arbitrary: a) auto

lemma chain_upd [simp]: "x \<notin> set xs \<Longrightarrow> chain (nx(x := v)) a xs b = chain nx a xs b"
  by (induction xs arbitrary: a) auto

lemma chain_next: "chain nx a (xs @ p # c # ys) b \<Longrightarrow> nx p = of_nat c"
  by (auto simp: chain_append)

lemma chain_remove:
  "chain nx a (xs @ p # c # ys) b \<Longrightarrow> distinct (xs @ p # c # ys) \<Longrightarrow>
    chain (nx(p := nx c)) a (xs @ p # ys) b"
  by (auto simp: chain_append)

lemma chain_insert:
  "chain nx a (xs @ p # c # ys) b \<Longrightarrow> distinct (xs @ p # c # ys) \<Longrightarrow> f \<notin> set (xs @ p # c # ys) \<Longrightarrow>
    chain (nx(f := of_nat c, p := of_nat f)) a (xs @ p # f # c # ys) b"
  by (auto simp: chain_append)

lemma chain_fun_cong: "(\<And>x. x \<in> set xs \<Longrightarrow> nx x = nx' x) \<Longrightarrow> chain nx a xs b = chain nx' a xs b"
  by (induction xs arbitrary: a) auto

section \<open>The representation relation\<close>

definition nx :: "lazylist \<Rightarrow> nat \<Rightarrow> u32" where
  "nx l i = next_idx (nodes l ! i)"

definition ends :: "lazylist \<Rightarrow> nat \<Rightarrow> int \<times> int" where
  "ends l i = (sint (left (nrange (nodes l ! i))), sint (right (nrange (nodes l ! i))))"

definition cells :: "lazylist \<Rightarrow> nat list \<Rightarrow> bool" where
  "cells l us \<longleftrightarrow> length (nodes l) = 130 \<and> length (marks l) = 128
     \<and> head_idx l = 126 \<and> free_head_lock l = 0
     \<and> (\<forall>i<128. idx (nodes l ! i) = of_nat i \<and> nlock (nodes l ! i) = 0)
     \<and> (\<forall>i<128. i \<in> set us \<or> 126 \<le> i \<longrightarrow> marks l ! i = 0)
     \<and> ends l 126 = (- 2147483648, - 2147483648) \<and> ends l 127 = (2147483647, 2147483647)"

text \<open>\<open>us\<close> are the used nodes in list order, \<open>fs\<close> the free ones.\<close>

definition links :: "(nat \<Rightarrow> u32) \<Rightarrow> u32 \<Rightarrow> nat list \<Rightarrow> nat list \<Rightarrow> bool" where
  "links nxt fh us fs \<longleftrightarrow> chain nxt 126 (126 # us @ [127]) EOL \<and> chain nxt fh fs EOL
     \<and> distinct (us @ fs) \<and> set (us @ fs) = {..<126}"

definition linv :: "lazylist \<Rightarrow> nat list \<Rightarrow> nat list \<Rightarrow> bool" where
  "linv l us fs \<longleftrightarrow> cells l us \<and> links (nx l) (free_head_idx l) us fs \<and> canon (map (ends l) us)"

definition ll_rep :: "lazylist \<Rightarrow> ranges \<Rightarrow> bool" where
  "ll_rep l rs \<longleftrightarrow> (\<exists>us fs. linv l us fs \<and> rs = map (ends l) us)"

lemma links_lt:
  assumes "links nxt fh us fs"
  shows "x \<in> set us \<Longrightarrow> x < 126" "x \<in> set fs \<Longrightarrow> x < 126"
proof -
  have "set us \<union> set fs = {..<126}" using assms by (simp add: links_def)
  then show "x \<in> set us \<Longrightarrow> x < 126" "x \<in> set fs \<Longrightarrow> x < 126" by blast+
qed

lemma links_card:
  assumes "links nxt fh us fs"
  shows "length us + length fs = 126"
proof -
  have "card (set (us @ fs)) = length (us @ fs)"
    using assms by (intro distinct_card) (simp add: links_def)
  then show ?thesis using assms by (simp add: links_def)
qed

lemma links_distinct_full:
  assumes "links nxt fh us fs"
  shows "distinct (126 # us @ [127])"
proof -
  have "126 \<notin> set us" "127 \<notin> set us" using links_lt(1) [OF assms] by force+
  then show ?thesis using assms by (simp add: links_def)
qed

section \<open>One access under the representation\<close>

lemma unat_of_nat_128 [simp]: "i < 128 \<Longrightarrow> unat (of_nat i :: u32) = i"
  by (simp add: unat_of_nat take_bit_nat_eq_self)

lemma of_nat_u32_inj: "i < 128 \<Longrightarrow> j < 128 \<Longrightarrow> (of_nat i :: u32) = of_nat j \<longleftrightarrow> i = j"
  by (metis unat_of_nat_128)

lemma unat_126_127 [simp]: "unat (126 :: u32) = 126" "unat (127 :: u32) = 127"
  by simp_all

lemma node_at_ok: "length (nodes l) = 130 \<Longrightarrow> i < 128 \<Longrightarrow> node_at l (of_nat i) = Inr (nodes l ! i)"
  by (simp add: node_at_def)

lemma node_upd_ok: "length (nodes l) = 130 \<Longrightarrow> i < 128 \<Longrightarrow>
    node_upd l (of_nat i) f = Inr (l\<lparr>nodes := (nodes l)[i := f (nodes l ! i)]\<rparr>)"
  by (simp add: node_upd_def)

lemma mark_at_ok: "length (marks l) = 128 \<Longrightarrow> i < 128 \<Longrightarrow> mark_at l (of_nat i) = Inr (marks l ! i)"
  by (simp add: mark_at_def)

lemma mark_upd_ok: "length (marks l) = 128 \<Longrightarrow> i < 128 \<Longrightarrow>
    mark_upd l (of_nat i) v = Inr (l\<lparr>marks := (marks l)[i := v]\<rparr>)"
  by (simp add: mark_upd_def)

lemma lock_word_0 [simp]: "lock_word 0 = Inr 1"
  by (simp add: lock_word_def spin_lock_lock_eq)

lemma lock_node_ok: "length (nodes l) = 130 \<Longrightarrow> i < 128 \<Longrightarrow> nlock (nodes l ! i) = 0 \<Longrightarrow>
    lock_node l (of_nat i) = Inr (l\<lparr>nodes := (nodes l)[i := (nodes l ! i)\<lparr>nlock := 1\<rparr>]\<rparr>)"
  by (simp add: lock_node_def node_at_ok node_upd_ok)

lemma unlock_node_ok: "length (nodes l) = 130 \<Longrightarrow> i < 128 \<Longrightarrow>
    unlock_node l (of_nat i) = Inr (l\<lparr>nodes := (nodes l)[i := (nodes l ! i)\<lparr>nlock := 0\<rparr>]\<rparr>)"
  by (simp add: unlock_node_def node_upd_ok)

lemmas access_ok = node_at_ok node_upd_ok mark_at_ok mark_upd_ok lock_node_ok unlock_node_ok

lemma cellsD:
  assumes "cells l us"
  shows "length (nodes l) = 130" "length (marks l) = 128" "head_idx l = 126" "free_head_lock l = 0"
    "i < 128 \<Longrightarrow> idx (nodes l ! i) = of_nat i" "i < 128 \<Longrightarrow> nlock (nodes l ! i) = 0"
    "i < 128 \<Longrightarrow> i \<in> set us \<or> 126 \<le> i \<Longrightarrow> marks l ! i = 0"
  using assms by (auto simp: cells_def)

section \<open>The search\<close>

text \<open>
  The suffix still to visit is never empty: the right sentinel stops the loop.
\<close>

lemma find_pred_loop_ok:
  assumes "length (nodes l) = 130" "chain (nx l) a (cs @ [127]) EOL" "\<forall>c\<in>set cs. c < 128"
    "ends l 127 = (2147483647, 2147483647)" "length cs < fuel" "p < 128"
  shows "\<exists>xs ys. cs = xs @ ys \<and> (\<forall>x\<in>set xs. snd (ends l x) < sint (left rg))
     \<and> (ys \<noteq> [] \<longrightarrow> sint (left rg) \<le> snd (ends l (hd ys)))
     \<and> find_pred_loop fuel l rg (of_nat p) a
        = Inr (of_nat (last (p # xs)), of_nat (hd (ys @ [127])))"
  using assms(2,3,5,6)
proof (induction cs arbitrary: a fuel p)
  case Nil
  then obtain n where n: "fuel = Suc n" by (cases fuel) auto
  have "sint (right (nrange (nodes l ! 127))) = 2147483647"
    using assms(4) by (simp add: ends_def)
  then have "\<not> right (nrange (nodes l ! 127)) <s left rg"
    using sint_i32_bounds(2) [of "left rg"] by (simp add: sless_i32_iff)
  with Nil assms(1) show ?case
    by (simp add: n node_at_ok [of l 127, simplified])
next
  case (Cons c cs)
  then obtain n where n: "fuel = Suc n" by (cases fuel) auto
  have a: "a = of_nat c" and ch: "chain (nx l) (nx l c) (cs @ [127]) EOL" and c: "c < 128"
    using Cons.prems by auto
  show ?case
  proof (cases "snd (ends l c) < sint (left rg)")
    case True
    from Cons.IH [OF ch _ _ c, of n] Cons.prems n obtain xs ys where
      IH: "cs = xs @ ys" "\<forall>x\<in>set xs. snd (ends l x) < sint (left rg)"
        "ys \<noteq> [] \<longrightarrow> sint (left rg) \<le> snd (ends l (hd ys))"
        "find_pred_loop n l rg (of_nat c) (nx l c)
           = Inr (of_nat (last (c # xs)), of_nat (hd (ys @ [127])))"
      by auto
    show ?thesis
      by (rule exI [of _ "c # xs"], rule exI [of _ ys])
        (use IH True a c assms(1) in \<open>simp add: n node_at_ok sless_i32_iff ends_def nx_def\<close>)
  next
    case False
    show ?thesis
      by (rule exI [of _ "[]"], rule exI [of _ "c # cs"])
        (use False a c assms(1) in \<open>simp add: n node_at_ok sless_i32_iff ends_def\<close>)
  qed
qed

lemma find_pred_ok:
  assumes "linv l us fs" "- 2147483648 < sint (left rg)" "length us + 1 < fuel"
  obtains u1 u2 where "us = u1 @ u2" "\<forall>x\<in>set u1. snd (ends l x) < sint (left rg)"
    "u2 \<noteq> [] \<longrightarrow> sint (left rg) \<le> snd (ends l (hd u2))"
    "lazylist_find_pred fuel l rg = Inr (if fst (ends l (hd (u2 @ [127]))) \<le> sint (right rg) then None
       else Some (of_nat (last (126 # u1)), of_nat (hd (u2 @ [127]))))"
proof -
  have c: "cells l us" and lk: "links (nx l) (free_head_idx l) us fs"
    using assms(1) by (simp_all add: linv_def)
  obtain n where n: "fuel = Suc n" "length us < n"
    using assms(3) by (cases fuel) auto
  have us: "\<forall>x\<in>set us. x < 128" using links_lt(1) [OF lk] by force
  have e: "ends l 126 = (- 2147483648, - 2147483648)" "ends l 127 = (2147483647, 2147483647)"
    using c by (simp_all add: cells_def)
  then have first: "right (nrange (nodes l ! 126)) <s left rg"
    using assms(2) by (simp add: sless_i32_iff ends_def)
  have "chain (nx l) (nx l 126) (us @ [127]) EOL"
    using lk by (simp add: links_def)
  from find_pred_loop_ok [OF cellsD(1) [OF c] this us e(2) n(2), of 126 rg] obtain u1 u2 where
    u: "us = u1 @ u2" "\<forall>x\<in>set u1. snd (ends l x) < sint (left rg)"
      "u2 \<noteq> [] \<longrightarrow> sint (left rg) \<le> snd (ends l (hd u2))"
      "find_pred_loop n l rg (of_nat 126) (nx l 126)
        = Inr (of_nat (last (126 # u1)), of_nat (hd (u2 @ [127])))"
    by auto
  have "find_pred_loop fuel l rg 126 126 = Inr (of_nat (last (126 # u1)), of_nat (hd (u2 @ [127])))"
    using u(4) first cellsD(1) [OF c] node_at_ok [of l 126] by (simp add: n nx_def)
  moreover have "hd (u2 @ [127]) < 128"
    using us u(1) by (cases u2) auto
  ultimately have "lazylist_find_pred fuel l rg
      = Inr (if fst (ends l (hd (u2 @ [127]))) \<le> sint (right rg) then None
       else Some (of_nat (last (126 # u1)), of_nat (hd (u2 @ [127]))))"
    using cellsD(1,3) [OF c] by (simp add: lazylist_find_pred_def node_at_ok sle_i32_iff ends_def)
  with u that show thesis by blast
qed

section \<open>The critical section of an insertion\<close>

text \<open>
  The two nodes are locked, validated and unlocked again around \<open>insert_link\<close>;
  \<open>framed\<close> says what no branch changes.
\<close>

definition framed :: "lazylist \<Rightarrow> lazylist \<Rightarrow> bool" where
  "framed l l' \<longleftrightarrow> length (nodes l') = 130 \<and> length (marks l') = 128 \<and> head_idx l' = 126
     \<and> free_head_lock l' = 0
     \<and> (\<forall>i<128. idx (nodes l' ! i) = of_nat i \<and> nlock (nodes l' ! i) = 0)"

definition locked_pair :: "lazylist \<Rightarrow> nat \<Rightarrow> nat \<Rightarrow> lazylist" where
  "locked_pair l p c = l\<lparr>nodes := (nodes l)[p := (nodes l ! p)\<lparr>nlock := 1\<rparr>, c := (nodes l ! c)\<lparr>nlock := 1\<rparr>]\<rparr>"

definition unlocked_pair :: "lazylist \<Rightarrow> nat \<Rightarrow> nat \<Rightarrow> lazylist" where
  "unlocked_pair l p c = l\<lparr>nodes := (nodes l)[p := (nodes l ! p)\<lparr>nlock := 0\<rparr>, c := (nodes l ! c)\<lparr>nlock := 0\<rparr>]\<rparr>"

lemma lock_pair:
  assumes "cells l us" "p < 128" "c < 128" "p \<noteq> c"
  shows "bindE (lock_node l (of_nat p)) (\<lambda>l. bindE (lock_node l (of_nat c)) f) = f (locked_pair l p c)"
  using assms cellsD [OF assms(1)]
  by (simp add: lock_node_ok locked_pair_def)

lemma unlock_pair:
  assumes "length (nodes l) = 130" "p < 128" "c < 128" "p \<noteq> c"
  shows "bindE (unlock_node l (of_nat c)) (\<lambda>l. bindE (unlock_node l (of_nat p)) f) = f (unlocked_pair l p c)"
  using assms by (simp add: unlock_node_ok unlocked_pair_def list_update_swap)

lemma validate_pair:
  assumes "cells l us" "p < 128" "c < 128" "p \<noteq> c" "p \<in> set us \<or> 126 \<le> p" "c \<in> set us \<or> 126 \<le> c"
    "nx l p = of_nat c"
  shows "lazylist_validate (locked_pair l p c) (of_nat p) (of_nat c) = Inr True"
  using assms cellsD [OF assms(1)]
  by (simp add: lazylist_validate_def locked_pair_def node_at_ok mark_at_ok nx_def)

lemma insert_loop_pair:
  assumes "cells l us" "p < 128" "c < 128" "p \<noteq> c" "p \<in> set us \<or> 126 \<le> p" "c \<in> set us \<or> 126 \<le> c"
    "nx l p = of_nat c" "lazylist_find_pred fuel l rg = Inr (Some (of_nat p, of_nat c))"
  shows "insert_loop fuel (Suc tries) l rg =
     bindE (insert_link (locked_pair l p c) rg (of_nat p) (of_nat c)) (\<lambda>(error, to_delete, l).
       bindE (unlock_node l (of_nat c)) (\<lambda>l.
       bindE (unlock_node l (of_nat p)) (\<lambda>l.
         case to_delete of
           None \<Rightarrow> Inr (error, l)
         | Some freed \<Rightarrow> bindE (lazylist_put_free_node l freed) (\<lambda>l. Inr (error, l)))))"
  by (simp add: assms(8) lock_pair [OF assms(1-4)] validate_pair [OF assms(1-7)])

text \<open>The pair an insertion works on: consecutive in the used chain, found by the search.\<close>

definition found_pair :: "nat \<Rightarrow> lazylist \<Rightarrow> nat list \<Rightarrow> lazylist_range \<Rightarrow> nat \<Rightarrow> nat \<Rightarrow> bool" where
  "found_pair fuel l us rg p c \<longleftrightarrow> cells l us \<and> p < 128 \<and> c < 128 \<and> p \<noteq> c
     \<and> (p \<in> set us \<or> 126 \<le> p) \<and> (c \<in> set us \<or> 126 \<le> c) \<and> nx l p = of_nat c
     \<and> lazylist_find_pred fuel l rg = Inr (Some (of_nat p, of_nat c))"

definition connects_left :: "lazylist \<Rightarrow> lazylist_range \<Rightarrow> nat \<Rightarrow> bool" where
  "connects_left l rg p \<longleftrightarrow> right (nrange (nodes l ! p)) + 1 = left rg
     \<and> INT32_MIN <s left (nrange (nodes l ! p))"

definition connects_right :: "lazylist \<Rightarrow> lazylist_range \<Rightarrow> nat \<Rightarrow> bool" where
  "connects_right l rg c \<longleftrightarrow> right rg + 1 = left (nrange (nodes l ! c))
     \<and> left (nrange (nodes l ! c)) <s INT32_MAX"

lemma insert_loop_found:
  assumes "found_pair fuel l us rg p c"
  shows "insert_loop fuel (Suc tries) l rg =
     bindE (insert_link (locked_pair l p c) rg (of_nat p) (of_nat c)) (\<lambda>(error, to_delete, l).
       bindE (unlock_node l (of_nat c)) (\<lambda>l.
       bindE (unlock_node l (of_nat p)) (\<lambda>l.
         case to_delete of
           None \<Rightarrow> Inr (error, l)
         | Some freed \<Rightarrow> bindE (lazylist_put_free_node l freed) (\<lambda>l. Inr (error, l)))))"
  using assms by (intro insert_loop_pair [of l us]) (simp_all add: found_pair_def)

lemma locked_pair_simps:
  assumes "cells l us" "p < 128" "c < 128" "p \<noteq> c"
  shows "length (nodes (locked_pair l p c)) = 130" "length (marks (locked_pair l p c)) = 128"
    "nodes (locked_pair l p c) ! p = (nodes l ! p)\<lparr>nlock := 1\<rparr>"
    "nodes (locked_pair l p c) ! c = (nodes l ! c)\<lparr>nlock := 1\<rparr>"
    "i \<noteq> p \<Longrightarrow> i \<noteq> c \<Longrightarrow> nodes (locked_pair l p c) ! i = nodes l ! i"
    "marks (locked_pair l p c) = marks l" "free_head_lock (locked_pair l p c) = 0"
    "free_head_idx (locked_pair l p c) = free_head_idx l" "head_idx (locked_pair l p c) = head_idx l"
  using assms cellsD [OF assms(1)] by (simp_all add: locked_pair_def)

lemma put_free_ok:
  assumes "length (nodes l) = 130" "c < 128" "free_head_lock l = 0" "idx (nodes l ! c) = of_nat c"
  shows "lazylist_put_free_node l (of_nat c) = Inr (l\<lparr>nodes := (nodes l)[c := (nodes l ! c)\<lparr>next_idx := free_head_idx l\<rparr>],
     free_head_idx := of_nat c, free_head_lock := 0\<rparr>)"
  using assms by (simp add: lazylist_put_free_node_def node_at_ok node_upd_ok Let_def)

lemma branch_both:
  assumes f: "found_pair fuel l us rg p c" and cl: "connects_left l rg p" and cr: "connects_right l rg c"
  shows "\<exists>l'. insert_loop fuel (Suc tries) l rg = Inr (0, l') \<and> framed l l'
    \<and> nx l' = (nx l)(p := nx l c, c := free_head_idx l) \<and> free_head_idx l' = of_nat c
    \<and> ends l' = (ends l)(p := (fst (ends l p), snd (ends l c)))
    \<and> marks l' = (marks l)[c := 1]"
proof -
  have c: "cells l us" "p < 128" "c < 128" "p \<noteq> c" using f by (simp_all add: found_pair_def)
  note L = locked_pair_simps [OF c] and C = cellsD [OF c(1)]
    and K = cl [unfolded connects_left_def] cr [unfolded connects_right_def]
  show ?thesis
    unfolding insert_loop_found [OF f]
    using c L C
    apply (simp add: insert_link_def node_at_ok node_upd_ok mark_upd_ok K unlock_node_ok put_free_ok nth_list_update framed_def)
    apply (auto simp: nx_def ends_def fun_eq_iff nth_list_update locked_pair_def)
    done
qed

lemma branch_left:
  assumes f: "found_pair fuel l us rg p c" and cl: "connects_left l rg p" and cr: "\<not> connects_right l rg c"
  shows "\<exists>l'. insert_loop fuel (Suc tries) l rg = Inr (0, l') \<and> framed l l'
    \<and> nx l' = nx l \<and> free_head_idx l' = free_head_idx l
    \<and> ends l' = (ends l)(p := (fst (ends l p), sint (right rg)))
    \<and> marks l' = marks l"
proof -
  have c: "cells l us" "p < 128" "c < 128" "p \<noteq> c" using f by (simp_all add: found_pair_def)
  note L = locked_pair_simps [OF c] and C = cellsD [OF c(1)]
    and K = cl [unfolded connects_left_def] cr [unfolded connects_right_def]
  show ?thesis
    unfolding insert_loop_found [OF f]
    using c L C
    apply (simp add: insert_link_def node_at_ok node_upd_ok mark_upd_ok K unlock_node_ok put_free_ok nth_list_update framed_def)
    apply (auto simp: nx_def ends_def fun_eq_iff nth_list_update locked_pair_def)
    done
qed

lemma branch_right:
  assumes f: "found_pair fuel l us rg p c" and cl: "\<not> connects_left l rg p" and cr: "connects_right l rg c"
  shows "\<exists>l'. insert_loop fuel (Suc tries) l rg = Inr (0, l') \<and> framed l l'
    \<and> nx l' = nx l \<and> free_head_idx l' = free_head_idx l
    \<and> ends l' = (ends l)(c := (sint (left rg), snd (ends l c)))
    \<and> marks l' = marks l"
proof -
  have c: "cells l us" "p < 128" "c < 128" "p \<noteq> c" using f by (simp_all add: found_pair_def)
  note L = locked_pair_simps [OF c] and C = cellsD [OF c(1)]
    and K = cl [unfolded connects_left_def] cr [unfolded connects_right_def]
  show ?thesis
    unfolding insert_loop_found [OF f]
    using c L C
    apply (simp add: insert_link_def node_at_ok node_upd_ok mark_upd_ok K unlock_node_ok put_free_ok nth_list_update framed_def)
    apply (auto simp: nx_def ends_def fun_eq_iff nth_list_update locked_pair_def)
    done
qed

lemma EOL_out [simp]: "unat EOL = 4294967295"
  by (simp add: EOL_def unsigned_minus_1_eq_mask mask_eq_exp_minus_1)

lemma get_free_ok:
  assumes "length (nodes l) = 130" "f < 128" "free_head_lock l = 0" "free_head_idx l = of_nat f"
  shows "lazylist_get_free_node l = Inr (Some (of_nat f), l\<lparr>free_head_idx := next_idx (nodes l ! f),
     free_head_lock := 0\<rparr>)"
  using assms by (simp add: lazylist_get_free_node_def node_at_ok EOL_def)

lemma get_free_exhausted:
  assumes "length (nodes l) = 130" "free_head_lock l = 0" "free_head_idx l = EOL"
  shows "lazylist_get_free_node l = Inl OutOfBounds"
  using assms by (simp add: lazylist_get_free_node_def node_at_def Let_def) (simp add: EOL_def)

lemma branch_new:
  assumes f: "found_pair fuel l us rg p c" and cl: "\<not> connects_left l rg p" and cr: "\<not> connects_right l rg c"
    and g: "free_head_idx l = of_nat g" "g < 126" "g \<noteq> p" "g \<noteq> c"
  shows "\<exists>l'. insert_loop fuel (Suc tries) l rg = Inr (0, l') \<and> framed l l'
    \<and> nx l' = (nx l)(g := of_nat c, p := of_nat g) \<and> free_head_idx l' = nx l g
    \<and> ends l' = (ends l)(g := (sint (left rg), sint (right rg)))
    \<and> marks l' = (marks l)[g := 0]"
proof -
  have c: "cells l us" "p < 128" "c < 128" "p \<noteq> c" using f by (simp_all add: found_pair_def)
  have g128: "g < 128" using g(2) by simp
  note L = locked_pair_simps [OF c] and C = cellsD [OF c(1)]
    and K = cl [unfolded connects_left_def] cr [unfolded connects_right_def]
  show ?thesis
    unfolding insert_loop_found [OF f]
    using c L C g g128
    apply (simp add: insert_link_def node_at_ok node_upd_ok mark_upd_ok K unlock_node_ok
        get_free_ok [of "locked_pair l p c" g] nth_list_update framed_def)
    apply (auto simp: nx_def ends_def fun_eq_iff nth_list_update locked_pair_def)
    done
qed

lemma branch_exhausted:
  assumes f: "found_pair fuel l us rg p c" and cl: "\<not> connects_left l rg p" and cr: "\<not> connects_right l rg c"
    and g: "free_head_idx l = EOL"
  shows "insert_loop fuel (Suc tries) l rg = Inl OutOfBounds"
proof -
  have c: "cells l us" "p < 128" "c < 128" "p \<noteq> c" using f by (simp_all add: found_pair_def)
  note L = locked_pair_simps [OF c] and C = cellsD [OF c(1)]
    and K = cl [unfolded connects_left_def] cr [unfolded connects_right_def]
  show ?thesis
    unfolding insert_loop_found [OF f]
    using c L C g
    by (simp add: insert_link_def node_at_ok K get_free_exhausted)
qed

section \<open>Relinking\<close>

lemma full_split: "126 # (u1 @ u2) @ [127] = butlast (126 # u1) @ last (126 # u1) # hd (u2 @ [127]) # tl (u2 @ [127])"
proof -
  have "126 # u1 = butlast (126 # u1) @ [last (126 # u1)]" by (rule append_butlast_last_id [symmetric]) simp
  moreover have "u2 @ [127] = hd (u2 @ [127]) # tl (u2 @ [127])" by (cases u2) simp_all
  ultimately show ?thesis
    by (metis append.assoc append_Cons append_Nil)
qed

lemma pair_facts:
  assumes "links nxt fh (u1 @ u2) fs" "p = last (126 # u1)" "c = hd (u2 @ [127])"
  shows "p < 128" "c < 128" "p \<noteq> c" "p \<in> set u1 \<or> 126 \<le> p" "c \<in> set u2 \<or> 126 \<le> c"
    "nxt p = of_nat c" "p \<notin> set fs" "c \<notin> set fs"
proof -
  let ?L = "126 # (u1 @ u2) @ [127]"
  have pu: "p = 126 \<or> p \<in> set u1" and cu: "c = 127 \<or> c \<in> set u2"
    using assms(2,3) by (cases u1 rule: rev_cases; simp; fail) (cases u2; use assms(3) in simp)
  have lt: "\<And>x. x \<in> set (u1 @ u2) \<Longrightarrow> x < 126" "\<And>x. x \<in> set fs \<Longrightarrow> x < 126"
    using links_lt [OF assms(1)] by simp_all
  show "p < 128" "c < 128" using pu cu lt by force+
  show "p \<in> set u1 \<or> 126 \<le> p" "c \<in> set u2 \<or> 126 \<le> c" using pu cu by auto
  have "distinct ?L" using links_distinct_full [OF assms(1)] by simp
  then show "p \<noteq> c" unfolding full_split assms(2,3) [symmetric] by simp
  have "chain nxt 126 ?L EOL" using assms(1) by (simp add: links_def)
  then show "nxt p = of_nat c"
    unfolding full_split assms(2,3) [symmetric] by (rule chain_next)
  have "distinct (u1 @ u2 @ fs)" using assms(1) by (simp add: links_def)
  moreover have "126 \<notin> set fs" "127 \<notin> set fs" using lt(2) by force+
  ultimately show "p \<notin> set fs" "c \<notin> set fs" using pu cu by auto
qed

lemma links_remove:
  assumes "links nxt fh (u1 @ c # u2) fs" "p = last (126 # u1)"
  shows "links (nxt(p := nxt c, c := fh)) (of_nat c) (u1 @ u2) (c # fs)"
proof -
  let ?L = "126 # (u1 @ c # u2) @ [127]"
  have L: "?L = butlast (126 # u1) @ p # c # u2 @ [127]"
    using full_split [of u1 "c # u2"] assms(2) by simp
  have L': "126 # (u1 @ u2) @ [127] = butlast (126 # u1) @ p # u2 @ [127]"
    using L by (cases u1 rule: rev_cases) simp_all
  have d: "distinct ?L" using links_distinct_full [OF assms(1)] by simp
  have "chain nxt 126 ?L EOL" using assms(1) by (simp add: links_def)
  then have "chain (nxt(p := nxt c)) 126 (126 # (u1 @ u2) @ [127]) EOL"
    using d unfolding L L' by (rule chain_remove)
  moreover have "c \<notin> set (126 # (u1 @ u2) @ [127])" using d by auto
  ultimately have "chain (nxt(p := nxt c, c := fh)) 126 (126 # (u1 @ u2) @ [127]) EOL"
    by (simp del: chain.simps)
  moreover have "p \<notin> set fs" "c \<notin> set fs"
    using pair_facts(7,8) [OF assms(1) assms(2) refl] by simp_all
  then have "chain (nxt(p := nxt c, c := fh)) (of_nat c) (c # fs) EOL"
    using assms(1) by (simp add: links_def)
  moreover have "distinct ((u1 @ u2) @ c # fs)" "set ((u1 @ u2) @ c # fs) = {..<126}"
    using assms(1) by (auto simp: links_def)
  ultimately show ?thesis by (simp only: links_def simp_thms)
qed

lemma links_insert:
  assumes "links nxt fh (u1 @ u2) (g # gs)" "p = last (126 # u1)" "c = hd (u2 @ [127])"
  shows "links (nxt(g := of_nat c, p := of_nat g)) (nxt g) (u1 @ g # u2) gs"
proof -
  let ?L = "126 # (u1 @ u2) @ [127]"
  have L: "?L = butlast (126 # u1) @ p # c # tl (u2 @ [127])"
    using full_split [of u1 "u2"] assms(2,3) by simp
  have L': "126 # (u1 @ g # u2) @ [127] = butlast (126 # u1) @ p # g # c # tl (u2 @ [127])"
    using full_split [of u1 "g # u2"] assms(2,3) by (cases u2) simp_all
  have d: "distinct ?L" using links_distinct_full [OF assms(1)] by simp
  have "g < 126" using links_lt(2) [OF assms(1)] by simp
  then have g: "g \<notin> set ?L" using assms(1) by (auto simp: links_def)
  have "chain nxt 126 ?L EOL" using assms(1) by (simp add: links_def)
  then have "chain (nxt(g := of_nat c, p := of_nat g)) 126 (126 # (u1 @ g # u2) @ [127]) EOL"
    using d g unfolding L L' by (rule chain_insert)
  moreover have "p \<notin> set (g # gs)"
    using pair_facts(7) [OF assms] by simp
  then have "chain (nxt(g := of_nat c, p := of_nat g)) (nxt g) gs EOL"
    using assms(1) by (simp add: links_def)
  moreover have "distinct ((u1 @ g # u2) @ gs)" "set ((u1 @ g # u2) @ gs) = {..<126}"
    using assms(1) by (auto simp: links_def)
  ultimately show ?thesis by (simp only: links_def simp_thms)
qed

lemma linv_intro:
  assumes "framed l l'" "links (nx l') (free_head_idx l') us fs"
    "\<forall>i<128. i \<in> set us \<or> 126 \<le> i \<longrightarrow> marks l' ! i = 0"
    "ends l' 126 = (- 2147483648, - 2147483648)" "ends l' 127 = (2147483647, 2147483647)"
    "canon (map (ends l') us)"
  shows "linv l' us fs"
  using assms by (auto simp: linv_def cells_def framed_def)

lemma ends_127_126:
  assumes "linv l us fs"
  shows "ends l 126 = (- 2147483648, - 2147483648)" "ends l 127 = (2147483647, 2147483647)"
  using assms by (simp_all add: linv_def cells_def)

section \<open>Insertion\<close>

lemma linvD:
  assumes "linv l us fs"
  shows "cells l us" "links (nx l) (free_head_idx l) us fs" "canon (map (ends l) us)"
  using assms by (simp_all add: linv_def)

text \<open>The two tests of the critical section, read in the range list.\<close>

lemma connects_left_iff:
  assumes "linv l (u1 @ u2) fs" "p = last (126 # u1)"
  shows "connects_left l rg p \<longleftrightarrow> u1 \<noteq> [] \<and> snd (ends l p) + 1 = sint (left rg)"
proof (cases "u1 = []")
  case True
  then show ?thesis
    using assms ends_127_126 [OF assms(1)] by (simp add: connects_left_def sless_i32_iff ends_def)
next
  case False
  then have "ends l p \<in> set (map (ends l) (u1 @ u2))" using assms(2) by simp
  from canon_range [OF linvD(3) [OF assms(1)] this]
  have "- 2147483648 < fst (ends l p)" "snd (ends l p) < 2147483647" by linarith+
  then have "INT32_MIN <s left (nrange (nodes l ! p))"
    and "sint (right (nrange (nodes l ! p)) + 1) = sint (right (nrange (nodes l ! p))) + 1"
    by (simp_all add: sless_i32_iff ends_def sint_i32_succ)
  then show ?thesis
    using False by (simp add: connects_left_def ends_def flip: sint_i32_eq_iff)
qed

lemma connects_right_iff:
  assumes "linv l (u1 @ u2) fs" "c = hd (u2 @ [127])" "sint (right rg) < 2147483647"
  shows "connects_right l rg c \<longleftrightarrow> u2 \<noteq> [] \<and> sint (right rg) + 1 = fst (ends l c)"
proof (cases "u2 = []")
  case True
  then show ?thesis
    using assms ends_127_126 [OF assms(1)] by (simp add: connects_right_def sless_i32_iff ends_def)
next
  case False
  then have "ends l c \<in> set (map (ends l) (u1 @ u2))" using assms(2) by simp
  from canon_range [OF linvD(3) [OF assms(1)] this] have "fst (ends l c) < 2147483647"
    by linarith
  then have "left (nrange (nodes l ! c)) <s INT32_MAX"
    by (simp add: sless_i32_iff ends_def)
  then show ?thesis
    using False sint_i32_succ [OF assms(3)] by (simp add: connects_right_def ends_def flip: sint_i32_eq_iff)
qed

text \<open>What the critical section starts from: the search ended at a gap.\<close>

definition at_gap :: "nat \<Rightarrow> lazylist \<Rightarrow> lazylist_range \<Rightarrow> nat list \<Rightarrow> nat list \<Rightarrow> nat list \<Rightarrow> bool" where
  "at_gap fuel l rg u1 u2 fs \<longleftrightarrow> linv l (u1 @ u2) fs
     \<and> - 2147483648 < sint (left rg) \<and> sint (left rg) \<le> sint (right rg) \<and> sint (right rg) < 2147483647
     \<and> (\<forall>x\<in>set u1. snd (ends l x) < sint (left rg))
     \<and> (u2 \<noteq> [] \<longrightarrow> sint (right rg) < fst (ends l (hd u2)))
     \<and> found_pair fuel l (u1 @ u2) rg (last (126 # u1)) (hd (u2 @ [127]))"

lemma map_ends_upd [simp]: "p \<notin> set us \<Longrightarrow> map (e(p := v)) us = map e us"
  by simp

lemma insert_both:
  assumes g: "at_gap fuel l rg (v1 @ [p]) (c # v2) fs"
    and cl: "snd (ends l p) + 1 = sint (left rg)" and cr: "sint (right rg) + 1 = fst (ends l c)"
  shows "\<exists>l' us' fs'. insert_loop fuel (Suc n) l rg = Inr (0, l') \<and> linv l' us' fs'
    \<and> bytes (map (ends l') us') = bytes (map (ends l) (v1 @ p # c # v2)) \<union> {sint (left rg)..sint (right rg)}"
proof -
  have I: "linv l (v1 @ p # c # v2) fs" and le: "sint (left rg) \<le> sint (right rg)"
    and r: "sint (right rg) < 2147483647" and f: "found_pair fuel l (v1 @ p # c # v2) rg p c"
    using g by (simp_all add: at_gap_def)
  have "connects_left l rg p"
    using connects_left_iff [of l "v1 @ [p]" "c # v2" fs p rg] I cl by simp
  moreover have "connects_right l rg c"
    using connects_right_iff [of l "v1 @ [p]" "c # v2" fs c rg] I cr r by simp
  ultimately obtain l' where l': "insert_loop fuel (Suc n) l rg = Inr (0, l')" "framed l l'"
      "nx l' = (nx l)(p := nx l c, c := free_head_idx l)" "free_head_idx l' = of_nat c"
      "ends l' = (ends l)(p := (fst (ends l p), snd (ends l c)))" "marks l' = (marks l)[c := 1]"
    using branch_both [OF f] by blast
  note lk = linvD(2) [OF I]
  have lt: "\<And>x. x \<in> set (v1 @ p # c # v2) \<Longrightarrow> x < 126" using links_lt(1) [OF lk] .
  have d: "distinct (v1 @ p # c # v2)" using lk by (auto simp: links_def)
  have m: "map (ends l') (v1 @ p # v2) = map (ends l) v1 @ (fst (ends l p), snd (ends l c)) # map (ends l) v2"
    using d by (simp add: l'(5))
  have C: "canon (map (ends l) v1 @ ends l p # ends l c # map (ends l) v2)"
    using linvD(3) [OF I] by simp
  have "linv l' (v1 @ p # v2) (c # fs)"
  proof (rule linv_intro [OF l'(2)])
    show "links (nx l') (free_head_idx l') (v1 @ p # v2) (c # fs)"
      using links_remove [of "nx l" "free_head_idx l" "v1 @ [p]" c v2 fs p] lk by (simp add: l'(3,4))
    show "\<forall>i<128. i \<in> set (v1 @ p # v2) \<or> 126 \<le> i \<longrightarrow> marks l' ! i = 0"
      using linvD(1) [OF I] d lt [of c] by (auto simp: l'(6) cells_def nth_list_update)
    show "ends l' 126 = (- 2147483648, - 2147483648)" "ends l' 127 = (2147483647, 2147483647)"
      using ends_127_126 [OF I] lt [of p] by (simp_all add: l'(5))
    show "canon (map (ends l') (v1 @ p # v2))"
      unfolding m using C by (rule canon_merge)
  qed
  moreover have "bytes (map (ends l') (v1 @ p # v2))
      = bytes (map (ends l) (v1 @ p # c # v2)) \<union> {sint (left rg)..sint (right rg)}"
    unfolding m using bytes_merge [OF C cl cr le] by simp
  ultimately show ?thesis using l'(1) by blast
qed

lemma insert_left:
  assumes g: "at_gap fuel l rg (v1 @ [p]) u2 fs"
    and cl: "snd (ends l p) + 1 = sint (left rg)"
    and gap: "\<forall>y\<in>set (map (ends l) u2). sint (right rg) + 1 < fst y"
  shows "\<exists>l' us' fs'. insert_loop fuel (Suc n) l rg = Inr (0, l') \<and> linv l' us' fs'
    \<and> bytes (map (ends l') us') = bytes (map (ends l) (v1 @ p # u2)) \<union> {sint (left rg)..sint (right rg)}"
proof -
  have I: "linv l (v1 @ p # u2) fs" and le: "sint (left rg) \<le> sint (right rg)"
    and r: "sint (right rg) < 2147483647" and f: "found_pair fuel l (v1 @ p # u2) rg p (hd (u2 @ [127]))"
    using g by (simp_all add: at_gap_def)
  have "connects_left l rg p"
    using connects_left_iff [of l "v1 @ [p]" u2 fs p rg] I cl by simp
  moreover have "\<not> connects_right l rg (hd (u2 @ [127]))"
    using connects_right_iff [of l "v1 @ [p]" u2 fs "hd (u2 @ [127])" rg] I gap r by (cases u2) auto
  ultimately obtain l' where l': "insert_loop fuel (Suc n) l rg = Inr (0, l')" "framed l l'"
      "nx l' = nx l" "free_head_idx l' = free_head_idx l"
      "ends l' = (ends l)(p := (fst (ends l p), sint (right rg)))" "marks l' = marks l"
    using branch_left [OF f] by blast
  note lk = linvD(2) [OF I]
  have lt: "p < 126" using links_lt(1) [OF lk] by simp
  have d: "distinct (v1 @ p # u2)" using lk by (auto simp: links_def)
  have m: "map (ends l') (v1 @ p # u2) = map (ends l) v1 @ (fst (ends l p), sint (right rg)) # map (ends l) u2"
    using d by (simp add: l'(5))
  have C: "canon (map (ends l) v1 @ ends l p # map (ends l) u2)"
    using linvD(3) [OF I] by simp
  have "linv l' (v1 @ p # u2) fs"
  proof (rule linv_intro [OF l'(2)])
    show "links (nx l') (free_head_idx l') (v1 @ p # u2) fs"
      using lk by (simp add: l'(3,4))
    show "\<forall>i<128. i \<in> set (v1 @ p # u2) \<or> 126 \<le> i \<longrightarrow> marks l' ! i = 0"
      using linvD(1) [OF I] by (simp add: l'(6) cells_def)
    show "ends l' 126 = (- 2147483648, - 2147483648)" "ends l' 127 = (2147483647, 2147483647)"
      using ends_127_126 [OF I] lt by (simp_all add: l'(5))
    show "canon (map (ends l') (v1 @ p # u2))"
      unfolding m using C cl le r gap by (rule canon_extend_right)
  qed
  moreover have "bytes (map (ends l') (v1 @ p # u2))
      = bytes (map (ends l) (v1 @ p # u2)) \<union> {sint (left rg)..sint (right rg)}"
    unfolding m using bytes_extend_right [OF C cl le] by simp
  ultimately show ?thesis using l'(1) by blast
qed

lemma insert_right:
  assumes g: "at_gap fuel l rg u1 (c # v2) fs"
    and gap: "\<forall>x\<in>set (map (ends l) u1). snd x + 1 < sint (left rg)"
    and cr: "sint (right rg) + 1 = fst (ends l c)"
  shows "\<exists>l' us' fs'. insert_loop fuel (Suc n) l rg = Inr (0, l') \<and> linv l' us' fs'
    \<and> bytes (map (ends l') us') = bytes (map (ends l) (u1 @ c # v2)) \<union> {sint (left rg)..sint (right rg)}"
proof -
  have I: "linv l (u1 @ c # v2) fs" and le: "sint (left rg) \<le> sint (right rg)"
    and b: "- 2147483648 < sint (left rg)" "sint (right rg) < 2147483647"
    and f: "found_pair fuel l (u1 @ c # v2) rg (last (126 # u1)) c"
    using g by (simp_all add: at_gap_def)
  have "\<not> connects_left l rg (last (126 # u1))"
    using connects_left_iff [of l u1 "c # v2" fs "last (126 # u1)" rg] I gap by (cases u1 rule: rev_cases) auto
  moreover have "connects_right l rg c"
    using connects_right_iff [of l u1 "c # v2" fs c rg] I cr b by simp
  ultimately obtain l' where l': "insert_loop fuel (Suc n) l rg = Inr (0, l')" "framed l l'"
      "nx l' = nx l" "free_head_idx l' = free_head_idx l"
      "ends l' = (ends l)(c := (sint (left rg), snd (ends l c)))" "marks l' = marks l"
    using branch_right [OF f] by blast
  note lk = linvD(2) [OF I]
  have lt: "c < 126" using links_lt(1) [OF lk] by simp
  have d: "distinct (u1 @ c # v2)" using lk by (auto simp: links_def)
  have m: "map (ends l') (u1 @ c # v2) = map (ends l) u1 @ (sint (left rg), snd (ends l c)) # map (ends l) v2"
    using d by (simp add: l'(5))
  have C: "canon (map (ends l) u1 @ ends l c # map (ends l) v2)"
    using linvD(3) [OF I] by simp
  have "linv l' (u1 @ c # v2) fs"
  proof (rule linv_intro [OF l'(2)])
    show "links (nx l') (free_head_idx l') (u1 @ c # v2) fs"
      using lk by (simp add: l'(3,4))
    show "\<forall>i<128. i \<in> set (u1 @ c # v2) \<or> 126 \<le> i \<longrightarrow> marks l' ! i = 0"
      using linvD(1) [OF I] by (simp add: l'(6) cells_def)
    show "ends l' 126 = (- 2147483648, - 2147483648)" "ends l' 127 = (2147483647, 2147483647)"
      using ends_127_126 [OF I] lt by (simp_all add: l'(5))
    show "canon (map (ends l') (u1 @ c # v2))"
      unfolding m using C cr le b(1) gap by (rule canon_extend_left)
  qed
  moreover have "bytes (map (ends l') (u1 @ c # v2))
      = bytes (map (ends l) (u1 @ c # v2)) \<union> {sint (left rg)..sint (right rg)}"
    unfolding m using bytes_extend_left [OF C cr le] by simp
  ultimately show ?thesis using l'(1) by blast
qed

lemma insert_new:
  assumes g: "at_gap fuel l rg u1 u2 fs"
    and gapl: "\<forall>x\<in>set (map (ends l) u1). snd x + 1 < sint (left rg)"
    and gapr: "\<forall>y\<in>set (map (ends l) u2). sint (right rg) + 1 < fst y"
  shows "if fs = [] then insert_loop fuel (Suc n) l rg = Inl OutOfBounds else
    \<exists>l' us' fs'. insert_loop fuel (Suc n) l rg = Inr (0, l') \<and> linv l' us' fs'
    \<and> bytes (map (ends l') us') = bytes (map (ends l) (u1 @ u2)) \<union> {sint (left rg)..sint (right rg)}"
proof -
  let ?p = "last (126 # u1)" and ?c = "hd (u2 @ [127])"
  have I: "linv l (u1 @ u2) fs" and le: "sint (left rg) \<le> sint (right rg)"
    and b: "- 2147483648 < sint (left rg)" "sint (right rg) < 2147483647"
    and f: "found_pair fuel l (u1 @ u2) rg ?p ?c"
    using g by (simp_all add: at_gap_def)
  have cl: "\<not> connects_left l rg ?p"
    using connects_left_iff [of l u1 u2 fs ?p rg] I gapl by (cases u1 rule: rev_cases) auto
  have cr: "\<not> connects_right l rg ?c"
    using connects_right_iff [of l u1 u2 fs ?c rg] I gapr b by (cases u2) auto
  note lk = linvD(2) [OF I]
  show ?thesis
  proof (cases fs)
    case Nil
    then have "free_head_idx l = EOL" using lk by (simp add: links_def)
    with Nil show ?thesis using branch_exhausted [OF f cl cr] by simp
  next
    case (Cons q qs)
    have h: "free_head_idx l = of_nat q" using lk Cons by (simp add: links_def)
    have q: "q < 126" "q \<noteq> ?p" "q \<noteq> ?c" "q \<notin> set (u1 @ u2)"
      using links_lt(2) [OF lk, of q] pair_facts(7,8) [OF lk refl refl] lk Cons by (auto simp: links_def)
    obtain l' where l': "insert_loop fuel (Suc n) l rg = Inr (0, l')" "framed l l'"
        "nx l' = (nx l)(q := of_nat ?c, ?p := of_nat q)" "free_head_idx l' = nx l q"
        "ends l' = (ends l)(q := (sint (left rg), sint (right rg)))" "marks l' = (marks l)[q := 0]"
      using branch_new [OF f cl cr h q(1-3)] by blast
    have m: "map (ends l') (u1 @ q # u2) = map (ends l) u1 @ (sint (left rg), sint (right rg)) # map (ends l) u2"
      using q(4) by (simp add: l'(5))
    have C: "canon (map (ends l) u1 @ map (ends l) u2)"
      using linvD(3) [OF I] by simp
    have "linv l' (u1 @ q # u2) qs"
    proof (rule linv_intro [OF l'(2)])
      show "links (nx l') (free_head_idx l') (u1 @ q # u2) qs"
        unfolding l'(3,4) using lk Cons by (intro links_insert [OF _ refl refl]) simp
      show "\<forall>i<128. i \<in> set (u1 @ q # u2) \<or> 126 \<le> i \<longrightarrow> marks l' ! i = 0"
        using linvD(1) [OF I] q(1) by (simp add: l'(6) cells_def nth_list_update)
      show "ends l' 126 = (- 2147483648, - 2147483648)" "ends l' 127 = (2147483647, 2147483647)"
        using ends_127_126 [OF I] q(1) by (simp_all add: l'(5))
      show "canon (map (ends l') (u1 @ q # u2))"
        unfolding m using C b(1) le b(2) gapl gapr by (rule canon_insert)
    qed
    moreover have "bytes (map (ends l') (u1 @ q # u2))
        = bytes (map (ends l) (u1 @ u2)) \<union> {sint (left rg)..sint (right rg)}"
      unfolding m by auto
    ultimately show ?thesis using l'(1) Cons by auto
  qed
qed

text \<open>Every branch together, in terms of the set of bytes.\<close>

lemma insert_ok:
  assumes I: "linv l us fs" and le: "sint (left rg) \<le> sint (right rg)"
    and b: "- 2147483648 < sint (left rg)" "sint (right rg) < 2147483647" and fuel: "130 \<le> fuel"
  defines "B \<equiv> bytes (map (ends l) us)" and "S \<equiv> {sint (left rg)..sint (right rg)}"
  shows "if B \<inter> S \<noteq> {} then lazylist_insert fuel l rg = Inr (0, l)
    else if fs = [] \<and> sint (left rg) - 1 \<notin> B \<and> sint (right rg) + 1 \<notin> B
      then lazylist_insert fuel l rg = Inl OutOfBounds
    else \<exists>l' us' fs'. lazylist_insert fuel l rg = Inr (0, l') \<and> linv l' us' fs'
      \<and> bytes (map (ends l') us') = B \<union> S"
proof -
  note lk = linvD(2) [OF I]
  obtain n where n: "fuel = Suc n" using fuel by (cases fuel) auto
  have "length us + 1 < fuel" using links_card [OF lk] fuel by linarith
  then obtain u1 u2 where u: "us = u1 @ u2" "\<forall>x\<in>set u1. snd (ends l x) < sint (left rg)"
      "u2 \<noteq> [] \<longrightarrow> sint (left rg) \<le> snd (ends l (hd u2))"
    and find: "lazylist_find_pred fuel l rg = Inr (if fst (ends l (hd (u2 @ [127]))) \<le> sint (right rg) then None
       else Some (of_nat (last (126 # u1)), of_nat (hd (u2 @ [127]))))"
    using find_pred_ok [OF I b(1)] by blast
  let ?xs = "map (ends l) u1" and ?ys = "map (ends l) u2"
  have C: "canon (?xs @ ?ys)" using linvD(3) [OF I] u(1) by simp
  have B: "B = bytes (?xs @ ?ys)" by (simp add: B_def u(1))
  show ?thesis
  proof (cases "fst (ends l (hd (u2 @ [127]))) \<le> sint (right rg)")
    case True
    then have ne: "u2 \<noteq> []" using ends_127_126(2) [OF I] b(2) by auto
    then have mem: "ends l (hd u2) \<in> set (?xs @ ?ys)" by simp
    have "B \<inter> S \<noteq> {}"
      unfolding B S_def using bytes_overlap [OF mem] canon_range [OF C mem] True ne u(3) le by simp
    moreover have "lazylist_insert fuel l rg = Inr (0, l)"
      using True find by (simp add: lazylist_insert_def n)
    ultimately show ?thesis by simp
  next
    case False
    then have gap: "u2 \<noteq> [] \<longrightarrow> sint (right rg) < fst (ends l (hd u2))" by auto
    have disj: "B \<inter> S = {}"
      unfolding B S_def using C u(2) gap by (intro bytes_disjoint) (cases u2; simp)+
    moreover have "found_pair fuel l (u1 @ u2) rg (last (126 # u1)) (hd (u2 @ [127]))"
      using pair_facts [OF lk [unfolded u(1)] refl refl] linvD(1) [OF I] u(1) find False
      by (auto simp: found_pair_def)
    then have G: "at_gap fuel l rg u1 u2 fs"
      using I u b le gap by (simp add: at_gap_def)
    have Cx: "canon ?xs" "canon ?ys" using C by (simp_all add: canon_append)
    consider (both) v1 p c v2 where "u1 = v1 @ [p]" "u2 = c # v2"
        "snd (ends l p) + 1 = sint (left rg)" "sint (right rg) + 1 = fst (ends l c)"
      | (left) v1 p where "u1 = v1 @ [p]" "snd (ends l p) + 1 = sint (left rg)"
        "\<forall>y\<in>set ?ys. sint (right rg) + 1 < fst y"
      | (right) c v2 where "u2 = c # v2" "sint (right rg) + 1 = fst (ends l c)"
        "\<forall>x\<in>set ?xs. snd x + 1 < sint (left rg)"
      | (new) "\<forall>x\<in>set ?xs. snd x + 1 < sint (left rg)"
        "\<forall>y\<in>set ?ys. sint (right rg) + 1 < fst y"
    proof (cases "u1 \<noteq> [] \<and> snd (ends l (last u1)) + 1 = sint (left rg)")
      case True
      then obtain v1 p where v: "u1 = v1 @ [p]" "snd (ends l p) + 1 = sint (left rg)"
        by (cases u1 rule: rev_cases) auto
      show ?thesis
      proof (cases "u2 \<noteq> [] \<and> sint (right rg) + 1 = fst (ends l (hd u2))")
        case True
        with v both show ?thesis by (cases u2) auto
      next
        case False
        then have "?ys = [] \<or> sint (right rg) + 1 < fst (hd ?ys)" using gap by (cases u2) auto
        from canon_gap_right [OF Cx(2) this] v show ?thesis by (intro left)
      qed
    next
      case False
      then have "?xs = [] \<or> snd (last ?xs) + 1 \<noteq> sint (left rg)" by (auto simp: last_map)
      then have gl: "\<forall>x\<in>set ?xs. snd x + 1 < sint (left rg)"
        using Cx(1) u(2) by (intro canon_gap_left) simp_all
      show ?thesis
      proof (cases "u2 \<noteq> [] \<and> sint (right rg) + 1 = fst (ends l (hd u2))")
        case True
        with gl right show ?thesis by (cases u2) auto
      next
        case False
        then have "?ys = [] \<or> sint (right rg) + 1 < fst (hd ?ys)" using gap by (cases u2) auto
        from canon_gap_right [OF Cx(2) this] gl show ?thesis by (intro new)
      qed
    qed
    then show ?thesis
    proof cases
      case both
      have "fst (ends l p) \<le> snd (ends l p)" using C both(1) by (simp add: canon_simps)
      then have "sint (left rg) - 1 \<in> B" using both by (auto simp: B)
      with disj insert_both [OF _ both(3,4), of fuel v1 v2 fs n] G both(1,2) show ?thesis
        by (simp add: lazylist_insert_def n B S_def)
    next
      case left
      have "fst (ends l p) \<le> snd (ends l p)" using C left(1) by (simp add: canon_simps)
      then have "sint (left rg) - 1 \<in> B" using left by (auto simp: B)
      with disj insert_left [OF _ left(2,3), of fuel v1 fs n] G left(1) show ?thesis
        by (simp add: lazylist_insert_def n B S_def)
    next
      case right
      have "fst (ends l c) \<le> snd (ends l c)" using C right(1) by (simp add: canon_simps)
      then have "sint (right rg) + 1 \<in> B" using right by (auto simp: B)
      with disj insert_right [OF _ right(3,2), of fuel v2 fs n] G right(1) show ?thesis
        by (simp add: lazylist_insert_def n B S_def)
    next
      case new
      have "?ys = [] \<or> sint (left rg) \<le> fst (hd ?ys)" using gap le by (cases u2) auto
      then have "sint (left rg) - 1 \<notin> B"
        unfolding B using C new(1) by (intro bytes_gap_left) simp_all
      moreover have "sint (right rg) + 1 \<notin> B"
        unfolding B using new le by (intro bytes_gap_right) fastforce+
      ultimately show ?thesis
        using disj insert_new [OF G new, of n] by (simp add: lazylist_insert_def n B S_def split: if_splits)
    qed
  qed
qed

section \<open>Removal from the front\<close>

lemma pop_front_empty:
  assumes "linv l [] fs"
  shows "lazylist_pop_front (Suc n) l rl = Inr (None, l)"
proof -
  note c = linvD(1) [OF assms] and lk = linvD(2) [OF assms]
  have "nx l 126 = 127" using lk by (simp add: links_def)
  moreover have "left (nrange (nodes l ! 127)) = INT32_MAX"
    using ends_127_126 [OF assms] by (simp add: ends_def flip: sint_i32_eq_iff)
  ultimately show ?thesis
    using cellsD [OF c] node_at_ok [of l 126] node_at_ok [of l 127]
    by (simp add: lazylist_pop_front_def nx_def EOL_def)
qed

lemma front_facts:
  assumes "linv l (c # v2) fs"
  shows "nx l 126 = of_nat c" "c < 126" "left (nrange (nodes l ! c)) \<noteq> INT32_MAX"
    "nx l c = of_nat (hd (v2 @ [127]))" "hd (v2 @ [127]) < 128" "c \<noteq> hd (v2 @ [127])"
    "hd (v2 @ [127]) \<in> set v2 \<or> 126 \<le> hd (v2 @ [127])"
proof -
  note lk = linvD(2) [OF assms]
  show "nx l 126 = of_nat c" using lk by (simp add: links_def)
  show c: "c < 126" using links_lt(1) [OF lk] by simp
  have "snd (ends l c) < 2147483647" "fst (ends l c) \<le> snd (ends l c)"
    using linvD(3) [OF assms] by (simp_all add: canon_Cons)
  then show "left (nrange (nodes l ! c)) \<noteq> INT32_MAX"
    by (auto simp: ends_def)
  have lk': "links (nx l) (free_head_idx l) ([c] @ v2) fs" using lk by simp
  from pair_facts [OF this refl refl] show "nx l c = of_nat (hd (v2 @ [127]))"
    "hd (v2 @ [127]) < 128" "c \<noteq> hd (v2 @ [127])"
    "hd (v2 @ [127]) \<in> set v2 \<or> 126 \<le> hd (v2 @ [127])" by simp_all
qed

lemma pop_front_mismatch:
  assumes I: "linv l (c # v2) fs" and "rl \<noteq> RANGE_START_ANY" "left (nrange (nodes l ! c)) \<noteq> rl"
  shows "lazylist_pop_front (Suc n) l rl = Inr (None, l)"
  using assms cellsD [OF linvD(1) [OF I]] node_at_ok [of l 126] front_facts [OF I]
  by (simp add: lazylist_pop_front_def nx_def EOL_def node_at_ok)

lemma pop_front_views:
  assumes I: "linv l (c # v2) fs" and m: "rl = RANGE_START_ANY \<or> left (nrange (nodes l ! c)) = rl"
  shows "\<exists>l'. lazylist_pop_front (Suc n) l rl = Inr (Some (nrange (nodes l ! c)), l') \<and> framed l l'
    \<and> nx l' = (nx l)(126 := nx l c, c := free_head_idx l) \<and> free_head_idx l' = of_nat c
    \<and> ends l' = ends l \<and> marks l' = (marks l)[c := 1]"
proof -
  define d where "d = hd (v2 @ [127])"
  note F = front_facts [OF I, folded d_def]
  have c: "cells l (c # v2)" "c < 128" "d < 128" "c \<noteq> d" using linvD(1) [OF I] F by simp_all
  have V: "lazylist_validate (locked_pair l c d) (of_nat c) (of_nat d) = Inr True"
    by (rule validate_pair [OF c]) (use F in auto)
  have h: "d \<noteq> 126" "c \<noteq> 126"
    using links_lt(1) [OF linvD(2) [OF I]] F(2) by (cases v2; force simp: d_def)+
  note L = locked_pair_simps [OF c] and C = cellsD [OF c(1)]
  have n126: "node_at l 126 = Inr (nodes l ! 126)" using C node_at_ok [of l 126] by simp
  have h126: "head_idx l \<noteq> EOL" using C(3) by (simp add: EOL_def)
  have m': "left (nrange (nodes l ! c)) = rl \<or> rl = RANGE_START_ANY"
    "\<not> (rl \<noteq> RANGE_START_ANY \<and> left (nrange (nodes l ! c)) \<noteq> rl)" using m by auto
  have N: "next_idx (nodes l ! 126) = of_nat c" "next_idx (nodes l ! c) = of_nat d"
    using F(1,4) by (simp_all add: nx_def)
  have "pop_front_loop (Suc n) l rl =
      bindE (lock_node l (of_nat c)) (\<lambda>list. bindE (lock_node list (of_nat d)) (\<lambda>list.
        bindE (lazylist_validate list (of_nat c) (of_nat d)) (\<lambda>valid.
        bindE (node_at list (of_nat c)) (\<lambda>nf.
          if valid \<and> (left (nrange nf) = rl \<or> rl = RANGE_START_ANY) then
            bindE (mark_upd list (idx nf) 1) (\<lambda>list.
            bindE (node_at list (of_nat d)) (\<lambda>nn.
            bindE (node_upd list 126 (\<lambda>n. n\<lparr>next_idx := idx nn\<rparr>)) (\<lambda>list.
            bindE (unlock_node list (of_nat d)) (\<lambda>list.
            bindE (unlock_node list (of_nat c)) (\<lambda>list.
            bindE (lazylist_put_free_node list (idx nf)) (\<lambda>list.
              Inr (Some (nrange nf), list)))))))
          else
            bindE (unlock_node list (of_nat d)) (\<lambda>list.
            bindE (unlock_node list (of_nat c)) (\<lambda>list.
              pop_front_loop n list rl))))))"
    using C(1,3) F(2,3) h126 by (simp add: n126 node_at_ok Let_def N m'(2) cong: if_cong)
  also have "\<dots> = bindE (mark_upd (locked_pair l c d) (of_nat c) 1) (\<lambda>list.
            bindE (node_at list (of_nat d)) (\<lambda>nn.
            bindE (node_upd list (of_nat 126) (\<lambda>n. n\<lparr>next_idx := idx nn\<rparr>)) (\<lambda>list.
            bindE (unlock_node list (of_nat d)) (\<lambda>list.
            bindE (unlock_node list (of_nat c)) (\<lambda>list.
            bindE (lazylist_put_free_node list (of_nat c)) (\<lambda>list.
              Inr (Some (nrange (nodes l ! c)), list)))))))"
    unfolding lock_pair [OF c] using L C c m'(1) by (simp add: V node_at_ok)
  finally show ?thesis
    unfolding lazylist_pop_front_def
    using L C c h F(4)
    apply (simp add: node_at_ok node_upd_ok mark_upd_ok unlock_node_ok put_free_ok nth_list_update framed_def
        del: of_nat_numeral)
    apply (auto simp: nx_def ends_def fun_eq_iff nth_list_update locked_pair_def)
    done
qed

lemma pop_front_some:
  assumes I: "linv l (c # v2) fs" and m: "rl = RANGE_START_ANY \<or> left (nrange (nodes l ! c)) = rl"
  shows "\<exists>l'. lazylist_pop_front (Suc n) l rl = Inr (Some (nrange (nodes l ! c)), l')
    \<and> linv l' v2 (c # fs) \<and> ends l' = ends l"
proof -
  obtain l' where l': "lazylist_pop_front (Suc n) l rl = Inr (Some (nrange (nodes l ! c)), l')" "framed l l'"
      "nx l' = (nx l)(126 := nx l c, c := free_head_idx l)" "free_head_idx l' = of_nat c"
      "ends l' = ends l" "marks l' = (marks l)[c := 1]"
    using pop_front_views [OF I m] by blast
  note lk = linvD(2) [OF I]
  have d: "c \<notin> set v2" "c < 126" using lk links_lt(1) [OF lk] by (auto simp: links_def)
  have "linv l' v2 (c # fs)"
  proof (rule linv_intro [OF l'(2)])
    show "links (nx l') (free_head_idx l') v2 (c # fs)"
      using links_remove [of "nx l" "free_head_idx l" "[]" c v2 fs 126] lk by (simp add: l'(3,4))
    show "\<forall>i<128. i \<in> set v2 \<or> 126 \<le> i \<longrightarrow> marks l' ! i = 0"
      using linvD(1) [OF I] d by (auto simp: l'(6) cells_def nth_list_update)
    show "ends l' 126 = (- 2147483648, - 2147483648)" "ends l' 127 = (2147483647, 2147483647)"
      using ends_127_126 [OF I] by (simp_all add: l'(5))
    show "canon (map (ends l') v2)"
      using linvD(3) [OF I] by (simp add: l'(5) canon_Cons)
  qed
  with l'(1,5) show ?thesis by blast
qed

section \<open>Initialisation\<close>

text \<open>The index lists of the whole arrays are kept folded.\<close>

declare upt_rec_numeral [simp del]

definition init_node :: "nat \<Rightarrow> lazylist_node \<Rightarrow> lazylist_node" where
  "init_node j n = n\<lparr>idx := of_nat j, next_idx := of_nat j + 1, nlock := 0\<rparr>"

lemma init_loop_ok:
  assumes "length (nodes l) = 130" "length (marks l) = 128" "unat n \<le> 128"
  shows "lazylist_init_loop i n l = Inr (l\<lparr>
     nodes := map (\<lambda>j. if unat i \<le> j \<and> j < unat n then init_node j (nodes l ! j) else nodes l ! j) [0..<130],
     marks := map (\<lambda>j. if unat i \<le> j \<and> j < unat n then 0 else marks l ! j) [0..<128]\<rparr>)"
  using assms
proof (induction i n l rule: lazylist_init_loop.induct)
  case (1 i n l)
  show ?case
  proof (cases "i < n")
    case False
    have "map (\<lambda>j. if unat i \<le> j \<and> j < unat n then init_node j (nodes l ! j) else nodes l ! j) [0..<130] = nodes l"
      "map (\<lambda>j. if unat i \<le> j \<and> j < unat n then 0 else marks l ! j) [0..<128] = marks l"
      using False 1(2,3) by (auto simp: list_eq_iff_nth_eq word_less_nat_alt)
    then show ?thesis using False by (simp add: lazylist_init_loop.simps)
  next
    case True
    then have i: "unat i < 128" "unat (i + 1) = Suc (unat i)"
      using 1(4) by (simp_all add: word_less_nat_alt unat_u32_succ)
    have w: "of_nat (unat i) = i" by simp
    let ?l1 = "l\<lparr>marks := (marks l)[unat i := 0], nodes := (nodes l)[unat i := init_node (unat i) (nodes l ! unat i)]\<rparr>"
    have "lazylist_init_loop i n l = lazylist_init_loop (i + 1) n ?l1"
      using True i 1(2,3)
      by (simp add: lazylist_init_loop.simps [of i] node_upd_def mark_upd_def init_node_def)
    also have "\<dots> = Inr (?l1\<lparr>
        nodes := map (\<lambda>j. if unat (i + 1) \<le> j \<and> j < unat n then init_node j (nodes ?l1 ! j) else nodes ?l1 ! j) [0..<130],
        marks := map (\<lambda>j. if unat (i + 1) \<le> j \<and> j < unat n then 0 else marks ?l1 ! j) [0..<128]\<rparr>)"
    proof -
      have "lazylist_init_loop (i + 1) n l' = Inr (l'\<lparr>
          nodes := map (\<lambda>j. if unat (i + 1) \<le> j \<and> j < unat n then init_node j (nodes l' ! j) else nodes l' ! j) [0..<130],
          marks := map (\<lambda>j. if unat (i + 1) \<le> j \<and> j < unat n then 0 else marks l' ! j) [0..<128]\<rparr>)"
        if "length (nodes l') = 130" "length (marks l') = 128" for l'
        using "1.IH" [OF True] that 1(4) by blast
      then show ?thesis using 1(2,3) by simp
    qed
    also have "map (\<lambda>j. if unat (i + 1) \<le> j \<and> j < unat n then init_node j (nodes ?l1 ! j) else nodes ?l1 ! j) [0..<130]
        = map (\<lambda>j. if unat i \<le> j \<and> j < unat n then init_node j (nodes l ! j) else nodes l ! j) [0..<130]"
      using i True 1(2) by (auto simp: nth_list_update word_less_nat_alt)
    also have "map (\<lambda>j. if unat (i + 1) \<le> j \<and> j < unat n then 0 else marks ?l1 ! j) [0..<128]
        = map (\<lambda>j. if unat i \<le> j \<and> j < unat n then 0 else marks l ! j) [0..<128]"
      using i True 1(3) by (auto simp: nth_list_update word_less_nat_alt)
    finally show ?thesis by simp
  qed
qed

lemma chain_upt:
  "k \<le> m \<Longrightarrow> (\<And>j. k \<le> j \<Longrightarrow> j < m \<Longrightarrow> nxt j = of_nat (Suc j)) \<Longrightarrow> chain nxt (of_nat k) [k..<m] (of_nat m)"
proof (induction "m - k" arbitrary: k)
  case (Suc d)
  then have "k < m" by simp
  then have "[k..<m] = k # [Suc k..<m]" by (rule upt_conv_Cons)
  moreover have "chain nxt (of_nat (Suc k)) [Suc k..<m] (of_nat m)"
    using Suc by (intro Suc.hyps(1)) simp_all
  ultimately show ?case using Suc.prems(2) [of k] \<open>k < m\<close> by simp
qed simp

lemma init_ok:
  assumes len: "length (nodes l) = 130" "length (marks l) = 128"
    and sm: "marks l ! 126 = 0" "marks l ! 127 = 0"
  shows "\<exists>l'. lazylist_init l NUM_SEGMENTS = Inr l' \<and> linv l' [] [0..<126]"
proof -
  define ns where "ns = map (\<lambda>j. if j < 126 then init_node j (nodes l ! j) else nodes l ! j) [0..<130]"
  define ms where "ms = map (\<lambda>j. if j < 126 then 0 else marks l ! j) [0..<128]"
  have ns: "length ns = 130" "\<And>j. j < 130 \<Longrightarrow> ns ! j = (if j < 126 then init_node j (nodes l ! j) else nodes l ! j)"
    by (simp_all add: ns_def)
  have loop: "lazylist_init_loop 0 126 l = Inr (l\<lparr>nodes := ns, marks := ms\<rparr>)"
    using init_loop_ok [of l 126 0] len by (simp add: ns_def ms_def)
  define l' where "l' = l\<lparr>head_idx := 126, free_head_idx := 0, free_head_lock := 0, marks := ms,
     nodes := ns[125 := (ns ! 125)\<lparr>next_idx := EOL\<rparr>,
       126 := (ns ! 126)\<lparr>idx := 126, nlock := 0, next_idx := 127, nrange := \<lparr>left = INT32_MIN, right = INT32_MIN\<rparr>\<rparr>,
       127 := (ns ! 127)\<lparr>idx := 127, nlock := 0, next_idx := EOL, nrange := \<lparr>left = INT32_MAX, right = INT32_MAX\<rparr>\<rparr>]\<rparr>"
  have init: "lazylist_init l NUM_SEGMENTS = Inr l'"
    using loop ns(1) by (simp add: lazylist_init_def NUM_SEGMENTS_def node_upd_def node_at_def l'_def)
  have N: "nodes l' ! j = (if j = 127 then (ns ! 127)\<lparr>idx := 127, nlock := 0, next_idx := EOL, nrange := \<lparr>left = INT32_MAX, right = INT32_MAX\<rparr>\<rparr>
      else if j = 126 then (ns ! 126)\<lparr>idx := 126, nlock := 0, next_idx := 127, nrange := \<lparr>left = INT32_MIN, right = INT32_MIN\<rparr>\<rparr>
      else if j = 125 then (ns ! 125)\<lparr>next_idx := EOL\<rparr> else ns ! j)" if "j < 130" for j
    using that ns(1) by (auto simp: l'_def nth_list_update)
  have "idx (nodes l' ! j) = of_nat j \<and> nlock (nodes l' ! j) = 0" if j: "j < 128" for j
  proof -
    consider "j < 125" | "j = 125" | "j = 126" | "j = 127" using j by linarith
    then show ?thesis by cases (simp_all add: N ns(2) init_node_def)
  qed
  moreover have "marks l ! j = 0" if "126 \<le> j" "j < 128" for j
  proof -
    have "j = 126 \<or> j = 127" using that by linarith
    then show ?thesis using sm by auto
  qed
  ultimately have "cells l' []"
    using ns(1) by (auto simp: cells_def ends_def N l'_def ms_def)
  moreover have "links (nx l') (free_head_idx l') [] [0..<126]"
  proof -
    have "chain (nx l') (of_nat 0) [0..<125] (of_nat 125)"
      by (rule chain_upt) (auto simp: nx_def N ns(2) init_node_def)
    moreover have "nx l' 125 = EOL" "nx l' 126 = 127" "nx l' 127 = EOL" by (simp_all add: nx_def N)
    moreover have "[0..<126] = [0..<125] @ [125]" using upt_Suc_append [of 0 125] by simp
    ultimately show ?thesis by (auto simp: links_def chain_append l'_def atLeast0LessThan simp del: upt.simps)
  qed
  ultimately show ?thesis using init by (auto simp: linv_def)
qed

lemma linv_rep: "linv l us fs \<Longrightarrow> ll_rep l (map (ends l) us)"
  by (auto simp: ll_rep_def)

lemma ll_rep_canon: "ll_rep l rs \<Longrightarrow> canon rs"
  by (auto simp: ll_rep_def linv_def)

lemma ll_rep_length: "ll_rep l rs \<Longrightarrow> length rs \<le> 126"
  by (force simp: ll_rep_def dest: linvD(2) links_card)

lemma ll_rep_free:
  assumes "linv l us fs"
  shows "fs = [] \<longleftrightarrow> length (map (ends l) us) = 126"
  using links_card [OF linvD(2) [OF assms]] by auto

lemma pop_front_ok:
  assumes "ll_rep l rs"
  shows "case rs of
      [] \<Rightarrow> lazylist_pop_front (Suc n) l rl = Inr (None, l)
    | x # rest \<Rightarrow>
        if rl \<noteq> RANGE_START_ANY \<and> sint rl \<noteq> fst x then lazylist_pop_front (Suc n) l rl = Inr (None, l)
        else \<exists>rg l'. lazylist_pop_front (Suc n) l rl = Inr (Some rg, l') \<and> ll_rep l' rest
          \<and> (sint (left rg), sint (right rg)) = x"
proof -
  obtain us fs where I: "linv l us fs" and rs: "rs = map (ends l) us"
    using assms by (auto simp: ll_rep_def)
  show ?thesis
  proof (cases us)
    case Nil
    then show ?thesis using rs I pop_front_empty by simp
  next
    case (Cons c v2)
    let ?lc = "left (nrange (nodes l ! c))"
    have x: "rs = ends l c # map (ends l) v2" using rs Cons by simp
    have eq: "sint rl = fst (ends l c) \<longleftrightarrow> ?lc = rl"
      by (auto simp: ends_def sint_i32_eq_iff)
    have Ic: "linv l (c # v2) fs" using I Cons by simp
    show ?thesis
    proof (cases "rl \<noteq> RANGE_START_ANY \<and> ?lc \<noteq> rl")
      case True
      then show ?thesis using pop_front_mismatch [OF Ic] by (simp add: x eq)
    next
      case False
      then have m: "rl = RANGE_START_ANY \<or> ?lc = rl" by auto
      obtain l' where l': "lazylist_pop_front (Suc n) l rl = Inr (Some (nrange (nodes l ! c)), l')"
          "linv l' v2 (c # fs)" "ends l' = ends l"
        using pop_front_some [OF Ic m] by blast
      have "ll_rep l' (map (ends l) v2)" using linv_rep [OF l'(2)] by (simp add: l'(3))
      moreover have "(sint (left (nrange (nodes l ! c))), sint (right (nrange (nodes l ! c)))) = ends l c"
        by (simp add: ends_def)
      ultimately show ?thesis using l'(1) False by (auto simp: x eq)
    qed
  qed
qed

text \<open>The range of a node that sits between the sentinels, and the set it covers.\<close>

definition rg_valid :: "lazylist_range \<Rightarrow> bool" where
  "rg_valid rg \<longleftrightarrow> - 2147483648 < sint (left rg) \<and> sint (left rg) \<le> sint (right rg) \<and> sint (right rg) < 2147483647"

definition rg_bytes :: "lazylist_range \<Rightarrow> int set" where
  "rg_bytes rg = {sint (left rg)..sint (right rg)}"

lemma insert_rep:
  assumes "ll_rep l rs" "rg_valid rg" "130 \<le> fuel"
  shows "if bytes rs \<inter> rg_bytes rg \<noteq> {} then lazylist_insert fuel l rg = Inr (0, l)
    else if length rs = 126 \<and> sint (left rg) - 1 \<notin> bytes rs \<and> sint (right rg) + 1 \<notin> bytes rs
      then lazylist_insert fuel l rg = Inl OutOfBounds
    else \<exists>l' rs'. lazylist_insert fuel l rg = Inr (0, l') \<and> ll_rep l' rs'
      \<and> bytes rs' = bytes rs \<union> rg_bytes rg"
proof -
  obtain us fs where I: "linv l us fs" and rs: "rs = map (ends l) us"
    using assms by (auto simp: ll_rep_def)
  have "bytes (map (ends l) us) \<inter> rg_bytes rg = {} \<Longrightarrow>
      \<not> (fs = [] \<and> sint (left rg) - 1 \<notin> bytes rs \<and> sint (right rg) + 1 \<notin> bytes rs) \<Longrightarrow>
      \<exists>l' rs'. lazylist_insert fuel l rg = Inr (0, l') \<and> ll_rep l' rs' \<and> bytes rs' = bytes rs \<union> rg_bytes rg"
    using insert_ok [OF I _ _ _ assms(3), of rg] assms(2) rs
    by (auto simp: rg_valid_def rg_bytes_def split: if_splits) (metis linv_rep)+
  with insert_ok [OF I _ _ _ assms(3), of rg] assms(2) rs ll_rep_free [OF I] show ?thesis
    by (simp add: rg_valid_def rg_bytes_def)
qed

section \<open>The two variants of the free list\<close>

lemma get_free_lrsc_eq:
  "lazylist_get_free_node_lrsc (Suc n) l = (if free_head_idx l = EOL then Inr (None, l)
     else bindE (node_at l (free_head_idx l)) (\<lambda>nd. Inr (Some (free_head_idx l), l\<lparr>free_head_idx := next_idx nd\<rparr>)))"
  by (simp add: load_reserved_def store_conditional_def Let_def)

lemma get_free_eq:
  assumes "free_head_lock l = 0"
  shows "lazylist_get_free_node l = bindE (node_at l (free_head_idx l))
     (\<lambda>nd. Inr (Some (free_head_idx l), l\<lparr>free_head_idx := next_idx nd\<rparr>))"
proof -
  have same: "l\<lparr>free_head_idx := v, free_head_lock := 0\<rparr> = l\<lparr>free_head_idx := v\<rparr>" for v
    using assms by simp
  have n: "node_at (l\<lparr>free_head_lock := w\<rparr>) p = node_at l p" for w p
    by (simp add: node_at_def)
  have "(1 :: u32) \<noteq> EOL" by (simp add: EOL_def)
  then show ?thesis
    using assms by (cases "node_at l (free_head_idx l)")
      (simp_all add: lazylist_get_free_node_def n same Let_def)
qed

section \<open>Garbage in the sentinels' marks\<close>

text \<open>
  \<open>lazylist_init\<close> resets the marks of the nodes below the sentinels only, and
  the array has an entry for each sentinel.
\<close>

lemma init_views:
  assumes len: "length (nodes l) = 130" "length (marks l) = 128"
  shows "\<exists>l'. lazylist_init l NUM_SEGMENTS = Inr l' \<and> length (nodes l') = 130 \<and> length (marks l') = 128
    \<and> marks l' ! 126 = marks l ! 126 \<and> head_idx l' = 126
    \<and> idx (nodes l' ! 126) = 126 \<and> nlock (nodes l' ! 126) = 0 \<and> next_idx (nodes l' ! 126) = 127
    \<and> nlock (nodes l' ! 127) = 0 \<and> ends l' 126 = (- 2147483648, - 2147483648)
    \<and> ends l' 127 = (2147483647, 2147483647)"
proof -
  have "\<exists>ns. length ns = 130 \<and> lazylist_init_loop 0 126 l = Inr (l\<lparr>nodes := ns,
     marks := map (\<lambda>j. if j < 126 then 0 else marks l ! j) [0..<128]\<rparr>)"
    by (rule exI [of _ "map (\<lambda>j. if j < 126 then init_node j (nodes l ! j) else nodes l ! j) [0..<130]"])
      (use init_loop_ok [of l 126 0] len in simp)
  then show ?thesis
    by (auto simp: lazylist_init_def NUM_SEGMENTS_def node_upd_def node_at_def ends_def nth_list_update)
qed

lemma insert_loop_marked:
  assumes len: "length (nodes l) = 130" "length (marks l) = 128" and h: "head_idx l = 126"
    and n: "idx (nodes l ! 126) = 126" "nlock (nodes l ! 126) = 0" "next_idx (nodes l ! 126) = 127"
      "nlock (nodes l ! 127) = 0"
    and e: "ends l 126 = (- 2147483648, - 2147483648)" "ends l 127 = (2147483647, 2147483647)"
    and m: "marks l ! 126 \<noteq> 0" and rg: "rg_valid rg"
  shows "insert_loop fuel tries l rg = Inl NoFuel"
proof (cases "fuel < 2")
  case True
  have "right (nrange (nodes l ! 126)) <s left rg"
    using e rg by (simp add: ends_def rg_valid_def sless_i32_iff)
  then have "find_pred_loop fuel l rg 126 126 = Inl NoFuel"
    using True node_at_ok [of l 126] len by (cases fuel) (auto simp: less_Suc_eq)
  then show ?thesis
    by (cases tries) (simp_all add: lazylist_find_pred_def h)
next
  case False
  then obtain k where k: "fuel = Suc (Suc k)" by (metis Suc_less_eq less_2_cases_iff not0_implies_Suc One_nat_def)
  have r: "right (nrange (nodes l ! 126)) <s left rg" "\<not> right (nrange (nodes l ! 127)) <s left rg"
    "\<not> left (nrange (nodes l ! 127)) \<le>s right rg"
    using e rg sint_i32_bounds(2) [of "left rg"] by (simp_all add: ends_def rg_valid_def sless_i32_iff sle_i32_iff)
  have N: "node_at l 126 = Inr (nodes l ! 126)" "node_at l 127 = Inr (nodes l ! 127)"
    using node_at_ok [of l 126] node_at_ok [of l 127] len by simp_all
  have find: "lazylist_find_pred fuel l rg = Inr (Some (of_nat 126, of_nat 127))"
    using r by (simp add: lazylist_find_pred_def h k N n(3))
  have lock: "bindE (lock_node l (of_nat 126)) (\<lambda>l. bindE (lock_node l (of_nat 127)) f) = f (locked_pair l 126 127)" for f
    using len n by (simp add: lock_node_ok locked_pair_def del: of_nat_numeral)
  have unlock: "bindE (unlock_node (locked_pair l 126 127) (of_nat 127)) (\<lambda>l. bindE (unlock_node l (of_nat 126)) f) = f l" for f
  proof -
    have "(nodes l)[126 := (nodes l ! 126)\<lparr>nlock := 0\<rparr>, 127 := (nodes l ! 127)\<lparr>nlock := 0\<rparr>] = nodes l"
    proof -
      have free: "x\<lparr>nlock := 0\<rparr> = x" if "nlock x = 0" for x :: lazylist_node
        using that by (cases x) simp
      show ?thesis by (simp add: free n)
    qed
    then show ?thesis
      using len n by (simp add: unlock_node_ok locked_pair_def list_update_swap del: of_nat_numeral)
  qed
  have valid: "lazylist_validate (locked_pair l 126 127) (of_nat 126) (of_nat 127) = Inr False"
    using len n m mark_at_ok [of l 126]
    by (simp add: lazylist_validate_def locked_pair_def node_at_def mark_at_def)
  show ?thesis
    by (induction tries) (simp_all add: find lock valid unlock del: of_nat_numeral)
qed

section \<open>Properties\<close>

text \<open>A zeroed list, as the host leaves the scratchpad.\<close>

definition blank_node :: lazylist_node where
  "blank_node = \<lparr>idx = 0, nrange = \<lparr>left = 0, right = 0\<rparr>, nlock = 0, next_idx = 0\<rparr>"

definition blank_list :: lazylist where
  "blank_list = \<lparr>head_idx = 0, free_head_idx = 0, free_head_lock = 0,
     nodes = replicate 130 blank_node, marks = replicate 128 0\<rparr>"

lemma blank_list_len: "length (nodes blank_list) = 130" "length (marks blank_list) = 128"
  "i < 128 \<Longrightarrow> marks blank_list ! i = 0"
  by (simp_all add: blank_list_def)

lemma blank_init: "\<exists>l. lazylist_init blank_list NUM_SEGMENTS = Inr l \<and> ll_rep l []"
  using init_ok [of blank_list] linv_rep [of _ "[]"] by (force simp: blank_list_len)

text \<open>
  \<open>lazylist_init\<close> with capacity \<open>NUM_SEGMENTS\<close>, on node and mark
  arrays of any contents in which the two sentinels' marks are 0, accesses
  nothing out of bounds and leaves a well-formed list without ranges.
\<close>

theorem lazylist_init_empty:
  assumes "length (nodes l) = 130" "length (marks l) = 128" "marks l ! 126 = 0" "marks l ! 127 = 0"
  shows "\<exists>l'. lazylist_init l NUM_SEGMENTS = Inr l' \<and> ll_rep l' []"
  using init_ok [OF assms] linv_rep [of _ "[]"] by force

theorem lazylist_init_empty_witness:
  "\<exists>l'. lazylist_init (blank_list\<lparr>marks := (replicate 128 1)[126 := 0, 127 := 0]\<rparr>) NUM_SEGMENTS = Inr l'
    \<and> ll_rep l' []"
  by (rule lazylist_init_empty) (simp_all add: blank_list_def)

text \<open>
  C1: \<open>lazylist_insert\<close> of a range strictly between the sentinels, on
  any well-formed list and with fuel for its 128 nodes. If the range overlaps
  bytes already received it returns 0 and changes nothing; if a new node would be needed
  and the free list is exhausted it accesses the node array out of bounds;
  otherwise it returns 0 and the list, well-formed again (sorted, disjoint
  ranges, adjacent ones merged), stands for the old bytes and the new ones.
\<close>

theorem lazylist_insert_refines:
  assumes "ll_rep l rs" "rg_valid rg" "130 \<le> fuel"
  shows "if bytes rs \<inter> rg_bytes rg \<noteq> {} then lazylist_insert fuel l rg = Inr (0, l)
    else if length rs = 126 \<and> sint (left rg) - 1 \<notin> bytes rs \<and> sint (right rg) + 1 \<notin> bytes rs
      then lazylist_insert fuel l rg = Inl OutOfBounds
    else \<exists>l' rs'. lazylist_insert fuel l rg = Inr (0, l') \<and> ll_rep l' rs' \<and> canon rs'
      \<and> bytes rs' = bytes rs \<union> rg_bytes rg"
  using insert_rep [OF assms] ll_rep_canon by (auto split: if_splits)

theorem lazylist_insert_refines_witness:
  "\<exists>l l' rs'. ll_rep l [] \<and> lazylist_insert 130 l \<lparr>left = 10, right = 19\<rparr> = Inr (0, l') \<and> ll_rep l' rs'
    \<and> bytes rs' = {10..19}"
proof -
  obtain l where l: "ll_rep l []" using blank_init by blast
  have "rg_valid \<lparr>left = 10, right = 19\<rparr>" by (simp add: rg_valid_def)
  from lazylist_insert_refines [OF l this, of 130] l show ?thesis by (auto simp: rg_bytes_def)
qed

text \<open>
  C2: \<open>lazylist_pop_front\<close> on any well-formed list, with fuel for at least one try. It returns 0 and
  changes nothing when the list is empty or does not start at the requested
  byte; otherwise it returns 1 with the first range, which leaves the list,
  and the node of that range is free again: the list is well formed.
\<close>

theorem lazylist_pop_front_refines:
  assumes "ll_rep l rs" "0 < fuel"
  shows "case rs of
      [] \<Rightarrow> lazylist_pop_front fuel l rl = Inr (None, l)
    | x # rest \<Rightarrow>
        if rl \<noteq> RANGE_START_ANY \<and> sint rl \<noteq> fst x then lazylist_pop_front fuel l rl = Inr (None, l)
        else \<exists>rg l'. lazylist_pop_front fuel l rl = Inr (Some rg, l') \<and> ll_rep l' rest
          \<and> (sint (left rg), sint (right rg)) = x"
proof -
  obtain n where n: "fuel = Suc n" using assms(2) by (cases fuel) auto
  show ?thesis unfolding n by (rule pop_front_ok [OF assms(1)])
qed

theorem lazylist_pop_front_refines_witness:
  "\<exists>l x rest. ll_rep l (x # rest) \<and> bytes (x # rest) = {10..19}
    \<and> (\<exists>rg l'. lazylist_pop_front 1 l RANGE_START_ANY = Inr (Some rg, l') \<and> ll_rep l' rest)"
proof -
  obtain l0 where "ll_rep l0 []" using blank_init by blast
  moreover have "rg_valid \<lparr>left = 10, right = 19\<rparr>" by (simp add: rg_valid_def)
  ultimately obtain l rs where l: "ll_rep l rs" "bytes rs = {10..19}"
    using insert_rep [of l0 "[]" "\<lparr>left = 10, right = 19\<rparr>" 130] by (auto simp: rg_bytes_def)
  then obtain x rest where rs: "rs = x # rest" by (cases rs) auto
  with lazylist_pop_front_refines [OF l(1), of 1 RANGE_START_ANY] obtain rg l'
    where "lazylist_pop_front 1 l RANGE_START_ANY = Inr (Some rg, l')" "ll_rep l' rest" by auto
  with l rs show ?thesis by blast
qed

text \<open>
  On a free list with nodes the two compiled variants of
  \<open>lazylist_get_free_node\<close> do the same; on an exhausted one the LR/SC variant
  returns 0 and leaves the list alone, while the locking variant, which compares the lock
  word where it means the head index, dereferences the node after the end of
  the array.
\<close>

theorem lazylist_get_free_node_variants:
  assumes "free_head_lock l = 0" "length (nodes l) = 130"
  shows "if free_head_idx l = EOL
    then lazylist_get_free_node_lrsc (Suc n) l = Inr (None, l) \<and> lazylist_get_free_node l = Inl OutOfBounds
    else lazylist_get_free_node_lrsc (Suc n) l = lazylist_get_free_node l"
  using assms get_free_eq [OF assms(1)] get_free_lrsc_eq [of n l] get_free_exhausted [OF assms(2,1)]
  by (simp del: lazylist_get_free_node_lrsc.simps)

theorem lazylist_get_free_node_variants_witness:
  "lazylist_get_free_node (blank_list\<lparr>free_head_idx := EOL\<rparr>) = Inl OutOfBounds"
  using lazylist_get_free_node_variants [of "blank_list\<lparr>free_head_idx := EOL\<rparr>"] by (simp add: blank_list_def)

text \<open>
  \<open>lazylist_init\<close> does not reset the mark of the left sentinel.
  When the memory it runs on has a nonzero byte there, every later
  insertion into the fresh list fails its validation for ever: no amount of
  fuel lets it return.
\<close>

theorem lazylist_init_keeps_marks:
  assumes "length (nodes l) = 130" "length (marks l) = 128" "marks l ! 126 \<noteq> 0" "rg_valid rg"
  shows "\<exists>l'. lazylist_init l NUM_SEGMENTS = Inr l' \<and> (\<forall>fuel. lazylist_insert fuel l' rg = Inl NoFuel)"
proof -
  from init_views [OF assms(1,2)] obtain l' where l': "lazylist_init l NUM_SEGMENTS = Inr l'"
    and v: "length (nodes l') = 130" "length (marks l') = 128" "marks l' ! 126 \<noteq> 0" "head_idx l' = 126"
      "idx (nodes l' ! 126) = 126" "nlock (nodes l' ! 126) = 0" "next_idx (nodes l' ! 126) = 127"
      "nlock (nodes l' ! 127) = 0" "ends l' 126 = (- 2147483648, - 2147483648)"
      "ends l' 127 = (2147483647, 2147483647)"
    using assms(3) by metis
  have "lazylist_insert fuel l' rg = Inl NoFuel" for fuel
    unfolding lazylist_insert_def using v assms(4) by (intro insert_loop_marked) simp_all
  with l' show ?thesis by blast
qed

theorem lazylist_init_keeps_marks_witness:
  "\<exists>l'. lazylist_init (blank_list\<lparr>marks := replicate 128 255\<rparr>) NUM_SEGMENTS = Inr l'
    \<and> lazylist_insert 1000 l' \<lparr>left = 0, right = 9\<rparr> = Inl NoFuel"
  using lazylist_init_keeps_marks [of "blank_list\<lparr>marks := replicate 128 255\<rparr>" "\<lparr>left = 0, right = 9\<rparr>"]
  by (auto simp: blank_list_def rg_valid_def)

end
