(* ===== verification/Ooorb.thy ===== *)
theory Ooorb
  imports Lazylist_Rep
begin

text \<open>
  The out-of-order reorder buffer of \<^verbatim>\<open>examples/ooorb\<close>: its three handlers on
  the interval list, and the packets its driver generates. The interface
  \<open>reorder_list\<close> states what the handlers rely on; the interval list meets it.
  An invariant relates the buffered ranges and the next expected byte to the
  bytes received, for any sequence of packets.
\<close>

section \<open>Handlers\<close>

record rb_state =
  rb_list :: lazylist
  next_expected_byte :: u32

definition ooorb_hh :: "rb_state \<Rightarrow> ll_error + rb_state" where
  "ooorb_hh state =
     bindE (lazylist_init (rb_list state) NUM_SEGMENTS) (\<lambda>l.
       Inr (state\<lparr>rb_list := l, next_expected_byte := 0\<rparr>))"

text \<open>\<open>pkt_info\<close> is the address of the packet in \<open>m\<close>; three words of it are read.\<close>

definition pkt_op :: "mem \<Rightarrow> u32 \<Rightarrow> u32" where
  "pkt_op m pkt_info = load32 m pkt_info"

definition pkt_range :: "mem \<Rightarrow> u32 \<Rightarrow> lazylist_range" where
  "pkt_range m pkt_info = \<lparr>left = load32 m (pkt_info + 4), right = load32 m (pkt_info + 8)\<rparr>"

definition ooorb_ph :: "nat \<Rightarrow> mem \<Rightarrow> u32 \<Rightarrow> rb_state \<Rightarrow> ll_error + rb_state" where
  "ooorb_ph fuel m pkt_info state =
     (let op = pkt_op m pkt_info; rg = pkt_range m pkt_info in
      if op = 0 then
        bindE (lazylist_insert fuel (rb_list state) rg) (\<lambda>(_, l). Inr (state\<lparr>rb_list := l\<rparr>))
      else if op = 1 then
        bindE (lazylist_pop_front fuel (rb_list state) (next_expected_byte state)) (\<lambda>(popped, l).
          case popped of
            None \<Rightarrow> Inr (state\<lparr>rb_list := l\<rparr>)
          | Some rg \<Rightarrow> Inr (state\<lparr>rb_list := l, next_expected_byte := right rg + 1\<rparr>))
      else Inr state)"

text \<open>The loop of the tail handler, with what it prints for each node.\<close>

fun ooorb_print :: "nat \<Rightarrow> lazylist \<Rightarrow> u32 \<Rightarrow> ll_error + (i32 \<times> i32) list" where
  "ooorb_print 0 l head = Inl NoFuel"
| "ooorb_print (Suc fuel) l head =
     bindE (node_at l head) (\<lambda>n.
     bindE (node_at l (next_idx n)) (\<lambda>n'.
       let line = (left (nrange n), right (nrange n)) in
       if right (nrange n') = INT32_MAX then Inr [line]
       else bindE (ooorb_print fuel l (next_idx n)) (\<lambda>out. Inr (line # out))))"

definition ooorb_th :: "nat \<Rightarrow> rb_state \<Rightarrow> ll_error + (i32 \<times> i32) list \<times> rb_state" where
  "ooorb_th fuel state =
     bindE (lazylist_pop_front fuel (rb_list state) (next_expected_byte state)) (\<lambda>(popped, l).
     bindE (ooorb_print fuel l (head_idx l)) (\<lambda>out.
       Inr (out, state\<lparr>rb_list := l\<rparr>)))"

section \<open>The driver's packets\<close>

definition fill_packet :: "u32 \<Rightarrow> u32 \<Rightarrow> mem \<Rightarrow> u32 \<Rightarrow> u32 \<Rightarrow> u32 \<times> mem" where
  "fill_packet msg_idx pkt_idx m pkt_buff max_pkt_size =
     (let m = store32 m pkt_buff 10;
          range_size = 10;
          m = (if pkt_idx \<le> 10 then
                 store32 (store32 (store32 m pkt_buff 0)
                   (pkt_buff + 4) (pkt_idx * range_size))
                   (pkt_buff + 8) ((pkt_idx + 1) * range_size - 1)
               else if pkt_idx \<le> 30 then store32 m pkt_buff 1
               else m)
      in (max_pkt_size, m))"

section \<open>The interface the handlers rely on\<close>

locale reorder_list =
  fixes ins :: "'s \<Rightarrow> lazylist_range \<Rightarrow> 'e + u32 \<times> 's"
    and pop :: "'s \<Rightarrow> u32 \<Rightarrow> 'e + lazylist_range option \<times> 's"
    and rep :: "'s \<Rightarrow> ranges \<Rightarrow> bool"
    and cap :: nat
  assumes rep_canon: "rep s rs \<Longrightarrow> canon rs"
    and ins_dup: "rep s rs \<Longrightarrow> rg_valid rg \<Longrightarrow> bytes rs \<inter> rg_bytes rg \<noteq> {} \<Longrightarrow> ins s rg = Inr (0, s)"
    and ins_new: "rep s rs \<Longrightarrow> rg_valid rg \<Longrightarrow> bytes rs \<inter> rg_bytes rg = {} \<Longrightarrow> length rs < cap \<Longrightarrow>
      \<exists>s' rs'. ins s rg = Inr (0, s') \<and> rep s' rs' \<and> bytes rs' = bytes rs \<union> rg_bytes rg"
    and pop_none: "rep s rs \<Longrightarrow> rl \<noteq> RANGE_START_ANY \<Longrightarrow> rs = [] \<or> sint rl \<noteq> fst (hd rs) \<Longrightarrow>
      pop s rl = Inr (None, s)"
    and pop_first: "rep s (x # rs) \<Longrightarrow> sint rl = fst x \<Longrightarrow>
      \<exists>rg s'. pop s rl = Inr (Some rg, s') \<and> rep s' rs \<and> (sint (left rg), sint (right rg)) = x"
begin

text \<open>
  Delivery at the next expected byte \<open>nxt\<close> when nothing before it is
  buffered: the longest run from \<open>nxt\<close> leaves the list, or nothing does
  because the byte itself is missing.
\<close>

lemma deliver:
  assumes rep: "rep s rs" and n: "0 \<le> sint nxt" "\<forall>b\<in>bytes rs. sint nxt \<le> b"
  shows "\<exists>res s' rs'. pop s nxt = Inr (res, s') \<and> rep s' rs' \<and> length rs' \<le> length rs
     \<and> (case res of
          None \<Rightarrow> rs' = rs \<and> sint nxt \<notin> bytes rs
        | Some rg \<Rightarrow> sint (left rg) = sint nxt \<and> sint (right rg + 1) = sint (right rg) + 1
            \<and> bytes rs = {sint nxt..sint (right rg)} \<union> bytes rs'
            \<and> sint nxt \<le> sint (right rg) \<and> (\<forall>b\<in>bytes rs'. sint (right rg) + 1 < b))"
proof (cases rs)
  case Nil
  have "nxt \<noteq> RANGE_START_ANY" using n(1) by (auto simp: RANGE_START_ANY_def)
  with Nil pop_none [OF rep] rep show ?thesis by auto
next
  case (Cons x rest)
  have c: "canon (x # rest)" using rep_canon [OF rep] Cons by simp
  show ?thesis
  proof (cases "sint nxt = fst x")
    case True
    obtain rg s' where p: "pop s nxt = Inr (Some rg, s')" "rep s' rest" "(sint (left rg), sint (right rg)) = x"
      using pop_first [OF rep [unfolded Cons] True] by blast
    have "sint (right rg) < 2147483647" using c p(3) by (auto simp: canon_Cons)
    moreover have "\<forall>b\<in>bytes rest. snd x + 1 < b"
      using c by (fastforce simp: canon_Cons bytes_def)
    ultimately show ?thesis
      using p True Cons c by (auto simp: sint_i32_succ canon_Cons)
  next
    case False
    have "nxt \<noteq> RANGE_START_ANY" using n(1) by (auto simp: RANGE_START_ANY_def)
    moreover have "sint nxt \<notin> bytes rs"
    proof
      assume "sint nxt \<in> bytes rs"
      moreover have "fst x \<in> bytes rs" using c by (simp add: Cons canon_Cons)
      then have "sint nxt < fst x" using n(2) False by fastforce
      moreover have "\<forall>b\<in>bytes rs. fst x \<le> b" using c by (fastforce simp: Cons canon_Cons bytes_def)
      ultimately show False by fastforce
    qed
    ultimately show ?thesis using pop_none [OF rep] rep False Cons by auto
  qed
qed

end

text \<open>The interval list is such a list, for any fuel that covers its nodes.\<close>

interpretation ll: reorder_list "lazylist_insert (130 + k)" "lazylist_pop_front (130 + k)" ll_rep 126 for k
proof
  fix s rs x rl and rg :: lazylist_range
  show "ll_rep s rs \<Longrightarrow> canon rs" by (rule ll_rep_canon)
  show "ll_rep s rs \<Longrightarrow> rg_valid rg \<Longrightarrow> bytes rs \<inter> rg_bytes rg \<noteq> {} \<Longrightarrow>
      lazylist_insert (130 + k) s rg = Inr (0, s)"
    using insert_rep [of s rs rg "130 + k"] by simp
  show "ll_rep s rs \<Longrightarrow> rg_valid rg \<Longrightarrow> bytes rs \<inter> rg_bytes rg = {} \<Longrightarrow> length rs < 126 \<Longrightarrow>
      \<exists>s' rs'. lazylist_insert (130 + k) s rg = Inr (0, s') \<and> ll_rep s' rs' \<and> bytes rs' = bytes rs \<union> rg_bytes rg"
    using insert_rep [of s rs rg "130 + k"] by auto
  show "ll_rep s rs \<Longrightarrow> rl \<noteq> RANGE_START_ANY \<Longrightarrow> rs = [] \<or> sint rl \<noteq> fst (hd rs) \<Longrightarrow>
      lazylist_pop_front (130 + k) s rl = Inr (None, s)"
    using pop_front_ok [of s rs "129 + k" rl] by (cases rs) auto
  show "ll_rep s (x # rs) \<Longrightarrow> sint rl = fst x \<Longrightarrow>
      \<exists>rg s'. lazylist_pop_front (130 + k) s rl = Inr (Some rg, s') \<and> ll_rep s' rs
        \<and> (sint (left rg), sint (right rg)) = x"
    using pop_front_ok [of s "x # rs" "129 + k" rl] by auto
qed

section \<open>Counting ranges\<close>

text \<open>A new range makes the canonical list at most one longer.\<close>

lemma canon_starts:
  assumes "canon rs"
  shows "a \<in> fst ` set rs \<longleftrightarrow> a \<in> bytes rs \<and> a - 1 \<notin> bytes rs"
  using assms
proof (induction rs)
  case (Cons x rs)
  then have "\<forall>b\<in>bytes rs. snd x + 1 < b" "fst x \<le> snd x"
    by (fastforce simp: canon_Cons bytes_def)+
  moreover have "a \<in> fst ` set rs \<longleftrightarrow> a \<in> bytes rs \<and> a - 1 \<notin> bytes rs"
    using Cons by (simp add: canon_Cons)
  ultimately show ?case by (cases x) fastforce
qed simp

lemma canon_distinct_starts: "canon rs \<Longrightarrow> distinct (map fst rs)"
  by (induction rs) (fastforce simp: canon_Cons)+

lemma canon_length: "canon rs \<Longrightarrow> length rs = card (fst ` set rs)"
  using distinct_card [OF canon_distinct_starts, of rs] by simp

lemma canon_insert_length:
  assumes "canon rs" "canon rs'" "bytes rs' = bytes rs \<union> {l..r}"
  shows "length rs' \<le> Suc (length rs)"
proof -
  have "fst ` set rs' \<subseteq> insert l (fst ` set rs)"
  proof
    fix a assume "a \<in> fst ` set rs'"
    then have "a \<in> bytes rs \<union> {l..r}" "a - 1 \<notin> bytes rs \<union> {l..r}"
      using canon_starts [OF assms(2)] assms(3) by simp_all
    then show "a \<in> insert l (fst ` set rs)"
      using canon_starts [OF assms(1), of a] by auto
  qed
  then have "card (fst ` set rs') \<le> card (insert l (fst ` set rs))"
    by (intro card_mono) simp_all
  also have "\<dots> \<le> Suc (card (fst ` set rs))" by (rule card_insert_le_m1) simp_all
  finally show ?thesis by (simp add: canon_length assms)
qed

section \<open>The invariant of the reorder buffer\<close>

text \<open>
  \<open>recv\<close> is the set of bytes received. What is before the next expected byte
  has been delivered, the rest is buffered, in at most \<open>k\<close> ranges.
\<close>

definition rb_inv :: "rb_state \<Rightarrow> int set \<Rightarrow> nat \<Rightarrow> bool" where
  "rb_inv st recv k \<longleftrightarrow> (\<exists>rs. ll_rep (rb_list st) rs \<and> length rs \<le> k
     \<and> 0 \<le> sint (next_expected_byte st)
     \<and> (\<forall>b\<in>bytes rs. sint (next_expected_byte st) \<le> b)
     \<and> recv = {0..<sint (next_expected_byte st)} \<union> bytes rs)"

lemma ooorb_hh_inv:
  assumes "length (nodes (rb_list st)) = 130" "length (marks (rb_list st)) = 128"
    "marks (rb_list st) ! 126 = 0" "marks (rb_list st) ! 127 = 0"
  shows "\<exists>st'. ooorb_hh st = Inr st' \<and> rb_inv st' {} 0"
  using init_ok [OF assms] by (force simp: ooorb_hh_def rb_inv_def dest: linv_rep)

lemma ooorb_ph_insert_inv:
  assumes I: "rb_inv st recv k" and op: "pkt_op m p = 0" and rg: "rg_valid (pkt_range m p)"
    and new: "recv \<inter> rg_bytes (pkt_range m p) = {}" "0 \<le> sint (left (pkt_range m p))" and k: "k < 126"
  shows "\<exists>st'. ooorb_ph (130 + e) m p st = Inr st'
    \<and> rb_inv st' (recv \<union> rg_bytes (pkt_range m p)) (Suc k)
    \<and> next_expected_byte st' = next_expected_byte st"
proof -
  let ?n = "sint (next_expected_byte st)" and ?S = "rg_bytes (pkt_range m p)"
  obtain rs where rs: "ll_rep (rb_list st) rs" "length rs \<le> k" "0 \<le> ?n" "\<forall>b\<in>bytes rs. ?n \<le> b"
    "recv = {0..<?n} \<union> bytes rs" using I by (auto simp: rb_inv_def)
  have d: "bytes rs \<inter> ?S = {}" using rs(5) new by auto
  have "length rs < 126" using rs(2) k by simp
  then obtain l' rs' where l': "lazylist_insert (130 + e) (rb_list st) (pkt_range m p) = Inr (0, l')"
      "ll_rep l' rs'" "bytes rs' = bytes rs \<union> ?S"
    using ll.ins_new [OF rs(1) rg d, of e] by blast
  have "length rs' \<le> Suc k"
    using canon_insert_length [of rs rs'] ll_rep_canon [OF rs(1)] ll_rep_canon [OF l'(2)] l'(3) rs(2)
    by (force simp: rg_bytes_def)
  moreover have "?n \<le> b" if "b \<in> ?S" for b
  proof (rule ccontr)
    assume "\<not> ?n \<le> b"
    then have "b \<in> recv" using that new(2) rs(5) by (auto simp: rg_bytes_def)
    then show False using that new by auto
  qed
  then have "\<forall>b\<in>bytes rs'. ?n \<le> b" using l'(3) rs(4) by auto
  ultimately have "rb_inv (st\<lparr>rb_list := l'\<rparr>) (recv \<union> ?S) (Suc k)"
    using l' rs by (auto simp: rb_inv_def)
  then show ?thesis by (simp add: ooorb_ph_def op l'(1))
qed

lemma ooorb_ph_pop_inv:
  assumes I: "rb_inv st recv k" and op: "pkt_op m p = 1"
  shows "\<exists>st'. ooorb_ph (130 + e) m p st = Inr st' \<and> rb_inv st' recv k
    \<and> sint (next_expected_byte st') \<notin> recv"
proof -
  let ?n = "sint (next_expected_byte st)"
  obtain rs where rs: "ll_rep (rb_list st) rs" "length rs \<le> k" "0 \<le> ?n" "\<forall>b\<in>bytes rs. ?n \<le> b"
    "recv = {0..<?n} \<union> bytes rs" using I by (auto simp: rb_inv_def)
  obtain res l' rs' where p: "lazylist_pop_front (130 + e) (rb_list st) (next_expected_byte st) = Inr (res, l')"
      "ll_rep l' rs'" "length rs' \<le> length rs"
    and res: "case res of
          None \<Rightarrow> rs' = rs \<and> ?n \<notin> bytes rs
        | Some rg \<Rightarrow> sint (left rg) = ?n \<and> sint (right rg + 1) = sint (right rg) + 1
            \<and> bytes rs = {?n..sint (right rg)} \<union> bytes rs'
            \<and> ?n \<le> sint (right rg) \<and> (\<forall>b\<in>bytes rs'. sint (right rg) + 1 < b)"
    using ll.deliver [OF rs(1,3,4), of e] by blast
  show ?thesis
  proof (cases res)
    case None
    then have "ll_rep l' rs" "?n \<notin> bytes rs" using res p(2) by simp_all
    moreover have "ooorb_ph (130 + e) m p st = Inr (st\<lparr>rb_list := l'\<rparr>)"
      using None p(1) by (simp add: ooorb_ph_def op)
    ultimately show ?thesis using rs by (auto simp: rb_inv_def)
  next
    case (Some rg)
    let ?st = "st\<lparr>rb_list := l', next_expected_byte := right rg + 1\<rparr>"
    have r: "sint (right rg + 1) = sint (right rg) + 1" "bytes rs = {?n..sint (right rg)} \<union> bytes rs'"
      "?n \<le> sint (right rg)" "\<forall>b\<in>bytes rs'. sint (right rg) + 1 < b"
      using res Some by simp_all
    have "{0..<sint (right rg) + 1} = {0..<?n} \<union> {?n..sint (right rg)}"
      using rs(3) r(3) by auto
    then have "recv = {0..<sint (right rg) + 1} \<union> bytes rs'"
      using rs(5) r(2) by auto
    moreover have "sint (right rg) + 1 \<notin> bytes rs'" using r(4) by fastforce
    ultimately have "rb_inv ?st recv k" "sint (right rg + 1) \<notin> recv"
      unfolding rb_inv_def using p(2,3) rs(2,3) r by (auto intro!: exI [of _ rs'])
    moreover have "ooorb_ph (130 + e) m p st = Inr ?st"
      using Some p(1) by (simp add: ooorb_ph_def op)
    ultimately show ?thesis by simp
  qed
qed

section \<open>A whole message\<close>

text \<open>The payload handler on one packet after another; each has its own memory.\<close>

fun ooorb_run :: "nat \<Rightarrow> (mem \<times> u32) list \<Rightarrow> rb_state \<Rightarrow> ll_error + rb_state" where
  "ooorb_run fuel [] st = Inr st"
| "ooorb_run fuel ((m, p) # ps) st = bindE (ooorb_ph fuel m p st) (ooorb_run fuel ps)"

text \<open>The inserting packets of a sequence, and the bytes they carry.\<close>

definition inserts :: "(mem \<times> u32) list \<Rightarrow> lazylist_range list" where
  "inserts ps = map (\<lambda>(m, p). pkt_range m p) (filter (\<lambda>(m, p). pkt_op m p = 0) ps)"

definition received :: "(mem \<times> u32) list \<Rightarrow> int set" where
  "received ps = (\<Union>rg\<in>set (inserts ps). rg_bytes rg)"

definition stream_ok :: "(mem \<times> u32) list \<Rightarrow> bool" where
  "stream_ok ps \<longleftrightarrow> length (inserts ps) \<le> 126
     \<and> (\<forall>rg\<in>set (inserts ps). rg_valid rg \<and> 0 \<le> sint (left rg))
     \<and> sorted_wrt (\<lambda>a b. rg_bytes a \<inter> rg_bytes b = {}) (inserts ps)"

lemma inserts_simps [simp]: "inserts [] = []"
  "inserts ((m, p) # ps) = (if pkt_op m p = 0 then pkt_range m p # inserts ps else inserts ps)"
  "inserts (ps @ qs) = inserts ps @ inserts qs"
  by (simp_all add: inserts_def)

lemma ooorb_run_append: "ooorb_run fuel (ps @ qs) st = bindE (ooorb_run fuel ps st) (ooorb_run fuel qs)"
  by (induction fuel ps st rule: ooorb_run.induct) (simp_all add: bindE_def split: sum.splits)

lemma ooorb_run_inv:
  assumes "rb_inv st recv k" "k + length (inserts ps) \<le> 126"
    "\<forall>rg\<in>set (inserts ps). rg_valid rg \<and> 0 \<le> sint (left rg) \<and> recv \<inter> rg_bytes rg = {}"
    "sorted_wrt (\<lambda>a b. rg_bytes a \<inter> rg_bytes b = {}) (inserts ps)"
  shows "\<exists>st'. ooorb_run (130 + e) ps st = Inr st'
    \<and> rb_inv st' (recv \<union> received ps) (k + length (inserts ps))"
  using assms
proof (induction ps arbitrary: st recv k)
  case Nil
  then show ?case by (simp add: received_def)
next
  case (Cons mp ps)
  obtain m p where mp: "mp = (m, p)" by (cases mp)
  consider (ins) "pkt_op m p = 0" | (pop) "pkt_op m p = 1" | (other) "pkt_op m p \<noteq> 0" "pkt_op m p \<noteq> 1"
    by blast
  then show ?case
  proof cases
    case ins
    then obtain st1 where st1: "ooorb_ph (130 + e) m p st = Inr st1"
        "rb_inv st1 (recv \<union> rg_bytes (pkt_range m p)) (Suc k)"
      using ooorb_ph_insert_inv [OF Cons.prems(1), of m p e] Cons.prems(2,3) by (auto simp: mp)
    have "\<exists>st'. ooorb_run (130 + e) ps st1 = Inr st'
        \<and> rb_inv st' (recv \<union> rg_bytes (pkt_range m p) \<union> received ps) (Suc k + length (inserts ps))"
      using Cons.prems(2-4) ins by (intro Cons.IH [OF st1(2)]) (auto simp: mp)
    with st1 ins show ?thesis by (auto simp: mp received_def Un_assoc)
  next
    case pop
    then obtain st1 where st1: "ooorb_ph (130 + e) m p st = Inr st1" "rb_inv st1 recv k"
      using ooorb_ph_pop_inv [OF Cons.prems(1) pop, of e] by blast
    have "\<exists>st'. ooorb_run (130 + e) ps st1 = Inr st' \<and> rb_inv st' (recv \<union> received ps) (k + length (inserts ps))"
      using Cons.prems(2-4) pop by (intro Cons.IH [OF st1(2)]) (auto simp: mp)
    with st1 pop show ?thesis by (auto simp: mp received_def)
  next
    case other
    then have "ooorb_ph (130 + e) m p st = Inr st" by (simp add: ooorb_ph_def)
    moreover have "\<exists>st'. ooorb_run (130 + e) ps st = Inr st' \<and> rb_inv st' (recv \<union> received ps) (k + length (inserts ps))"
      using Cons.prems other by (intro Cons.IH [OF Cons.prems(1)]) (auto simp: mp)
    ultimately show ?thesis using other by (auto simp: mp received_def)
  qed
qed

section \<open>What the tail handler prints\<close>

lemma ooorb_print_ok:
  assumes "length (nodes l) = 130" "ends l 127 = (2147483647, 2147483647)"
    "chain (nx l) (of_nat c) (c # us @ [127]) EOL" "\<forall>x\<in>set (c # us). x < 128"
    "\<forall>x\<in>set us. snd (ends l x) < 2147483647" "length us < fuel"
  shows "\<exists>out. ooorb_print fuel l (of_nat c) = Inr out
    \<and> map (\<lambda>(a, b). (sint a, sint b)) out = map (ends l) (c # us)"
  using assms(3-)
proof (induction us arbitrary: c fuel)
  case Nil
  then obtain n where n: "fuel = Suc n" by (cases fuel) auto
  have "right (nrange (nodes l ! 127)) = INT32_MAX"
    using assms(2) by (simp add: ends_def flip: sint_i32_eq_iff)
  then show ?case
    using Nil assms(1) node_at_ok [of l 127] by (simp add: n node_at_ok ends_def Let_def flip: nx_def)
next
  case (Cons d us)
  then obtain n where n: "fuel = Suc n" by (cases fuel) auto
  have ne: "right (nrange (nodes l ! d)) \<noteq> INT32_MAX"
    using Cons.prems(3) by (auto simp: ends_def)
  have "nx l c = of_nat d" using Cons.prems(1) by simp
  then have nxt: "next_idx (nodes l ! c) = of_nat d" by (simp add: nx_def)
  obtain out where "ooorb_print n l (of_nat d) = Inr out"
      "map (\<lambda>(a, b). (sint a, sint b)) out = map (ends l) (d # us)"
    using Cons.IH [of d n] Cons.prems n by auto
  then show ?case
    using Cons.prems(2) assms(1) ne by (simp add: n node_at_ok Let_def nxt ends_def)
qed

lemma ll_rep_print:
  assumes "ll_rep l rs"
  shows "\<exists>out. ooorb_print (130 + e) l (head_idx l) = Inr out
    \<and> map (\<lambda>(a, b). (sint a, sint b)) out = (- 2147483648, - 2147483648) # rs"
proof -
  obtain us fs where I: "linv l us fs" and rs: "rs = map (ends l) us"
    using assms by (auto simp: ll_rep_def)
  note lk = linvD(2) [OF I]
  have "\<forall>x\<in>set (126 # us). x < 128" using links_lt(1) [OF lk] by force
  moreover have "\<forall>x\<in>set us. snd (ends l x) < 2147483647"
    using canon_range [OF linvD(3) [OF I]] by auto
  moreover have "length us < 130 + e" using links_card [OF lk] by simp
  moreover have "chain (nx l) (of_nat 126) (126 # us @ [127]) EOL"
    using lk by (simp add: links_def)
  ultimately show ?thesis
    using ooorb_print_ok [OF cellsD(1) [OF linvD(1) [OF I]] ends_127_126(2) [OF I], of 126 us "130 + e"]
      ends_127_126(1) [OF I] cellsD(3) [OF linvD(1) [OF I]] rs by auto
qed

section \<open>What the driver writes\<close>

lemma fill_packet_insert:
  assumes "unat k \<le> 10"
  shows "pkt_op (snd (fill_packet i k m b mx)) b = 0"
    "pkt_range (snd (fill_packet i k m b mx)) b = \<lparr>left = k * 10, right = (k + 1) * 10 - 1\<rparr>"
proof -
  have k: "k \<le> 10" using assms by (simp add: word_le_nat_alt)
  have s: "sep (b + 4) 4 b 4" "sep (b + 8) 4 b 4" "sep (b + 8) 4 (b + 4) 4"
    by (rule sepI; simp)+
  show "pkt_op (snd (fill_packet i k m b mx)) b = 0"
    using k s by (simp add: fill_packet_def pkt_op_def ww.load_other Let_def)
  show "pkt_range (snd (fill_packet i k m b mx)) b = \<lparr>left = k * 10, right = (k + 1) * 10 - 1\<rparr>"
    using k s by (simp add: fill_packet_def pkt_range_def ww.load_other Let_def)
qed

lemma fill_packet_op:
  "10 < unat k \<Longrightarrow> pkt_op (snd (fill_packet i k m b mx)) b = (if unat k \<le> 30 then 1 else 10)"
  by (simp add: fill_packet_def pkt_op_def word_le_nat_alt Let_def)

text \<open>The packets of message \<open>i\<close> with the given numbers, each in a buffer of its own.\<close>

definition driver_packets :: "u32 \<Rightarrow> u32 \<Rightarrow> u32 \<Rightarrow> mem \<Rightarrow> nat list \<Rightarrow> (mem \<times> u32) list" where
  "driver_packets i b mx m ks = map (\<lambda>k. (snd (fill_packet i (of_nat k) m b mx), b)) ks"

lemma unat_small: "k \<le> 30 \<Longrightarrow> unat (of_nat k :: u32) = k"
  by (simp add: unat_of_nat take_bit_nat_eq_self)

lemma driver_range:
  assumes "k \<le> 10"
  shows "rg_valid \<lparr>left = of_nat k * 10, right = (of_nat k + 1) * 10 - 1\<rparr>"
    "rg_bytes \<lparr>left = of_nat k * 10, right = (of_nat k + 1) * 10 - 1\<rparr> = {10 * int k..10 * int k + 9}"
proof -
  have "(of_nat k :: i32) * 10 = of_nat (10 * k)" "((of_nat k :: i32) + 1) * 10 - 1 = of_nat (10 * k + 9)"
    by simp_all
  moreover have "sint (of_nat n :: i32) = int n" if "n < 2147483648" for n
  proof -
    have "unat (of_nat n :: i32) = n"
      using that by (simp add: unat_of_nat take_bit_nat_eq_self)
    with that show ?thesis using sint_i32_small [of "of_nat n"] by simp
  qed
  ultimately have "sint ((of_nat k :: i32) * 10) = int (10 * k)"
    "sint (((of_nat k :: i32) + 1) * 10 - 1) = int (10 * k + 9)"
    using assms by (simp_all del: of_nat_mult of_nat_add)
  then show "rg_valid \<lparr>left = of_nat k * 10, right = (of_nat k + 1) * 10 - 1\<rparr>"
    "rg_bytes \<lparr>left = of_nat k * 10, right = (of_nat k + 1) * 10 - 1\<rparr> = {10 * int k..10 * int k + 9}"
    using assms by (simp_all add: rg_valid_def rg_bytes_def)
qed

section \<open>Properties\<close>

definition rb_fresh :: "rb_state \<Rightarrow> bool" where
  "rb_fresh st \<longleftrightarrow> length (nodes (rb_list st)) = 130 \<and> length (marks (rb_list st)) = 128
     \<and> marks (rb_list st) ! 126 = 0 \<and> marks (rb_list st) ! 127 = 0"

lemma rb_fresh_blank: "rb_fresh \<lparr>rb_list = blank_list, next_expected_byte = 7\<rparr>"
  by (simp add: rb_fresh_def blank_list_len)

lemma fresh_run:
  assumes "rb_fresh st" "stream_ok ps"
  shows "\<exists>st0 st'. ooorb_hh st = Inr st0 \<and> ooorb_run (130 + e) ps st0 = Inr st'
    \<and> rb_inv st' (received ps) (length (inserts ps))"
proof -
  obtain st0 where st0: "ooorb_hh st = Inr st0" "rb_inv st0 {} 0"
    using ooorb_hh_inv [of st] assms(1) by (auto simp: rb_fresh_def)
  have "\<exists>st'. ooorb_run (130 + e) ps st0 = Inr st' \<and> rb_inv st' ({} \<union> received ps) (0 + length (inserts ps))"
    using assms(2) by (intro ooorb_run_inv [OF st0(2)]) (auto simp: stream_ok_def)
  with st0 show ?thesis by simp
qed

text \<open>
  C3: the header handler, then the payload handler on any sequence of
  packets whose inserting ones carry at most 126 valid, pairwise disjoint
  ranges from byte 0 on, in any order and mixed with delivering ones. This needs a fresh list, \<open>rb_fresh\<close>: before the
  header handler it has its 130 nodes and 128 marks, and the marks of the last two elements are zero in the memory it
  gets. \<open>lazylist_init\<close> does not clear the mark of its sentinel, and where it is set an insertion retries
  forever. From a fresh list no packet fails, with any fuel from 130 rounds of the retry loop on; the bytes
  before the next expected one have all been received, and exactly the other
  received bytes are buffered, as a canonical list.
\<close>

theorem ooorb_reorders:
  assumes "rb_fresh st" "stream_ok ps"
  shows "\<exists>st0 st' rs. ooorb_hh st = Inr st0 \<and> ooorb_run (130 + e) ps st0 = Inr st'
    \<and> ll_rep (rb_list st') rs \<and> canon rs \<and> 0 \<le> sint (next_expected_byte st')
    \<and> {0..<sint (next_expected_byte st')} \<subseteq> received ps
    \<and> bytes rs = received ps - {0..<sint (next_expected_byte st')}"
proof -
  obtain st0 st' where s: "ooorb_hh st = Inr st0" "ooorb_run (130 + e) ps st0 = Inr st'"
    and I: "rb_inv st' (received ps) (length (inserts ps))" using fresh_run [OF assms] by blast
  from I obtain rs where rs: "ll_rep (rb_list st') rs" "0 \<le> sint (next_expected_byte st')"
    "\<forall>b\<in>bytes rs. sint (next_expected_byte st') \<le> b"
    "received ps = {0..<sint (next_expected_byte st')} \<union> bytes rs"
    by (auto simp: rb_inv_def)
  then have "bytes rs = received ps - {0..<sint (next_expected_byte st')}" by fastforce
  with s rs ll_rep_canon [OF rs(1)] show ?thesis by blast
qed

lemma driver_stream:
  assumes "set ks \<subseteq> {..10}" "distinct ks" "\<forall>k\<in>set ds. 10 < k \<and> k \<le> 30"
  shows "stream_ok (driver_packets i b mx m (ks @ ds))"
    "received (driver_packets i b mx m (ks @ ds)) = (\<Union>k\<in>set ks. {10 * int k..10 * int k + 9})"
proof -
  let ?r = "\<lambda>k. \<lparr>left = of_nat k * 10, right = (of_nat k + 1) * 10 - 1\<rparr> :: lazylist_range"
  have ins_k: "inserts (driver_packets i b mx m ks) = map ?r ks"
    using assms(1) by (induction ks) (simp_all add: driver_packets_def fill_packet_insert unat_small)
  have ins_d: "inserts (driver_packets i b mx m ds) = []"
    using assms(3) by (induction ds) (simp_all add: driver_packets_def fill_packet_op unat_small)
  have ins: "inserts (driver_packets i b mx m (ks @ ds)) = map ?r ks"
    using ins_k ins_d by (simp add: driver_packets_def)
  have b: "rg_bytes (?r k) = {10 * int k..10 * int k + 9}" "rg_valid (?r k)" if "k \<in> set ks" for k
    using driver_range [of k] assms(1) that by auto
  have "length ks \<le> card {..10 :: nat}"
    using assms(1,2) by (metis card_mono distinct_card finite_atMost)
  moreover have "sorted_wrt (\<lambda>a b. rg_bytes a \<inter> rg_bytes b = {}) (map ?r ks)"
  proof -
    have "rg_bytes (?r j) \<inter> rg_bytes (?r k) = {}" if "j \<in> set ks" "k \<in> set ks" "j \<noteq> k" for j k
      unfolding b(1) [OF that(1)] b(1) [OF that(2)] using that(3) by (cases "j < k") auto
    then show ?thesis
      using assms(2) by (auto simp: sorted_wrt_iff_nth_less distinct_conv_nth)
  qed
  moreover have "0 \<le> sint (left (?r k))" if "k \<in> set ks" for k
    using b [OF that] by (auto simp: rg_bytes_def rg_valid_def)
  ultimately show "stream_ok (driver_packets i b mx m (ks @ ds))"
    using b by (auto simp: stream_ok_def ins)
  show "received (driver_packets i b mx m (ks @ ds)) = (\<Union>k\<in>set ks. {10 * int k..10 * int k + 9})"
    using b by (auto simp: received_def ins)
qed

theorem ooorb_reorders_witness:
  "\<exists>st0 st' rs. ooorb_hh \<lparr>rb_list = blank_list, next_expected_byte = 7\<rparr> = Inr st0
    \<and> ooorb_run 130 (driver_packets 0 64 1024 (\<lambda>_. 0) ([3, 0] @ [])) st0 = Inr st' \<and> ll_rep (rb_list st') rs"
  using ooorb_reorders [OF rb_fresh_blank driver_stream(1) [of "[3, 0]" "[]" 0 64 1024 "\<lambda>_. 0"], of 0]
  by auto

text \<open>
  C4: from a list that is fresh before the header handler (130 nodes, 128 marks, the marks of the last two elements zero in memory,
  as the handler itself does not clear them), the header handler, then the payload handler on any sequence of packets whose
  inserting ones carry at most 126 valid, pairwise disjoint ranges from byte 0 on and whose last one delivers: no packet
  fails, with any fuel from 130 rounds on, and the next expected byte is the first byte not received.
\<close>

theorem ooorb_next_is_first_missing:
  assumes "rb_fresh st" "stream_ok (ps @ [(m, p)])" "pkt_op m p = 1"
  shows "\<exists>st0 st'. ooorb_hh st = Inr st0 \<and> ooorb_run (130 + e) (ps @ [(m, p)]) st0 = Inr st'
    \<and> sint (next_expected_byte st') = (LEAST b. 0 \<le> b \<and> b \<notin> received (ps @ [(m, p)]))"
proof -
  have "stream_ok ps" using assms(2,3) by (simp add: stream_ok_def)
  then obtain st0 st1 where s: "ooorb_hh st = Inr st0" "ooorb_run (130 + e) ps st0 = Inr st1"
    and I: "rb_inv st1 (received ps) (length (inserts ps))" using fresh_run [OF assms(1)] by blast
  obtain st' where st': "ooorb_ph (130 + e) m p st1 = Inr st'" "rb_inv st' (received ps) (length (inserts ps))"
      "sint (next_expected_byte st') \<notin> received ps"
    using ooorb_ph_pop_inv [OF I assms(3)] by blast
  have rc: "received (ps @ [(m, p)]) = received ps" using assms(3) by (simp add: received_def)
  have "0 \<le> sint (next_expected_byte st')" "{0..<sint (next_expected_byte st')} \<subseteq> received ps"
    using st'(2) by (auto simp: rb_inv_def)
  then have "sint (next_expected_byte st') = (LEAST b. 0 \<le> b \<and> b \<notin> received ps)"
    using st'(3) by (intro Least_equality [symmetric]) (auto simp: subset_iff not_le [symmetric])
  with s st'(1) show ?thesis by (simp add: ooorb_run_append rc)
qed

theorem ooorb_next_is_first_missing_witness:
  "\<exists>st0 st'. ooorb_hh \<lparr>rb_list = blank_list, next_expected_byte = 7\<rparr> = Inr st0
    \<and> ooorb_run 130 (driver_packets 0 64 1024 (\<lambda>_. 0) [1, 3, 0] @ [(snd (fill_packet 0 11 (\<lambda>_. 0) 64 1024), 64)]) st0
        = Inr st'"
proof -
  have "stream_ok (driver_packets 0 64 1024 (\<lambda>_. 0) [1, 3, 0] @ [(snd (fill_packet 0 11 (\<lambda>_. 0) 64 1024), 64)])"
    using driver_stream(1) [of "[1, 3, 0]" "[11]" 0 64 1024 "\<lambda>_. 0"] by (simp add: driver_packets_def)
  moreover have "pkt_op (snd (fill_packet 0 11 (\<lambda>_. 0) 64 1024)) 64 = 1"
    by (simp add: fill_packet_op)
  ultimately show ?thesis
    using ooorb_next_is_first_missing [OF rb_fresh_blank, where e = 0] by fastforce
qed

text \<open>
  The packets the driver generates, its inserting ones (numbers 0 to 10)
  in any order of arrival, then at least one of its delivering ones: every
  byte is delivered, 0 to 109, and the list is empty again.
\<close>

theorem ooorb_driver_delivers_all:
  assumes "rb_fresh st" "set ks = {..10}" "distinct ks" "set ds \<subseteq> {11..30}" "d \<in> {11..30}"
  shows "\<exists>st0 st'. ooorb_hh st = Inr st0
    \<and> ooorb_run (130 + e) (driver_packets i b mx m (ks @ ds @ [d])) st0 = Inr st'
    \<and> next_expected_byte st' = 110 \<and> ll_rep (rb_list st') []"
proof -
  let ?ps = "driver_packets i b mx m (ks @ ds)" and ?d = "snd (fill_packet i (of_nat d) m b mx)"
  have ds: "\<forall>k\<in>set ds. 10 < k \<and> k \<le> 30" using assms(4) by auto
  have "(\<Union>k\<in>{..10}. {10 * int k..10 * int k + 9}) = {0..<110}"
  proof (intro equalityI subsetI)
    fix x :: int assume "x \<in> {0..<110}"
    then have "nat (x div 10) \<le> 10" "x \<in> {10 * int (nat (x div 10))..10 * int (nat (x div 10)) + 9}"
      by auto
    then show "x \<in> (\<Union>k\<in>{..10}. {10 * int k..10 * int k + 9})" by blast
  qed auto
  then have rc: "received ?ps = {0..<110}"
    using driver_stream(2) [OF _ assms(3) ds] assms(2) by simp
  have "stream_ok ?ps" using driver_stream(1) [OF _ assms(3) ds] assms(2) by simp
  then obtain st0 st1 where s: "ooorb_hh st = Inr st0" "ooorb_run (130 + e) ?ps st0 = Inr st1"
    and I: "rb_inv st1 {0..<110} (length (inserts ?ps))" using fresh_run [OF assms(1)] rc by force
  have "pkt_op ?d b = 1" using assms(5) by (simp add: fill_packet_op unat_small)
  from ooorb_ph_pop_inv [OF I this, of e] obtain st' where st': "ooorb_ph (130 + e) ?d b st1 = Inr st'"
      "rb_inv st' {0..<110} (length (inserts ?ps))" "sint (next_expected_byte st') \<notin> {0..<110}"
    by blast
  then obtain rs where rs: "ll_rep (rb_list st') rs" "0 \<le> sint (next_expected_byte st')"
    "\<forall>b\<in>bytes rs. sint (next_expected_byte st') \<le> b"
    "{0..<110} = {0..<sint (next_expected_byte st')} \<union> bytes rs"
    by (auto simp: rb_inv_def)
  have ge: "110 \<le> sint (next_expected_byte st')" using st'(3) rs(2) by auto
  have "bytes rs \<subseteq> {0..<110}" using rs(4) by blast
  then have "bytes rs = {}" using rs(3) ge by fastforce
  then have "rs = []" using ll_rep_canon [OF rs(1)] by (cases rs) (auto simp: canon_Cons)
  moreover have "sint (next_expected_byte st') = 110"
    using rs(4) \<open>bytes rs = {}\<close> ge by (auto simp: atLeastLessThan_eq_iff)
  then have "next_expected_byte st' = 110"
    by (simp flip: sint_i32_eq_iff)
  moreover have "driver_packets i b mx m (ks @ ds @ [d]) = ?ps @ [(?d, b)]"
    by (simp add: driver_packets_def)
  ultimately show ?thesis using s st'(1) rs(1) by (simp add: ooorb_run_append)
qed

theorem ooorb_driver_delivers_all_witness:
  "\<exists>st0 st'. ooorb_hh \<lparr>rb_list = blank_list, next_expected_byte = 7\<rparr> = Inr st0
    \<and> ooorb_run 130 (driver_packets 0 64 1024 (\<lambda>_. 0) ([10, 9, 8, 7, 6, 5, 4, 3, 2, 1, 0] @ [12] @ [11])) st0 = Inr st'
    \<and> next_expected_byte st' = 110"
proof -
  have "set [10, 9, 8, 7, 6, 5, 4, 3, 2, 1, 0] = {..10 :: nat}" by (auto simp: le_eq_less_or_eq less_Suc_eq numeral_eq_Suc)
  from ooorb_driver_delivers_all [OF rb_fresh_blank this, of "[12]" 11 0 0 64 1024 "\<lambda>_. 0"] show ?thesis by auto
qed

text \<open>
  C28: the tail handler on a reorder buffer that holds a canonical list and expects a byte, not any (\<open>RANGE_START_ANY\<close>),
  with any fuel from 130 rounds on,
  terminates without error, delivers the first range if it starts at the
  expected byte, and prints the left sentinel and then what is left in order.
\<close>

theorem ooorb_th_prints:
  assumes "ll_rep (rb_list st) rs" "next_expected_byte st \<noteq> RANGE_START_ANY"
  shows "\<exists>out st'. ooorb_th (130 + e) st = Inr (out, st')
    \<and> map (\<lambda>(a, b). (sint a, sint b)) out = (- 2147483648, - 2147483648) #
        (if rs \<noteq> [] \<and> fst (hd rs) = sint (next_expected_byte st) then tl rs else rs)"
proof (cases "rs \<noteq> [] \<and> fst (hd rs) = sint (next_expected_byte st)")
  case True
  then obtain x rest where x: "rs = x # rest" "sint (next_expected_byte st) = fst x" by (cases rs) auto
  obtain rg l' where p: "lazylist_pop_front (130 + e) (rb_list st) (next_expected_byte st) = Inr (Some rg, l')"
      "ll_rep l' rest"
    using ll.pop_first [of "rb_list st" x rest, OF _ x(2)] assms(1) x(1) by blast
  with ll_rep_print [OF p(2), of e] True x show ?thesis by (auto simp: ooorb_th_def)
next
  case False
  then have "rs = [] \<or> sint (next_expected_byte st) \<noteq> fst (hd rs)" by auto
  from ll.pop_none [OF assms this, of e] ll_rep_print [OF assms(1), of e] False
  show ?thesis by (auto simp: ooorb_th_def)
qed

theorem ooorb_th_prints_witness:
  "\<exists>l out st'. ll_rep l [] \<and> ooorb_th 130 \<lparr>rb_list = l, next_expected_byte = 5\<rparr> = Inr (out, st')
    \<and> map (\<lambda>(a, b). (sint a, sint b)) out = [(- 2147483648, - 2147483648)]"
proof -
  obtain l where l: "ll_rep l []" using blank_init by blast
  have "(5 :: u32) \<noteq> RANGE_START_ANY" by (simp add: RANGE_START_ANY_def)
  with ooorb_th_prints [of "\<lparr>rb_list = l, next_expected_byte = 5\<rparr>" "[]" 0] l show ?thesis by auto
qed

end
