(* ===== verification/Mmio.thy ===== *)
theory Mmio
  imports Memory_Model
begin

text \<open>
  Accesses to device registers. A device is what it answers to a read, given
  every access so far (\<open>dev\<close>, a parameter: the hardware is not under \<^verbatim>\<open>src/\<close> as
  C code); the software's side is the trace of its accesses. \<open>polls\<close> is
  the loop all drivers share: read a register until the answer passes.
\<close>

section \<open>Traces\<close>

datatype mmio = MRead u32 u32 | MWrite u32 u32

type_synonym trace = "mmio list"
type_synonym device = "trace \<Rightarrow> u32 \<Rightarrow> u32"

definition mmio_write :: "u32 \<Rightarrow> u32 \<Rightarrow> trace \<Rightarrow> trace" where
  "mmio_write a v t = t @ [MWrite a v]"

definition mmio_read :: "device \<Rightarrow> u32 \<Rightarrow> trace \<Rightarrow> u32 \<times> trace" where
  "mmio_read dev a t = (let v = dev t a in (v, t @ [MRead a v]))"

text \<open>The value last written to each register.\<close>

fun last_written :: "trace \<Rightarrow> u32 \<Rightarrow> u32 option" where
  "last_written [] a = None"
| "last_written (e # t) a = (case last_written t a of
     Some v \<Rightarrow> Some v
   | None \<Rightarrow> (case e of MWrite b v \<Rightarrow> if a = b then Some v else None | MRead _ _ \<Rightarrow> None))"

lemma last_written_append:
  "last_written (t @ u) a = (case last_written u a of Some v \<Rightarrow> Some v | None \<Rightarrow> last_written t a)"
  by (induction t) (auto split: option.splits)

lemma last_written_write [simp]:
  "last_written (mmio_write b v t) a = (if a = b then Some v else last_written t a)"
  by (simp add: mmio_write_def last_written_append)

lemma last_written_read [simp]:
  "last_written (t @ [MRead b v]) a = last_written t a"
  by (simp add: last_written_append)

text \<open>A memory that answers a read with the last value written.\<close>

definition written :: device where
  "written t a = (case last_written t a of Some v \<Rightarrow> v | None \<Rightarrow> 0)"

section \<open>Retrying and polling\<close>

text \<open>
  Attempt an operation until its result passes, with \<open>again\<close> between two attempts; \<open>None\<close> is a loop that never
  ends. \<open>after_tries\<close> is the state, mostly the trace, before the \<open>n\<close>-th attempt.
\<close>

partial_function (option) retry ::
    "('t \<Rightarrow> 'a \<times> 't) \<Rightarrow> ('a \<Rightarrow> bool) \<Rightarrow> ('t \<Rightarrow> 't) \<Rightarrow> 't \<Rightarrow> ('a \<times> 't) option" where
  "retry attempt ok again t =
     (case attempt t of (v, t') \<Rightarrow> if ok v then Some (v, t') else retry attempt ok again (again t'))"

fun after_tries :: "('t \<Rightarrow> 'a \<times> 't) \<Rightarrow> ('t \<Rightarrow> 't) \<Rightarrow> nat \<Rightarrow> 't \<Rightarrow> 't" where
  "after_tries attempt again 0 t = t"
| "after_tries attempt again (Suc n) t = after_tries attempt again n (again (snd (attempt t)))"

lemma retry_step: "retry attempt ok again t =
    (if ok (fst (attempt t)) then Some (attempt t) else retry attempt ok again (again (snd (attempt t))))"
  by (subst retry.simps) (simp add: split_def)

lemma retry_some:
  assumes "ok (fst (attempt (after_tries attempt again n t)))"
    "\<And>k. k < n \<Longrightarrow> \<not> ok (fst (attempt (after_tries attempt again k t)))"
  shows "retry attempt ok again t = Some (attempt (after_tries attempt again n t))"
  using assms
proof (induction n arbitrary: t)
  case 0
  then show ?case by (simp add: retry_step [of attempt ok again t])
next
  case (Suc n)
  have "\<not> ok (fst (attempt t))" using Suc.prems(2) [of 0] by simp
  moreover have "retry attempt ok again (again (snd (attempt t)))
      = Some (attempt (after_tries attempt again n (again (snd (attempt t)))))"
    using Suc.prems(1) Suc.prems(2) [of "Suc _"] by (intro Suc.IH) simp_all
  ultimately show ?case by (simp add: retry_step [of attempt ok again t])
qed

lemma retry_returns:
  assumes "retry attempt ok again t = Some r"
  shows "\<exists>n. ok (fst (attempt (after_tries attempt again n t)))"
proof (rule retry.raw_induct
    [where P = "\<lambda>attempt ok again t r. \<exists>n. ok (fst (attempt (after_tries attempt again n t)))", OF _ assms])
  fix f attempt ok again t r
  assume IH: "\<And>attempt ok again t r. f attempt ok again t = Some r
      \<Longrightarrow> \<exists>n. ok (fst (attempt (after_tries attempt again n t)))"
    and s: "(case attempt t of (v, t') \<Rightarrow> if ok v then Some (v, t') else f attempt ok again (again t')) = Some r"
  show "\<exists>n. ok (fst (attempt (after_tries attempt again n t)))"
  proof (cases "ok (fst (attempt t))")
    case True
    then show ?thesis by (intro exI [of _ 0]) simp
  next
    case False
    then have "f attempt ok again (again (snd (attempt t))) = Some r"
      using s by (simp add: split_def)
    from IH [OF this] obtain n where "ok (fst (attempt (after_tries attempt again (Suc n) t)))" by auto
    then show ?thesis by blast
  qed
qed

lemma retry_none: "(\<And>n. \<not> ok (fst (attempt (after_tries attempt again n t)))) \<Longrightarrow> retry attempt ok again t = None"
proof (rule ccontr)
  assume no: "\<And>n. \<not> ok (fst (attempt (after_tries attempt again n t)))" and "retry attempt ok again t \<noteq> None"
  then obtain r where "retry attempt ok again t = Some r" by auto
  from retry_returns [OF this] no show False by blast
qed

text \<open>
  A loop returns exactly when some attempt passes, and then with the first
  one that does.
\<close>

lemma retry_first:
  assumes "ok (fst (attempt (after_tries attempt again n t)))"
  shows "\<exists>k\<le>n. retry attempt ok again t = Some (attempt (after_tries attempt again k t))
    \<and> ok (fst (attempt (after_tries attempt again k t)))
    \<and> (\<forall>j<k. \<not> ok (fst (attempt (after_tries attempt again j t))))"
proof -
  define k where "k = (LEAST k. ok (fst (attempt (after_tries attempt again k t))))"
  have k: "ok (fst (attempt (after_tries attempt again k t)))" "k \<le> n"
    "\<And>j. j < k \<Longrightarrow> \<not> ok (fst (attempt (after_tries attempt again j t)))"
    unfolding k_def using assms by (auto intro: LeastI Least_le dest: not_less_Least)
  with retry_some [of ok attempt again k t] show ?thesis by blast
qed

lemma retry_result:
  assumes "retry attempt ok again t = Some (v, u)"
  obtains n where "attempt (after_tries attempt again n t) = (v, u)" "ok v"
proof -
  from retry_returns [OF assms] obtain n where n: "ok (fst (attempt (after_tries attempt again n t)))" by blast
  from retry_first [where ok = ok and attempt = attempt, OF n] obtain k where
    "retry attempt ok again t = Some (attempt (after_tries attempt again k t))"
    "ok (fst (attempt (after_tries attempt again k t)))" by blast
  with assms that [of k] show thesis by simp
qed

lemma retry_iff: "(\<exists>r. retry attempt ok again t = Some r) \<longleftrightarrow> (\<exists>n. ok (fst (attempt (after_tries attempt again n t))))"
proof
  assume "\<exists>n. ok (fst (attempt (after_tries attempt again n t)))"
  then obtain n where n: "ok (fst (attempt (after_tries attempt again n t)))" ..
  from retry_first [where ok = ok and attempt = attempt, OF n] show "\<exists>r. retry attempt ok again t = Some r" by blast
qed (blast dest: retry_returns)

text \<open>Polling reads register \<open>a\<close> until the answer satisfies \<open>p\<close>.\<close>

definition poll :: "device \<Rightarrow> u32 \<Rightarrow> (u32 \<Rightarrow> bool) \<Rightarrow> trace \<Rightarrow> (u32 \<times> trace) option" where
  "poll dev a p t = retry (mmio_read dev a) p (\<lambda>t. t) t"

text \<open>The trace after \<open>n\<close> reads of the register, and what the next one answers.\<close>

fun after_reads :: "device \<Rightarrow> u32 \<Rightarrow> nat \<Rightarrow> trace \<Rightarrow> trace" where
  "after_reads dev a 0 t = t"
| "after_reads dev a (Suc n) t = after_reads dev a n (t @ [MRead a (dev t a)])"

lemma after_reads_tries: "after_tries (mmio_read dev a) (\<lambda>t. t) n t = after_reads dev a n t"
  by (induction n arbitrary: t) (simp_all add: mmio_read_def Let_def)

lemma after_reads_Suc: "after_reads dev a (Suc n) t = after_reads dev a n t @ [MRead a (dev (after_reads dev a n t) a)]"
proof (induction n arbitrary: t)
  case (Suc n)
  show ?case using Suc.IH [of "t @ [MRead a (dev t a)]"] by (simp only: after_reads.simps)
qed simp

lemma poll_some:
  assumes "p (dev (after_reads dev a n t) a)" "\<And>k. k < n \<Longrightarrow> \<not> p (dev (after_reads dev a k t) a)"
  shows "poll dev a p t = Some (dev (after_reads dev a n t) a, after_reads dev a (Suc n) t)"
  using retry_some [of p "mmio_read dev a" "\<lambda>t. t" n t] assms
  by (simp add: poll_def after_reads_tries after_reads_Suc mmio_read_def Let_def del: after_reads.simps(2))

lemma poll_none: "(\<And>n. \<not> p (dev (after_reads dev a n t) a)) \<Longrightarrow> poll dev a p t = None"
  unfolding poll_def by (rule retry_none) (simp add: after_reads_tries mmio_read_def Let_def)

lemma retry_passes: "retry attempt ok again t = Some (v, u) \<Longrightarrow> ok v"
  by (erule retry_result)

lemma poll_passes: "poll dev a p t = Some (v, u) \<Longrightarrow> p v"
  unfolding poll_def by (rule retry_passes)

end
