(* ===== verification/Nic_Commands.thy ===== *)
theory Nic_Commands
  imports Mmio Spin_Locks
begin

text \<open>
  What a handler sees of the NIC, \<^verbatim>\<open>sw/runtime/include/handler.h\<close> and
  \<^verbatim>\<open>hwsched.h\<close>: the scheduler's registers, the task descriptor laid over them,
  and the command interface (write the command words, then read the issue
  register). The out-of-line variants in \<^verbatim>\<open>sw/runtime/src/handler.c\<close> are here
  too: they use other word registers. \<open>issued\<close> says which commands a trace
  hands to the NIC.
\<close>

section \<open>Registers\<close>

definition HWSCHED_HANDLER_FUN_ADDR :: u32 where "HWSCHED_HANDLER_FUN_ADDR = 0x1B205000"
definition HWSCHED_HANDLER_FUN_SIZE :: u32 where "HWSCHED_HANDLER_FUN_SIZE = 0x1B205004"
definition HWSCHED_HANDLER_MEM_ADDR :: u32 where "HWSCHED_HANDLER_MEM_ADDR = 0x1B205008"
definition HWSCHED_HANDLER_MEM_SIZE :: u32 where "HWSCHED_HANDLER_MEM_SIZE = 0x1B20500c"
definition HWSCHED_PKT_ADDR :: u32 where "HWSCHED_PKT_ADDR = 0x1B205010"
definition HWSCHED_PKT_SIZE :: u32 where "HWSCHED_PKT_SIZE = 0x1B205014"
definition HWSCHED_SCRATCHPAD_0_ADDR :: u32 where "HWSCHED_SCRATCHPAD_0_ADDR = 0x1B205018"
definition HWSCHED_SCRATCHPAD_1_ADDR :: u32 where "HWSCHED_SCRATCHPAD_1_ADDR = 0x1B20501c"
definition HWSCHED_SCRATCHPAD_2_ADDR :: u32 where "HWSCHED_SCRATCHPAD_2_ADDR = 0x1B205020"
definition HWSCHED_SCRATCHPAD_3_ADDR :: u32 where "HWSCHED_SCRATCHPAD_3_ADDR = 0x1B205024"
definition HWSCHED_SCRATCHPAD_0_SIZE :: u32 where "HWSCHED_SCRATCHPAD_0_SIZE = 0x1B205028"
definition HWSCHED_SCRATCHPAD_1_SIZE :: u32 where "HWSCHED_SCRATCHPAD_1_SIZE = 0x1B20502c"
definition HWSCHED_SCRATCHPAD_2_SIZE :: u32 where "HWSCHED_SCRATCHPAD_2_SIZE = 0x1B205030"
definition HWSCHED_SCRATCHPAD_3_SIZE :: u32 where "HWSCHED_SCRATCHPAD_3_SIZE = 0x1B205034"
definition HWSCHED_HOST_MEM_ADDR_HIGH :: u32 where "HWSCHED_HOST_MEM_ADDR_HIGH = 0x1B205038"
definition HWSCHED_HOST_MEM_ADDR_LOW :: u32 where "HWSCHED_HOST_MEM_ADDR_LOW = 0x1B20503c"
definition HWSCHED_HOST_MEM_SIZE :: u32 where "HWSCHED_HOST_MEM_SIZE = 0x1B205040"
definition HWSCHED_HOST_L2_PKT_ADDR :: u32 where "HWSCHED_HOST_L2_PKT_ADDR = 0x1B205044"
definition HWSCHED_HOME_CLUSTER_ID :: u32 where "HWSCHED_HOME_CLUSTER_ID = 0x1B205048"
definition HWSCHED_FLOW_ID :: u32 where "HWSCHED_FLOW_ID = 0x1B20504c"
definition HWSCHED_DOORBELL :: u32 where "HWSCHED_DOORBELL = 0x1B205050"
definition HWSCHED_ERROR :: u32 where "HWSCHED_ERROR = 0x1B205054"
definition CMD_ISSUE :: u32 where "CMD_ISSUE = 0x1B205080"
definition CMD_WAIT :: u32 where "CMD_WAIT = 0x1B205084"
definition CMD_TEST :: u32 where "CMD_TEST = 0x1B205088"
definition CMD_INFO :: u32 where "CMD_INFO = 0x1B20508C"
definition CMD_WORD0 :: u32 where "CMD_WORD0 = 0x1B205090"
definition CMD_WORD1 :: u32 where "CMD_WORD1 = 0x1B205094"
definition CMD_WORD2 :: u32 where "CMD_WORD2 = 0x1B205098"
definition CMD_WORD3 :: u32 where "CMD_WORD3 = 0x1B20509C"
definition CMD_WORD4 :: u32 where "CMD_WORD4 = 0x1B2050A0"
definition CMD_WORD5 :: u32 where "CMD_WORD5 = 0x1B2050A4"
definition CMD_WORD6 :: u32 where "CMD_WORD6 = 0x1B2050A8"

lemmas hwsched_defs [word_vals] = HWSCHED_HANDLER_FUN_ADDR_def HWSCHED_HANDLER_FUN_SIZE_def HWSCHED_HANDLER_MEM_ADDR_def
  HWSCHED_HANDLER_MEM_SIZE_def HWSCHED_PKT_ADDR_def HWSCHED_PKT_SIZE_def
  HWSCHED_SCRATCHPAD_0_ADDR_def HWSCHED_SCRATCHPAD_1_ADDR_def HWSCHED_SCRATCHPAD_2_ADDR_def
  HWSCHED_SCRATCHPAD_3_ADDR_def HWSCHED_SCRATCHPAD_0_SIZE_def HWSCHED_SCRATCHPAD_1_SIZE_def
  HWSCHED_SCRATCHPAD_2_SIZE_def HWSCHED_SCRATCHPAD_3_SIZE_def HWSCHED_HOST_MEM_ADDR_HIGH_def
  HWSCHED_HOST_MEM_ADDR_LOW_def HWSCHED_HOST_MEM_SIZE_def HWSCHED_HOST_L2_PKT_ADDR_def
  HWSCHED_HOME_CLUSTER_ID_def HWSCHED_FLOW_ID_def HWSCHED_DOORBELL_def
  HWSCHED_ERROR_def CMD_ISSUE_def CMD_WAIT_def
  CMD_TEST_def CMD_INFO_def CMD_WORD0_def
  CMD_WORD1_def CMD_WORD2_def CMD_WORD3_def
  CMD_WORD4_def CMD_WORD5_def CMD_WORD6_def

section \<open>The task descriptor\<close>

definition NB_CORES :: u32 where "NB_CORES = 8"
definition NB_CLUSTERS :: nat where "NB_CLUSTERS = 4"

record task =
  handler_mem :: u32
  handler_mem_size :: u32
  pkt_mem :: u32
  pkt_mem_size :: u32
  scratchpad :: "u32 list"
  scratchpad_size :: "u32 list"
  host_mem_high :: u32
  host_mem_low :: u32
  host_mem_size :: u32
  l2_pkt_mem :: u32
  home_cluster_id :: u32
  flow_id :: u32

record handler_args =
  args_task :: task
  hpu_gid :: u32
  cluster_id :: u32
  hpu_id :: u32

text \<open>The packed structure read at an address: every field is a word, in order.\<close>

definition task_at :: "(u32 \<Rightarrow> u32) \<Rightarrow> u32 \<Rightarrow> task" where
  "task_at rd a = \<lparr>handler_mem = rd a, handler_mem_size = rd (a + 4), pkt_mem = rd (a + 8),
     pkt_mem_size = rd (a + 12),
     scratchpad = map (\<lambda>i. rd (a + 16 + 4 * of_nat i)) [0..<NB_CLUSTERS],
     scratchpad_size = map (\<lambda>i. rd (a + 16 + 4 * of_nat NB_CLUSTERS + 4 * of_nat i)) [0..<NB_CLUSTERS],
     host_mem_high = rd (a + 48), host_mem_low = rd (a + 52), host_mem_size = rd (a + 56),
     l2_pkt_mem = rd (a + 60), home_cluster_id = rd (a + 64), flow_id = rd (a + 68)\<rparr>"

section \<open>Commands\<close>

definition base_addr :: u32 where "base_addr = 0x1b205000"

definition spin_cmd_wait :: "u32 \<Rightarrow> trace \<Rightarrow> u32 \<times> trace" where
  "spin_cmd_wait handle t = (SPIN_OK, mmio_write CMD_WAIT handle t)"

text \<open>The result is the status, \<^verbatim>\<open>*completed\<close> and the trace.\<close>

definition spin_cmd_test :: "device \<Rightarrow> u32 \<Rightarrow> trace \<Rightarrow> u32 \<times> bool \<times> trace" where
  "spin_cmd_test dev handle t =
     (let t = mmio_write CMD_TEST handle t; (v, t) = mmio_read dev CMD_TEST t in (SPIN_OK, v = 1, t))"

text \<open>
  The result of a command is the status, the handle (\<^verbatim>\<open>*handle\<close>, \<^verbatim>\<open>*xfer\<close>) and
  the trace. The writes are in the order of the assembly.
\<close>

definition spin_rdma_put :: "device \<Rightarrow> u32 \<Rightarrow> u32 \<Rightarrow> u32 \<Rightarrow> trace \<Rightarrow> u32 \<times> u32 \<times> trace" where
  "spin_rdma_put dev dest data len t =
     (let fid = 1; src_addr_high = 0; cmd_info = 2;
          t = mmio_write (base_addr + 144) dest t;
          t = mmio_write (base_addr + 148) fid t;
          t = mmio_write (base_addr + 152) data t;
          t = mmio_write (base_addr + 156) src_addr_high t;
          t = mmio_write (base_addr + 160) len t;
          t = mmio_write (base_addr + 140) cmd_info t;
          (res, t) = mmio_read dev (base_addr + 128) t
      in (SPIN_OK, res, t))"

definition spin_send_packet :: "device \<Rightarrow> u32 \<Rightarrow> u32 \<Rightarrow> trace \<Rightarrow> u32 \<times> u32 \<times> trace" where
  "spin_send_packet dev data len t =
     (let dest = 0; fid = 0; src_addr_high = 0; cmd_info = 2;
          t = mmio_write (base_addr + 144) dest t;
          t = mmio_write (base_addr + 148) fid t;
          t = mmio_write (base_addr + 152) data t;
          t = mmio_write (base_addr + 156) src_addr_high t;
          t = mmio_write (base_addr + 160) len t;
          t = mmio_write (base_addr + 140) cmd_info t;
          (res, t) = mmio_read dev (base_addr + 128) t
      in (SPIN_OK, res, t))"

definition high32 :: "u64 \<Rightarrow> u32" where "high32 x = ucast (drop_bit 32 x)"
definition low32 :: "u64 \<Rightarrow> u32" where "low32 x = ucast x"

definition of_bool8 :: "bool \<Rightarrow> u32" where "of_bool8 b = (if b then 1 else 0)"

definition spin_dma_to_host ::
    "device \<Rightarrow> u64 \<Rightarrow> u32 \<Rightarrow> u32 \<Rightarrow> bool \<Rightarrow> trace \<Rightarrow> u32 \<times> u32 \<times> trace" where
  "spin_dma_to_host dev host_addr nic_addr len generate_event t =
     (let direction = 1; cmd_info = of_bool8 generate_event;
          t = mmio_write (base_addr + 148) (high32 host_addr) t;
          t = mmio_write (base_addr + 144) (low32 host_addr) t;
          t = mmio_write (base_addr + 152) nic_addr t;
          t = mmio_write (base_addr + 156) len t;
          t = mmio_write (base_addr + 160) direction t;
          t = mmio_write (base_addr + 140) cmd_info t;
          (res, t) = mmio_read dev (base_addr + 128) t
      in (SPIN_OK, res, t))"

definition spin_dma_from_host ::
    "device \<Rightarrow> u64 \<Rightarrow> u32 \<Rightarrow> u32 \<Rightarrow> bool \<Rightarrow> trace \<Rightarrow> u32 \<times> u32 \<times> trace" where
  "spin_dma_from_host dev host_addr nic_addr len generate_event t =
     (let direction = 0; cmd_info = of_bool8 generate_event;
          t = mmio_write (base_addr + 148) (high32 host_addr) t;
          t = mmio_write (base_addr + 144) (low32 host_addr) t;
          t = mmio_write (base_addr + 152) nic_addr t;
          t = mmio_write (base_addr + 156) len t;
          t = mmio_write (base_addr + 160) direction t;
          t = mmio_write (base_addr + 140) cmd_info t;
          (res, t) = mmio_read dev (base_addr + 128) t
      in (SPIN_OK, res, t))"

definition spin_write_to_host :: "device \<Rightarrow> u64 \<Rightarrow> u64 \<Rightarrow> trace \<Rightarrow> u32 \<times> u32 \<times> trace" where
  "spin_write_to_host dev host_addr user_data t =
     (let size_and_direction = push_bit 1 0x8 OR 0x1; cmd_info = 4;
          t = mmio_write (base_addr + 148) (high32 host_addr) t;
          t = mmio_write (base_addr + 144) (low32 host_addr) t;
          t = mmio_write (base_addr + 152) size_and_direction t;
          t = mmio_write (base_addr + 156) (low32 user_data) t;
          t = mmio_write (base_addr + 160) (high32 user_data) t;
          t = mmio_write (base_addr + 140) cmd_info t;
          (res, t) = mmio_read dev (base_addr + 128) t
      in (SPIN_OK, res, t))"

section \<open>The out-of-line variants\<close>

text \<open>\<^verbatim>\<open>handler.c\<close>: the same command names on word registers 2 to 6 (offsets 152 to 168).\<close>

definition src_rdma_put :: "device \<Rightarrow> u32 \<Rightarrow> u32 \<Rightarrow> u32 \<Rightarrow> trace \<Rightarrow> u32 \<times> u32 \<times> trace" where
  "src_rdma_put dev dest data len t =
     (let fid = 1; src_addr_high = 0; cmd_info = 2;
          t = mmio_write (base_addr + 168) dest t;
          t = mmio_write (base_addr + 164) fid t;
          t = mmio_write (base_addr + 160) src_addr_high t;
          t = mmio_write (base_addr + 156) data t;
          t = mmio_write (base_addr + 152) len t;
          t = mmio_write (base_addr + 140) cmd_info t;
          (res, t) = mmio_read dev (base_addr + 128) t
      in (SPIN_OK, res, t))"

definition src_send_packet :: "device \<Rightarrow> u32 \<Rightarrow> u32 \<Rightarrow> trace \<Rightarrow> u32 \<times> u32 \<times> trace" where
  "src_send_packet dev data len t =
     (let dest = 0; fid = 0; src_addr_high = 0; cmd_info = 2;
          t = mmio_write (base_addr + 168) dest t;
          t = mmio_write (base_addr + 164) fid t;
          t = mmio_write (base_addr + 160) src_addr_high t;
          t = mmio_write (base_addr + 156) data t;
          t = mmio_write (base_addr + 152) len t;
          t = mmio_write (base_addr + 140) cmd_info t;
          (res, t) = mmio_read dev (base_addr + 128) t
      in (SPIN_OK, res, t))"

text \<open>The deprecated host write prepares the words and issues nothing.\<close>

definition src_host_write :: "u64 \<Rightarrow> u64 \<Rightarrow> bool \<Rightarrow> trace \<Rightarrow> u32 \<times> trace" where
  "src_host_write host_addr user_data generate_event t =
     (let direction = push_bit 31 1; cmd_info = of_bool8 generate_event;
          t = mmio_write (base_addr + 168) (high32 host_addr) t;
          t = mmio_write (base_addr + 164) (low32 host_addr) t;
          t = mmio_write (base_addr + 160) (high32 user_data) t;
          t = mmio_write (base_addr + 156) (low32 user_data) t;
          t = mmio_write (base_addr + 144) direction t;
          t = mmio_write (base_addr + 140) cmd_info t
      in (SPIN_OK, t))"

definition src_dma_to_host ::
    "device \<Rightarrow> u64 \<Rightarrow> u32 \<Rightarrow> u32 \<Rightarrow> bool \<Rightarrow> trace \<Rightarrow> u32 \<times> u32 \<times> trace" where
  "src_dma_to_host dev host_addr nic_addr len generate_event t =
     (let direction = push_bit 31 1; cmd_info = of_bool8 generate_event;
          t = mmio_write (base_addr + 168) (high32 host_addr) t;
          t = mmio_write (base_addr + 164) (low32 host_addr) t;
          t = mmio_write (base_addr + 160) nic_addr t;
          t = mmio_write (base_addr + 156) len t;
          t = mmio_write (base_addr + 144) direction t;
          t = mmio_write (base_addr + 140) cmd_info t;
          (res, t) = mmio_read dev (base_addr + 128) t
      in (SPIN_OK, res, t))"

definition src_dma_from_host ::
    "device \<Rightarrow> u64 \<Rightarrow> u32 \<Rightarrow> u32 \<Rightarrow> bool \<Rightarrow> trace \<Rightarrow> u32 \<times> u32 \<times> trace" where
  "src_dma_from_host dev host_addr nic_addr len generate_event t =
     (let direction = 0; cmd_info = of_bool8 generate_event;
          t = mmio_write (base_addr + 168) (high32 host_addr) t;
          t = mmio_write (base_addr + 164) (low32 host_addr) t;
          t = mmio_write (base_addr + 160) nic_addr t;
          t = mmio_write (base_addr + 156) len t;
          t = mmio_write (base_addr + 144) direction t;
          t = mmio_write (base_addr + 140) cmd_info t;
          (res, t) = mmio_read dev (base_addr + 128) t
      in (SPIN_OK, res, t))"

section \<open>What the NIC is handed\<close>

text \<open>
  A read of the issue register takes the values last written to the words;
  \<open>None\<close> is a register never written.
\<close>

record nic_cmd =
  word0 :: "u32 option"
  word1 :: "u32 option"
  word2 :: "u32 option"
  word3 :: "u32 option"
  word4 :: "u32 option"
  cmd_info :: "u32 option"

definition cmd_of :: "trace \<Rightarrow> nic_cmd" where
  "cmd_of t = \<lparr>word0 = last_written t CMD_WORD0, word1 = last_written t CMD_WORD1,
     word2 = last_written t CMD_WORD2, word3 = last_written t CMD_WORD3,
     word4 = last_written t CMD_WORD4, cmd_info = last_written t CMD_INFO\<rparr>"

fun issued_rev :: "trace \<Rightarrow> nic_cmd list" where
  "issued_rev [] = []"
| "issued_rev (e # t) = issued_rev t @ (case e of
     MRead a v \<Rightarrow> if a = CMD_ISSUE then [cmd_of (rev t)] else []
   | MWrite a v \<Rightarrow> [])"

definition issued :: "trace \<Rightarrow> nic_cmd list" where
  "issued t = issued_rev (rev t)"

lemma issued_write [simp]: "issued (mmio_write a v t) = issued t"
  by (simp add: issued_def mmio_write_def)

lemma issued_read: "issued (t @ [MRead a v]) = issued t @ (if a = CMD_ISSUE then [cmd_of t] else [])"
  by (simp add: issued_def)

lemmas cmd_funs = spin_rdma_put_def spin_send_packet_def spin_dma_to_host_def spin_dma_from_host_def
  spin_write_to_host_def src_rdma_put_def src_send_packet_def src_host_write_def src_dma_to_host_def
  src_dma_from_host_def

lemmas cmd_regs = base_addr_def CMD_ISSUE_def CMD_INFO_def CMD_WORD0_def CMD_WORD1_def CMD_WORD2_def
  CMD_WORD3_def CMD_WORD4_def

lemma cmd_issue_iff: "base_addr + 128 = CMD_ISSUE"
  by (simp add: cmd_regs)

text \<open>A 64-bit address sent as two words.\<close>

lemma high_low: "push_bit 32 (ucast (high32 x)) OR ucast (low32 x) = (x :: u64)"
  by (rule bit_word_eqI) (auto simp: high32_def low32_def bit_simps)

definition joined :: "u32 \<Rightarrow> u32 \<Rightarrow> u64" where
  "joined hi lo = push_bit 32 (ucast hi) OR ucast lo"

lemma joined_high_low [simp]: "joined (high32 x) (low32 x) = x"
  by (simp add: joined_def high_low)

lemma high_joined [simp]: "high32 (joined hi lo) = hi"
  by (rule bit_word_eqI) (auto simp: high32_def joined_def bit_simps dest: bit_imp_le_length)

lemma low_joined [simp]: "low32 (joined hi lo) = lo"
  by (rule bit_word_eqI) (auto simp: low32_def joined_def bit_simps)

lemmas cmd_calc = cmd_funs mmio_read_def issued_read cmd_issue_iff cmd_of_def cmd_regs Let_def

text \<open>One command each, and what is in it; the handle is what the NIC answers.\<close>

lemma send_packet_issued:
  "issued (snd (snd (spin_send_packet dev data len t))) = issued t @
     [\<lparr>word0 = Some 0, word1 = Some 0, word2 = Some data, word3 = Some 0, word4 = Some len, cmd_info = Some 2\<rparr>]"
  by (simp add: cmd_calc)

lemma rdma_put_issued:
  "issued (snd (snd (spin_rdma_put dev dest data len t))) = issued t @
     [\<lparr>word0 = Some dest, word1 = Some 1, word2 = Some data, word3 = Some 0, word4 = Some len, cmd_info = Some 2\<rparr>]"
  by (simp add: cmd_calc)

lemma dma_to_host_issued:
  "issued (snd (snd (spin_dma_to_host dev host nic len ev t))) = issued t @
     [\<lparr>word0 = Some (low32 host), word1 = Some (high32 host), word2 = Some nic, word3 = Some len,
       word4 = Some 1, cmd_info = Some (of_bool8 ev)\<rparr>]"
  by (simp add: cmd_calc)

lemma dma_from_host_issued:
  "issued (snd (snd (spin_dma_from_host dev host nic len ev t))) = issued t @
     [\<lparr>word0 = Some (low32 host), word1 = Some (high32 host), word2 = Some nic, word3 = Some len,
       word4 = Some 0, cmd_info = Some (of_bool8 ev)\<rparr>]"
  by (simp add: cmd_calc)

lemma write_to_host_issued:
  "issued (snd (snd (spin_write_to_host dev host data t))) = issued t @
     [\<lparr>word0 = Some (low32 host), word1 = Some (high32 host), word2 = Some 17, word3 = Some (low32 data),
       word4 = Some (high32 data), cmd_info = Some 4\<rparr>]"
  by (simp add: cmd_calc)

lemmas commands_issued [op_defs] = send_packet_issued rdma_put_issued dma_to_host_issued
  dma_from_host_issued write_to_host_issued

lemma commands_status:
  "fst (spin_send_packet dev data len t) = SPIN_OK"
  "fst (spin_rdma_put dev dest data len t) = SPIN_OK"
  "fst (spin_dma_to_host dev host nic len ev t) = SPIN_OK"
  "fst (spin_dma_from_host dev host nic len ev t) = SPIN_OK"
  "fst (spin_write_to_host dev host w t) = SPIN_OK"
  by (simp_all add: cmd_funs mmio_read_def Let_def)

section \<open>Properties\<close>

text \<open>
  The packed \<open>task_t\<close> that \<open>hpu_run\<close> places at \<open>HWSCHED_HANDLER_MEM_ADDR\<close>
  has every field on the scheduler register of that name in \<^verbatim>\<open>hwsched.h\<close>, for
  any contents of the registers.
\<close>

theorem task_descriptor_layout:
  "task_at rd HWSCHED_HANDLER_MEM_ADDR = \<lparr>
     handler_mem = rd HWSCHED_HANDLER_MEM_ADDR, handler_mem_size = rd HWSCHED_HANDLER_MEM_SIZE,
     pkt_mem = rd HWSCHED_PKT_ADDR, pkt_mem_size = rd HWSCHED_PKT_SIZE,
     scratchpad = map rd [HWSCHED_SCRATCHPAD_0_ADDR, HWSCHED_SCRATCHPAD_1_ADDR,
       HWSCHED_SCRATCHPAD_2_ADDR, HWSCHED_SCRATCHPAD_3_ADDR],
     scratchpad_size = map rd [HWSCHED_SCRATCHPAD_0_SIZE, HWSCHED_SCRATCHPAD_1_SIZE,
       HWSCHED_SCRATCHPAD_2_SIZE, HWSCHED_SCRATCHPAD_3_SIZE],
     host_mem_high = rd HWSCHED_HOST_MEM_ADDR_HIGH, host_mem_low = rd HWSCHED_HOST_MEM_ADDR_LOW,
     host_mem_size = rd HWSCHED_HOST_MEM_SIZE, l2_pkt_mem = rd HWSCHED_HOST_L2_PKT_ADDR,
     home_cluster_id = rd HWSCHED_HOME_CLUSTER_ID, flow_id = rd HWSCHED_FLOW_ID\<rparr>"
  by (simp add: task_at_def hwsched_defs NB_CLUSTERS_def upt_rec)

text \<open>
  C19: each command of the header hands the NIC exactly one
  command, after all of its words are written: the packet's address and length
  (raw or to a queue pair), the host and NIC addresses, the length and the direction of a host
  transfer, or the eight bytes of a host write; a 64-bit host address and the
  datum are recovered by joining the two words they are sent in.
\<close>

theorem nic_commands_issue_one:
  "issued (snd (snd (spin_send_packet dev data len t))) = issued t @
     [\<lparr>word0 = Some 0, word1 = Some 0, word2 = Some data, word3 = Some 0, word4 = Some len, cmd_info = Some 2\<rparr>]
   \<and> issued (snd (snd (spin_rdma_put dev dest data len t))) = issued t @
     [\<lparr>word0 = Some dest, word1 = Some 1, word2 = Some data, word3 = Some 0, word4 = Some len, cmd_info = Some 2\<rparr>]
   \<and> (\<exists>lo hi. joined hi lo = host
      \<and> issued (snd (snd (spin_dma_to_host dev host nic len ev t))) = issued t @
         [\<lparr>word0 = Some lo, word1 = Some hi, word2 = Some nic, word3 = Some len, word4 = Some 1,
           cmd_info = Some (of_bool8 ev)\<rparr>]
      \<and> issued (snd (snd (spin_dma_from_host dev host nic len ev t))) = issued t @
         [\<lparr>word0 = Some lo, word1 = Some hi, word2 = Some nic, word3 = Some len, word4 = Some 0,
           cmd_info = Some (of_bool8 ev)\<rparr>]
      \<and> (\<exists>dlo dhi. joined dhi dlo = w
          \<and> issued (snd (snd (spin_write_to_host dev host w t))) = issued t @
             [\<lparr>word0 = Some lo, word1 = Some hi, word2 = Some (8 * 2 + 1), word3 = Some dlo, word4 = Some dhi,
               cmd_info = Some 4\<rparr>]))"
  by (intro conjI exI [of _ "low32 host"] exI [of _ "high32 host"] exI [of _ "low32 w"] exI [of _ "high32 w"])
    (simp_all add: commands_issued)

text \<open>
  The out-of-line \<open>spin_send_packet\<close> of \<^verbatim>\<open>handler.c\<close> writes the words at
  other offsets than the one of \<^verbatim>\<open>handler.h\<close>: the command the NIC takes has the length
  where the address belongs, and its first two words are whatever earlier commands left there.
\<close>

theorem out_of_line_commands_differ:
  "issued (snd (snd (src_send_packet dev data len t))) = issued t @
     [\<lparr>word0 = last_written t CMD_WORD0, word1 = last_written t CMD_WORD1, word2 = Some len,
       word3 = Some data, word4 = Some 0, cmd_info = Some 2\<rparr>]
   \<and> issued (snd (snd (src_dma_to_host dev host nic len ev t))) = issued t @
     [\<lparr>word0 = Some (2 ^ 31), word1 = last_written t CMD_WORD1, word2 = last_written t CMD_WORD2,
       word3 = Some len, word4 = Some nic, cmd_info = Some (of_bool8 ev)\<rparr>]
   \<and> issued (snd (src_host_write host w ev t)) = issued t"
  by (simp add: cmd_calc)

end
