(* ===== verification/Dma.thy ===== *)
theory Dma
  imports Mmio Spin_Locks
begin

text \<open>
  The cluster DMA driver: \<^verbatim>\<open>sw/runtime/include/libaxidma.h\<close> on the configuration
  registers of one engine, \<^verbatim>\<open>spin_dma.h\<close> on the private and the public engines,
  and the handler calls of \<^verbatim>\<open>handler.h\<close> on top. A launch is the writes and the
  read of the transfer register; completion is polled.
\<close>

section \<open>Registers of an engine\<close>

text \<open>The offsets of \<^verbatim>\<open>axidma__dma_conf_t\<close>; the last three fields are aligned to 8 bytes.\<close>

definition dma_src_addr_low :: u32 where "dma_src_addr_low = 0"
definition dma_src_addr_high :: u32 where "dma_src_addr_high = 4"
definition dma_dst_addr_low :: u32 where "dma_dst_addr_low = 8"
definition dma_dst_addr_high :: u32 where "dma_dst_addr_high = 12"
definition dma_num_bytes :: u32 where "dma_num_bytes = 16"
definition dma_tf_id :: u32 where "dma_tf_id = 24"
definition dma_done_id :: u32 where "dma_done_id = 32"
definition dma_config :: u32 where "dma_config = 40"

lemmas dma_offsets = dma_src_addr_low_def dma_src_addr_high_def dma_dst_addr_low_def
  dma_dst_addr_high_def dma_num_bytes_def dma_tf_id_def dma_done_id_def dma_config_def

section \<open>libaxidma\<close>

definition axidma_launch_oned_64 ::
    "device \<Rightarrow> u32 \<Rightarrow> u32 \<Rightarrow> u32 \<Rightarrow> u32 \<Rightarrow> u32 \<Rightarrow> u32 \<Rightarrow> trace \<Rightarrow> u32 \<times> trace" where
  "axidma_launch_oned_64 dev conf src_low src_high dst_low dst_high num_bytes t =
     (let t = mmio_write (conf + dma_src_addr_low) src_low t;
          t = mmio_write (conf + dma_src_addr_high) src_high t;
          t = mmio_write (conf + dma_dst_addr_low) dst_low t;
          t = mmio_write (conf + dma_dst_addr_high) dst_high t;
          t = mmio_write (conf + dma_num_bytes) num_bytes t
      in mmio_read dev (conf + dma_tf_id) t)"

definition axidma_launch_oned ::
    "device \<Rightarrow> u32 \<Rightarrow> u32 \<Rightarrow> u32 \<Rightarrow> u32 \<Rightarrow> trace \<Rightarrow> u32 \<times> trace" where
  "axidma_launch_oned dev conf src_addr dst_addr num_bytes t =
     (let t = mmio_write (conf + dma_src_addr_low) src_addr t;
          t = mmio_write (conf + dma_dst_addr_low) dst_addr t;
          t = mmio_write (conf + dma_num_bytes) num_bytes t
      in mmio_read dev (conf + dma_tf_id) t)"

definition axidma_set_seg_addr :: "u32 \<Rightarrow> u32 \<Rightarrow> u32 \<Rightarrow> trace \<Rightarrow> trace" where
  "axidma_set_seg_addr conf src_seg_addr dst_seg_addr t =
     mmio_write (conf + dma_dst_addr_high) dst_seg_addr
       (mmio_write (conf + dma_src_addr_high) src_seg_addr t)"

definition axidma_clear_seg_addr :: "u32 \<Rightarrow> trace \<Rightarrow> trace" where
  "axidma_clear_seg_addr conf t = axidma_set_seg_addr conf 0 0 t"

definition axidma_read_completed_id :: "device \<Rightarrow> u32 \<Rightarrow> trace \<Rightarrow> u32 \<times> trace" where
  "axidma_read_completed_id dev conf t = mmio_read dev (conf + dma_done_id) t"

text \<open>The waiting loops read the completed id until it reaches the transfer's.\<close>

definition axidma_wait_for_tf_completion :: "device \<Rightarrow> u32 \<Rightarrow> u32 \<Rightarrow> trace \<Rightarrow> trace option" where
  "axidma_wait_for_tf_completion dev conf tf_id t =
     map_option snd (poll dev (conf + dma_done_id) (\<lambda>completed. \<not> tf_id > completed) t)"

definition axidma_tf_completed :: "device \<Rightarrow> u32 \<Rightarrow> u32 \<Rightarrow> trace \<Rightarrow> bool \<times> trace" where
  "axidma_tf_completed dev conf tf_id t =
     (let (completed, t) = axidma_read_completed_id dev conf t in (tf_id \<le> completed, t))"

definition axidma_memcpy_nonblk ::
    "device \<Rightarrow> u32 \<Rightarrow> u32 \<Rightarrow> u32 \<Rightarrow> u32 \<Rightarrow> trace \<Rightarrow> u32 \<times> trace" where
  "axidma_memcpy_nonblk dev conf src_addr dst_addr num_bytes t =
     axidma_launch_oned dev conf src_addr dst_addr num_bytes t"

definition axidma_memcpy :: "device \<Rightarrow> u32 \<Rightarrow> u32 \<Rightarrow> u32 \<Rightarrow> u32 \<Rightarrow> trace \<Rightarrow> trace option" where
  "axidma_memcpy dev conf src_addr dst_addr num_bytes t =
     (let (tf_id, t) = axidma_launch_oned dev conf src_addr dst_addr num_bytes t
      in map_option snd (poll dev (conf + dma_done_id) (\<lambda>completed. \<not> tf_id > completed) t))"

section \<open>spin_dma\<close>

definition ARCHI_CLUSTER_ADDR :: u32 where "ARCHI_CLUSTER_ADDR = 0x1B000000"
definition ARCHI_CLUSTER_SIZE :: u32 where "ARCHI_CLUSTER_SIZE = 0x00400000"
definition ARCHI_CLUSTER_PERIPHERALS_OFFSET :: u32 where "ARCHI_CLUSTER_PERIPHERALS_OFFSET = 0x00200000"
definition ARCHI_DEMUX_PERIPHERALS_OFFSET :: u32 where "ARCHI_DEMUX_PERIPHERALS_OFFSET = 0x204000"
definition ARCHI_MCHAN_DEMUX_OFFSET :: u32 where "ARCHI_MCHAN_DEMUX_OFFSET = 0x00400"
definition ARCHI_DEMUX_PERIPHERALS_ADDR :: u32 where
  "ARCHI_DEMUX_PERIPHERALS_ADDR = ARCHI_CLUSTER_ADDR + ARCHI_DEMUX_PERIPHERALS_OFFSET"

definition CLUSTER_BASE :: u32 where "CLUSTER_BASE = 0x10000000"
definition DMA_OFFSET :: u32 where "DMA_OFFSET = 0x1800"
definition PRIVATE_DMA_BASE :: u32 where
  "PRIVATE_DMA_BASE = ARCHI_DEMUX_PERIPHERALS_ADDR + ARCHI_MCHAN_DEMUX_OFFSET"
definition PUPLIC_DMA_BASE :: u32 where
  "PUPLIC_DMA_BASE = CLUSTER_BASE + ARCHI_CLUSTER_PERIPHERALS_OFFSET + DMA_OFFSET"

definition spin_memcpy_nonblk :: "device \<Rightarrow> u32 \<Rightarrow> u32 \<Rightarrow> u32 \<Rightarrow> trace \<Rightarrow> u32 \<times> trace" where
  "spin_memcpy_nonblk dev src_addr dst_addr num_bytes t =
     axidma_memcpy_nonblk dev PRIVATE_DMA_BASE src_addr dst_addr num_bytes t"

definition spin_memcpy :: "device \<Rightarrow> u32 \<Rightarrow> u32 \<Rightarrow> u32 \<Rightarrow> trace \<Rightarrow> trace option" where
  "spin_memcpy dev src_addr dst_addr num_bytes t =
     axidma_memcpy dev PRIVATE_DMA_BASE src_addr dst_addr num_bytes t"

definition spin_wait_for_tf_completion :: "device \<Rightarrow> u32 \<Rightarrow> trace \<Rightarrow> trace option" where
  "spin_wait_for_tf_completion dev tf_id t =
     map_option snd (poll dev (PRIVATE_DMA_BASE + dma_done_id) (\<lambda>completed. \<not> tf_id > completed) t)"

definition spin_tf_completed :: "device \<Rightarrow> u32 \<Rightarrow> trace \<Rightarrow> bool \<times> trace" where
  "spin_tf_completed dev tf_id t =
     (let (completed, t) = axidma_read_completed_id dev PRIVATE_DMA_BASE t in (tf_id \<le> completed, t))"

definition public_dma :: "u32 \<Rightarrow> u32" where
  "public_dma cluster = PUPLIC_DMA_BASE + cluster * ARCHI_CLUSTER_SIZE"

definition spin_public_memcpy_nonblk :: "device \<Rightarrow> u32 \<Rightarrow> u32 \<Rightarrow> u32 \<Rightarrow> u32 \<Rightarrow> trace \<Rightarrow> u32 \<times> trace" where
  "spin_public_memcpy_nonblk dev src_addr dst_addr num_bytes cluster t =
     axidma_memcpy_nonblk dev (public_dma cluster) src_addr dst_addr num_bytes t"

definition spin_public_memcpy :: "device \<Rightarrow> u32 \<Rightarrow> u32 \<Rightarrow> u32 \<Rightarrow> u32 \<Rightarrow> trace \<Rightarrow> trace option" where
  "spin_public_memcpy dev src_addr dst_addr num_bytes cluster t =
     axidma_memcpy dev (public_dma cluster) src_addr dst_addr num_bytes t"

definition spin_public_wait_for_tf_completion :: "device \<Rightarrow> u32 \<Rightarrow> u32 \<Rightarrow> trace \<Rightarrow> trace option" where
  "spin_public_wait_for_tf_completion dev tf_id cluster t =
     map_option snd (poll dev (public_dma cluster + dma_done_id) (\<lambda>completed. \<not> tf_id > completed) t)"

definition spin_public_tf_completed :: "device \<Rightarrow> u32 \<Rightarrow> u32 \<Rightarrow> trace \<Rightarrow> bool \<times> trace" where
  "spin_public_tf_completed dev tf_id cluster t =
     (let (completed, t) = axidma_read_completed_id dev (public_dma cluster) t in (tf_id \<le> completed, t))"

section \<open>The handler calls\<close>

text \<open>\<open>None\<close> for the handle is \<^verbatim>\<open>*xfer\<close> left as it was.\<close>

definition spin_dma :: "device \<Rightarrow> u32 \<Rightarrow> u32 \<Rightarrow> u32 \<Rightarrow> trace \<Rightarrow> u32 \<times> u32 option \<times> trace" where
  "spin_dma dev source dest nbytes t =
     (if nbytes > 0
      then (let (xfer, t) = spin_memcpy_nonblk dev source dest nbytes t in (SPIN_OK, Some xfer, t))
      else (SPIN_FAIL, None, t))"

definition spin_dma_wait :: "device \<Rightarrow> u32 \<Rightarrow> trace \<Rightarrow> (u32 \<times> trace) option" where
  "spin_dma_wait dev xfer t = map_option (\<lambda>t. (SPIN_OK, t)) (spin_wait_for_tf_completion dev xfer t)"

definition spin_dma_test :: "device \<Rightarrow> u32 \<Rightarrow> trace \<Rightarrow> u32 \<times> bool \<times> trace" where
  "spin_dma_test dev xfer t = (let (completed, t) = spin_tf_completed dev xfer t in (SPIN_OK, completed, t))"

text \<open>The out-of-line variant of \<^verbatim>\<open>handler.c\<close> has no test of the size.\<close>

definition src_spin_dma :: "device \<Rightarrow> u32 \<Rightarrow> u32 \<Rightarrow> u32 \<Rightarrow> trace \<Rightarrow> u32 \<times> u32 \<times> trace" where
  "src_spin_dma dev source dest nbytes t =
     (let (xfer, t) = spin_memcpy_nonblk dev source dest nbytes t in (SPIN_OK, xfer, t))"

section \<open>What an engine is handed\<close>

lemma launch_oned_eq:
  "axidma_launch_oned dev conf s d n t =
     (let t' = t @ [MWrite conf s, MWrite (conf + 8) d, MWrite (conf + 16) n]
      in (dev t' (conf + 24), t' @ [MRead (conf + 24) (dev t' (conf + 24))]))"
  by (simp add: axidma_launch_oned_def mmio_write_def mmio_read_def dma_offsets Let_def)

lemma launch_last_written:
  assumes "axidma_launch_oned dev conf s d n t = (tf, t')"
  shows "last_written t' (conf + dma_src_addr_low) = Some s" "last_written t' (conf + dma_dst_addr_low) = Some d"
    "last_written t' (conf + dma_num_bytes) = Some n"
    "last_written t' (conf + dma_src_addr_high) = last_written t (conf + dma_src_addr_high)"
    "last_written t' (conf + dma_dst_addr_high) = last_written t (conf + dma_dst_addr_high)"
  using assms
  by (auto simp: launch_oned_eq Let_def last_written_append dma_offsets split: option.splits)

section \<open>Properties\<close>

text \<open>
  \<open>spin_dma\<close> of zero bytes fails and touches no register. Of any other
  size it programs the private engine of the cluster with the two addresses
  and the size, leaves the segment registers as they were, reads the transfer register last, and returns what it
  answered as the handle; the out-of-line variant does this for a size of zero as well.
\<close>

theorem spin_dma_size_zero_fails:
  "spin_dma dev s d n t = (if n = 0 then (SPIN_FAIL, None, t)
     else (SPIN_OK, Some (fst (snd (src_spin_dma dev s d n t))), snd (snd (src_spin_dma dev s d n t))))
   \<and> (let t' = t @ [MWrite PRIVATE_DMA_BASE s, MWrite (PRIVATE_DMA_BASE + 8) d, MWrite (PRIVATE_DMA_BASE + 16) n];
          xfer = dev t' (PRIVATE_DMA_BASE + 24)
      in src_spin_dma dev s d n t = (SPIN_OK, xfer, t' @ [MRead (PRIVATE_DMA_BASE + 24) xfer]))"
  by (auto simp: spin_dma_def src_spin_dma_def spin_memcpy_nonblk_def axidma_memcpy_nonblk_def launch_oned_eq
      Let_def word_gt_0 split: prod.splits)

text \<open>
  \<open>spin_dma_wait\<close> returns exactly when some read of the completed id,
  among those it makes, reaches the transfer's id; it then has made no read after the first
  such one. If none ever does, it does not return.
\<close>

theorem spin_dma_wait_returns_iff:
  "let a = PRIVATE_DMA_BASE + dma_done_id; seen = (\<lambda>k. dev (after_reads dev a k t) a) in
   if \<exists>k. xfer \<le> seen k
   then spin_dma_wait dev xfer t = Some (SPIN_OK, after_reads dev a (Suc (LEAST k. xfer \<le> seen k)) t)
   else spin_dma_wait dev xfer t = None"
proof -
  define a where "a = PRIVATE_DMA_BASE + dma_done_id"
  define seen where "seen k = dev (after_reads dev a k t) a" for k
  have "if \<exists>k. xfer \<le> seen k
    then spin_dma_wait dev xfer t = Some (SPIN_OK, after_reads dev a (Suc (LEAST k. xfer \<le> seen k)) t)
    else spin_dma_wait dev xfer t = None"
  proof (cases "\<exists>k. xfer \<le> seen k")
    case True
    then have "xfer \<le> seen (LEAST k. xfer \<le> seen k)" "\<And>j. j < (LEAST k. xfer \<le> seen k) \<Longrightarrow> \<not> xfer \<le> seen j"
      by (auto intro: LeastI_ex dest: not_less_Least)
    then show ?thesis
      using True poll_some [of "\<lambda>v. xfer \<le> v" dev a "LEAST k. xfer \<le> seen k" t]
      by (simp add: spin_dma_wait_def spin_wait_for_tf_completion_def a_def seen_def not_less)
  next
    case False
    then show ?thesis
      using poll_none [of "\<lambda>v. xfer \<le> v" dev a t]
      by (simp add: spin_dma_wait_def spin_wait_for_tf_completion_def a_def seen_def not_less)
  qed
  then show ?thesis by (simp add: a_def seen_def Let_def)
qed

end
