(* ===== verification/Hpu_Runtime.thy ===== *)
theory Hpu_Runtime
  imports Nic_Commands Dma
begin

text \<open>
  The runtime of a handler processing unit, \<^verbatim>\<open>sw/runtime/src/hpu.c\<close>, with the
  control-register accesses of \<^verbatim>\<open>hal/riscv/riscv_v4.h\<close> and the instruction cache
  control of \<^verbatim>\<open>hal/icache/icache_ctrl_v2.h\<close> it uses. A hart is its control
  registers, the general registers the runtime passes values in, its program counter and
  privilege. The code of a handler, which the loader puts at the address the
  scheduler hands out, is a parameter.
\<close>

section \<open>A hart and its control registers\<close>

record hart =
  csr :: "u32 \<Rightarrow> u32"
  x2 :: u32
  x10 :: u32
  x11 :: u32
  pc :: u32
  priv :: u32

definition PULP_CSR_MSTATUS :: u32 where "PULP_CSR_MSTATUS = 0x300"
definition PULP_CSR_MTVEC :: u32 where "PULP_CSR_MTVEC = 0x305"
definition PULP_CSR_MEPC :: u32 where "PULP_CSR_MEPC = 0x341"
definition PULP_CSR_MCAUSE :: u32 where "PULP_CSR_MCAUSE = 0x342"
definition MSTATUS_USER :: u32 where "MSTATUS_USER = push_bit 11 3"

lemmas csr_vals = PULP_CSR_MSTATUS_def PULP_CSR_MTVEC_def PULP_CSR_MEPC_def PULP_CSR_MCAUSE_def

definition read_csr :: "u32 \<Rightarrow> hart \<Rightarrow> u32" where
  "read_csr r h = csr h r"

definition write_csr :: "u32 \<Rightarrow> u32 \<Rightarrow> hart \<Rightarrow> hart" where
  "write_csr r v h = h\<lparr>csr := (csr h)(r := v)\<rparr>"

definition clear_csr :: "u32 \<Rightarrow> u32 \<Rightarrow> hart \<Rightarrow> hart" where
  "clear_csr r m h = h\<lparr>csr := (csr h)(r := csr h r AND NOT m)\<rparr>"

text \<open>\<^verbatim>\<open>csrrc\<close> and \<^verbatim>\<open>csrrs\<close>: the old value and the register with the bits cleared or set.\<close>

definition hal_spr_read_then_clr :: "u32 \<Rightarrow> u32 \<Rightarrow> hart \<Rightarrow> u32 \<times> hart" where
  "hal_spr_read_then_clr r v h = (csr h r, h\<lparr>csr := (csr h)(r := csr h r AND NOT v)\<rparr>)"

definition hal_spr_read_then_set :: "u32 \<Rightarrow> u32 \<Rightarrow> hart \<Rightarrow> u32 \<times> hart" where
  "hal_spr_read_then_set r v h = (csr h r, h\<lparr>csr := (csr h)(r := csr h r OR v)\<rparr>)"

definition hal_spr_write :: "u32 \<Rightarrow> u32 \<Rightarrow> hart \<Rightarrow> hart" where
  "hal_spr_write r v h = h\<lparr>csr := (csr h)(r := v)\<rparr>"

definition hal_spr_read :: "u32 \<Rightarrow> hart \<Rightarrow> u32" where
  "hal_spr_read r h = csr h r"

text \<open>The hart id is an \<open>int\<close>: the shift is arithmetic.\<close>

definition core_id :: "hart \<Rightarrow> u32" where
  "core_id h = csr h 0xF14 AND 0x01f"

definition hart_cluster_id :: "hart \<Rightarrow> u32" where
  "hart_cluster_id h = signed_drop_bit 5 (csr h 0xF14) AND 0x3f"

definition rt_core_id :: "hart \<Rightarrow> u32" where "rt_core_id h = core_id h"
definition rt_cluster_id :: "hart \<Rightarrow> u32" where "rt_cluster_id h = hart_cluster_id h"

definition hal_irq_disable :: "hart \<Rightarrow> u32 \<times> hart" where
  "hal_irq_disable h = hal_spr_read_then_clr 0x300 (push_bit 3 0x1) h"

definition hal_irq_restore :: "u32 \<Rightarrow> hart \<Rightarrow> hart" where
  "hal_irq_restore state h = hal_spr_write 0x300 state h"

definition hal_irq_enable :: "hart \<Rightarrow> hart" where
  "hal_irq_enable h = snd (hal_spr_read_then_set 0x300 (push_bit 3 0x1) h)"

section \<open>Performance counters and the stack check\<close>

definition CSR_PCMR_ACTIVE :: u32 where "CSR_PCMR_ACTIVE = 0x1"

definition cpu_perf_conf_events :: "u32 \<Rightarrow> hart \<Rightarrow> hart" where
  "cpu_perf_conf_events eventMask h = write_csr 0x7A0 eventMask h"

definition cpu_perf_conf_events_get :: "hart \<Rightarrow> u32" where
  "cpu_perf_conf_events_get h = read_csr 0x7A0 h"

definition cpu_perf_conf :: "u32 \<Rightarrow> hart \<Rightarrow> hart" where
  "cpu_perf_conf confMask h = write_csr 0x7A1 confMask h"

definition cpu_perf_start :: "u32 \<Rightarrow> hart \<Rightarrow> hart" where
  "cpu_perf_start conf h = cpu_perf_conf (conf OR CSR_PCMR_ACTIVE) h"

definition cpu_perf_stop :: "u32 \<Rightarrow> hart \<Rightarrow> hart" where
  "cpu_perf_stop conf h = cpu_perf_conf conf h"

definition cpu_perf_setall :: "u32 \<Rightarrow> hart \<Rightarrow> hart" where
  "cpu_perf_setall v h = write_csr 0x79F v h"

text \<open>One case per counter, 0 outside of them.\<close>

definition cpu_perf_get :: "u32 \<Rightarrow> hart \<Rightarrow> u32" where
  "cpu_perf_get counterId h =
     (if counterId \<le> 30 then read_csr (0x780 + counterId) h else 0)"

definition cpu_perf_name :: "i32 \<Rightarrow> string option" where
  "cpu_perf_name event =
     (let names = [''CYCLES'', ''INSTR'', ''LD_STALL'', ''JMP_STALL'', ''IMISS'', ''LD'', ''ST'', ''JUMP'',
        ''BRANCH'', ''TAKEN_BRANCH'', ''RVC'', ''LD_EXT'', ''ST_EXT'', ''LD_EXT_CYC'', ''ST_EXT_CYC'', ''TCDM_CONT'']
      in if unat event < length names then Some (names ! unat event) else None)"

definition cpu_stack_check_enable :: "u32 \<Rightarrow> u32 \<Rightarrow> hart \<Rightarrow> hart" where
  "cpu_stack_check_enable base stop h =
     write_csr 0x7D0 1 (write_csr 0x7D2 stop (write_csr 0x7D1 base (write_csr 0x7D0 0 h)))"

definition cpu_stack_check_disable :: "hart \<Rightarrow> hart" where
  "cpu_stack_check_disable h = write_csr 0x7D0 0 h"

section \<open>Instruction cache control\<close>

definition ARCHI_ICACHE_CTRL_OFFSET :: u32 where "ARCHI_ICACHE_CTRL_OFFSET = 0x00001400"
definition ARCHI_ICACHE_CTRL_ADDR :: u32 where
  "ARCHI_ICACHE_CTRL_ADDR = ARCHI_CLUSTER_ADDR + ARCHI_CLUSTER_PERIPHERALS_OFFSET + ARCHI_ICACHE_CTRL_OFFSET"

definition ARCHI_CLUSTER_PERIPHERALS_GLOBAL_ADDR :: "u32 \<Rightarrow> u32" where
  "ARCHI_CLUSTER_PERIPHERALS_GLOBAL_ADDR cid =
     0x10000000 + cid * ARCHI_CLUSTER_SIZE + ARCHI_CLUSTER_PERIPHERALS_OFFSET"

definition enable_all_icache_banks :: "trace \<Rightarrow> trace" where
  "enable_all_icache_banks t = mmio_write ARCHI_ICACHE_CTRL_ADDR 0xFFFFFFFF t"

definition hal_icache_cluster_enable :: "u32 \<Rightarrow> trace \<Rightarrow> trace" where
  "hal_icache_cluster_enable cid t =
     mmio_write (ARCHI_CLUSTER_PERIPHERALS_GLOBAL_ADDR cid + ARCHI_ICACHE_CTRL_OFFSET) 0xFFFFFFFF t"

definition icache_enable :: "u32 \<Rightarrow> trace \<Rightarrow> trace" where
  "icache_enable base t = mmio_write base 0xFFFFFFFF t"

definition icache_disable :: "u32 \<Rightarrow> trace \<Rightarrow> trace" where
  "icache_disable base t = mmio_write base 0 t"

definition disable_all_icache_banks :: "trace \<Rightarrow> trace" where
  "disable_all_icache_banks t = mmio_write ARCHI_ICACHE_CTRL_ADDR 0 t"

definition reset_all_icache_stat_regs :: "trace \<Rightarrow> trace" where
  "reset_all_icache_stat_regs t = mmio_write (ARCHI_ICACHE_CTRL_ADDR + 0x10) 0xFFFFFFFF t"

definition start_all_icache_stat_regs :: "trace \<Rightarrow> trace" where
  "start_all_icache_stat_regs t = mmio_write (ARCHI_ICACHE_CTRL_ADDR + 0x14) 0xFFFFFFFF t"

definition stop_all_icache_stat_regs :: "trace \<Rightarrow> trace" where
  "stop_all_icache_stat_regs t = mmio_write (ARCHI_ICACHE_CTRL_ADDR + 0x14) 0 t"

definition read_hit_icache_reg :: "device \<Rightarrow> trace \<Rightarrow> u32 \<times> trace" where
  "read_hit_icache_reg dev t = mmio_read dev (ARCHI_ICACHE_CTRL_ADDR + 0x40) t"

definition read_trans_icache_reg :: "device \<Rightarrow> trace \<Rightarrow> u32 \<times> trace" where
  "read_trans_icache_reg dev t = mmio_read dev (ARCHI_ICACHE_CTRL_ADDR + 0x44) t"

definition flush_all_icache_banks_common :: "u32 \<Rightarrow> trace \<Rightarrow> trace" where
  "flush_all_icache_banks_common base t = mmio_write (base + 0x4) 1 t"

definition flush_all_icache_banks :: "trace \<Rightarrow> trace" where
  "flush_all_icache_banks t = flush_all_icache_banks_common ARCHI_ICACHE_CTRL_ADDR t"

definition selective_flush_icache_addr :: "u32 \<Rightarrow> trace \<Rightarrow> trace" where
  "selective_flush_icache_addr address t = mmio_write (ARCHI_ICACHE_CTRL_ADDR + 0x8) address t"

definition read_enable_icache_reg :: "device \<Rightarrow> trace \<Rightarrow> u32 \<times> trace" where
  "read_enable_icache_reg dev t = mmio_read dev (ARCHI_ICACHE_CTRL_ADDR + 0x0C) t"

definition read_status_icache_reg :: "device \<Rightarrow> trace \<Rightarrow> u32 \<times> trace" where
  "read_status_icache_reg dev t = mmio_read dev (ARCHI_ICACHE_CTRL_ADDR + 0x08) t"

section \<open>The runtime\<close>

definition cluster_init :: "hart \<Rightarrow> trace \<Rightarrow> trace" where
  "cluster_init h t =
     (let cluster_id = rt_cluster_id h;
          t = enable_all_icache_banks t;
          t = flush_all_icache_banks t
      in hal_icache_cluster_enable cluster_id t)"

text \<open>\<^verbatim>\<open>mret\<close>: to the saved program counter, in the privilege saved in bits 11 and 12.\<close>

definition mret :: "hart \<Rightarrow> hart" where
  "mret h = h\<lparr>pc := csr h PULP_CSR_MEPC, priv := drop_bit 11 (csr h PULP_CSR_MSTATUS) AND 3\<rparr>"

text \<open>
  \<open>run_addr\<close> and \<open>vec_addr\<close> are the addresses of \<open>hpu_run\<close> and \<open>mtvec\<close>; \<open>descr\<close> is the
  array of saved stack pointers. The two flags of the first core only keep
  the handlers linked (\<open>init_handlers\<close> writes local variables).
\<close>

definition hpu_entry :: "u32 \<Rightarrow> u32 \<Rightarrow> hart \<Rightarrow> (u32 \<Rightarrow> u32) \<Rightarrow> hart \<times> (u32 \<Rightarrow> u32)" where
  "hpu_entry run_addr vec_addr h descr =
     (let core = rt_core_id h; cluster = rt_cluster_id h;
          h = clear_csr PULP_CSR_MSTATUS MSTATUS_USER h;
          h = write_csr PULP_CSR_MEPC run_addr h;
          h = write_csr PULP_CSR_MTVEC vec_addr h;
          h = h\<lparr>x10 := cluster\<rparr>;
          h = h\<lparr>x11 := core\<rparr>;
          descr = descr(core := x2 h)
      in (mret h, descr))"

definition int0_handler :: "u32 \<Rightarrow> device \<Rightarrow> hart \<Rightarrow> (u32 \<Rightarrow> u32) \<Rightarrow> trace \<Rightarrow> hart \<times> trace" where
  "int0_handler run_addr dev h descr t =
     (let mcause = read_csr PULP_CSR_MCAUSE h;
          t = mmio_write HWSCHED_ERROR mcause t;
          (_, t) = mmio_read dev HWSCHED_DOORBELL t;
          h = h\<lparr>x2 := descr (rt_core_id h)\<rparr>;
          h = clear_csr PULP_CSR_MSTATUS MSTATUS_USER h;
          h = write_csr PULP_CSR_MEPC run_addr h
      in (mret h, t))"

text \<open>The arguments \<open>hpu_run\<close> sets up when it is entered; the task is the scheduler's registers.\<close>

definition hpu_args :: "(u32 \<Rightarrow> u32) \<Rightarrow> hart \<Rightarrow> handler_args" where
  "hpu_args regs h = \<lparr>args_task = task_at regs HWSCHED_HANDLER_MEM_ADDR,
     hpu_gid = x10 h * NB_CORES + x11 h, cluster_id = x10 h, hpu_id = x11 h\<rparr>"

text \<open>
  The body of its endless loop, and the loop for \<open>n\<close> handlers. A handler is a
  function of its arguments on the trace.
\<close>

definition hpu_step :: "(u32 \<Rightarrow> handler_args \<Rightarrow> trace \<Rightarrow> trace) \<Rightarrow> device \<Rightarrow> handler_args \<Rightarrow> trace \<Rightarrow> trace" where
  "hpu_step code dev args t =
     (let (handler_fun, t) = mmio_read dev HWSCHED_HANDLER_FUN_ADDR t;
          t = code handler_fun args t;
          (_, t) = mmio_read dev HWSCHED_DOORBELL t
      in t)"

fun hpu_run :: "(u32 \<Rightarrow> handler_args \<Rightarrow> trace \<Rightarrow> trace) \<Rightarrow> device \<Rightarrow> handler_args \<Rightarrow> nat \<Rightarrow> trace \<Rightarrow> trace" where
  "hpu_run code dev args 0 t = t"
| "hpu_run code dev args (Suc n) t = hpu_run code dev args n (hpu_step code dev args t)"

section \<open>Facts\<close>

lemma cluster_bits: "signed_drop_bit 5 (x :: i32) AND 0x3f = drop_bit 5 x AND 0x3f"
proof -
  have m: "(0x3f :: i32) = mask 6" by (simp add: mask_eq_exp_minus_1)
  show ?thesis
    unfolding m by (rule bit_word_eqI) (auto simp: bit_simps min_def add.commute)
qed

lemma user_bits: "drop_bit 11 (y :: u32) AND 3 = drop_bit 11 (y AND MSTATUS_USER)"
  by (rule bit_word_eqI) (auto simp: MSTATUS_USER_def bit_simps)

lemma mret_user:
  "csr h PULP_CSR_MSTATUS AND MSTATUS_USER = 0 \<Longrightarrow> priv (mret h) = 0"
  by (simp add: mret_def user_bits)

lemma clear_user: "(x AND NOT m) AND (m :: u32) = 0"
  by (rule bit_word_eqI) (auto simp: bit_simps)

text \<open>The privilege after either way into \<open>hpu_run\<close> is the user's.\<close>

lemma enter_user:
  "csr h PULP_CSR_MSTATUS = m AND NOT MSTATUS_USER \<Longrightarrow> priv (mret h) = 0"
  by (rule mret_user) (simp add: clear_user)

lemma hpu_entry_eq:
  "hpu_entry run vec h descr =
     (h\<lparr>csr := (csr h)(PULP_CSR_MSTATUS := csr h PULP_CSR_MSTATUS AND NOT MSTATUS_USER,
          PULP_CSR_MEPC := run, PULP_CSR_MTVEC := vec),
        x10 := rt_cluster_id h, x11 := rt_core_id h, pc := run, priv := 0\<rparr>,
      descr(rt_core_id h := x2 h))"
proof -
  have "drop_bit 11 (csr h PULP_CSR_MSTATUS AND NOT MSTATUS_USER) AND (3 :: u32) = 0"
    by (simp only: user_bits clear_user drop_bit_of_0)
  then show ?thesis
    by (simp add: hpu_entry_def mret_def write_csr_def clear_csr_def csr_vals Let_def)
qed

lemma hpu_step_eq:
  "hpu_step code dev args t =
     (let f = dev t HWSCHED_HANDLER_FUN_ADDR;
          t' = code f args (t @ [MRead HWSCHED_HANDLER_FUN_ADDR f])
      in t' @ [MRead HWSCHED_DOORBELL (dev t' HWSCHED_DOORBELL)])"
  by (simp add: hpu_step_def mmio_read_def Let_def)

lemma hart_fields:
  assumes "csr h 0xF14 = of_nat (32 * cl + co)" "cl < 64" "co < 32"
  shows "rt_core_id h = of_nat co" "rt_cluster_id h = of_nat cl"
proof -
  have u: "unat (of_nat (32 * cl + co) :: u32) = 32 * cl + co"
    using assms(2,3) by (simp add: unat_of_nat take_bit_nat_eq_self del: of_nat_add of_nat_mult)
  have m: "(0x01f :: u32) = mask 5" "(0x3f :: u32) = mask 6" by (simp_all add: mask_eq_exp_minus_1)
  have "unat (rt_core_id h) = take_bit 5 (unat (csr h 0xF14))"
    unfolding rt_core_id_def core_id_def m take_bit_eq_mask [symmetric] by (rule unsigned_take_bit_eq)
  then have "unat (rt_core_id h) = co" using assms(1,3) u by (simp add: take_bit_eq_mod del: of_nat_add of_nat_mult)
  then have "of_nat (unat (rt_core_id h)) = (of_nat co :: u32)" by simp
  then show "rt_core_id h = of_nat co" by simp
  have "unat (rt_cluster_id h) = take_bit 6 (drop_bit 5 (unat (csr h 0xF14)))"
    unfolding rt_cluster_id_def hart_cluster_id_def cluster_bits
    unfolding m take_bit_eq_mask [symmetric]
    by (simp only: unsigned_take_bit_eq unat_drop_bit_eq)
  then have "unat (rt_cluster_id h) = cl"
    using assms u by (simp add: take_bit_eq_mod drop_bit_eq_div del: of_nat_add of_nat_mult)
  then have "of_nat (unat (rt_cluster_id h)) = (of_nat cl :: u32)" by simp
  then show "rt_cluster_id h = of_nat cl" by simp
qed

text \<open>How often a trace reads a register.\<close>

definition reads_of :: "u32 \<Rightarrow> trace \<Rightarrow> nat" where
  "reads_of a t = length (filter (\<lambda>e. case e of MRead b _ \<Rightarrow> a = b | MWrite _ _ \<Rightarrow> False) t)"

lemma reads_of_append [simp]: "reads_of a (t @ u) = reads_of a t + reads_of a u"
  by (simp add: reads_of_def)

section \<open>Properties\<close>

text \<open>
  C31: for every core, below 8, of every cluster, below 64, whose hart id is 32 times its cluster plus its number, \<open>hpu_entry\<close> ends in user mode at
  \<open>hpu_run\<close> with the trap vector set and the stack pointer saved, and the arguments
  \<open>hpu_run\<close> builds carry that cluster, that core, and a global id that
  identifies the pair.
\<close>

theorem hpu_entry_starts_user_runtime:
  assumes "csr h 0xF14 = of_nat (32 * cl + co)" "cl < 64" "co < 8"
  shows "case hpu_entry run vec h descr of (h', descr') \<Rightarrow>
     pc h' = run \<and> priv h' = 0 \<and> csr h' PULP_CSR_MTVEC = vec \<and> descr' (of_nat co) = x2 h
     \<and> cluster_id (hpu_args regs h') = of_nat cl \<and> hpu_id (hpu_args regs h') = of_nat co
     \<and> unat (hpu_gid (hpu_args regs h')) = 8 * cl + co"
proof -
  have f: "rt_core_id h = of_nat co" "rt_cluster_id h = of_nat cl"
    using hart_fields [OF assms(1,2)] assms(3) by simp_all
  have "unat (of_nat (8 * cl + co) :: u32) = 8 * cl + co"
    using assms(2,3) by (simp add: unat_of_nat take_bit_nat_eq_self del: of_nat_add of_nat_mult)
  then have "unat (of_nat cl * NB_CORES + of_nat co) = 8 * cl + co"
    by (simp add: NB_CORES_def mult.commute)
  then show ?thesis
    by (simp add: hpu_entry_eq hpu_args_def f)
qed

theorem hpu_entry_starts_user_runtime_witness:
  "case hpu_entry 0x1000 0x2000 \<lparr>csr = (\<lambda>_. 67), x2 = 5, x10 = 0, x11 = 0, pc = 0, priv = 3\<rparr> (\<lambda>_. 0) of (h', descr') \<Rightarrow>
     pc h' = 0x1000 \<and> priv h' = 0 \<and> unat (hpu_gid (hpu_args (\<lambda>_. 0) h')) = 19"
  using hpu_entry_starts_user_runtime
    [of "\<lparr>csr = (\<lambda>_. 67), x2 = 5, x10 = 0, x11 = 0, pc = 0, priv = 3\<rparr>" 2 3 "0x1000" "0x2000" "\<lambda>_. 0" "\<lambda>_. 0"]
  by (auto split: prod.splits)

text \<open>
  C32: a fault writes its cause to the error register and then rings the
  doorbell, in this order and once each, and the hart resumes in user mode at \<open>hpu_run\<close> on the
  saved stack; but the registers \<open>hpu_run\<close> takes its cluster and core from
  are the ones of the interrupted handler, so the next handler gets whatever
  that one had in them.
\<close>

theorem fault_reports_and_resumes:
  "case int0_handler run dev h descr t of (h', t') \<Rightarrow>
     (\<exists>v. t' = t @ [MWrite HWSCHED_ERROR (csr h PULP_CSR_MCAUSE), MRead HWSCHED_DOORBELL v])
     \<and> pc h' = run \<and> priv h' = 0 \<and> x2 h' = descr (rt_core_id h)
     \<and> cluster_id (hpu_args regs h') = x10 h \<and> hpu_id (hpu_args regs h') = x11 h"
proof -
  have "drop_bit 11 (csr h PULP_CSR_MSTATUS AND NOT MSTATUS_USER) AND (3 :: u32) = 0"
    by (simp only: user_bits clear_user drop_bit_of_0)
  then show ?thesis
    by (simp add: int0_handler_def mret_def clear_csr_def write_csr_def read_csr_def hpu_args_def
        mmio_write_def mmio_read_def csr_vals Let_def)
qed

text \<open>
  Each turn of the runtime's loop reads the handler address, runs that
  handler once on the arguments and reads the doorbell once after it; \<open>n\<close> turns
  with handlers that leave the scheduler's registers alone read each of the two registers \<open>n\<close> times.
\<close>

theorem hpu_run_dispatches:
  assumes "\<And>f t. \<exists>u. code f args t = t @ u \<and> reads_of HWSCHED_HANDLER_FUN_ADDR u = 0 \<and> reads_of HWSCHED_DOORBELL u = 0"
  shows "reads_of HWSCHED_HANDLER_FUN_ADDR (hpu_run code dev args n t) = n + reads_of HWSCHED_HANDLER_FUN_ADDR t
    \<and> reads_of HWSCHED_DOORBELL (hpu_run code dev args n t) = n + reads_of HWSCHED_DOORBELL t"
proof (induction n arbitrary: t)
  case (Suc n)
  let ?f = "dev t HWSCHED_HANDLER_FUN_ADDR"
  obtain u where u: "code ?f args (t @ [MRead HWSCHED_HANDLER_FUN_ADDR ?f]) = (t @ [MRead HWSCHED_HANDLER_FUN_ADDR ?f]) @ u"
      "reads_of HWSCHED_HANDLER_FUN_ADDR u = 0" "reads_of HWSCHED_DOORBELL u = 0"
    using assms by blast
  have "reads_of HWSCHED_HANDLER_FUN_ADDR (hpu_step code dev args t) = Suc (reads_of HWSCHED_HANDLER_FUN_ADDR t)"
    "reads_of HWSCHED_DOORBELL (hpu_step code dev args t) = Suc (reads_of HWSCHED_DOORBELL t)"
    using u(2,3) by (simp_all add: hpu_step_eq u(1) Let_def)
      (simp_all add: reads_of_def hwsched_defs)
  with Suc.IH [of "hpu_step code dev args t"] show ?case by simp
qed simp

theorem hpu_run_dispatches_witness:
  "reads_of HWSCHED_DOORBELL (hpu_run (\<lambda>f args t. mmio_write CMD_WAIT f t) (\<lambda>_ _. 64) 
     \<lparr>args_task = task_at (\<lambda>_. 0) 0, hpu_gid = 0, cluster_id = 0, hpu_id = 0\<rparr> 3 []) = 3"
  using hpu_run_dispatches [of "\<lambda>f args t. mmio_write CMD_WAIT f t"
      "\<lparr>args_task = task_at (\<lambda>_. 0) 0, hpu_gid = 0, cluster_id = 0, hpu_id = 0\<rparr>" "\<lambda>_ _. 64" 3 "[]"]
  by (simp add: mmio_write_def) (simp add: reads_of_def)

end
