(* ===== verification/Stdio.thy ===== *)
theory Stdio
  imports Mmio
begin

text \<open>
  The C library of the firmware, \<^verbatim>\<open>runtime/libs/io/io.c\<close>: string and memory
  functions on the byte memory and the character output. \<open>char\<close> is unsigned on
  the target. \<open>None\<close> is a scan that never finds its end.
\<close>

section \<open>Strings\<close>

partial_function (option) strcmp :: "mem \<Rightarrow> u32 \<Rightarrow> u32 \<Rightarrow> int option" where
  "strcmp m s1 s2 =
     (if m s1 \<noteq> 0 \<and> m s1 = m s2 then strcmp m (s1 + 1) (s2 + 1)
      else Some (uint (m s1) - uint (m s2)))"

text \<open>The loop of \<open>strncmp\<close>; its counter is the number of characters left, at least one at entry.\<close>

fun strncmp_loop :: "mem \<Rightarrow> u32 \<Rightarrow> u32 \<Rightarrow> nat \<Rightarrow> int" where
  "strncmp_loop m s1 s2 0 = uint (m s1) - uint (m s2)"
| "strncmp_loop m s1 s2 (Suc n) =
     (if m s1 = m s2
      then (if n = 0 \<or> m s1 = 0 then uint (m s1) - uint (m s2)
            else strncmp_loop m (s1 + 1) (s2 + 1) n)
      else uint (m s1) - uint (m s2))"

definition strncmp :: "mem \<Rightarrow> u32 \<Rightarrow> u32 \<Rightarrow> u32 \<Rightarrow> int" where
  "strncmp m s1 s2 n = (if n = 0 then 0 else strncmp_loop m s1 s2 (unat n))"

partial_function (option) strlen_loop :: "mem \<Rightarrow> u32 \<Rightarrow> u32 option" where
  "strlen_loop m str = (if m str \<noteq> 0 then strlen_loop m (str + 1) else Some str)"

definition strlen :: "mem \<Rightarrow> u32 \<Rightarrow> u32 option" where
  "strlen m str = map_option (\<lambda>stop. stop - str) (strlen_loop m str)"

section \<open>Memory\<close>

fun memcmp_loop :: "mem \<Rightarrow> u32 \<Rightarrow> u32 \<Rightarrow> nat \<Rightarrow> int" where
  "memcmp_loop m s1 s2 0 = 0"
| "memcmp_loop m s1 s2 (Suc n) =
     (if m s1 \<noteq> m s2 then uint (m s1) - uint (m s2) else memcmp_loop m (s1 + 1) (s2 + 1) n)"

definition memcmp :: "mem \<Rightarrow> u32 \<Rightarrow> u32 \<Rightarrow> u32 \<Rightarrow> int" where
  "memcmp m m1 m2 n = memcmp_loop m m1 m2 (unat n)"

fun memset_loop :: "mem \<Rightarrow> u32 \<Rightarrow> u8 \<Rightarrow> nat \<Rightarrow> mem" where
  "memset_loop m s c 0 = m"
| "memset_loop m s c (Suc n) = memset_loop (store8 m s c) (s + 1) c n"

definition memset :: "mem \<Rightarrow> u32 \<Rightarrow> i32 \<Rightarrow> u32 \<Rightarrow> u32 \<times> mem" where
  "memset m p c n = (p, memset_loop m p (ucast c) (unat n))"

fun memcpy_loop :: "mem \<Rightarrow> u32 \<Rightarrow> u32 \<Rightarrow> nat \<Rightarrow> mem" where
  "memcpy_loop m dst src 0 = m"
| "memcpy_loop m dst src (Suc n) = memcpy_loop (store8 m dst (load8 m src)) (dst + 1) (src + 1) n"

definition memcpy :: "mem \<Rightarrow> u32 \<Rightarrow> u32 \<Rightarrow> u32 \<Rightarrow> u32 \<times> mem" where
  "memcpy m dst0 src0 len0 = (dst0, memcpy_loop m dst0 src0 (unat len0))"

section \<open>Character output\<close>

definition STDOUT_REG :: u32 where "STDOUT_REG = 0x1A104000"

definition rt_putc_stdout :: "trace \<Rightarrow> u8 \<Rightarrow> trace" where
  "rt_putc_stdout t c = mmio_write STDOUT_REG (ucast c) t"

definition tfp_putc :: "trace \<Rightarrow> u8 \<Rightarrow> trace" where
  "tfp_putc t c = rt_putc_stdout t c"

partial_function (option) puts :: "mem \<Rightarrow> u32 \<Rightarrow> trace \<Rightarrow> trace option" where
  "puts m s t =
     (let c = m s in
      if c = 0 then Some (tfp_putc t 10) else puts m (s + 1) (tfp_putc t c))"

definition putchar :: "i32 \<Rightarrow> trace \<Rightarrow> i32 \<times> trace" where
  "putchar c t = (c, tfp_putc t (ucast c))"

section \<open>C strings\<close>

text \<open>\<open>s\<close> is the string at \<open>p\<close>, without its terminator.\<close>

fun cstr :: "mem \<Rightarrow> u32 \<Rightarrow> u8 list \<Rightarrow> bool" where
  "cstr m p [] \<longleftrightarrow> m p = 0"
| "cstr m p (c # cs) \<longleftrightarrow> c \<noteq> 0 \<and> m p = c \<and> cstr m (p + 1) cs"

text \<open>The order the comparisons compute: by the first difference, a prefix first.\<close>

fun str_diff :: "u8 list \<Rightarrow> u8 list \<Rightarrow> int" where
  "str_diff [] [] = 0"
| "str_diff [] (b # bs) = - uint b"
| "str_diff (a # as) [] = uint a"
| "str_diff (a # as) (b # bs) = (if a = b then str_diff as bs else uint a - uint b)"

lemma str_diff_0: "0 \<notin> set as \<Longrightarrow> 0 \<notin> set bs \<Longrightarrow> str_diff as bs = 0 \<longleftrightarrow> as = bs"
  by (induction as bs rule: str_diff.induct) (auto simp: word_uint_eq_iff)

lemma cstr_nonzero: "cstr m p s \<Longrightarrow> 0 \<notin> set s"
  by (induction s arbitrary: p) auto

lemma cstr_unique: "cstr m p s \<Longrightarrow> cstr m p s' \<Longrightarrow> s = s'"
  by (induction s arbitrary: p s') (case_tac s'; auto)+

lemma strcmp_diff: "cstr m p as \<Longrightarrow> cstr m q bs \<Longrightarrow> strcmp m p q = Some (str_diff as bs)"
proof (induction as bs arbitrary: p q rule: str_diff.induct)
  case (4 a as b bs)
  then show ?case by (subst strcmp.simps) auto
qed (subst strcmp.simps; auto)+

lemma strncmp_diff:
  "cstr m p as \<Longrightarrow> cstr m q bs \<Longrightarrow> strncmp_loop m p q (Suc n) = str_diff (take (Suc n) as) (take (Suc n) bs)"
proof (induction as bs arbitrary: p q n rule: str_diff.induct)
  case (4 a as b bs)
  then show ?case by (cases n) auto
qed auto

lemma strlen_loop_end: "cstr m p s \<Longrightarrow> strlen_loop m p = Some (p + of_nat (length s))"
proof (induction s arbitrary: p)
  case Nil
  then show ?case by (subst strlen_loop.simps) simp
next
  case (Cons c s)
  then show ?case by (subst strlen_loop.simps) (simp add: add.assoc)
qed

lemma puts_out: "cstr m p s \<Longrightarrow> puts m p t = Some (foldl tfp_putc t (s @ [10]))"
proof (induction s arbitrary: p t)
  case Nil
  then show ?case by (subst puts.simps) simp
next
  case (Cons c s)
  then show ?case by (subst puts.simps) simp
qed

section \<open>Regions\<close>

lemma of_nat_Suc_u32: "(a :: u32) + of_nat (Suc i) = a + 1 + of_nat i"
  by simp

lemma sep_tail: "sep a (Suc n) b (Suc n) \<Longrightarrow> sep (a + 1) n (b + 1) n"
  using sep_inside [of a "Suc n" b "Suc n" 1 n 1 n] by simp

lemma memcpy_loop_copies:
  assumes "sep dst n src n" "n \<le> 2 ^ 32"
  shows "(\<forall>i<n. memcpy_loop m dst src n (dst + of_nat i) = m (src + of_nat i))
    \<and> (\<forall>a. (\<forall>i<n. a \<noteq> dst + of_nat i) \<longrightarrow> memcpy_loop m dst src n a = m a)"
  using assms
proof (induction n arbitrary: m dst src)
  case (Suc n)
  let ?m = "store8 m dst (load8 m src)"
  have IH: "\<forall>i<n. memcpy_loop ?m (dst + 1) (src + 1) n (dst + 1 + of_nat i) = ?m (src + 1 + of_nat i)"
    "\<forall>a. (\<forall>i<n. a \<noteq> dst + 1 + of_nat i) \<longrightarrow> memcpy_loop ?m (dst + 1) (src + 1) n a = ?m a"
    using Suc.IH [of "dst + 1" "src + 1" ?m] sep_tail [OF Suc.prems(1)] Suc.prems(2) by simp_all
  have fresh: "dst \<noteq> dst + 1 + of_nat i" if "i < n" for i
  proof
    assume "dst = dst + 1 + of_nat i"
    then have "(of_nat (Suc i) :: u32) = 0" by (simp add: add.assoc)
    then have "2 ^ 32 dvd Suc i" by (simp add: word_of_nat_eq_0_iff del: of_nat_Suc)
    then show False using that Suc.prems(2) by (auto dest: dvd_imp_le)
  qed
  have src: "src + 1 + of_nat i \<noteq> dst" if "i < n" for i
    using sepD [OF Suc.prems(1), of 0 "Suc i"] that by (simp add: add.assoc)
  show ?case
  proof (intro conjI allI impI)
    fix i assume "i < Suc n"
    show "memcpy_loop m dst src (Suc n) (dst + of_nat i) = m (src + of_nat i)"
    proof (cases i)
      case 0
      have "memcpy_loop ?m (dst + 1) (src + 1) n dst = ?m dst"
        using IH(2) fresh by blast
      then show ?thesis using 0 by (simp add: store8_def load8_def)
    next
      case (Suc j)
      then have "memcpy_loop ?m (dst + 1) (src + 1) n (dst + 1 + of_nat j) = m (src + 1 + of_nat j)"
        using IH(1) src [of j] \<open>i < Suc n\<close> by (simp add: store8_def)
      then show ?thesis using Suc by (simp add: add.assoc)
    qed
  next
    fix a assume a: "\<forall>i<Suc n. a \<noteq> dst + of_nat i"
    then have "a \<noteq> dst" "\<forall>i<n. a \<noteq> dst + 1 + of_nat i"
      using spec [OF a, of 0] spec [OF a, of "Suc _"] by (auto simp: add.assoc)
    then show "memcpy_loop m dst src (Suc n) a = m a"
      using IH(2) by (simp add: store8_def)
  qed
qed simp

lemma memset_loop_sets:
  assumes "n \<le> 2 ^ 32"
  shows "(\<forall>i<n. memset_loop m s c n (s + of_nat i) = c)
    \<and> (\<forall>a. (\<forall>i<n. a \<noteq> s + of_nat i) \<longrightarrow> memset_loop m s c n a = m a)"
  using assms
proof (induction n arbitrary: m s)
  case (Suc n)
  let ?m = "store8 m s c"
  have IH: "\<forall>i<n. memset_loop ?m (s + 1) c n (s + 1 + of_nat i) = c"
    "\<forall>a. (\<forall>i<n. a \<noteq> s + 1 + of_nat i) \<longrightarrow> memset_loop ?m (s + 1) c n a = ?m a"
    using Suc.IH [of ?m "s + 1"] Suc.prems by simp_all
  show ?case
  proof (intro conjI allI impI)
    fix i assume i: "i < Suc n"
    show "memset_loop m s c (Suc n) (s + of_nat i) = c"
    proof (cases i)
      case 0
      have "memset_loop ?m (s + 1) c n s = c"
      proof (cases "\<exists>j<n. s = s + 1 + of_nat j")
        case True
        with IH(1) show ?thesis by metis
      next
        case False
        with IH(2) show ?thesis by (simp add: store8_def)
      qed
      then show ?thesis using 0 by simp
    next
      case (Suc j)
      then show ?thesis using IH(1) i by (simp add: add.assoc)
    qed
  next
    fix a assume a: "\<forall>i<Suc n. a \<noteq> s + of_nat i"
    then have "a \<noteq> s" "\<forall>i<n. a \<noteq> s + 1 + of_nat i"
      using spec [OF a, of 0] spec [OF a, of "Suc _"] by (auto simp: add.assoc)
    then show "memset_loop m s c (Suc n) a = m a"
      using IH(2) by (simp add: store8_def)
  qed
qed simp

lemma memcmp_loop_first:
  "memcmp_loop m p q n = 0 \<longleftrightarrow> (\<forall>i<n. m (p + of_nat i) = m (q + of_nat i))"
proof (induction n arbitrary: p q)
  case (Suc n)
  have split: "(\<forall>i<Suc n. P i) \<longleftrightarrow> P 0 \<and> (\<forall>i<n. P (Suc i))" for P
    by (metis less_Suc_eq_0_disj)
  show ?case
    unfolding split using Suc.IH [of "p + 1" "q + 1"] by (auto simp: add.assoc word_uint_eq_iff)
qed simp

section \<open>Properties\<close>

text \<open>
  On strings in memory, \<open>strlen\<close> returns the length (modulo \<open>2 ^ 32\<close>),
  \<open>strcmp\<close> the difference at the first position where they differ, so 0 exactly
  on equal strings, \<open>strncmp\<close> the same of their first \<open>n\<close> characters, and \<open>puts\<close> writes
  the characters in order and then a newline.
\<close>

theorem string_functions_correct:
  assumes "cstr m p as" "cstr m q bs"
  shows "strlen m p = Some (of_nat (length as))
    \<and> strcmp m p q = Some (str_diff as bs) \<and> (strcmp m p q = Some 0 \<longleftrightarrow> as = bs)
    \<and> strncmp m p q n = str_diff (take (unat n) as) (take (unat n) bs)
    \<and> puts m p t = Some (t @ map (\<lambda>c. MWrite STDOUT_REG (ucast c)) (as @ [10]))"
proof -
  have "strncmp m p q n = str_diff (take (unat n) as) (take (unat n) bs)"
  proof (cases "unat n")
    case 0
    then show ?thesis by (simp add: strncmp_def unat_eq_zero)
  next
    case (Suc k)
    then have "n \<noteq> 0" by auto
    then show ?thesis using strncmp_diff [OF assms, of k] Suc by (simp add: strncmp_def)
  qed
  moreover have "foldl tfp_putc t s = t @ map (\<lambda>c. MWrite STDOUT_REG (ucast c)) s" for s
    by (induction s arbitrary: t) (simp_all add: tfp_putc_def rt_putc_stdout_def mmio_write_def)
  moreover have "strlen m p = Some (of_nat (length as))"
    using strlen_loop_end [OF assms(1)] by (simp add: strlen_def)
  ultimately show ?thesis
    using strcmp_diff [OF assms] str_diff_0 [of as bs] cstr_nonzero [OF assms(1)] cstr_nonzero [OF assms(2)]
      puts_out [OF assms(1), of t]
    by (simp add: tfp_putc_def rt_putc_stdout_def mmio_write_def)
qed

theorem string_functions_correct_witness:
  "strcmp ((\<lambda>_. 0)(4 := 97, 5 := 98, 8 := 97)) 4 8 = Some 98
   \<and> strlen ((\<lambda>_. 0)(4 := 97, 5 := 98, 8 := 97)) 4 = Some 2"
  using string_functions_correct [of "(\<lambda>_. 0)(4 := 97, 5 := 98, 8 := 97)" 4 "[97, 98]" 8 "[97]" 0 "[]"] by simp

text \<open>
  \<open>memcpy\<close> between separated regions copies every byte and changes no other; \<open>memset\<close>
  fills its region with the low byte of its argument and changes no other; both return
  their first argument; \<open>memcmp\<close> is 0 exactly when the two regions agree.
\<close>

theorem memory_functions_correct:
  assumes "sep dst (unat n) src (unat n)"
  shows "fst (memcpy m dst src n) = dst \<and> fst (memset m dst c n) = dst
    \<and> (\<forall>i<unat n. snd (memcpy m dst src n) (dst + of_nat i) = m (src + of_nat i)
        \<and> snd (memset m dst c n) (dst + of_nat i) = ucast c)
    \<and> (\<forall>a. (\<forall>i<unat n. a \<noteq> dst + of_nat i) \<longrightarrow>
          snd (memcpy m dst src n) a = m a \<and> snd (memset m dst c n) a = m a)
    \<and> memcmp (snd (memcpy m dst src n)) dst src n = 0"
proof -
  have n: "unat n \<le> 2 ^ 32" using unat_u32_lt [of n] by simp
  note C = memcpy_loop_copies [OF assms n, of m] and S = memset_loop_sets [OF n, of m dst "ucast c"]
  have "memcpy_loop m dst src (unat n) (src + of_nat i) = m (src + of_nat i)" if "i < unat n" for i
    using C sepD [OF assms _ that] by metis
  then have "memcmp_loop (memcpy_loop m dst src (unat n)) dst src (unat n) = 0"
    using C by (simp add: memcmp_loop_first)
  with C S show ?thesis by (simp add: memcpy_def memset_def memcmp_def)
qed

theorem memory_functions_correct_witness:
  "snd (memcpy (\<lambda>a. ucast a) 100 200 8) 103 = 203"
proof -
  have "sep 100 (unat (8 :: u32)) 200 (unat (8 :: u32))" by (rule sepI) simp_all
  from memory_functions_correct [OF this, of "\<lambda>a. ucast a" 0]
  have "\<forall>i<8. snd (memcpy (\<lambda>a. ucast a) 100 200 8) (100 + of_nat i) = ucast (200 + of_nat i :: u32)" by simp
  from this [rule_format, of 3] show ?thesis by simp
qed

end
