(* ===== verification/Tinyprintf.thy ===== *)
theory Tinyprintf
  imports Stdio
begin

text \<open>
  The formatter of the firmware, \<^verbatim>\<open>runtime/libs/io/tinyprintf.c\<close>, with its
  configuration (long, long long and size_t support) on the 32-bit target:
  number conversion, field output, the format interpreter, and the bounded
  and unbounded string writers. The format is the list of its characters before
  the terminator; reading at the end gives the terminator. A variadic argument
  is one of the shapes \<open>va_arg\<close> can fetch; fetching another is undefined (\<open>None\<close>).
  The number buffer of the interpreter has 23 characters; that conversions fit is a
  property below.
\<close>

section \<open>Parameters and arguments\<close>

record param =
  lz :: bool
  alt :: bool
  uc :: bool
  align_left :: bool
  width :: u32
  psign :: u8
  base :: u32
  bf :: "u8 list"

datatype va = VA32 u32 | VA64 u64 | VAstr "u8 list"

section \<open>Numbers\<close>

text \<open>
  The two loops of the three conversions, at the width of each: find the
  weight of the leading digit, then emit digits. They end for a base of 2 or more.
\<close>

partial_function (option) scale :: "'a::len word \<Rightarrow> 'a word \<Rightarrow> 'a word \<Rightarrow> 'a word option" where
  "scale num b d = (if num div d \<ge> b then scale num b (d * b) else Some d)"

definition digit_char :: "bool \<Rightarrow> i32 \<Rightarrow> u8" where
  "digit_char upper dgt = ucast (dgt + (if dgt <s 10 then 48 else (if upper then 65 else 97) - 10))"

partial_function (option) emit ::
    "bool \<Rightarrow> 'a::len word \<Rightarrow> 'a word \<Rightarrow> 'a word \<Rightarrow> u8 list \<Rightarrow> u8 list option" where
  "emit upper num b d out =
     (if d \<noteq> 0 then
        (let dgt = ucast (num div d) :: i32; num' = num mod d; d' = d div b
         in emit upper num' b d'
              (if out \<noteq> [] \<or> 0 <s dgt \<or> d' = 0 then out @ [digit_char upper dgt] else out))
      else Some out)"

definition ulli2a :: "u64 \<Rightarrow> param \<Rightarrow> param option" where
  "ulli2a num p = (case scale num (ucast (base p)) 1 of None \<Rightarrow> None
     | Some d \<Rightarrow> map_option (\<lambda>out. p\<lparr>bf := out\<rparr>) (emit (uc p) num (ucast (base p)) d []))"

definition uli2a :: "u32 \<Rightarrow> param \<Rightarrow> param option" where
  "uli2a num p = (case scale num (base p) 1 of None \<Rightarrow> None
     | Some d \<Rightarrow> map_option (\<lambda>out. p\<lparr>bf := out\<rparr>) (emit (uc p) num (base p) d []))"

definition ui2a :: "u32 \<Rightarrow> param \<Rightarrow> param option" where
  "ui2a num p = (case scale num (base p) 1 of None \<Rightarrow> None
     | Some d \<Rightarrow> map_option (\<lambda>out. p\<lparr>bf := out\<rparr>) (emit (uc p) num (base p) d []))"

definition lli2a :: "u64 \<Rightarrow> param \<Rightarrow> param option" where
  "lli2a num p = (if num <s 0 then ulli2a (- num) (p\<lparr>psign := 45\<rparr>) else ulli2a num p)"

definition li2a :: "i32 \<Rightarrow> param \<Rightarrow> param option" where
  "li2a num p = (if num <s 0 then uli2a (- num) (p\<lparr>psign := 45\<rparr>) else uli2a num p)"

definition i2a :: "i32 \<Rightarrow> param \<Rightarrow> param option" where
  "i2a num p = (if num <s 0 then ui2a (- num) (p\<lparr>psign := 45\<rparr>) else ui2a num p)"

definition a2d :: "u8 \<Rightarrow> i32" where
  "a2d ch = (if 48 \<le> ch \<and> ch \<le> 57 then ucast ch - 48
     else if 97 \<le> ch \<and> ch \<le> 102 then ucast ch - 97 + 10
     else if 65 \<le> ch \<and> ch \<le> 70 then ucast ch - 65 + 10
     else -1)"

text \<open>The character it stops at, the rest of the format and the number.\<close>

fun a2u_loop :: "u8 \<Rightarrow> u8 list \<Rightarrow> i32 \<Rightarrow> u32 \<Rightarrow> u8 \<times> u8 list \<times> u32" where
  "a2u_loop ch src b num =
     (let digit = a2d ch in
      if digit <s 0 \<or> b <s digit then (ch, src, num)
      else (case src of [] \<Rightarrow> (0, [], num * b + digit)
            | c # cs \<Rightarrow> a2u_loop c cs b (num * b + digit)))"

definition a2u :: "u8 \<Rightarrow> u8 list \<Rightarrow> i32 \<Rightarrow> u8 \<times> u8 list \<times> u32" where
  "a2u ch src b = a2u_loop ch src b 0"

declare a2u_loop.simps [simp del]

section \<open>Field output\<close>

text \<open>\<open>putf\<close> consumes one character at a time; \<open>put_n\<close> is the filling loop.\<close>

definition put_n :: "('s \<Rightarrow> u8 \<Rightarrow> 's) \<Rightarrow> u8 \<Rightarrow> int \<Rightarrow> 's \<Rightarrow> 's" where
  "put_n putf c n s = foldl putf s (replicate (nat n) c)"

definition fill_left :: "param \<Rightarrow> int" where
  "fill_left p =
     (let n = sint (width p);
          n = (if 0 < n then n - min n (int (length (bf p))) else n);
          n = (if psign p \<noteq> 0 then n - 1 else n)
      in if alt p \<and> base p = 16 then n - 2 else if alt p \<and> base p = 8 then n - 1 else n)"

definition putchw :: "('s \<Rightarrow> u8 \<Rightarrow> 's) \<Rightarrow> param \<Rightarrow> 's \<Rightarrow> 's" where
  "putchw putf p s =
     (let n = fill_left p;
          s = (if \<not> lz p \<and> \<not> align_left p then put_n putf 32 n s else s);
          s = (if psign p \<noteq> 0 then putf s (psign p) else s);
          s = (if alt p \<and> base p = 16 then putf (putf s 48) (if uc p then 88 else 120)
               else if alt p \<and> base p = 8 then putf s 48 else s);
          s = (if lz p then put_n putf 48 n s else s);
          s = foldl putf s (bf p)
      in if \<not> lz p \<and> align_left p then put_n putf 32 n s else s)"

section \<open>The format interpreter\<close>

definition fetch :: "u8 list \<Rightarrow> u8 \<times> u8 list" where
  "fetch fmt = (case fmt of [] \<Rightarrow> (0, []) | c # cs \<Rightarrow> (c, cs))"

fun flags :: "u8 list \<Rightarrow> param \<Rightarrow> u8 \<times> u8 list \<times> param" where
  "flags [] p = (0, [], p)"
| "flags (ch # fmt) p =
     (if ch = 45 then flags fmt (p\<lparr>align_left := True\<rparr>)
      else if ch = 48 then flags fmt (p\<lparr>lz := True\<rparr>)
      else if ch = 35 then flags fmt (p\<lparr>alt := True\<rparr>)
      else (ch, fmt, p))"

fun skip_digits :: "u8 list \<Rightarrow> u8 \<times> u8 list" where
  "skip_digits [] = (0, [])"
| "skip_digits (ch # fmt) = (if 48 \<le> ch \<and> ch \<le> 57 then skip_digits fmt else (ch, fmt))"

text \<open>A specification after the percent sign, up to its conversion character.\<close>

definition parse_width :: "u8 \<Rightarrow> u8 list \<Rightarrow> param \<Rightarrow> u8 \<times> u8 list \<times> param" where
  "parse_width ch fmt p =
     (if 48 \<le> ch \<and> ch \<le> 57
      then (let (ch, fmt, w) = a2u ch fmt 10 in (ch, fmt, p\<lparr>width := w\<rparr>)) else (ch, fmt, p))"

definition parse_prec :: "u8 \<Rightarrow> u8 list \<Rightarrow> param \<Rightarrow> u8 \<times> u8 list \<times> param" where
  "parse_prec ch fmt p =
     (if ch = 46
      then (let (ch, fmt) = skip_digits fmt in (ch, fmt, p\<lparr>lz := True\<rparr>)) else (ch, fmt, p))"

definition parse_len :: "u8 \<Rightarrow> u8 list \<Rightarrow> u8 \<times> nat \<times> u8 list" where
  "parse_len ch fmt =
     (if ch = 122 then (let (ch, fmt) = fetch fmt in (ch, 1, fmt))
      else if ch = 108 then
        (let (ch, fmt) = fetch fmt in
         if ch = 108 then (let (ch, fmt) = fetch fmt in (ch, 2, fmt)) else (ch, 1, fmt))
      else (ch, 0, fmt))"

definition parse_spec :: "u8 list \<Rightarrow> param \<Rightarrow> u8 \<times> nat \<times> u8 list \<times> param" where
  "parse_spec fmt p =
     (let (ch, fmt, p) = flags fmt (p\<lparr>lz := False, alt := False, width := 0, align_left := False, psign := 0\<rparr>);
          (ch, fmt, p) = parse_width ch fmt p;
          (ch, fmt, p) = parse_prec ch fmt p;
          (ch, lng, fmt) = parse_len ch fmt
      in (ch, lng, fmt, p))"

text \<open>The unsigned and the signed number conversions, by length modifier.\<close>

definition conv_u :: "nat \<Rightarrow> va list \<Rightarrow> param \<Rightarrow> (param \<times> va list) option" where
  "conv_u lng va p = (case va of
     VA64 v # va \<Rightarrow> if lng = 2 then map_option (\<lambda>p. (p, va)) (ulli2a v p) else None
   | VA32 v # va \<Rightarrow> if lng = 2 then None
       else if lng = 1 then map_option (\<lambda>p. (p, va)) (uli2a v p) else map_option (\<lambda>p. (p, va)) (ui2a v p)
   | _ \<Rightarrow> None)"

definition conv_d :: "nat \<Rightarrow> va list \<Rightarrow> param \<Rightarrow> (param \<times> va list) option" where
  "conv_d lng va p = (case va of
     VA64 v # va \<Rightarrow> if lng = 2 then map_option (\<lambda>p. (p, va)) (lli2a v p) else None
   | VA32 v # va \<Rightarrow> if lng = 2 then None
       else if lng = 1 then map_option (\<lambda>p. (p, va)) (li2a v p) else map_option (\<lambda>p. (p, va)) (i2a v p)
   | _ \<Rightarrow> None)"

text \<open>The conversion switch; the parameters survive from one specification to the next.\<close>

definition convert ::
    "('s \<Rightarrow> u8 \<Rightarrow> 's) \<Rightarrow> u8 \<Rightarrow> nat \<Rightarrow> param \<Rightarrow> va list \<Rightarrow> 's \<Rightarrow> ('s \<times> param \<times> va list) option" where
  "convert putf ch lng p va s =
     (if ch = 117 then
        map_option (\<lambda>(p, va). (putchw putf p s, p, va)) (conv_u lng va (p\<lparr>base := 10\<rparr>))
      else if ch = 100 \<or> ch = 105 then
        map_option (\<lambda>(p, va). (putchw putf p s, p, va)) (conv_d lng va (p\<lparr>base := 10\<rparr>))
      else if ch = 112 \<or> ch = 120 \<or> ch = 88 then
        (let p = (if ch = 112 then p\<lparr>alt := True\<rparr> else p);
             lng = (if ch = 112 then 0 else lng)
         in map_option (\<lambda>(p, va). (putchw putf p s, p, va)) (conv_u lng va (p\<lparr>base := 16, uc := (ch = 88)\<rparr>)))
      else if ch = 111 then
        map_option (\<lambda>(p, va). (putchw putf p s, p, va)) (conv_u 0 va (p\<lparr>base := 8\<rparr>))
      else if ch = 99 then
        (case va of VA32 v # va \<Rightarrow> Some (putf s (ucast v), p, va) | _ \<Rightarrow> None)
      else if ch = 115 then
        (case va of VAstr str # va \<Rightarrow> Some (putchw putf (p\<lparr>bf := str\<rparr>) s, p, va) | _ \<Rightarrow> None)
      else if ch = 37 then Some (putf s ch, p, va)
      else Some (s, p, va))"

lemma flags_length: "flags fmt p = (ch, fmt', p') \<Longrightarrow> length fmt' \<le> length fmt"
  by (induction fmt p rule: flags.induct) (auto split: if_splits intro: le_SucI)

lemma skip_digits_length: "skip_digits fmt = (ch, fmt') \<Longrightarrow> length fmt' \<le> length fmt"
  by (induction fmt rule: skip_digits.induct) (auto split: if_splits intro: le_SucI)

lemma fetch_length: "fetch fmt = (ch, fmt') \<Longrightarrow> length fmt' \<le> length fmt"
  by (cases fmt) (auto simp: fetch_def)

lemma a2u_loop_length: "a2u_loop ch src b num = (ch', src', num') \<Longrightarrow> length src' \<le> length src"
proof (induction src arbitrary: ch num)
  case Nil
  then show ?case by (simp add: a2u_loop.simps Let_def split: if_splits)
next
  case (Cons c cs)
  then show ?case by (subst (asm) a2u_loop.simps) (auto simp: Let_def le_SucI split: if_splits)
qed

lemma parse_width_length: "parse_width ch fmt p = (ch', fmt', p') \<Longrightarrow> length fmt' \<le> length fmt"
  by (auto simp: parse_width_def a2u_def dest: a2u_loop_length split: if_splits prod.splits)

lemma parse_prec_length: "parse_prec ch fmt p = (ch', fmt', p') \<Longrightarrow> length fmt' \<le> length fmt"
  by (auto simp: parse_prec_def dest: skip_digits_length split: if_splits prod.splits)

lemma parse_len_length: "parse_len ch fmt = (ch', lng, fmt') \<Longrightarrow> length fmt' \<le> length fmt"
  by (auto simp: parse_len_def Let_def dest!: fetch_length split: if_splits prod.splits)

lemma parse_spec_length: "parse_spec fmt p = (ch, lng, fmt', p') \<Longrightarrow> length fmt' \<le> length fmt"
  unfolding parse_spec_def Let_def
  by (auto split: prod.splits dest!: flags_length parse_width_length parse_prec_length parse_len_length)

function tfp_format ::
    "('s \<Rightarrow> u8 \<Rightarrow> 's) \<Rightarrow> u8 list \<Rightarrow> param \<Rightarrow> va list \<Rightarrow> 's \<Rightarrow> 's option" where
  "tfp_format putf [] p va s = Some s"
| "tfp_format putf (ch # fmt) p va s =
     (if ch = 0 then Some s
      else if ch \<noteq> 37 then tfp_format putf fmt p va (putf s ch)
      else (case parse_spec fmt p of (ch, lng, fmt', p) \<Rightarrow>
        if ch = 0 then Some s
        else (case convert putf ch lng p va s of
                None \<Rightarrow> None
              | Some (s, p, va) \<Rightarrow> tfp_format putf fmt' p va s)))"
  by pat_completeness auto
termination
  by (relation "measure (\<lambda>(_, fmt, _). length fmt)") (auto dest: parse_spec_length [OF sym])

text \<open>The parameters before the first specification are not initialised: any value stands for them.\<close>

definition printf :: "param \<Rightarrow> u8 list \<Rightarrow> va list \<Rightarrow> trace \<Rightarrow> (i32 \<times> trace) option" where
  "printf p0 fmt va t = map_option (\<lambda>t. (0, t)) (tfp_format tfp_putc fmt p0 va t)"

section \<open>String writers\<close>

record vsn_data =
  dest_capacity :: u32
  dest :: u32
  num_chars :: u32
  vmem :: mem

definition vsnprintf_putcf :: "vsn_data \<Rightarrow> u8 \<Rightarrow> vsn_data" where
  "vsnprintf_putcf data c =
     (let data = (if num_chars data < dest_capacity data
                  then data\<lparr>vmem := store8 (vmem data) (dest data + num_chars data) c\<rparr> else data)
      in data\<lparr>num_chars := num_chars data + 1\<rparr>)"

definition tfp_vsnprintf :: "param \<Rightarrow> mem \<Rightarrow> u32 \<Rightarrow> u32 \<Rightarrow> u8 list \<Rightarrow> va list \<Rightarrow> (i32 \<times> mem) option" where
  "tfp_vsnprintf p0 m str nbytes format ap =
     (if nbytes < 1 then Some (0, m)
      else map_option (\<lambda>data.
        (num_chars data,
         if num_chars data < dest_capacity data
         then store8 (vmem data) (dest data + num_chars data) 0
         else store8 (vmem data) (dest data + dest_capacity data) 0))
        (tfp_format vsnprintf_putcf format p0 ap
          \<lparr>dest_capacity = nbytes - 1, dest = str, num_chars = 0, vmem = m\<rparr>))"

definition tfp_snprintf :: "param \<Rightarrow> mem \<Rightarrow> u32 \<Rightarrow> u32 \<Rightarrow> u8 list \<Rightarrow> va list \<Rightarrow> (i32 \<times> mem) option" where
  "tfp_snprintf p0 m str nbytes format ap = tfp_vsnprintf p0 m str nbytes format ap"

text \<open>The unbounded writer has no capacity; the field is not read.\<close>

definition vsprintf_putcf :: "vsn_data \<Rightarrow> u8 \<Rightarrow> vsn_data" where
  "vsprintf_putcf data c =
     data\<lparr>vmem := store8 (vmem data) (dest data + num_chars data) c, num_chars := num_chars data + 1\<rparr>"

definition tfp_vsprintf :: "param \<Rightarrow> mem \<Rightarrow> u32 \<Rightarrow> u8 list \<Rightarrow> va list \<Rightarrow> (i32 \<times> mem) option" where
  "tfp_vsprintf p0 m str format ap =
     map_option (\<lambda>data. (num_chars data, store8 (vmem data) (dest data + num_chars data) 0))
       (tfp_format vsprintf_putcf format p0 ap \<lparr>dest_capacity = 0, dest = str, num_chars = 0, vmem = m\<rparr>)"

definition sprintf :: "param \<Rightarrow> mem \<Rightarrow> u32 \<Rightarrow> u8 list \<Rightarrow> va list \<Rightarrow> (i32 \<times> mem) option" where
  "sprintf p0 m str format ap = tfp_vsprintf p0 m str format ap"

section \<open>Digits\<close>

text \<open>The digits of a number in a base, most significant first.\<close>

fun to_digits :: "nat \<Rightarrow> nat \<Rightarrow> nat list" where
  "to_digits b n = (if b < 2 \<or> n < b then [n] else to_digits b (n div b) @ [n mod b])"

declare to_digits.simps [simp del]

text \<open>The same by weights, from \<open>b ^ k\<close> down.\<close>

fun weighed :: "nat \<Rightarrow> nat \<Rightarrow> nat \<Rightarrow> nat list" where
  "weighed b 0 n = [n]"
| "weighed b (Suc k) n = (n div b ^ Suc k) # weighed b k (n mod b ^ Suc k)"

lemma mod_pow_div: "(n mod b ^ Suc k) div b = (n div b) mod (b ^ k :: nat)"
  by (cases "b = 0") (simp_all add: mod_mult2_eq)

lemma weighed_snoc: "weighed b (Suc k) n = weighed b k (n div b) @ [n mod b]"
proof (induction k arbitrary: n)
  case (Suc k)
  have "weighed b (Suc (Suc k)) n = n div b ^ Suc (Suc k) # weighed b (Suc k) (n mod b ^ Suc (Suc k))"
    by simp
  also have "\<dots> = n div b ^ Suc (Suc k) #
      weighed b k ((n mod b ^ Suc (Suc k)) div b) @ [n mod b ^ Suc (Suc k) mod b]"
    by (simp only: Suc.IH)
  also have "n mod b ^ Suc (Suc k) mod b = n mod b"
    by (simp add: mod_mod_cancel)
  also have "(n mod b ^ Suc (Suc k)) div b = (n div b) mod b ^ Suc k"
    by (rule mod_pow_div)
  also have "n div b ^ Suc (Suc k) = (n div b) div b ^ Suc k"
    by (simp add: div_mult2_eq)
  finally show ?case by simp
qed simp

lemma to_digits_weighed:
  "2 \<le> b \<Longrightarrow> n < b ^ Suc k \<Longrightarrow> k = 0 \<or> b ^ k \<le> n \<Longrightarrow> to_digits b n = weighed b k n"
proof (induction k arbitrary: n)
  case 0
  then show ?case by (simp add: to_digits.simps)
next
  case (Suc k)
  have "b \<le> n" using Suc.prems self_le_power [of b "Suc k"] by linarith
  moreover have "to_digits b (n div b) = weighed b k (n div b)"
  proof (rule Suc.IH [OF Suc.prems(1)])
    show "n div b < b ^ Suc k"
      using Suc.prems(2) by (simp add: less_mult_imp_div_less mult.commute)
    have "b ^ Suc k div b \<le> n div b" using Suc.prems(3) by (intro div_le_mono) simp
    then show "k = 0 \<or> b ^ k \<le> n div b" using Suc.prems(1) by simp
  qed
  ultimately show ?case
    using Suc.prems(1) by (simp add: to_digits.simps [of b n] weighed_snoc del: weighed.simps)
qed

lemma to_digits_length: "2 \<le> b \<Longrightarrow> n < b ^ Suc k \<Longrightarrow> length (to_digits b n) \<le> Suc k"
proof (induction k arbitrary: n)
  case 0
  then show ?case by (simp add: to_digits.simps)
next
  case (Suc k)
  then have "n div b < b ^ Suc k" by (simp add: less_mult_imp_div_less mult.commute)
  with Suc show ?case by (subst to_digits.simps) simp
qed

lemma to_digits_nonempty [simp]: "to_digits b n \<noteq> []"
  by (subst to_digits.simps) simp

lemma to_digits_less: "2 \<le> b \<Longrightarrow> x \<in> set (to_digits b n) \<Longrightarrow> x < b"
proof (induction b n rule: to_digits.induct)
  case (1 b n)
  then show ?case by (subst (asm) (2) to_digits.simps) (auto split: if_splits)
qed

lemma to_digits_value: "2 \<le> b \<Longrightarrow> foldl (\<lambda>a d. a * b + d) 0 (to_digits b n) = n"
proof (induction b n rule: to_digits.induct)
  case (1 b n)
  then show ?case by (subst to_digits.simps) auto
qed

section \<open>The conversion loops\<close>

lemma unat_pow_step:
  fixes d b num :: "'a::len word"
  assumes "unat d = unat b ^ k" "2 \<le> unat b"
  shows "num div d \<ge> b \<longleftrightarrow> unat b ^ Suc k \<le> unat num"
    "unat b ^ Suc k \<le> unat num \<Longrightarrow> unat (d * b) = unat b ^ Suc k"
proof -
  have "num div d \<ge> b \<longleftrightarrow> unat b \<le> unat num div unat b ^ k"
    by (simp add: word_le_nat_alt unat_div assms(1))
  also have "\<dots> \<longleftrightarrow> unat b ^ Suc k \<le> unat num"
    using assms(2) by (subst less_eq_div_iff_mult_less_eq) simp_all
  finally show "num div d \<ge> b \<longleftrightarrow> unat b ^ Suc k \<le> unat num" .
  show "unat (d * b) = unat b ^ Suc k" if "unat b ^ Suc k \<le> unat num"
  proof -
    have "unat b ^ Suc k < 2 ^ LENGTH('a)"
      using that unsigned_less [of num] by (rule le_less_trans)
    then show ?thesis by (simp add: unat_word_ariths assms(1) mult.commute)
  qed
qed

lemma scale_ok:
  fixes num b d :: "'a::len word"
  assumes "2 \<le> unat b" "unat d = unat b ^ k" "k = 0 \<or> unat b ^ k \<le> unat num"
  shows "\<exists>d' j. scale num b d = Some d' \<and> unat d' = unat b ^ j
    \<and> unat num < unat b ^ Suc j \<and> (j = 0 \<or> unat b ^ j \<le> unat num)"
  using assms
proof (induction "unat num - k" arbitrary: d k rule: less_induct)
  case less
  show ?case
  proof (cases "unat b ^ Suc k \<le> unat num")
    case True
    have "Suc k < unat b ^ Suc k"
      using less.prems(1) by (intro less_exp [THEN less_le_trans] power_mono) auto
    then have "unat num - Suc k < unat num - k" using True by linarith
    from less.hyps [OF this less.prems(1), of "d * b"] True less.prems
    obtain d' j where "scale num b (d * b) = Some d'" "unat d' = unat b ^ j"
      "unat num < unat b ^ Suc j" "j = 0 \<or> unat b ^ j \<le> unat num"
      using unat_pow_step [OF less.prems(2,1), of num] by auto
    moreover have "scale num b d = scale num b (d * b)"
      using unat_pow_step(1) [OF less.prems(2,1), of num] True by (subst scale.simps) simp
    ultimately show ?thesis by (simp only:) blast
  next
    case False
    then have "scale num b d = Some d"
      using unat_pow_step(1) [OF less.prems(2,1), of num] by (subst scale.simps) simp
    with False less.prems show ?thesis by (intro exI [of _ d] exI [of _ k]) auto
  qed
qed

lemma ucast_eq_of_nat: "(ucast (w :: 'a::len word) :: 'b::len word) = of_nat (unat w)"
  by (simp add: word_unat_eq_iff unsigned_ucast_eq unsigned_of_nat)

definition dchar :: "bool \<Rightarrow> nat \<Rightarrow> u8" where
  "dchar upper x = digit_char upper (of_nat x)"

lemma emit_0: "emit upper num b 0 out = Some out"
  by (subst emit.simps) simp

lemma emit_ok:
  fixes num b d :: "'a::len word"
  assumes "2 \<le> unat b" "unat b \<le> 16" "unat d = unat b ^ k" "unat num < unat b ^ Suc k"
    "out \<noteq> [] \<or> unat b ^ k \<le> unat num \<or> k = 0"
  shows "emit upper num b d out = Some (out @ map (dchar upper) (weighed (unat b) k (unat num)))"
  using assms(3-)
proof (induction k arbitrary: num d out)
  case 0
  then have d: "d = 1" by (simp add: word_unat_eq_iff)
  have "unat (d div b) = unat d div unat b" by (rule unat_div)
  then have "unat (d div b) = 0" using assms(1) 0 by simp
  then have db: "d div b = 0" by (simp add: unat_eq_zero)
  have "emit upper num b d out = emit upper (num mod d) b (d div b) (out @ [digit_char upper (ucast (num div d))])"
    unfolding emit.simps [of upper num b d out] Let_def using db d by simp
  then show ?case by (simp add: db) (simp add: d emit_0 dchar_def)
next
  case (Suc k)
  have dn: "d \<noteq> 0" using Suc.prems(1) assms(1) by auto
  have dd: "unat (d div b) = unat b ^ k" using Suc.prems(1) assms(1) by (simp add: unat_div)
  then have ddn: "d div b \<noteq> 0" using assms(1) by auto
  have q: "unat (num div d) = unat num div unat b ^ Suc k" by (simp add: unat_div Suc.prems(1))
  have lt: "unat num div unat b ^ Suc k < 16"
  proof -
    have "unat num div unat b ^ Suc k < unat b"
      using Suc.prems(2) by (simp add: less_mult_imp_div_less mult.commute)
    then show ?thesis using assms(2) by linarith
  qed
  have uc: "(ucast (num div d) :: i32) = of_nat (unat num div unat b ^ Suc k)"
    by (simp only: ucast_eq_of_nat q)
  have s: "sint (of_nat (unat num div unat b ^ Suc k) :: i32) = int (unat num div unat b ^ Suc k)"
  proof -
    have "unat (of_nat (unat num div unat b ^ Suc k) :: i32) = unat num div unat b ^ Suc k"
      using lt by (simp add: unat_of_nat take_bit_nat_eq_self)
    then show ?thesis using sint_i32_small [of "of_nat (unat num div unat b ^ Suc k)"] lt by simp
  qed
  have pos: "out \<noteq> [] \<or> 0 <s (ucast (num div d) :: i32)"
  proof (cases "out = []")
    case True
    then have "unat b ^ Suc k \<le> unat num" using Suc.prems(3) by simp
    moreover have "0 < unat b ^ Suc k" using assms(1) by simp
    ultimately have "0 < unat num div unat b ^ Suc k" by (simp only: div_greater_zero_iff)
    then have "0 < sint (ucast (num div d) :: i32)" unfolding uc s by simp
    then show ?thesis by (simp add: sless_i32_iff)
  qed simp
  have "unat (num mod d) = unat num mod unat b ^ Suc k" by (simp add: unat_mod Suc.prems(1))
  moreover have "unat num mod unat b ^ Suc k < unat b ^ Suc k" using assms(1) by simp
  ultimately have IH: "emit upper (num mod d) b (d div b) (out @ [digit_char upper (ucast (num div d))])
      = Some ((out @ [digit_char upper (ucast (num div d))])
          @ map (dchar upper) (weighed (unat b) k (unat num mod unat b ^ Suc k)))"
    using Suc.IH [OF dd, of "num mod d" "out @ [digit_char upper (ucast (num div d))]"] by simp
  have "emit upper num b d out = emit upper (num mod d) b (d div b) (out @ [digit_char upper (ucast (num div d))])"
    unfolding emit.simps [of upper num b d out] Let_def using dn pos by simp
  then show ?case unfolding IH by (simp add: dchar_def uc)
qed

text \<open>All three conversions in a base from 2 to 16 give the digits of the number.\<close>

definition digits :: "param \<Rightarrow> nat \<Rightarrow> u8 list" where
  "digits p n = map (dchar (uc p)) (to_digits (unat (base p)) n)"

lemma conv_ok:
  fixes num b :: "'a::len word"
  assumes "2 \<le> unat b" "unat b \<le> 16"
  shows "\<exists>d. scale num b 1 = Some d
    \<and> emit upper num b d [] = Some (map (dchar upper) (to_digits (unat b) (unat num)))"
proof -
  obtain d j where d: "scale num b 1 = Some d" "unat d = unat b ^ j" "unat num < unat b ^ Suc j"
    "j = 0 \<or> unat b ^ j \<le> unat num"
    using scale_ok [OF assms(1), of 1 0 num] by auto
  have "[] \<noteq> [] \<or> unat b ^ j \<le> unat num \<or> j = 0" using d(4) by auto
  from emit_ok [OF assms d(2,3) this] to_digits_weighed [OF assms(1) d(3,4)] d(1) show ?thesis by simp
qed

lemma unat_base64: "unat (ucast (w :: u32) :: u64) = unat w"
  using unat_u32_lt [of w] by (simp add: unsigned_ucast_eq take_bit_nat_eq_self)

lemma conversions_ok:
  assumes "2 \<le> unat (base p)" "unat (base p) \<le> 16"
  shows "ulli2a num64 p = Some (p\<lparr>bf := digits p (unat num64)\<rparr>)"
    "uli2a num p = Some (p\<lparr>bf := digits p (unat num)\<rparr>)"
    "ui2a num p = Some (p\<lparr>bf := digits p (unat num)\<rparr>)"
proof -
  have "2 \<le> unat (ucast (base p) :: u64)" "unat (ucast (base p) :: u64) \<le> 16"
    using assms by (simp_all add: unat_base64)
  from conv_ok [OF this, of num64 "uc p"] show "ulli2a num64 p = Some (p\<lparr>bf := digits p (unat num64)\<rparr>)"
    by (auto simp: ulli2a_def digits_def unat_base64)
  from conv_ok [OF assms, of num "uc p"] show "uli2a num p = Some (p\<lparr>bf := digits p (unat num)\<rparr>)"
    "ui2a num p = Some (p\<lparr>bf := digits p (unat num)\<rparr>)"
    by (auto simp: uli2a_def ui2a_def digits_def)
qed

text \<open>The magnitude of a negative number, also the least one.\<close>

lemma sint_by_uint:
  "sint (num :: 'a::len word) = uint num - (if sint num < 0 then 2 ^ LENGTH('a) else 0)"
proof -
  have "sint num = signed_take_bit (LENGTH('a) - 1) (uint num)" by (simp add: sint_uint)
  also have "\<dots> = uint num - (if bit (uint num) (LENGTH('a) - 1) then 2 ^ LENGTH('a) else 0)"
    using uint_lt2p [of num] uint_ge_0 [of num]
    by (simp add: signed_take_bit_eq_take_bit_minus take_bit_int_eq_self)
  finally show ?thesis using uint_lt2p [of num] uint_ge_0 [of num] by (auto split: if_splits)
qed

lemma unat_nonneg: "\<not> num <s 0 \<Longrightarrow> unat num = nat (sint (num :: 'a::len word))"
  by (subst sint_by_uint) (simp add: word_sless_alt)

lemma unat_neg:
  assumes "num <s 0"
  shows "unat (- num) = nat (- sint (num :: 'a::len word))"
proof -
  have s: "sint num < 0" using assms by (simp add: word_sless_alt)
  have u: "- uint num = - sint num + 2 ^ LENGTH('a) * (- 1)"
    using sint_by_uint [of num] s by simp
  have pos: "0 < uint num"
  proof (rule ccontr)
    assume "\<not> 0 < uint num"
    then have "num = 0" using uint_ge_0 [of num] by (simp add: word_uint_eq_iff)
    then show False using s by simp
  qed
  have "uint (- num) = (- uint num) mod 2 ^ LENGTH('a)" by (simp add: uint_word_ariths)
  also have "\<dots> = (- sint num) mod 2 ^ LENGTH('a)" unfolding u by (rule mod_mult_self2)
  also have "\<dots> = - sint num" using s u pos by (intro mod_pos_pos_trivial) simp_all
  finally show ?thesis by (simp add: unat_eq_nat_uint)
qed

text \<open>Signed conversions: the sign goes to the parameters, the magnitude to the buffer.\<close>

lemma signed_ok:
  assumes "2 \<le> unat (base p)" "unat (base p) \<le> 16"
  shows "lli2a num64 p = Some (if sint num64 < 0 then p\<lparr>psign := 45, bf := digits p (nat (- sint num64))\<rparr>
      else p\<lparr>bf := digits p (nat (sint num64))\<rparr>)"
    "li2a num p = Some (if sint num < 0 then p\<lparr>psign := 45, bf := digits p (nat (- sint num))\<rparr>
      else p\<lparr>bf := digits p (nat (sint num))\<rparr>)"
    "i2a num p = Some (if sint num < 0 then p\<lparr>psign := 45, bf := digits p (nat (- sint num))\<rparr>
      else p\<lparr>bf := digits p (nat (sint num))\<rparr>)"
proof -
  have d: "digits (p\<lparr>psign := 45\<rparr>) n = digits p n" for n by (simp add: digits_def)
  have a: "2 \<le> unat (base (p\<lparr>psign := 45\<rparr>))" "unat (base (p\<lparr>psign := 45\<rparr>)) \<le> 16" using assms by simp_all
  show "lli2a num64 p = Some (if sint num64 < 0 then p\<lparr>psign := 45, bf := digits p (nat (- sint num64))\<rparr>
      else p\<lparr>bf := digits p (nat (sint num64))\<rparr>)"
    "li2a num p = Some (if sint num < 0 then p\<lparr>psign := 45, bf := digits p (nat (- sint num))\<rparr>
      else p\<lparr>bf := digits p (nat (sint num))\<rparr>)"
    "i2a num p = Some (if sint num < 0 then p\<lparr>psign := 45, bf := digits p (nat (- sint num))\<rparr>
      else p\<lparr>bf := digits p (nat (sint num))\<rparr>)"
    by (simp_all add: lli2a_def li2a_def i2a_def conversions_ok [OF assms] conversions_ok [OF a] d unat_neg unat_nonneg)
      (auto simp: word_sless_alt)
qed

section \<open>Output as a list of characters\<close>

text \<open>
  What the formatter emits does not depend on the writer: collect it with
  \<open>snoc\<close>, then feed it to any \<open>putf\<close>.
\<close>

definition snoc :: "u8 list \<Rightarrow> u8 \<Rightarrow> u8 list" where
  "snoc cs c = cs @ [c]"

lemma foldl_snoc [simp]: "foldl snoc cs ds = cs @ ds"
  by (induction ds arbitrary: cs) (simp_all add: snoc_def)

text \<open>The characters of a field.\<close>

definition field :: "param \<Rightarrow> u8 list" where
  "field p =
     (let n = nat (fill_left p) in
      (if \<not> lz p \<and> \<not> align_left p then replicate n 32 else [])
      @ (if psign p \<noteq> 0 then [psign p] else [])
      @ (if alt p \<and> base p = 16 then [48, if uc p then 88 else 120]
         else if alt p \<and> base p = 8 then [48] else [])
      @ (if lz p then replicate n 48 else [])
      @ bf p
      @ (if \<not> lz p \<and> align_left p then replicate n 32 else []))"

lemma putchw_field: "putchw putf p s = foldl putf s (field p)"
  by (simp add: putchw_def field_def put_n_def Let_def)

lemma convert_collect:
  "convert putf ch lng p va (foldl putf s cs)
   = map_option (\<lambda>(ds, r). (foldl putf s ds, r)) (convert snoc ch lng p va cs)"
proof -
  have putf1: "putf (foldl putf s cs) x = foldl putf s (snoc cs x)" for x by (simp add: snoc_def)
  have fld: "foldl putf (foldl putf s cs) fs = foldl putf s (cs @ fs)" for fs by simp
  show ?thesis
    unfolding convert_def putchw_field Let_def
    by (simp add: option.map_comp comp_def split_def putf1 split: list.split va.split)
qed

lemma tfp_format_collect:
  "tfp_format putf fmt p va (foldl putf s cs) = map_option (foldl putf s) (tfp_format snoc fmt p va cs)"
proof (induction fmt arbitrary: p va cs rule: length_induct)
  case (1 fmt)
  note IH = 1 [rule_format]
  show ?case
  proof (cases fmt)
    case (Cons ch rest)
    have putf1: "putf (foldl putf s cs) x = foldl putf s (snoc cs x)" for x by (simp add: snoc_def)
    obtain c lng fmt' p' where ps: "parse_spec rest p = (c, lng, fmt', p')" by (metis prod_cases4)
    have "length fmt' < length fmt" using parse_spec_length [OF ps] Cons by simp
    note IH' = IH [OF this]
    have "length rest < length fmt" using Cons by simp
    note IHr = IH [OF this]
    show ?thesis
      unfolding Cons
      by (simp add: ps putf1 IHr convert_collect split: option.split)
        (auto simp: IH')
  qed simp
qed

lemmas tfp_format_chars = tfp_format_collect [where cs = "[]", simplified]

section \<open>The bounded writer\<close>

lemma vsnprintf_putcf_fold:
  assumes "num_chars d = of_nat k" "k + length cs < 2 ^ 32"
  shows "foldl vsnprintf_putcf d cs = d\<lparr>num_chars := of_nat (k + length cs),
     vmem := (\<lambda>a. if k \<le> unat (a - dest d) \<and> unat (a - dest d) < min (k + length cs) (unat (dest_capacity d))
                 then cs ! (unat (a - dest d) - k) else vmem d a)\<rparr>"
  using assms
proof (induction cs arbitrary: d k)
  case Nil
  then show ?case by (cases d) (auto simp: fun_eq_iff)
next
  case (Cons c cs)
  have k: "unat (of_nat k :: u32) = k" using Cons.prems(2) by (simp add: unat_of_nat take_bit_nat_eq_self)
  let ?d = "vsnprintf_putcf d c"
  have nk: "num_chars ?d = of_nat (Suc k)"
    using Cons.prems(1) by (simp add: vsnprintf_putcf_def Let_def add.commute)
  have d: "dest ?d = dest d" "dest_capacity ?d = dest_capacity d"
    "vmem ?d = (if k < unat (dest_capacity d) then (vmem d)(dest d + of_nat k := c) else vmem d)"
    using Cons.prems(1) k
    by (simp_all add: vsnprintf_putcf_def Let_def word_less_nat_alt store8_def)
  have eq: "a = dest d + of_nat k \<longleftrightarrow> unat (a - dest d) = k" for a
  proof -
    have "a = dest d + of_nat k \<longleftrightarrow> a - dest d = of_nat k" by (simp add: diff_eq_eq add.commute)
    also have "\<dots> \<longleftrightarrow> unat (a - dest d) = k" by (simp only: word_unat_eq_iff k)
    finally show ?thesis .
  qed
  have "foldl vsnprintf_putcf d (c # cs) = foldl vsnprintf_putcf ?d cs" by simp
  also have "\<dots> = ?d\<lparr>num_chars := of_nat (Suc k + length cs),
     vmem := (\<lambda>a. if Suc k \<le> unat (a - dest ?d) \<and> unat (a - dest ?d) < min (Suc k + length cs) (unat (dest_capacity ?d))
                 then cs ! (unat (a - dest ?d) - Suc k) else vmem ?d a)\<rparr>"
    by (rule Cons.IH [OF nk]) (use Cons.prems(2) in simp)
  also have "\<dots> = d\<lparr>num_chars := of_nat (k + length (c # cs)),
     vmem := (\<lambda>a. if k \<le> unat (a - dest d) \<and> unat (a - dest d) < min (k + length (c # cs)) (unat (dest_capacity d))
                 then (c # cs) ! (unat (a - dest d) - k) else vmem d a)\<rparr>"
  proof -
    have f: "(\<lambda>a. if Suc k \<le> unat (a - dest ?d) \<and> unat (a - dest ?d) < min (Suc k + length cs) (unat (dest_capacity ?d))
           then cs ! (unat (a - dest ?d) - Suc k) else vmem ?d a)
        = (\<lambda>a. if k \<le> unat (a - dest d) \<and> unat (a - dest d) < min (k + length (c # cs)) (unat (dest_capacity d))
           then (c # cs) ! (unat (a - dest d) - k) else vmem d a)" (is "?F = ?G")
    proof
      fix a show "?F a = ?G a"
        unfolding d by (cases "unat (a - dest d) = k") (auto simp: eq nth_Cons')
    qed
    have r: "?d\<lparr>num_chars := x, vmem := y\<rparr> = d\<lparr>num_chars := x, vmem := y\<rparr>" for x y
      by (simp add: vsnprintf_putcf_def Let_def)
    show ?thesis unfolding f r by simp
  qed
  finally show ?case .
qed

section \<open>Properties\<close>

text \<open>
  In a base from 2 to 16, each conversion writes the digits of its argument, most
  significant first and none superfluous (\<open>digits\<close>), the signed ones the digits of the
  magnitude with a minus sign in the parameters, also for the least number; the
  digits give the number back, and in the bases of the formats (8, 10, 16) they and their
  terminator fit the 23 characters of the interpreter's buffer.
\<close>

theorem number_conversions:
  assumes "2 \<le> unat (base p)" "unat (base p) \<le> 16"
  shows "ulli2a n64 p = Some (p\<lparr>bf := digits p (unat n64)\<rparr>)
    \<and> uli2a n p = Some (p\<lparr>bf := digits p (unat n)\<rparr>)
    \<and> ui2a n p = Some (p\<lparr>bf := digits p (unat n)\<rparr>)
    \<and> lli2a n64 p = Some (if sint n64 < 0 then p\<lparr>psign := 45, bf := digits p (nat (- sint n64))\<rparr>
        else p\<lparr>bf := digits p (nat (sint n64))\<rparr>)
    \<and> li2a n p = Some (if sint n < 0 then p\<lparr>psign := 45, bf := digits p (nat (- sint n))\<rparr>
        else p\<lparr>bf := digits p (nat (sint n))\<rparr>)
    \<and> i2a n p = li2a n p
    \<and> foldl (\<lambda>a d. a * unat (base p) + d) 0 (to_digits (unat (base p)) (unat n64)) = unat n64
    \<and> (\<forall>d\<in>set (to_digits (unat (base p)) (unat n64)). d < unat (base p))
    \<and> (8 \<le> unat (base p) \<longrightarrow> length (digits p (unat n64)) + 1 \<le> 23)"
proof -
  have "length (digits p (unat n64)) + 1 \<le> 23" if b: "8 \<le> unat (base p)"
  proof -
    have "unat n64 < 2 ^ 64" using unsigned_less [of n64] by simp
    also have "\<dots> \<le> (8 :: nat) ^ Suc 21" by simp
    also have "\<dots> \<le> unat (base p) ^ Suc 21" using b by (rule power_mono) simp
    finally have "length (to_digits (unat (base p)) (unat n64)) \<le> Suc 21"
      by (rule to_digits_length [OF assms(1)])
    then show ?thesis by (simp add: digits_def)
  qed
  then show ?thesis
    unfolding conversions_ok [OF assms] signed_ok [OF assms] to_digits_value [OF assms(1)]
    by (intro conjI impI ballI refl to_digits_less [OF assms(1)])
qed

theorem number_conversions_witness:
  "map_option bf (i2a (- 2147483648) \<lparr>lz = False, alt = False, uc = False, align_left = False, width = 0,
      psign = 0, base = 10, bf = []\<rparr>) = Some [50, 49, 52, 55, 52, 56, 51, 54, 52, 56]"
proof -
  let ?p = "\<lparr>lz = False, alt = False, uc = False, align_left = False, width = 0, psign = 0, base = 10, bf = []\<rparr> :: param"
  have "i2a (- 2147483648) ?p = li2a (- 2147483648) ?p
    \<and> li2a (- 2147483648) ?p = Some (?p\<lparr>psign := 45, bf := digits ?p 2147483648\<rparr>)"
    using number_conversions [of ?p 0 "- 2147483648"] by simp
  then show ?thesis
    by (simp add: digits_def to_digits.simps dchar_def digit_char_def sless_i32_iff)
qed

text \<open>
  C20: for a format that is formatted to fewer than \<open>2 ^ 32\<close> characters, and a nonempty buffer, the writer stores the formatted characters up to the capacity less one
  and a terminator after them, changes no other byte of memory, and returns the number of
  characters of the whole output; a buffer of size 0 is not touched.
\<close>

theorem vsnprintf_bounded:
  assumes "tfp_format snoc fmt p0 ap [] = Some cs" "length cs < 2 ^ 32"
  shows "tfp_snprintf p0 m str 0 fmt ap = Some (0, m)
    \<and> (nbytes \<noteq> 0 \<longrightarrow> (\<exists>m'. tfp_snprintf p0 m str nbytes fmt ap = Some (of_nat (length cs), m')
          \<and> (\<forall>i < min (length cs) (unat nbytes - 1). m' (str + of_nat i) = cs ! i)
          \<and> m' (str + of_nat (min (length cs) (unat nbytes - 1))) = 0
          \<and> (\<forall>a. (\<forall>i < unat nbytes. a \<noteq> str + of_nat i) \<longrightarrow> m' a = m a)
          \<and> (\<forall>a. (\<forall>i \<le> length cs. a \<noteq> str + of_nat i) \<longrightarrow> m' a = m a)))"
  (is "_ \<and> (_ \<longrightarrow> ?R)")
proof (rule conjI)
  show "tfp_snprintf p0 m str 0 fmt ap = Some (0, m)"
    by (simp add: tfp_snprintf_def tfp_vsnprintf_def)
  show "nbytes \<noteq> 0 \<longrightarrow> ?R"
  proof
    assume n: "nbytes \<noteq> 0"
    define L where "L = min (length cs) (unat nbytes - 1)"
    have nz: "0 < unat nbytes" using n by (simp add: unat_gt_0)
    have cap: "unat (nbytes - 1) = unat nbytes - 1" using n by (simp add: unat_sub word_le_nat_alt Suc_leI nz)
    let ?m = "\<lambda>a. if unat (a - str) < L then cs ! unat (a - str) else m a"
    have fm: "tfp_format vsnprintf_putcf fmt p0 ap \<lparr>dest_capacity = nbytes - 1, dest = str, num_chars = 0, vmem = m\<rparr>
       = Some \<lparr>dest_capacity = nbytes - 1, dest = str, num_chars = of_nat (length cs), vmem = ?m\<rparr>"
      using vsnprintf_putcf_fold [of "\<lparr>dest_capacity = nbytes - 1, dest = str, num_chars = 0, vmem = m\<rparr>" 0 cs] assms
      by (subst tfp_format_chars) (simp add: assms(1) cap L_def cong: if_cong)
    have lc: "unat (of_nat (length cs) :: u32) = length cs"
      using assms(2) by (simp add: unat_of_nat take_bit_nat_eq_self)
    have nb: "nbytes - 1 = of_nat (unat nbytes - 1)"
      using arg_cong [OF cap, of "of_nat :: nat \<Rightarrow> u32"] by simp
    have tm: "(if of_nat (length cs) < nbytes - 1 then str + of_nat (length cs) else str + (nbytes - 1)) = str + of_nat L"
    proof (cases "length cs < unat nbytes - 1")
      case True
      then show ?thesis by (simp add: word_less_nat_alt lc cap L_def)
    next
      case False
      then have "L = unat nbytes - 1" by (simp add: L_def)
      then show ?thesis using False by (simp only: word_less_nat_alt lc cap nb [symmetric] if_False)
    qed
    have "\<not> nbytes < 1" using nz by (simp add: word_less_nat_alt)
    then have r: "tfp_snprintf p0 m str nbytes fmt ap = Some (of_nat (length cs), store8 ?m (str + of_nat L) 0)"
      using tm by (simp add: tfp_snprintf_def tfp_vsnprintf_def fm split: if_splits)
    have L: "L < 2 ^ 32" "L < unat nbytes" "L \<le> length cs" using assms(2) nz by (auto simp: L_def)
    have id: "unat (of_nat i :: u32) = i" if "i \<le> L" for i
      using that L by (simp add: unat_of_nat take_bit_nat_eq_self)
    have ne: "of_nat i \<noteq> (of_nat L :: u32)" if "i < L" for i using id [of i] id [of L] that by (metis less_imp_le less_irrefl order_refl)
    have out: "?m a = m a \<and> a \<noteq> str + of_nat L" if "\<forall>i \<le> L. a \<noteq> str + of_nat i" for a
    proof -
      have "\<not> unat (a - str) < L" using that [rule_format, of "unat (a - str)"] by auto
      then show ?thesis using that by simp
    qed
    show ?R unfolding r L_def [symmetric]
      using L by (intro exI [of _ "store8 ?m (str + of_nat L) 0"]) (auto simp: store8_def ne id out)
  qed
qed

text \<open>"%d" on 42 into a buffer of 2 bytes: one digit and the terminator, and 2 returned.\<close>

theorem vsnprintf_bounded_witness:
  "\<exists>m'. tfp_snprintf (\<lparr>lz = False, alt = False, uc = False, align_left = False, width = 0,
      psign = 0, base = 0, bf = []\<rparr>) (\<lambda>_. 7) 100 2 [37, 100] [VA32 42] = Some (2, m')
    \<and> m' 100 = 52 \<and> m' 101 = 0 \<and> m' 102 = 7"
proof -
  let ?p = "\<lparr>lz = False, alt = False, uc = False, align_left = False, width = 0, psign = 0, base = 0, bf = []\<rparr> :: param"
  have "i2a 42 (?p\<lparr>base := 10\<rparr>) = Some (?p\<lparr>base := 10, bf := [52, 50]\<rparr>)"
    using signed_ok(3) [of "?p\<lparr>base := 10\<rparr>" 42]
    by (simp add: digits_def to_digits.simps dchar_def digit_char_def sless_i32_iff)
  then have f: "tfp_format snoc [37, 100] ?p [VA32 42] [] = Some [52, 50]"
    by (simp add: parse_spec_def parse_width_def parse_prec_def parse_len_def convert_def conv_d_def putchw_field
        field_def fill_left_def)
  have "(2 :: u32) \<noteq> 0" by simp
  with vsnprintf_bounded [OF f, of "\<lambda>_. 7" 100 2] obtain m' where
    m': "tfp_snprintf ?p (\<lambda>_. 7) 100 2 [37, 100] [VA32 42] = Some (2, m')"
      "\<forall>i < 1. m' (100 + of_nat i) = [52, 50] ! i" "m' 101 = 0"
      "\<forall>a. (\<forall>i < unat (2 :: u32). a \<noteq> 100 + of_nat i) \<longrightarrow> m' a = 7"
    by auto
  have "\<forall>i < unat (2 :: u32). (102 :: u32) \<noteq> 100 + of_nat i" by (simp add: less_2_nat all_conj_distrib)
  with m'(4) have "m' 102 = 7" by blast
  with m' show ?thesis by simp
qed

text \<open>
  A field is as wide as its width asks for, or as its sign, prefix and characters
  need; it is padded at most once: zeros between the sign and the digits, spaces before, or spaces after.
\<close>

theorem field_output:
  "\<exists>cs. (\<forall>putf (s :: trace). putchw putf p s = foldl putf s cs)
    \<and> int (length cs) = max (sint (width p)) (int (length (bf p)) + (if psign p \<noteq> 0 then 1 else 0)
        + (if alt p \<and> base p = 16 then 2 else if alt p \<and> base p = 8 then 1 else 0))
    \<and> (\<exists>before zeros after. cs = replicate before 32 @ (if psign p \<noteq> 0 then [psign p] else [])
        @ (if alt p \<and> base p = 16 then [48, if uc p then 88 else 120] else if alt p \<and> base p = 8 then [48] else [])
        @ replicate zeros 48 @ bf p @ replicate after 32
        \<and> (lz p \<longrightarrow> before = 0 \<and> after = 0) \<and> (\<not> lz p \<longrightarrow> zeros = 0)
        \<and> (align_left p \<longrightarrow> before = 0) \<and> (\<not> align_left p \<longrightarrow> after = 0))"
proof (intro exI [of _ "field p"] conjI allI)
  show "putchw putf p s = foldl putf s (field p)" for putf and s :: trace by (rule putchw_field)
  show "int (length (field p)) = max (sint (width p)) (int (length (bf p)) + (if psign p \<noteq> 0 then 1 else 0)
        + (if alt p \<and> base p = 16 then 2 else if alt p \<and> base p = 8 then 1 else 0))"
    by (simp add: field_def fill_left_def Let_def)
  show "\<exists>before zeros after. field p = replicate before 32 @ (if psign p \<noteq> 0 then [psign p] else [])
        @ (if alt p \<and> base p = 16 then [48, if uc p then 88 else 120] else if alt p \<and> base p = 8 then [48] else [])
        @ replicate zeros 48 @ bf p @ replicate after 32
        \<and> (lz p \<longrightarrow> before = 0 \<and> after = 0) \<and> (\<not> lz p \<longrightarrow> zeros = 0)
        \<and> (align_left p \<longrightarrow> before = 0) \<and> (\<not> align_left p \<longrightarrow> after = 0)"
    by (rule exI [of _ "if \<not> lz p \<and> \<not> align_left p then nat (fill_left p) else 0"],
        rule exI [of _ "if lz p then nat (fill_left p) else 0"],
        rule exI [of _ "if \<not> lz p \<and> align_left p then nat (fill_left p) else 0"])
      (simp add: field_def Let_def)
qed

text \<open>Reading a decimal back.\<close>

lemma less_16_nat: "(x :: nat) < 16 \<Longrightarrow> x \<in> {0, 1, 2, 3, 4, 5, 6, 7} \<union> {8, 9, 10, 11, 12, 13, 14, 15}"
proof -
  assume "x < 16"
  then have "x \<in> set [0..<16]" by simp
  also have "[0..<16] = [0, 1, 2, 3, 4, 5, 6, 7, 8, 9, 10, 11, 12, 13, 14, 15 :: nat]" by (simp add: upt_rec)
  finally show ?thesis by (simp only: list.set insert_is_Un [of _ "{8}"]) auto
qed

lemma a2d_dchar: "x < 16 \<Longrightarrow> a2d (dchar up x) = of_nat x"
proof -
  have "\<forall>x \<in> {0, 1, 2, 3, 4, 5, 6, 7}. a2d (dchar up x) = of_nat x"
    by (simp add: a2d_def dchar_def digit_char_def sless_i32_iff)
  moreover have "\<forall>x \<in> {8, 9, 10, 11, 12, 13, 14, 15}. a2d (dchar up x) = of_nat x"
    by (simp add: a2d_def dchar_def digit_char_def sless_i32_iff)
  moreover assume "x < 16"
  ultimately show ?thesis using less_16_nat [of x] by blast
qed

lemma a2u_loop_step:
  assumes "\<not> a2d ch <s 0" "\<not> b <s a2d ch"
  shows "a2u_loop ch (c # cs) b num = a2u_loop c cs b (num * b + a2d ch)"
  using assms by (subst a2u_loop.simps) simp

lemma a2u_loop_digits:
  assumes "\<forall>d\<in>set (d # ds). d < 16 \<and> of_nat d \<le>s b" "a2d c <s 0"
  shows "a2u_loop (dchar up d) (map (dchar up) ds @ c # rest) b num
    = (c, rest, foldl (\<lambda>a d. a * b + of_nat d) num (d # ds))"
  using assms(1)
proof (induction ds arbitrary: d num)
  case Nil
  have "\<not> a2d (dchar up d) <s 0" "\<not> b <s a2d (dchar up d)"
    using Nil sint_i32_small [of "of_nat d"]
    by (auto simp: a2d_dchar sless_i32_iff sle_i32_iff unat_of_nat take_bit_nat_eq_self)
  then show ?case using assms(2) Nil
    by (simp add: a2u_loop_step a2d_dchar) (subst a2u_loop.simps, simp)
next
  case (Cons e ds)
  have "\<not> a2d (dchar up d) <s 0" "\<not> b <s a2d (dchar up d)"
    using Cons.prems sint_i32_small [of "of_nat d"]
    by (auto simp: a2d_dchar sless_i32_iff sle_i32_iff unat_of_nat take_bit_nat_eq_self)
  then show ?case using Cons by (simp add: a2u_loop_step a2d_dchar)
qed

lemma foldl_of_nat: "foldl (\<lambda>a d. a * of_nat b + of_nat d) (of_nat n) ds = (of_nat (foldl (\<lambda>a d. a * b + d) n ds) :: u32)"
  by (induction ds arbitrary: n) (simp_all flip: of_nat_mult of_nat_add)

text \<open>
  The number the interpreter reads from the digits of \<open>n\<close> in a base from
  2 to 16, in either case, is \<open>n\<close>, and it stops at the character behind them.
  The loop compares a digit with the base by \<open>>\<close>, so it also takes the letter whose value is the base:
  "5a" is read as 60 in base 10.
\<close>

theorem a2u_reads_back:
  assumes "2 \<le> b" "b \<le> 16" "a2d c <s 0"
  shows "a2u (hd (map (dchar up) (to_digits b (unat n)))) (tl (map (dchar up) (to_digits b (unat n))) @ c # rest) (of_nat b)
      = (c, rest, n)
    \<and> a2u 53 [97] 10 = (0, [], 60)"
proof -
  obtain d ds where dd: "to_digits b (unat n) = d # ds" by (cases "to_digits b (unat n)") simp_all
  have b: "sint (of_nat b :: i32) = int b"
    using assms sint_i32_small [of "of_nat b"] by (simp add: unat_of_nat take_bit_nat_eq_self)
  have ds: "x < 16 \<and> of_nat x \<le>s (of_nat b :: i32)" if "x \<in> set (d # ds)" for x
  proof -
    have "x < b" using that to_digits_less [OF assms(1), of x "unat n"] dd by simp
    then show ?thesis using assms b sint_i32_small [of "of_nat x"]
      by (simp add: sle_i32_iff unat_of_nat take_bit_nat_eq_self)
  qed
  have "foldl (\<lambda>a d. a * of_nat b + of_nat d) 0 (d # ds) = n"
    using foldl_of_nat [of b 0 "d # ds"] to_digits_value [OF assms(1), of "unat n"] dd by simp
  then show ?thesis
    using a2u_loop_digits [of d ds "of_nat b" c up rest 0] ds assms(3)
    by (simp add: a2u_def dd a2u_loop.simps a2d_def sless_i32_iff Let_def)
qed

theorem a2u_reads_back_witness:
  "a2u 49 [50, 120] 10 = (120, [], 12)"
proof -
  have "to_digits 10 12 = [1, 2]" by (simp add: to_digits.simps)
  moreover have "a2d 120 <s 0" by (simp add: a2d_def sless_i32_iff)
  ultimately show ?thesis
    using a2u_reads_back [of 10 120 False 12 "[]"] by (simp add: dchar_def digit_char_def sless_i32_iff)
qed

lemma format_plain:
  "ch \<notin> {0, 45, 48, 35, 46, 108, 122} \<Longrightarrow> \<not> (48 \<le> ch \<and> ch \<le> 57) \<Longrightarrow>
   tfp_format putf (37 # ch # fmt) p va s =
     (case convert putf ch 0 (p\<lparr>lz := False, alt := False, width := 0, align_left := False, psign := 0\<rparr>) va s of
        None \<Rightarrow> None | Some (s, p, va) \<Rightarrow> tfp_format putf fmt p va s)"
  by (subst tfp_format.simps(2))
    (auto simp: parse_spec_def parse_width_def parse_prec_def parse_len_def simp del: tfp_format.simps)

lemma snoc_Nil [simp]: "snoc [] c = [c]"
  by (simp add: snoc_def)

text \<open>
  The plain conversions print what they say: \<open>%d\<close> the decimal of a signed word with its minus sign,
  \<open>%u\<close> the decimal and \<open>%x\<close>, \<open>%X\<close> the hexadecimal of an unsigned one in lower and upper case, \<open>%s\<close> the string, \<open>%c\<close> the
  character and \<open>%%\<close> a percent sign, whatever the parameters were left at.
\<close>

theorem format_conversions:
  "tfp_format snoc [37, 100] p [VA32 v] [] =
      Some ((if sint v < 0 then [45] else []) @ map (dchar (uc p)) (to_digits 10 (nat \<bar>sint v\<bar>)))
   \<and> tfp_format snoc [37, 117] p [VA32 v] [] = Some (map (dchar (uc p)) (to_digits 10 (unat v)))
   \<and> tfp_format snoc [37, 120] p [VA32 v] [] = Some (map (dchar False) (to_digits 16 (unat v)))
   \<and> tfp_format snoc [37, 88] p [VA32 v] [] = Some (map (dchar True) (to_digits 16 (unat v)))
   \<and> tfp_format snoc [37, 115] p [VAstr str] [] = Some str
   \<and> tfp_format snoc [37, 99] p [VA32 v] [] = Some [ucast v]
   \<and> tfp_format snoc [37, 37] p [] [] = Some [37]"
  using signed_ok(3) [of "p\<lparr>lz := False, alt := False, width := 0, align_left := False, psign := 0, base := 10\<rparr>" v]
    conversions_ok(3) [of "p\<lparr>lz := False, alt := False, width := 0, align_left := False, psign := 0, base := 10\<rparr>" v]
    conversions_ok(3) [of "p\<lparr>lz := False, alt := False, width := 0, align_left := False, psign := 0, base := 16, uc := _\<rparr>" v]
  by (simp add: format_plain [of _ snoc] convert_def conv_d_def conv_u_def putchw_field field_def fill_left_def digits_def
      del: tfp_format.simps(2))

end
