(* ===== verification/Packets.thy ===== *)
theory Packets
  imports Nic_Commands Dma Tinyprintf
begin

text \<open>
  Packets as the handlers see them (\<^verbatim>\<open>packets.h\<close>, packed structures in the byte
  memory, and \<^verbatim>\<open>GET_IP_UDP_PLD\<close> of \<^verbatim>\<open>handler.h\<close>), the arithmetic macros of
  \<^verbatim>\<open>util.h\<close>, and the state a handler runs on: the memory and the trace of
  its device accesses.
\<close>

section \<open>The state of a handler\<close>

record core =
  ram :: mem
  tr :: trace

text \<open>A string literal of the source.\<close>

definition cstring :: "string \<Rightarrow> u8 list" where
  "cstring s = map of_char s"

definition upd_ram :: "(mem \<Rightarrow> mem) \<Rightarrow> core \<Rightarrow> core" where
  "upd_ram f c = c\<lparr>ram := f (ram c)\<rparr>"

text \<open>A command of the NIC from a handler; the handle goes to a local variable.\<close>

definition command :: "(trace \<Rightarrow> u32 \<times> u32 \<times> trace) \<Rightarrow> core \<Rightarrow> u32 \<times> core" where
  "command f c = (case f (tr c) of (_, h, t) \<Rightarrow> (h, c\<lparr>tr := t\<rparr>))"

text \<open>
  The handlers that pass \<open>false\<close> where \<open>spin_write_to_host\<close> expects the pointer
  to the handle pass a null pointer: the handle is stored at address 0.
\<close>

definition command_null :: "(trace \<Rightarrow> u32 \<times> u32 \<times> trace) \<Rightarrow> core \<Rightarrow> core" where
  "command_null f c = (case f (tr c) of (_, h, t) \<Rightarrow> c\<lparr>ram := store32 (ram c) 0 h, tr := t\<rparr>)"

section \<open>Macros\<close>

definition MIN_u32 :: "u32 \<Rightarrow> u32 \<Rightarrow> u32" where "MIN_u32 a b = (if a < b then a else b)"
definition MAX_u32 :: "u32 \<Rightarrow> u32 \<Rightarrow> u32" where "MAX_u32 a b = (if a > b then a else b)"
definition DIV_CEIL :: "u32 \<Rightarrow> u32 \<Rightarrow> u32" where "DIV_CEIL a b = (a + b - 1) div b"
definition FAST_DIV :: "u32 \<Rightarrow> nat \<Rightarrow> u32" where "FAST_DIV a log2_b = drop_bit log2_b a"
definition FAST_MOD :: "u32 \<Rightarrow> u32 \<Rightarrow> u32" where "FAST_MOD a b = a AND (b - 1)"

lemma FAST_MOD_power: "k < 32 \<Longrightarrow> FAST_MOD a (2 ^ k) = a mod 2 ^ k"
proof -
  assume "k < 32"
  then have "(2 :: u32) ^ k - 1 = mask k" by (simp add: mask_eq_exp_minus_1)
  then show ?thesis by (simp add: FAST_MOD_def flip: take_bit_eq_mask take_bit_eq_mod)
qed

lemma FAST_DIV_power: "FAST_DIV a k = a div 2 ^ k"
  by (simp add: FAST_DIV_def drop_bit_eq_div)

section \<open>Headers\<close>

definition IP_SIZE :: u32 where "IP_SIZE = 20"
definition UDP_SIZE :: u32 where "UDP_SIZE = 8"

text \<open>The fields of \<open>ip_hdr_t\<close> at \<open>p\<close>; the first bit field takes the low bits.\<close>

definition ip_version :: "mem \<Rightarrow> u32 \<Rightarrow> u8" where "ip_version m p = load8 m p AND 15"
definition ip_ihl :: "mem \<Rightarrow> u32 \<Rightarrow> u8" where "ip_ihl m p = drop_bit 4 (load8 m p)"
definition ip_length :: "mem \<Rightarrow> u32 \<Rightarrow> u16" where "ip_length m p = load16 m (p + 2)"
definition source_id :: "mem \<Rightarrow> u32 \<Rightarrow> u32" where "source_id m p = load32 m (p + 12)"
definition dest_id :: "mem \<Rightarrow> u32 \<Rightarrow> u32" where "dest_id m p = load32 m (p + 16)"

definition set_version :: "u8 \<Rightarrow> u32 \<Rightarrow> mem \<Rightarrow> mem" where
  "set_version v p m = store8 m p ((load8 m p AND 0xF0) OR (v AND 15))"

definition set_ihl :: "u8 \<Rightarrow> u32 \<Rightarrow> mem \<Rightarrow> mem" where
  "set_ihl v p m = store8 m p ((load8 m p AND 15) OR push_bit 4 (v AND 15))"

definition set_length :: "u16 \<Rightarrow> u32 \<Rightarrow> mem \<Rightarrow> mem" where
  "set_length v p m = store16 m (p + 2) v"

definition set_source_id :: "u32 \<Rightarrow> u32 \<Rightarrow> mem \<Rightarrow> mem" where
  "set_source_id v p m = store32 m (p + 12) v"

definition set_dest_id :: "u32 \<Rightarrow> u32 \<Rightarrow> mem \<Rightarrow> mem" where
  "set_dest_id v p m = store32 m (p + 16) v"

text \<open>The fields of \<open>udp_hdr_t\<close> at \<open>q\<close>.\<close>

definition src_port :: "mem \<Rightarrow> u32 \<Rightarrow> u16" where "src_port m q = load16 m q"
definition dst_port :: "mem \<Rightarrow> u32 \<Rightarrow> u16" where "dst_port m q = load16 m (q + 2)"
definition set_src_port :: "u16 \<Rightarrow> u32 \<Rightarrow> mem \<Rightarrow> mem" where "set_src_port v q m = store16 m q v"
definition set_dst_port :: "u16 \<Rightarrow> u32 \<Rightarrow> mem \<Rightarrow> mem" where "set_dst_port v q m = store16 m (q + 2) v"
definition set_udp_length :: "u16 \<Rightarrow> u32 \<Rightarrow> mem \<Rightarrow> mem" where "set_udp_length v q m = store16 m (q + 4) v"

lemmas header_defs [op_defs] = ip_version_def ip_ihl_def ip_length_def source_id_def dest_id_def
  set_version_def set_ihl_def set_length_def set_source_id_def set_dest_id_def
  src_port_def dst_port_def set_src_port_def set_dst_port_def set_udp_length_def

text \<open>Payload address and length; the length is computed in \<open>size_t\<close>.\<close>

definition GET_IP_UDP_PLD :: "mem \<Rightarrow> u32 \<Rightarrow> u32 \<times> u32" where
  "GET_IP_UDP_PLD m pkt =
     (let pkt_pld_len = ucast (ip_length m pkt) - IP_SIZE - UDP_SIZE;
          pkt_pld_ptr = pkt + ucast (ip_ihl m pkt) * 4 + UDP_SIZE
      in (pkt_pld_ptr, pkt_pld_len))"

text \<open>Source and destination exchanged: the same lines in each handler that answers.\<close>

definition swap_ids :: "u32 \<Rightarrow> u32 \<Rightarrow> mem \<Rightarrow> mem" where
  "swap_ids ip udp m =
     (let src_id = source_id m ip;
          m = set_source_id (dest_id m ip) ip m;
          m = set_dest_id src_id ip m;
          port = src_port m udp;
          m = set_src_port (dst_port m udp) udp m;
          m = set_dst_port port udp m
      in m)"

text \<open>The pointer to the UDP header behind an IP header of \<open>ihl\<close> words.\<close>

definition udp_of :: "mem \<Rightarrow> u32 \<Rightarrow> u32" where
  "udp_of m pkt = pkt + ucast (ip_ihl m pkt) * 4"

lemma ihl_less: "unat (ip_ihl m p) < 16"
  using unsigned_less [where 'a = nat, of "load8 m p"]
  by (simp add: ip_ihl_def drop_bit_eq_div unat_div less_mult_imp_div_less)

lemma low_nibble: "(15 :: u8) = mask 4"
  by (simp add: mask_eq_exp_minus_1)

lemma ihl_set [simp]: "ip_ihl (set_ihl v p m) p = v AND 15"
  by (rule bit_word_eqI) (auto simp: ip_ihl_def set_ihl_def low_nibble bit_simps)

lemma ihl_bits [simp]: "drop_bit 4 ((x AND 15) OR 80 :: u8) = 5"
  by (simp add: drop_bit_and)

lemma unat_neg_u32:
  assumes "x \<noteq> 0"
  shows "unat (- x :: u32) = 2 ^ 32 - unat x"
proof -
  have "unat x \<noteq> 0" using assms by (simp add: unat_eq_zero)
  moreover have "int (unat x) = uint x" by simp
  ultimately have pos: "0 < uint x" by linarith
  have lt: "uint x < 2 ^ 32" using uint_lt2p [of x] by simp
  have "uint (- x) = (- uint x) mod 2 ^ 32" by (simp add: uint_word_ariths)
  also have "\<dots> = (- uint x + 1 * 2 ^ 32) mod 2 ^ 32" by (rule mod_mult_self1 [symmetric])
  also have "\<dots> = - uint x + 1 * 2 ^ 32"
    by (rule mod_pos_pos_trivial) (use pos lt in linarith)+
  finally have "int (unat (- x)) = 4294967296 - int (unat x)" by simp
  then have "unat (- x) = 4294967296 - unat x" using unat_u32_lt [of x] by linarith
  then show ?thesis by simp
qed

text \<open>A UDP header at least a minimal IP header behind the start does not overlap it.\<close>

lemma unat_ihl4: "unat (ucast (ip_ihl m p) * 4 :: u32) = unat (ip_ihl m p) * 4"
  using ihl_less [of m p] by (simp add: unat_word_ariths unsigned_ucast_eq take_bit_nat_eq_self)

lemma udp_sep:
  assumes "5 \<le> ip_ihl m p"
  shows "sep p 20 (udp_of m p) 8"
proof (rule sepI)
  have b: "20 \<le> unat (ip_ihl m p) * 4" "unat (ip_ihl m p) * 4 \<le> 60"
    using ihl_less [of m p] assms by (simp_all add: word_le_nat_alt)
  then show "20 \<le> unat (udp_of m p - p)" by (simp add: udp_of_def unat_ihl4)
  have "ucast (ip_ihl m p) * 4 \<noteq> (0 :: u32)" using b(1) unat_ihl4 [of m p] by (intro notI) simp
  with b show "8 \<le> unat (p - udp_of m p)" by (simp add: udp_of_def unat_neg_u32 unat_ihl4)
qed

section \<open>Exchanging source and destination\<close>

lemma header_seps:
  assumes "sep ip 20 udp 8"
  shows "sep (ip + 12) 4 (ip + 16) 4" "sep (ip + 16) 4 (ip + 12) 4" "sep udp 2 (udp + 2) 2" "sep (udp + 2) 2 udp 2"
    "sep (ip + 12) 4 udp 2" "sep (ip + 16) 4 udp 2" "sep (ip + 12) 4 (udp + 2) 2" "sep (ip + 16) 4 (udp + 2) 2"
    "sep udp 2 (ip + 12) 4" "sep udp 2 (ip + 16) 4" "sep (udp + 2) 2 (ip + 12) 4" "sep (udp + 2) 2 (ip + 16) 4"
    "sep (ip + 12) 4 (ip + 2) 2" "sep (ip + 16) 4 (ip + 2) 2" "sep udp 2 (ip + 2) 2" "sep (udp + 2) 2 (ip + 2) 2"
    "sep (ip + 12) 4 ip 1" "sep (ip + 16) 4 ip 1" "sep udp 2 ip 1" "sep (udp + 2) 2 ip 1"
proof -
  have s: "sep (ip + of_nat i) n (udp + of_nat j) k" "sep (udp + of_nat j) k (ip + of_nat i) n"
    if "i + n \<le> 20" "j + k \<le> 8" for i j n k
    using sep_inside [OF assms that] by (simp_all add: sep_commute)
  show "sep (ip + 12) 4 (ip + 16) 4" "sep (ip + 16) 4 (ip + 12) 4" "sep udp 2 (udp + 2) 2" "sep (udp + 2) 2 udp 2"
    "sep (ip + 12) 4 (ip + 2) 2" "sep (ip + 16) 4 (ip + 2) 2" "sep (ip + 12) 4 ip 1" "sep (ip + 16) 4 ip 1"
    by (rule sepI; simp)+
  show "sep (ip + 12) 4 udp 2" "sep (ip + 16) 4 udp 2" "sep (ip + 12) 4 (udp + 2) 2" "sep (ip + 16) 4 (udp + 2) 2"
    "sep udp 2 (ip + 12) 4" "sep udp 2 (ip + 16) 4" "sep (udp + 2) 2 (ip + 12) 4" "sep (udp + 2) 2 (ip + 16) 4"
    "sep udp 2 (ip + 2) 2" "sep (udp + 2) 2 (ip + 2) 2" "sep udp 2 ip 1" "sep (udp + 2) 2 ip 1"
    using s [of 12 4 0 2] s [of 16 4 0 2] s [of 12 4 2 2] s [of 16 4 2 2] s [of 2 2 0 2] s [of 2 2 2 2]
      s [of 0 1 0 2] s [of 0 1 2 2] by simp_all
qed

lemma swap_ids:
  assumes "sep ip 20 udp 8"
  shows "source_id (swap_ids ip udp m) ip = dest_id m ip"
    "dest_id (swap_ids ip udp m) ip = source_id m ip"
    "src_port (swap_ids ip udp m) udp = dst_port m udp"
    "dst_port (swap_ids ip udp m) udp = src_port m udp"
    "ip_length (swap_ids ip udp m) ip = ip_length m ip"
    "ip_ihl (swap_ids ip udp m) ip = ip_ihl m ip"
  using header_seps [OF assms]
  by (simp_all add: swap_ids_def header_defs Let_def mem_other)

lemma swap_ids_udp_of: "sep ip 20 udp 8 \<Longrightarrow> udp_of (swap_ids ip udp m) ip = udp_of m ip"
  by (simp add: udp_of_def swap_ids)

lemma swap_ids_outside:
  assumes "sep (ip + 12) 8 b 1" "sep udp 4 b 1"
  shows "swap_ids ip udp m b = m b"
proof -
  have "sep (ip + 12) 4 b 1" "sep (ip + 16) 4 b 1" "sep udp 2 b 1" "sep (udp + 2) 2 b 1"
    using sep_inside [OF assms(1), of 0 4 0 1] sep_inside [OF assms(1), of 4 4 0 1]
      sep_inside [OF assms(2), of 0 2 0 1] sep_inside [OF assms(2), of 2 2 0 1] by (simp_all add: add.assoc)
  then show ?thesis
    by (simp add: swap_ids_def header_defs Let_def word.st_byte_sep half.st_byte_sep)
qed

text \<open>Loads of a separated region see the memory before the exchange.\<close>

lemma swap_ids_load:
  assumes "sep (ip + 12) 8 b n" "sep udp 4 b n"
  shows "n = 1 \<Longrightarrow> load8 (swap_ids ip udp m) b = load8 m b"
    "n = 2 \<Longrightarrow> load16 (swap_ids ip udp m) b = load16 m b"
    "n = 4 \<Longrightarrow> load32 (swap_ids ip udp m) b = load32 m b"
proof -
  have s: "sep (ip + 12) 4 b n" "sep (ip + 16) 4 b n" "sep udp 2 b n" "sep (udp + 2) 2 b n"
    using sep_inside [OF assms(1), of 0 4 0 n] sep_inside [OF assms(1), of 4 4 0 n]
      sep_inside [OF assms(2), of 0 2 0 n] sep_inside [OF assms(2), of 2 2 0 n] by (simp_all add: add.assoc)
  show "n = 1 \<Longrightarrow> load8 (swap_ids ip udp m) b = load8 m b"
    "n = 2 \<Longrightarrow> load16 (swap_ids ip udp m) b = load16 m b"
    "n = 4 \<Longrightarrow> load32 (swap_ids ip udp m) b = load32 m b"
    using s by (simp_all add: swap_ids_def header_defs Let_def mem_other)
qed

end
