(* ===== verification/Forwarding.thy ===== *)
theory Forwarding
  imports Packets
begin

text \<open>
  The example handlers that move a packet: \<^verbatim>\<open>copy_to_host\<close>, \<^verbatim>\<open>copy_from_host\<close>,
  \<^verbatim>\<open>ping_pong\<close>, \<^verbatim>\<open>host_direct\<close>, \<^verbatim>\<open>empty\<close> and \<^verbatim>\<open>synthetic\<close>. The preprocessor
  choices (packet in L1 or L2, how to wait for a command) are parameters. A
  result of \<open>None\<close> is a wait that never ends.
\<close>

section \<open>Waiting for a command\<close>

datatype waiting = NoWait | WaitPoll | WaitSuspend

definition host_address :: "task \<Rightarrow> u64" where
  "host_address tk = push_bit 32 (ucast (host_mem_high tk)) OR ucast (host_mem_low tk)"

partial_function (option) cmd_poll :: "device \<Rightarrow> u32 \<Rightarrow> trace \<Rightarrow> trace option" where
  "cmd_poll dev h t = (case spin_cmd_test dev h t of (_, completed, t') \<Rightarrow>
     if completed then Some t' else cmd_poll dev h t')"

definition wait_cmd :: "waiting \<Rightarrow> device \<Rightarrow> u32 \<Rightarrow> trace \<Rightarrow> trace option" where
  "wait_cmd w dev h t = (case w of
     NoWait \<Rightarrow> Some t
   | WaitPoll \<Rightarrow> cmd_poll dev h t
   | WaitSuspend \<Rightarrow> Some (snd (spin_cmd_wait h t)))"

text \<open>The trace after \<open>n\<close> tests of the command.\<close>

fun after_tests :: "device \<Rightarrow> u32 \<Rightarrow> nat \<Rightarrow> trace \<Rightarrow> trace" where
  "after_tests dev h 0 t = t"
| "after_tests dev h (Suc n) t = after_tests dev h n (snd (snd (spin_cmd_test dev h t)))"

definition test_done :: "device \<Rightarrow> u32 \<Rightarrow> trace \<Rightarrow> bool" where
  "test_done dev h t = fst (snd (spin_cmd_test dev h t))"

lemma cmd_poll_step:
  "cmd_poll dev h t = (if test_done dev h t then Some (snd (snd (spin_cmd_test dev h t)))
     else cmd_poll dev h (snd (snd (spin_cmd_test dev h t))))"
  by (subst cmd_poll.simps) (simp add: test_done_def split_def)

lemma issued_test [simp]: "issued (snd (snd (spin_cmd_test dev h t))) = issued t"
  by (simp add: spin_cmd_test_def Let_def mmio_read_def issued_read CMD_TEST_def CMD_ISSUE_def)

lemma issued_wait [simp]: "issued (snd (spin_cmd_wait h t)) = issued t"
  by (simp add: spin_cmd_wait_def)

lemma cmd_poll_done:
  "test_done dev h (after_tests dev h n t) \<Longrightarrow> \<exists>t'. cmd_poll dev h t = Some t' \<and> issued t' = issued t"
proof (induction n arbitrary: t)
  case 0
  then show ?case by (subst cmd_poll_step) simp
next
  case (Suc n)
  from Suc.IH [of "snd (snd (spin_cmd_test dev h t))"] Suc.prems
  show ?case by (subst cmd_poll_step) auto
qed

lemma wait_cmd_done:
  assumes "w = WaitPoll \<Longrightarrow> \<exists>n. test_done dev h (after_tests dev h n t)"
  shows "\<exists>t'. wait_cmd w dev h t = Some t' \<and> issued t' = issued t"
  using assms cmd_poll_done by (cases w) (auto simp: wait_cmd_def)

section \<open>The handlers\<close>

definition copy_to_host_ph :: "bool \<Rightarrow> waiting \<Rightarrow> device \<Rightarrow> handler_args \<Rightarrow> core \<Rightarrow> core option" where
  "copy_to_host_ph from_l2 w dev args c =
     (let task = args_task args;
          nic_pld_addr = (if from_l2 then l2_pkt_mem task else pkt_mem task);
          pkt_pld_len = ip_length (ram c) (pkt_mem task);
          (dma, c) = command (spin_dma_to_host dev (host_address task) nic_pld_addr (ucast pkt_pld_len) True) c
      in map_option (\<lambda>t. c\<lparr>tr := t\<rparr>) (wait_cmd w dev dma (tr c)))"

definition copy_from_host_ph :: "bool \<Rightarrow> device \<Rightarrow> handler_args \<Rightarrow> core \<Rightarrow> core" where
  "copy_from_host_ph to_l1 dev args c =
     (let task = args_task args;
          nic_pld_addr = (if to_l1 then pkt_mem task else l2_pkt_mem task);
          pkt_pld_len = ip_length (ram c) (pkt_mem task);
          udp_hdr = udp_of (ram c) (pkt_mem task);
          c = upd_ram (swap_ids (pkt_mem task) udp_hdr) c;
          (dma, c) = command (spin_dma_from_host dev (host_address task) nic_pld_addr (ucast pkt_pld_len) True) c;
          c = c\<lparr>tr := snd (spin_cmd_wait dma (tr c))\<rparr>;
          (send, c) = command (spin_send_packet dev nic_pld_addr (ucast pkt_pld_len)) c
      in c)"

definition pingpong_ph :: "bool \<Rightarrow> waiting \<Rightarrow> device \<Rightarrow> handler_args \<Rightarrow> core \<Rightarrow> core option" where
  "pingpong_ph from_l2 w dev args c =
     (let task = args_task args;
          nic_pld_addr = (if from_l2 then l2_pkt_mem task else pkt_mem task);
          pkt_pld_len = ip_length (ram c) (pkt_mem task);
          udp_hdr = udp_of (ram c) (pkt_mem task);
          c = upd_ram (swap_ids (pkt_mem task) udp_hdr) c;
          (put, c) = command (spin_send_packet dev nic_pld_addr (ucast pkt_pld_len)) c
      in map_option (\<lambda>t. c\<lparr>tr := t\<rparr>) (wait_cmd w dev put (tr c)))"

definition hostdirect_ph :: "device \<Rightarrow> handler_args \<Rightarrow> core \<Rightarrow> core" where
  "hostdirect_ph dev args c = snd (command (spin_write_to_host dev 0xdeadbeef 0xcafebebe) c)"

text \<open>The multiplications of \<^verbatim>\<open>empty_ph\<close> are on a local variable.\<close>

definition empty_ph :: "nat \<Rightarrow> handler_args \<Rightarrow> core \<Rightarrow> core" where
  "empty_ph num_int_op args c = (let x = fold (\<lambda>i x. x * of_nat i) [0..<num_int_op] (0 :: i32) in c)"

subsection \<open>The synthetic workload\<close>

record benchmark_params =
  loop_spin_count :: i32
  dma_to_size :: u32
  dma_to_count :: i32
  dma_from_size :: u32
  dma_from_count :: i32

definition params_at :: "mem \<Rightarrow> u32 \<Rightarrow> benchmark_params" where
  "params_at m a = \<lparr>loop_spin_count = load32 m a, dma_to_size = load32 m (a + 4), dma_to_count = load32 m (a + 8),
     dma_from_size = load32 m (a + 12), dma_from_count = load32 m (a + 16)\<rparr>"

text \<open>A loop \<^verbatim>\<open>for (int i = 0; i < n; i++)\<close> runs \<open>nat (sint n)\<close> times.\<close>

definition times :: "i32 \<Rightarrow> (core \<Rightarrow> core) \<Rightarrow> core \<Rightarrow> core" where
  "times n f c = (f ^^ nat (sint n)) c"

definition command_wait :: "(trace \<Rightarrow> u32 \<times> u32 \<times> trace) \<Rightarrow> core \<Rightarrow> core" where
  "command_wait f c = (let (comp, c) = command f c in c\<lparr>tr := snd (spin_cmd_wait comp (tr c))\<rparr>)"

definition synthetic_ph :: "device \<Rightarrow> handler_args \<Rightarrow> core \<Rightarrow> core" where
  "synthetic_ph dev args c =
     (let task = args_task args;
          params = params_at (ram c) (handler_mem task);
          host_addr = host_address task;
          payload_addr = pkt_mem task;
          payload_len = ucast (ip_length (ram c) payload_addr);
          udp_hdr = udp_of (ram c) payload_addr;
          c = (if 0 <s dma_to_count params \<and> dma_to_size params > 0
               then times (dma_to_count params)
                 (command_wait (spin_dma_to_host dev host_addr payload_addr (dma_to_size params) True)) c
               else c);
          c = upd_ram (swap_ids payload_addr udp_hdr) c
      in if 0 <s dma_from_count params \<and> dma_from_size params > 0
         then times (dma_from_count params)
           (\<lambda>c. command_wait (spin_send_packet dev payload_addr payload_len)
             (command_wait (spin_dma_from_host dev host_addr payload_addr (dma_from_size params) True) c)) c
         else c)"

section \<open>What they issue\<close>

lemma host_address_joined: "host_address tk = joined (host_mem_high tk) (host_mem_low tk)"
  by (simp add: host_address_def joined_def)

lemma host_address_words [simp]:
  "low32 (host_address tk) = host_mem_low tk" "high32 (host_address tk) = host_mem_high tk"
  by (simp_all add: host_address_joined)

lemma command_simps [simp]:
  "ram (snd (command f c)) = ram c" "tr (snd (command f c)) = snd (snd (f (tr c)))"
  "fst (command f c) = fst (snd (f (tr c)))"
  by (simp_all add: command_def split_def)

lemma command_wait_simps [simp]:
  "ram (command_wait f c) = ram c" "issued (tr (command_wait f c)) = issued (snd (snd (f (tr c))))"
  by (simp_all add: command_wait_def split_def)

lemma upd_ram_simps [simp]: "ram (upd_ram f c) = f (ram c)" "tr (upd_ram f c) = tr c"
  by (simp_all add: upd_ram_def)

text \<open>The words of the commands the examples issue.\<close>

definition to_host :: "u32 \<Rightarrow> u32 \<Rightarrow> task \<Rightarrow> nic_cmd" where
  "to_host nic len tk = \<lparr>word0 = Some (host_mem_low tk), word1 = Some (host_mem_high tk), word2 = Some nic,
     word3 = Some len, word4 = Some 1, cmd_info = Some 1\<rparr>"

definition from_host :: "u32 \<Rightarrow> u32 \<Rightarrow> task \<Rightarrow> nic_cmd" where
  "from_host nic len tk = \<lparr>word0 = Some (host_mem_low tk), word1 = Some (host_mem_high tk), word2 = Some nic,
     word3 = Some len, word4 = Some 0, cmd_info = Some 1\<rparr>"

definition send :: "u32 \<Rightarrow> u32 \<Rightarrow> nic_cmd" where
  "send nic len = \<lparr>word0 = Some 0, word1 = Some 0, word2 = Some nic, word3 = Some 0, word4 = Some len, cmd_info = Some 2\<rparr>"

lemmas issued_cmds = to_host_def from_host_def send_def commands_issued of_bool8_def

lemma times_ram: "(\<And>c. ram (f c) = ram c) \<Longrightarrow> ram (times n f c) = ram c"
proof -
  assume f: "\<And>c. ram (f c) = ram c"
  have "ram ((f ^^ k) c) = ram c" for k by (induction k) (simp_all add: f)
  then show ?thesis by (simp add: times_def)
qed

lemma times_issued:
  assumes "\<And>c. issued (tr (f c)) = issued (tr c) @ cmds"
  shows "issued (tr (times n f c)) = issued (tr c) @ concat (replicate (nat (sint n)) cmds)"
proof -
  have "concat (replicate k cmds) @ cmds = cmds @ concat (replicate k cmds)" for k
    by (induction k) simp_all
  then have "issued (tr ((f ^^ k) c)) = issued (tr c) @ concat (replicate k cmds)" for k
    by (induction k) (simp_all add: assms)
  then show ?thesis by (simp add: times_def)
qed

section \<open>Properties\<close>

text \<open>
  For a device whose commands complete when polled, \<open>copy_to_host_ph\<close> returns in
  every configuration; it hands the NIC one command, the transfer of as many bytes as the
  packet's header says from the packet to the host address of the task, and leaves the memory alone.
\<close>

theorem copy_to_host_transfers:
  assumes "w = WaitPoll \<Longrightarrow> \<forall>h t. \<exists>n. test_done dev h (after_tests dev h n t)"
  shows "\<exists>c'. copy_to_host_ph l2 w dev args c = Some c' \<and> ram c' = ram c
    \<and> issued (tr c') = issued (tr c) @
        [to_host (if l2 then l2_pkt_mem (args_task args) else pkt_mem (args_task args))
          (ucast (ip_length (ram c) (pkt_mem (args_task args)))) (args_task args)]"
proof -
  let ?f = "spin_dma_to_host dev (host_address (args_task args))
    (if l2 then l2_pkt_mem (args_task args) else pkt_mem (args_task args))
    (ucast (ip_length (ram c) (pkt_mem (args_task args)))) True"
  obtain t' where "wait_cmd w dev (fst (snd (?f (tr c)))) (snd (snd (?f (tr c)))) = Some t'"
    "issued t' = issued (snd (snd (?f (tr c))))"
    using wait_cmd_done assms by blast
  then show ?thesis
    by (simp add: copy_to_host_ph_def Let_def split_def issued_cmds)
qed

theorem copy_to_host_transfers_witness:
  "\<exists>c'. copy_to_host_ph False WaitPoll (\<lambda>_ _. 1) (\<lparr>args_task = task_at (\<lambda>a. 0) 0, hpu_gid = 0, cluster_id = 0, hpu_id = 0\<rparr>)
     \<lparr>ram = (\<lambda>a. 7), tr = []\<rparr> = Some c' \<and> length (issued (tr c')) = 1"
proof -
  have "\<forall>h t. \<exists>n. test_done (\<lambda>_ _. 1) h (after_tests (\<lambda>_ _. 1) h n t)"
    by (intro allI exI [of _ 0]) (simp add: test_done_def spin_cmd_test_def mmio_read_def Let_def)
  from copy_to_host_transfers [of WaitPoll, OF this] show ?thesis by (fastforce simp: issued_def)
qed

text \<open>
  Behind a full IP header, \<open>copy_from_host_ph\<close> exchanges source and destination of the packet in L1, keeps its
  length, and hands the NIC the read from the host into the packet and then the packet itself.
\<close>

theorem copy_from_host_answers:
  fixes args c dev
  defines "p \<equiv> pkt_mem (args_task args)"
  defines "c' \<equiv> copy_from_host_ph True dev args c"
  assumes "5 \<le> ip_ihl (ram c) p"
  shows "source_id (ram c') p = dest_id (ram c) p \<and> dest_id (ram c') p = source_id (ram c) p
    \<and> src_port (ram c') (udp_of (ram c) p) = dst_port (ram c) (udp_of (ram c) p)
    \<and> dst_port (ram c') (udp_of (ram c) p) = src_port (ram c) (udp_of (ram c) p)
    \<and> ip_length (ram c') p = ip_length (ram c) p
    \<and> issued (tr c') = issued (tr c) @ [from_host p (ucast (ip_length (ram c) p)) (args_task args),
        send p (ucast (ip_length (ram c) p))]"
  unfolding c'_def using swap_ids [OF udp_sep [OF assms(3)]]
  by (simp add: copy_from_host_ph_def Let_def split_def issued_cmds p_def)

theorem copy_from_host_answers_witness:
  "let args = \<lparr>args_task = task_at (\<lambda>a. 0) 0, hpu_gid = 0, cluster_id = 0, hpu_id = 0\<rparr>;
       c = \<lparr>ram = (\<lambda>a. 0x54)(12 := 9), tr = []\<rparr>
   in dest_id (ram (copy_from_host_ph True (\<lambda>_ _. 1) args c)) 0 = 0x54545409"
proof -
  let ?args = "\<lparr>args_task = task_at (\<lambda>a. 0) 0, hpu_gid = 0, cluster_id = 0, hpu_id = 0\<rparr>"
  let ?c = "\<lparr>ram = (\<lambda>a. 0x54)(12 := 9), tr = []\<rparr> :: core"
  have "5 \<le> ip_ihl (ram ?c) (pkt_mem (args_task ?args))"
    by (simp add: ip_ihl_def load8_def task_at_def)
  from copy_from_host_answers [OF this, of "\<lambda>_ _. 1"] show ?thesis
    by (simp add: task_at_def source_id_def load32_def Let_def)
qed

text \<open>
  \<open>pingpong_ph\<close> exchanges source and destination of the packet in L1 and sends one packet of
  the received length. From L1 that is the answer; when built with \<open>FROM_L2\<close> the bytes sent are
  those of the copy in L2, whose header, away from the packet in L1, is not exchanged.
\<close>

theorem pingpong_answers:
  fixes args c
  defines "p \<equiv> pkt_mem (args_task args)"
  defines "udp \<equiv> udp_of (ram c) p"
  assumes "5 \<le> ip_ihl (ram c) p" "w \<noteq> WaitPoll"
  shows "\<exists>c'. pingpong_ph l2 w dev args c = Some c'
    \<and> source_id (ram c') p = dest_id (ram c) p \<and> dest_id (ram c') p = source_id (ram c) p
    \<and> src_port (ram c') udp = dst_port (ram c) udp \<and> dst_port (ram c') udp = src_port (ram c) udp
    \<and> issued (tr c') = issued (tr c) @
        [send (if l2 then l2_pkt_mem (args_task args) else p) (ucast (ip_length (ram c) p))]
    \<and> (\<forall>q. sep (p + 12) 8 q 20 \<longrightarrow> sep udp 4 q 20 \<longrightarrow>
          source_id (ram c') q = source_id (ram c) q \<and> dest_id (ram c') q = dest_id (ram c) q)"
proof -
  define na where "na = (if l2 then l2_pkt_mem (args_task args) else p)"
  let ?f = "spin_send_packet dev na (ucast (ip_length (ram c) p))"
  obtain t' where t': "wait_cmd w dev (fst (snd (?f (tr c)))) (snd (snd (?f (tr c)))) = Some t'"
    "issued t' = issued (snd (snd (?f (tr c))))"
    using wait_cmd_done assms(4) by blast
  have far: "source_id (swap_ids p udp (ram c)) q = source_id (ram c) q
      \<and> dest_id (swap_ids p udp (ram c)) q = dest_id (ram c) q"
    if "sep (p + 12) 8 q 20" "sep udp 4 q 20" for q
    using sep_inside [OF that(1), of 0 8 12 4] sep_inside [OF that(2), of 0 4 12 4]
      sep_inside [OF that(1), of 0 8 16 4] sep_inside [OF that(2), of 0 4 16 4]
    by (simp add: source_id_def dest_id_def swap_ids_load(3))
  have "pingpong_ph l2 w dev args c = Some (snd (command ?f (upd_ram (swap_ids p udp) c))\<lparr>tr := t'\<rparr>)"
    using t'(1) unfolding pingpong_ph_def Let_def p_def [symmetric] udp_def [symmetric] na_def [symmetric]
    by (simp add: split_def)
  then show ?thesis
    using t'(2) swap_ids [OF udp_sep [OF assms(3)], folded udp_def] far
    by (simp add: issued_cmds flip: na_def)
qed

theorem pingpong_answers_witness:
  "\<exists>c'. pingpong_ph False NoWait (\<lambda>_ _. 1) (\<lparr>args_task = task_at (\<lambda>a. 0) 0, hpu_gid = 0, cluster_id = 0, hpu_id = 0\<rparr>)
     \<lparr>ram = (\<lambda>a. 0x54)(12 := 9), tr = []\<rparr> = Some c' \<and> dest_id (ram c') 0 = 0x54545409"
proof -
  let ?args = "\<lparr>args_task = task_at (\<lambda>a. 0) 0, hpu_gid = 0, cluster_id = 0, hpu_id = 0\<rparr>"
  let ?c = "\<lparr>ram = (\<lambda>a. 0x54)(12 := 9), tr = []\<rparr> :: core"
  have "5 \<le> ip_ihl (ram ?c) (pkt_mem (args_task ?args))"
    by (simp add: ip_ihl_def load8_def task_at_def)
  from pingpong_answers [OF this, of NoWait False "\<lambda>_ _. 1"] show ?thesis
    by (auto simp add: task_at_def source_id_def load32_def Let_def)
qed

text \<open>
  \<open>synthetic_ph\<close> hands the NIC as many transfers to the host as its parameters say, each of the
  size they say, then as many pairs of a read from the host and the packet sent, and none for a
  count of 0 or less or a size of 0; the packet's source and destination are exchanged once.
\<close>

theorem synthetic_issues:
  fixes args c
  defines "p \<equiv> pkt_mem (args_task args)"
  defines "ps \<equiv> params_at (ram c) (handler_mem (args_task args))"
  shows "issued (tr (synthetic_ph dev args c)) = issued (tr c)
      @ (if dma_to_size ps = 0 then [] else
          replicate (nat (sint (dma_to_count ps))) (to_host p (dma_to_size ps) (args_task args)))
      @ (if dma_from_size ps = 0 then [] else
          concat (replicate (nat (sint (dma_from_count ps)))
            [from_host p (dma_from_size ps) (args_task args), send p (ucast (ip_length (ram c) p))]))
    \<and> ram (synthetic_ph dev args c) = swap_ids p (udp_of (ram c) p) (ram c)"
proof -
  let ?to = "command_wait (spin_dma_to_host dev (host_address (args_task args)) p (dma_to_size ps) True)"
  have to: "issued (tr (?to c)) = issued (tr c) @ [to_host p (dma_to_size ps) (args_task args)]" for c
    by (simp add: issued_cmds)
  have "issued (tr (command_wait (spin_send_packet dev p len)
      (command_wait (spin_dma_from_host dev (host_address (args_task args)) p (dma_from_size ps) True) c)))
      = issued (tr c) @ [from_host p (dma_from_size ps) (args_task args), send p len]" for len c
    by (simp add: issued_cmds)
  note from_issued = times_issued [OF this]
  have none: "concat (replicate (nat (sint n)) xs) = []" if "\<not> 0 <s n" for n :: i32 and xs :: "nic_cmd list"
    using that by (simp add: sless_i32_iff)
  have single: "concat (replicate n [x]) = replicate n x" for n and x :: nic_cmd
    by (induction n) simp_all
  show ?thesis
    using times_issued [of ?to, OF to] from_issued
    by (auto simp: synthetic_ph_def Let_def times_ram word_gt_0 none single sless_i32_iff simp flip: p_def ps_def)
qed

end
