(* ===== verification/Reductions.thy ===== *)
theory Reductions
  imports Forwarding
begin

text \<open>
  The example handlers that reduce the integers of a message: \<^verbatim>\<open>map_reduce\<close>,
  \<^verbatim>\<open>aggregate\<close>, \<^verbatim>\<open>aggregate_and_reduce\<close>, \<^verbatim>\<open>histogram\<close> and \<^verbatim>\<open>int_sum\<close>, and the CPU
  server \<^verbatim>\<open>map_reduce\<close> is compared with. A payload handler touches shared memory only by
  atomic additions, so running the handlers one after the other, in any order,
  gives every result their interleavings have. A cluster index is below
  \<open>NB_CLUSTERS\<close>, as the properties assume; the C code would read past the array.
\<close>

section \<open>Arrays of words\<close>

definition word_at :: "mem \<Rightarrow> u32 \<Rightarrow> nat \<Rightarrow> u32" where
  "word_at m a i = load32 m (a + 4 * of_nat i)"

text \<open>The summation loop of the payload handlers.\<close>

definition sum_words :: "mem \<Rightarrow> u32 \<Rightarrow> nat \<Rightarrow> u32" where
  "sum_words m a n = fold (\<lambda>i s. s + word_at m a i) [0..<n] 0"

lemma sum_words_eq: "sum_words m a n = (\<Sum>i<n. word_at m a i)"
  by (induction n) (simp_all add: sum_words_def)

lemma words_sep:
  assumes "i \<noteq> j" "i < 2 ^ 30" "j < 2 ^ 30"
  shows "sep (a + 4 * of_nat i) 4 (a + 4 * of_nat j) 4"
  unfolding sep_def
proof (intro allI impI notI)
  fix x y :: nat assume "x < 4" "y < 4" and e: "a + 4 * of_nat i + of_nat x = a + 4 * of_nat j + of_nat y"
  then have "(of_nat (4 * i + x) :: u32) = of_nat (4 * j + y)" by (simp add: add.assoc)
  then have "unat (of_nat (4 * i + x) :: u32) = unat (of_nat (4 * j + y) :: u32)" by simp
  moreover have "4 * i + x < 2 ^ 32" "4 * j + y < 2 ^ 32" using assms \<open>x < 4\<close> \<open>y < 4\<close> by simp_all
  ultimately have "4 * i + x = 4 * j + y" by (simp only: unat_of_nat take_bit_nat_eq_self len_num1) (simp add: take_bit_nat_eq_self)
  with \<open>x < 4\<close> \<open>y < 4\<close> have "i = j" by presburger
  with assms(1) show False ..
qed

text \<open>An atomic addition at a word: that word grows, separated ones stay.\<close>

definition add_at :: "u32 \<Rightarrow> u32 \<Rightarrow> mem \<Rightarrow> mem" where
  "add_at a v m = snd (amo_at amo_add m a v)"

lemma add_at_same [simp]: "load32 (add_at a v m) a = load32 m a + v"
  by (simp add: add_at_def amo_at_add)

lemma add_at_other:
  "sep a 4 b 4 \<Longrightarrow> load32 (add_at a v m) b = load32 m b"
  "sep a 4 b 2 \<Longrightarrow> load16 (add_at a v m) b = load16 m b"
  "sep a 4 b 1 \<Longrightarrow> load8 (add_at a v m) b = load8 m b"
  by (simp_all add: add_at_def amo_at_add mem_other)

section \<open>\<^verbatim>\<open>map_reduce\<close>\<close>

definition map_phase_hh :: "handler_args \<Rightarrow> core \<Rightarrow> core" where
  "map_phase_hh args c =
     upd_ram (fold (\<lambda>i m. store32 m (scratchpad (args_task args) ! i) 0) [0..<NB_CLUSTERS]) c"

definition map_phase_ph :: "handler_args \<Rightarrow> core \<Rightarrow> core" where
  "map_phase_ph args c =
     (let task = args_task args;
          (pkt_pld_ptr, pkt_pld_len) = GET_IP_UDP_PLD (ram c) (pkt_mem task);
          num_ints = unat (pkt_pld_len div 4);
          local_sum = sum_words (ram c) pkt_pld_ptr num_ints;
          my_cluster_id = unat (cluster_id args)
      in upd_ram (add_at (scratchpad task ! my_cluster_id) local_sum) c)"

definition reduce_phase_th :: "device \<Rightarrow> handler_args \<Rightarrow> core \<Rightarrow> core" where
  "reduce_phase_th dev args c =
     (let task = args_task args;
          final_result = fold (\<lambda>i s. s + load32 (ram c) (scratchpad task ! i)) [0..<NB_CLUSTERS] 0
      in command_null (spin_write_to_host dev (host_address task) (ucast final_result)) c)"

section \<open>The CPU baseline of \<^verbatim>\<open>map_reduce\<close>\<close>

text \<open>
  The server loop over the results of \<open>recvfrom\<close>: its return value and the
  bytes it put into the buffer (the operating system is a parameter).
\<close>

record mr_server =
  global_sum :: u64
  total_packets :: u64

definition le32 :: "u8 list \<Rightarrow> nat \<Rightarrow> u32" where
  "le32 buf i = load32 (\<lambda>a. buf ! unat a) (4 * of_nat i)"

definition mr_server_step :: "i32 \<times> u8 list \<Rightarrow> mr_server \<Rightarrow> mr_server" where
  "mr_server_step r s = (case r of (n, buf) \<Rightarrow>
     if 0 <s n then
       (let num_ints = unat n div 4;
            local_sum = fold (\<lambda>i acc. acc + ucast (le32 buf i)) [0..<num_ints] (0 :: u64)
        in s\<lparr>global_sum := global_sum s + local_sum, total_packets := total_packets s + 1\<rparr>)
     else s)"

definition mr_server_main :: "(i32 \<times> u8 list) list \<Rightarrow> mr_server" where
  "mr_server_main rs = fold mr_server_step rs \<lparr>global_sum = 0, total_packets = 0\<rparr>"

section \<open>\<^verbatim>\<open>aggregate\<close> and \<^verbatim>\<open>aggregate_and_reduce\<close>\<close>

text \<open>
  Here \<open>scratchpad[i]\<close> is the word of the task descriptor, the pointer, not what it
  points to. The descriptor of \<open>hpu_run\<close> lies over the scheduler's registers.
\<close>

definition scratchpad_word :: "u32 \<Rightarrow> u32" where
  "scratchpad_word i = HWSCHED_SCRATCHPAD_0_ADDR + 4 * i"

definition aggregate_global_ph :: "param \<Rightarrow> handler_args \<Rightarrow> core \<Rightarrow> core option" where
  "aggregate_global_ph p0 args c =
     (let task = args_task args;
          (pkt_pld_ptr, pkt_pld_len) = GET_IP_UDP_PLD (ram c) (pkt_mem task);
          aggregator = sum_words (ram c) pkt_pld_ptr (unat (pkt_pld_len div 4));
          my = cluster_id args
      in case printf p0
           (cstring (''address of scratchpad[%u]: %p, aggregator: %u'' @ [CHR 0x0A] @ '', value %u''))
           [VA32 my, VA32 (scratchpad_word my), VA32 aggregator, VA32 (scratchpad task ! unat my)] (tr c) of
         None \<Rightarrow> None
       | Some (_, t) \<Rightarrow> map_option (\<lambda>(_, t). c\<lparr>tr := t\<rparr>)
           (printf p0 (cstring (''size of scratchpad: %u'' @ [CHR 0x0A]))
             [VA32 (scratchpad_size task ! unat my)] t))"

definition aggregate_global_th :: "device \<Rightarrow> handler_args \<Rightarrow> core \<Rightarrow> core" where
  "aggregate_global_th dev args c =
     (let task = args_task args;
          result = fold (\<lambda>i s. s + scratchpad task ! i) [0..<NB_CLUSTERS] 0
      in command_null (spin_write_to_host dev (host_address task) (ucast result)) c)"

text \<open>The variant that does add: to the pointer in the descriptor, returned with the state.\<close>

definition ar_aggregate_ph :: "param \<Rightarrow> handler_args \<Rightarrow> core \<Rightarrow> (handler_args \<times> core) option" where
  "ar_aggregate_ph p0 args c =
     (let task = args_task args;
          (pkt_pld_ptr, pkt_pld_len) = GET_IP_UDP_PLD (ram c) (pkt_mem task);
          aggregator = sum_words (ram c) pkt_pld_ptr (unat (pkt_pld_len div 4));
          my = unat (cluster_id args);
          (_, new) = amo_add (scratchpad task ! my) aggregator;
          task = task\<lparr>scratchpad := (scratchpad task)[my := new]\<rparr>
      in map_option (\<lambda>(_, t). (args\<lparr>args_task := task\<rparr>, c\<lparr>tr := t\<rparr>))
           (printf p0 (cstring (''Cluster %u added %u to scratchpad. New value: %u'' @ [CHR 0x0A]))
             [VA32 (cluster_id args), VA32 aggregator, VA32 (scratchpad task ! my)] (tr c)))"

definition ar_aggregate_th :: "device \<Rightarrow> handler_args \<Rightarrow> core \<Rightarrow> core" where
  "ar_aggregate_th dev args c =
     (let task = args_task args;
          result = fold (\<lambda>i s. s + scratchpad task ! i) [0..<NB_CLUSTERS] 0
      in command_null (spin_write_to_host dev (host_address task) (ucast result)) c)"

definition reduce_l1_ph :: "param \<Rightarrow> handler_args \<Rightarrow> core \<Rightarrow> core option" where
  "reduce_l1_ph p0 args c =
     (let task = args_task args;
          (pkt_pld_ptr, pkt_pld_len) = GET_IP_UDP_PLD (ram c) (pkt_mem task);
          local_mem = scratchpad task ! unat (cluster_id args)
      in map_option (\<lambda>(_, t). c\<lparr>tr := t,
             ram := fold (\<lambda>i m. add_at (local_mem + 4 * of_nat i) (word_at m pkt_pld_ptr i) m)
                      [0..<unat (pkt_pld_len div 4)] (ram c)\<rparr>)
           (printf p0 (cstring (''address of local_mem: %p'' @ [CHR 0x0A])) [VA32 local_mem] (tr c)))"

definition reduce_l1_th :: "device \<Rightarrow> handler_args \<Rightarrow> core \<Rightarrow> core" where
  "reduce_l1_th dev args c =
     command_null (spin_write_to_host dev (host_address (args_task args)) 1) c"

section \<open>\<^verbatim>\<open>histogram\<close>\<close>

text \<open>The loop adds to the bin of the previous element, then moves on to the next.\<close>

definition histogram_l1_ph :: "handler_args \<Rightarrow> core \<Rightarrow> core" where
  "histogram_l1_ph args c =
     (let task = args_task args;
          (pkt_pld_ptr, pkt_pld_len) = GET_IP_UDP_PLD (ram c) (pkt_mem task);
          local_mem = scratchpad task ! unat (cluster_id args);
          word_ptr = local_mem + 4 * word_at (ram c) pkt_pld_ptr 0
      in upd_ram (\<lambda>m. snd (fold
           (\<lambda>i (word_ptr, m). let m = add_at word_ptr 1 m in (local_mem + 4 * word_at m pkt_pld_ptr i, m))
           [1..<unat (pkt_pld_len div 4)] (word_ptr, m))) c)"

definition histogram_l1_th :: "device \<Rightarrow> handler_args \<Rightarrow> core \<Rightarrow> core" where
  "histogram_l1_th dev args c =
     command_null (spin_write_to_host dev (host_address (args_task args)) 1) c"

section \<open>\<^verbatim>\<open>int_sum\<close>\<close>

text \<open>
  \<open>intsum_state_t\<close> at the handler memory: the number of elements, the number
  processed, and the 64-bit sum as two words from offset 8.
\<close>

definition is_total :: "mem \<Rightarrow> u32 \<Rightarrow> u32" where "is_total m st = load32 m st"
definition is_processed :: "mem \<Rightarrow> u32 \<Rightarrow> u32" where "is_processed m st = load32 m (st + 4)"
definition is_sum :: "mem \<Rightarrow> u32 \<Rightarrow> u64" where "is_sum m st = joined (load32 m (st + 12)) (load32 m (st + 8))"

definition int_sum_hh :: "handler_args \<Rightarrow> core \<Rightarrow> core" where
  "int_sum_hh args c =
     (let task = args_task args;
          (pkt_pld_ptr, pkt_pld_len) = GET_IP_UDP_PLD (ram c) (pkt_mem task);
          total = load32 (ram c) (pkt_pld_ptr + 4);
          st = handler_mem task
      in if is_processed (ram c) st = 0
         then upd_ram (\<lambda>m. store32 (store32 (store32 m st total) (st + 8) 0) (st + 12) 0) c
         else c)"

text \<open>The additions go to the low word of the local copy of the sum.\<close>

definition int_sum_ph :: "handler_args \<Rightarrow> core \<Rightarrow> core" where
  "int_sum_ph args c =
     (let task = args_task args;
          (pkt_pld_ptr, pkt_pld_len) = GET_IP_UDP_PLD (ram c) (pkt_mem task);
          st = handler_mem task;
          n = pkt_pld_len div 4;
          local_sum = is_sum (ram c) st;
          local_sum = fold (\<lambda>i s. joined (high32 s) (snd (amo_add (low32 s) (word_at (ram c) pkt_pld_ptr i))))
                        [0..<unat n] local_sum
      in upd_ram (add_at (st + 4) n) c)"

text \<open>
  \<open>res\<close> is the address of the local structure; the host is written that address
  (sign-extended by the cast), not the structure.
\<close>

definition int_sum_th :: "device \<Rightarrow> u32 \<Rightarrow> handler_args \<Rightarrow> core \<Rightarrow> core" where
  "int_sum_th dev res args c =
     (let task = args_task args;
          (pkt_pld_ptr, pkt_pld_len) = GET_IP_UDP_PLD (ram c) (pkt_mem task);
          id = load32 (ram c) pkt_pld_ptr;
          st = handler_mem task
      in if is_processed (ram c) st = is_total (ram c) st
         then (let sum = is_sum (ram c) st;
                   c = upd_ram (\<lambda>m. store32 (store32 (store32 m res id) (res + 8) (low32 sum)) (res + 12) (high32 sum)) c
               in command_null (spin_write_to_host dev (host_address task) (scast res)) c)
         else c)"

section \<open>Packets in memory\<close>

definition pld_ptr :: "mem \<Rightarrow> u32 \<Rightarrow> u32" where
  "pld_ptr m pkt = fst (GET_IP_UDP_PLD m pkt)"

definition pld_words :: "mem \<Rightarrow> u32 \<Rightarrow> nat" where
  "pld_words m pkt = unat (snd (GET_IP_UDP_PLD m pkt) div 4)"

definition payload :: "mem \<Rightarrow> u32 \<Rightarrow> u32 list" where
  "payload m pkt = map (word_at m (pld_ptr m pkt)) [0..<pld_words m pkt]"

text \<open>The \<open>n\<close> bytes from \<open>a\<close> are outside the packet's header and payload words.\<close>

definition packet_apart :: "u32 \<Rightarrow> nat \<Rightarrow> mem \<Rightarrow> u32 \<Rightarrow> bool" where
  "packet_apart a n m pkt \<longleftrightarrow> sep a n pkt 4 \<and> (\<forall>i<pld_words m pkt. sep a n (pld_ptr m pkt + 4 * of_nat i) 4)"

definition same_packet :: "mem \<Rightarrow> mem \<Rightarrow> u32 \<Rightarrow> bool" where
  "same_packet m m' pkt \<longleftrightarrow> pld_ptr m' pkt = pld_ptr m pkt \<and> pld_words m' pkt = pld_words m pkt
     \<and> payload m' pkt = payload m pkt"

lemma same_packet_refl [simp]: "same_packet m m pkt"
  by (simp add: same_packet_def)

lemma same_packet_trans: "same_packet m m' pkt \<Longrightarrow> same_packet m' m'' pkt \<Longrightarrow> same_packet m m'' pkt"
  by (simp add: same_packet_def)

lemma same_packet_apart: "same_packet m m' pkt \<Longrightarrow> packet_apart a n m' pkt \<longleftrightarrow> packet_apart a n m pkt"
  by (simp add: same_packet_def packet_apart_def)

lemma payload_nth: "i < pld_words m pkt \<Longrightarrow> payload m pkt ! i = word_at m (pld_ptr m pkt) i"
  by (simp add: payload_def)

lemma length_payload [simp]: "length (payload m pkt) = pld_words m pkt"
  by (simp add: payload_def)

lemma payload_sum: "sum_words m (pld_ptr m pkt) (pld_words m pkt) = sum_list (payload m pkt)"
  by (simp add: sum_words_eq payload_def interv_sum_list_conv_sum_set_nat lessThan_atLeast0)

lemma stored_same_packet:
  assumes "\<And>b. sep a n b 4 \<Longrightarrow> load32 m' b = load32 m b"
    "\<And>b. sep a n b 2 \<Longrightarrow> load16 m' b = load16 m b" "\<And>b. sep a n b 1 \<Longrightarrow> load8 m' b = load8 m b"
    "packet_apart a n m pkt"
  shows "same_packet m m' pkt"
proof -
  have s: "sep a n pkt 4" using assms(4) by (simp add: packet_apart_def)
  have "sep a n (pkt + 2) 2" "sep a n pkt 1"
    using sep_inside [OF s, of 0 n 2 2] sep_inside [OF s, of 0 n 0 1] by simp_all
  then have "ip_length m' pkt = ip_length m pkt" "ip_ihl m' pkt = ip_ihl m pkt"
    using assms(2,3) by (simp_all add: header_defs)
  then have p: "GET_IP_UDP_PLD m' pkt = GET_IP_UDP_PLD m pkt" by (simp add: GET_IP_UDP_PLD_def)
  then have "word_at m' (pld_ptr m pkt) i = word_at m (pld_ptr m pkt) i" if "i < pld_words m pkt" for i
    using assms(1,4) that by (simp add: packet_apart_def word_at_def)
  with p show ?thesis by (simp add: same_packet_def pld_ptr_def pld_words_def payload_def)
qed

lemma add_at_same_packet: "packet_apart a 4 m pkt \<Longrightarrow> same_packet m (add_at a v m) pkt"
  by (rule stored_same_packet [of a 4]) (simp_all add: add_at_other)

lemma store32_same_packet: "packet_apart a 4 m pkt \<Longrightarrow> same_packet m (store32 m a v) pkt"
  by (rule stored_same_packet [of a 4]) (simp_all add: mem_other)

section \<open>The scratchpads of a message\<close>

text \<open>Four words, one per cluster, none overlapping another.\<close>

definition pads :: "u32 list \<Rightarrow> bool" where
  "pads sp \<longleftrightarrow> length sp = NB_CLUSTERS \<and> (\<forall>i<NB_CLUSTERS. \<forall>j<NB_CLUSTERS. i \<noteq> j \<longrightarrow> sep (sp ! i) 4 (sp ! j) 4)"

definition pads_sum :: "u32 list \<Rightarrow> mem \<Rightarrow> u32" where
  "pads_sum sp m = (\<Sum>i<NB_CLUSTERS. load32 m (sp ! i))"

text \<open>A handler of the message: same scratchpads, a real cluster, the packet outside the scratchpads.\<close>

definition of_message :: "u32 list \<Rightarrow> mem \<Rightarrow> handler_args \<Rightarrow> bool" where
  "of_message sp m args \<longleftrightarrow> scratchpad (args_task args) = sp \<and> unat (cluster_id args) < NB_CLUSTERS
     \<and> (\<forall>i<NB_CLUSTERS. packet_apart (sp ! i) 4 m (pkt_mem (args_task args)))"

definition packet_of :: "handler_args \<Rightarrow> u32" where
  "packet_of args = pkt_mem (args_task args)"

lemma pads_sum_add: "pads sp \<Longrightarrow> k < NB_CLUSTERS \<Longrightarrow> pads_sum sp (add_at (sp ! k) v m) = pads_sum sp m + v"
proof -
  assume p: "pads sp" "k < NB_CLUSTERS"
  have "pads_sum sp (add_at (sp ! k) v m) = (\<Sum>i<NB_CLUSTERS. load32 m (sp ! i) + (if i = k then v else 0))"
    unfolding pads_sum_def using p by (intro sum.cong) (auto simp: pads_def add_at_other)
  then show ?thesis using p(2) by (simp add: pads_sum_def sum.distrib)
qed

lemma map_phase_ph_eq:
  "map_phase_ph args c = upd_ram (add_at (scratchpad (args_task args) ! unat (cluster_id args))
     (sum_list (payload (ram c) (packet_of args)))) c"
  by (simp add: map_phase_ph_def Let_def split_def packet_of_def flip: payload_sum pld_ptr_def pld_words_def)

lemma map_phase_fold:
  assumes "pads sp" "\<And>args. args \<in> set as \<Longrightarrow> of_message sp (ram c) args"
  shows "pads_sum sp (ram (fold map_phase_ph as c)) =
      pads_sum sp (ram c) + (\<Sum>args\<leftarrow>as. sum_list (payload (ram c) (packet_of args)))
    \<and> tr (fold map_phase_ph as c) = tr c"
  using assms(2)
proof (induction as arbitrary: c)
  case (Cons a as)
  let ?c = "map_phase_ph a c"
  have a: "scratchpad (args_task a) = sp" "unat (cluster_id a) < NB_CLUSTERS"
    using Cons.prems [of a] by (simp_all add: of_message_def)
  have same: "same_packet (ram c) (ram ?c) (packet_of b)" if "b \<in> set as" for b
    using Cons.prems [of b] that a by (auto simp: map_phase_ph_eq of_message_def packet_of_def intro!: add_at_same_packet)
  then have "of_message sp (ram ?c) b" if "b \<in> set as" for b
    using Cons.prems [of b] that same_packet_apart [OF same [OF that]] by (simp add: of_message_def packet_of_def)
  note IH = Cons.IH [OF this]
  have "(\<Sum>b\<leftarrow>as. sum_list (payload (ram ?c) (packet_of b))) = (\<Sum>b\<leftarrow>as. sum_list (payload (ram c) (packet_of b)))"
    using same by (intro arg_cong [where f = sum_list] map_cong) (simp_all add: same_packet_def)
  then show ?case using IH a
    by (simp add: pads_sum_add [OF assms(1)] map_phase_ph_eq [of a] algebra_simps)
qed simp

section \<open>Properties of \<open>map_reduce\<close>\<close>

lemma zero_pads:
  assumes "pads sp" "n \<le> NB_CLUSTERS"
  shows "(\<forall>i<n. load32 (fold (\<lambda>i m. store32 m (sp ! i) 0) [0..<n] m) (sp ! i) = 0)
    \<and> ((\<forall>i<NB_CLUSTERS. packet_apart (sp ! i) 4 m pkt) \<longrightarrow>
        same_packet m (fold (\<lambda>i m. store32 m (sp ! i) 0) [0..<n] m) pkt)"
  using assms(2)
proof (induction n)
  case (Suc n)
  let ?m = "fold (\<lambda>i m. store32 m (sp ! i) 0) [0..<n] m"
  have IH: "\<forall>i<n. load32 ?m (sp ! i) = 0"
    "(\<forall>i<NB_CLUSTERS. packet_apart (sp ! i) 4 m pkt) \<longrightarrow> same_packet m ?m pkt"
    using Suc by auto
  have "load32 (store32 ?m (sp ! n) 0) (sp ! i) = 0" if "i < Suc n" for i
    using IH(1) that Suc.prems assms(1) by (cases "i = n") (auto simp: pads_def mem_other)
  moreover have "same_packet m (store32 ?m (sp ! n) 0) pkt" if ap: "\<forall>i<NB_CLUSTERS. packet_apart (sp ! i) 4 m pkt"
  proof -
    have same: "same_packet m ?m pkt" using IH(2) ap by blast
    have "packet_apart (sp ! n) 4 ?m pkt" using ap Suc.prems same_packet_apart [OF same] by simp
    from same_packet_trans [OF same store32_same_packet [OF this]] show ?thesis .
  qed
  ultimately show ?case by simp
qed simp

lemma reduce_phase_issued:
  "issued (tr (reduce_phase_th dev args c)) = issued (tr c) @
     [\<lparr>word0 = Some (host_mem_low (args_task args)), word1 = Some (host_mem_high (args_task args)), word2 = Some 17,
       word3 = Some (pads_sum (scratchpad (args_task args)) (ram c)), word4 = Some 0, cmd_info = Some 4\<rparr>]"
proof -
  have "fold (\<lambda>i s. s + load32 (ram c) (scratchpad (args_task args) ! i)) [0..<n] 0 =
      (\<Sum>i<n. load32 (ram c) (scratchpad (args_task args) ! i))" for n
    by (induction n) simp_all
  moreover have "low32 (ucast x) = x" "high32 (ucast x) = 0" for x :: u32
    by (rule bit_word_eqI; auto simp: low32_def high32_def bit_simps dest: bit_imp_le_length)+
  ultimately show ?thesis
    by (simp add: reduce_phase_th_def command_null_def pads_sum_def commands_issued split_def Let_def)
qed

lemma map_reduce_run:
  assumes "pads sp" "scratchpad (args_task first) = sp" "scratchpad (args_task final) = sp"
    "\<forall>args\<in>set as. of_message sp (ram c) args"
  shows "issued (tr (reduce_phase_th dev final (fold map_phase_ph as (map_phase_hh first c)))) = issued (tr c) @
     [\<lparr>word0 = Some (host_mem_low (args_task final)), word1 = Some (host_mem_high (args_task final)), word2 = Some 17,
       word3 = Some (\<Sum>args\<leftarrow>as. sum_list (payload (ram c) (packet_of args))), word4 = Some 0, cmd_info = Some 4\<rparr>]"
proof -
  let ?c = "map_phase_hh first c"
  have ram: "ram ?c = fold (\<lambda>i m. store32 m (sp ! i) 0) [0..<NB_CLUSTERS] (ram c)"
    by (simp add: map_phase_hh_def assms(2))
  have zero: "pads_sum sp (ram ?c) = 0"
    using zero_pads [OF assms(1) order_refl, of "ram c"] by (simp add: pads_sum_def ram)
  have same: "same_packet (ram c) (ram ?c) (packet_of a)" if "a \<in> set as" for a
    using zero_pads [OF assms(1) order_refl, of "ram c"] assms(4) that
    by (simp add: ram of_message_def packet_of_def)
  have "of_message sp (ram ?c) a" if "a \<in> set as" for a
    using assms(4) that same_packet_apart [OF same [OF that]] by (simp add: of_message_def packet_of_def)
  note fold = map_phase_fold [OF assms(1) this]
  have "(\<Sum>b\<leftarrow>as. sum_list (payload (ram ?c) (packet_of b))) = (\<Sum>b\<leftarrow>as. sum_list (payload (ram c) (packet_of b)))"
    using same by (intro arg_cong [where f = sum_list] map_cong) (simp_all add: same_packet_def)
  then show ?thesis using fold zero
    by (simp add: reduce_phase_issued assms(3) map_phase_hh_def)
qed

text \<open>
  C16: with a scratchpad word in each cluster, apart from each other and from the packets, all tasks naming the same scratchpads and every payload handler
  in one of the clusters: the header handler, then the payload handlers of a message's packets on any clusters and in any
  order, then the completion handler: the host is written the sum of all words of all payloads
  modulo \<open>2 ^ 32\<close>, whatever the scratchpads held before, as one command.
\<close>

theorem map_reduce_sums:
  assumes "pads sp" "scratchpad (args_task first) = sp" "scratchpad (args_task final) = sp"
    "\<forall>args\<in>set as. of_message sp (ram c) args"
  shows "issued (tr (reduce_phase_th dev final (fold map_phase_ph as (map_phase_hh first c)))) = issued (tr c) @
     [\<lparr>word0 = Some (host_mem_low (args_task final)), word1 = Some (host_mem_high (args_task final)), word2 = Some 17,
       word3 = Some (\<Sum>args\<leftarrow>as. sum_list (payload (ram c) (packet_of args))), word4 = Some 0, cmd_info = Some 4\<rparr>]"
  by (rule map_reduce_run [OF assms])

text \<open>Two packets of one word each (5 and 7), on clusters 1 and 3.\<close>

definition demo_args :: "u32 \<Rightarrow> u32 \<Rightarrow> handler_args" where
  "demo_args pkt cl = \<lparr>args_task = \<lparr>handler_mem = 0x800, handler_mem_size = 0, pkt_mem = pkt, pkt_mem_size = 32,
     scratchpad = [0x1000, 0x2000, 0x3000, 0x4000], scratchpad_size = [4, 4, 4, 4], host_mem_high = 0,
     host_mem_low = 8, host_mem_size = 8, l2_pkt_mem = 0, home_cluster_id = 0, flow_id = 0\<rparr>,
     hpu_gid = 0, cluster_id = cl, hpu_id = 0\<rparr>"

definition demo_core :: core where
  "demo_core = \<lparr>ram = (\<lambda>_. 0)(0x100 := 0x50, 0x102 := 32, 0x11C := 5, 0x200 := 0x50, 0x202 := 32, 0x21C := 7), tr = []\<rparr>"

lemma demo_pld: "GET_IP_UDP_PLD (ram demo_core) 0x100 = (0x11C, 4)" "GET_IP_UDP_PLD (ram demo_core) 0x200 = (0x21C, 4)"
  by (simp_all add: demo_core_def GET_IP_UDP_PLD_def header_defs load8_def load16_def IP_SIZE_def UDP_SIZE_def)

lemma demo_payload: "payload (ram demo_core) 0x100 = [5]" "payload (ram demo_core) 0x200 = [7]"
  by (simp_all add: payload_def pld_ptr_def pld_words_def demo_pld)
    (simp_all add: demo_core_def word_at_def load32_def)

lemma demo_args_simps [simp]:
  "pkt_mem (args_task (demo_args pkt cl)) = pkt" "cluster_id (demo_args pkt cl) = cl"
  "scratchpad (args_task (demo_args pkt cl)) = [0x1000, 0x2000, 0x3000, 0x4000]"
  "handler_mem (args_task (demo_args pkt cl)) = 0x800"
  "host_mem_low (args_task (demo_args pkt cl)) = 8" "host_mem_high (args_task (demo_args pkt cl)) = 0"
  by (simp_all add: demo_args_def)

lemma less_NB_CLUSTERS: "i < NB_CLUSTERS \<longleftrightarrow> i = 0 \<or> i = 1 \<or> i = 2 \<or> i = 3"
  by (auto simp: NB_CLUSTERS_def)

lemma demo_message:
  "pads [0x1000, 0x2000, 0x3000, 0x4000]"
  "\<forall>args\<in>set [demo_args 0x100 1, demo_args 0x200 3]. of_message [0x1000, 0x2000, 0x3000, 0x4000] (ram demo_core) args"
  by (auto simp: pads_def of_message_def packet_apart_def pld_ptr_def pld_words_def less_NB_CLUSTERS demo_pld
      intro!: sepI) (simp_all add: NB_CLUSTERS_def)

theorem map_reduce_sums_witness:
  "issued (tr (reduce_phase_th (\<lambda>_ _. 1) (demo_args 0x200 0)
      (fold map_phase_ph [demo_args 0x100 1, demo_args 0x200 3] (map_phase_hh (demo_args 0x100 0) demo_core))))
   = [\<lparr>word0 = Some 8, word1 = Some 0, word2 = Some 17, word3 = Some 12, word4 = Some 0, cmd_info = Some 4\<rparr>]"
  using map_reduce_sums [OF demo_message(1) _ _ demo_message(2), of "demo_args 0x100 0" "demo_args 0x200 0" "\<lambda>_ _. 1"]
  by (simp add: packet_of_def demo_payload) (simp add: demo_core_def issued_def)

lemma mr_server_step_sum:
  "ucast (global_sum (mr_server_step (n, buf) s)) = (ucast (global_sum s) :: u32)
     + (if 0 <s n then (\<Sum>i<unat n div 4. le32 buf i) else 0)"
proof -
  have low: "(ucast (a + b) :: u32) = ucast a + ucast b" for a b :: u64
    by (rule word_unat_eq_iff [THEN iffD2])
      (simp add: unsigned_ucast_eq unat_word_ariths take_bit_eq_mod mod_simps mod_mod_cancel)
  have rt: "(ucast (ucast x :: u64) :: u32) = x" for x :: u32
    by (rule bit_word_eqI) (simp add: bit_simps)
  have "(ucast (fold (\<lambda>i acc. acc + ucast (le32 buf i)) [0..<k] (0 :: u64)) :: u32) = (\<Sum>i<k. le32 buf i)" for k
    by (induction k) (simp_all add: low rt)
  then show ?thesis by (simp add: mr_server_step_def Let_def low)
qed

text \<open>The datagram a server receives for a packet: its payload words, nothing else.\<close>

definition datagram_of :: "mem \<Rightarrow> handler_args \<Rightarrow> i32 \<times> u8 list \<Rightarrow> bool" where
  "datagram_of m args r \<longleftrightarrow> (case r of (n, buf) \<Rightarrow> 0 <s n
     \<and> map (le32 buf) [0..<unat n div 4] = payload m (packet_of args))"

lemma mr_server_fold:
  "list_all2 (datagram_of m) as rs \<Longrightarrow>
     ucast (global_sum (fold mr_server_step rs s)) =
       (ucast (global_sum s) :: u32) + (\<Sum>args\<leftarrow>as. sum_list (payload m (packet_of args)))
     \<and> total_packets (fold mr_server_step rs s) = total_packets s + of_nat (length as)"
proof (induction as rs arbitrary: s rule: list_all2_induct)
  case (Cons a as r rs)
  obtain n buf where r: "r = (n, buf)" by (cases r)
  have "0 <s n" and pl: "map (le32 buf) [0..<unat n div 4] = payload m (packet_of a)"
    using Cons.hyps(1) by (simp_all add: datagram_of_def r)
  moreover have "(\<Sum>i<unat n div 4. le32 buf i) = sum_list (payload m (packet_of a))"
    unfolding pl [symmetric] by (simp add: interv_sum_list_conv_sum_set_nat lessThan_atLeast0)
  moreover have "total_packets (mr_server_step r s) = total_packets s + 1"
    using \<open>0 <s n\<close> by (simp add: mr_server_step_def r Let_def)
  ultimately show ?case
    using Cons.IH [of "mr_server_step r s"] by (simp add: mr_server_step_sum r algebra_simps)
qed simp

text \<open>
  On the same payloads, received as whole datagrams, the low word of the CPU server's sum
  is the datum the NIC writes to the host, and the server counts every datagram.
\<close>

theorem baseline_agrees:
  assumes "pads sp" "scratchpad (args_task first) = sp" "scratchpad (args_task final) = sp"
    "\<forall>args\<in>set as. of_message sp (ram c) args" "list_all2 (datagram_of (ram c)) as rs"
  shows "map word3 (issued (tr (reduce_phase_th dev final (fold map_phase_ph as (map_phase_hh first c)))))
      = map word3 (issued (tr c)) @ [Some (ucast (global_sum (mr_server_main rs)))]
    \<and> total_packets (mr_server_main rs) = of_nat (length as)"
  using map_reduce_run [OF assms(1-4), of dev] mr_server_fold [OF assms(5), of "\<lparr>global_sum = 0, total_packets = 0\<rparr>"]
  by (simp add: mr_server_main_def)

theorem baseline_agrees_witness:
  "ucast (global_sum (mr_server_main [(4, [5, 0, 0, 0]), (4, [7, 0, 0, 0])])) = (12 :: u32)"
proof -
  have "list_all2 (datagram_of (ram demo_core)) [demo_args 0x100 1, demo_args 0x200 3] [(4, [5, 0, 0, 0]), (4, [7, 0, 0, 0])]"
    by (simp add: datagram_of_def packet_of_def demo_payload le32_def load32_def sless_i32_iff)
  from baseline_agrees [OF demo_message(1) _ _ demo_message(2) this, of "demo_args 0x100 0" "demo_args 0x200 0" "\<lambda>_ _. 1"]
    map_reduce_run [OF demo_message(1) _ _ demo_message(2), of "demo_args 0x100 0" "demo_args 0x200 0" "\<lambda>_ _. 1"]
  show ?thesis by (simp add: packet_of_def demo_payload)
qed

section \<open>Element-wise reduction and histogram\<close>

lemma packet_apart_inside:
  "packet_apart a n m pkt \<Longrightarrow> i + k \<le> n \<Longrightarrow> packet_apart (a + of_nat i) k m pkt"
  using sep_inside [of a n _ 4 i k 0 4] by (auto simp: packet_apart_def)

lemma packet_apart_word:
  "packet_apart a (4 * n) m pkt \<Longrightarrow> i < n \<Longrightarrow> packet_apart (a + 4 * of_nat i) 4 m pkt"
  using packet_apart_inside [of a "4 * n" m pkt "4 * i" 4] by simp

lemma word_at_add_at:
  "i < 2 ^ 30 \<Longrightarrow> j < 2 ^ 30 \<Longrightarrow>
    word_at (add_at (a + 4 * of_nat i) v m) a j = word_at m a j + (if i = j then v else 0)"
  using words_sep [of i j a] by (auto simp: word_at_def add_at_other)

text \<open>The bins and the columns are words of one array of \<open>N\<close> words outside the packet.\<close>

lemma same_packet_word:
  "same_packet m m' pkt \<Longrightarrow> i < pld_words m pkt \<Longrightarrow> word_at m' (pld_ptr m pkt) i = payload m pkt ! i"
  using payload_nth [of i m' pkt] by (simp add: same_packet_def)

definition reduce_mem :: "u32 \<Rightarrow> u32 \<Rightarrow> nat \<Rightarrow> mem \<Rightarrow> mem" where
  "reduce_mem L ptr n m = fold (\<lambda>i m. add_at (L + 4 * of_nat i) (word_at m ptr i) m) [0..<n] m"

lemma reduce_mem_Suc:
  "reduce_mem L ptr (Suc n) m = add_at (L + 4 * of_nat n) (word_at (reduce_mem L ptr n m) ptr n) (reduce_mem L ptr n m)"
  by (simp add: reduce_mem_def)

lemma reduce_loop:
  assumes "packet_apart L (4 * N) m pkt" "N \<le> 2 ^ 30" "n \<le> pld_words m pkt" "n \<le> N"
  shows "same_packet m (reduce_mem L (pld_ptr m pkt) n m) pkt
    \<and> (\<forall>j<2 ^ 30. word_at (reduce_mem L (pld_ptr m pkt) n m) L j
        = word_at m L j + (if j < n then payload m pkt ! j else 0))"
  using assms(3,4)
proof (induction n)
  case 0
  then show ?case by (simp add: reduce_mem_def)
next
  case (Suc n)
  let ?m = "reduce_mem L (pld_ptr m pkt) n m"
  have IH: "same_packet m ?m pkt" "\<forall>j<2 ^ 30. word_at ?m L j = word_at m L j + (if j < n then payload m pkt ! j else 0)"
    using Suc by simp_all
  have v: "word_at ?m (pld_ptr m pkt) n = payload m pkt ! n"
    using same_packet_word [OF IH(1)] Suc.prems(1) by simp
  have "packet_apart (L + 4 * of_nat n) 4 ?m pkt"
    using packet_apart_word [OF assms(1), of n] Suc.prems(2) same_packet_apart [OF IH(1)] by simp
  then have "same_packet m (reduce_mem L (pld_ptr m pkt) (Suc n) m) pkt"
    unfolding reduce_mem_Suc by (intro same_packet_trans [OF IH(1)] add_at_same_packet)
  moreover have "n < 2 ^ 30" using Suc.prems(2) assms(2) by simp
  ultimately show ?case
    using IH(2) by (auto simp: reduce_mem_Suc word_at_add_at v less_Suc_eq)
qed

text \<open>The histogram loop: the bins of all elements but the last.\<close>

definition histogram_mem :: "u32 \<Rightarrow> u32 \<Rightarrow> nat \<Rightarrow> mem \<Rightarrow> u32 \<times> mem" where
  "histogram_mem L ptr n m = fold
     (\<lambda>i (word_ptr, m). let m = add_at word_ptr 1 m in (L + 4 * word_at m ptr i, m))
     [1..<n] (L + 4 * word_at m ptr 0, m)"

lemma histogram_mem_Suc:
  "0 < n \<Longrightarrow> histogram_mem L ptr (Suc n) m =
     (case histogram_mem L ptr n m of (w, m1) \<Rightarrow> (L + 4 * word_at (add_at w 1 m1) ptr n, add_at w 1 m1))"
  by (simp add: histogram_mem_def Let_def split_def)

lemma histogram_loop:
  assumes "packet_apart L (4 * N) m pkt" "N \<le> 2 ^ 30" "\<forall>x\<in>set (payload m pkt). unat x < N"
    "0 < n" "n \<le> pld_words m pkt"
  shows "case histogram_mem L (pld_ptr m pkt) n m of (w, m') \<Rightarrow>
    same_packet m m' pkt \<and> w = L + 4 * payload m pkt ! (n - 1)
    \<and> (\<forall>j<2 ^ 30. word_at m' L j = word_at m L j + of_nat (count_list (map unat (take (n - 1) (payload m pkt))) j))"
  using assms(4,5)
proof (induction n)
  case (Suc n)
  show ?case
  proof (cases "n = 0")
    case True
    then show ?thesis using Suc.prems by (simp add: payload_nth histogram_mem_def)
  next
    case False
    obtain w m1 where f: "histogram_mem L (pld_ptr m pkt) n m = (w, m1)" by (cases "histogram_mem L (pld_ptr m pkt) n m")
    let ?x = "unat (payload m pkt ! (n - 1))"
    have "payload m pkt ! (n - 1) \<in> set (payload m pkt)" using Suc.prems False by (intro nth_mem) simp
    then have x: "?x < N" using assms(3) by simp
    have IH: "same_packet m m1 pkt" "w = L + 4 * of_nat ?x"
      "\<forall>j<2 ^ 30. word_at m1 L j = word_at m L j + of_nat (count_list (map unat (take (n - 1) (payload m pkt))) j)"
      using Suc False f by simp_all
    have "packet_apart w 4 m1 pkt"
      using packet_apart_word [OF assms(1) x] same_packet_apart [OF IH(1)] IH(2) by simp
    then have same: "same_packet m (add_at w 1 m1) pkt"
      by (intro same_packet_trans [OF IH(1)] add_at_same_packet)
    have "word_at (add_at w 1 m1) (pld_ptr m pkt) n = payload m pkt ! n"
      using same_packet_word [OF same] Suc.prems by simp
    moreover have "take n (payload m pkt) = take (n - 1) (payload m pkt) @ [payload m pkt ! (n - 1)]"
      using Suc.prems False take_Suc_conv_app_nth [of "n - 1" "payload m pkt"] by simp
    moreover have "word_at (add_at w 1 m1) L j = word_at m1 L j + (if ?x = j then 1 else 0)" if "j < 2 ^ 30" for j
      using word_at_add_at [of ?x j L 1 m1] x assms(2) that IH(2) by simp
    ultimately show ?thesis
      using same IH(3) False by (auto simp: histogram_mem_Suc f)
  qed
qed simp

section \<open>Handlers that print\<close>

lemma printf_trace:
  "printf p fmt va t = (case tfp_format snoc fmt p va [] of None \<Rightarrow> None | Some cs \<Rightarrow>
     Some (0, t @ map (\<lambda>c. MWrite STDOUT_REG (ucast c)) cs))"
proof -
  have "foldl tfp_putc t cs = t @ map (\<lambda>c. MWrite STDOUT_REG (ucast c)) cs" for cs
    by (induction cs arbitrary: t) (simp_all add: tfp_putc_def rt_putc_stdout_def mmio_write_def)
  then show ?thesis
    by (simp add: printf_def tfp_format_chars [of tfp_putc] split: option.split)
qed

lemma issued_stdout: "issued (t @ map (\<lambda>c. MWrite STDOUT_REG (ucast c)) cs) = issued t"
proof (induction cs rule: rev_induct)
  case (snoc c cs)
  have "issued (t' @ [MWrite a v]) = issued t'" for t' a v
    using issued_write [of a v t'] by (simp add: mmio_write_def)
  with snoc show ?case by (simp flip: append_assoc)
qed simp

lemma prints: "\<exists>cs. tfp_format snoc fmt p va [] = Some cs \<Longrightarrow> \<exists>r t'. printf p fmt va t = Some (r, t')"
  by (auto simp: printf_trace)

lemma printf_issued: "printf p fmt va t = Some (r, t') \<Longrightarrow> issued t' = issued t"
  by (auto simp: printf_trace issued_stdout split: option.splits)

lemma format_literal: "ch \<noteq> 0 \<Longrightarrow> ch \<noteq> 37 \<Longrightarrow> tfp_format snoc (ch # fmt) p va s = tfp_format snoc fmt p va (s @ [ch])"
  by (simp add: snoc_def)

lemma format_u:
  "\<exists>p' cs. tfp_format snoc (37 # 117 # fmt) p (VA32 v # va) s = tfp_format snoc fmt p' va (s @ cs)"
  using conversions_ok(3) [of "p\<lparr>lz := False, alt := False, width := 0, align_left := False, psign := 0, base := 10\<rparr>" v]
  by (auto simp: format_plain [of _ snoc] convert_def conv_u_def putchw_field simp del: tfp_format.simps(2))

lemma format_p:
  "\<exists>p' cs. tfp_format snoc (37 # 112 # fmt) p (VA32 v # va) s = tfp_format snoc fmt p' va (s @ cs)"
  using conversions_ok(3) [of "p\<lparr>lz := False, width := 0, align_left := False, psign := 0, alt := True, base := 16, uc := False\<rparr>" v]
  by (auto simp: format_plain [of _ snoc] convert_def conv_u_def putchw_field simp del: tfp_format.simps(2))

lemma local_mem_format: "\<exists>cs. tfp_format snoc (cstring (''address of local_mem: %p'' @ [CHR 0x0A])) p [VA32 v] [] = Some cs"
proof -
  obtain p' cs where "tfp_format snoc (37 # 112 # [10]) p [VA32 v] (map of_char ''address of local_mem: '') =
      tfp_format snoc [10] p' [] (map of_char ''address of local_mem: '' @ cs)"
    using format_p by blast
  then show ?thesis
    by (simp add: cstring_def format_literal del: tfp_format.simps(2))
qed

lemma aggregate_format:
  "\<exists>cs. tfp_format snoc (cstring (''address of scratchpad[%u]: %p, aggregator: %u'' @ [CHR 0x0A] @ '', value %u''))
     p [VA32 a, VA32 b, VA32 c, VA32 d] [] = Some cs"
proof -
  obtain p1 c1 where 1: "tfp_format snoc (37 # 117 # map of_char ('']: %p, aggregator: %u'' @ [CHR 0x0A] @ '', value %u''))
      p [VA32 a, VA32 b, VA32 c, VA32 d] (map of_char ''address of scratchpad['') =
      tfp_format snoc (map of_char ('']: %p, aggregator: %u'' @ [CHR 0x0A] @ '', value %u''))
      p1 [VA32 b, VA32 c, VA32 d] (map of_char ''address of scratchpad['' @ c1)"
    using format_u by blast
  obtain p2 c2 where 2: "tfp_format snoc (37 # 112 # map of_char ('', aggregator: %u'' @ [CHR 0x0A] @ '', value %u''))
      p1 [VA32 b, VA32 c, VA32 d] ((map of_char ''address of scratchpad['' @ c1) @ map of_char '']: '') =
      tfp_format snoc (map of_char ('', aggregator: %u'' @ [CHR 0x0A] @ '', value %u''))
      p2 [VA32 c, VA32 d] (((map of_char ''address of scratchpad['' @ c1) @ map of_char '']: '') @ c2)"
    using format_p by blast
  let ?s = "((map of_char ''address of scratchpad['' @ c1) @ map of_char '']: '') @ c2"
  obtain p3 c3 where 3: "tfp_format snoc (37 # 117 # map of_char ([CHR 0x0A] @ '', value %u''))
      p2 [VA32 c, VA32 d] (?s @ map of_char '', aggregator: '') =
      tfp_format snoc (map of_char ([CHR 0x0A] @ '', value %u''))
      p3 [VA32 d] ((?s @ map of_char '', aggregator: '') @ c3)"
    using format_u by blast
  obtain p4 c4 where 4: "tfp_format snoc (37 # 117 # [])
      p3 [VA32 d] (((?s @ map of_char '', aggregator: '') @ c3) @ map of_char ([CHR 0x0A] @ '', value '')) =
      tfp_format snoc [] p4 [] ((((?s @ map of_char '', aggregator: '') @ c3) @ map of_char ([CHR 0x0A] @ '', value '')) @ c4)"
    using format_u by blast
  from 1 2 3 4 show ?thesis
    by (simp add: cstring_def format_literal del: tfp_format.simps(2))
qed

lemma size_format: "\<exists>cs. tfp_format snoc (cstring (''size of scratchpad: %u'' @ [CHR 0x0A])) p [VA32 v] [] = Some cs"
proof -
  obtain p' cs where "tfp_format snoc (37 # 117 # [10]) p [VA32 v] (map of_char ''size of scratchpad: '') =
      tfp_format snoc [10] p' [] (map of_char ''size of scratchpad: '' @ cs)"
    using format_u by blast
  then show ?thesis
    by (simp add: cstring_def format_literal del: tfp_format.simps(2))
qed

lemma added_format:
  "\<exists>cs. tfp_format snoc (cstring (''Cluster %u added %u to scratchpad. New value: %u'' @ [CHR 0x0A]))
     p [VA32 a, VA32 b, VA32 c] [] = Some cs"
proof -
  obtain p1 c1 where 1: "tfp_format snoc (37 # 117 # map of_char ('' added %u to scratchpad. New value: %u'' @ [CHR 0x0A]))
      p [VA32 a, VA32 b, VA32 c] (map of_char ''Cluster '') =
      tfp_format snoc (map of_char ('' added %u to scratchpad. New value: %u'' @ [CHR 0x0A]))
      p1 [VA32 b, VA32 c] (map of_char ''Cluster '' @ c1)"
    using format_u by blast
  let ?s = "(map of_char ''Cluster '' @ c1) @ map of_char '' added ''"
  obtain p2 c2 where 2: "tfp_format snoc (37 # 117 # map of_char ('' to scratchpad. New value: %u'' @ [CHR 0x0A]))
      p1 [VA32 b, VA32 c] ?s =
      tfp_format snoc (map of_char ('' to scratchpad. New value: %u'' @ [CHR 0x0A])) p2 [VA32 c] (?s @ c2)"
    using format_u by blast
  obtain p3 c3 where 3: "tfp_format snoc (37 # 117 # [10])
      p2 [VA32 c] ((?s @ c2) @ map of_char '' to scratchpad. New value: '') =
      tfp_format snoc [10] p3 [] (((?s @ c2) @ map of_char '' to scratchpad. New value: '') @ c3)"
    using format_u by blast
  from 1 2 3 show ?thesis
    by (simp add: cstring_def format_literal del: tfp_format.simps(2))
qed

section \<open>Properties of the other reductions\<close>

lemma word_high_low: "low32 (ucast x) = x" "high32 (ucast x) = 0" for x :: u32
  by (rule bit_word_eqI; auto simp: low32_def high32_def bit_simps dest: bit_imp_le_length)+

lemma reduce_mem_same: "packet_apart L (4 * N) m pkt \<Longrightarrow> n \<le> N \<Longrightarrow> same_packet m (reduce_mem L ptr n m) pkt"
proof (induction n)
  case 0
  then show ?case by (simp add: reduce_mem_def)
next
  case (Suc n)
  then have same: "same_packet m (reduce_mem L ptr n m) pkt" by simp
  have "packet_apart (L + 4 * of_nat n) 4 (reduce_mem L ptr n m) pkt"
    using packet_apart_word [OF Suc.prems(1), of n] Suc.prems(2) same_packet_apart [OF same] by simp
  then show ?case
    unfolding reduce_mem_Suc by (intro same_packet_trans [OF same] add_at_same_packet)
qed

lemma reduce_l1_ph_eq:
  "\<exists>t'. reduce_l1_ph p0 args c = Some (c\<lparr>tr := t', ram := reduce_mem (scratchpad (args_task args) ! unat (cluster_id args))
      (pld_ptr (ram c) (packet_of args)) (pld_words (ram c) (packet_of args)) (ram c)\<rparr>) \<and> issued t' = issued (tr c)"
proof -
  obtain r t' where p: "printf p0 (cstring (''address of local_mem: %p'' @ [CHR 0x0A]))
      [VA32 (scratchpad (args_task args) ! unat (cluster_id args))] (tr c) = Some (r, t')"
    using prints [OF local_mem_format] by blast
  then show ?thesis
    using printf_issued [OF p]
    by (intro exI [of _ t'])
      (simp add: reduce_l1_ph_def Let_def split_def reduce_mem_def packet_of_def pld_ptr_def pld_words_def)
qed

text \<open>Handlers one after the other.\<close>

fun run_handlers :: "(handler_args \<Rightarrow> core \<Rightarrow> core option) \<Rightarrow> handler_args list \<Rightarrow> core \<Rightarrow> core option" where
  "run_handlers h [] c = Some c"
| "run_handlers h (a # as) c = (case h a c of None \<Rightarrow> None | Some c \<Rightarrow> run_handlers h as c)"

text \<open>
  After \<open>reduce_l1_ph\<close> on any number of packets of up to \<open>N\<close> words for one scratchpad outside
  them, word \<open>j\<close> of the scratchpad has grown by the sum of the words \<open>j\<close> of the payloads that have one;
  no command is issued.
\<close>

theorem reduce_l1_columns:
  assumes "N \<le> 2 ^ 30" "\<forall>args\<in>set as. scratchpad (args_task args) ! unat (cluster_id args) = L
      \<and> packet_apart L (4 * N) (ram c) (packet_of args) \<and> pld_words (ram c) (packet_of args) \<le> N"
  shows "\<exists>c'. run_handlers (reduce_l1_ph p0) as c = Some c' \<and> issued (tr c') = issued (tr c)
    \<and> (\<forall>j<N. word_at (ram c') L j = word_at (ram c) L j
        + (\<Sum>args\<leftarrow>as. let pl = payload (ram c) (packet_of args) in if j < length pl then pl ! j else 0))"
  using assms(2)
proof (induction as arbitrary: c)
  case (Cons a as)
  let ?m = "reduce_mem L (pld_ptr (ram c) (packet_of a)) (pld_words (ram c) (packet_of a)) (ram c)"
  obtain t' where t': "reduce_l1_ph p0 a c = Some (c\<lparr>tr := t', ram := ?m\<rparr>)" "issued t' = issued (tr c)"
    using reduce_l1_ph_eq [of p0 a c] Cons.prems by auto
  have cols: "\<forall>j<2 ^ 30. word_at ?m L j = word_at (ram c) L j
      + (if j < pld_words (ram c) (packet_of a) then payload (ram c) (packet_of a) ! j else 0)"
    using reduce_loop [of L N "ram c" "packet_of a"] Cons.prems assms(1) by simp
  have same: "same_packet (ram c) ?m (packet_of b)" if "b \<in> set (a # as)" for b
    using reduce_mem_same [of L N "ram c" "packet_of b" "pld_words (ram c) (packet_of a)"] Cons.prems that assms(1) by auto
  have "\<forall>b\<in>set as. scratchpad (args_task b) ! unat (cluster_id b) = L
      \<and> packet_apart L (4 * N) ?m (packet_of b) \<and> pld_words ?m (packet_of b) \<le> N"
    using Cons.prems same same_packet_apart [OF same] by (auto simp: same_packet_def)
  from Cons.IH [of "c\<lparr>tr := t', ram := ?m\<rparr>"] this obtain c' where
    c': "run_handlers (reduce_l1_ph p0) as (c\<lparr>tr := t', ram := ?m\<rparr>) = Some c'" "issued (tr c') = issued t'"
      "\<forall>j<N. word_at (ram c') L j = word_at ?m L j
        + (\<Sum>args\<leftarrow>as. let pl = payload ?m (packet_of args) in if j < length pl then pl ! j else 0)"
    by auto
  have "(\<Sum>b\<leftarrow>as. let pl = payload ?m (packet_of b) in if j < length pl then pl ! j else 0)
      = (\<Sum>b\<leftarrow>as. let pl = payload (ram c) (packet_of b) in if j < length pl then pl ! j else 0)" for j
    using same by (intro arg_cong [where f = sum_list] map_cong) (simp_all add: same_packet_def)
  then show ?case
    using t' c' cols assms(1) by (auto simp: Let_def)
qed simp

text \<open>One word per packet: 5 and 7 into the first word of the scratchpad of cluster 1.\<close>

theorem reduce_l1_columns_witness:
  "\<exists>c'. run_handlers (reduce_l1_ph (\<lparr>lz = False, alt = False, uc = False, align_left = False, width = 0,
      psign = 0, base = 0, bf = []\<rparr>)) [demo_args 0x100 1, demo_args 0x200 1] demo_core = Some c'
    \<and> word_at (ram c') 0x2000 0 = 12"
proof -
  have "\<forall>args\<in>set [demo_args 0x100 1, demo_args 0x200 1]. scratchpad (args_task args) ! unat (cluster_id args) = 0x2000
      \<and> packet_apart 0x2000 (4 * 1) (ram demo_core) (packet_of args) \<and> pld_words (ram demo_core) (packet_of args) \<le> 1"
    by (auto simp: packet_of_def packet_apart_def pld_ptr_def pld_words_def demo_pld intro!: sepI)
  moreover have "word_at (ram demo_core) 0x2000 0 = 0" by (simp add: demo_core_def word_at_def load32_def)
  ultimately show ?thesis
    using reduce_l1_columns [where N = 1 and as = "[demo_args 0x100 1, demo_args 0x200 1]" and L = "0x2000" and c = demo_core]
    by (fastforce simp: packet_of_def demo_payload Let_def)
qed

text \<open>
  For a packet whose words are all below \<open>N\<close>, \<open>histogram_l1_ph\<close> adds to each bin of the scratchpad how often it
  occurs among the words before the last one, and does not count the last word of the packet.
\<close>

theorem histogram_counts:
  fixes args c
  defines "pkt \<equiv> packet_of args" and "L \<equiv> scratchpad (args_task args) ! unat (cluster_id args)"
  assumes "N \<le> 2 ^ 30" "packet_apart L (4 * N) (ram c) pkt" "\<forall>x\<in>set (payload (ram c) pkt). unat x < N"
    "payload (ram c) pkt \<noteq> []"
  shows "\<forall>j<2 ^ 30. word_at (ram (histogram_l1_ph args c)) L j =
    word_at (ram c) L j + of_nat (count_list (map unat (butlast (payload (ram c) pkt))) j)"
proof -
  have n: "0 < pld_words (ram c) pkt" using assms(6) by (simp flip: length_payload)
  have "butlast (payload (ram c) pkt) = take (pld_words (ram c) pkt - 1) (payload (ram c) pkt)"
    by (simp add: butlast_conv_take)
  moreover have "ram (histogram_l1_ph args c) =
      snd (histogram_mem L (pld_ptr (ram c) pkt) (pld_words (ram c) pkt) (ram c))"
    by (simp add: histogram_l1_ph_def histogram_mem_def Let_def split_def pkt_def L_def packet_of_def
        pld_ptr_def pld_words_def)
  ultimately show ?thesis
    using histogram_loop [OF assms(4,3,5) n order_refl] by (simp add: split_def)
qed

theorem histogram_counts_witness:
  "word_at (ram (histogram_l1_ph (demo_args 0x100 1) demo_core)) 0x2000 5 = 0"
proof -
  have "packet_apart (scratchpad (args_task (demo_args 0x100 1)) ! unat (cluster_id (demo_args 0x100 1))) (4 * 8)
      (ram demo_core) (packet_of (demo_args 0x100 1))"
    by (auto simp: packet_of_def packet_apart_def pld_ptr_def pld_words_def demo_pld intro!: sepI)
  moreover have "word_at (ram demo_core) 0x2000 5 = 0" by (simp add: demo_core_def word_at_def load32_def)
  ultimately show ?thesis
    using histogram_counts [of 8 "demo_args 0x100 1" demo_core] by (simp add: packet_of_def demo_payload)
qed

text \<open>
  \<open>aggregate_global_ph\<close> only prints: memory, descriptor and commands stay as they are. In
  \<^verbatim>\<open>aggregate_and_reduce\<close> the payload's sum is added to the scratchpad pointer in the
  descriptor. Either completion handler writes the host the sum of the four pointers, not of the words they point to.
\<close>

theorem aggregate_reports_pointers:
  fixes dev p0 args c
  defines "reported \<equiv> \<lambda>a t. issued t @ [\<lparr>word0 = Some (host_mem_low (args_task a)), word1 = Some (host_mem_high (args_task a)),
    word2 = Some 17, word3 = Some (\<Sum>i<NB_CLUSTERS. scratchpad (args_task a) ! i), word4 = Some 0, cmd_info = Some 4\<rparr>]"
  defines "my \<equiv> unat (cluster_id args)" and "sp \<equiv> scratchpad (args_task args)"
  shows "(\<exists>c'. aggregate_global_ph p0 args c = Some c' \<and> ram c' = ram c \<and> issued (tr c') = issued (tr c))
    \<and> (\<exists>c'. ar_aggregate_ph p0 args c = Some (args\<lparr>args_task := (args_task args)\<lparr>scratchpad :=
          sp[my := sp ! my + sum_list (payload (ram c) (packet_of args))]\<rparr>\<rparr>, c')
        \<and> ram c' = ram c \<and> issued (tr c') = issued (tr c))
    \<and> issued (tr (aggregate_global_th dev args c)) = reported args (tr c)
    \<and> issued (tr (ar_aggregate_th dev args c)) = reported args (tr c)"
proof (intro conjI)
  let ?v = "sum_list (payload (ram c) (packet_of args))"
  obtain r t1 where p1: "printf p0 (cstring (''address of scratchpad[%u]: %p, aggregator: %u'' @ [CHR 0x0A] @ '', value %u''))
      [VA32 (cluster_id args), VA32 (scratchpad_word (cluster_id args)), VA32 ?v, VA32 (sp ! my)] (tr c) = Some (r, t1)"
    using prints [OF aggregate_format] by blast
  obtain r' t2 where p2: "printf p0 (cstring (''size of scratchpad: %u'' @ [CHR 0x0A]))
      [VA32 (scratchpad_size (args_task args) ! my)] t1 = Some (r', t2)"
    using prints [OF size_format] by blast
  show "\<exists>c'. aggregate_global_ph p0 args c = Some c' \<and> ram c' = ram c \<and> issued (tr c') = issued (tr c)"
    using p1 p2 printf_issued [OF p1] printf_issued [OF p2]
    by (simp add: aggregate_global_ph_def Let_def split_def my_def sp_def packet_of_def
        flip: payload_sum pld_ptr_def pld_words_def)
  obtain r3 t3 where p3: "printf p0 (cstring (''Cluster %u added %u to scratchpad. New value: %u'' @ [CHR 0x0A]))
      [VA32 (cluster_id args), VA32 ?v, VA32 (sp[my := sp ! my + ?v] ! my)] (tr c) = Some (r3, t3)"
    using prints [OF added_format] by blast
  show "\<exists>c'. ar_aggregate_ph p0 args c = Some (args\<lparr>args_task := (args_task args)\<lparr>scratchpad :=
          sp[my := sp ! my + ?v]\<rparr>\<rparr>, c') \<and> ram c' = ram c \<and> issued (tr c') = issued (tr c)"
    using p3 printf_issued [OF p3]
    by (intro exI [of _ "c\<lparr>tr := t3\<rparr>"])
      (simp add: ar_aggregate_ph_def Let_def split_def my_def sp_def packet_of_def amo_add_def
        flip: payload_sum pld_ptr_def pld_words_def)
  have "fold (\<lambda>i s. s + scratchpad (args_task args) ! i) [0..<n] 0 = (\<Sum>i<n. scratchpad (args_task args) ! i)" for n
    by (induction n) simp_all
  then show "issued (tr (aggregate_global_th dev args c)) = reported args (tr c)"
    "issued (tr (ar_aggregate_th dev args c)) = reported args (tr c)"
    by (simp_all add: aggregate_global_th_def ar_aggregate_th_def command_null_def commands_issued split_def Let_def
        word_high_low reported_def)
qed

text \<open>
  \<open>int_sum_ph\<close> adds the number of words to the progress counter and leaves the stored sum and total as
  they are, for it adds the words to a local copy; \<open>int_sum_th\<close>, when the counter has reached the
  total, writes the host the (sign-extended) address of its local result, not the result.
\<close>

theorem int_sum_never_accumulates:
  fixes args c
  defines "st \<equiv> handler_mem (args_task args)"
  shows "is_sum (ram (int_sum_ph args c)) st = is_sum (ram c) st
    \<and> is_total (ram (int_sum_ph args c)) st = is_total (ram c) st
    \<and> is_processed (ram (int_sum_ph args c)) st = is_processed (ram c) st + of_nat (pld_words (ram c) (packet_of args))
    \<and> issued (tr (int_sum_th dev res args c)) = issued (tr c) @
        (if is_processed (ram c) st = is_total (ram c) st
         then [\<lparr>word0 = Some (host_mem_low (args_task args)), word1 = Some (host_mem_high (args_task args)), word2 = Some 17,
               word3 = Some (low32 (scast res)), word4 = Some (high32 (scast res)), cmd_info = Some 4\<rparr>] else [])"
proof -
  have "sep (st + 4) 4 st 4" "sep (st + 4) 4 (st + 8) 4" "sep (st + 4) 4 (st + 12) 4"
    by (rule sepI; simp)+
  then show ?thesis
    by (simp add: int_sum_ph_def int_sum_th_def is_sum_def is_total_def is_processed_def Let_def split_def st_def
        add_at_other command_null_def commands_issued pld_words_def packet_of_def)
qed

end
