(* ===== verification/Kvs.thy ===== *)
theory Kvs
  imports Reductions
begin

text \<open>
  The key-value store: the header handler on the NIC (\<^verbatim>\<open>examples/kvs/handlers/kvs.c\<close>)
  and the CPU server it is measured against (\<^verbatim>\<open>baseline/cpu_server.c\<close>), both
  as refinements of one abstract store. The array \<open>kv_store\<close> is an object of
  its own, not part of the packet memory.
\<close>

section \<open>The abstract store\<close>

text \<open>A store knows its keys; setting another key is ignored, getting one has no answer.\<close>

datatype request = Get u32 | Set u32 u32 | Other

type_synonym abs_store = "u32 \<rightharpoonup> u32"

fun serve :: "request \<Rightarrow> abs_store \<Rightarrow> u32 option \<times> abs_store" where
  "serve (Get k) s = (s k, s)"
| "serve (Set k v) s = (None, if k \<in> dom s then s(k \<mapsto> v) else s)"
| "serve Other s = (None, s)"

fun serve_all :: "request list \<Rightarrow> abs_store \<Rightarrow> u32 option list \<times> abs_store" where
  "serve_all [] s = ([], s)"
| "serve_all (r # rs) s = (case serve r s of (a, s) \<Rightarrow> case serve_all rs s of (as, s) \<Rightarrow> (a # as, s))"

text \<open>The contract of an implementation: its requests, its answers, its state seen as a store.\<close>

locale kv_server =
  fixes step :: "'in \<Rightarrow> 'st \<Rightarrow> u32 option \<times> 'st"
    and request_of :: "'in \<Rightarrow> request"
    and view :: "'st \<Rightarrow> abs_store"
    and ok :: "'st \<Rightarrow> bool"
    and valid :: "'in \<Rightarrow> bool"
  assumes step_ok: "ok s \<Longrightarrow> ok (snd (step i s))"
    and step_serves: "ok s \<Longrightarrow> valid i \<Longrightarrow>
      (fst (step i s), view (snd (step i s))) = serve (request_of i) (view s)"
begin

fun run :: "'in list \<Rightarrow> 'st \<Rightarrow> u32 option list \<times> 'st" where
  "run [] s = ([], s)"
| "run (i # is) s = (case step i s of (a, s) \<Rightarrow> case run is s of (as, s) \<Rightarrow> (a # as, s))"

lemma run_serves:
  "ok s \<Longrightarrow> \<forall>i\<in>set is. valid i \<Longrightarrow>
    (fst (run is s), view (snd (run is s))) = serve_all (map request_of is) (view s) \<and> ok (snd (run is s))"
proof (induction "is" arbitrary: s)
  case (Cons i "is")
  have "serve (request_of i) (view s) = (fst (step i s), view (snd (step i s)))"
    using step_serves Cons.prems by simp
  with Cons step_ok [of s i] show ?case by (simp add: split_def) (metis prod.collapse prod.inject)
qed simp

end

text \<open>Getting a key gives what was last set to it.\<close>

lemma serve_all_dom: "dom (snd (serve_all rs s)) = dom s"
proof (induction rs arbitrary: s)
  case (Cons r rs)
  have "dom (snd (serve r s)) = dom s" by (cases r) auto
  then show ?case using Cons [of "snd (serve r s)"] by (simp add: split_def)
qed simp

lemma serve_all_append:
  "serve_all (rs @ rs') s = (fst (serve_all rs s) @ fst (serve_all rs' (snd (serve_all rs s))),
     snd (serve_all rs' (snd (serve_all rs s))))"
  by (induction rs arbitrary: s) (simp_all add: split_def)

lemma serve_all_other_keys:
  "\<forall>v. Set k v \<notin> set rs \<Longrightarrow> snd (serve_all rs s) k = s k"
proof (induction rs arbitrary: s)
  case (Cons r rs)
  then have "snd (serve r s) k = s k" by (cases r) auto
  then show ?case using Cons.IH [of "snd (serve r s)"] Cons.prems by (simp add: split_def)
qed simp

lemma serve_get_set:
  "k \<in> dom s \<Longrightarrow> \<forall>v. Set k v \<notin> set rs' \<Longrightarrow>
    snd (serve_all (rs @ Set k v # rs') s) k = Some v"
  using serve_all_dom [of rs s] by (simp add: serve_all_append split_def serve_all_other_keys)

section \<open>The handler\<close>

definition MAX_KEYS :: u32 where "MAX_KEYS = 1024"
definition PKT_HDR_SIZE :: u32 where "PKT_HDR_SIZE = 28"

text \<open>\<open>kvs_header\<close> at an address.\<close>

definition kvs_op :: "mem \<Rightarrow> u32 \<Rightarrow> u32" where "kvs_op m req = load32 m req"
definition kvs_key :: "mem \<Rightarrow> u32 \<Rightarrow> u32" where "kvs_key m req = load32 m (req + 4)"
definition kvs_value :: "mem \<Rightarrow> u32 \<Rightarrow> u32" where "kvs_value m req = load32 m (req + 8)"

text \<open>The UDP header of a \<open>pkt_hdr_t\<close> is at a fixed offset.\<close>

definition swap_headers :: "u32 \<Rightarrow> mem \<Rightarrow> mem" where
  "swap_headers hdr m = swap_ids hdr (hdr + IP_SIZE) m"

definition kvs_header_handler :: "handler_args \<Rightarrow> u32 list \<times> mem \<Rightarrow> u32 list \<times> mem" where
  "kvs_header_handler args s = (case s of (kv_store, m) \<Rightarrow>
     let task = args_task args;
         hdr = pkt_mem task;
         req = pkt_mem task + PKT_HDR_SIZE
     in if kvs_key m req \<ge> MAX_KEYS then (kv_store, m)
        else if kvs_op m req = 2 then (kv_store[unat (kvs_key m req) := kvs_value m req], m)
        else if kvs_op m req = 1 then
          (let val = kv_store ! unat (kvs_key m req);
               m = store32 m (req + 8) val
           in (kv_store, swap_headers hdr m))
        else (kv_store, m))"

text \<open>The store as an abstract one, and the requests and answers of the handler.\<close>

definition kv_view :: "u32 list \<Rightarrow> abs_store" where
  "kv_view kv k = (if k < MAX_KEYS then Some (kv ! unat k) else None)"

definition kv_ok :: "u32 list \<Rightarrow> bool" where
  "kv_ok kv \<longleftrightarrow> length kv = unat MAX_KEYS"

definition decode :: "u32 \<Rightarrow> u32 \<Rightarrow> u32 \<Rightarrow> request" where
  "decode op key value = (if op = 2 then Set key value else if op = 1 then Get key else Other)"

definition request_at :: "mem \<Rightarrow> u32 \<Rightarrow> request" where
  "request_at m pkt = decode (kvs_op m (pkt + PKT_HDR_SIZE)) (kvs_key m (pkt + PKT_HDR_SIZE)) (kvs_value m (pkt + PKT_HDR_SIZE))"

text \<open>The answer is in the packet exactly when its header was turned around.\<close>

definition nic_step :: "handler_args \<times> mem \<Rightarrow> u32 list \<Rightarrow> u32 option \<times> u32 list" where
  "nic_step i kv = (case i of (args, m) \<Rightarrow>
     case kvs_header_handler args (kv, m) of (kv', m') \<Rightarrow>
       (if kvs_op m (packet_of args + PKT_HDR_SIZE) = 1 \<and> kvs_key m (packet_of args + PKT_HDR_SIZE) < MAX_KEYS
        then Some (kvs_value m' (packet_of args + PKT_HDR_SIZE)) else None, kv'))"

lemma kvs_seps:
  "sep p 20 (p + 20) 8" "sep (p + 12) 8 (p + 36) 4" "sep (p + 20) 4 (p + 36) 4"
  by (rule sepI; simp)+

lemma swap_headers_value [simp]: "load32 (swap_headers p m) (36 + p) = load32 m (36 + p)"
  using swap_ids_load(3) [OF kvs_seps(2,3) refl, of p m] by (simp add: swap_headers_def IP_SIZE_def add.commute)

lemma kv_view_set: "kv_ok kv \<Longrightarrow> k < MAX_KEYS \<Longrightarrow> kv_view (kv[unat k := v]) = (kv_view kv)(k \<mapsto> v)"
  by (auto simp: kv_view_def kv_ok_def fun_eq_iff nth_list_update word_less_nat_alt word_unat_eq_iff)

lemma kv_view_dom: "k \<in> dom (kv_view kv) \<longleftrightarrow> k < MAX_KEYS"
  by (auto simp: kv_view_def split: if_splits)

lemma nic_step_serves:
  "kv_ok kv \<Longrightarrow> (fst (nic_step (args, m) kv), kv_view (snd (nic_step (args, m) kv)))
     = serve (request_at m (packet_of args)) (kv_view kv)"
  by (auto simp: nic_step_def kvs_header_handler_def Let_def packet_of_def request_at_def decode_def kv_view_set
      kv_view_dom kvs_value_def PKT_HDR_SIZE_def not_le) (auto simp: kv_view_def not_less)

interpretation nic: kv_server nic_step "\<lambda>(args, m). request_at m (packet_of args)" kv_view kv_ok "\<lambda>_. True"
proof
  show "kv_ok (snd (nic_step i s))" if "kv_ok s" for i s
    using that by (auto simp: nic_step_def kvs_header_handler_def Let_def kv_ok_def split: prod.splits)
  show "(fst (nic_step i s), kv_view (snd (nic_step i s))) =
      serve (case i of (args, m) \<Rightarrow> request_at m (packet_of args)) (kv_view s)" if "kv_ok s" for i s
    using that nic_step_serves by (cases i) simp
qed

section \<open>The CPU server\<close>

text \<open>
  \<open>recvfrom\<close> gives its result and the bytes it wrote; it writes none when it fails
  with \<open>-1\<close>. The host is a 64-bit machine: the result is compared with
  \<^verbatim>\<open>sizeof (kvs_req_t)\<close> as an unsigned 64-bit number.
\<close>

record kvs_server =
  sv_store :: "u32 list"
  sv_buffer :: "u8 list"

definition received :: "u8 list \<Rightarrow> u8 list \<Rightarrow> u8 list" where
  "received data buf = data @ drop (length data) buf"

definition kvs_server_step :: "i32 \<times> u8 list \<Rightarrow> kvs_server \<Rightarrow> u32 option \<times> kvs_server" where
  "kvs_server_step r s = (case r of (n, data) \<Rightarrow>
     let buffer = received data (sv_buffer s); s = s\<lparr>sv_buffer := buffer\<rparr>
     in if (scast n :: u64) < 12 then (None, s)
        else if le32 buffer 1 < MAX_KEYS then
          (if le32 buffer 0 = 2 then (None, s\<lparr>sv_store := (sv_store s)[unat (le32 buffer 1) := le32 buffer 2]\<rparr>)
           else if le32 buffer 0 = 1 then
             (let value = sv_store s ! unat (le32 buffer 1)
              in (Some value, s\<lparr>sv_buffer := take 8 buffer @ [ucast value, ucast (drop_bit 8 value),
                    ucast (drop_bit 16 value), ucast (drop_bit 24 value)] @ drop 12 buffer\<rparr>))
           else (None, s))
        else (None, s))"

definition datagram_request :: "i32 \<times> u8 list \<Rightarrow> request" where
  "datagram_request r = decode (le32 (snd r) 0) (le32 (snd r) 1) (le32 (snd r) 2)"

definition full_datagram :: "i32 \<times> u8 list \<Rightarrow> bool" where
  "full_datagram r \<longleftrightarrow> 12 \<le> sint (fst r) \<and> 12 \<le> length (snd r)"

lemma le32_received: "12 \<le> length data \<Longrightarrow> i < 3 \<Longrightarrow> le32 (received data buf) i = le32 data i"
proof -
  assume "12 \<le> length data" "i < 3"
  moreover from \<open>i < 3\<close> have "i = 0 \<or> i = 1 \<or> i = 2" by auto
  ultimately show ?thesis by (auto simp: le32_def load32_def received_def nth_append)
qed

lemma big_enough: "12 \<le> sint n \<Longrightarrow> \<not> (scast (n :: i32) :: u64) < 12"
proof -
  assume n: "12 \<le> sint n"
  have "uint (scast n :: u64) = take_bit 64 (sint n)"
    by (simp only: scast_eq unsigned_of_int len_num1 len_bit0 len_bit1 len_num0) simp
  also have "\<dots> = sint n" by (rule take_bit_int_eq_self) (use n sint_i32_bounds [of n] in simp_all)
  finally have "uint (scast n :: u64) = sint n" .
  then show ?thesis using n by (simp add: word_less_def)
qed

interpretation cpu: kv_server kvs_server_step datagram_request "\<lambda>s. kv_view (sv_store s)" "\<lambda>s. kv_ok (sv_store s)" full_datagram
proof
  show "kv_ok (sv_store (snd (kvs_server_step i s)))" if "kv_ok (sv_store s)" for i s
    using that by (auto simp: kvs_server_step_def Let_def kv_ok_def split: prod.splits)
  show "(fst (kvs_server_step i s), kv_view (sv_store (snd (kvs_server_step i s)))) =
      serve (datagram_request i) (kv_view (sv_store s))" if "kv_ok (sv_store s)" "full_datagram i" for i s
    using that by (cases i)
      (auto simp: kvs_server_step_def Let_def datagram_request_def decode_def full_datagram_def big_enough
        le32_received kv_view_set kv_view_dom, (simp add: kv_view_def)+)
qed

text \<open>A packet at address \<open>0x100\<close> with a request, and the datagram of the same request.\<close>

definition demo_request :: "u8 \<Rightarrow> u8 \<Rightarrow> u8 \<Rightarrow> mem" where
  "demo_request op key value = (\<lambda>_. 0)(0x11C := op, 0x120 := key, 0x124 := value)"

lemma demo_request_at: "request_at (demo_request op key value) (packet_of (demo_args 0x100 0)) =
    decode (ucast op) (ucast key) (ucast value)"
  by (simp add: request_at_def packet_of_def PKT_HDR_SIZE_def kvs_op_def kvs_key_def kvs_value_def demo_request_def load32_def)

lemma demo_store: "kv_ok (replicate 1024 0)"
  by (simp add: kv_ok_def MAX_KEYS_def)

section \<open>Properties\<close>

text \<open>
  C15: over any sequence of packets the handler, with its array of \<open>MAX_KEYS\<close> words, is the abstract store; in particular, after a packet that sets
  an existing key and any later ones that do not set it, a packet that gets it is answered with that value.
\<close>

theorem kvs_get_after_set:
  fixes before after set_pkt get_pkt
  defines "req \<equiv> \<lambda>(args, m). request_at m (packet_of args)"
  assumes "kv_ok kv" "k < MAX_KEYS" "req set_pkt = Set k v" "\<forall>i\<in>set after. \<forall>v'. req i \<noteq> Set k v'" "req get_pkt = Get k"
  shows "(fst (nic.run (before @ set_pkt # after) kv), kv_view (snd (nic.run (before @ set_pkt # after) kv)))
      = serve_all (map req (before @ set_pkt # after)) (kv_view kv)
    \<and> fst (nic_step get_pkt (snd (nic.run (before @ set_pkt # after) kv))) = Some v"
proof -
  let ?rs = "before @ set_pkt # after"
  have run: "(fst (nic.run ?rs kv), kv_view (snd (nic.run ?rs kv))) = serve_all (map req ?rs) (kv_view kv)"
    "kv_ok (snd (nic.run ?rs kv))"
    using nic.run_serves [OF assms(2), of ?rs] by (simp_all add: req_def)
  have "snd (serve_all (map req before @ Set k v # map req after) (kv_view kv)) k = Some v"
  proof (rule serve_get_set)
    show "k \<in> dom (kv_view kv)" by (simp add: kv_view_dom assms(3))
    show "\<forall>v. Set k v \<notin> set (map req after)"
    proof (intro allI notI)
      fix w assume "Set k w \<in> set (map req after)"
      then obtain i where "i \<in> set after" "Set k w = req i" unfolding set_map by (elim imageE)
      with bspec [OF assms(5), of i] show False by metis
    qed
  qed
  moreover have "snd (serve_all (map req ?rs) (kv_view kv)) = kv_view (snd (nic.run ?rs kv))"
    by (simp only: run(1) [symmetric] snd_conv)
  ultimately have "kv_view (snd (nic.run ?rs kv)) k = Some v"
    by (simp add: assms(4))
  moreover have "fst (nic_step get_pkt (snd (nic.run ?rs kv))) = fst (serve (req get_pkt) (kv_view (snd (nic.run ?rs kv))))"
    unfolding req_def by (simp only: nic.step_serves [OF run(2) TrueI, of get_pkt, symmetric] fst_conv)
  ultimately show ?thesis using run(1) assms(6) by simp
qed

theorem kvs_get_after_set_witness:
  "fst (nic_step (demo_args 0x100 0, demo_request 1 5 0)
     (snd (nic.run [(demo_args 0x100 0, demo_request 2 5 77)] (replicate 1024 0)))) = Some 77"
proof -
  have k: "(5 :: u32) < MAX_KEYS" by (simp add: MAX_KEYS_def)
  show ?thesis
    using kvs_get_after_set [OF demo_store k, of "(demo_args 0x100 0, demo_request 2 5 77)" 77 "[]"
        "(demo_args 0x100 0, demo_request 1 5 0)" "[]"]
    by (simp add: demo_request_at decode_def)
qed

text \<open>
  A packet that gets an existing key comes back with the stored value, its key and operation, and source and
  destination exchanged; every other packet is left as it is.
\<close>

theorem kvs_answer_packet:
  fixes args m kv
  defines "p \<equiv> packet_of args"
  defines "r \<equiv> kvs_header_handler args (kv, m)"
  shows "(if kvs_op m (p + 28) = 1 \<and> kvs_key m (p + 28) < MAX_KEYS
      then kvs_value (snd r) (p + 28) = kv ! unat (kvs_key m (p + 28))
        \<and> kvs_key (snd r) (p + 28) = kvs_key m (p + 28) \<and> kvs_op (snd r) (p + 28) = 1
        \<and> source_id (snd r) p = dest_id m p \<and> dest_id (snd r) p = source_id m p
        \<and> src_port (snd r) (p + 20) = dst_port m (p + 20) \<and> dst_port (snd r) (p + 20) = src_port m (p + 20)
      else snd r = m)"
proof -
  have st: "sep (p + 36) 4 (p + 12) 4" "sep (p + 36) 4 (p + 16) 4" "sep (p + 36) 4 (p + 20) 2"
    "sep (p + 36) 4 (p + 22) 2" "sep (p + 36) 4 (p + 28) 4" "sep (p + 36) 4 (p + 32) 4"
    by (rule sepI; simp)+
  have sw: "sep (p + 12) 8 (p + 28) 4" "sep (p + 20) 4 (p + 28) 4" "sep (p + 12) 8 (p + 32) 4" "sep (p + 20) 4 (p + 32) 4"
    by (rule sepI; simp)+
  have p: "pkt_mem (args_task args) = p" by (simp add: p_def packet_of_def)
  let ?m = "store32 m (p + 36) (kv ! unat (kvs_key m (p + 28)))"
  have r: "snd r = (if kvs_op m (p + 28) = 1 \<and> kvs_key m (p + 28) < MAX_KEYS then swap_ids p (p + 20) ?m else m)"
    by (auto simp: r_def kvs_header_handler_def p Let_def PKT_HDR_SIZE_def swap_headers_def IP_SIZE_def add.assoc)
  have "kvs_value (swap_ids p (p + 20) ?m) (p + 28) = kv ! unat (kvs_key m (p + 28))"
    "kvs_key (swap_ids p (p + 20) ?m) (p + 28) = kvs_key m (p + 28)"
    "kvs_op (swap_ids p (p + 20) ?m) (p + 28) = kvs_op m (p + 28)"
    using swap_ids_load(3) [OF sw(1,2) refl] swap_ids_load(3) [OF sw(3,4) refl] swap_ids_load(3) [OF kvs_seps(2,3) refl, of p] st
    by (simp_all add: kvs_value_def kvs_key_def kvs_op_def add.assoc mem_other)
  moreover have "source_id (swap_ids p (p + 20) ?m) p = dest_id m p" "dest_id (swap_ids p (p + 20) ?m) p = source_id m p"
    "src_port (swap_ids p (p + 20) ?m) (p + 20) = dst_port m (p + 20)"
    "dst_port (swap_ids p (p + 20) ?m) (p + 20) = src_port m (p + 20)"
    using st by (simp_all add: swap_ids [OF kvs_seps(1)]) (simp_all add: header_defs mem_other add.assoc)
  ultimately show ?thesis by (simp add: r)
qed

text \<open>
  C29: a CPU server that starts with the same store of \<open>MAX_KEYS\<close> words and receives the request of each packet as a full datagram gives the answers of the NIC
  and ends with the same store.
\<close>

theorem kvs_server_matches_nic:
  assumes "kv_ok kv" "sv_store s = kv"
    "list_all2 (\<lambda>(args, m) r. full_datagram r \<and> datagram_request r = request_at m (packet_of args)) pkts rs"
  shows "fst (cpu.run rs s) = fst (nic.run pkts kv)
    \<and> kv_view (sv_store (snd (cpu.run rs s))) = kv_view (snd (nic.run pkts kv))"
proof -
  have full: "\<forall>r\<in>set rs. full_datagram r"
  proof
    fix r assume "r \<in> set rs"
    then obtain i where "i < length rs" "r = rs ! i" by (auto simp: in_set_conv_nth)
    with assms(3) show "full_datagram r" by (simp add: list_all2_conv_all_nth split_def)
  qed
  have "map datagram_request rs = map (\<lambda>(args, m). request_at m (packet_of args)) pkts"
    using assms(3) by (auto simp: list_all2_conv_all_nth split_def intro: nth_equalityI)
  then show ?thesis
    using cpu.run_serves [of s rs] nic.run_serves [OF assms(1), of pkts] full assms(1,2)
    by (simp) (metis prod.inject)
qed

theorem kvs_server_matches_nic_witness:
  "fst (cpu.run [(12, [2, 0, 0, 0, 5, 0, 0, 0, 77, 0, 0, 0]), (12, [1, 0, 0, 0, 5, 0, 0, 0, 0, 0, 0, 0])]
      \<lparr>sv_store = replicate 1024 0, sv_buffer = []\<rparr>) =
   fst (nic.run [(demo_args 0x100 0, demo_request 2 5 77), (demo_args 0x100 0, demo_request 1 5 0)] (replicate 1024 0))"
proof -
  have "list_all2 (\<lambda>(args, m) r. full_datagram r \<and> datagram_request r = request_at m (packet_of args))
      [(demo_args 0x100 0, demo_request 2 5 77), (demo_args 0x100 0, demo_request 1 5 0)]
      [(12, [2, 0, 0, 0, 5, 0, 0, 0, 77, 0, 0, 0]), (12, [1, 0, 0, 0, 5, 0, 0, 0, 0, 0, 0, 0])]"
    by (simp add: demo_request_at full_datagram_def datagram_request_def le32_def load32_def)
  then show ?thesis
    using kvs_server_matches_nic [OF demo_store, of "\<lparr>sv_store = replicate 1024 0, sv_buffer = []\<rparr>"]
    by (simp only: kvs_server.simps refl simp_thms)
qed

text \<open>
  When \<open>recvfrom\<close> fails, the comparison of \<open>-1\<close> with the size of a request is one of unsigned numbers: the
  server does not skip the round but serves the request still in its buffer once more.
\<close>

theorem kvs_server_replays_on_error:
  "kvs_server_step (-1, []) s = kvs_server_step (12, take 12 (sv_buffer s)) s"
proof -
  have "(scast (-1 :: i32) :: u64) = -1" by (rule scast_n1)
  moreover have "received (take 12 (sv_buffer s)) (sv_buffer s) = sv_buffer s"
    by (cases "length (sv_buffer s) < 12") (simp_all add: received_def)
  moreover have "\<not> (scast (12 :: i32) :: u64) < 12" by (rule big_enough) simp
  moreover have "received [] (sv_buffer s) = sv_buffer s" by (simp add: received_def)
  moreover have "\<not> (-1 :: u64) < 12" using word_n1_ge [of 12] by (simp only: not_less)
  ultimately show ?thesis
    by (simp add: kvs_server_step_def Let_def)
qed

end
