(* ===== verification/Gdriver.thy ===== *)
theory Gdriver
  imports Packets
begin

text \<open>
  The generic driver of the examples (\<^verbatim>\<open>generic_driver/gdriver.c\<close>): it registers execution contexts
  (handlers and memory regions) with the simulator, generates packets or replays a trace, runs the simulation and
  compares the number of packets processed with the number sent. The simulator (\<^verbatim>\<open>pspinsim\<close>, C++ around the
  generated hardware model) and the command line parser (generated) are parameters; what the driver
  asks of the simulator is a list of calls. A failed assertion, a write past the end of an
  array, a read past the end of a row, a call of a null function pointer and \<^verbatim>\<open>abort\<close> end the program.
\<close>

section \<open>State\<close>

datatype gd_fail = AssertFailed | Overflow | NullCall | Aborted | OutOfRow

definition GDRIVER_OK :: i32 where "GDRIVER_OK = 0"
definition GDRIVER_ERR :: i32 where "GDRIVER_ERR = 1"
definition GDRIVER_MATCHING_CTX_MAXSIZE :: nat where "GDRIVER_MATCHING_CTX_MAXSIZE = 256"
definition SPIN_SUCCESS :: i32 where "SPIN_SUCCESS = 0"

definition SLM_FILES :: string where "SLM_FILES = ''build/slm_files/''"
definition MAGIC_PATH :: string where "MAGIC_PATH = ''NULL''"
definition EC_MAX_NUM :: nat where "EC_MAX_NUM = 2"
definition NUM_CLUSTERS :: nat where "NUM_CLUSTERS = 4"

definition NIC_L2_ADDR :: u32 where "NIC_L2_ADDR = 0x1c300000"
definition NIC_L2_SIZE :: u32 where "NIC_L2_SIZE = 1024 * 1024"
definition NIC_L2_EC_CHUNK_SIZE :: u32 where "NIC_L2_EC_CHUNK_SIZE = NIC_L2_SIZE div of_nat EC_MAX_NUM"
definition HOST_ADDR :: u64 where "HOST_ADDR = 0xdeadbeefdeadbeef"
definition HOST_SIZE :: u32 where "HOST_SIZE = 1024 * 1024 * 1024"
definition HOST_EC_CHUNK_SIZE :: u32 where "HOST_EC_CHUNK_SIZE = HOST_SIZE div of_nat EC_MAX_NUM"
definition SCRATCHPAD_REL_ADDR :: u32 where "SCRATCHPAD_REL_ADDR = 0"
definition SCRATCHPAD_SIZE :: u32 where "SCRATCHPAD_SIZE = 800 * 1024"
definition SCRATCHPAD_EC_CHUNK_SIZE :: u32 where "SCRATCHPAD_EC_CHUNK_SIZE = SCRATCHPAD_SIZE div of_nat EC_MAX_NUM"

text \<open>The product is one of 32-bit numbers, the base may be wider.\<close>

definition EC_MEM_BASE_ADDR :: "u32 \<Rightarrow> 'a :: len word \<Rightarrow> u32 \<Rightarrow> 'a word" where
  "EC_MEM_BASE_ADDR gectx_id base_a chunk_size = base_a + ucast (gectx_id * chunk_size)"

record spin_ec =
  ec_handler_mem_addr :: u32
  ec_handler_mem_size :: u32
  ec_host_mem_addr :: u64
  ec_host_mem_size :: u32
  ec_hh_addr :: u32
  ec_hh_size :: u32
  ec_ph_addr :: u32
  ec_ph_size :: u32
  ec_th_addr :: u32
  ec_th_size :: u32
  ec_scratchpad_addr :: "u32 list"
  ec_scratchpad_size :: "u32 list"

text \<open>
  What a packet filler works on: the memory, the number of calls of \<open>rand\<close>
  so far, and the one global variable a filler updates. Its arguments are the message, the packet, the
  buffer and the size; its results the return value, the value stored through \<open>l1_pkt_size\<close>, if any, and the state.
\<close>

record world =
  wmem :: mem
  rand_calls :: nat
  expected_total_sum :: u64

type_synonym fill_fun = "u32 \<Rightarrow> u32 \<Rightarrow> u32 \<Rightarrow> u32 \<Rightarrow> world \<Rightarrow> gd_fail + u32 \<times> u32 option \<times> world"

record gectx =
  ectx :: spin_ec
  pkt_fill_cb :: "fill_fun option"
  matching_ctx :: string

record gdriver_ttrace =
  trace_path :: string
  packets_parsed :: u32
  matching_cb :: "(string \<Rightarrow> string \<Rightarrow> i32) option"

record gdriver_tgen =
  num_messages :: u32
  num_packets :: u32
  packet_size :: u32
  packet_delay :: u32
  message_delay :: u32
  packets_sent :: u32

record sim_descr =
  num_ectxs :: nat
  ectxs :: "gectx list"
  is_trace :: bool
  ttrace :: gdriver_ttrace
  tgen :: gdriver_tgen
  packets_processed :: u32

text \<open>The calls of the simulator; a packet carries the bytes of the buffer at the time of the call.\<close>

record packet =
  pk_ectx :: nat
  pk_msgid :: u32
  pk_data :: "u8 list"
  pk_len :: u32
  pk_l1_len :: u32
  pk_eom :: u8
  pk_wait :: u32

datatype sim_call = PacketAdd packet | PacketEos | NicmemWrite u32 "u8 list" u64

section \<open>Filling and generating packets\<close>

primrec foldE :: "('a \<Rightarrow> 's \<Rightarrow> 'e + 's) \<Rightarrow> 'a list \<Rightarrow> 's \<Rightarrow> 'e + 's" where
  "foldE f [] s = Inr s"
| "foldE f (x # xs) s = bindE (f x s) (foldE f xs)"

definition gdriver_fill_pkt ::
    "sim_descr \<Rightarrow> nat \<Rightarrow> u32 \<Rightarrow> u32 \<Rightarrow> u32 \<Rightarrow> u32 \<Rightarrow> world \<Rightarrow> gd_fail + u32 \<times> world" where
  "gdriver_fill_pkt sim ectx_idx msg_idx pkt_idx pkt_buf pkt_size w =
     (case pkt_fill_cb (ectxs sim ! ectx_idx) of
        Some cb \<Rightarrow>
          bindE (cb msg_idx pkt_idx pkt_buf (packet_size (tgen sim)) w) (\<lambda>(pkt_size, _, w). Inr (pkt_size, w))
      | None \<Rightarrow>
          let m = set_ihl 5 pkt_buf (wmem w);
              m = set_length (ucast pkt_size) pkt_buf m
          in Inr (pkt_size, w\<lparr>wmem := m\<rparr>))"

definition buffer :: "world \<Rightarrow> u32 \<Rightarrow> u32 \<Rightarrow> u8 list" where
  "buffer w pkt_buf n = map (\<lambda>i. wmem w (pkt_buf + of_nat i)) [0..<unat n]"

record gen =
  global_msg_counter :: u32
  global_packet_counter :: u32
  sent :: u32
  gworld :: world
  calls :: "sim_call list"

definition generate_packet :: "sim_descr \<Rightarrow> u32 \<Rightarrow> nat \<Rightarrow> nat \<Rightarrow> gen \<Rightarrow> gd_fail + gen" where
  "generate_packet sim pkt_buf ectx_idx pkt_idx g =
     (let pkt_size = packet_size (tgen sim) in
      bindE (gdriver_fill_pkt sim ectx_idx (global_msg_counter g) (global_packet_counter g) pkt_buf pkt_size (gworld g))
        (\<lambda>(l1_pkt_size, w).
         let is_last = (of_nat pkt_idx + 1 = num_packets (tgen sim));
             delay = (if is_last then message_delay (tgen sim) else packet_delay (tgen sim));
             p = \<lparr>pk_ectx = ectx_idx, pk_msgid = global_msg_counter g, pk_data = buffer w pkt_buf pkt_size,
                  pk_len = pkt_size, pk_l1_len = l1_pkt_size, pk_eom = of_bool is_last, pk_wait = delay\<rparr>
         in Inr (g\<lparr>global_packet_counter := global_packet_counter g + 1, sent := sent g + 1, gworld := w,
                   calls := calls g @ [PacketAdd p]\<rparr>)))"

definition generate_message :: "sim_descr \<Rightarrow> u32 \<Rightarrow> nat \<Rightarrow> gen \<Rightarrow> gd_fail + gen" where
  "generate_message sim pkt_buf ectx_idx g =
     bindE (foldE (generate_packet sim pkt_buf ectx_idx) [0..<unat (num_packets (tgen sim))] g)
       (\<lambda>g. Inr (g\<lparr>global_msg_counter := global_msg_counter g + 1\<rparr>))"

definition generate_ectx :: "sim_descr \<Rightarrow> u32 \<Rightarrow> nat \<Rightarrow> gen \<Rightarrow> gd_fail + gen" where
  "generate_ectx sim pkt_buf ectx_idx g =
     foldE (\<lambda>_. generate_message sim pkt_buf ectx_idx) [0..<unat (num_messages (tgen sim))] g"

text \<open>\<open>pkt_buf\<close> is what \<open>malloc\<close> returns.\<close>

definition gdriver_generate_packets ::
    "u32 \<Rightarrow> sim_descr \<times> world \<times> sim_call list \<Rightarrow> gd_fail + sim_descr \<times> world \<times> sim_call list" where
  "gdriver_generate_packets pkt_buf s = (case s of (sim, w, cs) \<Rightarrow>
     bindE (guardE (pkt_buf \<noteq> 0) AssertFailed) (\<lambda>_.
     bindE (foldE (generate_ectx sim pkt_buf) [0..<num_ectxs sim]
        \<lparr>global_msg_counter = 0, global_packet_counter = 0, sent = packets_sent (tgen sim), gworld = w, calls = cs\<rparr>) (\<lambda>g.
       Inr (sim\<lparr>tgen := (tgen sim)\<lparr>packets_sent := sent g\<rparr>\<rparr>, gworld g, calls g @ [PacketEos]))))"

section \<open>Replaying a trace\<close>

text \<open>
  The trace is what \<open>fscanf\<close> delivers: the three numbers of its header (their count is not checked),
  and one record per line, \<open>None\<close> where fewer than six fields are read.
\<close>

record trace_line =
  tl_src :: string
  tl_dst :: string
  tl_size :: u32
  tl_ipg :: u32
  tl_msgid :: u32
  tl_last :: i32

record replay =
  rp_wait :: u32
  rp_parsed :: u32
  rp_world :: world
  rp_calls :: "sim_call list"

text \<open>The first context that the callback matches.\<close>

fun match_ectx :: "sim_descr \<Rightarrow> string \<Rightarrow> nat list \<Rightarrow> gd_fail + nat" where
  "match_ectx sim src [] = Inl AssertFailed"
| "match_ectx sim src (i # is) =
     (case matching_cb (ttrace sim) of
        None \<Rightarrow> Inl NullCall
      | Some cb \<Rightarrow> if cb src (matching_ctx (ectxs sim ! i)) \<noteq> 0 then Inr i else match_ectx sim src is)"

definition replay_line :: "sim_descr \<Rightarrow> u32 \<Rightarrow> trace_line option \<Rightarrow> replay \<Rightarrow> gd_fail + replay" where
  "replay_line sim pkt_buf line r =
     (case line of
        None \<Rightarrow> Inl AssertFailed
      | Some l \<Rightarrow>
          if GDRIVER_MATCHING_CTX_MAXSIZE \<le> length (tl_src l) \<or> GDRIVER_MATCHING_CTX_MAXSIZE \<le> length (tl_dst l)
          then Inl Overflow
          else if tl_size l = 0 then
            bindE (guardE (rp_wait r = 0) AssertFailed) (\<lambda>_.
            bindE (guardE (tl_ipg l > 0) AssertFailed) (\<lambda>_.
              Inr (r\<lparr>rp_wait := tl_ipg l, rp_parsed := rp_parsed r + 1\<rparr>)))
          else
            bindE (guardE (tl_ipg l = 0) AssertFailed) (\<lambda>_.
            bindE (match_ectx sim (tl_src l) [0..<num_ectxs sim]) (\<lambda>ectx_id.
            bindE (gdriver_fill_pkt sim ectx_id (tl_msgid l) 0 pkt_buf (tl_size l) (rp_world r)) (\<lambda>(l1_pkt_size, w).
              let p = \<lparr>pk_ectx = ectx_id, pk_msgid = tl_msgid l, pk_data = buffer w pkt_buf (tl_size l),
                       pk_len = tl_size l, pk_l1_len = l1_pkt_size, pk_eom = ucast (tl_last l), pk_wait = rp_wait r\<rparr>
              in Inr (r\<lparr>rp_wait := 0, rp_parsed := rp_parsed r + 1, rp_world := w,
                        rp_calls := rp_calls r @ [PacketAdd p]\<rparr>)))))"

definition gdriver_parse_trace ::
    "u32 \<times> u32 \<times> u32 \<Rightarrow> trace_line option list \<Rightarrow> u32 \<Rightarrow>
      sim_descr \<times> world \<times> sim_call list \<Rightarrow> gd_fail + sim_descr \<times> world \<times> sim_call list" where
  "gdriver_parse_trace header_nums lines pkt_buf s = (case (header_nums, s) of
     ((nsources, npackets, max_pkt_size), (sim, w, cs)) \<Rightarrow>
     bindE (guardE (nsources > 0 \<and> nsources \<le> of_nat (num_ectxs sim)) AssertFailed) (\<lambda>_.
     bindE (guardE (npackets > 0) AssertFailed) (\<lambda>_.
     bindE (guardE (pkt_buf \<noteq> 0) AssertFailed) (\<lambda>_.
     bindE (foldE (replay_line sim pkt_buf) lines \<lparr>rp_wait = 0, rp_parsed = 0, rp_world = w, rp_calls = cs\<rparr>) (\<lambda>r.
     bindE (guardE (rp_parsed r = npackets) AssertFailed) (\<lambda>_.
       Inr (sim\<lparr>ttrace := (ttrace sim)\<lparr>packets_parsed := rp_parsed r\<rparr>\<rparr>, rp_world r, rp_calls r @ [PacketEos])))))))"

section \<open>Execution contexts\<close>

text \<open>
  \<open>find_handler exe name\<close> is what the simulator's search for a handler returns: a status, and the
  address and size it stores.
\<close>

definition find_opt :: "(string \<Rightarrow> string \<Rightarrow> i32 \<times> u32 \<times> u64) \<Rightarrow> string \<Rightarrow> string option \<Rightarrow> i32 \<times> u32 \<times> u64" where
  "find_opt find_handler exe name =
     (case name of None \<Rightarrow> (SPIN_SUCCESS, 0, 0) | Some nm \<Rightarrow> find_handler exe nm)"

definition set_regions :: "u32 \<Rightarrow> spin_ec \<Rightarrow> spin_ec" where
  "set_regions gectx_id ec = ec\<lparr>
     ec_handler_mem_addr := EC_MEM_BASE_ADDR gectx_id NIC_L2_ADDR NIC_L2_EC_CHUNK_SIZE,
     ec_handler_mem_size := NIC_L2_EC_CHUNK_SIZE,
     ec_host_mem_addr := EC_MEM_BASE_ADDR gectx_id HOST_ADDR HOST_EC_CHUNK_SIZE,
     ec_host_mem_size := HOST_EC_CHUNK_SIZE,
     ec_scratchpad_addr := replicate NUM_CLUSTERS (EC_MEM_BASE_ADDR gectx_id SCRATCHPAD_REL_ADDR SCRATCHPAD_EC_CHUNK_SIZE),
     ec_scratchpad_size := replicate NUM_CLUSTERS SCRATCHPAD_EC_CHUNK_SIZE\<rparr>"

definition gdriver_init_ectx ::
    "(string \<Rightarrow> string \<Rightarrow> i32 \<times> u32 \<times> u64) \<Rightarrow> gectx \<Rightarrow> u32 \<Rightarrow> string \<Rightarrow>
      string option \<Rightarrow> string option \<Rightarrow> string option \<Rightarrow> fill_fun option \<Rightarrow>
      u8 list option \<Rightarrow> u64 \<Rightarrow> string option \<Rightarrow> gd_fail + i32 \<times> gectx \<times> sim_call list" where
  "gdriver_init_ectx find_handler gectx gectx_id handlers_exe hh ph th fill_cb l2_img l2_img_size matching =
     (if hh = None \<and> ph = None \<and> th = None then Inr (GDRIVER_ERR, gectx, []) else
      let (r1, hh_addr, hh_size) = find_opt find_handler handlers_exe hh;
          (r2, ph_addr, ph_size) = find_opt find_handler handlers_exe ph;
          (r3, th_addr, th_size) = find_opt find_handler handlers_exe th
      in if r1 \<noteq> SPIN_SUCCESS then Inr (r1, gectx, [])
         else if r2 \<noteq> SPIN_SUCCESS then Inr (r2, gectx, [])
         else if r3 \<noteq> SPIN_SUCCESS then Inr (r3, gectx, [])
         else
      let ec = (ectx gectx)\<lparr>ec_hh_addr := hh_addr, ec_ph_addr := ph_addr, ec_th_addr := th_addr,
                 ec_hh_size := ucast hh_size, ec_ph_size := ucast ph_size, ec_th_size := ucast th_size\<rparr>;
          ec = set_regions gectx_id ec
      in
      bindE (guardE (ec_handler_mem_addr ec < NIC_L2_ADDR + NIC_L2_SIZE) AssertFailed) (\<lambda>_.
      bindE (guardE (ec_host_mem_addr ec < HOST_ADDR + ucast HOST_SIZE) AssertFailed) (\<lambda>_.
      bindE (guardE (\<forall>a\<in>set (ec_scratchpad_addr ec). a < SCRATCHPAD_REL_ADDR + SCRATCHPAD_SIZE) AssertFailed) (\<lambda>_.
      bindE (case l2_img of
               None \<Rightarrow> Inr []
             | Some img \<Rightarrow>
                 bindE (guardE (l2_img_size \<le> ucast (ec_handler_mem_size ec)) AssertFailed) (\<lambda>_.
                   Inr [NicmemWrite (ec_handler_mem_addr ec) img l2_img_size])) (\<lambda>writes.
      bindE (case matching of
               None \<Rightarrow> Inr (matching_ctx gectx)
             | Some str \<Rightarrow>
                 bindE (guardE (length str < GDRIVER_MATCHING_CTX_MAXSIZE) Overflow) (\<lambda>_. Inr str)) (\<lambda>mctx.
        Inr (GDRIVER_OK, gectx\<lparr>ectx := ec, pkt_fill_cb := fill_cb, matching_ctx := mctx\<rparr>, writes)))))))"

definition gdriver_add_ectx ::
    "(string \<Rightarrow> string \<Rightarrow> i32 \<times> u32 \<times> u64) \<Rightarrow> string \<Rightarrow>
      string option \<Rightarrow> string option \<Rightarrow> string option \<Rightarrow> fill_fun option \<Rightarrow>
      u8 list option \<Rightarrow> u64 \<Rightarrow> string option \<Rightarrow> u64 \<Rightarrow>
      sim_descr \<times> sim_call list \<Rightarrow> gd_fail + i32 \<times> sim_descr \<times> sim_call list" where
  "gdriver_add_ectx find_handler hfile hh ph th fill_pkt_cb l2_img l2_img_size matching matching_ctx_size s =
     (case s of (sim, cs) \<Rightarrow>
      if num_ectxs sim = EC_MAX_NUM then Inr (GDRIVER_ERR, sim, cs)
      else if matching_ctx_size > of_nat GDRIVER_MATCHING_CTX_MAXSIZE then Inr (GDRIVER_ERR, sim, cs)
      else
        bindE (gdriver_init_ectx find_handler (ectxs sim ! num_ectxs sim) (of_nat (num_ectxs sim)) hfile hh ph th
                 fill_pkt_cb l2_img l2_img_size matching) (\<lambda>(r, gectx, writes).
          let sim = sim\<lparr>ectxs := (ectxs sim)[num_ectxs sim := gectx]\<rparr>
          in if r \<noteq> 0 then Inr (GDRIVER_ERR, sim, cs @ writes)
             else Inr (GDRIVER_OK, sim\<lparr>num_ectxs := num_ectxs sim + 1\<rparr>, cs @ writes)))"

section \<open>Running\<close>

text \<open>
  \<open>pspinsim_run\<close>, given the calls so far, returns a status after it has called the feedback callback
  once for each element of a list.
\<close>

type_synonym feedback = "u64 \<times> u64 \<times> u64 \<times> u64"

definition gdriver_feedback :: "feedback \<Rightarrow> sim_descr \<Rightarrow> sim_descr" where
  "gdriver_feedback f sim = sim\<lparr>packets_processed := packets_processed sim + 1\<rparr>"

definition gdriver_run ::
    "(sim_call list \<Rightarrow> i32 \<times> feedback list) \<Rightarrow> u32 \<times> u32 \<times> u32 \<Rightarrow> trace_line option list \<Rightarrow> u32 \<Rightarrow>
      sim_descr \<times> world \<times> sim_call list \<Rightarrow> gd_fail + i32 \<times> sim_descr \<times> world \<times> sim_call list" where
  "gdriver_run pspinsim_run header_nums lines pkt_buf s =
     bindE (if is_trace (fst s) then gdriver_parse_trace header_nums lines pkt_buf s
            else gdriver_generate_packets pkt_buf s) (\<lambda>(sim, w, cs).
       let (r, fs) = pspinsim_run cs; sim = fold gdriver_feedback fs sim
       in Inr (if r = SPIN_SUCCESS then GDRIVER_OK else GDRIVER_ERR, sim, w, cs))"

text \<open>\<open>fini\<close> is what \<open>pspinsim_fini\<close> returns.\<close>

definition gdriver_fini :: "i32 \<Rightarrow> sim_descr \<Rightarrow> i32" where
  "gdriver_fini fini sim =
     (if fini \<noteq> SPIN_SUCCESS then GDRIVER_ERR
      else if is_trace sim \<and> packets_parsed (ttrace sim) \<noteq> packets_processed sim then GDRIVER_ERR
      else if packets_sent (tgen sim) \<noteq> packets_processed sim then GDRIVER_ERR
      else GDRIVER_OK)"

text \<open>The options as the parser leaves them; \<open>None\<close> is a command line it refuses.\<close>

record args_info =
  num_messages_arg :: u32
  num_packets_arg :: u32
  packet_size_arg :: u32
  packet_delay_arg :: u32
  message_delay_arg :: u32
  trace_file_arg :: string

definition blank_ec :: spin_ec where
  "blank_ec = \<lparr>ec_handler_mem_addr = 0, ec_handler_mem_size = 0, ec_host_mem_addr = 0, ec_host_mem_size = 0,
     ec_hh_addr = 0, ec_hh_size = 0, ec_ph_addr = 0, ec_ph_size = 0, ec_th_addr = 0, ec_th_size = 0,
     ec_scratchpad_addr = replicate NUM_CLUSTERS 0, ec_scratchpad_size = replicate NUM_CLUSTERS 0\<rparr>"

definition zero_sim :: sim_descr where
  "zero_sim = \<lparr>num_ectxs = 0,
     ectxs = replicate EC_MAX_NUM \<lparr>ectx = blank_ec, pkt_fill_cb = None, matching_ctx = []\<rparr>,
     is_trace = False, ttrace = \<lparr>trace_path = [], packets_parsed = 0, matching_cb = None\<rparr>,
     tgen = \<lparr>num_messages = 0, num_packets = 0, packet_size = 0, packet_delay = 0, message_delay = 0,
       packets_sent = 0\<rparr>,
     packets_processed = 0\<rparr>"

text \<open>The result, \<^verbatim>\<open>*ectx_num\<close>, and the state: as it was when the command line is refused.\<close>

definition gdriver_init ::
    "args_info option \<Rightarrow> (string \<Rightarrow> string \<Rightarrow> i32) option \<Rightarrow> sim_descr \<Rightarrow> i32 \<times> i32 \<times> sim_descr" where
  "gdriver_init parsed matching sim =
     (case parsed of
        None \<Rightarrow> (GDRIVER_ERR, -1, sim)
      | Some ai \<Rightarrow>
          (GDRIVER_OK, of_nat EC_MAX_NUM,
           if trace_file_arg ai \<noteq> MAGIC_PATH
           then zero_sim\<lparr>is_trace := True,
                  ttrace := (ttrace zero_sim)\<lparr>trace_path := trace_file_arg ai, matching_cb := matching\<rparr>\<rparr>
           else zero_sim\<lparr>tgen := (tgen zero_sim)\<lparr>num_messages := num_messages_arg ai,
                  num_packets := num_packets_arg ai, packet_size := packet_size_arg ai,
                  packet_delay := packet_delay_arg ai, message_delay := message_delay_arg ai\<rparr>\<rparr>))"

section \<open>Packets generated\<close>

definition fills :: "sim_descr \<Rightarrow> bool" where
  "fills sim \<longleftrightarrow> (\<forall>i<num_ectxs sim. \<forall>cb. pkt_fill_cb (ectxs sim ! i) = Some cb \<longrightarrow>
     (\<forall>a b c d w. \<exists>r. cb a b c d w = Inr r))"

definition pk_view :: "packet \<Rightarrow> nat \<times> u32 \<times> u8 \<times> u32 \<times> u32" where
  "pk_view p = (pk_ectx p, pk_msgid p, pk_eom p, pk_wait p, pk_len p)"

definition nth_packet :: "sim_descr \<Rightarrow> nat \<Rightarrow> u32 \<Rightarrow> nat \<Rightarrow> nat \<times> u32 \<times> u8 \<times> u32 \<times> u32" where
  "nth_packet sim e m k =
     (if Suc k = unat (num_packets (tgen sim))
      then (e, m, 1, message_delay (tgen sim), packet_size (tgen sim))
      else (e, m, 0, packet_delay (tgen sim), packet_size (tgen sim)))"

definition nth_message :: "sim_descr \<Rightarrow> nat \<Rightarrow> u32 \<Rightarrow> (nat \<times> u32 \<times> u8 \<times> u32 \<times> u32) list" where
  "nth_message sim e m = map (nth_packet sim e m) [0..<unat (num_packets (tgen sim))]"

lemma foldE_append: "foldE f (xs @ ys) s = bindE (foldE f xs s) (foldE f ys)"
  by (induction xs arbitrary: s) (auto simp: bindE_def split: sum.splits)

lemma fill_total:
  assumes "fills sim" "e < num_ectxs sim"
  shows "\<exists>l1 w'. gdriver_fill_pkt sim e m k buf n w = Inr (l1, w')"
proof (cases "pkt_fill_cb (ectxs sim ! e)")
  case (Some cb)
  then obtain r where "cb m k buf (packet_size (tgen sim)) w = Inr r"
    using assms unfolding fills_def by blast
  then show ?thesis
    using Some by (cases r) (simp add: gdriver_fill_pkt_def)
qed (simp add: gdriver_fill_pkt_def Let_def)

lemma last_packet: "k < unat n \<Longrightarrow> (of_nat k + 1 = (n :: u32)) = (Suc k = unat n)"
  using unat_u32_lt [of n] by (auto simp: word_unat_eq_iff unat_word_ariths unat_of_nat take_bit_nat_eq_self)

lemma generate_packet_ok:
  assumes "fills sim" "e < num_ectxs sim" "k < unat (num_packets (tgen sim))"
  shows "\<exists>p g'. generate_packet sim buf e k g = Inr g' \<and> calls g' = calls g @ [PacketAdd p]
    \<and> pk_view p = nth_packet sim e (global_msg_counter g) k
    \<and> sent g' = sent g + 1 \<and> global_msg_counter g' = global_msg_counter g"
  using fill_total [OF assms(1,2), of "global_msg_counter g" "global_packet_counter g" buf "packet_size (tgen sim)" "gworld g"]
    last_packet [OF assms(3)]
  by (auto simp: generate_packet_def Let_def pk_view_def nth_packet_def)

lemma generate_packets_ok:
  assumes "fills sim" "e < num_ectxs sim" "set ks \<subseteq> {..<unat (num_packets (tgen sim))}"
  shows "\<exists>ps g'. foldE (generate_packet sim buf e) ks g = Inr g' \<and> calls g' = calls g @ map PacketAdd ps
    \<and> map pk_view ps = map (nth_packet sim e (global_msg_counter g)) ks
    \<and> sent g' = sent g + of_nat (length ks) \<and> global_msg_counter g' = global_msg_counter g"
  using assms(3)
proof (induction ks arbitrary: g)
  case (Cons k ks)
  obtain p g1 where 1: "generate_packet sim buf e k g = Inr g1" "calls g1 = calls g @ [PacketAdd p]"
      "pk_view p = nth_packet sim e (global_msg_counter g) k" "sent g1 = sent g + 1"
      "global_msg_counter g1 = global_msg_counter g"
    using generate_packet_ok [OF assms(1,2), of k buf g] Cons.prems by auto
  obtain ps g2 where 2: "foldE (generate_packet sim buf e) ks g1 = Inr g2" "calls g2 = calls g1 @ map PacketAdd ps"
      "map pk_view ps = map (nth_packet sim e (global_msg_counter g1)) ks"
      "sent g2 = sent g1 + of_nat (length ks)" "global_msg_counter g2 = global_msg_counter g1"
    using Cons.IH [of g1] Cons.prems by auto
  show ?case
    by (rule exI [of _ "p # ps"], rule exI [of _ g2]) (use 1 2 in \<open>simp add: algebra_simps\<close>)
qed simp

lemma generate_message_ok:
  assumes "fills sim" "e < num_ectxs sim"
  shows "\<exists>ps g'. generate_message sim buf e g = Inr g' \<and> calls g' = calls g @ map PacketAdd ps
    \<and> map pk_view ps = nth_message sim e (global_msg_counter g)
    \<and> sent g' = sent g + num_packets (tgen sim) \<and> global_msg_counter g' = global_msg_counter g + 1"
  using generate_packets_ok [OF assms, of "[0..<unat (num_packets (tgen sim))]" buf g]
  by (force simp: generate_message_def nth_message_def)

lemma generate_messages_ok:
  assumes "fills sim" "e < num_ectxs sim"
  shows "\<exists>ps g'. foldE (\<lambda>_. generate_message sim buf e) [0..<n] g = Inr g' \<and> calls g' = calls g @ map PacketAdd ps
    \<and> map pk_view ps = concat (map (\<lambda>m. nth_message sim e (global_msg_counter g + of_nat m)) [0..<n])
    \<and> sent g' = sent g + of_nat n * num_packets (tgen sim)
    \<and> global_msg_counter g' = global_msg_counter g + of_nat n"
proof (induction n)
  case (Suc n)
  then obtain ps g1 where 1: "foldE (\<lambda>_. generate_message sim buf e) [0..<n] g = Inr g1"
      "calls g1 = calls g @ map PacketAdd ps"
      "map pk_view ps = concat (map (\<lambda>m. nth_message sim e (global_msg_counter g + of_nat m)) [0..<n])"
      "sent g1 = sent g + of_nat n * num_packets (tgen sim)" "global_msg_counter g1 = global_msg_counter g + of_nat n"
    by auto
  obtain qs g2 where 2: "generate_message sim buf e g1 = Inr g2" "calls g2 = calls g1 @ map PacketAdd qs"
      "map pk_view qs = nth_message sim e (global_msg_counter g1)"
      "sent g2 = sent g1 + num_packets (tgen sim)" "global_msg_counter g2 = global_msg_counter g1 + 1"
    using generate_message_ok [OF assms, of buf g1] by auto
  show ?case
    by (rule exI [of _ "ps @ qs"], rule exI [of _ g2])
      (use 1 2 in \<open>simp add: foldE_append distrib_right algebra_simps\<close>)
qed simp

lemma generate_ectxs_ok:
  assumes "fills sim" "n \<le> num_ectxs sim"
  shows "\<exists>ps g'. foldE (generate_ectx sim buf) [0..<n] g = Inr g' \<and> calls g' = calls g @ map PacketAdd ps
    \<and> map pk_view ps = concat (map (\<lambda>e. concat (map (\<lambda>m. nth_message sim e
          (global_msg_counter g + of_nat (e * unat (num_messages (tgen sim)) + m)))
        [0..<unat (num_messages (tgen sim))])) [0..<n])
    \<and> sent g' = sent g + of_nat (n * unat (num_messages (tgen sim)) * unat (num_packets (tgen sim)))
    \<and> global_msg_counter g' = global_msg_counter g + of_nat (n * unat (num_messages (tgen sim)))"
  using assms(2)
proof (induction n)
  case (Suc n)
  let ?M = "unat (num_messages (tgen sim))"
  from Suc obtain ps g1 where 1: "foldE (generate_ectx sim buf) [0..<n] g = Inr g1" "calls g1 = calls g @ map PacketAdd ps"
      "map pk_view ps = concat (map (\<lambda>e. concat (map (\<lambda>m. nth_message sim e
          (global_msg_counter g + of_nat (e * ?M + m))) [0..<?M])) [0..<n])"
      "sent g1 = sent g + of_nat (n * ?M * unat (num_packets (tgen sim)))"
      "global_msg_counter g1 = global_msg_counter g + of_nat (n * ?M)"
    by auto
  obtain qs g2 where 2: "generate_ectx sim buf n g1 = Inr g2" "calls g2 = calls g1 @ map PacketAdd qs"
      "map pk_view qs = concat (map (\<lambda>m. nth_message sim n (global_msg_counter g1 + of_nat m)) [0..<?M])"
      "sent g2 = sent g1 + of_nat ?M * num_packets (tgen sim)" "global_msg_counter g2 = global_msg_counter g1 + of_nat ?M"
    using generate_messages_ok [OF assms(1), of n buf ?M g1] Suc.prems by (auto simp: generate_ectx_def)
  show ?case
    by (rule exI [of _ "ps @ qs"], rule exI [of _ g2])
      (use 1 2 in \<open>simp add: foldE_append distrib_right algebra_simps\<close>)
qed simp

lemma generate_ectxs_total:
  assumes "fills sim" "buf \<noteq> 0"
  shows "\<exists>ps w'. gdriver_generate_packets buf (sim, w, cs) =
      Inr (sim\<lparr>tgen := (tgen sim)\<lparr>packets_sent := packets_sent (tgen sim) + of_nat (length ps)\<rparr>\<rparr>, w',
           cs @ map PacketAdd ps @ [PacketEos])
    \<and> length ps = num_ectxs sim * unat (num_messages (tgen sim)) * unat (num_packets (tgen sim))
    \<and> map pk_view ps = concat (map (\<lambda>e. concat (map (\<lambda>m. nth_message sim e
          (of_nat (e * unat (num_messages (tgen sim)) + m))) [0..<unat (num_messages (tgen sim))])) [0..<num_ectxs sim])"
proof -
  let ?E = "num_ectxs sim" and ?M = "unat (num_messages (tgen sim))" and ?P = "unat (num_packets (tgen sim))"
  obtain ps g where g: "foldE (generate_ectx sim buf) [0..<?E]
        \<lparr>global_msg_counter = 0, global_packet_counter = 0, sent = packets_sent (tgen sim), gworld = w, calls = cs\<rparr> = Inr g"
      "calls g = cs @ map PacketAdd ps"
      "map pk_view ps = concat (map (\<lambda>e. concat (map (\<lambda>m. nth_message sim e (of_nat (e * ?M + m))) [0..<?M])) [0..<?E])"
      "sent g = packets_sent (tgen sim) + of_nat (?E * ?M * ?P)"
    using generate_ectxs_ok [OF assms(1) order.refl, of buf
      "\<lparr>global_msg_counter = 0, global_packet_counter = 0, sent = packets_sent (tgen sim), gworld = w, calls = cs\<rparr>"]
    by auto
  have "length ps = length (map pk_view ps)" by simp
  also have "\<dots> = ?E * ?M * ?P"
    unfolding g(3) by (simp add: length_concat comp_def nth_message_def sum_list_triv)
  finally have len: "length ps = ?E * ?M * ?P" .
  then show ?thesis
    using g assms(2) by (intro exI [of _ ps] exI [of _ "gworld g"]) (simp add: gdriver_generate_packets_def)
qed

text \<open>
  C21: When every packet filler returns, the generator adds one packet per context, message and packet number, in
  this order, messages numbered consecutively across contexts, the end-of-message flag and the message delay exactly on
  the last packet of each message, then the end of the stream; and it counts the packets it has sent.
\<close>

theorem gdriver_generates:
  assumes "fills sim" "buf \<noteq> 0"
  shows "\<exists>ps w'. gdriver_generate_packets buf (sim, w, cs) =
      Inr (sim\<lparr>tgen := (tgen sim)\<lparr>packets_sent := packets_sent (tgen sim) + of_nat (length ps)\<rparr>\<rparr>, w',
           cs @ map PacketAdd ps @ [PacketEos])
    \<and> length ps = num_ectxs sim * unat (num_messages (tgen sim)) * unat (num_packets (tgen sim))
    \<and> map pk_view ps = concat (map (\<lambda>e. concat (map (\<lambda>m. nth_message sim e
          (of_nat (e * unat (num_messages (tgen sim)) + m))) [0..<unat (num_messages (tgen sim))])) [0..<num_ectxs sim])"
  by (rule generate_ectxs_total [OF assms])

definition demo_sim :: sim_descr where
  "demo_sim = zero_sim\<lparr>num_ectxs := 2, tgen := (tgen zero_sim)\<lparr>num_messages := 1, num_packets := 2, packet_size := 64,
     packet_delay := 20, message_delay := 40\<rparr>\<rparr>"

theorem gdriver_generates_witness:
  "\<forall>w. \<exists>ps w' sim'. gdriver_generate_packets 4096 (demo_sim, w, []) = Inr (sim', w', map PacketAdd ps @ [PacketEos])
    \<and> map pk_view ps = [(0, 0, 0, 20, 64), (0, 0, 1, 40, 64), (1, 1, 0, 20, 64), (1, 1, 1, 40, 64)]" (is "\<forall>w. ?P w")
proof
  fix w
  have "fills demo_sim"
    by (auto simp: fills_def demo_sim_def zero_sim_def EC_MAX_NUM_def less_Suc_eq numeral_2_eq_2)
  from gdriver_generates [OF this, of 4096 w "[]"] obtain ps w' sim' where
    "gdriver_generate_packets 4096 (demo_sim, w, []) = Inr (sim', w', map PacketAdd ps @ [PacketEos])"
    and v: "map pk_view ps = concat (map (\<lambda>e. concat (map (\<lambda>m. nth_message demo_sim e
          (of_nat (e * unat (num_messages (tgen demo_sim)) + m))) [0..<unat (num_messages (tgen demo_sim))])) [0..<num_ectxs demo_sim])"
    by auto
  moreover have "map pk_view ps = [(0, 0, 0, 20, 64), (0, 0, 1, 40, 64), (1, 1, 0, 20, 64), (1, 1, 1, 40, 64)]"
    unfolding v by (simp add: demo_sim_def zero_sim_def nth_message_def nth_packet_def upt_rec)
  ultimately show "?P w" by (intro exI conjI)
qed

section \<open>Contexts\<close>

text \<open>The states the driver reaches by registering contexts after its initialisation.\<close>

inductive gd_reach :: "args_info \<Rightarrow> sim_descr \<Rightarrow> bool" for ai where
  init: "gdriver_init (Some ai) matching sim = (r, n, sim') \<Longrightarrow> gd_reach ai sim'"
| add: "gd_reach ai sim \<Longrightarrow>
    gdriver_add_ectx fh hfile hh ph th cb img n str k (sim, cs) = Inr (r, sim', cs') \<Longrightarrow> gd_reach ai sim'"

definition ectx_regions :: "nat \<Rightarrow> gectx \<Rightarrow> bool" where
  "ectx_regions i g \<longleftrightarrow> set_regions (of_nat i) (ectx g) = ectx g"

definition gd_inv :: "args_info \<Rightarrow> sim_descr \<Rightarrow> bool" where
  "gd_inv ai sim \<longleftrightarrow> num_ectxs sim \<le> EC_MAX_NUM \<and> length (ectxs sim) = EC_MAX_NUM
     \<and> (\<forall>i<num_ectxs sim. ectx_regions i (ectxs sim ! i))
     \<and> (is_trace sim \<longleftrightarrow> trace_file_arg ai \<noteq> MAGIC_PATH) \<and> packets_sent (tgen sim) = 0 \<and> packets_processed sim = 0"

lemma set_regions_idem: "set_regions i (set_regions i ec) = set_regions i ec"
  by (simp add: set_regions_def)

lemma init_ectx_cases:
  assumes "gdriver_init_ectx fh g i exe hh ph th cb img n str = Inr (r, g', ws)"
  shows "(r \<noteq> GDRIVER_OK \<and> g' = g \<and> ws = []) \<or> (r = GDRIVER_OK \<and> set_regions i (ectx g') = ectx g' \<and> pkt_fill_cb g' = cb)"
  using assms
  by (auto simp: gdriver_init_ectx_def Let_def bindE_eq_Inr set_regions_idem GDRIVER_OK_def GDRIVER_ERR_def SPIN_SUCCESS_def
      split: if_splits prod.splits)

lemma gdriver_add_ectx_all:
  assumes "gdriver_add_ectx fh hfile hh ph th cb img n str k (sim, cs) = Inr (r, sim', cs')"
    "length (ectxs sim) = EC_MAX_NUM"
  shows "(r = GDRIVER_ERR \<and> sim' = sim \<and> cs' = cs
      \<or> r = GDRIVER_OK \<and> num_ectxs sim' = num_ectxs sim + 1
        \<and> (\<exists>g. ectxs sim' = (ectxs sim)[num_ectxs sim := g] \<and> pkt_fill_cb g = cb))
    \<and> (num_ectxs sim = EC_MAX_NUM \<or> k > of_nat GDRIVER_MATCHING_CTX_MAXSIZE \<or> hh = None \<and> ph = None \<and> th = None
        \<or> (\<exists>h\<in>{hh, ph, th}. fst (find_opt fh hfile h) \<noteq> SPIN_SUCCESS) \<longrightarrow> r = GDRIVER_ERR)"
proof (cases "num_ectxs sim = EC_MAX_NUM \<or> k > of_nat GDRIVER_MATCHING_CTX_MAXSIZE")
  case True
  then show ?thesis using assms(1) by (auto simp: gdriver_add_ectx_def split: if_splits)
next
  case False
  then obtain q g ws where q: "gdriver_init_ectx fh (ectxs sim ! num_ectxs sim) (of_nat (num_ectxs sim)) hfile hh ph th cb img n str
        = Inr (q, g, ws)"
      "(r, sim', cs') = (let sim2 = sim\<lparr>ectxs := (ectxs sim)[num_ectxs sim := g]\<rparr> in
          if q \<noteq> 0 then (GDRIVER_ERR, sim2, cs @ ws) else (GDRIVER_OK, sim2\<lparr>num_ectxs := num_ectxs sim2 + 1\<rparr>, cs @ ws))"
    using assms(1) by (auto simp: gdriver_add_ectx_def bindE_eq_Inr Let_def split: if_splits)
  have "hh = None \<and> ph = None \<and> th = None \<or> (\<exists>h\<in>{hh, ph, th}. fst (find_opt fh hfile h) \<noteq> SPIN_SUCCESS) \<Longrightarrow> q \<noteq> 0"
    using q(1) by (auto simp: gdriver_init_ectx_def Let_def bindE_eq_Inr GDRIVER_ERR_def SPIN_SUCCESS_def
        split: if_splits prod.splits)
  then show ?thesis
    using q(2) init_ectx_cases [OF q(1)] False by (auto simp: Let_def GDRIVER_OK_def split: if_splits)
qed

text \<open>
  A call that registers a context and returns either leaves the driver as it was
  and returns an error, or adds exactly one context, with its packet filler, behind the others, which stay as they are. It does return an error when both
  contexts are in use, when the matching context is too large, when no handler is named, or when a named handler is not found.
\<close>

theorem gdriver_add_ectx_all_or_nothing:
  assumes "gdriver_add_ectx fh hfile hh ph th cb img n str k (sim, cs) = Inr (r, sim', cs')"
    "length (ectxs sim) = EC_MAX_NUM"
  shows "(r = GDRIVER_ERR \<and> sim' = sim \<and> cs' = cs
      \<or> r = GDRIVER_OK \<and> num_ectxs sim' = num_ectxs sim + 1
        \<and> (\<exists>g. ectxs sim' = (ectxs sim)[num_ectxs sim := g] \<and> pkt_fill_cb g = cb))
    \<and> (num_ectxs sim = EC_MAX_NUM \<or> k > of_nat GDRIVER_MATCHING_CTX_MAXSIZE \<or> hh = None \<and> ph = None \<and> th = None
        \<or> (\<exists>h\<in>{hh, ph, th}. fst (find_opt fh hfile h) \<noteq> SPIN_SUCCESS) \<longrightarrow> r = GDRIVER_ERR)"
  by (rule gdriver_add_ectx_all [OF assms])

lemma gd_reach_inv: "gd_reach ai sim \<Longrightarrow> gd_inv ai sim"
proof (induction rule: gd_reach.induct)
  case (init matching sim r n sim')
  then show ?case
    by (auto simp: gdriver_init_def gd_inv_def zero_sim_def split: if_splits)
next
  case (add sim fh hfile hh ph th cb img n str k cs r sim' cs')
  have len: "length (ectxs sim) = EC_MAX_NUM" using add.IH by (simp add: gd_inv_def)
  show ?case
  proof (cases "r = GDRIVER_OK")
    case False
    then show ?thesis
      using gdriver_add_ectx_all [OF add.hyps(2) len] add.IH by auto
  next
    case True
    then obtain g ws where g: "gdriver_init_ectx fh (ectxs sim ! num_ectxs sim) (of_nat (num_ectxs sim)) hfile hh ph th cb img n str
          = Inr (0, g, ws)" "num_ectxs sim \<noteq> EC_MAX_NUM"
        "sim' = sim\<lparr>ectxs := (ectxs sim)[num_ectxs sim := g], num_ectxs := num_ectxs sim + 1\<rparr>"
      using add.hyps(2)
      by (auto simp: gdriver_add_ectx_def bindE_eq_Inr Let_def GDRIVER_OK_def GDRIVER_ERR_def split: if_splits)
    then have "ectx_regions (num_ectxs sim) g"
      using init_ectx_cases [OF g(1)] by (simp add: ectx_regions_def GDRIVER_OK_def)
    then show ?thesis
      using add.IH g(2) len unfolding g(3) gd_inv_def by (auto simp: nth_list_update less_Suc_eq)
  qed
qed

text \<open>The witness registers a context without a message to find: the simulator knows every handler.\<close>

definition demo_options :: "string \<Rightarrow> args_info" where
  "demo_options tf = \<lparr>num_messages_arg = 1, num_packets_arg = 2, packet_size_arg = 64, packet_delay_arg = 20,
     message_delay_arg = 40, trace_file_arg = tf\<rparr>"

definition demo_init :: "string \<Rightarrow> sim_descr" where
  "demo_init tf = snd (snd (gdriver_init (Some (demo_options tf)) (Some (\<lambda>_ _. 1)) zero_sim))"

definition demo_add :: "sim_descr \<Rightarrow> gd_fail + i32 \<times> sim_descr \<times> sim_call list" where
  "demo_add sim = gdriver_add_ectx (\<lambda>_ _. (0, 0x1d000000, 64)) ''build/empty'' None (Some ''empty_ph'') None None None 0 None 0 (sim, [])"

lemma demo_add_ok:
  "demo_add (demo_init tf) = Inr (GDRIVER_OK, (demo_init tf)\<lparr>num_ectxs := 1, ectxs := (ectxs (demo_init tf))[0 :=
     \<lparr>ectx = set_regions 0 (blank_ec\<lparr>ec_ph_addr := 0x1d000000, ec_ph_size := 64\<rparr>), pkt_fill_cb = None, matching_ctx = []\<rparr>]\<rparr>, [])"
  by (simp add: demo_add_def gdriver_add_ectx_def gdriver_init_ectx_def demo_init_def gdriver_init_def zero_sim_def
      find_opt_def SPIN_SUCCESS_def EC_MAX_NUM_def GDRIVER_MATCHING_CTX_MAXSIZE_def Let_def set_regions_def blank_ec_def
      EC_MEM_BASE_ADDR_def NIC_L2_ADDR_def NIC_L2_SIZE_def HOST_ADDR_def HOST_SIZE_def SCRATCHPAD_REL_ADDR_def
      SCRATCHPAD_SIZE_def NUM_CLUSTERS_def GDRIVER_OK_def)

theorem gdriver_add_ectx_all_or_nothing_witness:
  "\<exists>sim'. demo_add (demo_init MAGIC_PATH) = Inr (GDRIVER_OK, sim', []) \<and> num_ectxs sim' = 1
    \<and> (\<exists>g. ectxs sim' = (ectxs (demo_init MAGIC_PATH))[0 := g])"
proof -
  have len: "length (ectxs (demo_init MAGIC_PATH)) = EC_MAX_NUM" and n: "num_ectxs (demo_init MAGIC_PATH) = 0"
    by (simp_all add: demo_init_def gdriver_init_def zero_sim_def)
  show ?thesis
    using gdriver_add_ectx_all_or_nothing [OF demo_add_ok [of MAGIC_PATH, unfolded demo_add_def] len] demo_add_ok [of MAGIC_PATH] n
    by (auto simp: GDRIVER_OK_def GDRIVER_ERR_def)
qed



lemma demo_reach: "gd_reach (demo_options tf) (demo_init tf)"
  unfolding demo_init_def by (rule gd_reach.init [where r = GDRIVER_OK and n = 2]) (simp add: gdriver_init_def EC_MAX_NUM_def)


section \<open>The verdict\<close>

definition adds :: "sim_call list \<Rightarrow> nat" where
  "adds cs = length (filter (\<lambda>c. \<exists>p. c = PacketAdd p) cs)"

lemma adds_simps [simp]:
  "adds [] = 0" "adds (cs @ ds) = adds cs + adds ds" "adds (PacketAdd p # cs) = Suc (adds cs)"
  "adds (PacketEos # cs) = adds cs" "adds (NicmemWrite a d n # cs) = adds cs"
  by (simp_all add: adds_def)

lemma foldE_inv:
  "foldE f xs s = Inr s' \<Longrightarrow> P s \<Longrightarrow> (\<And>x s s'. P s \<Longrightarrow> f x s = Inr s' \<Longrightarrow> P s') \<Longrightarrow> P s'"
  by (induction xs arbitrary: s) (auto simp: bindE_eq_Inr)

lemma feedback_fold: "fold gdriver_feedback fs sim = sim\<lparr>packets_processed := packets_processed sim + of_nat (length fs)\<rparr>"
  by (induction fs arbitrary: sim) (simp_all add: gdriver_feedback_def algebra_simps)

lemma generate_counts:
  assumes "gdriver_generate_packets buf (sim, w, cs) = Inr (sim', w', cs')"
  shows "sim' = sim\<lparr>tgen := (tgen sim)\<lparr>packets_sent := packets_sent (tgen sim) + (of_nat (adds cs') - of_nat (adds cs))\<rparr>\<rparr>"
proof -
  define P where "P = (\<lambda>g :: gen. sent g = packets_sent (tgen sim) + (of_nat (adds (calls g)) - of_nat (adds cs)))"
  have pkt: "P g \<Longrightarrow> generate_packet sim buf e k g = Inr g' \<Longrightarrow> P g'" for e k g g'
    by (auto simp: P_def generate_packet_def bindE_eq_Inr Let_def)
  have msg: "P g \<Longrightarrow> generate_message sim buf e g = Inr g' \<Longrightarrow> P g'" for e g g'
    using foldE_inv [of "generate_packet sim buf e" _ g _ P] pkt
    by (auto simp: generate_message_def bindE_eq_Inr) (force simp: P_def)
  have ect: "P g \<Longrightarrow> generate_ectx sim buf e g = Inr g' \<Longrightarrow> P g'" for e g g'
    unfolding generate_ectx_def by (rule foldE_inv [where P = P]) (auto intro: msg)
  obtain g where g: "foldE (generate_ectx sim buf) [0..<num_ectxs sim]
        \<lparr>global_msg_counter = 0, global_packet_counter = 0, sent = packets_sent (tgen sim), gworld = w, calls = cs\<rparr> = Inr g"
      "sim' = sim\<lparr>tgen := (tgen sim)\<lparr>packets_sent := sent g\<rparr>\<rparr>" "cs' = calls g @ [PacketEos]"
    using assms by (auto simp: gdriver_generate_packets_def bindE_eq_Inr)
  have "P g" by (rule foldE_inv [OF g(1)]) (simp add: P_def, rule ect)
  then show ?thesis using g by (simp add: P_def)
qed

lemma verdict_eq:
  assumes "gd_reach ai sim" "adds cs = 0"
    "gdriver_run sim_run header_nums lines buf (sim, w, cs) = Inr (r, sim', w', cs')"
  shows "gdriver_fini SPIN_SUCCESS sim' =
    (if trace_file_arg ai \<noteq> MAGIC_PATH then GDRIVER_ERR
     else if (of_nat (length (snd (sim_run cs'))) :: u32) = of_nat (adds cs') then GDRIVER_OK else GDRIVER_ERR)"
proof -
  have inv: "gd_inv ai sim" by (rule gd_reach_inv [OF assms(1)])
  obtain s1 where s1: "(if is_trace sim then gdriver_parse_trace header_nums lines buf (sim, w, cs)
        else gdriver_generate_packets buf (sim, w, cs)) = Inr (s1, w', cs')"
      "sim' = s1\<lparr>packets_processed := packets_processed s1 + of_nat (length (snd (sim_run cs')))\<rparr>"
    using assms(3) by (auto simp: gdriver_run_def bindE_eq_Inr feedback_fold Let_def case_prod_beta)
  show ?thesis
  proof (cases "is_trace sim")
    case True
    then obtain n where "s1 = sim\<lparr>ttrace := (ttrace sim)\<lparr>packets_parsed := n\<rparr>\<rparr>" "n > 0"
      using s1(1) by (auto simp: gdriver_parse_trace_def bindE_eq_Inr split: prod.splits)
    then show ?thesis
      using s1(2) inv True by (auto simp: gdriver_fini_def gd_inv_def)
  next
    case False
    then have "s1 = sim\<lparr>tgen := (tgen sim)\<lparr>packets_sent := of_nat (adds cs')\<rparr>\<rparr>"
      using generate_counts [of buf sim w cs s1 w' cs'] s1(1) inv assms(2) by (simp add: gd_inv_def)
    then show ?thesis
      using s1(2) inv False by (auto simp: gdriver_fini_def gd_inv_def)
  qed
qed

text \<open>
  C22: After a run that returns, from any state the initialisation and the registrations reach, with no packet added before, the final check reports success in generator mode exactly when the simulator has
  processed as many packets, modulo \<open>2 ^ 32\<close>, as the driver has added. In trace mode it reports an error whatever
  was processed: behind the comparison with the trace it also compares with the count of generated packets, which is 0.
\<close>

theorem gdriver_verdict:
  assumes "gd_reach ai sim" "adds cs = 0"
    "gdriver_run sim_run header_nums lines buf (sim, w, cs) = Inr (r, sim', w', cs')"
  shows "gdriver_fini SPIN_SUCCESS sim' =
    (if trace_file_arg ai \<noteq> MAGIC_PATH then GDRIVER_ERR
     else if (of_nat (length (snd (sim_run cs'))) :: u32) = of_nat (adds cs') then GDRIVER_OK else GDRIVER_ERR)"
  by (rule verdict_eq [OF assms])

definition demo_line :: trace_line where
  "demo_line = \<lparr>tl_src = ''10.0.0.1'', tl_dst = ''10.0.0.2'', tl_size = 64, tl_ipg = 0, tl_msgid = 0, tl_last = 1\<rparr>"

theorem gdriver_verdict_witness:
  "\<forall>w. \<exists>sim sim' w' cs'. gd_reach (demo_options ''trace.txt'') sim
    \<and> gdriver_run (\<lambda>cs. (SPIN_SUCCESS, replicate (adds cs) (0, 0, 0, 0))) (1, 1, 1024) [Some demo_line] 4096 (sim, w, [])
        = Inr (GDRIVER_OK, sim', w', cs')
    \<and> packets_processed sim' = 1 \<and> gdriver_fini SPIN_SUCCESS sim' = GDRIVER_ERR" (is "\<forall>w. ?P w")
proof
  fix w
  obtain sim where sim: "demo_add (demo_init ''trace.txt'') = Inr (GDRIVER_OK, sim, [])" "num_ectxs sim = 1" "is_trace sim"
      "matching_cb (ttrace sim) = Some (\<lambda>_ _. 1)" "pkt_fill_cb (ectxs sim ! 0) = None" "packets_processed sim = 0"
    using demo_add_ok [of "''trace.txt''"]
    by (auto simp: demo_init_def gdriver_init_def zero_sim_def EC_MAX_NUM_def MAGIC_PATH_def demo_options_def)
  have reach: "gd_reach (demo_options ''trace.txt'') sim"
    using gd_reach.add [OF demo_reach] sim(1) unfolding demo_add_def by blast
  obtain sim' w' cs' where run: "gdriver_run (\<lambda>cs. (SPIN_SUCCESS, replicate (adds cs) (0, 0, 0, 0))) (1, 1, 1024) [Some demo_line] 4096 (sim, w, [])
        = Inr (GDRIVER_OK, sim', w', cs')" "packets_processed sim' = 1"
    using sim(2-)
    by (auto simp: gdriver_run_def gdriver_parse_trace_def replay_line_def demo_line_def gdriver_fill_pkt_def
        GDRIVER_MATCHING_CTX_MAXSIZE_def feedback_fold Let_def upt_rec)
  have "gdriver_fini SPIN_SUCCESS sim' = GDRIVER_ERR"
    using gdriver_verdict [OF reach _ run(1)] by (simp add: demo_options_def MAGIC_PATH_def)
  then show "?P w" using reach run by blast
qed

end
