(* ===== verification/Drivers.thy ===== *)
theory Drivers
  imports Gdriver Kvs Ooorb
begin

text \<open>
  The drivers of the examples: the packet fillers they pass to the generic driver, and their
  \<open>main\<close> functions as sequences of its calls. \<open>rand k\<close> is what the \<open>k\<close>-th call of the
  library's \<open>rand\<close> returns, a number of 31 bits. The environment of a \<open>main\<close> collects what it
  gets from outside: the parsed command line, the simulator's answers, the trace and the buffer.
\<close>

section \<open>Packet fillers\<close>

type_synonym rand_fun = "nat \<Rightarrow> 31 word"

definition rnd :: "rand_fun \<Rightarrow> nat \<Rightarrow> u32 \<Rightarrow> u32" where
  "rnd rand k n = ucast (rand k) mod n"

definition set_ttl :: "u8 \<Rightarrow> u32 \<Rightarrow> mem \<Rightarrow> mem" where "set_ttl v p m = store8 m (p + 8) v"
definition set_protocol :: "u8 \<Rightarrow> u32 \<Rightarrow> mem \<Rightarrow> mem" where "set_protocol v p m = store8 m (p + 9) v"
definition set_checksum :: "u16 \<Rightarrow> u32 \<Rightarrow> mem \<Rightarrow> mem" where "set_checksum v q m = store16 m (q + 6) v"

text \<open>\<open>data[i] = f i\<close> for the first \<open>n\<close> words.\<close>

definition store_words :: "(nat \<Rightarrow> u32) \<Rightarrow> u32 \<Rightarrow> nat \<Rightarrow> mem \<Rightarrow> mem" where
  "store_words f data n m = fold (\<lambda>i m. store32 m (data + 4 * of_nat i) (f i)) [0..<n] m"

definition kvs_packet_filler :: "rand_fun \<Rightarrow> fill_fun" where
  "kvs_packet_filler rand msg_idx pkt_idx pkt_buf max_len w =
     (let m = wmem w; k = rand_calls w; header_len = 28; udp = pkt_buf + 20;
          m = set_version 4 pkt_buf m;
          m = set_ihl 5 pkt_buf m;
          m = set_source_id 0x0A000001 pkt_buf m;
          m = set_dest_id 0x0A000002 pkt_buf m;
          m = set_ttl 64 pkt_buf m;
          m = set_protocol 17 pkt_buf m;
          m = set_src_port 1234 udp m;
          m = set_dst_port 5678 udp m;
          m = set_checksum 0 udp m;
          req = pkt_buf + header_len;
          (m, k) = (if msg_idx mod 2 = 0
            then (store32 (store32 (store32 m req 2) (req + 4) (rnd rand k 10)) (req + 8) (rnd rand (k + 1) 10000), k + 2)
            else (store32 (store32 (store32 m req 1) (req + 4) (rnd rand k 10)) (req + 8) 0, k + 1));
          payload_len = 12;
          total_len = header_len + payload_len;
          m = set_length (ucast total_len) pkt_buf m;
          m = set_udp_length (ucast (8 + payload_len)) udp m
      in Inr (total_len, Some total_len, w\<lparr>wmem := m, rand_calls := k\<rparr>))"

definition mapreduce_packet_filler :: fill_fun where
  "mapreduce_packet_filler msg_idx pkt_idx pkt_buf max_len w =
     (let m = wmem w; header_len = 28; udp = pkt_buf + 20;
          m = set_version 4 pkt_buf m;
          m = set_ihl 5 pkt_buf m;
          m = set_source_id 0x0A000001 pkt_buf m;
          m = set_dest_id 0x0A000002 pkt_buf m;
          m = set_src_port 1234 udp m;
          m = set_dst_port 5678 udp m;
          data = pkt_buf + header_len;
          payload_bytes = max_len - header_len;
          num_ints = payload_bytes div 4;
          m = store_words (\<lambda>_. 1) data (unat num_ints) m;
          total_len = header_len + num_ints * 4;
          m = set_length (ucast total_len) pkt_buf m;
          m = set_udp_length (ucast (8 + num_ints * 4)) udp m
      in Inr (max_len, Some total_len,
          w\<lparr>wmem := m, expected_total_sum := expected_total_sum w + of_nat (unat num_ints)\<rparr>))"

text \<open>\<open>0x3F000000\<close> is the single precision \<open>0.5\<close>; the payload does not depend on \<open>max_len\<close>.\<close>

definition allreduce_packet_filler :: fill_fun where
  "allreduce_packet_filler msg_idx pkt_idx pkt_buf max_len w =
     (let m = wmem w; header_len = 28; udp = pkt_buf + 20;
          m = set_version 4 pkt_buf m;
          m = set_ihl 5 pkt_buf m;
          m = set_source_id 0x0A000001 pkt_buf m;
          m = set_dest_id 0x0A000002 pkt_buf m;
          m = set_src_port 1234 udp m;
          m = set_dst_port 5678 udp m;
          grads = pkt_buf + header_len;
          payload_bytes = 1024 - header_len;
          num_floats = payload_bytes div 4;
          m = store_words (\<lambda>_. 0x3F000000) grads (unat num_floats) m;
          total_len = header_len + num_floats * 4;
          m = set_length (ucast total_len) pkt_buf m;
          m = set_udp_length (ucast (8 + num_floats * 4)) udp m
      in Inr (total_len, Some total_len, w\<lparr>wmem := m\<rparr>))"

text \<open>The fillers of \<^verbatim>\<open>int_sum\<close> and \<^verbatim>\<open>histogram\<close> differ in the bound of the random words.\<close>

definition random_words :: "rand_fun \<Rightarrow> u32 \<Rightarrow> u32 \<Rightarrow> u32 \<Rightarrow> world \<Rightarrow> world" where
  "random_words rand bound pkt_buff max_pkt_size w =
     (let m = set_ihl 5 pkt_buff (wmem w);
          m = set_length (ucast max_pkt_size) pkt_buff m;
          n = unat ((max_pkt_size - 28) div 4);
          m = store_words (\<lambda>i. rnd rand (rand_calls w + i) bound) (pkt_buff + 28) n m
      in w\<lparr>wmem := m, rand_calls := rand_calls w + n\<rparr>)"

definition int_sum_fill_packet :: "rand_fun \<Rightarrow> fill_fun" where
  "int_sum_fill_packet rand msg_idx pkt_idx pkt_buff max_pkt_size w =
     Inr (max_pkt_size, None, random_words rand 100 pkt_buff max_pkt_size w)"

definition HISTOGRAM_WORDS :: u32 where "HISTOGRAM_WORDS = 1024"

definition histogram_fill_packet :: "rand_fun \<Rightarrow> fill_fun" where
  "histogram_fill_packet rand msg_idx pkt_idx pkt_buff max_pkt_size w =
     Inr (max_pkt_size, None, random_words rand HISTOGRAM_WORDS pkt_buff max_pkt_size w)"

definition empty_fill_packet :: fill_fun where
  "empty_fill_packet msg_idx pkt_idx pkt_buff max_pkt_size w = Inr (max_pkt_size, None, w)"

definition ooorb_fill_packet :: fill_fun where
  "ooorb_fill_packet msg_idx pkt_idx pkt_buff max_pkt_size w =
     (case fill_packet msg_idx pkt_idx (wmem w) pkt_buff max_pkt_size of (r, m) \<Rightarrow> Inr (r, None, w\<lparr>wmem := m\<rparr>))"

subsection \<open>The table and the packets of \<^verbatim>\<open>filtering\<close>\<close>

definition KEY_SIZE :: u32 where "KEY_SIZE = 8"
definition TOT_WORDS :: u32 where "TOT_WORDS = 262144"

definition hashmult :: "u16 \<Rightarrow> u16" where
  "hashmult key = fold (\<lambda>i hash. hash * 31 + ucast (ucast (drop_bit (8 * i) key) :: u8)) [0..<2] 0"

definition fill_htable :: "u32 \<Rightarrow> u32 list \<Rightarrow> u32 list" where
  "fill_htable len vec = fold (\<lambda>i vec. vec[unat (hashmult (of_nat i)) := of_nat i]) [0..<unat len] vec"

definition filtering_fill_packet :: "rand_fun \<Rightarrow> fill_fun" where
  "filtering_fill_packet rand msg_idx pkt_idx pkt_buff max_pkt_size w =
     bindE (guardE (max_pkt_size \<ge> KEY_SIZE) AssertFailed) (\<lambda>_.
       let n = unat (KEY_SIZE div 4)
       in Inr (max_pkt_size, None, w\<lparr>wmem := store_words (\<lambda>i. ucast (rand (rand_calls w + i))) pkt_buff n (wmem w),
            rand_calls := rand_calls w + n\<rparr>))"

section \<open>The \<open>main\<close> functions\<close>

record env =
  e_parsed :: "args_info option"
  e_find :: "string \<Rightarrow> string \<Rightarrow> i32 \<times> u32 \<times> u64"
  e_run :: "sim_call list \<Rightarrow> i32 \<times> feedback list"
  e_fini :: i32
  e_header :: "u32 \<times> u32 \<times> u32"
  e_lines :: "trace_line option list"
  e_buf :: u32
  e_world :: world
  e_rand :: rand_fun

definition EXIT_SUCCESS :: i32 where "EXIT_SUCCESS = 0"
definition EXIT_FAILURE :: i32 where "EXIT_FAILURE = 1"

text \<open>What the mains share: they run, and finish with what \<open>gdriver_fini\<close> returns. Results of the calls before are ignored.\<close>

definition run_fini :: "env \<Rightarrow> gd_fail + i32 \<times> sim_descr \<times> sim_call list \<Rightarrow> gd_fail + i32 \<times> sim_descr \<times> sim_call list" where
  "run_fini e added =
     bindE added (\<lambda>(_, sim, cs).
     bindE (gdriver_run (e_run e) (e_header e) (e_lines e) (e_buf e) (sim, e_world e, cs)) (\<lambda>(_, sim, _, cs).
       Inr (gdriver_fini (e_fini e) sim, sim, cs)))"

definition init_of :: "env \<Rightarrow> (string \<Rightarrow> string \<Rightarrow> i32) option \<Rightarrow> i32 \<times> i32 \<times> sim_descr" where
  "init_of e matching = gdriver_init (e_parsed e) matching zero_sim"

definition add_one ::
    "env \<Rightarrow> string \<Rightarrow> string option \<Rightarrow> string option \<Rightarrow> string option \<Rightarrow> fill_fun option \<Rightarrow> u8 list option \<Rightarrow> u64 \<Rightarrow>
      sim_descr \<times> sim_call list \<Rightarrow> gd_fail + i32 \<times> sim_descr \<times> sim_call list" where
  "add_one e file hh ph th cb img n s = gdriver_add_ectx (e_find e) file hh ph th cb img n None 0 s"

definition plain_main ::
    "env \<Rightarrow> string \<Rightarrow> string option \<Rightarrow> string option \<Rightarrow> string option \<Rightarrow> fill_fun option \<Rightarrow>
      gd_fail + i32 \<times> sim_descr \<times> sim_call list" where
  "plain_main e file hh ph th cb =
     run_fini e (add_one e file hh ph th cb None 0 (snd (snd (init_of e None)), []))"

definition exit_with :: "(i32 \<Rightarrow> i32) \<Rightarrow> gd_fail + i32 \<times> 'a \<Rightarrow> gd_fail + i32 \<times> 'a" where
  "exit_with f r = bindE r (\<lambda>(v, x). Inr (f v, x))"

definition kvs_main :: "env \<Rightarrow> gd_fail + i32 \<times> sim_descr \<times> sim_call list" where
  "kvs_main e = (if fst (init_of e None) \<noteq> GDRIVER_OK then Inr (-1, snd (snd (init_of e None)), [])
     else exit_with (\<lambda>_. 0) (plain_main e ''build/kvs'' (Some ''kvs_header_handler'') None None
       (Some (kvs_packet_filler (e_rand e)))))"

definition mapreduce_main :: "env \<Rightarrow> gd_fail + i32 \<times> sim_descr \<times> sim_call list" where
  "mapreduce_main e =
     (let e = e\<lparr>e_world := (e_world e)\<lparr>expected_total_sum := 0\<rparr>\<rparr>
      in if fst (init_of e None) \<noteq> GDRIVER_OK then Inr (-1, snd (snd (init_of e None)), [])
         else exit_with (\<lambda>_. 0) (plain_main e ''build/map_reduce'' (Some ''map_phase_hh'') (Some ''map_phase_ph'')
           (Some ''reduce_phase_th'') (Some mapreduce_packet_filler)))"

definition allreduce_main :: "env \<Rightarrow> gd_fail + i32 \<times> sim_descr \<times> sim_call list" where
  "allreduce_main e = (if fst (init_of e None) \<noteq> GDRIVER_OK then Inr (-1, snd (snd (init_of e None)), [])
     else exit_with (\<lambda>_. 0) (plain_main e ''build/ALLReduce'' None (Some ''allreduce_ph'') (Some ''allreduce_th'')
       (Some allreduce_packet_filler)))"

definition int_sum_main :: "env \<Rightarrow> gd_fail + i32 \<times> sim_descr \<times> sim_call list" where
  "int_sum_main e = exit_with (\<lambda>_. 0) (plain_main e ''build/int_sum'' (Some ''int_sum_hh'') (Some ''int_sum_ph'')
     (Some ''int_sum_th'') (Some (int_sum_fill_packet (e_rand e))))"

definition histogram_main :: "env \<Rightarrow> gd_fail + i32 \<times> sim_descr \<times> sim_call list" where
  "histogram_main e = exit_with (\<lambda>_. 0) (plain_main e ''build/histogram_l1'' None (Some ''histogram_l1_ph'')
     (Some ''histogram_l1_th'') (Some (histogram_fill_packet (e_rand e))))"

definition aggregate_main :: "env \<Rightarrow> gd_fail + i32 \<times> sim_descr \<times> sim_call list" where
  "aggregate_main e = exit_with (\<lambda>_. 0) (plain_main e ''build/aggregate_global'' None (Some ''aggregate_global_ph'')
     (Some ''aggregate_global_th'') None)"

definition aggregate_and_reduce_main :: "env \<Rightarrow> gd_fail + i32 \<times> sim_descr \<times> sim_call list" where
  "aggregate_and_reduce_main e = exit_with (\<lambda>_. 0) (run_fini e
     (bindE (add_one e ''build/aggregate_and_reduce'' None (Some ''aggregate_global_ph'') (Some ''aggregate_global_th'')
        None None 0 (snd (snd (init_of e None)), [])) (\<lambda>(_, s).
      add_one e ''build/aggregate_and_reduce'' None (Some ''reduce_l1_ph'') (Some ''reduce_l1_th'') None None 0 s)))"

definition copy_from_host_main :: "env \<Rightarrow> gd_fail + i32 \<times> sim_descr \<times> sim_call list" where
  "copy_from_host_main e = exit_with (\<lambda>_. 0) (plain_main e ''build/copy_from_host'' None (Some ''copy_from_host_ph'') None None)"

definition copy_to_host_main :: "env \<Rightarrow> gd_fail + i32 \<times> sim_descr \<times> sim_call list" where
  "copy_to_host_main e = exit_with (\<lambda>_. 0) (plain_main e ''build/copy_to_host'' None (Some ''copy_to_host_ph'') None None)"

definition hostdirect_main :: "env \<Rightarrow> gd_fail + i32 \<times> sim_descr \<times> sim_call list" where
  "hostdirect_main e = exit_with (\<lambda>_. 0) (plain_main e ''build/hostdirect'' None (Some ''hostdirect_ph'') None None)"

definition pingpong_main :: "env \<Rightarrow> gd_fail + i32 \<times> sim_descr \<times> sim_call list" where
  "pingpong_main e = exit_with (\<lambda>_. 0) (plain_main e ''build/pingpong'' None (Some ''pingpong_ph'') None None)"

text \<open>Here the exit status is \<^verbatim>\<open>(gdriver_fini()) ? EXIT_SUCCESS : EXIT_FAILURE\<close>.\<close>

definition empty_main :: "env \<Rightarrow> gd_fail + i32 \<times> sim_descr \<times> sim_call list" where
  "empty_main e = exit_with (\<lambda>v. if v \<noteq> 0 then EXIT_SUCCESS else EXIT_FAILURE)
     (plain_main e ''build/empty'' (Some ''empty_hh'') (Some ''empty_ph'') (Some ''empty_th'') (Some empty_fill_packet))"

definition ooorb_main :: "env \<Rightarrow> gd_fail + i32 \<times> sim_descr \<times> sim_call list" where
  "ooorb_main e = exit_with (\<lambda>v. if v \<noteq> 0 then EXIT_SUCCESS else EXIT_FAILURE)
     (plain_main e ''build/ooorb'' (Some ''ooorb_hh'') (Some ''ooorb_ph'') (Some ''ooorb_th'') (Some ooorb_fill_packet))"

definition bytes_of :: "u32 list \<Rightarrow> u8 list" where
  "bytes_of ws = concat (map (\<lambda>w. [ucast w, ucast (drop_bit 8 w), ucast (drop_bit 16 w), ucast (drop_bit 24 w)]) ws)"

text \<open>\<open>vec\<close> is the memory \<open>malloc\<close> returns, of whatever contents.\<close>

definition filtering_main :: "u32 list \<Rightarrow> env \<Rightarrow> gd_fail + i32 \<times> sim_descr \<times> sim_call list" where
  "filtering_main vec e =
     exit_with (\<lambda>_. 0) (run_fini e (add_one e ''build/filtering'' None (Some ''filtering_ph'') None
       (Some (filtering_fill_packet (e_rand e))) (Some (bytes_of (fill_htable TOT_WORDS vec))) (4 * ucast TOT_WORDS)
       (snd (snd (init_of e None)), [])))"

subsection \<open>\<^verbatim>\<open>synthetic\<close>\<close>

definition match_ectx_cb :: "string \<Rightarrow> string \<Rightarrow> i32" where
  "match_ectx_cb src_addr ectx_match_addr = (if src_addr = ectx_match_addr then 1 else 0)"

definition decimal :: "nat \<Rightarrow> string" where
  "decimal n = map (\<lambda>d. char_of (unat (dchar False d))) (to_digits 10 n)"

definition synthetic_params :: "u32 list" where
  "synthetic_params = [10, 64, 10, 64, 10]"

fun synthetic_add :: "env \<Rightarrow> nat list \<Rightarrow> sim_descr \<times> sim_call list \<Rightarrow> gd_fail + i32 \<times> sim_descr \<times> sim_call list" where
  "synthetic_add e [] s = Inr (GDRIVER_OK, s)"
| "synthetic_add e (ectx_id # ids) s =
     (let matching_addr = ''192.168.0.'' @ decimal ectx_id in
      bindE (gdriver_add_ectx (e_find e) ''build/synthetic'' None (Some ''synthetic_ph'') None None
          (Some (bytes_of synthetic_params)) 20 (Some matching_addr) (of_nat (length matching_addr + 1)) s) (\<lambda>(ret, s).
        if ret \<noteq> GDRIVER_OK then Inr (ret, s) else synthetic_add e ids s))"

definition synthetic_main :: "env \<Rightarrow> gd_fail + i32 \<times> sim_descr \<times> sim_call list" where
  "synthetic_main e =
     (case init_of e (Some match_ectx_cb) of (r, ectx_num, sim) \<Rightarrow>
      if r \<noteq> GDRIVER_OK then Inr (EXIT_FAILURE, sim, []) else
      bindE (synthetic_add e [0..<nat (sint ectx_num)] (sim, [])) (\<lambda>(ret, sim, cs).
        if ret \<noteq> GDRIVER_OK then Inr (EXIT_FAILURE, sim, cs) else
        bindE (gdriver_run (e_run e) (e_header e) (e_lines e) (e_buf e) (sim, e_world e, cs)) (\<lambda>(ret, sim, _, cs).
          if ret \<noteq> GDRIVER_OK then Inr (EXIT_FAILURE, sim, cs) else
          Inr (if gdriver_fini (e_fini e) sim = GDRIVER_OK then EXIT_SUCCESS else EXIT_FAILURE, sim, cs))))"

section \<open>What the fillers write\<close>

lemma store_words_other:
  assumes "\<And>i. i < n \<Longrightarrow> sep (data + 4 * of_nat i) 4 b k"
  shows "k = 1 \<Longrightarrow> load8 (store_words f data n m) b = load8 m b"
    "k = 2 \<Longrightarrow> load16 (store_words f data n m) b = load16 m b"
    "k = 4 \<Longrightarrow> load32 (store_words f data n m) b = load32 m b"
  using assms by (induction n) (simp_all add: store_words_def mem_other)

lemma store_words_same:
  assumes "n \<le> 2 ^ 30" "i < n"
  shows "word_at (store_words f data n m) data i = f i"
  using assms
proof (induction n)
  case (Suc n)
  have step: "store_words f data (Suc n) m = store32 (store_words f data n m) (data + 4 * of_nat n) (f n)"
    by (simp add: store_words_def)
  show ?case
    using Suc words_sep [of n i data] by (cases "i = n") (simp_all add: step word_at_def mem_other)
qed simp

text \<open>
  The filler of the key-value driver, whatever the size it is called with, writes a packet of 40 bytes whose payload the
  handler finds behind the header: for an even message a request that sets a key below 10, for an odd one a request that
  gets a key below 10, and so in every case a key of the store.
\<close>

theorem kvs_driver_requests:
  fixes rand w
  defines "key \<equiv> rnd rand (rand_calls w) 10"
  shows "\<exists>w'. kvs_packet_filler rand msg p buf mx w = Inr (40, Some 40, w')
    \<and> GET_IP_UDP_PLD (wmem w') buf = (buf + PKT_HDR_SIZE, 12) \<and> key < MAX_KEYS
    \<and> request_at (wmem w') buf = (if even (unat msg) then Set key (rnd rand (rand_calls w + 1) 10000) else Get key)"
proof -
  have even: "msg mod 2 = 0 \<longleftrightarrow> even (unat msg)"
    by (simp add: word_unat_eq_iff unat_mod even_iff_mod_2_eq_zero)
  have key: "key < MAX_KEYS"
    unfolding key_def rnd_def MAX_KEYS_def
    by (rule order.strict_trans [OF word_mod_less_divisor]) simp_all
  show ?thesis
    using key
    by (auto simp: kvs_packet_filler_def even Let_def header_defs set_ttl_def set_protocol_def set_checksum_def PKT_HDR_SIZE_def
        GET_IP_UDP_PLD_def request_at_def decode_def kvs_op_def kvs_key_def kvs_value_def mem_other sepI key_def
        IP_SIZE_def UDP_SIZE_def)
qed

lemma sep_offsets:
  assumes "i + n \<le> j \<or> j + k \<le> i" "i + n \<le> 2 ^ 32" "j + k \<le> 2 ^ 32"
  shows "sep (a + of_nat i) n (a + of_nat j) k"
  unfolding sep_def
proof (intro allI impI notI)
  fix x y assume xy: "x < n" "y < k" and e: "a + of_nat i + of_nat x = a + of_nat j + of_nat y"
  then have "(of_nat (i + x) :: u32) = of_nat (j + y)" by (simp add: add.assoc)
  then have "unat (of_nat (i + x) :: u32) = unat (of_nat (j + y) :: u32)" by simp
  moreover have "i + x < 2 ^ 32" "j + y < 2 ^ 32" using assms xy by linarith+
  ultimately have "i + x = j + y" by (simp only: unat_of_nat take_bit_nat_eq_self len_num1) (simp add: take_bit_nat_eq_self)
  with assms(1) xy show False by linarith
qed

lemma data_sep:
  assumes "i < n" "n \<le> 2 ^ 28" "j + k \<le> 28"
  shows "sep (buf + 28 + 4 * of_nat i) 4 (buf + of_nat j) k" "sep (buf + of_nat j) k (buf + 28 + 4 * of_nat i) 4"
proof -
  have "sep (buf + of_nat (28 + 4 * i)) 4 (buf + of_nat j) k"
    by (rule sep_offsets) (use assms in auto)
  then show "sep (buf + 28 + 4 * of_nat i) 4 (buf + of_nat j) k" by (simp add: add.assoc)
  then show "sep (buf + of_nat j) k (buf + 28 + 4 * of_nat i) 4" by (simp add: sep_commute)
qed

text \<open>A payload of \<open>n\<close> words stored behind a minimal header, with the length fields set after it.\<close>

lemma payload_filled:
  fixes m buf f n ul
  defines "m' \<equiv> set_udp_length ul (buf + 20) (set_length (of_nat (28 + 4 * n)) buf (store_words f (buf + 28) n m))"
  assumes "ip_ihl m buf = 5" "28 + 4 * n < 2 ^ 16"
  shows "payload m' buf = map f [0..<n]" "ip_ihl m' buf = 5"
proof -
  have n: "n \<le> 2 ^ 28" "n \<le> 2 ^ 30" using assms(3) by simp_all
  have hdr: "sep (buf + 28 + 4 * of_nat i) 4 buf 1" if "i < n" for i
    using data_sep [OF that n(1), of 0 1 buf] by simp
  have sm: "load8 m' buf = load8 m buf"
    unfolding m'_def header_defs using store_words_other(1) [of n "buf + 28" buf 1] hdr
    by (simp add: mem_other sepI)
  then show ihl: "ip_ihl m' buf = 5" using assms(2) by (simp add: header_defs)
  have len: "ip_length m' buf = of_nat (28 + 4 * n)"
    unfolding m'_def header_defs by (simp add: mem_other sepI)
  have ptr: "pld_ptr m' buf = buf + 28"
    by (simp add: pld_ptr_def GET_IP_UDP_PLD_def ihl UDP_SIZE_def)
  have "ucast (of_nat (28 + 4 * n) :: u16) = (of_nat (28 + 4 * n) :: u32)"
    using assms(3) by (simp add: word_unat_eq_iff unat_of_nat unsigned_ucast_eq take_bit_nat_eq_self del: of_nat_add of_nat_mult)
  then have words: "pld_words m' buf = n"
    using assms(3) by (simp add: pld_words_def GET_IP_UDP_PLD_def len IP_SIZE_def UDP_SIZE_def unat_div unat_word_ariths unat_of_nat take_bit_nat_eq_self)
  have "word_at m' (buf + 28) i = f i" if i: "i < n" for i
  proof -
    have "word_at m' (buf + 28) i = word_at (store_words f (buf + 28) n m) (buf + 28) i"
      using data_sep(2) [OF i n(1), of 2 2 buf] data_sep(2) [OF i n(1), of 24 2 buf]
      by (simp add: m'_def header_defs word_at_def mem_other add.assoc)
    then show ?thesis using store_words_same [OF n(2) i] by simp
  qed
  then show "payload m' buf = map f [0..<n]" by (simp add: payload_def ptr words)
qed

lemma ihl5_other:
  "ip_ihl (set_source_id v buf m) buf = ip_ihl m buf" "ip_ihl (set_dest_id v buf m) buf = ip_ihl m buf"
  "ip_ihl (set_src_port q (buf + 20) m) buf = ip_ihl m buf" "ip_ihl (set_dst_port q (buf + 20) m) buf = ip_ihl m buf"
  by (simp_all add: header_defs mem_other sepI)

text \<open>
  For a packet size from the 28 bytes of the header to the largest the 16-bit length can express, the filler of the
  map-reduce driver writes as many words of value 1 as fit behind the header, where the handler finds exactly them, so that
  what the handler adds up is what the driver adds to its expected sum.
\<close>

theorem mapreduce_driver_payload:
  fixes mx :: u32
  assumes "28 \<le> unat mx" "unat mx < 2 ^ 16"
  defines "n \<equiv> (unat mx - 28) div 4"
  shows "\<exists>l1 w'. mapreduce_packet_filler msg p buf mx w = Inr (mx, l1, w')
    \<and> payload (wmem w') buf = replicate n 1
    \<and> expected_total_sum w' = expected_total_sum w + of_nat n
    \<and> sum_list (payload (wmem w') buf) = of_nat n"
proof -
  have le: "28 \<le> mx" using assms(1) by (simp add: word_le_nat_alt)
  have n: "unat ((mx - 28) div 4) = n"
    using assms(1) le by (simp add: n_def unat_div unat_sub)
  have n': "(mx - 28) div 4 = of_nat n" unfolding n [symmetric] by simp
  have b: "28 + 4 * n < 2 ^ 16" using assms(1,2) by (simp add: n_def)
  have fl: "ucast (28 + of_nat n * 4 :: u32) = (of_nat (28 + 4 * n) :: u16)"
  proof -
    have "28 + of_nat n * 4 = (of_nat (28 + 4 * n) :: u32)" by simp
    moreover have "take_bit 32 (28 + 4 * n) = 28 + 4 * n" using b by (intro take_bit_nat_eq_self) simp
    ultimately show ?thesis by (simp only: unsigned_of_nat len_num1 len_bit0 mult_1_right) simp
  qed
  have nn: "unat (of_nat n :: u32) = n" using n n' by simp
  have u: "ucast (of_nat n :: u32) = (of_nat n :: u64)" by (metis nn of_nat_unat)
  define m1 where "m1 = set_dst_port 5678 (buf + 20) (set_src_port 1234 (buf + 20) (set_dest_id 0x0A000002 buf
    (set_source_id 0x0A000001 buf (set_ihl 5 buf (set_version 4 buf (wmem w))))))"
  have ihl: "ip_ihl m1 buf = 5" by (simp add: m1_def ihl5_other)
  define w' where "w' = w\<lparr>wmem := set_udp_length (ucast (8 + of_nat n * 4 :: u32)) (buf + 20)
    (set_length (of_nat (28 + 4 * n)) buf (store_words (\<lambda>_. 1) (buf + 28) n m1)),
    expected_total_sum := expected_total_sum w + of_nat n\<rparr>"
  have "mapreduce_packet_filler msg p buf mx w = Inr (mx, Some (28 + of_nat n * 4), w')"
    by (simp add: mapreduce_packet_filler_def Let_def w'_def m1_def n' nn u fl)
  moreover have "payload (wmem w') buf = map (\<lambda>_. 1) [0..<n]"
    using payload_filled(1) [OF ihl b] by (simp add: w'_def)
  ultimately show ?thesis
    by (intro exI [of _ w'] exI) (simp add: w'_def map_replicate_const sum_list_replicate)
qed

theorem mapreduce_driver_payload_witness:
  "\<forall>w. \<exists>l1 w'. mapreduce_packet_filler 0 0 4096 1024 w = Inr (1024, l1, w')
    \<and> payload (wmem w') 4096 = replicate 249 1 \<and> sum_list (payload (wmem w') 4096) = 249"
proof
  fix w
  show "\<exists>l1 w'. mapreduce_packet_filler 0 0 4096 1024 w = Inr (1024, l1, w')
    \<and> payload (wmem w') 4096 = replicate 249 1 \<and> sum_list (payload (wmem w') 4096) = 249"
    using mapreduce_driver_payload [of 1024 0 0 4096 w] by auto
qed

section \<open>What the \<open>main\<close> functions return\<close>

text \<open>
  When the simulator finds its handler, the driver of the filtering example ends in a failed assertion whatever the
  options: its table of 262144 words, one MiB, is larger than the half MiB of NIC memory a context has.
\<close>

theorem filtering_driver_aborts:
  assumes "fst (e_find e ''build/filtering'' ''filtering_ph'') = SPIN_SUCCESS"
  shows "filtering_main vec e = Inl AssertFailed"
proof -
  obtain r n sim where init: "init_of e None = (r, n, sim)" "num_ectxs sim = 0"
    by (cases "init_of e None")
      (auto simp: init_of_def gdriver_init_def zero_sim_def Let_def split: option.splits if_splits prod.splits)
  obtain a sz where f: "e_find e ''build/filtering'' ''filtering_ph'' = (SPIN_SUCCESS, a, sz)"
    using assms by (cases "e_find e ''build/filtering'' ''filtering_ph''") auto
  have "gdriver_init_ectx (e_find e) g 0 ''build/filtering'' None (Some ''filtering_ph'') None cb (Some img) (4 * ucast TOT_WORDS) None
      = Inl AssertFailed" for g cb img
    by (simp add: gdriver_init_ectx_def find_opt_def f Let_def set_regions_def EC_MEM_BASE_ADDR_def NIC_L2_ADDR_def NIC_L2_SIZE_def
        HOST_ADDR_def HOST_SIZE_def SCRATCHPAD_REL_ADDR_def SCRATCHPAD_SIZE_def NUM_CLUSTERS_def NIC_L2_EC_CHUNK_SIZE_def
        HOST_EC_CHUNK_SIZE_def SCRATCHPAD_EC_CHUNK_SIZE_def EC_MAX_NUM_def TOT_WORDS_def)
  then show ?thesis
    by (simp add: filtering_main_def exit_with_def run_fini_def add_one_def gdriver_add_ectx_def init EC_MAX_NUM_def
        GDRIVER_MATCHING_CTX_MAXSIZE_def)
qed

definition demo_env :: env where
  "demo_env = \<lparr>e_parsed = Some (demo_options MAGIC_PATH), e_find = (\<lambda>_ _. (SPIN_SUCCESS, 0x1d000000, 64)),
     e_run = (\<lambda>cs. (SPIN_SUCCESS, replicate (adds cs) (0, 0, 0, 0))), e_fini = SPIN_SUCCESS, e_header = (0, 0, 0), e_lines = [],
     e_buf = 4096, e_world = \<lparr>wmem = (\<lambda>_. 0), rand_calls = 0, expected_total_sum = 0\<rparr>, e_rand = (\<lambda>k. of_nat k)\<rparr>"

theorem filtering_driver_aborts_witness:
  "filtering_main (replicate 10 0) demo_env = Inl AssertFailed"
  by (rule filtering_driver_aborts) (simp add: demo_env_def)

text \<open>The states of a driver with one context are reachable in the sense of the verdict.\<close>

lemma plain_main_verdict:
  assumes "plain_main e file hh ph th cb = Inr (r, sim, cs)" "e_parsed e = Some ai" "e_fini e = SPIN_SUCCESS"
  shows "r = (if trace_file_arg ai \<noteq> MAGIC_PATH then GDRIVER_ERR
     else if (of_nat (length (snd (e_run e cs))) :: u32) = of_nat (adds cs) then GDRIVER_OK else GDRIVER_ERR)"
proof -
  obtain q n sim0 where init: "gdriver_init (Some ai) None zero_sim = (q, n, sim0)"
    by (cases "gdriver_init (Some ai) None zero_sim") auto
  obtain a s1 c1 where a: "gdriver_add_ectx (e_find e) file hh ph th cb None 0 None 0 (sim0, []) = Inr (a, s1, c1)"
    and "\<exists>x w. gdriver_run (e_run e) (e_header e) (e_lines e) (e_buf e) (s1, e_world e, c1) = Inr (x, sim, w, cs)"
    and r: "r = gdriver_fini (e_fini e) sim"
    using assms(1,2) init by (auto simp: plain_main_def run_fini_def add_one_def init_of_def bindE_eq_Inr)
  then obtain x w where run: "gdriver_run (e_run e) (e_header e) (e_lines e) (e_buf e) (s1, e_world e, c1) = Inr (x, sim, w, cs)"
    by blast
  have "gd_reach ai s1" by (rule gd_reach.add [OF gd_reach.init [OF init] a])
  moreover have "adds c1 = 0"
    using a by (auto simp: gdriver_add_ectx_def gdriver_init_ectx_def bindE_eq_Inr Let_def split: if_splits prod.splits)
  ultimately show ?thesis
    using verdict_eq [OF _ _ run] r assms(3) by simp
qed

text \<open>
  The drivers of the reorder buffer and of the empty example, when they generate their packets, exit with failure exactly when
  all packets were processed, modulo \<open>2 ^ 32\<close>, and with success when some are missing: they test the result of the final
  check, which is 0 for success, as a truth value. When they replay a trace, they always exit with success.
\<close>

theorem exit_status_inverted:
  assumes "e_parsed e = Some ai" "e_fini e = SPIN_SUCCESS"
    "ooorb_main e = Inr (r, sim, cs) \<or> empty_main e = Inr (r, sim, cs)"
  shows "r = (if trace_file_arg ai = MAGIC_PATH \<and> (of_nat (length (snd (e_run e cs))) :: u32) = of_nat (adds cs)
     then EXIT_FAILURE else EXIT_SUCCESS)"
proof -
  obtain exe hh ph th cb q where "plain_main e exe hh ph th cb = Inr (q, sim, cs)"
      "r = (if q \<noteq> 0 then EXIT_SUCCESS else EXIT_FAILURE)"
    using assms(3) unfolding ooorb_main_def empty_main_def exit_with_def bindE_eq_Inr by auto
  with plain_main_verdict [OF this(1) assms(1,2)] show ?thesis
    by (simp add: GDRIVER_OK_def GDRIVER_ERR_def)
qed

lemma demo_ooorb:
  "\<exists>sim cs. ooorb_main demo_env = Inr (EXIT_FAILURE, sim, cs) \<and> adds cs = 2"
proof -
  let ?e = demo_env
  let ?g = "\<lparr>ectx = set_regions 0 (blank_ec\<lparr>ec_hh_addr := 0x1d000000, ec_ph_addr := 0x1d000000, ec_th_addr := 0x1d000000,
      ec_hh_size := 64, ec_ph_size := 64, ec_th_size := 64\<rparr>), pkt_fill_cb = Some ooorb_fill_packet, matching_ctx = []\<rparr>"
  have env: "e_buf ?e = 4096" "e_fini ?e = SPIN_SUCCESS" "e_run ?e = (\<lambda>cs. (SPIN_SUCCESS, replicate (adds cs) (0, 0, 0, 0)))"
    by (simp_all add: demo_env_def)
  define sim0 where "sim0 = snd (snd (init_of ?e None))"
  define sim1 where "sim1 = sim0\<lparr>ectxs := (ectxs sim0)[0 := ?g], num_ectxs := 1\<rparr>"
  have add: "add_one ?e ''build/ooorb'' (Some ''ooorb_hh'') (Some ''ooorb_ph'') (Some ''ooorb_th'') (Some ooorb_fill_packet) None 0 (sim0, [])
      = Inr (GDRIVER_OK, sim1, [])"
    by (simp add: add_one_def gdriver_add_ectx_def gdriver_init_ectx_def find_opt_def demo_env_def sim1_def sim0_def init_of_def
        gdriver_init_def demo_options_def zero_sim_def SPIN_SUCCESS_def EC_MAX_NUM_def GDRIVER_MATCHING_CTX_MAXSIZE_def Let_def set_regions_def blank_ec_def
        EC_MEM_BASE_ADDR_def NIC_L2_ADDR_def NIC_L2_SIZE_def HOST_ADDR_def HOST_SIZE_def SCRATCHPAD_REL_ADDR_def
        SCRATCHPAD_SIZE_def NUM_CLUSTERS_def GDRIVER_OK_def)
  have sim1: "num_ectxs sim1 = 1" "\<not> is_trace sim1" "num_messages (tgen sim1) = 1" "num_packets (tgen sim1) = 2" "packets_sent (tgen sim1) = 0"
      "packets_processed sim1 = 0" "pkt_fill_cb (ectxs sim1 ! 0) = Some ooorb_fill_packet"
    by (simp_all add: sim1_def sim0_def init_of_def demo_env_def gdriver_init_def demo_options_def zero_sim_def EC_MAX_NUM_def)
  have "fills sim1"
    using sim1 by (auto simp: fills_def ooorb_fill_packet_def fill_packet_def Let_def)
  from generate_ectxs_total [OF this, of 4096 "e_world ?e" "[]"] obtain ps w' where gen:
    "gdriver_generate_packets 4096 (sim1, e_world ?e, []) = Inr (sim1\<lparr>tgen := (tgen sim1)\<lparr>packets_sent := of_nat (length ps)\<rparr>\<rparr>, w',
       map PacketAdd ps @ [PacketEos])" "length ps = 2"
    using sim1 by auto
  have "adds (map PacketAdd ps @ [PacketEos]) = 2"
    using gen(2) by (simp add: adds_def)
  then have "ooorb_main ?e = Inr (EXIT_FAILURE, sim1\<lparr>tgen := (tgen sim1)\<lparr>packets_sent := 2\<rparr>, packets_processed := 2\<rparr>,
      map PacketAdd ps @ [PacketEos])"
    using gen sim1 add
    by (simp add: ooorb_main_def exit_with_def plain_main_def run_fini_def gdriver_run_def feedback_fold gdriver_fini_def
        env sim0_def [symmetric] GDRIVER_OK_def)
  then show ?thesis using \<open>adds _ = 2\<close> by blast
qed

theorem exit_status_inverted_witness:
  "\<exists>sim cs. ooorb_main demo_env = Inr (EXIT_FAILURE, sim, cs)
    \<and> (of_nat (length (snd (e_run demo_env cs))) :: u32) = of_nat (adds cs)"
proof -
  obtain r sim cs where "ooorb_main demo_env = Inr (r, sim, cs)" using demo_ooorb by blast
  then show ?thesis
    using exit_status_inverted [of demo_env "demo_options MAGIC_PATH" r sim cs] by (simp add: demo_env_def demo_options_def)
qed

end
