(* ===== verification/Allreduce.thy ===== *)
theory Allreduce
  imports Kvs
begin

text \<open>
  The all-reduce example (\<^verbatim>\<open>ALLReduce/handlers/ALLReduce.c\<close>), which adds vectors of single precision
  numbers into a global array, and its CPU server. A number is its bit pattern; the addition and
  the conversion to \<open>uint64_t\<close>, which the cores do by a library of the compiler, are the parameters \<open>fadd\<close> and \<open>ftou\<close>.
\<close>

section \<open>The handlers\<close>

definition MODEL_SIZE_FLOATS :: nat where "MODEL_SIZE_FLOATS = 4096"

text \<open>The words of memory from the array of the model on: its elements, and whatever lies behind them.\<close>

definition allreduce_ph ::
    "(u32 \<Rightarrow> u32 \<Rightarrow> u32) \<Rightarrow> handler_args \<Rightarrow> mem \<Rightarrow> u32 list \<Rightarrow> u32 list" where
  "allreduce_ph fadd args m model_gradients =
     (let (pkt_pld_ptr, pkt_pld_len) = GET_IP_UDP_PLD m (pkt_mem (args_task args));
          num_floats = unat (pkt_pld_len div 4)
      in fold (\<lambda>i g. if i < MODEL_SIZE_FLOATS then g[i := fadd (g ! i) (word_at m pkt_pld_ptr i)] else g)
           [0..<num_floats] model_gradients)"

text \<open>Each write passes \<open>false\<close> for the pointer to the handle.\<close>

definition allreduce_th ::
    "(u32 \<Rightarrow> u64) \<Rightarrow> device \<Rightarrow> handler_args \<Rightarrow> u32 list \<Rightarrow> core \<Rightarrow> core" where
  "allreduce_th ftou dev args model_gradients c =
     (let host = host_address (args_task args)
      in fold (\<lambda>i. command_null (spin_write_to_host dev (host + of_nat i * 4) (ftou (model_gradients ! i))))
           [0..<MODEL_SIZE_FLOATS] c)"

section \<open>The CPU server\<close>

text \<open>
  \<^verbatim>\<open>cpu_server.c\<close>: the result of \<open>recvfrom\<close> is compared with the size of the header, 8, as an
  unsigned 64-bit number, and so are the next two lengths computed before they are \<open>int\<close> again. The step
  also gives the bytes sent back, if any.
\<close>

definition MODEL_PARAM_SIZE :: nat where "MODEL_PARAM_SIZE = 16384"

record ar_server =
  global_model :: "u32 list"
  ar_packets :: u64
  ar_buffer :: "u8 list"

definition ar_server_step ::
    "(u32 \<Rightarrow> u32 \<Rightarrow> u32) \<Rightarrow> i32 \<times> u8 list \<Rightarrow> ar_server \<Rightarrow> u8 list option \<times> ar_server" where
  "ar_server_step fadd r s = (case r of (n, data) \<Rightarrow>
     let buffer = received data (ar_buffer s); s = s\<lparr>ar_buffer := buffer\<rparr>
     in if (scast n :: u64) > 8 then
          (let data_len = (ucast ((scast n :: u64) - 8) :: i32);
               num_floats = (ucast ((scast data_len :: u64) div 4) :: i32);
               model = fold (\<lambda>i g. g[i mod MODEL_PARAM_SIZE := fadd (g ! (i mod MODEL_PARAM_SIZE)) (le32 buffer (2 + i))])
                 [0..<nat (sint num_floats)] (global_model s);
               s = s\<lparr>global_model := model, ar_packets := ar_packets s + 1\<rparr>
           in (if le32 buffer 0 = 1 then Some (take 8 buffer) else None, s))
        else (None, s))"

section \<open>Element-wise addition\<close>

definition add_vec :: "(u32 \<Rightarrow> u32 \<Rightarrow> u32) \<Rightarrow> u32 list \<Rightarrow> u32 list \<Rightarrow> u32 list" where
  "add_vec fadd xs g = map (\<lambda>i. if i < length xs then fadd (g ! i) (xs ! i) else g ! i) [0..<length g]"

lemma length_add_vec [simp]: "length (add_vec fadd xs g) = length g"
  by (simp add: add_vec_def)

lemma add_vec_nth: "i < length g \<Longrightarrow> add_vec fadd xs g ! i = (if i < length xs then fadd (g ! i) (xs ! i) else g ! i)"
  by (simp add: add_vec_def)

lemma add_vec_Nil: "add_vec fadd [] g = g"
  by (simp add: add_vec_def map_nth)

text \<open>The loop that adds in place, stopping at the end of the array or wrapping within it.\<close>

lemma add_loop:
  assumes "\<And>i. i < n \<Longrightarrow> P i \<longleftrightarrow> i < length g" "\<And>i. i < n \<Longrightarrow> P i \<Longrightarrow> h i = i" "\<And>i. i < n \<Longrightarrow> v i = xs ! i" "n = length xs"
  shows "fold (\<lambda>i g. if P i then g[h i := fadd (g ! h i) (v i)] else g) [0..<n] g = add_vec fadd xs g"
proof -
  let ?F = "\<lambda>i g. if P i then g[h i := fadd (g ! h i) (v i)] else g"
  have "length (fold ?F [0..<k] g) = length g \<and> (\<forall>j<length g. fold ?F [0..<k] g ! j =
      (if j < k then fadd (g ! j) (xs ! j) else g ! j))" if "k \<le> n" for k
    using that
  proof (induction k)
    case (Suc k)
    then show ?case
      using assms(1) [of k] assms(2) [of k] assms(3) [of k] by (auto simp: nth_list_update less_Suc_eq)
  qed simp
  from this [OF order.refl] show ?thesis
    by (intro nth_equalityI) (simp_all add: add_vec_nth assms(4))
qed

lemma allreduce_ph_eq:
  assumes "length g = MODEL_SIZE_FLOATS"
  shows "allreduce_ph fadd args m g = add_vec fadd (payload m (packet_of args)) g"
proof -
  have "fold (\<lambda>i g. if i < MODEL_SIZE_FLOATS then g[i := fadd (g ! i) (word_at m (pld_ptr m (packet_of args)) i)] else g)
      [0..<pld_words m (packet_of args)] g = add_vec fadd (payload m (packet_of args)) g"
    by (rule add_loop) (simp_all add: assms payload_nth)
  then show ?thesis
    unfolding allreduce_ph_def Let_def split_def pld_ptr_def pld_words_def packet_of_def .
qed

text \<open>What the packets of a list add to one element, in their order.\<close>

definition add_column :: "(u32 \<Rightarrow> u32 \<Rightarrow> u32) \<Rightarrow> nat \<Rightarrow> u32 list list \<Rightarrow> u32 \<Rightarrow> u32" where
  "add_column fadd i xss = fold (\<lambda>xs a. if i < length xs then fadd a (xs ! i) else a) xss"

lemma add_vec_fold:
  "length (fold (add_vec fadd) xss g) = length g"
  "i < length g \<Longrightarrow> fold (add_vec fadd) xss g ! i = add_column fadd i xss (g ! i)"
  by (induction xss arbitrary: g) (simp_all add: add_column_def add_vec_nth)

text \<open>The loop leaves the words behind the array alone.\<close>

lemma allreduce_ph_append:
  assumes "length g = MODEL_SIZE_FLOATS"
  shows "allreduce_ph fadd args m (g @ behind) = allreduce_ph fadd args m g @ behind"
proof -
  let ?F = "\<lambda>v i g. if i < MODEL_SIZE_FLOATS then g[i := fadd (g ! i) (v i)] else g"
  have "fold (?F v) is (g @ behind) = fold (?F v) is g @ behind" for v :: "nat \<Rightarrow> u32" and "is"
    using assms by (induction "is" arbitrary: g) (simp_all add: list_update_append1 nth_append)
  then show ?thesis by (simp add: allreduce_ph_def split_def Let_def)
qed

lemma allreduce_fold_append:
  "length g = MODEL_SIZE_FLOATS \<Longrightarrow>
    fold (\<lambda>(args, m). allreduce_ph fadd args m) as (g @ behind) = fold (\<lambda>(args, m). allreduce_ph fadd args m) as g @ behind"
  by (induction as arbitrary: g) (auto simp: allreduce_ph_append allreduce_ph_eq)

lemma allreduce_fold:
  "length g = MODEL_SIZE_FLOATS \<Longrightarrow>
    fold (\<lambda>(args, m). allreduce_ph fadd args m) as g = fold (add_vec fadd) (map (\<lambda>(args, m). payload m (packet_of args)) as) g"
  by (induction as arbitrary: g) (auto simp: allreduce_ph_eq)

text \<open>
  C25: after the payload handler on any packets, every element of the array is what it was with the elements of that index
  of the packets that have one added in the order of arrival, and every word of memory behind the array is as it was: a packet
  that is longer than the array changes nothing beyond it. The list holds the words of memory from the array on.
\<close>

theorem allreduce_adds:
  assumes "MODEL_SIZE_FLOATS \<le> length g" "i < length g"
  shows "length (fold (\<lambda>(args, m). allreduce_ph fadd args m) as g) = length g
    \<and> fold (\<lambda>(args, m). allreduce_ph fadd args m) as g ! i
        = (if i < MODEL_SIZE_FLOATS then add_column fadd i (map (\<lambda>(args, m). payload m (packet_of args)) as) (g ! i) else g ! i)"
proof -
  let ?a = "take MODEL_SIZE_FLOATS g"
  have a: "length ?a = MODEL_SIZE_FLOATS" using assms(1) by simp
  have "fold (\<lambda>(args, m). allreduce_ph fadd args m) as g
      = fold (add_vec fadd) (map (\<lambda>(args, m). payload m (packet_of args)) as) ?a @ drop MODEL_SIZE_FLOATS g"
    using allreduce_fold_append [OF a, of fadd as "drop MODEL_SIZE_FLOATS g"] allreduce_fold [OF a, of fadd as] by simp
  then show ?thesis using assms a by (auto simp: add_vec_fold nth_append)
qed

theorem allreduce_adds_witness:
  "fold (\<lambda>(args, m). allreduce_ph (+) args m) [(demo_args 0x100 1, ram demo_core), (demo_args 0x200 3, ram demo_core)]
      (replicate 4096 1 @ [9]) ! 0 = 13
    \<and> fold (\<lambda>(args, m). allreduce_ph (+) args m) [(demo_args 0x100 1, ram demo_core)] (replicate 4096 1 @ [9]) ! 4096 = 9"
proof -
  let ?g = "replicate 4096 (1 :: u32) @ [9]"
  have len: "length ?g = 4097" by (simp only: length_append length_replicate list.size)
  then have "MODEL_SIZE_FLOATS \<le> length ?g" "0 < length ?g" "4096 < length ?g" by (simp_all add: MODEL_SIZE_FLOATS_def)
  note a = allreduce_adds [OF this(1,2), of "(+)" "[(demo_args 0x100 1, ram demo_core), (demo_args 0x200 3, ram demo_core)]"]
    and b = allreduce_adds [OF this(1,3), of "(+)" "[(demo_args 0x100 1, ram demo_core)]"]
  have g: "?g ! 0 = 1" "?g ! 4096 = 9" by (simp_all add: nth_append)
  have m: "(0 :: nat) < MODEL_SIZE_FLOATS" "\<not> 4096 < MODEL_SIZE_FLOATS" by (simp_all add: MODEL_SIZE_FLOATS_def)
  show ?thesis
    using a b unfolding g if_P [OF m(1)] if_not_P [OF m(2)]
    by (simp only: list.map prod.case packet_of_def demo_args_simps demo_payload) (simp add: add_column_def)
qed

text \<open>
  The completion handler hands the NIC 4096 host writes, one per element in order. Each carries the element
  converted by value to a 64-bit integer, not its bit pattern, and writes eight bytes although the addresses are
  only four bytes apart.
\<close>

theorem allreduce_writes_back:
  fixes args g c
  defines "host \<equiv> host_address (args_task args)"
  shows "issued (tr (allreduce_th ftou dev args g c)) = issued (tr c) @
    map (\<lambda>i. \<lparr>word0 = Some (low32 (host + of_nat i * 4)), word1 = Some (high32 (host + of_nat i * 4)), word2 = Some 17,
      word3 = Some (low32 (ftou (g ! i))), word4 = Some (high32 (ftou (g ! i))), cmd_info = Some 4\<rparr>) [0..<MODEL_SIZE_FLOATS]"
proof -
  have "issued (tr (fold (\<lambda>i. command_null (spin_write_to_host dev (host + of_nat i * 4) (ftou (g ! i)))) [0..<n] c)) = issued (tr c) @
    map (\<lambda>i. \<lparr>word0 = Some (low32 (host + of_nat i * 4)), word1 = Some (high32 (host + of_nat i * 4)), word2 = Some 17,
      word3 = Some (low32 (ftou (g ! i))), word4 = Some (high32 (ftou (g ! i))), cmd_info = Some 4\<rparr>) [0..<n]" for n
    by (induction n) (simp_all add: command_null_def split_def commands_issued)
  then show ?thesis by (simp add: allreduce_th_def host_def)
qed

section \<open>The server does the same\<close>

text \<open>The datagram of the values \<open>xs\<close>: its header, then the values.\<close>

definition float_datagram :: "u32 list \<Rightarrow> i32 \<times> u8 list \<Rightarrow> bool" where
  "float_datagram xs r \<longleftrightarrow> (case r of (n, data) \<Rightarrow> sint n = int (8 + 4 * length xs) \<and> length data = 8 + 4 * length xs
     \<and> (\<forall>i<length xs. le32 data (2 + i) = xs ! i))"

lemma uint_scast_nonneg:
  assumes "0 \<le> sint (n :: i32)"
  shows "uint (scast n :: u64) = sint n"
proof -
  have "uint (scast n :: u64) = take_bit 64 (sint n)"
    by (simp only: scast_eq unsigned_of_int len_num1 len_bit0 len_bit1 len_num0) simp
  also have "\<dots> = sint n" by (rule take_bit_int_eq_self) (use assms sint_i32_bounds [of n] in simp_all)
  finally show ?thesis .
qed

lemma scast_of_nonneg:
  assumes "0 \<le> sint (n :: i32)"
  shows "(scast n :: u64) = of_nat (nat (sint n))"
proof (rule word_uint_eqI)
  have "uint (of_nat (nat (sint n)) :: u64) = take_bit LENGTH(64) (int (nat (sint n)))"
    by (simp only: unsigned_of_nat of_nat_take_bit)
  also have "\<dots> = sint n"
    using assms sint_i32_bounds [of n] by (simp add: take_bit_int_eq_self)
  finally show "uint (scast n :: u64) = uint (of_nat (nat (sint n)) :: u64)"
    using uint_scast_nonneg [OF assms] by simp
qed

lemma i32_of_nat: "k < 2 ^ 31 \<Longrightarrow> sint (of_nat k :: i32) = int k"
  by (subst sint_i32_small) (simp_all add: unat_of_nat take_bit_nat_eq_self)

lemma ucast_of_nat_down: "(ucast (of_nat k :: u64) :: i32) = of_nat k"
  by (simp add: unsigned_of_nat word_of_nat_eq_iff)

lemma float_datagram_lengths:
  assumes "float_datagram xs (n, data)"
  shows "(scast n :: u64) > 8 \<longleftrightarrow> xs \<noteq> []"
    "(ucast ((scast n :: u64) - 8) :: i32) = of_nat (4 * length xs)"
    "(ucast ((scast (of_nat (4 * length xs) :: i32) :: u64) div 4) :: i32) = of_nat (length xs)"
    "nat (sint (of_nat (length xs) :: i32)) = length xs"
proof -
  have n: "sint n = int (8 + 4 * length xs)" using assms by (simp add: float_datagram_def)
  have b: "8 + 4 * length xs < 2 ^ 31" using n sint_i32_bounds(2) [of n] by simp
  have s: "(scast n :: u64) = of_nat (8 + 4 * length xs)" using scast_of_nonneg [of n] n by (metis nat_int of_nat_0_le_iff)
  show "(scast n :: u64) > 8 \<longleftrightarrow> xs \<noteq> []"
    using b unfolding s by (cases xs) (simp_all add: word_less_nat_alt unat_of_nat take_bit_nat_eq_self del: of_nat_add of_nat_mult)
  have "(of_nat (8 + 4 * length xs) :: u64) - 8 = of_nat (4 * length xs)" by simp
  then show "(ucast ((scast n :: u64) - 8) :: i32) = of_nat (4 * length xs)"
    unfolding s by (simp only: ucast_of_nat_down)
  have d: "sint (of_nat (4 * length xs) :: i32) = int (4 * length xs)" using b by (intro i32_of_nat) simp
  then have "(scast (of_nat (4 * length xs) :: i32) :: u64) = of_nat (4 * length xs)"
    using scast_of_nonneg [of "of_nat (4 * length xs) :: i32"] by (simp only: d nat_int of_nat_0_le_iff)
  moreover have "(of_nat (4 * length xs) :: u64) div 4 = of_nat (length xs)"
    using b by (simp add: word_unat_eq_iff unat_div unat_of_nat take_bit_nat_eq_self del: of_nat_mult)
  ultimately show "(ucast ((scast (of_nat (4 * length xs) :: i32) :: u64) div 4) :: i32) = of_nat (length xs)"
    by (simp only: ucast_of_nat_down)
  show "nat (sint (of_nat (length xs) :: i32)) = length xs" using b i32_of_nat [of "length xs"] by simp
qed

lemma le32_received_below:
  assumes "4 * i + 4 \<le> length data" "length data < 2 ^ 31"
  shows "le32 (received data buf) i = le32 data i"
proof -
  have "unat (4 * of_nat i + of_nat k :: u32) = 4 * i + k" if "k < 4" for k
  proof -
    have "(4 * of_nat i + of_nat k :: u32) = of_nat (4 * i + k)" by simp
    then show ?thesis using assms that by (simp only: unat_of_nat) (simp add: take_bit_nat_eq_self)
  qed
  from this [of 0] this [of 1] this [of 2] this [of 3] show ?thesis
    using assms by (simp add: le32_def load32_def received_def nth_append)
qed

lemma ar_server_step_eq:
  assumes "float_datagram xs r" "length xs \<le> MODEL_PARAM_SIZE" "length (global_model s) = MODEL_PARAM_SIZE"
  shows "global_model (snd (ar_server_step fadd r s)) = add_vec fadd xs (global_model s)"
    "ar_packets (snd (ar_server_step fadd r s)) = ar_packets s + (if xs = [] then 0 else 1)"
proof -
  obtain n data where r: "r = (n, data)" by (cases r)
  note l = float_datagram_lengths [OF assms(1) [unfolded r]]
  have data: "length data = 8 + 4 * length xs" "\<forall>i<length xs. le32 data (2 + i) = xs ! i"
    using assms(1) by (simp_all add: float_datagram_def r)
  have len: "8 + 4 * length xs < 2 ^ 31" using assms(2) by (simp add: MODEL_PARAM_SIZE_def)
  have "le32 (received data (ar_buffer s)) (2 + i) = xs ! i" if "i < length xs" for i
    using le32_received_below [of "2 + i" data "ar_buffer s"] data len that by simp
  then have "fold (\<lambda>i g. if i < length (global_model s) then g[i mod MODEL_PARAM_SIZE := fadd (g ! (i mod MODEL_PARAM_SIZE))
        (le32 (received data (ar_buffer s)) (2 + i))] else g) [0..<length xs] (global_model s) = add_vec fadd xs (global_model s)"
    by (intro add_loop) (use assms(2,3) in simp_all)
  moreover have "fold (\<lambda>i g. if i < length (global_model s) then g[i mod MODEL_PARAM_SIZE := fadd (g ! (i mod MODEL_PARAM_SIZE))
        (le32 (received data (ar_buffer s)) (2 + i))] else g) [0..<length xs] (global_model s)
      = fold (\<lambda>i g. g[i mod MODEL_PARAM_SIZE := fadd (g ! (i mod MODEL_PARAM_SIZE)) (le32 (received data (ar_buffer s)) (2 + i))])
        [0..<length xs] (global_model s)"
    using assms(2,3) by (intro fold_cong) auto
  ultimately show "global_model (snd (ar_server_step fadd r s)) = add_vec fadd xs (global_model s)"
    using l by (cases "xs = []") (simp_all add: ar_server_step_def r Let_def add_vec_Nil)
  show "ar_packets (snd (ar_server_step fadd r s)) = ar_packets s + (if xs = [] then 0 else 1)"
    using l by (simp add: ar_server_step_def r Let_def)
qed

definition ar_server_run :: "(u32 \<Rightarrow> u32 \<Rightarrow> u32) \<Rightarrow> (i32 \<times> u8 list) list \<Rightarrow> ar_server \<Rightarrow> ar_server" where
  "ar_server_run fadd rs s = fold (\<lambda>r s. snd (ar_server_step fadd r s)) rs s"

lemma ar_server_run_eq:
  assumes "list_all2 float_datagram xss rs" "\<forall>xs\<in>set xss. length xs \<le> MODEL_PARAM_SIZE"
    "length (global_model s) = MODEL_PARAM_SIZE"
  shows "global_model (ar_server_run fadd rs s) = fold (add_vec fadd) xss (global_model s)
    \<and> ar_packets (ar_server_run fadd rs s) = ar_packets s + of_nat (length (filter (\<lambda>xs. xs \<noteq> []) xss))"
  using assms
proof (induction xss rs arbitrary: s rule: list_all2_induct)
  case (Cons xs xss r rs)
  then show ?case
    using Cons.IH [of "snd (ar_server_step fadd r s)"] ar_server_step_eq [of xs r s fadd]
    by (simp add: ar_server_run_def algebra_simps)
qed (simp add: ar_server_run_def)

text \<open>
  C26: on the same values, at most \<open>MODEL_PARAM_SIZE\<close> in a packet, each packet's received as one whole datagram, a header of eight bytes
  and the values, the CPU server and the NIC handler end with the same elements of the handler's array wherever they started with the same, and
  the server counts the datagrams with at least one value; one of the header alone changes neither its array nor its count.
\<close>

theorem allreduce_server_agrees:
  fixes as g s rs
  defines "xss \<equiv> map (\<lambda>(args, m). payload m (packet_of args)) as"
  assumes "list_all2 float_datagram xss rs" "\<forall>xs\<in>set xss. length xs \<le> MODEL_PARAM_SIZE"
    "length g = MODEL_SIZE_FLOATS" "length (global_model s) = MODEL_PARAM_SIZE" "i < MODEL_SIZE_FLOATS" "global_model s ! i = g ! i"
  shows "global_model (ar_server_run fadd rs s) ! i = fold (\<lambda>(args, m). allreduce_ph fadd args m) as g ! i
    \<and> ar_packets (ar_server_run fadd rs s) = ar_packets s + of_nat (length (filter (\<lambda>xs. xs \<noteq> []) xss))"
proof -
  have "i < length (global_model s)" using assms(5,6) by (simp add: MODEL_PARAM_SIZE_def MODEL_SIZE_FLOATS_def)
  then show ?thesis
    using ar_server_run_eq [OF assms(2,3,5), of fadd] allreduce_fold [OF assms(4), of fadd as] assms(4,6,7)
    by (simp add: add_vec_fold(2) xss_def)
qed

theorem allreduce_server_agrees_witness:
  "global_model (ar_server_run (+) [(12, [0, 0, 0, 0, 0, 0, 0, 0, 5, 0, 0, 0])]
      \<lparr>global_model = replicate MODEL_PARAM_SIZE 0, ar_packets = 0, ar_buffer = []\<rparr>) ! 0
    = fold (\<lambda>(args, m). allreduce_ph (+) args m) [(demo_args 0x100 1, ram demo_core)] (replicate MODEL_SIZE_FLOATS 0) ! 0"
proof -
  let ?as = "[(demo_args 0x100 1, ram demo_core)]"
  let ?s = "\<lparr>global_model = replicate MODEL_PARAM_SIZE 0, ar_packets = 0, ar_buffer = []\<rparr>"
  have xss: "map (\<lambda>(args, m). payload m (packet_of args)) ?as = [[5]]"
    by (simp add: packet_of_def demo_payload)
  have d: "list_all2 float_datagram [[5]] [(12, [0, 0, 0, 0, 0, 0, 0, 0, 5, 0, 0, 0])]"
    by (simp add: float_datagram_def le32_def load32_def)
  have "0 < MODEL_SIZE_FLOATS" "0 < MODEL_PARAM_SIZE" "1 \<le> MODEL_PARAM_SIZE"
    by (simp_all add: MODEL_SIZE_FLOATS_def MODEL_PARAM_SIZE_def)
  then show ?thesis
    using allreduce_server_agrees [of ?as "[(12, [0, 0, 0, 0, 0, 0, 0, 0, 5, 0, 0, 0])]" "replicate MODEL_SIZE_FLOATS 0" ?s 0 "(+)",
        unfolded xss] d
    by simp
qed

text \<open>
  When \<open>recvfrom\<close> fails, the server adds nothing to its array but counts a packet, and when the packet in its
  buffer was a probe, it answers that probe again.
\<close>

theorem allreduce_server_counts_errors:
  "ar_server_step fadd (-1, []) s =
    (if le32 (ar_buffer s) 0 = 1 then Some (take 8 (ar_buffer s)) else None, s\<lparr>ar_packets := ar_packets s + 1\<rparr>)"
proof -
  have n: "(scast (-1 :: i32) :: u64) = 0xFFFFFFFFFFFFFFFF" by simp
  have lt: "(8 :: u64) < 0xFFFFFFFFFFFFFFFF" by simp
  have d: "(ucast ((0xFFFFFFFFFFFFFFFF :: u64) - 8) :: i32) = 0xFFFFFFF7" by simp
  have f: "(ucast ((scast (0xFFFFFFF7 :: i32) :: u64) div 4) :: i32) = 0xFFFFFFFD" by simp
  have l: "nat (sint (0xFFFFFFFD :: i32)) = 0" by simp
  show ?thesis
    unfolding ar_server_step_def prod.case Let_def n d f l received_def using lt by simp
qed

end
