(* ===== verification/Filtering.thy ===== *)
theory Filtering
  imports Forwarding Drivers
begin

text \<open>
  The filtering example (\<^verbatim>\<open>filtering/handlers/filtering.c\<close>): the first eight bytes of a packet are hashed, the word of a
  table in the handler's memory at that hash replaces the first word of the packet's copy in L2, and the copy is sent to the host.
\<close>

section \<open>The hash\<close>

definition HASH_JEN_MIX :: "u32 \<times> u32 \<times> u32 \<Rightarrow> u32 \<times> u32 \<times> u32" where
  "HASH_JEN_MIX s = (case s of (a, b, c) \<Rightarrow>
     let a = a - b; a = a - c; a = a XOR drop_bit 13 c;
         b = b - c; b = b - a; b = b XOR push_bit 8 a;
         c = c - a; c = c - b; c = c XOR drop_bit 13 b;
         a = a - b; a = a - c; a = a XOR drop_bit 12 c;
         b = b - c; b = b - a; b = b XOR push_bit 16 a;
         c = c - a; c = c - b; c = c XOR drop_bit 5 b;
         a = a - b; a = a - c; a = a XOR drop_bit 3 c;
         b = b - c; b = b - a; b = b XOR push_bit 10 a;
         c = c - a; c = c - b; c = c XOR drop_bit 15 b
     in (a, b, c))"

definition key_byte :: "mem \<Rightarrow> u32 \<Rightarrow> nat \<Rightarrow> nat \<Rightarrow> u32" where
  "key_byte m key i sh = push_bit sh (ucast (m (key + of_nat i)))"

text \<open>The loop over full blocks of twelve bytes; it ends with the bytes left and where they are.\<close>

function hash_blocks :: "mem \<Rightarrow> u32 \<Rightarrow> u32 \<Rightarrow> u32 \<times> u32 \<times> u32 \<Rightarrow> u32 \<times> u32 \<times> u32 \<times> u32 \<times> u32" where
  "hash_blocks m key k s =
     (if k \<ge> 12 then
        (case s of (i, j, hashv) \<Rightarrow>
         let i = i + (key_byte m key 0 0 + key_byte m key 1 8 + key_byte m key 2 16 + key_byte m key 3 24);
             j = j + (key_byte m key 4 0 + key_byte m key 5 8 + key_byte m key 6 16 + key_byte m key 7 24);
             hashv = hashv + (key_byte m key 8 0 + key_byte m key 9 8 + key_byte m key 10 16 + key_byte m key 11 24)
         in hash_blocks m (key + 12) (k - 12) (HASH_JEN_MIX (i, j, hashv)))
      else (k, key, s))"
  by pat_completeness auto
termination
  by (relation "measure (\<lambda>(m, key, k, s). unat k)") (auto simp: unat_sub word_le_nat_alt)

text \<open>The \<^verbatim>\<open>switch\<close>, every case of which falls through to the next.\<close>

definition hash_tail :: "mem \<Rightarrow> u32 \<Rightarrow> u32 \<Rightarrow> u32 \<times> u32 \<times> u32 \<Rightarrow> u32 \<times> u32 \<times> u32" where
  "hash_tail m key k s = (case s of (i, j, hashv) \<Rightarrow>
     let hashv = (if k \<ge> 11 then hashv + key_byte m key 10 24 else hashv);
         hashv = (if k \<ge> 10 then hashv + key_byte m key 9 16 else hashv);
         hashv = (if k \<ge> 9 then hashv + key_byte m key 8 8 else hashv);
         j = (if k \<ge> 8 then j + key_byte m key 7 24 else j);
         j = (if k \<ge> 7 then j + key_byte m key 6 16 else j);
         j = (if k \<ge> 6 then j + key_byte m key 5 8 else j);
         j = (if k \<ge> 5 then j + key_byte m key 4 0 else j);
         i = (if k \<ge> 4 then i + key_byte m key 3 24 else i);
         i = (if k \<ge> 3 then i + key_byte m key 2 16 else i);
         i = (if k \<ge> 2 then i + key_byte m key 1 8 else i);
         i = (if k \<ge> 1 then i + key_byte m key 0 0 else i)
     in (i, j, hashv))"

definition HASH_JEN :: "mem \<Rightarrow> u32 \<Rightarrow> u32 \<Rightarrow> u32" where
  "HASH_JEN m key keylen =
     (case hash_blocks m key keylen (0x9e3779b9, 0x9e3779b9, 0xfeedbeef) of (k, key, i, j, hashv) \<Rightarrow>
        snd (snd (HASH_JEN_MIX (hash_tail m key k (i, j, hashv + keylen)))))"

section \<open>The handler\<close>

definition filtering_ph :: "device \<Rightarrow> handler_args \<Rightarrow> core \<Rightarrow> core" where
  "filtering_ph dev args c =
     (let task = args_task args;
          table = handler_mem task;
          key_ptr = pkt_mem task;
          hash = HASH_JEN (ram c) key_ptr KEY_SIZE;
          hash = FAST_MOD hash TOT_WORDS;
          c = upd_ram (\<lambda>m. store32 m (l2_pkt_mem task) (load32 m (table + 4 * hash))) c
      in snd (command (spin_dma_to_host dev (host_address task) (l2_pkt_mem task) (pkt_mem_size task) False) c))"

section \<open>Reading words for bytes\<close>

lemma load32_sum:
  "load32 m a = key_byte m a 0 0 + key_byte m a 1 8 + key_byte m a 2 16 + key_byte m a 3 24"
proof -
  have "key_byte m a 0 0 + key_byte m a 1 8 = key_byte m a 0 0 OR key_byte m a 1 8"
    by (rule disjunctive_add) (auto simp: key_byte_def bit_simps dest: bit_imp_le_length)
  moreover have "\<dots> + key_byte m a 2 16 = \<dots> OR key_byte m a 2 16"
    by (rule disjunctive_add) (auto simp: key_byte_def bit_simps dest: bit_imp_le_length)
  moreover have "\<dots> + key_byte m a 3 24 = \<dots> OR key_byte m a 3 24"
    by (rule disjunctive_add) (auto simp: key_byte_def bit_simps dest: bit_imp_le_length)
  ultimately show ?thesis
    by (simp add: load32_def key_byte_def or.assoc)
qed

text \<open>For the keys of this example, two words at a time: no full block, and the last eight cases.\<close>

lemma hash_key:
  "HASH_JEN m key KEY_SIZE = snd (snd (HASH_JEN_MIX (0x9e3779b9 + load32 m key, 0x9e3779b9 + load32 m (key + 4), 0xfeedbef7)))"
  by (simp add: HASH_JEN_def KEY_SIZE_def hash_tail_def load32_sum) (simp add: key_byte_def add.assoc algebra_simps)

section \<open>What the handler does\<close>

text \<open>The index of the table as a function of the key alone.\<close>

definition filter_index :: "u32 \<Rightarrow> u32 \<Rightarrow> nat" where
  "filter_index k0 k1 =
     unat (snd (snd (HASH_JEN_MIX (0x9e3779b9 + k0, 0x9e3779b9 + k1, 0xfeedbef7))) mod 2 ^ 18)"

text \<open>
  C27: the hash of a packet's first eight bytes is the one mixing of its first two words with the constants of the macro; its index lies
  within the table, so that the handler reads the table and nothing behind it, replaces the first word of the L2 copy by
  that word of the table and no other byte, and hands the NIC one transfer of the copy to the host.
\<close>

theorem filtering_looks_up:
  fixes args c dev
  defines "i \<equiv> filter_index (load32 (ram c) (pkt_mem (args_task args))) (load32 (ram c) (pkt_mem (args_task args) + 4))"
  defines "c' \<equiv> filtering_ph dev args c"
  shows "i < unat TOT_WORDS
    \<and> load32 (ram c') (l2_pkt_mem (args_task args)) = word_at (ram c) (handler_mem (args_task args)) i
    \<and> (\<forall>b. sep (l2_pkt_mem (args_task args)) 4 b 1 \<longrightarrow> ram c' b = ram c b)
    \<and> issued (tr c') = issued (tr c) @ [\<lparr>word0 = Some (host_mem_low (args_task args)), word1 = Some (host_mem_high (args_task args)),
        word2 = Some (l2_pkt_mem (args_task args)), word3 = Some (pkt_mem_size (args_task args)), word4 = Some 1, cmd_info = Some 0\<rparr>]"
proof -
  let ?h = "HASH_JEN (ram c) (pkt_mem (args_task args)) KEY_SIZE"
  have m: "FAST_MOD ?h TOT_WORDS = ?h mod 2 ^ 18"
    using FAST_MOD_power [of 18 ?h] by (simp add: TOT_WORDS_def)
  have i: "i = unat (?h mod 2 ^ 18)"
    by (simp add: i_def filter_index_def hash_key)
  have "?h mod 2 ^ 18 < 2 ^ 18" by (rule word_mod_less_divisor) simp
  then have "i < unat TOT_WORDS" by (simp add: i TOT_WORDS_def word_less_nat_alt)
  moreover have "of_nat i = FAST_MOD ?h TOT_WORDS" by (simp add: i m)
  moreover have "ram c' = store32 (ram c) (l2_pkt_mem (args_task args)) (load32 (ram c) (handler_mem (args_task args) + 4 * FAST_MOD ?h TOT_WORDS))"
    by (simp add: c'_def filtering_ph_def Let_def)
  moreover have "issued (tr c') = issued (tr c) @ [\<lparr>word0 = Some (host_mem_low (args_task args)), word1 = Some (host_mem_high (args_task args)),
        word2 = Some (l2_pkt_mem (args_task args)), word3 = Some (pkt_mem_size (args_task args)), word4 = Some 1, cmd_info = Some 0\<rparr>]"
    by (simp add: c'_def filtering_ph_def Let_def command_def split_def commands_issued of_bool8_def upd_ram_def)
  ultimately show ?thesis
    using word.st_byte_sep by (simp add: word_at_def)
qed

theorem filtering_looks_up_witness:
  "ram (filtering_ph (\<lambda>_ _. 0) (demo_args 0x100 0) demo_core) 0x100 = 0x50"
proof -
  have "sep (l2_pkt_mem (args_task (demo_args 0x100 0))) 4 0x100 1"
    by (simp add: demo_args_def sepI)
  then have "ram (filtering_ph (\<lambda>_ _. 0) (demo_args 0x100 0) demo_core) 0x100 = ram demo_core 0x100"
    using filtering_looks_up [where args = "demo_args 0x100 0" and c = demo_core and dev = "\<lambda>_ _. 0"] by blast
  then show ?thesis by (simp add: demo_core_def)
qed

end
