(* ===== verification/Slp.thy ===== *)
theory Slp
  imports Reductions Forwarding
begin

text \<open>
  The single-layer perceptron (\<^verbatim>\<open>slp/handlers/slp_l1.c\<close>): a packet carries samples to learn from or inputs to classify;
  the weights are in the scratchpads, one copy per cluster, that of cluster 0 with a reader-writer lock behind
  it. The number of inputs, \<open>VECTOR_LEN\<close>, is a macro of the build and the argument \<open>V\<close> here; \<open>DTYPE\<close> is \<open>int32_t\<close>.
  A handler that waits for ever gives \<open>None\<close>.
\<close>

section \<open>Weights and lock\<close>

definition TY_FIT_DATA :: u8 where "TY_FIT_DATA = 0"
definition TY_PREDICT :: u8 where "TY_PREDICT = 1"
definition LEARNING_RATE :: i32 where "LEARNING_RATE = 1"

definition ACTIVATION_FN :: "i32 \<Rightarrow> i32" where
  "ACTIVATION_FN x = (if 0 \<le>s x then 1 else 0)"

definition WEIGHT_SIZE :: "nat \<Rightarrow> u32" where
  "WEIGHT_SIZE V = 4 * of_nat (V + 1)"

definition RWLOCK :: "nat \<Rightarrow> task \<Rightarrow> u32" where
  "RWLOCK V task = scratchpad task ! 0 + WEIGHT_SIZE V"

text \<open>The lock as it lies in memory.\<close>

definition rwl_at :: "mem \<Rightarrow> u32 \<Rightarrow> spin_rw_lock" where
  "rwl_at m l = \<lparr>glock = load32 m l, num_readers = load32 m (l + 4)\<rparr>"

definition put_rwl :: "u32 \<Rightarrow> spin_rw_lock \<Rightarrow> mem \<Rightarrow> mem" where
  "put_rwl l rwl m = store32 (store32 m l (glock rwl)) (l + 4) (num_readers rwl)"

text \<open>The header of a frame: a byte, and a word at its alignment.\<close>

definition frame_type :: "mem \<Rightarrow> u32 \<Rightarrow> u8" where "frame_type m hdr = load8 m hdr"
definition frame_count :: "mem \<Rightarrow> u32 \<Rightarrow> u32" where "frame_count m hdr = load32 m (hdr + 4)"
definition FRAME_SIZE :: u32 where "FRAME_SIZE = 8"

section \<open>Prediction and learning\<close>

definition predict :: "nat \<Rightarrow> u32 \<Rightarrow> u32 \<Rightarrow> u32 option \<Rightarrow> mem \<Rightarrow> (i32 \<times> mem) option" where
  "predict V input weight fit_lock m =
     (let dot = (\<lambda>m. fold (\<lambda>i d. d + word_at m input i * word_at m weight i) [0..<V] 0 + word_at m weight V)
      in case fit_lock of
        None \<Rightarrow> Some (ACTIVATION_FN (dot m), m)
      | Some l \<Rightarrow>
          (case spin_rw_lock_r_lock (rwl_at m l) of
             None \<Rightarrow> None
           | Some (_, rwl) \<Rightarrow>
               let m = put_rwl l rwl m;
                   d = dot m;
                   m = put_rwl l (snd (spin_rw_lock_r_unlock (rwl_at m l))) m
               in Some (ACTIVATION_FN d, m)))"

definition fit_sample :: "nat \<Rightarrow> u32 \<Rightarrow> u32 \<Rightarrow> u32 \<Rightarrow> u32 \<Rightarrow> nat \<Rightarrow> mem \<Rightarrow> mem option" where
  "fit_sample V input res weight fit_lock i m =
     (case predict V (input + 4 * of_nat (i * V)) weight (Some fit_lock) m of
        None \<Rightarrow> None
      | Some (p, m) \<Rightarrow>
          let e = word_at m res i - p
          in case spin_rw_lock_w_lock (rwl_at m fit_lock) of
               None \<Rightarrow> None
             | Some (_, rwl) \<Rightarrow>
                 let m = put_rwl fit_lock rwl m;
                     m = fold (\<lambda>k m. store32 m (weight + 4 * of_nat k)
                           (word_at m weight k + LEARNING_RATE * e * word_at m input (i * V + k))) [0..<V] m;
                     m = store32 m (weight + 4 * of_nat V) (word_at m weight V + LEARNING_RATE * e);
                     m = put_rwl fit_lock (snd (spin_rw_lock_w_unlock (rwl_at m fit_lock))) m
                 in Some m)"

definition fit_batch :: "nat \<Rightarrow> u32 \<Rightarrow> u32 \<Rightarrow> i32 \<Rightarrow> u32 \<Rightarrow> u32 \<Rightarrow> mem \<Rightarrow> mem option" where
  "fit_batch V input res len weight fit_lock m =
     foldO (fit_sample V input res weight fit_lock) [0..<nat (sint len)] m"

text \<open>The answer; the parameter \<open>payload_size\<close> is a byte.\<close>

definition send_return :: "device \<Rightarrow> u32 \<Rightarrow> u8 \<Rightarrow> core \<Rightarrow> core" where
  "send_return dev pkt payload_size c =
     (let udp = udp_of (ram c) pkt;
          m = set_length (ucast (ip_ihl (ram c) pkt) * 4 + 8 + ucast payload_size) pkt (ram c);
          m = set_udp_length (8 + ucast payload_size) udp m;
          m = swap_ids pkt udp m
      in snd (command (spin_send_packet dev pkt (ucast (ip_length m pkt))) (c\<lparr>ram := m\<rparr>)))"

section \<open>The handlers\<close>

text \<open>The header handler ends in a loop without exit when it runs on another cluster than 0.\<close>

definition slp_l1_hh :: "nat \<Rightarrow> handler_args \<Rightarrow> core \<Rightarrow> core option" where
  "slp_l1_hh V args c =
     (let task = args_task args;
          (hdr_ptr, _) = GET_IP_UDP_PLD (ram c) (pkt_mem task)
      in if frame_type (ram c) hdr_ptr = TY_FIT_DATA then
           let c = upd_ram (\<lambda>m. store32 m (RWLOCK V task + 4) 32) c;
               c = upd_ram (\<lambda>m. store32 m (RWLOCK V task) (snd (spin_lock_init (load32 m (RWLOCK V task))))) c
           in if cluster_id args \<noteq> 0 then None else Some c
         else Some c)"

definition predict_all :: "nat \<Rightarrow> u32 \<Rightarrow> u32 \<Rightarrow> nat \<Rightarrow> mem \<Rightarrow> mem option" where
  "predict_all V input_ptr weight n m =
     foldO (\<lambda>i m. case predict V (input_ptr + 4 * of_nat (i * V)) weight None m of
                    None \<Rightarrow> None
                  | Some (res, m) \<Rightarrow> Some (store32 m (input_ptr + 4 * of_nat i) res)) [0..<n] m"

definition slp_l1_ph :: "nat \<Rightarrow> param \<Rightarrow> device \<Rightarrow> handler_args \<Rightarrow> core \<Rightarrow> core option" where
  "slp_l1_ph V p0 dev args c =
     (let task = args_task args;
          (hdr_ptr, _) = GET_IP_UDP_PLD (ram c) (pkt_mem task);
          count = frame_count (ram c) hdr_ptr;
          ty = frame_type (ram c) hdr_ptr;
          input_ptr = hdr_ptr + FRAME_SIZE;
          res_ptr = input_ptr + 4 * (of_nat V * count)
      in if ty = TY_FIT_DATA then
           map_option (\<lambda>m. c\<lparr>ram := m\<rparr>)
             (fit_batch V input_ptr res_ptr count (scratchpad task ! 0) (RWLOCK V task) (ram c))
         else if ty = TY_PREDICT then
           (case predict_all V input_ptr (scratchpad task ! unat (cluster_id args)) (unat count) (ram c) of
              None \<Rightarrow> None
            | Some m \<Rightarrow>
                let pld_size = FRAME_SIZE + 4 * count
                in Some (send_return dev (pkt_mem task) (ucast pld_size) (c\<lparr>ram := m\<rparr>)))
         else
           map_option (\<lambda>(_, t). c\<lparr>tr := t\<rparr>)
             (printf p0 (cstring (''unrecognized type %#x'' @ [CHR 0x0A])) [VA32 (ucast ty)] (tr c)))"

definition slp_l1_th :: "nat \<Rightarrow> handler_args \<Rightarrow> core \<Rightarrow> core option" where
  "slp_l1_th V args c =
     (let task = args_task args;
          (hdr_ptr, _) = GET_IP_UDP_PLD (ram c) (pkt_mem task)
      in if frame_type (ram c) hdr_ptr \<noteq> TY_FIT_DATA then Some c
         else if cluster_id args \<noteq> 0 then None
         else Some (upd_ram (fold (\<lambda>i m. fold (\<lambda>k m.
                store32 m (scratchpad task ! i + 4 * of_nat k) (word_at m (scratchpad task ! 0) k)) [0..<V + 1] m)
              [1..<NB_CLUSTERS]) c))"

section \<open>The perceptron\<close>

text \<open>Its two operations on lists of inputs and weights (the bias last), with the wrap-around of the machine.\<close>

definition classify :: "i32 list \<Rightarrow> i32 list \<Rightarrow> i32" where
  "classify ws xs = ACTIVATION_FN (sum_list (map2 (*) xs ws) + ws ! length xs)"

definition learn :: "i32 list \<Rightarrow> i32 list \<times> i32 \<Rightarrow> i32 list" where
  "learn ws s = (case s of (xs, r) \<Rightarrow>
     let e = r - classify ws xs in map2 (+) ws (map ((*) e) xs @ [e]))"

definition words :: "mem \<Rightarrow> u32 \<Rightarrow> nat \<Rightarrow> u32 list" where
  "words m a n = map (word_at m a) [0..<n]"

text \<open>Input \<open>i\<close> of the packet.\<close>

definition sample :: "nat \<Rightarrow> mem \<Rightarrow> u32 \<Rightarrow> nat \<Rightarrow> i32 list" where
  "sample V m a i = map (\<lambda>k. word_at m a (i * V + k)) [0..<V]"

lemma word_at_offset: "word_at m (a + 4 * of_nat i) j = word_at m a (i + j)"
  by (simp add: word_at_def algebra_simps)

lemma dot_fold: "fold (\<lambda>i d. d + f i * g i) [0..<n] 0 = (\<Sum>i<n. f i * (g i :: u32))"
  by (induction n) simp_all

lemma sum_map2_words:
  "sum_list (map2 (*) (map f [0..<n]) (map g [0..<Suc n])) = (\<Sum>i<n. f i * (g i :: u32))"
proof -
  have "map2 (*) (map f [0..<n]) (map g [0..<Suc n]) = map (\<lambda>i. f i * g i) [0..<n]"
    by (rule nth_equalityI) (simp_all add: nth_append)
  then show ?thesis by (simp add: interv_sum_list_conv_sum_set_nat lessThan_atLeast0)
qed

lemma dot_classify:
  "ACTIVATION_FN (fold (\<lambda>k d. d + word_at m (a + 4 * of_nat (i * V)) k * word_at m w k) [0..<V] 0 + word_at m w V)
    = classify (words m w (Suc V)) (sample V m a i)"
  by (simp add: classify_def words_def sample_def dot_fold sum_map2_words word_at_offset nth_append del: upt_Suc of_nat_mult)

lemma word_at_store:
  "i < 2 ^ 30 \<Longrightarrow> j < 2 ^ 30 \<Longrightarrow> word_at (store32 m (a + 4 * of_nat i) v) a j = (if i = j then v else word_at m a j)"
  using words_sep [of i j a] by (auto simp: word_at_def mem_other)

lemma word_at_store_apart:
  assumes "sep a (4 * n) b (4 * k)" "i < n" "j < k"
  shows "word_at (store32 m (a + 4 * of_nat i) v) b j = word_at m b j"
proof -
  have "sep (a + of_nat (4 * i)) 4 (b + of_nat (4 * j)) 4"
    by (rule sep_inside [OF assms(1)]) (use assms(2,3) in simp_all)
  then show ?thesis by (simp add: word_at_def mem_other)
qed

lemma words_cong: "(\<And>j. j < n \<Longrightarrow> word_at m' a j = word_at m a j) \<Longrightarrow> words m' a n = words m a n"
  by (simp add: words_def)

lemma sample_cong: "(\<And>k. k < V \<Longrightarrow> word_at m' a (i * V + k) = word_at m a (i * V + k)) \<Longrightarrow> sample V m' a i = sample V m a i"
  by (simp add: sample_def)

lemma sample_index: "i < n \<Longrightarrow> k < V \<Longrightarrow> i * V + k < n * (V :: nat)"
proof -
  assume a: "i < n" "k < V"
  have "i * V + k < Suc i * V" using a by simp
  also have "\<dots> \<le> n * V" by (rule mult_right_mono) (use a in simp_all)
  finally show ?thesis .
qed

text \<open>An answer is written over the inputs, but never over one that is still to be read.\<close>

lemma predict_all_ok:
  assumes "sep inp (4 * (n * V)) w (4 * Suc V)" "n * V \<le> 2 ^ 30" "0 < V" "k \<le> n"
  shows "\<exists>m'. predict_all V inp w k m = Some m' \<and> (\<forall>j<n * V. k \<le> j \<longrightarrow> word_at m' inp j = word_at m inp j)
    \<and> words m' w (Suc V) = words m w (Suc V)
    \<and> (\<forall>i<k. word_at m' inp i = classify (words m w (Suc V)) (sample V m inp i))
    \<and> (\<forall>b. sep inp (4 * (n * V)) b 1 \<longrightarrow> m' b = m b)"
  using assms(4)
proof (induction k)
  case 0
  then show ?case by (simp add: predict_all_def)
next
  case (Suc k)
  then obtain m1 where m1: "predict_all V inp w k m = Some m1" "\<forall>j<n * V. k \<le> j \<longrightarrow> word_at m1 inp j = word_at m inp j"
      "words m1 w (Suc V) = words m w (Suc V)" "\<forall>i<k. word_at m1 inp i = classify (words m w (Suc V)) (sample V m inp i)"
      "\<forall>b. sep inp (4 * (n * V)) b 1 \<longrightarrow> m1 b = m b"
    by auto
  have kV: "k \<le> k * V" using assms(3) by simp
  have nV: "n \<le> n * V" using assms(3) by simp
  have kn: "k < n * V" using Suc.prems nV by linarith
  let ?v = "classify (words m w (Suc V)) (sample V m inp k)"
  let ?m' = "store32 m1 (inp + 4 * of_nat k) ?v"
  have s: "sample V m1 inp k = sample V m inp k"
  proof (rule sample_cong)
    fix t assume "t < V"
    then have "k * V + t < n * V" using Suc.prems by (intro sample_index) simp_all
    moreover have "k \<le> k * V + t" using kV by linarith
    ultimately show "word_at m1 inp (k * V + t) = word_at m inp (k * V + t)" using m1(2) by blast
  qed
  have "predict_all V inp w (Suc k) m = Some ?m'"
    using m1(1,3) s
    by (simp add: predict_all_def foldO_Suc predict_def dot_classify Let_def del: upt_Suc of_nat_mult)
  moreover have "word_at ?m' inp j = word_at m inp j" if "j < n * V" "Suc k \<le> j" for j
    using that m1(2) kn assms(2) by (subst word_at_store) simp_all
  moreover have "words ?m' w (Suc V) = words m w (Suc V)"
    unfolding m1(3) [symmetric] by (rule words_cong) (rule word_at_store_apart [OF assms(1) kn])
  moreover have "word_at ?m' inp i = classify (words m w (Suc V)) (sample V m inp i)" if "i < Suc k" for i
    using that m1(4) kn assms(2) by (subst word_at_store) (auto simp: less_Suc_eq)
  moreover have "?m' b = m b" if b: "sep inp (4 * (n * V)) b 1" for b
  proof -
    have "sep (inp + of_nat (4 * k)) 4 (b + of_nat 0) 1"
      by (rule sep_inside [OF b]) (use kn in simp_all)
    then show ?thesis using m1(5) b by (simp add: word.st_byte_sep)
  qed
  ultimately show ?case by blast
qed

section \<open>Learning under the lock\<close>

text \<open>
  The weights and the two words of the lock behind them are one array of \<open>V + 3\<close> words. \<open>slp_mem\<close> collects where it and
  the \<open>K\<close> words of the packet lie, and a free lock whose reader count is not 0.
\<close>

definition slp_mem :: "nat \<Rightarrow> u32 \<Rightarrow> u32 \<Rightarrow> nat \<Rightarrow> mem \<Rightarrow> bool" where
  "slp_mem V w inp K m \<longleftrightarrow> sep w (4 * (V + 3)) inp (4 * K) \<and> V + 3 \<le> 2 ^ 30
     \<and> word_at m w (V + 1) = 0 \<and> word_at m w (V + 2) \<noteq> 0"

definition same_input :: "u32 \<Rightarrow> nat \<Rightarrow> mem \<Rightarrow> mem \<Rightarrow> bool" where
  "same_input inp K m m' \<longleftrightarrow> (\<forall>j<K. word_at m' inp j = word_at m inp j)"

lemma rwl_at_words: "rwl_at m (w + 4 * of_nat (V + 1)) = \<lparr>glock = word_at m w (V + 1), num_readers = word_at m w (V + 2)\<rparr>"
  by (simp add: rwl_at_def word_at_def algebra_simps)

lemma put_rwl_words:
  "put_rwl (w + 4 * of_nat (V + 1)) l m =
     store32 (store32 m (w + 4 * of_nat (V + 1)) (glock l)) (w + 4 * of_nat (V + 2)) (num_readers l)"
  by (simp add: put_rwl_def algebra_simps)

lemma put_rwl_at:
  assumes "V + 3 \<le> 2 ^ 30" "j < V + 3"
  shows "word_at (put_rwl (w + 4 * of_nat (V + 1)) l m) w j =
    (if j = V + 1 then glock l else if j = V + 2 then num_readers l else word_at m w j)"
  unfolding put_rwl_words using assms by (subst word_at_store, simp, simp)+ simp

lemma put_rwl_input:
  assumes "sep w (4 * (V + 3)) inp (4 * K)" "j < K"
  shows "word_at (put_rwl (w + 4 * of_nat (V + 1)) l m) inp j = word_at m inp j"
  unfolding put_rwl_words using assms by (subst word_at_store_apart [OF assms(1)], simp, simp)+ simp

lemma weights_loop:
  assumes "V + 3 \<le> 2 ^ 30" "sep w (4 * (V + 3)) inp (4 * K)" "\<And>k. k < V \<Longrightarrow> x k < K" "n \<le> V"
  shows "\<forall>j<V + 3. word_at (fold (\<lambda>k m. store32 m (w + 4 * of_nat k) (word_at m w k + e * word_at m inp (x k))) [0..<n] m) w j
      = (if j < n then word_at m w j + e * word_at m inp (x j) else word_at m w j)"
    "same_input inp K m (fold (\<lambda>k m. store32 m (w + 4 * of_nat k) (word_at m w k + e * word_at m inp (x k))) [0..<n] m)"
proof -
  let ?f = "\<lambda>n. fold (\<lambda>k m. store32 m (w + 4 * of_nat k) (word_at m w k + e * word_at m inp (x k))) [0..<n] m"
  have "(\<forall>j<V + 3. word_at (?f n) w j = (if j < n then word_at m w j + e * word_at m inp (x j) else word_at m w j))
      \<and> same_input inp K m (?f n)"
    using assms(4)
  proof (induction n)
    case (Suc n)
    let ?v = "word_at (?f n) w n + e * word_at (?f n) inp (x n)"
    have step: "?f (Suc n) = store32 (?f n) (w + 4 * of_nat n) ?v" by simp
    have IH: "\<forall>j<V + 3. word_at (?f n) w j = (if j < n then word_at m w j + e * word_at m inp (x j) else word_at m w j)"
        "same_input inp K m (?f n)"
      using Suc by simp_all
    have v: "?v = word_at m w n + e * word_at m inp (x n)"
      using IH Suc.prems assms(3) [of n] by (simp add: same_input_def)
    have "word_at (?f (Suc n)) w j = (if j < Suc n then word_at m w j + e * word_at m inp (x j) else word_at m w j)"
      if "j < V + 3" for j
      unfolding step v using IH(1) that Suc.prems assms(1) by (subst word_at_store) (auto simp: less_Suc_eq)
    moreover have "same_input inp K m (?f (Suc n))"
      unfolding step same_input_def
      using IH(2) Suc.prems by (simp add: word_at_store_apart [OF assms(2)] same_input_def)
    ultimately show ?case by blast
  qed (simp add: same_input_def)
  then show "\<forall>j<V + 3. word_at (?f n) w j = (if j < n then word_at m w j + e * word_at m inp (x j) else word_at m w j)"
    "same_input inp K m (?f n)" by simp_all
qed

lemma lock_calls:
  "r \<noteq> 0 \<Longrightarrow> spin_rw_lock_r_lock \<lparr>glock = 0, num_readers = r\<rparr> = Some (SPIN_OK, \<lparr>glock = 0, num_readers = r + 1\<rparr>)"
  "r \<noteq> 0 \<Longrightarrow> spin_rw_lock_r_unlock \<lparr>glock = 0, num_readers = r + 1\<rparr> = (SPIN_OK, \<lparr>glock = 0, num_readers = r\<rparr>)"
  "spin_rw_lock_w_lock \<lparr>glock = 0, num_readers = r\<rparr> = Some (SPIN_OK, \<lparr>glock = 1, num_readers = r\<rparr>)"
  "spin_rw_lock_w_unlock \<lparr>glock = 1, num_readers = r\<rparr> = (SPIN_OK, \<lparr>glock = 0, num_readers = r\<rparr>)"
  by (simp_all add: spin_rw_lock_r_lock_def spin_rw_lock_r_unlock_def spin_rw_lock_w_lock_def spin_rw_lock_w_unlock_def
      spin_lock_lock_eq amo_add_def)

lemma learn_nth:
  assumes "length ws = Suc (length xs)" "j \<le> length xs"
  shows "learn ws (xs, r) ! j = ws ! j + (r - classify ws xs) * (if j < length xs then xs ! j else 1)"
  using assms by (simp add: learn_def Let_def nth_append)

lemma length_learn: "length ws = Suc (length xs) \<Longrightarrow> length (learn ws (xs, r)) = length ws"
  by (simp add: learn_def Let_def)

lemma fit_sample_ok:
  assumes "slp_mem V w inp K m" "i * V + V \<le> K" "R + i < K"
  shows "\<exists>m'. fit_sample V inp (inp + 4 * of_nat R) w (w + 4 * of_nat (V + 1)) i m = Some m' \<and> slp_mem V w inp K m'
    \<and> same_input inp K m m' \<and> word_at m' w (V + 2) = word_at m w (V + 2)
    \<and> words m' w (Suc V) = learn (words m w (Suc V)) (sample V m inp i, word_at m inp (R + i))"
proof -
  define L where "L = w + 4 * of_nat (V + 1)"
  let ?x = "sample V m inp i" and ?W = "words m w (Suc V)"
  define r where "r = word_at m w (V + 2)"
  have sp: "sep w (4 * (V + 3)) inp (4 * K)" and b: "V + 3 \<le> 2 ^ 30" and g: "word_at m w (V + 1) = 0" and r: "r \<noteq> 0"
    using assms(1) by (simp_all add: slp_mem_def r_def)
  note at = put_rwl_at [OF b, where w = w, folded L_def] and inp = put_rwl_input [OF sp, folded L_def]
    and rwl = rwl_at_words [where w = w and V = V, folded L_def]
  have l0: "rwl_at m L = \<lparr>glock = 0, num_readers = r\<rparr>" unfolding rwl g r_def ..
  define m1 where "m1 = put_rwl L \<lparr>glock = 0, num_readers = r + 1\<rparr> m"
  have l1: "rwl_at m1 L = \<lparr>glock = 0, num_readers = r + 1\<rparr>"
    unfolding rwl by (simp add: m1_def at)
  define m2 where "m2 = put_rwl L \<lparr>glock = 0, num_readers = r\<rparr> m1"
  have l2: "rwl_at m2 L = \<lparr>glock = 0, num_readers = r\<rparr>"
    unfolding rwl by (simp add: m2_def at)
  have eq1: "sample V m1 inp i = ?x" "words m1 w (Suc V) = ?W"
    by (rule sample_cong, use assms(2) in \<open>simp add: m1_def inp\<close>)
      (rule words_cong, simp add: m1_def at)
  have p: "predict V (inp + 4 * of_nat (i * V)) w (Some L) m = Some (classify ?W ?x, m2)"
    unfolding predict_def l0 Let_def option.case lock_calls(1) [OF r] prod.case m1_def [symmetric] l1 lock_calls(2) [OF r] snd_conv m2_def [symmetric]
      dot_classify eq1 ..
  define m3 where "m3 = put_rwl L \<lparr>glock = 1, num_readers = r\<rparr> m2"
  define e where "e = word_at m2 (inp + 4 * of_nat R) i - classify ?W ?x"
  define m4 where "m4 = fold (\<lambda>k m. store32 m (w + 4 * of_nat k) (word_at m w k + e * word_at m inp (i * V + k))) [0..<V] m3"
  define m5 where "m5 = store32 m4 (w + 4 * of_nat V) (word_at m4 w V + e)"
  have w3: "word_at m3 w j = (if j = V + 1 then 1 else if j = V + 2 then r else word_at m w j)" if "j < V + 3" for j
    using that by (simp add: m3_def m2_def m1_def at)
  have i3: "same_input inp K m m3"
    by (simp add: same_input_def m3_def m2_def m1_def inp)
  have x: "k < V \<Longrightarrow> i * V + k < K" for k using assms(2) by linarith
  note w4 = weights_loop [where n = V and x = "\<lambda>k. i * V + k" and e = e and m = m3, OF b sp x order.refl, folded m4_def]
  have w5: "word_at m5 w j = (if j = V then word_at m w V + e else if j < V then word_at m w j + e * word_at m inp (i * V + j)
      else word_at m3 w j)" if "j < V + 3" for j
    using that w4(1) b i3 x w3 [of V] w3 [of j] unfolding m5_def
    by (subst word_at_store) (auto simp: same_input_def)
  define m6 where "m6 = put_rwl L \<lparr>glock = 0, num_readers = r\<rparr> m5"
  have l3: "rwl_at m5 L = \<lparr>glock = 1, num_readers = r\<rparr>"
    unfolding rwl using w5 [of "V + 1"] w5 [of "V + 2"] w3 [of "V + 1"] w3 [of "V + 2"] by simp
  have fit: "fit_sample V inp (inp + 4 * of_nat R) w L i m = Some m6"
    unfolding fit_sample_def p option.case prod.case Let_def l2 lock_calls(3) m3_def [symmetric] LEARNING_RATE_def mult_1_left
      e_def [symmetric] m4_def [symmetric] m5_def [symmetric] l3 lock_calls(4) snd_conv m6_def ..
  have w6: "word_at m6 w j = (if j = V + 1 then 0 else if j = V + 2 then r else if j = V then word_at m w V + e
      else word_at m w j + e * word_at m inp (i * V + j))" if "j < V + 3" for j
    using that w5 [of j] by (auto simp: m6_def at)
  have i6: "same_input inp K m m6"
    using i3 w4(2) by (simp add: m6_def m5_def same_input_def inp word_at_store_apart [OF sp])
  have e: "e = word_at m inp (R + i) - classify ?W ?x"
    using assms(3) by (simp add: e_def word_at_offset m2_def m1_def inp)
  have "words m6 w (Suc V) = learn ?W (?x, word_at m inp (R + i))"
  proof (rule nth_equalityI)
    show "length (words m6 w (Suc V)) = length (learn ?W (?x, word_at m inp (R + i)))"
      by (simp add: length_learn words_def sample_def)
    fix j assume "j < length (words m6 w (Suc V))"
    then have j: "j \<le> V" by (simp add: words_def)
    have "words m6 w (Suc V) ! j = word_at m6 w j" using j by (simp add: words_def del: upt_Suc)
    also have "\<dots> = word_at m w j + e * (if j < V then word_at m inp (i * V + j) else 1)"
      using j w6 [of j] by auto
    also have "\<dots> = learn ?W (?x, word_at m inp (R + i)) ! j"
      using j by (subst learn_nth) (simp_all add: e words_def sample_def del: upt_Suc)
    finally show "words m6 w (Suc V) ! j = learn ?W (?x, word_at m inp (R + i)) ! j" .
  qed
  moreover have "slp_mem V w inp K m6" "word_at m6 w (V + 2) = r"
    using sp b r w6 [of "V + 1"] w6 [of "V + 2"] by (simp_all add: slp_mem_def)
  ultimately show ?thesis
    using fit i6 unfolding L_def r_def by blast
qed

section \<open>Packets\<close>

text \<open>The samples of a packet to learn from: \<open>n\<close> inputs, then their \<open>n\<close> results.\<close>

definition samples :: "nat \<Rightarrow> mem \<Rightarrow> u32 \<Rightarrow> nat \<Rightarrow> (i32 list \<times> i32) list" where
  "samples V m inp n = map (\<lambda>i. (sample V m inp i, word_at m inp (n * V + i))) [0..<n]"

lemma sample_same: "same_input inp K m m' \<Longrightarrow> i * V + V \<le> K \<Longrightarrow> sample V m' inp i = sample V m inp i"
  by (rule sample_cong) (simp add: same_input_def)

lemma fit_fold:
  assumes "slp_mem V w inp (n * V + n) m" "k \<le> n"
  shows "\<exists>m'. foldO (fit_sample V inp (inp + 4 * of_nat (n * V)) w (w + 4 * of_nat (V + 1))) [0..<k] m = Some m'
    \<and> slp_mem V w inp (n * V + n) m' \<and> same_input inp (n * V + n) m m' \<and> word_at m' w (V + 2) = word_at m w (V + 2)
    \<and> words m' w (Suc V) = foldl learn (words m w (Suc V)) (take k (samples V m inp n))"
  using assms(2)
proof (induction k)
  case 0
  then show ?case using assms(1) by (simp add: same_input_def)
next
  case (Suc k)
  let ?K = "n * V + n" and ?f = "fit_sample V inp (inp + 4 * of_nat (n * V)) w (w + 4 * of_nat (V + 1))"
  obtain m1 where m1: "foldO ?f [0..<k] m = Some m1" "slp_mem V w inp ?K m1" "same_input inp ?K m m1"
      "word_at m1 w (V + 2) = word_at m w (V + 2)" "words m1 w (Suc V) = foldl learn (words m w (Suc V)) (take k (samples V m inp n))"
    using Suc by auto
  have "Suc k * V \<le> n * V" using Suc.prems by (intro mult_right_mono) simp_all
  then have kV: "k * V + V \<le> ?K" by simp
  obtain m2 where m2: "?f k m1 = Some m2" "slp_mem V w inp ?K m2" "same_input inp ?K m1 m2"
      "word_at m2 w (V + 2) = word_at m1 w (V + 2)"
      "words m2 w (Suc V) = learn (words m1 w (Suc V)) (sample V m1 inp k, word_at m1 inp (n * V + k))"
    using fit_sample_ok [OF m1(2) kV, of "n * V"] Suc.prems by auto
  have "same_input inp ?K m m2" using m1(3) m2(3) by (simp add: same_input_def)
  moreover have "(sample V m1 inp k, word_at m1 inp (n * V + k)) = samples V m inp n ! k"
    using sample_same [OF m1(3) kV] m1(3) Suc.prems by (simp add: samples_def same_input_def)
  moreover have "take (Suc k) (samples V m inp n) = take k (samples V m inp n) @ [samples V m inp n ! k]"
    using Suc.prems by (intro take_Suc_conv_app_nth) (simp add: samples_def)
  ultimately show ?case
    using m1 m2 by (simp add: foldO_Suc del: upt_Suc of_nat_mult of_nat_add of_nat_Suc)
qed

lemma slp_ph_learns:
  fixes args c V
  defines "hdr \<equiv> pld_ptr (ram c) (pkt_mem (args_task args))" and "w \<equiv> scratchpad (args_task args) ! 0"
  defines "n \<equiv> unat (frame_count (ram c) hdr)"
  assumes "frame_type (ram c) hdr = TY_FIT_DATA" "n < 2 ^ 31" "slp_mem V w (hdr + FRAME_SIZE) (n * V + n) (ram c)"
  shows "\<exists>c'. slp_l1_ph V p0 dev args c = Some c' \<and> tr c' = tr c
    \<and> words (ram c') w (Suc V) = foldl learn (words (ram c) w (Suc V)) (samples V (ram c) (hdr + FRAME_SIZE) n)
    \<and> rwl_at (ram c') (RWLOCK V (args_task args)) = rwl_at (ram c) (RWLOCK V (args_task args))
    \<and> samples V (ram c') (hdr + FRAME_SIZE) n = samples V (ram c) (hdr + FRAME_SIZE) n"
proof -
  let ?inp = "hdr + FRAME_SIZE"
  have len: "nat (sint (frame_count (ram c) hdr)) = n"
    using sint_i32_small [of "frame_count (ram c) hdr"] assms(5) by (simp add: n_def)
  have res: "?inp + 4 * (of_nat V * frame_count (ram c) hdr) = ?inp + 4 * of_nat (n * V)"
    by (simp add: n_def mult.commute)
  have l: "RWLOCK V (args_task args) = w + 4 * of_nat (V + 1)"
    by (simp add: RWLOCK_def WEIGHT_SIZE_def w_def)
  obtain m' where m': "foldO (fit_sample V ?inp (?inp + 4 * of_nat (n * V)) w (w + 4 * of_nat (V + 1))) [0..<n] (ram c) = Some m'"
      "slp_mem V w ?inp (n * V + n) m'" "same_input ?inp (n * V + n) (ram c) m'" "word_at m' w (V + 2) = word_at (ram c) w (V + 2)"
      "words m' w (Suc V) = foldl learn (words (ram c) w (Suc V)) (samples V (ram c) ?inp n)"
    using fit_fold [OF assms(6) order.refl] by (auto simp: samples_def)
  have ph: "slp_l1_ph V p0 dev args c = Some (c\<lparr>ram := m'\<rparr>)"
    using m'(1) unfolding slp_l1_ph_def Let_def split_def hdr_def [unfolded pld_ptr_def, symmetric] assms(4) fit_batch_def len res l
      w_def [symmetric] by simp
  have "rwl_at m' (w + 4 * of_nat (V + 1)) = rwl_at (ram c) (w + 4 * of_nat (V + 1))"
    using m'(2,4) assms(6) unfolding rwl_at_words by (simp add: slp_mem_def)
  moreover have "samples V m' ?inp n = samples V (ram c) ?inp n"
  proof -
    have "i * V + V \<le> n * V + n" if "i < n" for i
    proof -
      have "Suc i * V \<le> n * V" using that by (intro mult_right_mono) simp_all
      then show ?thesis by simp
    qed
    then show ?thesis using sample_same [OF m'(3)] m'(3) by (simp add: samples_def same_input_def)
  qed
  ultimately show ?thesis
    using ph m'(5) by (simp add: l)
qed

text \<open>
  C24: on a packet to learn from, of fewer than \<open>2 ^ 31\<close> samples, with the weights of cluster 0 and the lock behind them apart from the packet's samples, the lock free and its
  reader count not 0, the payload handler returns, has trained the perceptron on the samples in their order, and leaves the
  lock and the samples as they were.
\<close>

theorem slp_learns:
  fixes args c V
  defines "hdr \<equiv> pld_ptr (ram c) (pkt_mem (args_task args))" and "w \<equiv> scratchpad (args_task args) ! 0"
  defines "n \<equiv> unat (frame_count (ram c) hdr)"
  assumes "frame_type (ram c) hdr = TY_FIT_DATA" "n < 2 ^ 31" "slp_mem V w (hdr + FRAME_SIZE) (n * V + n) (ram c)"
  shows "\<exists>c'. slp_l1_ph V p0 dev args c = Some c' \<and> tr c' = tr c
    \<and> words (ram c') w (Suc V) = foldl learn (words (ram c) w (Suc V)) (samples V (ram c) (hdr + FRAME_SIZE) n)
    \<and> rwl_at (ram c') (RWLOCK V (args_task args)) = rwl_at (ram c) (RWLOCK V (args_task args))
    \<and> samples V (ram c') (hdr + FRAME_SIZE) n = samples V (ram c) (hdr + FRAME_SIZE) n"
  unfolding hdr_def w_def n_def
  by (rule slp_ph_learns) (use assms(4-6) in \<open>unfold hdr_def w_def n_def\<close>)

text \<open>One sample of one input, 3, with result 0: the perceptron, with weights 0, says 1 and is corrected.\<close>

definition slp_core :: "u8 \<Rightarrow> core" where
  "slp_core ty = \<lparr>ram = (\<lambda>_. 0)(0x100 := 0x50, 0x102 := 44, 0x11C := ty, 0x120 := 1, 0x124 := 3, 0x100C := 32), tr = []\<rparr>"

lemma slp_core_frame:
  "pld_ptr (ram (slp_core ty)) 0x100 = 0x11C" "frame_type (ram (slp_core ty)) 0x11C = ty" "frame_count (ram (slp_core ty)) 0x11C = 1"
  "ip_ihl (ram (slp_core ty)) 0x100 = 5"
  by (simp_all add: slp_core_def pld_ptr_def GET_IP_UDP_PLD_def header_defs load8_def load16_def load32_def IP_SIZE_def UDP_SIZE_def
      frame_type_def frame_count_def)

lemma slp_core_words:
  "words (ram (slp_core ty)) 0x1000 2 = [0, 0]" "sample 1 (ram (slp_core ty)) 0x124 0 = [3]"
  "word_at (ram (slp_core ty)) 0x124 1 = 0" "word_at (ram (slp_core ty)) 0x1000 (Suc (Suc 0)) = 0"
  "word_at (ram (slp_core ty)) 0x1000 (Suc (Suc (Suc 0))) = 32"
  by (simp_all add: slp_core_def words_def sample_def word_at_def load32_def upt_rec)

theorem slp_learns_witness:
  "\<forall>p0. \<exists>c'. slp_l1_ph 1 p0 (\<lambda>_ _. 0) (demo_args 0x100 2) (slp_core TY_FIT_DATA) = Some c' \<and> words (ram c') 0x1000 2 = [-3, -1]" (is "\<forall>p0. ?P p0")
proof
  fix p0
  have "slp_mem 1 0x1000 (0x11C + FRAME_SIZE) (1 * 1 + 1) (ram (slp_core TY_FIT_DATA))"
    using slp_core_words [of TY_FIT_DATA] by (simp add: slp_mem_def FRAME_SIZE_def sepI)
  moreover have "foldl learn [0, 0] (samples 1 (ram (slp_core TY_FIT_DATA)) 0x124 1) = [-3, -1]"
    using slp_core_words [of TY_FIT_DATA] by (simp add: samples_def learn_def classify_def ACTIVATION_FN_def sle_i32_iff Let_def)
  ultimately show "?P p0"
    using slp_learns [where args = "demo_args 0x100 2" and c = "slp_core TY_FIT_DATA" and V = 1 and ?p0.0 = p0 and dev = "\<lambda>_ _. 0"]
      slp_core_frame [of TY_FIT_DATA] slp_core_words(1) [of TY_FIT_DATA]
    by (auto simp: FRAME_SIZE_def simp flip: numeral_2_eq_2)
qed

text \<open>
  On a packet of inputs, apart from the weights of its cluster and from the packet's headers, the payload handler returns, has written
  over input word \<open>i\<close> the class of input \<open>i\<close>, also where the answers overlap inputs, and hands the NIC the packet with source and destination
  exchanged; but the length it sends adds the size of the answer modulo 256, because the size is passed as a byte.
\<close>

theorem slp_predicts:
  fixes args c V
  defines "p \<equiv> pkt_mem (args_task args)" and "w \<equiv> scratchpad (args_task args) ! unat (cluster_id args)"
  defines "inp \<equiv> pld_ptr (ram c) p + FRAME_SIZE"
  defines "n \<equiv> unat (frame_count (ram c) (pld_ptr (ram c) p))"
  assumes "frame_type (ram c) (pld_ptr (ram c) p) = TY_PREDICT" "0 < V" "n * V \<le> 2 ^ 30" "sep inp (4 * (n * V)) w (4 * Suc V)"
    "5 \<le> ip_ihl (ram c) p" "sep inp (4 * (n * V)) p (4 * unat (ip_ihl (ram c) p) + 8)"
  shows "\<exists>c'. slp_l1_ph V p0 dev args c = Some c'
    \<and> (\<forall>i<n. word_at (ram c') inp i = classify (words (ram c) w (Suc V)) (sample V (ram c) inp i))
    \<and> source_id (ram c') p = dest_id (ram c) p \<and> dest_id (ram c') p = source_id (ram c) p
    \<and> issued (tr c') = issued (tr c) @ [send p (of_nat (4 * unat (ip_ihl (ram c) p) + 8 + (8 + 4 * n) mod 256))]"
proof -
  let ?h = "unat (ip_ihl (ram c) p)"
  obtain m where m: "predict_all V inp w n (ram c) = Some m"
      "\<forall>i<n. word_at m inp i = classify (words (ram c) w (Suc V)) (sample V (ram c) inp i)"
      "\<forall>b. sep inp (4 * (n * V)) b 1 \<longrightarrow> m b = ram c b"
    using predict_all_ok [OF assms(8) assms(7) assms(6) order.refl] by blast
  have h: "20 \<le> 4 * ?h" "?h < 16" using assms(9) ihl_less [of "ram c" p] by (simp_all add: word_le_nat_alt)
  have same: "m (p + of_nat j) = ram c (p + of_nat j)" if "j < 4 * ?h + 8" for j
    using m(3) sep_inside [OF assms(10), of 0 "4 * (n * V)" j 1] that by simp
  have hdr: "ip_ihl m p = ip_ihl (ram c) p" "source_id m p = source_id (ram c) p" "dest_id m p = dest_id (ram c) p"
    using same [of 0] same [of 12] same [of 13] same [of 14] same [of 15] same [of 16] same [of 17] same [of 18] same [of 19] h
    by (simp_all add: header_defs load8_def load32_def add.assoc)
  define udp where "udp = udp_of m p"
  have udp: "udp = p + of_nat (4 * ?h)" by (simp add: udp_def udp_of_def hdr mult.commute)
  have s: "sep p 20 udp 8" unfolding udp_def by (rule udp_sep) (simp add: hdr assms(9))
  define psz where "psz = (ucast (FRAME_SIZE + 4 * frame_count (ram c) (pld_ptr (ram c) p)) :: u8)"
  define len where "len = (ucast (ip_ihl m p) * 4 + 8 + ucast psz :: u16)"
  define m2 where "m2 = set_udp_length (8 + ucast psz) udp (set_length len p m)"
  have ph: "slp_l1_ph V p0 dev args c = Some (send_return dev p psz (c\<lparr>ram := m\<rparr>))"
    using m(1) unfolding slp_l1_ph_def Let_def split_def pld_ptr_def [symmetric] p_def [symmetric] assms(5) inp_def [symmetric]
      w_def [symmetric] n_def [symmetric] psz_def [symmetric]
    by (simp add: TY_PREDICT_def TY_FIT_DATA_def)
  have ret: "send_return dev p psz (c\<lparr>ram := m\<rparr>) =
      snd (command (spin_send_packet dev p (ucast (ip_length (swap_ids p udp m2) p))) (c\<lparr>ram := swap_ids p udp m2\<rparr>))"
    by (simp add: send_return_def Let_def udp_def len_def m2_def)
  have "FRAME_SIZE + 4 * frame_count (ram c) (pld_ptr (ram c) p) = (of_nat (8 + 4 * n) :: u32)"
    by (simp add: FRAME_SIZE_def n_def)
  then have "psz = of_nat (8 + 4 * n)"
    by (simp only: psz_def) (simp add: unsigned_of_nat word_of_nat_eq_iff del: of_nat_add of_nat_mult)
  then have psz: "unat psz = (8 + 4 * n) mod 256"
    by (simp only: unat_of_nat) (simp add: take_bit_eq_mod)
  have "unat len = 4 * ?h + 8 + (8 + 4 * n) mod 256"
  proof -
    have "len = of_nat (4 * ?h + 8 + unat psz)" by (simp add: len_def hdr)
    moreover have "4 * ?h + 8 + unat psz < 2 ^ 16" using h psz by (simp add: mod_less_divisor add.assoc)
    ultimately show ?thesis by (simp only: unat_of_nat psz) (simp add: take_bit_nat_eq_self psz)
  qed
  then have len: "ucast len = (of_nat (4 * ?h + 8 + (8 + 4 * n) mod 256) :: u32)" by (metis of_nat_unat)
  have sepw: "sep (p + of_nat j) k (inp + 4 * of_nat i) 4" if "i < n" "j + k \<le> 4 * ?h + 8" for i j k
  proof -
    have "n \<le> n * V" using assms(6) by simp
    then have "sep (inp + of_nat (4 * i)) 4 (p + of_nat j) k"
      using that by (intro sep_inside [OF assms(10)]) linarith+
    then show ?thesis by (simp add: sep_commute)
  qed
  have words: "word_at (swap_ids p udp m2) inp i = word_at m inp i" if "i < n" for i
  proof -
    have "load32 (swap_ids p udp m2) (inp + 4 * of_nat i) = load32 m2 (inp + 4 * of_nat i)"
      using sepw [OF that, of 12 8] sepw [OF that, of "4 * ?h" 4] h by (intro swap_ids_load(3)) (simp_all add: udp)
    also have "\<dots> = load32 m (inp + 4 * of_nat i)"
      using sepw [OF that, of 2 2] sepw [OF that, of "4 * ?h + 4" 2] h by (simp add: m2_def header_defs mem_other udp add.assoc)
    finally show ?thesis by (simp add: word_at_def)
  qed
  have s2: "sep (udp + 4) 2 (p + 2) 2" "sep (udp + 4) 2 (p + 12) 4" "sep (udp + 4) 2 (p + 16) 4"
    using sep_inside [OF s, of 2 2 4 2] sep_inside [OF s, of 12 4 4 2] sep_inside [OF s, of 16 4 4 2] by (simp_all add: sep_commute)
  have "ip_length m2 p = len" "source_id m2 p = source_id (ram c) p" "dest_id m2 p = dest_id (ram c) p"
    using s2 hdr by (simp_all add: m2_def header_defs mem_other sepI)
  then show ?thesis
    unfolding ph ret using m(2) words swap_ids [OF s, of m2] len
    by (simp add: command_def split_def commands_issued send_def)
qed

theorem slp_predicts_witness:
  "\<forall>p0. \<exists>c'. slp_l1_ph 1 p0 (\<lambda>_ _. 0) (demo_args 0x100 0) (slp_core TY_PREDICT) = Some c' \<and> word_at (ram c') 0x124 0 = 1
    \<and> issued (tr c') = [send 0x100 40]" (is "\<forall>p0. ?P p0")
proof
  fix p0
  let ?c = "slp_core TY_PREDICT" and ?a = "demo_args 0x100 0"
  have "sep (0x11C + FRAME_SIZE) 4 0x1000 8" "sep (0x11C + FRAME_SIZE) 4 0x100 28"
    by (simp_all add: FRAME_SIZE_def sepI)
  moreover have "classify (words (ram ?c) 0x1000 2) (sample 1 (ram ?c) 0x124 0) = 1"
    using slp_core_words [of TY_PREDICT] by (simp add: classify_def ACTIVATION_FN_def sle_i32_iff)
  ultimately show "?P p0"
    using slp_predicts [where args = ?a and c = ?c and V = 1 and ?p0.0 = p0 and dev = "\<lambda>_ _. 0"] slp_core_frame [of TY_PREDICT]
    by (auto simp: FRAME_SIZE_def slp_core_def issued_def simp flip: numeral_2_eq_2)
qed

text \<open>
  The header handler of a batch to learn from, when it returns, runs on cluster 0 and leaves the lock free but
  with a reader count of 32. A reader takes the lock word only when it counts itself first, so that with this
  count up to \<open>2 ^ 31\<close> readers enter without looking at the lock word, also while a writer holds it.
\<close>

theorem slp_readers_never_wait:
  assumes "slp_l1_hh V args c = Some c'"
    "frame_type (ram c) (pld_ptr (ram c) (pkt_mem (args_task args))) = TY_FIT_DATA" "k < 2 ^ 31"
  shows "cluster_id args = 0 \<and> rwl_at (ram c') (RWLOCK V (args_task args)) = \<lparr>glock = 0, num_readers = 32\<rparr>
    \<and> spin_rw_lock_r_lock \<lparr>glock = g, num_readers = 32 + of_nat k\<rparr> = Some (SPIN_OK, \<lparr>glock = g, num_readers = 33 + of_nat k\<rparr>)"
proof -
  have c: "cluster_id args = 0" "ram c' = store32 (store32 (ram c) (RWLOCK V (args_task args) + 4) 32) (RWLOCK V (args_task args)) 0"
    using assms(1,2) by (auto simp: slp_l1_hh_def pld_ptr_def Let_def split_def upd_ram_def spin_lock_init_def futex_init_def split: if_splits)
  have "(33 + of_nat k :: u32) = of_nat (33 + k)" by simp
  then have "(33 + of_nat k :: u32) \<noteq> 1"
    using assms(3) by (simp only: word_unat_eq_iff unat_of_nat) (simp add: take_bit_nat_eq_self)
  then show ?thesis
    using c by (simp add: rwl_at_def mem_other sepI spin_rw_lock_r_lock_def amo_add_def)
qed

theorem slp_readers_never_wait_witness:
  "\<exists>c'. slp_l1_hh 1 (demo_args 0x100 0) (slp_core TY_FIT_DATA) = Some c'
    \<and> rwl_at (ram c') (RWLOCK 1 (args_task (demo_args 0x100 0))) = \<lparr>glock = 0, num_readers = 32\<rparr>
    \<and> spin_rw_lock_r_lock \<lparr>glock = 1, num_readers = 32\<rparr> = Some (SPIN_OK, \<lparr>glock = 1, num_readers = 33\<rparr>)"
proof -
  have "slp_l1_hh 1 (demo_args 0x100 0) (slp_core TY_FIT_DATA) \<noteq> None"
    by (simp add: slp_l1_hh_def Let_def split_def cong: if_cong)
  then obtain c' where "slp_l1_hh 1 (demo_args 0x100 0) (slp_core TY_FIT_DATA) = Some c'" by blast
  then show ?thesis
    using slp_readers_never_wait [of 1 "demo_args 0x100 0" "slp_core TY_FIT_DATA" c' 0 1] slp_core_frame [of TY_FIT_DATA]
    by auto
qed

end
