(* ===== verification/Slp_Driver.thy ===== *)
theory Slp_Driver
  imports Slp Drivers
begin

text \<open>
  The driver of the perceptron (\<^verbatim>\<open>slp/driver/driver.c\<close>): its table of samples, the packets it fills and its \<open>main\<close>. It
  runs on the 64-bit host: \<^verbatim>\<open>sizeof\<close> has 64 bits. Reading the table past a row has no defined meaning and ends in
  \<open>OutOfRow\<close>. The message printed once is left out, and so is the use of \<open>hexdump\<close>, which is commented out.
\<close>

section \<open>The table\<close>

definition fit_data :: "i32 list list" where
  "fit_data = [[8, 1], [6, 1], [8, 1], [1, 2], [2, 4], [6, 1], [4, 6], [5, 3]]"

definition fit_result :: "i32 list" where
  "fit_result = [1, 1, 1, 0, 0, 1, 0, 0]"

definition fit_value :: "nat \<Rightarrow> nat \<Rightarrow> gd_fail + i32" where
  "fit_value s k = (if k < length (fit_data ! s) then Inr (fit_data ! s ! k) else Inl OutOfRow)"

definition F_of :: "i32 \<Rightarrow> i32 \<Rightarrow> i32" where
  "F_of x0 x1 = (if 1 <s x0 - 2 * x1 then 1 else 0)"

section \<open>A dump of bytes\<close>

text \<open>
  The output of \<open>hexdump\<close>. The state of its loop is the text column, an array of 17 characters of which a string
  ends at the first NUL, and the output so far; what the array holds at first is never printed.
\<close>

definition hex_byte :: "u8 \<Rightarrow> string" where
  "hex_byte b = (let d = ''0123456789ABCDEF'' in [d ! (unat b div 16), d ! (unat b mod 16)])"

definition c_string :: "string \<Rightarrow> string" where
  "c_string = takeWhile (\<lambda>c. c \<noteq> CHR 0x00)"

definition hexdump_byte :: "u8 list \<Rightarrow> nat \<Rightarrow> string \<times> string \<Rightarrow> string \<times> string" where
  "hexdump_byte data i s =
     (case s of (ascii, out) \<Rightarrow>
        let b = data ! i; size = length data;
            out = out @ hex_byte b @ '' '';
            ascii = ascii[i mod 16 := (if 0x20 \<le> b \<and> b \<le> 0x7E then char_of (unat b) else CHR ''.'')];
            line = (\<lambda>ascii. ''|  '' @ c_string ascii @ '' '' @ [CHR 0x0A])
        in if (i + 1) mod 8 = 0 \<or> i + 1 = size then
             let out = out @ '' ''
             in if (i + 1) mod 16 = 0 then (ascii, out @ line ascii)
                else if i + 1 = size then
                  let ascii = ascii[(i + 1) mod 16 := CHR 0x00];
                      out = (if (i + 1) mod 16 \<le> 8 then out @ '' '' else out);
                      out = out @ concat (replicate (16 - (i + 1) mod 16) ''   '')
                  in (ascii, out @ line ascii)
                else (ascii, out)
           else (ascii, out))"

definition hexdump :: "u8 list \<Rightarrow> string" where
  "hexdump data = snd (fold (hexdump_byte data) [0..<length data] (replicate 17 (CHR 0x00), []))"

section \<open>Filling a packet\<close>

text \<open>\<open>body\<close> is the array of words behind the frame header; \<open>c\<close> counts the calls of \<^verbatim>\<open>rand\<close>.\<close>

definition slp_input :: "rand_fun \<Rightarrow> nat \<Rightarrow> u8 \<Rightarrow> u32 \<Rightarrow> nat \<Rightarrow> nat \<Rightarrow> mem \<times> nat \<Rightarrow> gd_fail + mem \<times> nat" where
  "slp_input rand V ty body i k mc =
     (case mc of (m, c) \<Rightarrow>
        if ty = TY_FIT_DATA then
          bindE (fit_value (i mod 8) k) (\<lambda>v. Inr (store32 m (body + 4 * of_nat (i * V + k)) v, c))
        else Inr (store32 m (body + 4 * of_nat (i * V + k)) (ucast (rand c)), Suc c))"

definition slp_sample :: "rand_fun \<Rightarrow> nat \<Rightarrow> u8 \<Rightarrow> u32 \<Rightarrow> nat \<Rightarrow> nat \<Rightarrow> mem \<times> nat \<Rightarrow> gd_fail + mem \<times> nat" where
  "slp_sample rand V ty body batch i mc =
     bindE (foldE (slp_input rand V ty body i) [0..<V] mc) (\<lambda>(m, c).
       if ty = TY_FIT_DATA then
         let res = F_of (word_at m body (i * V)) (word_at m body (i * V + 1)) in
         bindE (guardE (res = fit_result ! (i mod 8)) Aborted) (\<lambda>_.
           Inr (store32 m (body + 4 * of_nat (batch * V + i)) res, c))
       else Inr (m, c))"

definition slp_fill_packet :: "rand_fun \<Rightarrow> nat \<Rightarrow> bool \<Rightarrow> fill_fun" where
  "slp_fill_packet rand V predict_only msg_idx pkt_idx pkt_buff max_pkt_size w =
     (let payload_max_size = max_pkt_size - 28 - 8;
          fit_batch = ucast ((scast payload_max_size :: u64) div (of_nat (V + 1) * 4)) :: i32;
          predict_batch = ucast ((scast payload_max_size :: u64) div (of_nat V * 4)) :: i32;
          (ty, batch, payload_len) =
            (if \<not> predict_only \<and> msg_idx = 0
             then (TY_FIT_DATA, fit_batch, FRAME_SIZE + of_nat (V + 1) * fit_batch * 4)
             else (TY_PREDICT, predict_batch, FRAME_SIZE + of_nat V * predict_batch * 4));
          m = set_ihl 5 pkt_buff (wmem w);
          udp = pkt_buff + 20;
          m = set_udp_length (ucast (payload_len + 8)) udp m;
          len = load16 m (udp + 4) + ucast (ip_ihl m pkt_buff) * 4;
          m = set_length len pkt_buff m;
          m = set_src_port 0xdead udp m;
          m = set_dst_port 0xbeef udp m
      in bindE (guardE (\<not> max_pkt_size < ucast (ip_length m pkt_buff)) Aborted) (\<lambda>_.
           let pld_hdr = pkt_buff + 28;
               m = store8 m pld_hdr ty;
               m = store32 m (pld_hdr + 4) batch
           in bindE (foldE (slp_sample rand V ty (pld_hdr + FRAME_SIZE) (unat batch)) [0..<nat (sint batch)] (m, rand_calls w)) (\<lambda>(m, c).
                Inr (ucast (ip_length m pkt_buff), None, w\<lparr>wmem := m, rand_calls := c\<rparr>))))"

text \<open>The result of \<open>gdriver_init\<close> is not tested.\<close>

definition slp_main :: "nat \<Rightarrow> bool \<Rightarrow> env \<Rightarrow> gd_fail + i32 \<times> sim_descr \<times> sim_call list" where
  "slp_main V predict_only e =
     exit_with (\<lambda>_. 0) (plain_main e ''build/slp_l1'' (Some ''slp_l1_hh'') (Some ''slp_l1_ph'') (Some ''slp_l1_th'')
       (Some (slp_fill_packet (e_rand e) V predict_only)))"

section \<open>Packets to learn from, with two inputs\<close>

definition table_sample :: "nat \<Rightarrow> i32 list \<times> i32" where
  "table_sample i = (fit_data ! (i mod 8), fit_result ! (i mod 8))"

lemma mod_8_cases:
  obtains "i mod 8 = 0" | "i mod 8 = 1" | "i mod 8 = 2" | "i mod 8 = 3" | "i mod 8 = 4" | "i mod 8 = 5" | "i mod 8 = 6" | "i mod 8 = (7 :: nat)"
proof -
  have "i mod 8 < 8" by simp
  then show thesis using that by linarith
qed

lemma fit_row: "length (fit_data ! (i mod 8)) = 2"
  by (rule mod_8_cases [of i]) (simp_all add: fit_data_def)

lemma F_of_table: "F_of (fit_data ! (i mod 8) ! 0) (fit_data ! (i mod 8) ! 1) = fit_result ! (i mod 8)"
  by (rule mod_8_cases [of i]) (simp_all add: fit_data_def fit_result_def F_of_def sless_i32_iff)

lemma slp_sample_fit:
  assumes "i < n" "n \<le> 2 ^ 28"
  shows "slp_sample rand 2 TY_FIT_DATA body n i (m, c) =
    Inr (store32 (store32 (store32 m (body + 4 * of_nat (i * 2)) (fit_data ! (i mod 8) ! 0))
           (body + 4 * of_nat (i * 2 + 1)) (fit_data ! (i mod 8) ! 1))
           (body + 4 * of_nat (n * 2 + i)) (fit_result ! (i mod 8)), c)"
proof -
  have v: "fit_value (i mod 8) 0 = Inr (fit_data ! (i mod 8) ! 0)" "fit_value (i mod 8) (Suc 0) = Inr (fit_data ! (i mod 8) ! 1)"
    by (simp_all add: fit_value_def fit_row)
  let ?m = "store32 (store32 m (body + 4 * of_nat (i * 2)) (fit_data ! (i mod 8) ! 0)) (body + 4 * of_nat (i * 2 + 1)) (fit_data ! (i mod 8) ! 1)"
  have "foldE (slp_input rand 2 TY_FIT_DATA body i) [0..<2] (m, c) = Inr (?m, c)"
    by (simp add: slp_input_def v upt_rec [of 0] upt_rec [of "Suc 0"] del: of_nat_mult of_nat_add)
  moreover have "word_at ?m body (i * 2) = fit_data ! (i mod 8) ! 0" "word_at ?m body (i * 2 + 1) = fit_data ! (i mod 8) ! 1"
    using assms by (simp_all add: word_at_store del: of_nat_mult of_nat_add of_nat_Suc)
  ultimately show ?thesis
    using F_of_table [of i] by (simp add: slp_sample_def Let_def del: of_nat_mult of_nat_add of_nat_Suc)
qed

lemma slp_samples_fit:
  assumes "j \<le> n" "n \<le> 2 ^ 28"
  shows "\<exists>m'. foldE (slp_sample rand 2 TY_FIT_DATA body n) [0..<j] (m, c) = Inr (m', c)
    \<and> (\<forall>i<j. sample 2 m' body i = fit_data ! (i mod 8) \<and> word_at m' body (n * 2 + i) = fit_result ! (i mod 8))
    \<and> (\<forall>b. sep body (4 * (3 * n)) b 1 \<longrightarrow> m' b = m b)"
  using assms(1)
proof (induction j)
  case (Suc j)
  then obtain m' where m': "foldE (slp_sample rand 2 TY_FIT_DATA body n) [0..<j] (m, c) = Inr (m', c)"
    "\<forall>i<j. sample 2 m' body i = fit_data ! (i mod 8) \<and> word_at m' body (n * 2 + i) = fit_result ! (i mod 8)"
    "\<forall>b. sep body (4 * (3 * n)) b 1 \<longrightarrow> m' b = m b" by auto
  let ?m = "store32 (store32 (store32 m' (body + 4 * of_nat (j * 2)) (fit_data ! (j mod 8) ! 0))
           (body + 4 * of_nat (j * 2 + 1)) (fit_data ! (j mod 8) ! 1)) (body + 4 * of_nat (n * 2 + j)) (fit_result ! (j mod 8))"
  have w: "word_at ?m body k = (if k = n * 2 + j then fit_result ! (j mod 8) else if k = j * 2 + 1 then fit_data ! (j mod 8) ! 1
      else if k = j * 2 then fit_data ! (j mod 8) ! 0 else word_at m' body k)" if "k < 3 * n" for k
    using that Suc.prems assms(2) by (simp add: word_at_store del: of_nat_mult of_nat_add of_nat_Suc)
  have row: "fit_data ! (j mod 8) = [fit_data ! (j mod 8) ! 0, fit_data ! (j mod 8) ! 1]"
    using fit_row [of j] by (auto simp: numeral_2_eq_2 length_Suc_conv)
  have s: "sample 2 ?m body i = fit_data ! (i mod 8)" if "i < Suc j" for i
  proof (cases "i = j")
    case True
    have "sample 2 ?m body j = [word_at ?m body (j * 2), word_at ?m body (j * 2 + 1)]"
      by (simp add: sample_def upt_rec [of 0] upt_rec [of "Suc 0"] del: of_nat_mult of_nat_add of_nat_Suc)
    also have "\<dots> = [fit_data ! (j mod 8) ! 0, fit_data ! (j mod 8) ! 1]"
      using w [of "j * 2"] w [of "j * 2 + 1"] Suc.prems by auto
    finally show ?thesis using row True by simp
  next
    case False
    then have "sample 2 ?m body i = sample 2 m' body i"
      using that Suc.prems by (intro sample_cong) (subst w, auto)
    then show ?thesis using m'(2) that False by simp
  qed
  have r: "word_at ?m body (n * 2 + i) = fit_result ! (i mod 8)" if "i < Suc j" for i
    using that Suc.prems m'(2) by (subst w) auto
  have o: "?m b = m b" if "sep body (4 * (3 * n)) b 1" for b
  proof -
    have "sep (body + 4 * of_nat k) 4 b 1" if "k < 3 * n" for k
      using sep_inside [OF \<open>sep body (4 * (3 * n)) b 1\<close>, of "4 * k" 4 0 1] that by simp
    then have "?m b = m' b"
      using Suc.prems by (simp add: word.st_byte_sep del: of_nat_mult of_nat_add of_nat_Suc)
    then show ?thesis using m'(3) that by simp
  qed
  have "foldE (slp_sample rand 2 TY_FIT_DATA body n) [0..<Suc j] (m, c) = Inr (?m, c)"
    using m'(1) slp_sample_fit [of j n rand body m' c] Suc.prems assms(2) by (simp add: foldE_append del: of_nat_mult of_nat_add of_nat_Suc)
  with s r o show ?case by blast
qed simp

lemma slp_batch:
  assumes "36 \<le> unat mx" "unat mx < 2 ^ 16" "0 < k" "k < 2 ^ 32"
  shows "(ucast ((scast (mx - 28 - 8 :: u32) :: u64) div of_nat k) :: u32) = of_nat ((unat mx - 36) div k)"
proof -
  have le: "36 \<le> mx" using assms(1) by (simp add: word_le_nat_alt)
  have l: "unat (mx - 28 - 8) = unat mx - 36"
    using unat_sub [OF le] by simp
  then have "sint (mx - 28 - 8) = int (unat mx - 36)"
    using assms(2) by (subst sint_i32_small) simp_all
  then have s: "(scast (mx - 28 - 8) :: u64) = of_nat (unat mx - 36)"
    by (simp add: scast_eq del: of_nat_diff)
  have "unat (of_nat (unat mx - 36) div of_nat k :: u64) = (unat mx - 36) div k"
    using assms(2,4) by (simp add: unat_div unat_of_nat take_bit_nat_eq_self del: of_nat_diff)
  then show ?thesis
    unfolding s by (metis of_nat_unat)
qed

lemma frame_headers_same:
  assumes "\<And>j. j < 36 \<Longrightarrow> m' (buf + of_nat j) = m (buf + of_nat j)"
  shows "ip_ihl m' buf = ip_ihl m buf" "ip_length m' buf = ip_length m buf"
    "frame_type m' (buf + 28) = frame_type m (buf + 28)" "frame_count m' (buf + 28) = frame_count m (buf + 28)"
  using assms [of 0] assms [of 2] assms [of 3] assms [of 28] assms [of 32] assms [of 33] assms [of 34] assms [of 35]
  by (simp_all add: ip_ihl_def ip_length_def frame_type_def frame_count_def load8_def load16_def load32_def add.assoc)

text \<open>The two headers in the order the filler writes them.\<close>

definition frame_headers :: "u16 \<Rightarrow> u16 \<Rightarrow> u8 \<Rightarrow> u32 \<Rightarrow> u32 \<Rightarrow> mem \<Rightarrow> mem" where
  "frame_headers ul len ty cnt buf m =
     store32 (store8 (set_dst_port 0xbeef (buf + 20) (set_src_port 0xdead (buf + 20) (set_length len buf
       (set_udp_length ul (buf + 20) (set_ihl 5 buf m))))) (buf + 28) ty) (buf + 28 + 4) cnt"

lemma frame_headers_fields [simp]:
  "ip_ihl (frame_headers ul len ty cnt buf m) buf = 5" "ip_length (frame_headers ul len ty cnt buf m) buf = len"
  "frame_type (frame_headers ul len ty cnt buf m) (buf + 28) = ty" "frame_count (frame_headers ul len ty cnt buf m) (buf + 28) = cnt"
  by (simp_all add: frame_headers_def frame_type_def frame_count_def header_defs mem_other sepI)

lemma frame_headers_outside:
  assumes "sep buf 36 b 1"
  shows "frame_headers ul len ty cnt buf m b = m b"
proof -
  have "sep (buf + of_nat i) k b 1" if "i + k \<le> 36" for i k
    using sep_inside [OF assms that, of 0 1] by simp
  from this [of 0 1] this [of 2 2] this [of 20 2] this [of 22 2] this [of 24 2] this [of 28 1] this [of 32 4]
  show ?thesis
    by (simp add: frame_headers_def header_defs add.assoc byte.st_byte_sep half.st_byte_sep word.st_byte_sep)
qed

lemma frame_lengths:
  "load16 (set_udp_length ul (buf + 20) (set_ihl 5 buf m)) (buf + 20 + 4)
     + ucast (ip_ihl (set_udp_length ul (buf + 20) (set_ihl 5 buf m)) buf) * 4 = ul + 20"
  "ip_length (set_dst_port d (buf + 20) (set_src_port e (buf + 20) (set_length len buf m))) buf = len"
  by (simp_all add: header_defs mem_other sepI)

lemma slp_fill_eq:
  assumes "36 \<le> unat mx" "unat mx < 2 ^ 16" "V < 2 ^ 28"
  defines "n \<equiv> (unat mx - 36) div (4 * (V + 1))"
  defines "k \<equiv> 4 * (V + 1) * n"
  shows "slp_fill_packet rand V False 0 p buf mx w =
    bindE (foldE (slp_sample rand V TY_FIT_DATA (buf + 28 + FRAME_SIZE) n) [0..<n]
        (frame_headers (of_nat (16 + k)) (of_nat (36 + k)) TY_FIT_DATA (of_nat n) buf (wmem w), rand_calls w))
      (\<lambda>(m, c). Inr (ucast (ip_length m buf), None, w\<lparr>wmem := m, rand_calls := c\<rparr>))"
proof -
  have "4 * (V + 1) * n \<le> unat mx - 36" unfolding n_def by (rule times_div_less_eq_dividend)
  then have k: "36 + k \<le> unat mx" "36 + k < 2 ^ 16" using assms(1,2) by (simp_all add: k_def)
  have "n \<le> k" by (simp add: k_def)
  then have n: "n < 2 ^ 16" using k by linarith
  have batch: "ucast ((scast (mx - 28 - 8) :: u64) div (of_nat (V + 1) * 4)) = (of_nat n :: i32)"
    using slp_batch [OF assms(1,2), of "4 * (V + 1)"] assms(3) by (simp add: n_def mult.commute)
  have udp_len: "ucast (FRAME_SIZE + of_nat (V + 1) * of_nat n * 4 + 8 :: u32) = (of_nat (16 + k) :: u16)"
  proof -
    have "FRAME_SIZE + of_nat (V + 1) * of_nat n * 4 + 8 = (of_nat (16 + k) :: u32)"
      by (simp add: FRAME_SIZE_def k_def algebra_simps)
    then show ?thesis using k(2) by (simp add: word_unat_eq_iff unsigned_ucast_eq unat_of_nat take_bit_nat_eq_self del: of_nat_add of_nat_mult)
  qed
  have add20: "of_nat (16 + k) + 20 = (of_nat (36 + k) :: u16)" by simp
  have ok: "\<not> mx < ucast (of_nat (36 + k) :: u16)"
    using k by (simp add: word_less_nat_alt unsigned_ucast_eq unat_of_nat take_bit_nat_eq_self del: of_nat_add of_nat_mult)
  have cnt: "nat (sint (of_nat n :: i32)) = n" "unat (of_nat n :: i32) = n"
    using n by (simp_all add: sint_i32_small unat_of_nat take_bit_nat_eq_self)
  show ?thesis
    unfolding slp_fill_packet_def Let_def batch
    by (simp only: HOL.simp_thms if_True case_prod_conv udp_len frame_lengths add20 ok guardE_simps bindE_Inr cnt frame_headers_def)
qed

text \<open>What the filler puts into a packet for learning, as the handler reads it.\<close>

lemma slp_fill_fit:
  assumes "36 \<le> unat mx" "unat mx < 2 ^ 16"
  defines "n \<equiv> (unat mx - 36) div 12"
  shows "\<exists>w'. slp_fill_packet rand 2 False 0 p buf mx w = Inr (of_nat (36 + 12 * n), None, w')
    \<and> ip_ihl (wmem w') buf = 5 \<and> ip_length (wmem w') buf = of_nat (36 + 12 * n)
    \<and> frame_type (wmem w') (buf + 28) = TY_FIT_DATA \<and> frame_count (wmem w') (buf + 28) = of_nat n
    \<and> samples 2 (wmem w') (buf + 28 + FRAME_SIZE) n = map table_sample [0..<n]
    \<and> (\<forall>b. sep buf (36 + 12 * n) b 1 \<longrightarrow> wmem w' b = wmem w b)"
proof -
  have n: "36 + 12 * n < 2 ^ 16" "n \<le> 2 ^ 28"
    using assms(1,2) by (simp_all add: n_def)
  let ?m = "frame_headers (of_nat (16 + 12 * n)) (of_nat (36 + 12 * n)) TY_FIT_DATA (of_nat n) buf (wmem w)"
  have eq: "slp_fill_packet rand 2 False 0 p buf mx w =
    bindE (foldE (slp_sample rand 2 TY_FIT_DATA (buf + 28 + FRAME_SIZE) n) [0..<n] (?m, rand_calls w))
      (\<lambda>(m, c). Inr (ucast (ip_length m buf), None, w\<lparr>wmem := m, rand_calls := c\<rparr>))"
    using slp_fill_eq [OF assms(1,2), of 2] by (simp add: n_def)
  have ucl: "ucast (of_nat (36 + 12 * n) :: u16) = (of_nat (36 + 12 * n) :: u32)"
    using n(1) by (simp add: word_unat_eq_iff unsigned_ucast_eq unat_of_nat take_bit_nat_eq_self del: of_nat_add of_nat_mult)
  obtain m' where m': "foldE (slp_sample rand 2 TY_FIT_DATA (buf + 28 + FRAME_SIZE) n) [0..<n] (?m, rand_calls w) = Inr (m', rand_calls w)"
    "\<forall>i<n. sample 2 m' (buf + 28 + FRAME_SIZE) i = fit_data ! (i mod 8) \<and> word_at m' (buf + 28 + FRAME_SIZE) (n * 2 + i) = fit_result ! (i mod 8)"
    "\<forall>b. sep (buf + 28 + FRAME_SIZE) (4 * (3 * n)) b 1 \<longrightarrow> m' b = ?m b"
    using slp_samples_fit [OF order.refl n(2), of rand "buf + 28 + FRAME_SIZE" ?m "rand_calls w"] by blast
  have hdr: "m' (buf + of_nat j) = ?m (buf + of_nat j)" if "j < 36" for j
  proof -
    have "sep (buf + of_nat 36) (4 * (3 * n)) (buf + of_nat j) 1"
      by (rule sep_offsets) (use that n(1) in auto)
    then have "sep (buf + 28 + FRAME_SIZE) (4 * (3 * n)) (buf + of_nat j) 1" by (simp add: FRAME_SIZE_def add.assoc)
    then show ?thesis using m'(3) by blast
  qed
  note fields = frame_headers_same [of m' buf ?m, OF hdr, unfolded frame_headers_fields]
  have "samples 2 m' (buf + 28 + FRAME_SIZE) n = map table_sample [0..<n]"
    using m'(2) by (simp add: samples_def table_sample_def)
  moreover have "slp_fill_packet rand 2 False 0 p buf mx w = Inr (of_nat (36 + 12 * n), None, w\<lparr>wmem := m', rand_calls := rand_calls w\<rparr>)"
    unfolding eq m'(1) by (simp only: bindE_Inr case_prod_conv fields(2) ucl)
  moreover have "m' b = wmem w b" if b: "sep buf (36 + 12 * n) b 1" for b
  proof -
    have "sep (buf + of_nat 36) (4 * (3 * n)) (b + of_nat 0) 1" by (rule sep_inside [OF b]) simp_all
    then have "m' b = ?m b" using m'(3) by (simp add: FRAME_SIZE_def add.assoc)
    also have "\<dots> = wmem w b" by (rule frame_headers_outside [OF sep_mono [OF b]]) simp_all
    finally show ?thesis .
  qed
  ultimately show ?thesis using fields by (intro exI [of _ "w\<lparr>wmem := m', rand_calls := rand_calls w\<rparr>"]) simp
qed

section \<open>The driver and the handler together\<close>

text \<open>The comment of the driver gives the weights learned; they are a fixed point, which 16 samples reach.\<close>

definition final_weights :: "i32 list" where "final_weights = [2, -9, -1]"

lemma final_classifies: "classify final_weights (fst (table_sample i)) = snd (table_sample i)"
  by (rule mod_8_cases [of i])
    (simp_all add: table_sample_def fit_data_def fit_result_def classify_def final_weights_def ACTIVATION_FN_def sle_i32_iff)

lemma final_fixed: "learn final_weights (table_sample i) = final_weights"
proof -
  have "length (fst (table_sample i)) = 2" by (simp add: table_sample_def fit_row)
  then show ?thesis
    using final_classifies [of i]
    by (auto simp: learn_def split_def final_weights_def numeral_2_eq_2 length_Suc_conv)
qed

lemma learn_2: "learn [a, b, d] ([x, y], r) =
    (let e = r - (if 0 \<le>s x * a + (y * b + d) then 1 else 0) in [a + e * x, b + e * y, d + e])"
  by (simp add: learn_def classify_def ACTIVATION_FN_def Let_def add.assoc)

lemma table_samples: "map table_sample [0..<8] = [([8, 1], 1), ([6, 1], 1), ([8, 1], 1), ([1, 2], 0), ([2, 4], 0), ([6, 1], 1),
    ([4, 6], 0), ([5, 3], 0)]"
  by (simp add: table_sample_def fit_data_def fit_result_def upt_rec)

lemma table_twice: "map table_sample [0..<16] = map table_sample [0..<8] @ map table_sample [0..<8]"
  by (rule nth_equalityI) (auto simp: table_sample_def nth_append mod_simps le_mod_geq not_less)

lemma trained_16: "foldl learn [0, 0, 0] (map table_sample [0..<16]) = final_weights"
proof -
  have "foldl learn [0, 0, 0] (map table_sample [0..<8]) = [1, -7, -1]"
    unfolding table_samples by (simp add: learn_2 sle_i32_iff Let_def)
  moreover have "foldl learn [1, -7, -1] (map table_sample [0..<8]) = final_weights"
    unfolding table_samples by (simp add: learn_2 sle_i32_iff final_weights_def Let_def)
  ultimately show ?thesis by (simp only: table_twice foldl_append)
qed

lemma trained: "16 \<le> n \<Longrightarrow> foldl learn [0, 0, 0] (map table_sample [0..<n]) = final_weights"
proof (induction n)
  case (Suc n)
  then show ?case by (cases "n = 15") (simp_all add: trained_16 [simplified] final_fixed)
qed simp

text \<open>The bytes of a packet, from the driver's buffer to where the handler finds them.\<close>

definition delivered :: "mem \<Rightarrow> u32 \<Rightarrow> nat \<Rightarrow> mem \<Rightarrow> u32 \<Rightarrow> bool" where
  "delivered m buf len m' pkt \<longleftrightarrow> (\<forall>j<len. m' (pkt + of_nat j) = m (buf + of_nat j))"

lemma delivered_word:
  assumes "delivered m buf len m' pkt" "k + 4 * (j + 1) \<le> len"
  shows "word_at m' (pkt + of_nat k) j = word_at m (buf + of_nat k) j"
proof -
  have "m' (pkt + of_nat (k + 4 * j + i)) = m (buf + of_nat (k + 4 * j + i))" if "i < 4" for i
    by (rule assms(1) [unfolded delivered_def, rule_format]) (use assms(2) that in simp)
  from this [of 0] this [of 1] this [of 2] this [of 3] show ?thesis
    by (simp add: word_at_def load32_def algebra_simps)
qed

lemma delivered_samples:
  assumes "delivered m buf (36 + 12 * n) m' pkt"
  shows "samples 2 m' (pkt + 36) n = samples 2 m (buf + 36) n"
  using delivered_word [OF assms, of 36] by (simp add: samples_def sample_def)

lemma delivered_headers:
  assumes "delivered m buf (36 + k) m' pkt"
  shows "ip_ihl m' pkt = ip_ihl m buf" "frame_type m' (pkt + 28) = frame_type m (buf + 28)"
    "frame_count m' (pkt + 28) = frame_count m (buf + 28)"
proof -
  have "m' (pkt + of_nat j) = m (buf + of_nat j)" if "j < 36" for j
    using assms that unfolding delivered_def by simp
  from this [of 0] this [of 28] this [of 32] this [of 33] this [of 34] this [of 35]
  show "ip_ihl m' pkt = ip_ihl m buf" "frame_type m' (pkt + 28) = frame_type m (buf + 28)"
    "frame_count m' (pkt + 28) = frame_count m (buf + 28)"
    by (simp_all add: ip_ihl_def frame_type_def frame_count_def load8_def load32_def add.assoc)
qed

text \<open>
  C38: Built with two inputs, the driver fills a learning packet of any size from 228 bytes on and below \<open>2 ^ 16\<close>, where its length
  field ends: the filler returns the length of a packet with \<open>n\<close> samples, as many as fit the size, and the
  packet holds its IP header of 20 bytes, the kind and the number of the samples, and then the samples of its table with their
  results. Whenever these bytes are delivered to a core whose weights are 0 and lie apart from the samples, with the lock behind the weights free and
  its reader count not 0 (\<open>slp_mem\<close>, a precondition of the handler), the payload handler
  returns with the weights that the comment of the driver announces, 2, -9 and -1, however many samples there are.
  These classify every sample of the table right.
\<close>

theorem slp_driver_trains:
  assumes "228 \<le> unat mx" "unat mx < 2 ^ 16"
  defines "n \<equiv> (unat mx - 36) div 12"
  shows "(\<exists>len w'. slp_fill_packet rand 2 False 0 p buf mx w = Inr (len, None, w') \<and> unat len = 36 + 12 * n \<and> unat len \<le> unat mx
      \<and> ip_ihl (wmem w') buf = 5 \<and> frame_type (wmem w') (buf + 28) = TY_FIT_DATA \<and> frame_count (wmem w') (buf + 28) = of_nat n
      \<and> samples 2 (wmem w') (buf + 36) n = map table_sample [0..<n]
      \<and> (\<forall>p0 dev c args. delivered (wmem w') buf (unat len) (ram c) (pkt_mem (args_task args))
          \<longrightarrow> words (ram c) (scratchpad (args_task args) ! 0) 3 = [0, 0, 0]
          \<longrightarrow> slp_mem 2 (scratchpad (args_task args) ! 0) (pkt_mem (args_task args) + 36) (3 * n) (ram c)
          \<longrightarrow> (\<exists>c'. slp_l1_ph 2 p0 dev args c = Some c' \<and> words (ram c') (scratchpad (args_task args) ! 0) 3 = final_weights)))
    \<and> (\<forall>i. classify final_weights (fst (table_sample i)) = snd (table_sample i))"
proof (intro conjI allI)
  have n: "16 \<le> n" "36 + 12 * n \<le> unat mx" "n < 2 ^ 31" using assms(1,2) by (simp_all add: n_def)
  obtain w' where w': "slp_fill_packet rand 2 False 0 p buf mx w = Inr (of_nat (36 + 12 * n), None, w')" "ip_ihl (wmem w') buf = 5"
    "frame_type (wmem w') (buf + 28) = TY_FIT_DATA" "frame_count (wmem w') (buf + 28) = of_nat n"
    "samples 2 (wmem w') (buf + 36) n = map table_sample [0..<n]"
    using slp_fill_fit [of mx rand p buf w] assms(1,2) by (auto simp: n_def FRAME_SIZE_def add.assoc)
  have len: "unat (of_nat (36 + 12 * n) :: u32) = 36 + 12 * n"
    using n(2) assms(2) by (simp add: unat_of_nat take_bit_nat_eq_self del: of_nat_add of_nat_mult)
  have cnt: "unat (of_nat n :: u32) = n" using n(3) by (simp add: unat_of_nat take_bit_nat_eq_self)
  have learns: "\<exists>c'. slp_l1_ph 2 p0 dev args c = Some c' \<and> words (ram c') (scratchpad (args_task args) ! 0) 3 = final_weights"
    if d: "delivered (wmem w') buf (36 + 12 * n) (ram c) (pkt_mem (args_task args))"
      and zero: "words (ram c) (scratchpad (args_task args) ! 0) 3 = [0, 0, 0]"
      and apart: "slp_mem 2 (scratchpad (args_task args) ! 0) (pkt_mem (args_task args) + 36) (3 * n) (ram c)"
    for p0 dev c args
  proof -
    define pkt where "pkt = pkt_mem (args_task args)"
    note h = delivered_headers [OF d, folded pkt_def, unfolded w']
    have hdr: "pld_ptr (ram c) pkt = pkt + 28" by (simp add: pld_ptr_def GET_IP_UDP_PLD_def UDP_SIZE_def h)
    have s: "samples 2 (ram c) (pkt + 28 + FRAME_SIZE) n = map table_sample [0..<n]"
      using delivered_samples [OF d] w'(5) by (simp add: pkt_def FRAME_SIZE_def add.assoc)
    have m: "slp_mem 2 (scratchpad (args_task args) ! 0) (pkt + 28 + FRAME_SIZE) (n * 2 + n) (ram c)"
      using apart by (simp add: pkt_def FRAME_SIZE_def add.assoc mult.commute)
    show ?thesis
      using slp_ph_learns [of c args 2 p0 dev, folded pkt_def, unfolded hdr h(2,3) cnt, OF refl n(3) m] s trained [OF n(1)] zero
      by (auto simp: eval_nat_numeral)
  qed
  show "\<exists>len w'. slp_fill_packet rand 2 False 0 p buf mx w = Inr (len, None, w') \<and> unat len = 36 + 12 * n \<and> unat len \<le> unat mx
      \<and> ip_ihl (wmem w') buf = 5 \<and> frame_type (wmem w') (buf + 28) = TY_FIT_DATA \<and> frame_count (wmem w') (buf + 28) = of_nat n
      \<and> samples 2 (wmem w') (buf + 36) n = map table_sample [0..<n]
      \<and> (\<forall>p0 dev c args. delivered (wmem w') buf (unat len) (ram c) (pkt_mem (args_task args))
          \<longrightarrow> words (ram c) (scratchpad (args_task args) ! 0) 3 = [0, 0, 0]
          \<longrightarrow> slp_mem 2 (scratchpad (args_task args) ! 0) (pkt_mem (args_task args) + 36) (3 * n) (ram c)
          \<longrightarrow> (\<exists>c'. slp_l1_ph 2 p0 dev args c = Some c' \<and> words (ram c') (scratchpad (args_task args) ! 0) 3 = final_weights))"
    using w' len n(2) learns by (intro exI [of _ "of_nat (36 + 12 * n)"] exI [of _ w']) (simp only: len simp_thms, intro allI impI learns)
  show "classify final_weights (fst (table_sample i)) = snd (table_sample i)" for i by (rule final_classifies)
qed

theorem slp_driver_trains_witness:
  "\<forall>p0. \<exists>len w' c'. slp_fill_packet (\<lambda>_. 0) 2 False 0 0 0x100 228 \<lparr>wmem = (\<lambda>_. 0)(0x1010 := 32), rand_calls = 0, expected_total_sum = 0\<rparr>
      = Inr (len, None, w')
    \<and> slp_l1_ph 2 p0 (\<lambda>_ _. 0) (demo_args 0x100 0) \<lparr>ram = wmem w', tr = []\<rparr> = Some c' \<and> words (ram c') 0x1000 3 = final_weights"
proof
  fix p0
  let ?w = "\<lparr>wmem = (\<lambda>_. 0)(0x1010 := 32), rand_calls = 0, expected_total_sum = 0\<rparr>"
  obtain w' where w': "slp_fill_packet (\<lambda>_. 0) 2 False 0 0 0x100 228 ?w = Inr (228, None, w')"
    and out: "\<forall>b. sep 0x100 228 b 1 \<longrightarrow> wmem w' b = wmem ?w b"
    using slp_fill_fit [of 228 "\<lambda>_. 0" 0 "0x100" ?w] by auto
  have o: "wmem w' (0x1000 + of_nat k) = wmem ?w (0x1000 + of_nat k)" if "k < 20" for k
  proof -
    have "sep (0 + of_nat 0x100) 228 (0 + of_nat (0x1000 + k)) 1" by (rule sep_offsets) (use that in simp_all)
    then show ?thesis using out by simp
  qed
  have m: "word_at (wmem w') 0x1000 k = (if k = 4 then 32 else 0)" if "k < 5" for k
  proof -
    have "k = 0 \<or> k = 1 \<or> k = 2 \<or> k = 3 \<or> k = 4" using that by linarith
    then show ?thesis
      using that o [of "4 * k"] o [of "4 * k + 1"] o [of "4 * k + 2"] o [of "4 * k + 3"]
      by (elim disjE) (simp_all add: word_at_def load32_def)
  qed
  have "sep (0 + of_nat 0x1000) (4 * (2 + 3)) (0 + of_nat 0x124) (4 * ((228 - 36) div 12 * 3))"
    by (rule sep_offsets) simp_all
  then have "slp_mem 2 (scratchpad (args_task (demo_args 0x100 0)) ! 0) (pkt_mem (args_task (demo_args 0x100 0)) + 36)
      (3 * ((unat (228 :: u32) - 36) div 12)) (wmem w')"
    using m [of 3] m [of 4] by (simp add: slp_mem_def demo_args_def)
  moreover have "words (wmem w') 0x1000 3 = [0, 0, 0]"
    using m by (simp add: words_def upt_rec)
  moreover have "delivered (wmem w') 0x100 (unat (228 :: u32)) (wmem w') 0x100" by (simp add: delivered_def)
  moreover have "228 \<le> unat (228 :: u32)" "unat (228 :: u32) < 2 ^ 16" by simp_all
  note slp_driver_trains [OF this, of "\<lambda>_. 0" 0 "0x100" ?w]
  moreover have "ram \<lparr>ram = wmem w', tr = []\<rparr> = wmem w'" "pkt_mem (args_task (demo_args 0x100 0)) = 0x100"
      "scratchpad (args_task (demo_args 0x100 0)) ! 0 = 0x1000"
    by (simp_all add: demo_args_def)
  ultimately have "\<exists>c'. slp_l1_ph 2 p0 (\<lambda>_ _. 0) (demo_args 0x100 0) \<lparr>ram = wmem w', tr = []\<rparr> = Some c'
      \<and> words (ram c') 0x1000 3 = final_weights"
    using w' by (metis Inr_inject prod.inject)
  with w' show "\<exists>len w' c'. slp_fill_packet (\<lambda>_. 0) 2 False 0 0 0x100 228 ?w = Inr (len, None, w')
    \<and> slp_l1_ph 2 p0 (\<lambda>_ _. 0) (demo_args 0x100 0) \<lparr>ram = wmem w', tr = []\<rparr> = Some c' \<and> words (ram c') 0x1000 3 = final_weights"
    by blast
qed

section \<open>The default of eight inputs\<close>

lemma slp_input_stuck:
  assumes "2 < V"
  shows "foldE (slp_input rand V TY_FIT_DATA body i) [0..<V] mc = Inl OutOfRow"
proof -
  have v: "fit_value (i mod 8) 0 = Inr (fit_data ! (i mod 8) ! 0)" "fit_value (i mod 8) (Suc 0) = Inr (fit_data ! (i mod 8) ! 1)"
    "fit_value (i mod 8) 2 = Inl OutOfRow"
    by (simp_all add: fit_value_def fit_row)
  have "[0..<V] = [0, 1, 2] @ [3..<V]"
    using assms by (simp add: upt_conv_Cons numeral_eq_Suc)
  then show ?thesis by (cases mc) (simp add: slp_input_def v foldE_append)
qed

text \<open>
  With more than two inputs, as by default, every learning packet with room for one sample, of a size that its length field can
  express, makes the filler read past a row of its table.
\<close>

theorem slp_driver_reads_past_row:
  assumes "2 < V" "36 + 4 * (V + 1) \<le> unat mx" "unat mx < 2 ^ 16"
  shows "slp_fill_packet rand V False 0 p buf mx w = Inl OutOfRow"
proof -
  let ?n = "(unat mx - 36) div (4 * (V + 1))"
  have "1 \<le> ?n" using assms(2) div_le_mono [of "4 * (V + 1)" "unat mx - 36" "4 * (V + 1)"] by simp
  then have "[0..<?n] = 0 # [1..<?n]" by (simp add: upt_conv_Cons)
  then show ?thesis
    using slp_fill_eq [of mx V rand p buf w] slp_input_stuck [OF assms(1)] assms
    by (simp add: slp_sample_def)
qed

section \<open>The dump\<close>

lemma hex_byte_length [simp]: "length (hex_byte b) = 2"
  by (simp add: hex_byte_def Let_def)

lemma hexdump_example: "hexdump [0x41, 0x0A, 0xFF] = ''41 0A FF   '' @ concat (replicate 13 ''   '') @ ''|  A.. '' @ [CHR 0x0A]"
  by code_simp

end
