(* ===== verification/Cpu_Bench.thy ===== *)
theory Cpu_Bench
  imports Kvs Allreduce
begin

text \<open>
  The load generators of the CPU baselines (\<^verbatim>\<open>baseline/cpu_bench.c\<close> of \<^verbatim>\<open>kvs\<close>, \<^verbatim>\<open>map_reduce\<close> and \<^verbatim>\<open>ALLReduce\<close>). Their
  system calls are a log; what the clock and the socket answer to it are parameters. The options, the creation of
  the socket and the printed statistics in floating point are left out: the model ends with the numbers they are computed from.
\<close>

section \<open>Clock and socket\<close>

datatype bcall = Clock | SendTo "u8 list" | RecvFrom

text \<open>\<open>gettime\<close> gives seconds and nanoseconds, \<open>recv\<close> the result and the bytes, to the calls so far.\<close>

record os =
  gettime :: "bcall list \<Rightarrow> u64 \<times> u64"
  recv :: "bcall list \<Rightarrow> i32 \<times> u8 list"

definition current_timestamp_ns :: "os \<Rightarrow> bcall list \<Rightarrow> u64 \<times> bcall list" where
  "current_timestamp_ns os log = (case gettime os log of (sec, nsec) \<Rightarrow> (sec * 1000000000 + nsec, log @ [Clock]))"

definition spin_wait_ns :: "os \<Rightarrow> u64 \<Rightarrow> bcall list \<Rightarrow> bcall list option" where
  "spin_wait_ns os delay_ns log =
     (if delay_ns \<le>s 0 then Some log
      else let (start, log) = current_timestamp_ns os log;
               target = start + delay_ns
           in map_option snd (retry (current_timestamp_ns os) (\<lambda>now. \<not> now <s target) (\<lambda>log. log) log))"

definition recvfrom :: "os \<Rightarrow> bcall list \<Rightarrow> i32 \<times> bcall list" where
  "recvfrom os log = (fst (recv os log), log @ [RecvFrom])"

definition le_bytes :: "u32 \<Rightarrow> u8 list" where
  "le_bytes v = [ucast v, ucast (drop_bit 8 v), ucast (drop_bit 16 v), ucast (drop_bit 24 v)]"

definition PACKET_SIZE :: nat where "PACKET_SIZE = 1024"
definition SAMPLE_RATE :: nat where "SAMPLE_RATE = 1000"

section \<open>The key-value benchmark\<close>

record bench =
  blog :: "bcall list"
  total_latency_ns :: u64
  samples_ok :: i32

text \<open>Every step of the three loops ends with this wait.\<close>

definition wait_after :: "os \<Rightarrow> u64 \<Rightarrow> bench \<Rightarrow> bcall list \<Rightarrow> bench option" where
  "wait_after os delay b log = (if 0 <s delay then map_option (\<lambda>log. b\<lparr>blog := log\<rparr>) (spin_wait_ns os delay log)
     else Some (b\<lparr>blog := log\<rparr>))"

definition kvs_request :: "nat \<Rightarrow> u8 list" where
  "kvs_request i = le_bytes 1 @ le_bytes (of_nat (i mod 1024)) @ le_bytes 0 @ replicate (PACKET_SIZE - 12) 0"

definition kvs_bench_step :: "os \<Rightarrow> u64 \<Rightarrow> nat \<Rightarrow> bench \<Rightarrow> bench option" where
  "kvs_bench_step os packet_delay_ns i b =
     (let (req_start, log) = current_timestamp_ns os (blog b);
          log = log @ [SendTo (kvs_request i)];
          (n, log) = recvfrom os log;
          (req_end, log) = current_timestamp_ns os log;
          b = (if 0 <s n then b\<lparr>total_latency_ns := total_latency_ns b + (req_end - req_start), samples_ok := samples_ok b + 1\<rparr>
               else b)
      in wait_after os packet_delay_ns b log)"

text \<open>The result is the state after the loop and the times before and after it.\<close>

definition bench_run :: "os \<Rightarrow> (nat \<Rightarrow> bench \<Rightarrow> bench option) \<Rightarrow> i32 \<Rightarrow> bcall list \<Rightarrow> (bench \<times> u64 \<times> u64) option" where
  "bench_run os step n log =
     (let (start_time, log) = current_timestamp_ns os log
      in case foldO step [0..<nat (sint n)] \<lparr>blog = log, total_latency_ns = 0, samples_ok = 0\<rparr> of
           None \<Rightarrow> None
         | Some b \<Rightarrow> let (end_time, log) = current_timestamp_ns os (blog b) in Some (b\<lparr>blog := log\<rparr>, start_time, end_time))"

definition kvs_bench :: "os \<Rightarrow> i32 \<Rightarrow> u64 \<Rightarrow> (bench \<times> u64 \<times> u64) option" where
  "kvs_bench os num_requests packet_delay_ns = bench_run os (kvs_bench_step os packet_delay_ns) num_requests []"

section \<open>The map-reduce benchmark\<close>

definition mr_packet :: "u8 list" where
  "mr_packet = concat (replicate (PACKET_SIZE div 4) (le_bytes 1))"

definition mr_bench_step :: "os \<Rightarrow> u64 \<Rightarrow> nat \<Rightarrow> bench \<Rightarrow> bench option" where
  "mr_bench_step os delay_ns i b =
     wait_after os delay_ns b (blog b @ [SendTo mr_packet])"

definition mr_bench :: "os \<Rightarrow> i32 \<Rightarrow> u64 \<Rightarrow> (bench \<times> u64 \<times> u64) option" where
  "mr_bench os num_packets delay_ns = bench_run os (mr_bench_step os delay_ns) num_packets []"

section \<open>The all-reduce benchmark\<close>

text \<open>The header is a type and a sequence number; the latter is never written and keeps what the buffer held, \<open>seq\<close>.\<close>

definition ar_packet :: "u32 \<Rightarrow> nat \<Rightarrow> u8 list" where
  "ar_packet seq i = le_bytes (if i mod SAMPLE_RATE = 0 then 1 else 0) @ le_bytes seq
     @ concat (replicate ((PACKET_SIZE - 8) div 4) (le_bytes 0x3F000000))"

definition ar_bench_step :: "os \<Rightarrow> u32 \<Rightarrow> u64 \<Rightarrow> nat \<Rightarrow> bench \<Rightarrow> bench option" where
  "ar_bench_step os seq delay_ns i b =
     (let is_probe = (i mod SAMPLE_RATE = 0);
          (req_start, log) = (if is_probe then current_timestamp_ns os (blog b) else (0, blog b));
          log = log @ [SendTo (ar_packet seq i)];
          b = (if is_probe then
                 let (n, log) = recvfrom os log
                 in if 0 <s n then
                      let (now, log) = current_timestamp_ns os log
                      in b\<lparr>blog := log, total_latency_ns := total_latency_ns b + (now - req_start), samples_ok := samples_ok b + 1\<rparr>
                    else b\<lparr>blog := log\<rparr>
               else b\<lparr>blog := log\<rparr>)
      in wait_after os delay_ns b (blog b))"

definition ar_bench :: "os \<Rightarrow> u32 \<Rightarrow> i32 \<Rightarrow> u64 \<Rightarrow> (bench \<times> u64 \<times> u64) option" where
  "ar_bench os seq num_packets delay_ns = bench_run os (ar_bench_step os seq delay_ns) num_packets []"

section \<open>Waiting\<close>

text \<open>The clock passes every target that lies \<open>delay\<close> after a reading.\<close>

definition waits_end :: "os \<Rightarrow> u64 \<Rightarrow> bool" where
  "waits_end os delay \<longleftrightarrow> (\<forall>log. let (start, log) = current_timestamp_ns os log in
     \<exists>k. \<not> fst (current_timestamp_ns os (log @ replicate k Clock)) <s start + delay)"

lemma timestamp_log [simp]: "snd (current_timestamp_ns os log) = log @ [Clock]"
  by (simp add: current_timestamp_ns_def split_def)

lemma clock_tries: "after_tries (current_timestamp_ns os) (\<lambda>log. log) k log = log @ replicate k Clock"
  by (induction k arbitrary: log) simp_all

lemma spin_wait_iff:
  "(\<exists>log'. spin_wait_ns os delay log = Some log') \<longleftrightarrow> delay \<le>s 0
    \<or> (\<exists>k. \<not> fst (current_timestamp_ns os (log @ [Clock] @ replicate k Clock)) <s fst (current_timestamp_ns os log) + delay)"
proof (cases "delay \<le>s 0")
  case False
  then have "(\<exists>log'. spin_wait_ns os delay log = Some log') \<longleftrightarrow>
    (\<exists>r. retry (current_timestamp_ns os) (\<lambda>now. \<not> now <s fst (current_timestamp_ns os log) + delay) (\<lambda>log. log) (log @ [Clock]) = Some r)"
    by (auto simp: spin_wait_ns_def split_def Let_def)
  then show ?thesis using False by (simp only: retry_iff clock_tries) simp
qed (simp add: spin_wait_ns_def)

lemma spin_wait_log:
  assumes "spin_wait_ns os delay log = Some log'"
  shows "\<exists>k. log' = log @ replicate k Clock"
proof (cases "delay \<le>s 0")
  case True
  then show ?thesis using assms by (auto simp: spin_wait_ns_def intro: exI [of _ 0])
next
  case False
  then obtain v where "retry (current_timestamp_ns os) (\<lambda>now. \<not> now <s fst (current_timestamp_ns os log) + delay) (\<lambda>log. log) (log @ [Clock])
      = Some (v, log')"
    using assms by (auto simp: spin_wait_ns_def split_def Let_def)
  then obtain n where "current_timestamp_ns os (after_tries (current_timestamp_ns os) (\<lambda>log. log) n (log @ [Clock])) = (v, log')"
    by (rule retry_result)
  then have "log' = (log @ [Clock] @ replicate n Clock) @ [Clock]"
    by (metis append_assoc clock_tries snd_conv timestamp_log)
  then have "log' = log @ replicate (Suc (Suc n)) Clock"
    by (simp add: replicate_append_same)
  then show ?thesis by blast
qed

fun sent :: "bcall list \<Rightarrow> u8 list list" where
  "sent [] = []"
| "sent (SendTo d # log) = d # sent log"
| "sent (_ # log) = sent log"

lemma sent_append [simp]: "sent (log @ log') = sent log @ sent log'"
  by (induction log rule: sent.induct) simp_all

lemma sent_clock [simp]: "sent (replicate k Clock) = []"
  by (induction k) simp_all

lemma wait_after_ends:
  assumes "waits_end os delay"
  shows "\<exists>log'. wait_after os delay b log = Some (b\<lparr>blog := log'\<rparr>) \<and> sent log' = sent log"
proof (cases "0 <s delay")
  case True
  have "\<exists>log'. spin_wait_ns os delay log = Some log'"
    using assms [unfolded waits_end_def, THEN spec, of log] by (auto simp: spin_wait_iff split_def)
  then obtain log' where "spin_wait_ns os delay log = Some log'" ..
  with spin_wait_log [OF this] True show ?thesis by (auto simp: wait_after_def)
qed (auto simp: wait_after_def)

lemma bench_run_invariant:
  assumes "\<And>i b. I i b \<Longrightarrow> \<exists>b'. step i b = Some b' \<and> I (Suc i) b'"
    "\<And>log. sent log = [] \<Longrightarrow> I 0 \<lparr>blog = log, total_latency_ns = 0, samples_ok = 0\<rparr>"
    "\<And>i b log. I i b \<Longrightarrow> sent log = sent (blog b) \<Longrightarrow> I i (b\<lparr>blog := log\<rparr>)"
  shows "\<exists>b t0 t1. bench_run os step n [] = Some (b, t0, t1) \<and> I (nat (sint n)) b"
proof -
  obtain b where b: "foldO step [0..<nat (sint n)] \<lparr>blog = [Clock], total_latency_ns = 0, samples_ok = 0\<rparr> = Some b" "I (nat (sint n)) b"
    using foldO_invariant [of I step, OF assms(1) assms(2) [of "[Clock]"]] by auto
  moreover have "snd (current_timestamp_ns os []) = [Clock]" by simp
  ultimately show ?thesis
    using assms(3) [OF b(2), of "blog b @ [Clock]"]
    by (auto simp: bench_run_def split_def Let_def)
qed

section \<open>What is sent\<close>

lemma le32_bytes: "le32 (le_bytes a @ xs) 0 = a"
proof (rule bit_word_eqI)
  fix n assume "n < LENGTH(32)"
  then consider "n < 8" | "8 \<le> n" "n < 16" | "16 \<le> n" "n < 24" | "24 \<le> n" "n < 32" by (simp, linarith)
  then show "bit (le32 (le_bytes a @ xs) 0) n \<longleftrightarrow> bit a n"
    by cases (auto simp: le32_def load32_def le_bytes_def bit_simps)
qed

lemma le32_next:
  assumes "i < 2 ^ 28"
  shows "le32 (le_bytes a @ xs) (Suc i) = le32 xs i"
proof -
  have "unat (4 * of_nat (Suc i) + of_nat k :: u32) = 4 + unat (4 * of_nat i + of_nat k :: u32)" if "k < 4" for k
  proof -
    have "4 * of_nat (Suc i) + of_nat k = (of_nat (4 * Suc i + k) :: u32)" "4 * of_nat i + of_nat k = (of_nat (4 * i + k) :: u32)"
      by simp_all
    moreover have "4 * Suc i + k < 2 ^ 32" "4 * i + k < 2 ^ 32" using assms that by simp_all
    ultimately show ?thesis by (simp add: unat_of_nat take_bit_nat_eq_self del: of_nat_add of_nat_mult of_nat_Suc)
  qed
  from this [of 0] this [of 1] this [of 2] this [of 3] show ?thesis
    by (simp add: le32_def load32_def le_bytes_def nth_append)
qed

lemma le32_words:
  assumes "i < k" "k \<le> 2 ^ 28"
  shows "le32 (concat (replicate k (le_bytes a)) @ xs) i = a"
  using assms
proof (induction k arbitrary: i)
  case (Suc k)
  show ?case
  proof (cases i)
    case (Suc j)
    then show ?thesis using Suc.prems Suc.IH [of j] by (simp add: le32_next)
  qed (simp add: le32_bytes)
qed simp

lemma le_bytes_length [simp]: "length (le_bytes a) = 4"
  by (simp add: le_bytes_def)

lemma words_length [simp]: "length (concat (replicate k (le_bytes a))) = 4 * k"
  by (induction k) simp_all

lemma kvs_request_fields:
  "length (kvs_request i) = 1024" "le32 (kvs_request i) 0 = 1" "le32 (kvs_request i) 1 = of_nat (i mod 1024)"
  using le32_next [of 0] by (simp_all add: kvs_request_def PACKET_SIZE_def le32_bytes)

lemma mr_packet_fields: "length mr_packet = 1024" "i < 256 \<Longrightarrow> le32 mr_packet i = 1"
  using le32_words [of i 256 1 "[]"] by (simp_all add: mr_packet_def PACKET_SIZE_def)

lemma ar_packet_fields:
  "length (ar_packet seq i) = 1024" "le32 (ar_packet seq i) 0 = (if i mod SAMPLE_RATE = 0 then 1 else 0)"
  "j < 254 \<Longrightarrow> le32 (ar_packet seq i) (2 + j) = 0x3F000000"
  using le32_words [of j 254 "0x3F000000" "[]"]
  by (simp_all add: ar_packet_def PACKET_SIZE_def le32_bytes le32_next)

section \<open>The key-value benchmark and its server\<close>

text \<open>
  A socket without loss: what the benchmark receives after a datagram is the server's answer to it, in the state that the
  datagrams before have left, and an error where there is none.
\<close>

definition kvs_after :: "kvs_server \<Rightarrow> u8 list list \<Rightarrow> kvs_server" where
  "kvs_after s ds = fold (\<lambda>d s. snd (kvs_server_step (of_nat (length d), d) s)) ds s"

definition kvs_answers :: "os \<Rightarrow> kvs_server \<Rightarrow> bool" where
  "kvs_answers os s \<longleftrightarrow> (\<forall>log d. fst (recv os (log @ [SendTo d])) =
     (if fst (kvs_server_step (of_nat (length d), d) (kvs_after s (sent log))) \<noteq> None then 12 else -1))"

lemma kvs_key_small: "(of_nat (i mod 1024) :: u32) < MAX_KEYS"
proof -
  have "i mod 1024 < 1024" by simp
  then show ?thesis by (simp add: MAX_KEYS_def word_less_nat_alt unat_of_nat take_bit_nat_eq_self)
qed

lemma kvs_step_get:
  assumes "le32 (received d (sv_buffer s)) 0 = 1" "le32 (received d (sv_buffer s)) 1 < MAX_KEYS" "\<not> (scast n :: u64) < 12"
  shows "fst (kvs_server_step (n, d) s) \<noteq> None" "sv_store (snd (kvs_server_step (n, d) s)) = sv_store s"
  using assms by (simp_all add: kvs_server_step_def Let_def)

lemma kvs_request_served:
  "fst (kvs_server_step (1024, kvs_request i) s) \<noteq> None"
  "sv_store (snd (kvs_server_step (1024, kvs_request i) s)) = sv_store s"
proof -
  have len: "12 \<le> length (kvs_request i)" by (simp add: kvs_request_fields(1))
  have l: "le32 (received (kvs_request i) (sv_buffer s)) 0 = 1"
    using le32_received [OF len, of 0] kvs_request_fields(2) by simp
  have k: "le32 (received (kvs_request i) (sv_buffer s)) 1 < MAX_KEYS"
    using le32_received [OF len, of 1] kvs_key_small [of i] unfolding kvs_request_fields(3) [symmetric] by simp
  have n: "\<not> (scast (1024 :: i32) :: u64) < 12" by (rule big_enough) simp
  show "fst (kvs_server_step (1024, kvs_request i) s) \<noteq> None" by (rule kvs_step_get(1) [OF l k n])
  show "sv_store (snd (kvs_server_step (1024, kvs_request i) s)) = sv_store s" by (rule kvs_step_get(2) [OF l k n])
qed

lemma kvs_after_requests: "sv_store (kvs_after s (map kvs_request is)) = sv_store s"
  unfolding kvs_after_def
  by (induction "is" arbitrary: s) (simp_all add: kvs_request_served kvs_request_fields)

lemma of_nat_count: "0 \<le> sint n \<Longrightarrow> of_nat (nat (sint n)) = (n :: i32)"
proof -
  assume "0 \<le> sint n"
  then have "of_nat (nat (sint n)) = (of_int (sint n) :: i32)" by (metis of_int_of_nat_eq nat_0_le)
  then show ?thesis by simp
qed

text \<open>
  C39: Against its server, over a socket without loss and with a clock that passes every target, the key-value
  benchmark returns for every number of requests that is not negative, has sent exactly its requests in order and counts an
  answer for each of them; the server's store is still the one it started with, because all requests are reads.
\<close>

theorem kvs_bench_all_answered:
  assumes "kvs_answers os s" "waits_end os delay" "0 \<le> sint n"
  shows "\<exists>b t0 t1. kvs_bench os n delay = Some (b, t0, t1) \<and> sent (blog b) = map kvs_request [0..<nat (sint n)]
    \<and> samples_ok b = n \<and> sv_store (kvs_after s (sent (blog b))) = sv_store s"
proof -
  let ?I = "\<lambda>i b. sent (blog b) = map kvs_request [0..<i] \<and> samples_ok b = of_nat i"
  have step: "\<exists>b'. kvs_bench_step os delay i b = Some b' \<and> ?I (Suc i) b'" if I: "?I i b" for i b
  proof -
    let ?log = "blog b @ [Clock, SendTo (kvs_request i), RecvFrom]"
    let ?b = "b\<lparr>total_latency_ns := total_latency_ns b + (fst (current_timestamp_ns os ?log) - fst (current_timestamp_ns os (blog b))),
      samples_ok := samples_ok b + 1\<rparr>"
    have "fst (recv os (blog b @ [Clock, SendTo (kvs_request i)])) = 12"
      using assms(1) [unfolded kvs_answers_def, rule_format, of "blog b @ [Clock]" "kvs_request i"] kvs_request_served(1) [of i]
      by (simp add: kvs_request_fields)
    then have "kvs_bench_step os delay i b = wait_after os delay ?b (?log @ [Clock])"
      by (simp add: kvs_bench_step_def split_def Let_def recvfrom_def sless_i32_iff)
    with wait_after_ends [OF assms(2), of ?b "?log @ [Clock]"] I show ?thesis by auto
  qed
  have "\<exists>b t0 t1. kvs_bench os n delay = Some (b, t0, t1) \<and> ?I (nat (sint n)) b"
    unfolding kvs_bench_def by (rule bench_run_invariant) (use step in auto)
  then show ?thesis using assms(3) by (auto simp: of_nat_count kvs_after_requests simp del: of_nat_nat)
qed

text \<open>A clock that advances by a nanosecond at every call, and a socket whose answer is given.\<close>

definition demo_os :: "(u8 list list \<Rightarrow> u8 list \<Rightarrow> i32) \<Rightarrow> os" where
  "demo_os answer = \<lparr>gettime = (\<lambda>log. (0, of_nat (length log))),
     recv = (\<lambda>log. case rev log of SendTo d # l \<Rightarrow> (answer (sent (rev l)) d, []) | _ \<Rightarrow> (-1, []))\<rparr>"

definition kvs_reply :: "kvs_server \<Rightarrow> u8 list list \<Rightarrow> u8 list \<Rightarrow> i32" where
  "kvs_reply s ds d = (if fst (kvs_server_step (of_nat (length d), d) (kvs_after s ds)) \<noteq> None then 12 else -1)"

lemma demo_os_waits: "waits_end (demo_os f) delay"
proof -
  have "fst (current_timestamp_ns (demo_os f) log) = of_nat (length log)" for log
    by (simp add: current_timestamp_ns_def demo_os_def)
  then have "\<not> fst (current_timestamp_ns (demo_os f) ((log @ [Clock]) @ replicate (unat (delay - 1)) Clock)) <s
      fst (current_timestamp_ns (demo_os f) log) + delay" for log
    by simp
  then show ?thesis unfolding waits_end_def split_def Let_def timestamp_log by blast
qed

theorem kvs_bench_all_answered_witness:
  "\<exists>b t0 t1. kvs_bench (demo_os (kvs_reply \<lparr>sv_store = replicate 1024 7, sv_buffer = []\<rparr>)) 3 20 = Some (b, t0, t1)
    \<and> sent (blog b) = [kvs_request 0, kvs_request 1, kvs_request 2] \<and> samples_ok b = 3"
proof -
  let ?s = "\<lparr>sv_store = replicate 1024 7, sv_buffer = []\<rparr>"
  have "kvs_answers (demo_os (kvs_reply ?s)) ?s" by (simp add: kvs_answers_def demo_os_def kvs_reply_def)
  from kvs_bench_all_answered [OF this demo_os_waits, of 3 20] show ?thesis
    by (auto simp: upt_rec numeral_2_eq_2)
qed

section \<open>The map-reduce benchmark and its server\<close>

definition datagrams :: "u8 list list \<Rightarrow> (i32 \<times> u8 list) list" where
  "datagrams ds = map (\<lambda>d. (of_nat (length d), d)) ds"

lemma mr_step_packet: "mr_server_step (1024, mr_packet) s =
    s\<lparr>global_sum := global_sum s + 256, total_packets := total_packets s + 1\<rparr>"
proof -
  have "fold (\<lambda>i acc. acc + ucast (le32 mr_packet i)) [0..<k] (0 :: u64) = of_nat k" if "k \<le> 256" for k
    using that by (induction k) (simp_all add: mr_packet_fields)
  from this [of 256] show ?thesis by (simp add: mr_server_step_def sless_i32_iff)
qed

lemma mr_server_packets:
  "fold mr_server_step (datagrams (replicate n mr_packet)) s =
    s\<lparr>global_sum := global_sum s + 256 * of_nat n, total_packets := total_packets s + of_nat n\<rparr>"
  by (induction n arbitrary: s) (simp_all add: datagrams_def mr_packet_fields mr_step_packet algebra_simps)

text \<open>
  The map-reduce benchmark returns for every number of packets that is not negative; when
  no datagram is lost, its server ends with 256 for each packet sent and with their number.
\<close>

theorem mr_bench_server_sum:
  assumes "waits_end os delay" "0 \<le> sint n"
  shows "\<exists>b t0 t1. mr_bench os n delay = Some (b, t0, t1) \<and> sent (blog b) = replicate (nat (sint n)) mr_packet
    \<and> mr_server_main (datagrams (sent (blog b))) = \<lparr>global_sum = 256 * scast n, total_packets = scast n\<rparr>"
proof -
  let ?I = "\<lambda>i b. sent (blog b) = replicate i mr_packet"
  have step: "\<exists>b'. mr_bench_step os delay i b = Some b' \<and> ?I (Suc i) b'" if "?I i b" for i b
    using that wait_after_ends [OF assms(1), of b "blog b @ [SendTo mr_packet]"]
    by (auto simp: mr_bench_step_def replicate_append_same)
  have "\<exists>b t0 t1. mr_bench os n delay = Some (b, t0, t1) \<and> ?I (nat (sint n)) b"
    unfolding mr_bench_def by (rule bench_run_invariant) (use step in auto)
  moreover have "of_nat (nat (sint n)) = (scast n :: u64)" using scast_of_nonneg [OF assms(2)] by simp
  ultimately show ?thesis
    by (auto simp: mr_server_main_def mr_server_packets)
qed

theorem mr_bench_server_sum_witness:
  "\<exists>b t0 t1. mr_bench (demo_os (\<lambda>ds d. -1)) 2 0 = Some (b, t0, t1)
    \<and> mr_server_main (datagrams (sent (blog b))) = \<lparr>global_sum = 512, total_packets = 2\<rparr>"
  using mr_bench_server_sum [OF demo_os_waits, of 2 _ 0] by force

section \<open>The all-reduce benchmark and its server\<close>

definition ar_answers :: "(u32 \<Rightarrow> u32 \<Rightarrow> u32) \<Rightarrow> os \<Rightarrow> ar_server \<Rightarrow> bool" where
  "ar_answers fadd os s \<longleftrightarrow> (\<forall>log d. fst (recv os (log @ [SendTo d])) =
     (if fst (ar_server_step fadd (of_nat (length d), d) (ar_server_run fadd (datagrams (sent log)) s)) \<noteq> None then 8 else -1))"

lemma ar_packet_floats: "float_datagram (replicate 254 0x3F000000) (1024, ar_packet seq i)"
  using ar_packet_fields(3) [of _ seq i] by (auto simp: float_datagram_def ar_packet_fields(1))

lemma ar_probe_answered:
  assumes "i mod SAMPLE_RATE = 0"
  shows "fst (ar_server_step fadd (1024, ar_packet seq i) s) \<noteq> None"
proof -
  have "le32 (received (ar_packet seq i) (ar_buffer s)) 0 = 1"
    using assms by (simp add: le32_received_below ar_packet_fields)
  moreover have "(scast (1024 :: i32) :: u64) > 8"
    using float_datagram_lengths(1) [OF ar_packet_floats [of seq i]] by simp
  ultimately show ?thesis by (simp add: ar_server_step_def Let_def)
qed

definition probes :: "nat \<Rightarrow> nat" where "probes n = (n + 999) div 1000"

lemma probes_Suc: "probes (Suc n) = (if n mod SAMPLE_RATE = 0 then Suc (probes n) else probes n)"
proof -
  have "Suc (n + 999) mod 1000 = n mod 1000" using mod_add_self2 [of n 1000] by (simp del: mod_add_self2)
  then show ?thesis using div_Suc [of "n + 999" 1000] by (simp add: probes_def SAMPLE_RATE_def)
qed

text \<open>
  C40: Against its server with its \<open>MODEL_PARAM_SIZE\<close> parameters, over a socket without loss and with a clock that passes every target, the
  all-reduce benchmark returns for every number of packets that is not negative; it counts a
  latency sample for every thousandth packet, the first included, and the server has added one half to each of its
  first 254 parameters once for every packet, in order.
\<close>

theorem ar_bench_trains_server:
  assumes "ar_answers fadd os s" "waits_end os delay" "0 \<le> sint n" "length (global_model s) = MODEL_PARAM_SIZE"
  defines "N \<equiv> nat (sint n)"
  shows "\<exists>b t0 t1. ar_bench os seq n delay = Some (b, t0, t1) \<and> sent (blog b) = map (ar_packet seq) [0..<N]
    \<and> samples_ok b = of_nat (probes N)
    \<and> (let s' = ar_server_run fadd (datagrams (sent (blog b))) s in
         global_model s' = ((add_vec fadd (replicate 254 0x3F000000)) ^^ N) (global_model s) \<and> ar_packets s' = ar_packets s + of_nat N)"
proof -
  let ?I = "\<lambda>i b. sent (blog b) = map (ar_packet seq) [0..<i] \<and> samples_ok b = of_nat (probes i)"
  have step: "\<exists>b'. ar_bench_step os seq delay i b = Some b' \<and> ?I (Suc i) b'" if I: "?I i b" for i b
  proof (cases "i mod SAMPLE_RATE = 0")
    case True
    let ?log = "blog b @ [Clock, SendTo (ar_packet seq i), RecvFrom]"
    let ?b = "b\<lparr>blog := ?log @ [Clock],
      total_latency_ns := total_latency_ns b + (fst (current_timestamp_ns os ?log) - fst (current_timestamp_ns os (blog b))),
      samples_ok := samples_ok b + 1\<rparr>"
    have "fst (recv os (blog b @ [Clock, SendTo (ar_packet seq i)])) = 8"
      using assms(1) [unfolded ar_answers_def, rule_format, of "blog b @ [Clock]" "ar_packet seq i"] ar_probe_answered [OF True]
      by (simp add: ar_packet_fields)
    then have "ar_bench_step os seq delay i b = wait_after os delay ?b (?log @ [Clock])"
      using True by (simp add: ar_bench_step_def split_def Let_def recvfrom_def sless_i32_iff)
    with wait_after_ends [OF assms(2), of ?b "?log @ [Clock]"] I True show ?thesis by (auto simp: probes_Suc)
  next
    case False
    let ?log = "blog b @ [SendTo (ar_packet seq i)]"
    have "ar_bench_step os seq delay i b = wait_after os delay (b\<lparr>blog := ?log\<rparr>) ?log"
      using False by (simp add: ar_bench_step_def Let_def)
    with wait_after_ends [OF assms(2), of "b\<lparr>blog := ?log\<rparr>" ?log] I False show ?thesis by (auto simp: probes_Suc)
  qed
  have "\<exists>b t0 t1. ar_bench os seq n delay = Some (b, t0, t1) \<and> ?I N b"
    unfolding ar_bench_def N_def by (rule bench_run_invariant) (use step in \<open>auto simp: probes_def\<close>)
  moreover have "let s' = ar_server_run fadd (datagrams (map (ar_packet seq) [0..<N])) s in
      global_model s' = ((add_vec fadd (replicate 254 0x3F000000)) ^^ N) (global_model s) \<and> ar_packets s' = ar_packets s + of_nat N"
  proof -
    let ?xs = "replicate 254 0x3F000000 :: u32 list"
    have "list_all2 float_datagram (replicate N ?xs) (datagrams (map (ar_packet seq) [0..<N]))"
      by (simp add: list_all2_conv_all_nth datagrams_def ar_packet_fields ar_packet_floats del: upt_Suc)
    moreover have "fold (add_vec fadd) (replicate N ?xs) g = ((add_vec fadd ?xs) ^^ N) g" for g
      by (induction N arbitrary: g) (simp_all add: funpow_swap1)
    ultimately show ?thesis
      using ar_server_run_eq [of "replicate N ?xs" "datagrams (map (ar_packet seq) [0..<N])" s fadd] assms(4)
      by (simp add: MODEL_PARAM_SIZE_def Let_def)
  qed
  ultimately show ?thesis by auto
qed

definition ar_reply :: "ar_server \<Rightarrow> u8 list list \<Rightarrow> u8 list \<Rightarrow> i32" where
  "ar_reply s ds d = (if fst (ar_server_step (+) (of_nat (length d), d) (ar_server_run (+) (datagrams ds) s)) \<noteq> None then 8 else -1)"

theorem ar_bench_trains_server_witness:
  "\<exists>b t0 t1. ar_bench (demo_os (ar_reply \<lparr>global_model = replicate MODEL_PARAM_SIZE 0, ar_packets = 0, ar_buffer = []\<rparr>)) 0 1001 20 = Some (b, t0, t1)
    \<and> samples_ok b = 2"
proof -
  let ?s = "\<lparr>global_model = replicate MODEL_PARAM_SIZE 0, ar_packets = 0, ar_buffer = []\<rparr>"
  have "ar_answers (+) (demo_os (ar_reply ?s)) ?s" by (simp add: ar_answers_def demo_os_def ar_reply_def)
  from ar_bench_trains_server [OF this demo_os_waits, of 1001 0 20] show ?thesis
    by (auto simp: probes_def)
qed

end
