(* ===== verification/Event_Unit.thy ===== *)
theory Event_Unit
  imports Hpu_Runtime
begin

text \<open>
  The event unit of the cluster (\<^verbatim>\<open>hal/eu/eu_v3.h\<close>, register map \<^verbatim>\<open>archi/eu/eu_v3.h\<close>): event and interrupt
  masks, waiting for events, software events, hardware barriers, mutexes, the dispatcher and loops. Every function is
  the reads and writes it makes; a core sleeps inside a read of a waiting register, so that the answer of the device
  is the value the core finds when it wakes up. The functions for a fabric controller, which this chip does not have,
  and the SoC barriers and locks are not compiled for it.
\<close>

section \<open>Register map\<close>

definition EU_BARRIER_DEMUX_OFFSET :: u32 where "EU_BARRIER_DEMUX_OFFSET = 0x200"
definition EU_MUTEX_DEMUX_OFFSET :: u32 where "EU_MUTEX_DEMUX_OFFSET = 0xC0"
definition EU_DISPATCH_DEMUX_OFFSET :: u32 where "EU_DISPATCH_DEMUX_OFFSET = 0x80"
definition EU_LOOP_DEMUX_OFFSET :: u32 where "EU_LOOP_DEMUX_OFFSET = 0x60"
definition EU_SW_EVENTS_DEMUX_OFFSET :: u32 where "EU_SW_EVENTS_DEMUX_OFFSET = 0x100"
definition EU_SEC_DEMUX_OFFSET :: u32 where "EU_SEC_DEMUX_OFFSET = 0x40"
definition EU_SEC_MASK_AND :: u32 where "EU_SEC_MASK_AND = 0x4"
definition EU_SEC_MASK_OR :: u32 where "EU_SEC_MASK_OR = 0x8"
definition EU_SW_EVENTS_AREA_BASE :: u32 where "EU_SW_EVENTS_AREA_BASE = 0x600"
definition EU_SOC_EVENTS_AREA_OFFSET :: u32 where "EU_SOC_EVENTS_AREA_OFFSET = 0x700"
definition EU_SOC_EVENTS_CURRENT_EVENT :: u32 where "EU_SOC_EVENTS_CURRENT_EVENT = 0x0"
definition EU_CORES_AREA_OFFSET :: u32 where "EU_CORES_AREA_OFFSET = 0x0"
definition EU_CORE_MASK :: u32 where "EU_CORE_MASK = 0x0"
definition EU_CORE_MASK_AND :: u32 where "EU_CORE_MASK_AND = 0x4"
definition EU_CORE_MASK_OR :: u32 where "EU_CORE_MASK_OR = 0x8"
definition EU_CORE_MASK_IRQ :: u32 where "EU_CORE_MASK_IRQ = 0xC"
definition EU_CORE_MASK_IRQ_AND :: u32 where "EU_CORE_MASK_IRQ_AND = 0x10"
definition EU_CORE_MASK_IRQ_OR :: u32 where "EU_CORE_MASK_IRQ_OR = 0x14"
definition EU_CORE_BUFFER :: u32 where "EU_CORE_BUFFER = 0x1C"
definition EU_CORE_BUFFER_MASKED :: u32 where "EU_CORE_BUFFER_MASKED = 0x20"
definition EU_CORE_BUFFER_IRQ_MASKED :: u32 where "EU_CORE_BUFFER_IRQ_MASKED = 0x24"
definition EU_CORE_BUFFER_CLEAR :: u32 where "EU_CORE_BUFFER_CLEAR = 0x28"
definition EU_CORE_EVENT_WAIT :: u32 where "EU_CORE_EVENT_WAIT = 0x38"
definition EU_CORE_EVENT_WAIT_CLEAR :: u32 where "EU_CORE_EVENT_WAIT_CLEAR = 0x3C"
definition EU_CORE_MASK_SEC_IRQ :: u32 where "EU_CORE_MASK_SEC_IRQ = 0x40"
definition EU_CORE_TRIGG_SW_EVENT :: u32 where "EU_CORE_TRIGG_SW_EVENT = 0x0"
definition EU_HW_BARR_TRIGGER_MASK :: u32 where "EU_HW_BARR_TRIGGER_MASK = 0x0"
definition EU_HW_BARR_TARGET_MASK :: u32 where "EU_HW_BARR_TARGET_MASK = 0xC"
definition EU_HW_BARR_TRIGGER :: u32 where "EU_HW_BARR_TRIGGER = 0x10"
definition EU_HW_BARR_TRIGGER_WAIT_CLEAR :: u32 where "EU_HW_BARR_TRIGGER_WAIT_CLEAR = 0x1C"
definition EU_DISPATCH_FIFO_ACCESS :: u32 where "EU_DISPATCH_FIFO_ACCESS = 0x0"
definition EU_DISPATCH_TEAM_CONFIG :: u32 where "EU_DISPATCH_TEAM_CONFIG = 0x4"
definition EU_LOOP_STATE :: u32 where "EU_LOOP_STATE = 0x0"
definition EU_LOOP_START :: u32 where "EU_LOOP_START = 0x4"
definition EU_LOOP_END :: u32 where "EU_LOOP_END = 0x8"
definition EU_LOOP_INCR :: u32 where "EU_LOOP_INCR = 0xc"
definition EU_LOOP_CHUNK :: u32 where "EU_LOOP_CHUNK = 0x10"
definition EU_LOOP_EPOCH :: u32 where "EU_LOOP_EPOCH = 0x14"
definition EU_LOOP_SINGLE :: u32 where "EU_LOOP_SINGLE = 0x18"
definition EU_BARRIER_AREA_SIZE :: u32 where "EU_BARRIER_AREA_SIZE = 0x200"
definition EU_CORE_AREA_SIZE :: u32 where "EU_CORE_AREA_SIZE = push_bit 6 1"
definition EU_SOC_EVENTS_EVENT_MASK :: u32 where "EU_SOC_EVENTS_EVENT_MASK = push_bit 0 (push_bit 8 1 - 1)"
definition PULP_DISPATCH_EVENT :: nat where "PULP_DISPATCH_EVENT = 18"

definition EU_BARRIER_AREA_OFFSET_GET :: "u32 \<Rightarrow> u32" where
  "EU_BARRIER_AREA_OFFSET_GET barrier = barrier * push_bit 5 1"
definition EU_BARRIER_AREA_BARRIERID_GET :: "u32 \<Rightarrow> u32" where
  "EU_BARRIER_AREA_BARRIERID_GET offset = drop_bit 5 (offset AND (EU_BARRIER_AREA_SIZE - 1))"
definition EU_DISPATCH_AREA_OFFSET_GET :: "u32 \<Rightarrow> u32" where
  "EU_DISPATCH_AREA_OFFSET_GET dispatch = dispatch * push_bit 4 1"
definition EU_CORE_AREA_OFFSET_GET :: "u32 \<Rightarrow> u32" where
  "EU_CORE_AREA_OFFSET_GET coreId = EU_CORES_AREA_OFFSET + coreId * EU_CORE_AREA_SIZE"

lemmas eu_offsets = EU_BARRIER_DEMUX_OFFSET_def EU_MUTEX_DEMUX_OFFSET_def EU_DISPATCH_DEMUX_OFFSET_def EU_LOOP_DEMUX_OFFSET_def
  EU_SW_EVENTS_DEMUX_OFFSET_def EU_SEC_DEMUX_OFFSET_def EU_SEC_MASK_AND_def EU_SEC_MASK_OR_def
  EU_SW_EVENTS_AREA_BASE_def EU_SOC_EVENTS_AREA_OFFSET_def EU_SOC_EVENTS_CURRENT_EVENT_def EU_CORES_AREA_OFFSET_def
  EU_CORE_MASK_def EU_CORE_MASK_AND_def EU_CORE_MASK_OR_def EU_CORE_MASK_IRQ_def
  EU_CORE_MASK_IRQ_AND_def EU_CORE_MASK_IRQ_OR_def EU_CORE_BUFFER_def EU_CORE_BUFFER_MASKED_def
  EU_CORE_BUFFER_IRQ_MASKED_def EU_CORE_BUFFER_CLEAR_def EU_CORE_EVENT_WAIT_def EU_CORE_EVENT_WAIT_CLEAR_def
  EU_CORE_MASK_SEC_IRQ_def EU_CORE_TRIGG_SW_EVENT_def EU_HW_BARR_TRIGGER_MASK_def EU_HW_BARR_TARGET_MASK_def
  EU_HW_BARR_TRIGGER_def EU_HW_BARR_TRIGGER_WAIT_CLEAR_def EU_DISPATCH_FIFO_ACCESS_def EU_DISPATCH_TEAM_CONFIG_def
  EU_LOOP_STATE_def EU_LOOP_START_def EU_LOOP_END_def EU_LOOP_INCR_def
  EU_LOOP_CHUNK_def EU_LOOP_EPOCH_def EU_LOOP_SINGLE_def EU_BARRIER_AREA_SIZE_def
  EU_CORE_AREA_SIZE_def EU_SOC_EVENTS_EVENT_MASK_def PULP_DISPATCH_EVENT_def EU_BARRIER_AREA_OFFSET_GET_def
  EU_BARRIER_AREA_BARRIERID_GET_def EU_DISPATCH_AREA_OFFSET_GET_def EU_CORE_AREA_OFFSET_GET_def

definition ARCHI_EU_DEMUX_ADDR :: u32 where "ARCHI_EU_DEMUX_ADDR = ARCHI_DEMUX_PERIPHERALS_ADDR + 0"
definition ARCHI_EU_OFFSET :: u32 where "ARCHI_EU_OFFSET = 0x800"
definition ARCHI_CLUSTER_PERIPHERALS_ADDR :: u32 where
  "ARCHI_CLUSTER_PERIPHERALS_ADDR = ARCHI_CLUSTER_ADDR + ARCHI_CLUSTER_PERIPHERALS_OFFSET"

section \<open>Events\<close>

definition evt_read32 :: "device \<Rightarrow> u32 \<Rightarrow> u32 \<Rightarrow> trace \<Rightarrow> u32 \<times> trace" where
  "evt_read32 dev base offset t = mmio_read dev (base + offset) t"

definition eu_evt_status :: "device \<Rightarrow> trace \<Rightarrow> u32 \<times> trace" where
  "eu_evt_status dev t = mmio_read dev (ARCHI_EU_DEMUX_ADDR + EU_CORE_BUFFER) t"

definition eu_evt_statusMasked :: "device \<Rightarrow> trace \<Rightarrow> u32 \<times> trace" where
  "eu_evt_statusMasked dev t = mmio_read dev (ARCHI_EU_DEMUX_ADDR + EU_CORE_BUFFER_MASKED) t"

definition eu_evt_clr :: "u32 \<Rightarrow> trace \<Rightarrow> trace" where
  "eu_evt_clr evtMask t = mmio_write (ARCHI_EU_DEMUX_ADDR + EU_CORE_BUFFER_CLEAR) evtMask t"

definition eu_evt_mask :: "u32 \<Rightarrow> trace \<Rightarrow> trace" where
  "eu_evt_mask evtMask t = mmio_write (ARCHI_EU_DEMUX_ADDR + EU_CORE_MASK) evtMask t"

definition eu_evt_maskSet_base :: "u32 \<Rightarrow> u32 \<Rightarrow> trace \<Rightarrow> trace" where
  "eu_evt_maskSet_base base evtMask t = mmio_write (base + EU_CORE_MASK_OR) evtMask t"

definition eu_evt_maskSet :: "u32 \<Rightarrow> trace \<Rightarrow> trace" where
  "eu_evt_maskSet evtMask t = eu_evt_maskSet_base ARCHI_EU_DEMUX_ADDR evtMask t"

definition eu_evt_maskClr :: "u32 \<Rightarrow> trace \<Rightarrow> trace" where
  "eu_evt_maskClr evtMask t = mmio_write (ARCHI_EU_DEMUX_ADDR + EU_CORE_MASK_AND) evtMask t"

definition eu_evt_wait :: "device \<Rightarrow> trace \<Rightarrow> u32 \<times> trace" where
  "eu_evt_wait dev t = evt_read32 dev ARCHI_EU_DEMUX_ADDR EU_CORE_EVENT_WAIT t"

definition eu_evt_wait_noreplay :: "device \<Rightarrow> trace \<Rightarrow> u32 \<times> trace" where
  "eu_evt_wait_noreplay dev t = mmio_read dev (ARCHI_EU_DEMUX_ADDR + EU_CORE_EVENT_WAIT) t"

definition eu_wait_for_interrupt :: "device \<Rightarrow> trace \<Rightarrow> u32 \<times> trace" where
  "eu_wait_for_interrupt dev t = mmio_read dev (ARCHI_EU_DEMUX_ADDR + EU_CORE_EVENT_WAIT) t"

definition eu_evt_waitAndClr :: "device \<Rightarrow> trace \<Rightarrow> u32 \<times> trace" where
  "eu_evt_waitAndClr dev t = evt_read32 dev ARCHI_EU_DEMUX_ADDR EU_CORE_EVENT_WAIT_CLEAR t"

definition eu_evt_maskWaitAndClr :: "device \<Rightarrow> u32 \<Rightarrow> trace \<Rightarrow> u32 \<times> trace" where
  "eu_evt_maskWaitAndClr dev evtMask t =
     (let t = eu_evt_maskSet evtMask t;
          (result, t) = eu_evt_waitAndClr dev t;
          t = eu_evt_maskClr evtMask t
      in (result, t))"

definition eu_fc_evt_maskWaitAndClr :: "device \<Rightarrow> u32 \<Rightarrow> trace \<Rightarrow> (u32 \<times> trace) option" where
  "eu_fc_evt_maskWaitAndClr dev evtMask t =
     (let t = eu_evt_maskSet evtMask t
      in case poll dev (ARCHI_EU_DEMUX_ADDR + EU_CORE_EVENT_WAIT_CLEAR) (\<lambda>result. result \<noteq> 0) t of
           None \<Rightarrow> None
         | Some (result, t) \<Rightarrow> Some (result, eu_evt_maskClr evtMask t))"

section \<open>Interrupts\<close>

definition eu_evt_statusIrqMasked :: "device \<Rightarrow> trace \<Rightarrow> u32 \<times> trace" where
  "eu_evt_statusIrqMasked dev t = mmio_read dev (ARCHI_EU_DEMUX_ADDR + EU_CORE_BUFFER_IRQ_MASKED) t"

definition eu_irq_mask :: "u32 \<Rightarrow> trace \<Rightarrow> trace" where
  "eu_irq_mask irqMask t = mmio_write (ARCHI_EU_DEMUX_ADDR + EU_CORE_MASK_IRQ) irqMask t"

definition eu_irq_secMask :: "u32 \<Rightarrow> trace \<Rightarrow> trace" where
  "eu_irq_secMask irqMask t = mmio_write (ARCHI_EU_DEMUX_ADDR + EU_CORE_MASK_SEC_IRQ) irqMask t"

definition eu_irq_maskSet_base :: "u32 \<Rightarrow> u32 \<Rightarrow> trace \<Rightarrow> trace" where
  "eu_irq_maskSet_base base irqMask t = mmio_write (base + EU_CORE_MASK_IRQ_OR) irqMask t"

definition eu_irq_maskSet :: "u32 \<Rightarrow> trace \<Rightarrow> trace" where
  "eu_irq_maskSet irqMask t = eu_irq_maskSet_base ARCHI_EU_DEMUX_ADDR irqMask t"

definition eu_irq_maskClr :: "u32 \<Rightarrow> trace \<Rightarrow> trace" where
  "eu_irq_maskClr irqMask t = mmio_write (ARCHI_EU_DEMUX_ADDR + EU_CORE_MASK_IRQ_AND) irqMask t"

definition eu_irq_secMaskSet :: "u32 \<Rightarrow> trace \<Rightarrow> trace" where
  "eu_irq_secMaskSet irqMask t = mmio_write (ARCHI_EU_DEMUX_ADDR + EU_SEC_DEMUX_OFFSET + EU_SEC_MASK_OR) irqMask t"

definition eu_irq_secMaskClr :: "u32 \<Rightarrow> trace \<Rightarrow> trace" where
  "eu_irq_secMaskClr irqMask t = mmio_write (ARCHI_EU_DEMUX_ADDR + EU_SEC_DEMUX_OFFSET + EU_SEC_MASK_AND) irqMask t"

definition eu_irq_status :: "device \<Rightarrow> trace \<Rightarrow> u32 \<times> trace" where
  "eu_irq_status dev t = mmio_read dev (ARCHI_EU_DEMUX_ADDR + EU_CORE_BUFFER_IRQ_MASKED) t"

section \<open>Software events\<close>

definition eu_evt_trig_remote_addr :: "u32 \<Rightarrow> u32" where
  "eu_evt_trig_remote_addr event =
     ARCHI_CLUSTER_PERIPHERALS_ADDR + ARCHI_EU_OFFSET + EU_SW_EVENTS_AREA_BASE + EU_CORE_TRIGG_SW_EVENT + push_bit 2 event"

definition eu_evt_trig_cluster_addr :: "u32 \<Rightarrow> u32 \<Rightarrow> u32" where
  "eu_evt_trig_cluster_addr cluster event =
     ARCHI_CLUSTER_PERIPHERALS_GLOBAL_ADDR cluster + ARCHI_EU_OFFSET + EU_SW_EVENTS_AREA_BASE
       + EU_CORE_TRIGG_SW_EVENT + push_bit 2 event"

definition eu_evt_trig_addr :: "u32 \<Rightarrow> u32" where
  "eu_evt_trig_addr event =
     ARCHI_EU_DEMUX_ADDR + EU_SW_EVENTS_DEMUX_OFFSET + EU_CORE_TRIGG_SW_EVENT + push_bit 2 event"

definition eu_evt_trig :: "u32 \<Rightarrow> u32 \<Rightarrow> trace \<Rightarrow> trace" where
  "eu_evt_trig evtAddr coreSet t = mmio_write (evtAddr) coreSet t"

definition eu_evt_trig_from_id :: "u32 \<Rightarrow> u32 \<Rightarrow> trace \<Rightarrow> trace" where
  "eu_evt_trig_from_id event coreSet t = mmio_write (ARCHI_EU_DEMUX_ADDR + (EU_SW_EVENTS_DEMUX_OFFSET + EU_CORE_TRIGG_SW_EVENT + push_bit 2 event)) coreSet t"

section \<open>Hardware barriers\<close>

definition eu_bar_addr :: "u32 \<Rightarrow> u32" where
  "eu_bar_addr barId = ARCHI_EU_DEMUX_ADDR + EU_BARRIER_DEMUX_OFFSET + EU_BARRIER_AREA_OFFSET_GET barId"

definition eu_bar_id :: "u32 \<Rightarrow> u32" where
  "eu_bar_id barAddr = EU_BARRIER_AREA_BARRIERID_GET barAddr"

definition eu_bar_trig_wait_clr :: "device \<Rightarrow> u32 \<Rightarrow> trace \<Rightarrow> u32 \<times> trace" where
  "eu_bar_trig_wait_clr dev barAddr t = evt_read32 dev barAddr EU_HW_BARR_TRIGGER_WAIT_CLEAR t"

definition eu_bar_setup_mask :: "u32 \<Rightarrow> u32 \<Rightarrow> u32 \<Rightarrow> trace \<Rightarrow> trace" where
  "eu_bar_setup_mask barAddr coreMask targetMask t =
     mmio_write (barAddr + EU_HW_BARR_TARGET_MASK) targetMask
       (mmio_write (barAddr + EU_HW_BARR_TRIGGER_MASK) coreMask t)"

definition eu_bar_setup :: "u32 \<Rightarrow> u32 \<Rightarrow> trace \<Rightarrow> trace" where
  "eu_bar_setup barAddr coreMask t = eu_bar_setup_mask barAddr coreMask coreMask t"

definition eu_bar_trigger :: "u32 \<Rightarrow> u32 \<Rightarrow> trace \<Rightarrow> trace" where
  "eu_bar_trigger barAddr coreMask t = mmio_write (barAddr + EU_HW_BARR_TRIGGER) coreMask t"

section \<open>Events from outside the cluster\<close>

definition eu_soc_events_pop :: "device \<Rightarrow> trace \<Rightarrow> u32 \<times> trace" where
  "eu_soc_events_pop dev t = mmio_read dev (ARCHI_CLUSTER_PERIPHERALS_ADDR + ARCHI_EU_OFFSET + EU_SOC_EVENTS_AREA_OFFSET
       + EU_SOC_EVENTS_CURRENT_EVENT) t"

definition eu_soc_events_is_valid :: "u32 \<Rightarrow> u32" where
  "eu_soc_events_is_valid word = drop_bit 31 word AND 1"

definition eu_soc_events_get_event :: "u32 \<Rightarrow> u32" where
  "eu_soc_events_get_event word = word AND EU_SOC_EVENTS_EVENT_MASK"

section \<open>Hardware mutexes\<close>

definition eu_mutex_addr :: "u32 \<Rightarrow> u32" where
  "eu_mutex_addr mutexId = ARCHI_EU_DEMUX_ADDR + EU_MUTEX_DEMUX_OFFSET + push_bit 2 mutexId"

definition eu_mutex_lock :: "device \<Rightarrow> u32 \<Rightarrow> trace \<Rightarrow> trace" where
  "eu_mutex_lock dev mutexAddr t = snd (evt_read32 dev mutexAddr 0 t)"

definition eu_mutex_lock_from_id :: "device \<Rightarrow> u32 \<Rightarrow> trace \<Rightarrow> trace" where
  "eu_mutex_lock_from_id dev mutexId t =
     snd (evt_read32 dev ARCHI_EU_DEMUX_ADDR (EU_MUTEX_DEMUX_OFFSET + push_bit 2 mutexId) t)"

definition eu_mutex_unlock :: "u32 \<Rightarrow> trace \<Rightarrow> trace" where
  "eu_mutex_unlock mutexAddr t = mmio_write (mutexAddr) 0 t"

definition eu_mutex_unlock_from_id :: "u32 \<Rightarrow> trace \<Rightarrow> trace" where
  "eu_mutex_unlock_from_id mutexId t = mmio_write (ARCHI_EU_DEMUX_ADDR + (EU_MUTEX_DEMUX_OFFSET + push_bit 2 mutexId)) 0 t"

definition eu_mutex_init :: "u32 \<Rightarrow> trace \<Rightarrow> trace" where
  "eu_mutex_init mutexAddr t = mmio_write (mutexAddr) 0 t"

section \<open>Hardware dispatcher\<close>

definition eu_dispatch_pop :: "device \<Rightarrow> trace \<Rightarrow> u32 \<times> trace" where
  "eu_dispatch_pop dev t =
     (let t = eu_evt_maskSet (push_bit PULP_DISPATCH_EVENT 1) t;
          (result, t) = evt_read32 dev ARCHI_EU_DEMUX_ADDR (EU_DISPATCH_DEMUX_OFFSET + EU_DISPATCH_FIFO_ACCESS) t;
          t = eu_evt_maskClr (push_bit PULP_DISPATCH_EVENT 1) t
      in (result, t))"

definition eu_dispatch_push :: "u32 \<Rightarrow> trace \<Rightarrow> trace" where
  "eu_dispatch_push v t = mmio_write (ARCHI_EU_DEMUX_ADDR + (EU_DISPATCH_DEMUX_OFFSET + EU_DISPATCH_FIFO_ACCESS)) v t"

definition eu_dispatch_push_base :: "u32 \<Rightarrow> u32 \<Rightarrow> trace \<Rightarrow> trace" where
  "eu_dispatch_push_base base v t = mmio_write (base + EU_DISPATCH_FIFO_ACCESS) v t"

definition eu_dispatch_team_config :: "u32 \<Rightarrow> trace \<Rightarrow> trace" where
  "eu_dispatch_team_config v t = mmio_write (ARCHI_EU_DEMUX_ADDR + (EU_DISPATCH_DEMUX_OFFSET + EU_DISPATCH_TEAM_CONFIG)) v t"

definition eu_dispatch_team_config_base :: "u32 \<Rightarrow> u32 \<Rightarrow> trace \<Rightarrow> trace" where
  "eu_dispatch_team_config_base base v t = mmio_write (base + EU_DISPATCH_TEAM_CONFIG) v t"

definition eu_dispatch_get_base :: "u32 \<Rightarrow> u32" where
  "eu_dispatch_get_base dispatchId = ARCHI_EU_DEMUX_ADDR + EU_DISPATCH_DEMUX_OFFSET + EU_DISPATCH_AREA_OFFSET_GET dispatchId"

definition eu_dispatch_team_config_read :: "device \<Rightarrow> trace \<Rightarrow> u32 \<times> trace" where
  "eu_dispatch_team_config_read dev t = mmio_read dev (ARCHI_EU_DEMUX_ADDR + (EU_DISPATCH_DEMUX_OFFSET + EU_DISPATCH_TEAM_CONFIG)) t"

section \<open>Hardware loops\<close>

definition eu_loop_addr :: "u32 \<Rightarrow> u32" where
  "eu_loop_addr loopId = ARCHI_EU_DEMUX_ADDR + EU_LOOP_DEMUX_OFFSET"

definition eu_loop_getChunk :: "device \<Rightarrow> u32 \<Rightarrow> trace \<Rightarrow> u32 \<times> trace" where
  "eu_loop_getChunk dev addr t = mmio_read dev (addr + EU_LOOP_CHUNK) t"

definition eu_loop_getStart :: "device \<Rightarrow> u32 \<Rightarrow> trace \<Rightarrow> u32 \<times> trace" where
  "eu_loop_getStart dev addr t = mmio_read dev (addr + EU_LOOP_START) t"

definition eu_loop_getState :: "device \<Rightarrow> u32 \<Rightarrow> trace \<Rightarrow> u32 \<times> trace" where
  "eu_loop_getState dev addr t = mmio_read dev (addr + EU_LOOP_STATE) t"

definition eu_loop_setStart :: "u32 \<Rightarrow> u32 \<Rightarrow> trace \<Rightarrow> trace" where
  "eu_loop_setStart addr v t = mmio_write (addr + EU_LOOP_START) v t"

definition eu_loop_setEnd :: "u32 \<Rightarrow> u32 \<Rightarrow> trace \<Rightarrow> trace" where
  "eu_loop_setEnd addr v t = mmio_write (addr + EU_LOOP_END) v t"

definition eu_loop_setIncr :: "u32 \<Rightarrow> u32 \<Rightarrow> trace \<Rightarrow> trace" where
  "eu_loop_setIncr addr v t = mmio_write (addr + EU_LOOP_INCR) v t"

definition eu_loop_setChunk :: "u32 \<Rightarrow> u32 \<Rightarrow> trace \<Rightarrow> trace" where
  "eu_loop_setChunk addr v t = mmio_write (addr + EU_LOOP_CHUNK) v t"

definition eu_loop_initEpoch :: "u32 \<Rightarrow> u32 \<Rightarrow> trace \<Rightarrow> trace" where
  "eu_loop_initEpoch addr coreSet t = mmio_write (addr + EU_LOOP_EPOCH) coreSet t"

definition eu_loop_getSingle :: "device \<Rightarrow> u32 \<Rightarrow> trace \<Rightarrow> u32 \<times> trace" where
  "eu_loop_getSingle dev addr t = mmio_read dev (addr + EU_LOOP_SINGLE) t"

section \<open>Areas of the cores\<close>

definition eu_evt_getClusterBase :: "u32 \<Rightarrow> u32" where
  "eu_evt_getClusterBase coreId =
     ARCHI_CLUSTER_PERIPHERALS_ADDR + ARCHI_EU_OFFSET + EU_CORE_AREA_OFFSET_GET coreId"

definition eu_core_base :: "u32 \<Rightarrow> u32" where
  "eu_core_base coreId = ARCHI_CLUSTER_PERIPHERALS_ADDR + ARCHI_EU_OFFSET + EU_CORE_AREA_SIZE * coreId"

section \<open>The event mask\<close>

text \<open>
  What the documentation of the functions says of the mask register: a write sets it, a write to the OR register adds
  bits, a write to the AND register removes the bits that are set in the word written.
\<close>

definition mask_step :: "u32 \<Rightarrow> mmio \<Rightarrow> u32" where
  "mask_step m e = (case e of MRead _ _ \<Rightarrow> m | MWrite a v \<Rightarrow>
     if a = ARCHI_EU_DEMUX_ADDR + EU_CORE_MASK then v
     else if a = ARCHI_EU_DEMUX_ADDR + EU_CORE_MASK_OR then m OR v
     else if a = ARCHI_EU_DEMUX_ADDR + EU_CORE_MASK_AND then m AND NOT v else m)"

definition event_mask :: "u32 \<Rightarrow> trace \<Rightarrow> u32" where
  "event_mask m t = foldl mask_step m t"

lemma event_mask_append [simp]: "event_mask m (t @ u) = event_mask (event_mask m t) u"
  by (simp add: event_mask_def)

lemma event_mask_simps [simp]:
  "event_mask m [] = m" "event_mask m (MRead a v # t) = event_mask m t"
  "event_mask m (MWrite (ARCHI_EU_DEMUX_ADDR + EU_CORE_MASK) v # t) = event_mask v t"
  "event_mask m (MWrite (ARCHI_EU_DEMUX_ADDR + EU_CORE_MASK_OR) v # t) = event_mask (m OR v) t"
  "event_mask m (MWrite (ARCHI_EU_DEMUX_ADDR + EU_CORE_MASK_AND) v # t) = event_mask (m AND NOT v) t"
  by (simp_all add: event_mask_def mask_step_def eu_offsets)

lemmas eu_wait_defs = eu_evt_maskWaitAndClr_def eu_evt_maskSet_def eu_evt_maskSet_base_def eu_evt_waitAndClr_def
  evt_read32_def eu_evt_maskClr_def eu_dispatch_pop_def eu_evt_mask_def mmio_write_def mmio_read_def

lemma mask_wait_trace: "eu_evt_maskWaitAndClr dev e t =
   (let t1 = t @ [MWrite (ARCHI_EU_DEMUX_ADDR + EU_CORE_MASK_OR) e];
        r = dev t1 (ARCHI_EU_DEMUX_ADDR + EU_CORE_EVENT_WAIT_CLEAR)
    in (r, t1 @ [MRead (ARCHI_EU_DEMUX_ADDR + EU_CORE_EVENT_WAIT_CLEAR) r,
                 MWrite (ARCHI_EU_DEMUX_ADDR + EU_CORE_MASK_AND) e]))"
  by (simp add: eu_wait_defs Let_def)

lemma mask_restored: "(m OR e) AND NOT e = (m :: u32) AND NOT e"
  by (rule bit_word_eqI) (auto simp: bit_and_iff bit_or_iff bit_not_iff)

text \<open>
  A core that waits for a set of events, or for the dispatcher, sleeps in its one read with exactly these events added to its
  mask, and afterwards has all of them removed: the mask is as before only if none of them was enabled before.
\<close>

theorem event_wait_mask:
  "(\<exists>r. eu_evt_maskWaitAndClr dev e t = (r, t @ [MWrite (ARCHI_EU_DEMUX_ADDR + EU_CORE_MASK_OR) e,
        MRead (ARCHI_EU_DEMUX_ADDR + EU_CORE_EVENT_WAIT_CLEAR) r, MWrite (ARCHI_EU_DEMUX_ADDR + EU_CORE_MASK_AND) e]))
    \<and> event_mask m (t @ [MWrite (ARCHI_EU_DEMUX_ADDR + EU_CORE_MASK_OR) e]) = event_mask m t OR e
    \<and> event_mask m (snd (eu_evt_maskWaitAndClr dev e t)) = event_mask m t AND NOT e
    \<and> (event_mask m (snd (eu_evt_maskWaitAndClr dev e t)) = event_mask m t \<longleftrightarrow> event_mask m t AND e = 0)
    \<and> event_mask m (snd (eu_dispatch_pop dev t)) = event_mask m t AND NOT (push_bit PULP_DISPATCH_EVENT 1)"
proof -
  have w: "event_mask m (snd (eu_evt_maskWaitAndClr dev e t)) = event_mask m t AND NOT e"
    by (simp add: mask_wait_trace Let_def mask_restored)
  have z: "x AND NOT e = x \<longleftrightarrow> x AND e = 0" for x :: u32
    by (auto simp: bit_eq_iff bit_and_iff bit_not_iff)
  have "event_mask m (snd (eu_dispatch_pop dev t)) = event_mask m t AND NOT (push_bit PULP_DISPATCH_EVENT 1)"
    by (simp add: eu_wait_defs Let_def mask_restored del: push_bit_of_1)
  then show ?thesis unfolding w z by (simp add: mask_wait_trace Let_def)
qed

section \<open>Addresses\<close>

lemma bar_addr: "eu_bar_addr i = 0x1B204200 + 32 * i"
  by (simp add: eu_bar_addr_def ARCHI_EU_DEMUX_ADDR_def ARCHI_DEMUX_PERIPHERALS_ADDR_def ARCHI_CLUSTER_ADDR_def
      ARCHI_DEMUX_PERIPHERALS_OFFSET_def eu_offsets mult.commute)

lemma bar_id_addr:
  assumes "i < 16"
  shows "eu_bar_id (eu_bar_addr i) = i"
proof -
  have "i \<in> {0, 1, 2, 3, 4, 5, 6, 7, 8, 9, 10, 11, 12, 13, 14, 15}"
  proof -
    have "unat i < 16" using assms by (simp add: word_less_nat_alt)
    then have "unat i \<in> {0, 1, 2, 3, 4, 5, 6, 7, 8, 9, 10, 11, 12, 13, 14, 15}"
      unfolding insert_iff empty_iff by presburger
    then have "of_nat (unat i) \<in> (of_nat ` {0, 1, 2, 3, 4, 5, 6, 7, 8, 9, 10, 11, 12, 13, 14, 15} :: u32 set)" by blast
    then show ?thesis by simp
  qed
  then show ?thesis by (auto simp: bar_addr eu_bar_id_def eu_offsets)
qed

text \<open>A barrier's registers lie in its own 32 bytes.\<close>

lemma bar_areas_apart:
  assumes "i < 16" "j < 16" "i \<noteq> j" "r < 32" "r' < 32"
  shows "eu_bar_addr i + r \<noteq> eu_bar_addr j + r'"
proof
  assume "eu_bar_addr i + r = eu_bar_addr j + r'"
  then have e: "32 * i + r = 32 * j + r'" by (simp add: bar_addr)
  have u: "unat (32 * k + s) = 32 * unat k + unat s" if "k < 16" "s < 32" for k s :: u32
  proof -
    have "unat k < 16" "unat s < 32" using that by (simp_all add: word_less_nat_alt)
    then show ?thesis by (simp add: unat_word_ariths)
  qed
  have "32 * unat i + unat r = 32 * unat j + unat r'"
    using arg_cong [OF e, of unat] u assms by simp
  moreover have "unat r < 32" "unat r' < 32" using assms by (simp_all add: word_less_nat_alt)
  ultimately have "unat i = unat j" by presburger
  then have "i = j" by (rule unsigned_word_eqI)
  with assms(3) show False by blast
qed

end
