(* ===== verification/Dsp_Builtins.thy ===== *)
theory Dsp_Builtins
  imports Prelude
begin

text \<open>
  The portable versions of the DSP instructions of the cores (\<^verbatim>\<open>hal/riscv/builtins_v2_emu.h\<close>), which stand in for
  the compiler builtins where the instructions are missing. Each macro is a function at the type \<^verbatim>\<open>int\<close> of its scalar
  arguments, \<^verbatim>\<open>unsigned int\<close> in the unsigned variants. A signed overflow, which C leaves undefined, wraps.
  Left out are the macros that cannot be used because a parenthesis is missing (\<^verbatim>\<open>__NEG2\<close> to \<^verbatim>\<open>__SLL4\<close> but the right
  shifts), the conversions of floats and the empty macros for registers of the core.
\<close>

section \<open>Vectors\<close>

datatype v2 = V2 u16 u16
datatype v4 = V4 u8 u8 u8 u8

fun map_v2 :: "(u16 \<Rightarrow> u16) \<Rightarrow> v2 \<Rightarrow> v2" where
  "map_v2 f (V2 a b) = V2 (f a) (f b)"
fun map2_v2 :: "(u16 \<Rightarrow> u16 \<Rightarrow> u16) \<Rightarrow> v2 \<Rightarrow> v2 \<Rightarrow> v2" where
  "map2_v2 f (V2 a b) (V2 c d) = V2 (f a c) (f b d)"
fun map_v4 :: "(u8 \<Rightarrow> u8) \<Rightarrow> v4 \<Rightarrow> v4" where
  "map_v4 f (V4 a b c d) = V4 (f a) (f b) (f c) (f d)"
fun map2_v4 :: "(u8 \<Rightarrow> u8 \<Rightarrow> u8) \<Rightarrow> v4 \<Rightarrow> v4 \<Rightarrow> v4" where
  "map2_v4 f (V4 a b c d) (V4 a' b' c' d') = V4 (f a a') (f b b') (f c c') (f d d')"

text \<open>Promotion of a lane to \<^verbatim>\<open>int\<close>, as a signed and as an unsigned number.\<close>

definition sx16 :: "u16 \<Rightarrow> i32" where "sx16 x = scast x"
definition zx16 :: "u16 \<Rightarrow> i32" where "zx16 x = ucast x"
definition sx8 :: "u8 \<Rightarrow> i32" where "sx8 x = scast x"
definition zx8 :: "u8 \<Rightarrow> i32" where "zx8 x = ucast x"
definition cx :: "bool \<Rightarrow> u8 \<Rightarrow> i32" where "cx sc x = (if sc then sx8 x else zx8 x)"

fun dot2 :: "(u16 \<Rightarrow> i32) \<Rightarrow> (u16 \<Rightarrow> i32) \<Rightarrow> v2 \<Rightarrow> v2 \<Rightarrow> i32" where
  "dot2 f g (V2 x0 x1) (V2 y0 y1) = f x0 * g y0 + f x1 * g y1"
fun dot4 :: "(u8 \<Rightarrow> i32) \<Rightarrow> (u8 \<Rightarrow> i32) \<Rightarrow> v4 \<Rightarrow> v4 \<Rightarrow> i32" where
  "dot4 f g (V4 x0 x1 x2 x3) (V4 y0 y1 y2 y3) = f x0 * g y0 + f x1 * g y1 + f x2 * g y2 + f x3 * g y3"
definition splat2 :: "i32 \<Rightarrow> v2" where "splat2 y = V2 (ucast y) (ucast y)"
definition splat4 :: "i32 \<Rightarrow> v4" where "splat4 y = V4 (ucast y) (ucast y) (ucast y) (ucast y)"

section \<open>Packing, extremes, clipping\<close>

definition PACK2 :: "i32 \<Rightarrow> i32 \<Rightarrow> v2" where
  "PACK2 x y = V2 (ucast x) (ucast y)"

definition PACKU2 :: "u32 \<Rightarrow> u32 \<Rightarrow> v2" where
  "PACKU2 x y = V2 (ucast x) (ucast y)"

definition PACK4 :: "i32 \<Rightarrow> i32 \<Rightarrow> i32 \<Rightarrow> i32 \<Rightarrow> v4" where
  "PACK4 x y z t = V4 (ucast x) (ucast y) (ucast z) (ucast t)"

definition PACKU4 :: "u32 \<Rightarrow> u32 \<Rightarrow> u32 \<Rightarrow> u32 \<Rightarrow> v4" where
  "PACKU4 x y z t = V4 (ucast x) (ucast y) (ucast z) (ucast t)"

definition MAX2 :: "v2 \<Rightarrow> v2 \<Rightarrow> v2" where
  "MAX2 x y = map2_v2 (\<lambda>x y. if y <s x then x else y) x y"

definition MAX4 :: "v4 \<Rightarrow> v4 \<Rightarrow> v4" where
  "MAX4 x y = map2_v4 (\<lambda>x y. if y <s x then x else y) x y"

definition MAXU2 :: "v2 \<Rightarrow> v2 \<Rightarrow> v2" where
  "MAXU2 x y = map2_v2 (\<lambda>x y. if y < x then x else y) x y"

definition MAXU4 :: "v4 \<Rightarrow> v4 \<Rightarrow> v4" where
  "MAXU4 x y = map2_v4 (\<lambda>x y. if y < x then x else y) x y"

definition MIN2 :: "v2 \<Rightarrow> v2 \<Rightarrow> v2" where
  "MIN2 x y = map2_v2 (\<lambda>x y. if x <s y then x else y) x y"

definition MIN4 :: "v4 \<Rightarrow> v4 \<Rightarrow> v4" where
  "MIN4 x y = map2_v4 (\<lambda>x y. if x <s y then x else y) x y"

definition MINU2 :: "v2 \<Rightarrow> v2 \<Rightarrow> v2" where
  "MINU2 x y = map2_v2 (\<lambda>x y. if x < y then x else y) x y"

definition MINU4 :: "v4 \<Rightarrow> v4 \<Rightarrow> v4" where
  "MINU4 x y = map2_v4 (\<lambda>x y. if x < y then x else y) x y"

definition CLIP :: "i32 \<Rightarrow> nat \<Rightarrow> i32" where
  "CLIP x precision =
     (if x <s - push_bit precision 1 then - push_bit precision 1
      else if push_bit precision 1 - 1 <s x then push_bit precision 1 - 1 else x)"

definition CLIP_R :: "i32 \<Rightarrow> i32 \<Rightarrow> i32" where
  "CLIP_R x bound =
     (if x \<le>s - (bound + 1) then - (bound + 1) else if bound \<le>s x then bound else x)"

definition CLIPU :: "i32 \<Rightarrow> nat \<Rightarrow> i32" where
  "CLIPU x precision =
     (if x <s 0 then 0 else if push_bit precision 1 - 1 <s x then push_bit precision 1 - 1 else x)"

definition CLIPU_R :: "i32 \<Rightarrow> i32 \<Rightarrow> i32" where
  "CLIPU_R x bound = (if x \<le>s 0 then 0 else if bound \<le>s x then bound else x)"

definition ABS2 :: "v2 \<Rightarrow> v2" where
  "ABS2 x = map_v2 (\<lambda>x. if x <s 0 then - x else x) x"

definition ABS4 :: "v4 \<Rightarrow> v4" where
  "ABS4 x = map_v4 (\<lambda>x. if x <s 0 then - x else x) x"

section \<open>Shifts of lanes\<close>

text \<open>The lanes are promoted to \<^verbatim>\<open>int\<close>, shifted and cut back.\<close>

definition SRL2 :: "v2 \<Rightarrow> v2 \<Rightarrow> v2" where
  "SRL2 x y = map2_v2 (\<lambda>x y. ucast (drop_bit (unat y) (zx16 x))) x y"

definition SRL4 :: "v4 \<Rightarrow> v4 \<Rightarrow> v4" where
  "SRL4 x y = map2_v4 (\<lambda>x y. ucast (drop_bit (unat y) (zx8 x))) x y"

definition SRA2 :: "v2 \<Rightarrow> v2 \<Rightarrow> v2" where
  "SRA2 x y = map2_v2 (\<lambda>x y. ucast (signed_drop_bit (unat y) (sx16 x))) x y"

definition SRA4 :: "v4 \<Rightarrow> v4 \<Rightarrow> v4" where
  "SRA4 x y = map2_v4 (\<lambda>x y. ucast (signed_drop_bit (unat y) (sx8 x))) x y"

section \<open>Multiply and accumulate\<close>

text \<open>The halves of a word, as \<^verbatim>\<open>short\<close> and as \<^verbatim>\<open>unsigned short\<close>, promoted.\<close>

definition lo_s :: "i32 \<Rightarrow> i32" where "lo_s x = sx16 (ucast x)"
definition hi_s :: "i32 \<Rightarrow> i32" where "hi_s x = sx16 (ucast (signed_drop_bit 16 x))"
definition lo_u :: "u32 \<Rightarrow> u32" where "lo_u x = zx16 (ucast x)"
definition hi_u :: "u32 \<Rightarrow> u32" where "hi_u x = zx16 (ucast (drop_bit 16 x))"

definition MAC :: "i32 \<Rightarrow> i32 \<Rightarrow> i32 \<Rightarrow> i32" where
  "MAC Acc x y = Acc + x * y"

definition MSU :: "i32 \<Rightarrow> i32 \<Rightarrow> i32 \<Rightarrow> i32" where
  "MSU Acc x y = Acc - x * y"

definition MACS :: "i32 \<Rightarrow> i32 \<Rightarrow> i32 \<Rightarrow> i32" where
  "MACS Acc x y = Acc + lo_s x * lo_s y"

definition MACHHS :: "i32 \<Rightarrow> i32 \<Rightarrow> i32 \<Rightarrow> i32" where
  "MACHHS Acc x y = Acc + hi_s x * hi_s y"

definition MACU :: "u32 \<Rightarrow> u32 \<Rightarrow> u32 \<Rightarrow> u32" where
  "MACU Acc x y = Acc + lo_u x * lo_u y"

definition MACHHU :: "u32 \<Rightarrow> u32 \<Rightarrow> u32 \<Rightarrow> u32" where
  "MACHHU Acc x y = Acc + hi_u x * hi_u y"

definition MACSN :: "i32 \<Rightarrow> i32 \<Rightarrow> i32 \<Rightarrow> nat \<Rightarrow> i32" where
  "MACSN Acc x y n = signed_drop_bit n (Acc + lo_s x * lo_s y)"

definition MACUN :: "u32 \<Rightarrow> u32 \<Rightarrow> u32 \<Rightarrow> nat \<Rightarrow> u32" where
  "MACUN Acc x y n = drop_bit n (Acc + lo_u x * lo_u y)"

definition MACSRN :: "i32 \<Rightarrow> i32 \<Rightarrow> i32 \<Rightarrow> nat \<Rightarrow> i32" where
  "MACSRN Acc x y n = signed_drop_bit n (Acc + lo_s x * lo_s y + push_bit (n - 1) 1)"

definition MACURN :: "u32 \<Rightarrow> u32 \<Rightarrow> u32 \<Rightarrow> nat \<Rightarrow> u32" where
  "MACURN Acc x y n = drop_bit n (Acc + lo_u x * lo_u y + push_bit (n - 1) 1)"

definition MACHHSN :: "i32 \<Rightarrow> i32 \<Rightarrow> i32 \<Rightarrow> nat \<Rightarrow> i32" where
  "MACHHSN Acc x y n = signed_drop_bit n (Acc + hi_s x * hi_s y)"

definition MACHHUN :: "u32 \<Rightarrow> u32 \<Rightarrow> u32 \<Rightarrow> nat \<Rightarrow> u32" where
  "MACHHUN Acc x y n = drop_bit n (Acc + hi_u x * hi_u y)"

definition MACHHSRN :: "i32 \<Rightarrow> i32 \<Rightarrow> i32 \<Rightarrow> nat \<Rightarrow> i32" where
  "MACHHSRN Acc x y n = signed_drop_bit n (Acc + hi_s x * hi_s y + push_bit (n - 1) 1)"

definition MACHHURN :: "u32 \<Rightarrow> u32 \<Rightarrow> u32 \<Rightarrow> u32 \<Rightarrow> u32" where
  "MACHHURN Acc x y n = Acc + hi_u x * hi_u y + n"

definition MULS :: "i32 \<Rightarrow> i32 \<Rightarrow> i32" where
  "MULS x y = lo_s x * lo_s y"

definition MULU :: "i32 \<Rightarrow> i32 \<Rightarrow> i32" where
  "MULU x y = lo_u x * lo_u y"

definition MULHHS :: "i32 \<Rightarrow> i32 \<Rightarrow> i32" where
  "MULHHS x y = hi_s x * hi_s y"

definition MULHHU :: "i32 \<Rightarrow> i32 \<Rightarrow> i32" where
  "MULHHU x y = hi_u x * hi_u y"

definition MULSN :: "i32 \<Rightarrow> i32 \<Rightarrow> nat \<Rightarrow> i32" where
  "MULSN x y n = signed_drop_bit n (lo_s x * lo_s y)"

definition MULSRN :: "i32 \<Rightarrow> i32 \<Rightarrow> nat \<Rightarrow> i32" where
  "MULSRN x y n = signed_drop_bit n (lo_s x * lo_s y + push_bit (n - 1) 1)"

definition MULUN :: "i32 \<Rightarrow> i32 \<Rightarrow> nat \<Rightarrow> i32" where
  "MULUN x y n = signed_drop_bit n (lo_u x * lo_u y)"

definition MULURN :: "i32 \<Rightarrow> i32 \<Rightarrow> nat \<Rightarrow> i32" where
  "MULURN x y n = signed_drop_bit n (lo_u x * lo_u y + push_bit (n - 1) 1)"

definition MULHHSN :: "i32 \<Rightarrow> i32 \<Rightarrow> nat \<Rightarrow> i32" where
  "MULHHSN x y n = signed_drop_bit n (hi_s x * hi_s y)"

definition MULHHSRN :: "i32 \<Rightarrow> i32 \<Rightarrow> nat \<Rightarrow> i32" where
  "MULHHSRN x y n = signed_drop_bit n (hi_s x * hi_s y + push_bit (n - 1) 1)"

definition MULHHUN :: "i32 \<Rightarrow> i32 \<Rightarrow> nat \<Rightarrow> i32" where
  "MULHHUN x y n = signed_drop_bit n (hi_u x * hi_u y)"

definition MULHHURN :: "i32 \<Rightarrow> i32 \<Rightarrow> nat \<Rightarrow> i32" where
  "MULHHURN x y n = signed_drop_bit n (hi_u x * hi_u y + push_bit (n - 1) 1)"

section \<open>Sums of products\<close>

definition DOTP2 :: "v2 \<Rightarrow> v2 \<Rightarrow> i32" where
  "DOTP2 x y = dot2 sx16 sx16 x y"

definition DOTPU2 :: "v2 \<Rightarrow> v2 \<Rightarrow> i32" where
  "DOTPU2 x y = dot2 zx16 zx16 x y"

definition DOTPUS2 :: "v2 \<Rightarrow> v2 \<Rightarrow> i32" where
  "DOTPUS2 x y = dot2 zx16 sx16 x y"

definition DOTPSC2 :: "v2 \<Rightarrow> i32 \<Rightarrow> i32" where
  "DOTPSC2 x y = dot2 sx16 sx16 x (splat2 y)"

definition DOTPUSC2 :: "v2 \<Rightarrow> i32 \<Rightarrow> i32" where
  "DOTPUSC2 x y = dot2 zx16 zx16 x (splat2 y)"

definition DOTPUSSC2 :: "v2 \<Rightarrow> i32 \<Rightarrow> i32" where
  "DOTPUSSC2 x y = dot2 zx16 sx16 x (splat2 y)"

definition SUMDOTP2 :: "v2 \<Rightarrow> v2 \<Rightarrow> i32 \<Rightarrow> i32" where
  "SUMDOTP2 x y z = z + dot2 sx16 sx16 x y"

definition SUMDOTPU2 :: "v2 \<Rightarrow> v2 \<Rightarrow> i32 \<Rightarrow> i32" where
  "SUMDOTPU2 x y z = z + dot2 zx16 zx16 x y"

definition SUMDOTPUS2 :: "v2 \<Rightarrow> v2 \<Rightarrow> i32 \<Rightarrow> i32" where
  "SUMDOTPUS2 x y z = z + dot2 zx16 sx16 x y"

definition SUMDOTPSC2 :: "v2 \<Rightarrow> i32 \<Rightarrow> i32 \<Rightarrow> i32" where
  "SUMDOTPSC2 x y z = z + dot2 sx16 sx16 x (splat2 y)"

definition SUMDOTPUSC2 :: "v2 \<Rightarrow> i32 \<Rightarrow> i32 \<Rightarrow> i32" where
  "SUMDOTPUSC2 x y z = z + dot2 zx16 zx16 x (splat2 y)"

definition SUMDOTPUSSC2 :: "v2 \<Rightarrow> i32 \<Rightarrow> i32 \<Rightarrow> i32" where
  "SUMDOTPUSSC2 x y z = z + dot2 zx16 sx16 x (splat2 y)"

text \<open>
  The products of four bytes cast signed lanes to plain \<^verbatim>\<open>char\<close>. Its sign is the compiler's choice, here the
  parameter \<open>sc\<close>; the RISC-V ABI makes it unsigned.
\<close>

definition DOTP4 :: "bool \<Rightarrow> v4 \<Rightarrow> v4 \<Rightarrow> i32" where
  "DOTP4 sc x y = dot4 (cx sc) (cx sc) x y"

definition DOTPU4 :: "v4 \<Rightarrow> v4 \<Rightarrow> i32" where
  "DOTPU4 x y = dot4 zx8 zx8 x y"

definition DOTPUS4 :: "bool \<Rightarrow> v4 \<Rightarrow> v4 \<Rightarrow> i32" where
  "DOTPUS4 sc x y = dot4 zx8 (cx sc) x y"

definition DOTPSC4 :: "bool \<Rightarrow> v4 \<Rightarrow> i32 \<Rightarrow> i32" where
  "DOTPSC4 sc x y = dot4 (cx sc) (cx sc) x (splat4 y)"

definition DOTPUSC4 :: "v4 \<Rightarrow> i32 \<Rightarrow> i32" where
  "DOTPUSC4 x y = dot4 zx8 zx8 x (splat4 y)"

definition DOTPUSSC4 :: "bool \<Rightarrow> v4 \<Rightarrow> i32 \<Rightarrow> i32" where
  "DOTPUSSC4 sc x y = dot4 zx8 (cx sc) x (splat4 y)"

definition SUMDOTP4 :: "bool \<Rightarrow> v4 \<Rightarrow> v4 \<Rightarrow> i32 \<Rightarrow> i32" where
  "SUMDOTP4 sc x y z = z + dot4 (cx sc) (cx sc) x y"

definition SUMDOTPU4 :: "v4 \<Rightarrow> v4 \<Rightarrow> i32 \<Rightarrow> i32" where
  "SUMDOTPU4 x y z = z + dot4 zx8 zx8 x y"

definition SUMDOTPUS4 :: "bool \<Rightarrow> v4 \<Rightarrow> v4 \<Rightarrow> i32 \<Rightarrow> i32" where
  "SUMDOTPUS4 sc x y z = z + dot4 zx8 (cx sc) x y"

definition SUMDOTPSC4 :: "bool \<Rightarrow> v4 \<Rightarrow> i32 \<Rightarrow> i32 \<Rightarrow> i32" where
  "SUMDOTPSC4 sc x y z = z + dot4 (cx sc) (cx sc) x (splat4 y)"

definition SUMDOTPUSC4 :: "v4 \<Rightarrow> i32 \<Rightarrow> i32 \<Rightarrow> i32" where
  "SUMDOTPUSC4 x y z = z + dot4 zx8 zx8 x (splat4 y)"

definition SUMDOTPUSSC4 :: "bool \<Rightarrow> v4 \<Rightarrow> i32 \<Rightarrow> i32 \<Rightarrow> i32" where
  "SUMDOTPUSSC4 sc x y z = z + dot4 zx8 (cx sc) x (splat4 y)"

section \<open>Complex numbers\<close>

text \<open>
  A vector of two shorts is a complex number in Q15. The product is computed in \<^verbatim>\<open>long long\<close>; sums of
  vectors wrap in their lanes.
\<close>

definition lx :: "u16 \<Rightarrow> u64" where "lx x = scast x"

definition CPLXMULS :: "v2 \<Rightarrow> v2 \<Rightarrow> v2" where
  "CPLXMULS x y =
     (case (x, y) of (V2 x0 x1, V2 y0 y1) \<Rightarrow>
        V2 (ucast (signed_drop_bit 15 (lx x0 * lx y0 - lx x1 * lx y1)))
           (ucast (signed_drop_bit 15 (lx x0 * lx y1 + lx x1 * lx y0))))"

definition CPLXMULSDIV2 :: "v2 \<Rightarrow> v2 \<Rightarrow> v2" where
  "CPLXMULSDIV2 x y = map_v2 (signed_drop_bit 1) (CPLXMULS x y)"

definition CPLXMULSDIV4 :: "v2 \<Rightarrow> v2 \<Rightarrow> v2" where
  "CPLXMULSDIV4 x y = map_v2 (signed_drop_bit 2) (CPLXMULS x y)"

definition CPLXCONJ :: "v2 \<Rightarrow> v2" where
  "CPLXCONJ x = (case x of V2 x0 x1 \<Rightarrow> V2 x0 (- x1))"

definition SUB2ROTMJ :: "v2 \<Rightarrow> v2 \<Rightarrow> v2" where
  "SUB2ROTMJ x y = (case (x, y) of (V2 x0 x1, V2 y0 y1) \<Rightarrow> V2 (x1 - y1) (y0 - x0))"

definition ADD2DIV2 :: "v2 \<Rightarrow> v2 \<Rightarrow> v2" where
  "ADD2DIV2 x y = map_v2 (signed_drop_bit 1) (map2_v2 (+) x y)"

definition ADD2DIV4 :: "v2 \<Rightarrow> v2 \<Rightarrow> v2" where
  "ADD2DIV4 x y = map_v2 (signed_drop_bit 2) (map2_v2 (+) x y)"

definition ADD4DIV2 :: "v4 \<Rightarrow> v4 \<Rightarrow> v4" where
  "ADD4DIV2 x y = map_v4 (signed_drop_bit 1) (map2_v4 (+) x y)"

definition ADD4DIV4 :: "v4 \<Rightarrow> v4 \<Rightarrow> v4" where
  "ADD4DIV4 x y = map_v4 (signed_drop_bit 2) (map2_v4 (+) x y)"

definition SUB2DIV2 :: "v2 \<Rightarrow> v2 \<Rightarrow> v2" where
  "SUB2DIV2 x y = map_v2 (signed_drop_bit 1) (map2_v2 (-) x y)"

definition SUB2DIV4 :: "v2 \<Rightarrow> v2 \<Rightarrow> v2" where
  "SUB2DIV4 x y = map_v2 (signed_drop_bit 2) (map2_v2 (-) x y)"

definition SUB4DIV2 :: "v4 \<Rightarrow> v4 \<Rightarrow> v4" where
  "SUB4DIV2 x y = map_v4 (signed_drop_bit 1) (map2_v4 (-) x y)"

definition SUB4DIV4 :: "v4 \<Rightarrow> v4 \<Rightarrow> v4" where
  "SUB4DIV4 x y = map_v4 (signed_drop_bit 2) (map2_v4 (-) x y)"

text \<open>The Viterbi operations pass two flags from the maximum to the selection.\<close>

definition VITMAX :: "v2 \<Rightarrow> v2 \<Rightarrow> (bool \<times> bool) \<times> v2" where
  "VITMAX x y =
     (case (x, y) of (V2 x0 x1, V2 y0 y1) \<Rightarrow>
        ((x0 \<le>s y0, x1 \<le>s y1), V2 (if y0 <s x0 then x0 else y0) (if y1 <s x1 then x1 else y1)))"

definition VITSEL :: "bool \<times> bool \<Rightarrow> v2 \<Rightarrow> v2 \<Rightarrow> v2" where
  "VITSEL flags x y =
     (case (flags, x, y) of ((f0, f1), V2 x0 x1, V2 y0 y1) \<Rightarrow>
        V2 (push_bit 1 (if f0 then y0 else x0) OR of_bool f0) (push_bit 1 (if f1 then y1 else x1) OR of_bool f1))"

section \<open>Bit positions and bit fields\<close>

text \<open>
  \<^verbatim>\<open>__builtin_clz\<close> counts the zeros above the highest set bit (its result for 0 is undefined), \<^verbatim>\<open>__builtin_clrsb\<close>
  the bits below the sign bit that equal it.
\<close>

definition builtin_clz :: "u32 \<Rightarrow> nat" where
  "builtin_clz x = length (takeWhile (\<lambda>i. \<not> bit x i) (rev [0..<32]))"
definition builtin_clrsb :: "i32 \<Rightarrow> nat" where
  "builtin_clrsb x = length (takeWhile (\<lambda>i. bit x i = bit x 31) (rev [0..<31]))"

definition FL1 :: "u32 \<Rightarrow> i32" where
  "FL1 x = 31 - of_nat (builtin_clz x)"

definition CLB :: "i32 \<Rightarrow> i32" where
  "CLB x = of_nat (builtin_clrsb x)"

definition field :: "nat \<Rightarrow> nat \<Rightarrow> u32" where
  "field sz off = push_bit off (push_bit sz 1 - 1)"

definition BITSET :: "u32 \<Rightarrow> nat \<Rightarrow> nat \<Rightarrow> u32" where
  "BITSET x sz off = x OR field sz off"

definition BITSET_R :: "u32 \<Rightarrow> nat \<Rightarrow> nat \<Rightarrow> u32" where
  "BITSET_R x sz off = x OR field sz off"

definition BITSET_R_SAFE :: "u32 \<Rightarrow> nat \<Rightarrow> nat \<Rightarrow> u32" where
  "BITSET_R_SAFE x sz off = x OR field (sz AND 0x1F) (off AND 0x1F)"

definition BITCLR :: "u32 \<Rightarrow> nat \<Rightarrow> nat \<Rightarrow> u32" where
  "BITCLR x sz off = x AND NOT (field sz off)"

definition BITCLR_R :: "u32 \<Rightarrow> nat \<Rightarrow> nat \<Rightarrow> u32" where
  "BITCLR_R x sz off = x AND NOT (field sz off)"

definition BITCLR_R_SAFE :: "u32 \<Rightarrow> nat \<Rightarrow> nat \<Rightarrow> u32" where
  "BITCLR_R_SAFE x sz off = x AND NOT (field (sz AND 0x1F) (off AND 0x1F))"

text \<open>
  In the extractions \<open>x\<close> is an \<^verbatim>\<open>int\<close> and its shift keeps the sign; the mask is unsigned, and so is what follows.
\<close>

definition BITEXTRACT :: "u32 \<Rightarrow> nat \<Rightarrow> nat \<Rightarrow> u32" where
  "BITEXTRACT x sz off =
     drop_bit (32 - sz) (push_bit (32 - sz) (signed_drop_bit off x AND (push_bit sz 1 - 1)))"

definition BITEXTRACTU :: "u32 \<Rightarrow> nat \<Rightarrow> nat \<Rightarrow> u32" where
  "BITEXTRACTU x sz off = signed_drop_bit off x AND (push_bit sz 1 - 1)"

definition BITEXTRACT_R :: "u32 \<Rightarrow> nat \<Rightarrow> nat \<Rightarrow> u32" where
  "BITEXTRACT_R x sz off =
     drop_bit (32 - sz) (push_bit (32 - sz) (signed_drop_bit off x AND (push_bit sz 1 - 1)))"

definition BITEXTRACTU_R :: "u32 \<Rightarrow> nat \<Rightarrow> nat \<Rightarrow> u32" where
  "BITEXTRACTU_R x sz off = signed_drop_bit off x AND (push_bit sz 1 - 1)"

definition BITEXTRACT_R_SAFE :: "u32 \<Rightarrow> nat \<Rightarrow> nat \<Rightarrow> u32" where
  "BITEXTRACT_R_SAFE x sz off =
     (let sz = (if sz > 32 then 32 else sz)
      in drop_bit (32 - sz) (push_bit (32 - sz) (signed_drop_bit (off AND 0x1F) x AND (push_bit sz 1 - 1))))"

definition BITEXTRACTU_R_SAFE :: "u32 \<Rightarrow> nat \<Rightarrow> nat \<Rightarrow> u32" where
  "BITEXTRACTU_R_SAFE x sz off =
     (let sz = (if sz > 32 then 32 else sz) in signed_drop_bit (off AND 0x1F) x AND (push_bit sz 1 - 1))"

definition BITINSERT :: "u32 \<Rightarrow> u32 \<Rightarrow> nat \<Rightarrow> nat \<Rightarrow> u32" where
  "BITINSERT dst src sz off =
     (dst AND NOT (field sz off)) OR push_bit off (src AND (push_bit sz 1 - 1))"

definition BITINSERT_R :: "u32 \<Rightarrow> u32 \<Rightarrow> nat \<Rightarrow> nat \<Rightarrow> u32" where
  "BITINSERT_R dst src sz off =
     (dst AND NOT (field sz off)) OR push_bit off (src AND (push_bit sz 1 - 1))"

definition BITINSERT_R_SAFE :: "u32 \<Rightarrow> u32 \<Rightarrow> nat \<Rightarrow> nat \<Rightarrow> u32" where
  "BITINSERT_R_SAFE dst src sz off =
     (let sz = (if sz > 32 then 32 else sz); off = off AND 0x1F
      in (dst AND NOT (field sz off)) OR push_bit off (src AND (push_bit sz 1 - 1)))"

definition ROTR :: "i32 \<Rightarrow> i32" where
  "ROTR x = (signed_drop_bit 1 x AND 0x7FFFFFFF) OR push_bit 31 x"

section \<open>Normalisation and rounding\<close>

definition ADDNORMU :: "u32 \<Rightarrow> u32 \<Rightarrow> nat \<Rightarrow> u32" where
  "ADDNORMU x y scale = drop_bit scale (x + y)"

definition ADDNORMU_REG :: "u32 \<Rightarrow> u32 \<Rightarrow> nat \<Rightarrow> u32" where
  "ADDNORMU_REG x y scale = drop_bit scale (x + y)"

definition ADDNORM :: "u32 \<Rightarrow> u32 \<Rightarrow> nat \<Rightarrow> u32" where
  "ADDNORM x y scale = signed_drop_bit scale (x + y)"

definition ADDNORM_REG :: "u32 \<Rightarrow> u32 \<Rightarrow> nat \<Rightarrow> u32" where
  "ADDNORM_REG x y scale = signed_drop_bit scale (x + y)"

definition ADDROUNDNORMU :: "u32 \<Rightarrow> u32 \<Rightarrow> nat \<Rightarrow> u32" where
  "ADDROUNDNORMU x y scale = drop_bit scale (x + y + push_bit (scale - 1) 1)"

definition ADDROUNDNORMU_REG :: "u32 \<Rightarrow> u32 \<Rightarrow> nat \<Rightarrow> u32" where
  "ADDROUNDNORMU_REG x y scale = drop_bit scale (x + y + push_bit (scale - 1) 1)"

definition ADDROUNDNORM :: "u32 \<Rightarrow> u32 \<Rightarrow> nat \<Rightarrow> u32" where
  "ADDROUNDNORM x y scale = signed_drop_bit scale (x + y + push_bit (scale - 1) 1)"

definition ADDROUNDNORM_REG :: "u32 \<Rightarrow> u32 \<Rightarrow> nat \<Rightarrow> u32" where
  "ADDROUNDNORM_REG x y scale = signed_drop_bit scale (x + y + push_bit (scale - 1) 1)"

definition SUBNORMU :: "u32 \<Rightarrow> u32 \<Rightarrow> nat \<Rightarrow> u32" where
  "SUBNORMU x y scale = drop_bit scale (x - y)"

definition SUBNORMU_REG :: "u32 \<Rightarrow> u32 \<Rightarrow> nat \<Rightarrow> u32" where
  "SUBNORMU_REG x y scale = drop_bit scale (x - y)"

definition SUBNORM :: "u32 \<Rightarrow> u32 \<Rightarrow> nat \<Rightarrow> u32" where
  "SUBNORM x y scale = signed_drop_bit scale (x - y)"

definition SUBNORM_REG :: "u32 \<Rightarrow> u32 \<Rightarrow> nat \<Rightarrow> u32" where
  "SUBNORM_REG x y scale = signed_drop_bit scale (x - y)"

definition SUBROUNDNORMU :: "u32 \<Rightarrow> u32 \<Rightarrow> nat \<Rightarrow> u32" where
  "SUBROUNDNORMU x y scale = drop_bit scale (x - y + push_bit (scale - 1) 1)"

definition SUBROUNDNORMU_REG :: "u32 \<Rightarrow> u32 \<Rightarrow> nat \<Rightarrow> u32" where
  "SUBROUNDNORMU_REG x y scale = drop_bit scale (x - y + push_bit (scale - 1) 1)"

definition SUBROUNDNORM :: "u32 \<Rightarrow> u32 \<Rightarrow> nat \<Rightarrow> u32" where
  "SUBROUNDNORM x y scale = signed_drop_bit scale (x - y + push_bit (scale - 1) 1)"

definition SUBROUNDNORM_REG :: "u32 \<Rightarrow> u32 \<Rightarrow> nat \<Rightarrow> u32" where
  "SUBROUNDNORM_REG x y scale = signed_drop_bit scale (x - y + push_bit (scale - 1) 1)"

definition ROUNDNORMU :: "u32 \<Rightarrow> nat \<Rightarrow> u32" where
  "ROUNDNORMU x scale = drop_bit scale (x + push_bit (scale - 1) 1)"

definition ROUNDNORMU_REG :: "u32 \<Rightarrow> nat \<Rightarrow> u32" where
  "ROUNDNORMU_REG x scale = drop_bit scale (x + push_bit (scale - 1) 1)"

definition ROUNDNORM :: "u32 \<Rightarrow> nat \<Rightarrow> u32" where
  "ROUNDNORM x scale = signed_drop_bit scale (x + push_bit (scale - 1) 1)"

definition ROUNDNORM_REG :: "u32 \<Rightarrow> nat \<Rightarrow> u32" where
  "ROUNDNORM_REG x scale = signed_drop_bit scale (x + push_bit (scale - 1) 1)"

section \<open>The same builtins in the core header\<close>

text \<open>
  Without the extension \<^verbatim>\<open>hal/riscv/riscv_v4.h\<close> defines the builtins by these macros itself. The types of the vectors
  decide how the lanes of its sums of products are promoted.
\<close>

definition builtin_pack2 :: "i32 \<Rightarrow> i32 \<Rightarrow> v2" where
  "builtin_pack2 x y = PACK2 x y"

definition builtin_packu2 :: "u32 \<Rightarrow> u32 \<Rightarrow> v2" where
  "builtin_packu2 x y = PACKU2 x y"

definition builtin_pack4 :: "i32 \<Rightarrow> i32 \<Rightarrow> i32 \<Rightarrow> i32 \<Rightarrow> v4" where
  "builtin_pack4 x y z t = PACK4 x y z t"

definition builtin_packu4 :: "u32 \<Rightarrow> u32 \<Rightarrow> u32 \<Rightarrow> u32 \<Rightarrow> v4" where
  "builtin_packu4 x y z t = PACKU4 x y z t"

definition builtin_max2 :: "v2 \<Rightarrow> v2 \<Rightarrow> v2" where
  "builtin_max2 x y = map2_v2 (\<lambda>x y. if y <s x then x else y) x y"

definition builtin_max4 :: "v4 \<Rightarrow> v4 \<Rightarrow> v4" where
  "builtin_max4 x y = map2_v4 (\<lambda>x y. if y <s x then x else y) x y"

definition builtin_maxu2 :: "v2 \<Rightarrow> v2 \<Rightarrow> v2" where
  "builtin_maxu2 x y = map2_v2 (\<lambda>x y. if y < x then x else y) x y"

definition builtin_maxu4 :: "v4 \<Rightarrow> v4 \<Rightarrow> v4" where
  "builtin_maxu4 x y = map2_v4 (\<lambda>x y. if y < x then x else y) x y"

definition builtin_min2 :: "v2 \<Rightarrow> v2 \<Rightarrow> v2" where
  "builtin_min2 x y = map2_v2 (\<lambda>x y. if x <s y then x else y) x y"

definition builtin_min4 :: "v4 \<Rightarrow> v4 \<Rightarrow> v4" where
  "builtin_min4 x y = map2_v4 (\<lambda>x y. if x <s y then x else y) x y"

definition builtin_minu2 :: "v2 \<Rightarrow> v2 \<Rightarrow> v2" where
  "builtin_minu2 x y = map2_v2 (\<lambda>x y. if x < y then x else y) x y"

definition builtin_minu4 :: "v4 \<Rightarrow> v4 \<Rightarrow> v4" where
  "builtin_minu4 x y = map2_v4 (\<lambda>x y. if x < y then x else y) x y"

definition builtin_clip :: "i32 \<Rightarrow> nat \<Rightarrow> i32" where
  "builtin_clip x precision = CLIP x precision"

definition builtin_clipu :: "i32 \<Rightarrow> nat \<Rightarrow> i32" where
  "builtin_clipu x precision = CLIPU x precision"

definition builtin_abs2 :: "v2 \<Rightarrow> v2" where
  "builtin_abs2 x = map_v2 (\<lambda>x. if x <s 0 then - x else x) x"

definition builtin_abs4 :: "v4 \<Rightarrow> v4" where
  "builtin_abs4 x = map_v4 (\<lambda>x. if x <s 0 then - x else x) x"

definition builtin_macs :: "i32 \<Rightarrow> i32 \<Rightarrow> i32 \<Rightarrow> i32" where
  "builtin_macs Acc x y = Acc + lo_s x * lo_s y"

definition builtin_machhs :: "i32 \<Rightarrow> i32 \<Rightarrow> i32 \<Rightarrow> i32" where
  "builtin_machhs Acc x y = Acc + hi_s x * hi_s y"

definition builtin_macu :: "i32 \<Rightarrow> i32 \<Rightarrow> i32 \<Rightarrow> i32" where
  "builtin_macu Acc x y = Acc + lo_u x * lo_u y"

definition builtin_machhu :: "i32 \<Rightarrow> i32 \<Rightarrow> i32 \<Rightarrow> i32" where
  "builtin_machhu Acc x y = Acc + hi_u x * hi_u y"

definition builtin_macsN :: "i32 \<Rightarrow> i32 \<Rightarrow> i32 \<Rightarrow> nat \<Rightarrow> i32" where
  "builtin_macsN Acc x y n = signed_drop_bit n (Acc + lo_s x * lo_s y)"

definition builtin_macsRN :: "i32 \<Rightarrow> i32 \<Rightarrow> i32 \<Rightarrow> nat \<Rightarrow> i32" where
  "builtin_macsRN Acc x y n = signed_drop_bit n (Acc + lo_s x * lo_s y + push_bit (n - 1) 1)"

definition builtin_macuN :: "i32 \<Rightarrow> i32 \<Rightarrow> i32 \<Rightarrow> nat \<Rightarrow> i32" where
  "builtin_macuN Acc x y n = drop_bit n (Acc + lo_u x * lo_u y)"

definition builtin_macuRN :: "i32 \<Rightarrow> i32 \<Rightarrow> i32 \<Rightarrow> nat \<Rightarrow> i32" where
  "builtin_macuRN Acc x y n = drop_bit n (Acc + lo_u x * lo_u y + push_bit (n - 1) 1)"

definition builtin_machhsN :: "i32 \<Rightarrow> i32 \<Rightarrow> i32 \<Rightarrow> nat \<Rightarrow> i32" where
  "builtin_machhsN Acc x y n = signed_drop_bit n (Acc + hi_s x * hi_s y)"

definition builtin_machhsRN :: "i32 \<Rightarrow> i32 \<Rightarrow> i32 \<Rightarrow> nat \<Rightarrow> i32" where
  "builtin_machhsRN Acc x y n = signed_drop_bit n (Acc + hi_s x * hi_s y + push_bit (n - 1) 1)"

definition builtin_machhuN :: "i32 \<Rightarrow> i32 \<Rightarrow> i32 \<Rightarrow> nat \<Rightarrow> i32" where
  "builtin_machhuN Acc x y n = drop_bit n (Acc + hi_u x * hi_u y)"

definition builtin_machhuRN :: "u32 \<Rightarrow> u32 \<Rightarrow> u32 \<Rightarrow> u32 \<Rightarrow> u32" where
  "builtin_machhuRN Acc x y n = Acc + hi_u x * hi_u y + n"

definition builtin_mulsN :: "i32 \<Rightarrow> i32 \<Rightarrow> nat \<Rightarrow> i32" where
  "builtin_mulsN x y n = signed_drop_bit n (lo_s x * lo_s y)"

definition builtin_mulsRN :: "i32 \<Rightarrow> i32 \<Rightarrow> nat \<Rightarrow> i32" where
  "builtin_mulsRN x y n = signed_drop_bit n (lo_s x * lo_s y + push_bit (n - 1) 1)"

definition builtin_muluN :: "i32 \<Rightarrow> i32 \<Rightarrow> nat \<Rightarrow> i32" where
  "builtin_muluN x y n = signed_drop_bit n (lo_u x * lo_u y)"

definition builtin_muluRN :: "i32 \<Rightarrow> i32 \<Rightarrow> nat \<Rightarrow> i32" where
  "builtin_muluRN x y n = signed_drop_bit n (lo_u x * lo_u y + push_bit (n - 1) 1)"

definition builtin_dotp2 :: "v2 \<Rightarrow> v2 \<Rightarrow> i32" where
  "builtin_dotp2 x y = dot2 sx16 sx16 x y"

definition builtin_sumdotp2 :: "v2 \<Rightarrow> v2 \<Rightarrow> i32 \<Rightarrow> i32" where
  "builtin_sumdotp2 x y z = z + dot2 sx16 sx16 x y"

definition builtin_dotpu2 :: "v2 \<Rightarrow> v2 \<Rightarrow> i32" where
  "builtin_dotpu2 x y = dot2 zx16 zx16 x y"

definition builtin_sumdotpu2 :: "v2 \<Rightarrow> v2 \<Rightarrow> i32 \<Rightarrow> i32" where
  "builtin_sumdotpu2 x y z = z + dot2 zx16 zx16 x y"

definition builtin_dotpus2 :: "v2 \<Rightarrow> v2 \<Rightarrow> i32" where
  "builtin_dotpus2 x y = dot2 zx16 sx16 x y"

definition builtin_sumdotpus2 :: "v2 \<Rightarrow> v2 \<Rightarrow> i32 \<Rightarrow> i32" where
  "builtin_sumdotpus2 x y z = z + dot2 zx16 sx16 x y"

definition builtin_dotp4 :: "v4 \<Rightarrow> v4 \<Rightarrow> i32" where
  "builtin_dotp4 x y = dot4 sx8 sx8 x y"

definition builtin_sumdotp4 :: "v4 \<Rightarrow> v4 \<Rightarrow> i32 \<Rightarrow> i32" where
  "builtin_sumdotp4 x y z = z + dot4 sx8 sx8 x y"

definition builtin_dotpu4 :: "v4 \<Rightarrow> v4 \<Rightarrow> i32" where
  "builtin_dotpu4 x y = dot4 zx8 zx8 x y"

definition builtin_sumdotpu4 :: "v4 \<Rightarrow> v4 \<Rightarrow> i32 \<Rightarrow> i32" where
  "builtin_sumdotpu4 x y z = z + dot4 zx8 zx8 x y"

definition builtin_dotpus4 :: "v4 \<Rightarrow> v4 \<Rightarrow> i32" where
  "builtin_dotpus4 x y = dot4 zx8 sx8 x y"

definition builtin_sumdotpus4 :: "v4 \<Rightarrow> v4 \<Rightarrow> i32 \<Rightarrow> i32" where
  "builtin_sumdotpus4 x y z = z + dot4 zx8 sx8 x y"

text \<open>The loop of \<^verbatim>\<open>__builtin_clb\<close>, with the argument and the result as its state.\<close>

function clb_loop :: "u32 \<Rightarrow> i32 \<Rightarrow> i32" where
  "clb_loop x result = (if x = 0 then result
     else clb_loop (drop_bit 1 x) (if x AND 1 \<noteq> 0 then result + 1 else result))"
  by pat_completeness auto
termination
  by (relation "measure (\<lambda>(x, _). unat x)") (simp_all add: drop_bit_Suc unat_div unat_gt_0)

definition builtin_clb :: "u32 \<Rightarrow> i32" where
  "builtin_clb x = clb_loop x 0"

definition builtin_bitextract :: "u32 \<Rightarrow> nat \<Rightarrow> nat \<Rightarrow> u32" where
  "builtin_bitextract x sz off =
     drop_bit (32 - sz) (push_bit (32 - sz) (signed_drop_bit off x AND (push_bit sz 1 - 1)))"

definition builtin_bitextractu :: "u32 \<Rightarrow> nat \<Rightarrow> nat \<Rightarrow> u32" where
  "builtin_bitextractu x sz off = signed_drop_bit off x AND (push_bit sz 1 - 1)"

definition builtin_bitinsert :: "u32 \<Rightarrow> u32 \<Rightarrow> nat \<Rightarrow> nat \<Rightarrow> u32" where
  "builtin_bitinsert dst src sz off =
     (dst AND NOT (field sz off)) OR push_bit off (src AND (push_bit sz 1 - 1))"

definition builtin_bitinsert_r :: "u32 \<Rightarrow> u32 \<Rightarrow> nat \<Rightarrow> nat \<Rightarrow> u32" where
  "builtin_bitinsert_r dst src sz off =
     (dst AND NOT (field sz off)) OR push_bit off (src AND (push_bit sz 1 - 1))"

definition builtin_rotr :: "i32 \<Rightarrow> i32" where
  "builtin_rotr x = (signed_drop_bit 1 x AND 0x7FFFFFFF) OR push_bit 31 x"

definition builtin_addroundnormu :: "u32 \<Rightarrow> u32 \<Rightarrow> nat \<Rightarrow> u32" where
  "builtin_addroundnormu x y scale = drop_bit scale (x + y + push_bit (scale - 1) 1)"

definition builtin_addroundnorm :: "u32 \<Rightarrow> u32 \<Rightarrow> nat \<Rightarrow> u32" where
  "builtin_addroundnorm x y scale = signed_drop_bit scale (x + y + push_bit (scale - 1) 1)"

definition builtin_roundnormu :: "u32 \<Rightarrow> nat \<Rightarrow> u32" where
  "builtin_roundnormu x scale = drop_bit scale (x + push_bit (scale - 1) 1)"

definition builtin_roundnorm :: "u32 \<Rightarrow> nat \<Rightarrow> u32" where
  "builtin_roundnorm x scale = signed_drop_bit scale (x + push_bit (scale - 1) 1)"

section \<open>Bit fields\<close>

lemma ones_mask: "(push_bit n 1 - 1 :: u32) = mask n"
  by (simp add: push_bit_of_1 mask_eq_exp_minus_1)

lemma bit_ones [simp]: "bit (2 ^ n - 1 :: u32) i \<longleftrightarrow> i < 32 \<and> i < n"
  by (simp add: bit_mask_iff flip: mask_eq_exp_minus_1)

lemma bit_field: "bit (field sz off) i \<longleftrightarrow> off \<le> i \<and> i < off + sz \<and> i < 32"
  by (auto simp: field_def bit_push_bit_iff push_bit_of_1)

lemma bit_BITINSERT:
  assumes "off + sz \<le> 32" "i < 32"
  shows "bit (BITINSERT dst src sz off) i = (if off \<le> i \<and> i < off + sz then bit src (i - off) else bit dst i)"
  using assms by (auto simp: BITINSERT_def bit_or_iff bit_and_iff bit_not_iff bit_push_bit_iff bit_field)

lemma bit_BITEXTRACTU:
  assumes "off + sz \<le> 32"
  shows "bit (BITEXTRACTU x sz off) i \<longleftrightarrow> i < sz \<and> bit x (i + off)"
  using assms by (auto simp: BITEXTRACTU_def bit_and_iff bit_signed_drop_bit_iff add.commute)

lemma BITEXTRACTU_drop:
  assumes "off + sz \<le> 32"
  shows "BITEXTRACTU x sz off = take_bit sz (drop_bit off x)"
  using assms by (intro bit_word_eqI) (auto simp: bit_BITEXTRACTU bit_take_bit_iff bit_drop_bit_eq add.commute)

lemma BITEXTRACT_unsigned: "sz \<le> 32 \<Longrightarrow> BITEXTRACT x sz off = BITEXTRACTU x sz off"
  by (rule bit_word_eqI)
    (auto simp: BITEXTRACT_def BITEXTRACTU_def bit_and_iff bit_signed_drop_bit_iff bit_push_bit_iff bit_drop_bit_eq)

text \<open>
  For a field that lies in the word, an insertion writes the low bits of its source into the field and keeps every other
  bit, extracting the field gives these bits back, setting and clearing change exactly the field. The extraction
  meant to be signed gives the same as the unsigned one: because the mask is unsigned, it never extends the sign.
\<close>

theorem bit_fields_read_back:
  assumes "off + sz \<le> 32" "sz < 32"
  shows "BITEXTRACTU (BITINSERT dst src sz off) sz off = take_bit sz src
    \<and> (\<forall>i \<in> {..<32} - {off..<off + sz}. bit (BITINSERT dst src sz off) i = bit dst i)
    \<and> (\<forall>i \<in> {..<32}. bit (BITSET x sz off) i = (bit x i \<or> i \<in> {off..<off + sz})
      \<and> bit (BITCLR x sz off) i = (bit x i \<and> i \<notin> {off..<off + sz}))
    \<and> BITEXTRACT x sz off = BITEXTRACTU x sz off"
proof (intro conjI)
  show "BITEXTRACTU (BITINSERT dst src sz off) sz off = take_bit sz src"
    using assms by (intro bit_word_eqI) (auto simp: bit_BITEXTRACTU bit_BITINSERT bit_take_bit_iff)
  show "BITEXTRACT x sz off = BITEXTRACTU x sz off"
    using assms by (simp add: BITEXTRACT_unsigned)
qed (use assms in \<open>auto simp: bit_BITINSERT BITSET_def BITCLR_def bit_or_iff bit_and_iff bit_not_iff bit_field\<close>)

theorem bit_fields_read_back_witness:
  "BITEXTRACTU (BITINSERT 0xFFFFFFFF 0x125 8 16) 8 16 = 0x25 \<and> BITEXTRACT 0x00800000 8 16 = 0x80"
  using bit_fields_read_back [of 16 8 "0xFFFFFFFF" "0x125" "0x00800000"]
  by (simp add: take_bit_eq_mod BITEXTRACTU_drop)

section \<open>Saturation\<close>

lemma sint_i32_of_int: "- 2147483648 \<le> k \<Longrightarrow> k < 2147483648 \<Longrightarrow> sint (word_of_int k :: i32) = k"
  by (simp add: sint_sbintrunc' signed_take_bit_int_eq_self)

lemma sint_pow:
  assumes "p < 31"
  shows "sint (push_bit p 1 :: i32) = 2 ^ p" "sint (- push_bit p 1 :: i32) = - (2 ^ p)"
    "sint (push_bit p 1 - 1 :: i32) = 2 ^ p - 1"
proof -
  have b: "(2 :: int) ^ p \<le> 1073741824" using power_increasing [of p 30 "2 :: int"] assms by simp
  have e: "(push_bit p 1 :: i32) = word_of_int (2 ^ p)" by simp
  have m: "(- push_bit p 1 :: i32) = word_of_int (- (2 ^ p))" "(push_bit p 1 - 1 :: i32) = word_of_int (2 ^ p - 1)"
    by simp_all
  have pos: "(1 :: int) \<le> 2 ^ p" by simp
  show "sint (push_bit p 1 :: i32) = 2 ^ p"
    unfolding e using b pos by (intro sint_i32_of_int) linarith+
  show "sint (- push_bit p 1 :: i32) = - (2 ^ p)"
    unfolding m using b pos by (intro sint_i32_of_int) linarith+
  show "sint (push_bit p 1 - 1 :: i32) = 2 ^ p - 1"
    unfolding m using b pos by (intro sint_i32_of_int) linarith+
qed

lemma sint_neg_succ:
  assumes "0 \<le> sint (b :: i32)" "sint b < 2147483647"
  shows "sint (- (b + 1)) = - sint b - 1"
proof -
  have "- (b + 1) = word_of_int (- sint b - 1)" by simp
  then show ?thesis using assms sint_i32_of_int [of "- sint b - 1"] by simp
qed

lemma clip_int: "l \<le> h \<Longrightarrow> (if x < l then l else if h < x then h else x) = max l (min h x)" for x :: int
  by auto

text \<open>
  The four clippings saturate: below 31 bits of precision the result is the number nearest to the argument in
  the range from \<open>- 2 ^ p\<close> (0 in the unsigned form) to \<open>2 ^ p - 1\<close>, and with a bound that is not negative nor the
  largest \<open>int\<close> the nearest one from \<open>- bound - 1\<close> (or 0) to \<open>bound\<close>.
\<close>

theorem clip_saturates:
  assumes "p < 31" "0 \<le> sint b" "sint b < 2147483647"
  shows "sint (CLIP x p) = max (- (2 ^ p)) (min (2 ^ p - 1) (sint x))
    \<and> sint (CLIPU x p) = max 0 (min (2 ^ p - 1) (sint x))
    \<and> sint (CLIP_R x b) = max (- sint b - 1) (min (sint b) (sint x))
    \<and> sint (CLIPU_R x b) = max 0 (min (sint b) (sint x))"
proof (intro conjI)
  note p = sint_pow [OF assms(1)]
  have pos: "(1 :: int) \<le> 2 ^ p" by simp
  show "sint (CLIP x p) = max (- (2 ^ p)) (min (2 ^ p - 1) (sint x))"
    using pos by (simp only: CLIP_def sless_i32_iff p if_distrib [of sint]) (rule clip_int, linarith)
  show "sint (CLIPU x p) = max 0 (min (2 ^ p - 1) (sint x))"
    using pos by (simp only: CLIPU_def sless_i32_iff p if_distrib [of sint] signed_0) (rule clip_int, linarith)
  show "sint (CLIP_R x b) = max (- sint b - 1) (min (sint b) (sint x))"
    using assms(2) by (auto simp: CLIP_R_def sle_i32_iff sint_neg_succ [OF assms(2,3), simplified])
  show "sint (CLIPU_R x b) = max 0 (min (sint b) (sint x))"
    using assms(2) by (auto simp: CLIPU_R_def sle_i32_iff)
qed

theorem clip_saturates_witness:
  "sint (CLIP 1000 7) = 127 \<and> sint (CLIP (- 1000) 7) = - 128 \<and> sint (CLIPU_R (- 5) 100) = 0"
  using clip_saturates [of 7 100 1000] clip_saturates [of 7 100 "- 1000"] clip_saturates [of 7 100 "- 5"] by simp

section \<open>Products and rounding\<close>

lemma sint_lane_bounds:
  "- 32768 \<le> sint (a :: u16) \<and> sint a < 32768" "- 128 \<le> sint (c :: u8) \<and> sint c < 128"
  using sint_greater_eq [of a] sint_less [of a] sint_greater_eq [of c] sint_less [of c] by simp_all

lemma uint_lane_bounds: "uint (a :: u16) < 65536" "uint (c :: u8) < 256"
  using uint_lt2p [of a] uint_lt2p [of c] by simp_all

lemma sint_lane_min: "sint (x :: u16) = - 32768 \<longleftrightarrow> x = 0x8000"
proof
  assume "sint x = - 32768"
  then have "sint x = sint (0x8000 :: u16)" by simp
  then show "x = 0x8000" by (rule signed_word_eqI)
qed simp

lemma lanes_int:
  "sx16 a = word_of_int (sint a)" "zx16 a = word_of_int (uint a)"
  "sx8 c = word_of_int (sint c)" "zx8 c = word_of_int (uint c)"
  unfolding sx16_def zx16_def sx8_def zx8_def by (rule scast_eq ucast_eq)+

lemma sum_products_int:
  "f x0 = word_of_int a0 \<Longrightarrow> f x1 = word_of_int a1 \<Longrightarrow> g y0 = word_of_int b0 \<Longrightarrow> g y1 = word_of_int b1
    \<Longrightarrow> dot2 f g (V2 x0 x1) (V2 y0 y1) = word_of_int (a0 * b0 + a1 * b1)"
  by simp

lemma product_bounds:
  assumes "- m \<le> a" "a \<le> m" "- n \<le> b" "b \<le> (n :: int)"
  shows "- (m * n) \<le> a * b \<and> a * b \<le> m * n"
proof -
  have "\<bar>a * b\<bar> \<le> m * n"
    unfolding abs_mult using assms by (intro mult_mono) linarith+
  then show ?thesis by linarith
qed

lemma DOTP2_exact:
  assumes "V2 a b \<noteq> V2 0x8000 0x8000 \<or> V2 c d \<noteq> V2 0x8000 0x8000"
  shows "sint (DOTP2 (V2 a b) (V2 c d)) = sint a * sint c + sint b * sint d"
proof -
  have p: "- 1073741824 \<le> x * y \<and> x * y \<le> 1073741824" if "- 32768 \<le> x \<and> x < 32768" "- 32768 \<le> y \<and> y < 32768" for x y :: int
    using product_bounds [of 32768 x 32768 y] that by simp
  have ne: "x * y < 1073741824" if "- 32768 \<le> x \<and> x < 32768" "- 32768 \<le> y \<and> y < 32768" "x \<noteq> - 32768 \<or> y \<noteq> - 32768" for x y :: int
  proof (cases "x = - 32768")
    case True
    with that show ?thesis by simp
  next
    case False
    then have "x * y \<le> 32767 * 32768"
      using product_bounds [of 32767 x 32768 y] that by simp
    then show ?thesis by simp
  qed
  have "sint a * sint c + sint b * sint d < 2147483648"
    using assms p [OF sint_lane_bounds(1) sint_lane_bounds(1), of a c] p [OF sint_lane_bounds(1) sint_lane_bounds(1), of b d]
      ne [OF sint_lane_bounds(1) sint_lane_bounds(1), of a c] ne [OF sint_lane_bounds(1) sint_lane_bounds(1), of b d] unfolding v2.inject sint_lane_min by linarith
  moreover have "- 2147483648 \<le> sint a * sint c + sint b * sint d"
    using p [OF sint_lane_bounds(1) sint_lane_bounds(1), of a c] p [OF sint_lane_bounds(1) sint_lane_bounds(1), of b d] by linarith
  ultimately show ?thesis
    unfolding DOTP2_def sum_products_int [OF lanes_int(1) lanes_int(1) lanes_int(1) lanes_int(1)] by (simp only: sint_i32_of_int)
qed

lemma sum_products4_int:
  "f x0 = word_of_int a0 \<Longrightarrow> f x1 = word_of_int a1 \<Longrightarrow> f x2 = word_of_int a2 \<Longrightarrow> f x3 = word_of_int a3
    \<Longrightarrow> g y0 = word_of_int b0 \<Longrightarrow> g y1 = word_of_int b1 \<Longrightarrow> g y2 = word_of_int b2 \<Longrightarrow> g y3 = word_of_int b3
    \<Longrightarrow> dot4 f g (V4 x0 x1 x2 x3) (V4 y0 y1 y2 y3) = word_of_int (a0 * b0 + a1 * b1 + a2 * b2 + a3 * b3)"
  by simp

lemma sum4_small:
  assumes "\<And>k. k < 4 \<Longrightarrow> - 256 \<le> a k \<and> a k \<le> 256 \<and> - 256 \<le> b k \<and> b k \<le> (256 :: int)"
  shows "sint (word_of_int (a 0 * b 0 + a 1 * b 1 + a 2 * b 2 + a (3 :: nat) * b 3) :: i32)
    = a 0 * b 0 + a 1 * b 1 + a 2 * b 2 + a 3 * b 3"
proof -
  have p: "- 65536 \<le> a k * b k \<and> a k * b k \<le> 65536" if "k < 4" for k
    using product_bounds [of 256 "a k" 256 "b k"] assms [OF that] by simp
  show ?thesis
    using p [of 0] p [of 1] p [of 2] p [of 3] by (intro sint_i32_of_int) simp_all
qed

definition v4_s :: "v4 \<Rightarrow> nat \<Rightarrow> int" where
  "v4_s x k = (case x of V4 a b c d \<Rightarrow> sint ([a, b, c, d] ! k))"
definition v4_u :: "v4 \<Rightarrow> nat \<Rightarrow> int" where
  "v4_u x k = (case x of V4 a b c d \<Rightarrow> uint ([a, b, c, d] ! k))"

lemma v4_bounds: "- 256 \<le> v4_s x k \<and> v4_s x k \<le> 256" "- 256 \<le> v4_u x k \<and> v4_u x k \<le> 256"
proof -
  obtain a b c d where x: "x = V4 a b c d" by (cases x)
  show "- 256 \<le> v4_s x k \<and> v4_s x k \<le> 256"
    using sint_lane_bounds(2) [of "[a, b, c, d] ! k"] by (simp add: x v4_s_def)
  have "0 \<le> uint ([a, b, c, d] ! k)" by simp
  then show "- 256 \<le> v4_u x k \<and> v4_u x k \<le> 256"
    using uint_lane_bounds(2) [of "[a, b, c, d] ! k"] unfolding x v4_u_def v4.case by linarith
qed

lemma sum4: "(\<Sum>k<4. f k) = f 0 + f 1 + f 2 + f (3 :: nat)" for f :: "nat \<Rightarrow> int"
  by (simp add: numeral_eq_Suc lessThan_Suc)

lemma DOT4_exact:
  "sint (dot4 sx8 sx8 x y) = (\<Sum>k<4. v4_s x k * v4_s y k)"
  "sint (dot4 zx8 zx8 x y) = (\<Sum>k<4. v4_u x k * v4_u y k)"
  "sint (dot4 zx8 sx8 x y) = (\<Sum>k<4. v4_u x k * v4_s y k)"
proof -
  obtain a b c d a' b' c' d' where xy: "x = V4 a b c d" "y = V4 a' b' c' d'" by (cases x, cases y)
  have "dot4 sx8 sx8 x y = word_of_int (v4_s x 0 * v4_s y 0 + v4_s x 1 * v4_s y 1 + v4_s x 2 * v4_s y 2 + v4_s x 3 * v4_s y 3)"
    unfolding xy by (rule sum_products4_int) (simp_all add: v4_s_def lanes_int del: of_int_sint)
  then show "sint (dot4 sx8 sx8 x y) = (\<Sum>k<4. v4_s x k * v4_s y k)"
    unfolding sum4 by (simp only:) (rule sum4_small, simp add: v4_bounds)
  have "dot4 zx8 zx8 x y = word_of_int (v4_u x 0 * v4_u y 0 + v4_u x 1 * v4_u y 1 + v4_u x 2 * v4_u y 2 + v4_u x 3 * v4_u y 3)"
    unfolding xy by (rule sum_products4_int) (simp_all add: v4_u_def lanes_int del: of_int_uint)
  then show "sint (dot4 zx8 zx8 x y) = (\<Sum>k<4. v4_u x k * v4_u y k)"
    unfolding sum4 by (simp only:) (rule sum4_small, simp add: v4_bounds)
  have "dot4 zx8 sx8 x y = word_of_int (v4_u x 0 * v4_s y 0 + v4_u x 1 * v4_s y 1 + v4_u x 2 * v4_s y 2 + v4_u x 3 * v4_s y 3)"
    unfolding xy by (rule sum_products4_int) (simp_all add: v4_u_def v4_s_def lanes_int del: of_int_uint of_int_sint)
  then show "sint (dot4 zx8 sx8 x y) = (\<Sum>k<4. v4_u x k * v4_s y k)"
    unfolding sum4 by (simp only:) (rule sum4_small, simp add: v4_bounds)
qed

text \<open>
  The sums of products are the exact integers: of two signed lanes unless all four are the least short, of
  four lanes always, when plain \<^verbatim>\<open>char\<close> is signed. Where it is unsigned, as on RISC-V, the product meant to be of
  signed lanes is that of the unsigned ones.
\<close>

theorem sums_of_products:
  assumes "V2 a b \<noteq> V2 0x8000 0x8000 \<or> V2 c d \<noteq> V2 0x8000 0x8000"
  shows "sint (DOTP2 (V2 a b) (V2 c d)) = sint a * sint c + sint b * sint d
    \<and> sint (DOTP4 True x y) = (\<Sum>k<4. v4_s x k * v4_s y k)
    \<and> sint (DOTPU4 x y) = (\<Sum>k<4. v4_u x k * v4_u y k)
    \<and> sint (DOTPUS4 True x y) = (\<Sum>k<4. v4_u x k * v4_s y k)
    \<and> DOTP4 False x y = DOTPU4 x y"
proof (intro conjI)
  have cx: "cx True = sx8" "cx False = zx8" by (simp_all add: fun_eq_iff cx_def)
  show "sint (DOTP2 (V2 a b) (V2 c d)) = sint a * sint c + sint b * sint d" by (rule DOTP2_exact [OF assms])
  show "sint (DOTP4 True x y) = (\<Sum>k<4. v4_s x k * v4_s y k)" "sint (DOTPU4 x y) = (\<Sum>k<4. v4_u x k * v4_u y k)"
    "sint (DOTPUS4 True x y) = (\<Sum>k<4. v4_u x k * v4_s y k)" "DOTP4 False x y = DOTPU4 x y"
    by (simp_all only: DOTP4_def DOTPU4_def DOTPUS4_def cx DOT4_exact)
qed

theorem sums_of_products_witness:
  "sint (DOTP2 (V2 0xFFFF 2) (V2 3 4)) = 5 \<and> sint (DOTP4 True (V4 0xFF 0 0 0) (V4 1 1 1 1)) = - 1
    \<and> sint (DOTP4 False (V4 0xFF 0 0 0) (V4 1 1 1 1)) = 255"
proof -
  have ne: "V2 0xFFFF 2 \<noteq> V2 0x8000 0x8000 \<or> V2 3 4 \<noteq> V2 0x8000 0x8000" by simp
  note e = sums_of_products [OF ne, of "V4 0xFF 0 0 0" "V4 1 1 1 1"]
  have "sint (0xFFFF :: u16) * sint (3 :: u16) + sint (2 :: u16) * sint (4 :: u16) = 5"
    "(\<Sum>k<4. v4_s (V4 0xFF 0 0 0) k * v4_s (V4 1 1 1 1) k) = - 1"
    "(\<Sum>k<4. v4_u (V4 0xFF 0 0 0) k * v4_u (V4 1 1 1 1) k) = 255"
    by (simp_all add: v4_s_def v4_u_def sum4)
  then show ?thesis using e by simp
qed

section \<open>Highest bits and rounding\<close>

lemma takeWhile_highest:
  assumes "i < n" "P i"
  shows "\<exists>k<n. length (takeWhile (\<lambda>i. \<not> P i) (rev [0..<n])) = n - Suc k \<and> P k \<and> (\<forall>j. k < j \<longrightarrow> j < n \<longrightarrow> \<not> P j)"
  using assms
proof (induction n arbitrary: i)
  case 0
  then show ?case by simp
next
  case (Suc n)
  show ?case
  proof (cases "P n")
    case True
    then show ?thesis by (intro exI [of _ n]) auto
  next
    case False
    with Suc.prems have "i < n" using less_Suc_eq by auto
    from Suc.IH [OF this Suc.prems(2)] obtain k where "k < n" "P k" "\<forall>j. k < j \<longrightarrow> j < n \<longrightarrow> \<not> P j"
      "length (takeWhile (\<lambda>i. \<not> P i) (rev [0..<n])) = n - Suc k" by blast
    with False show ?thesis by (intro exI [of _ k]) (auto simp: less_Suc_eq)
  qed
qed

lemma highest_bit:
  assumes "x \<noteq> (0 :: u32)"
  shows "\<exists>k<32. builtin_clz x = 31 - k \<and> bit x k \<and> (\<forall>j. k < j \<longrightarrow> \<not> bit x j)"
proof -
  obtain i where "bit x i" using assms by (auto simp: bit_eq_iff)
  moreover have "i < 32" if "bit x i" for i using bit_imp_le_length [OF that] by simp
  ultimately show ?thesis
    using takeWhile_highest [of i 32 "bit x"] unfolding builtin_clz_def by (auto simp del: upt_rec_numeral)
qed

lemma FL1_highest:
  assumes "x \<noteq> 0"
  shows "bit x (unat (FL1 x)) \<and> (\<forall>j. unat (FL1 x) < j \<longrightarrow> \<not> bit x j)"
proof -
  obtain k where k: "k < 32" "builtin_clz x = 31 - k" "bit x k" "\<forall>j. k < j \<longrightarrow> \<not> bit x j"
    using highest_bit [OF assms] by blast
  then have "FL1 x = of_nat k" by (simp add: FL1_def of_nat_diff)
  then have "unat (FL1 x) = k" using k(1) by (simp add: unat_of_nat)
  with k show ?thesis by simp
qed

lemma ROUNDNORM_nearest:
  assumes "0 < s" "s < 32" "sint x + 2 ^ (s - 1) < 2147483648"
  shows "sint (ROUNDNORM x s) = (sint x + 2 ^ (s - 1)) div 2 ^ s"
proof -
  have "x + push_bit (s - 1) 1 = word_of_int (sint x + 2 ^ (s - 1))" by simp
  moreover have "sint (word_of_int (sint x + 2 ^ (s - 1)) :: i32) = sint x + 2 ^ (s - 1)"
    using assms(3) sint_i32_bounds(1) [of x] by (intro sint_i32_of_int) (auto intro: order_trans)
  ultimately show ?thesis
    unfolding ROUNDNORM_def by (simp only: sint_signed_drop_bit_eq drop_bit_eq_div)
qed

section \<open>Counting bits\<close>

lemma clb_loop_counts: "clb_loop x r = r + of_nat (card {i. i < 32 \<and> bit x i})"
proof (induction x r rule: clb_loop.induct)
  case (1 x r)
  show ?case
  proof (cases "x = 0")
    case False
    let ?A = "{i. i < 32 \<and> bit x i}" and ?B = "{i. i < 32 \<and> bit (drop_bit 1 x) i}"
    have B: "?B = {i. i < 31 \<and> bit x (Suc i)}"
      by (auto simp: bit_drop_bit_eq dest: bit_imp_le_length)
    have "?A = (if bit x 0 then {0} else {}) \<union> Suc ` ?B"
    proof (rule set_eqI)
      fix i
      show "i \<in> ?A \<longleftrightarrow> i \<in> (if bit x 0 then {0} else {}) \<union> Suc ` ?B"
        unfolding B by (cases i) auto
    qed
    moreover have "finite ?B" by simp
    ultimately have "card ?A = of_bool (bit x 0) + card ?B"
      by (simp add: card_insert_disjoint card_image)
    moreover have "x AND 1 \<noteq> 0 \<longleftrightarrow> bit x 0" by (simp add: and_one_eq bit_0 odd_iff_mod_2_eq_one)
    ultimately show ?thesis
      using 1 [OF False] False by (subst clb_loop.simps) (simp add: algebra_simps)
  qed simp
qed

lemma clrsb_all:
  assumes "\<And>i. i < 31 \<Longrightarrow> bit x i = bit x 31"
  shows "CLB x = 31"
proof -
  have "takeWhile (\<lambda>i. bit x i = bit x 31) (rev [0..<31]) = rev [0..<31]"
    unfolding takeWhile_eq_all_conv set_rev set_upt by (intro ballI assms) simp
  then show ?thesis unfolding CLB_def builtin_clrsb_def by (simp only: length_rev length_upt) simp
qed

text \<open>
  \<^verbatim>\<open>__builtin_clb\<close> counts the bits that are set. \<^verbatim>\<open>__CLB\<close>, which has the same comment (number of sign bits), counts
  the bits below the sign bit that equal it; for 0 the one gives 0 and the other 31.
\<close>

theorem builtin_clb_counts_set_bits:
  shows "builtin_clb x = of_nat (card {i. i < 32 \<and> bit x i})
    \<and> builtin_clb 0 = 0
    \<and> CLB 0 = 31
    \<and> builtin_clb 0xFFFFFFFF = 32
    \<and> CLB 0xFFFFFFFF = 31"
proof (intro conjI)
  have c: "builtin_clb x = of_nat (card {i. i < 32 \<and> bit x i})" for x
    unfolding builtin_clb_def clb_loop_counts by (rule add_0)
  show "builtin_clb x = of_nat (card {i. i < 32 \<and> bit x i})" by (rule c)
  show "builtin_clb 0 = 0" unfolding c by simp
  have m: "(0xFFFFFFFF :: u32) = - 1" by simp
  have "{i. i < 32 \<and> bit (- 1 :: u32) i} = {..<32}" by (rule set_eqI) (simp add: bit_minus_1_iff)
  then show "builtin_clb 0xFFFFFFFF = 32" unfolding m c by simp
  show "CLB 0 = 31" by (rule clrsb_all) simp
  show "CLB 0xFFFFFFFF = 31" unfolding m by (rule clrsb_all) (simp add: bit_minus_1_iff)
qed


end
