(* ===== verification/Mchan.thy ===== *)
theory Mchan
  imports Event_Unit Dsp_Builtins
begin

text \<open>
  The DMA controller of the PULP cluster (\<^verbatim>\<open>hal/dma/mchan_v6.h\<close>, register map \<^verbatim>\<open>archi/dma/mchan_v6.h\<close>), whose
  commands are words pushed one after the other to one queue register. A transfer is given a counter by a read of the
  queue, and waiting sleeps in the event unit. External addresses have 32 bits on this chip.
\<close>

section \<open>Registers and the command word\<close>

definition PLP_DMA_QUEUE_OFFSET :: u32 where "PLP_DMA_QUEUE_OFFSET = 0x0"
definition PLP_DMA_STATUS_OFFSET :: u32 where "PLP_DMA_STATUS_OFFSET = 0x4"
definition PLP_DMA_SIZE_BIT :: nat where "PLP_DMA_SIZE_BIT = 0"
definition PLP_DMA_SIZE_WIDTH :: nat where "PLP_DMA_SIZE_WIDTH = 16"
definition PLP_DMA_TYPE_BIT :: nat where "PLP_DMA_TYPE_BIT = PLP_DMA_SIZE_WIDTH"
definition PLP_DMA_INCR_BIT :: nat where "PLP_DMA_INCR_BIT = PLP_DMA_SIZE_WIDTH + 1"
definition PLP_DMA_2D_BIT :: nat where "PLP_DMA_2D_BIT = PLP_DMA_SIZE_WIDTH + 2"
definition PLP_DMA_ELE_BIT :: nat where "PLP_DMA_ELE_BIT = PLP_DMA_SIZE_WIDTH + 3"
definition PLP_DMA_ILE_BIT :: nat where "PLP_DMA_ILE_BIT = PLP_DMA_SIZE_WIDTH + 4"
definition PLP_DMA_BLE_BIT :: nat where "PLP_DMA_BLE_BIT = PLP_DMA_SIZE_WIDTH + 5"
definition PLP_DMA_2D_STRIDE_BIT :: nat where "PLP_DMA_2D_STRIDE_BIT = 16"
definition PLP_DMA_2D_STRIDE_WIDTH :: nat where "PLP_DMA_2D_STRIDE_WIDTH = 15"
definition PLP_DMA_2D_LEN_BIT :: nat where "PLP_DMA_2D_LEN_BIT = 0"
definition PLP_DMA_2D_LEN_WIDTH :: nat where "PLP_DMA_2D_LEN_WIDTH = 15"
definition PLP_DMA_LOC2EXT :: u32 where "PLP_DMA_LOC2EXT = 0"
definition PLP_DMA_EXT2LOC :: u32 where "PLP_DMA_EXT2LOC = 1"
definition PLP_DMA_1D :: u32 where "PLP_DMA_1D = 0"
definition PLP_DMA_2D :: u32 where "PLP_DMA_2D = 1"
definition PLP_DMA_NO_TRIG_EVT :: u32 where "PLP_DMA_NO_TRIG_EVT = 0"
definition PLP_DMA_TRIG_EVT :: u32 where "PLP_DMA_TRIG_EVT = 1"
definition PLP_DMA_NO_TRIG_IRQ :: u32 where "PLP_DMA_NO_TRIG_IRQ = 0"
definition PLP_DMA_TRIG_IRQ :: u32 where "PLP_DMA_TRIG_IRQ = 1"
definition PLP_DMA_PRIV :: u32 where "PLP_DMA_PRIV = 0"
definition PLP_DMA_SHARED :: u32 where "PLP_DMA_SHARED = 1"
definition PLP_DMA_INC :: u32 where "PLP_DMA_INC = 1"
definition PLP_DMA_SIZE_GET :: "u32 \<Rightarrow> u32" where "PLP_DMA_SIZE_GET x = drop_bit PLP_DMA_SIZE_BIT x AND (push_bit PLP_DMA_SIZE_WIDTH 1 - 1)"
definition PLP_DMA_TYPE_GET :: "u32 \<Rightarrow> u32" where "PLP_DMA_TYPE_GET x = drop_bit PLP_DMA_TYPE_BIT x AND 1"
definition PLP_DMA_INCR_GET :: "u32 \<Rightarrow> u32" where "PLP_DMA_INCR_GET x = drop_bit PLP_DMA_INCR_BIT x AND 1"
definition PLP_DMA_2D_GET :: "u32 \<Rightarrow> u32" where "PLP_DMA_2D_GET x = drop_bit PLP_DMA_2D_BIT x AND 1"
definition PLP_DMA_ELE_GET :: "u32 \<Rightarrow> u32" where "PLP_DMA_ELE_GET x = drop_bit PLP_DMA_ELE_BIT x AND 1"
definition PLP_DMA_ILE_GET :: "u32 \<Rightarrow> u32" where "PLP_DMA_ILE_GET x = drop_bit PLP_DMA_ILE_BIT x AND 1"
definition PLP_DMA_BLE_GET :: "u32 \<Rightarrow> u32" where "PLP_DMA_BLE_GET x = drop_bit PLP_DMA_BLE_BIT x AND 1"
definition PLP_DMA_2D_STRIDE_GET :: "u32 \<Rightarrow> u32" where "PLP_DMA_2D_STRIDE_GET x = drop_bit PLP_DMA_2D_STRIDE_BIT x AND (push_bit PLP_DMA_2D_STRIDE_WIDTH 1 - 1)"
definition PLP_DMA_2D_LEN_GET :: "u32 \<Rightarrow> u32" where "PLP_DMA_2D_LEN_GET x = drop_bit PLP_DMA_2D_LEN_BIT x AND (push_bit PLP_DMA_2D_LEN_WIDTH 1 - 1)"

lemmas mchan_offsets = PLP_DMA_QUEUE_OFFSET_def PLP_DMA_STATUS_OFFSET_def
lemmas mchan_bits = PLP_DMA_SIZE_BIT_def PLP_DMA_SIZE_WIDTH_def PLP_DMA_TYPE_BIT_def PLP_DMA_INCR_BIT_def
  PLP_DMA_2D_BIT_def PLP_DMA_ELE_BIT_def PLP_DMA_ILE_BIT_def PLP_DMA_BLE_BIT_def
  PLP_DMA_2D_STRIDE_BIT_def PLP_DMA_2D_STRIDE_WIDTH_def PLP_DMA_2D_LEN_BIT_def PLP_DMA_2D_LEN_WIDTH_def
lemmas mchan_consts = PLP_DMA_LOC2EXT_def PLP_DMA_EXT2LOC_def PLP_DMA_1D_def PLP_DMA_2D_def
  PLP_DMA_NO_TRIG_EVT_def PLP_DMA_TRIG_EVT_def PLP_DMA_NO_TRIG_IRQ_def PLP_DMA_TRIG_IRQ_def
  PLP_DMA_PRIV_def PLP_DMA_SHARED_def PLP_DMA_INC_def
lemmas mchan_gets = PLP_DMA_SIZE_GET_def PLP_DMA_TYPE_GET_def PLP_DMA_INCR_GET_def PLP_DMA_2D_GET_def
  PLP_DMA_ELE_GET_def PLP_DMA_ILE_GET_def PLP_DMA_BLE_GET_def PLP_DMA_2D_STRIDE_GET_def
  PLP_DMA_2D_LEN_GET_def

section \<open>Operations\<close>

definition DMA_WRITE :: "u32 \<Rightarrow> u32 \<Rightarrow> trace \<Rightarrow> trace" where
  "DMA_WRITE v offset t = mmio_write (ARCHI_DEMUX_PERIPHERALS_ADDR + (ARCHI_MCHAN_DEMUX_OFFSET + offset)) v t"

definition DMA_READ :: "device \<Rightarrow> u32 \<Rightarrow> trace \<Rightarrow> u32 \<times> trace" where
  "DMA_READ dev offset t = mmio_read dev (ARCHI_DEMUX_PERIPHERALS_ADDR + (ARCHI_MCHAN_DEMUX_OFFSET + offset)) t"

definition plp_dma_counter_alloc :: "device \<Rightarrow> trace \<Rightarrow> u32 \<times> trace" where
  "plp_dma_counter_alloc dev t = DMA_READ dev PLP_DMA_QUEUE_OFFSET t"

definition plp_dma_counter_free :: "u32 \<Rightarrow> trace \<Rightarrow> trace" where
  "plp_dma_counter_free counter t = DMA_WRITE (push_bit (unat counter) 1) PLP_DMA_STATUS_OFFSET t"

text \<open>The command, as compiled for the cores and in the form for other compilers.\<close>

definition plp_dma_getCmd :: "u32 \<Rightarrow> u32 \<Rightarrow> u32 \<Rightarrow> u32 \<Rightarrow> u32 \<Rightarrow> u32 \<Rightarrow> u32" where
  "plp_dma_getCmd ext2loc sz is2D trigEvt trigIrq broadcast =
     (let res = builtin_bitinsert 0 ext2loc 1 PLP_DMA_TYPE_BIT;
          res = builtin_bitinsert res PLP_DMA_INC 1 PLP_DMA_INCR_BIT;
          res = builtin_bitinsert res is2D 1 PLP_DMA_2D_BIT;
          res = builtin_bitinsert res sz PLP_DMA_SIZE_WIDTH PLP_DMA_SIZE_BIT;
          res = builtin_bitinsert res trigEvt 1 PLP_DMA_ELE_BIT;
          res = builtin_bitinsert res trigIrq 1 PLP_DMA_ILE_BIT
      in builtin_bitinsert res broadcast 1 PLP_DMA_BLE_BIT)"

definition plp_dma_getCmd_shifts :: "u32 \<Rightarrow> u32 \<Rightarrow> u32 \<Rightarrow> u32 \<Rightarrow> u32 \<Rightarrow> u32 \<Rightarrow> u32" where
  "plp_dma_getCmd_shifts ext2loc sz is2D trigEvt trigIrq broadcast =
     push_bit PLP_DMA_TYPE_BIT ext2loc OR push_bit PLP_DMA_INCR_BIT PLP_DMA_INC OR push_bit PLP_DMA_2D_BIT is2D
       OR push_bit PLP_DMA_SIZE_BIT sz OR push_bit PLP_DMA_ELE_BIT trigEvt OR push_bit PLP_DMA_ILE_BIT trigIrq
       OR push_bit PLP_DMA_BLE_BIT broadcast"

definition plp_dma_getStrides :: "u16 \<Rightarrow> u16 \<Rightarrow> u32" where
  "plp_dma_getStrides stride len =
     push_bit PLP_DMA_2D_STRIDE_BIT (ucast stride) OR push_bit PLP_DMA_2D_LEN_BIT (ucast len)"

definition plp_dma_cmd_push :: "u32 \<Rightarrow> u32 \<Rightarrow> u32 \<Rightarrow> trace \<Rightarrow> trace" where
  "plp_dma_cmd_push cmd locAddr extAddr t =
     (let t = DMA_WRITE cmd PLP_DMA_QUEUE_OFFSET t;
          t = DMA_WRITE locAddr PLP_DMA_QUEUE_OFFSET t
      in DMA_WRITE extAddr PLP_DMA_QUEUE_OFFSET t)"

definition plp_dma_cmd_push_2d :: "u32 \<Rightarrow> u32 \<Rightarrow> u32 \<Rightarrow> u32 \<Rightarrow> u32 \<Rightarrow> trace \<Rightarrow> trace" where
  "plp_dma_cmd_push_2d cmd locAddr extAddr stride len t =
     DMA_WRITE (plp_dma_getStrides (ucast stride) (ucast len)) PLP_DMA_QUEUE_OFFSET
       (plp_dma_cmd_push cmd locAddr extAddr t)"

definition plp_dma_memcpy :: "device \<Rightarrow> u32 \<Rightarrow> u32 \<Rightarrow> u16 \<Rightarrow> u32 \<Rightarrow> trace \<Rightarrow> u32 \<times> trace" where
  "plp_dma_memcpy dev ext loc sz ext2loc t =
     (let (counter, t) = plp_dma_counter_alloc dev t;
          cmd = plp_dma_getCmd ext2loc (ucast sz) PLP_DMA_1D PLP_DMA_TRIG_EVT PLP_DMA_NO_TRIG_IRQ PLP_DMA_SHARED
      in (counter, plp_dma_cmd_push cmd loc ext t))"

definition plp_dma_memcpy_merge :: "device \<Rightarrow> u32 \<Rightarrow> u32 \<Rightarrow> u16 \<Rightarrow> u32 \<Rightarrow> bool \<Rightarrow> trace \<Rightarrow> u32 \<times> trace" where
  "plp_dma_memcpy_merge dev ext loc sz ext2loc merge t =
     (let (counter, t) = (if \<not> merge then plp_dma_counter_alloc dev t else (- 1, t));
          cmd = plp_dma_getCmd ext2loc (ucast sz) PLP_DMA_1D PLP_DMA_TRIG_EVT PLP_DMA_NO_TRIG_IRQ PLP_DMA_SHARED
      in (counter, plp_dma_cmd_push cmd loc ext t))"

definition plp_dma_memcpy_priv :: "device \<Rightarrow> u32 \<Rightarrow> u32 \<Rightarrow> u16 \<Rightarrow> u32 \<Rightarrow> trace \<Rightarrow> u32 \<times> trace" where
  "plp_dma_memcpy_priv dev ext loc sz ext2loc t =
     (let (counter, t) = plp_dma_counter_alloc dev t;
          cmd = plp_dma_getCmd ext2loc (ucast sz) PLP_DMA_1D PLP_DMA_TRIG_EVT PLP_DMA_NO_TRIG_IRQ PLP_DMA_PRIV
      in (counter, plp_dma_cmd_push cmd loc ext t))"

definition plp_dma_l1ToExt :: "device \<Rightarrow> u32 \<Rightarrow> u32 \<Rightarrow> u16 \<Rightarrow> trace \<Rightarrow> u32 \<times> trace" where
  "plp_dma_l1ToExt dev ext loc sz t =
     (let (counter, t) = plp_dma_counter_alloc dev t;
          cmd = plp_dma_getCmd PLP_DMA_LOC2EXT (ucast sz) PLP_DMA_1D PLP_DMA_TRIG_EVT PLP_DMA_NO_TRIG_IRQ PLP_DMA_SHARED
      in (counter, plp_dma_cmd_push cmd loc ext t))"

definition plp_dma_extToL1 :: "device \<Rightarrow> u32 \<Rightarrow> u32 \<Rightarrow> u16 \<Rightarrow> trace \<Rightarrow> u32 \<times> trace" where
  "plp_dma_extToL1 dev loc ext sz t =
     (let (counter, t) = plp_dma_counter_alloc dev t;
          cmd = plp_dma_getCmd PLP_DMA_EXT2LOC (ucast sz) PLP_DMA_1D PLP_DMA_TRIG_EVT PLP_DMA_NO_TRIG_IRQ PLP_DMA_SHARED
      in (counter, plp_dma_cmd_push cmd loc ext t))"

definition plp_dma_memcpy_irq :: "device \<Rightarrow> u32 \<Rightarrow> u32 \<Rightarrow> u16 \<Rightarrow> u32 \<Rightarrow> trace \<Rightarrow> u32 \<times> trace" where
  "plp_dma_memcpy_irq dev ext loc sz ext2loc t =
     (let (counter, t) = plp_dma_counter_alloc dev t;
          cmd = plp_dma_getCmd ext2loc (ucast sz) PLP_DMA_1D PLP_DMA_NO_TRIG_EVT PLP_DMA_TRIG_IRQ PLP_DMA_SHARED
      in (counter, plp_dma_cmd_push cmd loc ext t))"

definition plp_dma_l1ToExt_irq :: "device \<Rightarrow> u32 \<Rightarrow> u32 \<Rightarrow> u16 \<Rightarrow> trace \<Rightarrow> u32 \<times> trace" where
  "plp_dma_l1ToExt_irq dev ext loc sz t =
     (let (counter, t) = plp_dma_counter_alloc dev t;
          cmd = plp_dma_getCmd PLP_DMA_LOC2EXT (ucast sz) PLP_DMA_1D PLP_DMA_NO_TRIG_EVT PLP_DMA_TRIG_IRQ PLP_DMA_SHARED
      in (counter, plp_dma_cmd_push cmd loc ext t))"

definition plp_dma_extToL1_irq :: "device \<Rightarrow> u32 \<Rightarrow> u32 \<Rightarrow> u16 \<Rightarrow> trace \<Rightarrow> u32 \<times> trace" where
  "plp_dma_extToL1_irq dev loc ext sz t =
     (let (counter, t) = plp_dma_counter_alloc dev t;
          cmd = plp_dma_getCmd PLP_DMA_EXT2LOC (ucast sz) PLP_DMA_1D PLP_DMA_NO_TRIG_EVT PLP_DMA_TRIG_IRQ PLP_DMA_SHARED
      in (counter, plp_dma_cmd_push cmd loc ext t))"

definition plp_dma_memcpy_2d_keepCounter :: "u32 \<Rightarrow> u32 \<Rightarrow> u16 \<Rightarrow> u16 \<Rightarrow> u16 \<Rightarrow> u32 \<Rightarrow> trace \<Rightarrow> trace" where
  "plp_dma_memcpy_2d_keepCounter ext loc sz stride len ext2loc t =
     plp_dma_cmd_push_2d (plp_dma_getCmd ext2loc (ucast sz) PLP_DMA_2D PLP_DMA_TRIG_EVT PLP_DMA_NO_TRIG_IRQ PLP_DMA_SHARED)
       loc ext (ucast stride) (ucast len) t"

definition plp_dma_memcpy_2d :: "device \<Rightarrow> u32 \<Rightarrow> u32 \<Rightarrow> u16 \<Rightarrow> u16 \<Rightarrow> u16 \<Rightarrow> u32 \<Rightarrow> trace \<Rightarrow> u32 \<times> trace" where
  "plp_dma_memcpy_2d dev ext loc sz stride len ext2loc t =
     (let (counter, t) = plp_dma_counter_alloc dev t
      in (counter, plp_dma_memcpy_2d_keepCounter ext loc sz stride len ext2loc t))"

definition plp_dma_l1ToExt_2d :: "device \<Rightarrow> u32 \<Rightarrow> u32 \<Rightarrow> u16 \<Rightarrow> u16 \<Rightarrow> u16 \<Rightarrow> trace \<Rightarrow> u32 \<times> trace" where
  "plp_dma_l1ToExt_2d dev ext loc sz stride len t =
     (let (counter, t) = plp_dma_counter_alloc dev t;
          cmd = plp_dma_getCmd PLP_DMA_LOC2EXT (ucast sz) PLP_DMA_2D PLP_DMA_TRIG_EVT PLP_DMA_NO_TRIG_IRQ PLP_DMA_SHARED
      in (counter, plp_dma_cmd_push_2d cmd loc ext (ucast stride) (ucast len) t))"

definition plp_dma_extToL1_2d :: "device \<Rightarrow> u32 \<Rightarrow> u32 \<Rightarrow> u16 \<Rightarrow> u16 \<Rightarrow> u16 \<Rightarrow> trace \<Rightarrow> u32 \<times> trace" where
  "plp_dma_extToL1_2d dev loc ext sz stride len t =
     (let (counter, t) = plp_dma_counter_alloc dev t;
          cmd = plp_dma_getCmd PLP_DMA_EXT2LOC (ucast sz) PLP_DMA_2D PLP_DMA_TRIG_EVT PLP_DMA_NO_TRIG_IRQ PLP_DMA_SHARED
      in (counter, plp_dma_cmd_push_2d cmd loc ext (ucast stride) (ucast len) t))"

definition plp_dma_memcpy_2d_irq :: "device \<Rightarrow> u32 \<Rightarrow> u32 \<Rightarrow> u16 \<Rightarrow> u16 \<Rightarrow> u16 \<Rightarrow> u32 \<Rightarrow> trace \<Rightarrow> u32 \<times> trace" where
  "plp_dma_memcpy_2d_irq dev ext loc sz stride len ext2loc t =
     (let (counter, t) = plp_dma_counter_alloc dev t;
          cmd = plp_dma_getCmd ext2loc (ucast sz) PLP_DMA_2D PLP_DMA_NO_TRIG_EVT PLP_DMA_TRIG_IRQ PLP_DMA_SHARED
      in (counter, plp_dma_cmd_push_2d cmd loc ext (ucast stride) (ucast len) t))"

definition plp_dma_l1ToExt_2d_irq :: "device \<Rightarrow> u32 \<Rightarrow> u32 \<Rightarrow> u16 \<Rightarrow> u16 \<Rightarrow> u16 \<Rightarrow> trace \<Rightarrow> u32 \<times> trace" where
  "plp_dma_l1ToExt_2d_irq dev ext loc sz stride len t =
     (let (counter, t) = plp_dma_counter_alloc dev t;
          cmd = plp_dma_getCmd PLP_DMA_LOC2EXT (ucast sz) PLP_DMA_2D PLP_DMA_NO_TRIG_EVT PLP_DMA_TRIG_IRQ PLP_DMA_SHARED
      in (counter, plp_dma_cmd_push_2d cmd loc ext (ucast stride) (ucast len) t))"

definition plp_dma_extToL1_2d_irq :: "device \<Rightarrow> u32 \<Rightarrow> u32 \<Rightarrow> u16 \<Rightarrow> u16 \<Rightarrow> u16 \<Rightarrow> trace \<Rightarrow> u32 \<times> trace" where
  "plp_dma_extToL1_2d_irq dev loc ext sz stride len t =
     (let (counter, t) = plp_dma_counter_alloc dev t;
          cmd = plp_dma_getCmd PLP_DMA_EXT2LOC (ucast sz) PLP_DMA_2D PLP_DMA_NO_TRIG_EVT PLP_DMA_TRIG_IRQ PLP_DMA_SHARED
      in (counter, plp_dma_cmd_push_2d cmd loc ext (ucast stride) (ucast len) t))"

section \<open>Waiting\<close>

text \<open>
  Both loops read the status and, while transfers are under way, sleep until the event of the engine. \<open>None\<close> is a loop
  that never ends.
\<close>

definition ARCHI_CL_EVT_DMA0 :: nat where "ARCHI_CL_EVT_DMA0 = 8"

definition dma_sleep_while :: "device \<Rightarrow> (u32 \<Rightarrow> bool) \<Rightarrow> trace \<Rightarrow> trace option" where
  "dma_sleep_while dev busy t =
     map_option snd (retry (DMA_READ dev PLP_DMA_STATUS_OFFSET) (\<lambda>status. \<not> busy status)
       (\<lambda>t. snd (eu_evt_maskWaitAndClr dev (push_bit ARCHI_CL_EVT_DMA0 1) t)) t)"

definition plp_dma_barrier :: "device \<Rightarrow> trace \<Rightarrow> trace option" where
  "plp_dma_barrier dev t =
     (case dma_sleep_while dev (\<lambda>status. status AND 0xFFFF \<noteq> 0) t of
        None \<Rightarrow> None
      | Some t \<Rightarrow> Some (DMA_WRITE (- 1) PLP_DMA_STATUS_OFFSET t))"

definition plp_dma_wait :: "device \<Rightarrow> u32 \<Rightarrow> trace \<Rightarrow> trace option" where
  "plp_dma_wait dev counter t =
     (case dma_sleep_while dev (\<lambda>status. status AND push_bit (unat counter) 1 \<noteq> 0) t of
        None \<Rightarrow> None
      | Some t \<Rightarrow> Some (plp_dma_counter_free counter t))"

definition plp_dma_status :: "device \<Rightarrow> trace \<Rightarrow> u32 \<times> trace" where
  "plp_dma_status dev t = DMA_READ dev PLP_DMA_STATUS_OFFSET t"

section \<open>The command word\<close>

lemma builtin_bitinsert_eq: "builtin_bitinsert = BITINSERT"
  by (intro ext) (simp add: builtin_bitinsert_def BITINSERT_def)

lemma bit_insert_flag:
  "i < 32 \<Longrightarrow> k < 32 \<Longrightarrow> bit (BITINSERT x y (Suc 0) k) i = (if i = k then bit y 0 else bit x i)"
  by (simp add: bit_BITINSERT)

lemma bit_insert_size: "i < 32 \<Longrightarrow> bit (BITINSERT x y 16 0) i = (if i < 16 then bit y i else bit x i)"
  by (simp add: bit_BITINSERT)

lemma bit_getCmd:
  assumes "i < 32"
  shows "bit (plp_dma_getCmd e s d v q b) i = (if i < 16 then bit s i else if i = 16 then bit e 0 else if i = 17 then True
    else if i = 18 then bit d 0 else if i = 19 then bit v 0 else if i = 20 then bit q 0 else i = 21 \<and> bit b 0)"
  using assms
  by (simp add: plp_dma_getCmd_def Let_def builtin_bitinsert_eq mchan_bits PLP_DMA_INC_def bit_insert_flag bit_insert_size)

lemma bit_flag: "x AND 1 = (x :: u32) \<Longrightarrow> bit x i \<Longrightarrow> i = 0"
  by (metis bit_and_iff bit_1_iff)

lemma getCmd_shifts:
  assumes "take_bit 16 s = s" "e AND 1 = e" "d AND 1 = d" "v AND 1 = v" "q AND 1 = q" "b AND 1 = b"
  shows "plp_dma_getCmd_shifts e s d v q b = plp_dma_getCmd e s d v q b"
proof (rule bit_word_eqI)
  fix i assume "i < LENGTH(32)"
  then have i: "i < 32" by simp
  have s: "bit s i \<longleftrightarrow> i < 16 \<and> bit s i" by (subst (1) assms(1) [symmetric]) (simp add: bit_take_bit_iff)
  have f: "bit (push_bit k x) i \<longleftrightarrow> i = k \<and> bit x 0" if "x AND 1 = x" for x :: u32 and k
  proof
    assume "bit (push_bit k x) i"
    then have "k \<le> i" "bit x (i - k)" by (auto simp: bit_push_bit_iff)
    with bit_flag [OF that, of "i - k"] show "i = k \<and> bit x 0" by simp
  qed (use i in \<open>simp add: bit_push_bit_iff\<close>)
  have inc: "bit (push_bit k (1 :: u32)) i \<longleftrightarrow> i = k" for k using i by (auto simp: bit_exp_iff)
  show "bit (plp_dma_getCmd_shifts e s d v q b) i = bit (plp_dma_getCmd e s d v q b) i"
    unfolding plp_dma_getCmd_shifts_def bit_or_iff f [OF assms(2)] f [OF assms(3)] f [OF assms(4)] f [OF assms(5)] f [OF assms(6)]
      PLP_DMA_INC_def inc bit_getCmd [OF i]
    using s by (auto simp: mchan_bits)
qed

lemma flag_eqI: "(\<And>i. i < 32 \<Longrightarrow> bit x i \<longleftrightarrow> i = 0 \<and> bit y 0) \<Longrightarrow> x = (y :: u32) AND 1"
  by (rule bit_word_eqI) (auto simp: bit_and_iff bit_1_iff)

text \<open>
  The fields of a command word read back as given: its size as the low 16 bits of the size, each flag as the lowest
  bit of its argument, the increment always set. For a size below \<open>2 ^ 16\<close> and flags that are 0 or 1 the version
  built from shifts is the same word. The word with the strides of a tile reads back only strides and lengths below
  \<open>2 ^ 15\<close>, while the documentation asks for less than \<open>2 ^ 16\<close>.
\<close>

theorem mchan_command_decodes:
  "let w = plp_dma_getCmd e s d v q b in
     PLP_DMA_SIZE_GET w = take_bit 16 s \<and> PLP_DMA_TYPE_GET w = e AND 1 \<and> PLP_DMA_INCR_GET w = 1 \<and> PLP_DMA_2D_GET w = d AND 1
     \<and> PLP_DMA_ELE_GET w = v AND 1 \<and> PLP_DMA_ILE_GET w = q AND 1 \<and> PLP_DMA_BLE_GET w = b AND 1
     \<and> (take_bit 16 s = s \<and> e AND 1 = e \<and> d AND 1 = d \<and> v AND 1 = v \<and> q AND 1 = q \<and> b AND 1 = b
         \<longrightarrow> plp_dma_getCmd_shifts e s d v q b = w)
     \<and> PLP_DMA_2D_STRIDE_GET (plp_dma_getStrides stride len) = take_bit 15 (ucast stride)
     \<and> PLP_DMA_2D_LEN_GET (plp_dma_getStrides stride len) = take_bit 15 (ucast len)"
proof -
  let ?w = "plp_dma_getCmd e s d v q b"
  have f: "drop_bit k ?w AND 1 = x AND 1" if "k < 32" "bit ?w k = bit x 0" for k and x :: u32
    using that by (intro bit_word_eqI) (auto simp: bit_and_iff bit_1_iff bit_drop_bit_eq)
  have "drop_bit 17 ?w AND 1 = 1 AND 1" by (rule f) (simp_all add: bit_getCmd)
  then have i: "PLP_DMA_INCR_GET ?w = 1" by (simp add: PLP_DMA_INCR_GET_def mchan_bits)
  have s: "PLP_DMA_SIZE_GET ?w = take_bit 16 s"
    unfolding PLP_DMA_SIZE_GET_def mchan_bits ones_mask take_bit_eq_mask [symmetric]
    by (rule bit_word_eqI) (auto simp: bit_take_bit_iff bit_getCmd)
  have g: "PLP_DMA_TYPE_GET ?w = e AND 1" "PLP_DMA_2D_GET ?w = d AND 1" "PLP_DMA_ELE_GET ?w = v AND 1"
    "PLP_DMA_ILE_GET ?w = q AND 1" "PLP_DMA_BLE_GET ?w = b AND 1"
    unfolding mchan_gets mchan_bits by (rule f; simp add: bit_getCmd)+
  have u: "bit (ucast x :: u32) i \<longleftrightarrow> i < 16 \<and> bit x i" for x :: u16 and i
    by (auto simp: bit_ucast_iff dest: bit_imp_le_length)
  have st: "PLP_DMA_2D_STRIDE_GET (plp_dma_getStrides stride len) = take_bit 15 (ucast stride)"
    "PLP_DMA_2D_LEN_GET (plp_dma_getStrides stride len) = take_bit 15 (ucast len)"
    unfolding mchan_gets mchan_bits ones_mask take_bit_eq_mask [symmetric] plp_dma_getStrides_def
    by (rule bit_word_eqI, auto simp: bit_or_iff bit_drop_bit_eq bit_take_bit_iff bit_push_bit_iff u)+
  show ?thesis using i s g st getCmd_shifts by (simp only: Let_def) blast
qed

theorem mchan_command_decodes_witness:
  "PLP_DMA_SIZE_GET (plp_dma_getCmd 1 64 0 1 0 1) = 64 \<and> plp_dma_getCmd_shifts 1 64 0 1 0 1 = plp_dma_getCmd 1 64 0 1 0 1
    \<and> PLP_DMA_2D_LEN_GET (plp_dma_getStrides 0 0x8000) = 0"
  using mchan_command_decodes [where e = 1 and s = 64 and d = 0 and v = 1 and q = 0 and b = 1 and stride = 0 and len = "0x8000"] by (simp add: Let_def take_bit_eq_mod)

section \<open>Transfers\<close>

definition mchan_reg :: "u32 \<Rightarrow> u32" where
  "mchan_reg offset = ARCHI_DEMUX_PERIPHERALS_ADDR + (ARCHI_MCHAN_DEMUX_OFFSET + offset)"

text \<open>What a transfer is on the bus: a read that allocates the counter it returns, and the words of the command.\<close>

definition issue :: "device \<Rightarrow> u32 list \<Rightarrow> trace \<Rightarrow> u32 \<times> trace" where
  "issue dev ws t = (let q = mchan_reg PLP_DMA_QUEUE_OFFSET
     in (dev t q, t @ MRead q (dev t q) # map (MWrite q) ws))"

definition cmd_1d :: "u32 \<Rightarrow> u16 \<Rightarrow> u32 \<Rightarrow> u32 \<Rightarrow> u32" where
  "cmd_1d dir sz evt irq = plp_dma_getCmd dir (ucast sz) 0 evt irq 1"

lemma dma_access: "DMA_WRITE v offset t = t @ [MWrite (mchan_reg offset) v]"
  "DMA_READ dev offset t = (dev t (mchan_reg offset), t @ [MRead (mchan_reg offset) (dev t (mchan_reg offset))])"
  by (simp_all add: DMA_WRITE_def DMA_READ_def mchan_reg_def mmio_write_def mmio_read_def Let_def)

lemmas transfer_defs = issue_def plp_dma_counter_alloc_def plp_dma_cmd_push_def plp_dma_cmd_push_2d_def dma_access

text \<open>
  Each transfer reads the queue once, for the counter it returns, and then pushes its command, the local address and
  the external address, and for a tile the word with stride and length, in this order. The copies with a fixed direction are
  those with the direction as an argument. A transfer merged into the previous one allocates no counter and returns -1.
\<close>

theorem mchan_transfers_queue:
  "plp_dma_memcpy dev ext loc sz dir t = issue dev [plp_dma_getCmd dir (ucast sz) 0 1 0 1, loc, ext] t
    \<and> plp_dma_memcpy_irq dev ext loc sz dir t = issue dev [plp_dma_getCmd dir (ucast sz) 0 0 1 1, loc, ext] t
    \<and> plp_dma_memcpy_priv dev ext loc sz dir t = issue dev [plp_dma_getCmd dir (ucast sz) 0 1 0 0, loc, ext] t
    \<and> plp_dma_memcpy_2d dev ext loc sz stride len dir t
        = issue dev [plp_dma_getCmd dir (ucast sz) 1 1 0 1, loc, ext, plp_dma_getStrides stride len] t
    \<and> plp_dma_memcpy_2d_irq dev ext loc sz stride len dir t
        = issue dev [plp_dma_getCmd dir (ucast sz) 1 0 1 1, loc, ext, plp_dma_getStrides stride len] t
    \<and> plp_dma_memcpy_merge dev ext loc sz dir False t = plp_dma_memcpy dev ext loc sz dir t
    \<and> plp_dma_memcpy_merge dev ext loc sz dir True t
        = (- 1, t @ map (MWrite (mchan_reg 0)) [plp_dma_getCmd dir (ucast sz) 0 1 0 1, loc, ext])
    \<and> plp_dma_l1ToExt dev ext loc sz t = plp_dma_memcpy dev ext loc sz PLP_DMA_LOC2EXT t
    \<and> plp_dma_extToL1 dev loc ext sz t = plp_dma_memcpy dev ext loc sz PLP_DMA_EXT2LOC t
    \<and> plp_dma_l1ToExt_irq dev ext loc sz t = plp_dma_memcpy_irq dev ext loc sz PLP_DMA_LOC2EXT t
    \<and> plp_dma_extToL1_irq dev loc ext sz t = plp_dma_memcpy_irq dev ext loc sz PLP_DMA_EXT2LOC t
    \<and> plp_dma_l1ToExt_2d dev ext loc sz stride len t = plp_dma_memcpy_2d dev ext loc sz stride len PLP_DMA_LOC2EXT t
    \<and> plp_dma_extToL1_2d dev loc ext sz stride len t = plp_dma_memcpy_2d dev ext loc sz stride len PLP_DMA_EXT2LOC t
    \<and> plp_dma_l1ToExt_2d_irq dev ext loc sz stride len t = plp_dma_memcpy_2d_irq dev ext loc sz stride len PLP_DMA_LOC2EXT t
    \<and> plp_dma_extToL1_2d_irq dev loc ext sz stride len t = plp_dma_memcpy_2d_irq dev ext loc sz stride len PLP_DMA_EXT2LOC t"
proof -
  have u: "ucast (ucast x :: u32) = x" for x :: u16 by (rule bit_word_eqI) (auto simp: bit_ucast_iff)
  note d = transfer_defs mchan_consts u Let_def prod.case append.assoc append_Cons append_Nil list.map
  show ?thesis
    by (simp only: plp_dma_memcpy_def plp_dma_memcpy_irq_def plp_dma_memcpy_priv_def plp_dma_memcpy_2d_def
        plp_dma_memcpy_2d_irq_def plp_dma_memcpy_merge_def plp_dma_l1ToExt_def plp_dma_extToL1_def plp_dma_l1ToExt_irq_def
        plp_dma_extToL1_irq_def plp_dma_l1ToExt_2d_def plp_dma_extToL1_2d_def plp_dma_l1ToExt_2d_irq_def
        plp_dma_extToL1_2d_irq_def plp_dma_memcpy_2d_keepCounter_def d simp_thms if_True if_False PLP_DMA_QUEUE_OFFSET_def)
qed

section \<open>Waiting for transfers\<close>

text \<open>The trace before the \<open>n\<close>-th look at the status, and what it shows.\<close>

definition nap :: "device \<Rightarrow> trace \<Rightarrow> trace" where
  "nap dev t = snd (eu_evt_maskWaitAndClr dev (push_bit ARCHI_CL_EVT_DMA0 1) t)"

definition before_look :: "device \<Rightarrow> nat \<Rightarrow> trace \<Rightarrow> trace" where
  "before_look dev n t = after_tries (DMA_READ dev PLP_DMA_STATUS_OFFSET) (nap dev) n t"

definition status_look :: "device \<Rightarrow> nat \<Rightarrow> trace \<Rightarrow> u32" where
  "status_look dev n t = fst (DMA_READ dev PLP_DMA_STATUS_OFFSET (before_look dev n t))"

lemma dma_sleep_eq: "dma_sleep_while dev busy t
    = map_option snd (retry (DMA_READ dev PLP_DMA_STATUS_OFFSET) (\<lambda>status. \<not> busy status) (nap dev) t)"
  unfolding dma_sleep_while_def nap_def by (rule refl)

text \<open>The access that ends the sleep is the first look that is not busy.\<close>

definition first_look :: "device \<Rightarrow> (u32 \<Rightarrow> bool) \<Rightarrow> trace \<Rightarrow> nat \<Rightarrow> bool" where
  "first_look dev busy t n \<longleftrightarrow> \<not> busy (status_look dev n t) \<and> (\<forall>k<n. busy (status_look dev k t))"

lemma first_look_ex: "(\<exists>n. first_look dev busy t n) \<longleftrightarrow> (\<exists>n. \<not> busy (status_look dev n t))"
  unfolding first_look_def by (rule exists_least_iff [of "\<lambda>n. \<not> busy (status_look dev n t)", unfolded not_not, symmetric])

lemma first_look_unique: "first_look dev busy t n \<Longrightarrow> first_look dev busy t k \<Longrightarrow> n = k"
  unfolding first_look_def by (cases n k rule: linorder_cases) blast+

lemma sleep_while_first:
  assumes "first_look dev busy t n"
  shows "dma_sleep_while dev busy t = Some (before_look dev n t @ [MRead (mchan_reg 4) (status_look dev n t)])"
  using retry_some [of "\<lambda>v. \<not> busy v" "DMA_READ dev PLP_DMA_STATUS_OFFSET" "nap dev" n t] assms
  by (simp add: dma_sleep_eq first_look_def status_look_def before_look_def dma_access PLP_DMA_STATUS_OFFSET_def)

lemma sleep_while_never: "(\<And>n. busy (status_look dev n t)) \<Longrightarrow> dma_sleep_while dev busy t = None"
  using retry_none [of "\<lambda>v. \<not> busy v" "DMA_READ dev PLP_DMA_STATUS_OFFSET" "nap dev" t]
  by (simp add: dma_sleep_eq status_look_def before_look_def)

lemma sleep_while_some:
  "dma_sleep_while dev busy t = Some u
    \<longleftrightarrow> (\<exists>n. first_look dev busy t n \<and> u = before_look dev n t @ [MRead (mchan_reg 4) (status_look dev n t)])"
proof (cases "\<exists>n. first_look dev busy t n")
  case True
  then obtain n where "first_look dev busy t n" ..
  then have "first_look dev busy t k \<longleftrightarrow> k = n" for k using first_look_unique by blast
  then show ?thesis using sleep_while_first [of dev busy t n] by auto
next
  case False
  then have "busy (status_look dev n t)" for n using first_look_ex [of dev busy t] by blast
  with False show ?thesis using sleep_while_never [of busy dev t] by simp
qed

lemma after_sleep: "(case dma_sleep_while dev busy t of None \<Rightarrow> None | Some u \<Rightarrow> Some (DMA_WRITE v PLP_DMA_STATUS_OFFSET u)) = Some t'
    \<longleftrightarrow> (\<exists>n. first_look dev busy t n
          \<and> t' = before_look dev n t @ [MRead (mchan_reg 4) (status_look dev n t), MWrite (mchan_reg 4) v])"
proof -
  have "(case dma_sleep_while dev busy t of None \<Rightarrow> None | Some u \<Rightarrow> Some (DMA_WRITE v PLP_DMA_STATUS_OFFSET u)) = Some t'
      \<longleftrightarrow> (\<exists>u. dma_sleep_while dev busy t = Some u \<and> t' = u @ [MWrite (mchan_reg 4) v])"
    by (cases "dma_sleep_while dev busy t") (auto simp: dma_access PLP_DMA_STATUS_OFFSET_def)
  also have "\<dots> \<longleftrightarrow> (\<exists>n. first_look dev busy t n
      \<and> t' = (before_look dev n t @ [MRead (mchan_reg 4) (status_look dev n t)]) @ [MWrite (mchan_reg 4) v])"
    unfolding sleep_while_some by blast
  finally show ?thesis by simp
qed

text \<open>
  C36: Waiting for a counter returns exactly when some look at the status shows the bit of this counter clear, the barrier
  exactly when some look shows the sixteen bits clear. The \<open>n\<close>-th look is the one after \<open>n\<close> looks, each followed by one sleep
  (\<open>before_look\<close>). The first look that shows the bits clear is the last one: the accesses of the call are the looks before
  it, that look, and the release of the counter, or of all of them, and nothing else.
\<close>

theorem mchan_wait_returns_iff:
  "((\<exists>t'. plp_dma_wait dev c t = Some t') \<longleftrightarrow> (\<exists>n. status_look dev n t AND push_bit (unat c) 1 = 0))
    \<and> ((\<exists>t'. plp_dma_barrier dev t = Some t') \<longleftrightarrow> (\<exists>n. status_look dev n t AND 0xFFFF = 0))
    \<and> (plp_dma_wait dev c t = Some t' \<longleftrightarrow> (\<exists>n. status_look dev n t AND push_bit (unat c) 1 = 0
         \<and> (\<forall>k<n. status_look dev k t AND push_bit (unat c) 1 \<noteq> 0)
         \<and> t' = before_look dev n t @ [MRead (mchan_reg 4) (status_look dev n t), MWrite (mchan_reg 4) (push_bit (unat c) 1)]))
    \<and> (plp_dma_barrier dev t = Some t' \<longleftrightarrow> (\<exists>n. status_look dev n t AND 0xFFFF = 0
         \<and> (\<forall>k<n. status_look dev k t AND 0xFFFF \<noteq> 0)
         \<and> t' = before_look dev n t @ [MRead (mchan_reg 4) (status_look dev n t), MWrite (mchan_reg 4) 0xFFFFFFFF]))"
proof (intro conjI)
  have w: "plp_dma_wait dev c t = Some u \<longleftrightarrow> (\<exists>n. first_look dev (\<lambda>v. v AND push_bit (unat c) 1 \<noteq> 0) t n
      \<and> u = before_look dev n t @ [MRead (mchan_reg 4) (status_look dev n t), MWrite (mchan_reg 4) (push_bit (unat c) 1)])" for u
    unfolding plp_dma_wait_def plp_dma_counter_free_def by (rule after_sleep)
  have ones: "(- 1 :: u32) = 0xFFFFFFFF" by simp
  have b: "plp_dma_barrier dev t = Some u \<longleftrightarrow> (\<exists>n. first_look dev (\<lambda>v. v AND 0xFFFF \<noteq> 0) t n
      \<and> u = before_look dev n t @ [MRead (mchan_reg 4) (status_look dev n t), MWrite (mchan_reg 4) 0xFFFFFFFF])" for u
    unfolding plp_dma_barrier_def ones by (rule after_sleep)
  show "(\<exists>t'. plp_dma_wait dev c t = Some t') \<longleftrightarrow> (\<exists>n. status_look dev n t AND push_bit (unat c) 1 = 0)"
    using first_look_ex [of dev "\<lambda>v. v AND push_bit (unat c) 1 \<noteq> 0" t] by (simp only: w not_not) blast
  show "(\<exists>t'. plp_dma_barrier dev t = Some t') \<longleftrightarrow> (\<exists>n. status_look dev n t AND 0xFFFF = 0)"
    using first_look_ex [of dev "\<lambda>v. v AND 0xFFFF \<noteq> 0" t] by (simp only: b not_not) blast
  show "plp_dma_wait dev c t = Some t' \<longleftrightarrow> (\<exists>n. status_look dev n t AND push_bit (unat c) 1 = 0
      \<and> (\<forall>k<n. status_look dev k t AND push_bit (unat c) 1 \<noteq> 0)
      \<and> t' = before_look dev n t @ [MRead (mchan_reg 4) (status_look dev n t), MWrite (mchan_reg 4) (push_bit (unat c) 1)])"
    by (simp only: w first_look_def not_not conj_assoc)
  show "plp_dma_barrier dev t = Some t' \<longleftrightarrow> (\<exists>n. status_look dev n t AND 0xFFFF = 0
      \<and> (\<forall>k<n. status_look dev k t AND 0xFFFF \<noteq> 0)
      \<and> t' = before_look dev n t @ [MRead (mchan_reg 4) (status_look dev n t), MWrite (mchan_reg 4) 0xFFFFFFFF])"
    by (simp only: b first_look_def not_not conj_assoc)
qed

theorem mchan_wait_returns_iff_witness:
  "\<exists>t'. plp_dma_wait (\<lambda>t _. if length t < 3 then 2 else 0) 1 [] = Some t' \<and> (\<nexists>t'. plp_dma_wait (\<lambda>_ _. 2) 1 [] = Some t')"
proof -
  let ?d = "\<lambda>t _. if length t < 3 then 2 else 0"
  have look: "status_look ?d 1 [] = 0"
    by (simp add: status_look_def before_look_def dma_access nap_def eu_evt_maskWaitAndClr_def eu_evt_waitAndClr_def evt_read32_def
        eu_evt_maskClr_def eu_evt_maskSet_def eu_evt_maskSet_base_def mmio_write_def mmio_read_def)
  have never: "status_look (\<lambda>_ _. 2) n [] = 2" for n
    by (simp add: status_look_def before_look_def dma_access)
  have "\<exists>t'. plp_dma_wait ?d 1 [] = Some t'"
    using mchan_wait_returns_iff [of ?d 1 "[]"] look by (metis and_zero_eq(1) zero_and_eq)
  moreover have "\<nexists>t'. plp_dma_wait (\<lambda>_ _. 2) 1 [] = Some t'"
    using mchan_wait_returns_iff [of "\<lambda>_ _. 2" 1 "[]"] never by simp
  ultimately show ?thesis by blast
qed

end
