(* ===== verification/Host_Access.thy ===== *)
theory Host_Access
  imports Event_Unit Dsp_Builtins
begin

text \<open>
  How a cluster reaches the host: the mailbox (\<^verbatim>\<open>hal/mailbox/mailbox_v0.h\<close>, \<^verbatim>\<open>.c\<close>), accesses that may miss in the address
  translation (\<^verbatim>\<open>hal/tryx/tryx_v1.h\<close>, \<^verbatim>\<open>.c\<close>), and the configuration of the translation itself, the remapping address
  block (\<^verbatim>\<open>hal/rab/rab_v1.h\<close>, register map \<^verbatim>\<open>archi/rab/rab_v1.h\<close>). The waits between two looks at the mailbox
  (\<^verbatim>\<open>rt_time_wait_cycles\<close>) only read the cycle counter and leave no access. Physical addresses are a type of the host
  (\<^verbatim>\<open>archi-host\<close>, not in the repository): a type parameter, and the functions that copy one are parameters.
\<close>

section \<open>Mailbox\<close>

definition ARCHI_SOC_PERIPHERALS_ADDR :: u32 where "ARCHI_SOC_PERIPHERALS_ADDR = 0x1A100000"
definition ARCHI_MAILBOX_BASE_ADDR :: u32 where "ARCHI_MAILBOX_BASE_ADDR = ARCHI_SOC_PERIPHERALS_ADDR + 0x21000"
definition MAILBOX_REG_WRDATA :: u32 where "MAILBOX_REG_WRDATA = ARCHI_MAILBOX_BASE_ADDR + 0x0"
definition MAILBOX_REG_RDDATA :: u32 where "MAILBOX_REG_RDDATA = ARCHI_MAILBOX_BASE_ADDR + 0x8"
definition MAILBOX_REG_STATUS :: u32 where "MAILBOX_REG_STATUS = ARCHI_MAILBOX_BASE_ADDR + 0x10"
definition MAILBOX_VALID :: i32 where "MAILBOX_VALID = 0"
definition MAILBOX_FAIL :: i32 where "MAILBOX_FAIL = - 1"

lemmas mailbox_regs = MAILBOX_REG_WRDATA_def MAILBOX_REG_RDDATA_def MAILBOX_REG_STATUS_def

definition mailbox_status_read :: "device \<Rightarrow> trace \<Rightarrow> u32 \<times> trace" where
  "mailbox_status_read dev t = mmio_read dev MAILBOX_REG_STATUS t"

definition mailbox_data_read :: "device \<Rightarrow> trace \<Rightarrow> u32 \<times> trace" where
  "mailbox_data_read dev t = mmio_read dev MAILBOX_REG_RDDATA t"

definition mailbox_data_write :: "u32 \<Rightarrow> trace \<Rightarrow> trace" where
  "mailbox_data_write v t = mmio_write MAILBOX_REG_WRDATA v t"

text \<open>The result of a read is the code returned, the value stored through the pointer and the trace.\<close>

definition mailbox_read :: "device \<Rightarrow> trace \<Rightarrow> (i32 \<times> u32 \<times> trace) option" where
  "mailbox_read dev t =
     (let (s, t) = mailbox_status_read dev t;
          waited = (if s AND 1 \<noteq> 0
                    then map_option snd (retry (mailbox_status_read dev) (\<lambda>s. s AND 1 = 0) (\<lambda>t. t) t)
                    else Some t)
      in case waited of
           None \<Rightarrow> None
         | Some t \<Rightarrow> let (v, t) = mailbox_data_read dev t in Some (MAILBOX_VALID, v, t))"

text \<open>The loop with the timeout, entered with the status set; the flag returned is the status after it.\<close>

fun mailbox_timed_loop :: "device \<Rightarrow> nat \<Rightarrow> trace \<Rightarrow> bool \<times> trace" where
  "mailbox_timed_loop dev 0 t = (True, t)"
| "mailbox_timed_loop dev (Suc timeout) t =
     (let (s, t) = mailbox_status_read dev t
      in if s AND 1 \<noteq> 0 then mailbox_timed_loop dev timeout t else (False, t))"

definition mailbox_read_timed :: "device \<Rightarrow> u32 \<Rightarrow> trace \<Rightarrow> i32 \<times> u32 option \<times> trace" where
  "mailbox_read_timed dev timeout t =
     (let (s, t) = mailbox_status_read dev t;
          (status, t) = (if s AND 1 \<noteq> 0 then mailbox_timed_loop dev (unat timeout) t else (False, t))
      in if status then (MAILBOX_FAIL, None, t)
         else let (v, t) = mailbox_data_read dev t in (MAILBOX_VALID, Some v, t))"

text \<open>Behind its loop \<^verbatim>\<open>mailbox_write\<close> tests the status once more, which is then 0.\<close>

definition mailbox_write :: "device \<Rightarrow> u32 \<Rightarrow> trace \<Rightarrow> (i32 \<times> trace) option" where
  "mailbox_write dev v t =
     (let (s, t) = mailbox_status_read dev t;
          waited = (if s AND 2 \<noteq> 0
                    then retry (mailbox_status_read dev) (\<lambda>s. s AND 2 = 0) (\<lambda>t. t) t
                    else Some (0, t))
      in case waited of
           None \<Rightarrow> None
         | Some (status, t) \<Rightarrow>
             if status AND 2 \<noteq> 0 then Some (MAILBOX_FAIL, t)
             else Some (MAILBOX_VALID, mailbox_data_write v t))"

section \<open>Accesses that may miss\<close>

definition ARCHI_TRYX_ADDR :: u32 where
  "ARCHI_TRYX_ADDR = 0x10000000 + ARCHI_CLUSTER_PERIPHERALS_OFFSET + 0xBFC"
definition EVTMASK_RAB_WAKEUP :: u32 where "EVTMASK_RAB_WAKEUP = push_bit 0 1"

definition pulp_tryx_has_slverr :: "device \<Rightarrow> trace \<Rightarrow> bool \<times> trace" where
  "pulp_tryx_has_slverr dev t = (let (v, t) = mmio_read dev ARCHI_TRYX_ADDR t in (v AND 1 = 1, t))"

definition pulp_tryx_set_prefetch :: "trace \<Rightarrow> trace" where
  "pulp_tryx_set_prefetch t = mmio_write ARCHI_TRYX_ADDR 0xFFFFFFFF t"

text \<open>The value read and whether the read missed.\<close>

definition pulp_tryread_noblock :: "device \<Rightarrow> u32 \<Rightarrow> trace \<Rightarrow> (u32 \<times> bool) \<times> trace" where
  "pulp_tryread_noblock dev a t =
     (let (v, t) = mmio_read dev a t; (miss, t) = pulp_tryx_has_slverr dev t in ((v, miss), t))"

definition pulp_trywrite_noblock :: "device \<Rightarrow> u32 \<Rightarrow> u32 \<Rightarrow> trace \<Rightarrow> bool \<times> trace" where
  "pulp_trywrite_noblock dev a v t = pulp_tryx_has_slverr dev (mmio_write a v t)"

definition pulp_tryx_slowpath :: "device \<Rightarrow> trace \<Rightarrow> trace" where
  "pulp_tryx_slowpath dev t =
     (let (saved, t) = mmio_read dev (ARCHI_EU_DEMUX_ADDR + EU_CORE_MASK) t;
          t = eu_evt_mask EVTMASK_RAB_WAKEUP t;
          (_, t) = evt_read32 dev ARCHI_EU_DEMUX_ADDR EU_CORE_EVENT_WAIT_CLEAR t
      in eu_evt_mask saved t)"

definition pulp_tryread :: "device \<Rightarrow> u32 \<Rightarrow> trace \<Rightarrow> (u32 \<times> trace) option" where
  "pulp_tryread dev a t =
     map_option (\<lambda>((v, _), t). (v, t))
       (retry (pulp_tryread_noblock dev a) (\<lambda>(_, miss). \<not> miss) (pulp_tryx_slowpath dev) t)"

definition pulp_trywrite :: "device \<Rightarrow> u32 \<Rightarrow> u32 \<Rightarrow> trace \<Rightarrow> trace option" where
  "pulp_trywrite dev a v t =
     map_option snd (retry (pulp_trywrite_noblock dev a v) (\<lambda>miss. \<not> miss) (pulp_tryx_slowpath dev) t)"

definition pulp_tryread_prefetch :: "device \<Rightarrow> u32 \<Rightarrow> trace \<Rightarrow> i32 \<times> trace" where
  "pulp_tryread_prefetch dev a t =
     (let t = pulp_tryx_set_prefetch t;
          (_, t) = mmio_read dev a t;
          (slverr, t) = pulp_tryx_has_slverr dev t
      in (if slverr then 1 else 0, t))"

definition pulp_trywrite_prefetch :: "device \<Rightarrow> u32 \<Rightarrow> trace \<Rightarrow> i32 \<times> trace" where
  "pulp_trywrite_prefetch dev a t =
     (let t = pulp_tryx_set_prefetch t;
          t = mmio_write a 0x5000BAD1 t;
          (slverr, t) = pulp_tryx_has_slverr dev t
      in (if slverr then 1 else 0, t))"

section \<open>The remapping address block\<close>

definition ENOENT :: i32 where "ENOENT = 2"
definition ARCHI_RAB_CFG_ADDR :: u32 where "ARCHI_RAB_CFG_ADDR = ARCHI_SOC_PERIPHERALS_ADDR + 0x30000"
definition RAB_CFG_FLAG_EN :: u32 where "RAB_CFG_FLAG_EN = push_bit 0 1"
definition RAB_CFG_FLAG_RDEN :: u32 where "RAB_CFG_FLAG_RDEN = push_bit 1 1"
definition RAB_CFG_FLAG_WREN :: u32 where "RAB_CFG_FLAG_WREN = push_bit 2 1"
definition RAB_CFG_FLAG_COHERENT :: u32 where "RAB_CFG_FLAG_COHERENT = push_bit 3 1"
definition RAB_L2_N_SETS :: u32 where "RAB_L2_N_SETS = 32"
definition RAB_L2_N_ENTRIES_PER_SET :: u32 where "RAB_L2_N_ENTRIES_PER_SET = 32"
definition RAB_CFG_L2_ADDR :: u32 where "RAB_CFG_L2_ADDR = ARCHI_RAB_CFG_ADDR + 2 * 0x4000"
definition RAB_CFG_L2_SET_PFN_MASK :: u32 where "RAB_CFG_L2_SET_PFN_MASK = RAB_L2_N_SETS - 1"
definition RAB_CFG_L2_VARAM_PTR :: "u32 \<Rightarrow> u32 \<Rightarrow> u32" where
  "RAB_CFG_L2_VARAM_PTR i_set i_entry = RAB_CFG_L2_ADDR + i_set * RAB_L2_N_ENTRIES_PER_SET * 4 + i_entry * 4"
definition RAB_CFG_L2_PARAM_PTR :: "u32 \<Rightarrow> u32 \<Rightarrow> u32" where
  "RAB_CFG_L2_PARAM_PTR i_set i_entry = RAB_CFG_L2_ADDR + i_set * RAB_L2_N_ENTRIES_PER_SET * 4 + i_entry * 4
     + RAB_L2_N_SETS * RAB_L2_N_ENTRIES_PER_SET * 4"
definition AXI_USER_WIDTH :: nat where "AXI_USER_WIDTH = 6"
definition AXI_ID_WIDTH_CORE :: nat where "AXI_ID_WIDTH_CORE = 4"
definition AXI_ID_WIDTH_CLUSTER :: nat where "AXI_ID_WIDTH_CLUSTER = 2"
definition RAB_PORT_ID_WIDTH :: nat where "RAB_PORT_ID_WIDTH = 1"

definition BIT_MASK_ONE :: "nat \<Rightarrow> u32" where "BIT_MASK_ONE n = push_bit n 1"
definition BIT_MASK_LSBS :: "nat \<Rightarrow> u32" where "BIT_MASK_LSBS n = BIT_MASK_ONE n - 1"
definition BIT_MASK_IMEDS :: "nat \<Rightarrow> nat \<Rightarrow> u32" where "BIT_MASK_IMEDS start n = push_bit start (BIT_MASK_LSBS n)"
definition BIT_SET :: "u32 \<Rightarrow> u32 \<Rightarrow> u32" where "BIT_SET y m = y OR m"
definition BIT_CLEAR :: "u32 \<Rightarrow> u32 \<Rightarrow> u32" where "BIT_CLEAR y m = y AND NOT m"
definition BIT_FLIP :: "u32 \<Rightarrow> u32 \<Rightarrow> u32" where "BIT_FLIP y m = y XOR m"
definition BIT_MASK_PREP :: "u32 \<Rightarrow> nat \<Rightarrow> nat \<Rightarrow> u32" where "BIT_MASK_PREP x start n = push_bit start (x AND BIT_MASK_LSBS n)"
definition BIT_GET :: "u32 \<Rightarrow> nat \<Rightarrow> nat \<Rightarrow> u32" where "BIT_GET y start n = drop_bit start y AND BIT_MASK_LSBS n"
definition BIT_INSERT :: "u32 \<Rightarrow> u32 \<Rightarrow> nat \<Rightarrow> nat \<Rightarrow> u32" where
  "BIT_INSERT y x start n = (y AND NOT (BIT_MASK_IMEDS start n)) OR BIT_MASK_PREP x start n"

record 'p rab_cfg_val =
  va_start :: u32
  va_end :: u32
  offset :: 'p
  cfg_flags :: u8

record rab_cfg_l2_val =
  virt_pfn :: u32
  phys_pfn :: u32
  l2_flags :: u8
  l2_set :: u8

record rab_miss_t =
  virt_addr :: u32
  miss_core_id :: i32
  miss_cluster_id :: i32
  intra_cluster_id :: i32
  is_prefetch :: u8

text \<open>
  A slice is eight words from its address on. \<open>cp_in\<close> and \<open>cp_out\<close> are \<^verbatim>\<open>copy_phys_addr\<close> from and to a register,
  \<open>cp\<close> the same between two variables, with its return code.
\<close>

definition read_rab_cfg_val ::
    "device \<Rightarrow> (device \<Rightarrow> u32 \<Rightarrow> trace \<Rightarrow> 'p \<times> trace) \<Rightarrow> u32 \<Rightarrow> trace \<Rightarrow> (i32 \<times> 'p rab_cfg_val) \<times> trace" where
  "read_rab_cfg_val dev cp_in src t =
     (let (w0, t) = mmio_read dev src t;
          (w2, t) = mmio_read dev (src + 8) t;
          (p, t) = cp_in dev (src + 16) t;
          (w6, t) = mmio_read dev (src + 24) t
      in ((0, \<lparr>va_start = w0, va_end = w2, offset = p, cfg_flags = ucast (w6 AND 0xFF)\<rparr>), t))"

definition write_rab_cfg_val ::
    "(u32 \<Rightarrow> 'p \<Rightarrow> trace \<Rightarrow> trace) \<Rightarrow> u32 \<Rightarrow> 'p rab_cfg_val \<Rightarrow> trace \<Rightarrow> i32 \<times> trace" where
  "write_rab_cfg_val cp_out dst src t =
     (let t = mmio_write (dst + 24) 0 t;
          t = mmio_write dst (va_start src) t;
          t = mmio_write (dst + 8) (va_end src) t;
          t = cp_out (dst + 16) (offset src) t;
          t = mmio_write (dst + 24) (0xFF AND ucast (cfg_flags src)) t
      in (0, t))"

definition rab_flags :: "u8 \<Rightarrow> u8 \<Rightarrow> u8" where
  "rab_flags rdonly cache_coherent =
     ucast (RAB_CFG_FLAG_EN OR RAB_CFG_FLAG_RDEN OR (if rdonly \<noteq> 0 then 0 else RAB_CFG_FLAG_WREN)
       OR (if cache_coherent \<noteq> 0 then RAB_CFG_FLAG_COHERENT else 0))"

definition config_rab_slice ::
    "('p \<Rightarrow> i32 \<times> 'p) \<Rightarrow> (u32 \<Rightarrow> 'p \<Rightarrow> trace \<Rightarrow> trace) \<Rightarrow> u32 \<Rightarrow> u32 \<Rightarrow> 'p \<Rightarrow> u32 \<Rightarrow> u8 \<Rightarrow> u8 \<Rightarrow> trace \<Rightarrow> i32 \<times> trace" where
  "config_rab_slice cp cp_out va0 va1 phys_addr rab_slice rdonly cache_coherent t =
     (let (ret, off) = cp phys_addr;
          cfg = \<lparr>va_start = va0, va_end = va1 - 1, offset = off, cfg_flags = rab_flags rdonly cache_coherent\<rparr>
      in if ret <s 0 then (ret, t)
         else let (ret, t) = write_rab_cfg_val cp_out rab_slice cfg t
              in if ret <s 0 then (ret, t) else (0, t))"

definition disable_rab_slice :: "u32 \<Rightarrow> trace \<Rightarrow> i32 \<times> trace" where
  "disable_rab_slice rab_slice t = (0, mmio_write (rab_slice + 24) 0 t)"

definition rab_slice_is_enabled :: "'p rab_cfg_val \<Rightarrow> bool" where
  "rab_slice_is_enabled cfg_val = (ucast (cfg_flags cfg_val) AND RAB_CFG_FLAG_EN = RAB_CFG_FLAG_EN)"

definition rab_slice_contains_virt_addr :: "'p rab_cfg_val \<Rightarrow> u32 \<Rightarrow> bool" where
  "rab_slice_contains_virt_addr cfg_val a = (a \<ge> va_start cfg_val \<and> a \<le> va_end cfg_val)"

definition page_set :: "u32 \<Rightarrow> u8" where
  "page_set pfn = ucast (pfn AND RAB_CFG_L2_SET_PFN_MASK)"

definition write_rab_cfg_l2_val :: "u32 \<Rightarrow> u32 \<Rightarrow> rab_cfg_l2_val \<Rightarrow> trace \<Rightarrow> i32 \<times> trace" where
  "write_rab_cfg_l2_val varam_ptr param_ptr src t =
     (let t = mmio_write varam_ptr 0 t;
          t = mmio_write param_ptr (phys_pfn src) t;
          t = mmio_write varam_ptr (push_bit 4 (virt_pfn src) OR ucast (l2_flags src)) t
      in (0, t))"

definition config_rab_l2_entry :: "u32 \<Rightarrow> u32 \<Rightarrow> u8 \<Rightarrow> u8 \<Rightarrow> u8 \<Rightarrow> u8 \<Rightarrow> trace \<Rightarrow> i32 \<times> trace" where
  "config_rab_l2_entry vpfn ppfn iset entry rdonly cache_coherent t =
     (let cfg = \<lparr>virt_pfn = vpfn, phys_pfn = ppfn, l2_flags = rab_flags rdonly cache_coherent, l2_set = iset\<rparr>;
          varam_ptr = RAB_CFG_L2_VARAM_PTR (ucast iset) (ucast entry);
          param_ptr = RAB_CFG_L2_PARAM_PTR (ucast iset) (ucast entry);
          (ret, t) = write_rab_cfg_l2_val varam_ptr param_ptr cfg t
      in if ret <s 0 then (ret, t) else (0, t))"

text \<open>The width of a SoC id is 3 on one chip and 1 on the others.\<close>

definition get_rab_miss :: "nat \<Rightarrow> device \<Rightarrow> rab_miss_t \<Rightarrow> trace \<Rightarrow> i32 \<times> rab_miss_t \<times> trace" where
  "get_rab_miss AXI_ID_WIDTH_SOC dev rab_miss t =
     (let (meta_fifo_val, t) = mmio_read dev (ARCHI_RAB_CFG_ADDR + 8) t
      in if BIT_GET meta_fifo_val 31 1 \<noteq> 0 then (- ENOENT, rab_miss, t)
         else
           let (va, t) = mmio_read dev ARCHI_RAB_CFG_ADDR t;
               axi_user = BIT_GET meta_fifo_val
                 (AXI_ID_WIDTH_CORE + AXI_ID_WIDTH_CLUSTER + AXI_ID_WIDTH_SOC + RAB_PORT_ID_WIDTH) AXI_USER_WIDTH
           in (0, \<lparr>virt_addr = va,
                   miss_core_id = BIT_GET meta_fifo_val 0 AXI_ID_WIDTH_CORE,
                   miss_cluster_id = BIT_GET meta_fifo_val (AXI_ID_WIDTH_CLUSTER + AXI_ID_WIDTH_CORE) AXI_ID_WIDTH_SOC,
                   intra_cluster_id = BIT_GET meta_fifo_val AXI_ID_WIDTH_CORE AXI_ID_WIDTH_CLUSTER,
                   is_prefetch = (if axi_user = BIT_MASK_LSBS AXI_USER_WIDTH then 1 else 0)\<rparr>, t))"

section \<open>What the mailbox functions wait for\<close>

text \<open>The status at the \<open>k\<close>-th look.\<close>

definition mbox_look :: "device \<Rightarrow> trace \<Rightarrow> nat \<Rightarrow> u32" where
  "mbox_look dev t k = dev (after_reads dev MAILBOX_REG_STATUS k t) MAILBOX_REG_STATUS"

lemma status_read_eq: "mailbox_status_read dev = mmio_read dev MAILBOX_REG_STATUS"
  by (intro ext) (simp add: mailbox_status_read_def)

lemma retry_status: "retry (mailbox_status_read dev) p (\<lambda>t. t) t = poll dev MAILBOX_REG_STATUS p t"
  by (simp add: poll_def status_read_eq)

lemma look_then_poll:
  "(let (s, t') = mailbox_status_read dev t
    in if \<not> p s then poll dev MAILBOX_REG_STATUS p t' else Some (s, t')) = poll dev MAILBOX_REG_STATUS p t"
  unfolding poll_def status_read_eq by (subst (2) retry_step) (simp add: split_def Let_def)

lemma mailbox_read_poll: "mailbox_read dev t = map_option (\<lambda>(_, t). (MAILBOX_VALID, mailbox_data_read dev t))
    (poll dev MAILBOX_REG_STATUS (\<lambda>s. s AND 1 = 0) t)"
proof (cases "mailbox_status_read dev t")
  case (Pair s t')
  then show ?thesis
    unfolding mailbox_read_def retry_status look_then_poll [of dev t "\<lambda>s. s AND 1 = 0", symmetric]
    by (cases "s AND 1 = 0") (simp_all add: split_def Let_def option.case_eq_if map_option_case)
qed

lemma mailbox_write_poll: "mailbox_write dev v t = map_option (\<lambda>(_, t). (MAILBOX_VALID, mailbox_data_write v t))
    (poll dev MAILBOX_REG_STATUS (\<lambda>s. s AND 2 = 0) t)"
proof (cases "mailbox_status_read dev t")
  case (Pair s t')
  show ?thesis
  proof (cases "s AND 2 = 0")
    case True
    with Pair show ?thesis
      unfolding mailbox_write_def retry_status look_then_poll [of dev t "\<lambda>s. s AND 2 = 0", symmetric] by simp
  next
    case False
    then show ?thesis
      using Pair poll_passes [of dev MAILBOX_REG_STATUS "\<lambda>s. s AND 2 = 0" t']
      unfolding mailbox_write_def retry_status look_then_poll [of dev t "\<lambda>s. s AND 2 = 0", symmetric]
      by (cases "poll dev MAILBOX_REG_STATUS (\<lambda>s. s AND 2 = 0) t'") auto
  qed
qed

lemma poll_mailbox:
  "poll dev MAILBOX_REG_STATUS (\<lambda>s. s AND m = 0) t =
     (if \<exists>k. mbox_look dev t k AND m = 0
      then (let k = LEAST k. mbox_look dev t k AND m = 0
            in Some (mbox_look dev t k, after_reads dev MAILBOX_REG_STATUS (Suc k) t))
      else None)"
proof (cases "\<exists>k. mbox_look dev t k AND m = 0")
  case True
  define K where "K = (LEAST k. mbox_look dev t k AND m = 0)"
  have k: "mbox_look dev t K AND m = 0" unfolding K_def using True by (rule LeastI_ex)
  have before: "mbox_look dev t j AND m \<noteq> 0" if "j < K" for j
    using that unfolding K_def by (rule not_less_Least)
  have "poll dev MAILBOX_REG_STATUS (\<lambda>s. s AND m = 0) t
      = Some (mbox_look dev t K, after_reads dev MAILBOX_REG_STATUS (Suc K) t)"
    unfolding mbox_look_def using k before unfolding mbox_look_def by (rule poll_some)
  then show ?thesis unfolding if_P [OF True] Let_def K_def [symmetric] .
next
  case False
  then show ?thesis using poll_none [of "\<lambda>s. s AND m = 0" dev MAILBOX_REG_STATUS t] by (simp add: mbox_look_def)
qed

lemma mbox_look_Suc: "mbox_look dev (t @ [MRead MAILBOX_REG_STATUS (mbox_look dev t 0)]) k = mbox_look dev t (Suc k)"
  by (simp add: mbox_look_def)

lemma timed_loop_busy:
  "\<forall>k<n. mbox_look dev t k AND 1 \<noteq> 0 \<Longrightarrow> mailbox_timed_loop dev n t = (True, after_reads dev MAILBOX_REG_STATUS n t)"
proof (induction n arbitrary: t)
  case (Suc n)
  then have "\<forall>k<n. mbox_look dev (t @ [MRead MAILBOX_REG_STATUS (mbox_look dev t 0)]) k AND 1 \<noteq> 0"
    unfolding mbox_look_Suc by auto
  from Suc.IH [OF this] Suc.prems show ?case
    by (auto simp: mailbox_status_read_def mmio_read_def mbox_look_def Let_def)
qed simp

lemma timed_loop_ready:
  "\<lbrakk>k < n; mbox_look dev t k AND 1 = 0; \<forall>j<k. mbox_look dev t j AND 1 \<noteq> 0\<rbrakk>
    \<Longrightarrow> mailbox_timed_loop dev n t = (False, after_reads dev MAILBOX_REG_STATUS (Suc k) t)"
proof (induction n arbitrary: t k)
  case (Suc n)
  show ?case
  proof (cases k)
    case 0
    with Suc.prems show ?thesis by (simp add: mailbox_status_read_def mmio_read_def mbox_look_def Let_def)
  next
    case (Suc k')
    have "mailbox_timed_loop dev n (t @ [MRead MAILBOX_REG_STATUS (mbox_look dev t 0)])
        = (False, after_reads dev MAILBOX_REG_STATUS (Suc k') (t @ [MRead MAILBOX_REG_STATUS (mbox_look dev t 0)]))"
      using Suc.prems Suc unfolding mbox_look_Suc [symmetric]
      by (intro Suc.IH) (auto simp: mbox_look_Suc)
    moreover have "mbox_look dev t 0 AND 1 \<noteq> 0" using Suc.prems(3) Suc by auto
    ultimately show ?thesis
      using Suc by (simp add: mailbox_status_read_def mmio_read_def mbox_look_def Let_def)
  qed
qed simp

lemma mailbox_read_timed_eq:
  "mailbox_read_timed dev timeout t =
     (if \<exists>k\<le>unat timeout. mbox_look dev t k AND 1 = 0
      then (let k = LEAST k. mbox_look dev t k AND 1 = 0;
                (v, t') = mailbox_data_read dev (after_reads dev MAILBOX_REG_STATUS (Suc k) t)
            in (MAILBOX_VALID, Some v, t'))
      else (MAILBOX_FAIL, None, after_reads dev MAILBOX_REG_STATUS (Suc (unat timeout)) t))"
proof -
  let ?s = "mbox_look dev t 0" and ?n = "unat timeout"
  let ?t = "t @ [MRead MAILBOX_REG_STATUS ?s]"
  have r: "mailbox_status_read dev t = (?s, ?t)"
    by (simp add: mailbox_status_read_def mmio_read_def mbox_look_def Let_def)
  have suc: "after_reads dev MAILBOX_REG_STATUS k ?t = after_reads dev MAILBOX_REG_STATUS (Suc k) t" for k
    by (simp add: mbox_look_def)
  show ?thesis
  proof (cases "\<exists>k\<le>?n. mbox_look dev t k AND 1 = 0")
    case False
    then have "mbox_look dev t 0 AND 1 \<noteq> 0" "\<forall>k<?n. mbox_look dev ?t k AND 1 \<noteq> 0"
      unfolding mbox_look_Suc by auto
    then show ?thesis
      unfolding if_not_P [OF False] mailbox_read_timed_def r using timed_loop_busy [of ?n dev ?t] suc by (simp del: after_reads.simps)
  next
    case True
    then obtain n where n: "n \<le> ?n" "mbox_look dev t n AND 1 = 0" by blast
    define K where "K = (LEAST k. mbox_look dev t k AND 1 = 0)"
    have k: "mbox_look dev t K AND 1 = 0" unfolding K_def using n(2) by (rule LeastI)
    have "K \<le> n" unfolding K_def using n(2) by (rule Least_le)
    have before: "mbox_look dev t j AND 1 \<noteq> 0" if "j < K" for j
      using that unfolding K_def by (rule not_less_Least)
    have "(if ?s AND 1 \<noteq> 0 then mailbox_timed_loop dev ?n ?t else (False, ?t))
        = (False, after_reads dev MAILBOX_REG_STATUS (Suc K) t)"
    proof (cases K)
      case 0
      with k show ?thesis by (simp add: mbox_look_def)
    next
      case (Suc K')
      with k before have "mbox_look dev ?t K' AND 1 = 0" "\<forall>j<K'. mbox_look dev ?t j AND 1 \<noteq> 0" "?s AND 1 \<noteq> 0"
        unfolding mbox_look_Suc by auto
      moreover have "K' < ?n" using Suc \<open>K \<le> n\<close> n(1) by linarith
      ultimately show ?thesis
        using timed_loop_ready [of K' ?n dev ?t] Suc suc by (simp del: after_reads.simps)
    qed
    then show ?thesis
      unfolding if_P [OF True] Let_def K_def [symmetric] mailbox_read_timed_def r prod.case
      by (simp only: prod.case if_False)
  qed
qed

text \<open>
  A read of the mailbox returns exactly when some look at the status shows a word, a write exactly when some look
  shows room; each accesses the data register once, right after the first such look. The read with a timeout always
  returns: it fails when the first \<open>timeout + 1\<close> looks all show the mailbox empty, and then takes no word.
\<close>

theorem mailbox_waits:
  "mailbox_read dev t =
     (if \<exists>k. mbox_look dev t k AND 1 = 0
      then (let k = LEAST k. mbox_look dev t k AND 1 = 0
            in Some (MAILBOX_VALID, mailbox_data_read dev (after_reads dev MAILBOX_REG_STATUS (Suc k) t)))
      else None)
   \<and> mailbox_write dev v t =
     (if \<exists>k. mbox_look dev t k AND 2 = 0
      then (let k = LEAST k. mbox_look dev t k AND 2 = 0
            in Some (MAILBOX_VALID, after_reads dev MAILBOX_REG_STATUS (Suc k) t @ [MWrite MAILBOX_REG_WRDATA v]))
      else None)
   \<and> mailbox_read_timed dev timeout t =
     (if \<exists>k\<le>unat timeout. mbox_look dev t k AND 1 = 0
      then (let k = LEAST k. mbox_look dev t k AND 1 = 0;
                (w, t') = mailbox_data_read dev (after_reads dev MAILBOX_REG_STATUS (Suc k) t)
            in (MAILBOX_VALID, Some w, t'))
      else (MAILBOX_FAIL, None, after_reads dev MAILBOX_REG_STATUS (Suc (unat timeout)) t))"
  unfolding mailbox_read_timed_eq
  by (intro conjI refl)
    (simp_all add: mailbox_read_poll mailbox_write_poll poll_mailbox Let_def mailbox_data_write_def mmio_write_def
      del: after_reads.simps)

section \<open>Accesses that miss\<close>

lemmas tryx_defs = pulp_tryread_noblock_def pulp_trywrite_noblock_def pulp_tryx_has_slverr_def pulp_tryx_slowpath_def
  eu_evt_mask_def evt_read32_def mmio_read_def mmio_write_def Let_def split_def

text \<open>The mask register answers with the mask its writes have left.\<close>

definition mask_readable :: "device \<Rightarrow> u32 \<Rightarrow> bool" where
  "mask_readable dev m = (\<forall>t. dev t (ARCHI_EU_DEMUX_ADDR + EU_CORE_MASK) = event_mask m t)"

definition not_mask :: "u32 \<Rightarrow> bool" where
  "not_mask a = (a \<notin> {ARCHI_EU_DEMUX_ADDR + EU_CORE_MASK, ARCHI_EU_DEMUX_ADDR + EU_CORE_MASK_OR,
     ARCHI_EU_DEMUX_ADDR + EU_CORE_MASK_AND})"

lemma event_mask_other: "not_mask a \<Longrightarrow> event_mask m (t @ [MWrite a v]) = event_mask m t"
  by (simp add: event_mask_def mask_step_def not_mask_def)

lemma slowpath_mask:
  assumes "mask_readable dev m"
  shows "event_mask m (pulp_tryx_slowpath dev t) = event_mask m t"
  using assms by (simp add: tryx_defs mask_readable_def)

lemma after_tries_mask:
  assumes "mask_readable dev m" "\<And>t. event_mask m (snd (attempt t)) = event_mask m t"
  shows "event_mask m (after_tries attempt (pulp_tryx_slowpath dev) n t) = event_mask m t"
  by (induction n arbitrary: t) (simp_all add: slowpath_mask [OF assms(1)] assms(2))

lemma tryread_noblock_eq: "pulp_tryread_noblock dev a t =
    (let v = dev t a; e = dev (t @ [MRead a v]) ARCHI_TRYX_ADDR
     in ((v, e AND 1 = 1), t @ [MRead a v, MRead ARCHI_TRYX_ADDR e]))"
  by (simp add: tryx_defs)

lemma trywrite_noblock_eq: "pulp_trywrite_noblock dev a v t =
    (let e = dev (t @ [MWrite a v]) ARCHI_TRYX_ADDR
     in (e AND 1 = 1, t @ [MWrite a v, MRead ARCHI_TRYX_ADDR e]))"
  by (simp add: tryx_defs)

text \<open>
  C35: A blocking read returns exactly when some attempt does not miss, with the value of an attempt that did not: its
  last two accesses are that read and a look at the error register that shows no error. A blocking write ends with a
  write that did not miss. However often the core slept in between, its event mask is as before, provided
  the mask register can be read back and the address is not that register.
\<close>

theorem tryx_retries:
  assumes "mask_readable dev m" "not_mask a"
  shows "((\<exists>r. pulp_tryread dev a t = Some r) \<longleftrightarrow>
       (\<exists>n. \<not> snd (fst (pulp_tryread_noblock dev a (after_tries (pulp_tryread_noblock dev a) (pulp_tryx_slowpath dev) n t)))))
    \<and> (\<forall>v t'. pulp_tryread dev a t = Some (v, t') \<longrightarrow> event_mask m t' = event_mask m t
         \<and> (\<exists>t0 e. e AND 1 \<noteq> 1 \<and> t' = t0 @ [MRead a v, MRead ARCHI_TRYX_ADDR e]))
    \<and> (\<forall>t'. pulp_trywrite dev a w t = Some t' \<longrightarrow> event_mask m t' = event_mask m t
         \<and> (\<exists>t0 e. e AND 1 \<noteq> 1 \<and> t' = t0 @ [MWrite a w, MRead ARCHI_TRYX_ADDR e]))"
proof (intro conjI allI impI)
  let ?rd = "pulp_tryread_noblock dev a" and ?wr = "pulp_trywrite_noblock dev a w"
  have m: "event_mask m (snd (?rd t)) = event_mask m t" "event_mask m (snd (?wr t)) = event_mask m t" for t
    using event_mask_other [OF assms(2), of m t w]
    by (simp_all add: tryread_noblock_eq trywrite_noblock_eq Let_def) (simp add: event_mask_def mask_step_def)
  show "(\<exists>r. pulp_tryread dev a t = Some r)
      \<longleftrightarrow> (\<exists>n. \<not> snd (fst (?rd (after_tries ?rd (pulp_tryx_slowpath dev) n t))))"
  proof -
    have "(\<exists>r. pulp_tryread dev a t = Some r) \<longleftrightarrow> (\<exists>r. retry ?rd (\<lambda>p. \<not> snd p) (pulp_tryx_slowpath dev) t = Some r)"
      unfolding pulp_tryread_def split_def by (auto simp only: map_option_eq_Some)
    then show ?thesis by (simp only: retry_iff)
  qed
  show "event_mask m t' = event_mask m t" "\<exists>t0 e. e AND 1 \<noteq> 1 \<and> t' = t0 @ [MRead a v, MRead ARCHI_TRYX_ADDR e]"
    if "pulp_tryread dev a t = Some (v, t')" for v t'
  proof -
    from that obtain miss where "retry ?rd (\<lambda>(_, miss). \<not> miss) (pulp_tryx_slowpath dev) t = Some ((v, miss), t')"
      by (auto simp: pulp_tryread_def)
    then obtain n where r: "?rd (after_tries ?rd (pulp_tryx_slowpath dev) n t) = ((v, miss), t')" "\<not> miss"
      by (rule retry_result) simp
    show "event_mask m t' = event_mask m t"
      by (metis r(1) snd_conv m(1) after_tries_mask [OF assms(1), of ?rd, OF m(1)])
    show "\<exists>t0 e. e AND 1 \<noteq> 1 \<and> t' = t0 @ [MRead a v, MRead ARCHI_TRYX_ADDR e]"
      using r by (auto simp: tryread_noblock_eq Let_def)
  qed
  show "event_mask m t' = event_mask m t" "\<exists>t0 e. e AND 1 \<noteq> 1 \<and> t' = t0 @ [MWrite a w, MRead ARCHI_TRYX_ADDR e]"
    if "pulp_trywrite dev a w t = Some t'" for t'
  proof -
    from that obtain miss where "retry ?wr (\<lambda>miss. \<not> miss) (pulp_tryx_slowpath dev) t = Some (miss, t')"
      by (auto simp: pulp_trywrite_def)
    then obtain n where r: "?wr (after_tries ?wr (pulp_tryx_slowpath dev) n t) = (miss, t')" "\<not> miss"
      by (rule retry_result)
    show "event_mask m t' = event_mask m t"
      by (metis r(1) snd_conv m(2) after_tries_mask [OF assms(1), of ?wr, OF m(2)])
    show "\<exists>t0 e. e AND 1 \<noteq> 1 \<and> t' = t0 @ [MWrite a w, MRead ARCHI_TRYX_ADDR e]"
      using r by (auto simp: trywrite_noblock_eq Let_def)
  qed
qed

definition demo_host :: device where
  "demo_host t a = (if a = ARCHI_EU_DEMUX_ADDR + EU_CORE_MASK then event_mask 5 t
     else if a = ARCHI_TRYX_ADDR then (if length t < 4 then 1 else 0) else 7)"

theorem tryx_retries_witness:
  "\<exists>v t'. pulp_tryread demo_host 0x10000000 [] = Some (v, t') \<and> event_mask 5 t' = 5"
proof -
  let ?rd = "pulp_tryread_noblock demo_host 0x10000000"
  have "mask_readable demo_host 5" by (simp add: mask_readable_def demo_host_def)
  moreover have "not_mask 0x10000000"
    by (simp add: not_mask_def ARCHI_EU_DEMUX_ADDR_def ARCHI_DEMUX_PERIPHERALS_ADDR_def ARCHI_CLUSTER_ADDR_def
        ARCHI_DEMUX_PERIPHERALS_OFFSET_def eu_offsets)
  moreover have "\<not> snd (fst (?rd (after_tries ?rd (pulp_tryx_slowpath demo_host) 1 [])))"
    by (simp add: tryx_defs demo_host_def ARCHI_TRYX_ADDR_def ARCHI_CLUSTER_PERIPHERALS_OFFSET_def ARCHI_EU_DEMUX_ADDR_def
        ARCHI_DEMUX_PERIPHERALS_ADDR_def ARCHI_CLUSTER_ADDR_def ARCHI_DEMUX_PERIPHERALS_OFFSET_def eu_offsets)
  ultimately show ?thesis
    using tryx_retries [of demo_host 5 "0x10000000" "[]"] by (metis event_mask_simps(1) surj_pair)
qed

section \<open>Slices of the remapping address block\<close>

text \<open>What the copies of a physical address do on the bus: only the two words at the given address are accessed.\<close>

definition two_words :: "u32 \<Rightarrow> mmio \<Rightarrow> bool" where
  "two_words a e = (\<exists>b v. b \<in> {a, a + 4} \<and> (e = MWrite b v \<or> e = MRead b v))"

definition copies_phys_addr :: "(u32 \<Rightarrow> 'p \<Rightarrow> trace \<Rightarrow> trace) \<Rightarrow> bool" where
  "copies_phys_addr cp_out = (\<forall>a p t. \<exists>u. cp_out a p t = t @ u \<and> (\<forall>e \<in> set u. two_words a e))"

definition reads_phys_addr :: "(device \<Rightarrow> u32 \<Rightarrow> trace \<Rightarrow> 'p \<times> trace) \<Rightarrow> bool" where
  "reads_phys_addr cp_in = (\<forall>dev a t. \<exists>u. snd (cp_in dev a t) = t @ u \<and> (\<forall>e \<in> set u. \<exists>b v. e = MRead b v))"

lemma last_written_only_reads: "\<forall>e \<in> set u. \<exists>b v. e = MRead b v \<Longrightarrow> last_written u a = None"
  by (induction u) (auto split: option.splits)

lemma last_written_elsewhere: "\<forall>e \<in> set u. two_words b e \<Longrightarrow> a \<noteq> b \<Longrightarrow> a \<noteq> b + 4 \<Longrightarrow> last_written u a = None"
  by (induction u) (auto simp: two_words_def split: option.splits)

lemma word_offsets: "(s :: u32) + 24 \<noteq> s + 16" "s + 24 \<noteq> s + 16 + 4" "s \<noteq> s + 16" "s \<noteq> s + 16 + 4"
  "s + 8 \<noteq> s + 16" "s + 8 \<noteq> s + 16 + 4" "s \<noteq> s + 24" "s + 8 \<noteq> s + 24" "s \<noteq> s + 8" "s + 24 \<noteq> s" "s + 24 \<noteq> s + 8"
  by (simp_all add: add.assoc)

lemma rab_flags_bits: "ucast (rab_flags rdonly coherent) AND (0xFF :: u32) = ucast (rab_flags rdonly coherent)"
  "(ucast (ucast (0xFF AND (ucast (rab_flags rdonly coherent) :: u32)) :: u8) AND RAB_CFG_FLAG_EN) = RAB_CFG_FLAG_EN"
  by (auto simp: rab_flags_def RAB_CFG_FLAG_EN_def RAB_CFG_FLAG_RDEN_def RAB_CFG_FLAG_WREN_def RAB_CFG_FLAG_COHERENT_def)

lemma end_exclusive:
  assumes "b < e \<or> e = 0"
  shows "(b \<le> a \<and> a \<le> e - 1) \<longleftrightarrow> b \<le> a \<and> (a < e \<or> e = (0 :: u32))"
proof (cases "e = 0")
  case True
  then show ?thesis by simp
next
  case False
  then have "a \<le> e - 1 \<longleftrightarrow> a < e" by unat_arith
  with False show ?thesis by simp
qed

lemma last_written_cons_other: "a \<noteq> b \<Longrightarrow> last_written (MWrite b v # u) a = last_written u a"
  by (simp split: option.splits)

lemma read_written_cfg:
  assumes "reads_phys_addr cp_in"
  shows "let cfg = snd (fst (read_rab_cfg_val written cp_in s t)) in
    va_start cfg = written t s \<and> va_end cfg = written t (s + 8) \<and> cfg_flags cfg = ucast (written t (s + 24) AND 0xFF)"
proof -
  let ?t = "(t @ [MRead s (written t s)]) @ [MRead (s + 8) (written t (s + 8))]"
  obtain u where u: "snd (cp_in written (s + 16) ?t) = ?t @ u" "\<forall>e \<in> set u. \<exists>b v. e = MRead b v"
    using assms unfolding reads_phys_addr_def by metis
  have w: "written (x @ y) a = written x a" if "\<forall>e \<in> set y. \<exists>b v. e = MRead b v" for x y a
    using last_written_only_reads [OF that] by (simp add: written_def last_written_append)
  have "written ?t a = written t a" for a 
    using w [of "[MRead s (written t s), MRead (s + 8) (written t (s + 8))]" t a] by simp
  then show ?thesis
    using u w [OF u(2), of ?t] w [of "[MRead s (written t s)]" t "s + 8"]
    by (simp add: read_rab_cfg_val_def mmio_read_def Let_def split_def)
qed

lemma config_rab_slice_trace:
  assumes "copies_phys_addr cp_out" "cp phys = (0, off)"
  obtains u where "config_rab_slice cp cp_out va0 va1 phys s rdonly coherent t =
      (0, t @ MWrite (s + 24) 0 # ([MWrite s va0, MWrite (s + 8) (va1 - 1)] @ u)
            @ [MWrite (s + 24) (ucast (rab_flags rdonly coherent))])"
    "\<forall>e \<in> set u. two_words (s + 16) e"
proof -
  let ?t = "((t @ [MWrite (s + 24) 0]) @ [MWrite s va0]) @ [MWrite (s + 8) (va1 - 1)]"
  obtain u where u: "cp_out (s + 16) off ?t = ?t @ u" "\<forall>e \<in> set u. two_words (s + 16) e"
    using assms(1) unfolding copies_phys_addr_def by metis
  have "0xFF AND ucast (rab_flags rdonly coherent) = (ucast (rab_flags rdonly coherent) :: u32)"
    using rab_flags_bits(1) by (simp add: and.commute)
  then show thesis
    using that [OF _ u(2)] u(1) assms(2)
    by (simp add: config_rab_slice_def write_rab_cfg_val_def mmio_write_def Let_def)
qed

text \<open>
  C34: For a range whose end is behind its beginning or 0, a physical address that is accepted, and functions that copy a
  physical address by writing only its two words and by reading only: configuring a slice first writes 0 to its flags and last the flags with the enable bit; no access in between
  touches them, so that the slice is disabled while its addresses change. Read back, the slice is enabled and contains
  exactly the addresses from \<open>begin\<close> to before \<open>end\<close>, an \<open>end\<close> of 0 standing for the end of the address
  space. Disabled, it reads back as disabled.
\<close>

theorem rab_slice_round_trip:
  assumes "copies_phys_addr cp_out" "reads_phys_addr cp_in" "cp phys = (0, off)" "va0 < va1 \<or> va1 = 0"
  shows "\<exists>u f. config_rab_slice cp cp_out va0 va1 phys s rdonly coherent t = (0, t @ MWrite (s + 24) 0 # u @ [MWrite (s + 24) f])
    \<and> (\<forall>e \<in> set u. \<forall>v. e \<noteq> MWrite (s + 24) v)
    \<and> (let t' = snd (config_rab_slice cp cp_out va0 va1 phys s rdonly coherent t);
           cfg = snd (fst (read_rab_cfg_val written cp_in s t')) in
         rab_slice_is_enabled cfg \<and> (\<forall>a. rab_slice_contains_virt_addr cfg a \<longleftrightarrow> va0 \<le> a \<and> (a < va1 \<or> va1 = 0))
       \<and> \<not> rab_slice_is_enabled (snd (fst (read_rab_cfg_val written cp_in s (snd (disable_rab_slice s t'))))))"
proof -
  obtain u where c: "config_rab_slice cp cp_out va0 va1 phys s rdonly coherent t =
      (0, t @ MWrite (s + 24) 0 # ([MWrite s va0, MWrite (s + 8) (va1 - 1)] @ u)
            @ [MWrite (s + 24) (ucast (rab_flags rdonly coherent))])"
    and u: "\<forall>e \<in> set u. two_words (s + 16) e"
    using config_rab_slice_trace [OF assms(1), of cp phys off va0 va1 s rdonly coherent t] assms(3) by metis
  let ?t' = "t @ MWrite (s + 24) 0 # ([MWrite s va0, MWrite (s + 8) (va1 - 1)] @ u)
            @ [MWrite (s + 24) (ucast (rab_flags rdonly coherent))]"
  note lw = last_written_elsewhere [OF u]
  have w: "written ?t' s = va0" "written ?t' (s + 8) = va1 - 1" "written ?t' (s + 24) = ucast (rab_flags rdonly coherent)"
    using word_offsets [of s] lw [of s] lw [of "s + 8"] lw [of "s + 24"]
    by (simp_all add: written_def last_written_append)
  have r: "let cfg = snd (fst (read_rab_cfg_val written cp_in s ?t')) in
      rab_slice_is_enabled cfg \<and> (\<forall>a. rab_slice_contains_virt_addr cfg a \<longleftrightarrow> va0 \<le> a \<and> (a < va1 \<or> va1 = 0))"
    using read_written_cfg [OF assms(2), of s ?t'] w end_exclusive [OF assms(4)] rab_flags_bits(2) [of rdonly coherent]
    by (simp only: Let_def rab_slice_is_enabled_def rab_slice_contains_virt_addr_def) (simp add: and.commute)
  have "written (?t' @ [MWrite (s + 24) 0]) (s + 24) = 0" by (simp add: written_def last_written_append)
  then have d: "\<not> rab_slice_is_enabled (snd (fst (read_rab_cfg_val written cp_in s (?t' @ [MWrite (s + 24) 0]))))"
    using read_written_cfg [OF assms(2), of s "?t' @ [MWrite (s + 24) 0]"]
    by (simp only: Let_def rab_slice_is_enabled_def) (simp add: RAB_CFG_FLAG_EN_def)
  have n: "\<forall>e \<in> set ([MWrite s va0, MWrite (s + 8) (va1 - 1)] @ u). \<forall>v. e \<noteq> MWrite (s + 24) v"
    using u word_offsets [of s] by (auto simp: two_words_def)
  show ?thesis
    unfolding c snd_conv disable_rab_slice_def mmio_write_def using r d n unfolding Let_def by blast
qed

theorem rab_slice_round_trip_witness:
  "\<exists>t'. config_rab_slice (\<lambda>p. (0, p)) (\<lambda>a p t. t @ [MWrite a p]) 0x40000000 0x40001000 (0x80000000 :: u32) 0x1A130020 0 1 [] = (0, t')
    \<and> rab_slice_contains_virt_addr (snd (fst (read_rab_cfg_val written (\<lambda>dev a t. mmio_read dev a t) 0x1A130020 t'))) 0x40000FFF"
proof -
  have "copies_phys_addr (\<lambda>a (p :: u32) t. t @ [MWrite a p])" by (auto simp: copies_phys_addr_def two_words_def)
  moreover have "reads_phys_addr (\<lambda>dev a t. mmio_read dev a t)" by (simp add: reads_phys_addr_def mmio_read_def Let_def)
  ultimately show ?thesis
    using rab_slice_round_trip [of "\<lambda>a (p :: u32) t. t @ [MWrite a p]" "\<lambda>dev a t. mmio_read dev a t" "\<lambda>p. (0, p)" "0x80000000"
        "0x80000000" "0x40000000" "0x40001000" "0x1A130020" 0 1 "[]"] by (auto simp: Let_def)
qed

section \<open>Entries of the second level and misses\<close>

lemma BIT_macros: "BIT_INSERT y x start n = BITINSERT y x n start" "BIT_GET y start n = drop_bit start y AND mask n"
  by (simp_all add: BIT_INSERT_def BITINSERT_def BIT_MASK_IMEDS_def BIT_MASK_LSBS_def BIT_MASK_ONE_def BIT_MASK_PREP_def
      BIT_GET_def field_def mask_eq_exp_minus_1)

lemma BIT_GET_INSERT: "start + n \<le> 32 \<Longrightarrow> BIT_GET (BIT_INSERT y x start n) start n = take_bit n x"
  by (rule bit_word_eqI)
    (auto simp: BIT_macros bit_and_iff bit_drop_bit_eq bit_mask_iff bit_BITINSERT bit_take_bit_iff)

lemma rab_flags_small: "(ucast (rab_flags rdonly coherent) :: u32) = take_bit 4 (ucast (rab_flags rdonly coherent))"
  by (auto simp: rab_flags_def RAB_CFG_FLAG_EN_def RAB_CFG_FLAG_RDEN_def RAB_CFG_FLAG_WREN_def RAB_CFG_FLAG_COHERENT_def
      take_bit_eq_mod)

lemma l2_word_fields:
  assumes "f = take_bit 4 f"
  shows "drop_bit 4 (push_bit 4 v OR f) = take_bit 28 (v :: u32)" "take_bit 4 (push_bit 4 v OR f) = f"
proof -
  have f: "i < 4" if "bit f i" for i
    using that by (subst (asm) assms) (simp add: bit_take_bit_iff)
  show "drop_bit 4 (push_bit 4 v OR f) = take_bit 28 v"
    by (rule bit_word_eqI) (auto simp: bit_drop_bit_eq bit_or_iff bit_push_bit_iff bit_take_bit_iff dest: f)
  show "take_bit 4 (push_bit 4 v OR f) = f"
    by (rule bit_word_eqI) (auto simp: bit_or_iff bit_push_bit_iff bit_take_bit_iff dest: f)
qed

text \<open>The entry is invalid while its translation changes, and the word that enables it holds page number and flags.\<close>

theorem rab_l2_entry_written:
  "\<exists>w. config_rab_l2_entry vpfn ppfn i entry rdonly coherent t =
      (0, t @ [MWrite (RAB_CFG_L2_VARAM_PTR (ucast i) (ucast entry)) 0, MWrite (RAB_CFG_L2_PARAM_PTR (ucast i) (ucast entry)) ppfn,
               MWrite (RAB_CFG_L2_VARAM_PTR (ucast i) (ucast entry)) w])
    \<and> drop_bit 4 w = take_bit 28 vpfn \<and> take_bit 4 w = ucast (rab_flags rdonly coherent)"
  using l2_word_fields [OF rab_flags_small, of vpfn]
  by (simp add: config_rab_l2_entry_def write_rab_cfg_l2_val_def mmio_write_def Let_def)

text \<open>An empty queue of misses is reported without a change of the result.\<close>

lemma get_rab_miss_empty:
  assumes "bit (dev t (ARCHI_RAB_CFG_ADDR + 8)) 31"
  shows "\<exists>t'. get_rab_miss n dev m t = (- ENOENT, m, t')"
proof -
  have "bit (BIT_GET (dev t (ARCHI_RAB_CFG_ADDR + 8)) 31 1) 0"
    using assms by (simp add: BIT_macros bit_and_iff bit_drop_bit_eq bit_mask_iff)
  then have "BIT_GET (dev t (ARCHI_RAB_CFG_ADDR + 8)) 31 1 \<noteq> 0" by auto
  then show ?thesis by (simp add: get_rab_miss_def mmio_read_def Let_def)
qed

end
