(* ===== verification/Soc_Control.thy ===== *)
theory Soc_Control
  imports Host_Access "HOL-Library.Signed_Division"
begin

text \<open>
  The controllers around the clusters: pads, boot address and status (\<^verbatim>\<open>hal/apb_soc/apb_soc_v3.h\<close>), fetch enable and boot
  addresses of a cluster (\<^verbatim>\<open>hal/cluster_ctrl/cluster_ctrl_v2.h\<close>), timers (\<^verbatim>\<open>hal/timer/timer_v2.h\<close> and the access functions
  of \<^verbatim>\<open>archi/timer/timer_v2.h\<close>) and the event masks of the SoC (\<^verbatim>\<open>hal/soc_eu/soc_eu_v2.h\<close>), as accesses to their registers.
\<close>

text \<open>A 16-bit access, in the trace with the value it reads.\<close>

definition mmio_read16 :: "device \<Rightarrow> u32 \<Rightarrow> trace \<Rightarrow> u32 \<times> trace" where
  "mmio_read16 dev a t = (let v = dev t a AND 0xFFFF in (v, t @ [MRead a v]))"

section \<open>The SoC controller\<close>

definition ARCHI_APB_SOC_CTRL_ADDR :: u32 where "ARCHI_APB_SOC_CTRL_ADDR = ARCHI_SOC_PERIPHERALS_ADDR + 0x3000"
definition APB_SOC_BOOTADDR_OFFSET :: u32 where "APB_SOC_BOOTADDR_OFFSET = 4"
definition APB_SOC_BUSY_OFFSET :: u32 where "APB_SOC_BUSY_OFFSET = 0x6C"
definition APB_SOC_CLUSTER_ISOLATE_OFFSET :: u32 where "APB_SOC_CLUSTER_ISOLATE_OFFSET = 0xC"
definition APB_SOC_CORESTATUS_OFFSET :: u32 where "APB_SOC_CORESTATUS_OFFSET = 0x80"
definition APB_SOC_INFO_CORES_OFFSET :: u32 where "APB_SOC_INFO_CORES_OFFSET = 2"
definition APB_SOC_INFO_CLUSTERS_OFFSET :: u32 where "APB_SOC_INFO_CLUSTERS_OFFSET = 0"
definition APB_SOC_PADFUN0_OFFSET :: u32 where "APB_SOC_PADFUN0_OFFSET = 0x10"
definition APB_SOC_PADCFG0_OFFSET :: u32 where "APB_SOC_PADCFG0_OFFSET = 0x20"
definition APB_SOC_JTAG_REG :: u32 where "APB_SOC_JTAG_REG = 0x74"
definition APB_SOC_PADS_CONFIG :: u32 where "APB_SOC_PADS_CONFIG = 0xC4"
definition APB_SOC_STATUS_EOC_BIT :: nat where "APB_SOC_STATUS_EOC_BIT = 31"
definition APB_SOC_PADFUN_SIZE :: nat where "APB_SOC_PADFUN_SIZE = 2"
definition APB_SOC_PADCFG_SIZE :: nat where "APB_SOC_PADCFG_SIZE = 8"
definition APB_SOC_PADS_CONFIG_BOOTSEL_BIT :: nat where "APB_SOC_PADS_CONFIG_BOOTSEL_BIT = 0"
definition APB_SOC_JTAG_REG_EXT_BIT :: nat where "APB_SOC_JTAG_REG_EXT_BIT = 8"
definition APB_SOC_JTAG_REG_EXT_WIDTH :: nat where "APB_SOC_JTAG_REG_EXT_WIDTH = 4"
definition APB_SOC_JTAG_REG_LOC_BIT :: nat where "APB_SOC_JTAG_REG_LOC_BIT = 0"
definition APB_SOC_JTAG_REG_LOC_WIDTH :: nat where "APB_SOC_JTAG_REG_LOC_WIDTH = 4"
definition APB_SOC_PADFUN_OFFSET :: "u32 \<Rightarrow> u32" where "APB_SOC_PADFUN_OFFSET g = APB_SOC_PADFUN0_OFFSET + g * 4"
definition APB_SOC_PADFUN_NO :: "u32 \<Rightarrow> u32" where "APB_SOC_PADFUN_NO pad = drop_bit 4 pad"
definition APB_SOC_PADFUN_BIT :: "u32 \<Rightarrow> u32" where "APB_SOC_PADFUN_BIT pad = push_bit 1 (pad AND 0xF)"
definition APB_SOC_PADCFG_OFFSET :: "u32 \<Rightarrow> u32" where "APB_SOC_PADCFG_OFFSET g = APB_SOC_PADCFG0_OFFSET + g * 4"
definition APB_SOC_PADCFG_NO :: "u32 \<Rightarrow> u32" where "APB_SOC_PADCFG_NO pad = drop_bit 2 pad"
definition APB_SOC_PADCFG_BIT :: "u32 \<Rightarrow> u32" where "APB_SOC_PADCFG_BIT pad = push_bit 3 (pad AND 3)"
definition ARCHI_REG_MASK :: "nat \<Rightarrow> nat \<Rightarrow> u32" where "ARCHI_REG_MASK off sz = push_bit off (push_bit sz 1 - 1)"
definition ARCHI_REG_FIELD_SET :: "u32 \<Rightarrow> u32 \<Rightarrow> nat \<Rightarrow> nat \<Rightarrow> u32" where "ARCHI_REG_FIELD_SET full v off sz = (full AND NOT (ARCHI_REG_MASK off sz)) OR push_bit off v"
definition ARCHI_REG_FIELD_GET :: "u32 \<Rightarrow> nat \<Rightarrow> nat \<Rightarrow> u32" where "ARCHI_REG_FIELD_GET full off sz = drop_bit off (full AND ARCHI_REG_MASK off sz)"

definition apb_soc_bootaddr_set :: "u32 \<Rightarrow> trace \<Rightarrow> trace" where
  "apb_soc_bootaddr_set value t = mmio_write (ARCHI_APB_SOC_CTRL_ADDR + APB_SOC_BOOTADDR_OFFSET) value t"

definition apb_soc_bootaddr_get :: "device \<Rightarrow> trace \<Rightarrow> u32 \<times> trace" where
  "apb_soc_bootaddr_get dev t = mmio_read dev (ARCHI_APB_SOC_CTRL_ADDR + APB_SOC_BOOTADDR_OFFSET) t"

definition apb_soc_busy_get :: "device \<Rightarrow> trace \<Rightarrow> u32 \<times> trace" where
  "apb_soc_busy_get dev t = mmio_read dev (ARCHI_APB_SOC_CTRL_ADDR + APB_SOC_BUSY_OFFSET) t"

definition apb_soc_cluster_isolate_set :: "u32 \<Rightarrow> trace \<Rightarrow> trace" where
  "apb_soc_cluster_isolate_set isolate t = mmio_write (ARCHI_APB_SOC_CTRL_ADDR + APB_SOC_CLUSTER_ISOLATE_OFFSET) isolate t"

definition apb_soc_status_set :: "u32 \<Rightarrow> trace \<Rightarrow> trace" where
  "apb_soc_status_set value t = mmio_write (ARCHI_APB_SOC_CTRL_ADDR + APB_SOC_CORESTATUS_OFFSET) (value OR push_bit APB_SOC_STATUS_EOC_BIT 1) t"

definition apb_soc_nbCores :: "device \<Rightarrow> trace \<Rightarrow> u32 \<times> trace" where
  "apb_soc_nbCores dev t = mmio_read16 dev (ARCHI_APB_SOC_CTRL_ADDR + APB_SOC_INFO_CORES_OFFSET) t"

definition apb_soc_nbClusters :: "device \<Rightarrow> trace \<Rightarrow> u32 \<times> trace" where
  "apb_soc_nbClusters dev t = mmio_read16 dev (ARCHI_APB_SOC_CTRL_ADDR + APB_SOC_INFO_CLUSTERS_OFFSET) t"

definition hal_apb_soc_padfun_get :: "device \<Rightarrow> u32 \<Rightarrow> trace \<Rightarrow> u32 \<times> trace" where
  "hal_apb_soc_padfun_get dev n t = mmio_read dev (ARCHI_APB_SOC_CTRL_ADDR + APB_SOC_PADFUN_OFFSET n) t"

definition hal_apb_soc_padfun_set :: "u32 \<Rightarrow> u32 \<Rightarrow> trace \<Rightarrow> trace" where
  "hal_apb_soc_padfun_set n value t = mmio_write (ARCHI_APB_SOC_CTRL_ADDR + APB_SOC_PADFUN_OFFSET n) value t"

definition hal_apb_soc_padcfg_get :: "device \<Rightarrow> u32 \<Rightarrow> trace \<Rightarrow> u32 \<times> trace" where
  "hal_apb_soc_padcfg_get dev n t = mmio_read dev (ARCHI_APB_SOC_CTRL_ADDR + APB_SOC_PADCFG_OFFSET n) t"

definition hal_apb_soc_padcfg_set :: "u32 \<Rightarrow> u32 \<Rightarrow> trace \<Rightarrow> trace" where
  "hal_apb_soc_padcfg_set n value t = mmio_write (ARCHI_APB_SOC_CTRL_ADDR + APB_SOC_PADCFG_OFFSET n) value t"

definition hal_apb_soc_pad_set_function :: "device \<Rightarrow> u32 \<Rightarrow> u32 \<Rightarrow> trace \<Rightarrow> trace" where
  "hal_apb_soc_pad_set_function dev pad func t =
     (let padId = APB_SOC_PADFUN_NO pad;
          padBit = unat (APB_SOC_PADFUN_BIT pad);
          (v, t) = hal_apb_soc_padfun_get dev padId t;
          oldval = v AND NOT (push_bit padBit (push_bit APB_SOC_PADFUN_SIZE 1 - 1));
          newVal = oldval OR push_bit padBit func
      in hal_apb_soc_padfun_set padId newVal t)"

definition hal_apb_soc_pad_set_config :: "device \<Rightarrow> u32 \<Rightarrow> u32 \<Rightarrow> trace \<Rightarrow> trace" where
  "hal_apb_soc_pad_set_config dev pad cfg t =
     (let padId = APB_SOC_PADCFG_NO pad;
          padBit = unat (APB_SOC_PADCFG_BIT pad);
          (v, t) = hal_apb_soc_padcfg_get dev padId t;
          oldval = v AND NOT (push_bit padBit (push_bit APB_SOC_PADCFG_SIZE 1 - 1));
          newVal = oldval OR push_bit padBit cfg
      in hal_apb_soc_padcfg_set padId newVal t)"

definition apb_soc_jtag_reg_read :: "device \<Rightarrow> trace \<Rightarrow> u32 \<times> trace" where
  "apb_soc_jtag_reg_read dev t = mmio_read dev (ARCHI_APB_SOC_CTRL_ADDR + APB_SOC_JTAG_REG) t"

definition apb_soc_jtag_reg_write :: "u32 \<Rightarrow> trace \<Rightarrow> trace" where
  "apb_soc_jtag_reg_write value t = mmio_write (ARCHI_APB_SOC_CTRL_ADDR + APB_SOC_JTAG_REG) value t"

definition apb_soc_jtag_reg_ext :: "u32 \<Rightarrow> u32" where
  "apb_soc_jtag_reg_ext value = ARCHI_REG_FIELD_GET value APB_SOC_JTAG_REG_EXT_BIT APB_SOC_JTAG_REG_EXT_WIDTH"

definition apb_soc_jtag_reg_loc :: "u32 \<Rightarrow> u32" where
  "apb_soc_jtag_reg_loc value = ARCHI_REG_FIELD_GET value APB_SOC_JTAG_REG_LOC_BIT APB_SOC_JTAG_REG_LOC_WIDTH"

definition apb_soc_pads_config_get :: "device \<Rightarrow> trace \<Rightarrow> u32 \<times> trace" where
  "apb_soc_pads_config_get dev t = mmio_read dev (ARCHI_APB_SOC_CTRL_ADDR + APB_SOC_PADS_CONFIG) t"

definition apb_soc_pads_config_bootself_get :: "device \<Rightarrow> trace \<Rightarrow> u32 \<times> trace" where
  "apb_soc_pads_config_bootself_get dev t =
     (let (v, t) = apb_soc_pads_config_get dev t in (signed_drop_bit APB_SOC_PADS_CONFIG_BOOTSEL_BIT v AND 1, t))"

text \<open>
  The registers of the clock dividers are defined for other chips only: their offsets are arguments.
\<close>

definition apb_soc_fll_ctrl_set :: "u32 \<Rightarrow> u32 \<Rightarrow> trace \<Rightarrow> trace" where
  "apb_soc_fll_ctrl_set off value t = mmio_write (ARCHI_APB_SOC_CTRL_ADDR + off) value t"

definition apb_soc_fll_ctrl_get :: "device \<Rightarrow> u32 \<Rightarrow> trace \<Rightarrow> u32 \<times> trace" where
  "apb_soc_fll_ctrl_get dev off t = mmio_read dev (ARCHI_APB_SOC_CTRL_ADDR + off) t"

definition apb_soc_fll_clkdiv_set :: "u32 \<Rightarrow> u32 \<Rightarrow> u32 \<Rightarrow> trace \<Rightarrow> trace" where
  "apb_soc_fll_clkdiv_set off fll value t = mmio_write (ARCHI_APB_SOC_CTRL_ADDR + off + push_bit 2 fll) value t"

definition apb_soc_fll_clkdiv_get :: "device \<Rightarrow> u32 \<Rightarrow> u32 \<Rightarrow> trace \<Rightarrow> u32 \<times> trace" where
  "apb_soc_fll_clkdiv_get dev off fll t = mmio_read dev (ARCHI_APB_SOC_CTRL_ADDR + off + push_bit 2 fll) t"

definition apb_soc_fll_clkdiv_soc_set :: "u32 \<Rightarrow> u32 \<Rightarrow> trace \<Rightarrow> trace" where
  "apb_soc_fll_clkdiv_soc_set off value t = mmio_write (ARCHI_APB_SOC_CTRL_ADDR + off) value t"

definition apb_soc_fll_clkdiv_soc_get :: "device \<Rightarrow> u32 \<Rightarrow> trace \<Rightarrow> u32 \<times> trace" where
  "apb_soc_fll_clkdiv_soc_get dev off t = mmio_read dev (ARCHI_APB_SOC_CTRL_ADDR + off) t"

definition apb_soc_fll_clkdiv_cluster_set :: "u32 \<Rightarrow> u32 \<Rightarrow> trace \<Rightarrow> trace" where
  "apb_soc_fll_clkdiv_cluster_set off value t = mmio_write (ARCHI_APB_SOC_CTRL_ADDR + off) value t"

definition apb_soc_fll_clkdiv_cluster_get :: "device \<Rightarrow> u32 \<Rightarrow> trace \<Rightarrow> u32 \<times> trace" where
  "apb_soc_fll_clkdiv_cluster_get dev off t = mmio_read dev (ARCHI_APB_SOC_CTRL_ADDR + off) t"

definition apb_soc_fll_clkdiv_periph_set :: "u32 \<Rightarrow> u32 \<Rightarrow> trace \<Rightarrow> trace" where
  "apb_soc_fll_clkdiv_periph_set off value t = mmio_write (ARCHI_APB_SOC_CTRL_ADDR + off) value t"

definition apb_soc_fll_clkdiv_periph_get :: "device \<Rightarrow> u32 \<Rightarrow> trace \<Rightarrow> u32 \<times> trace" where
  "apb_soc_fll_clkdiv_periph_get dev off t = mmio_read dev (ARCHI_APB_SOC_CTRL_ADDR + off) t"

section \<open>The cluster controller\<close>

definition ARCHI_CLUSTER_CTRL_OFFSET :: u32 where "ARCHI_CLUSTER_CTRL_OFFSET = 0"
definition ARCHI_CLUSTER_CTRL_ADDR :: u32 where "ARCHI_CLUSTER_CTRL_ADDR = ARCHI_CLUSTER_PERIPHERALS_ADDR + ARCHI_CLUSTER_CTRL_OFFSET"
definition EOC_FETCH_OFFSET :: u32 where "EOC_FETCH_OFFSET = 8"

definition eoc_fetch_enable_base :: "u32 \<Rightarrow> u32 \<Rightarrow> trace \<Rightarrow> trace" where
  "eoc_fetch_enable_base base m t = mmio_write (base + ARCHI_CLUSTER_CTRL_OFFSET + EOC_FETCH_OFFSET) m t"

definition eoc_fetch_enable_remote :: "u32 \<Rightarrow> u32 \<Rightarrow> trace \<Rightarrow> trace" where
  "eoc_fetch_enable_remote cid m t = mmio_write (ARCHI_CLUSTER_PERIPHERALS_GLOBAL_ADDR cid + ARCHI_CLUSTER_CTRL_OFFSET + EOC_FETCH_OFFSET) m t"

definition eoc_fetch_enable :: "u32 \<Rightarrow> trace \<Rightarrow> trace" where
  "eoc_fetch_enable m t = eoc_fetch_enable_base ARCHI_CLUSTER_ADDR m t"

definition hal_cluster_ctrl_eoc_set :: "u32 \<Rightarrow> trace \<Rightarrow> trace" where
  "hal_cluster_ctrl_eoc_set value t = mmio_write (ARCHI_CLUSTER_CTRL_ADDR) value t"

definition plp_ctrl_fetchen_base :: "u32 \<Rightarrow> u32 \<Rightarrow> trace \<Rightarrow> trace" where
  "plp_ctrl_fetchen_base base m t = mmio_write (base + ARCHI_CLUSTER_CTRL_OFFSET + EOC_FETCH_OFFSET) m t"

definition plp_ctrl_fetchen :: "u32 \<Rightarrow> trace \<Rightarrow> trace" where
  "plp_ctrl_fetchen m t = plp_ctrl_fetchen_base ARCHI_CLUSTER_ADDR m t"

definition plp_ctrl_bootaddr_set :: "u32 \<Rightarrow> trace \<Rightarrow> trace" where
  "plp_ctrl_bootaddr_set bootAddr t = mmio_write (ARCHI_CLUSTER_CTRL_ADDR + 0x40) bootAddr t"

definition plp_ctrl_bootaddr_set_remote :: "u32 \<Rightarrow> u32 \<Rightarrow> trace \<Rightarrow> trace" where
  "plp_ctrl_bootaddr_set_remote cid bootAddr t = mmio_write (ARCHI_CLUSTER_PERIPHERALS_GLOBAL_ADDR cid + ARCHI_CLUSTER_CTRL_OFFSET + 0x40) bootAddr t"

definition plp_ctrl_core_bootaddr_set :: "u32 \<Rightarrow> u32 \<Rightarrow> trace \<Rightarrow> trace" where
  "plp_ctrl_core_bootaddr_set core bootAddr t = mmio_write (ARCHI_CLUSTER_CTRL_ADDR + 0x40 + core * 4) bootAddr t"

definition plp_ctrl_core_bootaddr_set_remote :: "u32 \<Rightarrow> u32 \<Rightarrow> u32 \<Rightarrow> trace \<Rightarrow> trace" where
  "plp_ctrl_core_bootaddr_set_remote cid core bootAddr t = mmio_write (ARCHI_CLUSTER_PERIPHERALS_GLOBAL_ADDR cid + ARCHI_CLUSTER_CTRL_OFFSET + 0x40 + core * 4) bootAddr t"

definition plp_ctrl_bootaddr_get :: "device \<Rightarrow> trace \<Rightarrow> u32 \<times> trace" where
  "plp_ctrl_bootaddr_get dev t = mmio_read dev (ARCHI_CLUSTER_CTRL_ADDR + 0x40) t"

section \<open>Timers\<close>

definition ARCHI_TIMER_OFFSET :: u32 where "ARCHI_TIMER_OFFSET = 0x400"
definition ARCHI_TIMER_SIZE :: u32 where "ARCHI_TIMER_SIZE = 0x800"
definition TIMER_CFG_LO_OFFSET :: u32 where "TIMER_CFG_LO_OFFSET = 0"
definition TIMER_CFG_HI_OFFSET :: u32 where "TIMER_CFG_HI_OFFSET = 0x4"
definition TIMER_CNT_LO_OFFSET :: u32 where "TIMER_CNT_LO_OFFSET = 0x8"
definition TIMER_CNT_HI_OFFSET :: u32 where "TIMER_CNT_HI_OFFSET = 0xc"
definition TIMER_CMP_LO_OFFSET :: u32 where "TIMER_CMP_LO_OFFSET = 0x10"
definition TIMER_CMP_HI_OFFSET :: u32 where "TIMER_CMP_HI_OFFSET = 0x14"
definition TIMER_START_LO_OFFSET :: u32 where "TIMER_START_LO_OFFSET = 0x18"
definition TIMER_START_HI_OFFSET :: u32 where "TIMER_START_HI_OFFSET = 0x1c"
definition TIMER_RESET_LO_OFFSET :: u32 where "TIMER_RESET_LO_OFFSET = 0x20"
definition TIMER_RESET_HI_OFFSET :: u32 where "TIMER_RESET_HI_OFFSET = 0x24"

definition timer_cfg_lo_get :: "device \<Rightarrow> u32 \<Rightarrow> trace \<Rightarrow> u32 \<times> trace" where
  "timer_cfg_lo_get dev base t = mmio_read dev (base + TIMER_CFG_LO_OFFSET) t"

definition timer_cfg_lo_set :: "u32 \<Rightarrow> u32 \<Rightarrow> trace \<Rightarrow> trace" where
  "timer_cfg_lo_set base value t = mmio_write (base + TIMER_CFG_LO_OFFSET) value t"

definition timer_cfg_hi_get :: "device \<Rightarrow> u32 \<Rightarrow> trace \<Rightarrow> u32 \<times> trace" where
  "timer_cfg_hi_get dev base t = mmio_read dev (base + TIMER_CFG_HI_OFFSET) t"

definition timer_cfg_hi_set :: "u32 \<Rightarrow> u32 \<Rightarrow> trace \<Rightarrow> trace" where
  "timer_cfg_hi_set base value t = mmio_write (base + TIMER_CFG_HI_OFFSET) value t"

definition timer_cnt_lo_get :: "device \<Rightarrow> u32 \<Rightarrow> trace \<Rightarrow> u32 \<times> trace" where
  "timer_cnt_lo_get dev base t = mmio_read dev (base + TIMER_CNT_LO_OFFSET) t"

definition timer_cnt_lo_set :: "u32 \<Rightarrow> u32 \<Rightarrow> trace \<Rightarrow> trace" where
  "timer_cnt_lo_set base value t = mmio_write (base + TIMER_CNT_LO_OFFSET) value t"

definition timer_cnt_hi_get :: "device \<Rightarrow> u32 \<Rightarrow> trace \<Rightarrow> u32 \<times> trace" where
  "timer_cnt_hi_get dev base t = mmio_read dev (base + TIMER_CNT_HI_OFFSET) t"

definition timer_cnt_hi_set :: "u32 \<Rightarrow> u32 \<Rightarrow> trace \<Rightarrow> trace" where
  "timer_cnt_hi_set base value t = mmio_write (base + TIMER_CNT_HI_OFFSET) value t"

definition timer_cmp_lo_get :: "device \<Rightarrow> u32 \<Rightarrow> trace \<Rightarrow> u32 \<times> trace" where
  "timer_cmp_lo_get dev base t = mmio_read dev (base + TIMER_CMP_LO_OFFSET) t"

definition timer_cmp_lo_set :: "u32 \<Rightarrow> u32 \<Rightarrow> trace \<Rightarrow> trace" where
  "timer_cmp_lo_set base value t = mmio_write (base + TIMER_CMP_LO_OFFSET) value t"

definition timer_cmp_hi_get :: "device \<Rightarrow> u32 \<Rightarrow> trace \<Rightarrow> u32 \<times> trace" where
  "timer_cmp_hi_get dev base t = mmio_read dev (base + TIMER_CMP_HI_OFFSET) t"

definition timer_cmp_hi_set :: "u32 \<Rightarrow> u32 \<Rightarrow> trace \<Rightarrow> trace" where
  "timer_cmp_hi_set base value t = mmio_write (base + TIMER_CMP_HI_OFFSET) value t"

definition timer_start_lo_get :: "device \<Rightarrow> u32 \<Rightarrow> trace \<Rightarrow> u32 \<times> trace" where
  "timer_start_lo_get dev base t = mmio_read dev (base + TIMER_START_LO_OFFSET) t"

definition timer_start_lo_set :: "u32 \<Rightarrow> u32 \<Rightarrow> trace \<Rightarrow> trace" where
  "timer_start_lo_set base value t = mmio_write (base + TIMER_START_LO_OFFSET) value t"

definition timer_start_hi_get :: "device \<Rightarrow> u32 \<Rightarrow> trace \<Rightarrow> u32 \<times> trace" where
  "timer_start_hi_get dev base t = mmio_read dev (base + TIMER_START_HI_OFFSET) t"

definition timer_start_hi_set :: "u32 \<Rightarrow> u32 \<Rightarrow> trace \<Rightarrow> trace" where
  "timer_start_hi_set base value t = mmio_write (base + TIMER_START_HI_OFFSET) value t"

definition timer_reset_lo_get :: "device \<Rightarrow> u32 \<Rightarrow> trace \<Rightarrow> u32 \<times> trace" where
  "timer_reset_lo_get dev base t = mmio_read dev (base + TIMER_RESET_LO_OFFSET) t"

definition timer_reset_lo_set :: "u32 \<Rightarrow> u32 \<Rightarrow> trace \<Rightarrow> trace" where
  "timer_reset_lo_set base value t = mmio_write (base + TIMER_RESET_LO_OFFSET) value t"

definition timer_reset_hi_get :: "device \<Rightarrow> u32 \<Rightarrow> trace \<Rightarrow> u32 \<times> trace" where
  "timer_reset_hi_get dev base t = mmio_read dev (base + TIMER_RESET_HI_OFFSET) t"

definition timer_reset_hi_set :: "u32 \<Rightarrow> u32 \<Rightarrow> trace \<Rightarrow> trace" where
  "timer_reset_hi_set base value t = mmio_write (base + TIMER_RESET_HI_OFFSET) value t"

definition timer_base_cl :: "u32 \<Rightarrow> u32 \<Rightarrow> u32 \<Rightarrow> u32" where
  "timer_base_cl cid n sub_id = ARCHI_CLUSTER_PERIPHERALS_GLOBAL_ADDR 0 + ARCHI_TIMER_OFFSET + n * ARCHI_TIMER_SIZE + sub_id * 4"

definition timer_conf_get :: "device \<Rightarrow> u32 \<Rightarrow> trace \<Rightarrow> u32 \<times> trace" where
  "timer_conf_get dev addr t = timer_cfg_lo_get dev addr t"

definition timer_conf_set :: "u32 \<Rightarrow> u32 \<Rightarrow> trace \<Rightarrow> trace" where
  "timer_conf_set addr value t = timer_cfg_lo_set addr value t"

definition timer_count_get :: "device \<Rightarrow> u32 \<Rightarrow> trace \<Rightarrow> u32 \<times> trace" where
  "timer_count_get dev addr t = timer_cnt_lo_get dev addr t"

definition timer_count_set :: "u32 \<Rightarrow> u32 \<Rightarrow> trace \<Rightarrow> trace" where
  "timer_count_set addr value t = timer_cnt_lo_set addr value t"

definition timer_cmp_get :: "device \<Rightarrow> u32 \<Rightarrow> trace \<Rightarrow> u32 \<times> trace" where
  "timer_cmp_get dev addr t = timer_cmp_lo_get dev addr t"

definition timer_cmp_set :: "u32 \<Rightarrow> u32 \<Rightarrow> trace \<Rightarrow> trace" where
  "timer_cmp_set addr value t = timer_cmp_lo_set addr value t"

definition timer_reset :: "u32 \<Rightarrow> trace \<Rightarrow> trace" where
  "timer_reset addr t = timer_reset_lo_set addr 1 t"

definition timer_start :: "u32 \<Rightarrow> trace \<Rightarrow> trace" where
  "timer_start addr t = timer_start_lo_set addr 1 t"

section \<open>The SoC event unit\<close>

text \<open>Its address depends on the chip; it is the argument \<open>eu\<close>. The division of an event number truncates, as in C.\<close>

definition SOC_EU_EVENT :: u32 where "SOC_EU_EVENT = 0"
definition SOC_FC_FIRST_MASK :: u32 where "SOC_FC_FIRST_MASK = 4"
definition SOC_CL_FIRST_MASK :: u32 where "SOC_CL_FIRST_MASK = 0x24"
definition SOC_PR_FIRST_MASK :: u32 where "SOC_PR_FIRST_MASK = 0x44"
definition SOC_TIMER_SEL_HI :: u32 where "SOC_TIMER_SEL_HI = 0x84"
definition SOC_TIMER_SEL_ENABLE_SHIFT :: nat where "SOC_TIMER_SEL_ENABLE_SHIFT = 31"
definition SOC_TIMER_SEL_EVT_SHIFT :: nat where "SOC_TIMER_SEL_EVT_SHIFT = 0"
definition SOC_NB_EVENT_REGS :: nat where "SOC_NB_EVENT_REGS = 8"
definition SOC_TIMER_SEL_EVT_MASK :: u32 where "SOC_TIMER_SEL_EVT_MASK = drop_bit (32 - 8) (NOT 0)"

definition hal_soc_eu_addr :: "u32 \<Rightarrow> u32" where
  "hal_soc_eu_addr eu = eu"

definition soc_eu_eventMask_set :: "u32 \<Rightarrow> u32 \<Rightarrow> u32 \<Rightarrow> trace \<Rightarrow> trace" where
  "soc_eu_eventMask_set eu reg value t = mmio_write (eu + reg) value t"

definition soc_eu_eventMask_get :: "device \<Rightarrow> u32 \<Rightarrow> u32 \<Rightarrow> trace \<Rightarrow> u32 \<times> trace" where
  "soc_eu_eventMask_get dev eu reg t = mmio_read dev (eu + reg) t"

definition soc_eu_eventMask_reset :: "u32 \<Rightarrow> u32 \<Rightarrow> trace \<Rightarrow> trace" where
  "soc_eu_eventMask_reset eu first_reg t =
     fold (\<lambda>i t. soc_eu_eventMask_set eu (first_reg + of_nat i * 4) 0xFFFFFFFF t) [0..<SOC_NB_EVENT_REGS] t"

definition soc_eu_eventMask_setEvent :: "device \<Rightarrow> u32 \<Rightarrow> i32 \<Rightarrow> u32 \<Rightarrow> trace \<Rightarrow> trace" where
  "soc_eu_eventMask_setEvent dev eu evt first_reg t =
     (let reg = first_reg + word_of_int (sint evt sdiv 32) * 4;
          (v, t) = soc_eu_eventMask_get dev eu reg t
      in soc_eu_eventMask_set eu reg (v AND NOT (push_bit (nat (sint evt smod 32)) 1)) t)"

definition soc_eu_eventMask_clearEvent :: "device \<Rightarrow> u32 \<Rightarrow> i32 \<Rightarrow> u32 \<Rightarrow> trace \<Rightarrow> trace" where
  "soc_eu_eventMask_clearEvent dev eu evt first_reg t =
     (let reg = first_reg + word_of_int (sint evt sdiv 32) * 4;
          (v, t) = soc_eu_eventMask_get dev eu reg t
      in soc_eu_eventMask_set eu reg (v OR push_bit (nat (sint evt smod 32)) 1) t)"

definition soc_eu_fcEventMask_setEvent :: "device \<Rightarrow> u32 \<Rightarrow> i32 \<Rightarrow> trace \<Rightarrow> trace" where
  "soc_eu_fcEventMask_setEvent dev eu evt t = soc_eu_eventMask_setEvent dev eu evt SOC_FC_FIRST_MASK t"

definition soc_eu_prEventMask_setEvent :: "device \<Rightarrow> u32 \<Rightarrow> i32 \<Rightarrow> trace \<Rightarrow> trace" where
  "soc_eu_prEventMask_setEvent dev eu evt t = soc_eu_eventMask_setEvent dev eu evt SOC_PR_FIRST_MASK t"

definition soc_eu_clEventMask_setEvent :: "device \<Rightarrow> u32 \<Rightarrow> i32 \<Rightarrow> i32 \<Rightarrow> trace \<Rightarrow> trace" where
  "soc_eu_clEventMask_setEvent dev eu clusterId evt t = soc_eu_eventMask_setEvent dev eu evt SOC_CL_FIRST_MASK t"

definition soc_eu_fcEventMask_clearEvent :: "device \<Rightarrow> u32 \<Rightarrow> i32 \<Rightarrow> trace \<Rightarrow> trace" where
  "soc_eu_fcEventMask_clearEvent dev eu evt t = soc_eu_eventMask_clearEvent dev eu evt SOC_FC_FIRST_MASK t"

definition soc_eu_prEventMask_clearEvent :: "device \<Rightarrow> u32 \<Rightarrow> i32 \<Rightarrow> trace \<Rightarrow> trace" where
  "soc_eu_prEventMask_clearEvent dev eu evt t = soc_eu_eventMask_clearEvent dev eu evt SOC_PR_FIRST_MASK t"

definition soc_eu_clEventMask_clearEvent :: "device \<Rightarrow> u32 \<Rightarrow> i32 \<Rightarrow> i32 \<Rightarrow> trace \<Rightarrow> trace" where
  "soc_eu_clEventMask_clearEvent dev eu clusterId evt t = soc_eu_eventMask_clearEvent dev eu evt SOC_CL_FIRST_MASK t"

definition soc_eu_genEventMask :: "u32 \<Rightarrow> u32 \<Rightarrow> trace \<Rightarrow> trace" where
  "soc_eu_genEventMask eu m t = mmio_write (eu + SOC_EU_EVENT) m t"

definition soc_eu_selEventTimer :: "device \<Rightarrow> u32 \<Rightarrow> u32 \<Rightarrow> u32 \<Rightarrow> trace \<Rightarrow> trace" where
  "soc_eu_selEventTimer dev eu timer_id m t =
     (let a = eu + SOC_TIMER_SEL_HI + timer_id * 4;
          (v, t) = mmio_read dev a t
      in mmio_write a ((v AND NOT (push_bit SOC_TIMER_SEL_EVT_SHIFT SOC_TIMER_SEL_EVT_MASK)) OR (m AND SOC_TIMER_SEL_EVT_MASK)) t)"

definition soc_eu_setEnableEventTimer :: "device \<Rightarrow> u32 \<Rightarrow> u32 \<Rightarrow> u32 \<Rightarrow> trace \<Rightarrow> trace" where
  "soc_eu_setEnableEventTimer dev eu timer_id val t =
     (let a = eu + SOC_TIMER_SEL_HI + timer_id * 4;
          (v, t) = mmio_read dev a t
      in mmio_write a ((v AND NOT (push_bit SOC_TIMER_SEL_ENABLE_SHIFT 1)) OR val) t)"

section \<open>Pads\<close>

text \<open>The field of \<open>sz\<close> bits number \<open>k\<close> of a word, and what writing \<open>f\<close> at its place does to all fields.\<close>

definition field_at :: "nat \<Rightarrow> nat \<Rightarrow> u32 \<Rightarrow> u32" where
  "field_at sz k v = take_bit sz (drop_bit (sz * k) v)"

lemma bit_field_at: "bit (field_at sz k v) j \<longleftrightarrow> j < sz \<and> bit v (sz * k + j)"
  by (auto simp: field_at_def bit_take_bit_iff bit_drop_bit_eq dest: bit_imp_le_length)

lemma field_written:
  assumes "sz * k + sz \<le> 32" "sz * k' + sz \<le> 32"
  shows "field_at sz k' ((v AND NOT (push_bit (sz * k) (push_bit sz 1 - 1))) OR push_bit (sz * k) f) =
    (if k' < k then field_at sz k' v else if k' = k then take_bit sz f
     else field_at sz k' v OR take_bit sz (drop_bit (sz * (k' - k)) f))"
proof (rule bit_word_eqI)
  fix j :: nat assume "j < LENGTH(32)"
  have b: "bit ((v AND NOT (push_bit (sz * k) (push_bit sz 1 - 1))) OR push_bit (sz * k) f) i
      \<longleftrightarrow> (bit v i \<and> \<not> (sz * k \<le> i \<and> i < sz * k + sz)) \<or> (sz * k \<le> i \<and> bit f (i - sz * k))" if "i < 32" for i
    using that unfolding ones_mask by (auto simp: bit_simps)
  show "bit (field_at sz k' ((v AND NOT (push_bit (sz * k) (push_bit sz 1 - 1))) OR push_bit (sz * k) f)) j \<longleftrightarrow>
    bit (if k' < k then field_at sz k' v else if k' = k then take_bit sz f
     else field_at sz k' v OR take_bit sz (drop_bit (sz * (k' - k)) f)) j"
  proof (cases "j < sz")
    case True
    have i: "sz * k' + j < 32" using True assms(2) by simp
    consider "k' < k" | "k' = k" | "k < k'" by linarith
    then show ?thesis
    proof cases
      case 1
      then have "sz * Suc k' \<le> sz * k" by (intro mult_le_mono) simp_all
      then have "sz * k' + j < sz * k" using True by simp
      then show ?thesis using 1 True b [OF i] by (simp only: bit_field_at bit_take_bit_iff if_True if_False less_irrefl) (simp add: bit_take_bit_iff)
    next
      case 2
      then show ?thesis using True b [OF i] by (simp only: bit_field_at bit_take_bit_iff if_True if_False less_irrefl) (simp add: bit_take_bit_iff)
    next
      case 3
      then have "sz * Suc k \<le> sz * k'" by (intro mult_le_mono) simp_all
      then have "sz * k + sz \<le> sz * k' + j" "sz * k' + j - sz * k = sz * (k' - k) + j"
        by (simp_all add: diff_mult_distrib2)
      then show ?thesis using 3 True b [OF i]
        by (simp add: bit_field_at bit_or_iff bit_take_bit_iff bit_drop_bit_eq add.commute)
    qed
  next
    case False
    then show ?thesis by (auto simp only: bit_field_at bit_take_bit_iff bit_or_iff split: if_split)
  qed
qed

text \<open>The function of a pad and its configuration, as the registers hold them.\<close>

definition pad_function :: "trace \<Rightarrow> nat \<Rightarrow> u32" where
  "pad_function t p = field_at 2 (p mod 16) (written t (ARCHI_APB_SOC_CTRL_ADDR + APB_SOC_PADFUN_OFFSET (of_nat (p div 16))))"

definition pad_config :: "trace \<Rightarrow> nat \<Rightarrow> u32" where
  "pad_config t p = field_at 8 (p mod 4) (written t (ARCHI_APB_SOC_CTRL_ADDR + APB_SOC_PADCFG_OFFSET (of_nat (p div 4))))"

text \<open>What one field write does to the fields of all pads, \<open>n\<close> to a register.\<close>

definition pad_written :: "nat \<Rightarrow> nat \<Rightarrow> (nat \<Rightarrow> u32) \<Rightarrow> nat \<Rightarrow> u32 \<Rightarrow> nat \<Rightarrow> u32" where
  "pad_written sz n old pad f p =
     (if p div n \<noteq> pad div n \<or> p < pad then old p else if p = pad then take_bit sz f
      else old p OR take_bit sz (drop_bit (sz * (p - pad)) f))"

lemma written_append_write: "written (t @ [MRead a v] @ [MWrite b w]) c = (if c = b then w else written t c)"
  by (auto simp: written_def last_written_append split: option.split)

lemma nat_word_mask:
  assumes "p < 64"
  shows "drop_bit n (of_nat p :: u32) = of_nat (p div 2 ^ n)" "of_nat p AND mask n = (of_nat (p mod 2 ^ n) :: u32)"
    "unat (of_nat (p mod k) :: u32) = p mod k"
proof -
  have "p div 2 ^ n \<le> p" "p mod 2 ^ n \<le> p" "p mod k \<le> p" "(64 :: nat) < 2 ^ 32" by simp_all
  then have s: "p div 2 ^ n < 2 ^ 32" "p mod 2 ^ n < 2 ^ 32" "p mod k < 2 ^ 32" "p < 2 ^ 32" using assms by linarith+
  have u: "unat (of_nat p :: u32) = p" using s by (simp add: unat_of_nat take_bit_nat_eq_self)
  show "drop_bit n (of_nat p :: u32) = of_nat (p div 2 ^ n)"
    using s u by (simp add: word_unat_eq_iff unat_drop_bit_eq drop_bit_nat_def unat_of_nat take_bit_nat_eq_self)
  show "of_nat p AND mask n = (of_nat (p mod 2 ^ n) :: u32)"
    using s u by (simp add: word_unat_eq_iff take_bit_eq_mask [symmetric] unsigned_take_bit_eq take_bit_nat_def unat_of_nat take_bit_nat_eq_self)
  show "unat (of_nat (p mod k) :: u32) = p mod k"
    using s by (simp add: unat_of_nat take_bit_nat_eq_self)
qed

lemma pad_write:
  assumes "sz * n = 32" "reg p = reg pad \<longleftrightarrow> p div n = pad div n"
  shows "field_at sz (p mod n) (written (t @ [MRead (reg pad) (written t (reg pad))] @ [MWrite (reg pad)
      ((written t (reg pad) AND NOT (push_bit (sz * (pad mod n)) (push_bit sz 1 - 1))) OR push_bit (sz * (pad mod n)) f)]) (reg p))
    = pad_written sz n (\<lambda>p. field_at sz (p mod n) (written t (reg p))) pad f p"
proof (cases "p div n = pad div n")
  case False
  then show ?thesis using assms(2) by (simp only: written_append_write pad_written_def if_False if_True) simp
next
  case True
  have n: "0 < n" using assms(1) by (cases n) simp_all
  have m: "q mod n < n" for q using n by simp
  have le: "sz * (q mod n) + sz \<le> 32" for q
    using mult_le_mono2 [of "Suc (q mod n)" n sz] m [of q] assms(1) by simp
  have d: "p = pad div n * n + p mod n" "pad = pad div n * n + pad mod n" using True by (metis div_mult_mod_eq)+
  then have c: "p < pad \<longleftrightarrow> p mod n < pad mod n" "p = pad \<longleftrightarrow> p mod n = pad mod n" "p - pad = p mod n - pad mod n"
    by (metis nat_add_left_cancel_less, metis, metis diff_cancel2 add.commute)
  have r: "reg p = reg pad" using True assms(2) by simp
  show ?thesis
    unfolding written_append_write r if_P [OF refl] field_written [OF le le] pad_written_def c
    using True by simp
qed

lemma pad_register: "p < 64 \<Longrightarrow> q < 64 \<Longrightarrow> (a + (b + of_nat (p div n) * 4) = a + (b + of_nat (q div n) * 4)) \<longleftrightarrow> p div n = q div (n :: nat)"
  for a b :: u32
proof -
  assume pq: "p < 64" "q < 64"
  have "p div n \<le> p" "q div n \<le> q" by simp_all
  then have "p div n < 64" "q div n < 64" using pq by linarith+
  then have s: "p div n * 4 < 2 ^ 32" "q div n * 4 < 2 ^ 32" by simp_all
  have "(of_nat (p div n) * 4 :: u32) = of_nat (q div n) * 4 \<longleftrightarrow> (of_nat (p div n * 4) :: u32) = of_nat (q div n * 4)" by simp
  also have "\<dots> \<longleftrightarrow> p div n * 4 = q div n * 4"
    using s by (simp only: word_unat_eq_iff unat_of_nat len_num1 len_bit0 mult_1_right) (simp add: take_bit_nat_eq_self)
  finally show ?thesis by simp
qed

lemma pad_bits:
  assumes "p < 64"
  shows "unat (APB_SOC_PADFUN_BIT (of_nat p)) = 2 * (p mod 16)" "unat (APB_SOC_PADCFG_BIT (of_nat p)) = 8 * (p mod 4)"
    "APB_SOC_PADFUN_NO (of_nat p) = of_nat (p div 16)" "APB_SOC_PADCFG_NO (of_nat p) = of_nat (p div 4)"
proof -
  have m: "(0xF :: u32) = mask 4" "(3 :: u32) = mask 2" by (simp_all add: mask_eq_exp_minus_1)
  have "p mod 16 < 16" "p mod 4 < 4" by simp_all
  then have u: "unat (of_nat (2 * (p mod 16)) :: u32) = 2 * (p mod 16)" "unat (of_nat (8 * (p mod 4)) :: u32) = 8 * (p mod 4)"
    by (simp_all only: unat_of_nat len_num1 len_bit0 mult_1_right) (simp_all add: take_bit_nat_eq_self)
  show "unat (APB_SOC_PADFUN_BIT (of_nat p)) = 2 * (p mod 16)"
    using u(1) nat_word_mask(2) [OF assms, of 4] by (simp add: APB_SOC_PADFUN_BIT_def m push_bit_eq_mult mult.commute)
  show "unat (APB_SOC_PADCFG_BIT (of_nat p)) = 8 * (p mod 4)"
    using u(2) nat_word_mask(2) [OF assms, of 2] by (simp add: APB_SOC_PADCFG_BIT_def m push_bit_eq_mult mult.commute)
  show "APB_SOC_PADFUN_NO (of_nat p) = of_nat (p div 16)" "APB_SOC_PADCFG_NO (of_nat p) = of_nat (p div 4)"
    using nat_word_mask(1) [OF assms, of 4] nat_word_mask(1) [OF assms, of 2] by (simp_all add: APB_SOC_PADFUN_NO_def APB_SOC_PADCFG_NO_def)
qed

text \<open>
  Setting the function or the configuration of one of the 64 pads reads and writes one register, after which that pad has
  the low bits of the value, 2 or 8 of them, and every pad of another register or of lower number in the same one is as
  before. A value of more bits is not cut off: its higher bits are added to the pads above in the register.
\<close>

theorem pad_settings_apart:
  assumes "pad < 64" "p < 64"
  shows "pad_function (hal_apb_soc_pad_set_function written (of_nat pad) f t) p = pad_written 2 16 (pad_function t) pad f p
    \<and> pad_config (hal_apb_soc_pad_set_config written (of_nat pad) f t) p = pad_written 8 4 (pad_config t) pad f p"
proof
  note fun_defs = hal_apb_soc_pad_set_function_def hal_apb_soc_padfun_get_def hal_apb_soc_padfun_set_def APB_SOC_PADFUN_OFFSET_def
    APB_SOC_PADFUN_SIZE_def
  note cfg_defs = hal_apb_soc_pad_set_config_def hal_apb_soc_padcfg_get_def hal_apb_soc_padcfg_set_def APB_SOC_PADCFG_OFFSET_def
    APB_SOC_PADCFG_SIZE_def
  show "pad_function (hal_apb_soc_pad_set_function written (of_nat pad) f t) p = pad_written 2 16 (pad_function t) pad f p"
    using pad_write [of 2 16 "\<lambda>p. ARCHI_APB_SOC_CTRL_ADDR + (APB_SOC_PADFUN0_OFFSET + of_nat (p div 16) * 4)" p pad t f]
      pad_register [OF assms(2,1), of _ _ 16]
    unfolding fun_defs pad_function_def pad_bits [OF assms(1)] mmio_read_def mmio_write_def Let_def prod.case
    by (simp add: pad_function_def [abs_def] APB_SOC_PADFUN_OFFSET_def)
  show "pad_config (hal_apb_soc_pad_set_config written (of_nat pad) f t) p = pad_written 8 4 (pad_config t) pad f p"
    using pad_write [of 8 4 "\<lambda>p. ARCHI_APB_SOC_CTRL_ADDR + (APB_SOC_PADCFG0_OFFSET + of_nat (p div 4) * 4)" p pad t f]
      pad_register [OF assms(2,1), of _ _ 4]
    unfolding cfg_defs pad_config_def pad_bits [OF assms(1)] mmio_read_def mmio_write_def Let_def prod.case
    by (simp add: pad_config_def [abs_def] APB_SOC_PADCFG_OFFSET_def)
qed

theorem pad_settings_apart_witness:
  "pad_function (hal_apb_soc_pad_set_function written (of_nat 17) 2 []) 17 = 2
    \<and> pad_function (hal_apb_soc_pad_set_function written (of_nat 17) 7 []) 18 = 1"
  using pad_settings_apart [of 17 17 2 "[]"] pad_settings_apart [of 17 18 7 "[]"]
  by (simp add: pad_written_def pad_function_def field_at_def written_def take_bit_eq_mod drop_bit_eq_div)

section \<open>Events of the SoC\<close>

text \<open>The events that a group of mask registers lets through: those whose bit is 0.\<close>

definition let_through :: "u32 \<Rightarrow> u32 \<Rightarrow> trace \<Rightarrow> nat set" where
  "let_through eu first_reg t = {e. e < 256 \<and> \<not> bit (written t (eu + (first_reg + of_nat (e div 32) * 4))) (e mod 32)}"

lemma event_index:
  assumes "e < 256"
  shows "nat (sint (of_nat e :: i32) smod 32) = e mod 32" "(word_of_int (sint (of_nat e :: i32) sdiv 32) :: u32) = of_nat (e div 32)"
proof -
  have "sint (of_nat e :: i32) = int e" using assms by (subst sint_i32_small) (simp_all add: unat_of_nat take_bit_nat_eq_self)
  moreover have "int e sdiv 32 = int (e div 32)" "int e smod 32 = int (e mod 32)"
    by (cases "e = 0"; simp add: signed_divide_int_def signed_modulo_int_def zdiv_int zmod_int minus_div_mult_eq_mod)+
  ultimately show "nat (sint (of_nat e :: i32) smod 32) = e mod 32" "(word_of_int (sint (of_nat e :: i32) sdiv 32) :: u32) = of_nat (e div 32)"
    by simp_all
qed

lemma event_register:
  assumes "e < 256" "g < 256"
  shows "(of_nat (e div 32) * 4 :: u32) = of_nat (g div 32) * 4 \<longleftrightarrow> e div 32 = g div 32"
proof -
  have "e div 32 < 8" "g div 32 < 8" using assms by simp_all
  then have s: "e div 32 * 4 < 2 ^ 32" "g div 32 * 4 < 2 ^ 32" by simp_all
  have "(of_nat (e div 32) * 4 :: u32) = of_nat (g div 32) * 4 \<longleftrightarrow> (of_nat (e div 32 * 4) :: u32) = of_nat (g div 32 * 4)" by simp
  also have "\<dots> \<longleftrightarrow> e div 32 * 4 = g div 32 * 4"
    using s by (simp only: word_unat_eq_iff unat_of_nat len_num1 len_bit0 mult_1_right) (simp add: take_bit_nat_eq_self)
  finally show ?thesis by simp
qed

text \<open>The registers of two groups are apart.\<close>

definition mask_groups :: "u32 set" where "mask_groups = {SOC_FC_FIRST_MASK, SOC_CL_FIRST_MASK, SOC_PR_FIRST_MASK}"

lemma event_groups:
  assumes "F \<in> mask_groups" "G \<in> mask_groups" "F \<noteq> G" "e < 256" "g < 256"
  shows "F + of_nat (e div 32) * 4 \<noteq> G + of_nat (g div 32) * 4"
proof -
  have s: "e div 32 < 8" "g div 32 < 8" using assms by simp_all
  have u: "unat (c + of_nat k * 4 :: u32) = unat c + k * 4" if "unat c < 100" "k < 8" for c k
  proof -
    have "c + of_nat k * 4 = of_nat (unat c + k * 4)" by simp
    then show ?thesis using that by (simp only: unat_of_nat) (simp add: take_bit_nat_eq_self)
  qed
  have "unat F + e div 32 * 4 \<noteq> unat G + g div 32 * 4"
    using assms(1-3) s by (auto simp: mask_groups_def SOC_FC_FIRST_MASK_def SOC_CL_FIRST_MASK_def SOC_PR_FIRST_MASK_def)
  moreover have "unat F < 100" "unat G < 100"
    using assms(1,2) by (auto simp: mask_groups_def SOC_FC_FIRST_MASK_def SOC_CL_FIRST_MASK_def SOC_PR_FIRST_MASK_def)
  ultimately show ?thesis using u s by metis
qed

lemma written_set_event:
  fixes eu F
  assumes "e < 256"
  defines "a \<equiv> eu + (F + of_nat (e div 32) * 4)"
  shows "written (soc_eu_eventMask_setEvent written eu (of_nat e) F t) b =
      (if b = a then written t a AND NOT (push_bit (e mod 32) 1) else written t b)"
    "written (soc_eu_eventMask_clearEvent written eu (of_nat e) F t) b =
      (if b = a then written t a OR push_bit (e mod 32) 1 else written t b)"
  using written_append_write [of t a "written t a"]
  by (simp_all add: soc_eu_eventMask_setEvent_def soc_eu_eventMask_clearEvent_def soc_eu_eventMask_get_def soc_eu_eventMask_set_def
      event_index [OF assms(1)] mmio_read_def mmio_write_def Let_def a_def)

lemma written_reset:
  "written (fold (\<lambda>i t. soc_eu_eventMask_set eu (F + of_nat i * 4) v t) [0..<k] t) b =
    (if \<exists>i<k. b = eu + (F + of_nat i * 4) then v else written t b)"
proof (induction k)
  case (Suc k)
  have "written (soc_eu_eventMask_set eu r v u) b = (if b = eu + r then v else written u b)" for r u
    by (simp add: soc_eu_eventMask_set_def written_def)
  with Suc show ?case by (auto simp: less_Suc_eq)
qed simp

text \<open>
  The mask registers of the SoC implement three sets of events below 256, one for each destination: enabling an event
  inserts it, disabling removes it, and a reset empties the set; the sets of the other two destinations are as before.
\<close>

theorem soc_event_masks:
  assumes "F \<in> mask_groups" "G \<in> mask_groups" "e < 256"
  shows "let_through eu G (soc_eu_eventMask_setEvent written eu (of_nat e) F t) =
      (if G = F then insert e (let_through eu F t) else let_through eu G t)
    \<and> let_through eu G (soc_eu_eventMask_clearEvent written eu (of_nat e) F t) =
      (if G = F then let_through eu F t - {e} else let_through eu G t)
    \<and> let_through eu G (soc_eu_eventMask_reset eu F t) = (if G = F then {} else let_through eu G t)"
proof (intro conjI)
  have same: "eu + (F + of_nat (g div 32) * 4) = eu + (F + of_nat (e div 32) * 4) \<longleftrightarrow> g div 32 = e div 32" if "g < 256" for g
    using event_register [OF that assms(3)] by simp
  have apart: "eu + (G + of_nat (g div 32) * 4) \<noteq> eu + (F + of_nat (e div 32) * 4)" if "g < 256" "G \<noteq> F" for g
    using event_groups [OF assms(2,1) that(2) that(1) assms(3)] by simp
  have g: "g div 32 = e div 32 \<Longrightarrow> g mod 32 = e mod 32 \<longleftrightarrow> g = e" for g :: nat by (metis div_mult_mod_eq)
  have m: "g mod 32 < 32" for g :: nat by simp
  have bits: "bit (v AND NOT (push_bit k 1)) j \<longleftrightarrow> bit v j \<and> j \<noteq> k" "bit (v OR push_bit k 1) j \<longleftrightarrow> bit v j \<or> j = k"
    if "j < 32" "k < 32" for v :: u32 and j k
    using that by (auto simp: bit_simps)
  show "let_through eu G (soc_eu_eventMask_setEvent written eu (of_nat e) F t) =
      (if G = F then insert e (let_through eu F t) else let_through eu G t)"
    using assms(3) same apart g
    by (cases "G = F") (auto simp: let_through_def written_set_event [OF assms(3)] bits [unfolded push_bit_of_1] m split: if_splits)
  show "let_through eu G (soc_eu_eventMask_clearEvent written eu (of_nat e) F t) =
      (if G = F then let_through eu F t - {e} else let_through eu G t)"
    using assms(3) same apart g
    by (cases "G = F") (auto simp: let_through_def written_set_event [OF assms(3)] bits [unfolded push_bit_of_1] m split: if_splits)
  have reset: "written (soc_eu_eventMask_reset eu F t) (eu + (G + of_nat (g div 32) * 4)) =
      (if G = F then 0xFFFFFFFF else written t (eu + (G + of_nat (g div 32) * 4)))" if "g < 256" for g
  proof (cases "G = F")
    case True
    have "g div 32 < 8" using that by simp
    then show ?thesis using True by (auto simp: soc_eu_eventMask_reset_def written_reset SOC_NB_EVENT_REGS_def)
  next
    case False
    have "eu + (G + of_nat (g div 32) * 4) \<noteq> eu + (F + of_nat i * 4)" if "i < 8" for i
      using event_groups [OF assms(2,1) False \<open>g < 256\<close>, of "32 * i"] that by simp
    then show ?thesis using False by (auto simp: soc_eu_eventMask_reset_def written_reset SOC_NB_EVENT_REGS_def)
  qed
  have "(0xFFFFFFFF :: u32) = mask 32" by (simp add: mask_eq_exp_minus_1)
  then have "bit (0xFFFFFFFF :: u32) j" if "j < 32" for j
    using that by (simp only: bit_mask_iff) simp
  with reset m show "let_through eu G (soc_eu_eventMask_reset eu F t) = (if G = F then {} else let_through eu G t)"
    by (auto simp: let_through_def)
qed

theorem soc_event_masks_witness:
  "let_through 0x1A106000 SOC_FC_FIRST_MASK (soc_eu_eventMask_setEvent written 0x1A106000 (of_nat 100) SOC_FC_FIRST_MASK
      (soc_eu_eventMask_reset 0x1A106000 SOC_FC_FIRST_MASK [])) = {100}"
  using soc_event_masks [of SOC_FC_FIRST_MASK SOC_FC_FIRST_MASK 100 "0x1A106000"] by (simp add: mask_groups_def)

section \<open>Findings\<close>

text \<open>
  Forwarding an event to a timer is enabled by bit 31, but the value is not shifted there: the documented values 0 and 1
  leave bit 31 clear, and 1 changes the number of the event.
\<close>

theorem event_timer_never_enabled:
  assumes "val < 0x80000000"
  shows "\<exists>a old new. soc_eu_setEnableEventTimer dev eu timer_id val t = t @ [MRead a old, MWrite a new]
    \<and> \<not> bit new 31 \<and> (val = 1 \<longrightarrow> bit new 0)"
proof -
  let ?a = "eu + SOC_TIMER_SEL_HI + timer_id * 4"
  let ?new = "(dev t ?a AND NOT (push_bit SOC_TIMER_SEL_ENABLE_SHIFT 1)) OR val"
  have "soc_eu_setEnableEventTimer dev eu timer_id val t = t @ [MRead ?a (dev t ?a), MWrite ?a ?new]"
    by (simp add: soc_eu_setEnableEventTimer_def mmio_read_def mmio_write_def Let_def)
  moreover have "val = take_bit 31 val"
    using assms by (simp add: word_less_nat_alt word_unat_eq_iff unsigned_take_bit_eq take_bit_nat_eq_self)
  then have "\<not> bit val 31" by (metis bit_take_bit_iff less_irrefl)
  then have "\<not> bit ?new 31" by (simp add: bit_or_iff bit_and_iff bit_not_iff bit_push_bit_iff SOC_TIMER_SEL_ENABLE_SHIFT_def)
  moreover have "bit ?new 0" if "val = 1" using that by (simp add: bit_or_iff)
  ultimately show ?thesis by blast
qed

text \<open>
  The fetch enable of the own cluster is written 2 MiB below the controller, into the scratchpad; the one of a remote cluster
  reaches the controller. A timer of any cluster is looked up in cluster 0.
\<close>

theorem fetch_enable_misses_controller:
  "eoc_fetch_enable m t = t @ [MWrite (ARCHI_CLUSTER_CTRL_ADDR + EOC_FETCH_OFFSET - ARCHI_CLUSTER_PERIPHERALS_OFFSET) m]
    \<and> plp_ctrl_fetchen m t = eoc_fetch_enable m t
    \<and> eoc_fetch_enable_remote cid m t = t @ [MWrite (ARCHI_CLUSTER_PERIPHERALS_GLOBAL_ADDR cid + ARCHI_CLUSTER_CTRL_OFFSET + EOC_FETCH_OFFSET) m]
    \<and> timer_base_cl cid n s = timer_base_cl 0 n s"
  by (simp add: eoc_fetch_enable_def plp_ctrl_fetchen_def eoc_fetch_enable_base_def plp_ctrl_fetchen_base_def eoc_fetch_enable_remote_def
      mmio_write_def ARCHI_CLUSTER_CTRL_ADDR_def ARCHI_CLUSTER_PERIPHERALS_ADDR_def timer_base_cl_def)

end
