(* ===== verification/Register_Maps.thy ===== *)
theory Register_Maps
  imports Dsp_Builtins Host_Access
begin

text \<open>
  Register-map headers of the pulp-sdk (\<^verbatim>\<open>archi/include/archi\<close>). Such a header describes a device in five ways that have to
  agree: the offsets of its registers, the constants of every bit field, a \<^verbatim>\<open>struct\<close> of bit fields for every register, a
  pair of access functions for every register and four macros for every field. A header is a \<open>register_map\<close>, a
  record of these tables in the order of the file; this theory says what the entries mean and when the five tables
  agree. The tables are in the theories \<open>Maps_Soc\<close>, \<open>Maps_Io\<close>, \<open>Maps_Udma\<close> and \<open>Maps_Maestro\<close>.
\<close>

unbundle bit_operations_syntax

section \<open>The entries of a header\<close>

text \<open>
  \<open>Reg r off\<close> stands for the constant \<^verbatim>\<open>r_OFFSET\<close>; \<open>Field f bit width mask\<close> for \<^verbatim>\<open>f_BIT\<close>, \<^verbatim>\<open>f_WIDTH\<close> and \<^verbatim>\<open>f_MASK\<close>; \<open>Struct s ms\<close> for
  the type \<^verbatim>\<open>s_t\<close> of a word with these members, the anonymous ones being \<open>Padding\<close>; \<open>Getter f r\<close> and \<open>Setter f r\<close> for the
  functions \<^verbatim>\<open>f_get\<close> and \<^verbatim>\<open>f_set\<close> that read or write at \<^verbatim>\<open>r_OFFSET\<close>; \<open>Macros f (s, o) (s', o') (s'', o'') sh\<close> for \<^verbatim>\<open>f_GET\<close>,
  \<^verbatim>\<open>f_GETS\<close>, \<^verbatim>\<open>f_SET\<close> with these sizes and positions and \<^verbatim>\<open>f\<close>, which shifts by \<open>sh\<close>. Some headers give every field the value
  it has after a reset, \<open>Reset f v\<close> for \<^verbatim>\<open>f_RESET\<close>.
\<close>

datatype reg_row = Reg string nat
datatype field_row = Field string nat nat nat
datatype member = Bits string nat | Padding nat
datatype struct_row = Struct string "member list"
datatype access_row = Getter string string | Setter string string
datatype macro_row = Macros string "nat \<times> nat" "nat \<times> nat" "nat \<times> nat" nat
datatype reset_row = Reset string nat

record register_map =
  hdr_regs :: "reg_row list"
  hdr_fields :: "field_row list"
  hdr_resets :: "reset_row list"
  hdr_structs :: "struct_row list"
  hdr_access :: "access_row list"
  hdr_macros :: "macro_row list"

section \<open>What the entries mean\<close>

definition ARCHI_BINSERT :: "u32 \<Rightarrow> u32 \<Rightarrow> nat \<Rightarrow> nat \<Rightarrow> u32" where
  "ARCHI_BINSERT dst src sz off = BITINSERT dst src sz off"

definition ARCHI_BEXTRACTU :: "u32 \<Rightarrow> nat \<Rightarrow> nat \<Rightarrow> u32" where
  "ARCHI_BEXTRACTU src sz off = BITEXTRACTU src sz off"

definition ARCHI_BEXTRACT :: "u32 \<Rightarrow> nat \<Rightarrow> nat \<Rightarrow> u32" where
  "ARCHI_BEXTRACT src sz off = BITEXTRACT src sz off"

fun macro_get :: "macro_row \<Rightarrow> u32 \<Rightarrow> u32" where
  "macro_get (Macros f (sz, off) _ _ _) value = ARCHI_BEXTRACTU value sz off"

fun macro_gets :: "macro_row \<Rightarrow> u32 \<Rightarrow> u32" where
  "macro_gets (Macros f _ (sz, off) _ _) value = ARCHI_BEXTRACT value sz off"

fun macro_set :: "macro_row \<Rightarrow> u32 \<Rightarrow> u32 \<Rightarrow> u32" where
  "macro_set (Macros f _ _ (sz, off) _) value x = ARCHI_BINSERT value x sz off"

fun macro_val :: "macro_row \<Rightarrow> u32 \<Rightarrow> u32" where
  "macro_val (Macros f _ _ _ sh) val = push_bit sh val"

text \<open>The value of a field by its constants, as code that uses \<^verbatim>\<open>f_MASK\<close> and \<^verbatim>\<open>f_BIT\<close> computes it.\<close>

fun masked :: "field_row \<Rightarrow> u32 \<Rightarrow> u32" where
  "masked (Field f b w m) value = drop_bit b (value AND of_nat m)"

text \<open>
  The compiler of these little-endian cores gives the members of a word the bits from the lowest one on: a member, its
  first bit and its width.
\<close>

fun layout :: "nat \<Rightarrow> member list \<Rightarrow> (string \<times> nat \<times> nat) list" where
  "layout p [] = []"
| "layout p (Bits f w # ms) = (f, p, w) # layout (p + w) ms"
| "layout p (Padding w # ms) = layout (p + w) ms"

fun width_of :: "member \<Rightarrow> nat" where
  "width_of (Bits f w) = w"
| "width_of (Padding w) = w"

definition member_get :: "nat \<Rightarrow> nat \<Rightarrow> u32 \<Rightarrow> u32" where
  "member_get p w raw = take_bit w (drop_bit p raw)"

definition member_set :: "nat \<Rightarrow> nat \<Rightarrow> u32 \<Rightarrow> u32 \<Rightarrow> u32" where
  "member_set p w x raw = (raw AND NOT (push_bit p (mask w))) OR push_bit p (take_bit w x)"

fun reg_name :: "reg_row \<Rightarrow> string" where
  "reg_name (Reg r off) = r"

fun reg_off :: "reg_row \<Rightarrow> nat" where
  "reg_off (Reg r off) = off"

definition offset_of :: "register_map \<Rightarrow> string \<Rightarrow> u32 option" where
  "offset_of h r = map_option of_nat (map_of (map (\<lambda>x. (reg_name x, reg_off x)) (hdr_regs h)) r)"

definition run_get :: "device \<Rightarrow> register_map \<Rightarrow> string \<Rightarrow> u32 \<Rightarrow> trace \<Rightarrow> (u32 \<times> trace) option" where
  "run_get dev h r base t = map_option (\<lambda>off. mmio_read dev (base + off) t) (offset_of h r)"

definition run_set :: "register_map \<Rightarrow> string \<Rightarrow> u32 \<Rightarrow> u32 \<Rightarrow> trace \<Rightarrow> trace option" where
  "run_set h r base value t = map_option (\<lambda>off. mmio_write (base + off) value t) (offset_of h r)"

section \<open>When the tables agree\<close>

text \<open>Types, members and functions have the names of the constants in lower case.\<close>

primrec upper :: "char \<Rightarrow> char" where
  "upper (Char b0 b1 b2 b3 b4 b5 b6 b7) = Char b0 b1 b2 b3 b4 (b5 \<and> \<not> b6) b6 b7"

definition in_upper :: "string \<Rightarrow> string" where
  "in_upper s = map upper s"

fun register_ok :: "reg_row \<Rightarrow> bool" where
  "register_ok (Reg r off) \<longleftrightarrow> off < 2 ^ 32"

fun field_ok :: "field_row \<Rightarrow> bool" where
  "field_ok (Field f b w m) \<longleftrightarrow> 0 < w \<and> b + w \<le> 32 \<and> m = (2 ^ w - 1) * 2 ^ b"

fun macros_ok :: "field_row \<Rightarrow> macro_row \<Rightarrow> bool" where
  "macros_ok (Field f b w m) (Macros f' g s i sh) \<longleftrightarrow> f' = f \<and> g = (w, b) \<and> s = (w, b) \<and> i = (w, b) \<and> sh = b"

fun reset_ok :: "field_row \<Rightarrow> reset_row \<Rightarrow> bool" where
  "reset_ok (Field f b w m) (Reset f' v) \<longleftrightarrow> f' = f \<and> v < 2 ^ w"

fun struct_fields :: "struct_row \<Rightarrow> (string \<times> nat \<times> nat) list" where
  "struct_fields (Struct s ms) = map (\<lambda>(f, p, w). (in_upper s @ ''_'' @ in_upper f, p, w)) (layout 0 ms)"

fun struct_ok :: "struct_row \<Rightarrow> bool" where
  "struct_ok (Struct s ms) \<longleftrightarrow> sum_list (map width_of ms) \<le> 32"

fun field_place :: "field_row \<Rightarrow> string \<times> nat \<times> nat" where
  "field_place (Field f b w m) = (f, b, w)"

fun field_name :: "field_row \<Rightarrow> string" where
  "field_name (Field f b w m) = f"

fun access_place :: "access_row \<Rightarrow> bool \<times> string \<times> string" where
  "access_place (Getter f r) = (False, in_upper f, r)"
| "access_place (Setter f r) = (True, in_upper f, r)"

definition accessors_ok :: "reg_row list \<Rightarrow> access_row list \<Rightarrow> bool" where
  "accessors_ok rs as \<longleftrightarrow>
     map access_place as = concat (map (\<lambda>r. [(False, reg_name r, reg_name r), (True, reg_name r, reg_name r)]) rs)"

text \<open>The constants, the access functions and the macros agree; the types of the registers agree with the constants.\<close>

definition constants_agree :: "register_map \<Rightarrow> bool" where
  "constants_agree h \<longleftrightarrow>
     list_all register_ok (hdr_regs h) \<and> distinct (map reg_off (hdr_regs h))
     \<and> list_all field_ok (hdr_fields h) \<and> distinct (map field_name (hdr_fields h)) \<and> list_all2 macros_ok (hdr_fields h) (hdr_macros h)
     \<and> (hdr_resets h = [] \<or> list_all2 reset_ok (hdr_fields h) (hdr_resets h)) \<and> accessors_ok (hdr_regs h) (hdr_access h)"

text \<open>The access functions move 32 bits, so that registers have to lie at multiples of four for them.\<close>

definition aligned :: "register_map \<Rightarrow> bool" where
  "aligned h \<longleftrightarrow> list_all (\<lambda>r. reg_off r mod 4 = 0) (hdr_regs h)"

definition structs_agree :: "register_map \<Rightarrow> bool" where
  "structs_agree h \<longleftrightarrow>
     list_all struct_ok (hdr_structs h) \<and> concat (map struct_fields (hdr_structs h)) = map field_place (hdr_fields h)"

lemmas check_header = constants_agree_def aligned_def structs_agree_def accessors_ok_def in_upper_def

section \<open>Fields of a word\<close>

lemma bit_member_set:
  assumes "p + w \<le> 32" "i < 32"
  shows "bit (member_set p w x raw) i = (if p \<le> i \<and> i < p + w then bit x (i - p) else bit raw i)"
  using assms by (auto simp: member_set_def bit_simps)

lemma bit_member_get: "bit (member_get p w raw) i \<longleftrightarrow> i < w \<and> bit raw (p + i)"
  by (simp add: member_get_def bit_simps)

lemma member_set_get:
  assumes "p + w \<le> 32" "q + u \<le> 32" "p + w \<le> q \<or> q + u \<le> p"
  shows "member_get q u (member_set p w x raw) = member_get q u raw"
  using assms by (intro bit_word_eqI) (auto simp: bit_member_get bit_member_set)

lemma member_set_get_same: "p + w \<le> 32 \<Longrightarrow> member_get p w (member_set p w x raw) = take_bit w x"
  by (intro bit_word_eqI) (auto simp: bit_member_get bit_member_set bit_simps)

lemma mask_of_field: "field_ok (Field f b w m) \<Longrightarrow> (of_nat m :: u32) = push_bit b (mask w)"
  by (simp add: push_bit_eq_mult mask_eq_exp_minus_1 of_nat_diff)

lemma masked_member: "field_ok (Field f b w m) \<Longrightarrow> masked (Field f b w m) v = member_get b w v"
  using mask_of_field [of f b w m] by (intro bit_word_eqI) (auto simp: bit_member_get bit_simps)

lemma macro_member:
  assumes "b + w \<le> 32"
  shows "ARCHI_BEXTRACTU v w b = member_get b w v" "ARCHI_BINSERT v x w b = member_set b w x v"
    "push_bit b (take_bit w x) = member_set b w x (0 :: u32)"
  using assms
  by (auto intro!: bit_word_eqI simp: ARCHI_BEXTRACTU_def ARCHI_BINSERT_def bit_BITEXTRACTU bit_BITINSERT bit_member_get
      bit_member_set bit_simps add.commute split: if_splits)

lemma layout_bounds: "(f, p, w) \<in> set (layout k ms) \<Longrightarrow> k \<le> p \<and> p + w \<le> k + sum_list (map width_of ms)"
  by (induction k ms rule: layout.induct) auto

lemma layout_apart:
  "(f, p, w) \<in> set (layout k ms) \<Longrightarrow> (g, q, u) \<in> set (layout k ms) \<Longrightarrow> (f, p, w) \<noteq> (g, q, u) \<Longrightarrow> p + w \<le> q \<or> q + u \<le> p"
  by (induction k ms rule: layout.induct) (auto dest: layout_bounds)

section \<open>Headers whose tables agree\<close>

lemma register_small: "register_ok x \<Longrightarrow> reg_off x < 2 ^ 32"
  by (cases x) simp

locale register_constants =
  fixes h :: register_map
  assumes constants: "constants_agree h"
begin

lemma macros_of_field:
  assumes "Field F b w m \<in> set (hdr_fields h)"
  shows "Macros F (w, b) (w, b) (w, b) b \<in> set (hdr_macros h)"
proof -
  obtain i where i: "i < length (hdr_fields h)" "hdr_fields h ! i = Field F b w m"
    using assms by (auto simp: in_set_conv_nth)
  with constants have "macros_ok (Field F b w m) (hdr_macros h ! i)" "i < length (hdr_macros h)"
    by (auto simp: constants_agree_def list_all2_conv_all_nth)
  moreover from this have "hdr_macros h ! i = Macros F (w, b) (w, b) (w, b) b" by (cases "hdr_macros h ! i") auto
  ultimately show ?thesis using nth_mem by metis
qed

text \<open>No macros have the name of a field but its own.\<close>

lemma macros_named:
  assumes "Field F b w m \<in> set (hdr_fields h)" "Macros F u g i sh \<in> set (hdr_macros h)"
  shows "u = (w, b) \<and> g = (w, b) \<and> i = (w, b) \<and> sh = b"
proof -
  obtain k where k: "k < length (hdr_macros h)" "hdr_macros h ! k = Macros F u g i sh"
    using assms(2) by (auto simp: in_set_conv_nth)
  with constants have ok: "macros_ok (hdr_fields h ! k) (Macros F u g i sh)" and "k < length (hdr_fields h)"
    by (auto simp: constants_agree_def list_all2_conv_all_nth)
  then have in_k: "hdr_fields h ! k \<in> set (hdr_fields h)" by simp
  have inj: "inj_on field_name (set (hdr_fields h))" using constants by (simp add: constants_agree_def distinct_map)
  have "field_name (hdr_fields h ! k) = field_name (Field F b w m)" using ok by (cases "hdr_fields h ! k") simp
  from inj_onD [OF inj this in_k assms(1)] have "hdr_fields h ! k = Field F b w m" .
  with ok show ?thesis by simp
qed

lemma offset_inj: "offset_of h r = Some off \<Longrightarrow> offset_of h r' = Some off \<Longrightarrow> r = r'"
proof -
  have d: "distinct (map reg_off (hdr_regs h))" and l: "list_all register_ok (hdr_regs h)"
    using constants by (auto simp: constants_agree_def)
  assume "offset_of h r = Some off" "offset_of h r' = Some off"
  then obtain x y where xy: "x \<in> set (hdr_regs h)" "y \<in> set (hdr_regs h)" "r = reg_name x" "r' = reg_name y"
      "off = of_nat (reg_off x)" "off = of_nat (reg_off y)"
    by (auto simp: offset_of_def dest!: map_of_SomeD)
  have small: "unat (of_nat (reg_off z) :: u32) = reg_off z" if "z \<in> set (hdr_regs h)" for z
    using register_small l that by (fastforce simp: list_all_iff unsigned_of_nat take_bit_nat_eq_self)
  have "reg_off x = reg_off y" using small [OF xy(1)] small [OF xy(2)] xy(5,6) by metis
  with xy(1,2) d have "x = y" by (auto simp: distinct_map dest: inj_onD)
  with xy show "r = r'" by simp
qed

lemma accessor_offset: "Getter f r \<in> set (hdr_access h) \<or> Setter f r \<in> set (hdr_access h) \<Longrightarrow> offset_of h r \<noteq> None"
proof -
  assume "Getter f r \<in> set (hdr_access h) \<or> Setter f r \<in> set (hdr_access h)"
  then have "r \<in> (\<lambda>x. snd (snd x)) ` set (map access_place (hdr_access h))" by force
  also have "map access_place (hdr_access h) =
      concat (map (\<lambda>r. [(False, reg_name r, reg_name r), (True, reg_name r, reg_name r)]) (hdr_regs h))"
    using constants by (simp add: constants_agree_def accessors_ok_def)
  finally have "r \<in> reg_name ` set (hdr_regs h)" by auto
  then show ?thesis by (auto simp: offset_of_def map_of_eq_None_iff image_image)
qed

end

locale register_header = register_constants +
  assumes structs: "structs_agree h"
begin

lemma field_of_member:
  assumes "Struct s ms \<in> set (hdr_structs h)" "(f, p, w) \<in> set (layout 0 ms)"
  obtains m where "Field (in_upper s @ ''_'' @ in_upper f) p w m \<in> set (hdr_fields h)"
    "field_ok (Field (in_upper s @ ''_'' @ in_upper f) p w m)"
proof -
  let ?F = "in_upper s @ ''_'' @ in_upper f"
  have "(?F, p, w) \<in> set (concat (map struct_fields (hdr_structs h)))"
    using assms by (force simp: image_iff)
  then have "(?F, p, w) \<in> field_place ` set (hdr_fields h)"
    using structs by (simp only: structs_agree_def set_map)
  then obtain x where x: "x \<in> set (hdr_fields h)" "field_place x = (?F, p, w)" by auto
  obtain m where "x = Field ?F p w m" using x(2) by (cases x) auto
  with x that constants show thesis by (auto simp: constants_agree_def list_all_iff)
qed

lemma member_in_word:
  assumes "Struct s ms \<in> set (hdr_structs h)" "(f, p, w) \<in> set (layout 0 ms)"
  shows "p + w \<le> 32"
  using structs layout_bounds [OF assms(2)] assms(1) by (fastforce simp: structs_agree_def list_all_iff)

lemma views_agree:
  assumes "Struct s ms \<in> set (hdr_structs h)" "(f, p, w) \<in> set (layout 0 ms)" "F = in_upper s @ ''_'' @ in_upper f"
  shows "\<exists>m. Field F p w m \<in> set (hdr_fields h) \<and> (\<forall>v. masked (Field F p w m) v = member_get p w v)"
    and "Macros F u g i sh \<in> set (hdr_macros h) \<longleftrightarrow> u = (w, p) \<and> g = (w, p) \<and> i = (w, p) \<and> sh = p"
    and "macro_get (Macros F (w, p) (w, p) (w, p) p) v = member_get p w v"
    and "macro_set (Macros F (w, p) (w, p) (w, p) p) v x = member_set p w x v"
    and "macro_val (Macros F (w, p) (w, p) (w, p) p) (take_bit w x) = member_set p w x 0"
proof -
  obtain m where m: "Field F p w m \<in> set (hdr_fields h)" "field_ok (Field F p w m)"
    using field_of_member [OF assms(1,2)] assms(3) by blast
  then show "\<exists>m. Field F p w m \<in> set (hdr_fields h) \<and> (\<forall>v. masked (Field F p w m) v = member_get p w v)"
    using masked_member by blast
  show "Macros F u g i sh \<in> set (hdr_macros h) \<longleftrightarrow> u = (w, p) \<and> g = (w, p) \<and> i = (w, p) \<and> sh = p"
    using macros_of_field [OF m(1)] macros_named [OF m(1)] by blast
  show "macro_get (Macros F (w, p) (w, p) (w, p) p) v = member_get p w v"
    "macro_set (Macros F (w, p) (w, p) (w, p) p) v x = member_set p w x v"
    "macro_val (Macros F (w, p) (w, p) (w, p) p) (take_bit w x) = member_set p w x 0"
    using macro_member [OF member_in_word [OF assms(1,2)]] by simp_all
qed

lemma members_apart:
  assumes "Struct s ms \<in> set (hdr_structs h)" "(f, p, w) \<in> set (layout 0 ms)" "(g, q, u) \<in> set (layout 0 ms)"
  shows "member_get q u (member_set p w x raw) = (if (f, p, w) = (g, q, u) then take_bit w x else member_get q u raw)"
  using member_in_word [OF assms(1,2)] member_in_word [OF assms(1,3)] layout_apart [OF assms(2,3)]
  by (auto intro: member_set_get member_set_get_same)

end

lemma multiple_of_nat: "n mod 4 = 0 \<Longrightarrow> unat (of_nat n :: u32) mod 4 = 0"
  by (simp add: unsigned_of_nat take_bit_eq_mod mod_mod_cancel)

lemma multiples_apart:
  fixes a b :: u32
  assumes "unat a mod 4 = 0" "unat b mod 4 = 0" "a \<noteq> b"
  shows "4 \<le> unat (a - b)"
proof -
  have "unat (a - b) mod 4 = 0"
    using assms(1,2) unsigned_less [of a] unsigned_less [of b] by (simp add: unat_sub_if') presburger
  moreover have "unat (a - b) \<noteq> 0" using assms(3) by (simp add: unat_eq_0)
  ultimately show ?thesis by presburger
qed

locale register_addresses = register_constants +
  assumes words: "aligned h"
begin

lemma offset_multiple: "offset_of h r = Some a \<Longrightarrow> unat a mod 4 = 0"
  using words by (fastforce simp: aligned_def offset_of_def list_all_iff dest!: map_of_SomeD intro: multiple_of_nat)

lemma registers_apart:
  assumes "offset_of h r = Some a" "offset_of h r' = Some b"
  shows "r' \<noteq> r \<Longrightarrow> 4 \<le> unat (a - b)"
    and "run_set h r base v t = Some t' \<Longrightarrow> map_option fst (run_get written h r' base t') = Some (if r' = r then v else written t (base + b))"
proof -
  have ne: "b \<noteq> a" if "r' \<noteq> r" using offset_inj [OF assms(1), of r'] assms(2) that by auto
  then show "4 \<le> unat (a - b)" if "r' \<noteq> r"
    using that multiples_apart [OF offset_multiple [OF assms(1)] offset_multiple [OF assms(2)]] by simp
  assume "run_set h r base v t = Some t'"
  with assms ne show "map_option fst (run_get written h r' base t') = Some (if r' = r then v else written t (base + b))"
    by (auto simp: run_get_def run_set_def mmio_read_def Let_def written_def)
qed

end

locale aligned_header = register_header + register_addresses

end
