(* ===== verification/Maps_Soc.thy ===== *)
theory Maps_Soc
  imports Register_Maps
begin

text \<open>
  Register maps of the SoC controllers, the timers and the interrupt controller.
\<close>

section \<open>\<^verbatim>\<open>chips/gap/apb_soc.h\<close>\<close>

definition gap_apb_soc_regs :: "reg_row list" where
  "gap_apb_soc_regs = [
     Reg ''APB_SOC_INFO'' 0x0, Reg ''APB_SOC_NOTUSED0'' 0x4, Reg ''APB_SOC_NOTUSED1'' 0x8, Reg ''APB_SOC_CL_ISOLATE'' 0xC,
     Reg ''APB_SOC_CL_BUSY'' 0x6C, Reg ''APB_SOC_CL_BYPASS'' 0x70, Reg ''APB_SOC_JTAGREG'' 0x74, Reg ''APB_SOC_L2_SLEEP'' 0x78,
     Reg ''APB_SOC_SLEEP_CTRL'' 0x7C, Reg ''APB_SOC_CORESTATUS'' 0xA0, Reg ''APB_SOC_CORESTATUS_RO'' 0xC0,
     Reg ''APB_SOC_SAFE_PMU_RAR'' 0x100, Reg ''APB_SOC_SAFE_PMU_SLEEPCTRL'' 0x104, Reg ''APB_SOC_SAFE_PMU_FORCE'' 0x108,
     Reg ''APB_SOC_SAFE_PADFUN0'' 0x140, Reg ''APB_SOC_SAFE_PADFUN1'' 0x144, Reg ''APB_SOC_SAFE_PADFUN2'' 0x148,
     Reg ''APB_SOC_SAFE_PADFUN3'' 0x14C, Reg ''APB_SOC_SAFE_SLEEPPADCFG0'' 0x150, Reg ''APB_SOC_SAFE_SLEEPPADCFG1'' 0x154,
     Reg ''APB_SOC_SAFE_SLEEPPADCFG2'' 0x158, Reg ''APB_SOC_SAFE_SLEEPPADCFG3'' 0x15C, Reg ''APB_SOC_SAFE_PADSLEEP'' 0x160,
     Reg ''APB_SOC_SAFE_PADCFG0'' 0x180, Reg ''APB_SOC_SAFE_PADCFG1'' 0x184, Reg ''APB_SOC_SAFE_PADCFG2'' 0x188,
     Reg ''APB_SOC_SAFE_PADCFG3'' 0x18C, Reg ''APB_SOC_SAFE_PADCFG4'' 0x190, Reg ''APB_SOC_SAFE_PADCFG5'' 0x194,
     Reg ''APB_SOC_SAFE_PADCFG6'' 0x198, Reg ''APB_SOC_SAFE_PADCFG7'' 0x19C, Reg ''APB_SOC_SAFE_PADCFG8'' 0x1A0,
     Reg ''APB_SOC_SAFE_PADCFG9'' 0x1A4, Reg ''APB_SOC_SAFE_PADCFG10'' 0x1A8, Reg ''APB_SOC_SAFE_PADCFG11'' 0x1AC,
     Reg ''APB_SOC_SAFE_PADCFG12'' 0x1B0, Reg ''APB_SOC_SAFE_PADCFG13'' 0x1B4, Reg ''APB_SOC_SAFE_PADCFG14'' 0x1B8,
     Reg ''APB_SOC_SAFE_PADCFG15'' 0x1BC, Reg ''APB_SOC_REG_GPIO_ISO'' 0x1C0, Reg ''APB_SOC_REG_CAM_ISO'' 0x1C4,
     Reg ''APB_SOC_REG_LVDS_ISO'' 0x1C8]"

definition gap_apb_soc_fields_1 :: "field_row list" where
  "gap_apb_soc_fields_1 = [
     Field ''APB_SOC_INFO_NB_CL'' 0 16 0xFFFF, Field ''APB_SOC_INFO_NB_CORES'' 16 16 0xFFFF0000, Field ''APB_SOC_CL_ISOLATE_EN'' 0 1 0x1,
     Field ''APB_SOC_CL_BUSY_BUSY'' 0 1 0x1, Field ''APB_SOC_CL_BYPASS_BYP_POW'' 0 1 0x1, Field ''APB_SOC_CL_BYPASS_BYP_CFG'' 1 1 0x2,
     Field ''APB_SOC_CL_BYPASS_CL_STATE'' 3 1 0x8, Field ''APB_SOC_CL_BYPASS_CURRSET'' 4 3 0x70,
     Field ''APB_SOC_CL_BYPASS_PROG_DEL'' 7 2 0x180, Field ''APB_SOC_CL_BYPASS_BYP_CLK'' 9 1 0x200,
     Field ''APB_SOC_CL_BYPASS_CG'' 10 1 0x400, Field ''APB_SOC_CL_BYPASS_FLL_PWD'' 11 1 0x800,
     Field ''APB_SOC_CL_BYPASS_FLL_RET'' 12 1 0x1000, Field ''APB_SOC_CL_BYPASS_RST'' 13 1 0x2000,
     Field ''APB_SOC_CL_BYPASS_BYP_ISO'' 14 1 0x4000, Field ''APB_SOC_CL_BYPASS_PWISO'' 15 1 0x8000,
     Field ''APB_SOC_CL_BYPASS_TRCPOWOK'' 16 1 0x10000, Field ''APB_SOC_CL_BYPASS_PMUPOWDOWN'' 17 1 0x20000,
     Field ''APB_SOC_JTAGREG_INT_SYNC'' 0 1 0x1, Field ''APB_SOC_JTAGREG_INT_BT_MD'' 1 3 0xE,
     Field ''APB_SOC_JTAGREG_EXT_SYNC'' 8 1 0x100, Field ''APB_SOC_JTAGREG_EXT_BT_MD'' 9 3 0xE00,
     Field ''APB_SOC_L2_SLEEP_L2_SLEEP'' 0 1 0x1, Field ''APB_SOC_SLEEP_CTRL_SLEEP_CTRL'' 0 32 0xFFFFFFFF,
     Field ''APB_SOC_CORESTATUS_STATUS'' 0 32 0xFFFFFFFF, Field ''APB_SOC_CORESTATUS_RO_STATUS'' 0 32 0xFFFFFFFF,
     Field ''APB_SOC_SAFE_PMU_RAR_NV_VOLT'' 0 5 0x1F, Field ''APB_SOC_SAFE_PMU_RAR_MV_VOLT'' 8 5 0x1F00,
     Field ''APB_SOC_SAFE_PMU_RAR_LV_VOLT'' 16 5 0x1F0000, Field ''APB_SOC_SAFE_PMU_RAR_RV_VOLT'' 24 5 0x1F000000]"

definition gap_apb_soc_fields_2 :: "field_row list" where
  "gap_apb_soc_fields_2 = [
     Field ''APB_SOC_SAFE_PMU_SLEEPCTRL_L2_R0'' 0 1 0x1, Field ''APB_SOC_SAFE_PMU_SLEEPCTRL_L2_R1'' 1 1 0x2,
     Field ''APB_SOC_SAFE_PMU_SLEEPCTRL_L2_R2'' 2 1 0x4, Field ''APB_SOC_SAFE_PMU_SLEEPCTRL_L2_R3'' 3 1 0x8,
     Field ''APB_SOC_SAFE_PMU_SLEEPCTRL_SOC_FLL'' 4 1 0x10, Field ''APB_SOC_SAFE_PMU_SLEEPCTRL_CL_FLL'' 5 1 0x20,
     Field ''APB_SOC_SAFE_PMU_SLEEPCTRL_EXTWAKE_SRC'' 6 5 0x7C0, Field ''APB_SOC_SAFE_PMU_SLEEPCTRL_EXTWAKE_TYPE'' 11 2 0x1800,
     Field ''APB_SOC_SAFE_PMU_SLEEPCTRL_EXTWAKE_EN'' 13 1 0x2000, Field ''APB_SOC_SAFE_PMU_SLEEPCTRL_WAKESTATE'' 15 1 0x8000,
     Field ''APB_SOC_SAFE_PMU_SLEEPCTRL_BTDEV'' 16 1 0x10000, Field ''APB_SOC_SAFE_PMU_SLEEPCTRL_EXTINT'' 17 1 0x20000,
     Field ''APB_SOC_SAFE_PMU_SLEEPCTRL_BTTYPE'' 18 2 0xC0000, Field ''APB_SOC_SAFE_PMU_SLEEPCTRL_CL_WAKE'' 20 1 0x100000,
     Field ''APB_SOC_SAFE_PMU_FORCE_RET_L2_R0'' 0 1 0x1, Field ''APB_SOC_SAFE_PMU_FORCE_RET_L2_R1'' 1 1 0x2,
     Field ''APB_SOC_SAFE_PMU_FORCE_RET_L2_R2'' 2 1 0x4, Field ''APB_SOC_SAFE_PMU_FORCE_RET_L2_R3'' 3 1 0x8,
     Field ''APB_SOC_SAFE_PMU_FORCE_PD_L2_R0'' 4 1 0x10, Field ''APB_SOC_SAFE_PMU_FORCE_PD_L2_R1'' 5 1 0x20,
     Field ''APB_SOC_SAFE_PMU_FORCE_PD_L2_R2'' 6 1 0x40, Field ''APB_SOC_SAFE_PMU_FORCE_PD_L2_R3'' 7 1 0x80,
     Field ''APB_SOC_SAFE_PADSLEEP_EN'' 0 1 0x1, Field ''APB_SOC_REG_GPIO_ISO_ISO'' 0 1 0x1, Field ''APB_SOC_REG_CAM_ISO_ISO'' 0 1 0x1,
     Field ''APB_SOC_REG_LVDS_ISO_ISO'' 0 1 0x1]"

definition gap_apb_soc_structs_1 :: "struct_row list" where
  "gap_apb_soc_structs_1 = [
     Struct ''apb_soc_info'' [Bits ''nb_cl'' 16, Bits ''nb_cores'' 16], Struct ''apb_soc_notused0'' [], Struct ''apb_soc_notused1'' [],
     Struct ''apb_soc_cl_isolate'' [Bits ''en'' 1], Struct ''apb_soc_cl_busy'' [Bits ''busy'' 1],
     Struct ''apb_soc_cl_bypass'' [Bits ''byp_pow'' 1, Bits ''byp_cfg'' 1, Padding 1, Bits ''cl_state'' 1, Bits ''currset'' 3,
       Bits ''prog_del'' 2, Bits ''byp_clk'' 1, Bits ''cg'' 1, Bits ''fll_pwd'' 1, Bits ''fll_ret'' 1, Bits ''rst'' 1,
       Bits ''byp_iso'' 1, Bits ''pwiso'' 1, Bits ''trcpowok'' 1, Bits ''pmupowdown'' 1],
     Struct ''apb_soc_jtagreg'' [Bits ''int_sync'' 1, Bits ''int_bt_md'' 3, Padding 4, Bits ''ext_sync'' 1, Bits ''ext_bt_md'' 3],
     Struct ''apb_soc_l2_sleep'' [Bits ''l2_sleep'' 1], Struct ''apb_soc_sleep_ctrl'' [Bits ''sleep_ctrl'' 32],
     Struct ''apb_soc_corestatus'' [Bits ''status'' 32], Struct ''apb_soc_corestatus_ro'' [Bits ''status'' 32],
     Struct ''apb_soc_safe_pmu_rar'' [Bits ''nv_volt'' 5, Padding 3, Bits ''mv_volt'' 5, Padding 3, Bits ''lv_volt'' 5, Padding 3,
       Bits ''rv_volt'' 5],
     Struct ''apb_soc_safe_pmu_sleepctrl'' [Bits ''l2_r0'' 1, Bits ''l2_r1'' 1, Bits ''l2_r2'' 1, Bits ''l2_r3'' 1, Bits ''soc_fll'' 1,
       Bits ''cl_fll'' 1, Bits ''extwake_src'' 5, Bits ''extwake_type'' 2, Bits ''extwake_en'' 1, Padding 1, Bits ''wakestate'' 1,
       Bits ''btdev'' 1, Bits ''extint'' 1, Bits ''bttype'' 2, Bits ''cl_wake'' 1],
     Struct ''apb_soc_safe_pmu_force'' [Bits ''ret_l2_r0'' 1, Bits ''ret_l2_r1'' 1, Bits ''ret_l2_r2'' 1, Bits ''ret_l2_r3'' 1,
       Bits ''pd_l2_r0'' 1, Bits ''pd_l2_r1'' 1, Bits ''pd_l2_r2'' 1, Bits ''pd_l2_r3'' 1],
     Struct ''apb_soc_safe_padfun0'' []]"

definition gap_apb_soc_structs_2 :: "struct_row list" where
  "gap_apb_soc_structs_2 = [
     Struct ''apb_soc_safe_padfun1'' [], Struct ''apb_soc_safe_padfun2'' [], Struct ''apb_soc_safe_padfun3'' [],
     Struct ''apb_soc_safe_sleeppadcfg0'' [], Struct ''apb_soc_safe_sleeppadcfg1'' [], Struct ''apb_soc_safe_sleeppadcfg2'' [],
     Struct ''apb_soc_safe_sleeppadcfg3'' [], Struct ''apb_soc_safe_padsleep'' [Bits ''en'' 1], Struct ''apb_soc_safe_padcfg0'' [],
     Struct ''apb_soc_safe_padcfg1'' [], Struct ''apb_soc_safe_padcfg2'' [], Struct ''apb_soc_safe_padcfg3'' [],
     Struct ''apb_soc_safe_padcfg4'' [], Struct ''apb_soc_safe_padcfg5'' [], Struct ''apb_soc_safe_padcfg6'' [],
     Struct ''apb_soc_safe_padcfg7'' [], Struct ''apb_soc_safe_padcfg8'' [], Struct ''apb_soc_safe_padcfg9'' [],
     Struct ''apb_soc_safe_padcfg10'' [], Struct ''apb_soc_safe_padcfg11'' [], Struct ''apb_soc_safe_padcfg12'' [],
     Struct ''apb_soc_safe_padcfg13'' [], Struct ''apb_soc_safe_padcfg14'' [], Struct ''apb_soc_safe_padcfg15'' []]"

definition gap_apb_soc_structs_3 :: "struct_row list" where
  "gap_apb_soc_structs_3 = [
     Struct ''apb_soc_reg_gpio_iso'' [Bits ''iso'' 1], Struct ''apb_soc_reg_cam_iso'' [Bits ''iso'' 1],
     Struct ''apb_soc_reg_lvds_iso'' [Bits ''iso'' 1]]"

definition gap_apb_soc_access :: "access_row list" where
  "gap_apb_soc_access = [
     Getter ''apb_soc_info'' ''APB_SOC_INFO'', Setter ''apb_soc_info'' ''APB_SOC_INFO'', Getter ''apb_soc_notused0'' ''APB_SOC_NOTUSED0'',
     Setter ''apb_soc_notused0'' ''APB_SOC_NOTUSED0'', Getter ''apb_soc_notused1'' ''APB_SOC_NOTUSED1'',
     Setter ''apb_soc_notused1'' ''APB_SOC_NOTUSED1'', Getter ''apb_soc_cl_isolate'' ''APB_SOC_CL_ISOLATE'',
     Setter ''apb_soc_cl_isolate'' ''APB_SOC_CL_ISOLATE'', Getter ''apb_soc_cl_busy'' ''APB_SOC_CL_BUSY'',
     Setter ''apb_soc_cl_busy'' ''APB_SOC_CL_BUSY'', Getter ''apb_soc_cl_bypass'' ''APB_SOC_CL_BYPASS'',
     Setter ''apb_soc_cl_bypass'' ''APB_SOC_CL_BYPASS'', Getter ''apb_soc_jtagreg'' ''APB_SOC_JTAGREG'',
     Setter ''apb_soc_jtagreg'' ''APB_SOC_JTAGREG'', Getter ''apb_soc_l2_sleep'' ''APB_SOC_L2_SLEEP'',
     Setter ''apb_soc_l2_sleep'' ''APB_SOC_L2_SLEEP'', Getter ''apb_soc_sleep_ctrl'' ''APB_SOC_SLEEP_CTRL'',
     Setter ''apb_soc_sleep_ctrl'' ''APB_SOC_SLEEP_CTRL'', Getter ''apb_soc_corestatus'' ''APB_SOC_CORESTATUS'',
     Setter ''apb_soc_corestatus'' ''APB_SOC_CORESTATUS'', Getter ''apb_soc_corestatus_ro'' ''APB_SOC_CORESTATUS_RO'',
     Setter ''apb_soc_corestatus_ro'' ''APB_SOC_CORESTATUS_RO'', Getter ''apb_soc_safe_pmu_rar'' ''APB_SOC_SAFE_PMU_RAR'',
     Setter ''apb_soc_safe_pmu_rar'' ''APB_SOC_SAFE_PMU_RAR'', Getter ''apb_soc_safe_pmu_sleepctrl'' ''APB_SOC_SAFE_PMU_SLEEPCTRL'',
     Setter ''apb_soc_safe_pmu_sleepctrl'' ''APB_SOC_SAFE_PMU_SLEEPCTRL'', Getter ''apb_soc_safe_pmu_force'' ''APB_SOC_SAFE_PMU_FORCE'',
     Setter ''apb_soc_safe_pmu_force'' ''APB_SOC_SAFE_PMU_FORCE'', Getter ''apb_soc_safe_padfun0'' ''APB_SOC_SAFE_PADFUN0'',
     Setter ''apb_soc_safe_padfun0'' ''APB_SOC_SAFE_PADFUN0'', Getter ''apb_soc_safe_padfun1'' ''APB_SOC_SAFE_PADFUN1'',
     Setter ''apb_soc_safe_padfun1'' ''APB_SOC_SAFE_PADFUN1'', Getter ''apb_soc_safe_padfun2'' ''APB_SOC_SAFE_PADFUN2'',
     Setter ''apb_soc_safe_padfun2'' ''APB_SOC_SAFE_PADFUN2'', Getter ''apb_soc_safe_padfun3'' ''APB_SOC_SAFE_PADFUN3'',
     Setter ''apb_soc_safe_padfun3'' ''APB_SOC_SAFE_PADFUN3'', Getter ''apb_soc_safe_sleeppadcfg0'' ''APB_SOC_SAFE_SLEEPPADCFG0'',
     Setter ''apb_soc_safe_sleeppadcfg0'' ''APB_SOC_SAFE_SLEEPPADCFG0'',
     Getter ''apb_soc_safe_sleeppadcfg1'' ''APB_SOC_SAFE_SLEEPPADCFG1'',
     Setter ''apb_soc_safe_sleeppadcfg1'' ''APB_SOC_SAFE_SLEEPPADCFG1'',
     Getter ''apb_soc_safe_sleeppadcfg2'' ''APB_SOC_SAFE_SLEEPPADCFG2'',
     Setter ''apb_soc_safe_sleeppadcfg2'' ''APB_SOC_SAFE_SLEEPPADCFG2'',
     Getter ''apb_soc_safe_sleeppadcfg3'' ''APB_SOC_SAFE_SLEEPPADCFG3'',
     Setter ''apb_soc_safe_sleeppadcfg3'' ''APB_SOC_SAFE_SLEEPPADCFG3'', Getter ''apb_soc_safe_padsleep'' ''APB_SOC_SAFE_PADSLEEP'',
     Setter ''apb_soc_safe_padsleep'' ''APB_SOC_SAFE_PADSLEEP'', Getter ''apb_soc_safe_padcfg0'' ''APB_SOC_SAFE_PADCFG0'',
     Setter ''apb_soc_safe_padcfg0'' ''APB_SOC_SAFE_PADCFG0'', Getter ''apb_soc_safe_padcfg1'' ''APB_SOC_SAFE_PADCFG1'',
     Setter ''apb_soc_safe_padcfg1'' ''APB_SOC_SAFE_PADCFG1'', Getter ''apb_soc_safe_padcfg2'' ''APB_SOC_SAFE_PADCFG2'',
     Setter ''apb_soc_safe_padcfg2'' ''APB_SOC_SAFE_PADCFG2'', Getter ''apb_soc_safe_padcfg3'' ''APB_SOC_SAFE_PADCFG3'',
     Setter ''apb_soc_safe_padcfg3'' ''APB_SOC_SAFE_PADCFG3'', Getter ''apb_soc_safe_padcfg4'' ''APB_SOC_SAFE_PADCFG4'',
     Setter ''apb_soc_safe_padcfg4'' ''APB_SOC_SAFE_PADCFG4'', Getter ''apb_soc_safe_padcfg5'' ''APB_SOC_SAFE_PADCFG5'',
     Setter ''apb_soc_safe_padcfg5'' ''APB_SOC_SAFE_PADCFG5'', Getter ''apb_soc_safe_padcfg6'' ''APB_SOC_SAFE_PADCFG6'',
     Setter ''apb_soc_safe_padcfg6'' ''APB_SOC_SAFE_PADCFG6'', Getter ''apb_soc_safe_padcfg7'' ''APB_SOC_SAFE_PADCFG7'',
     Setter ''apb_soc_safe_padcfg7'' ''APB_SOC_SAFE_PADCFG7'', Getter ''apb_soc_safe_padcfg8'' ''APB_SOC_SAFE_PADCFG8'',
     Setter ''apb_soc_safe_padcfg8'' ''APB_SOC_SAFE_PADCFG8'', Getter ''apb_soc_safe_padcfg9'' ''APB_SOC_SAFE_PADCFG9'',
     Setter ''apb_soc_safe_padcfg9'' ''APB_SOC_SAFE_PADCFG9'', Getter ''apb_soc_safe_padcfg10'' ''APB_SOC_SAFE_PADCFG10'',
     Setter ''apb_soc_safe_padcfg10'' ''APB_SOC_SAFE_PADCFG10'', Getter ''apb_soc_safe_padcfg11'' ''APB_SOC_SAFE_PADCFG11'',
     Setter ''apb_soc_safe_padcfg11'' ''APB_SOC_SAFE_PADCFG11'', Getter ''apb_soc_safe_padcfg12'' ''APB_SOC_SAFE_PADCFG12'',
     Setter ''apb_soc_safe_padcfg12'' ''APB_SOC_SAFE_PADCFG12'', Getter ''apb_soc_safe_padcfg13'' ''APB_SOC_SAFE_PADCFG13'',
     Setter ''apb_soc_safe_padcfg13'' ''APB_SOC_SAFE_PADCFG13'', Getter ''apb_soc_safe_padcfg14'' ''APB_SOC_SAFE_PADCFG14'',
     Setter ''apb_soc_safe_padcfg14'' ''APB_SOC_SAFE_PADCFG14'', Getter ''apb_soc_safe_padcfg15'' ''APB_SOC_SAFE_PADCFG15'',
     Setter ''apb_soc_safe_padcfg15'' ''APB_SOC_SAFE_PADCFG15'', Getter ''apb_soc_reg_gpio_iso'' ''APB_SOC_REG_GPIO_ISO'',
     Setter ''apb_soc_reg_gpio_iso'' ''APB_SOC_REG_GPIO_ISO'', Getter ''apb_soc_reg_cam_iso'' ''APB_SOC_REG_CAM_ISO'',
     Setter ''apb_soc_reg_cam_iso'' ''APB_SOC_REG_CAM_ISO'', Getter ''apb_soc_reg_lvds_iso'' ''APB_SOC_REG_LVDS_ISO'',
     Setter ''apb_soc_reg_lvds_iso'' ''APB_SOC_REG_LVDS_ISO'']"

definition gap_apb_soc_macros_1 :: "macro_row list" where
  "gap_apb_soc_macros_1 = [
     Macros ''APB_SOC_INFO_NB_CL'' (16, 0) (16, 0) (16, 0) 0, Macros ''APB_SOC_INFO_NB_CORES'' (16, 16) (16, 16) (16, 16) 16,
     Macros ''APB_SOC_CL_ISOLATE_EN'' (1, 0) (1, 0) (1, 0) 0, Macros ''APB_SOC_CL_BUSY_BUSY'' (1, 0) (1, 0) (1, 0) 0,
     Macros ''APB_SOC_CL_BYPASS_BYP_POW'' (1, 0) (1, 0) (1, 0) 0, Macros ''APB_SOC_CL_BYPASS_BYP_CFG'' (1, 1) (1, 1) (1, 1) 1,
     Macros ''APB_SOC_CL_BYPASS_CL_STATE'' (1, 3) (1, 3) (1, 3) 3, Macros ''APB_SOC_CL_BYPASS_CURRSET'' (3, 4) (3, 4) (3, 4) 4,
     Macros ''APB_SOC_CL_BYPASS_PROG_DEL'' (2, 7) (2, 7) (2, 7) 7, Macros ''APB_SOC_CL_BYPASS_BYP_CLK'' (1, 9) (1, 9) (1, 9) 9,
     Macros ''APB_SOC_CL_BYPASS_CG'' (1, 10) (1, 10) (1, 10) 10, Macros ''APB_SOC_CL_BYPASS_FLL_PWD'' (1, 11) (1, 11) (1, 11) 11,
     Macros ''APB_SOC_CL_BYPASS_FLL_RET'' (1, 12) (1, 12) (1, 12) 12, Macros ''APB_SOC_CL_BYPASS_RST'' (1, 13) (1, 13) (1, 13) 13,
     Macros ''APB_SOC_CL_BYPASS_BYP_ISO'' (1, 14) (1, 14) (1, 14) 14, Macros ''APB_SOC_CL_BYPASS_PWISO'' (1, 15) (1, 15) (1, 15) 15,
     Macros ''APB_SOC_CL_BYPASS_TRCPOWOK'' (1, 16) (1, 16) (1, 16) 16, Macros ''APB_SOC_CL_BYPASS_PMUPOWDOWN'' (1, 17) (1, 17) (1, 17) 17,
     Macros ''APB_SOC_JTAGREG_INT_SYNC'' (1, 0) (1, 0) (1, 0) 0, Macros ''APB_SOC_JTAGREG_INT_BT_MD'' (3, 1) (3, 1) (3, 1) 1,
     Macros ''APB_SOC_JTAGREG_EXT_SYNC'' (1, 8) (1, 8) (1, 8) 8, Macros ''APB_SOC_JTAGREG_EXT_BT_MD'' (3, 9) (3, 9) (3, 9) 9,
     Macros ''APB_SOC_L2_SLEEP_L2_SLEEP'' (1, 0) (1, 0) (1, 0) 0, Macros ''APB_SOC_SLEEP_CTRL_SLEEP_CTRL'' (32, 0) (32, 0) (32, 0) 0,
     Macros ''APB_SOC_CORESTATUS_STATUS'' (32, 0) (32, 0) (32, 0) 0, Macros ''APB_SOC_CORESTATUS_RO_STATUS'' (32, 0) (32, 0) (32, 0) 0,
     Macros ''APB_SOC_SAFE_PMU_RAR_NV_VOLT'' (5, 0) (5, 0) (5, 0) 0, Macros ''APB_SOC_SAFE_PMU_RAR_MV_VOLT'' (5, 8) (5, 8) (5, 8) 8,
     Macros ''APB_SOC_SAFE_PMU_RAR_LV_VOLT'' (5, 16) (5, 16) (5, 16) 16,
     Macros ''APB_SOC_SAFE_PMU_RAR_RV_VOLT'' (5, 24) (5, 24) (5, 24) 24]"

definition gap_apb_soc_macros_2 :: "macro_row list" where
  "gap_apb_soc_macros_2 = [
     Macros ''APB_SOC_SAFE_PMU_SLEEPCTRL_L2_R0'' (1, 0) (1, 0) (1, 0) 0,
     Macros ''APB_SOC_SAFE_PMU_SLEEPCTRL_L2_R1'' (1, 1) (1, 1) (1, 1) 1,
     Macros ''APB_SOC_SAFE_PMU_SLEEPCTRL_L2_R2'' (1, 2) (1, 2) (1, 2) 2,
     Macros ''APB_SOC_SAFE_PMU_SLEEPCTRL_L2_R3'' (1, 3) (1, 3) (1, 3) 3,
     Macros ''APB_SOC_SAFE_PMU_SLEEPCTRL_SOC_FLL'' (1, 4) (1, 4) (1, 4) 4,
     Macros ''APB_SOC_SAFE_PMU_SLEEPCTRL_CL_FLL'' (1, 5) (1, 5) (1, 5) 5,
     Macros ''APB_SOC_SAFE_PMU_SLEEPCTRL_EXTWAKE_SRC'' (5, 6) (5, 6) (5, 6) 6,
     Macros ''APB_SOC_SAFE_PMU_SLEEPCTRL_EXTWAKE_TYPE'' (2, 11) (2, 11) (2, 11) 11,
     Macros ''APB_SOC_SAFE_PMU_SLEEPCTRL_EXTWAKE_EN'' (1, 13) (1, 13) (1, 13) 13,
     Macros ''APB_SOC_SAFE_PMU_SLEEPCTRL_WAKESTATE'' (1, 15) (1, 15) (1, 15) 15,
     Macros ''APB_SOC_SAFE_PMU_SLEEPCTRL_BTDEV'' (1, 16) (1, 16) (1, 16) 16,
     Macros ''APB_SOC_SAFE_PMU_SLEEPCTRL_EXTINT'' (1, 17) (1, 17) (1, 17) 17,
     Macros ''APB_SOC_SAFE_PMU_SLEEPCTRL_BTTYPE'' (2, 18) (2, 18) (2, 18) 18,
     Macros ''APB_SOC_SAFE_PMU_SLEEPCTRL_CL_WAKE'' (1, 20) (1, 20) (1, 20) 20,
     Macros ''APB_SOC_SAFE_PMU_FORCE_RET_L2_R0'' (1, 0) (1, 0) (1, 0) 0,
     Macros ''APB_SOC_SAFE_PMU_FORCE_RET_L2_R1'' (1, 1) (1, 1) (1, 1) 1,
     Macros ''APB_SOC_SAFE_PMU_FORCE_RET_L2_R2'' (1, 2) (1, 2) (1, 2) 2,
     Macros ''APB_SOC_SAFE_PMU_FORCE_RET_L2_R3'' (1, 3) (1, 3) (1, 3) 3,
     Macros ''APB_SOC_SAFE_PMU_FORCE_PD_L2_R0'' (1, 4) (1, 4) (1, 4) 4, Macros ''APB_SOC_SAFE_PMU_FORCE_PD_L2_R1'' (1, 5) (1, 5) (1, 5) 5,
     Macros ''APB_SOC_SAFE_PMU_FORCE_PD_L2_R2'' (1, 6) (1, 6) (1, 6) 6, Macros ''APB_SOC_SAFE_PMU_FORCE_PD_L2_R3'' (1, 7) (1, 7) (1, 7) 7,
     Macros ''APB_SOC_SAFE_PADSLEEP_EN'' (1, 0) (1, 0) (1, 0) 0, Macros ''APB_SOC_REG_GPIO_ISO_ISO'' (1, 0) (1, 0) (1, 0) 0,
     Macros ''APB_SOC_REG_CAM_ISO_ISO'' (1, 0) (1, 0) (1, 0) 0, Macros ''APB_SOC_REG_LVDS_ISO_ISO'' (1, 0) (1, 0) (1, 0) 0]"

definition gap_apb_soc_map :: register_map where
  "gap_apb_soc_map = \<lparr>hdr_regs = gap_apb_soc_regs,
     hdr_fields = gap_apb_soc_fields_1 @ gap_apb_soc_fields_2,
     hdr_resets = [],
     hdr_structs = gap_apb_soc_structs_1 @ gap_apb_soc_structs_2 @ gap_apb_soc_structs_3,
     hdr_access = gap_apb_soc_access,
     hdr_macros = gap_apb_soc_macros_1 @ gap_apb_soc_macros_2\<rparr>"

lemmas gap_apb_soc_tables = gap_apb_soc_map_def gap_apb_soc_regs_def gap_apb_soc_fields_1_def gap_apb_soc_fields_2_def gap_apb_soc_structs_1_def gap_apb_soc_structs_2_def 
  gap_apb_soc_structs_3_def gap_apb_soc_access_def gap_apb_soc_macros_1_def gap_apb_soc_macros_2_def

interpretation gap_apb_soc: aligned_header gap_apb_soc_map
  by unfold_locales (simp_all add: check_header gap_apb_soc_tables)

section \<open>\<^verbatim>\<open>chips/vega/apb_soc_ctrl.h\<close>\<close>

definition vega_apb_soc_regs_1 :: "reg_row list" where
  "vega_apb_soc_regs_1 = [
     Reg ''APB_SOC_INFO'' 0x0, Reg ''APB_SOC_FC_BOOT'' 0x4, Reg ''APB_SOC_FC_FETCH'' 0x8, Reg ''APB_SOC_CL_ISOLATE'' 0xC,
     Reg ''APB_SOC_PADFUN0'' 0x10, Reg ''APB_SOC_PADFUN1'' 0x14, Reg ''APB_SOC_PADFUN2'' 0x18, Reg ''APB_SOC_PADFUN3'' 0x1C,
     Reg ''APB_SOC_PADCFG0'' 0x20, Reg ''APB_SOC_PADCFG1'' 0x24, Reg ''APB_SOC_PADCFG2'' 0x28, Reg ''APB_SOC_PADCFG3'' 0x2C,
     Reg ''APB_SOC_PADCFG4'' 0x30, Reg ''APB_SOC_PADCFG5'' 0x34, Reg ''APB_SOC_PADCFG6'' 0x38, Reg ''APB_SOC_PADCFG7'' 0x3C,
     Reg ''APB_SOC_PADCFG8'' 0x40, Reg ''APB_SOC_PADCFG9'' 0x44, Reg ''APB_SOC_PADCFG10'' 0x48, Reg ''APB_SOC_PADCFG11'' 0x4C,
     Reg ''APB_SOC_PADCFG12'' 0x50, Reg ''APB_SOC_PADCFG13'' 0x54, Reg ''APB_SOC_PADCFG14'' 0x58, Reg ''APB_SOC_PADCFG15'' 0x5C,
     Reg ''APB_SOC_CL_BUSY'' 0x6C, Reg ''APB_SOC_JTAGREG'' 0x74, Reg ''APB_SOC_SLEEP_CTRL'' 0x7C, Reg ''APB_SOC_CLK_DIV_I3C'' 0x80,
     Reg ''APB_SOC_CORESTATUS'' 0xA0, Reg ''APB_SOC_CORESTATUS_RO'' 0xC0, Reg ''APB_SOC_BOOTSEL'' 0xC4, Reg ''APB_SOC_WD_CLR'' 0xC8,
     Reg ''APB_SOC_CLK_SEL'' 0xD0, Reg ''APB_SOC_CLK_DIV_SOC'' 0xD4, Reg ''APB_SOC_CLK_DIV_CLU'' 0xD8, Reg ''APB_SOC_CLK_DIV_PER'' 0xDC,
     Reg ''APB_SOC_SUPERVISOR_DBG'' 0xE0, Reg ''APB_SOC_RWM_GRP0'' 0xE4, Reg ''APB_SOC_RWM_GRP1'' 0xE8, Reg ''APB_SOC_RWM_GRP2'' 0xEC,
     Reg ''APB_SOC_RWM_GRP3'' 0xF0, Reg ''APB_SOC_RWM_GRP4'' 0xF4, Reg ''APB_SOC_RWM_GRP5'' 0xF8, Reg ''APB_SOC_RWM_GRP6'' 0xFC,
     Reg ''APB_SOC_SAFE_PMU_SLEEPCTRL'' 0x104, Reg ''APB_SOC_SAFE_WD'' 0x110, Reg ''APB_SOC_SAFE_SLEEPPADCFG0'' 0x150,
     Reg ''APB_SOC_SAFE_SLEEPPADCFG1'' 0x154, Reg ''APB_SOC_SAFE_NEVACF'' 0x164, Reg ''APB_SOC_SAFE_GPREG'' 0x170]"

definition vega_apb_soc_regs_2 :: "reg_row list" where
  "vega_apb_soc_regs_2 = [
     Reg ''APB_SOC_SAFE_L2_BTRIM_STDBY'' 0x174, Reg ''APB_SOC_SAFE_FLL_CTRL'' 0x178, Reg ''APB_SOC_SAFE_L1_PWR_CTRL'' 0x17C,
     Reg ''APB_SOC_SAFE_L2_PWR_CTRL'' 0x180, Reg ''APB_SOC_REG_GPIO_ISO'' 0x1C0, Reg ''APB_SOC_REG_CAM_ISO'' 0x1C4,
     Reg ''APB_SOC_REG_LVDS_ISO'' 0x1C8]"

definition vega_apb_soc_fields_1 :: "field_row list" where
  "vega_apb_soc_fields_1 = [
     Field ''APB_SOC_INFO_NB_CL'' 0 16 0xFFFF, Field ''APB_SOC_INFO_NB_CORES'' 16 16 0xFFFF0000,
     Field ''APB_SOC_FC_BOOT_ADDR'' 0 32 0xFFFFFFFF, Field ''APB_SOC_FC_FETCH_FC_FE'' 0 1 0x1, Field ''APB_SOC_CL_ISOLATE_EN'' 0 1 0x1,
     Field ''APB_SOC_CL_BUSY_BUSY'' 0 1 0x1, Field ''APB_SOC_JTAGREG_INT_SYNC'' 0 1 0x1, Field ''APB_SOC_JTAGREG_INT_BT_MD'' 1 3 0xE,
     Field ''APB_SOC_JTAGREG_EXT_SYNC'' 8 1 0x100, Field ''APB_SOC_JTAGREG_EXT_BT_MD'' 9 3 0xE00,
     Field ''APB_SOC_SLEEP_CTRL_SLEEP_CTRL'' 0 32 0xFFFFFFFF, Field ''APB_SOC_CORESTATUS_STATUS'' 0 32 0xFFFFFFFF,
     Field ''APB_SOC_CORESTATUS_RO_STATUS'' 0 32 0xFFFFFFFF, Field ''APB_SOC_CLK_SEL_CLK_SOC'' 0 1 0x1,
     Field ''APB_SOC_CLK_SEL_CLK_CLUSTER'' 1 2 0x6, Field ''APB_SOC_SAFE_PMU_SLEEPCTRL_REBOOT'' 0 3 0x7,
     Field ''APB_SOC_SAFE_PMU_SLEEPCTRL_SMARTWAKE_EN'' 9 1 0x200, Field ''APB_SOC_SAFE_PMU_SLEEPCTRL_RTCWAKE_EN'' 10 1 0x400,
     Field ''APB_SOC_SAFE_PMU_SLEEPCTRL_EXTWAKE_TYPE'' 11 2 0x1800, Field ''APB_SOC_SAFE_PMU_SLEEPCTRL_EXTWAKE_EN'' 13 1 0x2000,
     Field ''APB_SOC_SAFE_PMU_SLEEPCTRL_MRAM_WAKESTATE'' 14 1 0x4000, Field ''APB_SOC_SAFE_PMU_SLEEPCTRL_CLUSTER_WAKESTATE'' 15 1 0x8000,
     Field ''APB_SOC_SAFE_PMU_SLEEPCTRL_RET_MEM'' 16 16 0xFFFF0000, Field ''APB_SOC_SAFE_SLEEPPADCFG0_STATE'' 0 4 0xF,
     Field ''APB_SOC_SAFE_L2_BTRIM_STDBY_BTRIM'' 0 4 0xF, Field ''APB_SOC_SAFE_L2_BTRIM_STDBY_STDBY_N'' 4 16 0xFFFF0,
     Field ''APB_SOC_SAFE_FLL_CTRL_FLL2_PWD'' 0 1 0x1, Field ''APB_SOC_SAFE_FLL_CTRL_FLL3_PWD'' 1 1 0x2,
     Field ''APB_SOC_SAFE_FLL_CTRL_FLL2_RSTB'' 2 1 0x4, Field ''APB_SOC_SAFE_FLL_CTRL_FLL3_RSTB'' 3 1 0x8]"

definition vega_apb_soc_fields_2 :: "field_row list" where
  "vega_apb_soc_fields_2 = [
     Field ''APB_SOC_SAFE_L1_PWR_CTRL_BTRIM'' 0 4 0xF, Field ''APB_SOC_SAFE_L1_PWR_CTRL_STDBY_N'' 4 2 0x30,
     Field ''APB_SOC_SAFE_L1_PWR_CTRL_PWD'' 6 2 0xC0, Field ''APB_SOC_SAFE_L2_PWR_CTRL_VDDDE_N'' 0 16 0xFFFF,
     Field ''APB_SOC_SAFE_L2_PWR_CTRL_VDDME_N'' 16 16 0xFFFF0000]"

definition vega_apb_soc_structs_1 :: "struct_row list" where
  "vega_apb_soc_structs_1 = [
     Struct ''apb_soc_info'' [Bits ''nb_cl'' 16, Bits ''nb_cores'' 16], Struct ''apb_soc_fc_boot'' [Bits ''addr'' 32],
     Struct ''apb_soc_fc_fetch'' [Bits ''fc_fe'' 1], Struct ''apb_soc_cl_isolate'' [Bits ''en'' 1], Struct ''apb_soc_padfun0'' [],
     Struct ''apb_soc_padfun1'' [], Struct ''apb_soc_padfun2'' [], Struct ''apb_soc_padfun3'' [], Struct ''apb_soc_padcfg0'' [],
     Struct ''apb_soc_padcfg1'' [], Struct ''apb_soc_padcfg2'' [], Struct ''apb_soc_padcfg3'' [], Struct ''apb_soc_padcfg4'' [],
     Struct ''apb_soc_padcfg5'' [], Struct ''apb_soc_padcfg6'' [], Struct ''apb_soc_padcfg7'' [], Struct ''apb_soc_padcfg8'' [],
     Struct ''apb_soc_padcfg9'' [], Struct ''apb_soc_padcfg10'' [], Struct ''apb_soc_padcfg11'' [], Struct ''apb_soc_padcfg12'' [],
     Struct ''apb_soc_padcfg13'' [], Struct ''apb_soc_padcfg14'' [], Struct ''apb_soc_padcfg15'' []]"

definition vega_apb_soc_structs_2 :: "struct_row list" where
  "vega_apb_soc_structs_2 = [
     Struct ''apb_soc_cl_busy'' [Bits ''busy'' 1],
     Struct ''apb_soc_jtagreg'' [Bits ''int_sync'' 1, Bits ''int_bt_md'' 3, Padding 4, Bits ''ext_sync'' 1, Bits ''ext_bt_md'' 3],
     Struct ''apb_soc_sleep_ctrl'' [Bits ''sleep_ctrl'' 32], Struct ''apb_soc_clk_div_i3c'' [],
     Struct ''apb_soc_corestatus'' [Bits ''status'' 32], Struct ''apb_soc_corestatus_ro'' [Bits ''status'' 32],
     Struct ''apb_soc_bootsel'' [], Struct ''apb_soc_wd_clr'' [], Struct ''apb_soc_clk_sel'' [Bits ''clk_soc'' 1, Bits ''clk_cluster'' 2],
     Struct ''apb_soc_clk_div_soc'' [], Struct ''apb_soc_clk_div_clu'' [], Struct ''apb_soc_clk_div_per'' [],
     Struct ''apb_soc_supervisor_dbg'' [], Struct ''apb_soc_rwm_grp0'' [], Struct ''apb_soc_rwm_grp1'' [], Struct ''apb_soc_rwm_grp2'' [],
     Struct ''apb_soc_rwm_grp3'' [], Struct ''apb_soc_rwm_grp4'' [], Struct ''apb_soc_rwm_grp5'' [], Struct ''apb_soc_rwm_grp6'' [],
     Struct ''apb_soc_safe_pmu_sleepctrl'' [Bits ''reboot'' 3, Padding 6, Bits ''smartwake_en'' 1, Bits ''rtcwake_en'' 1,
       Bits ''extwake_type'' 2, Bits ''extwake_en'' 1, Bits ''mram_wakestate'' 1, Bits ''cluster_wakestate'' 1, Bits ''ret_mem'' 16]]"

definition vega_apb_soc_structs_3 :: "struct_row list" where
  "vega_apb_soc_structs_3 = [
     Struct ''apb_soc_safe_wd'' [], Struct ''apb_soc_safe_sleeppadcfg0'' [Bits ''state'' 4], Struct ''apb_soc_safe_sleeppadcfg1'' [],
     Struct ''apb_soc_safe_nevacf'' [], Struct ''apb_soc_safe_gpreg'' [],
     Struct ''apb_soc_safe_l2_btrim_stdby'' [Bits ''btrim'' 4, Bits ''stdby_n'' 16],
     Struct ''apb_soc_safe_fll_ctrl'' [Bits ''fll2_pwd'' 1, Bits ''fll3_pwd'' 1, Bits ''fll2_rstb'' 1, Bits ''fll3_rstb'' 1],
     Struct ''apb_soc_safe_l1_pwr_ctrl'' [Bits ''btrim'' 4, Bits ''stdby_n'' 2, Bits ''pwd'' 2],
     Struct ''apb_soc_safe_l2_pwr_ctrl'' [Bits ''vddde_n'' 16, Bits ''vddme_n'' 16], Struct ''apb_soc_reg_gpio_iso'' [],
     Struct ''apb_soc_reg_cam_iso'' [], Struct ''apb_soc_reg_lvds_iso'' []]"

definition vega_apb_soc_access_1 :: "access_row list" where
  "vega_apb_soc_access_1 = [
     Getter ''apb_soc_info'' ''APB_SOC_INFO'', Setter ''apb_soc_info'' ''APB_SOC_INFO'', Getter ''apb_soc_fc_boot'' ''APB_SOC_FC_BOOT'',
     Setter ''apb_soc_fc_boot'' ''APB_SOC_FC_BOOT'', Getter ''apb_soc_fc_fetch'' ''APB_SOC_FC_FETCH'',
     Setter ''apb_soc_fc_fetch'' ''APB_SOC_FC_FETCH'', Getter ''apb_soc_cl_isolate'' ''APB_SOC_CL_ISOLATE'',
     Setter ''apb_soc_cl_isolate'' ''APB_SOC_CL_ISOLATE'', Getter ''apb_soc_padfun0'' ''APB_SOC_PADFUN0'',
     Setter ''apb_soc_padfun0'' ''APB_SOC_PADFUN0'', Getter ''apb_soc_padfun1'' ''APB_SOC_PADFUN1'',
     Setter ''apb_soc_padfun1'' ''APB_SOC_PADFUN1'', Getter ''apb_soc_padfun2'' ''APB_SOC_PADFUN2'',
     Setter ''apb_soc_padfun2'' ''APB_SOC_PADFUN2'', Getter ''apb_soc_padfun3'' ''APB_SOC_PADFUN3'',
     Setter ''apb_soc_padfun3'' ''APB_SOC_PADFUN3'', Getter ''apb_soc_padcfg0'' ''APB_SOC_PADCFG0'',
     Setter ''apb_soc_padcfg0'' ''APB_SOC_PADCFG0'', Getter ''apb_soc_padcfg1'' ''APB_SOC_PADCFG1'',
     Setter ''apb_soc_padcfg1'' ''APB_SOC_PADCFG1'', Getter ''apb_soc_padcfg2'' ''APB_SOC_PADCFG2'',
     Setter ''apb_soc_padcfg2'' ''APB_SOC_PADCFG2'', Getter ''apb_soc_padcfg3'' ''APB_SOC_PADCFG3'',
     Setter ''apb_soc_padcfg3'' ''APB_SOC_PADCFG3'', Getter ''apb_soc_padcfg4'' ''APB_SOC_PADCFG4'',
     Setter ''apb_soc_padcfg4'' ''APB_SOC_PADCFG4'', Getter ''apb_soc_padcfg5'' ''APB_SOC_PADCFG5'',
     Setter ''apb_soc_padcfg5'' ''APB_SOC_PADCFG5'', Getter ''apb_soc_padcfg6'' ''APB_SOC_PADCFG6'',
     Setter ''apb_soc_padcfg6'' ''APB_SOC_PADCFG6'', Getter ''apb_soc_padcfg7'' ''APB_SOC_PADCFG7'',
     Setter ''apb_soc_padcfg7'' ''APB_SOC_PADCFG7'', Getter ''apb_soc_padcfg8'' ''APB_SOC_PADCFG8'',
     Setter ''apb_soc_padcfg8'' ''APB_SOC_PADCFG8'', Getter ''apb_soc_padcfg9'' ''APB_SOC_PADCFG9'',
     Setter ''apb_soc_padcfg9'' ''APB_SOC_PADCFG9'', Getter ''apb_soc_padcfg10'' ''APB_SOC_PADCFG10'',
     Setter ''apb_soc_padcfg10'' ''APB_SOC_PADCFG10'', Getter ''apb_soc_padcfg11'' ''APB_SOC_PADCFG11'',
     Setter ''apb_soc_padcfg11'' ''APB_SOC_PADCFG11'', Getter ''apb_soc_padcfg12'' ''APB_SOC_PADCFG12'',
     Setter ''apb_soc_padcfg12'' ''APB_SOC_PADCFG12'', Getter ''apb_soc_padcfg13'' ''APB_SOC_PADCFG13'',
     Setter ''apb_soc_padcfg13'' ''APB_SOC_PADCFG13'', Getter ''apb_soc_padcfg14'' ''APB_SOC_PADCFG14'',
     Setter ''apb_soc_padcfg14'' ''APB_SOC_PADCFG14'', Getter ''apb_soc_padcfg15'' ''APB_SOC_PADCFG15'',
     Setter ''apb_soc_padcfg15'' ''APB_SOC_PADCFG15'', Getter ''apb_soc_cl_busy'' ''APB_SOC_CL_BUSY'',
     Setter ''apb_soc_cl_busy'' ''APB_SOC_CL_BUSY'', Getter ''apb_soc_jtagreg'' ''APB_SOC_JTAGREG'',
     Setter ''apb_soc_jtagreg'' ''APB_SOC_JTAGREG'', Getter ''apb_soc_sleep_ctrl'' ''APB_SOC_SLEEP_CTRL'',
     Setter ''apb_soc_sleep_ctrl'' ''APB_SOC_SLEEP_CTRL'', Getter ''apb_soc_clk_div_i3c'' ''APB_SOC_CLK_DIV_I3C'',
     Setter ''apb_soc_clk_div_i3c'' ''APB_SOC_CLK_DIV_I3C'', Getter ''apb_soc_corestatus'' ''APB_SOC_CORESTATUS'',
     Setter ''apb_soc_corestatus'' ''APB_SOC_CORESTATUS'', Getter ''apb_soc_corestatus_ro'' ''APB_SOC_CORESTATUS_RO'',
     Setter ''apb_soc_corestatus_ro'' ''APB_SOC_CORESTATUS_RO'', Getter ''apb_soc_bootsel'' ''APB_SOC_BOOTSEL'',
     Setter ''apb_soc_bootsel'' ''APB_SOC_BOOTSEL'', Getter ''apb_soc_wd_clr'' ''APB_SOC_WD_CLR'',
     Setter ''apb_soc_wd_clr'' ''APB_SOC_WD_CLR'', Getter ''apb_soc_clk_sel'' ''APB_SOC_CLK_SEL'',
     Setter ''apb_soc_clk_sel'' ''APB_SOC_CLK_SEL'', Getter ''apb_soc_clk_div_soc'' ''APB_SOC_CLK_DIV_SOC'',
     Setter ''apb_soc_clk_div_soc'' ''APB_SOC_CLK_DIV_SOC'', Getter ''apb_soc_clk_div_clu'' ''APB_SOC_CLK_DIV_CLU'',
     Setter ''apb_soc_clk_div_clu'' ''APB_SOC_CLK_DIV_CLU'', Getter ''apb_soc_clk_div_per'' ''APB_SOC_CLK_DIV_PER'',
     Setter ''apb_soc_clk_div_per'' ''APB_SOC_CLK_DIV_PER'', Getter ''apb_soc_supervisor_dbg'' ''APB_SOC_SUPERVISOR_DBG'',
     Setter ''apb_soc_supervisor_dbg'' ''APB_SOC_SUPERVISOR_DBG'', Getter ''apb_soc_rwm_grp0'' ''APB_SOC_RWM_GRP0'',
     Setter ''apb_soc_rwm_grp0'' ''APB_SOC_RWM_GRP0'', Getter ''apb_soc_rwm_grp1'' ''APB_SOC_RWM_GRP1'',
     Setter ''apb_soc_rwm_grp1'' ''APB_SOC_RWM_GRP1'', Getter ''apb_soc_rwm_grp2'' ''APB_SOC_RWM_GRP2'',
     Setter ''apb_soc_rwm_grp2'' ''APB_SOC_RWM_GRP2'', Getter ''apb_soc_rwm_grp3'' ''APB_SOC_RWM_GRP3'',
     Setter ''apb_soc_rwm_grp3'' ''APB_SOC_RWM_GRP3'', Getter ''apb_soc_rwm_grp4'' ''APB_SOC_RWM_GRP4'',
     Setter ''apb_soc_rwm_grp4'' ''APB_SOC_RWM_GRP4'', Getter ''apb_soc_rwm_grp5'' ''APB_SOC_RWM_GRP5'',
     Setter ''apb_soc_rwm_grp5'' ''APB_SOC_RWM_GRP5'', Getter ''apb_soc_rwm_grp6'' ''APB_SOC_RWM_GRP6'',
     Setter ''apb_soc_rwm_grp6'' ''APB_SOC_RWM_GRP6'', Getter ''apb_soc_safe_pmu_sleepctrl'' ''APB_SOC_SAFE_PMU_SLEEPCTRL'',
     Setter ''apb_soc_safe_pmu_sleepctrl'' ''APB_SOC_SAFE_PMU_SLEEPCTRL'', Getter ''apb_soc_safe_wd'' ''APB_SOC_SAFE_WD'',
     Setter ''apb_soc_safe_wd'' ''APB_SOC_SAFE_WD'', Getter ''apb_soc_safe_sleeppadcfg0'' ''APB_SOC_SAFE_SLEEPPADCFG0'',
     Setter ''apb_soc_safe_sleeppadcfg0'' ''APB_SOC_SAFE_SLEEPPADCFG0'',
     Getter ''apb_soc_safe_sleeppadcfg1'' ''APB_SOC_SAFE_SLEEPPADCFG1'',
     Setter ''apb_soc_safe_sleeppadcfg1'' ''APB_SOC_SAFE_SLEEPPADCFG1'', Getter ''apb_soc_safe_nevacf'' ''APB_SOC_SAFE_NEVACF'',
     Setter ''apb_soc_safe_nevacf'' ''APB_SOC_SAFE_NEVACF'', Getter ''apb_soc_safe_gpreg'' ''APB_SOC_SAFE_GPREG'',
     Setter ''apb_soc_safe_gpreg'' ''APB_SOC_SAFE_GPREG'']"

definition vega_apb_soc_access_2 :: "access_row list" where
  "vega_apb_soc_access_2 = [
     Getter ''apb_soc_safe_l2_btrim_stdby'' ''APB_SOC_SAFE_L2_BTRIM_STDBY'',
     Setter ''apb_soc_safe_l2_btrim_stdby'' ''APB_SOC_SAFE_L2_BTRIM_STDBY'', Getter ''apb_soc_safe_fll_ctrl'' ''APB_SOC_SAFE_FLL_CTRL'',
     Setter ''apb_soc_safe_fll_ctrl'' ''APB_SOC_SAFE_FLL_CTRL'', Getter ''apb_soc_safe_l1_pwr_ctrl'' ''APB_SOC_SAFE_L1_PWR_CTRL'',
     Setter ''apb_soc_safe_l1_pwr_ctrl'' ''APB_SOC_SAFE_L1_PWR_CTRL'', Getter ''apb_soc_safe_l2_pwr_ctrl'' ''APB_SOC_SAFE_L2_PWR_CTRL'',
     Setter ''apb_soc_safe_l2_pwr_ctrl'' ''APB_SOC_SAFE_L2_PWR_CTRL'', Getter ''apb_soc_reg_gpio_iso'' ''APB_SOC_REG_GPIO_ISO'',
     Setter ''apb_soc_reg_gpio_iso'' ''APB_SOC_REG_GPIO_ISO'', Getter ''apb_soc_reg_cam_iso'' ''APB_SOC_REG_CAM_ISO'',
     Setter ''apb_soc_reg_cam_iso'' ''APB_SOC_REG_CAM_ISO'', Getter ''apb_soc_reg_lvds_iso'' ''APB_SOC_REG_LVDS_ISO'',
     Setter ''apb_soc_reg_lvds_iso'' ''APB_SOC_REG_LVDS_ISO'']"

definition vega_apb_soc_macros_1 :: "macro_row list" where
  "vega_apb_soc_macros_1 = [
     Macros ''APB_SOC_INFO_NB_CL'' (16, 0) (16, 0) (16, 0) 0, Macros ''APB_SOC_INFO_NB_CORES'' (16, 16) (16, 16) (16, 16) 16,
     Macros ''APB_SOC_FC_BOOT_ADDR'' (32, 0) (32, 0) (32, 0) 0, Macros ''APB_SOC_FC_FETCH_FC_FE'' (1, 0) (1, 0) (1, 0) 0,
     Macros ''APB_SOC_CL_ISOLATE_EN'' (1, 0) (1, 0) (1, 0) 0, Macros ''APB_SOC_CL_BUSY_BUSY'' (1, 0) (1, 0) (1, 0) 0,
     Macros ''APB_SOC_JTAGREG_INT_SYNC'' (1, 0) (1, 0) (1, 0) 0, Macros ''APB_SOC_JTAGREG_INT_BT_MD'' (3, 1) (3, 1) (3, 1) 1,
     Macros ''APB_SOC_JTAGREG_EXT_SYNC'' (1, 8) (1, 8) (1, 8) 8, Macros ''APB_SOC_JTAGREG_EXT_BT_MD'' (3, 9) (3, 9) (3, 9) 9,
     Macros ''APB_SOC_SLEEP_CTRL_SLEEP_CTRL'' (32, 0) (32, 0) (32, 0) 0, Macros ''APB_SOC_CORESTATUS_STATUS'' (32, 0) (32, 0) (32, 0) 0,
     Macros ''APB_SOC_CORESTATUS_RO_STATUS'' (32, 0) (32, 0) (32, 0) 0, Macros ''APB_SOC_CLK_SEL_CLK_SOC'' (1, 0) (1, 0) (1, 0) 0,
     Macros ''APB_SOC_CLK_SEL_CLK_CLUSTER'' (2, 1) (2, 1) (2, 1) 1, Macros ''APB_SOC_SAFE_PMU_SLEEPCTRL_REBOOT'' (3, 0) (3, 0) (3, 0) 0,
     Macros ''APB_SOC_SAFE_PMU_SLEEPCTRL_SMARTWAKE_EN'' (1, 9) (1, 9) (1, 9) 9,
     Macros ''APB_SOC_SAFE_PMU_SLEEPCTRL_RTCWAKE_EN'' (1, 10) (1, 10) (1, 10) 10,
     Macros ''APB_SOC_SAFE_PMU_SLEEPCTRL_EXTWAKE_TYPE'' (2, 11) (2, 11) (2, 11) 11,
     Macros ''APB_SOC_SAFE_PMU_SLEEPCTRL_EXTWAKE_EN'' (1, 13) (1, 13) (1, 13) 13,
     Macros ''APB_SOC_SAFE_PMU_SLEEPCTRL_MRAM_WAKESTATE'' (1, 14) (1, 14) (1, 14) 14,
     Macros ''APB_SOC_SAFE_PMU_SLEEPCTRL_CLUSTER_WAKESTATE'' (1, 15) (1, 15) (1, 15) 15,
     Macros ''APB_SOC_SAFE_PMU_SLEEPCTRL_RET_MEM'' (16, 16) (16, 16) (16, 16) 16,
     Macros ''APB_SOC_SAFE_SLEEPPADCFG0_STATE'' (4, 0) (4, 0) (4, 0) 0,
     Macros ''APB_SOC_SAFE_L2_BTRIM_STDBY_BTRIM'' (4, 0) (4, 0) (4, 0) 0,
     Macros ''APB_SOC_SAFE_L2_BTRIM_STDBY_STDBY_N'' (16, 4) (16, 4) (16, 4) 4,
     Macros ''APB_SOC_SAFE_FLL_CTRL_FLL2_PWD'' (1, 0) (1, 0) (1, 0) 0, Macros ''APB_SOC_SAFE_FLL_CTRL_FLL3_PWD'' (1, 1) (1, 1) (1, 1) 1,
     Macros ''APB_SOC_SAFE_FLL_CTRL_FLL2_RSTB'' (1, 2) (1, 2) (1, 2) 2, Macros ''APB_SOC_SAFE_FLL_CTRL_FLL3_RSTB'' (1, 3) (1, 3) (1, 3) 3]"

definition vega_apb_soc_macros_2 :: "macro_row list" where
  "vega_apb_soc_macros_2 = [
     Macros ''APB_SOC_SAFE_L1_PWR_CTRL_BTRIM'' (4, 0) (4, 0) (4, 0) 0, Macros ''APB_SOC_SAFE_L1_PWR_CTRL_STDBY_N'' (2, 4) (2, 4) (2, 4) 4,
     Macros ''APB_SOC_SAFE_L1_PWR_CTRL_PWD'' (2, 6) (2, 6) (2, 6) 6,
     Macros ''APB_SOC_SAFE_L2_PWR_CTRL_VDDDE_N'' (16, 0) (16, 0) (16, 0) 0,
     Macros ''APB_SOC_SAFE_L2_PWR_CTRL_VDDME_N'' (16, 16) (16, 16) (16, 16) 16]"

definition vega_apb_soc_map :: register_map where
  "vega_apb_soc_map = \<lparr>hdr_regs = vega_apb_soc_regs_1 @ vega_apb_soc_regs_2,
     hdr_fields = vega_apb_soc_fields_1 @ vega_apb_soc_fields_2,
     hdr_resets = [],
     hdr_structs = vega_apb_soc_structs_1 @ vega_apb_soc_structs_2 @ vega_apb_soc_structs_3,
     hdr_access = vega_apb_soc_access_1 @ vega_apb_soc_access_2,
     hdr_macros = vega_apb_soc_macros_1 @ vega_apb_soc_macros_2\<rparr>"

lemmas vega_apb_soc_tables = vega_apb_soc_map_def vega_apb_soc_regs_1_def vega_apb_soc_regs_2_def vega_apb_soc_fields_1_def vega_apb_soc_fields_2_def vega_apb_soc_structs_1_def 
  vega_apb_soc_structs_2_def vega_apb_soc_structs_3_def vega_apb_soc_access_1_def vega_apb_soc_access_2_def vega_apb_soc_macros_1_def vega_apb_soc_macros_2_def

interpretation vega_apb_soc: aligned_header vega_apb_soc_map
  by unfold_locales (simp_all add: check_header vega_apb_soc_tables)

section \<open>\<^verbatim>\<open>chips/gap9/apb_soc_ctrl.h\<close>\<close>

definition gap9_apb_soc_regs_1 :: "reg_row list" where
  "gap9_apb_soc_regs_1 = [
     Reg ''APB_SOC_INFO'' 0x0, Reg ''APB_SOC_FC_BOOT'' 0x4, Reg ''APB_SOC_FC_FETCH'' 0x8, Reg ''APB_SOC_CL_ISOLATE'' 0xC,
     Reg ''APB_SOC_PADFUN0'' 0x10, Reg ''APB_SOC_PADFUN1'' 0x14, Reg ''APB_SOC_PADFUN2'' 0x18, Reg ''APB_SOC_PADFUN3'' 0x1C,
     Reg ''APB_SOC_PADCFG0'' 0x20, Reg ''APB_SOC_PADCFG1'' 0x24, Reg ''APB_SOC_PADCFG2'' 0x28, Reg ''APB_SOC_PADCFG3'' 0x2C,
     Reg ''APB_SOC_PADCFG4'' 0x30, Reg ''APB_SOC_PADCFG5'' 0x34, Reg ''APB_SOC_PADCFG6'' 0x38, Reg ''APB_SOC_PADCFG7'' 0x3C,
     Reg ''APB_SOC_PADCFG8'' 0x40, Reg ''APB_SOC_PADCFG9'' 0x44, Reg ''APB_SOC_PADCFG10'' 0x48, Reg ''APB_SOC_PADCFG11'' 0x4C,
     Reg ''APB_SOC_PADCFG12'' 0x50, Reg ''APB_SOC_PADCFG13'' 0x54, Reg ''APB_SOC_PADCFG14'' 0x58, Reg ''APB_SOC_PADCFG15'' 0x5C,
     Reg ''APB_SOC_CL_BUSY'' 0x6C, Reg ''APB_SOC_JTAGREG'' 0x74, Reg ''APB_SOC_SLEEP_CTRL'' 0x7C, Reg ''APB_SOC_CLK_DIV_I3C'' 0x80,
     Reg ''APB_SOC_CORESTATUS'' 0xA0, Reg ''APB_SOC_CORESTATUS_RO'' 0xC0, Reg ''APB_SOC_BOOTSEL'' 0xC4, Reg ''APB_SOC_WD_CLR'' 0xC8,
     Reg ''APB_SOC_CLK_SEL'' 0xD0, Reg ''APB_SOC_CLK_DIV_SOC'' 0xD4, Reg ''APB_SOC_CLK_DIV_CLU'' 0xD8, Reg ''APB_SOC_CLK_DIV_PER'' 0xDC,
     Reg ''APB_SOC_SUPERVISOR_DBG'' 0xE0, Reg ''APB_SOC_RWM_GRP0'' 0xE4, Reg ''APB_SOC_RWM_GRP1'' 0xE8, Reg ''APB_SOC_RWM_GRP2'' 0xEC,
     Reg ''APB_SOC_RWM_GRP3'' 0xF0, Reg ''APB_SOC_RWM_GRP4'' 0xF4, Reg ''APB_SOC_RWM_GRP5'' 0xF8, Reg ''APB_SOC_RWM_GRP6'' 0xFC,
     Reg ''APB_SOC_SAFE_PMU_SLEEPCTRL'' 0x104, Reg ''APB_SOC_SAFE_WD'' 0x110, Reg ''APB_SOC_SAFE_SLEEPPADCFG0'' 0x150,
     Reg ''APB_SOC_SAFE_SLEEPPADCFG1'' 0x154, Reg ''APB_SOC_SAFE_NEVACF'' 0x164, Reg ''APB_SOC_SAFE_GPREG'' 0x170]"

definition gap9_apb_soc_regs_2 :: "reg_row list" where
  "gap9_apb_soc_regs_2 = [
     Reg ''APB_SOC_SAFE_L2_BTRIM_STDBY'' 0x174, Reg ''APB_SOC_SAFE_FLL_CTRL'' 0x178, Reg ''APB_SOC_SAFE_L1_PWR_CTRL'' 0x17C,
     Reg ''APB_SOC_SAFE_L2_PWR_CTRL'' 0x180, Reg ''APB_SOC_REG_GPIO_ISO'' 0x1C0, Reg ''APB_SOC_REG_CAM_ISO'' 0x1C4,
     Reg ''APB_SOC_REG_LVDS_ISO'' 0x1C8]"

definition gap9_apb_soc_fields_1 :: "field_row list" where
  "gap9_apb_soc_fields_1 = [
     Field ''APB_SOC_INFO_NB_CL'' 0 16 0xFFFF, Field ''APB_SOC_INFO_NB_CORES'' 16 16 0xFFFF0000,
     Field ''APB_SOC_FC_BOOT_ADDR'' 0 32 0xFFFFFFFF, Field ''APB_SOC_FC_FETCH_FC_FE'' 0 1 0x1, Field ''APB_SOC_CL_ISOLATE_EN'' 0 1 0x1,
     Field ''APB_SOC_CL_BUSY_BUSY'' 0 1 0x1, Field ''APB_SOC_JTAGREG_INT_SYNC'' 0 1 0x1, Field ''APB_SOC_JTAGREG_INT_BT_MD'' 1 3 0xE,
     Field ''APB_SOC_JTAGREG_EXT_SYNC'' 8 1 0x100, Field ''APB_SOC_JTAGREG_EXT_BT_MD'' 9 3 0xE00,
     Field ''APB_SOC_SLEEP_CTRL_SLEEP_CTRL'' 0 32 0xFFFFFFFF, Field ''APB_SOC_CORESTATUS_STATUS'' 0 32 0xFFFFFFFF,
     Field ''APB_SOC_CORESTATUS_RO_STATUS'' 0 32 0xFFFFFFFF, Field ''APB_SOC_CLK_SEL_CLK_SOC'' 0 1 0x1,
     Field ''APB_SOC_CLK_SEL_CLK_CLUSTER'' 1 2 0x6, Field ''APB_SOC_SAFE_PMU_SLEEPCTRL_REBOOT'' 0 3 0x7,
     Field ''APB_SOC_SAFE_PMU_SLEEPCTRL_SMARTWAKE_EN'' 9 1 0x200, Field ''APB_SOC_SAFE_PMU_SLEEPCTRL_RTCWAKE_EN'' 10 1 0x400,
     Field ''APB_SOC_SAFE_PMU_SLEEPCTRL_EXTWAKE_TYPE'' 11 2 0x1800, Field ''APB_SOC_SAFE_PMU_SLEEPCTRL_EXTWAKE_EN'' 13 1 0x2000,
     Field ''APB_SOC_SAFE_PMU_SLEEPCTRL_MRAM_WAKESTATE'' 14 1 0x4000, Field ''APB_SOC_SAFE_PMU_SLEEPCTRL_CLUSTER_WAKESTATE'' 15 1 0x8000,
     Field ''APB_SOC_SAFE_PMU_SLEEPCTRL_RET_MEM'' 16 16 0xFFFF0000, Field ''APB_SOC_SAFE_SLEEPPADCFG0_STATE'' 0 4 0xF,
     Field ''APB_SOC_SAFE_L2_BTRIM_STDBY_BTRIM'' 0 4 0xF, Field ''APB_SOC_SAFE_L2_BTRIM_STDBY_STDBY_N'' 4 16 0xFFFF0,
     Field ''APB_SOC_SAFE_FLL_CTRL_FLL2_PWD'' 0 1 0x1, Field ''APB_SOC_SAFE_FLL_CTRL_FLL3_PWD'' 1 1 0x2,
     Field ''APB_SOC_SAFE_FLL_CTRL_FLL2_RSTB'' 2 1 0x4, Field ''APB_SOC_SAFE_FLL_CTRL_FLL3_RSTB'' 3 1 0x8]"

definition gap9_apb_soc_fields_2 :: "field_row list" where
  "gap9_apb_soc_fields_2 = [
     Field ''APB_SOC_SAFE_L1_PWR_CTRL_BTRIM'' 0 4 0xF, Field ''APB_SOC_SAFE_L1_PWR_CTRL_STDBY_N'' 4 2 0x30,
     Field ''APB_SOC_SAFE_L1_PWR_CTRL_PWD'' 6 2 0xC0, Field ''APB_SOC_SAFE_L2_PWR_CTRL_VDDDE_N'' 0 16 0xFFFF,
     Field ''APB_SOC_SAFE_L2_PWR_CTRL_VDDME_N'' 16 16 0xFFFF0000]"

definition gap9_apb_soc_structs_1 :: "struct_row list" where
  "gap9_apb_soc_structs_1 = [
     Struct ''apb_soc_info'' [Bits ''nb_cl'' 16, Bits ''nb_cores'' 16], Struct ''apb_soc_fc_boot'' [Bits ''addr'' 32],
     Struct ''apb_soc_fc_fetch'' [Bits ''fc_fe'' 1], Struct ''apb_soc_cl_isolate'' [Bits ''en'' 1], Struct ''apb_soc_padfun0'' [],
     Struct ''apb_soc_padfun1'' [], Struct ''apb_soc_padfun2'' [], Struct ''apb_soc_padfun3'' [], Struct ''apb_soc_padcfg0'' [],
     Struct ''apb_soc_padcfg1'' [], Struct ''apb_soc_padcfg2'' [], Struct ''apb_soc_padcfg3'' [], Struct ''apb_soc_padcfg4'' [],
     Struct ''apb_soc_padcfg5'' [], Struct ''apb_soc_padcfg6'' [], Struct ''apb_soc_padcfg7'' [], Struct ''apb_soc_padcfg8'' [],
     Struct ''apb_soc_padcfg9'' [], Struct ''apb_soc_padcfg10'' [], Struct ''apb_soc_padcfg11'' [], Struct ''apb_soc_padcfg12'' [],
     Struct ''apb_soc_padcfg13'' [], Struct ''apb_soc_padcfg14'' [], Struct ''apb_soc_padcfg15'' []]"

definition gap9_apb_soc_structs_2 :: "struct_row list" where
  "gap9_apb_soc_structs_2 = [
     Struct ''apb_soc_cl_busy'' [Bits ''busy'' 1],
     Struct ''apb_soc_jtagreg'' [Bits ''int_sync'' 1, Bits ''int_bt_md'' 3, Padding 4, Bits ''ext_sync'' 1, Bits ''ext_bt_md'' 3],
     Struct ''apb_soc_sleep_ctrl'' [Bits ''sleep_ctrl'' 32], Struct ''apb_soc_clk_div_i3c'' [],
     Struct ''apb_soc_corestatus'' [Bits ''status'' 32], Struct ''apb_soc_corestatus_ro'' [Bits ''status'' 32],
     Struct ''apb_soc_bootsel'' [], Struct ''apb_soc_wd_clr'' [], Struct ''apb_soc_clk_sel'' [Bits ''clk_soc'' 1, Bits ''clk_cluster'' 2],
     Struct ''apb_soc_clk_div_soc'' [], Struct ''apb_soc_clk_div_clu'' [], Struct ''apb_soc_clk_div_per'' [],
     Struct ''apb_soc_supervisor_dbg'' [], Struct ''apb_soc_rwm_grp0'' [], Struct ''apb_soc_rwm_grp1'' [], Struct ''apb_soc_rwm_grp2'' [],
     Struct ''apb_soc_rwm_grp3'' [], Struct ''apb_soc_rwm_grp4'' [], Struct ''apb_soc_rwm_grp5'' [], Struct ''apb_soc_rwm_grp6'' [],
     Struct ''apb_soc_safe_pmu_sleepctrl'' [Bits ''reboot'' 3, Padding 6, Bits ''smartwake_en'' 1, Bits ''rtcwake_en'' 1,
       Bits ''extwake_type'' 2, Bits ''extwake_en'' 1, Bits ''mram_wakestate'' 1, Bits ''cluster_wakestate'' 1, Bits ''ret_mem'' 16]]"

definition gap9_apb_soc_structs_3 :: "struct_row list" where
  "gap9_apb_soc_structs_3 = [
     Struct ''apb_soc_safe_wd'' [], Struct ''apb_soc_safe_sleeppadcfg0'' [Bits ''state'' 4], Struct ''apb_soc_safe_sleeppadcfg1'' [],
     Struct ''apb_soc_safe_nevacf'' [], Struct ''apb_soc_safe_gpreg'' [],
     Struct ''apb_soc_safe_l2_btrim_stdby'' [Bits ''btrim'' 4, Bits ''stdby_n'' 16],
     Struct ''apb_soc_safe_fll_ctrl'' [Bits ''fll2_pwd'' 1, Bits ''fll3_pwd'' 1, Bits ''fll2_rstb'' 1, Bits ''fll3_rstb'' 1],
     Struct ''apb_soc_safe_l1_pwr_ctrl'' [Bits ''btrim'' 4, Bits ''stdby_n'' 2, Bits ''pwd'' 2],
     Struct ''apb_soc_safe_l2_pwr_ctrl'' [Bits ''vddde_n'' 16, Bits ''vddme_n'' 16], Struct ''apb_soc_reg_gpio_iso'' [],
     Struct ''apb_soc_reg_cam_iso'' [], Struct ''apb_soc_reg_lvds_iso'' []]"

definition gap9_apb_soc_access_1 :: "access_row list" where
  "gap9_apb_soc_access_1 = [
     Getter ''apb_soc_info'' ''APB_SOC_INFO'', Setter ''apb_soc_info'' ''APB_SOC_INFO'', Getter ''apb_soc_fc_boot'' ''APB_SOC_FC_BOOT'',
     Setter ''apb_soc_fc_boot'' ''APB_SOC_FC_BOOT'', Getter ''apb_soc_fc_fetch'' ''APB_SOC_FC_FETCH'',
     Setter ''apb_soc_fc_fetch'' ''APB_SOC_FC_FETCH'', Getter ''apb_soc_cl_isolate'' ''APB_SOC_CL_ISOLATE'',
     Setter ''apb_soc_cl_isolate'' ''APB_SOC_CL_ISOLATE'', Getter ''apb_soc_padfun0'' ''APB_SOC_PADFUN0'',
     Setter ''apb_soc_padfun0'' ''APB_SOC_PADFUN0'', Getter ''apb_soc_padfun1'' ''APB_SOC_PADFUN1'',
     Setter ''apb_soc_padfun1'' ''APB_SOC_PADFUN1'', Getter ''apb_soc_padfun2'' ''APB_SOC_PADFUN2'',
     Setter ''apb_soc_padfun2'' ''APB_SOC_PADFUN2'', Getter ''apb_soc_padfun3'' ''APB_SOC_PADFUN3'',
     Setter ''apb_soc_padfun3'' ''APB_SOC_PADFUN3'', Getter ''apb_soc_padcfg0'' ''APB_SOC_PADCFG0'',
     Setter ''apb_soc_padcfg0'' ''APB_SOC_PADCFG0'', Getter ''apb_soc_padcfg1'' ''APB_SOC_PADCFG1'',
     Setter ''apb_soc_padcfg1'' ''APB_SOC_PADCFG1'', Getter ''apb_soc_padcfg2'' ''APB_SOC_PADCFG2'',
     Setter ''apb_soc_padcfg2'' ''APB_SOC_PADCFG2'', Getter ''apb_soc_padcfg3'' ''APB_SOC_PADCFG3'',
     Setter ''apb_soc_padcfg3'' ''APB_SOC_PADCFG3'', Getter ''apb_soc_padcfg4'' ''APB_SOC_PADCFG4'',
     Setter ''apb_soc_padcfg4'' ''APB_SOC_PADCFG4'', Getter ''apb_soc_padcfg5'' ''APB_SOC_PADCFG5'',
     Setter ''apb_soc_padcfg5'' ''APB_SOC_PADCFG5'', Getter ''apb_soc_padcfg6'' ''APB_SOC_PADCFG6'',
     Setter ''apb_soc_padcfg6'' ''APB_SOC_PADCFG6'', Getter ''apb_soc_padcfg7'' ''APB_SOC_PADCFG7'',
     Setter ''apb_soc_padcfg7'' ''APB_SOC_PADCFG7'', Getter ''apb_soc_padcfg8'' ''APB_SOC_PADCFG8'',
     Setter ''apb_soc_padcfg8'' ''APB_SOC_PADCFG8'', Getter ''apb_soc_padcfg9'' ''APB_SOC_PADCFG9'',
     Setter ''apb_soc_padcfg9'' ''APB_SOC_PADCFG9'', Getter ''apb_soc_padcfg10'' ''APB_SOC_PADCFG10'',
     Setter ''apb_soc_padcfg10'' ''APB_SOC_PADCFG10'', Getter ''apb_soc_padcfg11'' ''APB_SOC_PADCFG11'',
     Setter ''apb_soc_padcfg11'' ''APB_SOC_PADCFG11'', Getter ''apb_soc_padcfg12'' ''APB_SOC_PADCFG12'',
     Setter ''apb_soc_padcfg12'' ''APB_SOC_PADCFG12'', Getter ''apb_soc_padcfg13'' ''APB_SOC_PADCFG13'',
     Setter ''apb_soc_padcfg13'' ''APB_SOC_PADCFG13'', Getter ''apb_soc_padcfg14'' ''APB_SOC_PADCFG14'',
     Setter ''apb_soc_padcfg14'' ''APB_SOC_PADCFG14'', Getter ''apb_soc_padcfg15'' ''APB_SOC_PADCFG15'',
     Setter ''apb_soc_padcfg15'' ''APB_SOC_PADCFG15'', Getter ''apb_soc_cl_busy'' ''APB_SOC_CL_BUSY'',
     Setter ''apb_soc_cl_busy'' ''APB_SOC_CL_BUSY'', Getter ''apb_soc_jtagreg'' ''APB_SOC_JTAGREG'',
     Setter ''apb_soc_jtagreg'' ''APB_SOC_JTAGREG'', Getter ''apb_soc_sleep_ctrl'' ''APB_SOC_SLEEP_CTRL'',
     Setter ''apb_soc_sleep_ctrl'' ''APB_SOC_SLEEP_CTRL'', Getter ''apb_soc_clk_div_i3c'' ''APB_SOC_CLK_DIV_I3C'',
     Setter ''apb_soc_clk_div_i3c'' ''APB_SOC_CLK_DIV_I3C'', Getter ''apb_soc_corestatus'' ''APB_SOC_CORESTATUS'',
     Setter ''apb_soc_corestatus'' ''APB_SOC_CORESTATUS'', Getter ''apb_soc_corestatus_ro'' ''APB_SOC_CORESTATUS_RO'',
     Setter ''apb_soc_corestatus_ro'' ''APB_SOC_CORESTATUS_RO'', Getter ''apb_soc_bootsel'' ''APB_SOC_BOOTSEL'',
     Setter ''apb_soc_bootsel'' ''APB_SOC_BOOTSEL'', Getter ''apb_soc_wd_clr'' ''APB_SOC_WD_CLR'',
     Setter ''apb_soc_wd_clr'' ''APB_SOC_WD_CLR'', Getter ''apb_soc_clk_sel'' ''APB_SOC_CLK_SEL'',
     Setter ''apb_soc_clk_sel'' ''APB_SOC_CLK_SEL'', Getter ''apb_soc_clk_div_soc'' ''APB_SOC_CLK_DIV_SOC'',
     Setter ''apb_soc_clk_div_soc'' ''APB_SOC_CLK_DIV_SOC'', Getter ''apb_soc_clk_div_clu'' ''APB_SOC_CLK_DIV_CLU'',
     Setter ''apb_soc_clk_div_clu'' ''APB_SOC_CLK_DIV_CLU'', Getter ''apb_soc_clk_div_per'' ''APB_SOC_CLK_DIV_PER'',
     Setter ''apb_soc_clk_div_per'' ''APB_SOC_CLK_DIV_PER'', Getter ''apb_soc_supervisor_dbg'' ''APB_SOC_SUPERVISOR_DBG'',
     Setter ''apb_soc_supervisor_dbg'' ''APB_SOC_SUPERVISOR_DBG'', Getter ''apb_soc_rwm_grp0'' ''APB_SOC_RWM_GRP0'',
     Setter ''apb_soc_rwm_grp0'' ''APB_SOC_RWM_GRP0'', Getter ''apb_soc_rwm_grp1'' ''APB_SOC_RWM_GRP1'',
     Setter ''apb_soc_rwm_grp1'' ''APB_SOC_RWM_GRP1'', Getter ''apb_soc_rwm_grp2'' ''APB_SOC_RWM_GRP2'',
     Setter ''apb_soc_rwm_grp2'' ''APB_SOC_RWM_GRP2'', Getter ''apb_soc_rwm_grp3'' ''APB_SOC_RWM_GRP3'',
     Setter ''apb_soc_rwm_grp3'' ''APB_SOC_RWM_GRP3'', Getter ''apb_soc_rwm_grp4'' ''APB_SOC_RWM_GRP4'',
     Setter ''apb_soc_rwm_grp4'' ''APB_SOC_RWM_GRP4'', Getter ''apb_soc_rwm_grp5'' ''APB_SOC_RWM_GRP5'',
     Setter ''apb_soc_rwm_grp5'' ''APB_SOC_RWM_GRP5'', Getter ''apb_soc_rwm_grp6'' ''APB_SOC_RWM_GRP6'',
     Setter ''apb_soc_rwm_grp6'' ''APB_SOC_RWM_GRP6'', Getter ''apb_soc_safe_pmu_sleepctrl'' ''APB_SOC_SAFE_PMU_SLEEPCTRL'',
     Setter ''apb_soc_safe_pmu_sleepctrl'' ''APB_SOC_SAFE_PMU_SLEEPCTRL'', Getter ''apb_soc_safe_wd'' ''APB_SOC_SAFE_WD'',
     Setter ''apb_soc_safe_wd'' ''APB_SOC_SAFE_WD'', Getter ''apb_soc_safe_sleeppadcfg0'' ''APB_SOC_SAFE_SLEEPPADCFG0'',
     Setter ''apb_soc_safe_sleeppadcfg0'' ''APB_SOC_SAFE_SLEEPPADCFG0'',
     Getter ''apb_soc_safe_sleeppadcfg1'' ''APB_SOC_SAFE_SLEEPPADCFG1'',
     Setter ''apb_soc_safe_sleeppadcfg1'' ''APB_SOC_SAFE_SLEEPPADCFG1'', Getter ''apb_soc_safe_nevacf'' ''APB_SOC_SAFE_NEVACF'',
     Setter ''apb_soc_safe_nevacf'' ''APB_SOC_SAFE_NEVACF'', Getter ''apb_soc_safe_gpreg'' ''APB_SOC_SAFE_GPREG'',
     Setter ''apb_soc_safe_gpreg'' ''APB_SOC_SAFE_GPREG'']"

definition gap9_apb_soc_access_2 :: "access_row list" where
  "gap9_apb_soc_access_2 = [
     Getter ''apb_soc_safe_l2_btrim_stdby'' ''APB_SOC_SAFE_L2_BTRIM_STDBY'',
     Setter ''apb_soc_safe_l2_btrim_stdby'' ''APB_SOC_SAFE_L2_BTRIM_STDBY'', Getter ''apb_soc_safe_fll_ctrl'' ''APB_SOC_SAFE_FLL_CTRL'',
     Setter ''apb_soc_safe_fll_ctrl'' ''APB_SOC_SAFE_FLL_CTRL'', Getter ''apb_soc_safe_l1_pwr_ctrl'' ''APB_SOC_SAFE_L1_PWR_CTRL'',
     Setter ''apb_soc_safe_l1_pwr_ctrl'' ''APB_SOC_SAFE_L1_PWR_CTRL'', Getter ''apb_soc_safe_l2_pwr_ctrl'' ''APB_SOC_SAFE_L2_PWR_CTRL'',
     Setter ''apb_soc_safe_l2_pwr_ctrl'' ''APB_SOC_SAFE_L2_PWR_CTRL'', Getter ''apb_soc_reg_gpio_iso'' ''APB_SOC_REG_GPIO_ISO'',
     Setter ''apb_soc_reg_gpio_iso'' ''APB_SOC_REG_GPIO_ISO'', Getter ''apb_soc_reg_cam_iso'' ''APB_SOC_REG_CAM_ISO'',
     Setter ''apb_soc_reg_cam_iso'' ''APB_SOC_REG_CAM_ISO'', Getter ''apb_soc_reg_lvds_iso'' ''APB_SOC_REG_LVDS_ISO'',
     Setter ''apb_soc_reg_lvds_iso'' ''APB_SOC_REG_LVDS_ISO'']"

definition gap9_apb_soc_macros_1 :: "macro_row list" where
  "gap9_apb_soc_macros_1 = [
     Macros ''APB_SOC_INFO_NB_CL'' (16, 0) (16, 0) (16, 0) 0, Macros ''APB_SOC_INFO_NB_CORES'' (16, 16) (16, 16) (16, 16) 16,
     Macros ''APB_SOC_FC_BOOT_ADDR'' (32, 0) (32, 0) (32, 0) 0, Macros ''APB_SOC_FC_FETCH_FC_FE'' (1, 0) (1, 0) (1, 0) 0,
     Macros ''APB_SOC_CL_ISOLATE_EN'' (1, 0) (1, 0) (1, 0) 0, Macros ''APB_SOC_CL_BUSY_BUSY'' (1, 0) (1, 0) (1, 0) 0,
     Macros ''APB_SOC_JTAGREG_INT_SYNC'' (1, 0) (1, 0) (1, 0) 0, Macros ''APB_SOC_JTAGREG_INT_BT_MD'' (3, 1) (3, 1) (3, 1) 1,
     Macros ''APB_SOC_JTAGREG_EXT_SYNC'' (1, 8) (1, 8) (1, 8) 8, Macros ''APB_SOC_JTAGREG_EXT_BT_MD'' (3, 9) (3, 9) (3, 9) 9,
     Macros ''APB_SOC_SLEEP_CTRL_SLEEP_CTRL'' (32, 0) (32, 0) (32, 0) 0, Macros ''APB_SOC_CORESTATUS_STATUS'' (32, 0) (32, 0) (32, 0) 0,
     Macros ''APB_SOC_CORESTATUS_RO_STATUS'' (32, 0) (32, 0) (32, 0) 0, Macros ''APB_SOC_CLK_SEL_CLK_SOC'' (1, 0) (1, 0) (1, 0) 0,
     Macros ''APB_SOC_CLK_SEL_CLK_CLUSTER'' (2, 1) (2, 1) (2, 1) 1, Macros ''APB_SOC_SAFE_PMU_SLEEPCTRL_REBOOT'' (3, 0) (3, 0) (3, 0) 0,
     Macros ''APB_SOC_SAFE_PMU_SLEEPCTRL_SMARTWAKE_EN'' (1, 9) (1, 9) (1, 9) 9,
     Macros ''APB_SOC_SAFE_PMU_SLEEPCTRL_RTCWAKE_EN'' (1, 10) (1, 10) (1, 10) 10,
     Macros ''APB_SOC_SAFE_PMU_SLEEPCTRL_EXTWAKE_TYPE'' (2, 11) (2, 11) (2, 11) 11,
     Macros ''APB_SOC_SAFE_PMU_SLEEPCTRL_EXTWAKE_EN'' (1, 13) (1, 13) (1, 13) 13,
     Macros ''APB_SOC_SAFE_PMU_SLEEPCTRL_MRAM_WAKESTATE'' (1, 14) (1, 14) (1, 14) 14,
     Macros ''APB_SOC_SAFE_PMU_SLEEPCTRL_CLUSTER_WAKESTATE'' (1, 15) (1, 15) (1, 15) 15,
     Macros ''APB_SOC_SAFE_PMU_SLEEPCTRL_RET_MEM'' (16, 16) (16, 16) (16, 16) 16,
     Macros ''APB_SOC_SAFE_SLEEPPADCFG0_STATE'' (4, 0) (4, 0) (4, 0) 0,
     Macros ''APB_SOC_SAFE_L2_BTRIM_STDBY_BTRIM'' (4, 0) (4, 0) (4, 0) 0,
     Macros ''APB_SOC_SAFE_L2_BTRIM_STDBY_STDBY_N'' (16, 4) (16, 4) (16, 4) 4,
     Macros ''APB_SOC_SAFE_FLL_CTRL_FLL2_PWD'' (1, 0) (1, 0) (1, 0) 0, Macros ''APB_SOC_SAFE_FLL_CTRL_FLL3_PWD'' (1, 1) (1, 1) (1, 1) 1,
     Macros ''APB_SOC_SAFE_FLL_CTRL_FLL2_RSTB'' (1, 2) (1, 2) (1, 2) 2, Macros ''APB_SOC_SAFE_FLL_CTRL_FLL3_RSTB'' (1, 3) (1, 3) (1, 3) 3]"

definition gap9_apb_soc_macros_2 :: "macro_row list" where
  "gap9_apb_soc_macros_2 = [
     Macros ''APB_SOC_SAFE_L1_PWR_CTRL_BTRIM'' (4, 0) (4, 0) (4, 0) 0, Macros ''APB_SOC_SAFE_L1_PWR_CTRL_STDBY_N'' (2, 4) (2, 4) (2, 4) 4,
     Macros ''APB_SOC_SAFE_L1_PWR_CTRL_PWD'' (2, 6) (2, 6) (2, 6) 6,
     Macros ''APB_SOC_SAFE_L2_PWR_CTRL_VDDDE_N'' (16, 0) (16, 0) (16, 0) 0,
     Macros ''APB_SOC_SAFE_L2_PWR_CTRL_VDDME_N'' (16, 16) (16, 16) (16, 16) 16]"

definition gap9_apb_soc_map :: register_map where
  "gap9_apb_soc_map = \<lparr>hdr_regs = gap9_apb_soc_regs_1 @ gap9_apb_soc_regs_2,
     hdr_fields = gap9_apb_soc_fields_1 @ gap9_apb_soc_fields_2,
     hdr_resets = [],
     hdr_structs = gap9_apb_soc_structs_1 @ gap9_apb_soc_structs_2 @ gap9_apb_soc_structs_3,
     hdr_access = gap9_apb_soc_access_1 @ gap9_apb_soc_access_2,
     hdr_macros = gap9_apb_soc_macros_1 @ gap9_apb_soc_macros_2\<rparr>"

lemmas gap9_apb_soc_tables = gap9_apb_soc_map_def gap9_apb_soc_regs_1_def gap9_apb_soc_regs_2_def gap9_apb_soc_fields_1_def gap9_apb_soc_fields_2_def gap9_apb_soc_structs_1_def 
  gap9_apb_soc_structs_2_def gap9_apb_soc_structs_3_def gap9_apb_soc_access_1_def gap9_apb_soc_access_2_def gap9_apb_soc_macros_1_def gap9_apb_soc_macros_2_def

interpretation gap9_apb_soc: aligned_header gap9_apb_soc_map
  by unfold_locales (simp_all add: check_header gap9_apb_soc_tables)

section \<open>\<^verbatim>\<open>chips/wolfe/apb_soc_ctrl_new.h\<close>\<close>

definition wolfe_apb_soc_regs :: "reg_row list" where
  "wolfe_apb_soc_regs = [
     Reg ''APB_SOC_SLEEP_CONTROL'' 0x104, Reg ''APB_SOC_RTC_FIRST_REG'' 0x1D0, Reg ''APB_SOC_RTC_LAST_REG'' 0x1DC]"

definition wolfe_apb_soc_fields :: "field_row list" where
  "wolfe_apb_soc_fields = [
     Field ''APB_SOC_SLEEP_CONTROL_FLL_RET'' 0 2 0x3, Field ''APB_SOC_SLEEP_CONTROL_MEM_RET_0'' 2 1 0x4,
     Field ''APB_SOC_SLEEP_CONTROL_EXTWAKEUP_SEL'' 6 5 0x7C0, Field ''APB_SOC_SLEEP_CONTROL_EXTWAKEUP_TYPE'' 11 2 0x1800,
     Field ''APB_SOC_SLEEP_CONTROL_EXTWAKEUP_EN'' 13 1 0x2000, Field ''APB_SOC_SLEEP_CONTROL_WAKEUP'' 14 2 0xC000,
     Field ''APB_SOC_SLEEP_CONTROL_BOOT_TYPE'' 18 2 0xC0000, Field ''APB_SOC_SLEEP_CONTROL_CLUSTER_WAKEUP'' 20 1 0x100000,
     Field ''APB_SOC_SLEEP_CONTROL_MEM_RET_1'' 21 11 0xFFE00000]"

definition wolfe_apb_soc_structs :: "struct_row list" where
  "wolfe_apb_soc_structs = [
     Struct ''apb_soc_sleep_control'' [Bits ''fll_ret'' 2, Bits ''mem_ret_0'' 1, Padding 3, Bits ''extwakeup_sel'' 5,
       Bits ''extwakeup_type'' 2, Bits ''extwakeup_en'' 1, Bits ''wakeup'' 2, Padding 2, Bits ''boot_type'' 2, Bits ''cluster_wakeup'' 1,
       Bits ''mem_ret_1'' 11],
     Struct ''apb_soc_rtc_first_reg'' [], Struct ''apb_soc_rtc_last_reg'' []]"

definition wolfe_apb_soc_access :: "access_row list" where
  "wolfe_apb_soc_access = [
     Getter ''apb_soc_sleep_control'' ''APB_SOC_SLEEP_CONTROL'', Setter ''apb_soc_sleep_control'' ''APB_SOC_SLEEP_CONTROL'',
     Getter ''apb_soc_rtc_first_reg'' ''APB_SOC_RTC_FIRST_REG'', Setter ''apb_soc_rtc_first_reg'' ''APB_SOC_RTC_FIRST_REG'',
     Getter ''apb_soc_rtc_last_reg'' ''APB_SOC_RTC_LAST_REG'', Setter ''apb_soc_rtc_last_reg'' ''APB_SOC_RTC_LAST_REG'']"

definition wolfe_apb_soc_macros :: "macro_row list" where
  "wolfe_apb_soc_macros = [
     Macros ''APB_SOC_SLEEP_CONTROL_FLL_RET'' (2, 0) (2, 0) (2, 0) 0, Macros ''APB_SOC_SLEEP_CONTROL_MEM_RET_0'' (1, 2) (1, 2) (1, 2) 2,
     Macros ''APB_SOC_SLEEP_CONTROL_EXTWAKEUP_SEL'' (5, 6) (5, 6) (5, 6) 6,
     Macros ''APB_SOC_SLEEP_CONTROL_EXTWAKEUP_TYPE'' (2, 11) (2, 11) (2, 11) 11,
     Macros ''APB_SOC_SLEEP_CONTROL_EXTWAKEUP_EN'' (1, 13) (1, 13) (1, 13) 13,
     Macros ''APB_SOC_SLEEP_CONTROL_WAKEUP'' (2, 14) (2, 14) (2, 14) 14,
     Macros ''APB_SOC_SLEEP_CONTROL_BOOT_TYPE'' (2, 18) (2, 18) (2, 18) 18,
     Macros ''APB_SOC_SLEEP_CONTROL_CLUSTER_WAKEUP'' (1, 20) (1, 20) (1, 20) 20,
     Macros ''APB_SOC_SLEEP_CONTROL_MEM_RET_1'' (11, 21) (11, 21) (11, 21) 21]"

definition wolfe_apb_soc_map :: register_map where
  "wolfe_apb_soc_map = \<lparr>hdr_regs = wolfe_apb_soc_regs,
     hdr_fields = wolfe_apb_soc_fields,
     hdr_resets = [],
     hdr_structs = wolfe_apb_soc_structs,
     hdr_access = wolfe_apb_soc_access,
     hdr_macros = wolfe_apb_soc_macros\<rparr>"

lemmas wolfe_apb_soc_tables = wolfe_apb_soc_map_def wolfe_apb_soc_regs_def wolfe_apb_soc_fields_def wolfe_apb_soc_structs_def wolfe_apb_soc_access_def wolfe_apb_soc_macros_def

interpretation wolfe_apb_soc: aligned_header wolfe_apb_soc_map
  by unfold_locales (simp_all add: check_header wolfe_apb_soc_tables)

section \<open>\<^verbatim>\<open>chips/pulp/apb_soc_ctrl.h\<close>\<close>

definition pulp_apb_soc_regs :: "reg_row list" where
  "pulp_apb_soc_regs = [
     Reg ''APB_SOC_BOOTSEL'' 0xC4]"

definition pulp_apb_soc_structs :: "struct_row list" where
  "pulp_apb_soc_structs = [
     Struct ''apb_soc_bootsel'' []]"

definition pulp_apb_soc_access :: "access_row list" where
  "pulp_apb_soc_access = [
     Getter ''apb_soc_bootsel'' ''APB_SOC_BOOTSEL'', Setter ''apb_soc_bootsel'' ''APB_SOC_BOOTSEL'']"

definition pulp_apb_soc_map :: register_map where
  "pulp_apb_soc_map = \<lparr>hdr_regs = pulp_apb_soc_regs,
     hdr_fields = [],
     hdr_resets = [],
     hdr_structs = pulp_apb_soc_structs,
     hdr_access = pulp_apb_soc_access,
     hdr_macros = []\<rparr>"

lemmas pulp_apb_soc_tables = pulp_apb_soc_map_def pulp_apb_soc_regs_def pulp_apb_soc_structs_def pulp_apb_soc_access_def

interpretation pulp_apb_soc: aligned_header pulp_apb_soc_map
  by unfold_locales (simp_all add: check_header pulp_apb_soc_tables)

section \<open>\<^verbatim>\<open>chips/pulpissimo/apb_soc_ctrl.h\<close>\<close>

definition pulpissimo_apb_soc_regs :: "reg_row list" where
  "pulpissimo_apb_soc_regs = [
     Reg ''APB_SOC_BOOTSEL'' 0xC4]"

definition pulpissimo_apb_soc_structs :: "struct_row list" where
  "pulpissimo_apb_soc_structs = [
     Struct ''apb_soc_bootsel'' []]"

definition pulpissimo_apb_soc_access :: "access_row list" where
  "pulpissimo_apb_soc_access = [
     Getter ''apb_soc_bootsel'' ''APB_SOC_BOOTSEL'', Setter ''apb_soc_bootsel'' ''APB_SOC_BOOTSEL'']"

definition pulpissimo_apb_soc_map :: register_map where
  "pulpissimo_apb_soc_map = \<lparr>hdr_regs = pulpissimo_apb_soc_regs,
     hdr_fields = [],
     hdr_resets = [],
     hdr_structs = pulpissimo_apb_soc_structs,
     hdr_access = pulpissimo_apb_soc_access,
     hdr_macros = []\<rparr>"

lemmas pulpissimo_apb_soc_tables = pulpissimo_apb_soc_map_def pulpissimo_apb_soc_regs_def pulpissimo_apb_soc_structs_def pulpissimo_apb_soc_access_def

interpretation pulpissimo_apb_soc: aligned_header pulpissimo_apb_soc_map
  by unfold_locales (simp_all add: check_header pulpissimo_apb_soc_tables)

section \<open>\<^verbatim>\<open>timer/timer_v2.h\<close>\<close>

definition timer_v2_regs :: "reg_row list" where
  "timer_v2_regs = [
     Reg ''TIMER_CFG_LO'' 0x0, Reg ''TIMER_CFG_HI'' 0x4, Reg ''TIMER_CNT_LO'' 0x8, Reg ''TIMER_CNT_HI'' 0xC, Reg ''TIMER_CMP_LO'' 0x10,
     Reg ''TIMER_CMP_HI'' 0x14, Reg ''TIMER_START_LO'' 0x18, Reg ''TIMER_START_HI'' 0x1C, Reg ''TIMER_RESET_LO'' 0x20,
     Reg ''TIMER_RESET_HI'' 0x24]"

definition timer_v2_fields :: "field_row list" where
  "timer_v2_fields = [
     Field ''TIMER_CFG_LO_ENABLE'' 0 1 0x1, Field ''TIMER_CFG_LO_RESET'' 1 1 0x2, Field ''TIMER_CFG_LO_IRQEN'' 2 1 0x4,
     Field ''TIMER_CFG_LO_IEM'' 3 1 0x8, Field ''TIMER_CFG_LO_MODE'' 4 1 0x10, Field ''TIMER_CFG_LO_ONE_S'' 5 1 0x20,
     Field ''TIMER_CFG_LO_PEN'' 6 1 0x40, Field ''TIMER_CFG_LO_CCFG'' 7 1 0x80, Field ''TIMER_CFG_LO_PVAL'' 8 8 0xFF00,
     Field ''TIMER_CFG_LO_CASC'' 31 1 0x80000000, Field ''TIMER_CFG_HI_ENABLE'' 0 1 0x1, Field ''TIMER_CFG_HI_RESET'' 1 1 0x2,
     Field ''TIMER_CFG_HI_IRQEN'' 2 1 0x4, Field ''TIMER_CFG_HI_IEM'' 3 1 0x8, Field ''TIMER_CFG_HI_MODE'' 4 1 0x10,
     Field ''TIMER_CFG_HI_ONE_S'' 5 1 0x20, Field ''TIMER_CFG_HI_PEN'' 6 1 0x40, Field ''TIMER_CFG_HI_CLKCFG'' 7 1 0x80,
     Field ''TIMER_CNT_LO_CNT_LO'' 0 32 0xFFFFFFFF, Field ''TIMER_CNT_HI_CNT_HI'' 0 32 0xFFFFFFFF,
     Field ''TIMER_CMP_LO_CMP_LO'' 0 32 0xFFFFFFFF, Field ''TIMER_CMP_HI_CMP_HI'' 0 32 0xFFFFFFFF,
     Field ''TIMER_START_LO_STRT_LO'' 0 1 0x1, Field ''TIMER_START_HI_STRT_HI'' 0 1 0x1, Field ''TIMER_RESET_LO_RST_LO'' 0 1 0x1,
     Field ''TIMER_RESET_HI_RST_HI'' 0 1 0x1]"

definition timer_v2_structs :: "struct_row list" where
  "timer_v2_structs = [
     Struct ''timer_cfg_lo'' [Bits ''enable'' 1, Bits ''reset'' 1, Bits ''irqen'' 1, Bits ''iem'' 1, Bits ''mode'' 1, Bits ''one_s'' 1,
       Bits ''pen'' 1, Bits ''ccfg'' 1, Bits ''pval'' 8, Padding 15, Bits ''casc'' 1],
     Struct ''timer_cfg_hi'' [Bits ''enable'' 1, Bits ''reset'' 1, Bits ''irqen'' 1, Bits ''iem'' 1, Bits ''mode'' 1, Bits ''one_s'' 1,
       Bits ''pen'' 1, Bits ''clkcfg'' 1],
     Struct ''timer_cnt_lo'' [Bits ''cnt_lo'' 32], Struct ''timer_cnt_hi'' [Bits ''cnt_hi'' 32],
     Struct ''timer_cmp_lo'' [Bits ''cmp_lo'' 32], Struct ''timer_cmp_hi'' [Bits ''cmp_hi'' 32],
     Struct ''timer_start_lo'' [Bits ''strt_lo'' 1], Struct ''timer_start_hi'' [Bits ''strt_hi'' 1],
     Struct ''timer_reset_lo'' [Bits ''rst_lo'' 1], Struct ''timer_reset_hi'' [Bits ''rst_hi'' 1]]"

definition timer_v2_access :: "access_row list" where
  "timer_v2_access = [
     Getter ''timer_cfg_lo'' ''TIMER_CFG_LO'', Setter ''timer_cfg_lo'' ''TIMER_CFG_LO'', Getter ''timer_cfg_hi'' ''TIMER_CFG_HI'',
     Setter ''timer_cfg_hi'' ''TIMER_CFG_HI'', Getter ''timer_cnt_lo'' ''TIMER_CNT_LO'', Setter ''timer_cnt_lo'' ''TIMER_CNT_LO'',
     Getter ''timer_cnt_hi'' ''TIMER_CNT_HI'', Setter ''timer_cnt_hi'' ''TIMER_CNT_HI'', Getter ''timer_cmp_lo'' ''TIMER_CMP_LO'',
     Setter ''timer_cmp_lo'' ''TIMER_CMP_LO'', Getter ''timer_cmp_hi'' ''TIMER_CMP_HI'', Setter ''timer_cmp_hi'' ''TIMER_CMP_HI'',
     Getter ''timer_start_lo'' ''TIMER_START_LO'', Setter ''timer_start_lo'' ''TIMER_START_LO'',
     Getter ''timer_start_hi'' ''TIMER_START_HI'', Setter ''timer_start_hi'' ''TIMER_START_HI'',
     Getter ''timer_reset_lo'' ''TIMER_RESET_LO'', Setter ''timer_reset_lo'' ''TIMER_RESET_LO'',
     Getter ''timer_reset_hi'' ''TIMER_RESET_HI'', Setter ''timer_reset_hi'' ''TIMER_RESET_HI'']"

definition timer_v2_macros :: "macro_row list" where
  "timer_v2_macros = [
     Macros ''TIMER_CFG_LO_ENABLE'' (1, 0) (1, 0) (1, 0) 0, Macros ''TIMER_CFG_LO_RESET'' (1, 1) (1, 1) (1, 1) 1,
     Macros ''TIMER_CFG_LO_IRQEN'' (1, 2) (1, 2) (1, 2) 2, Macros ''TIMER_CFG_LO_IEM'' (1, 3) (1, 3) (1, 3) 3,
     Macros ''TIMER_CFG_LO_MODE'' (1, 4) (1, 4) (1, 4) 4, Macros ''TIMER_CFG_LO_ONE_S'' (1, 5) (1, 5) (1, 5) 5,
     Macros ''TIMER_CFG_LO_PEN'' (1, 6) (1, 6) (1, 6) 6, Macros ''TIMER_CFG_LO_CCFG'' (1, 7) (1, 7) (1, 7) 7,
     Macros ''TIMER_CFG_LO_PVAL'' (8, 8) (8, 8) (8, 8) 8, Macros ''TIMER_CFG_LO_CASC'' (1, 31) (1, 31) (1, 31) 31,
     Macros ''TIMER_CFG_HI_ENABLE'' (1, 0) (1, 0) (1, 0) 0, Macros ''TIMER_CFG_HI_RESET'' (1, 1) (1, 1) (1, 1) 1,
     Macros ''TIMER_CFG_HI_IRQEN'' (1, 2) (1, 2) (1, 2) 2, Macros ''TIMER_CFG_HI_IEM'' (1, 3) (1, 3) (1, 3) 3,
     Macros ''TIMER_CFG_HI_MODE'' (1, 4) (1, 4) (1, 4) 4, Macros ''TIMER_CFG_HI_ONE_S'' (1, 5) (1, 5) (1, 5) 5,
     Macros ''TIMER_CFG_HI_PEN'' (1, 6) (1, 6) (1, 6) 6, Macros ''TIMER_CFG_HI_CLKCFG'' (1, 7) (1, 7) (1, 7) 7,
     Macros ''TIMER_CNT_LO_CNT_LO'' (32, 0) (32, 0) (32, 0) 0, Macros ''TIMER_CNT_HI_CNT_HI'' (32, 0) (32, 0) (32, 0) 0,
     Macros ''TIMER_CMP_LO_CMP_LO'' (32, 0) (32, 0) (32, 0) 0, Macros ''TIMER_CMP_HI_CMP_HI'' (32, 0) (32, 0) (32, 0) 0,
     Macros ''TIMER_START_LO_STRT_LO'' (1, 0) (1, 0) (1, 0) 0, Macros ''TIMER_START_HI_STRT_HI'' (1, 0) (1, 0) (1, 0) 0,
     Macros ''TIMER_RESET_LO_RST_LO'' (1, 0) (1, 0) (1, 0) 0, Macros ''TIMER_RESET_HI_RST_HI'' (1, 0) (1, 0) (1, 0) 0]"

definition timer_v2_map :: register_map where
  "timer_v2_map = \<lparr>hdr_regs = timer_v2_regs,
     hdr_fields = timer_v2_fields,
     hdr_resets = [],
     hdr_structs = timer_v2_structs,
     hdr_access = timer_v2_access,
     hdr_macros = timer_v2_macros\<rparr>"

lemmas timer_v2_tables = timer_v2_map_def timer_v2_regs_def timer_v2_fields_def timer_v2_structs_def timer_v2_access_def timer_v2_macros_def

interpretation timer_v2: aligned_header timer_v2_map
  by unfold_locales (simp_all add: check_header timer_v2_tables)

section \<open>\<^verbatim>\<open>itc/itc_v1.h\<close>\<close>

definition itc_v1_regs :: "reg_row list" where
  "itc_v1_regs = [
     Reg ''ITC_MASK'' 0x0, Reg ''ITC_MASK_SET'' 0x4, Reg ''ITC_MASK_CLR'' 0x8, Reg ''ITC_STATUS'' 0xC, Reg ''ITC_STATUS_SET'' 0x10,
     Reg ''ITC_STATUS_CLR'' 0x14, Reg ''ITC_ACK'' 0x18, Reg ''ITC_ACK_SET'' 0x1C, Reg ''ITC_ACK_CLR'' 0x20, Reg ''ITC_FIFO'' 0x24]"

definition itc_v1_structs :: "struct_row list" where
  "itc_v1_structs = [
     Struct ''itc_mask'' [], Struct ''itc_mask_set'' [], Struct ''itc_mask_clr'' [], Struct ''itc_status'' [],
     Struct ''itc_status_set'' [], Struct ''itc_status_clr'' [], Struct ''itc_ack'' [], Struct ''itc_ack_set'' [],
     Struct ''itc_ack_clr'' [], Struct ''itc_fifo'' []]"

definition itc_v1_access :: "access_row list" where
  "itc_v1_access = [
     Getter ''itc_mask'' ''ITC_MASK'', Setter ''itc_mask'' ''ITC_MASK'', Getter ''itc_mask_set'' ''ITC_MASK_SET'',
     Setter ''itc_mask_set'' ''ITC_MASK_SET'', Getter ''itc_mask_clr'' ''ITC_MASK_CLR'', Setter ''itc_mask_clr'' ''ITC_MASK_CLR'',
     Getter ''itc_status'' ''ITC_STATUS'', Setter ''itc_status'' ''ITC_STATUS'', Getter ''itc_status_set'' ''ITC_STATUS_SET'',
     Setter ''itc_status_set'' ''ITC_STATUS_SET'', Getter ''itc_status_clr'' ''ITC_STATUS_CLR'',
     Setter ''itc_status_clr'' ''ITC_STATUS_CLR'', Getter ''itc_ack'' ''ITC_ACK'', Setter ''itc_ack'' ''ITC_ACK'',
     Getter ''itc_ack_set'' ''ITC_ACK_SET'', Setter ''itc_ack_set'' ''ITC_ACK_SET'', Getter ''itc_ack_clr'' ''ITC_ACK_CLR'',
     Setter ''itc_ack_clr'' ''ITC_ACK_CLR'', Getter ''itc_fifo'' ''ITC_FIFO'', Setter ''itc_fifo'' ''ITC_FIFO'']"

definition itc_v1_map :: register_map where
  "itc_v1_map = \<lparr>hdr_regs = itc_v1_regs,
     hdr_fields = [],
     hdr_resets = [],
     hdr_structs = itc_v1_structs,
     hdr_access = itc_v1_access,
     hdr_macros = []\<rparr>"

lemmas itc_v1_tables = itc_v1_map_def itc_v1_regs_def itc_v1_structs_def itc_v1_access_def

interpretation itc_v1: aligned_header itc_v1_map
  by unfold_locales (simp_all add: check_header itc_v1_tables)

end
