(* ===== verification/Maps_Io.thy ===== *)
theory Maps_Io
  imports Register_Maps
begin

text \<open>
  Register maps of the pins, the pulse-width modulator and the convolution accelerator.
\<close>

section \<open>\<^verbatim>\<open>gpio/gpio_v2_new.h\<close>\<close>

definition gpio_v2_regs :: "reg_row list" where
  "gpio_v2_regs = [
     Reg ''GPIO_APBGPIO_PADDIR'' 0x0, Reg ''GPIO_APBGPIO_PADIN'' 0x4, Reg ''GPIO_APBGPIO_PADOUT'' 0x8, Reg ''GPIO_APBGPIO_INTEN'' 0xC,
     Reg ''GPIO_APBGPIO_INTTYPE0'' 0x10, Reg ''GPIO_APBGPIO_INTTYPE1'' 0x14, Reg ''GPIO_APBGPIO_INTSTATUS'' 0x18,
     Reg ''GPIO_APBGPIO_GPIOEN'' 0x1C, Reg ''GPIO_APBGPIO_PADCFG0'' 0x20, Reg ''GPIO_APBGPIO_PADCFG1'' 0x24,
     Reg ''GPIO_APBGPIO_PADCFG2'' 0x28, Reg ''GPIO_APBGPIO_PADCFG3'' 0x2C, Reg ''GPIO_APBGPIO_PADCFG4'' 0x30,
     Reg ''GPIO_APBGPIO_PADCFG5'' 0x34, Reg ''GPIO_APBGPIO_PADCFG6'' 0x38, Reg ''GPIO_APBGPIO_PADCFG7'' 0x3C]"

definition gpio_v2_fields_1 :: "field_row list" where
  "gpio_v2_fields_1 = [
     Field ''GPIO_APBGPIO_PADDIR_DIR'' 0 32 0xFFFFFFFF, Field ''GPIO_APBGPIO_PADIN_DATA_IN'' 0 32 0xFFFFFFFF,
     Field ''GPIO_APBGPIO_PADOUT_DATA_OUT'' 0 32 0xFFFFFFFF, Field ''GPIO_APBGPIO_INTEN_INTEN'' 0 32 0xFFFFFFFF,
     Field ''GPIO_APBGPIO_INTTYPE0_INTTYPE0'' 0 32 0xFFFFFFFF, Field ''GPIO_APBGPIO_INTTYPE1_INTTYPE1'' 0 32 0xFFFFFFFF,
     Field ''GPIO_APBGPIO_INTSTATUS_INTSTATUS'' 0 32 0xFFFFFFFF, Field ''GPIO_APBGPIO_GPIOEN_GPIOEN'' 0 32 0xFFFFFFFF,
     Field ''GPIO_APBGPIO_PADCFG0_PADCFG0_GPIO0_PE'' 0 1 0x1, Field ''GPIO_APBGPIO_PADCFG0_PADCFG0_GPIO0_DS'' 1 1 0x2,
     Field ''GPIO_APBGPIO_PADCFG0_PADCFG0_GPIO1_PE'' 8 1 0x100, Field ''GPIO_APBGPIO_PADCFG0_PADCFG0_GPIO1_DS'' 9 1 0x200,
     Field ''GPIO_APBGPIO_PADCFG0_PADCFG0_GPIO2_PE'' 16 1 0x10000, Field ''GPIO_APBGPIO_PADCFG0_PADCFG0_GPIO2_DS'' 17 1 0x20000,
     Field ''GPIO_APBGPIO_PADCFG0_PADCFG0_GPIO3_PE'' 24 1 0x1000000, Field ''GPIO_APBGPIO_PADCFG0_PADCFG0_GPIO3_DS'' 25 1 0x2000000,
     Field ''GPIO_APBGPIO_PADCFG1_PADCFG1_GPIO4_PE'' 0 1 0x1, Field ''GPIO_APBGPIO_PADCFG1_PADCFG1_GPIO4_DS'' 1 1 0x2,
     Field ''GPIO_APBGPIO_PADCFG1_PADCFG1_GPIO5_PE'' 8 1 0x100, Field ''GPIO_APBGPIO_PADCFG1_PADCFG1_GPIO5_DS'' 9 1 0x200,
     Field ''GPIO_APBGPIO_PADCFG1_PADCFG1_GPIO6_PE'' 16 1 0x10000, Field ''GPIO_APBGPIO_PADCFG1_PADCFG1_GPIO6_DS'' 17 1 0x20000,
     Field ''GPIO_APBGPIO_PADCFG1_PADCFG1_GPIO7_PE'' 24 1 0x1000000, Field ''GPIO_APBGPIO_PADCFG1_PADCFG1_GPIO7_DS'' 25 1 0x2000000,
     Field ''GPIO_APBGPIO_PADCFG2_PADCFG2_GPIO8_PE'' 0 1 0x1, Field ''GPIO_APBGPIO_PADCFG2_PADCFG2_GPIO8_DS'' 1 1 0x2,
     Field ''GPIO_APBGPIO_PADCFG2_PADCFG2_GPIO9_PE'' 8 1 0x100, Field ''GPIO_APBGPIO_PADCFG2_PADCFG2_GPIO9_DS'' 9 1 0x200,
     Field ''GPIO_APBGPIO_PADCFG2_PADCFG2_GPIO10_PE'' 16 1 0x10000, Field ''GPIO_APBGPIO_PADCFG2_PADCFG2_GPIO10_DS'' 17 1 0x20000]"

definition gpio_v2_fields_2 :: "field_row list" where
  "gpio_v2_fields_2 = [
     Field ''GPIO_APBGPIO_PADCFG2_PADCFG2_GPIO11_PE'' 24 1 0x1000000, Field ''GPIO_APBGPIO_PADCFG2_PADCFG2_GPIO11_DS'' 25 1 0x2000000,
     Field ''GPIO_APBGPIO_PADCFG3_PADCFG3_GPIO12_PE'' 0 1 0x1, Field ''GPIO_APBGPIO_PADCFG3_PADCFG3_GPIO12_DS'' 1 1 0x2,
     Field ''GPIO_APBGPIO_PADCFG3_PADCFG3_GPIO13_PE'' 8 1 0x100, Field ''GPIO_APBGPIO_PADCFG3_PADCFG3_GPIO13_DS'' 9 1 0x200,
     Field ''GPIO_APBGPIO_PADCFG3_PADCFG3_GPIO14_PE'' 16 1 0x10000, Field ''GPIO_APBGPIO_PADCFG3_PADCFG3_GPIO14_DS'' 17 1 0x20000,
     Field ''GPIO_APBGPIO_PADCFG3_PADCFG3_GPIO15_PE'' 24 1 0x1000000, Field ''GPIO_APBGPIO_PADCFG3_PADCFG3_GPIO15_DS'' 25 1 0x2000000,
     Field ''GPIO_APBGPIO_PADCFG4_PADCFG4_GPIO16_PE'' 0 1 0x1, Field ''GPIO_APBGPIO_PADCFG4_PADCFG4_GPIO16_DS'' 1 1 0x2,
     Field ''GPIO_APBGPIO_PADCFG4_PADCFG4_GPIO17_PE'' 8 1 0x100, Field ''GPIO_APBGPIO_PADCFG4_PADCFG4_GPIO17_DS'' 9 1 0x200,
     Field ''GPIO_APBGPIO_PADCFG4_PADCFG4_GPIO18_PE'' 16 1 0x10000, Field ''GPIO_APBGPIO_PADCFG4_PADCFG4_GPIO18_DS'' 17 1 0x20000,
     Field ''GPIO_APBGPIO_PADCFG4_PADCFG4_GPIO19_PE'' 24 1 0x1000000, Field ''GPIO_APBGPIO_PADCFG4_PADCFG4_GPIO19_DS'' 25 1 0x2000000,
     Field ''GPIO_APBGPIO_PADCFG5_PADCFG5_GPIO20_PE'' 0 1 0x1, Field ''GPIO_APBGPIO_PADCFG5_PADCFG5_GPIO20_DS'' 1 1 0x2,
     Field ''GPIO_APBGPIO_PADCFG5_PADCFG5_GPIO21_PE'' 8 1 0x100, Field ''GPIO_APBGPIO_PADCFG5_PADCFG5_GPIO21_DS'' 9 1 0x200,
     Field ''GPIO_APBGPIO_PADCFG5_PADCFG5_GPIO22_PE'' 16 1 0x10000, Field ''GPIO_APBGPIO_PADCFG5_PADCFG5_GPIO22_DS'' 17 1 0x20000,
     Field ''GPIO_APBGPIO_PADCFG5_PADCFG5_GPIO23_PE'' 24 1 0x1000000, Field ''GPIO_APBGPIO_PADCFG5_PADCFG5_GPIO23_DS'' 25 1 0x2000000,
     Field ''GPIO_APBGPIO_PADCFG6_PADCFG6_GPIO24_PE'' 0 1 0x1, Field ''GPIO_APBGPIO_PADCFG6_PADCFG6_GPIO24_DS'' 1 1 0x2,
     Field ''GPIO_APBGPIO_PADCFG6_PADCFG6_GPIO25_PE'' 8 1 0x100, Field ''GPIO_APBGPIO_PADCFG6_PADCFG6_GPIO25_DS'' 9 1 0x200]"

definition gpio_v2_fields_3 :: "field_row list" where
  "gpio_v2_fields_3 = [
     Field ''GPIO_APBGPIO_PADCFG6_PADCFG6_GPIO26_PE'' 16 1 0x10000, Field ''GPIO_APBGPIO_PADCFG6_PADCFG6_GPIO26_DS'' 17 1 0x20000,
     Field ''GPIO_APBGPIO_PADCFG6_PADCFG6_GPIO27_PE'' 24 1 0x1000000, Field ''GPIO_APBGPIO_PADCFG6_PADCFG6_GPIO27_DS'' 25 1 0x2000000,
     Field ''GPIO_APBGPIO_PADCFG7_PADCFG7_GPIO28_PE'' 0 1 0x1, Field ''GPIO_APBGPIO_PADCFG7_PADCFG7_GPIO28_DS'' 1 1 0x2,
     Field ''GPIO_APBGPIO_PADCFG7_PADCFG7_GPIO29_PE'' 8 1 0x100, Field ''GPIO_APBGPIO_PADCFG7_PADCFG7_GPIO29_DS'' 9 1 0x200,
     Field ''GPIO_APBGPIO_PADCFG7_PADCFG7_GPIO30_PE'' 16 1 0x10000, Field ''GPIO_APBGPIO_PADCFG7_PADCFG7_GPIO30_DS'' 17 1 0x20000,
     Field ''GPIO_APBGPIO_PADCFG7_PADCFG7_GPIO31_PE'' 24 1 0x1000000, Field ''GPIO_APBGPIO_PADCFG7_PADCFG7_GPIO31_DS'' 25 1 0x2000000]"

definition gpio_v2_structs_1 :: "struct_row list" where
  "gpio_v2_structs_1 = [
     Struct ''gpio_apbgpio_paddir'' [Bits ''dir'' 32], Struct ''gpio_apbgpio_padin'' [Bits ''data_in'' 32],
     Struct ''gpio_apbgpio_padout'' [Bits ''data_out'' 32], Struct ''gpio_apbgpio_inten'' [Bits ''inten'' 32],
     Struct ''gpio_apbgpio_inttype0'' [Bits ''inttype0'' 32], Struct ''gpio_apbgpio_inttype1'' [Bits ''inttype1'' 32],
     Struct ''gpio_apbgpio_intstatus'' [Bits ''intstatus'' 32], Struct ''gpio_apbgpio_gpioen'' [Bits ''gpioen'' 32],
     Struct ''gpio_apbgpio_padcfg0'' [Bits ''padcfg0_gpio0_pe'' 1, Bits ''padcfg0_gpio0_ds'' 1, Padding 6, Bits ''padcfg0_gpio1_pe'' 1,
       Bits ''padcfg0_gpio1_ds'' 1, Padding 6, Bits ''padcfg0_gpio2_pe'' 1, Bits ''padcfg0_gpio2_ds'' 1, Padding 6,
       Bits ''padcfg0_gpio3_pe'' 1, Bits ''padcfg0_gpio3_ds'' 1],
     Struct ''gpio_apbgpio_padcfg1'' [Bits ''padcfg1_gpio4_pe'' 1, Bits ''padcfg1_gpio4_ds'' 1, Padding 6, Bits ''padcfg1_gpio5_pe'' 1,
       Bits ''padcfg1_gpio5_ds'' 1, Padding 6, Bits ''padcfg1_gpio6_pe'' 1, Bits ''padcfg1_gpio6_ds'' 1, Padding 6,
       Bits ''padcfg1_gpio7_pe'' 1, Bits ''padcfg1_gpio7_ds'' 1],
     Struct ''gpio_apbgpio_padcfg2'' [Bits ''padcfg2_gpio8_pe'' 1, Bits ''padcfg2_gpio8_ds'' 1, Padding 6, Bits ''padcfg2_gpio9_pe'' 1,
       Bits ''padcfg2_gpio9_ds'' 1, Padding 6, Bits ''padcfg2_gpio10_pe'' 1, Bits ''padcfg2_gpio10_ds'' 1, Padding 6,
       Bits ''padcfg2_gpio11_pe'' 1, Bits ''padcfg2_gpio11_ds'' 1],
     Struct ''gpio_apbgpio_padcfg3'' [Bits ''padcfg3_gpio12_pe'' 1, Bits ''padcfg3_gpio12_ds'' 1, Padding 6,
       Bits ''padcfg3_gpio13_pe'' 1, Bits ''padcfg3_gpio13_ds'' 1, Padding 6, Bits ''padcfg3_gpio14_pe'' 1, Bits ''padcfg3_gpio14_ds'' 1,
       Padding 6, Bits ''padcfg3_gpio15_pe'' 1, Bits ''padcfg3_gpio15_ds'' 1],
     Struct ''gpio_apbgpio_padcfg4'' [Bits ''padcfg4_gpio16_pe'' 1, Bits ''padcfg4_gpio16_ds'' 1, Padding 6,
       Bits ''padcfg4_gpio17_pe'' 1, Bits ''padcfg4_gpio17_ds'' 1, Padding 6, Bits ''padcfg4_gpio18_pe'' 1, Bits ''padcfg4_gpio18_ds'' 1,
       Padding 6, Bits ''padcfg4_gpio19_pe'' 1, Bits ''padcfg4_gpio19_ds'' 1]]"

definition gpio_v2_structs_2 :: "struct_row list" where
  "gpio_v2_structs_2 = [
     Struct ''gpio_apbgpio_padcfg5'' [Bits ''padcfg5_gpio20_pe'' 1, Bits ''padcfg5_gpio20_ds'' 1, Padding 6,
       Bits ''padcfg5_gpio21_pe'' 1, Bits ''padcfg5_gpio21_ds'' 1, Padding 6, Bits ''padcfg5_gpio22_pe'' 1, Bits ''padcfg5_gpio22_ds'' 1,
       Padding 6, Bits ''padcfg5_gpio23_pe'' 1, Bits ''padcfg5_gpio23_ds'' 1],
     Struct ''gpio_apbgpio_padcfg6'' [Bits ''padcfg6_gpio24_pe'' 1, Bits ''padcfg6_gpio24_ds'' 1, Padding 6,
       Bits ''padcfg6_gpio25_pe'' 1, Bits ''padcfg6_gpio25_ds'' 1, Padding 6, Bits ''padcfg6_gpio26_pe'' 1, Bits ''padcfg6_gpio26_ds'' 1,
       Padding 6, Bits ''padcfg6_gpio27_pe'' 1, Bits ''padcfg6_gpio27_ds'' 1],
     Struct ''gpio_apbgpio_padcfg7'' [Bits ''padcfg7_gpio28_pe'' 1, Bits ''padcfg7_gpio28_ds'' 1, Padding 6,
       Bits ''padcfg7_gpio29_pe'' 1, Bits ''padcfg7_gpio29_ds'' 1, Padding 6, Bits ''padcfg7_gpio30_pe'' 1, Bits ''padcfg7_gpio30_ds'' 1,
       Padding 6, Bits ''padcfg7_gpio31_pe'' 1, Bits ''padcfg7_gpio31_ds'' 1]]"

definition gpio_v2_access :: "access_row list" where
  "gpio_v2_access = [
     Getter ''gpio_apbgpio_paddir'' ''GPIO_APBGPIO_PADDIR'', Setter ''gpio_apbgpio_paddir'' ''GPIO_APBGPIO_PADDIR'',
     Getter ''gpio_apbgpio_padin'' ''GPIO_APBGPIO_PADIN'', Setter ''gpio_apbgpio_padin'' ''GPIO_APBGPIO_PADIN'',
     Getter ''gpio_apbgpio_padout'' ''GPIO_APBGPIO_PADOUT'', Setter ''gpio_apbgpio_padout'' ''GPIO_APBGPIO_PADOUT'',
     Getter ''gpio_apbgpio_inten'' ''GPIO_APBGPIO_INTEN'', Setter ''gpio_apbgpio_inten'' ''GPIO_APBGPIO_INTEN'',
     Getter ''gpio_apbgpio_inttype0'' ''GPIO_APBGPIO_INTTYPE0'', Setter ''gpio_apbgpio_inttype0'' ''GPIO_APBGPIO_INTTYPE0'',
     Getter ''gpio_apbgpio_inttype1'' ''GPIO_APBGPIO_INTTYPE1'', Setter ''gpio_apbgpio_inttype1'' ''GPIO_APBGPIO_INTTYPE1'',
     Getter ''gpio_apbgpio_intstatus'' ''GPIO_APBGPIO_INTSTATUS'', Setter ''gpio_apbgpio_intstatus'' ''GPIO_APBGPIO_INTSTATUS'',
     Getter ''gpio_apbgpio_gpioen'' ''GPIO_APBGPIO_GPIOEN'', Setter ''gpio_apbgpio_gpioen'' ''GPIO_APBGPIO_GPIOEN'',
     Getter ''gpio_apbgpio_padcfg0'' ''GPIO_APBGPIO_PADCFG0'', Setter ''gpio_apbgpio_padcfg0'' ''GPIO_APBGPIO_PADCFG0'',
     Getter ''gpio_apbgpio_padcfg1'' ''GPIO_APBGPIO_PADCFG1'', Setter ''gpio_apbgpio_padcfg1'' ''GPIO_APBGPIO_PADCFG1'',
     Getter ''gpio_apbgpio_padcfg2'' ''GPIO_APBGPIO_PADCFG2'', Setter ''gpio_apbgpio_padcfg2'' ''GPIO_APBGPIO_PADCFG2'',
     Getter ''gpio_apbgpio_padcfg3'' ''GPIO_APBGPIO_PADCFG3'', Setter ''gpio_apbgpio_padcfg3'' ''GPIO_APBGPIO_PADCFG3'',
     Getter ''gpio_apbgpio_padcfg4'' ''GPIO_APBGPIO_PADCFG4'', Setter ''gpio_apbgpio_padcfg4'' ''GPIO_APBGPIO_PADCFG4'',
     Getter ''gpio_apbgpio_padcfg5'' ''GPIO_APBGPIO_PADCFG5'', Setter ''gpio_apbgpio_padcfg5'' ''GPIO_APBGPIO_PADCFG5'',
     Getter ''gpio_apbgpio_padcfg6'' ''GPIO_APBGPIO_PADCFG6'', Setter ''gpio_apbgpio_padcfg6'' ''GPIO_APBGPIO_PADCFG6'',
     Getter ''gpio_apbgpio_padcfg7'' ''GPIO_APBGPIO_PADCFG7'', Setter ''gpio_apbgpio_padcfg7'' ''GPIO_APBGPIO_PADCFG7'']"

definition gpio_v2_macros_1 :: "macro_row list" where
  "gpio_v2_macros_1 = [
     Macros ''GPIO_APBGPIO_PADDIR_DIR'' (32, 0) (32, 0) (32, 0) 0, Macros ''GPIO_APBGPIO_PADIN_DATA_IN'' (32, 0) (32, 0) (32, 0) 0,
     Macros ''GPIO_APBGPIO_PADOUT_DATA_OUT'' (32, 0) (32, 0) (32, 0) 0, Macros ''GPIO_APBGPIO_INTEN_INTEN'' (32, 0) (32, 0) (32, 0) 0,
     Macros ''GPIO_APBGPIO_INTTYPE0_INTTYPE0'' (32, 0) (32, 0) (32, 0) 0,
     Macros ''GPIO_APBGPIO_INTTYPE1_INTTYPE1'' (32, 0) (32, 0) (32, 0) 0,
     Macros ''GPIO_APBGPIO_INTSTATUS_INTSTATUS'' (32, 0) (32, 0) (32, 0) 0,
     Macros ''GPIO_APBGPIO_GPIOEN_GPIOEN'' (32, 0) (32, 0) (32, 0) 0,
     Macros ''GPIO_APBGPIO_PADCFG0_PADCFG0_GPIO0_PE'' (1, 0) (1, 0) (1, 0) 0,
     Macros ''GPIO_APBGPIO_PADCFG0_PADCFG0_GPIO0_DS'' (1, 1) (1, 1) (1, 1) 1,
     Macros ''GPIO_APBGPIO_PADCFG0_PADCFG0_GPIO1_PE'' (1, 8) (1, 8) (1, 8) 8,
     Macros ''GPIO_APBGPIO_PADCFG0_PADCFG0_GPIO1_DS'' (1, 9) (1, 9) (1, 9) 9,
     Macros ''GPIO_APBGPIO_PADCFG0_PADCFG0_GPIO2_PE'' (1, 16) (1, 16) (1, 16) 16,
     Macros ''GPIO_APBGPIO_PADCFG0_PADCFG0_GPIO2_DS'' (1, 17) (1, 17) (1, 17) 17,
     Macros ''GPIO_APBGPIO_PADCFG0_PADCFG0_GPIO3_PE'' (1, 24) (1, 24) (1, 24) 24,
     Macros ''GPIO_APBGPIO_PADCFG0_PADCFG0_GPIO3_DS'' (1, 25) (1, 25) (1, 25) 25,
     Macros ''GPIO_APBGPIO_PADCFG1_PADCFG1_GPIO4_PE'' (1, 0) (1, 0) (1, 0) 0,
     Macros ''GPIO_APBGPIO_PADCFG1_PADCFG1_GPIO4_DS'' (1, 1) (1, 1) (1, 1) 1,
     Macros ''GPIO_APBGPIO_PADCFG1_PADCFG1_GPIO5_PE'' (1, 8) (1, 8) (1, 8) 8,
     Macros ''GPIO_APBGPIO_PADCFG1_PADCFG1_GPIO5_DS'' (1, 9) (1, 9) (1, 9) 9,
     Macros ''GPIO_APBGPIO_PADCFG1_PADCFG1_GPIO6_PE'' (1, 16) (1, 16) (1, 16) 16,
     Macros ''GPIO_APBGPIO_PADCFG1_PADCFG1_GPIO6_DS'' (1, 17) (1, 17) (1, 17) 17,
     Macros ''GPIO_APBGPIO_PADCFG1_PADCFG1_GPIO7_PE'' (1, 24) (1, 24) (1, 24) 24,
     Macros ''GPIO_APBGPIO_PADCFG1_PADCFG1_GPIO7_DS'' (1, 25) (1, 25) (1, 25) 25,
     Macros ''GPIO_APBGPIO_PADCFG2_PADCFG2_GPIO8_PE'' (1, 0) (1, 0) (1, 0) 0,
     Macros ''GPIO_APBGPIO_PADCFG2_PADCFG2_GPIO8_DS'' (1, 1) (1, 1) (1, 1) 1,
     Macros ''GPIO_APBGPIO_PADCFG2_PADCFG2_GPIO9_PE'' (1, 8) (1, 8) (1, 8) 8,
     Macros ''GPIO_APBGPIO_PADCFG2_PADCFG2_GPIO9_DS'' (1, 9) (1, 9) (1, 9) 9,
     Macros ''GPIO_APBGPIO_PADCFG2_PADCFG2_GPIO10_PE'' (1, 16) (1, 16) (1, 16) 16,
     Macros ''GPIO_APBGPIO_PADCFG2_PADCFG2_GPIO10_DS'' (1, 17) (1, 17) (1, 17) 17]"

definition gpio_v2_macros_2 :: "macro_row list" where
  "gpio_v2_macros_2 = [
     Macros ''GPIO_APBGPIO_PADCFG2_PADCFG2_GPIO11_PE'' (1, 24) (1, 24) (1, 24) 24,
     Macros ''GPIO_APBGPIO_PADCFG2_PADCFG2_GPIO11_DS'' (1, 25) (1, 25) (1, 25) 25,
     Macros ''GPIO_APBGPIO_PADCFG3_PADCFG3_GPIO12_PE'' (1, 0) (1, 0) (1, 0) 0,
     Macros ''GPIO_APBGPIO_PADCFG3_PADCFG3_GPIO12_DS'' (1, 1) (1, 1) (1, 1) 1,
     Macros ''GPIO_APBGPIO_PADCFG3_PADCFG3_GPIO13_PE'' (1, 8) (1, 8) (1, 8) 8,
     Macros ''GPIO_APBGPIO_PADCFG3_PADCFG3_GPIO13_DS'' (1, 9) (1, 9) (1, 9) 9,
     Macros ''GPIO_APBGPIO_PADCFG3_PADCFG3_GPIO14_PE'' (1, 16) (1, 16) (1, 16) 16,
     Macros ''GPIO_APBGPIO_PADCFG3_PADCFG3_GPIO14_DS'' (1, 17) (1, 17) (1, 17) 17,
     Macros ''GPIO_APBGPIO_PADCFG3_PADCFG3_GPIO15_PE'' (1, 24) (1, 24) (1, 24) 24,
     Macros ''GPIO_APBGPIO_PADCFG3_PADCFG3_GPIO15_DS'' (1, 25) (1, 25) (1, 25) 25,
     Macros ''GPIO_APBGPIO_PADCFG4_PADCFG4_GPIO16_PE'' (1, 0) (1, 0) (1, 0) 0,
     Macros ''GPIO_APBGPIO_PADCFG4_PADCFG4_GPIO16_DS'' (1, 1) (1, 1) (1, 1) 1,
     Macros ''GPIO_APBGPIO_PADCFG4_PADCFG4_GPIO17_PE'' (1, 8) (1, 8) (1, 8) 8,
     Macros ''GPIO_APBGPIO_PADCFG4_PADCFG4_GPIO17_DS'' (1, 9) (1, 9) (1, 9) 9,
     Macros ''GPIO_APBGPIO_PADCFG4_PADCFG4_GPIO18_PE'' (1, 16) (1, 16) (1, 16) 16,
     Macros ''GPIO_APBGPIO_PADCFG4_PADCFG4_GPIO18_DS'' (1, 17) (1, 17) (1, 17) 17,
     Macros ''GPIO_APBGPIO_PADCFG4_PADCFG4_GPIO19_PE'' (1, 24) (1, 24) (1, 24) 24,
     Macros ''GPIO_APBGPIO_PADCFG4_PADCFG4_GPIO19_DS'' (1, 25) (1, 25) (1, 25) 25,
     Macros ''GPIO_APBGPIO_PADCFG5_PADCFG5_GPIO20_PE'' (1, 0) (1, 0) (1, 0) 0,
     Macros ''GPIO_APBGPIO_PADCFG5_PADCFG5_GPIO20_DS'' (1, 1) (1, 1) (1, 1) 1,
     Macros ''GPIO_APBGPIO_PADCFG5_PADCFG5_GPIO21_PE'' (1, 8) (1, 8) (1, 8) 8,
     Macros ''GPIO_APBGPIO_PADCFG5_PADCFG5_GPIO21_DS'' (1, 9) (1, 9) (1, 9) 9,
     Macros ''GPIO_APBGPIO_PADCFG5_PADCFG5_GPIO22_PE'' (1, 16) (1, 16) (1, 16) 16,
     Macros ''GPIO_APBGPIO_PADCFG5_PADCFG5_GPIO22_DS'' (1, 17) (1, 17) (1, 17) 17,
     Macros ''GPIO_APBGPIO_PADCFG5_PADCFG5_GPIO23_PE'' (1, 24) (1, 24) (1, 24) 24,
     Macros ''GPIO_APBGPIO_PADCFG5_PADCFG5_GPIO23_DS'' (1, 25) (1, 25) (1, 25) 25,
     Macros ''GPIO_APBGPIO_PADCFG6_PADCFG6_GPIO24_PE'' (1, 0) (1, 0) (1, 0) 0,
     Macros ''GPIO_APBGPIO_PADCFG6_PADCFG6_GPIO24_DS'' (1, 1) (1, 1) (1, 1) 1,
     Macros ''GPIO_APBGPIO_PADCFG6_PADCFG6_GPIO25_PE'' (1, 8) (1, 8) (1, 8) 8,
     Macros ''GPIO_APBGPIO_PADCFG6_PADCFG6_GPIO25_DS'' (1, 9) (1, 9) (1, 9) 9]"

definition gpio_v2_macros_3 :: "macro_row list" where
  "gpio_v2_macros_3 = [
     Macros ''GPIO_APBGPIO_PADCFG6_PADCFG6_GPIO26_PE'' (1, 16) (1, 16) (1, 16) 16,
     Macros ''GPIO_APBGPIO_PADCFG6_PADCFG6_GPIO26_DS'' (1, 17) (1, 17) (1, 17) 17,
     Macros ''GPIO_APBGPIO_PADCFG6_PADCFG6_GPIO27_PE'' (1, 24) (1, 24) (1, 24) 24,
     Macros ''GPIO_APBGPIO_PADCFG6_PADCFG6_GPIO27_DS'' (1, 25) (1, 25) (1, 25) 25,
     Macros ''GPIO_APBGPIO_PADCFG7_PADCFG7_GPIO28_PE'' (1, 0) (1, 0) (1, 0) 0,
     Macros ''GPIO_APBGPIO_PADCFG7_PADCFG7_GPIO28_DS'' (1, 1) (1, 1) (1, 1) 1,
     Macros ''GPIO_APBGPIO_PADCFG7_PADCFG7_GPIO29_PE'' (1, 8) (1, 8) (1, 8) 8,
     Macros ''GPIO_APBGPIO_PADCFG7_PADCFG7_GPIO29_DS'' (1, 9) (1, 9) (1, 9) 9,
     Macros ''GPIO_APBGPIO_PADCFG7_PADCFG7_GPIO30_PE'' (1, 16) (1, 16) (1, 16) 16,
     Macros ''GPIO_APBGPIO_PADCFG7_PADCFG7_GPIO30_DS'' (1, 17) (1, 17) (1, 17) 17,
     Macros ''GPIO_APBGPIO_PADCFG7_PADCFG7_GPIO31_PE'' (1, 24) (1, 24) (1, 24) 24,
     Macros ''GPIO_APBGPIO_PADCFG7_PADCFG7_GPIO31_DS'' (1, 25) (1, 25) (1, 25) 25]"

definition gpio_v2_map :: register_map where
  "gpio_v2_map = \<lparr>hdr_regs = gpio_v2_regs,
     hdr_fields = gpio_v2_fields_1 @ gpio_v2_fields_2 @ gpio_v2_fields_3,
     hdr_resets = [],
     hdr_structs = gpio_v2_structs_1 @ gpio_v2_structs_2,
     hdr_access = gpio_v2_access,
     hdr_macros = gpio_v2_macros_1 @ gpio_v2_macros_2 @ gpio_v2_macros_3\<rparr>"

lemmas gpio_v2_tables = gpio_v2_map_def gpio_v2_regs_def gpio_v2_fields_1_def gpio_v2_fields_2_def gpio_v2_fields_3_def gpio_v2_structs_1_def 
  gpio_v2_structs_2_def gpio_v2_access_def gpio_v2_macros_1_def gpio_v2_macros_2_def gpio_v2_macros_3_def

interpretation gpio_v2: aligned_header gpio_v2_map
  by unfold_locales (simp_all add: check_header gpio_v2_tables)

section \<open>\<^verbatim>\<open>gpio/gpio_v3.h\<close>\<close>

definition gpio_v3_regs :: "reg_row list" where
  "gpio_v3_regs = [
     Reg ''GPIO_PADDIR'' 0x0, Reg ''GPIO_GPIOEN'' 0x4, Reg ''GPIO_PADIN'' 0x8, Reg ''GPIO_PADOUT'' 0xC, Reg ''GPIO_PADOUTSET'' 0x10,
     Reg ''GPIO_PADOUTCLR'' 0x14, Reg ''GPIO_INTEN'' 0x18, Reg ''GPIO_INTTYPE0'' 0x1C, Reg ''GPIO_INTTYPE1'' 0x20,
     Reg ''GPIO_INTSTATUS'' 0x24, Reg ''GPIO_PADCFG0'' 0x28, Reg ''GPIO_PADCFG1'' 0x2C, Reg ''GPIO_PADCFG2'' 0x30,
     Reg ''GPIO_PADCFG3'' 0x34, Reg ''GPIO_PADDIR_32_63'' 0x38, Reg ''GPIO_GPIOEN_32_63'' 0x3C, Reg ''GPIO_PADIN_32_63'' 0x40,
     Reg ''GPIO_PADOUT_32_63'' 0x44, Reg ''GPIO_PADOUTSET_32_63'' 0x48, Reg ''GPIO_PADOUTCLR_32_63'' 0x4C, Reg ''GPIO_INTEN_32_63'' 0x50,
     Reg ''GPIO_INTTYPE_32_47'' 0x54, Reg ''GPIO_INTTYPE_48_63'' 0x58, Reg ''GPIO_INTSTATUS_32_63'' 0x5C, Reg ''GPIO_PADCFG_32_39'' 0x60,
     Reg ''GPIO_PADCFG_40_47'' 0x64, Reg ''GPIO_PADCFG_48_55'' 0x68, Reg ''GPIO_PADCFG_56_63'' 0x6C]"

definition gpio_v3_fields :: "field_row list" where
  "gpio_v3_fields = [
     Field ''GPIO_PADDIR_DIR'' 0 32 0xFFFFFFFF, Field ''GPIO_GPIOEN_GPIOEN'' 0 32 0xFFFFFFFF,
     Field ''GPIO_PADIN_DATA_IN'' 0 32 0xFFFFFFFF, Field ''GPIO_PADOUT_DATA_OUT'' 0 32 0xFFFFFFFF,
     Field ''GPIO_PADOUTSET_DATA_SET'' 0 32 0xFFFFFFFF, Field ''GPIO_PADOUTCLR_DATA_CLEAR'' 0 32 0xFFFFFFFF,
     Field ''GPIO_INTEN_INTEN'' 0 32 0xFFFFFFFF, Field ''GPIO_INTTYPE0_INTTYPE0'' 0 32 0xFFFFFFFF,
     Field ''GPIO_INTTYPE1_INTTYPE1'' 0 32 0xFFFFFFFF, Field ''GPIO_INTSTATUS_INTSTATUS'' 0 32 0xFFFFFFFF,
     Field ''GPIO_PADCFG0_GPIO0_CFG'' 0 4 0xF, Field ''GPIO_PADCFG0_GPIO1_CFG'' 4 4 0xF0, Field ''GPIO_PADCFG0_GPIO2_CFG'' 8 4 0xF00,
     Field ''GPIO_PADCFG0_GPIO3_CFG'' 12 4 0xF000, Field ''GPIO_PADCFG0_GPIO4_CFG'' 16 4 0xF0000,
     Field ''GPIO_PADCFG0_GPIO5_CFG'' 20 4 0xF00000, Field ''GPIO_PADCFG0_GPIO6_CFG'' 24 4 0xF000000,
     Field ''GPIO_PADCFG0_GPIO7_CFG'' 28 4 0xF0000000, Field ''GPIO_PADCFG1_GPIO4_PE'' 0 1 0x1, Field ''GPIO_PADCFG1_GPIO4_DS'' 1 1 0x2,
     Field ''GPIO_PADDIR_32_63_DIR'' 0 32 0xFFFFFFFF, Field ''GPIO_GPIOEN_32_63_GPIOEN'' 0 32 0xFFFFFFFF,
     Field ''GPIO_PADIN_32_63_DATA_IN'' 0 32 0xFFFFFFFF, Field ''GPIO_PADOUT_32_63_DATA_OUT'' 0 32 0xFFFFFFFF,
     Field ''GPIO_PADOUTSET_32_63_DATA_SET'' 0 32 0xFFFFFFFF, Field ''GPIO_PADOUTCLR_32_63_DATA_CLEAR'' 0 32 0xFFFFFFFF,
     Field ''GPIO_INTEN_32_63_INTEN'' 0 32 0xFFFFFFFF, Field ''GPIO_INTTYPE_32_47_INTTYPE0'' 0 32 0xFFFFFFFF,
     Field ''GPIO_INTTYPE_48_63_INTTYPE1'' 0 32 0xFFFFFFFF, Field ''GPIO_INTSTATUS_32_63_INTSTATUS'' 0 32 0xFFFFFFFF]"

definition gpio_v3_structs_1 :: "struct_row list" where
  "gpio_v3_structs_1 = [
     Struct ''gpio_paddir'' [Bits ''dir'' 32], Struct ''gpio_gpioen'' [Bits ''gpioen'' 32], Struct ''gpio_padin'' [Bits ''data_in'' 32],
     Struct ''gpio_padout'' [Bits ''data_out'' 32], Struct ''gpio_padoutset'' [Bits ''data_set'' 32],
     Struct ''gpio_padoutclr'' [Bits ''data_clear'' 32], Struct ''gpio_inten'' [Bits ''inten'' 32],
     Struct ''gpio_inttype0'' [Bits ''inttype0'' 32], Struct ''gpio_inttype1'' [Bits ''inttype1'' 32],
     Struct ''gpio_intstatus'' [Bits ''intstatus'' 32],
     Struct ''gpio_padcfg0'' [Bits ''gpio0_cfg'' 4, Bits ''gpio1_cfg'' 4, Bits ''gpio2_cfg'' 4, Bits ''gpio3_cfg'' 4,
       Bits ''gpio4_cfg'' 4, Bits ''gpio5_cfg'' 4, Bits ''gpio6_cfg'' 4, Bits ''gpio7_cfg'' 4],
     Struct ''gpio_padcfg1'' [Bits ''gpio4_pe'' 1, Bits ''gpio4_ds'' 1], Struct ''gpio_padcfg2'' [], Struct ''gpio_padcfg3'' [],
     Struct ''gpio_paddir_32_63'' [Bits ''dir'' 32], Struct ''gpio_gpioen_32_63'' [Bits ''gpioen'' 32],
     Struct ''gpio_padin_32_63'' [Bits ''data_in'' 32], Struct ''gpio_padout_32_63'' [Bits ''data_out'' 32],
     Struct ''gpio_padoutset_32_63'' [Bits ''data_set'' 32], Struct ''gpio_padoutclr_32_63'' [Bits ''data_clear'' 32]]"

definition gpio_v3_structs_2 :: "struct_row list" where
  "gpio_v3_structs_2 = [
     Struct ''gpio_inten_32_63'' [Bits ''inten'' 32], Struct ''gpio_inttype_32_47'' [Bits ''inttype0'' 32],
     Struct ''gpio_inttype_48_63'' [Bits ''inttype1'' 32], Struct ''gpio_intstatus_32_63'' [Bits ''intstatus'' 32],
     Struct ''gpio_padcfg_32_39'' [], Struct ''gpio_padcfg_40_47'' [], Struct ''gpio_padcfg_48_55'' [], Struct ''gpio_padcfg_56_63'' []]"

definition gpio_v3_access :: "access_row list" where
  "gpio_v3_access = [
     Getter ''gpio_paddir'' ''GPIO_PADDIR'', Setter ''gpio_paddir'' ''GPIO_PADDIR'', Getter ''gpio_gpioen'' ''GPIO_GPIOEN'',
     Setter ''gpio_gpioen'' ''GPIO_GPIOEN'', Getter ''gpio_padin'' ''GPIO_PADIN'', Setter ''gpio_padin'' ''GPIO_PADIN'',
     Getter ''gpio_padout'' ''GPIO_PADOUT'', Setter ''gpio_padout'' ''GPIO_PADOUT'', Getter ''gpio_padoutset'' ''GPIO_PADOUTSET'',
     Setter ''gpio_padoutset'' ''GPIO_PADOUTSET'', Getter ''gpio_padoutclr'' ''GPIO_PADOUTCLR'',
     Setter ''gpio_padoutclr'' ''GPIO_PADOUTCLR'', Getter ''gpio_inten'' ''GPIO_INTEN'', Setter ''gpio_inten'' ''GPIO_INTEN'',
     Getter ''gpio_inttype0'' ''GPIO_INTTYPE0'', Setter ''gpio_inttype0'' ''GPIO_INTTYPE0'', Getter ''gpio_inttype1'' ''GPIO_INTTYPE1'',
     Setter ''gpio_inttype1'' ''GPIO_INTTYPE1'', Getter ''gpio_intstatus'' ''GPIO_INTSTATUS'',
     Setter ''gpio_intstatus'' ''GPIO_INTSTATUS'', Getter ''gpio_padcfg0'' ''GPIO_PADCFG0'', Setter ''gpio_padcfg0'' ''GPIO_PADCFG0'',
     Getter ''gpio_padcfg1'' ''GPIO_PADCFG1'', Setter ''gpio_padcfg1'' ''GPIO_PADCFG1'', Getter ''gpio_padcfg2'' ''GPIO_PADCFG2'',
     Setter ''gpio_padcfg2'' ''GPIO_PADCFG2'', Getter ''gpio_padcfg3'' ''GPIO_PADCFG3'', Setter ''gpio_padcfg3'' ''GPIO_PADCFG3'',
     Getter ''gpio_paddir_32_63'' ''GPIO_PADDIR_32_63'', Setter ''gpio_paddir_32_63'' ''GPIO_PADDIR_32_63'',
     Getter ''gpio_gpioen_32_63'' ''GPIO_GPIOEN_32_63'', Setter ''gpio_gpioen_32_63'' ''GPIO_GPIOEN_32_63'',
     Getter ''gpio_padin_32_63'' ''GPIO_PADIN_32_63'', Setter ''gpio_padin_32_63'' ''GPIO_PADIN_32_63'',
     Getter ''gpio_padout_32_63'' ''GPIO_PADOUT_32_63'', Setter ''gpio_padout_32_63'' ''GPIO_PADOUT_32_63'',
     Getter ''gpio_padoutset_32_63'' ''GPIO_PADOUTSET_32_63'', Setter ''gpio_padoutset_32_63'' ''GPIO_PADOUTSET_32_63'',
     Getter ''gpio_padoutclr_32_63'' ''GPIO_PADOUTCLR_32_63'', Setter ''gpio_padoutclr_32_63'' ''GPIO_PADOUTCLR_32_63'',
     Getter ''gpio_inten_32_63'' ''GPIO_INTEN_32_63'', Setter ''gpio_inten_32_63'' ''GPIO_INTEN_32_63'',
     Getter ''gpio_inttype_32_47'' ''GPIO_INTTYPE_32_47'', Setter ''gpio_inttype_32_47'' ''GPIO_INTTYPE_32_47'',
     Getter ''gpio_inttype_48_63'' ''GPIO_INTTYPE_48_63'', Setter ''gpio_inttype_48_63'' ''GPIO_INTTYPE_48_63'',
     Getter ''gpio_intstatus_32_63'' ''GPIO_INTSTATUS_32_63'', Setter ''gpio_intstatus_32_63'' ''GPIO_INTSTATUS_32_63'',
     Getter ''gpio_padcfg_32_39'' ''GPIO_PADCFG_32_39'', Setter ''gpio_padcfg_32_39'' ''GPIO_PADCFG_32_39'',
     Getter ''gpio_padcfg_40_47'' ''GPIO_PADCFG_40_47'', Setter ''gpio_padcfg_40_47'' ''GPIO_PADCFG_40_47'',
     Getter ''gpio_padcfg_48_55'' ''GPIO_PADCFG_48_55'', Setter ''gpio_padcfg_48_55'' ''GPIO_PADCFG_48_55'',
     Getter ''gpio_padcfg_56_63'' ''GPIO_PADCFG_56_63'', Setter ''gpio_padcfg_56_63'' ''GPIO_PADCFG_56_63'']"

definition gpio_v3_macros :: "macro_row list" where
  "gpio_v3_macros = [
     Macros ''GPIO_PADDIR_DIR'' (32, 0) (32, 0) (32, 0) 0, Macros ''GPIO_GPIOEN_GPIOEN'' (32, 0) (32, 0) (32, 0) 0,
     Macros ''GPIO_PADIN_DATA_IN'' (32, 0) (32, 0) (32, 0) 0, Macros ''GPIO_PADOUT_DATA_OUT'' (32, 0) (32, 0) (32, 0) 0,
     Macros ''GPIO_PADOUTSET_DATA_SET'' (32, 0) (32, 0) (32, 0) 0, Macros ''GPIO_PADOUTCLR_DATA_CLEAR'' (32, 0) (32, 0) (32, 0) 0,
     Macros ''GPIO_INTEN_INTEN'' (32, 0) (32, 0) (32, 0) 0, Macros ''GPIO_INTTYPE0_INTTYPE0'' (32, 0) (32, 0) (32, 0) 0,
     Macros ''GPIO_INTTYPE1_INTTYPE1'' (32, 0) (32, 0) (32, 0) 0, Macros ''GPIO_INTSTATUS_INTSTATUS'' (32, 0) (32, 0) (32, 0) 0,
     Macros ''GPIO_PADCFG0_GPIO0_CFG'' (4, 0) (4, 0) (4, 0) 0, Macros ''GPIO_PADCFG0_GPIO1_CFG'' (4, 4) (4, 4) (4, 4) 4,
     Macros ''GPIO_PADCFG0_GPIO2_CFG'' (4, 8) (4, 8) (4, 8) 8, Macros ''GPIO_PADCFG0_GPIO3_CFG'' (4, 12) (4, 12) (4, 12) 12,
     Macros ''GPIO_PADCFG0_GPIO4_CFG'' (4, 16) (4, 16) (4, 16) 16, Macros ''GPIO_PADCFG0_GPIO5_CFG'' (4, 20) (4, 20) (4, 20) 20,
     Macros ''GPIO_PADCFG0_GPIO6_CFG'' (4, 24) (4, 24) (4, 24) 24, Macros ''GPIO_PADCFG0_GPIO7_CFG'' (4, 28) (4, 28) (4, 28) 28,
     Macros ''GPIO_PADCFG1_GPIO4_PE'' (1, 0) (1, 0) (1, 0) 0, Macros ''GPIO_PADCFG1_GPIO4_DS'' (1, 1) (1, 1) (1, 1) 1,
     Macros ''GPIO_PADDIR_32_63_DIR'' (32, 0) (32, 0) (32, 0) 0, Macros ''GPIO_GPIOEN_32_63_GPIOEN'' (32, 0) (32, 0) (32, 0) 0,
     Macros ''GPIO_PADIN_32_63_DATA_IN'' (32, 0) (32, 0) (32, 0) 0, Macros ''GPIO_PADOUT_32_63_DATA_OUT'' (32, 0) (32, 0) (32, 0) 0,
     Macros ''GPIO_PADOUTSET_32_63_DATA_SET'' (32, 0) (32, 0) (32, 0) 0,
     Macros ''GPIO_PADOUTCLR_32_63_DATA_CLEAR'' (32, 0) (32, 0) (32, 0) 0, Macros ''GPIO_INTEN_32_63_INTEN'' (32, 0) (32, 0) (32, 0) 0,
     Macros ''GPIO_INTTYPE_32_47_INTTYPE0'' (32, 0) (32, 0) (32, 0) 0, Macros ''GPIO_INTTYPE_48_63_INTTYPE1'' (32, 0) (32, 0) (32, 0) 0,
     Macros ''GPIO_INTSTATUS_32_63_INTSTATUS'' (32, 0) (32, 0) (32, 0) 0]"

definition gpio_v3_map :: register_map where
  "gpio_v3_map = \<lparr>hdr_regs = gpio_v3_regs,
     hdr_fields = gpio_v3_fields,
     hdr_resets = [],
     hdr_structs = gpio_v3_structs_1 @ gpio_v3_structs_2,
     hdr_access = gpio_v3_access,
     hdr_macros = gpio_v3_macros\<rparr>"

lemmas gpio_v3_tables = gpio_v3_map_def gpio_v3_regs_def gpio_v3_fields_def gpio_v3_structs_1_def gpio_v3_structs_2_def gpio_v3_access_def 
  gpio_v3_macros_def

interpretation gpio_v3: aligned_header gpio_v3_map
  by unfold_locales (simp_all add: check_header gpio_v3_tables)

section \<open>\<^verbatim>\<open>pwm/v1/pwm_v1_regs.h\<close>, \<^verbatim>\<open>_regfields.h\<close>, \<^verbatim>\<open>_structs.h\<close>, \<^verbatim>\<open>_accessors.h\<close> and \<^verbatim>\<open>_macros.h\<close>\<close>

definition pwm_v1_regs :: "reg_row list" where
  "pwm_v1_regs = [
     Reg ''PWM_T0_CMD'' 0x0, Reg ''PWM_T0_CONFIG'' 0x4, Reg ''PWM_T0_THRESHOLD'' 0x8, Reg ''PWM_T0_TH_CHANNEL0'' 0xC,
     Reg ''PWM_T0_TH_CHANNEL1'' 0x10, Reg ''PWM_T0_TH_CHANNEL2'' 0x14, Reg ''PWM_T0_TH_CHANNEL3'' 0x18, Reg ''PWM_T0_COUNTER'' 0x2C,
     Reg ''PWM_T1_CMD'' 0x40, Reg ''PWM_T1_CONFIG'' 0x44, Reg ''PWM_T1_THRESHOLD'' 0x48, Reg ''PWM_T1_TH_CHANNEL0'' 0x4C,
     Reg ''PWM_T1_TH_CHANNEL1'' 0x50, Reg ''PWM_T1_TH_CHANNEL2'' 0x54, Reg ''PWM_T1_TH_CHANNEL3'' 0x58, Reg ''PWM_T1_COUNTER'' 0x6C,
     Reg ''PWM_T2_CMD'' 0x80, Reg ''PWM_T2_CONFIG'' 0x84, Reg ''PWM_T2_THRESHOLD'' 0x88, Reg ''PWM_T2_TH_CHANNEL0'' 0x8C,
     Reg ''PWM_T2_TH_CHANNEL1'' 0x90, Reg ''PWM_T2_TH_CHANNEL2'' 0x94, Reg ''PWM_T2_TH_CHANNEL3'' 0x98, Reg ''PWM_T2_COUNTER'' 0xAC,
     Reg ''PWM_T3_CMD'' 0xC0, Reg ''PWM_T3_CONFIG'' 0xC4, Reg ''PWM_T3_THRESHOLD'' 0xC8, Reg ''PWM_T3_TH_CHANNEL0'' 0xCC,
     Reg ''PWM_T3_TH_CHANNEL1'' 0xD0, Reg ''PWM_T3_TH_CHANNEL2'' 0xD4, Reg ''PWM_T3_TH_CHANNEL3'' 0xD8, Reg ''PWM_T3_COUNTER'' 0xEC,
     Reg ''PWM_EVENT_CFG'' 0x100, Reg ''PWM_CG'' 0x104]"

definition pwm_v1_fields_1 :: "field_row list" where
  "pwm_v1_fields_1 = [
     Field ''PWM_T0_CMD_START'' 0 1 0x1, Field ''PWM_T0_CMD_STOP'' 1 1 0x2, Field ''PWM_T0_CMD_UPDATE'' 2 1 0x4,
     Field ''PWM_T0_CMD_RESET'' 3 1 0x8, Field ''PWM_T0_CMD_ARM'' 4 1 0x10, Field ''PWM_T0_CONFIG_INSEL'' 0 8 0xFF,
     Field ''PWM_T0_CONFIG_MODE'' 8 3 0x700, Field ''PWM_T0_CONFIG_CLKSEL'' 11 1 0x800, Field ''PWM_T0_CONFIG_UPDOWNSEL'' 12 1 0x1000,
     Field ''PWM_T0_CONFIG_PRESC'' 16 8 0xFF0000, Field ''PWM_T0_THRESHOLD_TH_LO'' 0 16 0xFFFF,
     Field ''PWM_T0_THRESHOLD_TH_HI'' 16 16 0xFFFF0000, Field ''PWM_T0_TH_CHANNEL0_TH'' 0 16 0xFFFF,
     Field ''PWM_T0_TH_CHANNEL0_MODE'' 16 3 0x70000, Field ''PWM_T0_TH_CHANNEL1_TH'' 0 16 0xFFFF,
     Field ''PWM_T0_TH_CHANNEL1_MODE'' 16 3 0x70000, Field ''PWM_T0_TH_CHANNEL2_TH'' 0 16 0xFFFF,
     Field ''PWM_T0_TH_CHANNEL2_MODE'' 16 3 0x70000, Field ''PWM_T0_TH_CHANNEL3_TH'' 0 16 0xFFFF,
     Field ''PWM_T0_TH_CHANNEL3_MODE'' 16 3 0x70000, Field ''PWM_T1_CMD_START'' 0 1 0x1, Field ''PWM_T1_CMD_STOP'' 1 1 0x2,
     Field ''PWM_T1_CMD_UPDATE'' 2 1 0x4, Field ''PWM_T1_CMD_RESET'' 3 1 0x8, Field ''PWM_T1_CMD_ARM'' 4 1 0x10,
     Field ''PWM_T1_CONFIG_INSEL'' 0 8 0xFF, Field ''PWM_T1_CONFIG_MODE'' 8 3 0x700, Field ''PWM_T1_CONFIG_CLKSEL'' 11 1 0x800,
     Field ''PWM_T1_CONFIG_UPDOWNSEL'' 12 1 0x1000, Field ''PWM_T1_CONFIG_PRESC'' 16 8 0xFF0000]"

definition pwm_v1_fields_2 :: "field_row list" where
  "pwm_v1_fields_2 = [
     Field ''PWM_T1_THRESHOLD_TH_LO'' 0 16 0xFFFF, Field ''PWM_T1_THRESHOLD_TH_HI'' 16 16 0xFFFF0000,
     Field ''PWM_T1_TH_CHANNEL0_TH'' 0 16 0xFFFF, Field ''PWM_T1_TH_CHANNEL0_MODE'' 16 3 0x70000,
     Field ''PWM_T1_TH_CHANNEL1_TH'' 0 16 0xFFFF, Field ''PWM_T1_TH_CHANNEL1_MODE'' 16 3 0x70000,
     Field ''PWM_T1_TH_CHANNEL2_TH'' 0 16 0xFFFF, Field ''PWM_T1_TH_CHANNEL2_MODE'' 16 3 0x70000,
     Field ''PWM_T1_TH_CHANNEL3_TH'' 0 16 0xFFFF, Field ''PWM_T1_TH_CHANNEL3_MODE'' 16 3 0x70000, Field ''PWM_T2_CMD_START'' 0 1 0x1,
     Field ''PWM_T2_CMD_STOP'' 1 1 0x2, Field ''PWM_T2_CMD_UPDATE'' 2 1 0x4, Field ''PWM_T2_CMD_RESET'' 3 1 0x8,
     Field ''PWM_T2_CMD_ARM'' 4 1 0x10, Field ''PWM_T2_CONFIG_INSEL'' 0 8 0xFF, Field ''PWM_T2_CONFIG_MODE'' 8 3 0x700,
     Field ''PWM_T2_CONFIG_CLKSEL'' 11 1 0x800, Field ''PWM_T2_CONFIG_UPDOWNSEL'' 12 1 0x1000,
     Field ''PWM_T2_CONFIG_PRESC'' 16 8 0xFF0000, Field ''PWM_T2_THRESHOLD_TH_LO'' 0 16 0xFFFF,
     Field ''PWM_T2_THRESHOLD_TH_HI'' 16 16 0xFFFF0000, Field ''PWM_T2_TH_CHANNEL0_TH'' 0 16 0xFFFF,
     Field ''PWM_T2_TH_CHANNEL0_MODE'' 16 3 0x70000, Field ''PWM_T2_TH_CHANNEL1_TH'' 0 16 0xFFFF,
     Field ''PWM_T2_TH_CHANNEL1_MODE'' 16 3 0x70000, Field ''PWM_T2_TH_CHANNEL2_TH'' 0 16 0xFFFF,
     Field ''PWM_T2_TH_CHANNEL2_MODE'' 16 3 0x70000, Field ''PWM_T2_TH_CHANNEL3_TH'' 0 16 0xFFFF,
     Field ''PWM_T2_TH_CHANNEL3_MODE'' 16 3 0x70000]"

definition pwm_v1_fields_3 :: "field_row list" where
  "pwm_v1_fields_3 = [
     Field ''PWM_T3_CMD_START'' 0 1 0x1, Field ''PWM_T3_CMD_STOP'' 1 1 0x2, Field ''PWM_T3_CMD_UPDATE'' 2 1 0x4,
     Field ''PWM_T3_CMD_RESET'' 3 1 0x8, Field ''PWM_T3_CMD_ARM'' 4 1 0x10, Field ''PWM_T3_CONFIG_INSEL'' 0 8 0xFF,
     Field ''PWM_T3_CONFIG_MODE'' 8 3 0x700, Field ''PWM_T3_CONFIG_CLKSEL'' 11 1 0x800, Field ''PWM_T3_CONFIG_UPDOWNSEL'' 12 1 0x1000,
     Field ''PWM_T3_CONFIG_PRESC'' 16 8 0xFF0000, Field ''PWM_T3_THRESHOLD_TH_LO'' 0 16 0xFFFF,
     Field ''PWM_T3_THRESHOLD_TH_HI'' 16 16 0xFFFF0000, Field ''PWM_T3_TH_CHANNEL0_TH'' 0 16 0xFFFF,
     Field ''PWM_T3_TH_CHANNEL0_MODE'' 16 3 0x70000, Field ''PWM_T3_TH_CHANNEL1_TH'' 0 16 0xFFFF,
     Field ''PWM_T3_TH_CHANNEL1_MODE'' 16 3 0x70000, Field ''PWM_T3_TH_CHANNEL2_TH'' 0 16 0xFFFF,
     Field ''PWM_T3_TH_CHANNEL2_MODE'' 16 3 0x70000, Field ''PWM_T3_TH_CHANNEL3_TH'' 0 16 0xFFFF,
     Field ''PWM_T3_TH_CHANNEL3_MODE'' 16 3 0x70000, Field ''PWM_EVENT_CFG_SEL0'' 0 4 0xF, Field ''PWM_EVENT_CFG_SEL1'' 4 4 0xF0,
     Field ''PWM_EVENT_CFG_SEL2'' 8 4 0xF00, Field ''PWM_EVENT_CFG_SEL3'' 12 4 0xF000, Field ''PWM_EVENT_CFG_ENA'' 16 4 0xF0000,
     Field ''PWM_CG_ENA'' 0 16 0xFFFF]"

definition pwm_v1_structs_1 :: "struct_row list" where
  "pwm_v1_structs_1 = [
     Struct ''pwm_t0_cmd'' [Bits ''start'' 1, Bits ''stop'' 1, Bits ''update'' 1, Bits ''reset'' 1, Bits ''arm'' 1],
     Struct ''pwm_t0_config'' [Bits ''insel'' 8, Bits ''mode'' 3, Bits ''clksel'' 1, Bits ''updownsel'' 1, Padding 3, Bits ''presc'' 8],
     Struct ''pwm_t0_threshold'' [Bits ''th_lo'' 16, Bits ''th_hi'' 16], Struct ''pwm_t0_th_channel0'' [Bits ''th'' 16, Bits ''mode'' 3],
     Struct ''pwm_t0_th_channel1'' [Bits ''th'' 16, Bits ''mode'' 3], Struct ''pwm_t0_th_channel2'' [Bits ''th'' 16, Bits ''mode'' 3],
     Struct ''pwm_t0_th_channel3'' [Bits ''th'' 16, Bits ''mode'' 3], Struct ''pwm_t0_counter'' [],
     Struct ''pwm_t1_cmd'' [Bits ''start'' 1, Bits ''stop'' 1, Bits ''update'' 1, Bits ''reset'' 1, Bits ''arm'' 1],
     Struct ''pwm_t1_config'' [Bits ''insel'' 8, Bits ''mode'' 3, Bits ''clksel'' 1, Bits ''updownsel'' 1, Padding 3, Bits ''presc'' 8],
     Struct ''pwm_t1_threshold'' [Bits ''th_lo'' 16, Bits ''th_hi'' 16], Struct ''pwm_t1_th_channel0'' [Bits ''th'' 16, Bits ''mode'' 3],
     Struct ''pwm_t1_th_channel1'' [Bits ''th'' 16, Bits ''mode'' 3], Struct ''pwm_t1_th_channel2'' [Bits ''th'' 16, Bits ''mode'' 3],
     Struct ''pwm_t1_th_channel3'' [Bits ''th'' 16, Bits ''mode'' 3], Struct ''pwm_t1_counter'' [],
     Struct ''pwm_t2_cmd'' [Bits ''start'' 1, Bits ''stop'' 1, Bits ''update'' 1, Bits ''reset'' 1, Bits ''arm'' 1]]"

definition pwm_v1_structs_2 :: "struct_row list" where
  "pwm_v1_structs_2 = [
     Struct ''pwm_t2_config'' [Bits ''insel'' 8, Bits ''mode'' 3, Bits ''clksel'' 1, Bits ''updownsel'' 1, Padding 3, Bits ''presc'' 8],
     Struct ''pwm_t2_threshold'' [Bits ''th_lo'' 16, Bits ''th_hi'' 16], Struct ''pwm_t2_th_channel0'' [Bits ''th'' 16, Bits ''mode'' 3],
     Struct ''pwm_t2_th_channel1'' [Bits ''th'' 16, Bits ''mode'' 3], Struct ''pwm_t2_th_channel2'' [Bits ''th'' 16, Bits ''mode'' 3],
     Struct ''pwm_t2_th_channel3'' [Bits ''th'' 16, Bits ''mode'' 3], Struct ''pwm_t2_counter'' [],
     Struct ''pwm_t3_cmd'' [Bits ''start'' 1, Bits ''stop'' 1, Bits ''update'' 1, Bits ''reset'' 1, Bits ''arm'' 1],
     Struct ''pwm_t3_config'' [Bits ''insel'' 8, Bits ''mode'' 3, Bits ''clksel'' 1, Bits ''updownsel'' 1, Padding 3, Bits ''presc'' 8],
     Struct ''pwm_t3_threshold'' [Bits ''th_lo'' 16, Bits ''th_hi'' 16], Struct ''pwm_t3_th_channel0'' [Bits ''th'' 16, Bits ''mode'' 3],
     Struct ''pwm_t3_th_channel1'' [Bits ''th'' 16, Bits ''mode'' 3], Struct ''pwm_t3_th_channel2'' [Bits ''th'' 16, Bits ''mode'' 3],
     Struct ''pwm_t3_th_channel3'' [Bits ''th'' 16, Bits ''mode'' 3], Struct ''pwm_t3_counter'' [],
     Struct ''pwm_event_cfg'' [Bits ''sel0'' 4, Bits ''sel1'' 4, Bits ''sel2'' 4, Bits ''sel3'' 4, Bits ''ena'' 4],
     Struct ''pwm_cg'' [Bits ''ena'' 16]]"

definition pwm_v1_access :: "access_row list" where
  "pwm_v1_access = [
     Getter ''pwm_t0_cmd'' ''PWM_T0_CMD'', Setter ''pwm_t0_cmd'' ''PWM_T0_CMD'', Getter ''pwm_t0_config'' ''PWM_T0_CONFIG'',
     Setter ''pwm_t0_config'' ''PWM_T0_CONFIG'', Getter ''pwm_t0_threshold'' ''PWM_T0_THRESHOLD'',
     Setter ''pwm_t0_threshold'' ''PWM_T0_THRESHOLD'', Getter ''pwm_t0_th_channel0'' ''PWM_T0_TH_CHANNEL0'',
     Setter ''pwm_t0_th_channel0'' ''PWM_T0_TH_CHANNEL0'', Getter ''pwm_t0_th_channel1'' ''PWM_T0_TH_CHANNEL1'',
     Setter ''pwm_t0_th_channel1'' ''PWM_T0_TH_CHANNEL1'', Getter ''pwm_t0_th_channel2'' ''PWM_T0_TH_CHANNEL2'',
     Setter ''pwm_t0_th_channel2'' ''PWM_T0_TH_CHANNEL2'', Getter ''pwm_t0_th_channel3'' ''PWM_T0_TH_CHANNEL3'',
     Setter ''pwm_t0_th_channel3'' ''PWM_T0_TH_CHANNEL3'', Getter ''pwm_t0_counter'' ''PWM_T0_COUNTER'',
     Setter ''pwm_t0_counter'' ''PWM_T0_COUNTER'', Getter ''pwm_t1_cmd'' ''PWM_T1_CMD'', Setter ''pwm_t1_cmd'' ''PWM_T1_CMD'',
     Getter ''pwm_t1_config'' ''PWM_T1_CONFIG'', Setter ''pwm_t1_config'' ''PWM_T1_CONFIG'',
     Getter ''pwm_t1_threshold'' ''PWM_T1_THRESHOLD'', Setter ''pwm_t1_threshold'' ''PWM_T1_THRESHOLD'',
     Getter ''pwm_t1_th_channel0'' ''PWM_T1_TH_CHANNEL0'', Setter ''pwm_t1_th_channel0'' ''PWM_T1_TH_CHANNEL0'',
     Getter ''pwm_t1_th_channel1'' ''PWM_T1_TH_CHANNEL1'', Setter ''pwm_t1_th_channel1'' ''PWM_T1_TH_CHANNEL1'',
     Getter ''pwm_t1_th_channel2'' ''PWM_T1_TH_CHANNEL2'', Setter ''pwm_t1_th_channel2'' ''PWM_T1_TH_CHANNEL2'',
     Getter ''pwm_t1_th_channel3'' ''PWM_T1_TH_CHANNEL3'', Setter ''pwm_t1_th_channel3'' ''PWM_T1_TH_CHANNEL3'',
     Getter ''pwm_t1_counter'' ''PWM_T1_COUNTER'', Setter ''pwm_t1_counter'' ''PWM_T1_COUNTER'', Getter ''pwm_t2_cmd'' ''PWM_T2_CMD'',
     Setter ''pwm_t2_cmd'' ''PWM_T2_CMD'', Getter ''pwm_t2_config'' ''PWM_T2_CONFIG'', Setter ''pwm_t2_config'' ''PWM_T2_CONFIG'',
     Getter ''pwm_t2_threshold'' ''PWM_T2_THRESHOLD'', Setter ''pwm_t2_threshold'' ''PWM_T2_THRESHOLD'',
     Getter ''pwm_t2_th_channel0'' ''PWM_T2_TH_CHANNEL0'', Setter ''pwm_t2_th_channel0'' ''PWM_T2_TH_CHANNEL0'',
     Getter ''pwm_t2_th_channel1'' ''PWM_T2_TH_CHANNEL1'', Setter ''pwm_t2_th_channel1'' ''PWM_T2_TH_CHANNEL1'',
     Getter ''pwm_t2_th_channel2'' ''PWM_T2_TH_CHANNEL2'', Setter ''pwm_t2_th_channel2'' ''PWM_T2_TH_CHANNEL2'',
     Getter ''pwm_t2_th_channel3'' ''PWM_T2_TH_CHANNEL3'', Setter ''pwm_t2_th_channel3'' ''PWM_T2_TH_CHANNEL3'',
     Getter ''pwm_t2_counter'' ''PWM_T2_COUNTER'', Setter ''pwm_t2_counter'' ''PWM_T2_COUNTER'', Getter ''pwm_t3_cmd'' ''PWM_T3_CMD'',
     Setter ''pwm_t3_cmd'' ''PWM_T3_CMD'', Getter ''pwm_t3_config'' ''PWM_T3_CONFIG'', Setter ''pwm_t3_config'' ''PWM_T3_CONFIG'',
     Getter ''pwm_t3_threshold'' ''PWM_T3_THRESHOLD'', Setter ''pwm_t3_threshold'' ''PWM_T3_THRESHOLD'',
     Getter ''pwm_t3_th_channel0'' ''PWM_T3_TH_CHANNEL0'', Setter ''pwm_t3_th_channel0'' ''PWM_T3_TH_CHANNEL0'',
     Getter ''pwm_t3_th_channel1'' ''PWM_T3_TH_CHANNEL1'', Setter ''pwm_t3_th_channel1'' ''PWM_T3_TH_CHANNEL1'',
     Getter ''pwm_t3_th_channel2'' ''PWM_T3_TH_CHANNEL2'', Setter ''pwm_t3_th_channel2'' ''PWM_T3_TH_CHANNEL2'',
     Getter ''pwm_t3_th_channel3'' ''PWM_T3_TH_CHANNEL3'', Setter ''pwm_t3_th_channel3'' ''PWM_T3_TH_CHANNEL3'',
     Getter ''pwm_t3_counter'' ''PWM_T3_COUNTER'', Setter ''pwm_t3_counter'' ''PWM_T3_COUNTER'',
     Getter ''pwm_event_cfg'' ''PWM_EVENT_CFG'', Setter ''pwm_event_cfg'' ''PWM_EVENT_CFG'', Getter ''pwm_cg'' ''PWM_CG'',
     Setter ''pwm_cg'' ''PWM_CG'']"

definition pwm_v1_macros_1 :: "macro_row list" where
  "pwm_v1_macros_1 = [
     Macros ''PWM_T0_CMD_START'' (1, 0) (1, 0) (1, 0) 0, Macros ''PWM_T0_CMD_STOP'' (1, 1) (1, 1) (1, 1) 1,
     Macros ''PWM_T0_CMD_UPDATE'' (1, 2) (1, 2) (1, 2) 2, Macros ''PWM_T0_CMD_RESET'' (1, 3) (1, 3) (1, 3) 3,
     Macros ''PWM_T0_CMD_ARM'' (1, 4) (1, 4) (1, 4) 4, Macros ''PWM_T0_CONFIG_INSEL'' (8, 0) (8, 0) (8, 0) 0,
     Macros ''PWM_T0_CONFIG_MODE'' (3, 8) (3, 8) (3, 8) 8, Macros ''PWM_T0_CONFIG_CLKSEL'' (1, 11) (1, 11) (1, 11) 11,
     Macros ''PWM_T0_CONFIG_UPDOWNSEL'' (1, 12) (1, 12) (1, 12) 12, Macros ''PWM_T0_CONFIG_PRESC'' (8, 16) (8, 16) (8, 16) 16,
     Macros ''PWM_T0_THRESHOLD_TH_LO'' (16, 0) (16, 0) (16, 0) 0, Macros ''PWM_T0_THRESHOLD_TH_HI'' (16, 16) (16, 16) (16, 16) 16,
     Macros ''PWM_T0_TH_CHANNEL0_TH'' (16, 0) (16, 0) (16, 0) 0, Macros ''PWM_T0_TH_CHANNEL0_MODE'' (3, 16) (3, 16) (3, 16) 16,
     Macros ''PWM_T0_TH_CHANNEL1_TH'' (16, 0) (16, 0) (16, 0) 0, Macros ''PWM_T0_TH_CHANNEL1_MODE'' (3, 16) (3, 16) (3, 16) 16,
     Macros ''PWM_T0_TH_CHANNEL2_TH'' (16, 0) (16, 0) (16, 0) 0, Macros ''PWM_T0_TH_CHANNEL2_MODE'' (3, 16) (3, 16) (3, 16) 16,
     Macros ''PWM_T0_TH_CHANNEL3_TH'' (16, 0) (16, 0) (16, 0) 0, Macros ''PWM_T0_TH_CHANNEL3_MODE'' (3, 16) (3, 16) (3, 16) 16,
     Macros ''PWM_T1_CMD_START'' (1, 0) (1, 0) (1, 0) 0, Macros ''PWM_T1_CMD_STOP'' (1, 1) (1, 1) (1, 1) 1,
     Macros ''PWM_T1_CMD_UPDATE'' (1, 2) (1, 2) (1, 2) 2, Macros ''PWM_T1_CMD_RESET'' (1, 3) (1, 3) (1, 3) 3,
     Macros ''PWM_T1_CMD_ARM'' (1, 4) (1, 4) (1, 4) 4, Macros ''PWM_T1_CONFIG_INSEL'' (8, 0) (8, 0) (8, 0) 0,
     Macros ''PWM_T1_CONFIG_MODE'' (3, 8) (3, 8) (3, 8) 8, Macros ''PWM_T1_CONFIG_CLKSEL'' (1, 11) (1, 11) (1, 11) 11,
     Macros ''PWM_T1_CONFIG_UPDOWNSEL'' (1, 12) (1, 12) (1, 12) 12, Macros ''PWM_T1_CONFIG_PRESC'' (8, 16) (8, 16) (8, 16) 16]"

definition pwm_v1_macros_2 :: "macro_row list" where
  "pwm_v1_macros_2 = [
     Macros ''PWM_T1_THRESHOLD_TH_LO'' (16, 0) (16, 0) (16, 0) 0, Macros ''PWM_T1_THRESHOLD_TH_HI'' (16, 16) (16, 16) (16, 16) 16,
     Macros ''PWM_T1_TH_CHANNEL0_TH'' (16, 0) (16, 0) (16, 0) 0, Macros ''PWM_T1_TH_CHANNEL0_MODE'' (3, 16) (3, 16) (3, 16) 16,
     Macros ''PWM_T1_TH_CHANNEL1_TH'' (16, 0) (16, 0) (16, 0) 0, Macros ''PWM_T1_TH_CHANNEL1_MODE'' (3, 16) (3, 16) (3, 16) 16,
     Macros ''PWM_T1_TH_CHANNEL2_TH'' (16, 0) (16, 0) (16, 0) 0, Macros ''PWM_T1_TH_CHANNEL2_MODE'' (3, 16) (3, 16) (3, 16) 16,
     Macros ''PWM_T1_TH_CHANNEL3_TH'' (16, 0) (16, 0) (16, 0) 0, Macros ''PWM_T1_TH_CHANNEL3_MODE'' (3, 16) (3, 16) (3, 16) 16,
     Macros ''PWM_T2_CMD_START'' (1, 0) (1, 0) (1, 0) 0, Macros ''PWM_T2_CMD_STOP'' (1, 1) (1, 1) (1, 1) 1,
     Macros ''PWM_T2_CMD_UPDATE'' (1, 2) (1, 2) (1, 2) 2, Macros ''PWM_T2_CMD_RESET'' (1, 3) (1, 3) (1, 3) 3,
     Macros ''PWM_T2_CMD_ARM'' (1, 4) (1, 4) (1, 4) 4, Macros ''PWM_T2_CONFIG_INSEL'' (8, 0) (8, 0) (8, 0) 0,
     Macros ''PWM_T2_CONFIG_MODE'' (3, 8) (3, 8) (3, 8) 8, Macros ''PWM_T2_CONFIG_CLKSEL'' (1, 11) (1, 11) (1, 11) 11,
     Macros ''PWM_T2_CONFIG_UPDOWNSEL'' (1, 12) (1, 12) (1, 12) 12, Macros ''PWM_T2_CONFIG_PRESC'' (8, 16) (8, 16) (8, 16) 16,
     Macros ''PWM_T2_THRESHOLD_TH_LO'' (16, 0) (16, 0) (16, 0) 0, Macros ''PWM_T2_THRESHOLD_TH_HI'' (16, 16) (16, 16) (16, 16) 16,
     Macros ''PWM_T2_TH_CHANNEL0_TH'' (16, 0) (16, 0) (16, 0) 0, Macros ''PWM_T2_TH_CHANNEL0_MODE'' (3, 16) (3, 16) (3, 16) 16,
     Macros ''PWM_T2_TH_CHANNEL1_TH'' (16, 0) (16, 0) (16, 0) 0, Macros ''PWM_T2_TH_CHANNEL1_MODE'' (3, 16) (3, 16) (3, 16) 16,
     Macros ''PWM_T2_TH_CHANNEL2_TH'' (16, 0) (16, 0) (16, 0) 0, Macros ''PWM_T2_TH_CHANNEL2_MODE'' (3, 16) (3, 16) (3, 16) 16,
     Macros ''PWM_T2_TH_CHANNEL3_TH'' (16, 0) (16, 0) (16, 0) 0, Macros ''PWM_T2_TH_CHANNEL3_MODE'' (3, 16) (3, 16) (3, 16) 16]"

definition pwm_v1_macros_3 :: "macro_row list" where
  "pwm_v1_macros_3 = [
     Macros ''PWM_T3_CMD_START'' (1, 0) (1, 0) (1, 0) 0, Macros ''PWM_T3_CMD_STOP'' (1, 1) (1, 1) (1, 1) 1,
     Macros ''PWM_T3_CMD_UPDATE'' (1, 2) (1, 2) (1, 2) 2, Macros ''PWM_T3_CMD_RESET'' (1, 3) (1, 3) (1, 3) 3,
     Macros ''PWM_T3_CMD_ARM'' (1, 4) (1, 4) (1, 4) 4, Macros ''PWM_T3_CONFIG_INSEL'' (8, 0) (8, 0) (8, 0) 0,
     Macros ''PWM_T3_CONFIG_MODE'' (3, 8) (3, 8) (3, 8) 8, Macros ''PWM_T3_CONFIG_CLKSEL'' (1, 11) (1, 11) (1, 11) 11,
     Macros ''PWM_T3_CONFIG_UPDOWNSEL'' (1, 12) (1, 12) (1, 12) 12, Macros ''PWM_T3_CONFIG_PRESC'' (8, 16) (8, 16) (8, 16) 16,
     Macros ''PWM_T3_THRESHOLD_TH_LO'' (16, 0) (16, 0) (16, 0) 0, Macros ''PWM_T3_THRESHOLD_TH_HI'' (16, 16) (16, 16) (16, 16) 16,
     Macros ''PWM_T3_TH_CHANNEL0_TH'' (16, 0) (16, 0) (16, 0) 0, Macros ''PWM_T3_TH_CHANNEL0_MODE'' (3, 16) (3, 16) (3, 16) 16,
     Macros ''PWM_T3_TH_CHANNEL1_TH'' (16, 0) (16, 0) (16, 0) 0, Macros ''PWM_T3_TH_CHANNEL1_MODE'' (3, 16) (3, 16) (3, 16) 16,
     Macros ''PWM_T3_TH_CHANNEL2_TH'' (16, 0) (16, 0) (16, 0) 0, Macros ''PWM_T3_TH_CHANNEL2_MODE'' (3, 16) (3, 16) (3, 16) 16,
     Macros ''PWM_T3_TH_CHANNEL3_TH'' (16, 0) (16, 0) (16, 0) 0, Macros ''PWM_T3_TH_CHANNEL3_MODE'' (3, 16) (3, 16) (3, 16) 16,
     Macros ''PWM_EVENT_CFG_SEL0'' (4, 0) (4, 0) (4, 0) 0, Macros ''PWM_EVENT_CFG_SEL1'' (4, 4) (4, 4) (4, 4) 4,
     Macros ''PWM_EVENT_CFG_SEL2'' (4, 8) (4, 8) (4, 8) 8, Macros ''PWM_EVENT_CFG_SEL3'' (4, 12) (4, 12) (4, 12) 12,
     Macros ''PWM_EVENT_CFG_ENA'' (4, 16) (4, 16) (4, 16) 16, Macros ''PWM_CG_ENA'' (16, 0) (16, 0) (16, 0) 0]"

definition pwm_v1_map :: register_map where
  "pwm_v1_map = \<lparr>hdr_regs = pwm_v1_regs,
     hdr_fields = pwm_v1_fields_1 @ pwm_v1_fields_2 @ pwm_v1_fields_3,
     hdr_resets = [],
     hdr_structs = pwm_v1_structs_1 @ pwm_v1_structs_2,
     hdr_access = pwm_v1_access,
     hdr_macros = pwm_v1_macros_1 @ pwm_v1_macros_2 @ pwm_v1_macros_3\<rparr>"

lemmas pwm_v1_tables = pwm_v1_map_def pwm_v1_regs_def pwm_v1_fields_1_def pwm_v1_fields_2_def pwm_v1_fields_3_def pwm_v1_structs_1_def 
  pwm_v1_structs_2_def pwm_v1_access_def pwm_v1_macros_1_def pwm_v1_macros_2_def pwm_v1_macros_3_def

interpretation pwm_v1: aligned_header pwm_v1_map
  by unfold_locales (simp_all add: check_header pwm_v1_tables)

section \<open>\<^verbatim>\<open>hwce/hwce_v4.h\<close>\<close>

definition hwce_v4_regs_1 :: "reg_row list" where
  "hwce_v4_regs_1 = [
     Reg ''HWCE_TRIGGER'' 0x0, Reg ''HWCE_ACQUIRE'' 0x4, Reg ''HWCE_FINISHED_JOBS'' 0x8, Reg ''HWCE_STATUS'' 0xC,
     Reg ''HWCE_RUNNING_JOB'' 0x10, Reg ''HWCE_SOFT_CLEAR'' 0x14, Reg ''HWCE_GEN_CONFIG0'' 0x20, Reg ''HWCE_GEN_CONFIG1'' 0x24,
     Reg ''HWCE_Y_TRANS_SIZE'' 0x40, Reg ''HWCE_Y_LINE_STRIDE_LENGTH'' 0x44, Reg ''HWCE_Y_FEAT_STRIDE_LENGTH'' 0x48,
     Reg ''HWCE_Y_OUT_3_BASE_ADDR'' 0x4C, Reg ''HWCE_Y_OUT_2_BASE_ADDR'' 0x50, Reg ''HWCE_Y_OUT_1_BASE_ADDR'' 0x54,
     Reg ''HWCE_Y_OUT_0_BASE_ADDR'' 0x58, Reg ''HWCE_Y_IN_3_BASE_ADDR'' 0x5C, Reg ''HWCE_Y_IN_2_BASE_ADDR'' 0x60,
     Reg ''HWCE_Y_IN_1_BASE_ADDR'' 0x64, Reg ''HWCE_Y_IN_0_BASE_ADDR'' 0x68, Reg ''HWCE_X_TRANS_SIZE'' 0x6C,
     Reg ''HWCE_X_LINE_STRIDE_LENGTH'' 0x70, Reg ''HWCE_X_FEAT_STRIDE_LENGTH'' 0x74, Reg ''HWCE_X_IN_BASE_ADDR'' 0x78,
     Reg ''HWCE_W_BASE_ADDR'' 0x7C, Reg ''HWCE_JOB_CONFIG0'' 0x80, Reg ''HWCE_JOB_CONFIG1'' 0x84, Reg ''HWCE_Y_TRANS_SIZE_CTX0'' 0x140,
     Reg ''HWCE_Y_LINE_STRIDE_LENGTH_CTX0'' 0x144, Reg ''HWCE_Y_FEAT_STRIDE_LENGTH_CTX0'' 0x148,
     Reg ''HWCE_Y_OUT_3_BASE_ADDR_CTX0'' 0x14C, Reg ''HWCE_Y_OUT_2_BASE_ADDR_CTX0'' 0x150, Reg ''HWCE_Y_OUT_1_BASE_ADDR_CTX0'' 0x154,
     Reg ''HWCE_Y_OUT_0_BASE_ADDR_CTX0'' 0x158, Reg ''HWCE_Y_IN_3_BASE_ADDR_CTX0'' 0x15C, Reg ''HWCE_Y_IN_2_BASE_ADDR_CTX0'' 0x160,
     Reg ''HWCE_Y_IN_1_BASE_ADDR_CTX0'' 0x164, Reg ''HWCE_Y_IN_0_BASE_ADDR_CTX0'' 0x168, Reg ''HWCE_X_TRANS_SIZE_CTX0'' 0x16C,
     Reg ''HWCE_X_LINE_STRIDE_LENGTH_CTX0'' 0x170, Reg ''HWCE_X_FEAT_STRIDE_LENGTH_CTX0'' 0x174, Reg ''HWCE_X_IN_BASE_ADDR_CTX0'' 0x178,
     Reg ''HWCE_W_BASE_ADDR_CTX0'' 0x17C, Reg ''HWCE_JOB_CONFIG0_CTX0'' 0x180, Reg ''HWCE_JOB_CONFIG1_CTX0'' 0x184,
     Reg ''HWCE_Y_TRANS_SIZE_CTX1'' 0x240, Reg ''HWCE_Y_LINE_STRIDE_LENGTH_CTX1'' 0x244, Reg ''HWCE_Y_FEAT_STRIDE_LENGTH_CTX1'' 0x248,
     Reg ''HWCE_Y_OUT_3_BASE_ADDR_CTX1'' 0x24C, Reg ''HWCE_Y_OUT_2_BASE_ADDR_CTX1'' 0x250, Reg ''HWCE_Y_OUT_1_BASE_ADDR_CTX1'' 0x254]"

definition hwce_v4_regs_2 :: "reg_row list" where
  "hwce_v4_regs_2 = [
     Reg ''HWCE_Y_OUT_0_BASE_ADDR_CTX1'' 0x258, Reg ''HWCE_Y_IN_3_BASE_ADDR_CTX1'' 0x25C, Reg ''HWCE_Y_IN_2_BASE_ADDR_CTX1'' 0x260,
     Reg ''HWCE_Y_IN_1_BASE_ADDR_CTX1'' 0x264, Reg ''HWCE_Y_IN_0_BASE_ADDR_CTX1'' 0x268, Reg ''HWCE_X_TRANS_SIZE_CTX1'' 0x26C,
     Reg ''HWCE_X_LINE_STRIDE_LENGTH_CTX1'' 0x270, Reg ''HWCE_X_FEAT_STRIDE_LENGTH_CTX1'' 0x274, Reg ''HWCE_X_IN_BASE_ADDR_CTX1'' 0x278,
     Reg ''HWCE_W_BASE_ADDR_CTX1'' 0x27C, Reg ''HWCE_JOB_CONFIG0_CTX1'' 0x280, Reg ''HWCE_JOB_CONFIG1_CTX1'' 0x284]"

definition hwce_v4_fields_1 :: "field_row list" where
  "hwce_v4_fields_1 = [
     Field ''HWCE_TRIGGER_ANY'' 0 32 0xFFFFFFFF, Field ''HWCE_ACQUIRE_ID_ERR'' 0 8 0xFF, Field ''HWCE_ACQUIRE_ERR'' 8 24 0xFFFFFF00,
     Field ''HWCE_FINISHED_JOBS_JOBS'' 0 32 0xFFFFFFFF, Field ''HWCE_STATUS_ST'' 0 1 0x1, Field ''HWCE_RUNNING_JOB_ID'' 0 8 0xFF,
     Field ''HWCE_SOFT_CLEAR_ANY'' 0 32 0xFFFFFFFF, Field ''HWCE_GEN_CONFIG0_QF'' 0 6 0x3F, Field ''HWCE_GEN_CONFIG0_NF'' 6 1 0x40,
     Field ''HWCE_GEN_CONFIG0_NY'' 7 1 0x80, Field ''HWCE_GEN_CONFIG0_UNS'' 8 1 0x100, Field ''HWCE_GEN_CONFIG0_VECT'' 9 2 0x600,
     Field ''HWCE_GEN_CONFIG0_CONV'' 11 2 0x1800, Field ''HWCE_GEN_CONFIG0_NCP'' 13 1 0x2000,
     Field ''HWCE_GEN_CONFIG0_WSTRIDE'' 16 16 0xFFFF0000, Field ''HWCE_GEN_CONFIG1_PIXSHIFTL'' 0 5 0x1F,
     Field ''HWCE_GEN_CONFIG1_PIXMODE'' 8 2 0x300, Field ''HWCE_GEN_CONFIG1_PIXSHIFTR'' 16 5 0x1F0000,
     Field ''HWCE_Y_TRANS_SIZE_SIZE'' 0 32 0xFFFFFFFF, Field ''HWCE_Y_LINE_STRIDE_LENGTH_LENGTH'' 0 16 0xFFFF,
     Field ''HWCE_Y_LINE_STRIDE_LENGTH_STRIDE'' 16 16 0xFFFF0000, Field ''HWCE_Y_FEAT_STRIDE_LENGTH_LENGTH'' 0 16 0xFFFF,
     Field ''HWCE_Y_FEAT_STRIDE_LENGTH_STRIDE'' 16 16 0xFFFF0000, Field ''HWCE_Y_OUT_3_BASE_ADDR_ADDR'' 0 32 0xFFFFFFFF,
     Field ''HWCE_Y_OUT_2_BASE_ADDR_ADDR'' 0 32 0xFFFFFFFF, Field ''HWCE_Y_OUT_1_BASE_ADDR_ADDR'' 0 32 0xFFFFFFFF,
     Field ''HWCE_Y_OUT_0_BASE_ADDR_ADDR'' 0 32 0xFFFFFFFF, Field ''HWCE_Y_IN_3_BASE_ADDR_ADDR'' 0 32 0xFFFFFFFF,
     Field ''HWCE_Y_IN_2_BASE_ADDR_ADDR'' 0 32 0xFFFFFFFF, Field ''HWCE_Y_IN_1_BASE_ADDR_ADDR'' 0 32 0xFFFFFFFF]"

definition hwce_v4_fields_2 :: "field_row list" where
  "hwce_v4_fields_2 = [
     Field ''HWCE_Y_IN_0_BASE_ADDR_ADDR'' 0 32 0xFFFFFFFF, Field ''HWCE_X_TRANS_SIZE_SIZE'' 0 32 0xFFFFFFFF,
     Field ''HWCE_X_LINE_STRIDE_LENGTH_LENGTH'' 0 16 0xFFFF, Field ''HWCE_X_LINE_STRIDE_LENGTH_STRIDE'' 16 16 0xFFFF0000,
     Field ''HWCE_X_FEAT_STRIDE_LENGTH_LENGTH'' 0 16 0xFFFF, Field ''HWCE_X_FEAT_STRIDE_LENGTH_STRIDE'' 16 16 0xFFFF0000,
     Field ''HWCE_X_IN_BASE_ADDR_ADDR'' 0 32 0xFFFFFFFF, Field ''HWCE_W_BASE_ADDR_ADDR'' 0 32 0xFFFFFFFF,
     Field ''HWCE_JOB_CONFIG0_LBUFLEN'' 0 10 0x3FF, Field ''HWCE_JOB_CONFIG0_NOYCONST'' 16 16 0xFFFF0000,
     Field ''HWCE_JOB_CONFIG1_VECT_DISABLE_MASK'' 0 4 0xF, Field ''HWCE_JOB_CONFIG1_WOF_PARAM'' 8 6 0x3F00,
     Field ''HWCE_JOB_CONFIG1_WIF_PARAM'' 16 6 0x3F0000, Field ''HWCE_JOB_CONFIG1_LO'' 24 1 0x1000000,
     Field ''HWCE_JOB_CONFIG1_LN'' 25 1 0x2000000]"

definition hwce_v4_structs_1 :: "struct_row list" where
  "hwce_v4_structs_1 = [
     Struct ''hwce_trigger'' [Bits ''any'' 32], Struct ''hwce_acquire'' [Bits ''id_err'' 8, Bits ''err'' 24],
     Struct ''hwce_finished_jobs'' [Bits ''jobs'' 32], Struct ''hwce_status'' [Bits ''st'' 1],
     Struct ''hwce_running_job'' [Bits ''id'' 8], Struct ''hwce_soft_clear'' [Bits ''any'' 32],
     Struct ''hwce_gen_config0'' [Bits ''qf'' 6, Bits ''nf'' 1, Bits ''ny'' 1, Bits ''uns'' 1, Bits ''vect'' 2, Bits ''conv'' 2,
       Bits ''ncp'' 1, Padding 2, Bits ''wstride'' 16],
     Struct ''hwce_gen_config1'' [Bits ''pixshiftl'' 5, Padding 3, Bits ''pixmode'' 2, Padding 6, Bits ''pixshiftr'' 5],
     Struct ''hwce_y_trans_size'' [Bits ''size'' 32], Struct ''hwce_y_line_stride_length'' [Bits ''length'' 16, Bits ''stride'' 16],
     Struct ''hwce_y_feat_stride_length'' [Bits ''length'' 16, Bits ''stride'' 16], Struct ''hwce_y_out_3_base_addr'' [Bits ''addr'' 32],
     Struct ''hwce_y_out_2_base_addr'' [Bits ''addr'' 32], Struct ''hwce_y_out_1_base_addr'' [Bits ''addr'' 32],
     Struct ''hwce_y_out_0_base_addr'' [Bits ''addr'' 32], Struct ''hwce_y_in_3_base_addr'' [Bits ''addr'' 32],
     Struct ''hwce_y_in_2_base_addr'' [Bits ''addr'' 32], Struct ''hwce_y_in_1_base_addr'' [Bits ''addr'' 32],
     Struct ''hwce_y_in_0_base_addr'' [Bits ''addr'' 32]]"

definition hwce_v4_structs_2 :: "struct_row list" where
  "hwce_v4_structs_2 = [
     Struct ''hwce_x_trans_size'' [Bits ''size'' 32], Struct ''hwce_x_line_stride_length'' [Bits ''length'' 16, Bits ''stride'' 16],
     Struct ''hwce_x_feat_stride_length'' [Bits ''length'' 16, Bits ''stride'' 16], Struct ''hwce_x_in_base_addr'' [Bits ''addr'' 32],
     Struct ''hwce_w_base_addr'' [Bits ''addr'' 32], Struct ''hwce_job_config0'' [Bits ''lbuflen'' 10, Padding 6, Bits ''noyconst'' 16],
     Struct ''hwce_job_config1'' [Bits ''vect_disable_mask'' 4, Padding 4, Bits ''wof_param'' 6, Padding 2, Bits ''wif_param'' 6,
       Padding 2, Bits ''lo'' 1, Bits ''ln'' 1],
     Struct ''hwce_y_trans_size_ctx0'' [], Struct ''hwce_y_line_stride_length_ctx0'' [], Struct ''hwce_y_feat_stride_length_ctx0'' [],
     Struct ''hwce_y_out_3_base_addr_ctx0'' [], Struct ''hwce_y_out_2_base_addr_ctx0'' [], Struct ''hwce_y_out_1_base_addr_ctx0'' [],
     Struct ''hwce_y_out_0_base_addr_ctx0'' [], Struct ''hwce_y_in_3_base_addr_ctx0'' [], Struct ''hwce_y_in_2_base_addr_ctx0'' [],
     Struct ''hwce_y_in_1_base_addr_ctx0'' [], Struct ''hwce_y_in_0_base_addr_ctx0'' [], Struct ''hwce_x_trans_size_ctx0'' [],
     Struct ''hwce_x_line_stride_length_ctx0'' [], Struct ''hwce_x_feat_stride_length_ctx0'' [], Struct ''hwce_x_in_base_addr_ctx0'' []]"

definition hwce_v4_structs_3 :: "struct_row list" where
  "hwce_v4_structs_3 = [
     Struct ''hwce_w_base_addr_ctx0'' [], Struct ''hwce_job_config0_ctx0'' [], Struct ''hwce_job_config1_ctx0'' [],
     Struct ''hwce_y_trans_size_ctx1'' [], Struct ''hwce_y_line_stride_length_ctx1'' [], Struct ''hwce_y_feat_stride_length_ctx1'' [],
     Struct ''hwce_y_out_3_base_addr_ctx1'' [], Struct ''hwce_y_out_2_base_addr_ctx1'' [], Struct ''hwce_y_out_1_base_addr_ctx1'' [],
     Struct ''hwce_y_out_0_base_addr_ctx1'' [], Struct ''hwce_y_in_3_base_addr_ctx1'' [], Struct ''hwce_y_in_2_base_addr_ctx1'' [],
     Struct ''hwce_y_in_1_base_addr_ctx1'' [], Struct ''hwce_y_in_0_base_addr_ctx1'' [], Struct ''hwce_x_trans_size_ctx1'' [],
     Struct ''hwce_x_line_stride_length_ctx1'' [], Struct ''hwce_x_feat_stride_length_ctx1'' [], Struct ''hwce_x_in_base_addr_ctx1'' [],
     Struct ''hwce_w_base_addr_ctx1'' [], Struct ''hwce_job_config0_ctx1'' [], Struct ''hwce_job_config1_ctx1'' []]"

definition hwce_v4_access_1 :: "access_row list" where
  "hwce_v4_access_1 = [
     Getter ''hwce_trigger'' ''HWCE_TRIGGER'', Setter ''hwce_trigger'' ''HWCE_TRIGGER'', Getter ''hwce_acquire'' ''HWCE_ACQUIRE'',
     Setter ''hwce_acquire'' ''HWCE_ACQUIRE'', Getter ''hwce_finished_jobs'' ''HWCE_FINISHED_JOBS'',
     Setter ''hwce_finished_jobs'' ''HWCE_FINISHED_JOBS'', Getter ''hwce_status'' ''HWCE_STATUS'', Setter ''hwce_status'' ''HWCE_STATUS'',
     Getter ''hwce_running_job'' ''HWCE_RUNNING_JOB'', Setter ''hwce_running_job'' ''HWCE_RUNNING_JOB'',
     Getter ''hwce_soft_clear'' ''HWCE_SOFT_CLEAR'', Setter ''hwce_soft_clear'' ''HWCE_SOFT_CLEAR'',
     Getter ''hwce_gen_config0'' ''HWCE_GEN_CONFIG0'', Setter ''hwce_gen_config0'' ''HWCE_GEN_CONFIG0'',
     Getter ''hwce_gen_config1'' ''HWCE_GEN_CONFIG1'', Setter ''hwce_gen_config1'' ''HWCE_GEN_CONFIG1'',
     Getter ''hwce_y_trans_size'' ''HWCE_Y_TRANS_SIZE'', Setter ''hwce_y_trans_size'' ''HWCE_Y_TRANS_SIZE'',
     Getter ''hwce_y_line_stride_length'' ''HWCE_Y_LINE_STRIDE_LENGTH'',
     Setter ''hwce_y_line_stride_length'' ''HWCE_Y_LINE_STRIDE_LENGTH'',
     Getter ''hwce_y_feat_stride_length'' ''HWCE_Y_FEAT_STRIDE_LENGTH'',
     Setter ''hwce_y_feat_stride_length'' ''HWCE_Y_FEAT_STRIDE_LENGTH'', Getter ''hwce_y_out_3_base_addr'' ''HWCE_Y_OUT_3_BASE_ADDR'',
     Setter ''hwce_y_out_3_base_addr'' ''HWCE_Y_OUT_3_BASE_ADDR'', Getter ''hwce_y_out_2_base_addr'' ''HWCE_Y_OUT_2_BASE_ADDR'',
     Setter ''hwce_y_out_2_base_addr'' ''HWCE_Y_OUT_2_BASE_ADDR'', Getter ''hwce_y_out_1_base_addr'' ''HWCE_Y_OUT_1_BASE_ADDR'',
     Setter ''hwce_y_out_1_base_addr'' ''HWCE_Y_OUT_1_BASE_ADDR'', Getter ''hwce_y_out_0_base_addr'' ''HWCE_Y_OUT_0_BASE_ADDR'',
     Setter ''hwce_y_out_0_base_addr'' ''HWCE_Y_OUT_0_BASE_ADDR'', Getter ''hwce_y_in_3_base_addr'' ''HWCE_Y_IN_3_BASE_ADDR'',
     Setter ''hwce_y_in_3_base_addr'' ''HWCE_Y_IN_3_BASE_ADDR'', Getter ''hwce_y_in_2_base_addr'' ''HWCE_Y_IN_2_BASE_ADDR'',
     Setter ''hwce_y_in_2_base_addr'' ''HWCE_Y_IN_2_BASE_ADDR'', Getter ''hwce_y_in_1_base_addr'' ''HWCE_Y_IN_1_BASE_ADDR'',
     Setter ''hwce_y_in_1_base_addr'' ''HWCE_Y_IN_1_BASE_ADDR'', Getter ''hwce_y_in_0_base_addr'' ''HWCE_Y_IN_0_BASE_ADDR'',
     Setter ''hwce_y_in_0_base_addr'' ''HWCE_Y_IN_0_BASE_ADDR'', Getter ''hwce_x_trans_size'' ''HWCE_X_TRANS_SIZE'',
     Setter ''hwce_x_trans_size'' ''HWCE_X_TRANS_SIZE'', Getter ''hwce_x_line_stride_length'' ''HWCE_X_LINE_STRIDE_LENGTH'',
     Setter ''hwce_x_line_stride_length'' ''HWCE_X_LINE_STRIDE_LENGTH'',
     Getter ''hwce_x_feat_stride_length'' ''HWCE_X_FEAT_STRIDE_LENGTH'',
     Setter ''hwce_x_feat_stride_length'' ''HWCE_X_FEAT_STRIDE_LENGTH'', Getter ''hwce_x_in_base_addr'' ''HWCE_X_IN_BASE_ADDR'',
     Setter ''hwce_x_in_base_addr'' ''HWCE_X_IN_BASE_ADDR'', Getter ''hwce_w_base_addr'' ''HWCE_W_BASE_ADDR'',
     Setter ''hwce_w_base_addr'' ''HWCE_W_BASE_ADDR'', Getter ''hwce_job_config0'' ''HWCE_JOB_CONFIG0'',
     Setter ''hwce_job_config0'' ''HWCE_JOB_CONFIG0'', Getter ''hwce_job_config1'' ''HWCE_JOB_CONFIG1'',
     Setter ''hwce_job_config1'' ''HWCE_JOB_CONFIG1'', Getter ''hwce_y_trans_size_ctx0'' ''HWCE_Y_TRANS_SIZE_CTX0'',
     Setter ''hwce_y_trans_size_ctx0'' ''HWCE_Y_TRANS_SIZE_CTX0'',
     Getter ''hwce_y_line_stride_length_ctx0'' ''HWCE_Y_LINE_STRIDE_LENGTH_CTX0'',
     Setter ''hwce_y_line_stride_length_ctx0'' ''HWCE_Y_LINE_STRIDE_LENGTH_CTX0'',
     Getter ''hwce_y_feat_stride_length_ctx0'' ''HWCE_Y_FEAT_STRIDE_LENGTH_CTX0'',
     Setter ''hwce_y_feat_stride_length_ctx0'' ''HWCE_Y_FEAT_STRIDE_LENGTH_CTX0'',
     Getter ''hwce_y_out_3_base_addr_ctx0'' ''HWCE_Y_OUT_3_BASE_ADDR_CTX0'',
     Setter ''hwce_y_out_3_base_addr_ctx0'' ''HWCE_Y_OUT_3_BASE_ADDR_CTX0'',
     Getter ''hwce_y_out_2_base_addr_ctx0'' ''HWCE_Y_OUT_2_BASE_ADDR_CTX0'',
     Setter ''hwce_y_out_2_base_addr_ctx0'' ''HWCE_Y_OUT_2_BASE_ADDR_CTX0'',
     Getter ''hwce_y_out_1_base_addr_ctx0'' ''HWCE_Y_OUT_1_BASE_ADDR_CTX0'',
     Setter ''hwce_y_out_1_base_addr_ctx0'' ''HWCE_Y_OUT_1_BASE_ADDR_CTX0'',
     Getter ''hwce_y_out_0_base_addr_ctx0'' ''HWCE_Y_OUT_0_BASE_ADDR_CTX0'',
     Setter ''hwce_y_out_0_base_addr_ctx0'' ''HWCE_Y_OUT_0_BASE_ADDR_CTX0'',
     Getter ''hwce_y_in_3_base_addr_ctx0'' ''HWCE_Y_IN_3_BASE_ADDR_CTX0'',
     Setter ''hwce_y_in_3_base_addr_ctx0'' ''HWCE_Y_IN_3_BASE_ADDR_CTX0'',
     Getter ''hwce_y_in_2_base_addr_ctx0'' ''HWCE_Y_IN_2_BASE_ADDR_CTX0'',
     Setter ''hwce_y_in_2_base_addr_ctx0'' ''HWCE_Y_IN_2_BASE_ADDR_CTX0'',
     Getter ''hwce_y_in_1_base_addr_ctx0'' ''HWCE_Y_IN_1_BASE_ADDR_CTX0'',
     Setter ''hwce_y_in_1_base_addr_ctx0'' ''HWCE_Y_IN_1_BASE_ADDR_CTX0'',
     Getter ''hwce_y_in_0_base_addr_ctx0'' ''HWCE_Y_IN_0_BASE_ADDR_CTX0'',
     Setter ''hwce_y_in_0_base_addr_ctx0'' ''HWCE_Y_IN_0_BASE_ADDR_CTX0'', Getter ''hwce_x_trans_size_ctx0'' ''HWCE_X_TRANS_SIZE_CTX0'',
     Setter ''hwce_x_trans_size_ctx0'' ''HWCE_X_TRANS_SIZE_CTX0'',
     Getter ''hwce_x_line_stride_length_ctx0'' ''HWCE_X_LINE_STRIDE_LENGTH_CTX0'',
     Setter ''hwce_x_line_stride_length_ctx0'' ''HWCE_X_LINE_STRIDE_LENGTH_CTX0'',
     Getter ''hwce_x_feat_stride_length_ctx0'' ''HWCE_X_FEAT_STRIDE_LENGTH_CTX0'',
     Setter ''hwce_x_feat_stride_length_ctx0'' ''HWCE_X_FEAT_STRIDE_LENGTH_CTX0'',
     Getter ''hwce_x_in_base_addr_ctx0'' ''HWCE_X_IN_BASE_ADDR_CTX0'', Setter ''hwce_x_in_base_addr_ctx0'' ''HWCE_X_IN_BASE_ADDR_CTX0'',
     Getter ''hwce_w_base_addr_ctx0'' ''HWCE_W_BASE_ADDR_CTX0'', Setter ''hwce_w_base_addr_ctx0'' ''HWCE_W_BASE_ADDR_CTX0'',
     Getter ''hwce_job_config0_ctx0'' ''HWCE_JOB_CONFIG0_CTX0'', Setter ''hwce_job_config0_ctx0'' ''HWCE_JOB_CONFIG0_CTX0'',
     Getter ''hwce_job_config1_ctx0'' ''HWCE_JOB_CONFIG1_CTX0'', Setter ''hwce_job_config1_ctx0'' ''HWCE_JOB_CONFIG1_CTX0'',
     Getter ''hwce_y_trans_size_ctx1'' ''HWCE_Y_TRANS_SIZE_CTX1'', Setter ''hwce_y_trans_size_ctx1'' ''HWCE_Y_TRANS_SIZE_CTX1'',
     Getter ''hwce_y_line_stride_length_ctx1'' ''HWCE_Y_LINE_STRIDE_LENGTH_CTX1'',
     Setter ''hwce_y_line_stride_length_ctx1'' ''HWCE_Y_LINE_STRIDE_LENGTH_CTX1'',
     Getter ''hwce_y_feat_stride_length_ctx1'' ''HWCE_Y_FEAT_STRIDE_LENGTH_CTX1'',
     Setter ''hwce_y_feat_stride_length_ctx1'' ''HWCE_Y_FEAT_STRIDE_LENGTH_CTX1'',
     Getter ''hwce_y_out_3_base_addr_ctx1'' ''HWCE_Y_OUT_3_BASE_ADDR_CTX1'',
     Setter ''hwce_y_out_3_base_addr_ctx1'' ''HWCE_Y_OUT_3_BASE_ADDR_CTX1'',
     Getter ''hwce_y_out_2_base_addr_ctx1'' ''HWCE_Y_OUT_2_BASE_ADDR_CTX1'',
     Setter ''hwce_y_out_2_base_addr_ctx1'' ''HWCE_Y_OUT_2_BASE_ADDR_CTX1'',
     Getter ''hwce_y_out_1_base_addr_ctx1'' ''HWCE_Y_OUT_1_BASE_ADDR_CTX1'',
     Setter ''hwce_y_out_1_base_addr_ctx1'' ''HWCE_Y_OUT_1_BASE_ADDR_CTX1'']"

definition hwce_v4_access_2 :: "access_row list" where
  "hwce_v4_access_2 = [
     Getter ''hwce_y_out_0_base_addr_ctx1'' ''HWCE_Y_OUT_0_BASE_ADDR_CTX1'',
     Setter ''hwce_y_out_0_base_addr_ctx1'' ''HWCE_Y_OUT_0_BASE_ADDR_CTX1'',
     Getter ''hwce_y_in_3_base_addr_ctx1'' ''HWCE_Y_IN_3_BASE_ADDR_CTX1'',
     Setter ''hwce_y_in_3_base_addr_ctx1'' ''HWCE_Y_IN_3_BASE_ADDR_CTX1'',
     Getter ''hwce_y_in_2_base_addr_ctx1'' ''HWCE_Y_IN_2_BASE_ADDR_CTX1'',
     Setter ''hwce_y_in_2_base_addr_ctx1'' ''HWCE_Y_IN_2_BASE_ADDR_CTX1'',
     Getter ''hwce_y_in_1_base_addr_ctx1'' ''HWCE_Y_IN_1_BASE_ADDR_CTX1'',
     Setter ''hwce_y_in_1_base_addr_ctx1'' ''HWCE_Y_IN_1_BASE_ADDR_CTX1'',
     Getter ''hwce_y_in_0_base_addr_ctx1'' ''HWCE_Y_IN_0_BASE_ADDR_CTX1'',
     Setter ''hwce_y_in_0_base_addr_ctx1'' ''HWCE_Y_IN_0_BASE_ADDR_CTX1'', Getter ''hwce_x_trans_size_ctx1'' ''HWCE_X_TRANS_SIZE_CTX1'',
     Setter ''hwce_x_trans_size_ctx1'' ''HWCE_X_TRANS_SIZE_CTX1'',
     Getter ''hwce_x_line_stride_length_ctx1'' ''HWCE_X_LINE_STRIDE_LENGTH_CTX1'',
     Setter ''hwce_x_line_stride_length_ctx1'' ''HWCE_X_LINE_STRIDE_LENGTH_CTX1'',
     Getter ''hwce_x_feat_stride_length_ctx1'' ''HWCE_X_FEAT_STRIDE_LENGTH_CTX1'',
     Setter ''hwce_x_feat_stride_length_ctx1'' ''HWCE_X_FEAT_STRIDE_LENGTH_CTX1'',
     Getter ''hwce_x_in_base_addr_ctx1'' ''HWCE_X_IN_BASE_ADDR_CTX1'', Setter ''hwce_x_in_base_addr_ctx1'' ''HWCE_X_IN_BASE_ADDR_CTX1'',
     Getter ''hwce_w_base_addr_ctx1'' ''HWCE_W_BASE_ADDR_CTX1'', Setter ''hwce_w_base_addr_ctx1'' ''HWCE_W_BASE_ADDR_CTX1'',
     Getter ''hwce_job_config0_ctx1'' ''HWCE_JOB_CONFIG0_CTX1'', Setter ''hwce_job_config0_ctx1'' ''HWCE_JOB_CONFIG0_CTX1'',
     Getter ''hwce_job_config1_ctx1'' ''HWCE_JOB_CONFIG1_CTX1'', Setter ''hwce_job_config1_ctx1'' ''HWCE_JOB_CONFIG1_CTX1'']"

definition hwce_v4_macros_1 :: "macro_row list" where
  "hwce_v4_macros_1 = [
     Macros ''HWCE_TRIGGER_ANY'' (32, 0) (32, 0) (32, 0) 0, Macros ''HWCE_ACQUIRE_ID_ERR'' (8, 0) (8, 0) (8, 0) 0,
     Macros ''HWCE_ACQUIRE_ERR'' (24, 8) (24, 8) (24, 8) 8, Macros ''HWCE_FINISHED_JOBS_JOBS'' (32, 0) (32, 0) (32, 0) 0,
     Macros ''HWCE_STATUS_ST'' (1, 0) (1, 0) (1, 0) 0, Macros ''HWCE_RUNNING_JOB_ID'' (8, 0) (8, 0) (8, 0) 0,
     Macros ''HWCE_SOFT_CLEAR_ANY'' (32, 0) (32, 0) (32, 0) 0, Macros ''HWCE_GEN_CONFIG0_QF'' (6, 0) (6, 0) (6, 0) 0,
     Macros ''HWCE_GEN_CONFIG0_NF'' (1, 6) (1, 6) (1, 6) 6, Macros ''HWCE_GEN_CONFIG0_NY'' (1, 7) (1, 7) (1, 7) 7,
     Macros ''HWCE_GEN_CONFIG0_UNS'' (1, 8) (1, 8) (1, 8) 8, Macros ''HWCE_GEN_CONFIG0_VECT'' (2, 9) (2, 9) (2, 9) 9,
     Macros ''HWCE_GEN_CONFIG0_CONV'' (2, 11) (2, 11) (2, 11) 11, Macros ''HWCE_GEN_CONFIG0_NCP'' (1, 13) (1, 13) (1, 13) 13,
     Macros ''HWCE_GEN_CONFIG0_WSTRIDE'' (16, 16) (16, 16) (16, 16) 16, Macros ''HWCE_GEN_CONFIG1_PIXSHIFTL'' (5, 0) (5, 0) (5, 0) 0,
     Macros ''HWCE_GEN_CONFIG1_PIXMODE'' (2, 8) (2, 8) (2, 8) 8, Macros ''HWCE_GEN_CONFIG1_PIXSHIFTR'' (5, 16) (5, 16) (5, 16) 16,
     Macros ''HWCE_Y_TRANS_SIZE_SIZE'' (32, 0) (32, 0) (32, 0) 0, Macros ''HWCE_Y_LINE_STRIDE_LENGTH_LENGTH'' (16, 0) (16, 0) (16, 0) 0,
     Macros ''HWCE_Y_LINE_STRIDE_LENGTH_STRIDE'' (16, 16) (16, 16) (16, 16) 16,
     Macros ''HWCE_Y_FEAT_STRIDE_LENGTH_LENGTH'' (16, 0) (16, 0) (16, 0) 0,
     Macros ''HWCE_Y_FEAT_STRIDE_LENGTH_STRIDE'' (16, 16) (16, 16) (16, 16) 16,
     Macros ''HWCE_Y_OUT_3_BASE_ADDR_ADDR'' (32, 0) (32, 0) (32, 0) 0, Macros ''HWCE_Y_OUT_2_BASE_ADDR_ADDR'' (32, 0) (32, 0) (32, 0) 0,
     Macros ''HWCE_Y_OUT_1_BASE_ADDR_ADDR'' (32, 0) (32, 0) (32, 0) 0, Macros ''HWCE_Y_OUT_0_BASE_ADDR_ADDR'' (32, 0) (32, 0) (32, 0) 0,
     Macros ''HWCE_Y_IN_3_BASE_ADDR_ADDR'' (32, 0) (32, 0) (32, 0) 0, Macros ''HWCE_Y_IN_2_BASE_ADDR_ADDR'' (32, 0) (32, 0) (32, 0) 0,
     Macros ''HWCE_Y_IN_1_BASE_ADDR_ADDR'' (32, 0) (32, 0) (32, 0) 0]"

definition hwce_v4_macros_2 :: "macro_row list" where
  "hwce_v4_macros_2 = [
     Macros ''HWCE_Y_IN_0_BASE_ADDR_ADDR'' (32, 0) (32, 0) (32, 0) 0, Macros ''HWCE_X_TRANS_SIZE_SIZE'' (32, 0) (32, 0) (32, 0) 0,
     Macros ''HWCE_X_LINE_STRIDE_LENGTH_LENGTH'' (16, 0) (16, 0) (16, 0) 0,
     Macros ''HWCE_X_LINE_STRIDE_LENGTH_STRIDE'' (16, 16) (16, 16) (16, 16) 16,
     Macros ''HWCE_X_FEAT_STRIDE_LENGTH_LENGTH'' (16, 0) (16, 0) (16, 0) 0,
     Macros ''HWCE_X_FEAT_STRIDE_LENGTH_STRIDE'' (16, 16) (16, 16) (16, 16) 16,
     Macros ''HWCE_X_IN_BASE_ADDR_ADDR'' (32, 0) (32, 0) (32, 0) 0, Macros ''HWCE_W_BASE_ADDR_ADDR'' (32, 0) (32, 0) (32, 0) 0,
     Macros ''HWCE_JOB_CONFIG0_LBUFLEN'' (10, 0) (10, 0) (10, 0) 0, Macros ''HWCE_JOB_CONFIG0_NOYCONST'' (16, 16) (16, 16) (16, 16) 16,
     Macros ''HWCE_JOB_CONFIG1_VECT_DISABLE_MASK'' (4, 0) (4, 0) (4, 0) 0, Macros ''HWCE_JOB_CONFIG1_WOF_PARAM'' (6, 8) (6, 8) (6, 8) 8,
     Macros ''HWCE_JOB_CONFIG1_WIF_PARAM'' (6, 16) (6, 16) (6, 16) 16, Macros ''HWCE_JOB_CONFIG1_LO'' (1, 24) (1, 24) (1, 24) 24,
     Macros ''HWCE_JOB_CONFIG1_LN'' (1, 25) (1, 25) (1, 25) 25]"

definition hwce_v4_map :: register_map where
  "hwce_v4_map = \<lparr>hdr_regs = hwce_v4_regs_1 @ hwce_v4_regs_2,
     hdr_fields = hwce_v4_fields_1 @ hwce_v4_fields_2,
     hdr_resets = [],
     hdr_structs = hwce_v4_structs_1 @ hwce_v4_structs_2 @ hwce_v4_structs_3,
     hdr_access = hwce_v4_access_1 @ hwce_v4_access_2,
     hdr_macros = hwce_v4_macros_1 @ hwce_v4_macros_2\<rparr>"

lemmas hwce_v4_tables = hwce_v4_map_def hwce_v4_regs_1_def hwce_v4_regs_2_def hwce_v4_fields_1_def hwce_v4_fields_2_def hwce_v4_structs_1_def 
  hwce_v4_structs_2_def hwce_v4_structs_3_def hwce_v4_access_1_def hwce_v4_access_2_def hwce_v4_macros_1_def hwce_v4_macros_2_def

interpretation hwce_v4: aligned_header hwce_v4_map
  by unfold_locales (simp_all add: check_header hwce_v4_tables)

end
