(* ===== verification/Maps_Udma.thy ===== *)
theory Maps_Udma
  imports Register_Maps
begin

text \<open>
  Register maps of peripherals behind the I/O DMA engine.
\<close>

section \<open>\<^verbatim>\<open>udma/cpi/udma_cpi_v1.h\<close>\<close>

definition cpi_v1_regs :: "reg_row list" where
  "cpi_v1_regs = [
     Reg ''UDMA_CPI_CAM_RX_SADDR'' 0x0, Reg ''UDMA_CPI_CAM_RX_SIZE'' 0x4, Reg ''UDMA_CPI_CAM_RX_CFG'' 0x8,
     Reg ''UDMA_CPI_CAM_RX_INITCFG'' 0xC, Reg ''UDMA_CPI_CAM_TX_SADDR'' 0x10, Reg ''UDMA_CPI_CAM_TX_SIZE'' 0x14,
     Reg ''UDMA_CPI_CAM_TX_CFG'' 0x18, Reg ''UDMA_CPI_CAM_TX_INITCFG'' 0x1C, Reg ''UDMA_CPI_CAM_CFG_GLOB'' 0x20,
     Reg ''UDMA_CPI_CAM_CFG_LL'' 0x24, Reg ''UDMA_CPI_CAM_CFG_UR'' 0x28, Reg ''UDMA_CPI_CAM_CFG_SIZE'' 0x2C,
     Reg ''UDMA_CPI_CAM_CFG_FILTER'' 0x30, Reg ''UDMA_CPI_CAM_VSYNC_POLARITY'' 0x34]"

definition cpi_v1_fields :: "field_row list" where
  "cpi_v1_fields = [
     Field ''UDMA_CPI_CAM_RX_SADDR_RX_SADDR'' 0 16 0xFFFF, Field ''UDMA_CPI_CAM_RX_SIZE_RX_SIZE'' 0 17 0x1FFFF,
     Field ''UDMA_CPI_CAM_RX_CFG_CONTINOUS'' 0 1 0x1, Field ''UDMA_CPI_CAM_RX_CFG_DATASIZE'' 1 2 0x6,
     Field ''UDMA_CPI_CAM_RX_CFG_EN'' 4 1 0x10, Field ''UDMA_CPI_CAM_RX_CFG_PENDING'' 5 1 0x20,
     Field ''UDMA_CPI_CAM_RX_CFG_CLR'' 6 1 0x40, Field ''UDMA_CPI_CAM_CFG_GLOB_FRAMEDROP_EN'' 0 1 0x1,
     Field ''UDMA_CPI_CAM_CFG_GLOB_FRAMEDROP_VAL'' 1 6 0x7E, Field ''UDMA_CPI_CAM_CFG_GLOB_FRAMESLICE_EN'' 7 1 0x80,
     Field ''UDMA_CPI_CAM_CFG_GLOB_FORMAT'' 8 3 0x700, Field ''UDMA_CPI_CAM_CFG_GLOB_SHIFT'' 11 4 0x7800,
     Field ''UDMA_CPI_CAM_CFG_GLOB_EN'' 31 1 0x80000000, Field ''UDMA_CPI_CAM_CFG_LL_FRAMESLICE_LLX'' 0 16 0xFFFF,
     Field ''UDMA_CPI_CAM_CFG_LL_FRAMESLICE_LLY'' 16 16 0xFFFF0000, Field ''UDMA_CPI_CAM_CFG_UR_FRAMESLICE_URX'' 0 16 0xFFFF,
     Field ''UDMA_CPI_CAM_CFG_UR_FRAMESLICE_URY'' 16 16 0xFFFF0000, Field ''UDMA_CPI_CAM_CFG_SIZE_ROWLEN'' 16 16 0xFFFF0000,
     Field ''UDMA_CPI_CAM_CFG_FILTER_B_COEFF'' 0 8 0xFF, Field ''UDMA_CPI_CAM_CFG_FILTER_G_COEFF'' 8 8 0xFF00,
     Field ''UDMA_CPI_CAM_CFG_FILTER_R_COEFF'' 16 8 0xFF0000, Field ''UDMA_CPI_CAM_VSYNC_POLARITY_VSYNC_POLARITY'' 0 1 0x1]"

definition cpi_v1_structs :: "struct_row list" where
  "cpi_v1_structs = [
     Struct ''udma_cpi_cam_rx_saddr'' [Bits ''rx_saddr'' 16], Struct ''udma_cpi_cam_rx_size'' [Bits ''rx_size'' 17],
     Struct ''udma_cpi_cam_rx_cfg'' [Bits ''continous'' 1, Bits ''datasize'' 2, Padding 1, Bits ''en'' 1, Bits ''pending'' 1,
       Bits ''clr'' 1],
     Struct ''udma_cpi_cam_rx_initcfg'' [], Struct ''udma_cpi_cam_tx_saddr'' [], Struct ''udma_cpi_cam_tx_size'' [],
     Struct ''udma_cpi_cam_tx_cfg'' [], Struct ''udma_cpi_cam_tx_initcfg'' [],
     Struct ''udma_cpi_cam_cfg_glob'' [Bits ''framedrop_en'' 1, Bits ''framedrop_val'' 6, Bits ''frameslice_en'' 1, Bits ''format'' 3,
       Bits ''shift'' 4, Padding 16, Bits ''en'' 1],
     Struct ''udma_cpi_cam_cfg_ll'' [Bits ''frameslice_llx'' 16, Bits ''frameslice_lly'' 16],
     Struct ''udma_cpi_cam_cfg_ur'' [Bits ''frameslice_urx'' 16, Bits ''frameslice_ury'' 16],
     Struct ''udma_cpi_cam_cfg_size'' [Padding 16, Bits ''rowlen'' 16],
     Struct ''udma_cpi_cam_cfg_filter'' [Bits ''b_coeff'' 8, Bits ''g_coeff'' 8, Bits ''r_coeff'' 8],
     Struct ''udma_cpi_cam_vsync_polarity'' [Bits ''vsync_polarity'' 1]]"

definition cpi_v1_access :: "access_row list" where
  "cpi_v1_access = [
     Getter ''udma_cpi_cam_rx_saddr'' ''UDMA_CPI_CAM_RX_SADDR'', Setter ''udma_cpi_cam_rx_saddr'' ''UDMA_CPI_CAM_RX_SADDR'',
     Getter ''udma_cpi_cam_rx_size'' ''UDMA_CPI_CAM_RX_SIZE'', Setter ''udma_cpi_cam_rx_size'' ''UDMA_CPI_CAM_RX_SIZE'',
     Getter ''udma_cpi_cam_rx_cfg'' ''UDMA_CPI_CAM_RX_CFG'', Setter ''udma_cpi_cam_rx_cfg'' ''UDMA_CPI_CAM_RX_CFG'',
     Getter ''udma_cpi_cam_rx_initcfg'' ''UDMA_CPI_CAM_RX_INITCFG'', Setter ''udma_cpi_cam_rx_initcfg'' ''UDMA_CPI_CAM_RX_INITCFG'',
     Getter ''udma_cpi_cam_tx_saddr'' ''UDMA_CPI_CAM_TX_SADDR'', Setter ''udma_cpi_cam_tx_saddr'' ''UDMA_CPI_CAM_TX_SADDR'',
     Getter ''udma_cpi_cam_tx_size'' ''UDMA_CPI_CAM_TX_SIZE'', Setter ''udma_cpi_cam_tx_size'' ''UDMA_CPI_CAM_TX_SIZE'',
     Getter ''udma_cpi_cam_tx_cfg'' ''UDMA_CPI_CAM_TX_CFG'', Setter ''udma_cpi_cam_tx_cfg'' ''UDMA_CPI_CAM_TX_CFG'',
     Getter ''udma_cpi_cam_tx_initcfg'' ''UDMA_CPI_CAM_TX_INITCFG'', Setter ''udma_cpi_cam_tx_initcfg'' ''UDMA_CPI_CAM_TX_INITCFG'',
     Getter ''udma_cpi_cam_cfg_glob'' ''UDMA_CPI_CAM_CFG_GLOB'', Setter ''udma_cpi_cam_cfg_glob'' ''UDMA_CPI_CAM_CFG_GLOB'',
     Getter ''udma_cpi_cam_cfg_ll'' ''UDMA_CPI_CAM_CFG_LL'', Setter ''udma_cpi_cam_cfg_ll'' ''UDMA_CPI_CAM_CFG_LL'',
     Getter ''udma_cpi_cam_cfg_ur'' ''UDMA_CPI_CAM_CFG_UR'', Setter ''udma_cpi_cam_cfg_ur'' ''UDMA_CPI_CAM_CFG_UR'',
     Getter ''udma_cpi_cam_cfg_size'' ''UDMA_CPI_CAM_CFG_SIZE'', Setter ''udma_cpi_cam_cfg_size'' ''UDMA_CPI_CAM_CFG_SIZE'',
     Getter ''udma_cpi_cam_cfg_filter'' ''UDMA_CPI_CAM_CFG_FILTER'', Setter ''udma_cpi_cam_cfg_filter'' ''UDMA_CPI_CAM_CFG_FILTER'',
     Getter ''udma_cpi_cam_vsync_polarity'' ''UDMA_CPI_CAM_VSYNC_POLARITY'',
     Setter ''udma_cpi_cam_vsync_polarity'' ''UDMA_CPI_CAM_VSYNC_POLARITY'']"

definition cpi_v1_macros :: "macro_row list" where
  "cpi_v1_macros = [
     Macros ''UDMA_CPI_CAM_RX_SADDR_RX_SADDR'' (16, 0) (16, 0) (16, 0) 0,
     Macros ''UDMA_CPI_CAM_RX_SIZE_RX_SIZE'' (17, 0) (17, 0) (17, 0) 0, Macros ''UDMA_CPI_CAM_RX_CFG_CONTINOUS'' (1, 0) (1, 0) (1, 0) 0,
     Macros ''UDMA_CPI_CAM_RX_CFG_DATASIZE'' (2, 1) (2, 1) (2, 1) 1, Macros ''UDMA_CPI_CAM_RX_CFG_EN'' (1, 4) (1, 4) (1, 4) 4,
     Macros ''UDMA_CPI_CAM_RX_CFG_PENDING'' (1, 5) (1, 5) (1, 5) 5, Macros ''UDMA_CPI_CAM_RX_CFG_CLR'' (1, 6) (1, 6) (1, 6) 6,
     Macros ''UDMA_CPI_CAM_CFG_GLOB_FRAMEDROP_EN'' (1, 0) (1, 0) (1, 0) 0,
     Macros ''UDMA_CPI_CAM_CFG_GLOB_FRAMEDROP_VAL'' (6, 1) (6, 1) (6, 1) 1,
     Macros ''UDMA_CPI_CAM_CFG_GLOB_FRAMESLICE_EN'' (1, 7) (1, 7) (1, 7) 7,
     Macros ''UDMA_CPI_CAM_CFG_GLOB_FORMAT'' (3, 8) (3, 8) (3, 8) 8, Macros ''UDMA_CPI_CAM_CFG_GLOB_SHIFT'' (4, 11) (4, 11) (4, 11) 11,
     Macros ''UDMA_CPI_CAM_CFG_GLOB_EN'' (1, 31) (1, 31) (1, 31) 31,
     Macros ''UDMA_CPI_CAM_CFG_LL_FRAMESLICE_LLX'' (16, 0) (16, 0) (16, 0) 0,
     Macros ''UDMA_CPI_CAM_CFG_LL_FRAMESLICE_LLY'' (16, 16) (16, 16) (16, 16) 16,
     Macros ''UDMA_CPI_CAM_CFG_UR_FRAMESLICE_URX'' (16, 0) (16, 0) (16, 0) 0,
     Macros ''UDMA_CPI_CAM_CFG_UR_FRAMESLICE_URY'' (16, 16) (16, 16) (16, 16) 16,
     Macros ''UDMA_CPI_CAM_CFG_SIZE_ROWLEN'' (16, 16) (16, 16) (16, 16) 16,
     Macros ''UDMA_CPI_CAM_CFG_FILTER_B_COEFF'' (8, 0) (8, 0) (8, 0) 0, Macros ''UDMA_CPI_CAM_CFG_FILTER_G_COEFF'' (8, 8) (8, 8) (8, 8) 8,
     Macros ''UDMA_CPI_CAM_CFG_FILTER_R_COEFF'' (8, 16) (8, 16) (8, 16) 16,
     Macros ''UDMA_CPI_CAM_VSYNC_POLARITY_VSYNC_POLARITY'' (1, 0) (1, 0) (1, 0) 0]"

definition cpi_v1_map :: register_map where
  "cpi_v1_map = \<lparr>hdr_regs = cpi_v1_regs,
     hdr_fields = cpi_v1_fields,
     hdr_resets = [],
     hdr_structs = cpi_v1_structs,
     hdr_access = cpi_v1_access,
     hdr_macros = cpi_v1_macros\<rparr>"

lemmas cpi_v1_tables = cpi_v1_map_def cpi_v1_regs_def cpi_v1_fields_def cpi_v1_structs_def cpi_v1_access_def cpi_v1_macros_def

interpretation cpi_v1: aligned_header cpi_v1_map
  by unfold_locales (simp_all add: check_header cpi_v1_tables)

section \<open>\<^verbatim>\<open>udma/mram/udma_mram_v1.h\<close>\<close>

definition mram_v1_regs :: "reg_row list" where
  "mram_v1_regs = [
     Reg ''UDMA_MRAM_RX_SADDR'' 0x0, Reg ''UDMA_MRAM_RX_SIZE'' 0x4, Reg ''UDMA_MRAM_RX_CFG'' 0x8, Reg ''UDMA_MRAM_TX_SADDR'' 0x10,
     Reg ''UDMA_MRAM_TX_SIZE'' 0x14, Reg ''UDMA_MRAM_TX_CFG'' 0x18, Reg ''UDMA_MRAM_TX_DADDR'' 0x20, Reg ''UDMA_MRAM_RX_DADDR'' 0x24,
     Reg ''UDMA_MRAM_STATUS'' 0x28, Reg ''UDMA_MRAM_MRAM_MODE'' 0x2C, Reg ''UDMA_MRAM_ERASE_ADDR'' 0x30,
     Reg ''UDMA_MRAM_ERASE_SIZE'' 0x34, Reg ''UDMA_MRAM_CLOCK_DIV'' 0x38, Reg ''UDMA_MRAM_TRIGGER'' 0x3C, Reg ''UDMA_MRAM_ISR'' 0x40,
     Reg ''UDMA_MRAM_IER'' 0x44, Reg ''UDMA_MRAM_ICR'' 0x48]"

definition mram_v1_fields_1 :: "field_row list" where
  "mram_v1_fields_1 = [
     Field ''UDMA_MRAM_RX_SADDR_RX_SADDR'' 0 16 0xFFFF, Field ''UDMA_MRAM_RX_SIZE_RX_SIZE'' 0 17 0x1FFFF,
     Field ''UDMA_MRAM_RX_CFG_CONTINOUS'' 0 1 0x1, Field ''UDMA_MRAM_RX_CFG_EN'' 4 1 0x10, Field ''UDMA_MRAM_RX_CFG_PENDING'' 5 1 0x20,
     Field ''UDMA_MRAM_RX_CFG_CLR'' 6 1 0x40, Field ''UDMA_MRAM_TX_SADDR_TX_SADDR'' 0 16 0xFFFF,
     Field ''UDMA_MRAM_TX_SIZE_TX_SIZE'' 0 17 0x1FFFF, Field ''UDMA_MRAM_TX_CFG_CONTINOUS'' 0 1 0x1,
     Field ''UDMA_MRAM_TX_CFG_EN'' 4 1 0x10, Field ''UDMA_MRAM_TX_CFG_PENDING'' 5 1 0x20, Field ''UDMA_MRAM_TX_CFG_CLR'' 6 1 0x40,
     Field ''UDMA_MRAM_TX_DADDR_TX_DST_ADDR'' 0 19 0x7FFFF, Field ''UDMA_MRAM_RX_DADDR_RX_DST_ADDR'' 0 19 0x7FFFF,
     Field ''UDMA_MRAM_STATUS_ERASE_PENDING'' 0 1 0x1, Field ''UDMA_MRAM_STATUS_TX_BUSY'' 1 1 0x2,
     Field ''UDMA_MRAM_STATUS_RX_BUSY'' 2 1 0x4, Field ''UDMA_MRAM_STATUS_REF_LINE_PENDING'' 3 1 0x8,
     Field ''UDMA_MRAM_MRAM_MODE_ECC_BYPS'' 0 1 0x1, Field ''UDMA_MRAM_MRAM_MODE_DPD'' 1 1 0x2,
     Field ''UDMA_MRAM_MRAM_MODE_AREF'' 2 1 0x4, Field ''UDMA_MRAM_MRAM_MODE_TMEN'' 3 1 0x8, Field ''UDMA_MRAM_MRAM_MODE_NVR'' 4 1 0x10,
     Field ''UDMA_MRAM_MRAM_MODE_RST_B'' 5 1 0x20, Field ''UDMA_MRAM_MRAM_MODE_RET_B'' 6 1 0x40,
     Field ''UDMA_MRAM_MRAM_MODE_POR_B'' 7 1 0x80, Field ''UDMA_MRAM_MRAM_MODE_CMD'' 8 8 0xFF00,
     Field ''UDMA_MRAM_ERASE_ADDR_ADDR'' 0 19 0x7FFFF, Field ''UDMA_MRAM_CLOCK_DIV_DATA'' 0 8 0xFF,
     Field ''UDMA_MRAM_CLOCK_DIV_EN'' 8 1 0x100]"

definition mram_v1_fields_2 :: "field_row list" where
  "mram_v1_fields_2 = [
     Field ''UDMA_MRAM_TRIGGER_EN'' 0 1 0x1, Field ''UDMA_MRAM_ISR_ERASE_DONE'' 0 1 0x1, Field ''UDMA_MRAM_ISR_PROGRAM_DONE'' 1 1 0x2,
     Field ''UDMA_MRAM_ISR_TRIM_CFG_DONE'' 2 1 0x4, Field ''UDMA_MRAM_ISR_REF_LINE_DONE'' 3 1 0x8,
     Field ''UDMA_MRAM_IER_ERASE_EN'' 0 1 0x1, Field ''UDMA_MRAM_IER_PROGRAM_EN'' 1 1 0x2, Field ''UDMA_MRAM_IER_TRIM_CFG_EN'' 2 1 0x4,
     Field ''UDMA_MRAM_IER_REF_LINE_EN'' 3 1 0x8, Field ''UDMA_MRAM_ICR_ERASE_DONE'' 0 1 0x1,
     Field ''UDMA_MRAM_ICR_PROGRAM_DONE'' 1 1 0x2, Field ''UDMA_MRAM_ICR_TRIM_CFG_DONE'' 2 1 0x4,
     Field ''UDMA_MRAM_ICR_REF_LINE_DONE'' 3 1 0x8]"

definition mram_v1_structs :: "struct_row list" where
  "mram_v1_structs = [
     Struct ''udma_mram_rx_saddr'' [Bits ''rx_saddr'' 16], Struct ''udma_mram_rx_size'' [Bits ''rx_size'' 17],
     Struct ''udma_mram_rx_cfg'' [Bits ''continous'' 1, Padding 3, Bits ''en'' 1, Bits ''pending'' 1, Bits ''clr'' 1],
     Struct ''udma_mram_tx_saddr'' [Bits ''tx_saddr'' 16], Struct ''udma_mram_tx_size'' [Bits ''tx_size'' 17],
     Struct ''udma_mram_tx_cfg'' [Bits ''continous'' 1, Padding 3, Bits ''en'' 1, Bits ''pending'' 1, Bits ''clr'' 1],
     Struct ''udma_mram_tx_daddr'' [Bits ''tx_dst_addr'' 19], Struct ''udma_mram_rx_daddr'' [Bits ''rx_dst_addr'' 19],
     Struct ''udma_mram_status'' [Bits ''erase_pending'' 1, Bits ''tx_busy'' 1, Bits ''rx_busy'' 1, Bits ''ref_line_pending'' 1],
     Struct ''udma_mram_mram_mode'' [Bits ''ecc_byps'' 1, Bits ''dpd'' 1, Bits ''aref'' 1, Bits ''tmen'' 1, Bits ''nvr'' 1,
       Bits ''rst_b'' 1, Bits ''ret_b'' 1, Bits ''por_b'' 1, Bits ''cmd'' 8],
     Struct ''udma_mram_erase_addr'' [Bits ''addr'' 19], Struct ''udma_mram_erase_size'' [],
     Struct ''udma_mram_clock_div'' [Bits ''data'' 8, Bits ''en'' 1], Struct ''udma_mram_trigger'' [Bits ''en'' 1],
     Struct ''udma_mram_isr'' [Bits ''erase_done'' 1, Bits ''program_done'' 1, Bits ''trim_cfg_done'' 1, Bits ''ref_line_done'' 1],
     Struct ''udma_mram_ier'' [Bits ''erase_en'' 1, Bits ''program_en'' 1, Bits ''trim_cfg_en'' 1, Bits ''ref_line_en'' 1],
     Struct ''udma_mram_icr'' [Bits ''erase_done'' 1, Bits ''program_done'' 1, Bits ''trim_cfg_done'' 1, Bits ''ref_line_done'' 1]]"

definition mram_v1_access :: "access_row list" where
  "mram_v1_access = [
     Getter ''udma_mram_rx_saddr'' ''UDMA_MRAM_RX_SADDR'', Setter ''udma_mram_rx_saddr'' ''UDMA_MRAM_RX_SADDR'',
     Getter ''udma_mram_rx_size'' ''UDMA_MRAM_RX_SIZE'', Setter ''udma_mram_rx_size'' ''UDMA_MRAM_RX_SIZE'',
     Getter ''udma_mram_rx_cfg'' ''UDMA_MRAM_RX_CFG'', Setter ''udma_mram_rx_cfg'' ''UDMA_MRAM_RX_CFG'',
     Getter ''udma_mram_tx_saddr'' ''UDMA_MRAM_TX_SADDR'', Setter ''udma_mram_tx_saddr'' ''UDMA_MRAM_TX_SADDR'',
     Getter ''udma_mram_tx_size'' ''UDMA_MRAM_TX_SIZE'', Setter ''udma_mram_tx_size'' ''UDMA_MRAM_TX_SIZE'',
     Getter ''udma_mram_tx_cfg'' ''UDMA_MRAM_TX_CFG'', Setter ''udma_mram_tx_cfg'' ''UDMA_MRAM_TX_CFG'',
     Getter ''udma_mram_tx_daddr'' ''UDMA_MRAM_TX_DADDR'', Setter ''udma_mram_tx_daddr'' ''UDMA_MRAM_TX_DADDR'',
     Getter ''udma_mram_rx_daddr'' ''UDMA_MRAM_RX_DADDR'', Setter ''udma_mram_rx_daddr'' ''UDMA_MRAM_RX_DADDR'',
     Getter ''udma_mram_status'' ''UDMA_MRAM_STATUS'', Setter ''udma_mram_status'' ''UDMA_MRAM_STATUS'',
     Getter ''udma_mram_mram_mode'' ''UDMA_MRAM_MRAM_MODE'', Setter ''udma_mram_mram_mode'' ''UDMA_MRAM_MRAM_MODE'',
     Getter ''udma_mram_erase_addr'' ''UDMA_MRAM_ERASE_ADDR'', Setter ''udma_mram_erase_addr'' ''UDMA_MRAM_ERASE_ADDR'',
     Getter ''udma_mram_erase_size'' ''UDMA_MRAM_ERASE_SIZE'', Setter ''udma_mram_erase_size'' ''UDMA_MRAM_ERASE_SIZE'',
     Getter ''udma_mram_clock_div'' ''UDMA_MRAM_CLOCK_DIV'', Setter ''udma_mram_clock_div'' ''UDMA_MRAM_CLOCK_DIV'',
     Getter ''udma_mram_trigger'' ''UDMA_MRAM_TRIGGER'', Setter ''udma_mram_trigger'' ''UDMA_MRAM_TRIGGER'',
     Getter ''udma_mram_isr'' ''UDMA_MRAM_ISR'', Setter ''udma_mram_isr'' ''UDMA_MRAM_ISR'', Getter ''udma_mram_ier'' ''UDMA_MRAM_IER'',
     Setter ''udma_mram_ier'' ''UDMA_MRAM_IER'', Getter ''udma_mram_icr'' ''UDMA_MRAM_ICR'', Setter ''udma_mram_icr'' ''UDMA_MRAM_ICR'']"

definition mram_v1_macros_1 :: "macro_row list" where
  "mram_v1_macros_1 = [
     Macros ''UDMA_MRAM_RX_SADDR_RX_SADDR'' (16, 0) (16, 0) (16, 0) 0, Macros ''UDMA_MRAM_RX_SIZE_RX_SIZE'' (17, 0) (17, 0) (17, 0) 0,
     Macros ''UDMA_MRAM_RX_CFG_CONTINOUS'' (1, 0) (1, 0) (1, 0) 0, Macros ''UDMA_MRAM_RX_CFG_EN'' (1, 4) (1, 4) (1, 4) 4,
     Macros ''UDMA_MRAM_RX_CFG_PENDING'' (1, 5) (1, 5) (1, 5) 5, Macros ''UDMA_MRAM_RX_CFG_CLR'' (1, 6) (1, 6) (1, 6) 6,
     Macros ''UDMA_MRAM_TX_SADDR_TX_SADDR'' (16, 0) (16, 0) (16, 0) 0, Macros ''UDMA_MRAM_TX_SIZE_TX_SIZE'' (17, 0) (17, 0) (17, 0) 0,
     Macros ''UDMA_MRAM_TX_CFG_CONTINOUS'' (1, 0) (1, 0) (1, 0) 0, Macros ''UDMA_MRAM_TX_CFG_EN'' (1, 4) (1, 4) (1, 4) 4,
     Macros ''UDMA_MRAM_TX_CFG_PENDING'' (1, 5) (1, 5) (1, 5) 5, Macros ''UDMA_MRAM_TX_CFG_CLR'' (1, 6) (1, 6) (1, 6) 6,
     Macros ''UDMA_MRAM_TX_DADDR_TX_DST_ADDR'' (19, 0) (19, 0) (19, 0) 0,
     Macros ''UDMA_MRAM_RX_DADDR_RX_DST_ADDR'' (19, 0) (19, 0) (19, 0) 0,
     Macros ''UDMA_MRAM_STATUS_ERASE_PENDING'' (1, 0) (1, 0) (1, 0) 0, Macros ''UDMA_MRAM_STATUS_TX_BUSY'' (1, 1) (1, 1) (1, 1) 1,
     Macros ''UDMA_MRAM_STATUS_RX_BUSY'' (1, 2) (1, 2) (1, 2) 2, Macros ''UDMA_MRAM_STATUS_REF_LINE_PENDING'' (1, 3) (1, 3) (1, 3) 3,
     Macros ''UDMA_MRAM_MRAM_MODE_ECC_BYPS'' (1, 0) (1, 0) (1, 0) 0, Macros ''UDMA_MRAM_MRAM_MODE_DPD'' (1, 1) (1, 1) (1, 1) 1,
     Macros ''UDMA_MRAM_MRAM_MODE_AREF'' (1, 2) (1, 2) (1, 2) 2, Macros ''UDMA_MRAM_MRAM_MODE_TMEN'' (1, 3) (1, 3) (1, 3) 3,
     Macros ''UDMA_MRAM_MRAM_MODE_NVR'' (1, 4) (1, 4) (1, 4) 4, Macros ''UDMA_MRAM_MRAM_MODE_RST_B'' (1, 5) (1, 5) (1, 5) 5,
     Macros ''UDMA_MRAM_MRAM_MODE_RET_B'' (1, 6) (1, 6) (1, 6) 6, Macros ''UDMA_MRAM_MRAM_MODE_POR_B'' (1, 7) (1, 7) (1, 7) 7,
     Macros ''UDMA_MRAM_MRAM_MODE_CMD'' (8, 8) (8, 8) (8, 8) 8, Macros ''UDMA_MRAM_ERASE_ADDR_ADDR'' (19, 0) (19, 0) (19, 0) 0,
     Macros ''UDMA_MRAM_CLOCK_DIV_DATA'' (8, 0) (8, 0) (8, 0) 0, Macros ''UDMA_MRAM_CLOCK_DIV_EN'' (1, 8) (1, 8) (1, 8) 8]"

definition mram_v1_macros_2 :: "macro_row list" where
  "mram_v1_macros_2 = [
     Macros ''UDMA_MRAM_TRIGGER_EN'' (1, 0) (1, 0) (1, 0) 0, Macros ''UDMA_MRAM_ISR_ERASE_DONE'' (1, 0) (1, 0) (1, 0) 0,
     Macros ''UDMA_MRAM_ISR_PROGRAM_DONE'' (1, 1) (1, 1) (1, 1) 1, Macros ''UDMA_MRAM_ISR_TRIM_CFG_DONE'' (1, 2) (1, 2) (1, 2) 2,
     Macros ''UDMA_MRAM_ISR_REF_LINE_DONE'' (1, 3) (1, 3) (1, 3) 3, Macros ''UDMA_MRAM_IER_ERASE_EN'' (1, 0) (1, 0) (1, 0) 0,
     Macros ''UDMA_MRAM_IER_PROGRAM_EN'' (1, 1) (1, 1) (1, 1) 1, Macros ''UDMA_MRAM_IER_TRIM_CFG_EN'' (1, 2) (1, 2) (1, 2) 2,
     Macros ''UDMA_MRAM_IER_REF_LINE_EN'' (1, 3) (1, 3) (1, 3) 3, Macros ''UDMA_MRAM_ICR_ERASE_DONE'' (1, 0) (1, 0) (1, 0) 0,
     Macros ''UDMA_MRAM_ICR_PROGRAM_DONE'' (1, 1) (1, 1) (1, 1) 1, Macros ''UDMA_MRAM_ICR_TRIM_CFG_DONE'' (1, 2) (1, 2) (1, 2) 2,
     Macros ''UDMA_MRAM_ICR_REF_LINE_DONE'' (1, 3) (1, 3) (1, 3) 3]"

definition mram_v1_map :: register_map where
  "mram_v1_map = \<lparr>hdr_regs = mram_v1_regs,
     hdr_fields = mram_v1_fields_1 @ mram_v1_fields_2,
     hdr_resets = [],
     hdr_structs = mram_v1_structs,
     hdr_access = mram_v1_access,
     hdr_macros = mram_v1_macros_1 @ mram_v1_macros_2\<rparr>"

lemmas mram_v1_tables = mram_v1_map_def mram_v1_regs_def mram_v1_fields_1_def mram_v1_fields_2_def mram_v1_structs_def mram_v1_access_def 
  mram_v1_macros_1_def mram_v1_macros_2_def

interpretation mram_v1: aligned_header mram_v1_map
  by unfold_locales (simp_all add: check_header mram_v1_tables)

section \<open>\<^verbatim>\<open>udma/hyper/udma_hyper_v2.h\<close>\<close>

definition hyper_v2_regs :: "reg_row list" where
  "hyper_v2_regs = [
     Reg ''HYPER_RX_SADDR'' 0x0, Reg ''HYPER_RX_SIZE'' 0x4, Reg ''HYPER_RX_CFG'' 0x8, Reg ''HYPER_TX_SADDR'' 0x10,
     Reg ''HYPER_TX_SIZE'' 0x14, Reg ''HYPER_TX_CFG'' 0x18, Reg ''HYPER_EXT_ADDR'' 0x20, Reg ''HYPER_TIMING_CFG'' 0x24,
     Reg ''HYPER_MBA0'' 0x28, Reg ''HYPER_MBA1'' 0x2C, Reg ''HYPER_DEVICE'' 0x30, Reg ''HYPER_OSPI_CMD'' 0x34,
     Reg ''HYPER_OSPI_ADDR'' 0x38, Reg ''HYPER_OSPI_CFG'' 0x3C, Reg ''HYPER_OSPI_CSN'' 0x40, Reg ''HYPER__RESERVED0'' 0x44,
     Reg ''HYPER__RESERVED1'' 0x48, Reg ''HYPER_IRQ_EN'' 0x4C, Reg ''HYPER_CLK_DIV'' 0x50, Reg ''HYPER_STATUS'' 0x54]"

definition hyper_v2_fields_1 :: "field_row list" where
  "hyper_v2_fields_1 = [
     Field ''HYPER_RX_SADDR_RX_SADDR'' 0 16 0xFFFF, Field ''HYPER_RX_SIZE_RX_SIZE'' 0 17 0x1FFFF,
     Field ''HYPER_RX_CFG_CONTINOUS'' 0 1 0x1, Field ''HYPER_RX_CFG_EN'' 4 1 0x10, Field ''HYPER_RX_CFG_PENDING'' 5 1 0x20,
     Field ''HYPER_RX_CFG_CLR'' 6 1 0x40, Field ''HYPER_TX_SADDR_TX_SADDR'' 0 16 0xFFFF, Field ''HYPER_TX_SIZE_TX_SIZE'' 0 17 0x1FFFF,
     Field ''HYPER_TX_CFG_CONTINOUS'' 0 1 0x1, Field ''HYPER_TX_CFG_EN'' 4 1 0x10, Field ''HYPER_TX_CFG_PENDING'' 5 1 0x20,
     Field ''HYPER_TX_CFG_CLR'' 6 1 0x40, Field ''HYPER_EXT_ADDR_SADDR'' 0 31 0x7FFFFFFF,
     Field ''HYPER_EXT_ADDR_REG_ACCESS'' 31 1 0x80000000, Field ''HYPER_TIMING_CFG_LATENCY0'' 0 5 0x1F,
     Field ''HYPER_TIMING_CFG_LATENCY1'' 5 5 0x3E0, Field ''HYPER_TIMING_CFG_RW_RECOVERY'' 10 4 0x3C00,
     Field ''HYPER_TIMING_CFG_RWDS_DELAY'' 14 3 0x1C000, Field ''HYPER_TIMING_CFG_ADDITIONAL_LATENCY_AUTOCHECK_EN'' 17 1 0x20000,
     Field ''HYPER_TIMING_CFG_CS_MAX'' 18 16 0x3FFFC0000, Field ''HYPER_MBA0_MBA0'' 24 7 0x7F000000,
     Field ''HYPER_MBA1_MBA1'' 24 7 0x7F000000, Field ''HYPER_DEVICE_TYPE'' 0 1 0x1, Field ''HYPER_DEVICE_DT0'' 1 1 0x2,
     Field ''HYPER_DEVICE_DT1'' 2 1 0x4, Field ''HYPER_OSPI_CFG_CMD_SIZE'' 0 2 0x3, Field ''HYPER_OSPI_CFG_ADDR_SIZE'' 4 3 0x70,
     Field ''HYPER_OSPI_CFG_LINE'' 8 1 0x100, Field ''HYPER_OSPI_CFG_CMD_DTR_STR'' 12 1 0x1000,
     Field ''HYPER_OSPI_CFG_ADDR_DTR_STR'' 13 1 0x2000]"

definition hyper_v2_fields_2 :: "field_row list" where
  "hyper_v2_fields_2 = [
     Field ''HYPER_OSPI_CFG_DATA_DTR_STR'' 14 1 0x4000, Field ''HYPER_OSPI_CFG_DATA_DTR_MSB'' 15 1 0x8000,
     Field ''HYPER_OSPI_CSN_INDEX'' 0 1 0x1, Field ''HYPER_OSPI_CSN_USER_CTRL_CSN'' 4 1 0x10, Field ''HYPER_OSPI_CSN_CSN_VAL'' 5 1 0x20,
     Field ''HYPER_IRQ_EN_EN'' 0 1 0x1, Field ''HYPER_CLK_DIV_DATA'' 0 8 0xFF, Field ''HYPER_CLK_DIV_VALID'' 8 1 0x100,
     Field ''HYPER_STATUS_TX_ERROR'' 0 1 0x1, Field ''HYPER_STATUS_RX_ERROR'' 1 1 0x2, Field ''HYPER_STATUS_RX_TX_END'' 2 1 0x4]"

definition hyper_v2_structs_1 :: "struct_row list" where
  "hyper_v2_structs_1 = [
     Struct ''hyper_rx_saddr'' [Bits ''rx_saddr'' 16], Struct ''hyper_rx_size'' [Bits ''rx_size'' 17],
     Struct ''hyper_rx_cfg'' [Bits ''continous'' 1, Padding 3, Bits ''en'' 1, Bits ''pending'' 1, Bits ''clr'' 1],
     Struct ''hyper_tx_saddr'' [Bits ''tx_saddr'' 16], Struct ''hyper_tx_size'' [Bits ''tx_size'' 17],
     Struct ''hyper_tx_cfg'' [Bits ''continous'' 1, Padding 3, Bits ''en'' 1, Bits ''pending'' 1, Bits ''clr'' 1],
     Struct ''hyper_ext_addr'' [Bits ''saddr'' 31, Bits ''reg_access'' 1],
     Struct ''hyper_timing_cfg'' [Bits ''latency0'' 5, Bits ''latency1'' 5, Bits ''rw_recovery'' 4, Bits ''rwds_delay'' 3,
       Bits ''additional_latency_autocheck_en'' 1, Bits ''cs_max'' 16],
     Struct ''hyper_mba0'' [Padding 24, Bits ''mba0'' 7], Struct ''hyper_mba1'' [Padding 24, Bits ''mba1'' 7],
     Struct ''hyper_device'' [Bits ''type'' 1, Bits ''dt0'' 1, Bits ''dt1'' 1], Struct ''hyper_ospi_cmd'' [],
     Struct ''hyper_ospi_addr'' [],
     Struct ''hyper_ospi_cfg'' [Bits ''cmd_size'' 2, Padding 2, Bits ''addr_size'' 3, Padding 1, Bits ''line'' 1, Padding 3,
       Bits ''cmd_dtr_str'' 1, Bits ''addr_dtr_str'' 1, Bits ''data_dtr_str'' 1, Bits ''data_dtr_msb'' 1],
     Struct ''hyper_ospi_csn'' [Bits ''index'' 1, Padding 3, Bits ''user_ctrl_csn'' 1, Bits ''csn_val'' 1],
     Struct ''hyper__reserved0'' [], Struct ''hyper__reserved1'' []]"

definition hyper_v2_structs_2 :: "struct_row list" where
  "hyper_v2_structs_2 = [
     Struct ''hyper_irq_en'' [Bits ''en'' 1], Struct ''hyper_clk_div'' [Bits ''data'' 8, Bits ''valid'' 1],
     Struct ''hyper_status'' [Bits ''tx_error'' 1, Bits ''rx_error'' 1, Bits ''rx_tx_end'' 1]]"

definition hyper_v2_access :: "access_row list" where
  "hyper_v2_access = [
     Getter ''hyper_rx_saddr'' ''HYPER_RX_SADDR'', Setter ''hyper_rx_saddr'' ''HYPER_RX_SADDR'',
     Getter ''hyper_rx_size'' ''HYPER_RX_SIZE'', Setter ''hyper_rx_size'' ''HYPER_RX_SIZE'', Getter ''hyper_rx_cfg'' ''HYPER_RX_CFG'',
     Setter ''hyper_rx_cfg'' ''HYPER_RX_CFG'', Getter ''hyper_tx_saddr'' ''HYPER_TX_SADDR'', Setter ''hyper_tx_saddr'' ''HYPER_TX_SADDR'',
     Getter ''hyper_tx_size'' ''HYPER_TX_SIZE'', Setter ''hyper_tx_size'' ''HYPER_TX_SIZE'', Getter ''hyper_tx_cfg'' ''HYPER_TX_CFG'',
     Setter ''hyper_tx_cfg'' ''HYPER_TX_CFG'', Getter ''hyper_ext_addr'' ''HYPER_EXT_ADDR'', Setter ''hyper_ext_addr'' ''HYPER_EXT_ADDR'',
     Getter ''hyper_timing_cfg'' ''HYPER_TIMING_CFG'', Setter ''hyper_timing_cfg'' ''HYPER_TIMING_CFG'',
     Getter ''hyper_mba0'' ''HYPER_MBA0'', Setter ''hyper_mba0'' ''HYPER_MBA0'', Getter ''hyper_mba1'' ''HYPER_MBA1'',
     Setter ''hyper_mba1'' ''HYPER_MBA1'', Getter ''hyper_device'' ''HYPER_DEVICE'', Setter ''hyper_device'' ''HYPER_DEVICE'',
     Getter ''hyper_ospi_cmd'' ''HYPER_OSPI_CMD'', Setter ''hyper_ospi_cmd'' ''HYPER_OSPI_CMD'',
     Getter ''hyper_ospi_addr'' ''HYPER_OSPI_ADDR'', Setter ''hyper_ospi_addr'' ''HYPER_OSPI_ADDR'',
     Getter ''hyper_ospi_cfg'' ''HYPER_OSPI_CFG'', Setter ''hyper_ospi_cfg'' ''HYPER_OSPI_CFG'',
     Getter ''hyper_ospi_csn'' ''HYPER_OSPI_CSN'', Setter ''hyper_ospi_csn'' ''HYPER_OSPI_CSN'',
     Getter ''hyper__reserved0'' ''HYPER__RESERVED0'', Setter ''hyper__reserved0'' ''HYPER__RESERVED0'',
     Getter ''hyper__reserved1'' ''HYPER__RESERVED1'', Setter ''hyper__reserved1'' ''HYPER__RESERVED1'',
     Getter ''hyper_irq_en'' ''HYPER_IRQ_EN'', Setter ''hyper_irq_en'' ''HYPER_IRQ_EN'', Getter ''hyper_clk_div'' ''HYPER_CLK_DIV'',
     Setter ''hyper_clk_div'' ''HYPER_CLK_DIV'', Getter ''hyper_status'' ''HYPER_STATUS'', Setter ''hyper_status'' ''HYPER_STATUS'']"

definition hyper_v2_macros_1 :: "macro_row list" where
  "hyper_v2_macros_1 = [
     Macros ''HYPER_RX_SADDR_RX_SADDR'' (16, 0) (16, 0) (16, 0) 0, Macros ''HYPER_RX_SIZE_RX_SIZE'' (17, 0) (17, 0) (17, 0) 0,
     Macros ''HYPER_RX_CFG_CONTINOUS'' (1, 0) (1, 0) (1, 0) 0, Macros ''HYPER_RX_CFG_EN'' (1, 4) (1, 4) (1, 4) 4,
     Macros ''HYPER_RX_CFG_PENDING'' (1, 5) (1, 5) (1, 5) 5, Macros ''HYPER_RX_CFG_CLR'' (1, 6) (1, 6) (1, 6) 6,
     Macros ''HYPER_TX_SADDR_TX_SADDR'' (16, 0) (16, 0) (16, 0) 0, Macros ''HYPER_TX_SIZE_TX_SIZE'' (17, 0) (17, 0) (17, 0) 0,
     Macros ''HYPER_TX_CFG_CONTINOUS'' (1, 0) (1, 0) (1, 0) 0, Macros ''HYPER_TX_CFG_EN'' (1, 4) (1, 4) (1, 4) 4,
     Macros ''HYPER_TX_CFG_PENDING'' (1, 5) (1, 5) (1, 5) 5, Macros ''HYPER_TX_CFG_CLR'' (1, 6) (1, 6) (1, 6) 6,
     Macros ''HYPER_EXT_ADDR_SADDR'' (31, 0) (31, 0) (31, 0) 0, Macros ''HYPER_EXT_ADDR_REG_ACCESS'' (1, 31) (1, 31) (1, 31) 31,
     Macros ''HYPER_TIMING_CFG_LATENCY0'' (5, 0) (5, 0) (5, 0) 0, Macros ''HYPER_TIMING_CFG_LATENCY1'' (5, 5) (5, 5) (5, 5) 5,
     Macros ''HYPER_TIMING_CFG_RW_RECOVERY'' (4, 10) (4, 10) (4, 10) 10,
     Macros ''HYPER_TIMING_CFG_RWDS_DELAY'' (3, 14) (3, 14) (3, 14) 14,
     Macros ''HYPER_TIMING_CFG_ADDITIONAL_LATENCY_AUTOCHECK_EN'' (1, 17) (1, 17) (1, 17) 17,
     Macros ''HYPER_TIMING_CFG_CS_MAX'' (16, 18) (16, 18) (16, 18) 18, Macros ''HYPER_MBA0_MBA0'' (7, 24) (7, 24) (7, 24) 24,
     Macros ''HYPER_MBA1_MBA1'' (7, 24) (7, 24) (7, 24) 24, Macros ''HYPER_DEVICE_TYPE'' (1, 0) (1, 0) (1, 0) 0,
     Macros ''HYPER_DEVICE_DT0'' (1, 1) (1, 1) (1, 1) 1, Macros ''HYPER_DEVICE_DT1'' (1, 2) (1, 2) (1, 2) 2,
     Macros ''HYPER_OSPI_CFG_CMD_SIZE'' (2, 0) (2, 0) (2, 0) 0, Macros ''HYPER_OSPI_CFG_ADDR_SIZE'' (3, 4) (3, 4) (3, 4) 4,
     Macros ''HYPER_OSPI_CFG_LINE'' (1, 8) (1, 8) (1, 8) 8, Macros ''HYPER_OSPI_CFG_CMD_DTR_STR'' (1, 12) (1, 12) (1, 12) 12,
     Macros ''HYPER_OSPI_CFG_ADDR_DTR_STR'' (1, 13) (1, 13) (1, 13) 13]"

definition hyper_v2_macros_2 :: "macro_row list" where
  "hyper_v2_macros_2 = [
     Macros ''HYPER_OSPI_CFG_DATA_DTR_STR'' (1, 14) (1, 14) (1, 14) 14, Macros ''HYPER_OSPI_CFG_DATA_DTR_MSB'' (1, 15) (1, 15) (1, 15) 15,
     Macros ''HYPER_OSPI_CSN_INDEX'' (1, 0) (1, 0) (1, 0) 0, Macros ''HYPER_OSPI_CSN_USER_CTRL_CSN'' (1, 4) (1, 4) (1, 4) 4,
     Macros ''HYPER_OSPI_CSN_CSN_VAL'' (1, 5) (1, 5) (1, 5) 5, Macros ''HYPER_IRQ_EN_EN'' (1, 0) (1, 0) (1, 0) 0,
     Macros ''HYPER_CLK_DIV_DATA'' (8, 0) (8, 0) (8, 0) 0, Macros ''HYPER_CLK_DIV_VALID'' (1, 8) (1, 8) (1, 8) 8,
     Macros ''HYPER_STATUS_TX_ERROR'' (1, 0) (1, 0) (1, 0) 0, Macros ''HYPER_STATUS_RX_ERROR'' (1, 1) (1, 1) (1, 1) 1,
     Macros ''HYPER_STATUS_RX_TX_END'' (1, 2) (1, 2) (1, 2) 2]"

definition hyper_v2_map :: register_map where
  "hyper_v2_map = \<lparr>hdr_regs = hyper_v2_regs,
     hdr_fields = hyper_v2_fields_1 @ hyper_v2_fields_2,
     hdr_resets = [],
     hdr_structs = hyper_v2_structs_1 @ hyper_v2_structs_2,
     hdr_access = hyper_v2_access,
     hdr_macros = hyper_v2_macros_1 @ hyper_v2_macros_2\<rparr>"

lemmas hyper_v2_tables = hyper_v2_map_def hyper_v2_regs_def hyper_v2_fields_1_def hyper_v2_fields_2_def hyper_v2_structs_1_def hyper_v2_structs_2_def 
  hyper_v2_access_def hyper_v2_macros_1_def hyper_v2_macros_2_def

section \<open>\<^verbatim>\<open>udma/memcpy/v1/udma_memcpy_v1_regs.h\<close>, \<^verbatim>\<open>_regfields.h\<close>, \<^verbatim>\<open>_structs.h\<close>, \<^verbatim>\<open>_accessors.h\<close> and \<^verbatim>\<open>_macros.h\<close>\<close>

definition memcpy_v1_regs :: "reg_row list" where
  "memcpy_v1_regs = [
     Reg ''UDMA_MEMCPY_RX_SADDR'' 0x0, Reg ''UDMA_MEMCPY_RX_SIZE'' 0x4, Reg ''UDMA_MEMCPY_RX_CFG'' 0x8, Reg ''UDMA_MEMCPY_TX_SADDR'' 0x10,
     Reg ''UDMA_MEMCPY_TX_SIZE'' 0x14, Reg ''UDMA_MEMCPY_TX_CFG'' 0x18, Reg ''UDMA_MEMCPY_DST_ADDR'' 0x20,
     Reg ''UDMA_MEMCPY_SRC_ADDR'' 0x24, Reg ''UDMA_MEMCPY_MEM_SEL'' 0x28]"

definition memcpy_v1_fields :: "field_row list" where
  "memcpy_v1_fields = [
     Field ''UDMA_MEMCPY_RX_SADDR_RX_SADDR'' 0 16 0xFFFF, Field ''UDMA_MEMCPY_RX_SIZE_RX_SIZE'' 0 17 0x1FFFF,
     Field ''UDMA_MEMCPY_RX_CFG_CONTINOUS'' 0 1 0x1, Field ''UDMA_MEMCPY_RX_CFG_EN'' 4 1 0x10, Field ''UDMA_MEMCPY_RX_CFG_CLR'' 5 1 0x20,
     Field ''UDMA_MEMCPY_RX_CFG_PENDING'' 5 1 0x20, Field ''UDMA_MEMCPY_TX_SADDR_TX_SADDR'' 0 16 0xFFFF,
     Field ''UDMA_MEMCPY_TX_SIZE_TX_SIZE'' 0 17 0x1FFFF, Field ''UDMA_MEMCPY_TX_CFG_CONTINOUS'' 0 1 0x1,
     Field ''UDMA_MEMCPY_TX_CFG_EN'' 4 1 0x10, Field ''UDMA_MEMCPY_TX_CFG_CLR'' 5 1 0x20, Field ''UDMA_MEMCPY_TX_CFG_PENDING'' 5 1 0x20,
     Field ''UDMA_MEMCPY_DST_ADDR_DST_ADDR'' 0 17 0x1FFFF, Field ''UDMA_MEMCPY_SRC_ADDR_SRC_ADDR'' 0 17 0x1FFFF,
     Field ''UDMA_MEMCPY_MEM_SEL_MEM_SEL'' 0 1 0x1]"

definition memcpy_v1_structs :: "struct_row list" where
  "memcpy_v1_structs = [
     Struct ''udma_memcpy_rx_saddr'' [Bits ''rx_saddr'' 16], Struct ''udma_memcpy_rx_size'' [Bits ''rx_size'' 17],
     Struct ''udma_memcpy_rx_cfg'' [Bits ''continous'' 1, Padding 3, Bits ''en'' 1, Bits ''clr'' 1, Bits ''pending'' 1],
     Struct ''udma_memcpy_tx_saddr'' [Bits ''tx_saddr'' 16], Struct ''udma_memcpy_tx_size'' [Bits ''tx_size'' 17],
     Struct ''udma_memcpy_tx_cfg'' [Bits ''continous'' 1, Padding 3, Bits ''en'' 1, Bits ''clr'' 1, Bits ''pending'' 1],
     Struct ''udma_memcpy_dst_addr'' [Bits ''dst_addr'' 17], Struct ''udma_memcpy_src_addr'' [Bits ''src_addr'' 17],
     Struct ''udma_memcpy_mem_sel'' [Bits ''mem_sel'' 1]]"

definition memcpy_v1_access :: "access_row list" where
  "memcpy_v1_access = [
     Getter ''udma_memcpy_rx_saddr'' ''UDMA_MEMCPY_RX_SADDR'', Setter ''udma_memcpy_rx_saddr'' ''UDMA_MEMCPY_RX_SADDR'',
     Getter ''udma_memcpy_rx_size'' ''UDMA_MEMCPY_RX_SIZE'', Setter ''udma_memcpy_rx_size'' ''UDMA_MEMCPY_RX_SIZE'',
     Getter ''udma_memcpy_rx_cfg'' ''UDMA_MEMCPY_RX_CFG'', Setter ''udma_memcpy_rx_cfg'' ''UDMA_MEMCPY_RX_CFG'',
     Getter ''udma_memcpy_tx_saddr'' ''UDMA_MEMCPY_TX_SADDR'', Setter ''udma_memcpy_tx_saddr'' ''UDMA_MEMCPY_TX_SADDR'',
     Getter ''udma_memcpy_tx_size'' ''UDMA_MEMCPY_TX_SIZE'', Setter ''udma_memcpy_tx_size'' ''UDMA_MEMCPY_TX_SIZE'',
     Getter ''udma_memcpy_tx_cfg'' ''UDMA_MEMCPY_TX_CFG'', Setter ''udma_memcpy_tx_cfg'' ''UDMA_MEMCPY_TX_CFG'',
     Getter ''udma_memcpy_dst_addr'' ''UDMA_MEMCPY_DST_ADDR'', Setter ''udma_memcpy_dst_addr'' ''UDMA_MEMCPY_DST_ADDR'',
     Getter ''udma_memcpy_src_addr'' ''UDMA_MEMCPY_SRC_ADDR'', Setter ''udma_memcpy_src_addr'' ''UDMA_MEMCPY_SRC_ADDR'',
     Getter ''udma_memcpy_mem_sel'' ''UDMA_MEMCPY_MEM_SEL'', Setter ''udma_memcpy_mem_sel'' ''UDMA_MEMCPY_MEM_SEL'']"

definition memcpy_v1_macros :: "macro_row list" where
  "memcpy_v1_macros = [
     Macros ''UDMA_MEMCPY_RX_SADDR_RX_SADDR'' (16, 0) (16, 0) (16, 0) 0, Macros ''UDMA_MEMCPY_RX_SIZE_RX_SIZE'' (17, 0) (17, 0) (17, 0) 0,
     Macros ''UDMA_MEMCPY_RX_CFG_CONTINOUS'' (1, 0) (1, 0) (1, 0) 0, Macros ''UDMA_MEMCPY_RX_CFG_EN'' (1, 4) (1, 4) (1, 4) 4,
     Macros ''UDMA_MEMCPY_RX_CFG_CLR'' (1, 5) (1, 5) (1, 5) 5, Macros ''UDMA_MEMCPY_RX_CFG_PENDING'' (1, 5) (1, 5) (1, 5) 5,
     Macros ''UDMA_MEMCPY_TX_SADDR_TX_SADDR'' (16, 0) (16, 0) (16, 0) 0, Macros ''UDMA_MEMCPY_TX_SIZE_TX_SIZE'' (17, 0) (17, 0) (17, 0) 0,
     Macros ''UDMA_MEMCPY_TX_CFG_CONTINOUS'' (1, 0) (1, 0) (1, 0) 0, Macros ''UDMA_MEMCPY_TX_CFG_EN'' (1, 4) (1, 4) (1, 4) 4,
     Macros ''UDMA_MEMCPY_TX_CFG_CLR'' (1, 5) (1, 5) (1, 5) 5, Macros ''UDMA_MEMCPY_TX_CFG_PENDING'' (1, 5) (1, 5) (1, 5) 5,
     Macros ''UDMA_MEMCPY_DST_ADDR_DST_ADDR'' (17, 0) (17, 0) (17, 0) 0,
     Macros ''UDMA_MEMCPY_SRC_ADDR_SRC_ADDR'' (17, 0) (17, 0) (17, 0) 0, Macros ''UDMA_MEMCPY_MEM_SEL_MEM_SEL'' (1, 0) (1, 0) (1, 0) 0]"

definition memcpy_v1_map :: register_map where
  "memcpy_v1_map = \<lparr>hdr_regs = memcpy_v1_regs,
     hdr_fields = memcpy_v1_fields,
     hdr_resets = [],
     hdr_structs = memcpy_v1_structs,
     hdr_access = memcpy_v1_access,
     hdr_macros = memcpy_v1_macros\<rparr>"

lemmas memcpy_v1_tables = memcpy_v1_map_def memcpy_v1_regs_def memcpy_v1_fields_def memcpy_v1_structs_def memcpy_v1_access_def memcpy_v1_macros_def

interpretation memcpy_v1: register_addresses memcpy_v1_map
  by unfold_locales (simp_all add: check_header memcpy_v1_tables)

section \<open>\<^verbatim>\<open>udma/i2s/udma_i2s_v1_new.h\<close>\<close>

definition i2s_v1_regs :: "reg_row list" where
  "i2s_v1_regs = [
     Reg ''UDMA_I2S_RX_SADDR_CH0'' 0x0, Reg ''UDMA_I2S_RX_SIZE_CH0'' 0x4, Reg ''UDMA_I2S_RX_CFG_CH0'' 0x8,
     Reg ''UDMA_I2S_RX_SADDR_CH1'' 0x10, Reg ''UDMA_I2S_RX_SIZE_CH1'' 0x14, Reg ''UDMA_I2S_RX_CFG_CH1'' 0x18,
     Reg ''UDMA_I2S_CFG_EXT'' 0x20, Reg ''UDMA_I2S_CFG_CLKGEN0'' 0x24, Reg ''UDMA_I2S_CFG_CLKGEN1'' 0x28, Reg ''UDMA_I2S_CHMODE'' 0x2C,
     Reg ''UDMA_I2S_FILT_CH0'' 0x30, Reg ''UDMA_I2S_FILT_CH1'' 0x34]"

definition i2s_v1_fields_1 :: "field_row list" where
  "i2s_v1_fields_1 = [
     Field ''UDMA_I2S_RX_SADDR_CH0_RX_SADDR'' 0 16 0xFFFF, Field ''UDMA_I2S_RX_SIZE_CH0_RX_SIZE'' 0 17 0x1FFFF,
     Field ''UDMA_I2S_RX_CFG_CH0_CONTINOUS'' 0 1 0x1, Field ''UDMA_I2S_RX_CFG_CH0_DATASIZE'' 1 2 0x6,
     Field ''UDMA_I2S_RX_CFG_CH0_EN'' 4 1 0x10, Field ''UDMA_I2S_RX_CFG_CH0_CLR'' 5 1 0x20,
     Field ''UDMA_I2S_RX_CFG_CH0_PENDING'' 5 1 0x20, Field ''UDMA_I2S_RX_SADDR_CH1_TX_SADDR'' 0 16 0xFFFF,
     Field ''UDMA_I2S_RX_SIZE_CH1_TX_SIZE'' 0 17 0x1FFFF, Field ''UDMA_I2S_RX_CFG_CH1_CONTINOUS'' 0 1 0x1,
     Field ''UDMA_I2S_RX_CFG_CH1_DATASIZE'' 1 2 0x6, Field ''UDMA_I2S_RX_CFG_CH1_EN'' 4 1 0x10,
     Field ''UDMA_I2S_RX_CFG_CH1_CLR'' 5 1 0x20, Field ''UDMA_I2S_RX_CFG_CH1_PENDING'' 5 1 0x20,
     Field ''UDMA_I2S_CFG_EXT_EXT_BITS_WORD'' 0 5 0x1F, Field ''UDMA_I2S_CFG_CLKGEN0_BITS_WORD'' 0 5 0x1F,
     Field ''UDMA_I2S_CFG_CLKGEN0_CLK_EN'' 8 1 0x100, Field ''UDMA_I2S_CFG_CLKGEN0_CLK_DIV'' 16 16 0xFFFF0000,
     Field ''UDMA_I2S_CFG_CLKGEN1_BITS_WORD'' 0 5 0x1F, Field ''UDMA_I2S_CFG_CLKGEN1_CLK_EN'' 8 1 0x100,
     Field ''UDMA_I2S_CFG_CLKGEN1_CLK_DIV'' 16 16 0xFFFF0000, Field ''UDMA_I2S_CHMODE_CH0_LSB_FIRST'' 4 1 0x10,
     Field ''UDMA_I2S_CHMODE_CH0_PDM_USEFILTER'' 8 1 0x100, Field ''UDMA_I2S_CHMODE_CH0_PDM_EN'' 12 1 0x1000,
     Field ''UDMA_I2S_CHMODE_CH0_USEDDR'' 16 1 0x10000, Field ''UDMA_I2S_CHMODE_CH0_MODE'' 24 2 0x3000000,
     Field ''UDMA_I2S_CHMODE_CH1_LSB_FIRST'' 5 1 0x20, Field ''UDMA_I2S_CHMODE_CH1_PDM_USEFILTER'' 9 1 0x200,
     Field ''UDMA_I2S_CHMODE_CH1_PDM_EN'' 13 1 0x2000, Field ''UDMA_I2S_CHMODE_CH1_USEDDR'' 17 1 0x20000]"

definition i2s_v1_fields_2 :: "field_row list" where
  "i2s_v1_fields_2 = [
     Field ''UDMA_I2S_CHMODE_CH1_MODE'' 26 2 0xC000000, Field ''UDMA_I2S_FILT_CH0_DECIMATION'' 0 10 0x3FF,
     Field ''UDMA_I2S_FILT_CH0_SHIFT'' 16 3 0x70000, Field ''UDMA_I2S_FILT_CH1_DECIMATION'' 0 10 0x3FF,
     Field ''UDMA_I2S_FILT_CH1_SHIFT'' 16 3 0x70000]"

definition i2s_v1_structs :: "struct_row list" where
  "i2s_v1_structs = [
     Struct ''udma_i2s_rx_saddr_ch0'' [Bits ''rx_saddr'' 16], Struct ''udma_i2s_rx_size_ch0'' [Bits ''rx_size'' 17],
     Struct ''udma_i2s_rx_cfg_ch0'' [Bits ''continous'' 1, Bits ''datasize'' 2, Padding 1, Bits ''en'' 1, Bits ''clr'' 1,
       Bits ''pending'' 1],
     Struct ''udma_i2s_rx_saddr_ch1'' [Bits ''tx_saddr'' 16], Struct ''udma_i2s_rx_size_ch1'' [Bits ''tx_size'' 17],
     Struct ''udma_i2s_rx_cfg_ch1'' [Bits ''continous'' 1, Bits ''datasize'' 2, Padding 1, Bits ''en'' 1, Bits ''clr'' 1,
       Bits ''pending'' 1],
     Struct ''udma_i2s_cfg_ext'' [Bits ''ext_bits_word'' 5],
     Struct ''udma_i2s_cfg_clkgen0'' [Bits ''bits_word'' 5, Padding 3, Bits ''clk_en'' 1, Padding 7, Bits ''clk_div'' 16],
     Struct ''udma_i2s_cfg_clkgen1'' [Bits ''bits_word'' 5, Padding 3, Bits ''clk_en'' 1, Padding 7, Bits ''clk_div'' 16],
     Struct ''udma_i2s_chmode'' [Padding 4, Bits ''ch0_lsb_first'' 1, Padding 3, Bits ''ch0_pdm_usefilter'' 1, Padding 3,
       Bits ''ch0_pdm_en'' 1, Padding 3, Bits ''ch0_useddr'' 1, Padding 7, Bits ''ch0_mode'' 2, Bits ''ch1_lsb_first'' 1, Padding 3,
       Bits ''ch1_pdm_usefilter'' 1, Padding 3, Bits ''ch1_pdm_en'' 1, Padding 3, Bits ''ch1_useddr'' 1, Padding 8, Bits ''ch1_mode'' 2],
     Struct ''udma_i2s_filt_ch0'' [Bits ''decimation'' 10, Padding 6, Bits ''shift'' 3],
     Struct ''udma_i2s_filt_ch1'' [Bits ''decimation'' 10, Padding 6, Bits ''shift'' 3]]"

definition i2s_v1_access :: "access_row list" where
  "i2s_v1_access = [
     Getter ''udma_i2s_rx_saddr_ch0'' ''UDMA_I2S_RX_SADDR_CH0'', Setter ''udma_i2s_rx_saddr_ch0'' ''UDMA_I2S_RX_SADDR_CH0'',
     Getter ''udma_i2s_rx_size_ch0'' ''UDMA_I2S_RX_SIZE_CH0'', Setter ''udma_i2s_rx_size_ch0'' ''UDMA_I2S_RX_SIZE_CH0'',
     Getter ''udma_i2s_rx_cfg_ch0'' ''UDMA_I2S_RX_CFG_CH0'', Setter ''udma_i2s_rx_cfg_ch0'' ''UDMA_I2S_RX_CFG_CH0'',
     Getter ''udma_i2s_rx_saddr_ch1'' ''UDMA_I2S_RX_SADDR_CH1'', Setter ''udma_i2s_rx_saddr_ch1'' ''UDMA_I2S_RX_SADDR_CH1'',
     Getter ''udma_i2s_rx_size_ch1'' ''UDMA_I2S_RX_SIZE_CH1'', Setter ''udma_i2s_rx_size_ch1'' ''UDMA_I2S_RX_SIZE_CH1'',
     Getter ''udma_i2s_rx_cfg_ch1'' ''UDMA_I2S_RX_CFG_CH1'', Setter ''udma_i2s_rx_cfg_ch1'' ''UDMA_I2S_RX_CFG_CH1'',
     Getter ''udma_i2s_cfg_ext'' ''UDMA_I2S_CFG_EXT'', Setter ''udma_i2s_cfg_ext'' ''UDMA_I2S_CFG_EXT'',
     Getter ''udma_i2s_cfg_clkgen0'' ''UDMA_I2S_CFG_CLKGEN0'', Setter ''udma_i2s_cfg_clkgen0'' ''UDMA_I2S_CFG_CLKGEN0'',
     Getter ''udma_i2s_cfg_clkgen1'' ''UDMA_I2S_CFG_CLKGEN1'', Setter ''udma_i2s_cfg_clkgen1'' ''UDMA_I2S_CFG_CLKGEN1'',
     Getter ''udma_i2s_chmode'' ''UDMA_I2S_CHMODE'', Setter ''udma_i2s_chmode'' ''UDMA_I2S_CHMODE'',
     Getter ''udma_i2s_filt_ch0'' ''UDMA_I2S_FILT_CH0'', Setter ''udma_i2s_filt_ch0'' ''UDMA_I2S_FILT_CH0'',
     Getter ''udma_i2s_filt_ch1'' ''UDMA_I2S_FILT_CH1'', Setter ''udma_i2s_filt_ch1'' ''UDMA_I2S_FILT_CH1'']"

definition i2s_v1_macros_1 :: "macro_row list" where
  "i2s_v1_macros_1 = [
     Macros ''UDMA_I2S_RX_SADDR_CH0_RX_SADDR'' (16, 0) (16, 0) (16, 0) 0,
     Macros ''UDMA_I2S_RX_SIZE_CH0_RX_SIZE'' (17, 0) (17, 0) (17, 0) 0, Macros ''UDMA_I2S_RX_CFG_CH0_CONTINOUS'' (1, 0) (1, 0) (1, 0) 0,
     Macros ''UDMA_I2S_RX_CFG_CH0_DATASIZE'' (2, 1) (2, 1) (2, 1) 1, Macros ''UDMA_I2S_RX_CFG_CH0_EN'' (1, 4) (1, 4) (1, 4) 4,
     Macros ''UDMA_I2S_RX_CFG_CH0_CLR'' (1, 5) (1, 5) (1, 5) 5, Macros ''UDMA_I2S_RX_CFG_CH0_PENDING'' (1, 5) (1, 5) (1, 5) 5,
     Macros ''UDMA_I2S_RX_SADDR_CH1_TX_SADDR'' (16, 0) (16, 0) (16, 0) 0,
     Macros ''UDMA_I2S_RX_SIZE_CH1_TX_SIZE'' (17, 0) (17, 0) (17, 0) 0, Macros ''UDMA_I2S_RX_CFG_CH1_CONTINOUS'' (1, 0) (1, 0) (1, 0) 0,
     Macros ''UDMA_I2S_RX_CFG_CH1_DATASIZE'' (2, 1) (2, 1) (2, 1) 1, Macros ''UDMA_I2S_RX_CFG_CH1_EN'' (1, 4) (1, 4) (1, 4) 4,
     Macros ''UDMA_I2S_RX_CFG_CH1_CLR'' (1, 5) (1, 5) (1, 5) 5, Macros ''UDMA_I2S_RX_CFG_CH1_PENDING'' (1, 5) (1, 5) (1, 5) 5,
     Macros ''UDMA_I2S_CFG_EXT_EXT_BITS_WORD'' (5, 0) (5, 0) (5, 0) 0, Macros ''UDMA_I2S_CFG_CLKGEN0_BITS_WORD'' (5, 0) (5, 0) (5, 0) 0,
     Macros ''UDMA_I2S_CFG_CLKGEN0_CLK_EN'' (1, 8) (1, 8) (1, 8) 8, Macros ''UDMA_I2S_CFG_CLKGEN0_CLK_DIV'' (16, 16) (16, 16) (16, 16) 16,
     Macros ''UDMA_I2S_CFG_CLKGEN1_BITS_WORD'' (5, 0) (5, 0) (5, 0) 0, Macros ''UDMA_I2S_CFG_CLKGEN1_CLK_EN'' (1, 8) (1, 8) (1, 8) 8,
     Macros ''UDMA_I2S_CFG_CLKGEN1_CLK_DIV'' (16, 16) (16, 16) (16, 16) 16,
     Macros ''UDMA_I2S_CHMODE_CH0_LSB_FIRST'' (1, 4) (1, 4) (1, 4) 4, Macros ''UDMA_I2S_CHMODE_CH0_PDM_USEFILTER'' (1, 8) (1, 8) (1, 8) 8,
     Macros ''UDMA_I2S_CHMODE_CH0_PDM_EN'' (1, 12) (1, 12) (1, 12) 12, Macros ''UDMA_I2S_CHMODE_CH0_USEDDR'' (1, 16) (1, 16) (1, 16) 16,
     Macros ''UDMA_I2S_CHMODE_CH0_MODE'' (2, 24) (2, 24) (2, 24) 24, Macros ''UDMA_I2S_CHMODE_CH1_LSB_FIRST'' (1, 5) (1, 5) (1, 5) 5,
     Macros ''UDMA_I2S_CHMODE_CH1_PDM_USEFILTER'' (1, 9) (1, 9) (1, 9) 9,
     Macros ''UDMA_I2S_CHMODE_CH1_PDM_EN'' (1, 13) (1, 13) (1, 13) 13, Macros ''UDMA_I2S_CHMODE_CH1_USEDDR'' (1, 17) (1, 17) (1, 17) 17]"

definition i2s_v1_macros_2 :: "macro_row list" where
  "i2s_v1_macros_2 = [
     Macros ''UDMA_I2S_CHMODE_CH1_MODE'' (2, 26) (2, 26) (2, 26) 26, Macros ''UDMA_I2S_FILT_CH0_DECIMATION'' (10, 0) (10, 0) (10, 0) 0,
     Macros ''UDMA_I2S_FILT_CH0_SHIFT'' (3, 16) (3, 16) (3, 16) 16, Macros ''UDMA_I2S_FILT_CH1_DECIMATION'' (10, 0) (10, 0) (10, 0) 0,
     Macros ''UDMA_I2S_FILT_CH1_SHIFT'' (3, 16) (3, 16) (3, 16) 16]"

definition i2s_v1_map :: register_map where
  "i2s_v1_map = \<lparr>hdr_regs = i2s_v1_regs,
     hdr_fields = i2s_v1_fields_1 @ i2s_v1_fields_2,
     hdr_resets = [],
     hdr_structs = i2s_v1_structs,
     hdr_access = i2s_v1_access,
     hdr_macros = i2s_v1_macros_1 @ i2s_v1_macros_2\<rparr>"

lemmas i2s_v1_tables = i2s_v1_map_def i2s_v1_regs_def i2s_v1_fields_1_def i2s_v1_fields_2_def i2s_v1_structs_def i2s_v1_access_def 
  i2s_v1_macros_1_def i2s_v1_macros_2_def

interpretation i2s_v1: register_addresses i2s_v1_map
  by unfold_locales (simp_all add: check_header i2s_v1_tables)

section \<open>\<^verbatim>\<open>udma/i2s/udma_i2s_v2.h\<close>\<close>

definition i2s_v2_regs :: "reg_row list" where
  "i2s_v2_regs = [
     Reg ''UDMA_I2S_I2S_RX_SADDR'' 0x0, Reg ''UDMA_I2S_I2S_RX_SIZE'' 0x4, Reg ''UDMA_I2S_I2S_RX_CFG'' 0x8,
     Reg ''UDMA_I2S_I2S_RX_INITCFG'' 0xC, Reg ''UDMA_I2S_I2S_TX_SADDR'' 0x10, Reg ''UDMA_I2S_I2S_TX_SIZE'' 0x14,
     Reg ''UDMA_I2S_I2S_TX_CFG'' 0x18, Reg ''UDMA_I2S_I2S_TX_INITCFG'' 0x1C, Reg ''UDMA_I2S_I2S_CLKCFG_SETUP'' 0x20,
     Reg ''UDMA_I2S_I2S_SLV_SETUP'' 0x24, Reg ''UDMA_I2S_I2S_MST_SETUP'' 0x28, Reg ''UDMA_I2S_I2S_PDM_SETUP'' 0x2C]"

definition i2s_v2_fields_1 :: "field_row list" where
  "i2s_v2_fields_1 = [
     Field ''UDMA_I2S_I2S_RX_SADDR_RX_SADDR'' 0 16 0xFFFF, Field ''UDMA_I2S_I2S_RX_SIZE_RX_SIZE'' 0 17 0x1FFFF,
     Field ''UDMA_I2S_I2S_RX_CFG_CONTINOUS'' 0 1 0x1, Field ''UDMA_I2S_I2S_RX_CFG_DATASIZE'' 1 2 0x6,
     Field ''UDMA_I2S_I2S_RX_CFG_EN'' 4 1 0x10, Field ''UDMA_I2S_I2S_RX_CFG_CLR'' 5 1 0x20,
     Field ''UDMA_I2S_I2S_RX_CFG_PENDING'' 5 1 0x20, Field ''UDMA_I2S_I2S_TX_SADDR_TX_SADDR'' 0 16 0xFFFF,
     Field ''UDMA_I2S_I2S_TX_SIZE_TX_SIZE'' 0 17 0x1FFFF, Field ''UDMA_I2S_I2S_TX_CFG_CONTINOUS'' 0 1 0x1,
     Field ''UDMA_I2S_I2S_TX_CFG_DATASIZE'' 1 2 0x6, Field ''UDMA_I2S_I2S_TX_CFG_EN'' 4 1 0x10,
     Field ''UDMA_I2S_I2S_TX_CFG_CLR'' 5 1 0x20, Field ''UDMA_I2S_I2S_TX_CFG_PENDING'' 5 1 0x20,
     Field ''UDMA_I2S_I2S_CLKCFG_SETUP_MASTER_CLK_DIV'' 0 8 0xFF, Field ''UDMA_I2S_I2S_CLKCFG_SETUP_SLAVE_CLK_DIV'' 8 8 0xFF00,
     Field ''UDMA_I2S_I2S_CLKCFG_SETUP_COMMON_CLK_DIV'' 16 8 0xFF0000, Field ''UDMA_I2S_I2S_CLKCFG_SETUP_SLAVE_CLK_EN'' 24 1 0x1000000,
     Field ''UDMA_I2S_I2S_CLKCFG_SETUP_MASTER_CLK_EN'' 25 1 0x2000000, Field ''UDMA_I2S_I2S_CLKCFG_SETUP_PDM_CLK_EN'' 26 1 0x4000000,
     Field ''UDMA_I2S_I2S_CLKCFG_SETUP_SLAVE_EXT'' 28 1 0x10000000, Field ''UDMA_I2S_I2S_CLKCFG_SETUP_SLAVE_NUM'' 29 1 0x20000000,
     Field ''UDMA_I2S_I2S_CLKCFG_SETUP_MASTER_EXT'' 30 1 0x40000000, Field ''UDMA_I2S_I2S_CLKCFG_SETUP_MASTER_NUM'' 31 1 0x80000000,
     Field ''UDMA_I2S_I2S_SLV_SETUP_SLAVE_WORDS'' 0 3 0x7, Field ''UDMA_I2S_I2S_SLV_SETUP_SLAVE_BITS'' 8 5 0x1F00,
     Field ''UDMA_I2S_I2S_SLV_SETUP_SLAVE_LSB'' 16 1 0x10000, Field ''UDMA_I2S_I2S_SLV_SETUP_SLAVE_2CH'' 17 1 0x20000,
     Field ''UDMA_I2S_I2S_SLV_SETUP_SLAVE_EN'' 31 1 0x80000000, Field ''UDMA_I2S_I2S_MST_SETUP_MASTER_WORDS'' 0 3 0x7]"

definition i2s_v2_fields_2 :: "field_row list" where
  "i2s_v2_fields_2 = [
     Field ''UDMA_I2S_I2S_MST_SETUP_MASTER_BITS'' 8 5 0x1F00, Field ''UDMA_I2S_I2S_MST_SETUP_MASTER_LSB'' 16 1 0x10000,
     Field ''UDMA_I2S_I2S_MST_SETUP_MASTER_2CH'' 17 1 0x20000, Field ''UDMA_I2S_I2S_MST_SETUP_MASTER_EN'' 31 1 0x80000000,
     Field ''UDMA_I2S_I2S_PDM_SETUP_PDM_SHIFT'' 0 3 0x7, Field ''UDMA_I2S_I2S_PDM_SETUP_PDM_DECIMATION'' 3 10 0x1FF8,
     Field ''UDMA_I2S_I2S_PDM_SETUP_PDM_MODE'' 13 2 0x6000, Field ''UDMA_I2S_I2S_PDM_SETUP_PDM_EN'' 31 1 0x80000000]"

definition i2s_v2_structs :: "struct_row list" where
  "i2s_v2_structs = [
     Struct ''udma_i2s_i2s_rx_saddr'' [Bits ''rx_saddr'' 16], Struct ''udma_i2s_i2s_rx_size'' [Bits ''rx_size'' 17],
     Struct ''udma_i2s_i2s_rx_cfg'' [Bits ''continous'' 1, Bits ''datasize'' 2, Padding 1, Bits ''en'' 1, Bits ''clr'' 1,
       Bits ''pending'' 1],
     Struct ''udma_i2s_i2s_rx_initcfg'' [], Struct ''udma_i2s_i2s_tx_saddr'' [Bits ''tx_saddr'' 16],
     Struct ''udma_i2s_i2s_tx_size'' [Bits ''tx_size'' 17],
     Struct ''udma_i2s_i2s_tx_cfg'' [Bits ''continous'' 1, Bits ''datasize'' 2, Padding 1, Bits ''en'' 1, Bits ''clr'' 1,
       Bits ''pending'' 1],
     Struct ''udma_i2s_i2s_tx_initcfg'' [],
     Struct ''udma_i2s_i2s_clkcfg_setup'' [Bits ''master_clk_div'' 8, Bits ''slave_clk_div'' 8, Bits ''common_clk_div'' 8,
       Bits ''slave_clk_en'' 1, Bits ''master_clk_en'' 1, Bits ''pdm_clk_en'' 1, Padding 1, Bits ''slave_ext'' 1, Bits ''slave_num'' 1,
       Bits ''master_ext'' 1, Bits ''master_num'' 1],
     Struct ''udma_i2s_i2s_slv_setup'' [Bits ''slave_words'' 3, Padding 5, Bits ''slave_bits'' 5, Padding 3, Bits ''slave_lsb'' 1,
       Bits ''slave_2ch'' 1, Padding 13, Bits ''slave_en'' 1],
     Struct ''udma_i2s_i2s_mst_setup'' [Bits ''master_words'' 3, Padding 5, Bits ''master_bits'' 5, Padding 3, Bits ''master_lsb'' 1,
       Bits ''master_2ch'' 1, Padding 13, Bits ''master_en'' 1],
     Struct ''udma_i2s_i2s_pdm_setup'' [Bits ''pdm_shift'' 3, Bits ''pdm_decimation'' 10, Bits ''pdm_mode'' 2, Padding 16,
       Bits ''pdm_en'' 1]]"

definition i2s_v2_access :: "access_row list" where
  "i2s_v2_access = [
     Getter ''udma_i2s_i2s_rx_saddr'' ''UDMA_I2S_I2S_RX_SADDR'', Setter ''udma_i2s_i2s_rx_saddr'' ''UDMA_I2S_I2S_RX_SADDR'',
     Getter ''udma_i2s_i2s_rx_size'' ''UDMA_I2S_I2S_RX_SIZE'', Setter ''udma_i2s_i2s_rx_size'' ''UDMA_I2S_I2S_RX_SIZE'',
     Getter ''udma_i2s_i2s_rx_cfg'' ''UDMA_I2S_I2S_RX_CFG'', Setter ''udma_i2s_i2s_rx_cfg'' ''UDMA_I2S_I2S_RX_CFG'',
     Getter ''udma_i2s_i2s_rx_initcfg'' ''UDMA_I2S_I2S_RX_INITCFG'', Setter ''udma_i2s_i2s_rx_initcfg'' ''UDMA_I2S_I2S_RX_INITCFG'',
     Getter ''udma_i2s_i2s_tx_saddr'' ''UDMA_I2S_I2S_TX_SADDR'', Setter ''udma_i2s_i2s_tx_saddr'' ''UDMA_I2S_I2S_TX_SADDR'',
     Getter ''udma_i2s_i2s_tx_size'' ''UDMA_I2S_I2S_TX_SIZE'', Setter ''udma_i2s_i2s_tx_size'' ''UDMA_I2S_I2S_TX_SIZE'',
     Getter ''udma_i2s_i2s_tx_cfg'' ''UDMA_I2S_I2S_TX_CFG'', Setter ''udma_i2s_i2s_tx_cfg'' ''UDMA_I2S_I2S_TX_CFG'',
     Getter ''udma_i2s_i2s_tx_initcfg'' ''UDMA_I2S_I2S_TX_INITCFG'', Setter ''udma_i2s_i2s_tx_initcfg'' ''UDMA_I2S_I2S_TX_INITCFG'',
     Getter ''udma_i2s_i2s_clkcfg_setup'' ''UDMA_I2S_I2S_CLKCFG_SETUP'',
     Setter ''udma_i2s_i2s_clkcfg_setup'' ''UDMA_I2S_I2S_CLKCFG_SETUP'', Getter ''udma_i2s_i2s_slv_setup'' ''UDMA_I2S_I2S_SLV_SETUP'',
     Setter ''udma_i2s_i2s_slv_setup'' ''UDMA_I2S_I2S_SLV_SETUP'', Getter ''udma_i2s_i2s_mst_setup'' ''UDMA_I2S_I2S_MST_SETUP'',
     Setter ''udma_i2s_i2s_mst_setup'' ''UDMA_I2S_I2S_MST_SETUP'', Getter ''udma_i2s_i2s_pdm_setup'' ''UDMA_I2S_I2S_PDM_SETUP'',
     Setter ''udma_i2s_i2s_pdm_setup'' ''UDMA_I2S_I2S_PDM_SETUP'']"

definition i2s_v2_macros_1 :: "macro_row list" where
  "i2s_v2_macros_1 = [
     Macros ''UDMA_I2S_I2S_RX_SADDR_RX_SADDR'' (16, 0) (16, 0) (16, 0) 0,
     Macros ''UDMA_I2S_I2S_RX_SIZE_RX_SIZE'' (17, 0) (17, 0) (17, 0) 0, Macros ''UDMA_I2S_I2S_RX_CFG_CONTINOUS'' (1, 0) (1, 0) (1, 0) 0,
     Macros ''UDMA_I2S_I2S_RX_CFG_DATASIZE'' (2, 1) (2, 1) (2, 1) 1, Macros ''UDMA_I2S_I2S_RX_CFG_EN'' (1, 4) (1, 4) (1, 4) 4,
     Macros ''UDMA_I2S_I2S_RX_CFG_CLR'' (1, 5) (1, 5) (1, 5) 5, Macros ''UDMA_I2S_I2S_RX_CFG_PENDING'' (1, 5) (1, 5) (1, 5) 5,
     Macros ''UDMA_I2S_I2S_TX_SADDR_TX_SADDR'' (16, 0) (16, 0) (16, 0) 0,
     Macros ''UDMA_I2S_I2S_TX_SIZE_TX_SIZE'' (17, 0) (17, 0) (17, 0) 0, Macros ''UDMA_I2S_I2S_TX_CFG_CONTINOUS'' (1, 0) (1, 0) (1, 0) 0,
     Macros ''UDMA_I2S_I2S_TX_CFG_DATASIZE'' (2, 1) (2, 1) (2, 1) 1, Macros ''UDMA_I2S_I2S_TX_CFG_EN'' (1, 4) (1, 4) (1, 4) 4,
     Macros ''UDMA_I2S_I2S_TX_CFG_CLR'' (1, 5) (1, 5) (1, 5) 5, Macros ''UDMA_I2S_I2S_TX_CFG_PENDING'' (1, 5) (1, 5) (1, 5) 5,
     Macros ''UDMA_I2S_I2S_CLKCFG_SETUP_MASTER_CLK_DIV'' (8, 0) (8, 0) (8, 0) 0,
     Macros ''UDMA_I2S_I2S_CLKCFG_SETUP_SLAVE_CLK_DIV'' (8, 8) (8, 8) (8, 8) 8,
     Macros ''UDMA_I2S_I2S_CLKCFG_SETUP_COMMON_CLK_DIV'' (8, 16) (8, 16) (8, 16) 16,
     Macros ''UDMA_I2S_I2S_CLKCFG_SETUP_SLAVE_CLK_EN'' (1, 24) (1, 24) (1, 24) 24,
     Macros ''UDMA_I2S_I2S_CLKCFG_SETUP_MASTER_CLK_EN'' (1, 25) (1, 25) (1, 25) 25,
     Macros ''UDMA_I2S_I2S_CLKCFG_SETUP_PDM_CLK_EN'' (1, 26) (1, 26) (1, 26) 26,
     Macros ''UDMA_I2S_I2S_CLKCFG_SETUP_SLAVE_EXT'' (1, 28) (1, 28) (1, 28) 28,
     Macros ''UDMA_I2S_I2S_CLKCFG_SETUP_SLAVE_NUM'' (1, 29) (1, 29) (1, 29) 29,
     Macros ''UDMA_I2S_I2S_CLKCFG_SETUP_MASTER_EXT'' (1, 30) (1, 30) (1, 30) 30,
     Macros ''UDMA_I2S_I2S_CLKCFG_SETUP_MASTER_NUM'' (1, 31) (1, 31) (1, 31) 31,
     Macros ''UDMA_I2S_I2S_SLV_SETUP_SLAVE_WORDS'' (3, 0) (3, 0) (3, 0) 0,
     Macros ''UDMA_I2S_I2S_SLV_SETUP_SLAVE_BITS'' (5, 8) (5, 8) (5, 8) 8,
     Macros ''UDMA_I2S_I2S_SLV_SETUP_SLAVE_LSB'' (1, 16) (1, 16) (1, 16) 16,
     Macros ''UDMA_I2S_I2S_SLV_SETUP_SLAVE_2CH'' (1, 17) (1, 17) (1, 17) 17,
     Macros ''UDMA_I2S_I2S_SLV_SETUP_SLAVE_EN'' (1, 31) (1, 31) (1, 31) 31,
     Macros ''UDMA_I2S_I2S_MST_SETUP_MASTER_WORDS'' (3, 0) (3, 0) (3, 0) 0]"

definition i2s_v2_macros_2 :: "macro_row list" where
  "i2s_v2_macros_2 = [
     Macros ''UDMA_I2S_I2S_MST_SETUP_MASTER_BITS'' (5, 8) (5, 8) (5, 8) 8,
     Macros ''UDMA_I2S_I2S_MST_SETUP_MASTER_LSB'' (1, 16) (1, 16) (1, 16) 16,
     Macros ''UDMA_I2S_I2S_MST_SETUP_MASTER_2CH'' (1, 17) (1, 17) (1, 17) 17,
     Macros ''UDMA_I2S_I2S_MST_SETUP_MASTER_EN'' (1, 31) (1, 31) (1, 31) 31,
     Macros ''UDMA_I2S_I2S_PDM_SETUP_PDM_SHIFT'' (3, 0) (3, 0) (3, 0) 0,
     Macros ''UDMA_I2S_I2S_PDM_SETUP_PDM_DECIMATION'' (10, 3) (10, 3) (10, 3) 3,
     Macros ''UDMA_I2S_I2S_PDM_SETUP_PDM_MODE'' (2, 13) (2, 13) (2, 13) 13,
     Macros ''UDMA_I2S_I2S_PDM_SETUP_PDM_EN'' (1, 31) (1, 31) (1, 31) 31]"

definition i2s_v2_map :: register_map where
  "i2s_v2_map = \<lparr>hdr_regs = i2s_v2_regs,
     hdr_fields = i2s_v2_fields_1 @ i2s_v2_fields_2,
     hdr_resets = [],
     hdr_structs = i2s_v2_structs,
     hdr_access = i2s_v2_access,
     hdr_macros = i2s_v2_macros_1 @ i2s_v2_macros_2\<rparr>"

lemmas i2s_v2_tables = i2s_v2_map_def i2s_v2_regs_def i2s_v2_fields_1_def i2s_v2_fields_2_def i2s_v2_structs_def i2s_v2_access_def 
  i2s_v2_macros_1_def i2s_v2_macros_2_def

interpretation i2s_v2: register_addresses i2s_v2_map
  by unfold_locales (simp_all add: check_header i2s_v2_tables)

section \<open>\<^verbatim>\<open>udma/i2s/v3/udma_i2s_v3_regs.h\<close>, \<^verbatim>\<open>_regfields.h\<close>, \<^verbatim>\<open>_structs.h\<close>, \<^verbatim>\<open>_accessors.h\<close> and \<^verbatim>\<open>_macros.h\<close>\<close>

definition i2s_v3_regs :: "reg_row list" where
  "i2s_v3_regs = [
     Reg ''UDMA_I2S_I2S_RX_SADDR'' 0x0, Reg ''UDMA_I2S_I2S_RX_SIZE'' 0x4, Reg ''UDMA_I2S_I2S_RX_CFG'' 0x8,
     Reg ''UDMA_I2S_I2S_RX_INITCFG'' 0xC, Reg ''UDMA_I2S_I2S_TX_SADDR'' 0x10, Reg ''UDMA_I2S_I2S_TX_SIZE'' 0x14,
     Reg ''UDMA_I2S_I2S_TX_CFG'' 0x18, Reg ''UDMA_I2S_I2S_TX_INITCFG'' 0x1C, Reg ''UDMA_I2S_I2S_CLKCFG_SETUP'' 0x20,
     Reg ''UDMA_I2S_I2S_SLV_SETUP'' 0x24, Reg ''UDMA_I2S_I2S_MST_SETUP'' 0x28, Reg ''UDMA_I2S_I2S_PDM_SETUP'' 0x2C]"

definition i2s_v3_fields_1 :: "field_row list" where
  "i2s_v3_fields_1 = [
     Field ''UDMA_I2S_I2S_RX_SADDR_RX_SADDR'' 0 16 0xFFFF, Field ''UDMA_I2S_I2S_RX_SIZE_RX_SIZE'' 0 17 0x1FFFF,
     Field ''UDMA_I2S_I2S_RX_CFG_CONTINOUS'' 0 1 0x1, Field ''UDMA_I2S_I2S_RX_CFG_DATASIZE'' 1 2 0x6,
     Field ''UDMA_I2S_I2S_RX_CFG_EN'' 4 1 0x10, Field ''UDMA_I2S_I2S_RX_CFG_CLR'' 5 1 0x20,
     Field ''UDMA_I2S_I2S_RX_CFG_PENDING'' 5 1 0x20, Field ''UDMA_I2S_I2S_TX_SADDR_TX_SADDR'' 0 16 0xFFFF,
     Field ''UDMA_I2S_I2S_TX_SIZE_TX_SIZE'' 0 17 0x1FFFF, Field ''UDMA_I2S_I2S_TX_CFG_CONTINOUS'' 0 1 0x1,
     Field ''UDMA_I2S_I2S_TX_CFG_DATASIZE'' 1 2 0x6, Field ''UDMA_I2S_I2S_TX_CFG_EN'' 4 1 0x10,
     Field ''UDMA_I2S_I2S_TX_CFG_CLR'' 5 1 0x20, Field ''UDMA_I2S_I2S_TX_CFG_PENDING'' 5 1 0x20,
     Field ''UDMA_I2S_I2S_CLKCFG_SETUP_MASTER_CLK_DIV'' 0 8 0xFF, Field ''UDMA_I2S_I2S_CLKCFG_SETUP_SLAVE_CLK_DIV'' 8 8 0xFF00,
     Field ''UDMA_I2S_I2S_CLKCFG_SETUP_COMMON_CLK_DIV'' 16 8 0xFF0000, Field ''UDMA_I2S_I2S_CLKCFG_SETUP_SLAVE_CLK_EN'' 24 1 0x1000000,
     Field ''UDMA_I2S_I2S_CLKCFG_SETUP_MASTER_CLK_EN'' 25 1 0x2000000, Field ''UDMA_I2S_I2S_CLKCFG_SETUP_PDM_CLK_EN'' 26 1 0x4000000,
     Field ''UDMA_I2S_I2S_CLKCFG_SETUP_SLAVE_EXT'' 28 1 0x10000000, Field ''UDMA_I2S_I2S_CLKCFG_SETUP_SLAVE_NUM'' 29 1 0x20000000,
     Field ''UDMA_I2S_I2S_CLKCFG_SETUP_MASTER_EXT'' 30 1 0x40000000, Field ''UDMA_I2S_I2S_CLKCFG_SETUP_MASTER_NUM'' 31 1 0x80000000,
     Field ''UDMA_I2S_I2S_SLV_SETUP_SLAVE_WORDS'' 0 3 0x7, Field ''UDMA_I2S_I2S_SLV_SETUP_SLAVE_BITS'' 8 5 0x1F00,
     Field ''UDMA_I2S_I2S_SLV_SETUP_SLAVE_LSB'' 16 1 0x10000, Field ''UDMA_I2S_I2S_SLV_SETUP_SLAVE_2CH'' 17 1 0x20000,
     Field ''UDMA_I2S_I2S_SLV_SETUP_SLAVE_EN'' 31 1 0x80000000, Field ''UDMA_I2S_I2S_MST_SETUP_MASTER_WORDS'' 0 3 0x7]"

definition i2s_v3_fields_2 :: "field_row list" where
  "i2s_v3_fields_2 = [
     Field ''UDMA_I2S_I2S_MST_SETUP_MASTER_BITS'' 8 5 0x1F00, Field ''UDMA_I2S_I2S_MST_SETUP_MASTER_LSB'' 16 1 0x10000,
     Field ''UDMA_I2S_I2S_MST_SETUP_MASTER_2CH'' 17 1 0x20000, Field ''UDMA_I2S_I2S_MST_SETUP_MASTER_EN'' 31 1 0x80000000,
     Field ''UDMA_I2S_I2S_PDM_SETUP_PDM_SHIFT'' 0 3 0x7, Field ''UDMA_I2S_I2S_PDM_SETUP_PDM_DECIMATION'' 3 10 0x1FF8,
     Field ''UDMA_I2S_I2S_PDM_SETUP_PDM_MODE'' 13 2 0x6000, Field ''UDMA_I2S_I2S_PDM_SETUP_PDM_EN'' 31 1 0x80000000]"

definition i2s_v3_structs :: "struct_row list" where
  "i2s_v3_structs = [
     Struct ''udma_i2s_i2s_rx_saddr'' [Bits ''rx_saddr'' 16], Struct ''udma_i2s_i2s_rx_size'' [Bits ''rx_size'' 17],
     Struct ''udma_i2s_i2s_rx_cfg'' [Bits ''continous'' 1, Bits ''datasize'' 2, Padding 1, Bits ''en'' 1, Bits ''clr'' 1,
       Bits ''pending'' 1],
     Struct ''udma_i2s_i2s_rx_initcfg'' [], Struct ''udma_i2s_i2s_tx_saddr'' [Bits ''tx_saddr'' 16],
     Struct ''udma_i2s_i2s_tx_size'' [Bits ''tx_size'' 17],
     Struct ''udma_i2s_i2s_tx_cfg'' [Bits ''continous'' 1, Bits ''datasize'' 2, Padding 1, Bits ''en'' 1, Bits ''clr'' 1,
       Bits ''pending'' 1],
     Struct ''udma_i2s_i2s_tx_initcfg'' [],
     Struct ''udma_i2s_i2s_clkcfg_setup'' [Bits ''master_clk_div'' 8, Bits ''slave_clk_div'' 8, Bits ''common_clk_div'' 8,
       Bits ''slave_clk_en'' 1, Bits ''master_clk_en'' 1, Bits ''pdm_clk_en'' 1, Padding 1, Bits ''slave_ext'' 1, Bits ''slave_num'' 1,
       Bits ''master_ext'' 1, Bits ''master_num'' 1],
     Struct ''udma_i2s_i2s_slv_setup'' [Bits ''slave_words'' 3, Padding 5, Bits ''slave_bits'' 5, Padding 3, Bits ''slave_lsb'' 1,
       Bits ''slave_2ch'' 1, Padding 13, Bits ''slave_en'' 1],
     Struct ''udma_i2s_i2s_mst_setup'' [Bits ''master_words'' 3, Padding 5, Bits ''master_bits'' 5, Padding 3, Bits ''master_lsb'' 1,
       Bits ''master_2ch'' 1, Padding 13, Bits ''master_en'' 1],
     Struct ''udma_i2s_i2s_pdm_setup'' [Bits ''pdm_shift'' 3, Bits ''pdm_decimation'' 10, Bits ''pdm_mode'' 2, Padding 16,
       Bits ''pdm_en'' 1]]"

definition i2s_v3_access :: "access_row list" where
  "i2s_v3_access = [
     Getter ''udma_i2s_i2s_rx_saddr'' ''UDMA_I2S_I2S_RX_SADDR'', Setter ''udma_i2s_i2s_rx_saddr'' ''UDMA_I2S_I2S_RX_SADDR'',
     Getter ''udma_i2s_i2s_rx_size'' ''UDMA_I2S_I2S_RX_SIZE'', Setter ''udma_i2s_i2s_rx_size'' ''UDMA_I2S_I2S_RX_SIZE'',
     Getter ''udma_i2s_i2s_rx_cfg'' ''UDMA_I2S_I2S_RX_CFG'', Setter ''udma_i2s_i2s_rx_cfg'' ''UDMA_I2S_I2S_RX_CFG'',
     Getter ''udma_i2s_i2s_rx_initcfg'' ''UDMA_I2S_I2S_RX_INITCFG'', Setter ''udma_i2s_i2s_rx_initcfg'' ''UDMA_I2S_I2S_RX_INITCFG'',
     Getter ''udma_i2s_i2s_tx_saddr'' ''UDMA_I2S_I2S_TX_SADDR'', Setter ''udma_i2s_i2s_tx_saddr'' ''UDMA_I2S_I2S_TX_SADDR'',
     Getter ''udma_i2s_i2s_tx_size'' ''UDMA_I2S_I2S_TX_SIZE'', Setter ''udma_i2s_i2s_tx_size'' ''UDMA_I2S_I2S_TX_SIZE'',
     Getter ''udma_i2s_i2s_tx_cfg'' ''UDMA_I2S_I2S_TX_CFG'', Setter ''udma_i2s_i2s_tx_cfg'' ''UDMA_I2S_I2S_TX_CFG'',
     Getter ''udma_i2s_i2s_tx_initcfg'' ''UDMA_I2S_I2S_TX_INITCFG'', Setter ''udma_i2s_i2s_tx_initcfg'' ''UDMA_I2S_I2S_TX_INITCFG'',
     Getter ''udma_i2s_i2s_clkcfg_setup'' ''UDMA_I2S_I2S_CLKCFG_SETUP'',
     Setter ''udma_i2s_i2s_clkcfg_setup'' ''UDMA_I2S_I2S_CLKCFG_SETUP'', Getter ''udma_i2s_i2s_slv_setup'' ''UDMA_I2S_I2S_SLV_SETUP'',
     Setter ''udma_i2s_i2s_slv_setup'' ''UDMA_I2S_I2S_SLV_SETUP'', Getter ''udma_i2s_i2s_mst_setup'' ''UDMA_I2S_I2S_MST_SETUP'',
     Setter ''udma_i2s_i2s_mst_setup'' ''UDMA_I2S_I2S_MST_SETUP'', Getter ''udma_i2s_i2s_pdm_setup'' ''UDMA_I2S_I2S_PDM_SETUP'',
     Setter ''udma_i2s_i2s_pdm_setup'' ''UDMA_I2S_I2S_PDM_SETUP'']"

definition i2s_v3_macros_1 :: "macro_row list" where
  "i2s_v3_macros_1 = [
     Macros ''UDMA_I2S_I2S_RX_SADDR_RX_SADDR'' (16, 0) (16, 0) (16, 0) 0,
     Macros ''UDMA_I2S_I2S_RX_SIZE_RX_SIZE'' (17, 0) (17, 0) (17, 0) 0, Macros ''UDMA_I2S_I2S_RX_CFG_CONTINOUS'' (1, 0) (1, 0) (1, 0) 0,
     Macros ''UDMA_I2S_I2S_RX_CFG_DATASIZE'' (2, 1) (2, 1) (2, 1) 1, Macros ''UDMA_I2S_I2S_RX_CFG_EN'' (1, 4) (1, 4) (1, 4) 4,
     Macros ''UDMA_I2S_I2S_RX_CFG_CLR'' (1, 5) (1, 5) (1, 5) 5, Macros ''UDMA_I2S_I2S_RX_CFG_PENDING'' (1, 5) (1, 5) (1, 5) 5,
     Macros ''UDMA_I2S_I2S_TX_SADDR_TX_SADDR'' (16, 0) (16, 0) (16, 0) 0,
     Macros ''UDMA_I2S_I2S_TX_SIZE_TX_SIZE'' (17, 0) (17, 0) (17, 0) 0, Macros ''UDMA_I2S_I2S_TX_CFG_CONTINOUS'' (1, 0) (1, 0) (1, 0) 0,
     Macros ''UDMA_I2S_I2S_TX_CFG_DATASIZE'' (2, 1) (2, 1) (2, 1) 1, Macros ''UDMA_I2S_I2S_TX_CFG_EN'' (1, 4) (1, 4) (1, 4) 4,
     Macros ''UDMA_I2S_I2S_TX_CFG_CLR'' (1, 5) (1, 5) (1, 5) 5, Macros ''UDMA_I2S_I2S_TX_CFG_PENDING'' (1, 5) (1, 5) (1, 5) 5,
     Macros ''UDMA_I2S_I2S_CLKCFG_SETUP_MASTER_CLK_DIV'' (8, 0) (8, 0) (8, 0) 0,
     Macros ''UDMA_I2S_I2S_CLKCFG_SETUP_SLAVE_CLK_DIV'' (8, 8) (8, 8) (8, 8) 8,
     Macros ''UDMA_I2S_I2S_CLKCFG_SETUP_COMMON_CLK_DIV'' (8, 16) (8, 16) (8, 16) 16,
     Macros ''UDMA_I2S_I2S_CLKCFG_SETUP_SLAVE_CLK_EN'' (1, 24) (1, 24) (1, 24) 24,
     Macros ''UDMA_I2S_I2S_CLKCFG_SETUP_MASTER_CLK_EN'' (1, 25) (1, 25) (1, 25) 25,
     Macros ''UDMA_I2S_I2S_CLKCFG_SETUP_PDM_CLK_EN'' (1, 26) (1, 26) (1, 26) 26,
     Macros ''UDMA_I2S_I2S_CLKCFG_SETUP_SLAVE_EXT'' (1, 28) (1, 28) (1, 28) 28,
     Macros ''UDMA_I2S_I2S_CLKCFG_SETUP_SLAVE_NUM'' (1, 29) (1, 29) (1, 29) 29,
     Macros ''UDMA_I2S_I2S_CLKCFG_SETUP_MASTER_EXT'' (1, 30) (1, 30) (1, 30) 30,
     Macros ''UDMA_I2S_I2S_CLKCFG_SETUP_MASTER_NUM'' (1, 31) (1, 31) (1, 31) 31,
     Macros ''UDMA_I2S_I2S_SLV_SETUP_SLAVE_WORDS'' (3, 0) (3, 0) (3, 0) 0,
     Macros ''UDMA_I2S_I2S_SLV_SETUP_SLAVE_BITS'' (5, 8) (5, 8) (5, 8) 8,
     Macros ''UDMA_I2S_I2S_SLV_SETUP_SLAVE_LSB'' (1, 16) (1, 16) (1, 16) 16,
     Macros ''UDMA_I2S_I2S_SLV_SETUP_SLAVE_2CH'' (1, 17) (1, 17) (1, 17) 17,
     Macros ''UDMA_I2S_I2S_SLV_SETUP_SLAVE_EN'' (1, 31) (1, 31) (1, 31) 31,
     Macros ''UDMA_I2S_I2S_MST_SETUP_MASTER_WORDS'' (3, 0) (3, 0) (3, 0) 0]"

definition i2s_v3_macros_2 :: "macro_row list" where
  "i2s_v3_macros_2 = [
     Macros ''UDMA_I2S_I2S_MST_SETUP_MASTER_BITS'' (5, 8) (5, 8) (5, 8) 8,
     Macros ''UDMA_I2S_I2S_MST_SETUP_MASTER_LSB'' (1, 16) (1, 16) (1, 16) 16,
     Macros ''UDMA_I2S_I2S_MST_SETUP_MASTER_2CH'' (1, 17) (1, 17) (1, 17) 17,
     Macros ''UDMA_I2S_I2S_MST_SETUP_MASTER_EN'' (1, 31) (1, 31) (1, 31) 31,
     Macros ''UDMA_I2S_I2S_PDM_SETUP_PDM_SHIFT'' (3, 0) (3, 0) (3, 0) 0,
     Macros ''UDMA_I2S_I2S_PDM_SETUP_PDM_DECIMATION'' (10, 3) (10, 3) (10, 3) 3,
     Macros ''UDMA_I2S_I2S_PDM_SETUP_PDM_MODE'' (2, 13) (2, 13) (2, 13) 13,
     Macros ''UDMA_I2S_I2S_PDM_SETUP_PDM_EN'' (1, 31) (1, 31) (1, 31) 31]"

definition i2s_v3_map :: register_map where
  "i2s_v3_map = \<lparr>hdr_regs = i2s_v3_regs,
     hdr_fields = i2s_v3_fields_1 @ i2s_v3_fields_2,
     hdr_resets = [],
     hdr_structs = i2s_v3_structs,
     hdr_access = i2s_v3_access,
     hdr_macros = i2s_v3_macros_1 @ i2s_v3_macros_2\<rparr>"

lemmas i2s_v3_tables = i2s_v3_map_def i2s_v3_regs_def i2s_v3_fields_1_def i2s_v3_fields_2_def i2s_v3_structs_def i2s_v3_access_def 
  i2s_v3_macros_1_def i2s_v3_macros_2_def

interpretation i2s_v3: register_addresses i2s_v3_map
  by unfold_locales (simp_all add: check_header i2s_v3_tables)

section \<open>\<^verbatim>\<open>rtc/rtc_v2.h\<close>\<close>

definition rtc_v2_regs :: "reg_row list" where
  "rtc_v2_regs = [
     Reg ''RTC_CLOCK'' 0x0, Reg ''RTC_ALARM'' 0x4, Reg ''RTC_TIMER'' 0x8, Reg ''RTC_DATE'' 0xC]"

definition rtc_v2_fields :: "field_row list" where
  "rtc_v2_fields = [
     Field ''RTC_CLOCK_SECONDS_0'' 0 4 0xF, Field ''RTC_CLOCK_SECONDS_1'' 4 4 0xF0, Field ''RTC_CLOCK_MINUTES_0'' 8 4 0xF00,
     Field ''RTC_CLOCK_MINUTES_1'' 12 4 0xF000, Field ''RTC_CLOCK_HOURS_0'' 16 4 0xF0000, Field ''RTC_CLOCK_HOURS_1'' 20 2 0x300000,
     Field ''RTC_CLOCK_INIT_SEC_COUNT'' 22 10 0xFFC00000, Field ''RTC_ALARM_SECONDS_0'' 0 8 0xFF, Field ''RTC_ALARM_SECONDS_1'' 0 8 0xFF,
     Field ''RTC_ALARM_MINUTES_0'' 8 8 0xFF00, Field ''RTC_ALARM_MINUTES_1'' 8 8 0xFF00, Field ''RTC_ALARM_HOURS_0'' 16 6 0x3F0000,
     Field ''RTC_ALARM_HOURS_1'' 16 6 0x3F0000, Field ''RTC_ALARM_ENABLE'' 31 1 0x80000000, Field ''RTC_TIMER_TARGET'' 0 17 0x1FFFF,
     Field ''RTC_TIMER_RETRIG'' 30 1 0x40000000, Field ''RTC_TIMER_ENABLE'' 31 1 0x80000000, Field ''RTC_DATE_DAY_0'' 0 6 0x3F,
     Field ''RTC_DATE_DAY_1'' 0 6 0x3F, Field ''RTC_DATE_MONTH_0'' 8 5 0x1F00, Field ''RTC_DATE_MONTH_1'' 8 5 0x1F00,
     Field ''RTC_DATE_YEAR_0'' 16 14 0x3FFF0000, Field ''RTC_DATE_YEAR_1'' 16 14 0x3FFF0000]"

definition rtc_v2_structs :: "struct_row list" where
  "rtc_v2_structs = [
     Struct ''rtc_clock'' [Bits ''seconds_0'' 4, Bits ''seconds_1'' 4, Bits ''minutes_0'' 4, Bits ''minutes_1'' 4, Bits ''hours_0'' 4,
       Bits ''hours_1'' 2, Bits ''init_sec_count'' 10],
     Struct ''rtc_alarm'' [Bits ''seconds_0'' 8, Bits ''seconds_1'' 8, Bits ''minutes_0'' 8, Bits ''minutes_1'' 8, Bits ''hours_0'' 6,
       Bits ''hours_1'' 6, Padding 9, Bits ''enable'' 1],
     Struct ''rtc_timer'' [Bits ''target'' 17, Padding 13, Bits ''retrig'' 1, Bits ''enable'' 1],
     Struct ''rtc_date'' [Bits ''day_0'' 6, Bits ''day_1'' 6, Padding 2, Bits ''month_0'' 5, Bits ''month_1'' 5, Padding 3,
       Bits ''year_0'' 14, Bits ''year_1'' 14]]"

definition rtc_v2_access :: "access_row list" where
  "rtc_v2_access = [
     Getter ''rtc_clock'' ''RTC_CLOCK'', Setter ''rtc_clock'' ''RTC_CLOCK'', Getter ''rtc_alarm'' ''RTC_ALARM'',
     Setter ''rtc_alarm'' ''RTC_ALARM'', Getter ''rtc_timer'' ''RTC_TIMER'', Setter ''rtc_timer'' ''RTC_TIMER'',
     Getter ''rtc_date'' ''RTC_DATE'', Setter ''rtc_date'' ''RTC_DATE'']"

definition rtc_v2_macros :: "macro_row list" where
  "rtc_v2_macros = [
     Macros ''RTC_CLOCK_SECONDS_0'' (4, 0) (4, 0) (4, 0) 0, Macros ''RTC_CLOCK_SECONDS_1'' (4, 4) (4, 4) (4, 4) 4,
     Macros ''RTC_CLOCK_MINUTES_0'' (4, 8) (4, 8) (4, 8) 8, Macros ''RTC_CLOCK_MINUTES_1'' (4, 12) (4, 12) (4, 12) 12,
     Macros ''RTC_CLOCK_HOURS_0'' (4, 16) (4, 16) (4, 16) 16, Macros ''RTC_CLOCK_HOURS_1'' (2, 20) (2, 20) (2, 20) 20,
     Macros ''RTC_CLOCK_INIT_SEC_COUNT'' (10, 22) (10, 22) (10, 22) 22, Macros ''RTC_ALARM_SECONDS_0'' (8, 0) (8, 0) (8, 0) 0,
     Macros ''RTC_ALARM_SECONDS_1'' (8, 0) (8, 0) (8, 0) 0, Macros ''RTC_ALARM_MINUTES_0'' (8, 8) (8, 8) (8, 8) 8,
     Macros ''RTC_ALARM_MINUTES_1'' (8, 8) (8, 8) (8, 8) 8, Macros ''RTC_ALARM_HOURS_0'' (6, 16) (6, 16) (6, 16) 16,
     Macros ''RTC_ALARM_HOURS_1'' (6, 16) (6, 16) (6, 16) 16, Macros ''RTC_ALARM_ENABLE'' (1, 31) (1, 31) (1, 31) 31,
     Macros ''RTC_TIMER_TARGET'' (17, 0) (17, 0) (17, 0) 0, Macros ''RTC_TIMER_RETRIG'' (1, 30) (1, 30) (1, 30) 30,
     Macros ''RTC_TIMER_ENABLE'' (1, 31) (1, 31) (1, 31) 31, Macros ''RTC_DATE_DAY_0'' (6, 0) (6, 0) (6, 0) 0,
     Macros ''RTC_DATE_DAY_1'' (6, 0) (6, 0) (6, 0) 0, Macros ''RTC_DATE_MONTH_0'' (5, 8) (5, 8) (5, 8) 8,
     Macros ''RTC_DATE_MONTH_1'' (5, 8) (5, 8) (5, 8) 8, Macros ''RTC_DATE_YEAR_0'' (14, 16) (14, 16) (14, 16) 16,
     Macros ''RTC_DATE_YEAR_1'' (14, 16) (14, 16) (14, 16) 16]"

definition rtc_v2_map :: register_map where
  "rtc_v2_map = \<lparr>hdr_regs = rtc_v2_regs,
     hdr_fields = rtc_v2_fields,
     hdr_resets = [],
     hdr_structs = rtc_v2_structs,
     hdr_access = rtc_v2_access,
     hdr_macros = rtc_v2_macros\<rparr>"

lemmas rtc_v2_tables = rtc_v2_map_def rtc_v2_regs_def rtc_v2_fields_def rtc_v2_structs_def rtc_v2_access_def rtc_v2_macros_def

interpretation rtc_v2: register_addresses rtc_v2_map
  by unfold_locales (simp_all add: check_header rtc_v2_tables)

end
