(* ===== verification/Maps_Maestro.thy ===== *)
theory Maps_Maestro
  imports Register_Maps
begin

text \<open>
  Register maps of the power manager maestro: its controller, its wake-up unit and its islands.
\<close>

section \<open>\<^verbatim>\<open>maestro/maestro_v1_new.h, lines 30-527\<close>\<close>

definition maestro_v1_dlc_regs :: "reg_row list" where
  "maestro_v1_dlc_regs = [
     Reg ''MAESTRO_DLC_PCTRL'' 0x0, Reg ''MAESTRO_PRDATA'' 0x4, Reg ''MAESTRO_DLC_SR'' 0x8, Reg ''MAESTRO_DLC_IMR'' 0xC,
     Reg ''MAESTRO_DLC_IFR'' 0x10, Reg ''MAESTRO_DLC_IOIFR'' 0x14, Reg ''MAESTRO_DLC_IDIFR'' 0x18, Reg ''MAESTRO_DLC_IMCIFR'' 0x1C]"

definition maestro_v1_dlc_fields :: "field_row list" where
  "maestro_v1_dlc_fields = [
     Field ''MAESTRO_DLC_PCTRL_START'' 0 1 0x1, Field ''MAESTRO_DLC_PCTRL_PADDR'' 1 14 0x7FFE,
     Field ''MAESTRO_DLC_PCTRL_DIR'' 15 1 0x8000, Field ''MAESTRO_DLC_PCTRL_PWDATA'' 16 16 0xFFFF0000,
     Field ''MAESTRO_PRDATA_PRDATA'' 0 8 0xFF, Field ''MAESTRO_DLC_SR_PICL_BUSY'' 0 1 0x1, Field ''MAESTRO_DLC_SR_SCU_BUSY'' 1 1 0x2,
     Field ''MAESTRO_DLC_IMR_ICU_OK_MASK'' 0 1 0x1, Field ''MAESTRO_DLC_IMR_ICU_DELAYED_MASK'' 1 1 0x2,
     Field ''MAESTRO_DLC_IMR_ICU_MODE_CHANGED_MASK'' 2 1 0x4, Field ''MAESTRO_DLC_IMR_PICL_OK_MASK'' 3 1 0x8,
     Field ''MAESTRO_DLC_IMR_SCU_OK_MASK'' 4 1 0x10, Field ''MAESTRO_DLC_IFR_ICU_OK_FLAG'' 0 1 0x1,
     Field ''MAESTRO_DLC_IFR_ICU_DELAYED_FLAG'' 1 1 0x2, Field ''MAESTRO_DLC_IFR_ICU_MODE_CHANGED_FLAG'' 2 1 0x4,
     Field ''MAESTRO_DLC_IFR_PICL_OK_FLAG'' 3 1 0x8, Field ''MAESTRO_DLC_IFR_SCU_OK_FLAG'' 4 1 0x10,
     Field ''MAESTRO_DLC_IOIFR_ICU_OK_FLAGS'' 1 31 0xFFFFFFFE, Field ''MAESTRO_DLC_IDIFR_ICU_DELAYED_FLAGS'' 1 31 0xFFFFFFFE,
     Field ''MAESTRO_DLC_IMCIFR_ICU_MODE_CHANGED_FLAGS'' 1 31 0xFFFFFFFE]"

definition maestro_v1_dlc_resets :: "reset_row list" where
  "maestro_v1_dlc_resets = [
     Reset ''MAESTRO_DLC_PCTRL_START'' 0x0, Reset ''MAESTRO_DLC_PCTRL_PADDR'' 0x0, Reset ''MAESTRO_DLC_PCTRL_DIR'' 0x0,
     Reset ''MAESTRO_DLC_PCTRL_PWDATA'' 0x0, Reset ''MAESTRO_PRDATA_PRDATA'' 0x0, Reset ''MAESTRO_DLC_SR_PICL_BUSY'' 0x0,
     Reset ''MAESTRO_DLC_SR_SCU_BUSY'' 0x0, Reset ''MAESTRO_DLC_IMR_ICU_OK_MASK'' 0x0, Reset ''MAESTRO_DLC_IMR_ICU_DELAYED_MASK'' 0x0,
     Reset ''MAESTRO_DLC_IMR_ICU_MODE_CHANGED_MASK'' 0x0, Reset ''MAESTRO_DLC_IMR_PICL_OK_MASK'' 0x0,
     Reset ''MAESTRO_DLC_IMR_SCU_OK_MASK'' 0x0, Reset ''MAESTRO_DLC_IFR_ICU_OK_FLAG'' 0x0, Reset ''MAESTRO_DLC_IFR_ICU_DELAYED_FLAG'' 0x0,
     Reset ''MAESTRO_DLC_IFR_ICU_MODE_CHANGED_FLAG'' 0x0, Reset ''MAESTRO_DLC_IFR_PICL_OK_FLAG'' 0x0,
     Reset ''MAESTRO_DLC_IFR_SCU_OK_FLAG'' 0x0, Reset ''MAESTRO_DLC_IOIFR_ICU_OK_FLAGS'' 0x0,
     Reset ''MAESTRO_DLC_IDIFR_ICU_DELAYED_FLAGS'' 0x0, Reset ''MAESTRO_DLC_IMCIFR_ICU_MODE_CHANGED_FLAGS'' 0x0]"

definition maestro_v1_dlc_structs :: "struct_row list" where
  "maestro_v1_dlc_structs = [
     Struct ''maestro_dlc_pctrl'' [Bits ''start'' 1, Bits ''paddr'' 14, Bits ''dir'' 1, Bits ''pwdata'' 16],
     Struct ''maestro_prdata'' [Bits ''prdata'' 8], Struct ''maestro_dlc_sr'' [Bits ''picl_busy'' 1, Bits ''scu_busy'' 1],
     Struct ''maestro_dlc_imr'' [Bits ''icu_ok_mask'' 1, Bits ''icu_delayed_mask'' 1, Bits ''icu_mode_changed_mask'' 1,
       Bits ''picl_ok_mask'' 1, Bits ''scu_ok_mask'' 1],
     Struct ''maestro_dlc_ifr'' [Bits ''icu_ok_flag'' 1, Bits ''icu_delayed_flag'' 1, Bits ''icu_mode_changed_flag'' 1,
       Bits ''picl_ok_flag'' 1, Bits ''scu_ok_flag'' 1],
     Struct ''maestro_dlc_ioifr'' [Padding 1, Bits ''icu_ok_flags'' 31],
     Struct ''maestro_dlc_idifr'' [Padding 1, Bits ''icu_delayed_flags'' 31],
     Struct ''maestro_dlc_imcifr'' [Padding 1, Bits ''icu_mode_changed_flags'' 31]]"

definition maestro_v1_dlc_access :: "access_row list" where
  "maestro_v1_dlc_access = [
     Getter ''maestro_dlc_pctrl'' ''MAESTRO_DLC_PCTRL'', Setter ''maestro_dlc_pctrl'' ''MAESTRO_DLC_PCTRL'',
     Getter ''maestro_prdata'' ''MAESTRO_PRDATA'', Setter ''maestro_prdata'' ''MAESTRO_PRDATA'',
     Getter ''maestro_dlc_sr'' ''MAESTRO_DLC_SR'', Setter ''maestro_dlc_sr'' ''MAESTRO_DLC_SR'',
     Getter ''maestro_dlc_imr'' ''MAESTRO_DLC_IMR'', Setter ''maestro_dlc_imr'' ''MAESTRO_DLC_IMR'',
     Getter ''maestro_dlc_ifr'' ''MAESTRO_DLC_IFR'', Setter ''maestro_dlc_ifr'' ''MAESTRO_DLC_IFR'',
     Getter ''maestro_dlc_ioifr'' ''MAESTRO_DLC_IOIFR'', Setter ''maestro_dlc_ioifr'' ''MAESTRO_DLC_IOIFR'',
     Getter ''maestro_dlc_idifr'' ''MAESTRO_DLC_IDIFR'', Setter ''maestro_dlc_idifr'' ''MAESTRO_DLC_IDIFR'',
     Getter ''maestro_dlc_imcifr'' ''MAESTRO_DLC_IMCIFR'', Setter ''maestro_dlc_imcifr'' ''MAESTRO_DLC_IMCIFR'']"

definition maestro_v1_dlc_macros :: "macro_row list" where
  "maestro_v1_dlc_macros = [
     Macros ''MAESTRO_DLC_PCTRL_START'' (1, 0) (1, 0) (1, 0) 0, Macros ''MAESTRO_DLC_PCTRL_PADDR'' (14, 1) (14, 1) (14, 1) 1,
     Macros ''MAESTRO_DLC_PCTRL_DIR'' (1, 15) (1, 15) (1, 15) 15, Macros ''MAESTRO_DLC_PCTRL_PWDATA'' (16, 16) (16, 16) (16, 16) 16,
     Macros ''MAESTRO_PRDATA_PRDATA'' (8, 0) (8, 0) (8, 0) 0, Macros ''MAESTRO_DLC_SR_PICL_BUSY'' (1, 0) (1, 0) (1, 0) 0,
     Macros ''MAESTRO_DLC_SR_SCU_BUSY'' (1, 1) (1, 1) (1, 1) 1, Macros ''MAESTRO_DLC_IMR_ICU_OK_MASK'' (1, 0) (1, 0) (1, 0) 0,
     Macros ''MAESTRO_DLC_IMR_ICU_DELAYED_MASK'' (1, 1) (1, 1) (1, 1) 1,
     Macros ''MAESTRO_DLC_IMR_ICU_MODE_CHANGED_MASK'' (1, 2) (1, 2) (1, 2) 2,
     Macros ''MAESTRO_DLC_IMR_PICL_OK_MASK'' (1, 3) (1, 3) (1, 3) 3, Macros ''MAESTRO_DLC_IMR_SCU_OK_MASK'' (1, 4) (1, 4) (1, 4) 4,
     Macros ''MAESTRO_DLC_IFR_ICU_OK_FLAG'' (1, 0) (1, 0) (1, 0) 0, Macros ''MAESTRO_DLC_IFR_ICU_DELAYED_FLAG'' (1, 1) (1, 1) (1, 1) 1,
     Macros ''MAESTRO_DLC_IFR_ICU_MODE_CHANGED_FLAG'' (1, 2) (1, 2) (1, 2) 2,
     Macros ''MAESTRO_DLC_IFR_PICL_OK_FLAG'' (1, 3) (1, 3) (1, 3) 3, Macros ''MAESTRO_DLC_IFR_SCU_OK_FLAG'' (1, 4) (1, 4) (1, 4) 4,
     Macros ''MAESTRO_DLC_IOIFR_ICU_OK_FLAGS'' (31, 1) (31, 1) (31, 1) 1,
     Macros ''MAESTRO_DLC_IDIFR_ICU_DELAYED_FLAGS'' (31, 1) (31, 1) (31, 1) 1,
     Macros ''MAESTRO_DLC_IMCIFR_ICU_MODE_CHANGED_FLAGS'' (31, 1) (31, 1) (31, 1) 1]"

definition maestro_v1_dlc_map :: register_map where
  "maestro_v1_dlc_map = \<lparr>hdr_regs = maestro_v1_dlc_regs,
     hdr_fields = maestro_v1_dlc_fields,
     hdr_resets = maestro_v1_dlc_resets,
     hdr_structs = maestro_v1_dlc_structs,
     hdr_access = maestro_v1_dlc_access,
     hdr_macros = maestro_v1_dlc_macros\<rparr>"

lemmas maestro_v1_dlc_tables = maestro_v1_dlc_map_def maestro_v1_dlc_regs_def maestro_v1_dlc_fields_def maestro_v1_dlc_resets_def maestro_v1_dlc_structs_def maestro_v1_dlc_access_def 
  maestro_v1_dlc_macros_def

interpretation maestro_v1_dlc: aligned_header maestro_v1_dlc_map
  by unfold_locales (simp_all add: check_header maestro_v1_dlc_tables)

section \<open>\<^verbatim>\<open>maestro/maestro_v1_new.h, lines 532-1240\<close>\<close>

definition maestro_v1_wiu_regs :: "reg_row list" where
  "maestro_v1_wiu_regs = [
     Reg ''MAESTRO_WIU_ISPMR_0'' 0x0, Reg ''MAESTRO_WIU_ISPMR_1'' 0x1, Reg ''MAESTRO_WIU_IFR_0'' 0x2, Reg ''MAESTRO_WIU_IFR_1'' 0x3,
     Reg ''MAESTRO_WIU_ICR_0'' 0x4, Reg ''MAESTRO_WIU_ICR_1'' 0x5, Reg ''MAESTRO_WIU_ICR_2'' 0x6, Reg ''MAESTRO_WIU_ICR_3'' 0x7,
     Reg ''MAESTRO_WIU_ICR_4'' 0x8, Reg ''MAESTRO_WIU_ICR_5'' 0x9, Reg ''MAESTRO_WIU_ICR_6'' 0xA, Reg ''MAESTRO_WIU_ICR_7'' 0xB,
     Reg ''MAESTRO_WIU_ICR_8'' 0xC, Reg ''MAESTRO_WIU_ICR_9'' 0xD, Reg ''MAESTRO_WIU_ICR_10'' 0xE, Reg ''MAESTRO_WIU_ICR_11'' 0xF,
     Reg ''MAESTRO_WIU_ICR_12'' 0x10, Reg ''MAESTRO_WIU_ICR_13'' 0x11, Reg ''MAESTRO_WIU_ICR_14'' 0x12, Reg ''MAESTRO_WIU_ICR_15'' 0x13]"

definition maestro_v1_wiu_fields :: "field_row list" where
  "maestro_v1_wiu_fields = [
     Field ''MAESTRO_WIU_ISPMR_0_MASK_MODECHG_EN_IRQ'' 0 8 0xFF, Field ''MAESTRO_WIU_ISPMR_1_MASK_MODECHG_EN_IRQ'' 0 8 0xFF,
     Field ''MAESTRO_WIU_IFR_0_FLAG_IRQ'' 0 8 0xFF, Field ''MAESTRO_WIU_IFR_1_FLAG_IRQ'' 0 8 0xFF,
     Field ''MAESTRO_WIU_ICR_0_SEQ_SEL_IRQ_0'' 0 5 0x1F, Field ''MAESTRO_WIU_ICR_1_SEQ_SEL_IRQ_1'' 0 5 0x1F,
     Field ''MAESTRO_WIU_ICR_2_SEQ_SEL_IRQ_2'' 0 5 0x1F, Field ''MAESTRO_WIU_ICR_3_SEQ_SEL_IRQ_3'' 0 5 0x1F,
     Field ''MAESTRO_WIU_ICR_4_SEQ_SEL_IRQ_4'' 0 5 0x1F, Field ''MAESTRO_WIU_ICR_5_SEQ_SEL_IRQ_5'' 0 5 0x1F,
     Field ''MAESTRO_WIU_ICR_6_SEQ_SEL_IRQ_6'' 0 5 0x1F, Field ''MAESTRO_WIU_ICR_7_SEQ_SEL_IRQ_7'' 0 5 0x1F,
     Field ''MAESTRO_WIU_ICR_8_SEQ_SEL_IRQ_8'' 0 5 0x1F, Field ''MAESTRO_WIU_ICR_9_SEQ_SEL_IRQ_9'' 0 5 0x1F,
     Field ''MAESTRO_WIU_ICR_10_SEQ_SEL_IRQ_10'' 0 5 0x1F, Field ''MAESTRO_WIU_ICR_11_SEQ_SEL_IRQ_11'' 0 5 0x1F,
     Field ''MAESTRO_WIU_ICR_12_SEQ_SEL_IRQ_12'' 0 5 0x1F, Field ''MAESTRO_WIU_ICR_13_SEQ_SEL_IRQ_13'' 0 5 0x1F,
     Field ''MAESTRO_WIU_ICR_14_SEQ_SEL_IRQ_14'' 0 5 0x1F, Field ''MAESTRO_WIU_ICR_15_SEQ_SEL_IRQ_15'' 0 5 0x1F]"

definition maestro_v1_wiu_resets :: "reset_row list" where
  "maestro_v1_wiu_resets = [
     Reset ''MAESTRO_WIU_ISPMR_0_MASK_MODECHG_EN_IRQ'' 0x0, Reset ''MAESTRO_WIU_ISPMR_1_MASK_MODECHG_EN_IRQ'' 0x0,
     Reset ''MAESTRO_WIU_IFR_0_FLAG_IRQ'' 0x0, Reset ''MAESTRO_WIU_IFR_1_FLAG_IRQ'' 0x0, Reset ''MAESTRO_WIU_ICR_0_SEQ_SEL_IRQ_0'' 0x0,
     Reset ''MAESTRO_WIU_ICR_1_SEQ_SEL_IRQ_1'' 0x0, Reset ''MAESTRO_WIU_ICR_2_SEQ_SEL_IRQ_2'' 0x0,
     Reset ''MAESTRO_WIU_ICR_3_SEQ_SEL_IRQ_3'' 0x0, Reset ''MAESTRO_WIU_ICR_4_SEQ_SEL_IRQ_4'' 0x0,
     Reset ''MAESTRO_WIU_ICR_5_SEQ_SEL_IRQ_5'' 0x0, Reset ''MAESTRO_WIU_ICR_6_SEQ_SEL_IRQ_6'' 0x0,
     Reset ''MAESTRO_WIU_ICR_7_SEQ_SEL_IRQ_7'' 0x0, Reset ''MAESTRO_WIU_ICR_8_SEQ_SEL_IRQ_8'' 0x0,
     Reset ''MAESTRO_WIU_ICR_9_SEQ_SEL_IRQ_9'' 0x0, Reset ''MAESTRO_WIU_ICR_10_SEQ_SEL_IRQ_10'' 0x0,
     Reset ''MAESTRO_WIU_ICR_11_SEQ_SEL_IRQ_11'' 0x0, Reset ''MAESTRO_WIU_ICR_12_SEQ_SEL_IRQ_12'' 0x0,
     Reset ''MAESTRO_WIU_ICR_13_SEQ_SEL_IRQ_13'' 0x0, Reset ''MAESTRO_WIU_ICR_14_SEQ_SEL_IRQ_14'' 0x0,
     Reset ''MAESTRO_WIU_ICR_15_SEQ_SEL_IRQ_15'' 0x0]"

definition maestro_v1_wiu_structs :: "struct_row list" where
  "maestro_v1_wiu_structs = [
     Struct ''maestro_wiu_ispmr_0'' [Bits ''mask_modechg_en_irq'' 8], Struct ''maestro_wiu_ispmr_1'' [Bits ''mask_modechg_en_irq'' 8],
     Struct ''maestro_wiu_ifr_0'' [Bits ''flag_irq'' 8], Struct ''maestro_wiu_ifr_1'' [Bits ''flag_irq'' 8],
     Struct ''maestro_wiu_icr_0'' [Bits ''seq_sel_irq_0'' 5], Struct ''maestro_wiu_icr_1'' [Bits ''seq_sel_irq_1'' 5],
     Struct ''maestro_wiu_icr_2'' [Bits ''seq_sel_irq_2'' 5], Struct ''maestro_wiu_icr_3'' [Bits ''seq_sel_irq_3'' 5],
     Struct ''maestro_wiu_icr_4'' [Bits ''seq_sel_irq_4'' 5], Struct ''maestro_wiu_icr_5'' [Bits ''seq_sel_irq_5'' 5],
     Struct ''maestro_wiu_icr_6'' [Bits ''seq_sel_irq_6'' 5], Struct ''maestro_wiu_icr_7'' [Bits ''seq_sel_irq_7'' 5],
     Struct ''maestro_wiu_icr_8'' [Bits ''seq_sel_irq_8'' 5], Struct ''maestro_wiu_icr_9'' [Bits ''seq_sel_irq_9'' 5],
     Struct ''maestro_wiu_icr_10'' [Bits ''seq_sel_irq_10'' 5], Struct ''maestro_wiu_icr_11'' [Bits ''seq_sel_irq_11'' 5],
     Struct ''maestro_wiu_icr_12'' [Bits ''seq_sel_irq_12'' 5], Struct ''maestro_wiu_icr_13'' [Bits ''seq_sel_irq_13'' 5],
     Struct ''maestro_wiu_icr_14'' [Bits ''seq_sel_irq_14'' 5], Struct ''maestro_wiu_icr_15'' [Bits ''seq_sel_irq_15'' 5]]"

definition maestro_v1_wiu_access :: "access_row list" where
  "maestro_v1_wiu_access = [
     Getter ''maestro_wiu_ispmr_0'' ''MAESTRO_WIU_ISPMR_0'', Setter ''maestro_wiu_ispmr_0'' ''MAESTRO_WIU_ISPMR_0'',
     Getter ''maestro_wiu_ispmr_1'' ''MAESTRO_WIU_ISPMR_1'', Setter ''maestro_wiu_ispmr_1'' ''MAESTRO_WIU_ISPMR_1'',
     Getter ''maestro_wiu_ifr_0'' ''MAESTRO_WIU_IFR_0'', Setter ''maestro_wiu_ifr_0'' ''MAESTRO_WIU_IFR_0'',
     Getter ''maestro_wiu_ifr_1'' ''MAESTRO_WIU_IFR_1'', Setter ''maestro_wiu_ifr_1'' ''MAESTRO_WIU_IFR_1'',
     Getter ''maestro_wiu_icr_0'' ''MAESTRO_WIU_ICR_0'', Setter ''maestro_wiu_icr_0'' ''MAESTRO_WIU_ICR_0'',
     Getter ''maestro_wiu_icr_1'' ''MAESTRO_WIU_ICR_1'', Setter ''maestro_wiu_icr_1'' ''MAESTRO_WIU_ICR_1'',
     Getter ''maestro_wiu_icr_2'' ''MAESTRO_WIU_ICR_2'', Setter ''maestro_wiu_icr_2'' ''MAESTRO_WIU_ICR_2'',
     Getter ''maestro_wiu_icr_3'' ''MAESTRO_WIU_ICR_3'', Setter ''maestro_wiu_icr_3'' ''MAESTRO_WIU_ICR_3'',
     Getter ''maestro_wiu_icr_4'' ''MAESTRO_WIU_ICR_4'', Setter ''maestro_wiu_icr_4'' ''MAESTRO_WIU_ICR_4'',
     Getter ''maestro_wiu_icr_5'' ''MAESTRO_WIU_ICR_5'', Setter ''maestro_wiu_icr_5'' ''MAESTRO_WIU_ICR_5'',
     Getter ''maestro_wiu_icr_6'' ''MAESTRO_WIU_ICR_6'', Setter ''maestro_wiu_icr_6'' ''MAESTRO_WIU_ICR_6'',
     Getter ''maestro_wiu_icr_7'' ''MAESTRO_WIU_ICR_7'', Setter ''maestro_wiu_icr_7'' ''MAESTRO_WIU_ICR_7'',
     Getter ''maestro_wiu_icr_8'' ''MAESTRO_WIU_ICR_8'', Setter ''maestro_wiu_icr_8'' ''MAESTRO_WIU_ICR_8'',
     Getter ''maestro_wiu_icr_9'' ''MAESTRO_WIU_ICR_9'', Setter ''maestro_wiu_icr_9'' ''MAESTRO_WIU_ICR_9'',
     Getter ''maestro_wiu_icr_10'' ''MAESTRO_WIU_ICR_10'', Setter ''maestro_wiu_icr_10'' ''MAESTRO_WIU_ICR_10'',
     Getter ''maestro_wiu_icr_11'' ''MAESTRO_WIU_ICR_11'', Setter ''maestro_wiu_icr_11'' ''MAESTRO_WIU_ICR_11'',
     Getter ''maestro_wiu_icr_12'' ''MAESTRO_WIU_ICR_12'', Setter ''maestro_wiu_icr_12'' ''MAESTRO_WIU_ICR_12'',
     Getter ''maestro_wiu_icr_13'' ''MAESTRO_WIU_ICR_13'', Setter ''maestro_wiu_icr_13'' ''MAESTRO_WIU_ICR_13'',
     Getter ''maestro_wiu_icr_14'' ''MAESTRO_WIU_ICR_14'', Setter ''maestro_wiu_icr_14'' ''MAESTRO_WIU_ICR_14'',
     Getter ''maestro_wiu_icr_15'' ''MAESTRO_WIU_ICR_15'', Setter ''maestro_wiu_icr_15'' ''MAESTRO_WIU_ICR_15'']"

definition maestro_v1_wiu_macros :: "macro_row list" where
  "maestro_v1_wiu_macros = [
     Macros ''MAESTRO_WIU_ISPMR_0_MASK_MODECHG_EN_IRQ'' (8, 0) (8, 0) (8, 0) 0,
     Macros ''MAESTRO_WIU_ISPMR_1_MASK_MODECHG_EN_IRQ'' (8, 0) (8, 0) (8, 0) 0,
     Macros ''MAESTRO_WIU_IFR_0_FLAG_IRQ'' (8, 0) (8, 0) (8, 0) 0, Macros ''MAESTRO_WIU_IFR_1_FLAG_IRQ'' (8, 0) (8, 0) (8, 0) 0,
     Macros ''MAESTRO_WIU_ICR_0_SEQ_SEL_IRQ_0'' (5, 0) (5, 0) (5, 0) 0, Macros ''MAESTRO_WIU_ICR_1_SEQ_SEL_IRQ_1'' (5, 0) (5, 0) (5, 0) 0,
     Macros ''MAESTRO_WIU_ICR_2_SEQ_SEL_IRQ_2'' (5, 0) (5, 0) (5, 0) 0, Macros ''MAESTRO_WIU_ICR_3_SEQ_SEL_IRQ_3'' (5, 0) (5, 0) (5, 0) 0,
     Macros ''MAESTRO_WIU_ICR_4_SEQ_SEL_IRQ_4'' (5, 0) (5, 0) (5, 0) 0, Macros ''MAESTRO_WIU_ICR_5_SEQ_SEL_IRQ_5'' (5, 0) (5, 0) (5, 0) 0,
     Macros ''MAESTRO_WIU_ICR_6_SEQ_SEL_IRQ_6'' (5, 0) (5, 0) (5, 0) 0, Macros ''MAESTRO_WIU_ICR_7_SEQ_SEL_IRQ_7'' (5, 0) (5, 0) (5, 0) 0,
     Macros ''MAESTRO_WIU_ICR_8_SEQ_SEL_IRQ_8'' (5, 0) (5, 0) (5, 0) 0, Macros ''MAESTRO_WIU_ICR_9_SEQ_SEL_IRQ_9'' (5, 0) (5, 0) (5, 0) 0,
     Macros ''MAESTRO_WIU_ICR_10_SEQ_SEL_IRQ_10'' (5, 0) (5, 0) (5, 0) 0,
     Macros ''MAESTRO_WIU_ICR_11_SEQ_SEL_IRQ_11'' (5, 0) (5, 0) (5, 0) 0,
     Macros ''MAESTRO_WIU_ICR_12_SEQ_SEL_IRQ_12'' (5, 0) (5, 0) (5, 0) 0,
     Macros ''MAESTRO_WIU_ICR_13_SEQ_SEL_IRQ_13'' (5, 0) (5, 0) (5, 0) 0,
     Macros ''MAESTRO_WIU_ICR_14_SEQ_SEL_IRQ_14'' (5, 0) (5, 0) (5, 0) 0,
     Macros ''MAESTRO_WIU_ICR_15_SEQ_SEL_IRQ_15'' (5, 0) (5, 0) (5, 0) 0]"

definition maestro_v1_wiu_map :: register_map where
  "maestro_v1_wiu_map = \<lparr>hdr_regs = maestro_v1_wiu_regs,
     hdr_fields = maestro_v1_wiu_fields,
     hdr_resets = maestro_v1_wiu_resets,
     hdr_structs = maestro_v1_wiu_structs,
     hdr_access = maestro_v1_wiu_access,
     hdr_macros = maestro_v1_wiu_macros\<rparr>"

lemmas maestro_v1_wiu_tables = maestro_v1_wiu_map_def maestro_v1_wiu_regs_def maestro_v1_wiu_fields_def maestro_v1_wiu_resets_def maestro_v1_wiu_structs_def maestro_v1_wiu_access_def 
  maestro_v1_wiu_macros_def

interpretation maestro_v1_wiu: register_header maestro_v1_wiu_map
  by unfold_locales (simp_all add: check_header maestro_v1_wiu_tables)

section \<open>\<^verbatim>\<open>maestro/maestro_v1_new.h, lines 1241-1473\<close>\<close>

definition maestro_v1_icu_regs :: "reg_row list" where
  "maestro_v1_icu_regs = [
     Reg ''MAESTRO_ICU_CTRL'' 0x0, Reg ''MAESTRO_ICU_MODE'' 0x1, Reg ''MAESTRO_ISLAND_MODE'' 0x2, Reg ''MAESTRO_DMU_MODE'' 0x3]"

definition maestro_v1_icu_fields :: "field_row list" where
  "maestro_v1_icu_fields = [
     Field ''MAESTRO_ICU_CTRL_ICU_CTRL'' 0 4 0xF, Field ''MAESTRO_ICU_MODE_ICU_MODE'' 0 4 0xF,
     Field ''MAESTRO_ICU_MODE_ICU_MODE_DEFINED'' 4 1 0x10, Field ''MAESTRO_ISLAND_MODE_ISL_MODE'' 0 2 0x3,
     Field ''MAESTRO_DMU_MODE_ISL_MODE'' 0 2 0x3]"

definition maestro_v1_icu_resets :: "reset_row list" where
  "maestro_v1_icu_resets = [
     Reset ''MAESTRO_ICU_CTRL_ICU_CTRL'' 0x0, Reset ''MAESTRO_ICU_MODE_ICU_MODE'' 0xF, Reset ''MAESTRO_ICU_MODE_ICU_MODE_DEFINED'' 0x1,
     Reset ''MAESTRO_ISLAND_MODE_ISL_MODE'' 0x0, Reset ''MAESTRO_DMU_MODE_ISL_MODE'' 0x0]"

definition maestro_v1_icu_structs :: "struct_row list" where
  "maestro_v1_icu_structs = [
     Struct ''maestro_icu_ctrl'' [Bits ''icu_ctrl'' 4], Struct ''maestro_icu_mode'' [Bits ''icu_mode'' 4, Bits ''icu_mode_defined'' 1],
     Struct ''maestro_island_mode'' [Bits ''isl_mode'' 2], Struct ''maestro_dmu_mode'' [Bits ''isl_mode'' 2]]"

definition maestro_v1_icu_access :: "access_row list" where
  "maestro_v1_icu_access = [
     Getter ''maestro_icu_ctrl'' ''MAESTRO_ICU_CTRL'', Setter ''maestro_icu_ctrl'' ''MAESTRO_ICU_CTRL'',
     Getter ''maestro_icu_mode'' ''MAESTRO_ICU_MODE'', Setter ''maestro_icu_mode'' ''MAESTRO_ICU_MODE'',
     Getter ''maestro_island_mode'' ''MAESTRO_ISLAND_MODE'', Setter ''maestro_island_mode'' ''MAESTRO_ISLAND_MODE'',
     Getter ''maestro_dmu_mode'' ''MAESTRO_DMU_MODE'', Setter ''maestro_dmu_mode'' ''MAESTRO_DMU_MODE'']"

definition maestro_v1_icu_macros :: "macro_row list" where
  "maestro_v1_icu_macros = [
     Macros ''MAESTRO_ICU_CTRL_ICU_CTRL'' (4, 0) (4, 0) (4, 0) 0, Macros ''MAESTRO_ICU_MODE_ICU_MODE'' (4, 0) (4, 0) (4, 0) 0,
     Macros ''MAESTRO_ICU_MODE_ICU_MODE_DEFINED'' (1, 4) (1, 4) (1, 4) 4, Macros ''MAESTRO_ISLAND_MODE_ISL_MODE'' (2, 0) (2, 0) (2, 0) 0,
     Macros ''MAESTRO_DMU_MODE_ISL_MODE'' (2, 0) (2, 0) (2, 0) 0]"

definition maestro_v1_icu_map :: register_map where
  "maestro_v1_icu_map = \<lparr>hdr_regs = maestro_v1_icu_regs,
     hdr_fields = maestro_v1_icu_fields,
     hdr_resets = maestro_v1_icu_resets,
     hdr_structs = maestro_v1_icu_structs,
     hdr_access = maestro_v1_icu_access,
     hdr_macros = maestro_v1_icu_macros\<rparr>"

lemmas maestro_v1_icu_tables = maestro_v1_icu_map_def maestro_v1_icu_regs_def maestro_v1_icu_fields_def maestro_v1_icu_resets_def maestro_v1_icu_structs_def maestro_v1_icu_access_def 
  maestro_v1_icu_macros_def

interpretation maestro_v1_icu: register_header maestro_v1_icu_map
  by unfold_locales (simp_all add: check_header maestro_v1_icu_tables)

section \<open>\<^verbatim>\<open>maestro/maestro_v2_new.h, lines 30-527\<close>\<close>

definition maestro_v2_dlc_regs :: "reg_row list" where
  "maestro_v2_dlc_regs = [
     Reg ''MAESTRO_DLC_PCTRL'' 0x0, Reg ''MAESTRO_PRDATA'' 0x4, Reg ''MAESTRO_DLC_SR'' 0x8, Reg ''MAESTRO_DLC_IMR'' 0xC,
     Reg ''MAESTRO_DLC_IFR'' 0x10, Reg ''MAESTRO_DLC_IOIFR'' 0x14, Reg ''MAESTRO_DLC_IDIFR'' 0x18, Reg ''MAESTRO_DLC_IMCIFR'' 0x1C]"

definition maestro_v2_dlc_fields :: "field_row list" where
  "maestro_v2_dlc_fields = [
     Field ''MAESTRO_DLC_PCTRL_START'' 0 1 0x1, Field ''MAESTRO_DLC_PCTRL_PADDR'' 1 14 0x7FFE,
     Field ''MAESTRO_DLC_PCTRL_DIR'' 15 1 0x8000, Field ''MAESTRO_DLC_PCTRL_PWDATA'' 16 16 0xFFFF0000,
     Field ''MAESTRO_PRDATA_PRDATA'' 0 8 0xFF, Field ''MAESTRO_DLC_SR_PICL_BUSY'' 0 1 0x1, Field ''MAESTRO_DLC_SR_SCU_BUSY'' 1 1 0x2,
     Field ''MAESTRO_DLC_IMR_ICU_OK_MASK'' 0 1 0x1, Field ''MAESTRO_DLC_IMR_ICU_DELAYED_MASK'' 1 1 0x2,
     Field ''MAESTRO_DLC_IMR_ICU_MODE_CHANGED_MASK'' 2 1 0x4, Field ''MAESTRO_DLC_IMR_PICL_OK_MASK'' 3 1 0x8,
     Field ''MAESTRO_DLC_IMR_SCU_OK_MASK'' 4 1 0x10, Field ''MAESTRO_DLC_IFR_ICU_OK_FLAG'' 0 1 0x1,
     Field ''MAESTRO_DLC_IFR_ICU_DELAYED_FLAG'' 1 1 0x2, Field ''MAESTRO_DLC_IFR_ICU_MODE_CHANGED_FLAG'' 2 1 0x4,
     Field ''MAESTRO_DLC_IFR_PICL_OK_FLAG'' 3 1 0x8, Field ''MAESTRO_DLC_IFR_SCU_OK_FLAG'' 4 1 0x10,
     Field ''MAESTRO_DLC_IOIFR_ICU_OK_FLAGS'' 1 31 0xFFFFFFFE, Field ''MAESTRO_DLC_IDIFR_ICU_DELAYED_FLAGS'' 1 31 0xFFFFFFFE,
     Field ''MAESTRO_DLC_IMCIFR_ICU_MODE_CHANGED_FLAGS'' 1 31 0xFFFFFFFE]"

definition maestro_v2_dlc_resets :: "reset_row list" where
  "maestro_v2_dlc_resets = [
     Reset ''MAESTRO_DLC_PCTRL_START'' 0x0, Reset ''MAESTRO_DLC_PCTRL_PADDR'' 0x0, Reset ''MAESTRO_DLC_PCTRL_DIR'' 0x0,
     Reset ''MAESTRO_DLC_PCTRL_PWDATA'' 0x0, Reset ''MAESTRO_PRDATA_PRDATA'' 0x0, Reset ''MAESTRO_DLC_SR_PICL_BUSY'' 0x0,
     Reset ''MAESTRO_DLC_SR_SCU_BUSY'' 0x0, Reset ''MAESTRO_DLC_IMR_ICU_OK_MASK'' 0x0, Reset ''MAESTRO_DLC_IMR_ICU_DELAYED_MASK'' 0x0,
     Reset ''MAESTRO_DLC_IMR_ICU_MODE_CHANGED_MASK'' 0x0, Reset ''MAESTRO_DLC_IMR_PICL_OK_MASK'' 0x0,
     Reset ''MAESTRO_DLC_IMR_SCU_OK_MASK'' 0x0, Reset ''MAESTRO_DLC_IFR_ICU_OK_FLAG'' 0x0, Reset ''MAESTRO_DLC_IFR_ICU_DELAYED_FLAG'' 0x0,
     Reset ''MAESTRO_DLC_IFR_ICU_MODE_CHANGED_FLAG'' 0x0, Reset ''MAESTRO_DLC_IFR_PICL_OK_FLAG'' 0x0,
     Reset ''MAESTRO_DLC_IFR_SCU_OK_FLAG'' 0x0, Reset ''MAESTRO_DLC_IOIFR_ICU_OK_FLAGS'' 0x0,
     Reset ''MAESTRO_DLC_IDIFR_ICU_DELAYED_FLAGS'' 0x0, Reset ''MAESTRO_DLC_IMCIFR_ICU_MODE_CHANGED_FLAGS'' 0x0]"

definition maestro_v2_dlc_structs :: "struct_row list" where
  "maestro_v2_dlc_structs = [
     Struct ''maestro_dlc_pctrl'' [Bits ''start'' 1, Bits ''paddr'' 14, Bits ''dir'' 1, Bits ''pwdata'' 16],
     Struct ''maestro_prdata'' [Bits ''prdata'' 8], Struct ''maestro_dlc_sr'' [Bits ''picl_busy'' 1, Bits ''scu_busy'' 1],
     Struct ''maestro_dlc_imr'' [Bits ''icu_ok_mask'' 1, Bits ''icu_delayed_mask'' 1, Bits ''icu_mode_changed_mask'' 1,
       Bits ''picl_ok_mask'' 1, Bits ''scu_ok_mask'' 1],
     Struct ''maestro_dlc_ifr'' [Bits ''icu_ok_flag'' 1, Bits ''icu_delayed_flag'' 1, Bits ''icu_mode_changed_flag'' 1,
       Bits ''picl_ok_flag'' 1, Bits ''scu_ok_flag'' 1],
     Struct ''maestro_dlc_ioifr'' [Padding 1, Bits ''icu_ok_flags'' 31],
     Struct ''maestro_dlc_idifr'' [Padding 1, Bits ''icu_delayed_flags'' 31],
     Struct ''maestro_dlc_imcifr'' [Padding 1, Bits ''icu_mode_changed_flags'' 31]]"

definition maestro_v2_dlc_access :: "access_row list" where
  "maestro_v2_dlc_access = [
     Getter ''maestro_dlc_pctrl'' ''MAESTRO_DLC_PCTRL'', Setter ''maestro_dlc_pctrl'' ''MAESTRO_DLC_PCTRL'',
     Getter ''maestro_prdata'' ''MAESTRO_PRDATA'', Setter ''maestro_prdata'' ''MAESTRO_PRDATA'',
     Getter ''maestro_dlc_sr'' ''MAESTRO_DLC_SR'', Setter ''maestro_dlc_sr'' ''MAESTRO_DLC_SR'',
     Getter ''maestro_dlc_imr'' ''MAESTRO_DLC_IMR'', Setter ''maestro_dlc_imr'' ''MAESTRO_DLC_IMR'',
     Getter ''maestro_dlc_ifr'' ''MAESTRO_DLC_IFR'', Setter ''maestro_dlc_ifr'' ''MAESTRO_DLC_IFR'',
     Getter ''maestro_dlc_ioifr'' ''MAESTRO_DLC_IOIFR'', Setter ''maestro_dlc_ioifr'' ''MAESTRO_DLC_IOIFR'',
     Getter ''maestro_dlc_idifr'' ''MAESTRO_DLC_IDIFR'', Setter ''maestro_dlc_idifr'' ''MAESTRO_DLC_IDIFR'',
     Getter ''maestro_dlc_imcifr'' ''MAESTRO_DLC_IMCIFR'', Setter ''maestro_dlc_imcifr'' ''MAESTRO_DLC_IMCIFR'']"

definition maestro_v2_dlc_macros :: "macro_row list" where
  "maestro_v2_dlc_macros = [
     Macros ''MAESTRO_DLC_PCTRL_START'' (1, 0) (1, 0) (1, 0) 0, Macros ''MAESTRO_DLC_PCTRL_PADDR'' (14, 1) (14, 1) (14, 1) 1,
     Macros ''MAESTRO_DLC_PCTRL_DIR'' (1, 15) (1, 15) (1, 15) 15, Macros ''MAESTRO_DLC_PCTRL_PWDATA'' (16, 16) (16, 16) (16, 16) 16,
     Macros ''MAESTRO_PRDATA_PRDATA'' (8, 0) (8, 0) (8, 0) 0, Macros ''MAESTRO_DLC_SR_PICL_BUSY'' (1, 0) (1, 0) (1, 0) 0,
     Macros ''MAESTRO_DLC_SR_SCU_BUSY'' (1, 1) (1, 1) (1, 1) 1, Macros ''MAESTRO_DLC_IMR_ICU_OK_MASK'' (1, 0) (1, 0) (1, 0) 0,
     Macros ''MAESTRO_DLC_IMR_ICU_DELAYED_MASK'' (1, 1) (1, 1) (1, 1) 1,
     Macros ''MAESTRO_DLC_IMR_ICU_MODE_CHANGED_MASK'' (1, 2) (1, 2) (1, 2) 2,
     Macros ''MAESTRO_DLC_IMR_PICL_OK_MASK'' (1, 3) (1, 3) (1, 3) 3, Macros ''MAESTRO_DLC_IMR_SCU_OK_MASK'' (1, 4) (1, 4) (1, 4) 4,
     Macros ''MAESTRO_DLC_IFR_ICU_OK_FLAG'' (1, 0) (1, 0) (1, 0) 0, Macros ''MAESTRO_DLC_IFR_ICU_DELAYED_FLAG'' (1, 1) (1, 1) (1, 1) 1,
     Macros ''MAESTRO_DLC_IFR_ICU_MODE_CHANGED_FLAG'' (1, 2) (1, 2) (1, 2) 2,
     Macros ''MAESTRO_DLC_IFR_PICL_OK_FLAG'' (1, 3) (1, 3) (1, 3) 3, Macros ''MAESTRO_DLC_IFR_SCU_OK_FLAG'' (1, 4) (1, 4) (1, 4) 4,
     Macros ''MAESTRO_DLC_IOIFR_ICU_OK_FLAGS'' (31, 1) (31, 1) (31, 1) 1,
     Macros ''MAESTRO_DLC_IDIFR_ICU_DELAYED_FLAGS'' (31, 1) (31, 1) (31, 1) 1,
     Macros ''MAESTRO_DLC_IMCIFR_ICU_MODE_CHANGED_FLAGS'' (31, 1) (31, 1) (31, 1) 1]"

definition maestro_v2_dlc_map :: register_map where
  "maestro_v2_dlc_map = \<lparr>hdr_regs = maestro_v2_dlc_regs,
     hdr_fields = maestro_v2_dlc_fields,
     hdr_resets = maestro_v2_dlc_resets,
     hdr_structs = maestro_v2_dlc_structs,
     hdr_access = maestro_v2_dlc_access,
     hdr_macros = maestro_v2_dlc_macros\<rparr>"

lemmas maestro_v2_dlc_tables = maestro_v2_dlc_map_def maestro_v2_dlc_regs_def maestro_v2_dlc_fields_def maestro_v2_dlc_resets_def maestro_v2_dlc_structs_def maestro_v2_dlc_access_def 
  maestro_v2_dlc_macros_def

interpretation maestro_v2_dlc: aligned_header maestro_v2_dlc_map
  by unfold_locales (simp_all add: check_header maestro_v2_dlc_tables)

section \<open>\<^verbatim>\<open>maestro/maestro_v2_new.h, lines 532-1240\<close>\<close>

definition maestro_v2_wiu_regs :: "reg_row list" where
  "maestro_v2_wiu_regs = [
     Reg ''MAESTRO_WIU_ISPMR_0'' 0x0, Reg ''MAESTRO_WIU_ISPMR_1'' 0x1, Reg ''MAESTRO_WIU_IFR_0'' 0x2, Reg ''MAESTRO_WIU_IFR_1'' 0x3,
     Reg ''MAESTRO_WIU_ICR_0'' 0x4, Reg ''MAESTRO_WIU_ICR_1'' 0x5, Reg ''MAESTRO_WIU_ICR_2'' 0x6, Reg ''MAESTRO_WIU_ICR_3'' 0x7,
     Reg ''MAESTRO_WIU_ICR_4'' 0x8, Reg ''MAESTRO_WIU_ICR_5'' 0x9, Reg ''MAESTRO_WIU_ICR_6'' 0xA, Reg ''MAESTRO_WIU_ICR_7'' 0xB,
     Reg ''MAESTRO_WIU_ICR_8'' 0xC, Reg ''MAESTRO_WIU_ICR_9'' 0xD, Reg ''MAESTRO_WIU_ICR_10'' 0xE, Reg ''MAESTRO_WIU_ICR_11'' 0xF,
     Reg ''MAESTRO_WIU_ICR_12'' 0x10, Reg ''MAESTRO_WIU_ICR_13'' 0x11, Reg ''MAESTRO_WIU_ICR_14'' 0x12, Reg ''MAESTRO_WIU_ICR_15'' 0x13]"

definition maestro_v2_wiu_fields :: "field_row list" where
  "maestro_v2_wiu_fields = [
     Field ''MAESTRO_WIU_ISPMR_0_MASK_MODECHG_EN_IRQ'' 0 8 0xFF, Field ''MAESTRO_WIU_ISPMR_1_MASK_MODECHG_EN_IRQ'' 0 8 0xFF,
     Field ''MAESTRO_WIU_IFR_0_FLAG_IRQ'' 0 8 0xFF, Field ''MAESTRO_WIU_IFR_1_FLAG_IRQ'' 0 8 0xFF,
     Field ''MAESTRO_WIU_ICR_0_SEQ_SEL_IRQ_0'' 0 5 0x1F, Field ''MAESTRO_WIU_ICR_1_SEQ_SEL_IRQ_1'' 0 5 0x1F,
     Field ''MAESTRO_WIU_ICR_2_SEQ_SEL_IRQ_2'' 0 5 0x1F, Field ''MAESTRO_WIU_ICR_3_SEQ_SEL_IRQ_3'' 0 5 0x1F,
     Field ''MAESTRO_WIU_ICR_4_SEQ_SEL_IRQ_4'' 0 5 0x1F, Field ''MAESTRO_WIU_ICR_5_SEQ_SEL_IRQ_5'' 0 5 0x1F,
     Field ''MAESTRO_WIU_ICR_6_SEQ_SEL_IRQ_6'' 0 5 0x1F, Field ''MAESTRO_WIU_ICR_7_SEQ_SEL_IRQ_7'' 0 5 0x1F,
     Field ''MAESTRO_WIU_ICR_8_SEQ_SEL_IRQ_8'' 0 5 0x1F, Field ''MAESTRO_WIU_ICR_9_SEQ_SEL_IRQ_9'' 0 5 0x1F,
     Field ''MAESTRO_WIU_ICR_10_SEQ_SEL_IRQ_10'' 0 5 0x1F, Field ''MAESTRO_WIU_ICR_11_SEQ_SEL_IRQ_11'' 0 5 0x1F,
     Field ''MAESTRO_WIU_ICR_12_SEQ_SEL_IRQ_12'' 0 5 0x1F, Field ''MAESTRO_WIU_ICR_13_SEQ_SEL_IRQ_13'' 0 5 0x1F,
     Field ''MAESTRO_WIU_ICR_14_SEQ_SEL_IRQ_14'' 0 5 0x1F, Field ''MAESTRO_WIU_ICR_15_SEQ_SEL_IRQ_15'' 0 5 0x1F]"

definition maestro_v2_wiu_resets :: "reset_row list" where
  "maestro_v2_wiu_resets = [
     Reset ''MAESTRO_WIU_ISPMR_0_MASK_MODECHG_EN_IRQ'' 0x0, Reset ''MAESTRO_WIU_ISPMR_1_MASK_MODECHG_EN_IRQ'' 0x0,
     Reset ''MAESTRO_WIU_IFR_0_FLAG_IRQ'' 0x0, Reset ''MAESTRO_WIU_IFR_1_FLAG_IRQ'' 0x0, Reset ''MAESTRO_WIU_ICR_0_SEQ_SEL_IRQ_0'' 0x0,
     Reset ''MAESTRO_WIU_ICR_1_SEQ_SEL_IRQ_1'' 0x0, Reset ''MAESTRO_WIU_ICR_2_SEQ_SEL_IRQ_2'' 0x0,
     Reset ''MAESTRO_WIU_ICR_3_SEQ_SEL_IRQ_3'' 0x0, Reset ''MAESTRO_WIU_ICR_4_SEQ_SEL_IRQ_4'' 0x0,
     Reset ''MAESTRO_WIU_ICR_5_SEQ_SEL_IRQ_5'' 0x0, Reset ''MAESTRO_WIU_ICR_6_SEQ_SEL_IRQ_6'' 0x0,
     Reset ''MAESTRO_WIU_ICR_7_SEQ_SEL_IRQ_7'' 0x0, Reset ''MAESTRO_WIU_ICR_8_SEQ_SEL_IRQ_8'' 0x0,
     Reset ''MAESTRO_WIU_ICR_9_SEQ_SEL_IRQ_9'' 0x0, Reset ''MAESTRO_WIU_ICR_10_SEQ_SEL_IRQ_10'' 0x0,
     Reset ''MAESTRO_WIU_ICR_11_SEQ_SEL_IRQ_11'' 0x0, Reset ''MAESTRO_WIU_ICR_12_SEQ_SEL_IRQ_12'' 0x0,
     Reset ''MAESTRO_WIU_ICR_13_SEQ_SEL_IRQ_13'' 0x0, Reset ''MAESTRO_WIU_ICR_14_SEQ_SEL_IRQ_14'' 0x0,
     Reset ''MAESTRO_WIU_ICR_15_SEQ_SEL_IRQ_15'' 0x0]"

definition maestro_v2_wiu_structs :: "struct_row list" where
  "maestro_v2_wiu_structs = [
     Struct ''maestro_wiu_ispmr_0'' [Bits ''mask_modechg_en_irq'' 8], Struct ''maestro_wiu_ispmr_1'' [Bits ''mask_modechg_en_irq'' 8],
     Struct ''maestro_wiu_ifr_0'' [Bits ''flag_irq'' 8], Struct ''maestro_wiu_ifr_1'' [Bits ''flag_irq'' 8],
     Struct ''maestro_wiu_icr_0'' [Bits ''seq_sel_irq_0'' 5], Struct ''maestro_wiu_icr_1'' [Bits ''seq_sel_irq_1'' 5],
     Struct ''maestro_wiu_icr_2'' [Bits ''seq_sel_irq_2'' 5], Struct ''maestro_wiu_icr_3'' [Bits ''seq_sel_irq_3'' 5],
     Struct ''maestro_wiu_icr_4'' [Bits ''seq_sel_irq_4'' 5], Struct ''maestro_wiu_icr_5'' [Bits ''seq_sel_irq_5'' 5],
     Struct ''maestro_wiu_icr_6'' [Bits ''seq_sel_irq_6'' 5], Struct ''maestro_wiu_icr_7'' [Bits ''seq_sel_irq_7'' 5],
     Struct ''maestro_wiu_icr_8'' [Bits ''seq_sel_irq_8'' 5], Struct ''maestro_wiu_icr_9'' [Bits ''seq_sel_irq_9'' 5],
     Struct ''maestro_wiu_icr_10'' [Bits ''seq_sel_irq_10'' 5], Struct ''maestro_wiu_icr_11'' [Bits ''seq_sel_irq_11'' 5],
     Struct ''maestro_wiu_icr_12'' [Bits ''seq_sel_irq_12'' 5], Struct ''maestro_wiu_icr_13'' [Bits ''seq_sel_irq_13'' 5],
     Struct ''maestro_wiu_icr_14'' [Bits ''seq_sel_irq_14'' 5], Struct ''maestro_wiu_icr_15'' [Bits ''seq_sel_irq_15'' 5]]"

definition maestro_v2_wiu_access :: "access_row list" where
  "maestro_v2_wiu_access = [
     Getter ''maestro_wiu_ispmr_0'' ''MAESTRO_WIU_ISPMR_0'', Setter ''maestro_wiu_ispmr_0'' ''MAESTRO_WIU_ISPMR_0'',
     Getter ''maestro_wiu_ispmr_1'' ''MAESTRO_WIU_ISPMR_1'', Setter ''maestro_wiu_ispmr_1'' ''MAESTRO_WIU_ISPMR_1'',
     Getter ''maestro_wiu_ifr_0'' ''MAESTRO_WIU_IFR_0'', Setter ''maestro_wiu_ifr_0'' ''MAESTRO_WIU_IFR_0'',
     Getter ''maestro_wiu_ifr_1'' ''MAESTRO_WIU_IFR_1'', Setter ''maestro_wiu_ifr_1'' ''MAESTRO_WIU_IFR_1'',
     Getter ''maestro_wiu_icr_0'' ''MAESTRO_WIU_ICR_0'', Setter ''maestro_wiu_icr_0'' ''MAESTRO_WIU_ICR_0'',
     Getter ''maestro_wiu_icr_1'' ''MAESTRO_WIU_ICR_1'', Setter ''maestro_wiu_icr_1'' ''MAESTRO_WIU_ICR_1'',
     Getter ''maestro_wiu_icr_2'' ''MAESTRO_WIU_ICR_2'', Setter ''maestro_wiu_icr_2'' ''MAESTRO_WIU_ICR_2'',
     Getter ''maestro_wiu_icr_3'' ''MAESTRO_WIU_ICR_3'', Setter ''maestro_wiu_icr_3'' ''MAESTRO_WIU_ICR_3'',
     Getter ''maestro_wiu_icr_4'' ''MAESTRO_WIU_ICR_4'', Setter ''maestro_wiu_icr_4'' ''MAESTRO_WIU_ICR_4'',
     Getter ''maestro_wiu_icr_5'' ''MAESTRO_WIU_ICR_5'', Setter ''maestro_wiu_icr_5'' ''MAESTRO_WIU_ICR_5'',
     Getter ''maestro_wiu_icr_6'' ''MAESTRO_WIU_ICR_6'', Setter ''maestro_wiu_icr_6'' ''MAESTRO_WIU_ICR_6'',
     Getter ''maestro_wiu_icr_7'' ''MAESTRO_WIU_ICR_7'', Setter ''maestro_wiu_icr_7'' ''MAESTRO_WIU_ICR_7'',
     Getter ''maestro_wiu_icr_8'' ''MAESTRO_WIU_ICR_8'', Setter ''maestro_wiu_icr_8'' ''MAESTRO_WIU_ICR_8'',
     Getter ''maestro_wiu_icr_9'' ''MAESTRO_WIU_ICR_9'', Setter ''maestro_wiu_icr_9'' ''MAESTRO_WIU_ICR_9'',
     Getter ''maestro_wiu_icr_10'' ''MAESTRO_WIU_ICR_10'', Setter ''maestro_wiu_icr_10'' ''MAESTRO_WIU_ICR_10'',
     Getter ''maestro_wiu_icr_11'' ''MAESTRO_WIU_ICR_11'', Setter ''maestro_wiu_icr_11'' ''MAESTRO_WIU_ICR_11'',
     Getter ''maestro_wiu_icr_12'' ''MAESTRO_WIU_ICR_12'', Setter ''maestro_wiu_icr_12'' ''MAESTRO_WIU_ICR_12'',
     Getter ''maestro_wiu_icr_13'' ''MAESTRO_WIU_ICR_13'', Setter ''maestro_wiu_icr_13'' ''MAESTRO_WIU_ICR_13'',
     Getter ''maestro_wiu_icr_14'' ''MAESTRO_WIU_ICR_14'', Setter ''maestro_wiu_icr_14'' ''MAESTRO_WIU_ICR_14'',
     Getter ''maestro_wiu_icr_15'' ''MAESTRO_WIU_ICR_15'', Setter ''maestro_wiu_icr_15'' ''MAESTRO_WIU_ICR_15'']"

definition maestro_v2_wiu_macros :: "macro_row list" where
  "maestro_v2_wiu_macros = [
     Macros ''MAESTRO_WIU_ISPMR_0_MASK_MODECHG_EN_IRQ'' (8, 0) (8, 0) (8, 0) 0,
     Macros ''MAESTRO_WIU_ISPMR_1_MASK_MODECHG_EN_IRQ'' (8, 0) (8, 0) (8, 0) 0,
     Macros ''MAESTRO_WIU_IFR_0_FLAG_IRQ'' (8, 0) (8, 0) (8, 0) 0, Macros ''MAESTRO_WIU_IFR_1_FLAG_IRQ'' (8, 0) (8, 0) (8, 0) 0,
     Macros ''MAESTRO_WIU_ICR_0_SEQ_SEL_IRQ_0'' (5, 0) (5, 0) (5, 0) 0, Macros ''MAESTRO_WIU_ICR_1_SEQ_SEL_IRQ_1'' (5, 0) (5, 0) (5, 0) 0,
     Macros ''MAESTRO_WIU_ICR_2_SEQ_SEL_IRQ_2'' (5, 0) (5, 0) (5, 0) 0, Macros ''MAESTRO_WIU_ICR_3_SEQ_SEL_IRQ_3'' (5, 0) (5, 0) (5, 0) 0,
     Macros ''MAESTRO_WIU_ICR_4_SEQ_SEL_IRQ_4'' (5, 0) (5, 0) (5, 0) 0, Macros ''MAESTRO_WIU_ICR_5_SEQ_SEL_IRQ_5'' (5, 0) (5, 0) (5, 0) 0,
     Macros ''MAESTRO_WIU_ICR_6_SEQ_SEL_IRQ_6'' (5, 0) (5, 0) (5, 0) 0, Macros ''MAESTRO_WIU_ICR_7_SEQ_SEL_IRQ_7'' (5, 0) (5, 0) (5, 0) 0,
     Macros ''MAESTRO_WIU_ICR_8_SEQ_SEL_IRQ_8'' (5, 0) (5, 0) (5, 0) 0, Macros ''MAESTRO_WIU_ICR_9_SEQ_SEL_IRQ_9'' (5, 0) (5, 0) (5, 0) 0,
     Macros ''MAESTRO_WIU_ICR_10_SEQ_SEL_IRQ_10'' (5, 0) (5, 0) (5, 0) 0,
     Macros ''MAESTRO_WIU_ICR_11_SEQ_SEL_IRQ_11'' (5, 0) (5, 0) (5, 0) 0,
     Macros ''MAESTRO_WIU_ICR_12_SEQ_SEL_IRQ_12'' (5, 0) (5, 0) (5, 0) 0,
     Macros ''MAESTRO_WIU_ICR_13_SEQ_SEL_IRQ_13'' (5, 0) (5, 0) (5, 0) 0,
     Macros ''MAESTRO_WIU_ICR_14_SEQ_SEL_IRQ_14'' (5, 0) (5, 0) (5, 0) 0,
     Macros ''MAESTRO_WIU_ICR_15_SEQ_SEL_IRQ_15'' (5, 0) (5, 0) (5, 0) 0]"

definition maestro_v2_wiu_map :: register_map where
  "maestro_v2_wiu_map = \<lparr>hdr_regs = maestro_v2_wiu_regs,
     hdr_fields = maestro_v2_wiu_fields,
     hdr_resets = maestro_v2_wiu_resets,
     hdr_structs = maestro_v2_wiu_structs,
     hdr_access = maestro_v2_wiu_access,
     hdr_macros = maestro_v2_wiu_macros\<rparr>"

lemmas maestro_v2_wiu_tables = maestro_v2_wiu_map_def maestro_v2_wiu_regs_def maestro_v2_wiu_fields_def maestro_v2_wiu_resets_def maestro_v2_wiu_structs_def maestro_v2_wiu_access_def 
  maestro_v2_wiu_macros_def

interpretation maestro_v2_wiu: register_header maestro_v2_wiu_map
  by unfold_locales (simp_all add: check_header maestro_v2_wiu_tables)

section \<open>\<^verbatim>\<open>maestro/maestro_v2_new.h, lines 1241-1473\<close>\<close>

definition maestro_v2_icu_regs :: "reg_row list" where
  "maestro_v2_icu_regs = [
     Reg ''MAESTRO_ICU_CTRL'' 0x0, Reg ''MAESTRO_ICU_MODE'' 0x1, Reg ''MAESTRO_ISLAND_MODE'' 0x2, Reg ''MAESTRO_DMU_MODE'' 0x3]"

definition maestro_v2_icu_fields :: "field_row list" where
  "maestro_v2_icu_fields = [
     Field ''MAESTRO_ICU_CTRL_ICU_CTRL'' 0 4 0xF, Field ''MAESTRO_ICU_MODE_ICU_MODE'' 0 4 0xF,
     Field ''MAESTRO_ICU_MODE_ICU_MODE_DEFINED'' 4 1 0x10, Field ''MAESTRO_ISLAND_MODE_ISL_MODE'' 0 2 0x3,
     Field ''MAESTRO_DMU_MODE_ISL_MODE'' 0 2 0x3]"

definition maestro_v2_icu_resets :: "reset_row list" where
  "maestro_v2_icu_resets = [
     Reset ''MAESTRO_ICU_CTRL_ICU_CTRL'' 0x0, Reset ''MAESTRO_ICU_MODE_ICU_MODE'' 0xF, Reset ''MAESTRO_ICU_MODE_ICU_MODE_DEFINED'' 0x1,
     Reset ''MAESTRO_ISLAND_MODE_ISL_MODE'' 0x0, Reset ''MAESTRO_DMU_MODE_ISL_MODE'' 0x0]"

definition maestro_v2_icu_structs :: "struct_row list" where
  "maestro_v2_icu_structs = [
     Struct ''maestro_icu_ctrl'' [Bits ''icu_ctrl'' 4], Struct ''maestro_icu_mode'' [Bits ''icu_mode'' 4, Bits ''icu_mode_defined'' 1],
     Struct ''maestro_island_mode'' [Bits ''isl_mode'' 2], Struct ''maestro_dmu_mode'' [Bits ''isl_mode'' 2]]"

definition maestro_v2_icu_access :: "access_row list" where
  "maestro_v2_icu_access = [
     Getter ''maestro_icu_ctrl'' ''MAESTRO_ICU_CTRL'', Setter ''maestro_icu_ctrl'' ''MAESTRO_ICU_CTRL'',
     Getter ''maestro_icu_mode'' ''MAESTRO_ICU_MODE'', Setter ''maestro_icu_mode'' ''MAESTRO_ICU_MODE'',
     Getter ''maestro_island_mode'' ''MAESTRO_ISLAND_MODE'', Setter ''maestro_island_mode'' ''MAESTRO_ISLAND_MODE'',
     Getter ''maestro_dmu_mode'' ''MAESTRO_DMU_MODE'', Setter ''maestro_dmu_mode'' ''MAESTRO_DMU_MODE'']"

definition maestro_v2_icu_macros :: "macro_row list" where
  "maestro_v2_icu_macros = [
     Macros ''MAESTRO_ICU_CTRL_ICU_CTRL'' (4, 0) (4, 0) (4, 0) 0, Macros ''MAESTRO_ICU_MODE_ICU_MODE'' (4, 0) (4, 0) (4, 0) 0,
     Macros ''MAESTRO_ICU_MODE_ICU_MODE_DEFINED'' (1, 4) (1, 4) (1, 4) 4, Macros ''MAESTRO_ISLAND_MODE_ISL_MODE'' (2, 0) (2, 0) (2, 0) 0,
     Macros ''MAESTRO_DMU_MODE_ISL_MODE'' (2, 0) (2, 0) (2, 0) 0]"

definition maestro_v2_icu_map :: register_map where
  "maestro_v2_icu_map = \<lparr>hdr_regs = maestro_v2_icu_regs,
     hdr_fields = maestro_v2_icu_fields,
     hdr_resets = maestro_v2_icu_resets,
     hdr_structs = maestro_v2_icu_structs,
     hdr_access = maestro_v2_icu_access,
     hdr_macros = maestro_v2_icu_macros\<rparr>"

lemmas maestro_v2_icu_tables = maestro_v2_icu_map_def maestro_v2_icu_regs_def maestro_v2_icu_fields_def maestro_v2_icu_resets_def maestro_v2_icu_structs_def maestro_v2_icu_access_def 
  maestro_v2_icu_macros_def

interpretation maestro_v2_icu: register_header maestro_v2_icu_map
  by unfold_locales (simp_all add: check_header maestro_v2_icu_tables)

section \<open>\<^verbatim>\<open>maestro/maestro_v3.h, lines 30-527\<close>\<close>

definition maestro_v3_dlc_regs :: "reg_row list" where
  "maestro_v3_dlc_regs = [
     Reg ''MAESTRO_DLC_PCTRL'' 0x0, Reg ''MAESTRO_PRDATA'' 0x4, Reg ''MAESTRO_DLC_SR'' 0x8, Reg ''MAESTRO_DLC_IMR'' 0xC,
     Reg ''MAESTRO_DLC_IFR'' 0x10, Reg ''MAESTRO_DLC_IOIFR'' 0x14, Reg ''MAESTRO_DLC_IDIFR'' 0x18, Reg ''MAESTRO_DLC_IMCIFR'' 0x1C]"

definition maestro_v3_dlc_fields :: "field_row list" where
  "maestro_v3_dlc_fields = [
     Field ''MAESTRO_DLC_PCTRL_START'' 0 1 0x1, Field ''MAESTRO_DLC_PCTRL_PADDR'' 1 14 0x7FFE,
     Field ''MAESTRO_DLC_PCTRL_DIR'' 15 1 0x8000, Field ''MAESTRO_DLC_PCTRL_PWDATA'' 16 16 0xFFFF0000,
     Field ''MAESTRO_PRDATA_PRDATA'' 0 8 0xFF, Field ''MAESTRO_DLC_SR_PICL_BUSY'' 0 1 0x1, Field ''MAESTRO_DLC_SR_SCU_BUSY'' 1 1 0x2,
     Field ''MAESTRO_DLC_IMR_ICU_OK_MASK'' 0 1 0x1, Field ''MAESTRO_DLC_IMR_ICU_DELAYED_MASK'' 1 1 0x2,
     Field ''MAESTRO_DLC_IMR_ICU_MODE_CHANGED_MASK'' 2 1 0x4, Field ''MAESTRO_DLC_IMR_PICL_OK_MASK'' 3 1 0x8,
     Field ''MAESTRO_DLC_IMR_SCU_OK_MASK'' 4 1 0x10, Field ''MAESTRO_DLC_IFR_ICU_OK_FLAG'' 0 1 0x1,
     Field ''MAESTRO_DLC_IFR_ICU_DELAYED_FLAG'' 1 1 0x2, Field ''MAESTRO_DLC_IFR_ICU_MODE_CHANGED_FLAG'' 2 1 0x4,
     Field ''MAESTRO_DLC_IFR_PICL_OK_FLAG'' 3 1 0x8, Field ''MAESTRO_DLC_IFR_SCU_OK_FLAG'' 4 1 0x10,
     Field ''MAESTRO_DLC_IOIFR_ICU_OK_FLAGS'' 1 31 0xFFFFFFFE, Field ''MAESTRO_DLC_IDIFR_ICU_DELAYED_FLAGS'' 1 31 0xFFFFFFFE,
     Field ''MAESTRO_DLC_IMCIFR_ICU_MODE_CHANGED_FLAGS'' 1 31 0xFFFFFFFE]"

definition maestro_v3_dlc_resets :: "reset_row list" where
  "maestro_v3_dlc_resets = [
     Reset ''MAESTRO_DLC_PCTRL_START'' 0x0, Reset ''MAESTRO_DLC_PCTRL_PADDR'' 0x0, Reset ''MAESTRO_DLC_PCTRL_DIR'' 0x0,
     Reset ''MAESTRO_DLC_PCTRL_PWDATA'' 0x0, Reset ''MAESTRO_PRDATA_PRDATA'' 0x0, Reset ''MAESTRO_DLC_SR_PICL_BUSY'' 0x0,
     Reset ''MAESTRO_DLC_SR_SCU_BUSY'' 0x0, Reset ''MAESTRO_DLC_IMR_ICU_OK_MASK'' 0x0, Reset ''MAESTRO_DLC_IMR_ICU_DELAYED_MASK'' 0x0,
     Reset ''MAESTRO_DLC_IMR_ICU_MODE_CHANGED_MASK'' 0x0, Reset ''MAESTRO_DLC_IMR_PICL_OK_MASK'' 0x0,
     Reset ''MAESTRO_DLC_IMR_SCU_OK_MASK'' 0x0, Reset ''MAESTRO_DLC_IFR_ICU_OK_FLAG'' 0x0, Reset ''MAESTRO_DLC_IFR_ICU_DELAYED_FLAG'' 0x0,
     Reset ''MAESTRO_DLC_IFR_ICU_MODE_CHANGED_FLAG'' 0x0, Reset ''MAESTRO_DLC_IFR_PICL_OK_FLAG'' 0x0,
     Reset ''MAESTRO_DLC_IFR_SCU_OK_FLAG'' 0x0, Reset ''MAESTRO_DLC_IOIFR_ICU_OK_FLAGS'' 0x0,
     Reset ''MAESTRO_DLC_IDIFR_ICU_DELAYED_FLAGS'' 0x0, Reset ''MAESTRO_DLC_IMCIFR_ICU_MODE_CHANGED_FLAGS'' 0x0]"

definition maestro_v3_dlc_structs :: "struct_row list" where
  "maestro_v3_dlc_structs = [
     Struct ''maestro_dlc_pctrl'' [Bits ''start'' 1, Bits ''paddr'' 14, Bits ''dir'' 1, Bits ''pwdata'' 16],
     Struct ''maestro_prdata'' [Bits ''prdata'' 8], Struct ''maestro_dlc_sr'' [Bits ''picl_busy'' 1, Bits ''scu_busy'' 1],
     Struct ''maestro_dlc_imr'' [Bits ''icu_ok_mask'' 1, Bits ''icu_delayed_mask'' 1, Bits ''icu_mode_changed_mask'' 1,
       Bits ''picl_ok_mask'' 1, Bits ''scu_ok_mask'' 1],
     Struct ''maestro_dlc_ifr'' [Bits ''icu_ok_flag'' 1, Bits ''icu_delayed_flag'' 1, Bits ''icu_mode_changed_flag'' 1,
       Bits ''picl_ok_flag'' 1, Bits ''scu_ok_flag'' 1],
     Struct ''maestro_dlc_ioifr'' [Padding 1, Bits ''icu_ok_flags'' 31],
     Struct ''maestro_dlc_idifr'' [Padding 1, Bits ''icu_delayed_flags'' 31],
     Struct ''maestro_dlc_imcifr'' [Padding 1, Bits ''icu_mode_changed_flags'' 31]]"

definition maestro_v3_dlc_access :: "access_row list" where
  "maestro_v3_dlc_access = [
     Getter ''maestro_dlc_pctrl'' ''MAESTRO_DLC_PCTRL'', Setter ''maestro_dlc_pctrl'' ''MAESTRO_DLC_PCTRL'',
     Getter ''maestro_prdata'' ''MAESTRO_PRDATA'', Setter ''maestro_prdata'' ''MAESTRO_PRDATA'',
     Getter ''maestro_dlc_sr'' ''MAESTRO_DLC_SR'', Setter ''maestro_dlc_sr'' ''MAESTRO_DLC_SR'',
     Getter ''maestro_dlc_imr'' ''MAESTRO_DLC_IMR'', Setter ''maestro_dlc_imr'' ''MAESTRO_DLC_IMR'',
     Getter ''maestro_dlc_ifr'' ''MAESTRO_DLC_IFR'', Setter ''maestro_dlc_ifr'' ''MAESTRO_DLC_IFR'',
     Getter ''maestro_dlc_ioifr'' ''MAESTRO_DLC_IOIFR'', Setter ''maestro_dlc_ioifr'' ''MAESTRO_DLC_IOIFR'',
     Getter ''maestro_dlc_idifr'' ''MAESTRO_DLC_IDIFR'', Setter ''maestro_dlc_idifr'' ''MAESTRO_DLC_IDIFR'',
     Getter ''maestro_dlc_imcifr'' ''MAESTRO_DLC_IMCIFR'', Setter ''maestro_dlc_imcifr'' ''MAESTRO_DLC_IMCIFR'']"

definition maestro_v3_dlc_macros :: "macro_row list" where
  "maestro_v3_dlc_macros = [
     Macros ''MAESTRO_DLC_PCTRL_START'' (1, 0) (1, 0) (1, 0) 0, Macros ''MAESTRO_DLC_PCTRL_PADDR'' (14, 1) (14, 1) (14, 1) 1,
     Macros ''MAESTRO_DLC_PCTRL_DIR'' (1, 15) (1, 15) (1, 15) 15, Macros ''MAESTRO_DLC_PCTRL_PWDATA'' (16, 16) (16, 16) (16, 16) 16,
     Macros ''MAESTRO_PRDATA_PRDATA'' (8, 0) (8, 0) (8, 0) 0, Macros ''MAESTRO_DLC_SR_PICL_BUSY'' (1, 0) (1, 0) (1, 0) 0,
     Macros ''MAESTRO_DLC_SR_SCU_BUSY'' (1, 1) (1, 1) (1, 1) 1, Macros ''MAESTRO_DLC_IMR_ICU_OK_MASK'' (1, 0) (1, 0) (1, 0) 0,
     Macros ''MAESTRO_DLC_IMR_ICU_DELAYED_MASK'' (1, 1) (1, 1) (1, 1) 1,
     Macros ''MAESTRO_DLC_IMR_ICU_MODE_CHANGED_MASK'' (1, 2) (1, 2) (1, 2) 2,
     Macros ''MAESTRO_DLC_IMR_PICL_OK_MASK'' (1, 3) (1, 3) (1, 3) 3, Macros ''MAESTRO_DLC_IMR_SCU_OK_MASK'' (1, 4) (1, 4) (1, 4) 4,
     Macros ''MAESTRO_DLC_IFR_ICU_OK_FLAG'' (1, 0) (1, 0) (1, 0) 0, Macros ''MAESTRO_DLC_IFR_ICU_DELAYED_FLAG'' (1, 1) (1, 1) (1, 1) 1,
     Macros ''MAESTRO_DLC_IFR_ICU_MODE_CHANGED_FLAG'' (1, 2) (1, 2) (1, 2) 2,
     Macros ''MAESTRO_DLC_IFR_PICL_OK_FLAG'' (1, 3) (1, 3) (1, 3) 3, Macros ''MAESTRO_DLC_IFR_SCU_OK_FLAG'' (1, 4) (1, 4) (1, 4) 4,
     Macros ''MAESTRO_DLC_IOIFR_ICU_OK_FLAGS'' (31, 1) (31, 1) (31, 1) 1,
     Macros ''MAESTRO_DLC_IDIFR_ICU_DELAYED_FLAGS'' (31, 1) (31, 1) (31, 1) 1,
     Macros ''MAESTRO_DLC_IMCIFR_ICU_MODE_CHANGED_FLAGS'' (31, 1) (31, 1) (31, 1) 1]"

definition maestro_v3_dlc_map :: register_map where
  "maestro_v3_dlc_map = \<lparr>hdr_regs = maestro_v3_dlc_regs,
     hdr_fields = maestro_v3_dlc_fields,
     hdr_resets = maestro_v3_dlc_resets,
     hdr_structs = maestro_v3_dlc_structs,
     hdr_access = maestro_v3_dlc_access,
     hdr_macros = maestro_v3_dlc_macros\<rparr>"

lemmas maestro_v3_dlc_tables = maestro_v3_dlc_map_def maestro_v3_dlc_regs_def maestro_v3_dlc_fields_def maestro_v3_dlc_resets_def maestro_v3_dlc_structs_def maestro_v3_dlc_access_def 
  maestro_v3_dlc_macros_def

interpretation maestro_v3_dlc: aligned_header maestro_v3_dlc_map
  by unfold_locales (simp_all add: check_header maestro_v3_dlc_tables)

section \<open>\<^verbatim>\<open>maestro/maestro_v3.h, lines 605-1313\<close>\<close>

definition maestro_v3_wiu_regs :: "reg_row list" where
  "maestro_v3_wiu_regs = [
     Reg ''MAESTRO_WIU_ISPMR_0'' 0x0, Reg ''MAESTRO_WIU_ISPMR_1'' 0x1, Reg ''MAESTRO_WIU_IFR_0'' 0x2, Reg ''MAESTRO_WIU_IFR_1'' 0x3,
     Reg ''MAESTRO_WIU_ICR_0'' 0x4, Reg ''MAESTRO_WIU_ICR_1'' 0x5, Reg ''MAESTRO_WIU_ICR_2'' 0x6, Reg ''MAESTRO_WIU_ICR_3'' 0x7,
     Reg ''MAESTRO_WIU_ICR_4'' 0x8, Reg ''MAESTRO_WIU_ICR_5'' 0x9, Reg ''MAESTRO_WIU_ICR_6'' 0xA, Reg ''MAESTRO_WIU_ICR_7'' 0xB,
     Reg ''MAESTRO_WIU_ICR_8'' 0xC, Reg ''MAESTRO_WIU_ICR_9'' 0xD, Reg ''MAESTRO_WIU_ICR_10'' 0xE, Reg ''MAESTRO_WIU_ICR_11'' 0xF,
     Reg ''MAESTRO_WIU_ICR_12'' 0x10, Reg ''MAESTRO_WIU_ICR_13'' 0x11, Reg ''MAESTRO_WIU_ICR_14'' 0x12, Reg ''MAESTRO_WIU_ICR_15'' 0x13]"

definition maestro_v3_wiu_fields :: "field_row list" where
  "maestro_v3_wiu_fields = [
     Field ''MAESTRO_WIU_ISPMR_0_MASK_MODECHG_EN_IRQ'' 0 8 0xFF, Field ''MAESTRO_WIU_ISPMR_1_MASK_MODECHG_EN_IRQ'' 0 8 0xFF,
     Field ''MAESTRO_WIU_IFR_0_FLAG_IRQ'' 0 8 0xFF, Field ''MAESTRO_WIU_IFR_1_FLAG_IRQ'' 0 8 0xFF,
     Field ''MAESTRO_WIU_ICR_0_SEQ_SEL_IRQ_0'' 0 5 0x1F, Field ''MAESTRO_WIU_ICR_1_SEQ_SEL_IRQ_1'' 0 5 0x1F,
     Field ''MAESTRO_WIU_ICR_2_SEQ_SEL_IRQ_2'' 0 5 0x1F, Field ''MAESTRO_WIU_ICR_3_SEQ_SEL_IRQ_3'' 0 5 0x1F,
     Field ''MAESTRO_WIU_ICR_4_SEQ_SEL_IRQ_4'' 0 5 0x1F, Field ''MAESTRO_WIU_ICR_5_SEQ_SEL_IRQ_5'' 0 5 0x1F,
     Field ''MAESTRO_WIU_ICR_6_SEQ_SEL_IRQ_6'' 0 5 0x1F, Field ''MAESTRO_WIU_ICR_7_SEQ_SEL_IRQ_7'' 0 5 0x1F,
     Field ''MAESTRO_WIU_ICR_8_SEQ_SEL_IRQ_8'' 0 5 0x1F, Field ''MAESTRO_WIU_ICR_9_SEQ_SEL_IRQ_9'' 0 5 0x1F,
     Field ''MAESTRO_WIU_ICR_10_SEQ_SEL_IRQ_10'' 0 5 0x1F, Field ''MAESTRO_WIU_ICR_11_SEQ_SEL_IRQ_11'' 0 5 0x1F,
     Field ''MAESTRO_WIU_ICR_12_SEQ_SEL_IRQ_12'' 0 5 0x1F, Field ''MAESTRO_WIU_ICR_13_SEQ_SEL_IRQ_13'' 0 5 0x1F,
     Field ''MAESTRO_WIU_ICR_14_SEQ_SEL_IRQ_14'' 0 5 0x1F, Field ''MAESTRO_WIU_ICR_15_SEQ_SEL_IRQ_15'' 0 5 0x1F]"

definition maestro_v3_wiu_resets :: "reset_row list" where
  "maestro_v3_wiu_resets = [
     Reset ''MAESTRO_WIU_ISPMR_0_MASK_MODECHG_EN_IRQ'' 0x0, Reset ''MAESTRO_WIU_ISPMR_1_MASK_MODECHG_EN_IRQ'' 0x0,
     Reset ''MAESTRO_WIU_IFR_0_FLAG_IRQ'' 0x0, Reset ''MAESTRO_WIU_IFR_1_FLAG_IRQ'' 0x0, Reset ''MAESTRO_WIU_ICR_0_SEQ_SEL_IRQ_0'' 0x0,
     Reset ''MAESTRO_WIU_ICR_1_SEQ_SEL_IRQ_1'' 0x0, Reset ''MAESTRO_WIU_ICR_2_SEQ_SEL_IRQ_2'' 0x0,
     Reset ''MAESTRO_WIU_ICR_3_SEQ_SEL_IRQ_3'' 0x0, Reset ''MAESTRO_WIU_ICR_4_SEQ_SEL_IRQ_4'' 0x0,
     Reset ''MAESTRO_WIU_ICR_5_SEQ_SEL_IRQ_5'' 0x0, Reset ''MAESTRO_WIU_ICR_6_SEQ_SEL_IRQ_6'' 0x0,
     Reset ''MAESTRO_WIU_ICR_7_SEQ_SEL_IRQ_7'' 0x0, Reset ''MAESTRO_WIU_ICR_8_SEQ_SEL_IRQ_8'' 0x0,
     Reset ''MAESTRO_WIU_ICR_9_SEQ_SEL_IRQ_9'' 0x0, Reset ''MAESTRO_WIU_ICR_10_SEQ_SEL_IRQ_10'' 0x0,
     Reset ''MAESTRO_WIU_ICR_11_SEQ_SEL_IRQ_11'' 0x0, Reset ''MAESTRO_WIU_ICR_12_SEQ_SEL_IRQ_12'' 0x0,
     Reset ''MAESTRO_WIU_ICR_13_SEQ_SEL_IRQ_13'' 0x0, Reset ''MAESTRO_WIU_ICR_14_SEQ_SEL_IRQ_14'' 0x0,
     Reset ''MAESTRO_WIU_ICR_15_SEQ_SEL_IRQ_15'' 0x0]"

definition maestro_v3_wiu_structs :: "struct_row list" where
  "maestro_v3_wiu_structs = [
     Struct ''maestro_wiu_ispmr_0'' [Bits ''mask_modechg_en_irq'' 8], Struct ''maestro_wiu_ispmr_1'' [Bits ''mask_modechg_en_irq'' 8],
     Struct ''maestro_wiu_ifr_0'' [Bits ''flag_irq'' 8], Struct ''maestro_wiu_ifr_1'' [Bits ''flag_irq'' 8],
     Struct ''maestro_wiu_icr_0'' [Bits ''seq_sel_irq_0'' 5], Struct ''maestro_wiu_icr_1'' [Bits ''seq_sel_irq_1'' 5],
     Struct ''maestro_wiu_icr_2'' [Bits ''seq_sel_irq_2'' 5], Struct ''maestro_wiu_icr_3'' [Bits ''seq_sel_irq_3'' 5],
     Struct ''maestro_wiu_icr_4'' [Bits ''seq_sel_irq_4'' 5], Struct ''maestro_wiu_icr_5'' [Bits ''seq_sel_irq_5'' 5],
     Struct ''maestro_wiu_icr_6'' [Bits ''seq_sel_irq_6'' 5], Struct ''maestro_wiu_icr_7'' [Bits ''seq_sel_irq_7'' 5],
     Struct ''maestro_wiu_icr_8'' [Bits ''seq_sel_irq_8'' 5], Struct ''maestro_wiu_icr_9'' [Bits ''seq_sel_irq_9'' 5],
     Struct ''maestro_wiu_icr_10'' [Bits ''seq_sel_irq_10'' 5], Struct ''maestro_wiu_icr_11'' [Bits ''seq_sel_irq_11'' 5],
     Struct ''maestro_wiu_icr_12'' [Bits ''seq_sel_irq_12'' 5], Struct ''maestro_wiu_icr_13'' [Bits ''seq_sel_irq_13'' 5],
     Struct ''maestro_wiu_icr_14'' [Bits ''seq_sel_irq_14'' 5], Struct ''maestro_wiu_icr_15'' [Bits ''seq_sel_irq_15'' 5]]"

definition maestro_v3_wiu_access :: "access_row list" where
  "maestro_v3_wiu_access = [
     Getter ''maestro_wiu_ispmr_0'' ''MAESTRO_WIU_ISPMR_0'', Setter ''maestro_wiu_ispmr_0'' ''MAESTRO_WIU_ISPMR_0'',
     Getter ''maestro_wiu_ispmr_1'' ''MAESTRO_WIU_ISPMR_1'', Setter ''maestro_wiu_ispmr_1'' ''MAESTRO_WIU_ISPMR_1'',
     Getter ''maestro_wiu_ifr_0'' ''MAESTRO_WIU_IFR_0'', Setter ''maestro_wiu_ifr_0'' ''MAESTRO_WIU_IFR_0'',
     Getter ''maestro_wiu_ifr_1'' ''MAESTRO_WIU_IFR_1'', Setter ''maestro_wiu_ifr_1'' ''MAESTRO_WIU_IFR_1'',
     Getter ''maestro_wiu_icr_0'' ''MAESTRO_WIU_ICR_0'', Setter ''maestro_wiu_icr_0'' ''MAESTRO_WIU_ICR_0'',
     Getter ''maestro_wiu_icr_1'' ''MAESTRO_WIU_ICR_1'', Setter ''maestro_wiu_icr_1'' ''MAESTRO_WIU_ICR_1'',
     Getter ''maestro_wiu_icr_2'' ''MAESTRO_WIU_ICR_2'', Setter ''maestro_wiu_icr_2'' ''MAESTRO_WIU_ICR_2'',
     Getter ''maestro_wiu_icr_3'' ''MAESTRO_WIU_ICR_3'', Setter ''maestro_wiu_icr_3'' ''MAESTRO_WIU_ICR_3'',
     Getter ''maestro_wiu_icr_4'' ''MAESTRO_WIU_ICR_4'', Setter ''maestro_wiu_icr_4'' ''MAESTRO_WIU_ICR_4'',
     Getter ''maestro_wiu_icr_5'' ''MAESTRO_WIU_ICR_5'', Setter ''maestro_wiu_icr_5'' ''MAESTRO_WIU_ICR_5'',
     Getter ''maestro_wiu_icr_6'' ''MAESTRO_WIU_ICR_6'', Setter ''maestro_wiu_icr_6'' ''MAESTRO_WIU_ICR_6'',
     Getter ''maestro_wiu_icr_7'' ''MAESTRO_WIU_ICR_7'', Setter ''maestro_wiu_icr_7'' ''MAESTRO_WIU_ICR_7'',
     Getter ''maestro_wiu_icr_8'' ''MAESTRO_WIU_ICR_8'', Setter ''maestro_wiu_icr_8'' ''MAESTRO_WIU_ICR_8'',
     Getter ''maestro_wiu_icr_9'' ''MAESTRO_WIU_ICR_9'', Setter ''maestro_wiu_icr_9'' ''MAESTRO_WIU_ICR_9'',
     Getter ''maestro_wiu_icr_10'' ''MAESTRO_WIU_ICR_10'', Setter ''maestro_wiu_icr_10'' ''MAESTRO_WIU_ICR_10'',
     Getter ''maestro_wiu_icr_11'' ''MAESTRO_WIU_ICR_11'', Setter ''maestro_wiu_icr_11'' ''MAESTRO_WIU_ICR_11'',
     Getter ''maestro_wiu_icr_12'' ''MAESTRO_WIU_ICR_12'', Setter ''maestro_wiu_icr_12'' ''MAESTRO_WIU_ICR_12'',
     Getter ''maestro_wiu_icr_13'' ''MAESTRO_WIU_ICR_13'', Setter ''maestro_wiu_icr_13'' ''MAESTRO_WIU_ICR_13'',
     Getter ''maestro_wiu_icr_14'' ''MAESTRO_WIU_ICR_14'', Setter ''maestro_wiu_icr_14'' ''MAESTRO_WIU_ICR_14'',
     Getter ''maestro_wiu_icr_15'' ''MAESTRO_WIU_ICR_15'', Setter ''maestro_wiu_icr_15'' ''MAESTRO_WIU_ICR_15'']"

definition maestro_v3_wiu_macros :: "macro_row list" where
  "maestro_v3_wiu_macros = [
     Macros ''MAESTRO_WIU_ISPMR_0_MASK_MODECHG_EN_IRQ'' (8, 0) (8, 0) (8, 0) 0,
     Macros ''MAESTRO_WIU_ISPMR_1_MASK_MODECHG_EN_IRQ'' (8, 0) (8, 0) (8, 0) 0,
     Macros ''MAESTRO_WIU_IFR_0_FLAG_IRQ'' (8, 0) (8, 0) (8, 0) 0, Macros ''MAESTRO_WIU_IFR_1_FLAG_IRQ'' (8, 0) (8, 0) (8, 0) 0,
     Macros ''MAESTRO_WIU_ICR_0_SEQ_SEL_IRQ_0'' (5, 0) (5, 0) (5, 0) 0, Macros ''MAESTRO_WIU_ICR_1_SEQ_SEL_IRQ_1'' (5, 0) (5, 0) (5, 0) 0,
     Macros ''MAESTRO_WIU_ICR_2_SEQ_SEL_IRQ_2'' (5, 0) (5, 0) (5, 0) 0, Macros ''MAESTRO_WIU_ICR_3_SEQ_SEL_IRQ_3'' (5, 0) (5, 0) (5, 0) 0,
     Macros ''MAESTRO_WIU_ICR_4_SEQ_SEL_IRQ_4'' (5, 0) (5, 0) (5, 0) 0, Macros ''MAESTRO_WIU_ICR_5_SEQ_SEL_IRQ_5'' (5, 0) (5, 0) (5, 0) 0,
     Macros ''MAESTRO_WIU_ICR_6_SEQ_SEL_IRQ_6'' (5, 0) (5, 0) (5, 0) 0, Macros ''MAESTRO_WIU_ICR_7_SEQ_SEL_IRQ_7'' (5, 0) (5, 0) (5, 0) 0,
     Macros ''MAESTRO_WIU_ICR_8_SEQ_SEL_IRQ_8'' (5, 0) (5, 0) (5, 0) 0, Macros ''MAESTRO_WIU_ICR_9_SEQ_SEL_IRQ_9'' (5, 0) (5, 0) (5, 0) 0,
     Macros ''MAESTRO_WIU_ICR_10_SEQ_SEL_IRQ_10'' (5, 0) (5, 0) (5, 0) 0,
     Macros ''MAESTRO_WIU_ICR_11_SEQ_SEL_IRQ_11'' (5, 0) (5, 0) (5, 0) 0,
     Macros ''MAESTRO_WIU_ICR_12_SEQ_SEL_IRQ_12'' (5, 0) (5, 0) (5, 0) 0,
     Macros ''MAESTRO_WIU_ICR_13_SEQ_SEL_IRQ_13'' (5, 0) (5, 0) (5, 0) 0,
     Macros ''MAESTRO_WIU_ICR_14_SEQ_SEL_IRQ_14'' (5, 0) (5, 0) (5, 0) 0,
     Macros ''MAESTRO_WIU_ICR_15_SEQ_SEL_IRQ_15'' (5, 0) (5, 0) (5, 0) 0]"

definition maestro_v3_wiu_map :: register_map where
  "maestro_v3_wiu_map = \<lparr>hdr_regs = maestro_v3_wiu_regs,
     hdr_fields = maestro_v3_wiu_fields,
     hdr_resets = maestro_v3_wiu_resets,
     hdr_structs = maestro_v3_wiu_structs,
     hdr_access = maestro_v3_wiu_access,
     hdr_macros = maestro_v3_wiu_macros\<rparr>"

lemmas maestro_v3_wiu_tables = maestro_v3_wiu_map_def maestro_v3_wiu_regs_def maestro_v3_wiu_fields_def maestro_v3_wiu_resets_def maestro_v3_wiu_structs_def maestro_v3_wiu_access_def 
  maestro_v3_wiu_macros_def

interpretation maestro_v3_wiu: register_header maestro_v3_wiu_map
  by unfold_locales (simp_all add: check_header maestro_v3_wiu_tables)

section \<open>\<^verbatim>\<open>maestro/maestro_v3.h, lines 1314-1546\<close>\<close>

definition maestro_v3_icu_regs :: "reg_row list" where
  "maestro_v3_icu_regs = [
     Reg ''MAESTRO_ICU_CTRL'' 0x0, Reg ''MAESTRO_ICU_MODE'' 0x1, Reg ''MAESTRO_ISLAND_MODE'' 0x2, Reg ''MAESTRO_DMU_MODE'' 0x3]"

definition maestro_v3_icu_fields :: "field_row list" where
  "maestro_v3_icu_fields = [
     Field ''MAESTRO_ICU_CTRL_ICU_CTRL'' 0 4 0xF, Field ''MAESTRO_ICU_MODE_ICU_MODE'' 0 4 0xF,
     Field ''MAESTRO_ICU_MODE_ICU_MODE_DEFINED'' 4 1 0x10, Field ''MAESTRO_ISLAND_MODE_ISL_MODE'' 0 2 0x3,
     Field ''MAESTRO_DMU_MODE_ISL_MODE'' 0 2 0x3]"

definition maestro_v3_icu_resets :: "reset_row list" where
  "maestro_v3_icu_resets = [
     Reset ''MAESTRO_ICU_CTRL_ICU_CTRL'' 0x0, Reset ''MAESTRO_ICU_MODE_ICU_MODE'' 0xF, Reset ''MAESTRO_ICU_MODE_ICU_MODE_DEFINED'' 0x1,
     Reset ''MAESTRO_ISLAND_MODE_ISL_MODE'' 0x0, Reset ''MAESTRO_DMU_MODE_ISL_MODE'' 0x0]"

definition maestro_v3_icu_structs :: "struct_row list" where
  "maestro_v3_icu_structs = [
     Struct ''maestro_icu_ctrl'' [Bits ''icu_ctrl'' 4], Struct ''maestro_icu_mode'' [Bits ''icu_mode'' 4, Bits ''icu_mode_defined'' 1],
     Struct ''maestro_island_mode'' [Bits ''isl_mode'' 2], Struct ''maestro_dmu_mode'' [Bits ''isl_mode'' 2]]"

definition maestro_v3_icu_access :: "access_row list" where
  "maestro_v3_icu_access = [
     Getter ''maestro_icu_ctrl'' ''MAESTRO_ICU_CTRL'', Setter ''maestro_icu_ctrl'' ''MAESTRO_ICU_CTRL'',
     Getter ''maestro_icu_mode'' ''MAESTRO_ICU_MODE'', Setter ''maestro_icu_mode'' ''MAESTRO_ICU_MODE'',
     Getter ''maestro_island_mode'' ''MAESTRO_ISLAND_MODE'', Setter ''maestro_island_mode'' ''MAESTRO_ISLAND_MODE'',
     Getter ''maestro_dmu_mode'' ''MAESTRO_DMU_MODE'', Setter ''maestro_dmu_mode'' ''MAESTRO_DMU_MODE'']"

definition maestro_v3_icu_macros :: "macro_row list" where
  "maestro_v3_icu_macros = [
     Macros ''MAESTRO_ICU_CTRL_ICU_CTRL'' (4, 0) (4, 0) (4, 0) 0, Macros ''MAESTRO_ICU_MODE_ICU_MODE'' (4, 0) (4, 0) (4, 0) 0,
     Macros ''MAESTRO_ICU_MODE_ICU_MODE_DEFINED'' (1, 4) (1, 4) (1, 4) 4, Macros ''MAESTRO_ISLAND_MODE_ISL_MODE'' (2, 0) (2, 0) (2, 0) 0,
     Macros ''MAESTRO_DMU_MODE_ISL_MODE'' (2, 0) (2, 0) (2, 0) 0]"

definition maestro_v3_icu_map :: register_map where
  "maestro_v3_icu_map = \<lparr>hdr_regs = maestro_v3_icu_regs,
     hdr_fields = maestro_v3_icu_fields,
     hdr_resets = maestro_v3_icu_resets,
     hdr_structs = maestro_v3_icu_structs,
     hdr_access = maestro_v3_icu_access,
     hdr_macros = maestro_v3_icu_macros\<rparr>"

lemmas maestro_v3_icu_tables = maestro_v3_icu_map_def maestro_v3_icu_regs_def maestro_v3_icu_fields_def maestro_v3_icu_resets_def maestro_v3_icu_structs_def maestro_v3_icu_access_def 
  maestro_v3_icu_macros_def

interpretation maestro_v3_icu: register_header maestro_v3_icu_map
  by unfold_locales (simp_all add: check_header maestro_v3_icu_tables)

end
