(* ===== verification/Register_Headers.thy ===== *)
theory Register_Headers
  imports Maps_Soc Maps_Io Maps_Udma Maps_Maestro
begin

text \<open>
  What the register-map headers promise to the code that includes them: the headers whose tables agree, those whose
  constants, functions and macros agree but whose types do not, and one whose constants do not fit a register.
\<close>

definition aligned_headers :: "register_map list" where
  "aligned_headers = [gap_apb_soc_map, vega_apb_soc_map, gap9_apb_soc_map, wolfe_apb_soc_map, pulp_apb_soc_map, pulpissimo_apb_soc_map,
     timer_v2_map, itc_v1_map, gpio_v2_map, gpio_v3_map, pwm_v1_map, hwce_v4_map, cpi_v1_map, mram_v1_map, maestro_v1_dlc_map,
     maestro_v2_dlc_map, maestro_v3_dlc_map]"

text \<open>Blocks whose registers have numbers, for the bus of the power manager, instead of addresses.\<close>

definition numbered_headers :: "register_map list" where
  "numbered_headers = [maestro_v1_wiu_map, maestro_v1_icu_map, maestro_v2_wiu_map, maestro_v2_icu_map, maestro_v3_wiu_map, maestro_v3_icu_map]"

definition untyped_headers :: "register_map list" where
  "untyped_headers = [memcpy_v1_map, i2s_v1_map, i2s_v2_map, i2s_v3_map, rtc_v2_map]"

definition sdk_headers :: "register_map list" where
  "sdk_headers = aligned_headers @ numbered_headers"

lemma aligned:
  assumes "h \<in> set aligned_headers"
  shows "aligned_header h"
proof -
  have "list_all aligned_header aligned_headers"
    unfolding aligned_headers_def list.pred_inject
    by (intro conjI list.pred_inject(1)
        gap_apb_soc.aligned_header_axioms vega_apb_soc.aligned_header_axioms gap9_apb_soc.aligned_header_axioms
        wolfe_apb_soc.aligned_header_axioms pulp_apb_soc.aligned_header_axioms pulpissimo_apb_soc.aligned_header_axioms
        timer_v2.aligned_header_axioms itc_v1.aligned_header_axioms gpio_v2.aligned_header_axioms gpio_v3.aligned_header_axioms
        pwm_v1.aligned_header_axioms hwce_v4.aligned_header_axioms cpi_v1.aligned_header_axioms mram_v1.aligned_header_axioms
        maestro_v1_dlc.aligned_header_axioms maestro_v2_dlc.aligned_header_axioms maestro_v3_dlc.aligned_header_axioms)
  with assms show ?thesis by (simp only: list_all_iff)
qed

lemma sdk_header:
  assumes "h \<in> set sdk_headers"
  shows "register_header h"
proof -
  have "list_all register_header numbered_headers"
    unfolding numbered_headers_def list.pred_inject
    by (intro conjI list.pred_inject(1)
        maestro_v1_wiu.register_header_axioms maestro_v1_icu.register_header_axioms maestro_v2_wiu.register_header_axioms
        maestro_v2_icu.register_header_axioms maestro_v3_wiu.register_header_axioms maestro_v3_icu.register_header_axioms)
  with assms aligned show ?thesis
    unfolding sdk_headers_def list_all_iff aligned_header_def set_append by blast
qed

lemma untyped_header:
  assumes "h \<in> set untyped_headers"
  shows "register_addresses h"
proof -
  have "list_all register_addresses untyped_headers"
    unfolding untyped_headers_def list.pred_inject
    by (intro conjI list.pred_inject(1)
        memcpy_v1.register_addresses_axioms i2s_v1.register_addresses_axioms i2s_v2.register_addresses_axioms
        i2s_v3.register_addresses_axioms rtc_v2.register_addresses_axioms)
  with assms show ?thesis by (simp only: list_all_iff)
qed

section \<open>Types, constants and macros\<close>

text \<open>
  C33: In the 23 register maps of 17 headers every member of the type of a register lies in the 32 bits and is named like a field whose
  constants give the same value for every content of the register. The macros of this name are the one group with
  the place of the field in its four macros; below 32 bits they read the field, replace it and shift a value to it the
  same way. Writing a member leaves every other member of the register as it was.
\<close>

theorem register_views_agree:
  assumes "h \<in> set sdk_headers" "Struct s ms \<in> set (hdr_structs h)" "(f, p, w) \<in> set (layout 0 ms)"
    "F = in_upper s @ ''_'' @ in_upper f"
  shows "p + w \<le> 32
    \<and> (\<exists>m. Field F p w m \<in> set (hdr_fields h) \<and> (\<forall>v. masked (Field F p w m) v = member_get p w v))
    \<and> (\<forall>u g i sh. Macros F u g i sh \<in> set (hdr_macros h) \<longleftrightarrow> u = (w, p) \<and> g = (w, p) \<and> i = (w, p) \<and> sh = p)
    \<and> (w < 32 \<longrightarrow> (\<forall>v x. macro_get (Macros F (w, p) (w, p) (w, p) p) v = member_get p w v
        \<and> macro_set (Macros F (w, p) (w, p) (w, p) p) v x = member_set p w x v
        \<and> macro_val (Macros F (w, p) (w, p) (w, p) p) (take_bit w x) = member_set p w x 0))
    \<and> (\<forall>(g, q, u) \<in> set (layout 0 ms). \<forall>v x. member_get q u (member_set p w x v) =
        (if (f, p, w) = (g, q, u) then take_bit w x else member_get q u v))"
proof (intro conjI)
  note views = register_header.views_agree [OF sdk_header [OF assms(1)] assms(2-4)]
  show "\<exists>m. Field F p w m \<in> set (hdr_fields h) \<and> (\<forall>v. masked (Field F p w m) v = member_get p w v)" by (rule views(1))
  show "\<forall>u g i sh. Macros F u g i sh \<in> set (hdr_macros h) \<longleftrightarrow> u = (w, p) \<and> g = (w, p) \<and> i = (w, p) \<and> sh = p"
    by (intro allI views(2))
  show "w < 32 \<longrightarrow> (\<forall>v x. macro_get (Macros F (w, p) (w, p) (w, p) p) v = member_get p w v
        \<and> macro_set (Macros F (w, p) (w, p) (w, p) p) v x = member_set p w x v
        \<and> macro_val (Macros F (w, p) (w, p) (w, p) p) (take_bit w x) = member_set p w x 0)"
    by (intro impI allI conjI views(3-5))
  show "p + w \<le> 32" by (rule register_header.member_in_word [OF sdk_header [OF assms(1)] assms(2,3)])
qed (use register_header.members_apart [OF sdk_header [OF assms(1)] assms(2,3)] in blast)

lemma timer_v2_listed: "timer_v2_map \<in> set sdk_headers"
  by (simp add: sdk_headers_def aligned_headers_def)

text \<open>The configuration register of the timer, whose prescaler takes the bits from 8 to 15.\<close>

definition timer_cfg_members :: "member list" where
  "timer_cfg_members = (case hd timer_v2_structs of Struct s ms \<Rightarrow> ms)"

lemma timer_cfg: "Struct ''timer_cfg_lo'' timer_cfg_members \<in> set (hdr_structs timer_v2_map)"
    "(''pval'', 8, 8) \<in> set (layout 0 timer_cfg_members)" "(''enable'', 0, 1) \<in> set (layout 0 timer_cfg_members)"
  by (simp_all add: timer_cfg_members_def timer_v2_map_def timer_v2_structs_def)

theorem register_views_agree_witness:
  "(\<exists>m. Field ''TIMER_CFG_LO_PVAL'' 8 8 m \<in> set (hdr_fields timer_v2_map)
      \<and> masked (Field ''TIMER_CFG_LO_PVAL'' 8 8 m) 0x1234 = 0x12)
    \<and> Macros ''TIMER_CFG_LO_PVAL'' (8, 8) (8, 8) (8, 8) 8 \<in> set (hdr_macros timer_v2_map)
    \<and> macro_set (Macros ''TIMER_CFG_LO_PVAL'' (8, 8) (8, 8) (8, 8) 8) 0x1234 0x156 = 0x5634
    \<and> member_get 0 1 (member_set 8 8 0x156 0x1235) = 1"
proof -
  have n: "''TIMER_CFG_LO_PVAL'' = in_upper ''timer_cfg_lo'' @ ''_'' @ in_upper ''pval''" by (simp add: in_upper_def)
  note a = register_views_agree [OF timer_v2_listed timer_cfg(1,2) n]
  have g: "member_get 8 8 0x1234 = 0x12" "member_set 8 8 0x156 0x1234 = 0x5634"
    by (simp_all add: member_get_def member_set_def take_bit_eq_mod mask_eq_exp_minus_1)
  note fields = a [THEN conjunct2, THEN conjunct1] and names = a [THEN conjunct2, THEN conjunct2, THEN conjunct1]
    and macros = a [THEN conjunct2, THEN conjunct2, THEN conjunct2, THEN conjunct1]
    and members = a [THEN conjunct2, THEN conjunct2, THEN conjunct2, THEN conjunct2]
  have "member_get 0 1 (member_set 8 8 0x156 0x1235) = (if (''pval'', 8, 8) = (''enable'', 0 :: nat, 1 :: nat)
      then take_bit 8 (0x156 :: u32) else member_get 0 1 0x1235)"
    using bspec [OF members timer_cfg(3)] by simp
  then have m: "member_get 0 1 (member_set 8 8 0x156 0x1235) = 1" by (simp add: member_get_def)
  obtain k where k: "Field ''TIMER_CFG_LO_PVAL'' 8 8 k \<in> set (hdr_fields timer_v2_map)"
    "masked (Field ''TIMER_CFG_LO_PVAL'' 8 8 k) 0x1234 = 0x12"
    using fields unfolding g(1) [symmetric] by blast
  have r: "Macros ''TIMER_CFG_LO_PVAL'' (8, 8) (8, 8) (8, 8) 8 \<in> set (hdr_macros timer_v2_map)" using names by blast
  have "(8 :: nat) < 32" by simp
  then have "macro_set (Macros ''TIMER_CFG_LO_PVAL'' (8, 8) (8, 8) (8, 8) 8) 0x1234 0x156 = 0x5634"
    unfolding g(2) [symmetric] using macros by blast
  with k r m show ?thesis by blast
qed

section \<open>Access functions\<close>

text \<open>
  In 22 register maps the access functions of a register address one word: what the write function of a register
  has stored, the read function of the same register returns; every other register lies at a distance of four bytes or more
  and is not affected.
\<close>

theorem register_accessors_apart:
  assumes "h \<in> set (aligned_headers @ untyped_headers)" "Setter f r \<in> set (hdr_access h)" "Getter g r' \<in> set (hdr_access h)"
  shows "\<exists>a b t'. offset_of h r = Some a \<and> offset_of h r' = Some b \<and> (r' \<noteq> r \<longrightarrow> 4 \<le> unat (a - b))
    \<and> run_set h r base v t = Some t'
    \<and> map_option fst (run_get written h r' base t') = Some (if r' = r then v else written t (base + b))"
proof -
  have h: "register_addresses h"
    using assms(1) aligned untyped_header by (auto simp: aligned_header_def)
  then have c: "register_constants h" by (simp add: register_addresses_def)
  obtain a b where "offset_of h r = Some a" "offset_of h r' = Some b"
    using register_constants.accessor_offset [OF c] assms(2,3) by (meson option.exhaust)
  with register_addresses.registers_apart [OF h this] show ?thesis by (auto simp: run_set_def)
qed

theorem register_accessors_apart_witness:
  "\<exists>t'. run_set timer_v2_map ''TIMER_CMP_LO'' 0x10200400 7 [] = Some t'
    \<and> map_option fst (run_get written timer_v2_map ''TIMER_CMP_LO'' 0x10200400 t') = Some 7
    \<and> map_option fst (run_get written timer_v2_map ''TIMER_CMP_HI'' 0x10200400 t') = Some 0"
proof -
  have s: "Setter ''timer_cmp_lo'' ''TIMER_CMP_LO'' \<in> set (hdr_access timer_v2_map)"
      "Getter ''timer_cmp_lo'' ''TIMER_CMP_LO'' \<in> set (hdr_access timer_v2_map)"
      "Getter ''timer_cmp_hi'' ''TIMER_CMP_HI'' \<in> set (hdr_access timer_v2_map)"
    by (simp_all add: timer_v2_map_def timer_v2_access_def)
  have l: "timer_v2_map \<in> set (aligned_headers @ untyped_headers)" by (simp add: aligned_headers_def)
  have z: "written [] a = 0" for a by (simp add: written_def)
  from register_accessors_apart [OF l s(1,2), of "0x10200400" 7 "[]"] register_accessors_apart [OF l s(1,3), of "0x10200400" 7 "[]"]
  show ?thesis by (auto simp: z)
qed

text \<open>The access functions of numbered registers move words that overlap.\<close>

theorem numbered_registers_overlap: "list_all (\<lambda>h. \<not> aligned h) numbered_headers"
  by (simp add: numbered_headers_def aligned_def maestro_v1_wiu_tables maestro_v1_icu_tables maestro_v2_wiu_tables
      maestro_v2_icu_tables maestro_v3_wiu_tables maestro_v3_icu_tables)

section \<open>Types that disagree\<close>

text \<open>
  A header is mistyped when a member of a register's type has the name of a field but gives another value for some content
  of the register.
\<close>

definition mistyped :: "register_map \<Rightarrow> bool" where
  "mistyped h \<longleftrightarrow> (\<exists>s ms f p w b u m v. Struct s ms \<in> set (hdr_structs h) \<and> (f, p, w) \<in> set (layout 0 ms)
     \<and> Field (in_upper s @ ''_'' @ in_upper f) b u m \<in> set (hdr_fields h)
     \<and> masked (Field (in_upper s @ ''_'' @ in_upper f) b u m) v \<noteq> member_get p w v)"

lemma mistypedI:
  assumes "Struct s ms \<in> set (hdr_structs h)" "(f, p, w) \<in> set (layout 0 ms)" "Field F b u m \<in> set (hdr_fields h)"
    "F = in_upper s @ ''_'' @ in_upper f" "masked (Field F b u m) v \<noteq> member_get p w v"
  shows "mistyped h"
  using assms unfolding mistyped_def by blast

lemma types_misplaced:
  "mistyped memcpy_v1_map" "mistyped i2s_v1_map" "mistyped i2s_v2_map" "mistyped i2s_v3_map" "mistyped rtc_v2_map"
proof -
  show "mistyped memcpy_v1_map"
    by (rule mistypedI [where s = "''udma_memcpy_rx_cfg''" and f = "''pending''" and p = 6 and w = 1 and b = 5 and u = 1 and m = 32 and v = 32
          and F = "''UDMA_MEMCPY_RX_CFG_PENDING''" and ms = "[Bits ''continous'' 1, Padding 3, Bits ''en'' 1, Bits ''clr'' 1, Bits ''pending'' 1]"])
      (simp_all add: memcpy_v1_map_def memcpy_v1_structs_def memcpy_v1_fields_def in_upper_def member_get_def)
  show "mistyped i2s_v1_map"
    by (rule mistypedI [where s = "''udma_i2s_rx_cfg_ch0''" and f = "''pending''" and p = 6 and w = 1 and b = 5 and u = 1 and m = 32 and v = 32
          and F = "''UDMA_I2S_RX_CFG_CH0_PENDING''" and ms = "[Bits ''continous'' 1, Bits ''datasize'' 2, Padding 1, Bits ''en'' 1, Bits ''clr'' 1, Bits ''pending'' 1]"])
      (simp_all add: i2s_v1_map_def i2s_v1_structs_def i2s_v1_fields_1_def in_upper_def member_get_def)
  show "mistyped i2s_v2_map"
    by (rule mistypedI [where s = "''udma_i2s_i2s_rx_cfg''" and f = "''pending''" and p = 6 and w = 1 and b = 5 and u = 1 and m = 32 and v = 32
          and F = "''UDMA_I2S_I2S_RX_CFG_PENDING''" and ms = "[Bits ''continous'' 1, Bits ''datasize'' 2, Padding 1, Bits ''en'' 1, Bits ''clr'' 1, Bits ''pending'' 1]"])
      (simp_all add: i2s_v2_map_def i2s_v2_structs_def i2s_v2_fields_1_def in_upper_def member_get_def)
  show "mistyped i2s_v3_map"
    by (rule mistypedI [where s = "''udma_i2s_i2s_rx_cfg''" and f = "''pending''" and p = 6 and w = 1 and b = 5 and u = 1 and m = 32 and v = 32
          and F = "''UDMA_I2S_I2S_RX_CFG_PENDING''" and ms = "[Bits ''continous'' 1, Bits ''datasize'' 2, Padding 1, Bits ''en'' 1, Bits ''clr'' 1, Bits ''pending'' 1]"])
      (simp_all add: i2s_v3_map_def i2s_v3_structs_def i2s_v3_fields_1_def in_upper_def member_get_def)
  show "mistyped rtc_v2_map"
    by (rule mistypedI [where s = "''rtc_alarm''" and f = "''seconds_1''" and p = 8 and w = 8 and b = 0 and u = 8 and m = 255 and v = 1
          and F = "''RTC_ALARM_SECONDS_1''" and ms = "[Bits ''seconds_0'' 8, Bits ''seconds_1'' 8, Bits ''minutes_0'' 8, Bits ''minutes_1'' 8,
            Bits ''hours_0'' 6, Bits ''hours_1'' 6, Padding 9, Bits ''enable'' 1]"])
      (simp_all add: rtc_v2_map_def rtc_v2_structs_def rtc_v2_fields_def in_upper_def member_get_def)
qed

text \<open>
  The register maps of the 17 headers are not mistyped. Five others are: with the DMA channels of I2S and the copy engine the type has the
  flag for a pending transfer one bit above its field, and with the real-time clock it has the digits of the alarm side by side
  where their fields overlap.
\<close>

theorem headers_typed_or_not:
  "list_all (\<lambda>h. \<not> mistyped h) sdk_headers \<and> list_all mistyped untyped_headers"
proof (rule conjI, unfold list_all_iff, intro ballI)
  fix h
  assume h: "h \<in> set sdk_headers"
  have con: "constants_agree h" using sdk_header [OF h] by (simp add: register_header_def register_constants_def)
  show "\<not> mistyped h"
    unfolding mistyped_def
  proof (intro notI, elim exE conjE)
    fix s ms f p w b u m v
    let ?F = "in_upper s @ ''_'' @ in_upper f"
    assume a: "Struct s ms \<in> set (hdr_structs h)" "(f, p, w) \<in> set (layout 0 ms)" "Field ?F b u m \<in> set (hdr_fields h)"
      "masked (Field ?F b u m) v \<noteq> member_get p w v"
    obtain m' where m': "Field ?F p w m' \<in> set (hdr_fields h)" "\<forall>v. masked (Field ?F p w m') v = member_get p w v"
      using register_header.views_agree(1) [OF sdk_header [OF h] a(1,2) refl] by blast
    have "Field ?F b u m = Field ?F p w m'"
      using con inj_onD [OF _ _ a(3) m'(1), of field_name] by (simp add: constants_agree_def distinct_map)
    with a(4) m'(2) show False by simp
  qed
next
  show "\<forall>h \<in> set untyped_headers. mistyped h"
    using types_misplaced by (simp add: untyped_headers_def)
qed

text \<open>The delay of the chip select of HyperBus ends beyond the 32 bits of its register: the constant is too large for a word.\<close>

theorem hyper_chip_select_beyond_word:
  "Field ''HYPER_TIMING_CFG_CS_MAX'' 18 16 0x3FFFC0000 \<in> set (hdr_fields hyper_v2_map)
    \<and> \<not> constants_agree hyper_v2_map \<and> \<not> structs_agree hyper_v2_map"
proof -
  let ?F = "Field ''HYPER_TIMING_CFG_CS_MAX'' 18 16 0x3FFFC0000"
  have F: "?F \<in> set (hdr_fields hyper_v2_map)" by (simp add: hyper_v2_map_def hyper_v2_fields_1_def hyper_v2_fields_2_def)
  moreover have "\<not> field_ok ?F" by simp
  ultimately have "\<not> list_all field_ok (hdr_fields hyper_v2_map)" unfolding list_all_iff by blast
  moreover have "\<not> list_all struct_ok (hdr_structs hyper_v2_map)"
    by (simp add: hyper_v2_map_def hyper_v2_structs_1_def hyper_v2_structs_2_def)
  ultimately show ?thesis using F by (simp add: constants_agree_def structs_agree_def)
qed

end
