(* ===== verification/Host_Bridge.thy ===== *)
theory Host_Bridge
  imports Mmio
begin

text \<open>
  The printing of a core through the debugger on the host (\<^verbatim>\<open>hal/debug_bridge/debug_bridge.h\<close>): the core fills a buffer in a
  structure it shares with the host and hands it over by a nonzero count, which the host clears after printing.
  The structure is declared in a header that is not part of the repository: its fields are those the code names, the
  words it accesses have 32 bits, and the size of the buffer, \<^verbatim>\<open>HAL_PRINTF_BUF_SIZE\<close>, is the parameter \<open>n\<close>. The
  requests for files and frame buffers only fill structures of that header and are left out.
\<close>

section \<open>The shared structure and the operations\<close>

record bridge =
  connected :: u32
  pending_putchar :: u32
  putc_current :: u32
  putc_buffer :: "u8 list"
  exit_status :: u32
  debug_step :: u32
  debug_step_pending :: u32

datatype bridge_error = Hangs | PastBuffer

definition hal_bridge_is_connected :: "bridge \<Rightarrow> u32" where
  "hal_bridge_is_connected d = connected d"

text \<open>\<open>host\<close> is what the host does between two looks at a word it shares.\<close>

definition hal_debug_flush_printf :: "(bridge \<Rightarrow> bridge) \<Rightarrow> bridge \<Rightarrow> bridge option" where
  "hal_debug_flush_printf host d = map_option snd (retry (\<lambda>d. (pending_putchar d, d)) (\<lambda>p. p = 0) host d)"

definition hal_debug_exit :: "u32 \<Rightarrow> bridge \<Rightarrow> bridge" where
  "hal_debug_exit status d = d\<lparr>exit_status := 0x80000000 OR status\<rparr>"

definition hal_debug_reset :: "bridge \<Rightarrow> bridge" where
  "hal_debug_reset d = d\<lparr>exit_status := 0x80000000 OR 0x40000000\<rparr>"

definition hal_debug_is_empty :: "bridge \<Rightarrow> bool" where
  "hal_debug_is_empty d \<longleftrightarrow> putc_current d = 0"

definition hal_debug_is_busy :: "bridge \<Rightarrow> u32" where
  "hal_debug_is_busy d = pending_putchar d"

definition hal_debug_send_printf :: "bridge \<Rightarrow> bridge" where
  "hal_debug_send_printf d =
     (if putc_current d \<noteq> 0 then
        let d = d\<lparr>pending_putchar := putc_current d\<rparr>
        in d\<lparr>putc_current := 0\<rparr>
      else d)"

text \<open>The store of a character with the increment, and the test behind it; the two functions for characters share both.\<close>

definition store_char :: "u8 \<Rightarrow> bridge \<Rightarrow> bridge_error + bridge" where
  "store_char c d =
     (if unat (putc_current d) < length (putc_buffer d)
      then Inr (d\<lparr>putc_buffer := (putc_buffer d)[unat (putc_current d) := c], putc_current := putc_current d + 1\<rparr>)
      else Inl PastBuffer)"

definition handed_over :: "u32 \<Rightarrow> u8 \<Rightarrow> bridge \<Rightarrow> bool" where
  "handed_over n c d \<longleftrightarrow> putc_current d = n \<or> c = 0x0A"

definition hal_debug_putchar :: "(bridge \<Rightarrow> bridge) \<Rightarrow> u32 \<Rightarrow> u8 \<Rightarrow> bridge \<Rightarrow> bridge_error + bridge" where
  "hal_debug_putchar host n c d =
     (case hal_debug_flush_printf host d of
        None \<Rightarrow> Inl Hangs
      | Some d \<Rightarrow> bindE (store_char c d) (\<lambda>d.
          Inr (if handed_over n c d then hal_debug_send_printf d else d)))"

definition hal_debug_putchar_nopoll :: "u32 \<Rightarrow> u8 \<Rightarrow> bridge \<Rightarrow> bridge_error + i32 \<times> bridge" where
  "hal_debug_putchar_nopoll n c d =
     (if pending_putchar d \<noteq> 0 then Inr (- 1, d)
      else bindE (store_char c d) (\<lambda>d.
        Inr (0, if handed_over n c d then hal_debug_send_printf d else d)))"

definition hal_debug_step :: "(bridge \<Rightarrow> bridge) \<Rightarrow> u32 \<Rightarrow> bridge \<Rightarrow> bridge option" where
  "hal_debug_step host value d =
     (let d = d\<lparr>debug_step := value\<rparr>;
          d = d\<lparr>debug_step_pending := 1\<rparr>
      in map_option snd (retry (\<lambda>d. (debug_step_pending d, d)) (\<lambda>p. p = 0) host d))"

section \<open>Core and host, access by access\<close>

text \<open>
  Where the core is: outside the functions, waiting for the count to be cleared, about to store a character, about to
  test whether to hand over, at the test of \<open>hal_debug_send_printf\<close>, about to publish the count, about to
  clear its own. The host is idle or has read the characters announced and not yet cleared the count. \<open>accepted\<close>
  are the characters stored so far, \<open>printed\<close> those the host has printed.
\<close>

datatype core_pc = Ready | Flush u8 | Store u8 | Test u8 | Send | Publish | Clear
datatype host_pc = Idle | Got "u8 list"

record bridge_sys =
  dbg :: bridge
  core_at :: core_pc
  host_at :: host_pc
  accepted :: "u8 list"
  printed :: "u8 list"

inductive bridge_step :: "u32 \<Rightarrow> bridge_sys \<Rightarrow> bridge_sys \<Rightarrow> bool" for n :: u32 where
  putchar: "core_at s = Ready \<Longrightarrow> bridge_step n s (s\<lparr>core_at := Flush c\<rparr>)"
| flush_wait: "core_at s = Flush c \<Longrightarrow> pending_putchar (dbg s) \<noteq> 0 \<Longrightarrow> bridge_step n s s"
| flush_done: "core_at s = Flush c \<Longrightarrow> pending_putchar (dbg s) = 0 \<Longrightarrow> bridge_step n s (s\<lparr>core_at := Store c\<rparr>)"
| nopoll_busy: "core_at s = Ready \<Longrightarrow> pending_putchar (dbg s) \<noteq> 0 \<Longrightarrow> bridge_step n s s"
| nopoll: "core_at s = Ready \<Longrightarrow> pending_putchar (dbg s) = 0 \<Longrightarrow> bridge_step n s (s\<lparr>core_at := Store c\<rparr>)"
| store: "core_at s = Store c \<Longrightarrow> store_char c (dbg s) = Inr d \<Longrightarrow>
    bridge_step n s (s\<lparr>dbg := d, core_at := Test c, accepted := accepted s @ [c]\<rparr>)"
| test: "core_at s = Test c \<Longrightarrow> bridge_step n s (s\<lparr>core_at := if handed_over n c (dbg s) then Send else Ready\<rparr>)"
| send: "core_at s = Ready \<Longrightarrow> bridge_step n s (s\<lparr>core_at := Send\<rparr>)"
| send_test: "core_at s = Send \<Longrightarrow> bridge_step n s (s\<lparr>core_at := if putc_current (dbg s) \<noteq> 0 then Publish else Ready\<rparr>)"
| publish: "core_at s = Publish \<Longrightarrow>
    bridge_step n s (s\<lparr>dbg := (dbg s)\<lparr>pending_putchar := putc_current (dbg s)\<rparr>, core_at := Clear\<rparr>)"
| clear: "core_at s = Clear \<Longrightarrow> bridge_step n s (s\<lparr>dbg := (dbg s)\<lparr>putc_current := 0\<rparr>, core_at := Ready\<rparr>)"
| host_reads: "host_at s = Idle \<Longrightarrow> pending_putchar (dbg s) \<noteq> 0 \<Longrightarrow>
    bridge_step n s (s\<lparr>host_at := Got (take (unat (pending_putchar (dbg s))) (putc_buffer (dbg s)))\<rparr>)"
| host_clears: "host_at s = Got xs \<Longrightarrow>
    bridge_step n s (s\<lparr>dbg := (dbg s)\<lparr>pending_putchar := 0\<rparr>, host_at := Idle, printed := printed s @ xs\<rparr>)"

definition bridge_start :: "u32 \<Rightarrow> bridge \<Rightarrow> bridge_sys \<Rightarrow> bool" where
  "bridge_start n d s \<longleftrightarrow> s = \<lparr>dbg = d, core_at = Ready, host_at = Idle, accepted = [], printed = []\<rparr>
     \<and> pending_putchar d = 0 \<and> putc_current d = 0 \<and> length (putc_buffer d) = unat n \<and> n \<noteq> 0"

inductive bridge_reach :: "u32 \<Rightarrow> bridge_sys \<Rightarrow> bool" for n :: u32 where
  bridge_init: "bridge_start n d s \<Longrightarrow> bridge_reach n s"
| bridge_next: "bridge_reach n s \<Longrightarrow> bridge_step n s t \<Longrightarrow> bridge_reach n t"

text \<open>
  What the host has yet to print: the characters announced, then those the core has stored since. Between publishing
  and clearing the count of the core still covers the characters announced.
\<close>

definition unprinted :: "bridge_sys \<Rightarrow> u8 list" where
  "unprinted s = take (unat (pending_putchar (dbg s))) (putc_buffer (dbg s))
     @ (if core_at s = Clear then [] else take (unat (putc_current (dbg s))) (putc_buffer (dbg s)))"

definition bridge_ok :: "u32 \<Rightarrow> bridge_sys \<Rightarrow> bool" where
  "bridge_ok n s \<longleftrightarrow> (let d = dbg s; p = pending_putchar d; k = putc_current d in
     length (putc_buffer d) = unat n \<and> 0 < n \<and> accepted s = printed s @ unprinted s
     \<and> p \<le> n \<and> k \<le> n \<and> (core_at s \<noteq> Clear \<longrightarrow> p = 0 \<or> k = 0)
     \<and> (host_at s \<noteq> Idle \<longrightarrow> p \<noteq> 0 \<and> host_at s = Got (take (unat p) (putc_buffer d)))
     \<and> (case core_at s of
          Ready \<Rightarrow> k < n | Flush c \<Rightarrow> k < n | Store c \<Rightarrow> k < n \<and> p = 0 | Test c \<Rightarrow> p = 0
        | Send \<Rightarrow> True | Publish \<Rightarrow> p = 0 \<and> k \<noteq> 0 | Clear \<Rightarrow> k \<noteq> 0))"

lemma bridge_start_ok: "bridge_start n d s \<Longrightarrow> bridge_ok n s"
  by (auto simp: bridge_start_def bridge_ok_def unprinted_def word_neq_0_conv)

lemma store_char_ok:
  assumes "store_char c d = Inr d'" "putc_current d < n" "length (putc_buffer d) = unat n"
  shows "unat (putc_current d') = Suc (unat (putc_current d))" "pending_putchar d' = pending_putchar d"
    "take (unat (putc_current d')) (putc_buffer d') = take (unat (putc_current d)) (putc_buffer d) @ [c]"
    "length (putc_buffer d') = unat n" "putc_current d' \<le> n"
proof -
  have u: "unat (putc_current d + 1) = Suc (unat (putc_current d))" by (rule unat_u32_succ [OF assms(2)])
  have l: "unat (putc_current d) < length (putc_buffer d)" using assms(2,3) by (simp add: word_less_nat_alt)
  with assms(1) have d': "d' = d\<lparr>putc_buffer := (putc_buffer d)[unat (putc_current d) := c], putc_current := putc_current d + 1\<rparr>"
    by (simp add: store_char_def)
  show "unat (putc_current d') = Suc (unat (putc_current d))" "pending_putchar d' = pending_putchar d"
    "length (putc_buffer d') = unat n" using u assms(3) by (simp_all add: d')
  show "putc_current d' \<le> n" using u l assms(3) by (simp add: d' word_le_nat_alt)
  show "take (unat (putc_current d')) (putc_buffer d') = take (unat (putc_current d)) (putc_buffer d) @ [c]"
    using u l by (simp add: d' take_Suc_conv_app_nth)
qed

lemma bridge_step_ok: "bridge_step n s t \<Longrightarrow> bridge_ok n s \<Longrightarrow> bridge_ok n t"
proof (induction rule: bridge_step.induct)
  case (store s c d)
  have k: "putc_current (dbg s) < n" "length (putc_buffer (dbg s)) = unat n"
    using store by (auto simp: bridge_ok_def Let_def)
  from store store_char_ok [OF store(2) k] show ?case
    by (auto simp: bridge_ok_def Let_def unprinted_def)
qed (auto simp: bridge_ok_def Let_def unprinted_def handed_over_def split: if_splits core_pc.splits)

lemma bridge_reach_ok: "bridge_reach n s \<Longrightarrow> bridge_ok n s"
  by (induction rule: bridge_reach.induct) (auto intro: bridge_start_ok bridge_step_ok)

section \<open>The functions as runs\<close>

inductive bridge_steps :: "u32 \<Rightarrow> bridge_sys \<Rightarrow> bridge_sys \<Rightarrow> bool" for n :: u32 where
  steps_refl: "bridge_steps n s s"
| steps_step: "bridge_step n s t \<Longrightarrow> bridge_steps n t u \<Longrightarrow> bridge_steps n s u"

lemma steps_reach: "bridge_steps n s t \<Longrightarrow> bridge_reach n s \<Longrightarrow> bridge_reach n t"
  by (induction rule: bridge_steps.induct) (auto intro: bridge_next)

lemma steps_trans: "bridge_steps n s t \<Longrightarrow> bridge_steps n t u \<Longrightarrow> bridge_steps n s u"
  by (induction rule: bridge_steps.induct) (auto intro: steps_step)

text \<open>The host, between two looks of the core: it prints what is announced or does nothing.\<close>

definition host_prints :: "bridge \<Rightarrow> bridge" where
  "host_prints d = d\<lparr>pending_putchar := 0\<rparr>"

definition plays_host :: "(bridge \<Rightarrow> bridge) \<Rightarrow> bool" where
  "plays_host host \<longleftrightarrow> (\<forall>d. host d = d \<or> host d = host_prints d)"

lemma host_steps:
  assumes "plays_host host" "host_at s = Idle" "pending_putchar (dbg s) \<noteq> 0"
  shows "\<exists>ys. bridge_steps n s (s\<lparr>dbg := host (dbg s), printed := printed s @ ys\<rparr>)"
proof (cases "host (dbg s) = dbg s")
  case True
  then show ?thesis by (auto intro!: exI [of _ "[]"] steps_refl)
next
  case False
  with assms(1) have h: "host (dbg s) = (dbg s)\<lparr>pending_putchar := 0\<rparr>" by (auto simp: plays_host_def host_prints_def)
  let ?xs = "take (unat (pending_putchar (dbg s))) (putc_buffer (dbg s))"
  let ?t = "s\<lparr>host_at := Got ?xs\<rparr>"
  have "bridge_step n s ?t" using assms(2,3) by (rule host_reads)
  moreover have "bridge_step n ?t (?t\<lparr>dbg := (dbg ?t)\<lparr>pending_putchar := 0\<rparr>, host_at := Idle, printed := printed ?t @ ?xs\<rparr>)"
    by (rule host_clears) simp
  moreover have "?t\<lparr>dbg := (dbg ?t)\<lparr>pending_putchar := 0\<rparr>, host_at := Idle, printed := printed ?t @ ?xs\<rparr>
      = s\<lparr>dbg := host (dbg s), printed := printed s @ ?xs\<rparr>"
    using assms(2) by (simp add: h)
  ultimately show ?thesis by (metis steps_refl steps_step)
qed

lemma look_tries: "after_tries (\<lambda>d. (f d, d)) again k d = (again ^^ k) d"
  by (induction k arbitrary: d) (simp_all add: funpow_swap1)

lemma host_runs:
  assumes "plays_host host" "host_at s = Idle" "\<And>j. j < k \<Longrightarrow> pending_putchar ((host ^^ j) (dbg s)) \<noteq> 0"
  shows "\<exists>ys. bridge_steps n s (s\<lparr>dbg := (host ^^ k) (dbg s), printed := printed s @ ys\<rparr>)"
  using assms(3)
proof (induction k)
  case 0
  then show ?case by (auto intro!: exI [of _ "[]"] steps_refl)
next
  case (Suc k)
  then obtain ys where ys: "bridge_steps n s (s\<lparr>dbg := (host ^^ k) (dbg s), printed := printed s @ ys\<rparr>)" by fastforce
  let ?t = "s\<lparr>dbg := (host ^^ k) (dbg s), printed := printed s @ ys\<rparr>"
  from host_steps [OF assms(1), of ?t n] assms(2) Suc.prems [of k] obtain zs where
    "bridge_steps n ?t (?t\<lparr>dbg := host (dbg ?t), printed := printed ?t @ zs\<rparr>)" by auto
  with ys have "bridge_steps n s (?t\<lparr>dbg := host (dbg ?t), printed := printed ?t @ zs\<rparr>)" by (rule steps_trans)
  then show ?case by auto
qed

lemma flush_result:
  assumes "hal_debug_flush_printf host d = Some d'"
  obtains k where "d' = (host ^^ k) d" "pending_putchar d' = 0" "\<And>j. j < k \<Longrightarrow> pending_putchar ((host ^^ j) d) \<noteq> 0"
proof -
  from assms obtain v where r: "retry (\<lambda>d. (pending_putchar d, d)) (\<lambda>p. p = 0) host d = Some (v, d')"
    by (auto simp: hal_debug_flush_printf_def)
  from retry_returns [OF r] obtain n where n: "pending_putchar ((host ^^ n) d) = 0" by (auto simp: look_tries)
  from retry_first [where ok = "\<lambda>p. p = 0" and attempt = "\<lambda>d. (pending_putchar d, d)" and again = host and t = d and n = n] n r that
  show thesis by (auto simp: look_tries)
qed

lemma handover_steps:
  assumes "core_at s = Test c"
  shows "bridge_steps n s
    (s\<lparr>dbg := if handed_over n c (dbg s) then hal_debug_send_printf (dbg s) else dbg s, core_at := Ready\<rparr>)"
proof (cases "handed_over n c (dbg s)")
  case False
  with bridge_step.test [OF assms, of n] show ?thesis by (auto intro: steps_step steps_refl)
next
  case True
  let ?t = "s\<lparr>core_at := Send\<rparr>"
  have "bridge_step n s ?t" using bridge_step.test [OF assms, of n] True by simp
  moreover have "bridge_steps n ?t (s\<lparr>dbg := hal_debug_send_printf (dbg s), core_at := Ready\<rparr>)"
  proof (cases "putc_current (dbg s) = 0")
    case True
    then show ?thesis using send_test [of ?t n] by (auto simp: hal_debug_send_printf_def intro: steps_step steps_refl)
  next
    case False
    let ?u = "s\<lparr>core_at := Publish\<rparr>"
    let ?v = "s\<lparr>dbg := (dbg s)\<lparr>pending_putchar := putc_current (dbg s)\<rparr>, core_at := Clear\<rparr>"
    have "bridge_step n ?t ?u" "bridge_step n ?u ?v"
      using send_test [of ?t n] publish [of ?u n] False by simp_all
    moreover have "bridge_step n ?v (s\<lparr>dbg := hal_debug_send_printf (dbg s), core_at := Ready\<rparr>)"
      using clear [of ?v n] False by (simp add: hal_debug_send_printf_def Let_def)
    ultimately show ?thesis by (blast intro: steps_step steps_refl)
  qed
  ultimately show ?thesis using True by (auto intro: steps_step)
qed

text \<open>
  A call of \<open>hal_debug_putchar\<close> that returns is a run of the system of core and host: the host clears what was announced,
  the character is accepted, and the shared structure is the result of the function.
\<close>

theorem putchar_run:
  assumes "plays_host host" "core_at s = Ready" "host_at s = Idle" "hal_debug_putchar host n c (dbg s) = Inr d"
  shows "\<exists>ys. bridge_steps n s (s\<lparr>dbg := d, accepted := accepted s @ [c], printed := printed s @ ys\<rparr>)"
proof -
  from assms(4) obtain d1 d2 where f: "hal_debug_flush_printf host (dbg s) = Some d1" and st: "store_char c d1 = Inr d2"
    and d: "d = (if handed_over n c d2 then hal_debug_send_printf d2 else d2)"
    by (auto simp: hal_debug_putchar_def bindE_eq_Inr split: option.splits)
  obtain k where k: "d1 = (host ^^ k) (dbg s)" "pending_putchar d1 = 0"
    "\<And>j. j < k \<Longrightarrow> pending_putchar ((host ^^ j) (dbg s)) \<noteq> 0"
    using flush_result [OF f] by metis
  let ?s1 = "s\<lparr>core_at := Flush c\<rparr>"
  have s1: "bridge_step n s ?s1" using assms(2) by (rule putchar)
  from host_runs [OF assms(1), of ?s1 k n] assms(3) k(3) obtain ys where
    s2: "bridge_steps n ?s1 (?s1\<lparr>dbg := d1, printed := printed s @ ys\<rparr>)" by (auto simp: k(1))
  let ?s3 = "s\<lparr>dbg := d1, printed := printed s @ ys, core_at := Store c\<rparr>"
  have s3: "bridge_step n (?s1\<lparr>dbg := d1, printed := printed s @ ys\<rparr>) ?s3"
    using flush_done [of "?s1\<lparr>dbg := d1, printed := printed s @ ys\<rparr>" c n] k(2) by simp
  let ?s4 = "s\<lparr>printed := printed s @ ys, dbg := d2, core_at := Test c, accepted := accepted s @ [c]\<rparr>"
  have s4: "bridge_step n ?s3 ?s4" using store [of ?s3 c d2 n] st by simp
  have "?s4\<lparr>dbg := if handed_over n c (dbg ?s4) then hal_debug_send_printf (dbg ?s4) else dbg ?s4, core_at := Ready\<rparr>
      = s\<lparr>dbg := d, accepted := accepted s @ [c], printed := printed s @ ys\<rparr>"
    using assms(2) by (cases s) (simp add: d)
  with handover_steps [of ?s4 c n]
  have s5: "bridge_steps n ?s4 (s\<lparr>dbg := d, accepted := accepted s @ [c], printed := printed s @ ys\<rparr>)" by simp
  from s1 s2 s3 s4 s5 show ?thesis by (meson steps_step steps_trans)
qed

section \<open>What the host prints\<close>

text \<open>
  C37: However core and host interleave, the host prints the accepted characters in order, none twice and none left out:
  what is still missing are at most as many as the buffer holds, and none when nothing is announced or waiting. No
  character is stored past the buffer, and the count announced never exceeds it.
\<close>

theorem bridge_prints_in_order:
  assumes "bridge_reach n s"
  shows "(\<exists>w. accepted s = printed s @ w \<and> length w \<le> unat n
      \<and> (pending_putchar (dbg s) = 0 \<longrightarrow> putc_current (dbg s) = 0 \<longrightarrow> w = []))
    \<and> (\<forall>c. core_at s = Store c \<longrightarrow> unat (putc_current (dbg s)) < length (putc_buffer (dbg s)))
    \<and> unat (pending_putchar (dbg s)) \<le> length (putc_buffer (dbg s))"
proof -
  have ok: "bridge_ok n s" using assms by (rule bridge_reach_ok)
  then have "accepted s = printed s @ unprinted s" "length (unprinted s) \<le> unat n"
      "pending_putchar (dbg s) = 0 \<longrightarrow> putc_current (dbg s) = 0 \<longrightarrow> unprinted s = []"
    by (auto simp: bridge_ok_def unprinted_def Let_def min_def)
  with ok show ?thesis
    by (auto simp: bridge_ok_def Let_def word_less_nat_alt word_le_nat_alt)
qed

text \<open>A buffer of four bytes, a host that prints at once, and the characters \<^verbatim>\<open>H\<close>, \<^verbatim>\<open>i\<close> and a new line.\<close>

definition demo_bridge :: bridge where
  "demo_bridge = \<lparr>connected = 1, pending_putchar = 0, putc_current = 0, putc_buffer = [0, 0, 0, 0], exit_status = 0,
     debug_step = 0, debug_step_pending = 0\<rparr>"

definition demo_sys :: bridge_sys where
  "demo_sys = \<lparr>dbg = demo_bridge, core_at = Ready, host_at = Idle, accepted = [], printed = []\<rparr>"

lemma flush_at_once: "pending_putchar d = 0 \<Longrightarrow> hal_debug_flush_printf host d = Some d"
  by (simp add: hal_debug_flush_printf_def retry_step)

lemma demo_put: "hal_debug_putchar host_prints 4 0x48 demo_bridge = Inr (demo_bridge\<lparr>putc_buffer := [0x48, 0, 0, 0], putc_current := 1\<rparr>)"
  by (simp add: hal_debug_putchar_def flush_at_once demo_bridge_def store_char_def handed_over_def)

lemma plays_host_prints: "plays_host host_prints"
  by (simp add: plays_host_def)

theorem putchar_run_witness:
  "\<exists>ys. bridge_steps 4 demo_sys (demo_sys\<lparr>dbg := demo_bridge\<lparr>putc_buffer := [0x48, 0, 0, 0], putc_current := 1\<rparr>,
    accepted := [0x48], printed := ys\<rparr>)"
  using putchar_run [where host = host_prints and s = demo_sys and n = 4 and c = "0x48"] demo_put plays_host_prints by (auto simp: demo_sys_def)

lemma demo_bridge_reach: "bridge_reach 4 demo_sys"
  by (rule bridge_init [where d = demo_bridge]) (simp add: bridge_start_def demo_sys_def demo_bridge_def)

lemma demo_bridge_run:
  "\<exists>s. bridge_reach 4 s \<and> accepted s = [0x48] \<and> putc_current (dbg s) = 1 \<and> pending_putchar (dbg s) = 0"
proof -
  let ?d = "demo_bridge\<lparr>putc_buffer := [0x48, 0, 0, 0], putc_current := 1\<rparr>"
  let ?s = "\<lambda>p a. \<lparr>dbg = ?d, core_at = p, host_at = Idle, accepted = a, printed = []\<rparr>"
  have "bridge_step 4 demo_sys (demo_sys\<lparr>core_at := Store 0x48\<rparr>)"
    by (rule nopoll) (simp_all add: demo_sys_def demo_bridge_def)
  moreover have "bridge_step 4 (demo_sys\<lparr>core_at := Store 0x48\<rparr>) (?s (Test 0x48) [0x48])"
    using store [of "demo_sys\<lparr>core_at := Store 0x48\<rparr>" "0x48" ?d 4] by (simp add: store_char_def demo_sys_def demo_bridge_def)
  ultimately have "bridge_reach 4 (?s (Test 0x48) [0x48])" using demo_bridge_reach by (blast intro: bridge_next)
  then show ?thesis by (intro exI [of _ "?s (Test 0x48) [0x48]"]) (simp add: demo_bridge_def)
qed

theorem bridge_prints_in_order_witness:
  "\<exists>s. bridge_reach 4 s \<and> accepted s = [0x48] \<and> (\<exists>w. [0x48] = printed s @ w \<and> length w \<le> 4)"
proof -
  obtain s where s: "bridge_reach 4 s" "accepted s = [0x48]" using demo_bridge_run by blast
  with bridge_prints_in_order [OF s(1)] show ?thesis by auto
qed

text \<open>A host that never clears the count stops the core for good.\<close>

theorem flush_hangs: "pending_putchar d \<noteq> 0 \<Longrightarrow> hal_debug_putchar (\<lambda>d. d) n c d = Inl Hangs"
proof -
  assume d: "pending_putchar d \<noteq> 0"
  have "((\<lambda>d. d) ^^ k) d = d" for k by (induction k) simp_all
  then have "retry (\<lambda>d. (pending_putchar d, d)) (\<lambda>p. p = 0) (\<lambda>d. d) d = None"
    using d by (intro retry_none) (simp add: look_tries)
  then show ?thesis by (simp add: hal_debug_putchar_def hal_debug_flush_printf_def)
qed

theorem flush_hangs_witness: "hal_debug_putchar (\<lambda>d. d) 4 0x48 (demo_bridge\<lparr>pending_putchar := 1\<rparr>) = Inl Hangs"
  using flush_hangs [of "demo_bridge\<lparr>pending_putchar := 1\<rparr>"] by simp

end
