(* ===== verification/Peripherals.thy ===== *)
theory Peripherals
  imports Register_Headers Soc_Control Hpu_Runtime
begin

text \<open>
  Drivers of the pulp-sdk for devices outside the clusters: pins (\<^verbatim>\<open>gpio_v2.h\<close>, \<^verbatim>\<open>gpio_v3.h\<close>), the interrupt controller
  (\<^verbatim>\<open>itc_v1.h\<close>), the channels of the I/O DMA engine (\<^verbatim>\<open>udma_v3.h\<close>) and the serial line (\<^verbatim>\<open>udma_uart_v1.h\<close>). The address of a
  device depends on the chip and is a parameter. Functions that exist in both versions of the pins carry a suffix
  for the later one; access functions of a register map are \<open>reg_get\<close> and \<open>reg_set\<close> on its table.
\<close>

unbundle bit_operations_syntax

definition reg_addr :: "register_map \<Rightarrow> u32 \<Rightarrow> string \<Rightarrow> u32" where
  "reg_addr h base r = base + (case offset_of h r of Some off \<Rightarrow> off | None \<Rightarrow> 0)"

definition reg_get :: "device \<Rightarrow> register_map \<Rightarrow> u32 \<Rightarrow> string \<Rightarrow> trace \<Rightarrow> u32 \<times> trace" where
  "reg_get dev h base r t = mmio_read dev (reg_addr h base r) t"

definition reg_set :: "register_map \<Rightarrow> u32 \<Rightarrow> string \<Rightarrow> u32 \<Rightarrow> trace \<Rightarrow> trace" where
  "reg_set h base r v t = mmio_write (reg_addr h base r) v t"

section \<open>Pins, version 2\<close>

definition ARCHI_GPIO_PADDIR :: u32 where "ARCHI_GPIO_PADDIR = 0x0"
definition ARCHI_GPIO_PADIN :: u32 where "ARCHI_GPIO_PADIN = 0x4"
definition ARCHI_GPIO_PADOUT :: u32 where "ARCHI_GPIO_PADOUT = 0x8"
definition ARCHI_GPIO_INTEN :: u32 where "ARCHI_GPIO_INTEN = 0xC"
definition ARCHI_GPIO_INTTYPE0 :: u32 where "ARCHI_GPIO_INTTYPE0 = 0x10"
definition ARCHI_GPIO_INTSTATUS :: u32 where "ARCHI_GPIO_INTSTATUS = 0x18"
definition ARCHI_GPIO_EN :: u32 where "ARCHI_GPIO_EN = 0x1C"
definition ARCHI_GPIO_PADCFG0 :: u32 where "ARCHI_GPIO_PADCFG0 = 0x20"
definition ARCHI_GPIO_INTTYPE :: "u32 \<Rightarrow> u32" where "ARCHI_GPIO_INTTYPE k = ARCHI_GPIO_INTTYPE0 + k * 4"
definition ARCHI_GPIO_INTTYPE_NO :: "u32 \<Rightarrow> u32" where "ARCHI_GPIO_INTTYPE_NO gpio = drop_bit 4 gpio"
definition ARCHI_GPIO_INTTYPE_BIT :: "u32 \<Rightarrow> u32" where "ARCHI_GPIO_INTTYPE_BIT pad = push_bit 1 (pad AND 0xF)"
definition ARCHI_GPIO_INTTYPE_GET :: "u32 \<Rightarrow> u32 \<Rightarrow> u32" where
  "ARCHI_GPIO_INTTYPE_GET gpio value = drop_bit (unat (ARCHI_GPIO_INTTYPE_BIT gpio)) value AND (push_bit 2 1 - 1)"
definition ARCHI_GPIO_PADCFG :: "u32 \<Rightarrow> u32" where "ARCHI_GPIO_PADCFG k = ARCHI_GPIO_PADCFG0 + k * 4"
definition ARCHI_GPIO_PADCFG_REG :: "u32 \<Rightarrow> u32" where "ARCHI_GPIO_PADCFG_REG gpio = drop_bit 2 gpio"
definition ARCHI_GPIO_PADCFG_GROUP :: "u32 \<Rightarrow> u32" where "ARCHI_GPIO_PADCFG_GROUP gpio = gpio AND (push_bit 2 1 - 1)"

definition gpio_padcfg_get :: "device \<Rightarrow> u32 \<Rightarrow> u32 \<Rightarrow> trace \<Rightarrow> u32 \<times> trace" where
  "gpio_padcfg_get dev base grp t = mmio_read dev (base + ARCHI_GPIO_PADCFG grp) t"

definition gpio_padcfg_set :: "u32 \<Rightarrow> u32 \<Rightarrow> u32 \<Rightarrow> trace \<Rightarrow> trace" where
  "gpio_padcfg_set base grp value t = mmio_write (base + ARCHI_GPIO_PADCFG grp) value t"

text \<open>The type of the register is an array of four groups of eight bits: pull, strength and six reserved.\<close>

definition gpio_padcfg_strength_pin_set :: "device \<Rightarrow> u32 \<Rightarrow> u32 \<Rightarrow> u32 \<Rightarrow> trace \<Rightarrow> trace" where
  "gpio_padcfg_strength_pin_set dev base gpio val t =
     (let reg_id = ARCHI_GPIO_PADCFG_REG gpio;
          grp = ARCHI_GPIO_PADCFG_GROUP gpio;
          (reg, t) = gpio_padcfg_get dev base reg_id t
      in gpio_padcfg_set base reg_id (member_set (8 * unat grp + 1) 1 val reg) t)"

definition gpio_padcfg_pull_pin_set :: "device \<Rightarrow> u32 \<Rightarrow> u32 \<Rightarrow> u32 \<Rightarrow> trace \<Rightarrow> trace" where
  "gpio_padcfg_pull_pin_set dev base gpio val t =
     (let reg_id = ARCHI_GPIO_PADCFG_REG gpio;
          grp = ARCHI_GPIO_PADCFG_GROUP gpio;
          (reg, t) = gpio_padcfg_get dev base reg_id t
      in gpio_padcfg_set base reg_id (member_set (8 * unat grp) 1 val reg) t)"

definition hal_gpio_paddir_set :: "u32 \<Rightarrow> u32 \<Rightarrow> trace \<Rightarrow> trace" where
  "hal_gpio_paddir_set base value t = mmio_write (base + ARCHI_GPIO_PADDIR) value t"

definition hal_gpio_paddir_get :: "device \<Rightarrow> u32 \<Rightarrow> trace \<Rightarrow> u32 \<times> trace" where
  "hal_gpio_paddir_get dev base t = mmio_read dev (base + ARCHI_GPIO_PADDIR) t"

definition hal_gpio_padin_get :: "device \<Rightarrow> u32 \<Rightarrow> trace \<Rightarrow> u32 \<times> trace" where
  "hal_gpio_padin_get dev base t = mmio_read dev (base + ARCHI_GPIO_PADIN) t"

definition hal_gpio_padout_set :: "u32 \<Rightarrow> u32 \<Rightarrow> trace \<Rightarrow> trace" where
  "hal_gpio_padout_set base value t = mmio_write (base + ARCHI_GPIO_PADOUT) value t"

definition hal_gpio_padout_get :: "device \<Rightarrow> u32 \<Rightarrow> trace \<Rightarrow> u32 \<times> trace" where
  "hal_gpio_padout_get dev base t = mmio_read dev (base + ARCHI_GPIO_PADOUT) t"

definition hal_gpio_inten_set :: "u32 \<Rightarrow> u32 \<Rightarrow> trace \<Rightarrow> trace" where
  "hal_gpio_inten_set base value t = mmio_write (base + ARCHI_GPIO_INTEN) value t"

definition hal_gpio_inten_get :: "device \<Rightarrow> u32 \<Rightarrow> trace \<Rightarrow> u32 \<times> trace" where
  "hal_gpio_inten_get dev base t = mmio_read dev (base + ARCHI_GPIO_INTEN) t"

definition hal_gpio_intstatus_get :: "device \<Rightarrow> u32 \<Rightarrow> trace \<Rightarrow> u32 \<times> trace" where
  "hal_gpio_intstatus_get dev base t = mmio_read dev (base + ARCHI_GPIO_INTSTATUS) t"

definition hal_gpio_en_set :: "u32 \<Rightarrow> u32 \<Rightarrow> trace \<Rightarrow> trace" where
  "hal_gpio_en_set base value t = mmio_write (base + ARCHI_GPIO_EN) value t"

definition hal_gpio_en_get :: "device \<Rightarrow> u32 \<Rightarrow> trace \<Rightarrow> u32 \<times> trace" where
  "hal_gpio_en_get dev base t = mmio_read dev (base + ARCHI_GPIO_EN) t"

definition hal_gpio_inttype_set :: "u32 \<Rightarrow> u32 \<Rightarrow> u32 \<Rightarrow> trace \<Rightarrow> trace" where
  "hal_gpio_inttype_set base k value t = mmio_write (base + ARCHI_GPIO_INTTYPE k) value t"

definition hal_gpio_inttype_get :: "device \<Rightarrow> u32 \<Rightarrow> u32 \<Rightarrow> trace \<Rightarrow> u32 \<times> trace" where
  "hal_gpio_inttype_get dev base k t = mmio_read dev (base + ARCHI_GPIO_INTTYPE k) t"

definition hal_gpio_set_dir :: "device \<Rightarrow> u32 \<Rightarrow> u32 \<Rightarrow> u8 \<Rightarrow> trace \<Rightarrow> trace" where
  "hal_gpio_set_dir dev base m is_out t =
     (let (current, t) = hal_gpio_paddir_get dev base t;
          current = (if is_out \<noteq> 0 then current OR m else current AND NOT m)
      in hal_gpio_paddir_set base current t)"

definition hal_gpio_set_value :: "device \<Rightarrow> u32 \<Rightarrow> u32 \<Rightarrow> u8 \<Rightarrow> trace \<Rightarrow> trace" where
  "hal_gpio_set_value dev base m value t =
     (let (current, t) = hal_gpio_padout_get dev base t;
          current = (if value \<noteq> 0 then current OR m else current AND NOT m)
      in hal_gpio_padout_set base current t)"

definition hal_gpio_get_value :: "device \<Rightarrow> u32 \<Rightarrow> trace \<Rightarrow> u32 \<times> trace" where
  "hal_gpio_get_value dev base t = hal_gpio_padin_get dev base t"

definition hal_gpio_set_pin_value :: "device \<Rightarrow> u32 \<Rightarrow> u32 \<Rightarrow> u8 \<Rightarrow> trace \<Rightarrow> trace" where
  "hal_gpio_set_pin_value dev base pin value t =
     (let (current, t) = hal_gpio_padout_get dev base t;
          current = (if value \<noteq> 0 then current OR push_bit (unat pin) 1 else current AND NOT (push_bit (unat pin) 1))
      in hal_gpio_padout_set base current t)"

section \<open>Pins, version 3\<close>

definition hal_gpio_inttype_set_v3 :: "u32 \<Rightarrow> u32 \<Rightarrow> u32 \<Rightarrow> trace \<Rightarrow> trace" where
  "hal_gpio_inttype_set_v3 base k value t =
     (if k = 0 then reg_set gpio_v3_map base ''GPIO_INTTYPE0'' value t
      else reg_set gpio_v3_map base ''GPIO_INTTYPE1'' value t)"

definition hal_gpio_inttype_get_v3 :: "device \<Rightarrow> u32 \<Rightarrow> u32 \<Rightarrow> trace \<Rightarrow> u32 \<times> trace" where
  "hal_gpio_inttype_get_v3 dev base k t =
     (if k = 0 then reg_get dev gpio_v3_map base ''GPIO_INTTYPE0'' t
      else reg_get dev gpio_v3_map base ''GPIO_INTTYPE1'' t)"

definition hal_gpio_en_get_v3 :: "device \<Rightarrow> u32 \<Rightarrow> trace \<Rightarrow> u32 \<times> trace" where
  "hal_gpio_en_get_v3 dev base t = reg_get dev gpio_v3_map base ''GPIO_GPIOEN'' t"

definition hal_gpio_en_set_v3 :: "u32 \<Rightarrow> u32 \<Rightarrow> trace \<Rightarrow> trace" where
  "hal_gpio_en_set_v3 base value t = reg_set gpio_v3_map base ''GPIO_GPIOEN'' value t"

definition hal_gpio_set_dir_v3 :: "device \<Rightarrow> u32 \<Rightarrow> u32 \<Rightarrow> u8 \<Rightarrow> trace \<Rightarrow> trace" where
  "hal_gpio_set_dir_v3 dev base m is_out t =
     (let (current, t) = reg_get dev gpio_v3_map base ''GPIO_PADDIR'' t;
          current = (if is_out \<noteq> 0 then current OR m else current AND NOT m)
      in reg_set gpio_v3_map base ''GPIO_PADDIR'' current t)"

definition hal_gpio_set_value_v3 :: "device \<Rightarrow> u32 \<Rightarrow> u32 \<Rightarrow> u8 \<Rightarrow> trace \<Rightarrow> trace" where
  "hal_gpio_set_value_v3 dev base m value t =
     (let (current, t) = reg_get dev gpio_v3_map base ''GPIO_PADOUT'' t;
          current = (if value \<noteq> 0 then current OR m else current AND NOT m)
      in reg_set gpio_v3_map base ''GPIO_PADOUT'' current t)"

definition hal_gpio_get_value_v3 :: "device \<Rightarrow> u32 \<Rightarrow> trace \<Rightarrow> u32 \<times> trace" where
  "hal_gpio_get_value_v3 dev base t = reg_get dev gpio_v3_map base ''GPIO_PADOUT'' t"

definition hal_gpio_set_pin_value_v3 :: "device \<Rightarrow> u32 \<Rightarrow> u32 \<Rightarrow> u8 \<Rightarrow> trace \<Rightarrow> trace" where
  "hal_gpio_set_pin_value_v3 dev base pin value t =
     (let (current, t) = reg_get dev gpio_v3_map base ''GPIO_PADOUT'' t;
          current = (if value \<noteq> 0 then current OR push_bit (unat pin) 1 else current AND NOT (push_bit (unat pin) 1))
      in reg_set gpio_v3_map base ''GPIO_PADOUT'' current t)"

section \<open>The interrupt controller\<close>

definition hal_itc_enable_value_set :: "u32 \<Rightarrow> u32 \<Rightarrow> trace \<Rightarrow> trace" where
  "hal_itc_enable_value_set itc m t = reg_set itc_v1_map itc ''ITC_MASK'' m t"

definition hal_itc_enable_set :: "u32 \<Rightarrow> u32 \<Rightarrow> trace \<Rightarrow> trace" where
  "hal_itc_enable_set itc m t = reg_set itc_v1_map itc ''ITC_MASK_SET'' m t"

definition hal_itc_enable_clr :: "u32 \<Rightarrow> u32 \<Rightarrow> trace \<Rightarrow> trace" where
  "hal_itc_enable_clr itc m t = reg_set itc_v1_map itc ''ITC_MASK_CLR'' m t"

definition hal_itc_ack_value_set :: "u32 \<Rightarrow> u32 \<Rightarrow> trace \<Rightarrow> trace" where
  "hal_itc_ack_value_set itc m t = reg_set itc_v1_map itc ''ITC_ACK'' m t"

definition hal_itc_ack_set :: "u32 \<Rightarrow> u32 \<Rightarrow> trace \<Rightarrow> trace" where
  "hal_itc_ack_set itc m t = reg_set itc_v1_map itc ''ITC_ACK_SET'' m t"

definition hal_itc_ack_clr :: "u32 \<Rightarrow> u32 \<Rightarrow> trace \<Rightarrow> trace" where
  "hal_itc_ack_clr itc m t = reg_set itc_v1_map itc ''ITC_ACK_CLR'' m t"

definition hal_itc_status_value_set :: "u32 \<Rightarrow> u32 \<Rightarrow> trace \<Rightarrow> trace" where
  "hal_itc_status_value_set itc m t = reg_set itc_v1_map itc ''ITC_STATUS'' m t"

definition hal_itc_status_value_set_remote :: "u32 \<Rightarrow> u32 \<Rightarrow> trace \<Rightarrow> trace" where
  "hal_itc_status_value_set_remote itc m t = reg_set itc_v1_map itc ''ITC_STATUS'' m t"

definition hal_itc_status_set :: "u32 \<Rightarrow> u32 \<Rightarrow> trace \<Rightarrow> trace" where
  "hal_itc_status_set itc m t = reg_set itc_v1_map itc ''ITC_STATUS_SET'' m t"

definition hal_itc_status_clr :: "u32 \<Rightarrow> u32 \<Rightarrow> trace \<Rightarrow> trace" where
  "hal_itc_status_clr itc m t = reg_set itc_v1_map itc ''ITC_STATUS_CLR'' m t"

definition hal_itc_enable_value_get :: "device \<Rightarrow> u32 \<Rightarrow> trace \<Rightarrow> u32 \<times> trace" where
  "hal_itc_enable_value_get dev itc t = reg_get dev itc_v1_map itc ''ITC_MASK'' t"

definition hal_itc_ack_value_get :: "device \<Rightarrow> u32 \<Rightarrow> trace \<Rightarrow> u32 \<times> trace" where
  "hal_itc_ack_value_get dev itc t = reg_get dev itc_v1_map itc ''ITC_ACK'' t"

definition hal_itc_status_value_get :: "device \<Rightarrow> u32 \<Rightarrow> trace \<Rightarrow> u32 \<times> trace" where
  "hal_itc_status_value_get dev itc t = reg_get dev itc_v1_map itc ''ITC_STATUS'' t"

definition hal_itc_fifo_pop :: "device \<Rightarrow> u32 \<Rightarrow> trace \<Rightarrow> u32 \<times> trace" where
  "hal_itc_fifo_pop dev itc t = reg_get dev itc_v1_map itc ''ITC_FIFO'' t"

text \<open>
  One round of \<open>hal_itc_wait_for_event_noirq\<close> with interrupts off: the result tells whether it was the last one. The
  sleep of the core makes no access; whatever happens meanwhile shows in the answers of the device.
\<close>

definition itc_round :: "device \<Rightarrow> u32 \<Rightarrow> u32 \<Rightarrow> hart \<times> trace \<Rightarrow> bool \<times> hart \<times> trace" where
  "itc_round dev itc m ht =
     (case ht of (h, t) \<Rightarrow>
        let (state, h) = hal_irq_disable h;
            (status, t) = hal_itc_status_value_get dev itc t;
            (done, t) = (if status AND m = 0 then (False, hal_itc_enable_clr itc m (hal_itc_enable_set itc m t))
                         else (True, hal_itc_status_clr itc m t));
            h = hal_irq_restore state h
        in (done, h, t))"

definition hal_itc_wait_for_event_noirq :: "device \<Rightarrow> u32 \<Rightarrow> u32 \<Rightarrow> hart \<times> trace \<Rightarrow> (hart \<times> trace) option" where
  "hal_itc_wait_for_event_noirq dev itc m ht = map_option snd (retry (itc_round dev itc m) (\<lambda>done. done) (\<lambda>ht. ht) ht)"

definition hal_itc_wait_for_event :: "device \<Rightarrow> u32 \<Rightarrow> u32 \<Rightarrow> hart \<times> trace \<Rightarrow> (hart \<times> trace) option" where
  "hal_itc_wait_for_event dev itc m ht = hal_itc_wait_for_event_noirq dev itc m ht"

section \<open>Channels of the I/O DMA engine\<close>

definition UDMA_CHANNEL_SADDR_OFFSET :: u32 where "UDMA_CHANNEL_SADDR_OFFSET = 0x0"
definition UDMA_CHANNEL_SIZE_OFFSET :: u32 where "UDMA_CHANNEL_SIZE_OFFSET = 0x4"
definition UDMA_CHANNEL_CFG_OFFSET :: u32 where "UDMA_CHANNEL_CFG_OFFSET = 0x8"
definition UDMA_CHANNEL_CUSTOM_OFFSET :: u32 where "UDMA_CHANNEL_CUSTOM_OFFSET = 0x20"
definition UDMA_CONF_OFFSET :: u32 where "UDMA_CONF_OFFSET = 0x0"
definition UDMA_CONF_CG_OFFSET :: u32 where "UDMA_CONF_CG_OFFSET = 0x00"
definition UDMA_CONF_EVTIN_OFFSET :: u32 where "UDMA_CONF_EVTIN_OFFSET = 0x04"
definition UDMA_CHANNEL_CFG_SHADOW :: u32 where "UDMA_CHANNEL_CFG_SHADOW = push_bit 5 1"
definition UDMA_CHANNEL_CFG_EN :: u32 where "UDMA_CHANNEL_CFG_EN = push_bit 4 1"
definition UDMA_PERIPH_OFFSET :: "u32 \<Rightarrow> u32" where "UDMA_PERIPH_OFFSET k = push_bit 7 k + 0x80"
definition UDMA_PERIPH_GET :: "u32 \<Rightarrow> u32" where "UDMA_PERIPH_GET off = drop_bit 7 off"
definition UDMA_CHANNEL_OFFSET :: "u32 \<Rightarrow> u32" where "UDMA_CHANNEL_OFFSET k = push_bit 4 k"
definition UDMA_CHANNEL_GET :: "u32 \<Rightarrow> u32" where "UDMA_CHANNEL_GET off = drop_bit 4 off"

text \<open>The registers of a channel pair as the members of a structure at the address of the peripheral.\<close>

definition rx_ch_saddr :: u32 where "rx_ch_saddr = 0"
definition rx_ch_size :: u32 where "rx_ch_size = 4"
definition rx_ch_cfg :: u32 where "rx_ch_cfg = 8"
definition tx_ch_saddr :: u32 where "tx_ch_saddr = 16"
definition tx_ch_size :: u32 where "tx_ch_size = 20"
definition tx_ch_cfg :: u32 where "tx_ch_cfg = 24"

definition plpUdmaRxChStartAddrSet :: "u32 \<Rightarrow> u32 \<Rightarrow> trace \<Rightarrow> trace" where
  "plpUdmaRxChStartAddrSet handle data t = mmio_write (handle + rx_ch_saddr) data t"

definition plpUdmaRxChStartAddrGet :: "device \<Rightarrow> u32 \<Rightarrow> trace \<Rightarrow> u32 \<times> trace" where
  "plpUdmaRxChStartAddrGet dev handle t = mmio_read dev (handle + rx_ch_saddr) t"

definition plpUdmaRxChSizeSet :: "u32 \<Rightarrow> u32 \<Rightarrow> trace \<Rightarrow> trace" where
  "plpUdmaRxChSizeSet handle data t = mmio_write (handle + rx_ch_size) data t"

definition plpUdmaRxChSizeGet :: "device \<Rightarrow> u32 \<Rightarrow> trace \<Rightarrow> u32 \<times> trace" where
  "plpUdmaRxChSizeGet dev handle t = mmio_read dev (handle + rx_ch_size) t"

definition plpUdmaRxChCfgSet :: "u32 \<Rightarrow> u32 \<Rightarrow> trace \<Rightarrow> trace" where
  "plpUdmaRxChCfgSet handle data t = mmio_write (handle + rx_ch_cfg) data t"

definition plpUdmaRxChCfgGet :: "device \<Rightarrow> u32 \<Rightarrow> trace \<Rightarrow> u32 \<times> trace" where
  "plpUdmaRxChCfgGet dev handle t = mmio_read dev (handle + rx_ch_cfg) t"

definition plpUdmaTxChStartAddrSet :: "u32 \<Rightarrow> u32 \<Rightarrow> trace \<Rightarrow> trace" where
  "plpUdmaTxChStartAddrSet handle data t = mmio_write (handle + tx_ch_saddr) data t"

definition plpUdmaTxChStartAddrGet :: "device \<Rightarrow> u32 \<Rightarrow> trace \<Rightarrow> u32 \<times> trace" where
  "plpUdmaTxChStartAddrGet dev handle t = mmio_read dev (handle + tx_ch_saddr) t"

definition plpUdmaTxChSizeSet :: "u32 \<Rightarrow> u32 \<Rightarrow> trace \<Rightarrow> trace" where
  "plpUdmaTxChSizeSet handle data t = mmio_write (handle + tx_ch_size) data t"

definition plpUdmaTxChSizeGet :: "device \<Rightarrow> u32 \<Rightarrow> trace \<Rightarrow> u32 \<times> trace" where
  "plpUdmaTxChSizeGet dev handle t = mmio_read dev (handle + tx_ch_size) t"

definition plpUdmaTxChCfgSet :: "u32 \<Rightarrow> u32 \<Rightarrow> trace \<Rightarrow> trace" where
  "plpUdmaTxChCfgSet handle data t = mmio_write (handle + tx_ch_cfg) data t"

definition plpUdmaTxChCfgGet :: "device \<Rightarrow> u32 \<Rightarrow> trace \<Rightarrow> u32 \<times> trace" where
  "plpUdmaTxChCfgGet dev handle t = mmio_read dev (handle + tx_ch_cfg) t"

definition hal_udma_channel_isTx :: "u32 \<Rightarrow> u32" where
  "hal_udma_channel_isTx addr = drop_bit 4 addr AND 1"

definition plp_udma_canEnqueue :: "device \<Rightarrow> u32 \<Rightarrow> trace \<Rightarrow> bool \<times> trace" where
  "plp_udma_canEnqueue dev channelBase t =
     (let (v, t) = mmio_read dev (channelBase + UDMA_CHANNEL_CFG_OFFSET) t in (v AND UDMA_CHANNEL_CFG_SHADOW = 0, t))"

definition plp_udma_enqueue :: "u32 \<Rightarrow> u32 \<Rightarrow> u32 \<Rightarrow> u32 \<Rightarrow> trace \<Rightarrow> trace" where
  "plp_udma_enqueue channelBase l2Addr sz cfg t =
     (let t = mmio_write (channelBase + UDMA_CHANNEL_SADDR_OFFSET) l2Addr t;
          t = mmio_write (channelBase + UDMA_CHANNEL_SIZE_OFFSET) sz t
      in mmio_write (channelBase + UDMA_CHANNEL_CFG_OFFSET) (cfg OR UDMA_CHANNEL_CFG_EN) t)"

definition plp_udma_busy :: "device \<Rightarrow> u32 \<Rightarrow> trace \<Rightarrow> u32 \<times> trace" where
  "plp_udma_busy dev channelOffset t =
     (let (v, t) = mmio_read dev (channelOffset + UDMA_CHANNEL_CFG_OFFSET) t in (v AND UDMA_CHANNEL_CFG_EN, t))"

text \<open>\<open>udma\<close> is the sum of \<^verbatim>\<open>ARCHI_SOC_PERIPHERALS_ADDR\<close> and \<^verbatim>\<open>ARCHI_UDMA_OFFSET\<close>.\<close>

definition plp_udma_cg_set :: "u32 \<Rightarrow> u32 \<Rightarrow> trace \<Rightarrow> trace" where
  "plp_udma_cg_set udma value t = mmio_write (udma + UDMA_CONF_OFFSET + UDMA_CONF_CG_OFFSET) value t"

definition plp_udma_cg_get :: "device \<Rightarrow> u32 \<Rightarrow> trace \<Rightarrow> u32 \<times> trace" where
  "plp_udma_cg_get dev udma t = mmio_read dev (udma + UDMA_CONF_OFFSET + UDMA_CONF_CG_OFFSET) t"

definition plp_udma_evtin_set :: "u32 \<Rightarrow> u32 \<Rightarrow> trace \<Rightarrow> trace" where
  "plp_udma_evtin_set udma value t = mmio_write (udma + UDMA_CONF_OFFSET + UDMA_CONF_EVTIN_OFFSET) value t"

definition plp_udma_evtin_get :: "device \<Rightarrow> u32 \<Rightarrow> trace \<Rightarrow> u32 \<times> trace" where
  "plp_udma_evtin_get dev udma t = mmio_read dev (udma + UDMA_CONF_OFFSET + UDMA_CONF_EVTIN_OFFSET) t"

definition hal_udma_periph_base :: "u32 \<Rightarrow> u32 \<Rightarrow> u32" where
  "hal_udma_periph_base udma k = udma + UDMA_PERIPH_OFFSET k"

definition hal_udma_channel_base :: "u32 \<Rightarrow> u32 \<Rightarrow> u32" where
  "hal_udma_channel_base udma k = udma + UDMA_PERIPH_OFFSET (drop_bit 1 k) + UDMA_CHANNEL_OFFSET (k AND 1)"

section \<open>The serial line\<close>

text \<open>\<open>uart\<close> is the address of the peripheral, \<^verbatim>\<open>ARCHI_UDMA_ADDR + UDMA_UART_OFFSET(channel)\<close>.\<close>

definition UART_STATUS_OFFSET :: u32 where "UART_STATUS_OFFSET = 0x00"
definition UART_SETUP_OFFSET :: u32 where "UART_SETUP_OFFSET = 0x04"

definition plp_uart_setup :: "u32 \<Rightarrow> u32 \<Rightarrow> u16 \<Rightarrow> trace \<Rightarrow> trace" where
  "plp_uart_setup uart parity clk_counter t =
     (let val = 0x0306 OR parity;
          val = val OR push_bit 16 (ucast clk_counter)
      in mmio_write (uart + UDMA_CHANNEL_CUSTOM_OFFSET + UART_SETUP_OFFSET) val t)"

definition plp_uart_disable :: "u32 \<Rightarrow> trace \<Rightarrow> trace" where
  "plp_uart_disable uart t = mmio_write (uart + UDMA_CHANNEL_CUSTOM_OFFSET + UART_SETUP_OFFSET) 0x00500006 t"

definition plp_uart_tx_busy :: "device \<Rightarrow> u32 \<Rightarrow> trace \<Rightarrow> u32 \<times> trace" where
  "plp_uart_tx_busy dev uart t =
     (let (v, t) = mmio_read dev (uart + UDMA_CHANNEL_CUSTOM_OFFSET + UART_STATUS_OFFSET) t in (v AND 1, t))"

definition plp_uart_rx_busy :: "device \<Rightarrow> u32 \<Rightarrow> trace \<Rightarrow> u32 \<times> trace" where
  "plp_uart_rx_busy dev uart t =
     (let (v, t) = mmio_read dev (uart + UDMA_CHANNEL_CUSTOM_OFFSET + UART_STATUS_OFFSET) t in (drop_bit 1 v AND 1, t))"

definition plp_uart_reg_read :: "device \<Rightarrow> u32 \<Rightarrow> u32 \<Rightarrow> trace \<Rightarrow> u32 \<times> trace" where
  "plp_uart_reg_read dev uart addr t = mmio_read dev (uart + UDMA_CHANNEL_CUSTOM_OFFSET + addr) t"

definition plp_uart_reg_write :: "u32 \<Rightarrow> u32 \<Rightarrow> u32 \<Rightarrow> trace \<Rightarrow> trace" where
  "plp_uart_reg_write uart addr cfg t = mmio_write (uart + UDMA_CHANNEL_CUSTOM_OFFSET + addr) cfg t"

text \<open>The structure \<^verbatim>\<open>plpUdmaUartHandle_t\<close> at the address of the peripheral.\<close>

definition uart_status :: u32 where "uart_status = 32"
definition uart_setup :: u32 where "uart_setup = 36"

definition plpUdmaUartSetupSet :: "u32 \<Rightarrow> u32 \<Rightarrow> trace \<Rightarrow> trace" where
  "plpUdmaUartSetupSet handle data t = mmio_write (handle + uart_setup) data t"

definition plpUdmaUartSetupGet :: "device \<Rightarrow> u32 \<Rightarrow> trace \<Rightarrow> u32 \<times> trace" where
  "plpUdmaUartSetupGet dev handle t = mmio_read dev (handle + uart_setup) t"

definition plpUdmaUartStatusGet :: "device \<Rightarrow> u32 \<Rightarrow> trace \<Rightarrow> u32 \<times> trace" where
  "plpUdmaUartStatusGet dev handle t = mmio_read dev (handle + uart_status) t"

text \<open>The members of the type of the setup register.\<close>

definition uart_setup_members :: "member list" where
  "uart_setup_members = [Bits ''parity_en'' 1, Bits ''char_length'' 2, Bits ''stop_bit_length'' 1, Padding 4, Bits ''tx_en'' 1,
     Bits ''rx_en'' 1, Padding 6, Bits ''clkdiv'' 16]"

section \<open>Pins as sets\<close>

text \<open>The pins whose bit is set in a register, and those a mask selects.\<close>

definition pins_at :: "trace \<Rightarrow> u32 \<Rightarrow> nat set" where
  "pins_at t a = {p. bit (written t a) p}"

definition pins_in :: "u32 \<Rightarrow> nat set" where
  "pins_in m = {p. bit m p}"

lemma written_update: "written (mmio_write a v (t @ [MRead b w])) c = (if c = a then v else written t c)"
  by (simp add: written_def)

lemma written_mmio_write: "written (mmio_write a v t) c = (if c = a then v else written t c)"
  by (simp add: written_def)

lemma pins_update:
  "pins_at (mmio_write a v (t @ [MRead b w])) c = (if c = a then pins_in v else pins_at t c)"
  by (simp add: pins_at_def pins_in_def written_update)

lemma pins_or: "pins_in (written t a OR m) = pins_at t a \<union> pins_in m"
  by (auto simp: pins_at_def pins_in_def bit_simps)

lemma pins_and_not: "pins_in (written t a AND NOT m) = pins_at t a - pins_in m"
  using bit_imp_le_length [where 'a = 32] by (fastforce simp: pins_at_def pins_in_def bit_simps)

lemma pins_of_pin: "p < 32 \<Longrightarrow> pins_in (2 ^ unat (of_nat p :: u32)) = {p}"
  by (auto simp: pins_in_def bit_simps unsigned_of_nat take_bit_nat_eq_self simp flip: push_bit_of_1)

lemma gpio_v3_addr:
  "reg_addr gpio_v3_map base ''GPIO_PADDIR'' = base" "reg_addr gpio_v3_map base ''GPIO_PADOUT'' = base + 0xC"
  "reg_addr gpio_v3_map base ''GPIO_PADIN'' = base + 8"
  by (simp_all add: reg_addr_def offset_of_def gpio_v3_map_def gpio_v3_regs_def)

text \<open>The pins \<open>S\<close> after those of \<open>M\<close> have been switched on or off.\<close>

definition switched :: "u8 \<Rightarrow> nat set \<Rightarrow> nat set \<Rightarrow> nat set" where
  "switched d M S = (if d \<noteq> 0 then S \<union> M else S - M)"

lemma pins_switched: "pins_in (if d \<noteq> 0 then written t a OR m else written t a AND NOT m) = switched d (pins_in m) (pins_at t a)"
  by (simp add: switched_def pins_or pins_and_not)

lemma pins_set:
  "pins_at (let (v, t) = mmio_read written a t in mmio_write a (if d \<noteq> 0 then v OR m else v AND NOT m) t) b
    = (if b = a then switched d (pins_in m) (pins_at t a) else pins_at t b)"
  by (simp only: mmio_read_def Let_def prod.case pins_update pins_switched)

text \<open>
  The direction and the output register of both versions of the pins are sets of pins. Setting a direction or a value for a
  mask adds the pins of the mask or removes them, setting the value of a pin adds or removes that pin, and every other
  register is as before.
\<close>

theorem gpio_pin_sets:
  assumes "p < 32"
  shows "pins_at (hal_gpio_set_dir written base m d t) a =
      (if a = base + ARCHI_GPIO_PADDIR then switched d (pins_in m) (pins_at t a) else pins_at t a)
    \<and> pins_at (hal_gpio_set_value written base m d t) a =
      (if a = base + ARCHI_GPIO_PADOUT then switched d (pins_in m) (pins_at t a) else pins_at t a)
    \<and> pins_at (hal_gpio_set_pin_value written base (of_nat p) d t) a =
      (if a = base + ARCHI_GPIO_PADOUT then switched d {p} (pins_at t a) else pins_at t a)
    \<and> pins_at (hal_gpio_set_dir_v3 written base m d t) a =
      (if a = reg_addr gpio_v3_map base ''GPIO_PADDIR'' then switched d (pins_in m) (pins_at t a) else pins_at t a)
    \<and> pins_at (hal_gpio_set_value_v3 written base m d t) a =
      (if a = reg_addr gpio_v3_map base ''GPIO_PADOUT'' then switched d (pins_in m) (pins_at t a) else pins_at t a)
    \<and> pins_at (hal_gpio_set_pin_value_v3 written base (of_nat p) d t) a =
      (if a = reg_addr gpio_v3_map base ''GPIO_PADOUT'' then switched d {p} (pins_at t a) else pins_at t a)"
  unfolding hal_gpio_set_dir_def hal_gpio_set_value_def hal_gpio_set_pin_value_def hal_gpio_paddir_get_def
    hal_gpio_paddir_set_def hal_gpio_padout_get_def hal_gpio_padout_set_def hal_gpio_set_dir_v3_def
    hal_gpio_set_value_v3_def hal_gpio_set_pin_value_v3_def reg_get_def reg_set_def Let_def [of "if _ then _ else _"] pins_set
  using pins_of_pin [OF assms] by (simp add: push_bit_of_1)

theorem gpio_pin_sets_witness:
  "pins_at (hal_gpio_set_pin_value written 0x1A101000 (of_nat 3) 1 []) (0x1A101000 + ARCHI_GPIO_PADOUT) = {3}"
  using gpio_pin_sets [of 3 "0x1A101000" 0 1 "[]" "0x1A101000 + ARCHI_GPIO_PADOUT"]
  by (simp add: switched_def pins_at_def written_def)

text \<open>The value of the pins in version 3 is read from the register of outputs, not of inputs.\<close>

theorem gpio_v3_reads_outputs:
  "fst (hal_gpio_get_value_v3 dev base t) = dev t (base + 0xC) \<and> fst (hal_gpio_get_value dev base t) = dev t (base + 4)"
  by (simp add: hal_gpio_get_value_v3_def hal_gpio_get_value_def hal_gpio_padin_get_def ARCHI_GPIO_PADIN_def reg_get_def
      gpio_v3_addr mmio_read_def Let_def)

section \<open>The configuration of a pin\<close>

definition padcfg_bit :: "trace \<Rightarrow> u32 \<Rightarrow> nat \<Rightarrow> nat \<Rightarrow> bool" where
  "padcfg_bit t base p k = bit (written t (base + ARCHI_GPIO_PADCFG (of_nat (p div 4)))) (8 * (p mod 4) + k)"

lemma padcfg_place:
  assumes "p < 32"
  shows "ARCHI_GPIO_PADCFG_REG (of_nat p) = of_nat (p div 4)" "unat (ARCHI_GPIO_PADCFG_GROUP (of_nat p)) = p mod 4"
proof -
  have "p < 64" using assms by simp
  from nat_word_mask(1,2) [OF this, of 2] nat_word_mask(3) [OF this, of 4] show "ARCHI_GPIO_PADCFG_REG (of_nat p) = of_nat (p div 4)"
      "unat (ARCHI_GPIO_PADCFG_GROUP (of_nat p)) = p mod 4"
    by (simp_all add: ARCHI_GPIO_PADCFG_REG_def ARCHI_GPIO_PADCFG_GROUP_def mask_eq_exp_minus_1)
qed

lemma padcfg_addr:
  "p < 32 \<Longrightarrow> q < 32 \<Longrightarrow> base + ARCHI_GPIO_PADCFG (of_nat (p div 4)) = base + ARCHI_GPIO_PADCFG (of_nat (q div 4)) \<longleftrightarrow> p div 4 = q div 4"
  using pad_register [of p q base ARCHI_GPIO_PADCFG0 4] by (simp add: ARCHI_GPIO_PADCFG_def)

lemma digits_eq:
  fixes a b k j :: nat
  assumes "k < 8" "j < 8" "8 * a + k = 8 * b + j"
  shows "a = b" "k = j"
proof -
  have "a = (8 * a + k) div 8" "(8 * b + j) div 8 = b" using assms(1,2) by simp_all
  then show "a = b" by (simp only: assms(3))
  then show "k = j" using assms(3) by simp
qed

lemma pin_place:
  fixes p q k j :: nat
  assumes "q div 4 = p div 4" "k < 8" "j < 8"
  shows "8 * (q mod 4) + k = 8 * (p mod 4) + j \<longleftrightarrow> q = p \<and> k = j"
proof
  assume "8 * (q mod 4) + k = 8 * (p mod 4) + j"
  from digits_eq [OF assms(2,3) this] have "q mod 4 = p mod 4" and j: "k = j" .
  then have "q div 4 * 4 + q mod 4 = p div 4 * 4 + p mod 4" by (simp only: assms(1))
  then show "q = p \<and> k = j" using j by (simp only: div_mult_mod_eq)
qed simp

lemma bit_member_one:
  "i < 32 \<Longrightarrow> j < 32 \<Longrightarrow> bit (member_set i 1 v raw) j = (if j = i then bit v 0 else bit raw j)"
  by (auto simp: bit_member_set le_less_Suc_eq)

lemma padcfg_member:
  assumes "p < 32" "q < 32" "k < 8" "j < 8"
    "t' = mmio_write (base + ARCHI_GPIO_PADCFG (of_nat (p div 4)))
      (member_set (8 * (p mod 4) + j) 1 v (written t (base + ARCHI_GPIO_PADCFG (of_nat (p div 4))))) (t @ [MRead b w])"
  shows "padcfg_bit t' base q k = (if q = p \<and> k = j then bit v 0 else padcfg_bit t base q k)"
proof (cases "q div 4 = p div 4")
  case True
  have m: "8 * (p mod 4) + j < 32" "8 * (q mod 4) + k < 32"
    using assms(3,4) mod_less_divisor [of 4 p] mod_less_divisor [of 4 q] by linarith+
  show ?thesis
    using bit_member_one [OF m] pin_place [OF True assms(3,4)] by (simp add: padcfg_bit_def assms(5) written_update True)
next
  case False
  then have "q \<noteq> p" by auto
  with False assms(5) padcfg_addr [OF assms(2,1), of base] show ?thesis by (simp add: padcfg_bit_def written_update)
qed

text \<open>
  Setting the strength or the pull of one of the 32 pins changes one bit of the configuration registers, to the lowest bit
  of the value: no other setting of that pin changes and none of another pin.
\<close>

theorem padcfg_one_setting:
  assumes "p < 32" "q < 32" "k < 8"
  shows "padcfg_bit (gpio_padcfg_strength_pin_set written base (of_nat p) v t) base q k =
      (if q = p \<and> k = 1 then bit v 0 else padcfg_bit t base q k)
    \<and> padcfg_bit (gpio_padcfg_pull_pin_set written base (of_nat p) v t) base q k =
      (if q = p \<and> k = 0 then bit v 0 else padcfg_bit t base q k)"
proof
  note defs = gpio_padcfg_strength_pin_set_def gpio_padcfg_pull_pin_set_def gpio_padcfg_get_def gpio_padcfg_set_def
    padcfg_place [OF assms(1)] mmio_read_def Let_def prod.case
  show "padcfg_bit (gpio_padcfg_strength_pin_set written base (of_nat p) v t) base q k =
      (if q = p \<and> k = 1 then bit v 0 else padcfg_bit t base q k)"
    unfolding defs by (rule padcfg_member [OF assms _ refl]) simp
  show "padcfg_bit (gpio_padcfg_pull_pin_set written base (of_nat p) v t) base q k =
      (if q = p \<and> k = 0 then bit v 0 else padcfg_bit t base q k)"
    using padcfg_member [where j = 0, OF assms _ refl] unfolding defs by simp
qed

theorem padcfg_one_setting_witness:
  "padcfg_bit (gpio_padcfg_strength_pin_set written 0 (of_nat 5) 3 []) 0 5 1
    \<and> \<not> padcfg_bit (gpio_padcfg_strength_pin_set written 0 (of_nat 5) 3 []) 0 5 2"
proof -
  have z: "\<not> padcfg_bit [] 0 5 2" by (simp add: padcfg_bit_def written_def)
  from padcfg_one_setting [of 5 5 1 0 3 "[]"] padcfg_one_setting [of 5 5 2 0 3 "[]"] z show ?thesis by simp
qed

section \<open>Waiting for an event\<close>

definition itc_rounds :: "device \<Rightarrow> u32 \<Rightarrow> u32 \<Rightarrow> nat \<Rightarrow> hart \<times> trace \<Rightarrow> hart \<times> trace" where
  "itc_rounds dev itc m n ht = after_tries (itc_round dev itc m) (\<lambda>ht. ht) n ht"

lemma irq_restored: "hal_irq_restore (fst (hal_irq_disable h)) (snd (hal_irq_disable h)) = h"
  by (simp add: hal_irq_restore_def hal_irq_disable_def hal_spr_read_then_clr_def hal_spr_write_def)

lemma itc_round_eq:
  "itc_round dev itc m (h, t) = (let (status, t') = hal_itc_status_value_get dev itc t in
     if status AND m = 0 then (False, h, hal_itc_enable_clr itc m (hal_itc_enable_set itc m t'))
     else (True, h, hal_itc_status_clr itc m t'))"
  using irq_restored [of h] by (simp add: itc_round_def split_def Let_def)

lemma itc_rounds_Suc: "itc_rounds dev itc m (Suc n) ht = snd (itc_round dev itc m (itc_rounds dev itc m n ht))"
  by (induction n arbitrary: ht) (simp_all add: itc_rounds_def)

lemma itc_round_done:
  "fst (itc_round dev itc m ht) \<longleftrightarrow> fst (hal_itc_status_value_get dev itc (snd ht)) AND m \<noteq> 0"
  by (cases ht) (simp add: itc_round_eq split_def Let_def)

lemma itc_round_hart: "fst (snd (itc_round dev itc m ht)) = fst ht"
  by (cases ht) (simp add: itc_round_eq split_def Let_def)

lemma itc_round_clears:
  "fst (itc_round dev itc m ht) \<Longrightarrow> last (snd (snd (itc_round dev itc m ht))) = MWrite (reg_addr itc_v1_map itc ''ITC_STATUS_CLR'') m"
  by (cases ht) (auto simp: itc_round_eq split_def Let_def hal_itc_status_clr_def reg_set_def mmio_write_def split: if_splits)

lemma itc_round_disables:
  "\<not> fst (itc_round dev itc m ht) \<Longrightarrow> last (snd (snd (itc_round dev itc m ht))) = MWrite (reg_addr itc_v1_map itc ''ITC_MASK_CLR'') m"
  by (cases ht) (auto simp: itc_round_eq split_def Let_def hal_itc_enable_clr_def reg_set_def mmio_write_def split: if_splits)

lemma itc_rounds_hart: "fst (itc_rounds dev itc m n ht) = fst ht"
  by (induction n) (simp_all add: itc_rounds_Suc itc_round_hart, simp add: itc_rounds_def)

lemma itc_last_round:
  assumes "itc_round dev itc m (after_tries (itc_round dev itc m) (\<lambda>ht. ht) n ht) = (True, h', t')"
  shows "h' = fst ht \<and> last t' = MWrite (reg_addr itc_v1_map itc ''ITC_STATUS_CLR'') m"
  using itc_round_hart [of dev itc m "itc_rounds dev itc m n ht"] itc_round_clears [of dev itc m "itc_rounds dev itc m n ht"]
    itc_rounds_hart [of dev itc m n ht] assms by (simp add: itc_rounds_def)

lemma itc_wait_last:
  assumes "hal_itc_wait_for_event dev itc m ht = Some (h', t')"
  shows "h' = fst ht \<and> last t' = MWrite (reg_addr itc_v1_map itc ''ITC_STATUS_CLR'') m"
proof -
  from assms obtain d where "retry (itc_round dev itc m) (\<lambda>done. done) (\<lambda>ht. ht) ht = Some (d, h', t')"
    by (auto simp: hal_itc_wait_for_event_def hal_itc_wait_for_event_noirq_def)
  then obtain n where "itc_round dev itc m (after_tries (itc_round dev itc m) (\<lambda>ht. ht) n ht) = (d, h', t')" "d"
    by (rule retry_result)
  then show ?thesis using itc_last_round [of dev itc m n ht h' t'] by simp
qed

lemma itc_wait_returns:
  "(\<exists>r. hal_itc_wait_for_event dev itc m ht = Some r) \<longleftrightarrow> (\<exists>r. retry (itc_round dev itc m) (\<lambda>done. done) (\<lambda>ht. ht) ht = Some r)"
  by (auto simp: hal_itc_wait_for_event_def hal_itc_wait_for_event_noirq_def)

text \<open>
  Waiting for an event returns exactly when the status register shows one of the events at the start of some round. It then
  has cleared these events in the status, the interrupts of the core are as before, and every earlier round has left
  the events disabled.
\<close>

theorem itc_wait_returns_iff:
  "((\<exists>r. hal_itc_wait_for_event dev itc m ht = Some r)
      \<longleftrightarrow> (\<exists>n. fst (hal_itc_status_value_get dev itc (snd (itc_rounds dev itc m n ht))) AND m \<noteq> 0))
    \<and> (\<forall>h' t'. hal_itc_wait_for_event dev itc m ht = Some (h', t') \<longrightarrow>
      h' = fst ht \<and> last t' = MWrite (reg_addr itc_v1_map itc ''ITC_STATUS_CLR'') m)
    \<and> (\<forall>n>0. (\<forall>k<n. fst (hal_itc_status_value_get dev itc (snd (itc_rounds dev itc m k ht))) AND m = 0) \<longrightarrow>
      last (snd (itc_rounds dev itc m n ht)) = MWrite (reg_addr itc_v1_map itc ''ITC_MASK_CLR'') m)"
proof (intro conjI)
  let ?stat = "\<lambda>k. fst (hal_itc_status_value_get dev itc (snd (itc_rounds dev itc m k ht))) AND m"
  have last: "fst (itc_round dev itc m (itc_rounds dev itc m k ht)) \<longleftrightarrow> ?stat k \<noteq> 0" for k
    using itc_round_done [of dev itc m "itc_rounds dev itc m k ht"] .
  show "(\<exists>r. hal_itc_wait_for_event dev itc m ht = Some r) \<longleftrightarrow> (\<exists>n. ?stat n \<noteq> 0)"
    unfolding last [symmetric] unfolding itc_rounds_def itc_wait_returns retry_iff ..
  show "\<forall>h' t'. hal_itc_wait_for_event dev itc m ht = Some (h', t') \<longrightarrow>
      h' = fst ht \<and> last t' = MWrite (reg_addr itc_v1_map itc ''ITC_STATUS_CLR'') m"
    using itc_wait_last by blast
  show "\<forall>n>0. (\<forall>k<n. ?stat k = 0) \<longrightarrow>
      last (snd (itc_rounds dev itc m n ht)) = MWrite (reg_addr itc_v1_map itc ''ITC_MASK_CLR'') m"
  proof (intro allI impI)
    fix n :: nat
    assume n: "0 < n" "\<forall>k<n. ?stat k = 0"
    then obtain j where j: "n = Suc j" by (cases n) simp_all
    from n(2) have "?stat j = 0" unfolding j by blast
    with last [of j] have "\<not> fst (itc_round dev itc m (itc_rounds dev itc m j ht))" by blast
    from itc_round_disables [OF this] show "last (snd (itc_rounds dev itc m n ht)) = MWrite (reg_addr itc_v1_map itc ''ITC_MASK_CLR'') m"
      unfolding j itc_rounds_Suc .
  qed
qed

section \<open>Channels\<close>

text \<open>The address of channel \<open>k\<close> from the start of the engine.\<close>

definition channel_at :: "nat \<Rightarrow> nat" where "channel_at k = 128 * (k div 2) + 128 + 16 * (k mod 2)"

lemma channel_base_nat: "k < 64 \<Longrightarrow> hal_udma_channel_base udma (of_nat k) = udma + of_nat (channel_at k)"
  using nat_word_mask(1,2) [of k 1]
  by (simp add: hal_udma_channel_base_def UDMA_PERIPH_OFFSET_def UDMA_CHANNEL_OFFSET_def channel_at_def push_bit_eq_mult
      mask_eq_exp_minus_1 algebra_simps numeral_2_eq_2)

lemma channel_at_apart:
  assumes "channel_at j + r = channel_at k + s" "r < 16" "s < 16"
  shows "j = k \<and> r = s"
proof -
  have *: "16 * (8 * (j div 2) + 8 + j mod 2) + r = 16 * (8 * (k div 2) + 8 + k mod 2) + s"
    using assms(1) by (simp add: channel_at_def algebra_simps)
  have d: "(16 * a + x) div 16 = a" if "x < 16" for a x :: nat using that by simp
  have "8 * (j div 2) + 8 + j mod 2 = 8 * (k div 2) + 8 + k mod 2"
    using d [OF assms(2), of "8 * (j div 2) + 8 + j mod 2"] d [OF assms(3), of "8 * (k div 2) + 8 + k mod 2"] unfolding * by (rule trans [OF sym])
  with digits_eq [of "j mod 2" "k mod 2" "j div 2" "k div 2"] have "j div 2 = k div 2" "j mod 2 = k mod 2"
    by (simp_all add: less_le_trans [of _ 2 8])
  then have "j div 2 * 2 + j mod 2 = k div 2 * 2 + k mod 2" by (simp only:)
  then have "j = k" by (simp only: div_mult_mod_eq)
  then show ?thesis using assms(1) by simp
qed

lemma channel_addr:
  assumes "j < 64" "k < 64" "r < 16" "s < 16"
  shows "hal_udma_channel_base udma (of_nat j) + of_nat r = hal_udma_channel_base udma (of_nat k) + of_nat s \<longleftrightarrow> j = k \<and> r = s"
proof -
  have "channel_at i + x < 2 ^ 32" if "i < 64" "x < 16" for i x
  proof -
    have "i div 2 \<le> i" "i mod 2 < 2" by simp_all
    then have "channel_at i + x < 128 * 64 + 128 + 16 * 2 + 16" using that unfolding channel_at_def by linarith
    also have "\<dots> < (2 :: nat) ^ 32" by simp
    finally show ?thesis .
  qed
  then have b: "channel_at j + r < 2 ^ 32" "channel_at k + s < 2 ^ 32" using assms by blast+
  have "hal_udma_channel_base udma (of_nat j) + of_nat r = hal_udma_channel_base udma (of_nat k) + of_nat s
      \<longleftrightarrow> (of_nat (channel_at j + r) :: u32) = of_nat (channel_at k + s)"
    by (simp add: channel_base_nat assms add.assoc)
  also have "\<dots> \<longleftrightarrow> channel_at j + r = channel_at k + s"
    using b by (simp only: word_unat_eq_iff unat_of_nat len_num1 len_bit0 mult_1_right) (simp add: take_bit_nat_eq_self)
  also have "\<dots> \<longleftrightarrow> j = k \<and> r = s" using channel_at_apart [OF _ assms(3,4), of j k] by auto
  finally show ?thesis .
qed

text \<open>A register of a channel, \<open>r\<close> being its place: 0 the address, 4 the size, 8 the configuration.\<close>

definition channel_reg :: "trace \<Rightarrow> u32 \<Rightarrow> nat \<Rightarrow> nat \<Rightarrow> u32" where
  "channel_reg t udma k r = written t (hal_udma_channel_base udma (of_nat k) + of_nat r)"

text \<open>
  Starting a transfer on one of 64 channels leaves the address, the size and the configuration with the enable bit in the
  registers of that channel, and the registers of every other channel are as before.
\<close>

theorem udma_enqueue_one_channel:
  assumes "k < 64" "j < 64" "r < 16"
  shows "channel_reg (plp_udma_enqueue (hal_udma_channel_base udma (of_nat k)) a n cfg t) udma j r =
    (if j = k \<and> r = 0 then a else if j = k \<and> r = 4 then n else if j = k \<and> r = 8 then cfg OR UDMA_CHANNEL_CFG_EN
     else channel_reg t udma j r)"
  using channel_addr [OF assms(2,1,3), of 0 udma] channel_addr [OF assms(2,1,3), of 4 udma] channel_addr [OF assms(2,1,3), of 8 udma]
  by (simp add: channel_reg_def plp_udma_enqueue_def UDMA_CHANNEL_SADDR_OFFSET_def UDMA_CHANNEL_SIZE_OFFSET_def
      UDMA_CHANNEL_CFG_OFFSET_def Let_def written_mmio_write)

theorem udma_enqueue_one_channel_witness:
  "channel_reg (plp_udma_enqueue (hal_udma_channel_base 0x1A102000 (of_nat 3)) 0x1C000000 64 4 []) 0x1A102000 3 4 = 64"
  using udma_enqueue_one_channel [of 3 3 4 "0x1A102000" "0x1C000000" 64 4 "[]"] by simp

lemma take_bit_sum: "take_bit 5 (a + b) = take_bit 5 (take_bit 5 a + take_bit 5 b)" for a b :: u32
  by transfer (simp add: take_bit_add min_def)

lemma low_five: "b < 2 \<Longrightarrow> take_bit 5 (16 * b + 32 * m) = 16 * b" for b m :: nat
  by (simp add: take_bit_eq_mod)

text \<open>A channel is sending exactly when its number is odd, provided that the engine stands at a multiple of 32.\<close>

theorem udma_channel_isTx:
  assumes "k < 64" "take_bit 5 udma = 0"
  shows "hal_udma_channel_isTx (hal_udma_channel_base udma (of_nat k)) = of_nat (k mod 2)"
proof -
  have "take_bit 5 (hal_udma_channel_base udma (of_nat k)) = take_bit 5 (take_bit 5 udma + take_bit 5 (of_nat (channel_at k)))"
    unfolding channel_base_nat [OF assms(1)] by (rule take_bit_sum)
  also have "\<dots> = of_nat (take_bit 5 (channel_at k))" by (simp add: assms(2) take_bit_of_nat)
  also have "channel_at k = 16 * (k mod 2) + 32 * (4 * (k div 2) + 4)" by (simp add: channel_at_def)
  also have "take_bit 5 (16 * (k mod 2) + 32 * (4 * (k div 2) + 4)) = 16 * (k mod 2)" by (rule low_five) simp
  finally have low: "take_bit 5 (hal_udma_channel_base udma (of_nat k)) = of_nat (16 * (k mod 2))" .
  have "hal_udma_channel_isTx x = drop_bit 4 (take_bit 5 x)" for x
    by (rule bit_word_eqI) (auto simp: hal_udma_channel_isTx_def bit_simps)
  then have "hal_udma_channel_isTx (hal_udma_channel_base udma (of_nat k)) = drop_bit 4 (of_nat (16 * (k mod 2)))" by (simp only: low)
  then show ?thesis by (cases "even k") (simp_all add: even_iff_mod_2_eq_zero odd_iff_mod_2_eq_one)
qed

text \<open>The number read back from the offset of a peripheral is one too high; that of a channel is right.\<close>

theorem udma_periph_get_off_by_one:
  assumes "k < 64"
  shows "UDMA_PERIPH_GET (UDMA_PERIPH_OFFSET (of_nat k)) = of_nat (k + 1)" "UDMA_CHANNEL_GET (UDMA_CHANNEL_OFFSET (of_nat k)) = of_nat k"
proof -
  have p: "UDMA_PERIPH_OFFSET (of_nat k) = of_nat (128 * (k + 1))" "UDMA_CHANNEL_OFFSET (of_nat k) = of_nat (16 * k)"
    by (simp_all add: UDMA_PERIPH_OFFSET_def UDMA_CHANNEL_OFFSET_def push_bit_eq_mult)
  have "128 * (k + 1) < 2 ^ 32" "16 * k < 2 ^ 32" using assms by simp_all
  then have u: "unat (of_nat (128 * (k + 1)) :: u32) = 128 * (k + 1)" "unat (of_nat (16 * k) :: u32) = 16 * k"
    by (simp_all only: unat_of_nat len_num1 len_bit0 mult_1_right) (simp_all add: take_bit_nat_eq_self)
  show "UDMA_PERIPH_GET (UDMA_PERIPH_OFFSET (of_nat k)) = of_nat (k + 1)" "UDMA_CHANNEL_GET (UDMA_CHANNEL_OFFSET (of_nat k)) = of_nat k"
    unfolding UDMA_PERIPH_GET_def UDMA_CHANNEL_GET_def p
    using assms by (simp_all only: word_unat_eq_iff unat_drop_bit_eq u drop_bit_nat_def unat_of_nat) (simp_all add: take_bit_nat_eq_self)
qed

text \<open>A channel is reported busy by the bit itself, 16 and not 1.\<close>

theorem udma_busy_result:
  "fst (plp_udma_busy dev c t) = (if bit (dev t (c + UDMA_CHANNEL_CFG_OFFSET)) 4 then 16 else 0)"
proof -
  have "(16 :: u32) = 2 ^ 4" by simp
  then have "bit (16 :: u32) n \<longleftrightarrow> n = 4" for n by (simp only: bit_exp_iff) (auto simp: possible_bit_def)
  then have "x AND 16 = (if bit x 4 then 16 else 0)" for x :: u32
    by (intro bit_word_eqI) (simp only: bit_and_iff bit_0_eq bot_apply bot_bool_def if_distrib [of bit] split: if_split, blast)
  then show ?thesis by (simp add: plp_udma_busy_def mmio_read_def Let_def UDMA_CHANNEL_CFG_EN_def)
qed

section \<open>Setting up the serial line\<close>

text \<open>Both ways to write the setup register reach the same word, and so do both ways to read it.\<close>

lemma uart_two_ways:
  "plpUdmaUartSetupSet uart v t = plp_uart_reg_write uart UART_SETUP_OFFSET v t"
  "plpUdmaUartSetupGet dev uart t = plp_uart_reg_read dev uart UART_SETUP_OFFSET t"
  "plpUdmaUartStatusGet dev uart t = plp_uart_reg_read dev uart UART_STATUS_OFFSET t"
  by (simp_all add: plpUdmaUartSetupSet_def plpUdmaUartSetupGet_def plpUdmaUartStatusGet_def plp_uart_reg_write_def
      plp_uart_reg_read_def uart_setup_def uart_status_def UDMA_CHANNEL_CUSTOM_OFFSET_def UART_SETUP_OFFSET_def
      UART_STATUS_OFFSET_def add.assoc)

lemma setup_low: "p + w \<le> 16 \<Longrightarrow> member_get p w (raw OR push_bit 16 x) = member_get p w raw"
  by (rule bit_word_eqI) (simp only: bit_member_get bit_or_iff bit_push_bit_iff, auto)

lemma high_bits: "drop_bit 16 x = 0 \<Longrightarrow> \<not> bit x (16 + i)" for x :: u32
  using bit_drop_bit_eq [of 16 x] by (metis bit_0_eq bot_apply bot_bool_def comp_apply)

lemma setup_high:
  fixes q :: u32 and clk :: u16
  assumes "q = 0 \<or> q = 1"
  shows "member_get 16 16 ((0x306 OR q) OR push_bit 16 (ucast clk)) = ucast clk"
proof -
  have "drop_bit 16 (0x306 OR q) = 0" using assms by auto
  note no = high_bits [OF this]
  show ?thesis
    by (rule bit_word_eqI) (simp only: bit_member_get bit_or_iff [of "0x306 OR q"] no bit_push_bit_iff bit_ucast_iff,
      auto dest: bit_imp_le_length)
qed

lemma setup_word:
  assumes "parity < 2"
  shows "map (\<lambda>(p, w). member_get p w (written (plp_uart_setup uart parity clk t) (uart + 0x24)))
      [(0, 1), (1, 2), (3, 1), (4, 4), (8, 1), (9, 1), (10, 6), (16, 16)]
    = [parity, 3, 0, 0, 1, 1, 0, ucast clk]"
proof -
  have "unat parity < 2" using assms by (simp add: word_less_nat_alt)
  then have "unat parity = unat (0 :: u32) \<or> unat parity = unat (1 :: u32)" by auto
  then have p: "parity = 0 \<or> parity = 1" by (simp only: word_unat_eq_iff)
  define v where "v = 0x306 OR parity"
  have w: "written (plp_uart_setup uart parity clk t) (uart + 0x24) = v OR push_bit 16 (ucast clk)"
    by (simp add: plp_uart_setup_def written_mmio_write UDMA_CHANNEL_CUSTOM_OFFSET_def UART_SETUP_OFFSET_def Let_def add.assoc v_def)
  have "map (\<lambda>(p, w). member_get p w v) [(0, 1), (1, 2), (3, 1), (4, 4), (8, 1), (9, 1), (10, 6)] = [parity, 3, 0, 0, 1, 1, 0]"
    using p unfolding v_def by (auto simp: member_get_def)
  moreover have "member_get 16 16 (v OR push_bit 16 (ucast clk)) = ucast clk" unfolding v_def by (rule setup_high [OF p])
  ultimately show ?thesis unfolding w by (simp add: setup_low)
qed

text \<open>
  With parity 0 or 1 the word written to set up the serial line has, in the members of the type of the register: that parity,
  characters of eight bits, one stop bit, both directions enabled and the counter as the divider of the clock.
\<close>

theorem uart_setup_members_set:
  assumes "parity < 2"
  shows "map (\<lambda>(f, p, w). (f, member_get p w (written (plp_uart_setup uart parity clk t) (uart + 0x24)))) (layout 0 uart_setup_members)
    = [(''parity_en'', parity), (''char_length'', 3), (''stop_bit_length'', 0), (''tx_en'', 1), (''rx_en'', 1), (''clkdiv'', ucast clk)]"
  using setup_word [OF assms, of uart clk t] by (simp add: uart_setup_members_def numeral_3_eq_3)

theorem uart_setup_members_set_witness:
  "map (\<lambda>(f, p, w). (f, member_get p w (written (plp_uart_setup 0x1A102080 1 25 []) (0x1A102080 + 0x24)))) (layout 0 uart_setup_members)
    = [(''parity_en'', 1), (''char_length'', 3), (''stop_bit_length'', 0), (''tx_en'', 1), (''rx_en'', 1), (''clkdiv'', 25)]"
  using uart_setup_members_set [of 1 "0x1A102080" 25 "[]"] by simp

end
