(* ===== verification/Axi_Beats.thy ===== *)
theory Axi_Beats
  imports Prelude
begin

text \<open>
  How the simulator of the accelerator splits a transfer into bursts and beats of its AXI bus: \<^verbatim>\<open>AXIDriver.hpp\<close> and the
  function \<open>write\<close> of \<^verbatim>\<open>AXIMaster.hpp\<close>. All ports with a master have addresses of 32 bits. Values of \<^verbatim>\<open>uint32_t\<close> are
  natural numbers; where a sum or difference can leave the range, it is \<open>add32\<close> or \<open>sub32\<close>, which wrap.
\<close>

unbundle bit_operations_syntax

definition add32 :: "nat \<Rightarrow> nat \<Rightarrow> nat" where "add32 a b = (a + b) mod 2 ^ 32"
definition sub32 :: "nat \<Rightarrow> nat \<Rightarrow> nat" where "sub32 a b = (a + (2 ^ 32 - b mod 2 ^ 32)) mod 2 ^ 32"

definition AXI_DW :: nat where "AXI_DW = 512"
definition AXI_SW :: nat where "AXI_SW = AXI_DW div 8"
definition AXI_BURST_FIXED :: nat where "AXI_BURST_FIXED = 0"
definition AXI_BURST_INCR :: nat where "AXI_BURST_INCR = 1"

record ax_beat =
  ax_id :: nat
  ax_addr :: nat
  ax_len :: nat
  ax_size :: nat
  ax_burst :: nat
  ax_lock :: nat
  ax_cache :: nat
  ax_prot :: nat
  ax_qos :: nat
  ax_region :: nat
  ax_atop :: nat
  ax_user :: nat
  ax_offset :: nat

record w_beat =
  w_data :: "u8 list"
  w_strb :: u64
  w_user :: nat
  w_last :: nat

definition blank_ax :: ax_beat where
  "blank_ax = \<lparr>ax_id = 0, ax_addr = 0, ax_len = 0, ax_size = 0, ax_burst = 0, ax_lock = 0, ax_cache = 0, ax_prot = 0, ax_qos = 0,
     ax_region = 0, ax_atop = 0, ax_user = 0, ax_offset = 0\<rparr>"

section \<open>Addresses of beats\<close>

definition axi_num_bytes :: "nat \<Rightarrow> nat" where "axi_num_bytes sz = push_bit sz 1"

definition axi_aligned_address :: "nat \<Rightarrow> nat \<Rightarrow> nat" where
  "axi_aligned_address addr sz = (addr div axi_num_bytes sz) * axi_num_bytes sz"

definition beat_addr :: "ax_beat \<Rightarrow> nat \<Rightarrow> nat" where
  "beat_addr ax i = (if i = 0 then ax_addr ax else add32 (axi_aligned_address (ax_addr ax) (ax_size ax)) (i * push_bit (ax_size ax) 1))"

definition beat_lower_byte :: "ax_beat \<Rightarrow> nat \<Rightarrow> nat" where
  "beat_lower_byte ax i = (let addr = beat_addr ax i in addr - (addr div AXI_SW) * AXI_SW)"

definition beat_upper_byte :: "ax_beat \<Rightarrow> nat \<Rightarrow> nat \<Rightarrow> nat" where
  "beat_upper_byte ax i n_bytes =
     (if i = 0 then axi_aligned_address (ax_addr ax) (ax_size ax) + push_bit (ax_size ax) 1 - (ax_addr ax div AXI_SW) * AXI_SW
      else if i = ax_len ax then sub32 (sub32 n_bytes (AXI_SW - beat_lower_byte ax 0)) ((ax_len ax - 1) * AXI_SW)
      else beat_lower_byte ax i + push_bit (ax_size ax) 1)"

definition page_num :: "nat \<Rightarrow> nat" where "page_num addr = drop_bit 12 addr"

section \<open>Bursts of a transfer\<close>

text \<open>The logarithm to base 2, rounded down; for the numbers up to 64 it is asked for, that of the C library is exact enough.\<close>

fun log2 :: "nat \<Rightarrow> nat" where
  "log2 n = (if n < 2 then 0 else Suc (log2 (n div 2)))"

declare log2.simps [simp del]

text \<open>
  The loop that increases the size of a single beat until all bytes fit. The assertion that it stays below the width of
  the bus holds (\<open>grow_size_fits\<close>), so that stopping there is never seen.
\<close>

function grow_size :: "nat \<Rightarrow> nat \<Rightarrow> nat \<Rightarrow> nat" where
  "grow_size addr n sz =
     (let b = blank_ax\<lparr>ax_addr := addr, ax_burst := AXI_BURST_INCR, ax_size := sz\<rparr>
      in if beat_upper_byte b 0 n - beat_lower_byte b 0 < n \<and> sz < log2 AXI_SW then grow_size addr n (sz + 1) else sz)"
  by auto
termination by (relation "measure (\<lambda>(addr, n, sz). log2 AXI_SW - sz)") auto

declare grow_size.simps [simp del]

definition first_size :: "nat \<Rightarrow> nat \<Rightarrow> nat" where
  "first_size addr n =
     (if n > AXI_SW \<or> drop_bit (log2 AXI_SW) addr \<noteq> drop_bit (log2 AXI_SW) (add32 addr (n - 1)) then log2 AXI_SW
      else grow_size addr n (log2 n))"

text \<open>The number of beats, and the bytes in the first and in the last of several.\<close>

definition beat_counts :: "nat \<Rightarrow> nat \<Rightarrow> nat \<times> nat \<times> nat" where
  "beat_counts addr n =
     (let first = AXI_SW - addr mod AXI_SW
      in if n \<le> first then (1, n, 0)
         else let beats = 1 + (n - first + AXI_SW - 1) div AXI_SW in (beats, first, n - first - AXI_SW * (beats - 2)))"

definition one_burst :: "nat \<Rightarrow> nat \<Rightarrow> ax_beat \<times> nat" where
  "one_burst addr n =
     (let (beats, first, last) = beat_counts addr n;
          (beats, last) = (if beats > 256 then (256, AXI_SW) else (beats, last));
          bytes = (if beats > 1 then first + ((beats - 2) * AXI_SW + last) else first)
      in (blank_ax\<lparr>ax_addr := addr, ax_burst := AXI_BURST_INCR, ax_size := first_size addr n, ax_len := beats - 1\<rparr>, bytes))"

lemma AXI_SW [simp]: "AXI_SW = 64"
  by (simp add: AXI_SW_def AXI_DW_def)

lemma log2_64 [simp]: "log2 64 = 6"
  by (simp add: log2.simps)

lemma beat_counts_cases:
  obtains "n \<le> 64 - addr mod 64" "beat_counts addr n = (1, n, 0)"
  | "64 - addr mod 64 < n" "beat_counts addr n = (1 + (n - (64 - addr mod 64) + 63) div 64, 64 - addr mod 64,
        n - (64 - addr mod 64) - 64 * (1 + (n - (64 - addr mod 64) + 63) div 64 - 2))"
  by (cases "n \<le> 64 - addr mod 64") (simp_all add: beat_counts_def Let_def)

lemma one_burst_bytes: "0 < n \<Longrightarrow> 0 < snd (one_burst addr n) \<and> snd (one_burst addr n) \<le> n"
proof (cases rule: beat_counts_cases [of n addr])
  case 2
  define f where "f = 64 - addr mod 64"
  define q where "q = (n - f + 63) div 64"
  have f: "0 < f" "f < n" using 2 mod_less_divisor [of 64 addr] by (simp_all add: f_def)
  then have q: "1 \<le> q" "64 * (q - 1) \<le> n - f" unfolding q_def by linarith+
  have bc: "beat_counts addr n = (1 + q, f, n - f - 64 * (1 + q - 2))" using 2(2) unfolding f_def q_def .
  obtain r where r: "q = Suc r" using q(1) by (cases q) auto
  show ?thesis using f q(2) unfolding one_burst_def Let_def bc r by auto
qed (simp add: one_burst_def Let_def)

text \<open>
  Both calls of the next function move fewer bytes: a burst has at least one byte, and less than all when the
  transfer goes on behind the page.
\<close>

lemma sub32_less: "0 < b \<Longrightarrow> b \<le> n \<Longrightarrow> sub32 n b < n"
proof -
  assume b: "0 < b" "b \<le> n"
  show ?thesis
  proof (cases "n < 2 ^ 32")
    case True
    then have "n + (2 ^ 32 - b) = (n - b) + 2 ^ 32" "b mod 2 ^ 32 = b" using b by simp_all
    then have "sub32 n b = (n - b) mod 2 ^ 32" unfolding sub32_def by (simp only: mod_add_self2)
    also have "\<dots> \<le> n - b" by simp
    finally show ?thesis using b by linarith
  next
    case False
    moreover have "sub32 n b < 2 ^ 32" by (simp add: sub32_def)
    ultimately show ?thesis by linarith
  qed
qed

lemma and_0xFFF: "n AND 0xFFF = n mod 4096" for n :: nat
proof -
  have "n AND 0xFFF = n AND mask 12" by (simp add: mask_eq_exp_minus_1)
  then show ?thesis by (simp add: take_bit_eq_mod flip: take_bit_eq_mask)
qed

lemma same_block:
  fixes a n d :: nat
  assumes "a mod d + n \<le> d" "0 < n"
  shows "(a + (n - 1)) div d = a div d"
proof -
  have "a + (n - 1) = (a mod d + (n - 1)) + a div d * d" by simp
  also have "\<dots> div d = a div d" using assms by (subst div_mult_self1) simp_all
  finally show ?thesis .
qed

lemma sub32_eq: "b \<le> a \<Longrightarrow> a < 2 ^ 32 \<Longrightarrow> sub32 a b = a - b"
proof -
  assume b: "b \<le> a" "a < 2 ^ 32"
  then have "b mod 2 ^ 32 = b" "a + (2 ^ 32 - b) = (a - b) + 2 ^ 32" "a - b < 2 ^ 32" by simp_all
  then show "sub32 a b = a - b" by (simp only: sub32_def mod_add_self2 mod_less)
qed

lemma page_bytes:
  assumes "page_num (addr mod 2 ^ 32) \<noteq> page_num (add32 addr (n - 1))" "0 < n"
  shows "0 < 4096 - (addr AND 0xFFF)" "4096 - (addr AND 0xFFF) < n"
proof -
  define a where "a = addr mod 2 ^ 32"
  have o: "addr AND 0xFFF = a mod 4096" by (simp add: and_0xFFF a_def mod_mod_cancel)
  show "0 < 4096 - (addr AND 0xFFF)" by (simp add: o)
  have w: "add32 addr (n - 1) = (a + (n - 1)) mod 2 ^ 32" by (simp add: add32_def a_def mod_add_left_eq)
  show "4096 - (addr AND 0xFFF) < n"
  proof (rule ccontr)
    assume "\<not> 4096 - (addr AND 0xFFF) < n"
    then have n: "a mod 4096 + n \<le> 4096" unfolding o by linarith
    have "a < 2 ^ 32" by (simp add: a_def)
    then have "a div 4096 < 2 ^ 20" by (simp add: less_mult_imp_div_less)
    moreover have "(a + (n - 1)) div 4096 = a div 4096" using same_block [OF n assms(2)] .
    ultimately have "(a + (n - 1)) div 4096 < 2 ^ 20" by simp
    then have "a + (n - 1) < 2 ^ 32" by (simp add: div_less_iff_less_mult)
    with \<open>(a + (n - 1)) div 4096 = a div 4096\<close> show False
      using assms(1) [folded a_def, unfolded w] by (simp add: page_num_def drop_bit_nat_def)
  qed
qed

text \<open>Bursts never cross a page of 4096 bytes; the addresses of a port are below \<open>2 ^ 32\<close>.\<close>

function create_ax_beats :: "nat \<Rightarrow> nat \<Rightarrow> (ax_beat \<times> nat) list" where
  "create_ax_beats addr n =
     (if n = 0 then []
      else if page_num (addr mod 2 ^ 32) \<noteq> page_num (add32 addr (n - 1)) then
        let bytes = 4096 - (addr AND 0xFFF)
        in create_ax_beats addr bytes @ create_ax_beats (add32 addr bytes) (sub32 n bytes)
      else let b = one_burst addr n in b # create_ax_beats (add32 addr (snd b)) (sub32 n (snd b)))"
  by auto

termination
proof (relation "measure snd", goal_cases)
  case (2 addr n bytes)
  then show ?case using page_bytes [of addr n] by simp
next
  case (3 addr n bytes)
  then show ?case using page_bytes [of addr n] by (simp add: sub32_less less_imp_le)
next
  case (4 addr n b)
  then show ?case using one_burst_bytes [of n addr] by (simp add: sub32_less)
qed simp

declare create_ax_beats.simps [simp del]

section \<open>The beats of a write\<close>

text \<open>One beat: the bytes from \<open>written\<close> on of those of the burst, and a strobe for every byte of the beat.\<close>

definition make_w_beat :: "ax_beat \<Rightarrow> nat \<Rightarrow> u8 list \<Rightarrow> nat \<Rightarrow> nat \<Rightarrow> w_beat \<times> nat" where
  "make_w_beat aw n_bytes data i written =
     (let lower = beat_lower_byte aw i;
          upper = beat_upper_byte aw i n_bytes;
          sz = min (sub32 upper lower) n_bytes;
          zeros = replicate AXI_SW 0;
          strobes = (if written < n_bytes
                     then fold (\<lambda>j s. s OR drop_bit (AXI_SW - j - 1) (push_bit (AXI_SW - 1) 1)) [lower ..< upper] 0 else 0)
      in (\<lparr>w_data = take lower zeros @ take sz (drop written data) @ drop (lower + sz) zeros, w_strb = strobes, w_user = 0,
           w_last = (if i = ax_len aw then 1 else 0)\<rparr>, written + sz))"

fun burst_w_beats :: "ax_beat \<Rightarrow> nat \<Rightarrow> u8 list \<Rightarrow> nat list \<Rightarrow> nat \<Rightarrow> w_beat list \<times> nat" where
  "burst_w_beats aw n_bytes data [] written = ([], written)"
| "burst_w_beats aw n_bytes data (i # is) written =
     (let (w, written) = make_w_beat aw n_bytes data i written;
          (ws, written) = burst_w_beats aw n_bytes data is written
      in (w # ws, written))"

text \<open>All bursts of a transfer from \<open>data\<close>: the beats, and how many bytes they hold.\<close>

fun transfer_w_beats :: "(ax_beat \<times> nat) list \<Rightarrow> u8 list \<Rightarrow> nat \<Rightarrow> w_beat list \<times> nat" where
  "transfer_w_beats [] data written = ([], written)"
| "transfer_w_beats ((aw, n_bytes) # bs) data written =
     (let (ws, n) = burst_w_beats aw n_bytes (drop written data) [0 ..< ax_len aw + 1] 0;
          (vs, written) = transfer_w_beats bs data (written + n)
      in (ws @ vs, written))"

section \<open>What a target does with the beats\<close>

text \<open>
  The target of a write, as the bus defines it: every beat stores the bytes with a strobe in the line its address is in. A
  beat must come with its burst, and the last one of a burst must be marked.
\<close>

type_synonym bytes = "nat \<Rightarrow> u8"

definition w_apply :: "nat \<Rightarrow> w_beat \<Rightarrow> bytes \<Rightarrow> bytes" where
  "w_apply line w m = (\<lambda>a. if line \<le> a \<and> a < line + 64 \<and> bit (w_strb w) (a - line) then w_data w ! (a - line) else m a)"

fun axi_target :: "ax_beat list \<Rightarrow> nat \<Rightarrow> w_beat list \<Rightarrow> bytes \<Rightarrow> bytes option" where
  "axi_target [] i [] m = Some m"
| "axi_target [] i (w # ws) m = None"
| "axi_target (aw # aws) i [] m = None"
| "axi_target (aw # aws) i (w # ws) m =
     (if (w_last w = 1) \<noteq> (i = ax_len aw) then None
      else let m' = w_apply (beat_addr aw i div 64 * 64) w m
           in if i = ax_len aw then axi_target aws 0 ws m' else axi_target (aw # aws) (i + 1) ws m')"

text \<open>The bytes from \<open>s\<close> on replaced.\<close>

definition overlay :: "bytes \<Rightarrow> nat \<Rightarrow> u8 list \<Rightarrow> bytes" where
  "overlay m s xs = (\<lambda>a. if s \<le> a \<and> a < s + length xs then xs ! (a - s) else m a)"

lemma overlay_nil [simp]: "overlay m s [] = m"
  by (rule ext) (auto simp: overlay_def)

lemma overlay_append: "overlay (overlay m s xs) (s + length xs) ys = overlay m s (xs @ ys)"
  by (rule ext) (auto simp: overlay_def nth_append)

lemma overlay_take:
  assumes "a \<le> b" "b \<le> c" "c \<le> length xs"
  shows "overlay (overlay m (s + a) (take (b - a) (drop a xs))) (s + b) (take (c - b) (drop b xs)) = overlay m (s + a) (take (c - a) (drop a xs))"
proof -
  have "take (c - a) (drop a xs) = take (b - a) (drop a xs) @ take (c - b) (drop b xs)"
    using assms take_add [of "b - a" "c - b" "drop a xs"] by simp
  moreover have "length (take (b - a) (drop a xs)) = b - a" using assms by simp
  ultimately show ?thesis
    using assms overlay_append [of m "s + a" "take (b - a) (drop a xs)" "take (c - b) (drop b xs)"] by simp
qed

lemma bit_strobe: "i < 64 \<Longrightarrow> bit (drop_bit (63 - i) (push_bit 63 1) :: u64) j \<longleftrightarrow> j = i"
  by (simp only: bit_drop_bit_eq comp_apply bit_push_bit_iff bit_1_iff possible_bit_def) auto

lemma bit_strobes:
  "hi \<le> 64 \<Longrightarrow> bit (fold (\<lambda>j s. s OR drop_bit (AXI_SW - j - 1) (push_bit (AXI_SW - 1) 1)) [lo ..< hi] (s :: u64)) j
    \<longleftrightarrow> bit s j \<or> (lo \<le> j \<and> j < hi)"
proof (induction hi arbitrary: s)
  case (Suc hi)
  show ?case
  proof (cases "lo \<le> hi")
    case True
    with Suc bit_strobe [of hi j] show ?thesis by (auto simp: bit_or_iff le_less_Suc_eq less_Suc_eq)
  next
    case False
    then show ?thesis by auto
  qed
qed simp

lemma beat_stores:
  assumes "beat_lower_byte aw i = lo" "beat_upper_byte aw i n = hi" "lo \<le> hi" "hi \<le> 64" "written < n"
    "written + min (hi - lo) n \<le> length data"
  shows "w_apply line (fst (make_w_beat aw n data i written)) m
      = overlay m (line + lo) (take (min (hi - lo) n) (drop written data) @ replicate (hi - lo - n) 0)"
    "snd (make_w_beat aw n data i written) = written + min (hi - lo) n"
    "w_last (fst (make_w_beat aw n data i written)) = (if i = ax_len aw then 1 else 0)"
proof -
  define sz where "sz = min (hi - lo) n"
  have "hi - lo < 2 ^ 32" "lo mod 2 ^ 32 = lo" "hi + (2 ^ 32 - lo) = (hi - lo) + 2 ^ 32" using assms(3,4) by simp_all
  then have s: "sub32 hi lo = hi - lo" by (simp only: sub32_def mod_add_self2 mod_less)
  define xs where "xs = take sz (drop written data)"
  have len: "length xs = sz" using assms(6) by (simp add: xs_def sz_def)
  let ?d = "take lo (replicate 64 0) @ xs @ drop (lo + sz) (replicate 64 0)"
  have d: "?d ! j = (if j < lo + sz then xs ! (j - lo) else 0)" if "lo \<le> j" "j < hi" for j
    using that assms(3,4) len by (auto simp: nth_append min_def)
  show "snd (make_w_beat aw n data i written) = written + min (hi - lo) n"
    "w_last (fst (make_w_beat aw n data i written)) = (if i = ax_len aw then 1 else 0)"
    by (simp_all add: make_w_beat_def Let_def assms(1,2) s)
  show "w_apply line (fst (make_w_beat aw n data i written)) m
      = overlay m (line + lo) (take (min (hi - lo) n) (drop written data) @ replicate (hi - lo - n) 0)"
  proof (rule ext)
    fix a
    have "hi = lo + sz + (hi - lo - n)" using assms(3) by (simp add: sz_def)
    then show "w_apply line (fst (make_w_beat aw n data i written)) m a
        = overlay m (line + lo) (take (min (hi - lo) n) (drop written data) @ replicate (hi - lo - n) 0) a"
      using d [of "a - line"] len assms(3,4,5)
      by (auto simp: w_apply_def make_w_beat_def Let_def assms(1,2) s bit_strobes [OF assms(4), simplified] overlay_def nth_append
          sz_def [symmetric] xs_def [symmetric] simp del: replicate.simps)
  qed
qed

section \<open>A burst of several beats\<close>

text \<open>The beats of a burst of \<open>k\<close> bytes at \<open>s\<close> that reaches over the end of a line of 64 bytes.\<close>

definition beat_start :: "nat \<Rightarrow> nat \<Rightarrow> nat" where
  "beat_start s i = (if i = 0 then 0 else 64 - s mod 64 + (i - 1) * 64)"

lemma wide_beats:
  assumes "ax_addr aw = s" "ax_size aw = 6" "ax_len aw = (k - (64 - s mod 64) + 63) div 64" "64 - s mod 64 < k" "s + k \<le> 2 ^ 32"
    "k < 2 ^ 32" "i \<le> ax_len aw"
  shows "beat_addr aw i div 64 * 64 = s div 64 * 64 + i * 64"
    "beat_lower_byte aw i = s + beat_start s i - (s div 64 * 64 + i * 64)" "beat_lower_byte aw i < 64"
    "s div 64 * 64 + i * 64 + beat_lower_byte aw i = s + beat_start s i"
    "beat_upper_byte aw i k = beat_lower_byte aw i + (min (beat_start s (i + 1)) k - beat_start s i)"
    "beat_start s i < k" "beat_upper_byte aw i k \<le> 64"
proof -
  define q r f where "q = s div 64" and "r = s mod 64" and "f = 64 - r"
  have s: "s = 64 * q + r" "r < 64" by (simp_all add: q_def r_def)
  have f: "0 < f" "f < k" "64 - s mod 64 = f" using assms(4) s(2) by (simp_all add: f_def r_def)
  define L where "L = ax_len aw"
  have L: "64 * (L - 1) < k - f" "k - f \<le> 64 * L" "0 < L" unfolding L_def assms(3) f(3) using f by linarith+
  have i: "i \<le> L" using assms(7) by (simp add: L_def)
  have size: "axi_aligned_address s 6 = 64 * q" "push_bit 6 (1 :: nat) = 64"
    by (simp_all add: axi_aligned_address_def axi_num_bytes_def q_def push_bit_eq_mult)
  have start: "beat_start s i < k"
  proof (cases i)
    case (Suc j)
    then have "64 * j \<le> 64 * (L - 1)" using i by simp
    then have "f + j * 64 < k" using L(1) by linarith
    then show ?thesis using Suc f(3) by (simp add: beat_start_def)
  qed (use f in \<open>simp add: beat_start_def\<close>)
  have addr: "beat_addr aw i = (if i = 0 then s else 64 * q + i * 64)"
  proof (cases i)
    case (Suc j)
    then have "64 * q + i * 64 < 2 ^ 32" using start assms(5) s f by (simp add: beat_start_def f_def)
    then show ?thesis using Suc by (simp add: beat_addr_def assms(1,2) size add32_def)
  qed (simp add: beat_addr_def assms(1))
  have lower: "beat_lower_byte aw i = (if i = 0 then r else 0)"
    using s(2) by (simp add: beat_lower_byte_def addr Let_def s(1))
  have lower0: "beat_lower_byte aw 0 = r"
    using s(2) by (simp add: beat_lower_byte_def beat_addr_def assms(1) Let_def s(1))
  have upper: "beat_upper_byte aw i k = (if i = 0 then 64 else if i = L then k - f - (L - 1) * 64 else 64)"
  proof -
    have "sub32 k f = k - f" using f assms(6) by (intro sub32_eq) simp_all
    moreover have "sub32 (k - f) ((L - 1) * 64) = k - f - (L - 1) * 64" using L(1) assms(6) by (intro sub32_eq) simp_all
    ultimately have "sub32 (sub32 k f) ((L - 1) * 64) = k - f - (L - 1) * 64" by (simp only:)
    then show ?thesis using lower0 by (simp add: beat_upper_byte_def assms(1,2) size lower f_def flip: L_def q_def)
  qed
  show "beat_addr aw i div 64 * 64 = s div 64 * 64 + i * 64" using s by (simp add: addr)
  show "beat_lower_byte aw i < 64" using s(2) by (simp add: lower)
  show "beat_lower_byte aw i = s + beat_start s i - (s div 64 * 64 + i * 64)"
    "s div 64 * 64 + i * 64 + beat_lower_byte aw i = s + beat_start s i"
    using s(2) by (simp_all add: lower beat_start_def s(1) diff_mult_distrib)
  show "beat_start s i < k" by (rule start)
  have "64 * L = 64 * (L - 1) + 64" using L(3) by (cases L) simp_all
  then have last: "k - f - (L - 1) * 64 \<le> 64" using L(2) by linarith
  then show "beat_upper_byte aw i k \<le> 64" unfolding upper by simp
  show "beat_upper_byte aw i k = beat_lower_byte aw i + (min (beat_start s (i + 1)) k - beat_start s i)"
    using i L f s(2) by (auto simp: upper lower beat_start_def f(3) f_def min_def)
qed

lemma wide_step:
  assumes "ax_addr aw = s" "ax_size aw = 6" "ax_len aw = (k - (64 - s mod 64) + 63) div 64" "64 - s mod 64 < k" "s + k \<le> 2 ^ 32"
    "k < 2 ^ 32" "k \<le> length data" "i \<le> ax_len aw"
  defines "e \<equiv> min (beat_start s (i + 1)) k"
  shows "w_apply (beat_addr aw i div 64 * 64) (fst (make_w_beat aw k data i (beat_start s i))) m
      = overlay m (s + beat_start s i) (take (e - beat_start s i) (drop (beat_start s i) data))"
    "snd (make_w_beat aw k data i (beat_start s i)) = e"
    "w_last (fst (make_w_beat aw k data i (beat_start s i))) = (if i = ax_len aw then 1 else 0)"
    "beat_start s i < e" "i = ax_len aw \<Longrightarrow> e = k" "i < ax_len aw \<Longrightarrow> e = beat_start s (i + 1)"
proof -
  note w = wide_beats [OF assms(1-6) assms(8)]
  have "64 - s mod 64 > 0" by simp
  then have "beat_start s i < beat_start s (i + 1)" by (cases i) (simp_all add: beat_start_def)
  then show e: "beat_start s i < e" using w(6) by (simp add: e_def)
  have k: "e - beat_start s i \<le> k" "beat_start s i + (e - beat_start s i) \<le> length data"
    using e assms(7) by (simp_all add: e_def)
  then have m: "min (e - beat_start s i) k = e - beat_start s i" by simp
  have up: "beat_upper_byte aw i k = beat_lower_byte aw i + (e - beat_start s i)" using w(5) by (simp add: e_def)
  note st = beat_stores [OF refl up _ w(7) [unfolded up] w(6), of data]
  show "w_apply (beat_addr aw i div 64 * 64) (fst (make_w_beat aw k data i (beat_start s i))) m
      = overlay m (s + beat_start s i) (take (e - beat_start s i) (drop (beat_start s i) data))"
    using st(1) [of "beat_addr aw i div 64 * 64" m] w(4) k m by (simp add: w(1))
  show "snd (make_w_beat aw k data i (beat_start s i)) = e" using st(2) k m e by simp
  show "w_last (fst (make_w_beat aw k data i (beat_start s i))) = (if i = ax_len aw then 1 else 0)" using st(3) k m by simp
  show "e = k" if "i = ax_len aw"
  proof -
    have "k \<le> beat_start s (i + 1)" unfolding that assms(3) beat_start_def using assms(4) by simp
    then show ?thesis by (simp add: e_def)
  qed
  show "e = beat_start s (i + 1)" if "i < ax_len aw"
    using wide_beats(6) [OF assms(1-6), of "i + 1"] that by (simp add: e_def)
qed

lemma wide_burst:
  assumes "ax_addr aw = s" "ax_size aw = 6" "ax_len aw = (k - (64 - s mod 64) + 63) div 64" "64 - s mod 64 < k" "s + k \<le> 2 ^ 32"
    "k < 2 ^ 32" "k \<le> length data" "i \<le> ax_len aw"
  shows "axi_target (aw # aws) i (fst (burst_w_beats aw k data [i ..< ax_len aw + 1] (beat_start s i)) @ ws) m
      = axi_target aws 0 ws (overlay m (s + beat_start s i) (take (k - beat_start s i) (drop (beat_start s i) data)))
    \<and> snd (burst_w_beats aw k data [i ..< ax_len aw + 1] (beat_start s i)) = k"
  using assms(8)
proof (induction "ax_len aw - i" arbitrary: i m)
  case (0 i)
  then have i: "i = ax_len aw" by simp
  note st = wide_step [OF assms(1-7), of "ax_len aw"]
  show ?case using st(1) [of m] st(2,3,5) by (simp add: i split_def)
next
  case (Suc d i)
  then have i: "i < ax_len aw" by simp
  note st = wide_step [OF assms(1-7) Suc.prems]
  have "[i ..< ax_len aw + 1] = i # [i + 1 ..< ax_len aw + 1]" using i by (simp add: upt_conv_Cons)
  moreover have ih: "axi_target (aw # aws) (i + 1)
        (fst (burst_w_beats aw k data [i + 1 ..< ax_len aw + 1] (beat_start s (i + 1))) @ ws) m'
      = axi_target aws 0 ws (overlay m' (s + beat_start s (i + 1)) (take (k - beat_start s (i + 1)) (drop (beat_start s (i + 1)) data)))
    \<and> snd (burst_w_beats aw k data [i + 1 ..< ax_len aw + 1] (beat_start s (i + 1))) = k" for m'
    using Suc.hyps(1) [of "i + 1" m'] Suc.hyps(2) i by simp
  ultimately show ?case
    using st(1) [of m] st(2,3,4) st(6) [OF i] i assms(7) wide_beats(6) [OF assms(1-6), of "i + 1"]
      overlay_take [of "beat_start s i" "beat_start s (i + 1)" k data m s]
    by (simp add: split_def del: upt_Suc)
qed

section \<open>A burst of one beat\<close>

lemma aligned_bounds:
  assumes "z \<le> 6"
  shows "axi_aligned_address s z \<le> s" "s < axi_aligned_address s z + 2 ^ z" "axi_aligned_address s z + 2 ^ z \<le> s div 64 * 64 + 64"
proof -
  define d :: nat where "d = 2 ^ z"
  have d: "0 < d" by (simp add: d_def)
  have a: "axi_aligned_address s z = s div d * d" by (simp add: axi_aligned_address_def axi_num_bytes_def push_bit_eq_mult d_def)
  have c: "64 = d * 2 ^ (6 - z)" using assms unfolding d_def power_add [symmetric] by simp
  show "axi_aligned_address s z \<le> s" "s < axi_aligned_address s z + 2 ^ z"
    using d div_mult_mod_eq [of s d] mod_less_divisor [OF d, of s] unfolding a d_def [symmetric] by linarith+
  have "s div 64 * 64 + s mod 64 = s" "s mod 64 < 64" by simp_all
  then have "s < s div 64 * 64 + 64" by linarith
  then have "s < 64 * (s div 64 + 1)" by simp
  then have "s < d * (2 ^ (6 - z) * (s div 64 + 1))" unfolding c by (simp only: mult.assoc)
  then have "s div d < 2 ^ (6 - z) * (s div 64 + 1)" by (metis mult.commute less_mult_imp_div_less)
  then have "d * (s div d + 1) \<le> d * (2 ^ (6 - z) * (s div 64 + 1))" by (intro mult_le_mono2) simp
  also have "\<dots> = 64 * (s div 64 + 1)" using c by (simp only: mult.assoc)
  finally show "axi_aligned_address s z + 2 ^ z \<le> s div 64 * 64 + 64" unfolding a d_def [symmetric] by (simp add: mult.commute)
qed

lemma aligned_64: "axi_aligned_address s 6 = s div 64 * 64"
  by (simp add: axi_aligned_address_def axi_num_bytes_def push_bit_eq_mult)

text \<open>The loop ends with a size that holds all bytes, which is what its assertion asks for.\<close>

lemma grow_size_fits:
  "sz \<le> 6 \<Longrightarrow> k \<le> 64 - s mod 64 \<Longrightarrow> grow_size s k sz \<le> 6 \<and> s + k \<le> axi_aligned_address s (grow_size s k sz) + 2 ^ grow_size s k sz"
proof (induction s k sz rule: grow_size.induct)
  case (1 s k sz)
  let ?b = "blank_ax\<lparr>ax_addr := s, ax_burst := AXI_BURST_INCR, ax_size := sz\<rparr>"
  have d: "beat_upper_byte ?b 0 k - beat_lower_byte ?b 0 = axi_aligned_address s sz + 2 ^ sz - s"
    using aligned_bounds [OF 1(2), of s] minus_mod_eq_div_mult [of s 64]
    by (simp add: beat_upper_byte_def beat_lower_byte_def beat_addr_def Let_def push_bit_eq_mult)
  show ?case
  proof (cases "beat_upper_byte ?b 0 k - beat_lower_byte ?b 0 < k \<and> sz < 6")
    case True
    then have "grow_size s k sz = grow_size s k (sz + 1)" by (subst grow_size.simps) (simp add: Let_def)
    then show ?thesis using 1(1) [OF refl] True 1(2,3) by simp
  next
    case False
    then have g: "grow_size s k sz = sz" by (subst grow_size.simps) (simp only: Let_def AXI_SW log2_64 if_False)
    have "s + k \<le> axi_aligned_address s sz + 2 ^ sz"
    proof (cases "sz = 6")
      case True
      have "s div 64 * 64 + s mod 64 = s" "s mod 64 < 64" by simp_all
      then have "s + k \<le> s div 64 * 64 + 64" using 1(3) by linarith
      then show ?thesis unfolding True aligned_64 by simp
    next
      case nof: False
      then show ?thesis using False 1(2) aligned_bounds(2) [OF 1(2), of s] unfolding d by linarith
    qed
    then show ?thesis using g 1(2) by simp
  qed
qed

text \<open>Bytes behind the last one that a single beat covers too: up to the end of the block of its size.\<close>

definition beat_pad :: "nat \<Rightarrow> nat \<Rightarrow> nat" where
  "beat_pad s k = (if k \<le> 64 - s mod 64 then axi_aligned_address s (grow_size s k (log2 k)) + 2 ^ grow_size s k (log2 k) - (s + k) else 0)"

lemma narrow_burst:
  assumes "0 < k" "k \<le> 64 - s mod 64" "k \<le> length data"
    "aw = blank_ax\<lparr>ax_addr := s, ax_burst := AXI_BURST_INCR, ax_size := grow_size s k (log2 k), ax_len := 0\<rparr>" "log2 k \<le> 6"
  shows "axi_target (aw # aws) 0 (fst (burst_w_beats aw k data [0 ..< ax_len aw + 1] 0) @ ws) m
      = axi_target aws 0 ws (overlay m s (take k data @ replicate (beat_pad s k) 0))
    \<and> snd (burst_w_beats aw k data [0 ..< ax_len aw + 1] 0) = k"
proof -
  define z where "z = grow_size s k (log2 k)"
  define e where "e = axi_aligned_address s z + 2 ^ z"
  have z: "z \<le> 6" "s + k \<le> e" using grow_size_fits [OF assms(5,2)] by (simp_all add: z_def e_def)
  have e: "s < e" "e \<le> s div 64 * 64 + 64" using aligned_bounds [OF z(1), of s] by (simp_all add: e_def)
  have s: "s div 64 * 64 + s mod 64 = s" by simp
  have lo: "beat_lower_byte aw 0 = s mod 64"
    using minus_mod_eq_div_mult [of s 64] by (simp add: assms(4) beat_lower_byte_def beat_addr_def Let_def minus_div_mult_eq_mod)
  have hi: "beat_upper_byte aw 0 k = e - s div 64 * 64"
    by (simp add: assms(4) beat_upper_byte_def push_bit_eq_mult e_def z_def)
  have b: "s mod 64 \<le> e - s div 64 * 64" "e - s div 64 * 64 \<le> 64" using e s by linarith+
  have diff: "e - s div 64 * 64 - s mod 64 = e - s" using s by linarith
  have m: "min (e - s) k = k" using z(2) by simp
  have pad: "beat_pad s k = e - s - k" using assms(2) by (simp add: beat_pad_def e_def z_def)
  note st = beat_stores [OF lo hi b assms(1), of data, unfolded diff m, simplified, OF assms(3)]
  have "beat_addr aw 0 div 64 * 64 = s div 64 * 64" by (simp add: assms(4) beat_addr_def)
  moreover have "ax_len aw = 0" by (simp add: assms(4))
  ultimately show ?thesis using st s by (simp add: split_def pad)
qed

section \<open>Whole transfers\<close>

lemma log2_le: "n \<le> 64 \<Longrightarrow> log2 n \<le> 6"
proof -
  have "n < 2 ^ Suc b \<Longrightarrow> log2 n \<le> b" for b
  proof (induction b arbitrary: n)
    case 0
    then show ?case by (subst log2.simps) simp
  next
    case (Suc b)
    then have "log2 (n div 2) \<le> b" by (intro Suc.IH) (simp add: less_mult_imp_div_less)
    then show ?case by (subst log2.simps) simp
  qed
  from this [of 6] show "n \<le> 64 \<Longrightarrow> log2 n \<le> 6" by simp
qed

lemma one_page:
  assumes "0 < k" "s + k \<le> 2 ^ 32" "k < 2 ^ 32" "s div 4096 = (s + k - 1) div 4096" "k \<le> length data"
  obtains aw where "create_ax_beats s k = [(aw, k)]"
    "\<And>aws ws m. axi_target (aw # aws) 0 (fst (burst_w_beats aw k data [0 ..< ax_len aw + 1] 0) @ ws) m
      = axi_target aws 0 ws (overlay m s (take k data @ replicate (beat_pad s k) 0))"
    "snd (burst_w_beats aw k data [0 ..< ax_len aw + 1] 0) = k"
    "ax_len aw < 64" "ax_addr aw = s" "ax_burst aw = AXI_BURST_INCR" "ax_size aw \<le> 6"
    "ax_len aw = (if k \<le> 64 - s mod 64 then 0 else (k - (64 - s mod 64) + 63) div 64)" "k \<le> 64 - s mod 64 \<or> ax_size aw = 6"
proof -
  define f where "f = 64 - s mod 64"
  have f: "0 < f" by (simp add: f_def)
  have "s + k \<le> s div 4096 * 4096 + 4096"
  proof -
    have "(s + k - 1) div 4096 * 4096 + (s + k - 1) mod 4096 = s + k - 1" "(s + k - 1) mod 4096 < 4096" by simp_all
    then show ?thesis unfolding assms(4) [symmetric] using assms(1) by linarith
  qed
  then have off: "s mod 4096 + k \<le> 4096" using div_mult_mod_eq [of s 4096] by linarith
  have wrap: "add32 s (k - Suc 0) = s + k - Suc 0" using assms(1,2) by (simp add: add32_def)
  have "page_num (s mod 2 ^ 32) = page_num (add32 s (k - 1))"
    using assms(1,2,4) by (simp add: wrap page_num_def drop_bit_nat_def)
  then have c: "create_ax_beats s k = one_burst s k # create_ax_beats (add32 s (snd (one_burst s k))) (sub32 k (snd (one_burst s k)))"
    using assms(1) by (subst create_ax_beats.simps) (simp add: Let_def)
  have nil: "create_ax_beats a 0 = []" for a by (subst create_ax_beats.simps) simp
  show thesis
  proof (cases "k \<le> f")
    case True
    let ?aw = "blank_ax\<lparr>ax_addr := s, ax_burst := AXI_BURST_INCR, ax_size := grow_size s k (log2 k), ax_len := 0\<rparr>"
    have "s mod 64 + k \<le> 64" using True by (simp add: f_def)
    then have "drop_bit 6 s = drop_bit 6 (s + k - Suc 0)" "k \<le> 64"
      using same_block [of s 64 k] assms(1) by (simp_all add: drop_bit_nat_def)
    then have one: "one_burst s k = (?aw, k)" using True
      by (simp add: one_burst_def beat_counts_def Let_def first_size_def wrap flip: f_def)
    have l: "log2 k \<le> 6" using True by (intro log2_le) (simp add: f_def)
    note nb = narrow_burst [OF assms(1) True [unfolded f_def] assms(5) refl l]
    show thesis
    proof (rule that)
      show "create_ax_beats s k = [(?aw, k)]" using one c nil assms(1,3) by (simp add: sub32_eq)
      show "ax_size ?aw \<le> 6" using True l grow_size_fits [of "log2 k" k s] by (simp add: f_def)
      show "k \<le> 64 - s mod 64 \<or> ax_size ?aw = 6" using True by (simp add: f_def)
      show "ax_len ?aw = (if k \<le> 64 - s mod 64 then 0 else (k - (64 - s mod 64) + 63) div 64)" using True by (simp add: f_def)
    qed (rule nb [THEN conjunct1] nb [THEN conjunct2] | simp)+
  next
    case False
    define L where "L = (k - f + 63) div 64"
    have "s mod 64 \<le> s mod 4096" using mod_mod_cancel [of 64 4096 s] mod_less_eq_dividend [of "s mod 4096" 64] by simp
    then have "k - f + 63 < 64 * 64" "64 \<le> k - f + 63" using False off by (simp_all add: f_def)
    then have L: "0 < L" "L < 64" "64 * (L - 1) \<le> k - f" unfolding L_def by linarith+
    let ?aw = "blank_ax\<lparr>ax_addr := s, ax_burst := AXI_BURST_INCR, ax_size := 6, ax_len := L\<rparr>"
    have "s div 64 * 64 + s mod 64 = s" "s mod 64 < 64" by simp_all
    then have "s div 64 * 64 + 64 \<le> s + k - Suc 0" using False unfolding f_def by linarith
    then have "(s div 64 + 1) * 64 \<le> s + k - Suc 0" by simp
    then have "s div 64 + 1 \<le> (s + k - Suc 0) div 64" by (simp only: less_eq_div_iff_mult_less_eq zero_less_numeral)
    then have size: "first_size s k = 6" by (simp add: first_size_def wrap drop_bit_nat_def)
    have counts: "beat_counts s k = (1 + L, f, k - f - 64 * (1 + L - 2))"
      using False unfolding beat_counts_def Let_def AXI_SW f_def [symmetric] L_def by (simp add: add.commute)
    obtain l where l: "L = Suc l" using L(1) by (cases L) auto
    have one: "one_burst s k = (?aw, k)"
      using False L(2,3) by (simp add: one_burst_def Let_def size counts l)
    have pad: "beat_pad s k = 0" using False by (simp add: beat_pad_def f_def)
    have len: "ax_len ?aw = (k - (64 - s mod 64) + 63) div 64" by (simp add: L_def f_def)
    have "64 - s mod 64 < k" using False by (simp add: f_def)
    note wb = wide_burst [of ?aw s k data 0, OF _ _ len this assms(2,3,5) le0, unfolded beat_start_def, simplified]
    show thesis
    proof (rule that)
      show "create_ax_beats s k = [(?aw, k)]" using one c nil assms(1,3) by (simp add: sub32_eq)
      show "ax_len ?aw < 64" using L(2) by simp
      show "ax_len ?aw = (if k \<le> 64 - s mod 64 then 0 else (k - (64 - s mod 64) + 63) div 64)" using False by (simp add: L_def f_def)
    qed (use wb pad in simp_all)
  qed
qed

text \<open>The bytes covered behind the end of a transfer: those of its last burst, which starts with the last page.\<close>

definition write_pad :: "nat \<Rightarrow> nat \<Rightarrow> nat" where
  "write_pad addr n = (let p = (addr + n - 1) div 4096 * 4096 in if p \<le> addr then beat_pad addr n else beat_pad p (addr + n - p))"

lemma beat_pad_page:
  assumes "0 < k" "(s + k) mod 64 = 0"
  shows "beat_pad s k = 0"
proof (cases "k \<le> 64 - s mod 64")
  case True
  then have "s mod 64 + k \<le> 64" by simp
  moreover have "(s mod 64 + k) mod 64 = 0" using assms(2) by (simp add: mod_add_left_eq)
  ultimately have "s mod 64 + k = 64" using assms(1) by (cases "s mod 64 + k = 64") auto
  moreover have "s div 64 * 64 + s mod 64 = s" by simp
  ultimately have e: "s div 64 * 64 + 64 = s + k" by linarith
  have "k \<le> 64" using True by simp
  then have "grow_size s k (log2 k) \<le> 6" using grow_size_fits [OF log2_le True] by simp
  from aligned_bounds(3) [OF this, of s] True show ?thesis by (simp add: beat_pad_def e)
qed (simp add: beat_pad_def)

lemma transfer_w_beats_append:
  "transfer_w_beats (bs @ cs) data w = (let (ws, n) = transfer_w_beats bs data w; (vs, n') = transfer_w_beats cs data n in (ws @ vs, n'))"
  by (induction bs arbitrary: w) (auto simp: split_def Let_def)

lemma two_pages:
  assumes "0 < n" "addr + n \<le> 2 ^ 32" "n < 2 ^ 32" "addr div 4096 \<noteq> (addr + n - 1) div 4096"
  defines "b \<equiv> 4096 - addr mod 4096"
  shows "create_ax_beats addr n = create_ax_beats addr b @ create_ax_beats (addr + b) (n - b)"
    "0 < b" "b < n" "(addr + b) mod 4096 = 0" "addr div 4096 = (addr + b - 1) div 4096"
proof -
  have d: "addr div 4096 * 4096 + addr mod 4096 = addr" "addr mod 4096 < 4096" by simp_all
  show b0: "0 < b" using d(2) by (simp add: b_def)
  have "addr + b = addr div 4096 * 4096 + 4096" using d unfolding b_def by linarith
  then show "(addr + b) mod 4096 = 0" by simp
  have "addr mod 4096 + b \<le> 4096" using d(2) by (simp add: b_def)
  from same_block [OF this b0] show "addr div 4096 = (addr + b - 1) div 4096" using b0 by simp
  show bn: "b < n"
  proof (rule ccontr)
    assume "\<not> b < n"
    then have "addr mod 4096 + n \<le> 4096" using d(2) by (simp add: b_def)
    from same_block [OF this assms(1)] assms(1,4) show False by simp
  qed
  have "add32 addr (n - Suc 0) = addr + n - Suc 0" using assms(1,2) by (simp add: add32_def)
  then have "page_num (addr mod 2 ^ 32) \<noteq> page_num (add32 addr (n - 1))"
    using assms(1,2,4) by (simp add: page_num_def drop_bit_nat_def)
  moreover have "add32 addr b = addr + b" using bn assms(2) by (simp add: add32_def)
  moreover have "sub32 n b = n - b" using bn assms(3) by (intro sub32_eq) simp_all
  ultimately show "create_ax_beats addr n = create_ax_beats addr b @ create_ax_beats (addr + b) (n - b)"
    using assms(1) by (subst create_ax_beats.simps) (simp add: Let_def and_0xFFF b_def)
qed

lemma write_pad_later:
  assumes "0 < b" "b < n" "(addr + b) mod 4096 = 0"
  shows "write_pad (addr + b) (n - b) = write_pad addr n"
proof -
  define p where "p = (addr + n - 1) div 4096 * 4096"
  have "(addr + b) div 4096 * 4096 = addr + b" using assms(3) div_mult_mod_eq [of "addr + b" 4096] by simp
  moreover have "(addr + b) div 4096 \<le> (addr + n - 1) div 4096" using assms(2) by (intro div_le_mono) simp
  ultimately have p: "addr + b \<le> p" unfolding p_def by (metis mult_le_mono1)
  have e: "addr + b + (n - b) = addr + n" using assms(2) by simp
  have "p \<le> addr + b \<Longrightarrow> p = addr + b" "addr + n - (addr + b) = n - b" "\<not> p \<le> addr" using p assms(1) by simp_all
  then show ?thesis unfolding write_pad_def Let_def e p_def [symmetric] by auto
qed

lemma write_bursts_store:
  assumes "0 < n" "addr + n \<le> 2 ^ 32" "n < 2 ^ 32" "w + n \<le> length data"
  shows "snd (transfer_w_beats (create_ax_beats addr n) data w) = w + n
    \<and> axi_target (map fst (create_ax_beats addr n)) 0 (fst (transfer_w_beats (create_ax_beats addr n) data w)) m
      = Some (overlay m addr (take n (drop w data) @ replicate (write_pad addr n) 0))"
  using assms
proof (induction n arbitrary: addr w m rule: less_induct)
  case (less n)
  have len: "n \<le> length (drop w data)" using less.prems by simp
  show ?case
  proof (cases "addr div 4096 = (addr + n - 1) div 4096")
    case True
    obtain aw where aw: "create_ax_beats addr n = [(aw, n)]"
      "\<And>aws ws m. axi_target (aw # aws) 0 (fst (burst_w_beats aw n (drop w data) [0 ..< ax_len aw + 1] 0) @ ws) m
        = axi_target aws 0 ws (overlay m addr (take n (drop w data) @ replicate (beat_pad addr n) 0))"
      "snd (burst_w_beats aw n (drop w data) [0 ..< ax_len aw + 1] 0) = n"
      by (rule one_page [OF less.prems(1,2,3) True len]) (rule that, assumption+)
    have "(addr + n - 1) div 4096 * 4096 \<le> addr" unfolding True [symmetric] by simp
    then have "write_pad addr n = beat_pad addr n" by (simp add: write_pad_def Let_def)
    then show ?thesis using aw(2) [of "[]" "[]" m] aw(3) by (simp add: aw(1) split_def)
  next
    case False
    define b where "b = 4096 - addr mod 4096"
    note two = two_pages [OF less.prems(1,2,3) False, folded b_def]
    have bb: "addr + b \<le> 2 ^ 32" "b < 2 ^ 32" and bl: "b \<le> length (drop w data)" using two(3) less.prems len by simp_all
    obtain aw where aw: "create_ax_beats addr b = [(aw, b)]"
      "\<And>aws ws m. axi_target (aw # aws) 0 (fst (burst_w_beats aw b (drop w data) [0 ..< ax_len aw + 1] 0) @ ws) m
        = axi_target aws 0 ws (overlay m addr (take b (drop w data) @ replicate (beat_pad addr b) 0))"
      "snd (burst_w_beats aw b (drop w data) [0 ..< ax_len aw + 1] 0) = b"
      by (rule one_page [OF two(2) bb two(5) bl]) (rule that, assumption+)
    have "(addr + b) mod 64 = 0" using mod_mod_cancel [of 64 4096 "addr + b"] two(4) by simp
    then have pad: "beat_pad addr b = 0" using two(2) by (rule_tac beat_pad_page)
    have ih: "snd (transfer_w_beats (create_ax_beats (addr + b) (n - b)) data (w + b)) = w + b + (n - b)
      \<and> axi_target (map fst (create_ax_beats (addr + b) (n - b))) 0
          (fst (transfer_w_beats (create_ax_beats (addr + b) (n - b)) data (w + b))) m'
        = Some (overlay m' (addr + b) (take (n - b) (drop (w + b) data) @ replicate (write_pad (addr + b) (n - b)) 0))" for m'
      using two(2,3) less.prems by (intro less.IH) simp_all
    have "write_pad (addr + b) (n - b) = write_pad addr n"
      using write_pad_later [OF two(2,3,4)] .
    moreover have "overlay (overlay m addr (take b (drop w data))) (addr + b) (take (n - b) (drop (w + b) data) @ replicate p 0)
        = overlay m addr (take n (drop w data) @ replicate p 0)" for p
      using overlay_append [of m addr "take b (drop w data)" "take (n - b) (drop (w + b) data) @ replicate p 0"]
        take_add [of b "n - b" "drop w data"] two(3) len by (simp add: add.commute)
    ultimately show ?thesis
      using aw(2) [of "map fst (create_ax_beats (addr + b) (n - b))"] aw(3) ih two(3)
      by (simp add: two(1) aw(1) split_def Let_def pad del: upt_Suc)
  qed
qed

text \<open>
  C11: The beats of a write of n bytes, at least one and fewer than \<open>2 ^ 32\<close>, that ends within the 32-bit address space and has as
  many bytes of data, obey the protocol of the bus (every beat belongs to a burst, whose last beat alone is
  marked), and store exactly the n bytes at their addresses, and zeros behind the last one up to the end of the block of
  the size of the last burst; every other byte of the memory keeps its value.
\<close>

theorem write_stores:
  assumes "0 < n" "addr + n \<le> 2 ^ 32" "n < 2 ^ 32" "n \<le> length data"
  shows "snd (transfer_w_beats (create_ax_beats addr n) data 0) = n
    \<and> axi_target (map fst (create_ax_beats addr n)) 0 (fst (transfer_w_beats (create_ax_beats addr n) data 0)) m
      = Some (overlay m addr (take n data @ replicate (write_pad addr n) 0))"
  using write_bursts_store [of n addr 0 data m] assms by simp

text \<open>Three bytes written to an empty memory of ones: the fourth byte is overwritten with zero.\<close>

theorem write_stores_witness:
  "axi_target (map fst (create_ax_beats 0x100 3)) 0 (fst (transfer_w_beats (create_ax_beats 0x100 3) [1, 2, 3] 0)) (\<lambda>_. 0xFF)
    = Some (overlay (\<lambda>_. 0xFF) 0x100 [1, 2, 3, 0])"
proof -
  have "write_pad 0x100 3 = 1"
    by (simp add: write_pad_def Let_def beat_pad_def log2.simps grow_size.simps beat_upper_byte_def beat_lower_byte_def beat_addr_def
        axi_aligned_address_def axi_num_bytes_def push_bit_eq_mult blank_ax_def)
  with write_stores [of 3 "0x100" "[1, 2, 3]" "\<lambda>_. 0xFF"] show ?thesis by simp
qed

text \<open>Every burst is at least one byte long, has at most 64 of the 256 beats the bus allows, and stays in its page.\<close>

definition burst_ok :: "ax_beat \<times> nat \<Rightarrow> bool" where
  "burst_ok b = (case b of (aw, k) \<Rightarrow> 0 < k \<and> ax_len aw < 64 \<and> ax_addr aw div 4096 = (ax_addr aw + k - 1) div 4096
     \<and> ax_burst aw = AXI_BURST_INCR \<and> ax_size aw \<le> 6)"

lemma bursts_legal:
  assumes "addr + n \<le> 2 ^ 32" "n < 2 ^ 32"
  shows "\<forall>b \<in> set (create_ax_beats addr n). burst_ok b"
  using assms
proof (induction n arbitrary: addr rule: less_induct)
  case (less n)
  show ?case
  proof (cases "n = 0")
    case True
    then show ?thesis by (simp add: create_ax_beats.simps [of addr 0])
  next
    case False
    then have n: "0 < n" by simp
    show ?thesis
    proof (cases "addr div 4096 = (addr + n - 1) div 4096")
      case True
      have "n \<le> length (replicate n (0 :: u8))" by simp
      obtain aw where
        "create_ax_beats addr n = [(aw, n)]" "ax_len aw < 64" "ax_addr aw = addr" "ax_burst aw = AXI_BURST_INCR" "ax_size aw \<le> 6"
        by (rule one_page [OF n less.prems True \<open>n \<le> length (replicate n (0 :: u8))\<close>]) (rule that, assumption+)
      then show ?thesis using n True by (simp add: burst_ok_def)
    next
      case False
      define b where "b = 4096 - addr mod 4096"
      note two = two_pages [OF n less.prems False, folded b_def]
      have "\<forall>b \<in> set (create_ax_beats addr b). burst_ok b" using two(3) less.prems by (intro less.IH) simp_all
      moreover have "\<forall>b \<in> set (create_ax_beats (addr + b) (n - b)). burst_ok b" using two(2,3) less.prems by (intro less.IH) simp_all
      ultimately show ?thesis by (simp only: two(1) set_append ball_Un)
    qed
  qed
qed

text \<open>The lines that the beats of a burst fall in, one after the other.\<close>

lemma page_lines:
  assumes "0 < k" "s + k \<le> 2 ^ 32" "k < 2 ^ 32" "s div 4096 = (s + k - 1) div 4096"
  obtains aw where "create_ax_beats s k = [(aw, k)]" "ax_len aw = (s mod 64 + k - 1) div 64"
    "\<And>i. i \<le> ax_len aw \<Longrightarrow> beat_addr aw i div 64 * 64 = s div 64 * 64 + 64 * i"
proof -
  have "k \<le> length (replicate k (0 :: u8))" by simp
  then obtain aw where aw: "create_ax_beats s k = [(aw, k)]" "ax_addr aw = s"
    "ax_len aw = (if k \<le> 64 - s mod 64 then 0 else (k - (64 - s mod 64) + 63) div 64)" "k \<le> 64 - s mod 64 \<or> ax_size aw = 6"
    by (rule one_page [OF assms]) (rule that, assumption+)
  show thesis
  proof (rule that [OF aw(1)])
    have r: "s mod 64 < 64" by simp
    show "ax_len aw = (s mod 64 + k - 1) div 64"
    proof (cases "k \<le> 64 - s mod 64")
      case True
      then have "s mod 64 + k - 1 < 64" using r by linarith
      then show ?thesis using True aw(3) by simp
    next
      case False
      then have "k - (64 - s mod 64) + 63 = s mod 64 + k - 1" using r by linarith
      then show ?thesis using False aw(3) by simp
    qed
    show "beat_addr aw i div 64 * 64 = s div 64 * 64 + 64 * i" if "i \<le> ax_len aw" for i
    proof (cases "k \<le> 64 - s mod 64")
      case True
      then show ?thesis using that aw(2,3) by (simp add: beat_addr_def)
    next
      case False
      then show ?thesis using wide_beats(1) [OF aw(2) _ _ _ assms(2,3) that] aw(3,4) by (simp add: mult.commute)
    qed
  qed
qed

end
