(* ===== verification/Axi_Master.thy ===== *)
theory Axi_Master
  imports Axi_Beats
begin

text \<open>
  The master side of the bus: \<^verbatim>\<open>AXIMaster.hpp\<close>. A channel on which the master sends has a queue, the signals of the port and
  a flag that the hardware has not taken the signals yet. \<open>posedge\<close> and \<open>negedge\<close> are the two halves of a clock cycle; what
  the hardware drives is an argument. An assertion that fails is \<open>None\<close>.
\<close>

section \<open>Sending channels\<close>

record 'b sender =
  s_queue :: "'b list"
  s_wait :: bool
  s_valid :: bool
  s_ready :: bool
  s_signal :: 'b

text \<open>\<open>idle\<close> is what happens to the signals when there is nothing to send.\<close>

definition sender_posedge :: "('b \<Rightarrow> 'b) \<Rightarrow> 'b sender \<Rightarrow> 'b sender" where
  "sender_posedge idle c =
     (if s_wait c then c
      else let c = c\<lparr>s_valid := False, s_signal := idle (s_signal c)\<rparr>
           in case s_queue c of [] \<Rightarrow> c | b # bs \<Rightarrow> c\<lparr>s_signal := b, s_valid := True, s_queue := bs\<rparr>)"

definition sender_negedge :: "'b sender \<Rightarrow> 'b sender" where
  "sender_negedge c = c\<lparr>s_wait := s_valid c \<and> \<not> s_ready c\<rparr>"

section \<open>The master\<close>

record r_buffered =
  data_length :: nat
  r_bytes :: "u8 list"
  is_last :: bool

record axi_master =
  aw_chan :: "ax_beat sender"
  ar_chan :: "ax_beat sender"
  w_chan :: "w_beat sender"
  r_queue :: "r_buffered list"
  write_queue :: "nat list"
  read_queue :: "(nat \<times> nat) list"
  b_queue :: "bool list"
  aw_pending_queue :: "ax_beat list"
  ar_pending_queue :: "ax_beat list"
  w_pending_queue :: "w_beat list"
  b_ready :: bool
  r_ready :: bool
  aw_beats_buffer_size :: nat
  w_beats_buffer_size :: nat
  b_beats_buffer_size :: nat
  ar_beats_buffer_size :: nat
  r_beats_buffer_size :: nat

text \<open>What the hardware drives on the response channels.\<close>

record bus_in =
  b_valid :: bool
  r_valid :: bool
  r_last :: nat
  r_data :: "u8 list"

definition has_aw_beat :: "axi_master \<Rightarrow> bool" where "has_aw_beat m = (aw_pending_queue m \<noteq> [])"

definition can_send_aw_beat :: "axi_master \<Rightarrow> bool" where
  "can_send_aw_beat m = (aw_beats_buffer_size m = 0 \<or> length (s_queue (aw_chan m)) < aw_beats_buffer_size m)"

definition send_aw_beat :: "axi_master \<Rightarrow> axi_master option" where
  "send_aw_beat m = (case aw_pending_queue m of
     aw # rest \<Rightarrow> if can_send_aw_beat m
       then Some (m\<lparr>aw_chan := (aw_chan m)\<lparr>s_queue := s_queue (aw_chan m) @ [aw]\<rparr>, aw_pending_queue := rest\<rparr>) else None
   | [] \<Rightarrow> None)"

definition has_ar_beat :: "axi_master \<Rightarrow> bool" where "has_ar_beat m = (ar_pending_queue m \<noteq> [])"

definition can_send_ar_beat :: "axi_master \<Rightarrow> bool" where
  "can_send_ar_beat m = (ar_beats_buffer_size m = 0 \<or> length (s_queue (ar_chan m)) < ar_beats_buffer_size m)"

definition send_ar_beat :: "axi_master \<Rightarrow> axi_master option" where
  "send_ar_beat m = (case ar_pending_queue m of
     ar # rest \<Rightarrow> if can_send_ar_beat m
       then Some (m\<lparr>ar_chan := (ar_chan m)\<lparr>s_queue := s_queue (ar_chan m) @ [ar]\<rparr>, ar_pending_queue := rest\<rparr>) else None
   | [] \<Rightarrow> None)"

definition has_w_beat :: "axi_master \<Rightarrow> bool" where "has_w_beat m = (w_pending_queue m \<noteq> [])"

definition can_send_w_beat :: "axi_master \<Rightarrow> bool" where
  "can_send_w_beat m = (w_beats_buffer_size m = 0 \<or> length (s_queue (w_chan m)) < w_beats_buffer_size m)"

definition send_w_beat :: "axi_master \<Rightarrow> axi_master option" where
  "send_w_beat m = (case w_pending_queue m of
     w # rest \<Rightarrow> if can_send_w_beat m
       then Some (m\<lparr>w_chan := (w_chan m)\<lparr>s_queue := s_queue (w_chan m) @ [w]\<rparr>, w_pending_queue := rest\<rparr>) else None
   | [] \<Rightarrow> None)"

definition has_r_beat :: "axi_master \<Rightarrow> bool" where "has_r_beat m = (r_queue m \<noteq> [])"

text \<open>The result: the bytes copied, whether the read is complete, and the new state.\<close>

definition consume_r_beat :: "axi_master \<Rightarrow> nat \<Rightarrow> (u8 list \<times> bool \<times> axi_master) option" where
  "consume_r_beat m n = (case r_queue m of
     r # rest \<Rightarrow> Some (take (min n (data_length r)) (r_bytes r), is_last r, m\<lparr>r_queue := rest\<rparr>)
   | [] \<Rightarrow> None)"

definition has_b_beat :: "axi_master \<Rightarrow> bool" where "has_b_beat m = (b_queue m \<noteq> [])"

definition consume_b_beat :: "axi_master \<Rightarrow> (bool \<times> axi_master) option" where
  "consume_b_beat m = (case b_queue m of res # rest \<Rightarrow> Some (res, m\<lparr>b_queue := rest\<rparr>) | [] \<Rightarrow> None)"

definition set_aw_buffer :: "nat \<Rightarrow> axi_master \<Rightarrow> axi_master" where "set_aw_buffer n m = m\<lparr>aw_beats_buffer_size := n\<rparr>"
definition set_ar_buffer :: "nat \<Rightarrow> axi_master \<Rightarrow> axi_master" where "set_ar_buffer n m = m\<lparr>ar_beats_buffer_size := n\<rparr>"
definition set_w_buffer :: "nat \<Rightarrow> axi_master \<Rightarrow> axi_master" where "set_w_buffer n m = m\<lparr>w_beats_buffer_size := n\<rparr>"
definition set_r_buffer :: "nat \<Rightarrow> axi_master \<Rightarrow> axi_master" where "set_r_buffer n m = m\<lparr>r_beats_buffer_size := n\<rparr>"
definition set_b_buffer :: "nat \<Rightarrow> axi_master \<Rightarrow> axi_master" where "set_b_buffer n m = m\<lparr>b_beats_buffer_size := n\<rparr>"

definition blank_w :: w_beat where "blank_w = \<lparr>w_data = replicate AXI_SW 0, w_strb = 0, w_user = 0, w_last = 0\<rparr>"

definition new_sender :: "'b \<Rightarrow> 'b sender" where
  "new_sender b = \<lparr>s_queue = [], s_wait = False, s_valid = False, s_ready = False, s_signal = b\<rparr>"

definition new_axi_master :: axi_master where
  "new_axi_master = \<lparr>aw_chan = new_sender blank_ax, ar_chan = new_sender blank_ax, w_chan = new_sender blank_w, r_queue = [],
     write_queue = [], read_queue = [], b_queue = [], aw_pending_queue = [], ar_pending_queue = [], w_pending_queue = [],
     b_ready = False, r_ready = False, aw_beats_buffer_size = 0, w_beats_buffer_size = 0, b_beats_buffer_size = 0,
     ar_beats_buffer_size = 0, r_beats_buffer_size = 0\<rparr>"

text \<open>The two requests. A write whose beats do not hold all its bytes fails the assertion at its end.\<close>

definition axi_write :: "nat \<Rightarrow> u8 list \<Rightarrow> nat \<Rightarrow> nat \<Rightarrow> axi_master \<Rightarrow> axi_master option" where
  "axi_write addr data n_bytes off m =
     (let aw_beats = create_ax_beats addr n_bytes;
          (ws, bytes_written) = transfer_w_beats aw_beats (drop off data) 0
      in if bytes_written \<noteq> n_bytes then None
         else Some (m\<lparr>write_queue := write_queue m @ [length aw_beats], aw_pending_queue := aw_pending_queue m @ map fst aw_beats,
                w_pending_queue := w_pending_queue m @ ws\<rparr>))"

definition axi_read :: "nat \<Rightarrow> nat \<Rightarrow> axi_master \<Rightarrow> axi_master" where
  "axi_read addr n_bytes m =
     (let ar_beats = create_ax_beats addr n_bytes
      in m\<lparr>read_queue := read_queue m @ [(length ar_beats, n_bytes)], ar_pending_queue := ar_pending_queue m @ map fst ar_beats\<rparr>)"

section \<open>A clock cycle\<close>

definition aw_posedge :: "axi_master \<Rightarrow> axi_master" where "aw_posedge m = m\<lparr>aw_chan := sender_posedge (\<lambda>b. b) (aw_chan m)\<rparr>"
definition aw_negedge :: "axi_master \<Rightarrow> axi_master" where "aw_negedge m = m\<lparr>aw_chan := sender_negedge (aw_chan m)\<rparr>"
definition ar_posedge :: "axi_master \<Rightarrow> axi_master" where "ar_posedge m = m\<lparr>ar_chan := sender_posedge (\<lambda>b. b) (ar_chan m)\<rparr>"
definition ar_negedge :: "axi_master \<Rightarrow> axi_master" where "ar_negedge m = m\<lparr>ar_chan := sender_negedge (ar_chan m)\<rparr>"

definition w_posedge :: "axi_master \<Rightarrow> axi_master" where
  "w_posedge m = m\<lparr>w_chan := sender_posedge (\<lambda>w. w\<lparr>w_last := 0\<rparr>) (w_chan m)\<rparr>"

definition w_negedge :: "axi_master \<Rightarrow> axi_master" where "w_negedge m = m\<lparr>w_chan := sender_negedge (w_chan m)\<rparr>"

definition b_posedge :: "bus_in \<Rightarrow> axi_master \<Rightarrow> axi_master option" where
  "b_posedge bus m =
     (let can_accept_b = b_beats_buffer_size m = 0 \<or> length (b_queue m) < b_beats_buffer_size m
      in if b_valid bus \<and> can_accept_b then
           (case write_queue m of
              [] \<Rightarrow> None
            | n_bursts # rest \<Rightarrow>
                let n_bursts = sub32 n_bursts 1;
                    is_complete = (n_bursts = 0);
                    m = m\<lparr>b_ready := True\<rparr>;
                    m = (if is_complete then m\<lparr>write_queue := rest\<rparr> else m\<lparr>write_queue := n_bursts # rest\<rparr>)
                in Some (m\<lparr>b_queue := b_queue m @ [is_complete]\<rparr>))
         else Some m)"

definition r_posedge :: "bus_in \<Rightarrow> axi_master \<Rightarrow> axi_master option" where
  "r_posedge bus m =
     (let can_accept_r = r_beats_buffer_size m = 0 \<or> length (r_queue m) < r_beats_buffer_size m
      in if r_valid bus \<and> can_accept_r then
           (case read_queue m of
              [] \<Rightarrow> None
            | (n_bursts, data_left) # rest \<Rightarrow>
                let data_size = min AXI_SW data_left;
                    completed_burst = (if r_last bus = 1 then 1 else 0);
                    m = m\<lparr>r_ready := True\<rparr>;
                    n_bursts = sub32 n_bursts completed_burst;
                    data_left = data_left - data_size;
                    is_complete = (n_bursts = 0);
                    m = (if is_complete then m\<lparr>read_queue := rest\<rparr> else m\<lparr>read_queue := (n_bursts, data_left) # rest\<rparr>)
                in Some (m\<lparr>r_queue := r_queue m @ [\<lparr>data_length = data_size, r_bytes = take data_size (r_data bus), is_last = is_complete\<rparr>]\<rparr>))
         else Some m)"

definition master_posedge :: "bus_in \<Rightarrow> axi_master \<Rightarrow> axi_master option" where
  "master_posedge bus m = Option.bind (b_posedge bus (w_posedge (ar_posedge (aw_posedge m)))) (r_posedge bus)"

definition master_negedge :: "axi_master \<Rightarrow> axi_master" where
  "master_negedge m = w_negedge (ar_negedge (aw_negedge m))"

section \<open>Nothing is lost on a sending channel\<close>

text \<open>
  A channel run over clock cycles: in each one more beats may be queued, and the hardware is ready or not. It takes the
  signals at the end of a cycle in which they are valid and it is ready.
\<close>

definition sender_cycle :: "('b \<Rightarrow> 'b) \<Rightarrow> 'b list \<times> bool \<Rightarrow> 'b sender \<times> 'b list \<Rightarrow> 'b sender \<times> 'b list" where
  "sender_cycle idle e s =
     (case (e, s) of ((new, ready), (c, taken)) \<Rightarrow>
        let c = sender_posedge idle (c\<lparr>s_queue := s_queue c @ new\<rparr>);
            c = sender_negedge (c\<lparr>s_ready := ready\<rparr>)
        in (c, if s_valid c \<and> ready then taken @ [s_signal c] else taken))"

definition sender_run :: "('b \<Rightarrow> 'b) \<Rightarrow> ('b list \<times> bool) list \<Rightarrow> 'b sender \<times> 'b list \<Rightarrow> 'b sender \<times> 'b list" where
  "sender_run idle es s = fold (sender_cycle idle) es s"

text \<open>What is still on the way: the signals not taken yet, and the queue.\<close>

definition on_the_way :: "'b sender \<Rightarrow> 'b list" where
  "on_the_way c = (if s_wait c then [s_signal c] else []) @ s_queue c"

definition sender_inv :: "'b sender \<Rightarrow> bool" where
  "sender_inv c = (s_wait c \<longrightarrow> s_valid c)"

lemma sender_cycle_step:
  assumes "sender_inv c" "sender_cycle idle (new, ready) (c, taken) = (c', taken')"
  shows "sender_inv c'" "taken' @ on_the_way c' = taken @ on_the_way c @ new"
    "s_wait c \<Longrightarrow> s_valid c' \<and> s_signal c' = s_signal c"
    "ready \<Longrightarrow> on_the_way c \<noteq> [] \<Longrightarrow> length taken' = length taken + 1" "ready \<Longrightarrow> \<not> s_wait c'"
  using assms
  by (auto simp: sender_inv_def sender_cycle_def sender_posedge_def sender_negedge_def on_the_way_def Let_def
      split: if_splits list.splits)

lemma sender_cycle_len:
  "sender_cycle idle ([], True) (c, taken) = (d, t) \<Longrightarrow> on_the_way c = [] \<Longrightarrow> on_the_way d = []"
  by (auto simp: sender_cycle_def sender_posedge_def sender_negedge_def on_the_way_def Let_def split: if_splits list.splits)

lemma sender_run_keeps:
  "sender_inv c \<Longrightarrow> sender_run idle es (c, taken) = (c', taken') \<Longrightarrow>
    sender_inv c' \<and> taken' @ on_the_way c' = taken @ on_the_way c @ concat (map fst es)"
proof (induction es arbitrary: c taken)
  case (Cons e es)
  obtain new ready where e: "e = (new, ready)" by fastforce
  obtain d t where d: "sender_cycle idle (new, ready) (c, taken) = (d, t)" by fastforce
  have "sender_run idle es (d, t) = (c', taken')" using Cons.prems(2) by (simp add: sender_run_def e d)
  from Cons.IH [OF sender_cycle_step(1) [OF Cons.prems(1) d] this] sender_cycle_step(2) [OF Cons.prems(1) d]
  show ?case by (simp add: e)
qed (simp add: sender_run_def)

text \<open>With the hardware ready for as many cycles as there are beats on the way, all of them arrive.\<close>

lemma sender_run_drains:
  "sender_inv c \<Longrightarrow> length (on_the_way c) \<le> n \<Longrightarrow> sender_run idle (replicate n ([], True)) (c, taken) = (c', taken') \<Longrightarrow>
    on_the_way c' = [] \<and> taken' = taken @ on_the_way c"
proof (induction n arbitrary: c taken)
  case (Suc n)
  obtain d t where d: "sender_cycle idle ([], True) (c, taken) = (d, t)" by fastforce
  note st = sender_cycle_step [OF Suc.prems(1) d]
  have "length t + length (on_the_way d) = length taken + length (on_the_way c)"
    using arg_cong [OF st(2), of length] by simp
  moreover have "on_the_way c \<noteq> [] \<Longrightarrow> length t = length taken + 1" using st(4) by simp
  ultimately have "length (on_the_way d) \<le> n"
    using Suc.prems(2) sender_cycle_len [OF d] by (cases "on_the_way c = []") auto
  moreover have "sender_run idle (replicate n ([], True)) (d, t) = (c', taken')" using Suc.prems(3) d by (simp add: sender_run_def)
  ultimately have "on_the_way c' = [] \<and> taken' = t @ on_the_way d" using Suc.IH [OF st(1)] by blast
  then show ?case using st(2) by simp
qed (simp add: sender_run_def)

text \<open>
  C13: Whatever is queued on a sending channel reaches the hardware once and in order, however it drives its ready signal: the
  beats it has taken and those still on the way are the beats queued. Signals that were not taken stay as they are.
  When the hardware is ready for as many cycles as beats are on the way, all of them arrive.
\<close>

theorem sender_in_order:
  assumes "sender_run idle es (new_sender b, []) = (c, taken)"
  shows "taken @ on_the_way c = concat (map fst es)
    \<and> (s_wait c \<longrightarrow> s_valid (sender_posedge idle c) \<and> s_signal (sender_posedge idle c) = s_signal c)
    \<and> (\<forall>n c' taken'. length (on_the_way c) \<le> n \<and> sender_run idle (replicate n ([], True)) (c, taken) = (c', taken') \<longrightarrow>
        on_the_way c' = [] \<and> taken' = concat (map fst es))"
proof -
  have "sender_inv (new_sender b)" "on_the_way (new_sender b) = []" by (simp_all add: sender_inv_def new_sender_def on_the_way_def)
  from sender_run_keeps [OF this(1) assms] this(2) have k: "sender_inv c" "taken @ on_the_way c = concat (map fst es)" by simp_all
  then show ?thesis using sender_run_drains [OF k(1)] by (auto simp: sender_inv_def sender_posedge_def)
qed

theorem sender_in_order_witness:
  "fst (sender_run (\<lambda>b. b) [([7 :: nat], False), ([8], False)] (new_sender 0, [])) \<noteq> new_sender 0
    \<and> snd (sender_run (\<lambda>b. b) [([7 :: nat], False), ([8], False)] (new_sender 0, [])) @
      on_the_way (fst (sender_run (\<lambda>b. b) [([7 :: nat], False), ([8], False)] (new_sender 0, []))) = [7, 8]"
proof -
  let ?r = "sender_run (\<lambda>b. b) [([7 :: nat], False), ([8], False)] (new_sender 0, [])"
  have "fst ?r \<noteq> new_sender 0"
    by (simp add: sender_run_def sender_cycle_def sender_posedge_def sender_negedge_def new_sender_def)
  with sender_in_order [of "\<lambda>b. b" "[([7], False), ([8], False)]" 0 "fst ?r" "snd ?r"] show ?thesis by simp
qed

section \<open>Completion of writes\<close>

text \<open>The answers still to come: for each write one per burst, of which the last one completes it.\<close>

definition answers :: "nat list \<Rightarrow> bool list" where
  "answers ns = concat (map (\<lambda>n. replicate (n - 1) False @ [True]) ns)"

lemma b_posedge_answers:
  assumes "\<forall>n \<in> set (write_queue m). 0 < n \<and> n < 2 ^ 32" "b_valid bus" "b_beats_buffer_size m = 0"
  shows "b_posedge bus m = None \<longleftrightarrow> answers (write_queue m) = []"
    "b_posedge bus m = Some m' \<Longrightarrow> \<exists>a as. answers (write_queue m) = a # as \<and> b_queue m' = b_queue m @ [a] \<and> answers (write_queue m') = as
      \<and> (\<forall>n \<in> set (write_queue m'). 0 < n \<and> n < 2 ^ 32)"
proof -
  show "b_posedge bus m = None \<longleftrightarrow> answers (write_queue m) = []"
    using assms by (cases "write_queue m") (simp_all add: b_posedge_def answers_def Let_def)
  assume m': "b_posedge bus m = Some m'"
  then obtain n rest where n: "write_queue m = n # rest" using assms by (cases "write_queue m") (auto simp: b_posedge_def)
  then have s: "sub32 n 1 = n - 1" "0 < n" "n < 2 ^ 32" using assms(1) by (auto intro!: sub32_eq)
  show "\<exists>a as. answers (write_queue m) = a # as \<and> b_queue m' = b_queue m @ [a] \<and> answers (write_queue m') = as
      \<and> (\<forall>n \<in> set (write_queue m'). 0 < n \<and> n < 2 ^ 32)"
  proof (cases "n = 1")
    case True
    then show ?thesis using m' n s assms by (auto simp: b_posedge_def answers_def Let_def)
  next
    case False
    then obtain k where k: "n = Suc (Suc k)" using s(2) by (cases n; cases "n - 1") auto
    then show ?thesis using m' n s assms by (auto simp: b_posedge_def answers_def Let_def)
  qed
qed

text \<open>A write of no bytes has no burst, and its entry waits for \<open>2 ^ 32\<close> answers: those of later writes complete none.\<close>

lemma empty_write_blocks:
  "axi_write addr data 0 off m = Some (m\<lparr>write_queue := write_queue m @ [0]\<rparr>)"
  "write_queue m = 0 # ns \<Longrightarrow> b_valid bus \<Longrightarrow> b_beats_buffer_size m = 0 \<Longrightarrow>
    b_posedge bus m = Some (m\<lparr>b_ready := True, write_queue := (2 ^ 32 - 1) # ns, b_queue := b_queue m @ [False]\<rparr>)"
  by (simp_all add: axi_write_def create_ax_beats.simps [of addr 0] b_posedge_def sub32_def Let_def)

section \<open>The bytes of a read\<close>

text \<open>
  The target of a read, as the bus defines it: for every beat the line its address is in, the last beat of a burst marked.
\<close>

definition line_at :: "bytes \<Rightarrow> nat \<Rightarrow> u8 list" where "line_at mem a = map mem [a ..< a + 64]"

definition burst_answers :: "bytes \<Rightarrow> ax_beat \<Rightarrow> (u8 list \<times> nat) list" where
  "burst_answers mem ar = map (\<lambda>i. (line_at mem (beat_addr ar i div 64 * 64), if i = ax_len ar then 1 else 0)) [0 ..< ax_len ar + 1]"

definition read_answers :: "bytes \<Rightarrow> ax_beat list \<Rightarrow> (u8 list \<times> nat) list" where
  "read_answers mem ars = concat (map (burst_answers mem) ars)"

fun take_answers :: "(u8 list \<times> nat) list \<Rightarrow> axi_master \<Rightarrow> axi_master option" where
  "take_answers [] m = Some m"
| "take_answers ((d, l) # as) m =
     Option.bind (r_posedge \<lparr>b_valid = False, r_valid = True, r_last = l, r_data = d\<rparr> m) (take_answers as)"

text \<open>The entries of the queue of read beats when \<open>left\<close> bytes are expected.\<close>

fun buffered :: "nat \<Rightarrow> (u8 list \<times> nat) list \<Rightarrow> r_buffered list" where
  "buffered left [] = []"
| "buffered left ((d, l) # as) =
     \<lparr>data_length = min 64 left, r_bytes = take (min 64 left) d, is_last = (as = [])\<rparr> # buffered (left - min 64 left) as"

lemma take_answers_buffered:
  assumes "r_beats_buffer_size m = 0" "read_queue m = (n, left) # rest" "n = length (filter (\<lambda>a. snd a = 1) as)" "as \<noteq> []"
    "snd (last as) = 1" "n < 2 ^ 32"
  shows "\<exists>m'. take_answers as m = Some m' \<and> read_queue m' = rest \<and> r_queue m' = r_queue m @ buffered left as"
  using assms
proof (induction as arbitrary: m n left)
  case (Cons a as)
  obtain d l where a: "a = (d, l)" by fastforce
  let ?c = "if l = 1 then 1 else 0 :: nat"
  let ?n = "length (filter (\<lambda>a. snd a = 1) as)"
  have n: "n = ?c + ?n" using Cons.prems(3) by (simp add: a)
  then have s: "sub32 n ?c = ?n" using Cons.prems(6) sub32_eq [of ?c n] by simp
  let ?e = "\<lparr>data_length = min 64 left, r_bytes = take (min 64 left) d, is_last = (?n = 0)\<rparr>"
  let ?m = "m\<lparr>r_ready := True, read_queue := (if ?n = 0 then rest else (?n, left - min 64 left) # rest), r_queue := r_queue m @ [?e]\<rparr>"
  have step: "r_posedge \<lparr>b_valid = False, r_valid = True, r_last = l, r_data = d\<rparr> m = Some ?m"
    using Cons.prems(1,2) s by (simp add: r_posedge_def Let_def)
  show ?case
  proof (cases "as = []")
    case True
    then show ?thesis using step by (simp add: a)
  next
    case False
    then have "last as \<in> set as" "snd (last as) = 1" using Cons.prems(5) by simp_all
    then have pos: "?n \<noteq> 0" by (auto simp: filter_empty_conv)
    from Cons.IH [of ?m ?n "left - min 64 left"] obtain m' where
      "take_answers as ?m = Some m' \<and> read_queue m' = rest \<and> r_queue m' = (r_queue m @ [?e]) @ buffered (left - min 64 left) as"
      using Cons.prems(1,6) False n pos \<open>snd (last as) = 1\<close> by auto
    then show ?thesis using step pos False by (simp add: a)
  qed
qed simp

definition lines_ok :: "bytes \<Rightarrow> nat \<Rightarrow> nat \<Rightarrow> (u8 list \<times> nat) list \<Rightarrow> nat \<Rightarrow> bool" where
  "lines_ok mem addr n as bursts \<longleftrightarrow> bursts = length (filter (\<lambda>a. snd a = 1) as) \<and> as \<noteq> [] \<and> snd (last as) = 1
    \<and> map fst as = map (\<lambda>i. line_at mem (addr + 64 * i)) [0 ..< (n + 63) div 64]"

lemma filter_last: "filter (\<lambda>i. i = n) [0 ..< Suc n] = [n]" for n :: nat
  by (simp add: filter_empty_conv)

lemma burst_lines:
  assumes "0 < k" "s + k \<le> 2 ^ 32" "k < 2 ^ 32" "s div 4096 = (s + k - 1) div 4096" "s mod 64 = 0"
  shows "lines_ok mem s k (read_answers mem (map fst (create_ax_beats s k))) (length (create_ax_beats s k))"
proof -
  obtain aw where aw: "create_ax_beats s k = [(aw, k)]" "ax_len aw = (s mod 64 + k - 1) div 64"
    "\<And>i. i \<le> ax_len aw \<Longrightarrow> beat_addr aw i div 64 * 64 = s div 64 * 64 + 64 * i"
    by (rule page_lines [OF assms(1-4)]) (rule that, assumption+)
  define L where "L = ax_len aw"
  have "s div 64 * 64 = s" using div_mult_mod_eq [of s 64] assms(5) by simp
  then have addr: "beat_addr aw i div 64 * 64 = s + 64 * i" if "i \<le> L" for i using aw(3) [of i] that by (simp add: L_def)
  have "(k + 63) div 64 = (k - 1) div 64 + 1" using assms(1) by (cases k) simp_all
  then have L: "(k + 63) div 64 = Suc L" using aw(2) assms(5) by (simp add: L_def)
  have as: "read_answers mem (map fst (create_ax_beats s k)) = map (\<lambda>i. (line_at mem (s + 64 * i), if i = L then 1 else 0)) [0 ..< Suc L]"
    by (simp add: read_answers_def burst_answers_def aw(1) addr flip: L_def)
  have "filter (\<lambda>a. snd a = 1) (map (\<lambda>i. (line_at mem (s + 64 * i), if i = L then 1 else 0 :: nat)) [0 ..< Suc L])
      = map (\<lambda>i. (line_at mem (s + 64 * i), if i = L then 1 else 0)) (filter (\<lambda>i. i = L) [0 ..< Suc L])"
    unfolding filter_map by (rule arg_cong [where f = "map _"], rule filter_cong) simp_all
  then show ?thesis unfolding lines_ok_def as L filter_last by (simp add: aw(1))
qed

lemma lines_ok_append:
  assumes "lines_ok mem addr b as p" "lines_ok mem (addr + b) n cs q" "b mod 64 = 0"
  shows "lines_ok mem addr (b + n) (as @ cs) (p + q)"
proof -
  obtain c where c: "b = 64 * c" using assms(3) by auto
  have "(b + 63) div 64 = c" "(b + n + 63) div 64 = c + (n + 63) div 64" by (simp_all add: c add.assoc)
  moreover have "[0 ..< c + (n + 63) div 64] = [0 ..< c] @ map (\<lambda>i. i + c) [0 ..< (n + 63) div 64]"
    using map_add_upt [of c "(n + 63) div 64"] upt_add_eq_append [of 0 c "(n + 63) div 64"] by (simp add: add.commute)
  ultimately show ?thesis using assms(1,2) by (simp add: lines_ok_def c add.assoc add_mult_distrib2 add.commute add.left_commute)
qed

lemma read_lines:
  assumes "0 < n" "addr + n \<le> 2 ^ 32" "n < 2 ^ 32" "addr mod 64 = 0"
  shows "lines_ok mem addr n (read_answers mem (map fst (create_ax_beats addr n))) (length (create_ax_beats addr n))"
  using assms
proof (induction n arbitrary: addr rule: less_induct)
  case (less n)
  show ?case
  proof (cases "addr div 4096 = (addr + n - 1) div 4096")
    case True
    from burst_lines [OF less.prems(1-3) True less.prems(4)] show ?thesis .
  next
    case False
    define b where "b = 4096 - addr mod 4096"
    note two = two_pages [OF less.prems(1,2,3) False, folded b_def]
    have "addr mod 4096 mod 64 = 0" using less.prems(4) by (simp add: mod_mod_cancel)
    then obtain c where "addr mod 4096 = 64 * c" by auto
    then have "b = 64 * (64 - c)" by (simp add: b_def diff_mult_distrib2)
    then have b: "b mod 64 = 0" by simp
    then have "(addr + b) mod 64 = 0" using less.prems(4) by (simp add: mod_add_left_eq [symmetric])
    then have "lines_ok mem (addr + b) (n - b) (read_answers mem (map fst (create_ax_beats (addr + b) (n - b))))
        (length (create_ax_beats (addr + b) (n - b)))"
      using two(2,3) less.prems by (intro less.IH) simp_all
    moreover have "lines_ok mem addr b (read_answers mem (map fst (create_ax_beats addr b))) (length (create_ax_beats addr b))"
      using two(2,3,5) less.prems by (intro burst_lines) simp_all
    ultimately show ?thesis
      using lines_ok_append [OF _ _ b, of mem addr _ _ "n - b"] two(3) by (simp add: two(1) read_answers_def)
  qed
qed

lemma buffered_bytes:
  "map fst as = map (\<lambda>i. line_at mem (addr + 64 * i)) [0 ..< (n + 63) div 64] \<Longrightarrow>
    concat (map r_bytes (buffered n as)) = map mem [addr ..< addr + n] \<and> map is_last (buffered n as) = replicate (length as - 1) False @ replicate (min 1 (length as)) True"
proof (induction as arbitrary: addr n)
  case Nil
  then have "(n + 63) div 64 = 0" by simp
  then show ?case by simp
next
  case (Cons a as)
  then obtain q where q: "(n + 63) div 64 = Suc q" by (cases "(n + 63) div 64") auto
  then have n: "0 < n" "q = (n - min 64 n + 63) div 64" by linarith+
  have "[0 ..< Suc q] = 0 # map Suc [0 ..< q]" by (simp add: upt_conv_Cons map_Suc_upt del: upt_Suc)
  then have a: "fst a = line_at mem addr" and as: "map fst as = map (\<lambda>i. line_at mem (addr + 64 + 64 * i)) [0 ..< (n - min 64 n + 63) div 64]"
    using Cons.prems unfolding q n(2) [symmetric] by (simp_all add: add.assoc del: upt_Suc)
  note ih = Cons.IH [OF as]
  have "[addr ..< addr + n] = [addr ..< addr + min 64 n] @ [addr + 64 ..< addr + 64 + (n - min 64 n)]"
    using upt_add_eq_append [of addr "addr + min 64 n" "n - min 64 n"] by (cases "n \<le> 64") (simp_all add: min_def)
  moreover have "take (min 64 n) (line_at mem addr) = map mem [addr ..< addr + min 64 n]"
    by (simp add: line_at_def take_map take_upt min_def)
  ultimately show ?case using ih a by (cases a; cases as) simp_all
qed

text \<open>The queue of read beats when the hardware has answered all beats of a read.\<close>

lemma read_answered:
  fixes mem :: bytes and addr n :: nat and m :: axi_master
  assumes "0 < n" "addr + n \<le> 2 ^ 32" "n < 2 ^ 32" "addr mod 64 = 0" "read_queue m = []" "r_queue m = []" "r_beats_buffer_size m = 0"
  defines "as \<equiv> read_answers mem (map fst (create_ax_beats addr n))"
  shows "\<exists>m'. take_answers as (axi_read addr n m) = Some m' \<and> read_queue m' = [] \<and> r_queue m' = buffered n as"
    "concat (map r_bytes (buffered n as)) = map mem [addr ..< addr + n]"
    "map is_last (buffered n as) = replicate ((n + 63) div 64 - 1) False @ [True]"
    "length as = (n + 63) div 64" "\<forall>a \<in> set as. length (fst a) = 64"
proof -
  note ok = read_lines [OF assms(1-4), of mem, folded as_def, unfolded lines_ok_def]
  show len: "length as = (n + 63) div 64" using arg_cong [where f = length, OF ok [THEN conjunct2, THEN conjunct2, THEN conjunct2]] by simp
  have "length (create_ax_beats addr n) \<le> length as" using ok length_filter_le [of "\<lambda>a. snd a = 1" as] by simp
  also have "\<dots> \<le> n" using assms(1) unfolding len by linarith
  finally have few: "length (create_ax_beats addr n) < 2 ^ 32" using assms(3) by simp
  let ?m = "axi_read addr n m"
  have m: "r_beats_buffer_size ?m = 0" "read_queue ?m = [(length (create_ax_beats addr n), n)]" "r_queue ?m = []"
    using assms(5-7) by (simp_all add: axi_read_def Let_def)
  from take_answers_buffered [OF m(1,2)] ok few
  show "\<exists>m'. take_answers as ?m = Some m' \<and> read_queue m' = [] \<and> r_queue m' = buffered n as" using m(3) by auto
  have "min 1 (length as) = Suc 0" using ok by (cases as) simp_all
  then show "concat (map r_bytes (buffered n as)) = map mem [addr ..< addr + n]"
    "map is_last (buffered n as) = replicate ((n + 63) div 64 - 1) False @ [True]"
    using buffered_bytes [of as mem addr n] ok unfolding len [symmetric] by simp_all
  have "set (map fst as) \<subseteq> range (line_at mem)" using ok by auto
  then show "\<forall>a \<in> set as. length (fst a) = 64" by (fastforce simp: line_at_def)
qed

text \<open>
  C12: A read of n bytes, at least one and fewer than \<open>2 ^ 32\<close>, from an address at the start of a line of 64 bytes and ending within the
  32-bit address space, on a master with no earlier read under way and the default, unbounded, buffer, delivers, once the hardware has answered all its beats, exactly
  the bytes of memory from that address on, and only the last entry is marked as the end of the read.
\<close>

theorem read_delivers:
  assumes "0 < n" "addr + n \<le> 2 ^ 32" "n < 2 ^ 32" "addr mod 64 = 0" "read_queue m = []" "r_queue m = []" "r_beats_buffer_size m = 0"
  shows "\<exists>m'. take_answers (read_answers mem (map fst (create_ax_beats addr n))) (axi_read addr n m) = Some m'
    \<and> read_queue m' = [] \<and> concat (map r_bytes (r_queue m')) = map mem [addr ..< addr + n]
    \<and> map is_last (r_queue m') = replicate ((n + 63) div 64 - 1) False @ [True]"
  using read_answered [OF assms, of mem] by auto

theorem read_delivers_witness:
  "\<exists>m'. take_answers (read_answers of_nat (map fst (create_ax_beats 0x100 3))) (axi_read 0x100 3 new_axi_master) = Some m'
    \<and> read_queue m' = [] \<and> concat (map r_bytes (r_queue m')) = map of_nat [0x100 ..< 0x103] \<and> map is_last (r_queue m') = [True]"
  using read_delivers [of 3 "0x100" new_axi_master of_nat] by (simp add: new_axi_master_def del: upt.simps)

text \<open>
  A read within a line that does not start at the beginning of the line delivers bytes from there all the same, not from its
  address.
\<close>

theorem read_ignores_lane:
  assumes "0 < n" "addr mod 64 + n \<le> 64" "addr + n \<le> 2 ^ 32" "read_queue m = []" "r_queue m = []" "r_beats_buffer_size m = 0"
  shows "\<exists>m'. take_answers (read_answers mem (map fst (create_ax_beats addr n))) (axi_read addr n m) = Some m'
    \<and> concat (map r_bytes (r_queue m')) = map mem [addr div 64 * 64 ..< addr div 64 * 64 + n]"
proof -
  have "addr mod 4096 div 64 < 64" by (simp add: less_mult_imp_div_less)
  moreover have "addr mod 4096 = addr mod 4096 div 64 * 64 + addr mod 64"
    using div_mult_mod_eq [of "addr mod 4096" 64] by (simp add: mod_mod_cancel)
  ultimately have "addr mod 4096 + n \<le> 4096" using assms(2) by linarith
  from same_block [OF this assms(1)] have p: "addr div 4096 = (addr + n - 1) div 4096" using assms(1) by simp
  have n: "n < 2 ^ 32" "n \<le> 64" using assms(2) by simp_all
  obtain aw where aw: "create_ax_beats addr n = [(aw, n)]" "ax_len aw = (addr mod 64 + n - 1) div 64"
    "\<And>i. i \<le> ax_len aw \<Longrightarrow> beat_addr aw i div 64 * 64 = addr div 64 * 64 + 64 * i"
    by (rule page_lines [OF assms(1,3) n(1) p]) (rule that, assumption+)
  have z: "ax_len aw = 0" using assms(1,2) by (simp add: aw(2))
  have "beat_addr aw 0 div 64 * 64 = addr div 64 * 64" using aw(3) [of 0] by simp
  then have "read_answers mem (map fst (create_ax_beats addr n)) = [(line_at mem (addr div 64 * 64), 1)]"
    by (simp add: read_answers_def burst_answers_def aw(1) z)
  moreover have "take n (line_at mem (addr div 64 * 64)) = map mem [addr div 64 * 64 ..< addr div 64 * 64 + n]"
    using n(2) by (simp add: line_at_def take_map take_upt)
  ultimately show ?thesis
    using n(2) assms(4-6) by (simp add: axi_read_def aw(1) r_posedge_def Let_def sub32_def)
qed

end
