(* ===== verification/Packet_Ring.thy ===== *)
theory Packet_Ring
  imports Axi_Beats "HOL-Library.AList"
begin

text \<open>
  The packet buffer of the accelerator as the network side of the simulator manages it: \<open>allocate_pkt_space\<close> and
  \<open>free_pkt_space\<close> of \<^verbatim>\<open>NICInbound.hpp\<close>. Packets are placed one behind the other; when the rest of the buffer is too
  small, the place is remembered as the cut and the next packet goes to the start. Packets are freed in any order, but
  the head moves only over freed ones. Values of \<^verbatim>\<open>uint64_t\<close> and \<^verbatim>\<open>uint32_t\<close> are natural numbers with their wrap-around.
\<close>

definition sub64 :: "nat \<Rightarrow> nat \<Rightarrow> nat" where "sub64 a b = (a + (2 ^ 64 - b mod 2 ^ 64)) mod 2 ^ 64"
definition add64 :: "nat \<Rightarrow> nat \<Rightarrow> nat" where "add64 a b = (a + b) mod 2 ^ 64"

definition NI_PKT_ADDR_ALIGNMENT :: nat where "NI_PKT_ADDR_ALIGNMENT = 64"

record pkt_ring =
  l2_pkt_buff_start :: nat
  l2_pkt_buff_size :: nat
  head_ptr :: nat
  tail_ptr :: nat
  cut_ptr :: nat
  cut :: bool
  in_flight_packets :: nat
  free_req_queue :: "(nat \<times> nat) list"

definition new_ring :: "nat \<Rightarrow> nat \<Rightarrow> pkt_ring" where
  "new_ring start sz = \<lparr>l2_pkt_buff_start = start, l2_pkt_buff_size = sz, head_ptr = 0, tail_ptr = 0, cut_ptr = 0, cut = False,
     in_flight_packets = 0, free_req_queue = []\<rparr>"

definition whole_segments :: "nat \<Rightarrow> nat" where
  "whole_segments n = add32 n (NI_PKT_ADDR_ALIGNMENT - 1) div NI_PKT_ADDR_ALIGNMENT * NI_PKT_ADDR_ALIGNMENT"

text \<open>The result is the address, or \<open>None\<close> when there is no place.\<close>

definition allocate_pkt_space :: "nat \<Rightarrow> pkt_ring \<Rightarrow> nat option \<times> pkt_ring" where
  "allocate_pkt_space pkt_size r =
     (let pkt_size = whole_segments pkt_size;
          (can_allocate, r) =
            (if tail_ptr r > head_ptr r \<or> (tail_ptr r = head_ptr r \<and> in_flight_packets r = 0) then
               if sub64 (l2_pkt_buff_size r) (tail_ptr r) \<ge> pkt_size then (True, r)
               else if head_ptr r \<ge> pkt_size then (True, r\<lparr>cut_ptr := tail_ptr r, cut := True, tail_ptr := 0\<rparr>)
               else (False, r)
             else if head_ptr r > tail_ptr r then (head_ptr r - tail_ptr r \<ge> pkt_size, r)
             else (False, r))
      in if can_allocate then
           (Some (add32 (l2_pkt_buff_start r) (tail_ptr r)),
            r\<lparr>tail_ptr := add64 (tail_ptr r) pkt_size, in_flight_packets := add32 (in_flight_packets r) 1\<rparr>)
         else (None, r))"

lemma delete_shorter: "map_of al k = Some v \<Longrightarrow> length (AList.delete k al) < length al"
  by (induction al) (auto split: if_splits simp: less_Suc_eq_le intro: length_delete_le)

text \<open>The loop of \<open>free_pkt_space\<close>: while the packet at the head is freed, the head moves behind it.\<close>

function reclaim :: "pkt_ring \<Rightarrow> pkt_ring" where
  "reclaim r =
     (case map_of (free_req_queue r) (head_ptr r mod 2 ^ 32) of
        None \<Rightarrow> r
      | Some head_ptr_increase \<Rightarrow>
          let r' = r\<lparr>free_req_queue := AList.delete (head_ptr r mod 2 ^ 32) (free_req_queue r),
                     head_ptr := add64 (head_ptr r) head_ptr_increase, in_flight_packets := sub32 (in_flight_packets r) 1\<rparr>
          in reclaim (if cut r' \<and> head_ptr r' = cut_ptr r' then r'\<lparr>head_ptr := 0, cut := False\<rparr> else r'))"
  by auto

termination
  by (relation "measure (\<lambda>r. length (free_req_queue r))") (auto simp: Let_def intro: delete_shorter)

declare reclaim.simps [simp del]

text \<open>\<open>None\<close> is a failed assertion: an address below the buffer, or a packet that is freed already.\<close>

definition free_pkt_space :: "nat \<Rightarrow> nat \<Rightarrow> pkt_ring \<Rightarrow> pkt_ring option" where
  "free_pkt_space addr sz r =
     (let off = sub32 addr (l2_pkt_buff_start r)
      in if addr < l2_pkt_buff_start r \<or> map_of (free_req_queue r) off \<noteq> None then None
         else Some (reclaim (r\<lparr>free_req_queue := AList.update off (whole_segments sz) (free_req_queue r)\<rparr>)))"

section \<open>The packets a ring holds\<close>

text \<open>Places one behind the other from \<open>a\<close> to \<open>b\<close>.\<close>

fun chain :: "nat \<Rightarrow> (nat \<times> nat) list \<Rightarrow> nat \<Rightarrow> bool" where
  "chain a [] b = (a = b)"
| "chain a ((off, n) # ps) b = (off = a \<and> 0 < n \<and> chain (a + n) ps b)"

text \<open>
  \<open>old\<close> are the packets from the head on, \<open>new\<close> those at the start of the buffer when it is cut. The packets in the queue
  of freed ones are still among them.
\<close>

definition ring_places :: "pkt_ring \<Rightarrow> (nat \<times> nat) list \<Rightarrow> (nat \<times> nat) list \<Rightarrow> bool" where
  "ring_places r old new \<longleftrightarrow>
     l2_pkt_buff_start r + l2_pkt_buff_size r + 1 < 2 ^ 32
     \<and> (if cut r then chain (head_ptr r) old (cut_ptr r) \<and> chain 0 new (tail_ptr r) \<and> tail_ptr r \<le> head_ptr r
          \<and> cut_ptr r \<le> l2_pkt_buff_size r \<and> new \<noteq> []
        else chain (head_ptr r) old (tail_ptr r) \<and> tail_ptr r \<le> l2_pkt_buff_size r \<and> new = [])
     \<and> in_flight_packets r = length (old @ new)
     \<and> distinct (map fst (free_req_queue r)) \<and> set (free_req_queue r) \<subseteq> set (old @ new)"

definition ring_inv :: "pkt_ring \<Rightarrow> (nat \<times> nat) list \<Rightarrow> (nat \<times> nat) list \<Rightarrow> bool" where
  "ring_inv r old new \<longleftrightarrow> ring_places r old new \<and> map_of (free_req_queue r) (head_ptr r) = None"

text \<open>The packets that are held and not freed.\<close>

definition outstanding :: "pkt_ring \<Rightarrow> (nat \<times> nat) list \<Rightarrow> (nat \<times> nat) list \<Rightarrow> (nat \<times> nat) set" where
  "outstanding r old new = set (old @ new) - set (free_req_queue r)"

lemma chain_le: "chain a ps b \<Longrightarrow> a \<le> b"
  by (induction a ps b rule: chain.induct) auto

lemma places_append: "chain a (ps @ qs) c \<longleftrightarrow> (\<exists>b. chain a ps b \<and> chain b qs c)"
  by (induction ps arbitrary: a) auto

lemma chain_mem: "chain a ps b \<Longrightarrow> (off, n) \<in> set ps \<Longrightarrow> a \<le> off \<and> 0 < n \<and> off + n \<le> b"
  by (induction a ps b rule: chain.induct) (auto dest: chain_le)

lemma chain_length: "chain a ps b \<Longrightarrow> length ps + a \<le> b"
  by (induction a ps b rule: chain.induct) auto

definition apart :: "nat \<times> nat \<Rightarrow> nat \<times> nat \<Rightarrow> bool" where
  "apart p q \<longleftrightarrow> fst p + snd p \<le> fst q \<or> fst q + snd q \<le> fst p"

lemma chain_apart: "chain a ps b \<Longrightarrow> sorted_wrt apart ps"
proof (induction a ps b rule: chain.induct)
  case (2 a off n ps b)
  then show ?case using chain_mem [of "a + n" ps b] by (auto simp: apart_def)
qed simp

lemma chain_empty: "chain a ps a \<Longrightarrow> ps = []"
  using chain_length by (cases ps) fastforce+

lemma ring_cases:
  assumes "ring_places r old new"
  obtains "cut r" "chain (head_ptr r) old (cut_ptr r)" "chain 0 new (tail_ptr r)" "tail_ptr r \<le> head_ptr r" "head_ptr r \<le> cut_ptr r"
    "cut_ptr r \<le> l2_pkt_buff_size r" "new \<noteq> []"
  | "\<not> cut r" "chain (head_ptr r) old (tail_ptr r)" "head_ptr r \<le> tail_ptr r" "tail_ptr r \<le> l2_pkt_buff_size r" "new = []"
  using assms chain_le [of "head_ptr r" old] by (cases "cut r") (simp_all add: ring_places_def)

lemma ring_apart:
  assumes "ring_places r old new"
  shows "sorted_wrt apart (old @ new)"
  using assms
proof (cases rule: ring_cases)
  case 1
  have "apart p q" if "p \<in> set old" "q \<in> set new" for p q
    using chain_mem [OF 1(2), of "fst p" "snd p"] chain_mem [OF 1(3), of "fst q" "snd q"] that 1(4) by (simp add: apart_def)
  then show ?thesis using chain_apart [OF 1(2)] chain_apart [OF 1(3)] by (simp add: sorted_wrt_append)
next
  case 2
  then show ?thesis using chain_apart [OF 2(2)] by simp
qed

lemma places_distinct:
  "sorted_wrt apart ps \<Longrightarrow> p \<in> set ps \<Longrightarrow> q \<in> set ps \<Longrightarrow> fst p = fst q \<Longrightarrow> 0 < snd p \<Longrightarrow> 0 < snd q \<Longrightarrow> p = q"
proof (induction ps)
  case (Cons a ps)
  have "apart a b" if "b \<in> set ps" for b using Cons.prems(1) that by simp
  then show ?case using Cons unfolding apart_def by fastforce
qed simp

lemma update_set: "map_of al k = None \<Longrightarrow> set (AList.update k v al) = insert (k, v) (set al)"
  by (induction al) (auto split: if_splits)

lemma ring_inside:
  assumes "ring_places r old new" "(off, n) \<in> set (old @ new)"
  shows "0 < n \<and> off + n \<le> l2_pkt_buff_size r"
  using assms(1)
proof (cases rule: ring_cases)
  case 1
  then show ?thesis using assms(2) chain_mem [OF 1(2), of off n] chain_mem [OF 1(3), of off n] by auto
next
  case 2
  then show ?thesis using assms(2) chain_mem [OF 2(2), of off n] by auto
qed

lemma ring_bounds:
  assumes "ring_places r old new"
  shows "head_ptr r \<le> l2_pkt_buff_size r" "tail_ptr r \<le> l2_pkt_buff_size r" "l2_pkt_buff_size r + 1 < 2 ^ 32"
    "length (old @ new) + 1 < 2 ^ 32"
proof -
  show l: "l2_pkt_buff_size r + 1 < 2 ^ 32" using assms by (simp add: ring_places_def)
  show "head_ptr r \<le> l2_pkt_buff_size r" "tail_ptr r \<le> l2_pkt_buff_size r"
    using assms by (cases rule: ring_cases; simp)+
  have "length (old @ new) \<le> l2_pkt_buff_size r" using assms
  proof (cases rule: ring_cases)
    case 1
    then show ?thesis using chain_length [OF 1(2)] chain_length [OF 1(3)] by simp
  next
    case 2
    then show ?thesis using chain_length [OF 2(2)] by simp
  qed
  then show "length (old @ new) + 1 < 2 ^ 32" using l by simp
qed

section \<open>Freeing\<close>

text \<open>A freed packet at the head is the oldest one.\<close>

lemma chain_first: "chain a ps b \<Longrightarrow> (a, n) \<in> set ps \<Longrightarrow> \<exists>qs. ps = (a, n) # qs"
proof (cases ps)
  case (Cons p qs)
  assume c: "chain a ps b" "(a, n) \<in> set ps"
  obtain off k where p: "p = (off, k)" by fastforce
  with c Cons have "off = a" "0 < k" "chain (a + k) qs b" by simp_all
  moreover have "(a, n) \<notin> set qs" using chain_mem [OF \<open>chain (a + k) qs b\<close>, of a n] \<open>0 < k\<close> by auto
  ultimately show ?thesis using c Cons p by simp
qed simp

lemma freed_head:
  assumes "ring_places r old new" "map_of (free_req_queue r) (head_ptr r) = Some n"
  shows "\<exists>ps. old = (head_ptr r, n) # ps"
proof -
  have mem: "(head_ptr r, n) \<in> set (old @ new)" using assms(1) map_of_SomeD [OF assms(2)] unfolding ring_places_def by blast
  from assms(1) show ?thesis
  proof (cases rule: ring_cases)
    case 1
    have "(head_ptr r, n) \<notin> set new" using chain_mem [OF 1(3), of "head_ptr r" n] 1(4) by auto
    then show ?thesis using mem chain_first [OF 1(2), of n] by simp
  next
    case 2
    then show ?thesis using mem chain_first [OF 2(2), of n] by simp
  qed
qed

lemma reclaim_step:
  assumes "ring_places r ((head_ptr r, n) # ps) new" "map_of (free_req_queue r) (head_ptr r) = Some n"
  defines "r' \<equiv> r\<lparr>free_req_queue := AList.delete (head_ptr r) (free_req_queue r), head_ptr := head_ptr r + n,
    in_flight_packets := in_flight_packets r - 1\<rparr>"
  shows "cut r' \<and> head_ptr r' = cut_ptr r' \<Longrightarrow> ps = [] \<and> ring_places (r'\<lparr>head_ptr := 0, cut := False\<rparr>) new []"
    "\<not> (cut r' \<and> head_ptr r' = cut_ptr r') \<Longrightarrow> ring_places r' ps new"
    "set (ps @ new) - set (free_req_queue r') = set (((head_ptr r, n) # ps) @ new) - set (free_req_queue r)"
proof -
  have d: "distinct (map fst (free_req_queue r))" and sub: "set (free_req_queue r) \<subseteq> set (((head_ptr r, n) # ps) @ new)"
    using assms(1) by (simp_all add: ring_places_def)
  have fq: "set (free_req_queue r') = {p \<in> set (free_req_queue r). fst p \<noteq> head_ptr r}"
    by (auto simp: r'_def AList.delete_eq)
  have d': "distinct (map fst (free_req_queue r'))" using d by (simp add: r'_def distinct_delete)
  have ne: "fst p \<noteq> head_ptr r" if p: "p \<in> set (ps @ new)" for p
  proof -
    have "sorted_wrt apart ((head_ptr r, n) # (ps @ new))" using ring_apart [OF assms(1)] by simp
    then have "apart (head_ptr r, n) p" using p unfolding sorted_wrt.simps by blast
    moreover have "0 < n" using ring_inside [OF assms(1), of "head_ptr r" n] by simp
    moreover have "(fst p, snd p) \<in> set (((head_ptr r, n) # ps) @ new)" using p by auto
    then have "0 < snd p" using ring_inside [OF assms(1)] by blast
    ultimately show ?thesis unfolding apart_def fst_conv snd_conv by linarith
  qed
  have m: "(head_ptr r, n) \<in> set (free_req_queue r)" using assms(2) by (rule map_of_SomeD)
  have live: "set (((head_ptr r, n) # ps) @ new) = insert (head_ptr r, n) (set (ps @ new))" by simp
  have sub': "set (free_req_queue r') \<subseteq> set (ps @ new)" using sub unfolding fq live by force
  show "set (ps @ new) - set (free_req_queue r') = set (((head_ptr r, n) # ps) @ new) - set (free_req_queue r)"
    unfolding fq live using ne m by blast
  have sel: "cut r' = cut r" "cut_ptr r' = cut_ptr r" "tail_ptr r' = tail_ptr r" "head_ptr r' = head_ptr r + n"
    "l2_pkt_buff_start r' = l2_pkt_buff_start r" "l2_pkt_buff_size r' = l2_pkt_buff_size r"
    "in_flight_packets r' = length (ps @ new)" using assms(1) by (simp_all add: r'_def ring_places_def)
  have start: "l2_pkt_buff_start r + l2_pkt_buff_size r + 1 < 2 ^ 32" using assms(1) by (simp add: ring_places_def)
  show "ps = [] \<and> ring_places (r'\<lparr>head_ptr := 0, cut := False\<rparr>) new []" if c: "cut r' \<and> head_ptr r' = cut_ptr r'"
    using assms(1)
  proof (cases rule: ring_cases)
    case 1
    then have "ps = []" using c chain_empty [of "head_ptr r + n" ps] by (simp add: sel)
    then show ?thesis using 1 d' sub' start by (simp add: ring_places_def sel)
  qed (use c in \<open>simp add: sel\<close>)
  show "ring_places r' ps new" if c: "\<not> (cut r' \<and> head_ptr r' = cut_ptr r')"
    using assms(1)
  proof (cases rule: ring_cases)
    case 1
    then show ?thesis using d' sub' start by (simp add: ring_places_def sel)
  next
    case 2
    then show ?thesis using d' sub' start by (simp add: ring_places_def sel)
  qed
qed

definition same_buffer :: "pkt_ring \<Rightarrow> pkt_ring \<Rightarrow> bool" where
  "same_buffer r r' \<longleftrightarrow> l2_pkt_buff_start r' = l2_pkt_buff_start r \<and> l2_pkt_buff_size r' = l2_pkt_buff_size r"

lemma reclaim_none: "ring_places r old new \<Longrightarrow> map_of (free_req_queue r) (head_ptr r) = None \<Longrightarrow> reclaim r = r"
  using ring_bounds [of r old new] by (subst reclaim.simps) simp

lemma reclaim_some:
  assumes "ring_places r old new" "map_of (free_req_queue r) (head_ptr r) = Some n"
  defines "r' \<equiv> r\<lparr>free_req_queue := AList.delete (head_ptr r) (free_req_queue r), head_ptr := head_ptr r + n,
    in_flight_packets := in_flight_packets r - 1\<rparr>"
  shows "reclaim r = reclaim (if cut r' \<and> head_ptr r' = cut_ptr r' then r'\<lparr>head_ptr := 0, cut := False\<rparr> else r')"
proof -
  have h: "head_ptr r mod 2 ^ 32 = head_ptr r" using ring_bounds [OF assms(1)] by simp
  obtain ps where ps: "old = (head_ptr r, n) # ps" using freed_head [OF assms(1,2)] by blast
  then have "head_ptr r + n \<le> l2_pkt_buff_size r" using ring_inside [OF assms(1), of "head_ptr r" n] by simp
  then have a: "add64 (head_ptr r) n = head_ptr r + n" using ring_bounds(3) [OF assms(1)] by (simp add: add64_def)
  have "in_flight_packets r = length (old @ new)" using assms(1) by (simp add: ring_places_def)
  then have i: "sub32 (in_flight_packets r) 1 = in_flight_packets r - 1" using ring_bounds(4) [OF assms(1)] ps by (intro sub32_eq) simp_all
  show ?thesis unfolding reclaim.simps [of r] h assms(2) option.case Let_def a i r'_def ..
qed

lemma reclaim_inv:
  "ring_places r old new \<Longrightarrow> \<exists>k old' new'. ring_inv (reclaim r) old' new' \<and> old' @ new' = drop k (old @ new)
    \<and> outstanding (reclaim r) old' new' = outstanding r old new \<and> same_buffer r (reclaim r)"
proof (induction "length (free_req_queue r)" arbitrary: r old new rule: less_induct)
  case less
  show ?case
  proof (cases "map_of (free_req_queue r) (head_ptr r)")
    case None
    then have "reclaim r = r" using reclaim_none less.prems by blast
    moreover have "ring_inv r old new" using None less.prems by (simp add: ring_inv_def)
    moreover have "old @ new = drop 0 (old @ new)" by simp
    ultimately show ?thesis by (metis same_buffer_def)
  next
    case (Some n)
    from freed_head [OF less.prems Some] obtain ps where ps: "old = (head_ptr r, n) # ps" by blast
    let ?r = "r\<lparr>free_req_queue := AList.delete (head_ptr r) (free_req_queue r), head_ptr := head_ptr r + n,
      in_flight_packets := in_flight_packets r - 1\<rparr>"
    define s where "s = (if cut ?r \<and> head_ptr ?r = cut_ptr ?r then ?r\<lparr>head_ptr := 0, cut := False\<rparr> else ?r)"
    note st = reclaim_step [OF less.prems [unfolded ps] Some]
    have short: "length (free_req_queue s) < length (free_req_queue r)" using delete_shorter [OF Some] by (simp add: s_def)
    have buf: "same_buffer r s" "free_req_queue s = free_req_queue ?r" by (simp_all add: s_def same_buffer_def)
    obtain o' n' where s: "ring_places s o' n'" "o' @ n' = ps @ new"
    proof (cases "cut ?r \<and> head_ptr ?r = cut_ptr ?r")
      case True
      then show thesis using st(1) [OF True] that [of new "[]"] by (simp add: s_def)
    next
      case False
      then show thesis using st(2) [OF False] that [of ps new] unfolding s_def by (simp only: if_not_P if_False)
    qed
    have out: "outstanding s o' n' = outstanding r old new" using st(3) unfolding outstanding_def s(2) ps buf(2) .
    from less.hyps [OF short s(1)] obtain k old' new' where k: "ring_inv (reclaim s) old' new'" "old' @ new' = drop k (o' @ n')"
      "outstanding (reclaim s) old' new' = outstanding s o' n'" "same_buffer s (reclaim s)" by blast
    have "reclaim r = reclaim s" using reclaim_some [OF less.prems Some] unfolding s_def .
    moreover have "old' @ new' = drop (Suc k) (old @ new)" using k(2) by (simp add: s(2) ps)
    ultimately show ?thesis using k(1,3,4) out buf(1) unfolding same_buffer_def by metis
  qed
qed

text \<open>Freeing an outstanding packet: it is no longer outstanding, and all others are, at their places.\<close>

lemma free_update:
  assumes "ring_inv r old new" "(off, whole_segments n) \<in> outstanding r old new"
  defines "q \<equiv> r\<lparr>free_req_queue := AList.update off (whole_segments n) (free_req_queue r)\<rparr>"
  shows "free_pkt_space (l2_pkt_buff_start r + off) n r = Some (reclaim q)" "ring_places q old new"
    "outstanding q old new = outstanding r old new - {(off, whole_segments n)}"
proof -
  have p: "ring_places r old new" using assms(1) by (simp add: ring_inv_def)
  have mem: "(off, whole_segments n) \<in> set (old @ new)" "(off, whole_segments n) \<notin> set (free_req_queue r)"
    using assms(2) by (simp_all add: outstanding_def)
  have same: "q = (off, whole_segments n)" if q: "q \<in> set (old @ new)" "fst q = off" for q
  proof -
    have "0 < snd q" using ring_inside [OF p, of "fst q" "snd q"] q(1) by simp
    moreover have "0 < whole_segments n" using ring_inside [OF p mem(1)] by simp
    ultimately show ?thesis using places_distinct [OF ring_apart [OF p] q(1) mem(1)] q(2) by simp
  qed
  have none: "map_of (free_req_queue r) off = None"
  proof (rule ccontr)
    assume "map_of (free_req_queue r) off \<noteq> None"
    then obtain v where v: "(off, v) \<in> set (free_req_queue r)" by (auto dest: map_of_SomeD)
    then have "(off, v) \<in> set (old @ new)" using p unfolding ring_places_def by blast
    from same [OF this] v mem(2) show False by simp
  qed
  have fq: "set (free_req_queue q) = insert (off, whole_segments n) (set (free_req_queue r))"
    using update_set [OF none] by (simp add: q_def)
  show "ring_places q old new"
    using p mem(1) fq distinct_update [of "free_req_queue r" off "whole_segments n"] unfolding ring_places_def by (simp add: q_def)
  have "sub32 (l2_pkt_buff_start r + off) (l2_pkt_buff_start r) = off"
    using ring_inside [OF p mem(1)] p by (subst sub32_eq) (simp_all add: ring_places_def)
  then show "free_pkt_space (l2_pkt_buff_start r + off) n r = Some (reclaim q)" by (simp add: free_pkt_space_def Let_def none q_def)
  show "outstanding q old new = outstanding r old new - {(off, whole_segments n)}" unfolding outstanding_def fq by blast
qed

lemma free_inv:
  assumes "ring_inv r old new" "(off, whole_segments n) \<in> outstanding r old new"
  shows "\<exists>r' k old' new'. free_pkt_space (l2_pkt_buff_start r + off) n r = Some r' \<and> ring_inv r' old' new'
    \<and> old' @ new' = drop k (old @ new) \<and> outstanding r' old' new' = outstanding r old new - {(off, whole_segments n)} \<and> same_buffer r r'"
proof -
  let ?q = "r\<lparr>free_req_queue := AList.update off (whole_segments n) (free_req_queue r)\<rparr>"
  note u = free_update [OF assms]
  from reclaim_inv [OF u(2)] obtain k old' new' where k: "ring_inv (reclaim ?q) old' new'" "old' @ new' = drop k (old @ new)"
    "outstanding (reclaim ?q) old' new' = outstanding ?q old new" "same_buffer ?q (reclaim ?q)" by blast
  moreover have "same_buffer r (reclaim ?q)" using k(4) by (simp add: same_buffer_def)
  ultimately show ?thesis using u(1,3) by metis
qed

section \<open>Allocating\<close>

definition pkt_len_ok :: "nat \<Rightarrow> bool" where "pkt_len_ok n \<longleftrightarrow> 0 < n \<and> n + 63 < 2 ^ 32"

lemma whole_segments_bounds: "pkt_len_ok n \<Longrightarrow> n \<le> whole_segments n \<and> 0 < whole_segments n \<and> whole_segments n < 2 ^ 32"
proof -
  assume n: "pkt_len_ok n"
  then have "whole_segments n = (n + 63) div 64 * 64" by (simp add: whole_segments_def NI_PKT_ADDR_ALIGNMENT_def add32_def pkt_len_ok_def)
  moreover have "(n + 63) div 64 * 64 + (n + 63) mod 64 = n + 63" "(n + 63) mod 64 < 64" by simp_all
  ultimately show ?thesis using n unfolding pkt_len_ok_def by linarith
qed

text \<open>The place a packet is given, and the ring before its tail moves: at the tail, or at the start behind a cut.\<close>

definition alloc_place :: "nat \<Rightarrow> pkt_ring \<Rightarrow> pkt_ring option" where
  "alloc_place k r =
     (if tail_ptr r > head_ptr r \<or> (tail_ptr r = head_ptr r \<and> in_flight_packets r = 0) then
        if tail_ptr r + k \<le> l2_pkt_buff_size r then Some r
        else if k \<le> head_ptr r then Some (r\<lparr>cut_ptr := tail_ptr r, cut := True, tail_ptr := 0\<rparr>) else None
      else if tail_ptr r + k \<le> head_ptr r then Some r else None)"

lemma allocate_eq:
  assumes "ring_places r old new" "pkt_len_ok n"
  shows "allocate_pkt_space n r = (case alloc_place (whole_segments n) r of None \<Rightarrow> (None, r)
    | Some q \<Rightarrow> (Some (l2_pkt_buff_start q + tail_ptr q),
        q\<lparr>tail_ptr := tail_ptr q + whole_segments n, in_flight_packets := in_flight_packets q + 1\<rparr>))"
proof -
  note b = ring_bounds [OF assms(1)] whole_segments_bounds [OF assms(2)]
  have start: "l2_pkt_buff_start r + l2_pkt_buff_size r + 1 < 2 ^ 32" "in_flight_packets r = length (old @ new)"
    using assms(1) by (simp_all add: ring_places_def)
  have s: "sub64 (l2_pkt_buff_size r) (tail_ptr r) = l2_pkt_buff_size r - tail_ptr r"
  proof -
    have "tail_ptr r mod 2 ^ 64 = tail_ptr r" "l2_pkt_buff_size r + (2 ^ 64 - tail_ptr r) = (l2_pkt_buff_size r - tail_ptr r) + 2 ^ 64"
      "l2_pkt_buff_size r - tail_ptr r < 2 ^ 64" using b(2,3) by simp_all
    then show ?thesis by (simp only: sub64_def mod_add_self2 mod_less)
  qed
  have i: "add32 (in_flight_packets r) 1 = in_flight_packets r + 1"
    using b(4) start by (simp add: add32_def)
  have t: "add64 t (whole_segments n) = t + whole_segments n" "add32 (l2_pkt_buff_start r) t = l2_pkt_buff_start r + t"
    if "t \<le> l2_pkt_buff_size r" for t using that b(3) b(5) start by (simp_all add: add64_def add32_def)
  have c: "whole_segments n \<le> l2_pkt_buff_size r - tail_ptr r \<longleftrightarrow> tail_ptr r + whole_segments n \<le> l2_pkt_buff_size r"
    using b(2) by linarith
  show ?thesis
  proof (cases "tail_ptr r > head_ptr r \<or> (tail_ptr r = head_ptr r \<and> in_flight_packets r = 0)")
    case True
    then show ?thesis using t [of "tail_ptr r"] t [of 0] b(2) i
      unfolding allocate_pkt_space_def alloc_place_def Let_def s c by simp
  next
    case False
    have d: "tail_ptr r < head_ptr r \<Longrightarrow> whole_segments n \<le> head_ptr r - tail_ptr r \<longleftrightarrow> tail_ptr r + whole_segments n \<le> head_ptr r"
      by linarith
    have "\<not> tail_ptr r < head_ptr r \<Longrightarrow> tail_ptr r = head_ptr r" using False by linarith
    then show ?thesis using False d t [of "tail_ptr r"] b(2,5) i
      unfolding allocate_pkt_space_def alloc_place_def Let_def by (cases "tail_ptr r < head_ptr r") simp_all
  qed
qed

lemma alloc_inv:
  assumes "ring_inv r old new" "pkt_len_ok n" "alloc_place (whole_segments n) r = Some q"
  defines "k \<equiv> whole_segments n"
  defines "r' \<equiv> q\<lparr>tail_ptr := tail_ptr q + k, in_flight_packets := in_flight_packets q + 1\<rparr>"
  shows "\<exists>old' new'. ring_inv r' old' new' \<and> old' @ new' = old @ new @ [(tail_ptr q, k)] \<and> free_req_queue r' = free_req_queue r
    \<and> same_buffer r r'"
proof -
  have p: "ring_places r old new" "map_of (free_req_queue r) (head_ptr r) = None" using assms(1) by (simp_all add: ring_inv_def)
  have k: "0 < k" using whole_segments_bounds [OF assms(2)] by (simp add: k_def)
  have start: "l2_pkt_buff_start r + l2_pkt_buff_size r + 1 < 2 ^ 32" and fl: "in_flight_packets r = length (old @ new)"
    and fq: "distinct (map fst (free_req_queue r))" "set (free_req_queue r) \<subseteq> set (old @ new)"
    using p(1) by (simp_all add: ring_places_def)
  from p(1) show ?thesis
  proof (cases rule: ring_cases)
    case 1
    have "length new \<noteq> 0" using 1(7) by simp
    then have q: "q = r" "tail_ptr r + k \<le> head_ptr r"
      using assms(3) 1 fl by (auto simp: alloc_place_def k_def split: if_splits)
    have "ring_inv r' old (new @ [(tail_ptr q, k)])"
      using 1 k start fl fq q p(2) by (auto simp: r'_def ring_inv_def ring_places_def places_append)
    then show ?thesis using q by (auto simp: r'_def same_buffer_def)
  next
    case 2
    have first: "tail_ptr r > head_ptr r \<or> (tail_ptr r = head_ptr r \<and> in_flight_packets r = 0)"
      using 2 fl chain_empty [of "head_ptr r" old] by auto
    show ?thesis
    proof (cases "tail_ptr r + k \<le> l2_pkt_buff_size r")
      case True
      then have q: "q = r" using assms(3) first by (simp add: alloc_place_def k_def)
      have "ring_inv r' (old @ [(tail_ptr q, k)]) []"
        using 2 k start fl fq q p(2) True by (auto simp: r'_def ring_inv_def ring_places_def places_append)
      then show ?thesis using q 2 by (auto simp: r'_def same_buffer_def)
    next
      case False
      then have q: "q = r\<lparr>cut_ptr := tail_ptr r, cut := True, tail_ptr := 0\<rparr>" "k \<le> head_ptr r"
        using assms(3) first by (auto simp: alloc_place_def k_def split: if_splits)
      have "ring_inv r' old [(0, k)]"
        using 2 k start fl fq q p(2) by (auto simp: r'_def ring_inv_def ring_places_def)
      then show ?thesis using q 2 by (auto simp: r'_def same_buffer_def)
    qed
  qed
qed

section \<open>The interface of a packet buffer\<close>

text \<open>
  \<open>holds s H\<close>: the buffer \<open>s\<close> has the packets \<open>H\<close>, addresses with lengths, that were given out and are not freed. What
  the network side of the simulator relies on.
\<close>

locale packet_space =
  fixes alloc :: "nat \<Rightarrow> 's \<Rightarrow> nat option \<times> 's"
    and free :: "nat \<Rightarrow> nat \<Rightarrow> 's \<Rightarrow> 's option"
    and holds :: "'s \<Rightarrow> (nat \<times> nat) set \<Rightarrow> bool"
    and bounds :: "nat \<times> nat \<Rightarrow> bool"
  assumes alloc_gives: "holds s H \<Longrightarrow> pkt_len_ok n \<Longrightarrow> alloc n s = (Some a, s') \<Longrightarrow> holds s' (insert (a, n) H) \<and> (\<forall>p \<in> H. apart (a, n) p) \<and> bounds (a, n)"
    and alloc_full: "holds s H \<Longrightarrow> pkt_len_ok n \<Longrightarrow> alloc n s = (None, s') \<Longrightarrow> holds s' H"
    and free_held: "holds s H \<Longrightarrow> (a, n) \<in> H \<Longrightarrow> \<exists>s'. free a n s = Some s' \<and> holds s' (H - {(a, n)})"
begin

text \<open>Requests and releases in any order, as long as only packets that are held are released.\<close>

inductive used :: "'s \<Rightarrow> 's \<Rightarrow> (nat \<times> nat) set \<Rightarrow> bool" for init where
  "used init init {}"
| "used init s H \<Longrightarrow> pkt_len_ok n \<Longrightarrow> alloc n s = (Some a, s') \<Longrightarrow> used init s' (insert (a, n) H)"
| "used init s H \<Longrightarrow> pkt_len_ok n \<Longrightarrow> alloc n s = (None, s') \<Longrightarrow> used init s' H"
| "used init s H \<Longrightarrow> (a, n) \<in> H \<Longrightarrow> free a n s = Some s' \<Longrightarrow> used init s' (H - {(a, n)})"

lemma used_holds:
  assumes "used init s H" "holds init {}"
  shows "holds s H \<and> (\<forall>p \<in> H. \<forall>q \<in> H. p = q \<or> apart p q) \<and> (\<forall>p \<in> H. bounds p)"
  using assms
proof (induction rule: used.induct)
  case (2 s H n a s')
  then show ?case using alloc_gives [of s H n a s'] by (auto simp: apart_def)
next
  case (3 s H n s')
  then show ?case using alloc_full [of s H n s'] by blast
next
  case (4 s H a n s')
  then show ?case using free_held [of s H a n] by auto
qed simp

lemma used_frees: "used init s H \<Longrightarrow> holds init {} \<Longrightarrow> (a, n) \<in> H \<Longrightarrow> \<exists>s'. free a n s = Some s'"
  using used_holds free_held by blast

end

text \<open>The ring as a packet buffer: its outstanding places are those of the packets held, rounded up to whole segments.\<close>

definition ring_holds :: "pkt_ring \<Rightarrow> (nat \<times> nat) set \<Rightarrow> bool" where
  "ring_holds r H \<longleftrightarrow> (\<exists>old new. ring_inv r old new
     \<and> outstanding r old new = (\<lambda>(a, n). (a - l2_pkt_buff_start r, whole_segments n)) ` H)
     \<and> (\<forall>(a, n) \<in> H. l2_pkt_buff_start r \<le> a \<and> pkt_len_ok n) \<and> inj_on fst H"

lemma whole_apart:
  "apart (a - start, whole_segments n) (b - start, whole_segments m) \<Longrightarrow> start \<le> a \<Longrightarrow> start \<le> b \<Longrightarrow> pkt_len_ok n \<Longrightarrow> pkt_len_ok m \<Longrightarrow> apart (a, n) (b, m)"
  using whole_segments_bounds [of n] whole_segments_bounds [of m] by (auto simp: apart_def)

lemma ring_alloc:
  assumes "ring_holds r H" "pkt_len_ok n" "allocate_pkt_space n r = (Some a, r')"
  shows "ring_holds r' (insert (a, n) H) \<and> (\<forall>p \<in> H. apart (a, n) p) \<and> l2_pkt_buff_start r \<le> a
    \<and> a + n \<le> l2_pkt_buff_start r + l2_pkt_buff_size r \<and> same_buffer r r'"
proof -
  let ?f = "\<lambda>(a, n). (a - l2_pkt_buff_start r, whole_segments n)"
  obtain old new where h: "ring_inv r old new" "outstanding r old new = ?f ` H" using assms(1) by (auto simp: ring_holds_def)
  then have p: "ring_places r old new" by (simp add: ring_inv_def)
  obtain q where q: "alloc_place (whole_segments n) r = Some q" "a = l2_pkt_buff_start q + tail_ptr q"
    "r' = q\<lparr>tail_ptr := tail_ptr q + whole_segments n, in_flight_packets := in_flight_packets q + 1\<rparr>"
    using assms(3) allocate_eq [OF p assms(2)] by (auto split: option.splits)
  obtain old' new' where i: "ring_inv r' old' new'" "old' @ new' = old @ new @ [(tail_ptr q, whole_segments n)]"
    "free_req_queue r' = free_req_queue r" "same_buffer r r'"
    using alloc_inv [OF h(1) assms(2) q(1)] unfolding q(3) [symmetric] by blast
  have a: "a = l2_pkt_buff_start r + tail_ptr q" using i(4) q(2,3) by (simp add: same_buffer_def)
  have p': "ring_places r' old' new'" using i(1) by (simp add: ring_inv_def)
  have ap: "apart m (tail_ptr q, whole_segments n)" if "m \<in> set (old @ new)" for m
    using ring_apart [OF p'] that unfolding i(2) by (auto simp: sorted_wrt_append)
  have "(tail_ptr q, whole_segments n) \<notin> set (old @ new)"
    using ap [of "(tail_ptr q, whole_segments n)"] whole_segments_bounds [OF assms(2)] by (auto simp: apart_def)
  then have "(tail_ptr q, whole_segments n) \<notin> set (free_req_queue r)" using p by (auto simp: ring_places_def)
  then have out: "outstanding r' old' new' = insert (tail_ptr q, whole_segments n) (outstanding r old new)"
    unfolding outstanding_def i(2,3) by auto
  have sub: "?f ` H \<subseteq> set (old @ new)" using h(2) unfolding outstanding_def by blast
  have ok: "l2_pkt_buff_start r \<le> fst m \<and> pkt_len_ok (snd m)" if "m \<in> H" for m using assms(1) that by (auto simp: ring_holds_def)
  have "apart (fst m, snd m) (a, n)" if m: "m \<in> H" for m
  proof -
    have "?f m \<in> set (old @ new)" using sub m by blast
    from ap [OF this] show ?thesis using whole_apart [of "fst m" "l2_pkt_buff_start r" "snd m" a n] ok [OF m] assms(2)
      by (simp add: a split_def)
  qed
  then have sep: "\<forall>m \<in> H. apart (a, n) m" by (auto simp: apart_def)
  have "a \<noteq> fst m" if "m \<in> H" for m using sep that assms(2) ok [OF that] by (auto simp: apart_def pkt_len_ok_def)
  then have "inj_on fst (insert (a, n) H)" using assms(1) by (auto simp: ring_holds_def)
  moreover have "outstanding r' old' new' = (\<lambda>(a, n). (a - l2_pkt_buff_start r', whole_segments n)) ` insert (a, n) H"
    using i(4) out h(2) by (simp add: a same_buffer_def)
  ultimately have "ring_holds r' (insert (a, n) H)"
    using i(1,4) ok assms(2) unfolding ring_holds_def same_buffer_def by (fastforce simp: a)
  moreover have "tail_ptr q + whole_segments n \<le> l2_pkt_buff_size r"
    using ring_inside [OF p', of "tail_ptr q" "whole_segments n"] i(4) unfolding i(2) by (simp add: same_buffer_def)
  ultimately show ?thesis using sep i(4) whole_segments_bounds [OF assms(2)] by (simp add: a)
qed

lemma ring_full: "ring_holds r H \<Longrightarrow> pkt_len_ok n \<Longrightarrow> allocate_pkt_space n r = (None, r') \<Longrightarrow> r' = r"
  by (auto simp: ring_holds_def ring_inv_def allocate_eq split: option.splits)

lemma ring_free:
  assumes "ring_holds r H" "(a, n) \<in> H"
  shows "\<exists>r'. free_pkt_space a n r = Some r' \<and> ring_holds r' (H - {(a, n)}) \<and> same_buffer r r'"
proof -
  let ?f = "\<lambda>(a, n). (a - l2_pkt_buff_start r, whole_segments n)"
  obtain old new where h: "ring_inv r old new" "outstanding r old new = ?f ` H" using assms(1) by (auto simp: ring_holds_def)
  have ok: "l2_pkt_buff_start r \<le> fst m" "pkt_len_ok (snd m)" if "m \<in> H" for m using assms(1) that by (auto simp: ring_holds_def)
  have inj: "inj_on fst H" using assms(1) by (simp add: ring_holds_def)
  have "(a - l2_pkt_buff_start r, whole_segments n) \<in> outstanding r old new" unfolding h(2) using assms(2) by force
  from free_inv [OF h(1) this] obtain r' k old' new' where
    f: "free_pkt_space (l2_pkt_buff_start r + (a - l2_pkt_buff_start r)) n r = Some r'" "ring_inv r' old' new'"
      "outstanding r' old' new' = outstanding r old new - {(a - l2_pkt_buff_start r, whole_segments n)}" "same_buffer r r'" by blast
  have "l2_pkt_buff_start r + (a - l2_pkt_buff_start r) = a" using ok(1) [OF assms(2)] by simp
  note f(1) [unfolded this]
  moreover have "inj_on ?f H"
  proof (rule inj_onI)
    fix x y assume xy: "x \<in> H" "y \<in> H" "?f x = ?f y"
    then have "fst x = fst y" using ok(1) [of x] ok(1) [of y] by (auto simp: split_def)
    then show "x = y" using inj xy by (auto dest: inj_onD)
  qed
  then have "?f ` (H - {(a, n)}) = ?f ` H - {?f (a, n)}" using assms(2) by (simp add: inj_on_image_set_diff)
  then have "outstanding r' old' new' = (\<lambda>(a, n). (a - l2_pkt_buff_start r', whole_segments n)) ` (H - {(a, n)})"
    using f(3,4) h(2) by (simp add: same_buffer_def)
  then have "ring_holds r' (H - {(a, n)})"
    using f(2,4) ok inj unfolding ring_holds_def same_buffer_def by (fastforce intro: inj_on_subset)
  ultimately show ?thesis using f(4) by blast
qed

lemma ring_new: "start + sz + 1 < 2 ^ 32 \<Longrightarrow> ring_holds (new_ring start sz) {}"
  unfolding ring_holds_def
  by (auto simp: ring_inv_def ring_places_def outstanding_def new_ring_def intro!: exI [of _ "[]"])

definition buffer_at :: "nat \<Rightarrow> nat \<Rightarrow> pkt_ring \<Rightarrow> (nat \<times> nat) set \<Rightarrow> bool" where
  "buffer_at start sz r H \<longleftrightarrow> ring_holds r H \<and> l2_pkt_buff_start r = start \<and> l2_pkt_buff_size r = sz"

definition inside_buffer :: "nat \<Rightarrow> nat \<Rightarrow> nat \<times> nat \<Rightarrow> bool" where
  "inside_buffer start sz p \<longleftrightarrow> start \<le> fst p \<and> fst p + snd p \<le> start + sz"

interpretation ring: packet_space allocate_pkt_space free_pkt_space "buffer_at start sz" "inside_buffer start sz" for start sz
proof
  show "buffer_at start sz s' (insert (a, n) H) \<and> (\<forall>p \<in> H. apart (a, n) p) \<and> inside_buffer start sz (a, n)"
    if "buffer_at start sz s H" "pkt_len_ok n" "allocate_pkt_space n s = (Some a, s')" for s H n a s'
    using ring_alloc [of s H n a s'] that by (simp add: buffer_at_def same_buffer_def inside_buffer_def)
  show "buffer_at start sz s' H"
    if "buffer_at start sz s H" "pkt_len_ok n" "allocate_pkt_space n s = (None, s')" for s H n s'
    using ring_full [of s H n s'] that by (simp add: buffer_at_def)
  show "\<exists>s'. free_pkt_space a n s = Some s' \<and> buffer_at start sz s' (H - {(a, n)})"
    if "buffer_at start sz s H" "(a, n) \<in> H" for s H a n
    using ring_free [of s H a n] that by (auto simp: buffer_at_def same_buffer_def)
qed

section \<open>Properties of the packet buffer\<close>

text \<open>Requests and releases from a new ring, and what is held.\<close>

inductive ring_run :: "nat \<Rightarrow> nat \<Rightarrow> pkt_ring \<Rightarrow> (nat \<times> nat) set \<Rightarrow> bool" for start sz where
  ring_begin: "ring_run start sz (new_ring start sz) {}"
| ring_gives: "ring_run start sz r H \<Longrightarrow> pkt_len_ok n \<Longrightarrow> allocate_pkt_space n r = (Some a, r') \<Longrightarrow> ring_run start sz r' (insert (a, n) H)"
| ring_refuses: "ring_run start sz r H \<Longrightarrow> pkt_len_ok n \<Longrightarrow> allocate_pkt_space n r = (None, r') \<Longrightarrow> ring_run start sz r' H"
| ring_frees: "ring_run start sz r H \<Longrightarrow> (a, n) \<in> H \<Longrightarrow> free_pkt_space a n r = Some r' \<Longrightarrow> ring_run start sz r' (H - {(a, n)})"

lemma ring_run_used: "ring_run start sz r H \<Longrightarrow> ring.used (new_ring start sz) r H"
  by (induction rule: ring_run.induct) (auto intro: ring.used.intros)

text \<open>
  C9: However packets of at least one byte and fewer than \<open>2 ^ 32 - 63\<close> are requested and released, from a buffer with
  \<open>start + sz + 1 < 2 ^ 32\<close>, as long as only packets that are held are released, with their size: the packets
  held never overlap and lie in the buffer, and no assertion of the release of one of them fails.
\<close>

theorem ring_packets_apart:
  assumes "ring_run start sz r H" "start + sz + 1 < 2 ^ 32" "p \<in> H"
  shows "(\<forall>q \<in> H. q = p \<or> apart p q) \<and> start \<le> fst p \<and> fst p + snd p \<le> start + sz
    \<and> (\<exists>r'. free_pkt_space (fst p) (snd p) r = Some r')"
proof -
  have new: "buffer_at start sz (new_ring start sz) {}" using ring_new [OF assms(2)] by (simp add: buffer_at_def new_ring_def)
  note used = ring_run_used [OF assms(1)]
  from ring.used_holds [OF used new] ring.used_frees [OF used new, of "fst p" "snd p"] assms(3)
  show ?thesis by (fastforce simp: inside_buffer_def)
qed

definition demo_ring :: pkt_ring where
  "demo_ring = snd (allocate_pkt_space 64 (snd (allocate_pkt_space 10 (new_ring 0x1000 256))))"

lemma demo_ring_run: "ring_run 0x1000 256 demo_ring {(0x1040, 64), (0x1000, 10)}"
proof -
  have a: "allocate_pkt_space 10 (new_ring 0x1000 256) = (Some 0x1000, snd (allocate_pkt_space 10 (new_ring 0x1000 256)))"
    by (simp add: allocate_pkt_space_def new_ring_def Let_def sub64_def add32_def whole_segments_def NI_PKT_ADDR_ALIGNMENT_def)
  have b: "allocate_pkt_space 64 (snd (allocate_pkt_space 10 (new_ring 0x1000 256))) = (Some 0x1040, demo_ring)"
    by (simp add: demo_ring_def allocate_pkt_space_def new_ring_def Let_def sub64_def add64_def add32_def whole_segments_def
        NI_PKT_ADDR_ALIGNMENT_def)
  have "ring_run 0x1000 256 (snd (allocate_pkt_space 10 (new_ring 0x1000 256))) {(0x1000, 10)}"
    by (rule ring_gives [OF ring_begin _ a]) (simp add: pkt_len_ok_def)
  from ring_gives [OF this _ b] show ?thesis by (simp add: pkt_len_ok_def insert_commute)
qed

theorem ring_packets_apart_witness:
  "apart (0x1040, 64) (0x1000, 10) \<and> (\<exists>r'. free_pkt_space 0x1040 64 demo_ring = Some r')"
  using ring_packets_apart [OF demo_ring_run, of "(0x1040, 64)"] by auto










end
