(* ===== verification/Axi_Slave.thy ===== *)
theory Axi_Slave
  imports Packet_Ring Axi_Master
begin

text \<open>
  The slave side of the bus: \<^verbatim>\<open>AXISlave.hpp\<close>. Address beats are queued, data beats become requests with the address of their
  first byte and their number of bytes, and every burst is answered once. The channels on which the slave sends are those of
  the master's. What the hardware drives is an argument; an assertion that fails is \<open>None\<close>.
\<close>

definition AXI_RESP_OKAY :: nat where "AXI_RESP_OKAY = 0"

record b_beat =
  b_resp :: nat
  b_id :: nat
  b_user :: nat

record r_beat =
  r_resp :: nat
  rb_last :: bool
  r_id :: nat
  r_user :: nat
  rb_data :: "u8 list"

record r_beat_request =
  rr_addr :: nat
  rr_data_size :: nat
  rr_r_beat :: r_beat

record w_beat_request =
  wr_addr :: nat
  wr_data_size :: nat
  wr_w_beat :: w_beat

record axi_slave =
  sl_aw_buffer_size :: nat
  sl_ar_buffer_size :: nat
  sl_w_buffer_size :: nat
  sl_r_buffer_size :: nat
  sl_b_buffer_size :: nat
  aw_beats :: "ax_beat list"
  ar_beats :: "ax_beat list"
  b_chan :: "b_beat sender"
  r_chan :: "r_beat sender"
  aw_pending_resp :: "ax_beat list"
  w_beat_requests :: "w_beat_request list"
  aw_ready :: bool
  ar_ready :: bool
  w_ready :: bool

text \<open>What the hardware drives.\<close>

record slave_in =
  aw_valid_i :: bool
  aw_i :: ax_beat
  ar_valid_i :: bool
  ar_i :: ax_beat
  w_valid_i :: bool
  w_i :: w_beat

definition blank_b :: b_beat where "blank_b = \<lparr>b_resp = 0, b_id = 0, b_user = 0\<rparr>"
definition blank_r :: r_beat where "blank_r = \<lparr>r_resp = 0, rb_last = False, r_id = 0, r_user = 0, rb_data = replicate AXI_SW 0\<rparr>"

definition new_axi_slave :: axi_slave where
  "new_axi_slave = \<lparr>sl_aw_buffer_size = 0, sl_ar_buffer_size = 0, sl_w_buffer_size = 0, sl_r_buffer_size = 0, sl_b_buffer_size = 0,
     aw_beats = [], ar_beats = [], b_chan = new_sender blank_b, r_chan = new_sender blank_r, aw_pending_resp = [], w_beat_requests = [],
     aw_ready = False, ar_ready = False, w_ready = False\<rparr>"

definition sl_set_aw_buffer :: "nat \<Rightarrow> axi_slave \<Rightarrow> axi_slave" where "sl_set_aw_buffer n s = s\<lparr>sl_aw_buffer_size := n\<rparr>"
definition sl_set_ar_buffer :: "nat \<Rightarrow> axi_slave \<Rightarrow> axi_slave" where "sl_set_ar_buffer n s = s\<lparr>sl_ar_buffer_size := n\<rparr>"
definition sl_set_w_buffer :: "nat \<Rightarrow> axi_slave \<Rightarrow> axi_slave" where "sl_set_w_buffer n s = s\<lparr>sl_w_buffer_size := n\<rparr>"
definition sl_set_r_buffer :: "nat \<Rightarrow> axi_slave \<Rightarrow> axi_slave" where "sl_set_r_buffer n s = s\<lparr>sl_r_buffer_size := n\<rparr>"
definition sl_set_b_buffer :: "nat \<Rightarrow> axi_slave \<Rightarrow> axi_slave" where "sl_set_b_buffer n s = s\<lparr>sl_b_buffer_size := n\<rparr>"

definition can_send_r_beat :: "axi_slave \<Rightarrow> bool" where
  "can_send_r_beat s = (sl_r_buffer_size s = 0 \<or> length (s_queue (r_chan s)) < sl_r_buffer_size s)"

definition send_r_beat :: "r_beat \<Rightarrow> axi_slave \<Rightarrow> axi_slave option" where
  "send_r_beat b s = (if can_send_r_beat s then Some (s\<lparr>r_chan := (r_chan s)\<lparr>s_queue := s_queue (r_chan s) @ [b]\<rparr>\<rparr>) else None)"

definition can_send_b_beat :: "axi_slave \<Rightarrow> bool" where
  "can_send_b_beat s = (sl_b_buffer_size s = 0 \<or> length (s_queue (b_chan s)) < sl_b_buffer_size s)"

definition send_b_beat :: "axi_slave \<Rightarrow> axi_slave option" where
  "send_b_beat s = (case aw_pending_resp s of
     aw # rest \<Rightarrow> if can_send_b_beat s
       then Some (s\<lparr>b_chan := (b_chan s)\<lparr>s_queue := s_queue (b_chan s) @ [\<lparr>b_resp = AXI_RESP_OKAY, b_id = ax_id aw, b_user = ax_user aw\<rparr>]\<rparr>,
              aw_pending_resp := rest\<rparr>) else None
   | [] \<Rightarrow> None)"

definition sl_has_w_beat :: "axi_slave \<Rightarrow> bool" where "sl_has_w_beat s = (w_beat_requests s \<noteq> [])"

definition get_next_w_beat :: "axi_slave \<Rightarrow> (w_beat_request \<times> axi_slave) option" where
  "get_next_w_beat s = (case w_beat_requests s of w # rest \<Rightarrow> Some (w, s\<lparr>w_beat_requests := rest\<rparr>) | [] \<Rightarrow> None)"

definition sl_has_r_beat :: "axi_slave \<Rightarrow> bool" where "sl_has_r_beat s = (ar_beats s \<noteq> [])"

text \<open>The bytes of the beat that is prepared are those that happen to be in its memory.\<close>

definition get_next_r_beat :: "u8 list \<Rightarrow> axi_slave \<Rightarrow> (r_beat_request \<times> axi_slave) option" where
  "get_next_r_beat junk s = (case ar_beats s of
     [] \<Rightarrow> None
   | ar # rest \<Rightarrow>
       let data_size = 2 ^ ax_size ar; last_one = (ax_len ar = 0);
           req = \<lparr>rr_addr = ax_addr ar, rr_data_size = data_size,
             rr_r_beat = \<lparr>r_resp = AXI_RESP_OKAY, rb_last = last_one, r_id = ax_id ar, r_user = ax_user ar, rb_data = junk\<rparr>\<rparr>
       in if \<not> (ax_burst ar = AXI_BURST_FIXED \<or> ax_burst ar = AXI_BURST_INCR) then None
          else let ar = (if ax_burst ar = AXI_BURST_INCR then ar\<lparr>ax_addr := add64 (ax_addr ar) data_size\<rparr> else ar)
               in Some (req, s\<lparr>ar_beats := (if last_one then rest else ar\<lparr>ax_len := ax_len ar - 1\<rparr> # rest)\<rparr>))"

section \<open>A clock cycle\<close>

definition sl_aw_posedge :: "slave_in \<Rightarrow> axi_slave \<Rightarrow> axi_slave" where
  "sl_aw_posedge i s =
     (let s = s\<lparr>aw_ready := False\<rparr>; can_accept_aw = sl_aw_buffer_size s = 0 \<or> length (aw_beats s) < sl_aw_buffer_size s
      in if aw_valid_i i \<and> can_accept_aw then s\<lparr>aw_beats := aw_beats s @ [(aw_i i)\<lparr>ax_offset := 0\<rparr>], aw_ready := True\<rparr> else s)"

definition sl_ar_posedge :: "slave_in \<Rightarrow> axi_slave \<Rightarrow> axi_slave" where
  "sl_ar_posedge i s =
     (let s = s\<lparr>ar_ready := False\<rparr>; can_accept_ar = sl_ar_buffer_size s = 0 \<or> length (ar_beats s) < sl_ar_buffer_size s
      in if ar_valid_i i \<and> can_accept_ar then s\<lparr>ar_beats := ar_beats s @ [(ar_i i)\<lparr>ax_offset := 0\<rparr>], ar_ready := True\<rparr> else s)"

definition builtin_popcount :: "u32 \<Rightarrow> nat" where "builtin_popcount x = length (filter (bit x) [0 ..< 32])"

definition strb_bytes :: "u64 \<Rightarrow> nat" where
  "strb_bytes strb = builtin_popcount (ucast strb) + builtin_popcount (ucast (drop_bit 32 strb))"

text \<open>The request of a data beat of a burst, and the burst behind it.\<close>

definition w_request :: "ax_beat \<Rightarrow> w_beat \<Rightarrow> w_beat_request \<times> ax_beat" where
  "w_request aw w =
     (let data_size = strb_bytes (w_strb w)
      in (\<lparr>wr_addr = add64 (ax_addr aw) (ax_offset aw), wr_data_size = data_size, wr_w_beat = w\<rparr>,
          aw\<lparr>ax_offset := add32 (ax_offset aw) data_size\<rparr>))"

definition sl_w_posedge :: "slave_in \<Rightarrow> axi_slave \<Rightarrow> axi_slave option" where
  "sl_w_posedge i s =
     (let s = s\<lparr>w_ready := False\<rparr>; can_accept_w = sl_w_buffer_size s = 0 \<or> length (w_beat_requests s) < sl_w_buffer_size s
      in if \<not> (w_valid_i i \<and> can_accept_w) then Some s
         else (case aw_beats s of
           [] \<Rightarrow> None
         | aw # rest \<Rightarrow>
             let (req, aw) = w_request aw (w_i i);
                 s = s\<lparr>w_beat_requests := w_beat_requests s @ [req], w_ready := True\<rparr>
             in Some (if w_last (w_i i) = 1 then s\<lparr>aw_pending_resp := aw_pending_resp s @ [aw], aw_beats := rest\<rparr>
                      else s\<lparr>aw_beats := aw # rest\<rparr>)))"

definition sl_r_posedge :: "axi_slave \<Rightarrow> axi_slave" where "sl_r_posedge s = s\<lparr>r_chan := sender_posedge (\<lambda>b. b) (r_chan s)\<rparr>"
definition sl_r_negedge :: "axi_slave \<Rightarrow> axi_slave" where "sl_r_negedge s = s\<lparr>r_chan := sender_negedge (r_chan s)\<rparr>"
definition sl_b_posedge :: "axi_slave \<Rightarrow> axi_slave" where "sl_b_posedge s = s\<lparr>b_chan := sender_posedge (\<lambda>b. b) (b_chan s)\<rparr>"
definition sl_b_negedge :: "axi_slave \<Rightarrow> axi_slave" where "sl_b_negedge s = s\<lparr>b_chan := sender_negedge (b_chan s)\<rparr>"

definition slave_posedge :: "slave_in \<Rightarrow> axi_slave \<Rightarrow> axi_slave option" where
  "slave_posedge i s = map_option (\<lambda>s. sl_b_posedge (sl_r_posedge s)) (sl_w_posedge i (sl_ar_posedge i (sl_aw_posedge i s)))"

definition slave_negedge :: "axi_slave \<Rightarrow> axi_slave" where
  "slave_negedge s = sl_b_negedge (sl_r_negedge s)"

section \<open>The beats of a read burst\<close>

text \<open>The requests of the burst at the front.\<close>

fun next_reads :: "nat \<Rightarrow> u8 list \<Rightarrow> axi_slave \<Rightarrow> (r_beat_request list \<times> axi_slave) option" where
  "next_reads 0 junk s = Some ([], s)"
| "next_reads (Suc k) junk s = Option.bind (get_next_r_beat junk s)
     (\<lambda>(r, s). Option.bind (next_reads k junk s) (\<lambda>(rs, s). Some (r # rs, s)))"

lemma next_reads_burst:
  assumes "ar_beats s = ar # rest" "ax_burst ar = AXI_BURST_INCR" "ax_addr ar + (ax_len ar + 1) * 2 ^ ax_size ar < 2 ^ 64"
  shows "\<exists>rs. next_reads (ax_len ar + 1) junk s = Some (rs, s\<lparr>ar_beats := rest\<rparr>)
    \<and> map rr_addr rs = map (\<lambda>i. ax_addr ar + i * 2 ^ ax_size ar) [0 ..< ax_len ar + 1]
    \<and> map (\<lambda>r. rb_last (rr_r_beat r)) rs = replicate (ax_len ar) False @ [True]
    \<and> (\<forall>r \<in> set rs. rr_data_size r = 2 ^ ax_size ar \<and> r_id (rr_r_beat r) = ax_id ar)"
  using assms
proof (induction "ax_len ar" arbitrary: ar s)
  case 0
  then show ?case by (simp add: get_next_r_beat_def Let_def)
next
  case (Suc k)
  let ?n = "2 ^ ax_size ar"
  define ar' where "ar' = ar\<lparr>ax_addr := ax_addr ar + ?n, ax_len := k\<rparr>"
  have len: "ax_len ar = Suc k" using Suc.hyps(2) by simp
  then have "ax_addr ar + ?n + (k + 1) * ?n < 2 ^ 64" using Suc.prems(3) by (simp add: algebra_simps)
  note ih = Suc.hyps(1) [of ar' "s\<lparr>ar_beats := ar' # rest\<rparr>"]
  have "add64 (ax_addr ar) ?n = ax_addr ar + ?n" using Suc.prems(3) len by (simp add: add64_def)
  define r where "r = \<lparr>rr_addr = ax_addr ar, rr_data_size = ?n,
    rr_r_beat = \<lparr>r_resp = AXI_RESP_OKAY, rb_last = False, r_id = ax_id ar, r_user = ax_user ar, rb_data = junk\<rparr>\<rparr>"
  have step: "get_next_r_beat junk s = Some (r, s\<lparr>ar_beats := ar' # rest\<rparr>)"
    using Suc.prems(1,2) len \<open>add64 (ax_addr ar) ?n = ax_addr ar + ?n\<close> by (simp add: get_next_r_beat_def Let_def ar'_def r_def)
  from ih obtain rs where rs: "next_reads (k + 1) junk (s\<lparr>ar_beats := ar' # rest\<rparr>) = Some (rs, s\<lparr>ar_beats := rest\<rparr>)"
    "map rr_addr rs = map (\<lambda>i. ax_addr ar + ?n + i * ?n) [0 ..< k + 1]" "map (\<lambda>r. rb_last (rr_r_beat r)) rs = replicate k False @ [True]"
    "\<forall>r \<in> set rs. rr_data_size r = ?n \<and> r_id (rr_r_beat r) = ax_id ar"
    using Suc.prems(2) \<open>ax_addr ar + ?n + (k + 1) * ?n < 2 ^ 64\<close> by (auto simp: ar'_def)
  have up: "[0 ..< Suc k + 1] = 0 # map Suc [0 ..< k + 1]" by (simp add: map_Suc_upt upt_conv_Cons del: upt_Suc)
  have "map (\<lambda>i. ax_addr ar + i * ?n) [0 ..< Suc k + 1] = ax_addr ar # map (\<lambda>i. ax_addr ar + ?n + i * ?n) [0 ..< k + 1]"
    unfolding up by (simp add: add.assoc del: upt_Suc)
  moreover have "next_reads (Suc k + 1) junk s = Some (r # rs, s\<lparr>ar_beats := rest\<rparr>)"
    using next_reads.simps(2) [of "k + 1" junk s] by (simp only: step bind.bind_lunit case_prod_conv rs(1) add_Suc)
  ultimately show ?case using rs(2-4) unfolding len by (intro exI [of _ "r # rs"]) (simp add: r_def del: upt_Suc next_reads.simps)
qed

text \<open>
  A read burst becomes one request for each of its beats, the last one marked, and the burst is gone. The request for a beat has the
  address the bus defines for it, except that behind a burst that does not start at a multiple of its size every later request
  is as far behind the beat as the start was behind the multiple.
\<close>

theorem slave_read_requests:
  assumes "ar_beats s = ar # rest" "ax_burst ar = AXI_BURST_INCR" "ax_addr ar + (ax_len ar + 1) * 2 ^ ax_size ar < 2 ^ 32"
  shows "\<exists>rs. next_reads (ax_len ar + 1) junk s = Some (rs, s\<lparr>ar_beats := rest\<rparr>)
    \<and> map rr_addr rs = map (\<lambda>i. beat_addr ar i + (if i = 0 then 0 else ax_addr ar mod 2 ^ ax_size ar)) [0 ..< ax_len ar + 1]
    \<and> map (\<lambda>r. rb_last (rr_r_beat r)) rs = replicate (ax_len ar) False @ [True]
    \<and> (\<forall>r \<in> set rs. rr_data_size r = 2 ^ ax_size ar \<and> r_id (rr_r_beat r) = ax_id ar)"
proof -
  let ?n = "2 ^ ax_size ar"
  have d: "ax_addr ar = ax_addr ar div ?n * ?n + ax_addr ar mod ?n" by (rule div_mult_mod_eq [symmetric])
  have "beat_addr ar i + (if i = 0 then 0 else ax_addr ar mod ?n) = ax_addr ar + i * ?n" if i: "i \<le> ax_len ar" for i
  proof (cases "i = 0")
    case False
    have "i * ?n \<le> (ax_len ar + 1) * ?n" using i by (intro mult_right_mono) simp_all
    then have "ax_addr ar div ?n * ?n + i * ?n < 2 ^ 32" using assms(3) d by linarith
    then have "beat_addr ar i = ax_addr ar div ?n * ?n + i * ?n"
      using False by (simp add: beat_addr_def axi_aligned_address_def axi_num_bytes_def push_bit_eq_mult add32_def)
    then have "beat_addr ar i + ax_addr ar mod ?n = ax_addr ar + i * ?n" using d by linarith
    then show ?thesis using False by simp
  qed (simp add: beat_addr_def)
  then have eq: "map (\<lambda>i. beat_addr ar i + (if i = 0 then 0 else ax_addr ar mod ?n)) [0 ..< ax_len ar + 1] = map (\<lambda>i. ax_addr ar + i * ?n) [0 ..< ax_len ar + 1]"
    by (intro map_cong refl) (simp del: upt_Suc)
  have "ax_addr ar + (ax_len ar + 1) * ?n < 2 ^ 64" by (rule less_le_trans [OF assms(3)]) simp
  from next_reads_burst [OF assms(1,2) this, of junk] show ?thesis by (simp only: eq)
qed

definition demo_slave :: axi_slave where
  "demo_slave = new_axi_slave\<lparr>ar_beats := [blank_ax\<lparr>ax_addr := 0x1002, ax_len := 1, ax_size := 2, ax_burst := AXI_BURST_INCR\<rparr>]\<rparr>"

theorem slave_read_requests_witness:
  "\<exists>rs. next_reads 2 [] demo_slave = Some (rs, demo_slave\<lparr>ar_beats := []\<rparr>) \<and> map rr_addr rs = [0x1002, 0x1006]"
proof -
  let ?ar = "blank_ax\<lparr>ax_addr := 0x1002, ax_len := 1, ax_size := 2, ax_burst := AXI_BURST_INCR\<rparr>"
  have "beat_addr ?ar (Suc 0) = 0x1004"
    by (simp add: beat_addr_def axi_aligned_address_def axi_num_bytes_def push_bit_eq_mult add32_def blank_ax_def)
  moreover have "beat_addr ?ar 0 = 0x1002" by (simp add: beat_addr_def blank_ax_def)
  moreover have "[0 ..< 1 + 1] = [0, Suc 0]" by (simp add: upt_rec)
  moreover have "ax_addr ?ar = 0x1002" "ax_len ?ar = 1" "ax_size ?ar = 2" "ax_burst ?ar = AXI_BURST_INCR" by simp_all
  moreover have "ar_beats demo_slave = [?ar]" by (simp add: demo_slave_def)
  ultimately have addrs: "map (\<lambda>i. beat_addr ?ar i + (if i = 0 then 0 else ax_addr ?ar mod 2 ^ ax_size ?ar)) [0 ..< ax_len ?ar + 1] = [0x1002, 0x1006]"
    and ar: "ar_beats demo_slave = [?ar]" "ax_burst ?ar = AXI_BURST_INCR" "ax_addr ?ar + (ax_len ?ar + 1) * 2 ^ ax_size ?ar < 2 ^ 32"
    and two: "ax_len ?ar + 1 = 2" by simp_all
  from slave_read_requests [OF ar, of "[]"] show ?thesis unfolding addrs unfolding two by (elim exE conjE) (intro exI conjI)
qed

section \<open>The places of the beats of a write burst\<close>

text \<open>The strobe of a beat that carries the bytes of the lanes from \<open>lo\<close> up to, and without, \<open>hi\<close>.\<close>

definition lanes :: "u64 \<Rightarrow> nat \<Rightarrow> nat \<Rightarrow> bool" where
  "lanes strb lo hi \<longleftrightarrow> lo < hi \<and> hi \<le> 64 \<and> (\<forall>i < 64. bit strb i \<longleftrightarrow> lo \<le> i \<and> i < hi)"

definition builtin_ffsl :: "u64 \<Rightarrow> nat" where
  "builtin_ffsl x = (if x = 0 then 0 else length (takeWhile (\<lambda>i. \<not> bit x i) [0 ..< 64]) + 1)"

lemma strb_bytes_eq: "strb_bytes strb = length (filter (bit strb) [0 ..< 64])"
proof -
  have lo: "filter (bit (ucast strb :: u32)) [0 ..< 32] = filter (bit strb) [0 ..< 32]"
    by (rule filter_cong) (simp_all add: bit_simps)
  have hi: "bit (ucast (drop_bit 32 strb) :: u32) i \<longleftrightarrow> bit strb (i + 32)" if "i < 32" for i
    using that by (simp add: bit_simps add.commute)
  have "[32 ..< 64 :: nat] = map (\<lambda>i. i + 32) [0 ..< 32]" using map_add_upt [of 32 32] by simp
  then have "length (filter (bit strb) [32 ..< 64]) = length (filter (\<lambda>i. bit strb (i + 32)) [0 ..< 32])"
    by (simp add: filter_map comp_def del: upt_Suc upt_rec_numeral)
  also have "filter (\<lambda>i. bit strb (i + 32)) [0 ..< 32] = filter (bit (ucast (drop_bit 32 strb) :: u32)) [0 ..< 32]"
    by (rule filter_cong) (simp_all add: hi)
  finally have "length (filter (bit strb) [32 ..< 64]) = builtin_popcount (ucast (drop_bit 32 strb))" by (simp only: builtin_popcount_def)
  moreover have "[0 ..< 64 :: nat] = [0 ..< 32] @ [32 ..< 64]" using upt_add_eq_append [of 0 32 32] by simp
  ultimately show ?thesis using lo by (simp only: strb_bytes_def builtin_popcount_def filter_append length_append)
qed

lemma lanes_count: "lanes strb lo hi \<Longrightarrow> strb_bytes strb = hi - lo"
proof -
  assume l: "lanes strb lo hi"
  have "filter (bit strb) [0 ..< 64] = filter (\<lambda>i. lo \<le> i \<and> i < hi) [0 ..< 64]"
    by (rule filter_cong) (use l in \<open>simp_all add: lanes_def\<close>)
  moreover have "set (filter (\<lambda>i. lo \<le> i \<and> i < hi) [0 ..< 64]) = {lo ..< hi}" using l by (auto simp: lanes_def)
  moreover have "distinct (filter (\<lambda>i. lo \<le> i \<and> i < hi) [0 ..< 64])" by (simp only: distinct_filter distinct_upt)
  ultimately show ?thesis unfolding strb_bytes_eq by (metis card_atLeastLessThan distinct_card)
qed

lemma lanes_first: "lanes strb lo hi \<Longrightarrow> strb \<noteq> 0 \<and> builtin_ffsl strb = lo + 1"
proof -
  assume l: "lanes strb lo hi"
  then have "bit strb lo" by (simp add: lanes_def)
  then have nz: "strb \<noteq> 0" by auto
  have "[0 ..< 64] = [0 ..< lo] @ lo # [Suc lo ..< 64]"
    using l upt_add_eq_append [of 0 lo "64 - lo"] by (simp add: lanes_def upt_conv_Cons del: upt_rec_numeral)
  moreover have "takeWhile (\<lambda>i. \<not> bit strb i) ([0 ..< lo] @ lo # [Suc lo ..< 64]) = [0 ..< lo]"
    using l \<open>bit strb lo\<close> by (subst takeWhile_append2) (auto simp: lanes_def simp del: upt_rec_numeral)
  ultimately show ?thesis using nz by (simp add: builtin_ffsl_def del: upt_rec_numeral)
qed

end
