(* ===== verification/Nic_Inbound.thy ===== *)
theory Nic_Inbound
  imports Packet_Ring Axi_Master Gdriver
begin

text \<open>
  The network side of the simulator that brings packets in: \<^verbatim>\<open>NICInbound.hpp\<close>. A packet is given a place in the packet
  buffer and written there over the bus; when the write is complete, its descriptor (HER) is handed to the accelerator,
  whose feedback frees the place. A failed assertion is \<open>None\<close>. What the hardware drives in a cycle, with the time, is an
  argument of \<open>ni_posedge\<close>; the calls of the feedback function are a list in the state. The printed statistics are left out.
\<close>

record her_descr =
  her_msgid :: nat
  her_eom :: nat
  her_addr :: nat
  her_size :: nat
  her_xfer_size :: nat
  mpq_meta :: spin_ec
  her_user_ptr :: nat
  nic_arrival_time :: nat

record incoming_her =
  ih_her :: her_descr
  ih_pkt_data :: "u8 list"
  ih_pkt_len :: nat
  ih_wait_cycles :: nat

record pktentry =
  pe_nic_arrival_time :: nat
  pe_pspin_arrival_time :: nat
  pe_size :: nat
  pe_user_ptr :: nat

record nic_inbound =
  ni_ring :: pkt_ring
  ni_axi :: axi_master
  hers_to_send :: nat
  incoming_hers :: "incoming_her list"
  queued_hers :: "her_descr list"
  ready_hers :: "her_descr list"
  packet_wait_cycles :: nat
  app_sent_eos :: bool
  has_feedback_cb :: bool
  feedback_calls :: "(nat \<times> nat \<times> nat \<times> nat) list"
  total_bytes_sent :: nat
  total_pkts :: nat
  time_last_feedback :: nat
  time_first_feedback :: nat
  total_feedbacks :: nat
  ni_ctrl_stalls :: nat
  sum_pkt_latency :: nat
  min_pkt_latency :: nat
  max_pkt_latency :: nat
  pktmap :: "nat \<rightharpoonup> pktentry"
  her_valid_o :: bool
  her_o :: "her_descr option"
  feedback_ready_o :: bool
  eos_o :: bool

text \<open>What the hardware drives.\<close>

record ni_in =
  pspin_active_i :: bool
  her_ready_i :: bool
  feedback_valid_i :: bool
  feedback_her_addr_i :: nat
  feedback_her_size_i :: nat
  ni_bus :: bus_in
  sim_time :: nat

definition new_nic_inbound :: "nat \<Rightarrow> nat \<Rightarrow> nic_inbound" where
  "new_nic_inbound start sz = \<lparr>ni_ring = new_ring start sz, ni_axi = new_axi_master, hers_to_send = 0, incoming_hers = [],
     queued_hers = [], ready_hers = [], packet_wait_cycles = 0, app_sent_eos = False, has_feedback_cb = False, feedback_calls = [],
     total_bytes_sent = 0, total_pkts = 0, time_last_feedback = 0, time_first_feedback = 0, total_feedbacks = 0,
     ni_ctrl_stalls = 0, sum_pkt_latency = 0, min_pkt_latency = 0, max_pkt_latency = 0, pktmap = Map.empty, her_valid_o = False,
     her_o = None, feedback_ready_o = True, eos_o = False\<rparr>"

section \<open>Packets from the application\<close>

definition set_feedback_cb :: "nic_inbound \<Rightarrow> nic_inbound" where "set_feedback_cb s = s\<lparr>has_feedback_cb := True\<rparr>"

definition set_eos :: "nic_inbound \<Rightarrow> nic_inbound" where "set_eos s = s\<lparr>app_sent_eos := True\<rparr>"

definition add_packet :: "her_descr \<Rightarrow> u8 list \<Rightarrow> nat \<Rightarrow> nat \<Rightarrow> nic_inbound \<Rightarrow> nic_inbound" where
  "add_packet her pkt_data pkt_len wait_cycles s =
     s\<lparr>incoming_hers := incoming_hers s @ [\<lparr>ih_her = her, ih_pkt_data = take pkt_len pkt_data, ih_pkt_len = pkt_len, ih_wait_cycles = wait_cycles\<rparr>],
       hers_to_send := add32 (hers_to_send s) 1\<rparr>"

text \<open>
  A trace: the numbers of each line, and one file with the bytes of all packets. A line of other than 13 numbers and a file that
  is too short fail an assertion. The fields of a descriptor that the code leaves unset are zero here. The fields of the context are 32 bits wide, but for the address in the host.
\<close>

definition PCIE_START_ADDR :: u64 where "PCIE_START_ADDR = 0x1000000000000000"
definition L1_CLUSTER_ACTUAL_MEM_SIZE :: u32 where "L1_CLUSTER_ACTUAL_MEM_SIZE = 0x00100000"
definition L1_RUNTIME_OFFSET :: u32 where "L1_RUNTIME_OFFSET = 0x00000400"
definition L1_RUNTIME_SIZE :: u32 where "L1_RUNTIME_SIZE = 0x00004000"
definition L1_PKT_BUFF_OFFSET :: u32 where "L1_PKT_BUFF_OFFSET = L1_RUNTIME_OFFSET + L1_RUNTIME_SIZE"
definition L1_PKT_BUFF_SIZE :: u32 where "L1_PKT_BUFF_SIZE = 0x00008000"
definition L2_PKT_BUFF_START :: nat where "L2_PKT_BUFF_START = 0x1c400000"
definition L2_PKT_BUFF_SIZE :: nat where "L2_PKT_BUFF_SIZE = 4 * 1024 * 1024"
definition L1_SCRATCHPAD_OFFSET :: u32 where "L1_SCRATCHPAD_OFFSET = L1_PKT_BUFF_OFFSET + L1_PKT_BUFF_SIZE"
definition L1_SCRATCHPAD_SIZE :: u32 where "L1_SCRATCHPAD_SIZE = L1_CLUSTER_ACTUAL_MEM_SIZE - L1_SCRATCHPAD_OFFSET"

definition trace_her :: "nat list \<Rightarrow> her_descr" where
  "trace_her l = \<lparr>her_msgid = l ! 0, her_eom = (if l ! 11 = 1 then 1 else 0), her_addr = 0, her_size = l ! 9, her_xfer_size = l ! 10,
     mpq_meta = \<lparr>ec_handler_mem_addr = of_nat (l ! 7), ec_handler_mem_size = of_nat (l ! 8), ec_host_mem_addr = PCIE_START_ADDR,
       ec_host_mem_size = 0x40000000, ec_hh_addr = of_nat (l ! 1), ec_hh_size = of_nat (l ! 2), ec_ph_addr = of_nat (l ! 3),
       ec_ph_size = of_nat (l ! 4), ec_th_addr = of_nat (l ! 5), ec_th_size = of_nat (l ! 6),
       ec_scratchpad_addr = replicate NUM_CLUSTERS 0, ec_scratchpad_size = replicate NUM_CLUSTERS L1_SCRATCHPAD_SIZE\<rparr>,
     her_user_ptr = 0, nic_arrival_time = 0\<rparr>"

fun read_trace_lines :: "nat list list \<Rightarrow> u8 list \<Rightarrow> nic_inbound \<Rightarrow> nic_inbound option" where
  "read_trace_lines [] data s = Some s"
| "read_trace_lines (l # ls) data s =
     (if length l \<noteq> 13 then None
      else let pkt_size = l ! 9; pkt_data = take pkt_size data
           in if length pkt_data \<noteq> pkt_size then None
              else read_trace_lines ls (drop pkt_size data) (add_packet (trace_her l) pkt_data pkt_size (l ! 12) s))"

text \<open>A file is \<open>None\<close> when it is not there. A trace without a line fails the assertion on the first one.\<close>

definition read_trace :: "nat list list option \<Rightarrow> u8 list option \<Rightarrow> nic_inbound \<Rightarrow> (nat \<times> nic_inbound) option" where
  "read_trace pkt_file data_file s =
     (case pkt_file of None \<Rightarrow> Some (1, s)
      | Some ls \<Rightarrow> (case data_file of None \<Rightarrow> Some (1, s)
          | Some data \<Rightarrow> if ls = [] then None else map_option (\<lambda>s. (0, s)) (read_trace_lines ls data s)))"

section \<open>A clock cycle\<close>

text \<open>The descriptor of the packet is at the front of the queue; its address and its time of arrival are set there.\<close>

definition process_packet :: "nat \<Rightarrow> her_descr \<Rightarrow> u8 list \<Rightarrow> nat \<Rightarrow> nic_inbound \<Rightarrow> (bool \<times> nic_inbound) option" where
  "process_packet now her pkt_data pkt_size s =
     (case allocate_pkt_space pkt_size (ni_ring s) of
        (None, r) \<Rightarrow> Some (False, s\<lparr>ni_ring := r\<rparr>)
      | (Some pkt_addr, r) \<Rightarrow>
          (case axi_write pkt_addr pkt_data pkt_size 0 (ni_axi s) of
             None \<Rightarrow> None
           | Some m \<Rightarrow> Some (True, s\<lparr>ni_ring := r, ni_axi := m,
               queued_hers := queued_hers s @ [her\<lparr>her_addr := pkt_addr, nic_arrival_time := now\<rparr>]\<rparr>)))"

text \<open>
  A packet for which there is no place waits. Its waiting cycles are assigned the value they had before they were decremented.
\<close>

definition progress_incoming_packets :: "nat \<Rightarrow> nic_inbound \<Rightarrow> nic_inbound option" where
  "progress_incoming_packets now s =
     (case incoming_hers s of
        [] \<Rightarrow> Some s
      | ih # rest \<Rightarrow>
          let was_waiting = packet_wait_cycles s > 0;
              s = (if was_waiting then s\<lparr>packet_wait_cycles := packet_wait_cycles s - 1\<rparr> else s)
          in if was_waiting \<and> packet_wait_cycles s > 0 then Some s
             else (case process_packet now (ih_her ih) (ih_pkt_data ih) (ih_pkt_len ih) s of
                     None \<Rightarrow> None
                   | Some (True, s) \<Rightarrow> Some (s\<lparr>packet_wait_cycles := ih_wait_cycles ih, incoming_hers := rest\<rparr>)
                   | Some (False, s) \<Rightarrow>
                       Some (s\<lparr>incoming_hers := ih\<lparr>ih_wait_cycles := (if ih_wait_cycles ih > 0 then ih_wait_cycles ih else 0)\<rparr> # rest\<rparr>)))"

definition her_progress_posedge :: "bool \<Rightarrow> nat \<Rightarrow> nic_inbound \<Rightarrow> nic_inbound option" where
  "her_progress_posedge her_ready now s =
     (let s = s\<lparr>her_valid_o := False\<rparr>
      in if \<not> her_ready then Some (s\<lparr>ni_ctrl_stalls := add32 (ni_ctrl_stalls s) 1\<rparr>)
         else (case ready_hers s of
           [] \<Rightarrow> Some s
         | her # rest \<Rightarrow>
             let s = s\<lparr>her_o := Some (her\<lparr>her_msgid := her_msgid her mod 2 ^ 16\<rparr>), her_valid_o := True,
                   hers_to_send := sub32 (hers_to_send s) 1, ready_hers := rest\<rparr>;
                 entry = \<lparr>pe_nic_arrival_time = nic_arrival_time her, pe_pspin_arrival_time = now, pe_size = her_size her,
                   pe_user_ptr = her_user_ptr her\<rparr>
             in if pktmap s (her_addr her) \<noteq> None then None
                else let s = s\<lparr>pktmap := (pktmap s)(her_addr her \<mapsto> entry), total_bytes_sent := add64 (total_bytes_sent s) (her_size her),
                           total_pkts := add64 (total_pkts s) 1\<rparr>
                     in Some (if hers_to_send s = 0 \<and> app_sent_eos s then s\<lparr>eos_o := True\<rparr> else s)))"

text \<open>The call of the application, and the times kept for the statistics.\<close>

definition call_feedback_cb :: "nat \<Rightarrow> pktentry \<Rightarrow> nic_inbound \<Rightarrow> nic_inbound" where
  "call_feedback_cb now entry s =
     (if has_feedback_cb s then s\<lparr>feedback_calls := feedback_calls s @
        [(pe_user_ptr entry, pe_nic_arrival_time entry, pe_pspin_arrival_time entry, now)]\<rparr> else s)"

definition feedback_times :: "nat \<Rightarrow> nat \<Rightarrow> nic_inbound \<Rightarrow> nic_inbound" where
  "feedback_times now latency s =
     (let s = (if total_feedbacks s = 0 then s\<lparr>time_first_feedback := now, min_pkt_latency := latency, max_pkt_latency := latency\<rparr>
               else s\<lparr>min_pkt_latency := min (min_pkt_latency s) latency, max_pkt_latency := max (max_pkt_latency s) latency\<rparr>)
      in s\<lparr>time_last_feedback := now, total_feedbacks := add32 (total_feedbacks s) 1\<rparr>)"

definition feedback_progress :: "ni_in \<Rightarrow> nic_inbound \<Rightarrow> nic_inbound option" where
  "feedback_progress i s =
     (if \<not> (feedback_ready_o s \<and> feedback_valid_i i) then Some s
      else (case pktmap s (feedback_her_addr_i i) of
        None \<Rightarrow> None
      | Some entry \<Rightarrow>
          let latency = sub64 (sim_time i) (pe_nic_arrival_time entry)
          in (case free_pkt_space (feedback_her_addr_i i) (feedback_her_size_i i) (ni_ring s) of
                None \<Rightarrow> None
              | Some r \<Rightarrow>
                  let s = call_feedback_cb (sim_time i) entry (s\<lparr>ni_ring := r, sum_pkt_latency := add64 (sum_pkt_latency s) latency\<rparr>)
                  in Some (feedback_times (sim_time i) latency (s\<lparr>pktmap := (pktmap s)(feedback_her_addr_i i := None)\<rparr>)))))"

definition progress_axi_writes :: "axi_master \<Rightarrow> axi_master option" where
  "progress_axi_writes m =
     Option.bind (if has_aw_beat m \<and> can_send_aw_beat m then send_aw_beat m else Some m)
       (\<lambda>m. if has_w_beat m \<and> can_send_w_beat m then send_w_beat m else Some m)"

definition progress_axi_write_responses :: "nic_inbound \<Rightarrow> nic_inbound option" where
  "progress_axi_write_responses s =
     (if \<not> has_b_beat (ni_axi s) then Some s
      else (case consume_b_beat (ni_axi s) of
        None \<Rightarrow> None
      | Some (write_completed, m) \<Rightarrow>
          if write_completed then
            (case queued_hers s of
               [] \<Rightarrow> None
             | her # rest \<Rightarrow> Some (s\<lparr>ni_axi := m, queued_hers := rest, ready_hers := ready_hers s @ [her]\<rparr>))
          else Some (s\<lparr>ni_axi := m\<rparr>)))"

definition ni_posedge :: "ni_in \<Rightarrow> nic_inbound \<Rightarrow> nic_inbound option" where
  "ni_posedge i s =
     (if \<not> pspin_active_i i then Some s
      else Option.bind (progress_axi_writes (ni_axi s)) (\<lambda>m.
           Option.bind (master_posedge (ni_bus i) m) (\<lambda>m.
           Option.bind (progress_axi_write_responses (s\<lparr>ni_axi := m\<rparr>)) (\<lambda>s.
           Option.bind (progress_incoming_packets (sim_time i) s) (\<lambda>s.
           Option.bind (her_progress_posedge (her_ready_i i) (sim_time i) s) (\<lambda>s.
           feedback_progress i s))))))"

text \<open>The ready signals of the sending channels are what the hardware drives at the falling edge.\<close>

definition ni_negedge :: "nic_inbound \<Rightarrow> nic_inbound" where
  "ni_negedge s = s\<lparr>ni_axi := master_negedge (ni_axi s)\<rparr>"

section \<open>The invariant\<close>

text \<open>What is owed to the master: its answers are those of the packets that are queued.\<close>

definition writes_ok :: "axi_master \<Rightarrow> nat \<Rightarrow> bool" where
  "writes_ok m k \<longleftrightarrow> (\<forall>n \<in> set (write_queue m). 0 < n \<and> n < 2 ^ 32) \<and> b_beats_buffer_size m = 0 \<and> read_queue m = []
     \<and> length (filter (\<lambda>a. a) (b_queue m @ answers (write_queue m))) = k"

text \<open>The packets that have a place in the buffer: those not handed over yet, and those in the accelerator.\<close>

definition ni_held :: "nic_inbound \<Rightarrow> (nat \<times> nat) set" where
  "ni_held s = (\<lambda>h. (her_addr h, her_size h)) ` set (ready_hers s @ queued_hers s) \<union> {(a, pe_size e) | a e. pktmap s a = Some e}"

definition packet_ok :: "incoming_her \<Rightarrow> bool" where
  "packet_ok ih \<longleftrightarrow> pkt_len_ok (ih_pkt_len ih) \<and> length (ih_pkt_data ih) = ih_pkt_len ih \<and> her_size (ih_her ih) = ih_pkt_len ih"

definition ni_inv :: "nat \<Rightarrow> nat \<Rightarrow> nic_inbound \<Rightarrow> bool" where
  "ni_inv start sz s \<longleftrightarrow> buffer_at start sz (ni_ring s) (ni_held s)
     \<and> distinct (map her_addr (ready_hers s @ queued_hers s)) \<and> (\<forall>h \<in> set (ready_hers s @ queued_hers s). pktmap s (her_addr h) = None)
     \<and> writes_ok (ni_axi s) (length (queued_hers s)) \<and> (\<forall>ih \<in> set (incoming_hers s). packet_ok ih)"

lemma answers_append: "answers (ns @ ms) = answers ns @ answers ms"
  by (simp add: answers_def)

lemma answers_one: "filter (\<lambda>a. a) (answers [n]) = [True]"
  by (simp add: answers_def)

lemma few_bursts:
  assumes "0 < n" "addr + n \<le> 2 ^ 32" "n < 2 ^ 32"
  shows "0 < length (create_ax_beats addr n) \<and> length (create_ax_beats addr n) \<le> n"
  using assms
proof (induction n arbitrary: addr rule: less_induct)
  case (less n)
  show ?case
  proof (cases "addr div 4096 = (addr + n - 1) div 4096")
    case True
    obtain aw where "create_ax_beats addr n = [(aw, n)]"
      by (rule page_lines [OF less.prems True]) (rule that, assumption+)
    then show ?thesis using less.prems(1) by simp
  next
    case False
    define b where "b = 4096 - addr mod 4096"
    note two = two_pages [OF less.prems False, folded b_def]
    obtain aw where "create_ax_beats addr b = [(aw, b)]"
      by (rule page_lines [of b addr]) (use two(2,3,5) less.prems in simp_all)
    moreover have "length (create_ax_beats (addr + b) (n - b)) \<le> n - b"
      using less.IH [of "n - b" "addr + b"] two(2,3) less.prems by simp
    ultimately show ?thesis using two(2,3) by (simp add: two(1))
  qed
qed

text \<open>A packet is written without a failed assertion.\<close>

lemma write_ok:
  assumes "0 < n" "addr + n \<le> 2 ^ 32" "n < 2 ^ 32" "n \<le> length data" "writes_ok m k"
  shows "\<exists>m'. axi_write addr data n 0 m = Some m' \<and> writes_ok m' (Suc k)"
proof -
  have "snd (transfer_w_beats (create_ax_beats addr n) data 0) = n"
    using write_bursts_store [of n addr 0 data] assms by simp
  then obtain ws where ws: "transfer_w_beats (create_ax_beats addr n) data 0 = (ws, n)" by (metis prod.collapse)
  have "0 < length (create_ax_beats addr n)" "length (create_ax_beats addr n) < 2 ^ 32"
    using few_bursts [OF assms(1-3)] assms(3) by simp_all
  then show ?thesis
    using assms(5) by (auto simp: axi_write_def ws writes_ok_def answers_append answers_one Let_def)
qed

lemma writes_progress: "writes_ok m k \<Longrightarrow> \<exists>m'. progress_axi_writes m = Some m' \<and> writes_ok m' k \<and> write_queue m' = write_queue m"
proof -
  assume ok: "writes_ok m k"
  have "\<exists>m'. (if has_aw_beat m \<and> can_send_aw_beat m then send_aw_beat m else Some m) = Some m'
      \<and> writes_ok m' k \<and> write_queue m' = write_queue m"
    using ok by (cases "aw_pending_queue m") (auto simp: send_aw_beat_def has_aw_beat_def writes_ok_def)
  then obtain m1 where m1: "(if has_aw_beat m \<and> can_send_aw_beat m then send_aw_beat m else Some m) = Some m1"
    "writes_ok m1 k" "write_queue m1 = write_queue m" by blast
  have "\<exists>m'. (if has_w_beat m1 \<and> can_send_w_beat m1 then send_w_beat m1 else Some m1) = Some m'
      \<and> writes_ok m' k \<and> write_queue m' = write_queue m1"
    using m1(2) by (cases "w_pending_queue m1") (auto simp: send_w_beat_def has_w_beat_def writes_ok_def)
  then show ?thesis using m1 by (auto simp: progress_axi_writes_def)
qed

lemma master_progress:
  assumes "writes_ok m k" "\<not> r_valid bus" "b_valid bus \<longrightarrow> write_queue m \<noteq> []"
  shows "\<exists>m'. master_posedge bus m = Some m' \<and> writes_ok m' k"
proof -
  let ?m = "w_posedge (ar_posedge (aw_posedge m))"
  have m: "write_queue ?m = write_queue m" "b_queue ?m = b_queue m" "b_beats_buffer_size ?m = b_beats_buffer_size m"
    "read_queue ?m = read_queue m" by (simp_all add: w_posedge_def ar_posedge_def aw_posedge_def)
  have r: "r_posedge bus n = Some n" for n using assms(2) by (simp add: r_posedge_def)
  show ?thesis
  proof (cases "b_valid bus")
    case False
    then have "b_posedge bus ?m = Some ?m" by (simp add: b_posedge_def)
    then show ?thesis using assms(1) m r by (simp add: master_posedge_def writes_ok_def)
  next
    case True
    have w: "\<forall>n \<in> set (write_queue ?m). 0 < n \<and> n < 2 ^ 32" "b_beats_buffer_size ?m = 0" using assms(1) m by (auto simp: writes_ok_def)
    note b = b_posedge_answers [OF w(1) True w(2)]
    have "answers (write_queue ?m) \<noteq> []" using assms(3) True m(1) by (cases "write_queue m") (simp_all add: answers_def)
    then obtain m' where m': "b_posedge bus ?m = Some m'" using b(1) by (cases "b_posedge bus ?m") auto
    from b(2) [OF this] obtain a as where a: "answers (write_queue m) = a # as" "b_queue m' = b_queue m @ [a]"
      "answers (write_queue m') = as" "\<forall>n \<in> set (write_queue m'). 0 < n \<and> n < 2 ^ 32" unfolding m by blast
    have "b_beats_buffer_size m' = b_beats_buffer_size ?m \<and> read_queue m' = read_queue ?m"
      using m' by (auto simp: b_posedge_def Let_def split: if_splits list.splits)
    then show ?thesis using m' r a assms(1) m by (simp add: master_posedge_def writes_ok_def split: if_splits)
  qed
qed

section \<open>Each part keeps the invariant\<close>

text \<open>The descriptors that are still to be handed over, without what is set on the way.\<close>

definition plain_her :: "her_descr \<Rightarrow> her_descr" where
  "plain_her h = h\<lparr>her_addr := 0, nic_arrival_time := 0, her_msgid := her_msgid h mod 2 ^ 16\<rparr>"

definition pending_hers :: "nic_inbound \<Rightarrow> her_descr list" where
  "pending_hers s = map plain_her (ready_hers s @ queued_hers s @ map ih_her (incoming_hers s))"

lemma held_addr_pos: "buffer_at start sz r H \<Longrightarrow> (a, n) \<in> H \<Longrightarrow> pkt_len_ok n"
  by (auto simp: buffer_at_def ring_holds_def)

lemma responses_inv:
  assumes "ni_inv start sz s"
  shows "\<exists>s'. progress_axi_write_responses s = Some s' \<and> ni_inv start sz s' \<and> pktmap s' = pktmap s \<and> pending_hers s' = pending_hers s
    \<and> hers_to_send s' = hers_to_send s \<and> eos_o s' = eos_o s \<and> app_sent_eos s' = app_sent_eos s"
proof (cases "b_queue (ni_axi s)")
  case Nil
  then show ?thesis using assms by (simp add: progress_axi_write_responses_def has_b_beat_def)
next
  case (Cons a as)
  let ?m = "(ni_axi s)\<lparr>b_queue := as\<rparr>"
  have c: "has_b_beat (ni_axi s)" "consume_b_beat (ni_axi s) = Some (a, ?m)" using Cons by (simp_all add: has_b_beat_def consume_b_beat_def)
  have w: "writes_ok (ni_axi s) (length (queued_hers s))" using assms by (simp add: ni_inv_def)
  show ?thesis
  proof (cases a)
    case False
    then have "writes_ok ?m (length (queued_hers s))" using w Cons by (simp add: writes_ok_def)
    then show ?thesis using assms c False by (simp add: progress_axi_write_responses_def ni_inv_def ni_held_def pending_hers_def)
  next
    case True
    then obtain her rest where q: "queued_hers s = her # rest" using w Cons by (cases "queued_hers s") (auto simp: writes_ok_def)
    have "writes_ok ?m (length rest)" using w Cons True q by (simp add: writes_ok_def)
    then show ?thesis using assms c True q
      by (simp add: progress_axi_write_responses_def ni_inv_def ni_held_def pending_hers_def insert_commute)
  qed
qed

lemma process_inv:
  assumes "ni_inv start sz s" "start + sz + 1 < 2 ^ 32" "packet_ok ih"
  shows "\<exists>done s'. process_packet now (ih_her ih) (ih_pkt_data ih) (ih_pkt_len ih) s = Some (done, s') \<and> ni_inv start sz s'
    \<and> (if done then \<exists>h. plain_her h = plain_her (ih_her ih) \<and> queued_hers s' = queued_hers s @ [h] else queued_hers s' = queued_hers s)
    \<and> ready_hers s' = ready_hers s \<and> incoming_hers s' = incoming_hers s \<and> pktmap s' = pktmap s \<and> hers_to_send s' = hers_to_send s
    \<and> eos_o s' = eos_o s \<and> app_sent_eos s' = app_sent_eos s"
proof -
  let ?n = "ih_pkt_len ih"
  have n: "pkt_len_ok ?n" "length (ih_pkt_data ih) = ?n" "her_size (ih_her ih) = ?n" using assms(3) by (simp_all add: packet_ok_def)
  have h: "buffer_at start sz (ni_ring s) (ni_held s)" using assms(1) by (simp add: ni_inv_def)
  obtain res r where r: "allocate_pkt_space ?n (ni_ring s) = (res, r)" by fastforce
  show ?thesis
  proof (cases res)
    case None
    from ring.alloc_full [OF h n(1)] r None have "buffer_at start sz r (ni_held s)" by simp
    moreover have "ni_held (s\<lparr>ni_ring := r\<rparr>) = ni_held s" by (simp add: ni_held_def)
    ultimately show ?thesis using assms(1) r None by (auto simp: process_packet_def ni_inv_def)
  next
    case (Some a)
    from ring.alloc_gives [OF h n(1)] r Some have g: "buffer_at start sz r (insert (a, ?n) (ni_held s))"
      "\<forall>p \<in> ni_held s. apart (a, ?n) p" "inside_buffer start sz (a, ?n)" by simp_all
    have len: "0 < ?n" "?n < 2 ^ 32" using n(1) by (simp_all add: pkt_len_ok_def)
    have "a + ?n \<le> 2 ^ 32" using g(3) assms(2) by (simp add: inside_buffer_def)
    from write_ok [OF len(1) this len(2), of "ih_pkt_data ih" "ni_axi s" "length (queued_hers s)"] obtain m where
      m: "axi_write a (ih_pkt_data ih) ?n 0 (ni_axi s) = Some m" "writes_ok m (Suc (length (queued_hers s)))"
      using n(2) assms(1) by (auto simp: ni_inv_def)
    have new: "a \<noteq> fst p" if "p \<in> ni_held s" for p
    proof -
      have "0 < snd p" using held_addr_pos [OF h, of "fst p" "snd p"] that by (simp add: pkt_len_ok_def)
      then show ?thesis using g(2) that len(1) by (auto simp: apart_def)
    qed
    let ?h = "(ih_her ih)\<lparr>her_addr := a, nic_arrival_time := now\<rparr>"
    let ?s = "s\<lparr>ni_ring := r, ni_axi := m, queued_hers := queued_hers s @ [?h]\<rparr>"
    have held: "ni_held ?s = insert (a, ?n) (ni_held s)" using n(3) by (simp add: ni_held_def)
    have "\<forall>h \<in> set (ready_hers s @ queued_hers s). her_addr h \<noteq> a" using new by (fastforce simp: ni_held_def)
    moreover have "pktmap s a = None" using new [of "(a, _)"] by (cases "pktmap s a") (auto simp: ni_held_def)
    ultimately have "ni_inv start sz ?s" using assms(1) g(1) m(2) unfolding ni_inv_def held by auto
    moreover have "plain_her ?h = plain_her (ih_her ih)" by (simp add: plain_her_def)
    ultimately show ?thesis using r Some m(1) by (auto simp: process_packet_def)
  qed
qed

lemma incoming_inv:
  assumes "ni_inv start sz s" "start + sz + 1 < 2 ^ 32"
  shows "\<exists>s'. progress_incoming_packets now s = Some s' \<and> ni_inv start sz s' \<and> pktmap s' = pktmap s \<and> pending_hers s' = pending_hers s
    \<and> hers_to_send s' = hers_to_send s \<and> eos_o s' = eos_o s \<and> app_sent_eos s' = app_sent_eos s"
proof (cases "incoming_hers s")
  case Nil
  then show ?thesis using assms by (simp add: progress_incoming_packets_def)
next
  case (Cons ih rest)
  define t where "t = (if packet_wait_cycles s > 0 then s\<lparr>packet_wait_cycles := packet_wait_cycles s - 1\<rparr> else s)"
  have t: "ni_inv start sz t" "pktmap t = pktmap s" "pending_hers t = pending_hers s" "hers_to_send t = hers_to_send s" "eos_o t = eos_o s"
    "app_sent_eos t = app_sent_eos s" "incoming_hers t = ih # rest" "queued_hers t = queued_hers s" "ready_hers t = ready_hers s"
    using assms Cons by (simp_all add: t_def ni_inv_def ni_held_def pending_hers_def)
  let ?ih = "ih\<lparr>ih_wait_cycles := (if ih_wait_cycles ih > 0 then ih_wait_cycles ih else 0)\<rparr>"
  have eq: "progress_incoming_packets now s = (if packet_wait_cycles s > 0 \<and> packet_wait_cycles t > 0 then Some t
      else (case process_packet now (ih_her ih) (ih_pkt_data ih) (ih_pkt_len ih) t of None \<Rightarrow> None
        | Some (True, s) \<Rightarrow> Some (s\<lparr>packet_wait_cycles := ih_wait_cycles ih, incoming_hers := rest\<rparr>)
        | Some (False, s) \<Rightarrow> Some (s\<lparr>incoming_hers := ?ih # rest\<rparr>)))"
    by (simp only: progress_incoming_packets_def Cons list.case Let_def flip: t_def)
  show ?thesis
  proof (cases "packet_wait_cycles s > 0 \<and> packet_wait_cycles t > 0")
    case True
    then show ?thesis using t eq by simp
  next
    case False
    have ok: "packet_ok ih" using t(1,7) by (simp add: ni_inv_def)
    from process_inv [OF t(1) assms(2) ok, of now] obtain got u where
      u: "process_packet now (ih_her ih) (ih_pkt_data ih) (ih_pkt_len ih) t = Some (got, u)" "ni_inv start sz u"
      "if got then \<exists>h. plain_her h = plain_her (ih_her ih) \<and> queued_hers u = queued_hers t @ [h] else queued_hers u = queued_hers t"
      "ready_hers u = ready_hers t" "incoming_hers u = incoming_hers t" "pktmap u = pktmap t" "hers_to_send u = hers_to_send t"
      "eos_o u = eos_o t" "app_sent_eos u = app_sent_eos t" by blast
    show ?thesis
    proof (cases got)
      case True
      then have "progress_incoming_packets now s = Some (u\<lparr>packet_wait_cycles := ih_wait_cycles ih, incoming_hers := rest\<rparr>)"
        using eq False u(1) by auto
      then show ?thesis using u True t by (auto simp: ni_inv_def ni_held_def pending_hers_def)
    next
      case False2: False
      then have "progress_incoming_packets now s = Some (u\<lparr>incoming_hers := ?ih # rest\<rparr>)"
        using eq False u(1) by auto
      then show ?thesis using u False2 t by (auto simp: ni_inv_def ni_held_def pending_hers_def packet_ok_def)
    qed
  qed
qed

text \<open>What the hardware may do: answer the writes it has been sent, and return packets it has been given.\<close>

definition ni_conforms :: "ni_in \<Rightarrow> nic_inbound \<Rightarrow> bool" where
  "ni_conforms i s \<longleftrightarrow> \<not> r_valid (ni_bus i) \<and> (b_valid (ni_bus i) \<longrightarrow> write_queue (ni_axi s) \<noteq> [])
     \<and> (feedback_valid_i i \<longrightarrow> (\<exists>e. pktmap s (feedback_her_addr_i i) = Some e \<and> pe_size e = feedback_her_size_i i))"

text \<open>The descriptor handed over in a cycle.\<close>

definition her_out :: "nic_inbound \<Rightarrow> her_descr list" where
  "her_out s = (if her_valid_o s then [the (her_o s)] else [])"

definition ni_counts :: "nic_inbound \<Rightarrow> bool" where
  "ni_counts s \<longleftrightarrow> hers_to_send s = length (pending_hers s) mod 2 ^ 32"

lemma count_down: "sub32 (Suc n mod 2 ^ 32) 1 = n mod 2 ^ 32"
proof -
  have "(Suc n mod 2 ^ 32 + (2 ^ 32 - 1)) mod 2 ^ 32 = (Suc n + (2 ^ 32 - 1)) mod 2 ^ 32" by (rule mod_add_left_eq)
  also have "Suc n + (2 ^ 32 - 1) = n + 2 ^ 32" by simp
  finally show ?thesis by (simp add: sub32_def)
qed

lemma her_inv:
  assumes "ni_inv start sz s" "ni_counts s"
  shows "\<exists>s'. her_progress_posedge rdy now s = Some s' \<and> ni_inv start sz s' \<and> ni_counts s'
    \<and> (\<forall>a e. pktmap s a = Some e \<longrightarrow> pktmap s' a = Some e) \<and> pending_hers s = map plain_her (her_out s') @ pending_hers s'
    \<and> (eos_o s' \<longleftrightarrow> eos_o s \<or> her_out s' \<noteq> [] \<and> length (pending_hers s') mod 2 ^ 32 = 0 \<and> app_sent_eos s)"
proof (cases "rdy \<and> ready_hers s \<noteq> []")
  case False
  then show ?thesis using assms
    by (cases "ready_hers s") (auto simp: her_progress_posedge_def ni_inv_def ni_held_def pending_hers_def her_out_def ni_counts_def Let_def)
next
  case True
  then obtain her rest where q: "ready_hers s = her # rest" by (cases "ready_hers s") auto
  have free: "pktmap s (her_addr her) = None" using assms(1) q by (simp add: ni_inv_def)
  let ?e = "\<lparr>pe_nic_arrival_time = nic_arrival_time her, pe_pspin_arrival_time = now, pe_size = her_size her, pe_user_ptr = her_user_ptr her\<rparr>"
  define t where "t = s\<lparr>her_valid_o := True, her_o := Some (her\<lparr>her_msgid := her_msgid her mod 2 ^ 16\<rparr>),
    hers_to_send := sub32 (hers_to_send s) 1, ready_hers := rest, pktmap := (pktmap s)(her_addr her \<mapsto> ?e),
    total_bytes_sent := add64 (total_bytes_sent s) (her_size her), total_pkts := add64 (total_pkts s) 1\<rparr>"
  have r: "her_progress_posedge rdy now s = Some (if hers_to_send t = 0 \<and> app_sent_eos s then t\<lparr>eos_o := True\<rparr> else t)"
    using True q free by (simp add: her_progress_posedge_def t_def Let_def)
  have held: "ni_held t = ni_held s" using free by (auto simp: ni_held_def t_def q)
  have pend: "pending_hers s = plain_her her # pending_hers t" by (simp add: pending_hers_def t_def q)
  have cnt: "hers_to_send t = length (pending_hers t) mod 2 ^ 32"
    using assms(2) count_down [of "length (pending_hers t)"] by (simp add: ni_counts_def pend) (simp add: t_def)
  have "\<forall>h \<in> set (rest @ queued_hers s). her_addr h \<noteq> her_addr her"
  proof (intro ballI notI)
    fix h assume "h \<in> set (rest @ queued_hers s)" "her_addr h = her_addr her"
    then have "her_addr her \<in> her_addr ` set (rest @ queued_hers s)" by (metis imageI)
    then show False using assms(1) q by (auto simp: ni_inv_def)
  qed
  then have inv: "ni_inv start sz t"
    using assms(1) q unfolding ni_inv_def held by (auto simp: t_def)
  have out: "her_out t = [her\<lparr>her_msgid := her_msgid her mod 2 ^ 16\<rparr>]" "eos_o t = eos_o s" by (simp_all add: her_out_def t_def)
  have plain: "plain_her (her\<lparr>her_msgid := her_msgid her mod 2 ^ 16\<rparr>) = plain_her her" by (simp add: plain_her_def)
  have grows: "\<forall>a e. pktmap s a = Some e \<longrightarrow> pktmap t a = Some e" using free by (auto simp: t_def)
  have e: "ni_inv start sz (t\<lparr>eos_o := True\<rparr>)" "pending_hers (t\<lparr>eos_o := True\<rparr>) = pending_hers t" "her_out (t\<lparr>eos_o := True\<rparr>) = her_out t"
    using inv by (simp_all add: ni_inv_def ni_held_def pending_hers_def her_out_def)
  show ?thesis
    using r inv pend cnt out plain grows e by (cases "hers_to_send t = 0 \<and> app_sent_eos s") (auto simp: ni_counts_def)
qed

text \<open>Neither touches anything else.\<close>

lemma call_feedback_cb_other [simp]:
  "ni_ring (call_feedback_cb now e s) = ni_ring s" "pktmap (call_feedback_cb now e s) = pktmap s"
  "ready_hers (call_feedback_cb now e s) = ready_hers s" "queued_hers (call_feedback_cb now e s) = queued_hers s"
  "incoming_hers (call_feedback_cb now e s) = incoming_hers s" "ni_axi (call_feedback_cb now e s) = ni_axi s"
  "her_valid_o (call_feedback_cb now e s) = her_valid_o s" "her_o (call_feedback_cb now e s) = her_o s"
  "hers_to_send (call_feedback_cb now e s) = hers_to_send s" "eos_o (call_feedback_cb now e s) = eos_o s"
  by (simp_all add: call_feedback_cb_def)

lemma feedback_times_other [simp]:
  "ni_ring (feedback_times now l s) = ni_ring s" "pktmap (feedback_times now l s) = pktmap s"
  "ready_hers (feedback_times now l s) = ready_hers s" "queued_hers (feedback_times now l s) = queued_hers s"
  "incoming_hers (feedback_times now l s) = incoming_hers s" "ni_axi (feedback_times now l s) = ni_axi s"
  "her_valid_o (feedback_times now l s) = her_valid_o s" "her_o (feedback_times now l s) = her_o s"
  "hers_to_send (feedback_times now l s) = hers_to_send s" "eos_o (feedback_times now l s) = eos_o s"
  by (simp_all add: feedback_times_def Let_def)

lemma feedback_inv:
  assumes "ni_inv start sz s"
    "feedback_valid_i i \<longrightarrow> (\<exists>e. pktmap s (feedback_her_addr_i i) = Some e \<and> pe_size e = feedback_her_size_i i)"
  shows "\<exists>s'. feedback_progress i s = Some s' \<and> ni_inv start sz s' \<and> pending_hers s' = pending_hers s \<and> her_out s' = her_out s
    \<and> hers_to_send s' = hers_to_send s \<and> eos_o s' = eos_o s"
proof (cases "feedback_ready_o s \<and> feedback_valid_i i")
  case False
  then show ?thesis using assms by (simp add: feedback_progress_def)
next
  case True
  let ?a = "feedback_her_addr_i i" and ?n = "feedback_her_size_i i"
  obtain e where e: "pktmap s ?a = Some e" "pe_size e = ?n" using assms(2) True by blast
  have h: "buffer_at start sz (ni_ring s) (ni_held s)" using assms(1) by (simp add: ni_inv_def)
  have "(?a, ?n) \<in> ni_held s" using e by (auto simp: ni_held_def)
  from ring.free_held [OF h this] obtain r where r: "free_pkt_space ?a ?n (ni_ring s) = Some r"
    "buffer_at start sz r (ni_held s - {(?a, ?n)})" by blast
  have others: "\<forall>h \<in> set (ready_hers s @ queued_hers s). her_addr h \<noteq> ?a"
  proof (intro ballI notI)
    fix h assume h: "h \<in> set (ready_hers s @ queued_hers s)" "her_addr h = ?a"
    from assms(1) h(1) have "pktmap s (her_addr h) = None" unfolding ni_inv_def by blast
    then show False using e(1) h(2) by simp
  qed
  obtain s' where s': "feedback_progress i s = Some s'" "ni_ring s' = r" "pktmap s' = (pktmap s)(?a := None)" "ready_hers s' = ready_hers s"
    "queued_hers s' = queued_hers s" "incoming_hers s' = incoming_hers s" "ni_axi s' = ni_axi s" "her_valid_o s' = her_valid_o s"
    "her_o s' = her_o s" "hers_to_send s' = hers_to_send s" "eos_o s' = eos_o s"
    using True e(1) r(1) by (simp add: feedback_progress_def Let_def)
  have "{(a, pe_size e) | a e. pktmap s' a = Some e} = {(a, pe_size e) | a e. pktmap s a = Some e} - {(?a, ?n)}"
  proof (rule set_eqI, rule iffI)
    show "x \<in> {(a, pe_size e) | a e. pktmap s a = Some e} - {(?a, ?n)}" if "x \<in> {(a, pe_size e) | a e. pktmap s' a = Some e}" for x
      using that s'(3) by (cases x) (auto split: if_splits)
    show "x \<in> {(a, pe_size e) | a e. pktmap s' a = Some e}" if "x \<in> {(a, pe_size e) | a e. pktmap s a = Some e} - {(?a, ?n)}" for x
      using that s'(3) e by (cases "fst x = ?a") auto
  qed
  moreover have "(?a, ?n) \<notin> (\<lambda>h. (her_addr h, her_size h)) ` set (ready_hers s @ queued_hers s)"
    using others by fastforce
  ultimately have "ni_held s' = ni_held s - {(?a, ?n)}" unfolding ni_held_def s'(4,5) by blast
  then have "ni_inv start sz s'" using assms(1) r(2) others s'(2-7) by (auto simp: ni_inv_def)
  then show ?thesis using s' by (simp add: pending_hers_def her_out_def)
qed

lemma ni_inv_axi: "ni_inv start sz s \<Longrightarrow> writes_ok m (length (queued_hers s)) \<Longrightarrow> ni_inv start sz (s\<lparr>ni_axi := m\<rparr>)"
  by (simp add: ni_inv_def ni_held_def)

lemma posedge_inv:
  assumes "ni_inv start sz s" "ni_counts s" "start + sz + 1 < 2 ^ 32" "ni_conforms i s" "pspin_active_i i"
  shows "\<exists>s'. ni_posedge i s = Some s' \<and> ni_inv start sz s' \<and> ni_counts s' \<and> pending_hers s = map plain_her (her_out s') @ pending_hers s'
    \<and> (eos_o s' \<longleftrightarrow> eos_o s \<or> her_out s' \<noteq> [] \<and> length (pending_hers s') mod 2 ^ 32 = 0 \<and> app_sent_eos s)"
proof -
  have w: "writes_ok (ni_axi s) (length (queued_hers s))" using assms(1) by (simp add: ni_inv_def)
  obtain m1 where m1: "progress_axi_writes (ni_axi s) = Some m1" "writes_ok m1 (length (queued_hers s))" "write_queue m1 = write_queue (ni_axi s)"
    using writes_progress [OF w] by blast
  obtain m2 where m2: "master_posedge (ni_bus i) m1 = Some m2" "writes_ok m2 (length (queued_hers s))"
    using master_progress [OF m1(2), of "ni_bus i"] assms(4) m1(3) by (auto simp: ni_conforms_def)
  obtain a where a: "progress_axi_write_responses (s\<lparr>ni_axi := m2\<rparr>) = Some a" "ni_inv start sz a" "pktmap a = pktmap s"
    "pending_hers a = pending_hers s" "hers_to_send a = hers_to_send s" "eos_o a = eos_o s" "app_sent_eos a = app_sent_eos s"
    using responses_inv [OF ni_inv_axi [OF assms(1) m2(2)]] by (auto simp: pending_hers_def)
  obtain b where b: "progress_incoming_packets (sim_time i) a = Some b" "ni_inv start sz b" "pktmap b = pktmap s"
    "pending_hers b = pending_hers s" "hers_to_send b = hers_to_send s" "eos_o b = eos_o s" "app_sent_eos b = app_sent_eos s"
    using incoming_inv [OF a(2) assms(3), of "sim_time i"] unfolding a by blast
  have cb: "ni_counts b" using assms(2) b by (simp add: ni_counts_def)
  obtain c where c: "her_progress_posedge (her_ready_i i) (sim_time i) b = Some c" "ni_inv start sz c" "ni_counts c"
    "\<forall>a e. pktmap s a = Some e \<longrightarrow> pktmap c a = Some e" "pending_hers s = map plain_her (her_out c) @ pending_hers c"
    "eos_o c \<longleftrightarrow> eos_o s \<or> her_out c \<noteq> [] \<and> length (pending_hers c) mod 2 ^ 32 = 0 \<and> app_sent_eos s"
    using her_inv [OF b(2) cb, of "her_ready_i i" "sim_time i"] unfolding b(3-7) by (elim exE conjE) (rule that; assumption)
  have fb: "feedback_valid_i i \<longrightarrow> (\<exists>e. pktmap c (feedback_her_addr_i i) = Some e \<and> pe_size e = feedback_her_size_i i)"
    using assms(4) c(4) unfolding ni_conforms_def by metis
  obtain d where d: "feedback_progress i c = Some d" "ni_inv start sz d" "pending_hers d = pending_hers c" "her_out d = her_out c"
    "hers_to_send d = hers_to_send c" "eos_o d = eos_o c"
    using feedback_inv [OF c(2) fb] by blast
  have "ni_posedge i s = Some d" using assms(5) m1(1) m2(1) a(1) b(1) c(1) d(1) by (simp add: ni_posedge_def)
  moreover have "ni_counts d" using c(3) d(3,5) by (simp add: ni_counts_def)
  ultimately show ?thesis using d(2-6) c(5,6) by simp
qed

section \<open>Runs\<close>

text \<open>The packets of the ring lie apart and in the buffer.\<close>

lemma buffer_apart:
  assumes "buffer_at start sz r H" "p \<in> H"
  shows "(\<forall>q \<in> H. q = p \<or> apart p q) \<and> inside_buffer start sz p"
proof -
  let ?f = "\<lambda>(a, n). (a - l2_pkt_buff_start r, whole_segments n)"
  obtain old new where h: "ring_inv r old new" "outstanding r old new = ?f ` H" using assms(1) by (auto simp: buffer_at_def ring_holds_def)
  then have pl: "ring_places r old new" by (simp add: ring_inv_def)
  have sub: "?f q \<in> set (old @ new)" if "q \<in> H" for q using h(2) that unfolding outstanding_def by blast
  have ok: "l2_pkt_buff_start r \<le> fst q \<and> pkt_len_ok (snd q)" if "q \<in> H" for q
    using assms(1) that by (auto simp: buffer_at_def ring_holds_def)
  have inj: "inj_on fst H" using assms(1) by (simp add: buffer_at_def ring_holds_def)
  have two: "x = y \<or> apart x y \<or> apart y x" if "x \<in> set xs" "y \<in> set xs" "sorted_wrt apart xs" for x y xs
    using that by (induction xs) auto
  have sep: "q = p \<or> apart p q" if q: "q \<in> H" for q
  proof (cases "?f q = ?f p")
    case True
    then have "fst q = fst p" using ok [OF q] ok [OF assms(2)] by (auto simp: split_def)
    then show ?thesis using inj_onD [OF inj _ q assms(2)] by blast
  next
    case False
    then have "apart (?f p) (?f q) \<or> apart (?f q) (?f p)" using two [OF sub [OF q] sub [OF assms(2)] ring_apart [OF pl]] by blast
    then have "apart (?f p) (?f q)" by (auto simp: apart_def)
    then show ?thesis using whole_apart [of "fst p" "l2_pkt_buff_start r" "snd p" "fst q" "snd q"] ok [OF q] ok [OF assms(2)]
      by (simp add: split_def)
  qed
  have "fst p - l2_pkt_buff_start r + whole_segments (snd p) \<le> l2_pkt_buff_size r"
    using ring_inside [OF pl, of "fst p - l2_pkt_buff_start r" "whole_segments (snd p)"] sub [OF assms(2)] by (simp add: split_def)
  then have "fst p + snd p \<le> l2_pkt_buff_start r + l2_pkt_buff_size r"
    using ok [OF assms(2)] whole_segments_bounds [of "snd p"] by linarith
  then show ?thesis using sep ok [OF assms(2)] assms(1) by (simp add: inside_buffer_def buffer_at_def)
qed

text \<open>The hardware drives the ready signals between the two halves of a cycle.\<close>

definition ni_drive :: "bool \<Rightarrow> bool \<Rightarrow> nic_inbound \<Rightarrow> nic_inbound" where
  "ni_drive aw w s = s\<lparr>ni_axi := (ni_axi s)\<lparr>aw_chan := (aw_chan (ni_axi s))\<lparr>s_ready := aw\<rparr>, w_chan := (w_chan (ni_axi s))\<lparr>s_ready := w\<rparr>\<rparr>\<rparr>"

text \<open>What the application and a hardware that conforms may do, with the packets given and the descriptors handed over.\<close>

inductive ni_run :: "nat \<Rightarrow> nat \<Rightarrow> nic_inbound \<Rightarrow> her_descr list \<Rightarrow> her_descr list \<Rightarrow> bool" for start sz where
  ni_begins: "ni_run start sz (new_nic_inbound start sz) [] []"
| ni_packet: "ni_run start sz s given out \<Longrightarrow> pkt_len_ok n \<Longrightarrow> n \<le> length data \<Longrightarrow> her_size her = n \<Longrightarrow>
    ni_run start sz (add_packet her data n wait s) (given @ [her]) out"
| ni_callback: "ni_run start sz s given out \<Longrightarrow> ni_run start sz (set_feedback_cb s) given out"
| ni_eos: "ni_run start sz s given out \<Longrightarrow> ni_run start sz (set_eos s) given out"
| ni_cycle: "ni_run start sz s given out \<Longrightarrow> ni_conforms i s \<Longrightarrow> pspin_active_i i \<Longrightarrow> ni_posedge i s = Some s' \<Longrightarrow>
    ni_run start sz (ni_negedge (ni_drive aw w s')) given (out @ her_out s')"

lemma negedge_keeps:
  "ni_inv start sz (ni_negedge (ni_drive aw w s)) = ni_inv start sz s"
  "pending_hers (ni_negedge (ni_drive aw w s)) = pending_hers s" "ni_counts (ni_negedge (ni_drive aw w s)) = ni_counts s"
  "eos_o (ni_negedge (ni_drive aw w s)) = eos_o s"
  by (simp_all add: ni_negedge_def ni_drive_def ni_inv_def ni_held_def pending_hers_def ni_counts_def writes_ok_def master_negedge_def
      aw_negedge_def ar_negedge_def w_negedge_def)

lemma ni_run_inv:
  assumes "ni_run start sz s given out" "start + sz + 1 < 2 ^ 32"
  shows "ni_inv start sz s \<and> ni_counts s \<and> map plain_her out @ pending_hers s = map plain_her given"
  using assms(1)
proof (induction rule: ni_run.induct)
  case ni_begins
  have "buffer_at start sz (new_ring start sz) {}" using ring_new [OF assms(2)] by (simp add: buffer_at_def new_ring_def)
  then show ?case
    by (simp add: new_nic_inbound_def ni_inv_def ni_held_def pending_hers_def ni_counts_def writes_ok_def new_axi_master_def answers_def)
next
  case (ni_packet s given out n data her wait)
  have "add32 (length (pending_hers s) mod 2 ^ 32) 1 = Suc (length (pending_hers s)) mod 2 ^ 32" by (simp add: add32_def mod_Suc_eq)
  then show ?case using ni_packet
    by (auto simp: add_packet_def ni_inv_def ni_held_def pending_hers_def ni_counts_def packet_ok_def)
next
  case (ni_cycle s given out i s' aw w)
  from posedge_inv [of start sz s i] ni_cycle assms(2) show ?case by (simp add: negedge_keeps)
qed (simp_all add: set_feedback_cb_def set_eos_def ni_inv_def ni_held_def pending_hers_def ni_counts_def)

text \<open>
  C6: The application gives packets of at least one byte and fewer than \<open>2 ^ 32 - 63\<close>, with at least that many bytes of data and
  with their length as the size in their descriptor; the hardware is active in the cycles before, answers only writes that wait, sends no read data and
  returns only packets it was given with their size (\<open>ni_conforms\<close>); and the end of the buffer fits 32 bits
  (\<open>start + sz + 1 < 2 ^ 32\<close>). Then no assertion fails in a clock cycle, and the packets that have a place in the buffer, those being
  written, those whose descriptor waits and those in the accelerator, lie apart from each other and in the buffer.
\<close>

theorem inbound_never_fails:
  assumes "ni_run start sz s given out" "start + sz + 1 < 2 ^ 32" "ni_conforms i s"
  shows "(\<exists>s'. ni_posedge i s = Some s') \<and> (\<forall>p \<in> ni_held s. inside_buffer start sz p \<and> (\<forall>q \<in> ni_held s. q = p \<or> apart p q))"
proof -
  note r = ni_run_inv [OF assms(1,2)]
  have "\<exists>s'. ni_posedge i s = Some s'"
    using posedge_inv [of start sz s i] r assms(2,3) by (cases "pspin_active_i i") (auto simp: ni_posedge_def)
  moreover have "buffer_at start sz (ni_ring s) (ni_held s)" using r by (simp add: ni_inv_def)
  ultimately show ?thesis using buffer_apart by blast
qed

definition demo_her :: her_descr where
  "demo_her = (trace_her (replicate 13 0))\<lparr>her_msgid := 0x10005, her_size := 3\<rparr>"

definition demo_inbound :: nic_inbound where
  "demo_inbound = add_packet demo_her [1, 2, 3] 3 0 (new_nic_inbound L2_PKT_BUFF_START L2_PKT_BUFF_SIZE)"

definition demo_in :: ni_in where
  "demo_in = \<lparr>pspin_active_i = True, her_ready_i = True, feedback_valid_i = False, feedback_her_addr_i = 0, feedback_her_size_i = 0,
     ni_bus = \<lparr>b_valid = False, r_valid = False, r_last = 0, r_data = []\<rparr>, sim_time = 1000\<rparr>"

lemma demo_inbound_run: "ni_run L2_PKT_BUFF_START L2_PKT_BUFF_SIZE demo_inbound [demo_her] []" "ni_conforms demo_in demo_inbound"
  using ni_packet [OF ni_begins, of 3 "[1, 2, 3]" demo_her]
  by (simp_all add: demo_inbound_def demo_her_def pkt_len_ok_def ni_conforms_def demo_in_def)

theorem inbound_never_fails_witness: "\<exists>s'. ni_posedge demo_in demo_inbound = Some s'"
  using inbound_never_fails [OF demo_inbound_run(1) _ demo_inbound_run(2)] by (simp add: L2_PKT_BUFF_START_def L2_PKT_BUFF_SIZE_def)

text \<open>
  C5: For fewer than \<open>2 ^ 32\<close> packets, each of at least one byte and fewer than \<open>2 ^ 32 - 63\<close>, with at least that many bytes of data
  and its length as the size in its descriptor, a buffer with \<open>start + sz + 1 < 2 ^ 32\<close>, and active hardware that answers only writes that wait, sends
  no read data and returns only packets it was given with their size (\<open>ni_conforms\<close>), whatever its delays and the waiting
  cycles: the descriptors are handed to the accelerator once each and in the order the packets were given. Compared are
  all their members but the address and the time of arrival, which are set on the way, and of the message number its low 16
  bits, those that are driven. The end of the stream is signalled in the cycle that hands over the last descriptor given so
  far once the application has sent it, and in no other: a \<open>set_eos\<close> after it is never seen.
\<close>

theorem inbound_in_order:
  assumes "ni_run start sz s given out" "start + sz + 1 < 2 ^ 32" "ni_conforms i s" "pspin_active_i i" "ni_posedge i s = Some s'"
    "length given < 2 ^ 32"
  shows "\<exists>later. map plain_her given = map plain_her (out @ her_out s') @ later \<and> hers_to_send s' = length later
    \<and> (eos_o s' \<longleftrightarrow> eos_o s \<or> her_out s' \<noteq> [] \<and> later = [] \<and> app_sent_eos s)"
proof -
  note r = ni_run_inv [OF assms(1,2)]
  from posedge_inv [of start sz s i] r assms(2-5) have p: "ni_counts s'" "pending_hers s = map plain_her (her_out s') @ pending_hers s'"
    "eos_o s' \<longleftrightarrow> eos_o s \<or> her_out s' \<noteq> [] \<and> length (pending_hers s') mod 2 ^ 32 = 0 \<and> app_sent_eos s" by auto
  have given: "map plain_her given = map plain_her (out @ her_out s') @ pending_hers s'" using r p(2) by simp
  have "length given = length out + length (her_out s') + length (pending_hers s')" using arg_cong [OF given, of length] by simp
  then have "length (pending_hers s') < 2 ^ 32" using assms(6) by simp
  then show ?thesis using given p(1,3) by (intro exI [of _ "pending_hers s'"]) (simp add: ni_counts_def)
qed

theorem inbound_in_order_witness:
  "\<exists>s' later. ni_posedge demo_in demo_inbound = Some s' \<and> [plain_her demo_her] = map plain_her (her_out s') @ later
    \<and> hers_to_send s' = length later"
proof -
  have small: "L2_PKT_BUFF_START + L2_PKT_BUFF_SIZE + 1 < 2 ^ 32" by (simp add: L2_PKT_BUFF_START_def L2_PKT_BUFF_SIZE_def)
  have act: "pspin_active_i demo_in" by (simp add: demo_in_def)
  from ni_run_inv [OF demo_inbound_run(1) small] posedge_inv [OF _ _ small demo_inbound_run(2) act]
  obtain s' where s': "ni_posedge demo_in demo_inbound = Some s'" by blast
  from inbound_in_order [OF demo_inbound_run(1) small demo_inbound_run(2) act s'] show ?thesis using s' by auto
qed

end
