(* ===== verification/Nic_Outbound.thy ===== *)
theory Nic_Outbound
  imports Packet_Ring Axi_Master
begin

text \<open>
  The network side of the simulator that sends packets: \<^verbatim>\<open>NICOutbound.hpp\<close>. Commands are cut into packets, one packet of each
  command in turn; the payload of a packet is read over the bus, then the packet waits for the network. A failed
  assertion is \<open>None\<close>. The delay of a word, a floating-point product truncated to 32 bits when it is used, is a natural
  number of the state; the calls of the application's function are a list. The printed statistics are left out.
\<close>

definition RDMA_HEADER_LENGTH :: nat where "RDMA_HEADER_LENGTH = 32"
definition NUM_PARALLEL_CMD :: nat where "NUM_PARALLEL_CMD = 16"
definition WORD_SIZE :: nat where "WORD_SIZE = 64"

record net_packet =
  np_source_addr :: nat
  np_current_offset :: nat
  np_length :: nat
  np_payload_length :: nat
  np_cmd_id :: nat
  np_is_last :: bool
  np_data :: "u8 list"

record out_command =
  oc_source_addr :: nat
  oc_length :: nat
  oc_nid :: nat
  oc_fid :: nat
  oc_cmd_id :: nat

section \<open>Cutting commands into packets\<close>

record packetizer =
  num_parallel_cmds :: nat
  max_packet_len :: nat
  commands :: "out_command list"

definition has_free_cmd_slot :: "packetizer \<Rightarrow> bool" where "has_free_cmd_slot p = (length (commands p) < num_parallel_cmds p)"
definition has_packets :: "packetizer \<Rightarrow> bool" where "has_packets p = (commands p \<noteq> [])"

definition new_out_cmd :: "out_command \<Rightarrow> packetizer \<Rightarrow> packetizer option" where
  "new_out_cmd c p = (if length (commands p) < num_parallel_cmds p then Some (p\<lparr>commands := commands p @ [c]\<rparr>) else None)"

definition get_next_packet :: "packetizer \<Rightarrow> (net_packet \<times> packetizer) option" where
  "get_next_packet p =
     (case commands p of
        [] \<Rightarrow> None
      | cmd # rest \<Rightarrow>
          let header_length = (if oc_fid cmd > 0 then RDMA_HEADER_LENGTH else 0)
          in if \<not> oc_fid cmd > 0 \<and> \<not> oc_length cmd \<le> max_packet_len p then None
             else let payloadlen = min (sub32 (max_packet_len p) header_length) (oc_length cmd);
                      pktlen = add32 header_length payloadlen;
                      pkt = \<lparr>np_source_addr = oc_source_addr cmd, np_current_offset = 0, np_length = pktlen,
                        np_payload_length = payloadlen, np_cmd_id = oc_cmd_id cmd, np_is_last = (sub32 (oc_length cmd) payloadlen = 0),
                        np_data = replicate pktlen 0\<rparr>;
                      cmd = cmd\<lparr>oc_length := sub32 (oc_length cmd) payloadlen, oc_source_addr := add64 (oc_source_addr cmd) payloadlen\<rparr>
                  in Some (pkt, p\<lparr>commands := (if oc_length cmd > 0 then rest @ [cmd] else rest)\<rparr>))"

section \<open>The engine\<close>

record nic_outbound =
  no_axi :: axi_master
  network_word_cycles :: nat
  no_max_pkt_length :: nat
  network_buffer_size :: nat
  no_wait_cycles :: nat
  network_queue :: "net_packet list"
  dma_pkt_in_flight :: "net_packet list"
  no_packetizer :: packetizer
  has_pktout_cb :: bool
  pktout_calls :: "(u8 list \<times> nat) list"
  no_total_cmds :: nat
  no_total_pkts :: nat
  no_total_bytes :: nat
  time_first_pkt :: nat
  time_last_pkt :: nat
  no_cmd_req_ready_o :: bool
  no_cmd_resp_valid_o :: bool
  no_cmd_resp_id_o :: nat

text \<open>What the hardware drives.\<close>

record no_in =
  no_cmd_req_valid_i :: bool
  no_cmd_req_i :: out_command
  no_bus :: bus_in
  no_time :: nat

definition new_nic_outbound :: "nat \<Rightarrow> nat \<Rightarrow> nat \<Rightarrow> nic_outbound" where
  "new_nic_outbound word_cycles max_len buffer_size = \<lparr>no_axi = new_axi_master, network_word_cycles = word_cycles,
     no_max_pkt_length = max_len, network_buffer_size = buffer_size, no_wait_cycles = 0, network_queue = [], dma_pkt_in_flight = [],
     no_packetizer = \<lparr>num_parallel_cmds = NUM_PARALLEL_CMD, max_packet_len = max_len, commands = []\<rparr>, has_pktout_cb = False,
     pktout_calls = [], no_total_cmds = 0, no_total_pkts = 0, no_total_bytes = 0, time_first_pkt = 0, time_last_pkt = 0,
     no_cmd_req_ready_o = False, no_cmd_resp_valid_o = False, no_cmd_resp_id_o = 0\<rparr>"

definition set_packet_out_cb :: "nic_outbound \<Rightarrow> nic_outbound" where "set_packet_out_cb s = s\<lparr>has_pktout_cb := True\<rparr>"

definition handle_cmd_posedge :: "no_in \<Rightarrow> nic_outbound \<Rightarrow> nic_outbound option" where
  "handle_cmd_posedge i s =
     (let s = s\<lparr>no_cmd_req_ready_o := False\<rparr>; cmd = no_cmd_req_i i
      in if \<not> (no_cmd_req_valid_i i \<and> has_free_cmd_slot (no_packetizer s)) then Some s
         else if \<not> (oc_fid cmd > 0 \<or> oc_length cmd \<le> no_max_pkt_length s) then None
         else (case new_out_cmd cmd (no_packetizer s) of
                 None \<Rightarrow> None
               | Some p \<Rightarrow> Some (s\<lparr>no_total_cmds := add32 (no_total_cmds s) 1, no_packetizer := p, no_cmd_req_ready_o := True\<rparr>)))"

text \<open>The bus has addresses of 32 bits.\<close>

definition progress_packets :: "nic_outbound \<Rightarrow> nic_outbound option" where
  "progress_packets s =
     (if \<not> (has_packets (no_packetizer s) \<and> length (network_queue s) + length (dma_pkt_in_flight s) < network_buffer_size s) then Some s
      else (case get_next_packet (no_packetizer s) of
              None \<Rightarrow> None
            | Some (pkt, p) \<Rightarrow> Some (s\<lparr>no_packetizer := p, no_axi := axi_read (np_source_addr pkt mod 2 ^ 32) (np_payload_length pkt) (no_axi s),
                dma_pkt_in_flight := dma_pkt_in_flight s @ [pkt]\<rparr>)))"

definition progress_netqueue :: "nat \<Rightarrow> nic_outbound \<Rightarrow> nic_outbound" where
  "progress_netqueue now s =
     (let s = s\<lparr>no_cmd_resp_valid_o := False\<rparr>;
          was_waiting = no_wait_cycles s > 0;
          s = (if was_waiting then s\<lparr>no_wait_cycles := no_wait_cycles s - 1\<rparr> else s)
      in if was_waiting \<and> no_wait_cycles s > 0 then s
         else (case network_queue s of
           [] \<Rightarrow> s
         | pkt # rest \<Rightarrow>
             let s = s\<lparr>no_wait_cycles := network_word_cycles s * (np_length pkt div WORD_SIZE)\<rparr>;
                 s = (if np_is_last pkt then s\<lparr>no_cmd_resp_valid_o := True, no_cmd_resp_id_o := np_cmd_id pkt\<rparr> else s);
                 s = (if has_pktout_cb s then s\<lparr>pktout_calls := pktout_calls s @ [(np_data pkt, np_length pkt)]\<rparr> else s);
                 s = (if no_total_pkts s = 0 then s\<lparr>time_first_pkt := now\<rparr> else s)
             in s\<lparr>time_last_pkt := now, no_total_pkts := add32 (no_total_pkts s) 1, no_total_bytes := add32 (no_total_bytes s) (np_length pkt),
                  network_queue := rest\<rparr>))"

definition progress_axi_reads :: "axi_master \<Rightarrow> axi_master option" where
  "progress_axi_reads m = (if has_ar_beat m \<and> can_send_ar_beat m then send_ar_beat m else Some m)"

text \<open>Bytes copied into a packet from a place on.\<close>

definition put_bytes :: "u8 list \<Rightarrow> nat \<Rightarrow> u8 list \<Rightarrow> u8 list" where
  "put_bytes d off bs = take off d @ bs @ drop (off + length bs) d"

definition no_read_responses :: "nic_outbound \<Rightarrow> nic_outbound option" where
  "no_read_responses s =
     (if \<not> has_r_beat (no_axi s) then Some s
      else (case dma_pkt_in_flight s of
        [] \<Rightarrow> None
      | pkt # rest \<Rightarrow>
          (case consume_r_beat (no_axi s) AXI_SW of
             None \<Rightarrow> None
           | Some (bs, read_complete, m) \<Rightarrow>
               let pkt = pkt\<lparr>np_data := put_bytes (np_data pkt) (np_current_offset pkt) bs,
                     np_current_offset := add32 (np_current_offset pkt) (length bs)\<rparr>
               in if \<not> read_complete then Some (s\<lparr>no_axi := m, dma_pkt_in_flight := pkt # rest\<rparr>)
                  else if np_current_offset pkt \<noteq> np_payload_length pkt then None
                  else Some (s\<lparr>no_axi := m, network_queue := network_queue s @ [pkt], dma_pkt_in_flight := rest\<rparr>))))"

definition no_posedge :: "no_in \<Rightarrow> nic_outbound \<Rightarrow> nic_outbound option" where
  "no_posedge i s =
     Option.bind (progress_axi_reads (no_axi s)) (\<lambda>m.
     Option.bind (master_posedge (no_bus i) m) (\<lambda>m.
     Option.bind (no_read_responses (s\<lparr>no_axi := m\<rparr>)) (\<lambda>s.
     Option.bind (handle_cmd_posedge i (progress_netqueue (no_time i) s)) (\<lambda>s.
     progress_packets s))))"

definition no_negedge :: "nic_outbound \<Rightarrow> nic_outbound" where
  "no_negedge s = s\<lparr>no_axi := master_negedge (no_axi s)\<rparr>"

section \<open>The packets of a command\<close>

text \<open>
  A command alone: how it is cut when no other is waiting. The length is that of the bytes that are left, and every packet of an
  RDMA command takes up to the maximal length less the header.
\<close>

definition payload_room :: "nat \<Rightarrow> out_command \<Rightarrow> nat" where
  "payload_room max_len c = (if oc_fid c > 0 then max_len - RDMA_HEADER_LENGTH else max_len)"

definition cut_ok :: "nat \<Rightarrow> out_command \<Rightarrow> bool" where
  "cut_ok max_len c \<longleftrightarrow> (if oc_fid c > 0 then RDMA_HEADER_LENGTH < max_len else oc_length c \<le> max_len) \<and> max_len < 2 ^ 32
     \<and> 0 < oc_length c \<and> oc_length c < 2 ^ 32 \<and> oc_source_addr c + oc_length c < 2 ^ 64"

function packets_of :: "nat \<Rightarrow> out_command \<Rightarrow> net_packet list" where
  "packets_of max_len c =
     (let n = min (payload_room max_len c) (oc_length c); h = (if oc_fid c > 0 then RDMA_HEADER_LENGTH else 0)
      in if n = 0 then []
         else \<lparr>np_source_addr = oc_source_addr c, np_current_offset = 0, np_length = h + n, np_payload_length = n, np_cmd_id = oc_cmd_id c,
                np_is_last = (oc_length c = n), np_data = replicate (h + n) 0\<rparr>
              # packets_of max_len (c\<lparr>oc_length := oc_length c - n, oc_source_addr := oc_source_addr c + n\<rparr>))"
  by pat_completeness auto
termination by (relation "measure (\<lambda>(m, c). oc_length c)") auto

declare packets_of.simps [simp del]

lemma packets_of_none: "oc_length c = 0 \<Longrightarrow> packets_of max_len c = []"
  by (simp add: packets_of.simps [of max_len c])

lemma packets_of_step:
  assumes "cut_ok max_len c" "max_packet_len p = max_len" "commands p = c # rest"
  shows "\<exists>pkt c'. get_next_packet p = Some (pkt, p\<lparr>commands := rest @ (if oc_length c' = 0 then [] else [c'])\<rparr>)
    \<and> packets_of max_len c = pkt # (if oc_length c' = 0 then [] else packets_of max_len c') \<and> np_cmd_id pkt = oc_cmd_id c
    \<and> oc_cmd_id c' = oc_cmd_id c \<and> (oc_length c' \<noteq> 0 \<longrightarrow> cut_ok max_len c') \<and> oc_length c' < oc_length c"
proof -
  define n where "n = min (payload_room max_len c) (oc_length c)"
  define h where "h = (if oc_fid c > 0 then RDMA_HEADER_LENGTH else 0)"
  define c' where "c' = c\<lparr>oc_length := oc_length c - n, oc_source_addr := oc_source_addr c + n\<rparr>"
  have n: "0 < n" "n \<le> oc_length c" "oc_length c < 2 ^ 32" "h + n \<le> max_len" "max_len < 2 ^ 32" "oc_source_addr c + n < 2 ^ 64"
    using assms(1) by (auto simp: n_def h_def cut_ok_def payload_room_def split: if_splits)
  have room: "sub32 max_len h = payload_room max_len c"
    using assms(1) sub32_eq [of h max_len] by (simp add: h_def payload_room_def cut_ok_def sub32_def split: if_splits)
  have len: "sub32 (oc_length c) n = oc_length c - n" using n by (intro sub32_eq) simp_all
  have pkt: "add32 h n = h + n" "add64 (oc_source_addr c) n = oc_source_addr c + n" using n by (simp_all add: add32_def add64_def)
  have last: "(oc_length c - n = 0) = (oc_length c = n)" using n(2) by auto
  define pkt where "pkt = \<lparr>np_source_addr = oc_source_addr c, np_current_offset = 0, np_length = h + n, np_payload_length = n,
    np_cmd_id = oc_cmd_id c, np_is_last = (oc_length c = n), np_data = replicate (h + n) 0\<rparr>"
  have fits: "\<not> (\<not> oc_fid c > 0 \<and> \<not> oc_length c \<le> max_len)" using assms(1) by (simp add: cut_ok_def split: if_splits)
  have "get_next_packet p = Some (pkt, p\<lparr>commands := rest @ (if oc_length c' = 0 then [] else [c'])\<rparr>)"
    unfolding get_next_packet_def assms(3) list.case assms(2) h_def [symmetric] Let_def room n_def [symmetric] len pkt last
    using fits by (simp add: pkt_def c'_def)
  moreover have "packets_of max_len c = pkt # packets_of max_len c'"
    using n(1) unfolding packets_of.simps [of max_len c] Let_def n_def [symmetric] h_def [symmetric] by (simp add: pkt_def c'_def)
  moreover have "packets_of max_len c' = []" if "oc_length c' = 0" using that by (rule packets_of_none)
  moreover have "oc_length c' \<noteq> 0 \<longrightarrow> cut_ok max_len c'" using assms(1) n by (auto simp: c'_def cut_ok_def split: if_splits)
  moreover have "np_cmd_id pkt = oc_cmd_id c" "oc_cmd_id c' = oc_cmd_id c" "oc_length c' < oc_length c"
    using n by (simp_all add: pkt_def c'_def)
  ultimately show ?thesis by (intro exI [of _ pkt] exI [of _ c']) auto
qed

text \<open>The packets of a command, one behind the other, are its bytes.\<close>

fun contiguous :: "nat \<Rightarrow> net_packet list \<Rightarrow> bool" where
  "contiguous a [] = True"
| "contiguous a (p # ps) = (np_source_addr p = a \<and> 0 < np_payload_length p \<and> contiguous (a + np_payload_length p) ps)"

lemma packets_of_bytes:
  "cut_ok max_len c \<Longrightarrow> contiguous (oc_source_addr c) (packets_of max_len c)
    \<and> sum_list (map np_payload_length (packets_of max_len c)) = oc_length c
    \<and> map np_is_last (packets_of max_len c) = replicate (length (packets_of max_len c) - 1) False @ [True]
    \<and> (\<forall>p \<in> set (packets_of max_len c). np_length p \<le> max_len \<and> np_length p = (if oc_fid c > 0 then RDMA_HEADER_LENGTH else 0) + np_payload_length p)"
proof (induction max_len c rule: packets_of.induct)
  case (1 max_len c)
  define n where "n = min (payload_room max_len c) (oc_length c)"
  define h where "h = (if oc_fid c > 0 then RDMA_HEADER_LENGTH else 0)"
  define c' where "c' = c\<lparr>oc_length := oc_length c - n, oc_source_addr := oc_source_addr c + n\<rparr>"
  have n: "0 < n" "n \<le> oc_length c" "h + n \<le> max_len"
    using 1(2) by (auto simp: n_def h_def cut_ok_def payload_room_def split: if_splits)
  have step: "packets_of max_len c = \<lparr>np_source_addr = oc_source_addr c, np_current_offset = 0, np_length = h + n, np_payload_length = n,
    np_cmd_id = oc_cmd_id c, np_is_last = (oc_length c = n), np_data = replicate (h + n) 0\<rparr> # packets_of max_len c'"
    using n(1) unfolding packets_of.simps [of max_len c] Let_def n_def [symmetric] h_def [symmetric] by (simp add: c'_def)
  show ?case
  proof (cases "oc_length c = n")
    case True
    then have "packets_of max_len c' = []" by (intro packets_of_none) (simp add: c'_def)
    then show ?thesis using True n by (simp add: step h_def)
  next
    case False
    then have "cut_ok max_len c'" using 1(2) n by (auto simp: c'_def cut_ok_def split: if_splits)
    moreover have "packets_of max_len c' \<noteq> []" using calculation
      by (auto simp: packets_of.simps [of max_len c'] cut_ok_def payload_room_def Let_def split: if_splits)
    moreover note ih = 1(1) [OF n_def h_def, folded c'_def]
    ultimately show ?thesis using n False by (cases "packets_of max_len c'") (auto simp: step h_def c'_def)
  qed
qed

section \<open>Commands in turn\<close>

text \<open>
  Commands given and packets taken in any order. The hardware numbers a command as no command that is waiting.
\<close>

inductive cut_run :: "nat \<Rightarrow> packetizer \<Rightarrow> out_command list \<Rightarrow> net_packet list \<Rightarrow> bool" for max_len where
  cut_begins: "cut_run max_len \<lparr>num_parallel_cmds = NUM_PARALLEL_CMD, max_packet_len = max_len, commands = []\<rparr> [] []"
| cut_given: "cut_run max_len p given out \<Longrightarrow> cut_ok max_len c \<Longrightarrow> \<forall>d \<in> set (commands p). oc_cmd_id d \<noteq> oc_cmd_id c \<Longrightarrow>
    new_out_cmd c p = Some p' \<Longrightarrow> cut_run max_len p' (given @ [c]) out"
| cut_taken: "cut_run max_len p given out \<Longrightarrow> get_next_packet p = Some (pkt, p') \<Longrightarrow> cut_run max_len p' given (out @ [pkt])"

text \<open>The packets of the commands with a number, and those that are still to come.\<close>

definition packets_with :: "nat \<Rightarrow> nat \<Rightarrow> out_command list \<Rightarrow> net_packet list" where
  "packets_with max_len n cs = concat (map (packets_of max_len) (filter (\<lambda>c. oc_cmd_id c = n) cs))"

definition cut_inv :: "nat \<Rightarrow> packetizer \<Rightarrow> bool" where
  "cut_inv max_len p \<longleftrightarrow> max_packet_len p = max_len \<and> distinct (map oc_cmd_id (commands p)) \<and> (\<forall>c \<in> set (commands p). cut_ok max_len c)"

lemma cut_next:
  assumes "cut_inv max_len p" "commands p \<noteq> []"
  shows "\<exists>pkt p'. get_next_packet p = Some (pkt, p') \<and> cut_inv max_len p'
    \<and> (\<forall>n. packets_with max_len n (commands p) = filter (\<lambda>k. np_cmd_id k = n) [pkt] @ packets_with max_len n (commands p'))
    \<and> sum_list (map (\<lambda>c. length (packets_of max_len c)) (commands p)) = Suc (sum_list (map (\<lambda>c. length (packets_of max_len c)) (commands p')))"
proof -
  obtain c rest where q: "commands p = c # rest" using assms(2) by (cases "commands p") auto
  have ok: "cut_ok max_len c" "max_packet_len p = max_len" "\<forall>d \<in> set rest. oc_cmd_id d \<noteq> oc_cmd_id c"
    using assms(1) q by (auto simp: cut_inv_def image_iff)
  from packets_of_step [OF ok(1,2) q] obtain pkt c' where st:
    "get_next_packet p = Some (pkt, p\<lparr>commands := rest @ (if oc_length c' = 0 then [] else [c'])\<rparr>)"
    "packets_of max_len c = pkt # (if oc_length c' = 0 then [] else packets_of max_len c')" "np_cmd_id pkt = oc_cmd_id c"
    "oc_cmd_id c' = oc_cmd_id c" "oc_length c' \<noteq> 0 \<longrightarrow> cut_ok max_len c'" by blast
  let ?p = "p\<lparr>commands := rest @ (if oc_length c' = 0 then [] else [c'])\<rparr>"
  have none: "filter (\<lambda>d. oc_cmd_id d = oc_cmd_id c) rest = []" using ok(3) by (simp add: filter_empty_conv)
  have "cut_inv max_len ?p" using assms(1) ok st(4,5) unfolding cut_inv_def q by auto
  moreover have "packets_with max_len n (commands p) = filter (\<lambda>k. np_cmd_id k = n) [pkt] @ packets_with max_len n (commands ?p)" for n
    using st(2-4) none by (cases "n = oc_cmd_id c") (simp_all add: packets_with_def q)
  moreover have "sum_list (map (\<lambda>c. length (packets_of max_len c)) (commands p)) = Suc (sum_list (map (\<lambda>c. length (packets_of max_len c)) (commands ?p)))"
    using st(2) by (simp add: q)
  ultimately show ?thesis using st(1) by blast
qed

lemma cut_run_inv:
  "cut_run max_len p given out \<Longrightarrow> cut_inv max_len p \<and>
    (\<forall>n. packets_with max_len n given = filter (\<lambda>k. np_cmd_id k = n) out @ packets_with max_len n (commands p)) \<and>
    sum_list (map (\<lambda>c. length (packets_of max_len c)) given) = length out + sum_list (map (\<lambda>c. length (packets_of max_len c)) (commands p)) \<and>
    (\<forall>c \<in> set given. cut_ok max_len c)"
proof (induction rule: cut_run.induct)
  case cut_begins
  show ?case by (simp add: cut_inv_def packets_with_def)
next
  case (cut_given p given out c p')
  then have "p' = p\<lparr>commands := commands p @ [c]\<rparr>" by (simp add: new_out_cmd_def split: if_splits)
  then show ?case using cut_given by (auto simp: cut_inv_def packets_with_def)
next
  case (cut_taken p given out pkt p')
  then have "commands p \<noteq> []" by (auto simp: get_next_packet_def)
  with cut_next [of max_len p] cut_taken show ?case by simp
qed

text \<open>
  C14: Given are commands of at least one byte and fewer than \<open>2 ^ 32\<close> that end below \<open>2 ^ 64\<close>, each with another number than
  every command that waits; the maximum length of a packet is below \<open>2 ^ 32\<close> and longer than the header of a command for a
  remote address, and a raw command is not longer than it (\<open>cut_ok\<close>). However their packets are taken in turn, the
  packets of the commands with a number are those their commands are cut into alone, in order, and as long as a command waits
  a packet can be taken. They lie one behind the other, their payloads add up to the length of the command, none is longer
  than the maximum, and only the last is marked.
\<close>

theorem packets_in_turn:
  assumes "cut_run max_len p given out"
  shows "(\<exists>later. packets_with max_len n given = filter (\<lambda>k. np_cmd_id k = n) out @ later \<and> (commands p = [] \<longrightarrow> later = []))
    \<and> (commands p \<noteq> [] \<longrightarrow> get_next_packet p \<noteq> None)
    \<and> (commands p = [] \<longleftrightarrow> length out = sum_list (map (\<lambda>c. length (packets_of max_len c)) given))
    \<and> (\<forall>c \<in> set given. contiguous (oc_source_addr c) (packets_of max_len c)
        \<and> sum_list (map np_payload_length (packets_of max_len c)) = oc_length c
        \<and> map np_is_last (packets_of max_len c) = replicate (length (packets_of max_len c) - 1) False @ [True]
        \<and> (\<forall>k \<in> set (packets_of max_len c). np_length k \<le> max_len))"
proof -
  note i = cut_run_inv [OF assms]
  have ok: "\<forall>c \<in> set (commands p). packets_of max_len c \<noteq> []"
    using i packets_of_bytes [of max_len] by (fastforce simp: cut_inv_def)
  have "commands p = [] \<longleftrightarrow> length out = sum_list (map (\<lambda>c. length (packets_of max_len c)) given)"
    using i ok by (cases "commands p") auto
  moreover have "commands p \<noteq> [] \<longrightarrow> get_next_packet p \<noteq> None" using cut_next [of max_len p] i by auto
  moreover have "\<exists>later. packets_with max_len n given = filter (\<lambda>k. np_cmd_id k = n) out @ later \<and> (commands p = [] \<longrightarrow> later = [])"
    using i by (intro exI [of _ "packets_with max_len n (commands p)"]) (simp add: packets_with_def)
  ultimately show ?thesis using i packets_of_bytes [of max_len] by blast
qed

definition demo_command :: out_command where
  "demo_command = \<lparr>oc_source_addr = 0x1000, oc_length = 100, oc_nid = 0, oc_fid = 1, oc_cmd_id = 3\<rparr>"

definition demo_packetizer :: packetizer where
  "demo_packetizer = \<lparr>num_parallel_cmds = NUM_PARALLEL_CMD, max_packet_len = 64, commands = [demo_command]\<rparr>"

theorem packets_in_turn_witness:
  "get_next_packet demo_packetizer \<noteq> None \<and> sum_list (map np_payload_length (packets_of 64 demo_command)) = 100"
proof -
  have "cut_run 64 demo_packetizer ([] @ [demo_command]) []"
    by (rule cut_given [OF cut_begins])
      (simp_all add: cut_ok_def demo_command_def demo_packetizer_def RDMA_HEADER_LENGTH_def new_out_cmd_def NUM_PARALLEL_CMD_def)
  from packets_in_turn [OF this, of 3] show ?thesis by (simp add: demo_packetizer_def) (simp add: demo_command_def)
qed

section \<open>The bytes of a packet\<close>

lemma put_bytes_again:
  "off + length bs + length cs \<le> length d \<Longrightarrow> put_bytes (put_bytes d off bs) (off + length bs) cs = put_bytes d off (bs @ cs)"
  by (simp add: put_bytes_def add.assoc add.commute [of "length cs"])

lemma put_bytes_length: "off + length bs \<le> length d \<Longrightarrow> length (put_bytes d off bs) = length d"
  by (simp add: put_bytes_def)

text \<open>The responses that wait, one after the other.\<close>

fun take_reads :: "nat \<Rightarrow> nic_outbound \<Rightarrow> nic_outbound option" where
  "take_reads 0 s = Some s"
| "take_reads (Suc k) s = Option.bind (no_read_responses s) (take_reads k)"

lemma buffered_length: "length (concat (map r_bytes (buffered k cs))) \<le> k"
proof (induction k cs rule: buffered.induct)
  case (2 left d l as)
  have "length (take (min 64 left) d) \<le> min 64 left" by (simp only: length_take min.cobounded2)
  then have "length (take (min 64 left) d) + length (concat (map r_bytes (buffered (left - min 64 left) as))) \<le> left" using 2 by linarith
  then show ?case by (simp only: buffered.simps list.map concat.simps length_append r_buffered.simps)
qed simp

lemma take_reads_packet:
  assumes "r_queue (no_axi s) = buffered left as" "as \<noteq> []" "\<forall>a \<in> set as. length (fst a) = 64" "length as = (left + 63) div 64"
    "dma_pkt_in_flight s = pkt # rest" "np_current_offset pkt = off" "np_payload_length pkt = off + left"
    "off + left \<le> length (np_data pkt)" "off + left < 2 ^ 32"
  shows "\<exists>s'. take_reads (length as) s = Some s' \<and> dma_pkt_in_flight s' = rest
    \<and> network_queue s' = network_queue s @ [pkt\<lparr>np_data := put_bytes (np_data pkt) off (concat (map r_bytes (buffered left as))),
        np_current_offset := off + left\<rparr>]"
  using assms
proof (induction as arbitrary: s left pkt off)
  case (Cons a as)
  obtain d l where a: "a = (d, l)" by fastforce
  define n where "n = min 64 left"
  have d: "length d = 64" using Cons.prems(3) a by simp
  have "0 < (left + 63) div 64" using Cons.prems(4) by simp
  then have left: "0 < left" by (cases left) simp_all
  define bs where "bs = take n d"
  have bs: "length bs = n" using d by (simp add: bs_def n_def)
  have q: "r_queue (no_axi s) = \<lparr>data_length = n, r_bytes = bs, is_last = (as = [])\<rparr> # buffered (left - n) as"
    using Cons.prems(1) by (simp add: a n_def bs_def)
  let ?m = "(no_axi s)\<lparr>r_queue := buffered (left - n) as\<rparr>"
  have consume: "has_r_beat (no_axi s)" "consume_r_beat (no_axi s) AXI_SW = Some (bs, as = [], ?m)"
    using q bs by (simp_all add: has_r_beat_def consume_r_beat_def AXI_SW_def AXI_DW_def n_def)
  have off: "add32 off n = off + n" using Cons.prems(9) by (simp add: add32_def n_def)
  define pkt' where "pkt' = pkt\<lparr>np_data := put_bytes (np_data pkt) off bs, np_current_offset := off + n\<rparr>"
  have step: "no_read_responses s = (if as \<noteq> [] then Some (s\<lparr>no_axi := ?m, dma_pkt_in_flight := pkt' # rest\<rparr>)
      else if off + n \<noteq> np_payload_length pkt then None
      else Some (s\<lparr>no_axi := ?m, network_queue := network_queue s @ [pkt'], dma_pkt_in_flight := rest\<rparr>))"
    using consume Cons.prems(5,6) bs off by (simp add: no_read_responses_def pkt'_def Let_def)
  show ?case
  proof (cases "as = []")
    case True
    then have "(left + 63) div 64 = 1" using Cons.prems(4) by (simp only: list.size)
    then have nl: "n = left" unfolding n_def by linarith
    have r: "take_reads (length (a # as)) s = Some (s\<lparr>no_axi := ?m, network_queue := network_queue s @ [pkt'], dma_pkt_in_flight := rest\<rparr>)"
      using True step Cons.prems(7) by (simp add: nl)
    have "concat (map r_bytes (buffered left (a # as))) = bs" using True by (simp add: a bs_def n_def)
    then show ?thesis unfolding r by (simp add: pkt'_def nl)
  next
    case False
    then have "64 < left" using Cons.prems(4) by (cases as) simp_all
    then have n: "n = 64" by (simp add: n_def)
    let ?s = "s\<lparr>no_axi := ?m, dma_pkt_in_flight := pkt' # rest\<rparr>"
    have "length as = (left - n + 63) div 64" using Cons.prems(4) \<open>64 < left\<close> n by simp
    moreover have len: "off + n + (left - n) = off + left" using n \<open>64 < left\<close> by simp
    moreover have "length (put_bytes (np_data pkt) off bs) = length (np_data pkt)"
      using Cons.prems(8) n \<open>64 < left\<close> bs by (intro put_bytes_length) simp
    ultimately obtain s' where s': "take_reads (length as) ?s = Some s'" "dma_pkt_in_flight s' = rest"
      "network_queue s' = network_queue s @ [pkt'\<lparr>np_data := put_bytes (np_data pkt') (off + n) (concat (map r_bytes (buffered (left - n) as))),
        np_current_offset := off + left\<rparr>]"
      using Cons.IH [of ?s "left - n" pkt' "off + n"] Cons.prems False by (auto simp: pkt'_def)
    define cs where "cs = concat (map r_bytes (buffered (left - n) as))"
    have "length cs \<le> left - n" unfolding cs_def by (rule buffered_length)
    then have "off + length bs + length cs \<le> length (np_data pkt)" using Cons.prems(8) bs len by linarith
    from put_bytes_again [OF this] have "put_bytes (np_data pkt') (off + n) cs = put_bytes (np_data pkt) off (bs @ cs)"
      by (simp add: pkt'_def bs)
    moreover have "concat (map r_bytes (buffered left (a # as))) = bs @ cs" by (simp add: a n_def bs_def cs_def)
    moreover have "take_reads (length (a # as)) s = take_reads (length as) ?s" using step False by simp
    moreover have "pkt'\<lparr>np_data := z, np_current_offset := off + left\<rparr> = pkt\<lparr>np_data := z, np_current_offset := off + left\<rparr>" for z
      by (simp add: pkt'_def)
    ultimately show ?thesis using s' by (simp only: flip: cs_def) simp
  qed
qed simp

text \<open>
  A packet whose payload starts at a line of the memory holds, when the hardware has answered its read, the bytes of the payload
  from its first byte on, and goes to the network; the header of an RDMA packet is not in front of it: as many bytes as it has follow,
  all zero.
\<close>

theorem outbound_packet_bytes:
  assumes "dma_pkt_in_flight s = [pkt]" "np_current_offset pkt = 0" "np_data pkt = replicate (np_length pkt) 0" "np_payload_length pkt = n"
    "0 < n" "n \<le> np_length pkt" "n < 2 ^ 32" "addr + n \<le> 2 ^ 32" "addr mod 64 = 0"
    "no_axi s = axi_read addr n m" "read_queue m = []" "r_queue m = []" "r_beats_buffer_size m = 0"
  shows "\<exists>m' s'. take_answers (read_answers mem (map fst (create_ax_beats addr n))) (no_axi s) = Some m'
    \<and> take_reads ((n + 63) div 64) (s\<lparr>no_axi := m'\<rparr>) = Some s' \<and> dma_pkt_in_flight s' = []
    \<and> network_queue s' = network_queue s @ [pkt\<lparr>np_data := map mem [addr ..< addr + n] @ replicate (np_length pkt - n) 0,
        np_current_offset := n\<rparr>]"
proof -
  define as where "as = read_answers mem (map fst (create_ax_beats addr n))"
  note r = read_answered [OF assms(5,8,7,9,11-13), of mem, folded as_def]
  obtain m' where m': "take_answers as (axi_read addr n m) = Some m'" "r_queue m' = buffered n as" using r(1) by blast
  have "as \<noteq> []" using r(4) assms(5) by (cases as) auto
  with take_reads_packet [of "s\<lparr>no_axi := m'\<rparr>" n as pkt "[]" 0] m' r assms obtain s' where
    s': "take_reads (length as) (s\<lparr>no_axi := m'\<rparr>) = Some s'" "dma_pkt_in_flight s' = []"
    "network_queue s' = network_queue s @ [pkt\<lparr>np_data := put_bytes (np_data pkt) 0 (map mem [addr ..< addr + n]), np_current_offset := n\<rparr>]"
    by auto
  have "put_bytes (np_data pkt) 0 (map mem [addr ..< addr + n]) = map mem [addr ..< addr + n] @ replicate (np_length pkt - n) 0"
    by (simp add: put_bytes_def assms(3))
  then show ?thesis using m'(1) s' r(4) unfolding assms(10) as_def by auto
qed

definition demo_outbound :: nic_outbound where
  "demo_outbound = (new_nic_outbound 0 64 32)\<lparr>no_axi := axi_read 0x1000 3 new_axi_master, dma_pkt_in_flight :=
     [\<lparr>np_source_addr = 0x1000, np_current_offset = 0, np_length = 35, np_payload_length = 3, np_cmd_id = 0, np_is_last = True,
       np_data = replicate 35 0\<rparr>]\<rparr>"

theorem outbound_packet_bytes_witness:
  "\<exists>m' s'. take_answers (read_answers of_nat (map fst (create_ax_beats 0x1000 3))) (no_axi demo_outbound) = Some m'
    \<and> take_reads 1 (demo_outbound\<lparr>no_axi := m'\<rparr>) = Some s' \<and> map np_data (network_queue s') = [map of_nat [0x1000 ..< 0x1003] @ replicate 32 0]"
proof -
  let ?p = "\<lparr>np_source_addr = 0x1000, np_current_offset = 0, np_length = 35, np_payload_length = 3, np_cmd_id = 0, np_is_last = True,
    np_data = replicate 35 0\<rparr>"
  have "dma_pkt_in_flight demo_outbound = [?p]" "no_axi demo_outbound = axi_read 0x1000 3 new_axi_master" "network_queue demo_outbound = []"
    by (simp_all add: demo_outbound_def new_nic_outbound_def del: replicate.simps)
  with outbound_packet_bytes [of demo_outbound ?p 3 "0x1000" new_axi_master of_nat] show ?thesis
    by (auto simp: new_axi_master_def simp del: replicate.simps upt.simps)
qed

end
