(* ===== verification/Pcie_Host.thy ===== *)
theory Pcie_Host
  imports Axi_Slave Nic_Inbound
begin

text \<open>
  The host side of the simulator: \<^verbatim>\<open>PCIeSlave.hpp\<close>, the memory of the host that the accelerator writes and reads, and
  \<^verbatim>\<open>PCIeMaster.hpp\<close>, by which the host writes and reads that of the accelerator. The time a request of some bytes takes, a
  floating-point product truncated to 32 bits, is a function of the state, as is the application's function for reads; its
  function for writes is a list of calls. A failed assertion is \<open>None\<close>. The printed statistics are left out.
\<close>

section \<open>The host as a slave\<close>

record pcie_write =
  pw_req :: w_beat_request
  pw_time :: nat

record pcie_read =
  pr_req :: r_beat_request
  pr_time :: nat

record pcie_slave =
  slv :: axi_slave
  pcie_L :: nat
  pcie_cycles :: "nat \<Rightarrow> nat"
  write_wait_cycles :: nat
  read_wait_cycles :: nat
  in_flight_write_requests :: "pcie_write list"
  in_flight_read_requests :: "pcie_read list"
  has_slv_write_cb :: bool
  slv_write_calls :: "(nat \<times> u8 list \<times> nat) list"
  slv_read_cb :: "(nat \<Rightarrow> u8 list \<Rightarrow> nat \<Rightarrow> u8 list) option"
  ps_bytes_written :: nat
  ps_bytes_read :: nat
  time_first_read :: nat
  time_last_write :: nat
  time_first_write :: nat
  time_last_read :: nat
  num_reads :: nat
  num_writes :: nat





text \<open>The call of the application: the address, the bytes and their number.\<close>

definition write_call :: "w_beat_request \<Rightarrow> nat \<times> u8 list \<times> nat" where
  "write_call req =
     (let fs = builtin_ffsl (w_strb (wr_w_beat req)) - 1
      in (add64 (wr_addr req) fs, take (wr_data_size req) (drop fs (w_data (wr_w_beat req))), wr_data_size req))"

text \<open>What is kept for the statistics.\<close>

definition count_write :: "nat \<Rightarrow> nat \<Rightarrow> pcie_slave \<Rightarrow> pcie_slave" where
  "count_write now n s =
     (let s = s\<lparr>ps_bytes_written := add32 (ps_bytes_written s) n\<rparr>;
          s = (if num_writes s = 0 then s\<lparr>time_first_write := now\<rparr> else s)
      in s\<lparr>num_writes := add32 (num_writes s) 1, time_last_write := now\<rparr>)"

definition count_read :: "nat \<Rightarrow> nat \<Rightarrow> pcie_slave \<Rightarrow> pcie_slave" where
  "count_read now n s =
     (let s = s\<lparr>ps_bytes_read := add32 (ps_bytes_read s) n\<rparr>;
          s = (if num_reads s = 0 then s\<lparr>time_first_read := now\<rparr> else s)
      in s\<lparr>num_reads := add32 (num_reads s) 1, time_last_read := now\<rparr>)"






section \<open>The host as a master\<close>

record read_descr =
  rd_data :: "u8 list"
  rd_offset :: nat
  rd_len :: nat
  rd_user_ptr :: nat

record pcie_master =
  mst :: axi_master
  in_flight_reads :: "read_descr list"
  in_flight_writes :: "nat list"
  has_write_cb :: bool
  has_read_cb :: bool
  write_cb_calls :: "nat list"
  read_cb_calls :: "nat list"
  pm_bytes_written :: nat
  pm_bytes_read :: nat

definition new_pcie_master :: pcie_master where
  "new_pcie_master = \<lparr>mst = new_axi_master, in_flight_reads = [], in_flight_writes = [], has_write_cb = False, has_read_cb = False,
     write_cb_calls = [], read_cb_calls = [], pm_bytes_written = 0, pm_bytes_read = 0\<rparr>"

definition nic_mem_write :: "nat \<Rightarrow> u8 list \<Rightarrow> nat \<Rightarrow> nat \<Rightarrow> pcie_master \<Rightarrow> pcie_master option" where
  "nic_mem_write nic_mem_addr data len user_ptr s =
     map_option (\<lambda>m. s\<lparr>mst := m, in_flight_writes := in_flight_writes s @ [user_ptr], pm_bytes_written := add32 (pm_bytes_written s) len\<rparr>)
       (axi_write nic_mem_addr data (len mod 2 ^ 32) 0 (mst s))"

definition nic_mem_read :: "nat \<Rightarrow> u8 list \<Rightarrow> nat \<Rightarrow> nat \<Rightarrow> pcie_master \<Rightarrow> pcie_master" where
  "nic_mem_read nic_mem_addr data len user_ptr s =
     s\<lparr>mst := axi_read nic_mem_addr (len mod 2 ^ 32) (mst s),
       in_flight_reads := in_flight_reads s @ [\<lparr>rd_data = data, rd_offset = 0, rd_len = len, rd_user_ptr = user_ptr\<rparr>],
       pm_bytes_read := add32 (pm_bytes_read s) len\<rparr>"

definition set_mst_write_cb :: "pcie_master \<Rightarrow> pcie_master" where "set_mst_write_cb s = s\<lparr>has_write_cb := True\<rparr>"
definition set_mst_read_cb :: "pcie_master \<Rightarrow> pcie_master" where "set_mst_read_cb s = s\<lparr>has_read_cb := True\<rparr>"

definition pm_axi_writes :: "axi_master \<Rightarrow> axi_master option" where
  "pm_axi_writes m =
     Option.bind (if has_aw_beat m \<and> can_send_aw_beat m then send_aw_beat m else Some m)
       (\<lambda>m. if has_w_beat m \<and> can_send_w_beat m then send_w_beat m else Some m)"

definition pm_axi_reads :: "axi_master \<Rightarrow> axi_master option" where
  "pm_axi_reads m = (if has_ar_beat m \<and> can_send_ar_beat m then send_ar_beat m else Some m)"

definition pm_write_responses :: "pcie_master \<Rightarrow> pcie_master option" where
  "pm_write_responses s =
     (if \<not> has_b_beat (mst s) then Some s
      else (case consume_b_beat (mst s) of
        None \<Rightarrow> None
      | Some (write_completed, m) \<Rightarrow>
          if \<not> write_completed then Some (s\<lparr>mst := m\<rparr>)
          else (case in_flight_writes s of
                  [] \<Rightarrow> None
                | user_ptr # rest \<Rightarrow> Some (s\<lparr>mst := m, in_flight_writes := rest,
                    write_cb_calls := (if has_write_cb s then write_cb_calls s @ [user_ptr] else write_cb_calls s)\<rparr>))))"

text \<open>The offset is behind the beat before the beat has been looked at.\<close>

definition pm_read_responses :: "pcie_master \<Rightarrow> pcie_master option" where
  "pm_read_responses s =
     (if \<not> has_r_beat (mst s) then Some s
      else (case in_flight_reads s of
        [] \<Rightarrow> None
      | rd # rest \<Rightarrow>
          if \<not> add32 (rd_offset rd) AXI_SW < rd_len rd then None
          else (case consume_r_beat (mst s) AXI_SW of
                  None \<Rightarrow> None
                | Some (bs, read_complete, m) \<Rightarrow>
                    let rd = rd\<lparr>rd_data := take (rd_offset rd) (rd_data rd) @ bs @ drop (rd_offset rd + length bs) (rd_data rd),
                          rd_offset := add32 (rd_offset rd) AXI_SW\<rparr>
                    in if \<not> read_complete then Some (s\<lparr>mst := m, in_flight_reads := rd # rest\<rparr>)
                       else if rd_offset rd \<noteq> rd_len rd then None
                       else Some (s\<lparr>mst := m, in_flight_reads := rest,
                              read_cb_calls := (if has_read_cb s then read_cb_calls s @ [rd_user_ptr rd] else read_cb_calls s)\<rparr>))))"

definition pcie_master_posedge :: "bus_in \<Rightarrow> pcie_master \<Rightarrow> pcie_master option" where
  "pcie_master_posedge bus s =
     Option.bind (pm_axi_writes (mst s)) (\<lambda>m.
     Option.bind (pm_axi_reads m) (\<lambda>m.
     Option.bind (master_posedge bus m) (\<lambda>m.
     Option.bind (pm_write_responses (s\<lparr>mst := m\<rparr>)) pm_read_responses)))"

definition pcie_master_negedge :: "pcie_master \<Rightarrow> pcie_master" where
  "pcie_master_negedge s = s\<lparr>mst := master_negedge (mst s)\<rparr>"

section \<open>No read of the host completes\<close>

lemma read_responses_none: "pm_read_responses s = Some s' \<Longrightarrow> read_cb_calls s' = read_cb_calls s \<and> length (in_flight_reads s') = length (in_flight_reads s)"
  by (auto simp: pm_read_responses_def Let_def split: if_splits list.splits option.splits)

text \<open>
  C8: The application is never told that a read is complete and no read ever leaves the list of those in flight, whatever the hardware
  answers: the beat that completes one fails an assertion, because the first one demands that bytes are left behind the beat and
  the second that none are.
\<close>

theorem host_reads_never_complete:
  "(pcie_master_posedge bus s = Some s' \<longrightarrow> read_cb_calls s' = read_cb_calls s \<and> length (in_flight_reads s') = length (in_flight_reads s))
    \<and> (r_queue (mst s) = r # rest \<and> is_last r \<longrightarrow> pm_read_responses s = None)"
proof (intro conjI impI)
  assume p: "pcie_master_posedge bus s = Some s'"
  then obtain m t where t: "pm_write_responses (s\<lparr>mst := m\<rparr>) = Some t" "pm_read_responses t = Some s'"
    by (auto simp: pcie_master_posedge_def bind_eq_Some_conv)
  have "read_cb_calls t = read_cb_calls s \<and> in_flight_reads t = in_flight_reads s"
    using t(1) by (auto simp: pm_write_responses_def split: if_splits list.splits option.splits)
  then show "read_cb_calls s' = read_cb_calls s" "length (in_flight_reads s') = length (in_flight_reads s)"
    using read_responses_none [OF t(2)] by simp_all
next
  assume "r_queue (mst s) = r # rest \<and> is_last r"
  then show "pm_read_responses s = None"
    by (auto simp: pm_read_responses_def has_r_beat_def consume_r_beat_def Let_def split: list.split)
qed

definition stuck_read :: pcie_master where
  "stuck_read = (nic_mem_read 0x100 (replicate 64 0) 64 7 new_pcie_master)\<lparr>mst := new_axi_master\<lparr>r_queue :=
     [\<lparr>data_length = 64, r_bytes = replicate 64 1, is_last = True\<rparr>]\<rparr>\<rparr>"

theorem host_reads_never_complete_witness:
  "length (in_flight_reads stuck_read) = 1 \<and> pm_read_responses stuck_read = None"
proof -
  have "r_queue (mst stuck_read) = [\<lparr>data_length = 64, r_bytes = replicate 64 1, is_last = True\<rparr>]" by (simp add: stuck_read_def del: replicate.simps)
  moreover have "length (in_flight_reads stuck_read) = 1" by (simp add: stuck_read_def nic_mem_read_def new_pcie_master_def del: replicate.simps)
  ultimately show ?thesis using host_reads_never_complete [of undefined stuck_read undefined "\<lparr>data_length = 64, r_bytes = replicate 64 1, is_last = True\<rparr>" "[]"]
    by (simp del: replicate.simps)
qed

section \<open>The writes of the accelerator reach the host in order\<close>






lemma count_other [simp]:
  "slv (count_write now n s) = slv s" "slv_write_calls (count_write now n s) = slv_write_calls s"
  "in_flight_write_requests (count_write now n s) = in_flight_write_requests s" "has_slv_write_cb (count_write now n s) = has_slv_write_cb s"
  "slv (count_read now n s) = slv s" "slv_write_calls (count_read now n s) = slv_write_calls s"
  "in_flight_write_requests (count_read now n s) = in_flight_write_requests s" "has_slv_write_cb (count_read now n s) = has_slv_write_cb s"
  by (simp_all add: count_write_def count_read_def Let_def)























section \<open>Where the writes of a burst go\<close>

text \<open>The requests of the data beats of a burst.\<close>

fun requests :: "ax_beat \<Rightarrow> w_beat list \<Rightarrow> w_beat_request list" where
  "requests aw [] = []"
| "requests aw (w # ws) = fst (w_request aw w) # requests (snd (w_request aw w)) ws"

text \<open>Beats that carry the bytes from \<open>a\<close> up to, and without, \<open>e\<close>, each those of one line; and the first byte of each.\<close>

fun burst_lanes :: "nat \<Rightarrow> nat \<Rightarrow> w_beat list \<Rightarrow> bool" where
  "burst_lanes a e [] = (a = e)"
| "burst_lanes a e (w # ws) = (let hi = min e (a div 64 * 64 + 64)
     in a < e \<and> lanes (w_strb w) (a mod 64) (hi - a div 64 * 64) \<and> burst_lanes hi e ws)"

fun starts :: "nat \<Rightarrow> w_beat list \<Rightarrow> nat list" where
  "starts a [] = []"
| "starts a (w # ws) = a # starts (a div 64 * 64 + 64) ws"

lemma burst_places:
  "burst_lanes a e ws \<Longrightarrow> b0 = ax_addr aw + ax_offset aw \<Longrightarrow> b0 + (e - a) + 64 < 2 ^ 64 \<Longrightarrow> ax_offset aw + (e - a) < 2 ^ 32 \<Longrightarrow>
    map (fst \<circ> write_call) (requests aw ws) = map (\<lambda>p. b0 + (p - a) + p mod 64) (starts a ws)"
proof (induction ws arbitrary: a aw b0)
  case (Cons w ws)
  define hi where "hi = min e (a div 64 * 64 + 64)"
  have l: "a < e" "lanes (w_strb w) (a mod 64) (hi - a div 64 * 64)" "burst_lanes hi e ws" using Cons.prems(1) by (simp_all add: hi_def Let_def)
  have am: "a div 64 * 64 + a mod 64 = a" "a mod 64 < 64" by simp_all
  have size: "strb_bytes (w_strb w) = hi - a" using lanes_count [OF l(2)] by (simp only: diff_diff_left am(1))
  have fs: "builtin_ffsl (w_strb w) = a mod 64 + 1" using lanes_first [OF l(2)] by simp
  have "a < a div 64 * 64 + 64" using am by linarith
  then have hi: "hi \<le> e" "a < hi" using l(1) by (simp_all add: hi_def)
  have ba: "add64 (ax_addr aw) (ax_offset aw) = b0" "add64 b0 (a mod 64) = b0 + a mod 64"
    using Cons.prems(2,3) am by (simp_all add: add64_def)
  define r where "r = fst (w_request aw w)"
  define aw' where "aw' = snd (w_request aw w)"
  have off: "ax_offset aw' = ax_offset aw + (hi - a)" "ax_addr aw' = ax_addr aw"
    using Cons.prems(4) hi by (simp_all add: aw'_def w_request_def Let_def size add32_def)
  have r: "fst (write_call r) = b0 + a mod 64" by (simp add: r_def w_request_def write_call_def Let_def fs ba)
  have rest: "map (fst \<circ> write_call) (requests aw' ws) = map (\<lambda>p. (b0 + (hi - a)) + (p - hi) + p mod 64) (starts hi ws)"
    using Cons.prems hi off by (intro Cons.IH [OF l(3)]) simp_all
  have eq: "starts hi ws = starts (a div 64 * 64 + 64) ws"
  proof (cases ws)
    case (Cons v vs)
    then have "hi < e" using l(3) by (simp add: Let_def)
    then show ?thesis by (simp add: hi_def)
  qed simp
  have ge: "\<forall>p \<in> set (starts h ws). h \<le> p" for h
  proof (induction ws arbitrary: h)
    case (Cons v vs)
    have "h \<le> h div 64 * 64 + 64" using div_mult_mod_eq [of h 64] mod_less_divisor [of 64 h] by linarith
    then show ?case using Cons [of "h div 64 * 64 + 64"] by auto
  qed simp
  have "map (\<lambda>p. (b0 + (hi - a)) + (p - hi) + p mod 64) (starts hi ws) = map (\<lambda>p. b0 + (p - a) + p mod 64) (starts (a div 64 * 64 + 64) ws)"
  proof (rule map_cong [OF eq])
    fix p assume "p \<in> set (starts (a div 64 * 64 + 64) ws)"
    then have "hi \<le> p" using ge [of hi] eq by simp
    then have "hi - a + (p - hi) = p - a" using hi by simp
    then show "(b0 + (hi - a)) + (p - hi) + p mod 64 = b0 + (p - a) + p mod 64" by (simp only: add.assoc)
  qed
  then show ?case using r rest by (simp add: comp_def flip: r_def aw'_def)
qed simp

lemma starts_lines: "p \<in> set (tl (starts a ws)) \<Longrightarrow> p mod 64 = 0 \<and> a \<le> p"
proof (induction ws arbitrary: a)
  case (Cons w ws)
  have a: "a \<le> a div 64 * 64 + 64" using div_mult_mod_eq [of a 64] mod_less_divisor [of 64 a] by linarith
  show ?case
  proof (cases ws)
    case Nil
    then show ?thesis using Cons.prems by simp
  next
    case (Cons v vs)
    have "p = a div 64 * 64 + 64 \<or> p \<in> set (tl (starts (a div 64 * 64 + 64) ws))" using Cons.prems Cons by simp
    then show ?thesis using Cons.IH [of "a div 64 * 64 + 64"] a by auto
  qed
qed simp

text \<open>
  The data beats of a write burst that starts at a line of 64 bytes are handed to the application with their addresses. Of any
  other burst they are not: when it is announced with the address of its first byte, the first beat is as far behind its place as the
  byte is behind the line; announced with the address of the line, every later beat is as far before its place.
\<close>

theorem host_write_places:
  assumes "burst_lanes a e ws" "a < e" "e + 64 < 2 ^ 32" "ax_offset aw = 0"
  shows "(ax_addr aw = a \<longrightarrow> map (fst \<circ> write_call) (requests aw ws) = (a + a mod 64) # tl (starts a ws))
    \<and> (ax_addr aw = a div 64 * 64 \<longrightarrow> map (fst \<circ> write_call) (requests aw ws) = a # map (\<lambda>p. p - a mod 64) (tl (starts a ws)))"
proof -
  obtain w vs where ws: "ws = w # vs" using assms(1,2) by (cases ws) auto
  have am: "a div 64 * 64 + a mod 64 = a" "a mod 64 \<le> a" by simp_all
  have st: "starts a ws = a # tl (starts a ws)" by (simp add: ws)
  have e: "ax_addr aw + (e - a) + 64 < 2 ^ 64" "ax_offset aw + (e - a) < 2 ^ 32" if "ax_addr aw \<le> a"
    using that assms(2-4) by simp_all
  have p: "map (fst \<circ> write_call) (requests aw ws) = map (\<lambda>p. ax_addr aw + (p - a) + p mod 64) (a # tl (starts a ws))" if "ax_addr aw \<le> a"
    using burst_places [OF assms(1), of "ax_addr aw" aw] e [OF that] assms(4) unfolding st [symmetric] by simp
  have "map (\<lambda>p. a + (p - a) + p mod 64) (tl (starts a ws)) = tl (starts a ws)"
    using starts_lines [of _ a ws] by (intro map_idI) simp
  moreover have "map (\<lambda>p. a div 64 * 64 + (p - a) + p mod 64) (tl (starts a ws)) = map (\<lambda>p. p - a mod 64) (tl (starts a ws))"
  proof (intro map_cong refl)
    fix p assume "p \<in> set (tl (starts a ws))"
    from starts_lines [OF this] have "p mod 64 = 0" "a \<le> p" by simp_all
    then show "a div 64 * 64 + (p - a) + p mod 64 = p - a mod 64" using am by linarith
  qed
  ultimately show ?thesis using p am by auto
qed

definition demo_beat :: w_beat where "demo_beat = blank_w\<lparr>w_strb := 0xF0, w_last := 1\<rparr>"

theorem host_write_places_witness:
  "map (fst \<circ> write_call) (requests (blank_ax\<lparr>ax_addr := 0x1004\<rparr>) [demo_beat]) = [0x1008]"
proof -
  have "lanes 0xF0 4 8"
    unfolding lanes_def by (auto simp: bit_simps less_Suc_eq numeral_eq_Suc)
  then have l: "burst_lanes 0x1004 0x1008 [demo_beat]" by (simp add: demo_beat_def Let_def)
  have aw: "ax_offset (blank_ax\<lparr>ax_addr := 0x1004\<rparr>) = 0" "ax_addr (blank_ax\<lparr>ax_addr := 0x1004\<rparr>) = 0x1004"
    by (simp_all add: blank_ax_def)
  have "map (fst \<circ> write_call) (requests (blank_ax\<lparr>ax_addr := 0x1004\<rparr>) [demo_beat]) = (0x1004 + 0x1004 mod 64) # tl (starts 0x1004 [demo_beat])"
    by (rule host_write_places [OF l _ _ aw(1), THEN conjunct1, THEN mp, OF _ _ aw(2)]) simp_all
  then show ?thesis by (simp only: starts.simps) simp
qed

section \<open>The writes of the host complete in order\<close>

definition pm_drive :: "bool \<Rightarrow> bool \<Rightarrow> pcie_master \<Rightarrow> pcie_master" where
  "pm_drive aw w s = s\<lparr>mst := (mst s)\<lparr>aw_chan := (aw_chan (mst s))\<lparr>s_ready := aw\<rparr>, w_chan := (w_chan (mst s))\<lparr>s_ready := w\<rparr>\<rparr>\<rparr>"

definition pm_conforms :: "bus_in \<Rightarrow> pcie_master \<Rightarrow> bool" where
  "pm_conforms bus s \<longleftrightarrow> \<not> r_valid bus \<and> (b_valid bus \<longrightarrow> write_queue (mst s) \<noteq> [])"

definition mem_write_ok :: "nat \<Rightarrow> u8 list \<Rightarrow> nat \<Rightarrow> bool" where
  "mem_write_ok addr data len \<longleftrightarrow> 0 < len \<and> len < 2 ^ 32 \<and> addr + len \<le> 2 ^ 32 \<and> len \<le> length data"

text \<open>Runs with writes of the application and no reads.\<close>

inductive pm_run :: "pcie_master \<Rightarrow> nat list \<Rightarrow> bool" where
  pm_begins: "pm_run (set_mst_write_cb new_pcie_master) []"
| pm_writes: "pm_run s given \<Longrightarrow> mem_write_ok addr data len \<Longrightarrow> nic_mem_write addr data len ptr s = Some t \<Longrightarrow> pm_run t (given @ [ptr])"
| pm_cycle: "pm_run s given \<Longrightarrow> pm_conforms bus s \<Longrightarrow> pcie_master_posedge bus s = Some t \<Longrightarrow> pm_run (pcie_master_negedge (pm_drive aw w t)) given"

definition pm_inv :: "pcie_master \<Rightarrow> nat list \<Rightarrow> bool" where
  "pm_inv s given \<longleftrightarrow> writes_ok (mst s) (length (in_flight_writes s)) \<and> r_queue (mst s) = [] \<and> has_write_cb s
     \<and> write_cb_calls s @ in_flight_writes s = given"

lemma pm_write_inv:
  assumes "pm_inv s given" "mem_write_ok addr data len"
  shows "\<exists>t. nic_mem_write addr data len ptr s = Some t \<and> pm_inv t (given @ [ptr])"
proof -
  have len: "len < 4294967296" using assms(2) by (simp add: mem_write_ok_def)
  obtain m where m: "axi_write addr data len 0 (mst s) = Some m" "writes_ok m (Suc (length (in_flight_writes s)))"
    using write_ok [of len addr data "mst s"] assms by (auto simp: mem_write_ok_def pm_inv_def)
  moreover have "r_queue m = r_queue (mst s)" using m(1) by (auto simp: axi_write_def Let_def split: prod.splits if_splits)
  ultimately show ?thesis using assms(1) by (auto simp: nic_mem_write_def pm_inv_def mod_less [OF len])
qed

lemma master_posedge_r: "master_posedge bus m = Some m' \<Longrightarrow> \<not> r_valid bus \<Longrightarrow> r_queue m' = r_queue m"
  by (auto simp: master_posedge_def r_posedge_def b_posedge_def w_posedge_def ar_posedge_def aw_posedge_def Let_def bind_eq_Some_conv
      split: if_splits list.splits)

lemma pm_axi_reads_ok: "writes_ok m k \<Longrightarrow> \<exists>n. pm_axi_reads m = Some n \<and> writes_ok n k \<and> write_queue n = write_queue m \<and> r_queue n = r_queue m"
  by (cases "ar_pending_queue m") (auto simp: pm_axi_reads_def has_ar_beat_def send_ar_beat_def writes_ok_def)

lemma pm_axi_writes_r: "pm_axi_writes m = Some n \<Longrightarrow> r_queue n = r_queue m"
  by (auto simp: pm_axi_writes_def send_aw_beat_def send_w_beat_def bind_eq_Some_conv split: if_splits list.splits)

lemma pm_cycle_inv:
  assumes "pm_inv s given" "pm_conforms bus s"
  shows "\<exists>t. pcie_master_posedge bus s = Some t \<and> pm_inv t given"
proof -
  let ?k = "length (in_flight_writes s)"
  have w: "writes_ok (mst s) ?k" using assms(1) by (simp add: pm_inv_def)
  have "pm_axi_writes (mst s) = progress_axi_writes (mst s)" by (simp add: pm_axi_writes_def progress_axi_writes_def)
  then obtain a where a: "pm_axi_writes (mst s) = Some a" "writes_ok a ?k" "write_queue a = write_queue (mst s)" using writes_progress [OF w] by auto
  obtain b where b: "pm_axi_reads a = Some b" "writes_ok b ?k" "write_queue b = write_queue a" "r_queue b = r_queue a"
    using pm_axi_reads_ok [OF a(2)] by blast
  have c: "\<not> r_valid bus" "b_valid bus \<longrightarrow> write_queue b \<noteq> []" using assms(2) a(3) b(3) by (simp_all add: pm_conforms_def)
  obtain m where m: "master_posedge bus b = Some m" "writes_ok m ?k" using master_progress [OF b(2) c] by blast
  have r: "r_queue m = []" using master_posedge_r [OF m(1) c(1)] b(4) pm_axi_writes_r [OF a(1)] assms(1) by (simp add: pm_inv_def)
  have inv: "pm_inv (s\<lparr>mst := m\<rparr>) given" using assms(1) m(2) r by (simp add: pm_inv_def)
  have "\<exists>t. pm_write_responses (s\<lparr>mst := m\<rparr>) = Some t \<and> pm_inv t given"
  proof (cases "b_queue m")
    case Nil
    then show ?thesis using inv by (simp add: pm_write_responses_def has_b_beat_def)
  next
    case (Cons d ds)
    then show ?thesis using inv by (cases d; cases "in_flight_writes s")
      (auto simp: pm_write_responses_def has_b_beat_def consume_b_beat_def pm_inv_def writes_ok_def)
  qed
  then obtain t where t: "pm_write_responses (s\<lparr>mst := m\<rparr>) = Some t" "pm_inv t given" by blast
  have "pm_read_responses t = Some t" using t(2) by (simp add: pm_read_responses_def has_r_beat_def pm_inv_def)
  then show ?thesis using a(1) b(1) m(1) t by (simp add: pcie_master_posedge_def)
qed

lemma pm_run_inv: "pm_run s given \<Longrightarrow> pm_inv s given"
proof (induction rule: pm_run.induct)
  case pm_begins
  show ?case by (simp add: pm_inv_def set_mst_write_cb_def new_pcie_master_def new_axi_master_def writes_ok_def answers_def)
next
  case (pm_writes s given addr data len ptr t)
  then show ?case using pm_write_inv [of s given addr data len ptr] by auto
next
  case (pm_cycle s given bus t aw w)
  then have "pm_inv t given" using pm_cycle_inv [of s given bus] by auto
  then show ?case by (simp add: pm_inv_def pcie_master_negedge_def pm_drive_def writes_ok_def master_negedge_def aw_negedge_def
      ar_negedge_def w_negedge_def)
qed

text \<open>
  As long as the application does not read and the hardware answers only writes it was sent, no assertion of the host's side fails,
  neither in a clock cycle nor in a write, and the application is told the completion of its writes once each and in order.
\<close>

theorem host_writes_complete:
  assumes "pm_run s given" "pm_conforms bus s" "mem_write_ok addr data len"
  shows "(\<exists>t. pcie_master_posedge bus s = Some t) \<and> (\<exists>t. nic_mem_write addr data len ptr s = Some t)
    \<and> write_cb_calls s @ in_flight_writes s = given"
  using pm_run_inv [OF assms(1)] pm_cycle_inv [OF _ assms(2)] pm_write_inv [OF _ assms(3)] by (fastforce simp: pm_inv_def)

theorem host_writes_complete_witness:
  "\<exists>t. nic_mem_write 0x100 [1, 2, 3] 3 7 (set_mst_write_cb new_pcie_master) = Some t"
  using host_writes_complete [OF pm_begins, of "\<lparr>b_valid = False, r_valid = False, r_last = 0, r_data = []\<rparr>" "0x100" "[1, 2, 3]" 3 7]
  by (simp add: pm_conforms_def mem_write_ok_def)

end
