(* ===== verification/Spec2Isabelle.thy ===== *)
theory Spec2Isabelle
  imports Prelude Memory_Model Atomics Spin_Locks Lazylist Lazylist_Rep Ooorb Mmio Nic_Commands
    Dma Hpu_Runtime Stdio Tinyprintf Packets Forwarding Reductions Kvs Gdriver Drivers
    Allreduce Filtering Slp Slp_Driver Cpu_Bench Event_Unit Dsp_Builtins Mchan Host_Access Soc_Control
    Register_Maps Maps_Soc Maps_Io Maps_Udma Maps_Maestro Register_Headers Host_Bridge
    Peripherals Axi_Beats Axi_Master Axi_Slave Packet_Ring Nic_Inbound Nic_Outbound Pcie_Host
begin

text \<open>
  A verification development for the software of PsPIN, an accelerator on which a network
  card runs small handlers for the packets it receives. The handlers and the runtime are C for
  clusters of 32-bit cores; the theories below translate that C, from
  \<^verbatim>\<open>src/sw/runtime\<close> (the runtime), the libraries of \<^verbatim>\<open>src/sw/pulp-sdk\<close> it is
  linked with, and \<^verbatim>\<open>src/examples\<close> (handlers, packet generators, CPU baselines).

  Parts. The hardware scheduler maps a task descriptor into every core. The runtime loop of
  \<^verbatim>\<open>hpu.c\<close> reads the handler to run from it, calls it and rings the doorbell. A handler
  reads its packet and its scratchpad memory, synchronises with other cores by atomic
  instructions and locks, moves data with the DMA engine, and asks the card to send packets or
  to move data from and to the host by writing command words. A message has a header handler,
  one payload handler per packet and a completion handler.

  Theories and sources.
  \<^item> \<open>Prelude\<close>: word types, results (\<open>error + 'a\<close>), shared rules.
  \<^item> \<open>Memory_Model\<close>: byte-addressed memory with little-endian 8, 16 and 32 bit accesses; the
    locales \<open>typed_access\<close> and \<open>access_pair\<close> state what accesses of one or two widths promise.
  \<^item> \<open>Mmio\<close>: volatile accesses as a trace; the device is a parameter that answers each read
    from the trace so far. \<open>poll\<close> is a wait loop that may not end.
  \<^item> \<open>Atomics\<close>, \<open>Spin_Locks\<close>: \<^verbatim>\<open>pspin.h\<close>, and the locks of \<^verbatim>\<open>handler.h\<close>. The interleavings of
    any number of cores are an inductive step relation per lock.
  \<^item> \<open>Lazylist\<close>, \<open>Lazylist_Rep\<close>, \<open>Ooorb\<close>: the interval list of
    \<^verbatim>\<open>examples/ooorb/handlers/lazylist.h\<close>, its refinement of a set of bytes, and the handlers
    and driver that use it; \<open>reorder_list\<close> is the interface between the two.
  \<^item> \<open>Nic_Commands\<close>, \<open>Dma\<close>, \<open>Hpu_Runtime\<close>: \<^verbatim>\<open>handler.h\<close>, \<^verbatim>\<open>handler.c\<close>, \<^verbatim>\<open>hwsched.h\<close>; \<^verbatim>\<open>libaxidma.h\<close>,
    \<^verbatim>\<open>spin_dma.h\<close>; \<^verbatim>\<open>hpu.c\<close>, \<^verbatim>\<open>pspin_rt.h\<close>, \<^verbatim>\<open>riscv_v4.h\<close>, \<^verbatim>\<open>icache_ctrl_v2.h\<close>.
  \<^item> \<open>Stdio\<close>, \<open>Tinyprintf\<close>: \<^verbatim>\<open>io.c\<close> and \<^verbatim>\<open>tinyprintf.c\<close> of the pulp-sdk.
  \<^item> \<open>Packets\<close>, \<open>Forwarding\<close>, \<open>Reductions\<close>, \<open>Kvs\<close>: \<^verbatim>\<open>packets.h\<close> and \<^verbatim>\<open>util.h\<close>; the handlers of the
    examples named like the definitions, and the CPU servers of \<^verbatim>\<open>map_reduce\<close> and \<^verbatim>\<open>kvs\<close>.
  \<^item> \<open>Allreduce\<close>, \<open>Filtering\<close>, \<open>Slp\<close>: the handlers of the examples \<^verbatim>\<open>ALLReduce\<close> (with its CPU
    server), \<^verbatim>\<open>filtering\<close> and \<^verbatim>\<open>slp\<close>. Addition of floats and their conversion to unsigned are
    parameters. The fit and predict phases of \<^verbatim>\<open>slp\<close> share a reader-writer lock.
  \<^item> \<open>Gdriver\<close>, \<open>Drivers\<close>: \<^verbatim>\<open>generic_driver/gdriver.c\<close>, which registers execution contexts and
    generates or replays packets, and the packet fillers and \<^verbatim>\<open>main\<close> functions of the examples. The
    simulator, the option parser, \<^verbatim>\<open>rand\<close> and \<^verbatim>\<open>malloc\<close> are parameters; the calls of the simulator
    are a list in the state of the driver. \<open>Slp_Driver\<close>: the driver of \<^verbatim>\<open>slp\<close>, composed with its handlers.
  \<^item> \<open>Cpu_Bench\<close>: the load generators \<^verbatim>\<open>cpu_bench.c\<close> of the three CPU baselines. Clock and socket are parameters that answer
    from the calls so far; the properties put a generator and its server of \<open>Kvs\<close>, \<open>Reductions\<close> and \<open>Allreduce\<close> together.
  \<^item> \<open>Event_Unit\<close>, \<open>Mchan\<close>, \<open>Host_Access\<close>, \<open>Dsp_Builtins\<close>: the hardware abstraction of the pulp-sdk for a cluster.
    Events, barriers, mutexes and the dispatcher (\<^verbatim>\<open>eu_v3.h\<close>), on which a core sleeps; the cluster DMA
    (\<^verbatim>\<open>mchan_v6.h\<close>), whose completion it waits for; the mailbox to the host, accesses that may miss in the address
    translation and its tables (\<^verbatim>\<open>mailbox_v0\<close>, \<^verbatim>\<open>tryx_v1\<close>, \<^verbatim>\<open>rab_v1.h\<close>); the packed and saturating arithmetic
    that replaces missing instructions (\<^verbatim>\<open>builtins_v2_emu.h\<close>, \<^verbatim>\<open>riscv_v4.h\<close>). They share \<open>retry\<close>, the loop that
    looks at a device until an answer satisfies a condition, and \<open>event_mask\<close>, the mask that a trace leaves.
    \<open>Soc_Control\<close>: the controllers around the clusters, with their pads, fetch enables, timers and event masks
    (\<^verbatim>\<open>apb_soc_v3\<close>, \<^verbatim>\<open>cluster_ctrl_v2\<close>, \<^verbatim>\<open>timer_v2\<close>, \<^verbatim>\<open>soc_eu_v2.h\<close>).
    Whether plain \<^verbatim>\<open>char\<close> is signed and how a physical address of the host is copied are parameters.
  \<^item> \<open>Register_Maps\<close>, \<open>Maps_Soc\<close>, \<open>Maps_Io\<close>, \<open>Maps_Udma\<close>, \<open>Maps_Maestro\<close>, \<open>Register_Headers\<close>: the generated register maps of the pulp-sdk
    (\<^verbatim>\<open>archi/include/archi\<close>) as tables, one definition per block of a header; what the entries mean, and the locales
    \<open>register_constants\<close>, \<open>register_addresses\<close> and \<open>register_header\<close> of headers whose constants, macros, functions and
    types agree, each interpreted on the tables. Every definition stands for at most 150 lines, so that long blocks are cut into numbered parts.
  \<^item> \<open>Host_Bridge\<close>: printing through a buffer that a core shares with the debugger on the host (\<^verbatim>\<open>debug_bridge.h\<close>); the
    interleavings of core and host are an inductive step relation, of which the functions are runs.
  \<^item> \<open>Peripherals\<close>: drivers of devices outside the clusters: pins as sets, with the configuration of each; the
    interrupt controller, on which a core waits; the channels of the I/O DMA engine and its serial line (\<^verbatim>\<open>gpio_v2.h\<close>,
    \<^verbatim>\<open>gpio_v3.h\<close>, \<^verbatim>\<open>itc_v1.h\<close>, \<^verbatim>\<open>udma_v3.h\<close>, \<^verbatim>\<open>udma_uart_v1.h\<close>). The addresses of the devices are parameters.
  \<^item> \<open>Axi_Beats\<close>, \<open>Axi_Master\<close>, \<open>Axi_Slave\<close>, \<open>Packet_Ring\<close>, \<open>Nic_Inbound\<close>, \<open>Nic_Outbound\<close>, \<open>Pcie_Host\<close>: the simulator around the hardware
    (\<^verbatim>\<open>hw/verilator_model/src\<close>), C++ classes as records with one function per method: the bursts and beats of a transfer
    (\<^verbatim>\<open>AXIDriver.hpp\<close>), the two sides of the bus (\<^verbatim>\<open>AXIMaster.hpp\<close>, \<^verbatim>\<open>AXISlave.hpp\<close>), the packets that come in, with the
    buffer they are placed in as an implementation of the locale \<open>packet_space\<close> (\<^verbatim>\<open>NICInbound.hpp\<close>), and those that go out
    (\<^verbatim>\<open>NICOutbound.hpp\<close>), the host's memory and its accesses (\<^verbatim>\<open>PCIeSlave.hpp\<close>, \<^verbatim>\<open>PCIeMaster.hpp\<close>). What the hardware drives in a clock cycle is an argument; a failed assertion is \<open>None\<close>. The properties
    hold for every run with a hardware that answers what it was sent.

  State. A handler is a function on its arguments and a \<open>core\<close>, the memory and the trace of
  device accesses. Pointers are 32-bit words; a C array that the code indexes
  (\<open>nodes\<close>, \<open>marks\<close>) is a list, and an access past its end is the error \<open>OutOfBounds\<close>.

  Lemmas. Each theory first has the functional facts of its operations, then its invariant
  or abstraction with one preservation lemma per operation, then the properties. The list refines
  a set of bytes (\<open>ll_rep\<close>, \<open>bytes\<close>), the key-value handler a partial function (\<open>kv_server\<close>),
  the printing of numbers the digits of a natural number (\<open>to_digits\<close>).

  Bounds and fuel. The list's loops take fuel, 130 for the 128 nodes and two sentinels it can
  traverse, which is enough for every well-formed list (proved as part of its properties).
  Waits for a device or another core are \<open>partial_function (option)\<close>, so that \<open>None\<close> is not
  returning. All other loops are total functions.

  Not modelled: the hardware (SystemVerilog); of the simulator the construction of the modules and the loop that clocks them, and the printed statistics; the
  drivers of other chips in the pulp-sdk; the C++ classes in register maps; trace output macros; the sockets of the CPU baselines, which
  appear as the datagrams they deliver; the generated option parser (\<^verbatim>\<open>gdriver_args.c\<close>); of the load
  generators the options, the creation of the socket and the printed statistics; the printing of the address
  translation (\<^verbatim>\<open>rab_v1.c\<close>); of the arithmetic macros those that do not compile and the conversions of floats.
\<close>

end
